(* ===== verification/Prelude.thy ===== *)
theory Prelude
  imports Main "HOL-Library.Word"
begin

text \<open>
  Shared vocabulary of the development: the machine integers of the Rust sources, the
  crate's error type (rust/dbn/src/error.rs), the outcome of a Rust computation (a value, an
  error or a panic), little-endian encoding and decoding of integers, slices with Rust's
  bounds checks, and UTF-8 strings.

  Conventions. A Rust \<^verbatim>\<open>u8\<close>, \<^verbatim>\<open>u16\<close>, \<^verbatim>\<open>u32\<close> or \<^verbatim>\<open>u64\<close> is a word of that width; the signed types have
  the same words, read with \<open>sint\<close>. A \<^verbatim>\<open>usize\<close> is a \<open>nat\<close>: the sizes that occur
  (at most \<open>2\<^sup>3\<^sup>2\<close> entries of at most \<open>2\<^sup>1\<^sup>6\<close> bytes) stay below \<open>2\<^sup>6\<^sup>4\<close>.
  A Rust string is an Isabelle \<open>string\<close> whose characters are its UTF-8 bytes.
\<close>

section \<open>Integers and bytes\<close>

type_synonym u8 = "8 word"
type_synonym u16 = "16 word"
type_synonym u32 = "32 word"
type_synonym u64 = "64 word"
type_synonym i8 = "8 word"
type_synonym i16 = "16 word"
type_synonym i32 = "32 word"
type_synonym i64 = "64 word"
type_synonym c_char = "8 word"
type_synonym bytes = "8 word list"

named_theorems codec_simps \<open>round trips of the field codecs\<close>
named_theorems size_simps \<open>encoded sizes\<close>

section \<open>Errors and outcomes\<close>

text \<open>
  The crate's \<^verbatim>\<open>Error\<close>. The texts are the ones of the source; a part of a message that
  is the \<^verbatim>\<open>Debug\<close> rendering of a value is left out, and the foreign error values wrapped
  by \<^verbatim>\<open>Io\<close> and \<^verbatim>\<open>Utf8\<close> are represented by their context alone.
\<close>

datatype error =
    Io string
  | Decode string
  | Encode string
  | Conversion (conv_input: string) (conv_desired_type: string)
  | Utf8 string
  | BadArgument (param_name: string) (bad_desc: string)

text \<open>
  The outcome of a Rust expression of type \<^verbatim>\<open>Result<T>\<close>: its value, its error, or a panic
  (an out-of-range slice, a failed assertion, an \<^verbatim>\<open>unwrap\<close> of nothing, an
  \<^verbatim>\<open>unreachable!\<close>).
\<close>

datatype 'a result = Ok 'a | Err error | Panic string

primrec and_then :: "'a result \<Rightarrow> ('a \<Rightarrow> 'b result) \<Rightarrow> 'b result" where
  "and_then (Ok x) f = f x"
| "and_then (Err e) f = Err e"
| "and_then (Panic m) f = Panic m"

primrec map_err :: "(error \<Rightarrow> error) \<Rightarrow> 'a result \<Rightarrow> 'a result" where
  "map_err f (Ok x) = Ok x"
| "map_err f (Err e) = Err (f e)"
| "map_err f (Panic m) = Panic m"

definition is_ok :: "'a result \<Rightarrow> bool" where
  "is_ok r = (case r of Ok _ \<Rightarrow> True | _ \<Rightarrow> False)"

definition no_panic :: "'a result \<Rightarrow> bool" where
  "no_panic r = (case r of Panic _ \<Rightarrow> False | _ \<Rightarrow> True)"

lemma is_ok_simps [simp]: "is_ok (Ok x)" "\<not> is_ok (Err e)" "\<not> is_ok (Panic m)"
  by (simp_all add: is_ok_def)

lemma no_panic_simps [simp]: "no_panic (Ok x)" "no_panic (Err e)" "\<not> no_panic (Panic m)"
  by (simp_all add: no_panic_def)

lemma and_then_cong: "r = r' \<Longrightarrow> (\<And>x. f x = g x) \<Longrightarrow> and_then r f = and_then r' g"
  by (cases r') auto

lemma and_then_eq_Ok:
  "and_then r f = Ok y \<longleftrightarrow> (\<exists>x. r = Ok x \<and> f x = Ok y)"
  by (cases r) auto

lemma and_then_eq_Panic:
  "and_then r f = Panic m \<longleftrightarrow> r = Panic m \<or> (\<exists>x. r = Ok x \<and> f x = Panic m)"
  by (cases r) auto

lemma no_panic_and_then [intro]:
  "no_panic r \<Longrightarrow> (\<And>x. r = Ok x \<Longrightarrow> no_panic (f x)) \<Longrightarrow> no_panic (and_then r f)"
  by (cases r) auto

lemma map_err_eq_Ok [simp]: "map_err f r = Ok x \<longleftrightarrow> r = Ok x"
  by (cases r) auto

lemma no_panic_map_err [simp]: "no_panic (map_err f r) = no_panic r"
  by (cases r) auto

section \<open>Decimal rendering\<close>

text \<open>Rust's \<^verbatim>\<open>Display\<close> of an unsigned integer, used in messages and symbols.\<close>

fun dec_nat :: "nat \<Rightarrow> string" where
  "dec_nat n = (if n < 10 then [char_of (48 + n)] else dec_nat (n div 10) @ [char_of (48 + n mod 10)])"

declare dec_nat.simps [simp del]

section \<open>Little-endian integers\<close>

fun le_enc :: "nat \<Rightarrow> nat \<Rightarrow> bytes" where
  "le_enc 0 x = []"
| "le_enc (Suc n) x = word_of_nat (x mod 256) # le_enc n (x div 256)"

fun le_dec :: "bytes \<Rightarrow> nat" where
  "le_dec [] = 0"
| "le_dec (b # bs) = unat b + 256 * le_dec bs"

lemma unat_less: "unat (x :: 'a::len word) < 2 ^ LENGTH('a)"
  by (rule unsigned_less)

lemma length_le_enc [simp]: "length (le_enc n x) = n"
  by (induction n arbitrary: x) auto

lemma unat_byte_of_nat [simp]: "unat (word_of_nat (x mod 256) :: u8) = x mod 256"
  by (simp add: unat_of_nat)

lemma le_dec_le_enc: "le_dec (le_enc n x) = x mod 256 ^ n"
  by (induction n arbitrary: x) (auto simp: mod_mult2_eq)

lemma le_dec_less: "le_dec bs < 256 ^ length bs"
proof (induction bs)
  case (Cons b bs)
  have "unat b < 256"
    using unat_less [of b] by simp
  with Cons show ?case by simp
qed simp

lemma le_enc_le_dec: "le_enc (length bs) (le_dec bs) = bs"
proof (induction bs)
  case (Cons b bs)
  have "unat b < 256"
    using unat_less [of b] by simp
  then show ?case using Cons by simp
qed simp

text \<open>Rust's \<^verbatim>\<open>to_le_bytes\<close> at the widths in use.\<close>

definition put_u8 :: "u8 \<Rightarrow> bytes" where "put_u8 x = [x]"
definition put_u16 :: "u16 \<Rightarrow> bytes" where "put_u16 x = le_enc 2 (unat x)"
definition put_u32 :: "u32 \<Rightarrow> bytes" where "put_u32 x = le_enc 4 (unat x)"
definition put_u64 :: "u64 \<Rightarrow> bytes" where "put_u64 x = le_enc 8 (unat x)"

text \<open>Reading an integer off the front of a byte sequence, with the rest.\<close>

definition get_u8 :: "bytes \<Rightarrow> u8 \<times> bytes" where
  "get_u8 bs = (word_of_nat (le_dec (take 1 bs)), drop 1 bs)"
definition get_u16 :: "bytes \<Rightarrow> u16 \<times> bytes" where
  "get_u16 bs = (word_of_nat (le_dec (take 2 bs)), drop 2 bs)"
definition get_u32 :: "bytes \<Rightarrow> u32 \<times> bytes" where
  "get_u32 bs = (word_of_nat (le_dec (take 4 bs)), drop 4 bs)"
definition get_u64 :: "bytes \<Rightarrow> u64 \<times> bytes" where
  "get_u64 bs = (word_of_nat (le_dec (take 8 bs)), drop 8 bs)"
definition get_arr :: "nat \<Rightarrow> bytes \<Rightarrow> bytes \<times> bytes" where
  "get_arr n bs = (take n bs, drop n bs)"

lemma length_put [simp]:
  "length (put_u8 a) = 1" "length (put_u16 b) = 2" "length (put_u32 c) = 4" "length (put_u64 d) = 8"
  by (simp_all add: put_u8_def put_u16_def put_u32_def put_u64_def)

lemma get_put_u8 [simp]: "get_u8 (put_u8 x @ bs) = (x, bs)"
  by (simp add: get_u8_def put_u8_def)

lemma get_put_u16 [simp]: "get_u16 (put_u16 x @ bs) = (x, bs)"
  using unat_less [of x] by (simp add: get_u16_def put_u16_def le_dec_le_enc)

lemma get_put_u32 [simp]: "get_u32 (put_u32 x @ bs) = (x, bs)"
  using unat_less [of x] by (simp add: get_u32_def put_u32_def le_dec_le_enc)

lemma get_put_u64 [simp]: "get_u64 (put_u64 x @ bs) = (x, bs)"
  using unat_less [of x] by (simp add: get_u64_def put_u64_def le_dec_le_enc)

lemma get_arr_append [simp]: "length xs = n \<Longrightarrow> get_arr n (xs @ bs) = (xs, bs)"
  by (simp add: get_arr_def)

text \<open>
  \<^verbatim>\<open>FromLittleEndianSlice::from_le_slice\<close> of rust/dbn/src/decode.rs: \<^verbatim>\<open>split_at\<close>
  panics when the slice is shorter than the integer.
\<close>

definition u16_from_le_slice :: "bytes \<Rightarrow> u16 result" where
  "u16_from_le_slice bs = (if length bs < 2 then Panic ''mid > len'' else Ok (fst (get_u16 bs)))"

definition u32_from_le_slice :: "bytes \<Rightarrow> u32 result" where
  "u32_from_le_slice bs = (if length bs < 4 then Panic ''mid > len'' else Ok (fst (get_u32 bs)))"

definition u64_from_le_slice :: "bytes \<Rightarrow> u64 result" where
  "u64_from_le_slice bs = (if length bs < 8 then Panic ''mid > len'' else Ok (fst (get_u64 bs)))"

lemma from_le_slice_put [simp]:
  "u16_from_le_slice (put_u16 a @ bs) = Ok a"
  "u32_from_le_slice (put_u32 b @ bs) = Ok b"
  "u64_from_le_slice (put_u64 c @ bs) = Ok c"
  by (simp_all add: u16_from_le_slice_def u32_from_le_slice_def u64_from_le_slice_def)

section \<open>Slices\<close>

text \<open>\<^verbatim>\<open>&buf[a..b]\<close>, \<^verbatim>\<open>&buf[a..]\<close> and \<^verbatim>\<open>buf[i]\<close> with their bounds checks.\<close>

definition slice :: "'a list \<Rightarrow> nat \<Rightarrow> nat \<Rightarrow> 'a list result" where
  "slice xs a b = (if a \<le> b \<and> b \<le> length xs then Ok (take (b - a) (drop a xs))
                   else Panic ''slice index out of range'')"

definition slice_from :: "'a list \<Rightarrow> nat \<Rightarrow> 'a list result" where
  "slice_from xs a = (if a \<le> length xs then Ok (drop a xs) else Panic ''slice index out of range'')"

definition index :: "'a list \<Rightarrow> nat \<Rightarrow> 'a result" where
  "index xs i = (if i < length xs then Ok (xs ! i) else Panic ''index out of bounds'')"

lemma slice_Ok_iff:
  "slice xs a b = Ok ys \<longleftrightarrow> a \<le> b \<and> b \<le> length xs \<and> ys = take (b - a) (drop a xs)"
  by (auto simp: slice_def)

lemma slice_from_append [simp]: "length xs = n \<Longrightarrow> slice_from (xs @ ys) n = Ok ys"
  by (simp add: slice_from_def)

lemma slice_append [simp]:
  "length xs = a \<Longrightarrow> b = a + length ys \<Longrightarrow> slice (xs @ ys @ zs) a b = Ok ys"
  by (simp add: slice_def)

lemma index_append [simp]: "length xs = n \<Longrightarrow> index (xs @ y # ys) n = Ok y"
  by (auto simp: index_def)

section \<open>Strings\<close>

text \<open>
  \<^verbatim>\<open>str::as_bytes\<close> and the well-formedness check of \<^verbatim>\<open>std::str::from_utf8\<close>: the
  byte sequences of the Unicode standard's table of well-formed UTF-8.
\<close>

definition as_bytes :: "string \<Rightarrow> bytes" where
  "as_bytes s = map of_char s"

definition of_bytes :: "bytes \<Rightarrow> string" where
  "of_bytes bs = map (\<lambda>b. char_of (unat b)) bs"

definition is_cont :: "u8 \<Rightarrow> bool" where
  "is_cont b \<longleftrightarrow> 0x80 \<le> b \<and> b \<le> 0xBF"

fun utf8_valid :: "bytes \<Rightarrow> bool" where
  "utf8_valid [] = True"
| "utf8_valid (b # bs) =
    (if b < 0x80 then utf8_valid bs
     else if 0xC2 \<le> b \<and> b \<le> 0xDF then
       (case bs of c # cs \<Rightarrow> is_cont c \<and> utf8_valid cs | _ \<Rightarrow> False)
     else if 0xE0 \<le> b \<and> b \<le> 0xEF then
       (case bs of c # d # cs \<Rightarrow>
          (if b = 0xE0 then 0xA0 \<le> c \<and> c \<le> 0xBF
           else if b = 0xED then 0x80 \<le> c \<and> c \<le> 0x9F
           else is_cont c) \<and> is_cont d \<and> utf8_valid cs | _ \<Rightarrow> False)
     else if 0xF0 \<le> b \<and> b \<le> 0xF4 then
       (case bs of c # d # e # cs \<Rightarrow>
          (if b = 0xF0 then 0x90 \<le> c \<and> c \<le> 0xBF
           else if b = 0xF4 then 0x80 \<le> c \<and> c \<le> 0x8F
           else is_cont c) \<and> is_cont d \<and> is_cont e \<and> utf8_valid cs | _ \<Rightarrow> False)
     else False)"

definition from_utf8 :: "string \<Rightarrow> bytes \<Rightarrow> string result" where
  "from_utf8 context bs = (if utf8_valid bs then Ok (of_bytes bs) else Err (Utf8 context))"

definition is_ascii :: "string \<Rightarrow> bool" where
  "is_ascii s = list_all (\<lambda>c. of_char c < (128 :: nat)) s"

definition trim_end_nul :: "string \<Rightarrow> string" where
  "trim_end_nul s = rev (dropWhile (\<lambda>c. c = CHR 0x00) (rev s))"

text \<open>Strings as the Rust type has them: the characters are a well-formed UTF-8 sequence.\<close>

definition str_ok :: "string \<Rightarrow> bool" where
  "str_ok s = utf8_valid (as_bytes s)"

lemma of_char_less: "of_char c < (256 :: nat)"
  by (cases c) (auto simp: of_char_def)

lemma unat_of_char [simp]: "unat (of_char c :: u8) = of_char c"
proof -
  have "(of_char c :: u8) = word_of_nat (of_char c)"
    by (cases c) (simp add: of_char_def horner_sum_simps)
  then show ?thesis
    using of_char_less [of c] by (simp add: unat_of_nat)
qed

lemma length_as_bytes [simp]: "length (as_bytes s) = length s"
  by (simp add: as_bytes_def)

lemma length_of_bytes [simp]: "length (of_bytes bs) = length bs"
  by (simp add: of_bytes_def)

lemma of_bytes_append [simp]: "of_bytes (xs @ ys) = of_bytes xs @ of_bytes ys"
  by (simp add: of_bytes_def)

lemma of_bytes_as_bytes [simp]: "of_bytes (as_bytes s) = s"
  by (induction s) (auto simp: of_bytes_def as_bytes_def)

lemma of_bytes_replicate_0 [simp]: "of_bytes (replicate n 0) = replicate n (CHR 0x00)"
  by (simp add: of_bytes_def char_of_def)

lemma utf8_valid_ascii_append:
  "list_all (\<lambda>b. b < 0x80) xs \<Longrightarrow> utf8_valid (xs @ ys) = utf8_valid ys"
  by (induction xs) auto

lemma is_ascii_bytes: "is_ascii s \<Longrightarrow> list_all (\<lambda>b. b < 0x80) (as_bytes s)"
  by (induction s) (auto simp: is_ascii_def as_bytes_def word_less_nat_alt)

lemma is_ascii_str_ok: "is_ascii s \<Longrightarrow> str_ok s"
  using utf8_valid_ascii_append [OF is_ascii_bytes, of s "[]"] by (simp add: str_ok_def)

lemma trim_end_nul_pad:
  assumes "s = [] \<or> last s \<noteq> CHR 0x00"
  shows "trim_end_nul (s @ replicate n (CHR 0x00)) = s"
proof -
  have "dropWhile (\<lambda>c. c = CHR 0x00) (replicate n (CHR 0x00) @ rev s) =
      dropWhile (\<lambda>c. c = CHR 0x00) (rev s)"
    by (induction n) auto
  also have "\<dots> = rev s"
    using assms by (cases s rule: rev_cases) auto
  finally show ?thesis by (simp add: trim_end_nul_def)
qed

section \<open>Interfaces of enumerations\<close>

text \<open>
  An enumeration with distinct integer discriminants, all of whose variants are listed: what
  the derived \<^verbatim>\<open>TryFromPrimitive\<close> and \<^verbatim>\<open>IntoPrimitive\<close> promise.
\<close>

locale primitive_enum =
  fixes variants :: "'e list" and to_prim :: "'e \<Rightarrow> 'w"
  assumes distinct_discriminants: "distinct (map to_prim variants)"
    and variants_complete: "v \<in> set variants"
begin

lemma to_prim_eq_iff: "to_prim v = to_prim w \<longleftrightarrow> v = w"
  using distinct_discriminants variants_complete by (auto simp: distinct_map dest: inj_onD)

lemma try_from_iff: "find (\<lambda>v. to_prim v = x) variants = Some v \<longleftrightarrow> to_prim v = x"
proof
  assume "find (\<lambda>v. to_prim v = x) variants = Some v"
  then show "to_prim v = x" by (auto simp: find_Some_iff)
next
  assume x: "to_prim v = x"
  then have "find (\<lambda>v. to_prim v = x) variants \<noteq> None"
    using variants_complete [of v] by (auto simp: find_None_iff)
  then obtain w where w: "find (\<lambda>v. to_prim v = x) variants = Some w" by blast
  then have "to_prim w = to_prim v" using x by (auto simp: find_Some_iff)
  then show "find (\<lambda>v. to_prim v = x) variants = Some v"
    using w by (simp add: to_prim_eq_iff)
qed

end

text \<open>An enumeration whose printed names parse back.\<close>

locale str_enum =
  fixes as_str :: "'e \<Rightarrow> string" and from_str :: "string \<Rightarrow> 'e result"
  assumes from_str_as_str: "from_str (as_str v) = Ok v"
begin

lemma as_str_eq_iff: "as_str v = as_str w \<longleftrightarrow> v = w"
  using from_str_as_str by (metis result.inject(1))

end

end
