(* ===== verification/Enums.thy ===== *)
theory Enums
  imports Prelude
begin

text \<open>
  The enumerations of rust/dbn/src/enums.rs and their methods in rust/dbn/src/enums/methods.rs.
  A variant \<^verbatim>\<open>T::V\<close> is the constructor \<open>T_V\<close>. For an enumeration with a
  representation, \<open>t_as_u8\<close> (or \<open>t_as_u16\<close>) gives the discriminants of the source and
  \<open>t_try_from\<close> is the conversion back that \<^verbatim>\<open>TryFromPrimitive\<close> derives from them: the
  variant with that discriminant, if there is one. \<open>t_from_str\<close> and \<open>t_as_str\<close> are the
  \<^verbatim>\<open>FromStr\<close> and \<^verbatim>\<open>as_str\<close> implementations.

  Two interfaces are stated as locales: \<open>primitive_enum\<close>, what a derived integer conversion
  promises, and \<open>str_enum\<close>, what a pair of text conversions promises. Every enumeration of
  the source that has such conversions interprets them.
\<close>

section \<open>Enumerations\<close>

subsection \<open>RType\<close>

datatype RType =
    RType_Mbp0 | RType_Mbp1 | RType_Mbp10 | RType_OhlcvDeprecated | RType_Ohlcv1S
    | RType_Ohlcv1M | RType_Ohlcv1H | RType_Ohlcv1D | RType_OhlcvEod | RType_Status
    | RType_InstrumentDef | RType_Imbalance | RType_Error | RType_SymbolMapping | RType_System
    | RType_Statistics | RType_Mbo | RType_Cmbp1 | RType_Cbbo1S | RType_Cbbo1M | RType_Tcbbo
    | RType_Bbo1S | RType_Bbo1M

definition rtype_variants :: "RType list" where
  "rtype_variants =
    [RType_Mbp0, RType_Mbp1, RType_Mbp10, RType_OhlcvDeprecated, RType_Ohlcv1S, RType_Ohlcv1M,
     RType_Ohlcv1H, RType_Ohlcv1D, RType_OhlcvEod, RType_Status, RType_InstrumentDef,
     RType_Imbalance, RType_Error, RType_SymbolMapping, RType_System, RType_Statistics,
     RType_Mbo, RType_Cmbp1, RType_Cbbo1S, RType_Cbbo1M, RType_Tcbbo, RType_Bbo1S, RType_Bbo1M]"

primrec rtype_as_u8 :: "RType \<Rightarrow> u8" where
  "rtype_as_u8 RType_Mbp0 = 0x00"
| "rtype_as_u8 RType_Mbp1 = 0x01"
| "rtype_as_u8 RType_Mbp10 = 0x0A"
| "rtype_as_u8 RType_OhlcvDeprecated = 0x11"
| "rtype_as_u8 RType_Ohlcv1S = 0x20"
| "rtype_as_u8 RType_Ohlcv1M = 0x21"
| "rtype_as_u8 RType_Ohlcv1H = 0x22"
| "rtype_as_u8 RType_Ohlcv1D = 0x23"
| "rtype_as_u8 RType_OhlcvEod = 0x24"
| "rtype_as_u8 RType_Status = 0x12"
| "rtype_as_u8 RType_InstrumentDef = 0x13"
| "rtype_as_u8 RType_Imbalance = 0x14"
| "rtype_as_u8 RType_Error = 0x15"
| "rtype_as_u8 RType_SymbolMapping = 0x16"
| "rtype_as_u8 RType_System = 0x17"
| "rtype_as_u8 RType_Statistics = 0x18"
| "rtype_as_u8 RType_Mbo = 0xA0"
| "rtype_as_u8 RType_Cmbp1 = 0xB1"
| "rtype_as_u8 RType_Cbbo1S = 0xC0"
| "rtype_as_u8 RType_Cbbo1M = 0xC1"
| "rtype_as_u8 RType_Tcbbo = 0xC2"
| "rtype_as_u8 RType_Bbo1S = 0xC3"
| "rtype_as_u8 RType_Bbo1M = 0xC4"

definition rtype_try_from :: "u8 \<Rightarrow> RType option" where
  "rtype_try_from x = find (\<lambda>v. rtype_as_u8 v = x) rtype_variants"

definition rtype_from_str :: "string \<Rightarrow> RType result" where
  "rtype_from_str s =
     (if s = ''mbp-0'' then Ok RType_Mbp0
      else if s = ''mbp-1'' then Ok RType_Mbp1
      else if s = ''mbp-10'' then Ok RType_Mbp10
      else if s = ''ohlcv-deprecated'' then Ok RType_OhlcvDeprecated
      else if s = ''ohlcv-1s'' then Ok RType_Ohlcv1S
      else if s = ''ohlcv-1m'' then Ok RType_Ohlcv1M
      else if s = ''ohlcv-1h'' then Ok RType_Ohlcv1H
      else if s = ''ohlcv-1d'' then Ok RType_Ohlcv1D
      else if s = ''ohlcv-eod'' then Ok RType_OhlcvEod
      else if s = ''status'' then Ok RType_Status
      else if s = ''instrument-def'' then Ok RType_InstrumentDef
      else if s = ''imbalance'' then Ok RType_Imbalance
      else if s = ''error'' then Ok RType_Error
      else if s = ''symbol-mapping'' then Ok RType_SymbolMapping
      else if s = ''system'' then Ok RType_System
      else if s = ''statistics'' then Ok RType_Statistics
      else if s = ''mbo'' then Ok RType_Mbo
      else if s = ''cmbp-1'' then Ok RType_Cmbp1
      else if s = ''cbbo-1s'' then Ok RType_Cbbo1S
      else if s = ''cbbo-1m'' then Ok RType_Cbbo1M
      else if s = ''tcbbo'' then Ok RType_Tcbbo
      else if s = ''bbo-1s'' then Ok RType_Bbo1S
      else if s = ''bbo-1m'' then Ok RType_Bbo1M
      else Err (Conversion s ''dbn::enums::RType''))"

primrec rtype_as_str :: "RType \<Rightarrow> string" where
  "rtype_as_str RType_Mbp0 = ''mbp-0''"
| "rtype_as_str RType_Mbp1 = ''mbp-1''"
| "rtype_as_str RType_Mbp10 = ''mbp-10''"
| "rtype_as_str RType_OhlcvDeprecated = ''ohlcv-deprecated''"
| "rtype_as_str RType_Ohlcv1S = ''ohlcv-1s''"
| "rtype_as_str RType_Ohlcv1M = ''ohlcv-1m''"
| "rtype_as_str RType_Ohlcv1H = ''ohlcv-1h''"
| "rtype_as_str RType_Ohlcv1D = ''ohlcv-1d''"
| "rtype_as_str RType_OhlcvEod = ''ohlcv-eod''"
| "rtype_as_str RType_Status = ''status''"
| "rtype_as_str RType_InstrumentDef = ''instrument-def''"
| "rtype_as_str RType_Imbalance = ''imbalance''"
| "rtype_as_str RType_Error = ''error''"
| "rtype_as_str RType_SymbolMapping = ''symbol-mapping''"
| "rtype_as_str RType_System = ''system''"
| "rtype_as_str RType_Statistics = ''statistics''"
| "rtype_as_str RType_Mbo = ''mbo''"
| "rtype_as_str RType_Cmbp1 = ''cmbp-1''"
| "rtype_as_str RType_Cbbo1S = ''cbbo-1s''"
| "rtype_as_str RType_Cbbo1M = ''cbbo-1m''"
| "rtype_as_str RType_Tcbbo = ''tcbbo''"
| "rtype_as_str RType_Bbo1S = ''bbo-1s''"
| "rtype_as_str RType_Bbo1M = ''bbo-1m''"

subsection \<open>Side\<close>

datatype Side =
    Side_Ask | Side_Bid | Side_None

definition side_variants :: "Side list" where
  "side_variants =
    [Side_Ask, Side_Bid, Side_None]"

primrec side_as_u8 :: "Side \<Rightarrow> u8" where
  "side_as_u8 Side_Ask = 65"
| "side_as_u8 Side_Bid = 66"
| "side_as_u8 Side_None = 78"

definition side_try_from :: "u8 \<Rightarrow> Side option" where
  "side_try_from x = find (\<lambda>v. side_as_u8 v = x) side_variants"

subsection \<open>Action\<close>

datatype Action =
    Action_Modify | Action_Trade | Action_Fill | Action_Cancel | Action_Add | Action_Clear
    | Action_None

definition action_variants :: "Action list" where
  "action_variants =
    [Action_Modify, Action_Trade, Action_Fill, Action_Cancel, Action_Add, Action_Clear,
     Action_None]"

primrec action_as_u8 :: "Action \<Rightarrow> u8" where
  "action_as_u8 Action_Modify = 77"
| "action_as_u8 Action_Trade = 84"
| "action_as_u8 Action_Fill = 70"
| "action_as_u8 Action_Cancel = 67"
| "action_as_u8 Action_Add = 65"
| "action_as_u8 Action_Clear = 82"
| "action_as_u8 Action_None = 78"

definition action_try_from :: "u8 \<Rightarrow> Action option" where
  "action_try_from x = find (\<lambda>v. action_as_u8 v = x) action_variants"

subsection \<open>InstrumentClass\<close>

datatype InstrumentClass =
    InstrumentClass_Bond | InstrumentClass_Call | InstrumentClass_Future
    | InstrumentClass_Stock | InstrumentClass_MixedSpread | InstrumentClass_Put
    | InstrumentClass_FutureSpread | InstrumentClass_OptionSpread | InstrumentClass_FxSpot
    | InstrumentClass_CommoditySpot

definition instrument_class_variants :: "InstrumentClass list" where
  "instrument_class_variants =
    [InstrumentClass_Bond, InstrumentClass_Call, InstrumentClass_Future,
     InstrumentClass_Stock, InstrumentClass_MixedSpread, InstrumentClass_Put,
     InstrumentClass_FutureSpread, InstrumentClass_OptionSpread, InstrumentClass_FxSpot,
     InstrumentClass_CommoditySpot]"

primrec instrument_class_as_u8 :: "InstrumentClass \<Rightarrow> u8" where
  "instrument_class_as_u8 InstrumentClass_Bond = 66"
| "instrument_class_as_u8 InstrumentClass_Call = 67"
| "instrument_class_as_u8 InstrumentClass_Future = 70"
| "instrument_class_as_u8 InstrumentClass_Stock = 75"
| "instrument_class_as_u8 InstrumentClass_MixedSpread = 77"
| "instrument_class_as_u8 InstrumentClass_Put = 80"
| "instrument_class_as_u8 InstrumentClass_FutureSpread = 83"
| "instrument_class_as_u8 InstrumentClass_OptionSpread = 84"
| "instrument_class_as_u8 InstrumentClass_FxSpot = 88"
| "instrument_class_as_u8 InstrumentClass_CommoditySpot = 89"

definition instrument_class_try_from :: "u8 \<Rightarrow> InstrumentClass option" where
  "instrument_class_try_from x = find (\<lambda>v. instrument_class_as_u8 v = x) instrument_class_variants"

subsection \<open>MatchAlgorithm\<close>

datatype MatchAlgorithm =
    MatchAlgorithm_Undefined | MatchAlgorithm_Fifo | MatchAlgorithm_Configurable
    | MatchAlgorithm_ProRata | MatchAlgorithm_FifoLmm | MatchAlgorithm_ThresholdProRata
    | MatchAlgorithm_FifoTopLmm | MatchAlgorithm_ThresholdProRataLmm
    | MatchAlgorithm_EurodollarFutures | MatchAlgorithm_TimeProRata
    | MatchAlgorithm_InstitutionalPrioritization

definition match_algorithm_variants :: "MatchAlgorithm list" where
  "match_algorithm_variants =
    [MatchAlgorithm_Undefined, MatchAlgorithm_Fifo, MatchAlgorithm_Configurable,
     MatchAlgorithm_ProRata, MatchAlgorithm_FifoLmm, MatchAlgorithm_ThresholdProRata,
     MatchAlgorithm_FifoTopLmm, MatchAlgorithm_ThresholdProRataLmm,
     MatchAlgorithm_EurodollarFutures, MatchAlgorithm_TimeProRata,
     MatchAlgorithm_InstitutionalPrioritization]"

primrec match_algorithm_as_u8 :: "MatchAlgorithm \<Rightarrow> u8" where
  "match_algorithm_as_u8 MatchAlgorithm_Undefined = 32"
| "match_algorithm_as_u8 MatchAlgorithm_Fifo = 70"
| "match_algorithm_as_u8 MatchAlgorithm_Configurable = 75"
| "match_algorithm_as_u8 MatchAlgorithm_ProRata = 67"
| "match_algorithm_as_u8 MatchAlgorithm_FifoLmm = 84"
| "match_algorithm_as_u8 MatchAlgorithm_ThresholdProRata = 79"
| "match_algorithm_as_u8 MatchAlgorithm_FifoTopLmm = 83"
| "match_algorithm_as_u8 MatchAlgorithm_ThresholdProRataLmm = 81"
| "match_algorithm_as_u8 MatchAlgorithm_EurodollarFutures = 89"
| "match_algorithm_as_u8 MatchAlgorithm_TimeProRata = 80"
| "match_algorithm_as_u8 MatchAlgorithm_InstitutionalPrioritization = 86"

definition match_algorithm_try_from :: "u8 \<Rightarrow> MatchAlgorithm option" where
  "match_algorithm_try_from x = find (\<lambda>v. match_algorithm_as_u8 v = x) match_algorithm_variants"

subsection \<open>UserDefinedInstrument\<close>

datatype UserDefinedInstrument =
    UserDefinedInstrument_No | UserDefinedInstrument_Yes

definition user_defined_instrument_variants :: "UserDefinedInstrument list" where
  "user_defined_instrument_variants =
    [UserDefinedInstrument_No, UserDefinedInstrument_Yes]"

primrec user_defined_instrument_as_u8 :: "UserDefinedInstrument \<Rightarrow> u8" where
  "user_defined_instrument_as_u8 UserDefinedInstrument_No = 78"
| "user_defined_instrument_as_u8 UserDefinedInstrument_Yes = 89"

definition user_defined_instrument_try_from :: "u8 \<Rightarrow> UserDefinedInstrument option" where
  "user_defined_instrument_try_from x = find (\<lambda>v. user_defined_instrument_as_u8 v = x) user_defined_instrument_variants"

subsection \<open>SecurityUpdateAction\<close>

datatype SecurityUpdateAction =
    SecurityUpdateAction_Add | SecurityUpdateAction_Modify | SecurityUpdateAction_Delete
    | SecurityUpdateAction_Invalid

definition security_update_action_variants :: "SecurityUpdateAction list" where
  "security_update_action_variants =
    [SecurityUpdateAction_Add, SecurityUpdateAction_Modify, SecurityUpdateAction_Delete,
     SecurityUpdateAction_Invalid]"

primrec security_update_action_as_u8 :: "SecurityUpdateAction \<Rightarrow> u8" where
  "security_update_action_as_u8 SecurityUpdateAction_Add = 65"
| "security_update_action_as_u8 SecurityUpdateAction_Modify = 77"
| "security_update_action_as_u8 SecurityUpdateAction_Delete = 68"
| "security_update_action_as_u8 SecurityUpdateAction_Invalid = 126"

definition security_update_action_try_from :: "u8 \<Rightarrow> SecurityUpdateAction option" where
  "security_update_action_try_from x = find (\<lambda>v. security_update_action_as_u8 v = x) security_update_action_variants"

subsection \<open>SType\<close>

datatype SType =
    SType_InstrumentId | SType_RawSymbol | SType_Smart | SType_Continuous | SType_Parent
    | SType_NasdaqSymbol | SType_CmsSymbol | SType_Isin | SType_UsCode | SType_BbgCompId
    | SType_BbgCompTicker | SType_Figi | SType_FigiTicker

definition stype_variants :: "SType list" where
  "stype_variants =
    [SType_InstrumentId, SType_RawSymbol, SType_Smart, SType_Continuous, SType_Parent,
     SType_NasdaqSymbol, SType_CmsSymbol, SType_Isin, SType_UsCode, SType_BbgCompId,
     SType_BbgCompTicker, SType_Figi, SType_FigiTicker]"

primrec stype_as_u8 :: "SType \<Rightarrow> u8" where
  "stype_as_u8 SType_InstrumentId = 0"
| "stype_as_u8 SType_RawSymbol = 1"
| "stype_as_u8 SType_Smart = 2"
| "stype_as_u8 SType_Continuous = 3"
| "stype_as_u8 SType_Parent = 4"
| "stype_as_u8 SType_NasdaqSymbol = 5"
| "stype_as_u8 SType_CmsSymbol = 6"
| "stype_as_u8 SType_Isin = 7"
| "stype_as_u8 SType_UsCode = 8"
| "stype_as_u8 SType_BbgCompId = 9"
| "stype_as_u8 SType_BbgCompTicker = 10"
| "stype_as_u8 SType_Figi = 11"
| "stype_as_u8 SType_FigiTicker = 12"

definition stype_try_from :: "u8 \<Rightarrow> SType option" where
  "stype_try_from x = find (\<lambda>v. stype_as_u8 v = x) stype_variants"

definition stype_from_str :: "string \<Rightarrow> SType result" where
  "stype_from_str s =
     (if s = ''instrument_id'' \<or> s = ''product_id'' then Ok SType_InstrumentId
      else if s = ''raw_symbol'' \<or> s = ''native'' then Ok SType_RawSymbol
      else if s = ''smart'' then Ok SType_Smart
      else if s = ''continuous'' then Ok SType_Continuous
      else if s = ''parent'' then Ok SType_Parent
      else if s = ''nasdaq_symbol'' \<or> s = ''nasdaq'' then Ok SType_NasdaqSymbol
      else if s = ''cms_symbol'' \<or> s = ''cms'' then Ok SType_CmsSymbol
      else if s = ''isin'' then Ok SType_Isin
      else if s = ''us_code'' then Ok SType_UsCode
      else if s = ''bbg_comp_id'' then Ok SType_BbgCompId
      else if s = ''bbg_comp_ticker'' then Ok SType_BbgCompTicker
      else if s = ''figi'' then Ok SType_Figi
      else if s = ''figi_ticker'' then Ok SType_FigiTicker
      else Err (Conversion s ''dbn::enums::SType''))"

primrec stype_as_str :: "SType \<Rightarrow> string" where
  "stype_as_str SType_InstrumentId = ''instrument_id''"
| "stype_as_str SType_RawSymbol = ''raw_symbol''"
| "stype_as_str SType_Smart = ''smart''"
| "stype_as_str SType_Continuous = ''continuous''"
| "stype_as_str SType_Parent = ''parent''"
| "stype_as_str SType_NasdaqSymbol = ''nasdaq_symbol''"
| "stype_as_str SType_CmsSymbol = ''cms_symbol''"
| "stype_as_str SType_Isin = ''isin''"
| "stype_as_str SType_UsCode = ''us_code''"
| "stype_as_str SType_BbgCompId = ''bbg_comp_id''"
| "stype_as_str SType_BbgCompTicker = ''bbg_comp_ticker''"
| "stype_as_str SType_Figi = ''figi''"
| "stype_as_str SType_FigiTicker = ''figi_ticker''"

subsection \<open>Schema\<close>

datatype Schema =
    Schema_Mbo | Schema_Mbp1 | Schema_Mbp10 | Schema_Tbbo | Schema_Trades | Schema_Ohlcv1S
    | Schema_Ohlcv1M | Schema_Ohlcv1H | Schema_Ohlcv1D | Schema_Definition | Schema_Statistics
    | Schema_Status | Schema_Imbalance | Schema_OhlcvEod | Schema_Cmbp1 | Schema_Cbbo1S
    | Schema_Cbbo1M | Schema_Tcbbo | Schema_Bbo1S | Schema_Bbo1M

definition schema_variants :: "Schema list" where
  "schema_variants =
    [Schema_Mbo, Schema_Mbp1, Schema_Mbp10, Schema_Tbbo, Schema_Trades, Schema_Ohlcv1S,
     Schema_Ohlcv1M, Schema_Ohlcv1H, Schema_Ohlcv1D, Schema_Definition, Schema_Statistics,
     Schema_Status, Schema_Imbalance, Schema_OhlcvEod, Schema_Cmbp1, Schema_Cbbo1S,
     Schema_Cbbo1M, Schema_Tcbbo, Schema_Bbo1S, Schema_Bbo1M]"

primrec schema_as_u16 :: "Schema \<Rightarrow> u16" where
  "schema_as_u16 Schema_Mbo = 0"
| "schema_as_u16 Schema_Mbp1 = 1"
| "schema_as_u16 Schema_Mbp10 = 2"
| "schema_as_u16 Schema_Tbbo = 3"
| "schema_as_u16 Schema_Trades = 4"
| "schema_as_u16 Schema_Ohlcv1S = 5"
| "schema_as_u16 Schema_Ohlcv1M = 6"
| "schema_as_u16 Schema_Ohlcv1H = 7"
| "schema_as_u16 Schema_Ohlcv1D = 8"
| "schema_as_u16 Schema_Definition = 9"
| "schema_as_u16 Schema_Statistics = 10"
| "schema_as_u16 Schema_Status = 11"
| "schema_as_u16 Schema_Imbalance = 12"
| "schema_as_u16 Schema_OhlcvEod = 13"
| "schema_as_u16 Schema_Cmbp1 = 14"
| "schema_as_u16 Schema_Cbbo1S = 15"
| "schema_as_u16 Schema_Cbbo1M = 16"
| "schema_as_u16 Schema_Tcbbo = 17"
| "schema_as_u16 Schema_Bbo1S = 18"
| "schema_as_u16 Schema_Bbo1M = 19"

definition schema_try_from :: "u16 \<Rightarrow> Schema option" where
  "schema_try_from x = find (\<lambda>v. schema_as_u16 v = x) schema_variants"

definition schema_from_str :: "string \<Rightarrow> Schema result" where
  "schema_from_str s =
     (if s = ''mbo'' then Ok Schema_Mbo
      else if s = ''mbp-1'' then Ok Schema_Mbp1
      else if s = ''mbp-10'' then Ok Schema_Mbp10
      else if s = ''tbbo'' then Ok Schema_Tbbo
      else if s = ''trades'' then Ok Schema_Trades
      else if s = ''ohlcv-1s'' then Ok Schema_Ohlcv1S
      else if s = ''ohlcv-1m'' then Ok Schema_Ohlcv1M
      else if s = ''ohlcv-1h'' then Ok Schema_Ohlcv1H
      else if s = ''ohlcv-1d'' then Ok Schema_Ohlcv1D
      else if s = ''definition'' then Ok Schema_Definition
      else if s = ''statistics'' then Ok Schema_Statistics
      else if s = ''status'' then Ok Schema_Status
      else if s = ''imbalance'' then Ok Schema_Imbalance
      else if s = ''ohlcv-eod'' then Ok Schema_OhlcvEod
      else if s = ''cmbp-1'' then Ok Schema_Cmbp1
      else if s = ''cbbo-1s'' then Ok Schema_Cbbo1S
      else if s = ''cbbo-1m'' then Ok Schema_Cbbo1M
      else if s = ''tcbbo'' then Ok Schema_Tcbbo
      else if s = ''bbo-1s'' then Ok Schema_Bbo1S
      else if s = ''bbo-1m'' then Ok Schema_Bbo1M
      else Err (Conversion s ''dbn::enums::Schema''))"

primrec schema_as_str :: "Schema \<Rightarrow> string" where
  "schema_as_str Schema_Mbo = ''mbo''"
| "schema_as_str Schema_Mbp1 = ''mbp-1''"
| "schema_as_str Schema_Mbp10 = ''mbp-10''"
| "schema_as_str Schema_Tbbo = ''tbbo''"
| "schema_as_str Schema_Trades = ''trades''"
| "schema_as_str Schema_Ohlcv1S = ''ohlcv-1s''"
| "schema_as_str Schema_Ohlcv1M = ''ohlcv-1m''"
| "schema_as_str Schema_Ohlcv1H = ''ohlcv-1h''"
| "schema_as_str Schema_Ohlcv1D = ''ohlcv-1d''"
| "schema_as_str Schema_Definition = ''definition''"
| "schema_as_str Schema_Statistics = ''statistics''"
| "schema_as_str Schema_Status = ''status''"
| "schema_as_str Schema_Imbalance = ''imbalance''"
| "schema_as_str Schema_OhlcvEod = ''ohlcv-eod''"
| "schema_as_str Schema_Cmbp1 = ''cmbp-1''"
| "schema_as_str Schema_Cbbo1S = ''cbbo-1s''"
| "schema_as_str Schema_Cbbo1M = ''cbbo-1m''"
| "schema_as_str Schema_Tcbbo = ''tcbbo''"
| "schema_as_str Schema_Bbo1S = ''bbo-1s''"
| "schema_as_str Schema_Bbo1M = ''bbo-1m''"

subsection \<open>Encoding\<close>

datatype Encoding =
    Encoding_Dbn | Encoding_Csv | Encoding_Json

definition encoding_variants :: "Encoding list" where
  "encoding_variants =
    [Encoding_Dbn, Encoding_Csv, Encoding_Json]"

primrec encoding_as_u8 :: "Encoding \<Rightarrow> u8" where
  "encoding_as_u8 Encoding_Dbn = 0"
| "encoding_as_u8 Encoding_Csv = 1"
| "encoding_as_u8 Encoding_Json = 2"

definition encoding_try_from :: "u8 \<Rightarrow> Encoding option" where
  "encoding_try_from x = find (\<lambda>v. encoding_as_u8 v = x) encoding_variants"

definition encoding_from_str :: "string \<Rightarrow> Encoding result" where
  "encoding_from_str s =
     (if s = ''dbn'' \<or> s = ''dbz'' then Ok Encoding_Dbn
      else if s = ''csv'' then Ok Encoding_Csv
      else if s = ''json'' then Ok Encoding_Json
      else Err (Conversion s ''dbn::enums::Encoding''))"

primrec encoding_as_str :: "Encoding \<Rightarrow> string" where
  "encoding_as_str Encoding_Dbn = ''dbn''"
| "encoding_as_str Encoding_Csv = ''csv''"
| "encoding_as_str Encoding_Json = ''json''"

subsection \<open>Compression\<close>

datatype Compression =
    Compression_None | Compression_Zstd

definition compression_variants :: "Compression list" where
  "compression_variants =
    [Compression_None, Compression_Zstd]"

primrec compression_as_u8 :: "Compression \<Rightarrow> u8" where
  "compression_as_u8 Compression_None = 0"
| "compression_as_u8 Compression_Zstd = 1"

definition compression_try_from :: "u8 \<Rightarrow> Compression option" where
  "compression_try_from x = find (\<lambda>v. compression_as_u8 v = x) compression_variants"

definition compression_from_str :: "string \<Rightarrow> Compression result" where
  "compression_from_str s =
     (if s = ''none'' then Ok Compression_None
      else if s = ''zstd'' then Ok Compression_Zstd
      else Err (Conversion s ''dbn::enums::Compression''))"

primrec compression_as_str :: "Compression \<Rightarrow> string" where
  "compression_as_str Compression_None = ''none''"
| "compression_as_str Compression_Zstd = ''zstd''"

subsection \<open>StatType\<close>

datatype StatType =
    StatType_OpeningPrice | StatType_IndicativeOpeningPrice | StatType_SettlementPrice
    | StatType_TradingSessionLowPrice | StatType_TradingSessionHighPrice
    | StatType_ClearedVolume | StatType_LowestOffer | StatType_HighestBid
    | StatType_OpenInterest | StatType_FixingPrice | StatType_ClosePrice | StatType_NetChange
    | StatType_Vwap | StatType_Volatility | StatType_Delta | StatType_UncrossingPrice

definition stat_type_variants :: "StatType list" where
  "stat_type_variants =
    [StatType_OpeningPrice, StatType_IndicativeOpeningPrice, StatType_SettlementPrice,
     StatType_TradingSessionLowPrice, StatType_TradingSessionHighPrice,
     StatType_ClearedVolume, StatType_LowestOffer, StatType_HighestBid, StatType_OpenInterest,
     StatType_FixingPrice, StatType_ClosePrice, StatType_NetChange, StatType_Vwap,
     StatType_Volatility, StatType_Delta, StatType_UncrossingPrice]"

primrec stat_type_as_u16 :: "StatType \<Rightarrow> u16" where
  "stat_type_as_u16 StatType_OpeningPrice = 1"
| "stat_type_as_u16 StatType_IndicativeOpeningPrice = 2"
| "stat_type_as_u16 StatType_SettlementPrice = 3"
| "stat_type_as_u16 StatType_TradingSessionLowPrice = 4"
| "stat_type_as_u16 StatType_TradingSessionHighPrice = 5"
| "stat_type_as_u16 StatType_ClearedVolume = 6"
| "stat_type_as_u16 StatType_LowestOffer = 7"
| "stat_type_as_u16 StatType_HighestBid = 8"
| "stat_type_as_u16 StatType_OpenInterest = 9"
| "stat_type_as_u16 StatType_FixingPrice = 10"
| "stat_type_as_u16 StatType_ClosePrice = 11"
| "stat_type_as_u16 StatType_NetChange = 12"
| "stat_type_as_u16 StatType_Vwap = 13"
| "stat_type_as_u16 StatType_Volatility = 14"
| "stat_type_as_u16 StatType_Delta = 15"
| "stat_type_as_u16 StatType_UncrossingPrice = 16"

definition stat_type_try_from :: "u16 \<Rightarrow> StatType option" where
  "stat_type_try_from x = find (\<lambda>v. stat_type_as_u16 v = x) stat_type_variants"

subsection \<open>StatUpdateAction\<close>

datatype StatUpdateAction =
    StatUpdateAction_New | StatUpdateAction_Delete

definition stat_update_action_variants :: "StatUpdateAction list" where
  "stat_update_action_variants =
    [StatUpdateAction_New, StatUpdateAction_Delete]"

primrec stat_update_action_as_u8 :: "StatUpdateAction \<Rightarrow> u8" where
  "stat_update_action_as_u8 StatUpdateAction_New = 1"
| "stat_update_action_as_u8 StatUpdateAction_Delete = 2"

definition stat_update_action_try_from :: "u8 \<Rightarrow> StatUpdateAction option" where
  "stat_update_action_try_from x = find (\<lambda>v. stat_update_action_as_u8 v = x) stat_update_action_variants"

subsection \<open>StatusAction\<close>

datatype StatusAction =
    StatusAction_None | StatusAction_PreOpen | StatusAction_PreCross | StatusAction_Quoting
    | StatusAction_Cross | StatusAction_Rotation | StatusAction_NewPriceIndication
    | StatusAction_Trading | StatusAction_Halt | StatusAction_Pause | StatusAction_Suspend
    | StatusAction_PreClose | StatusAction_Close | StatusAction_PostClose
    | StatusAction_SsrChange | StatusAction_NotAvailableForTrading

definition status_action_variants :: "StatusAction list" where
  "status_action_variants =
    [StatusAction_None, StatusAction_PreOpen, StatusAction_PreCross, StatusAction_Quoting,
     StatusAction_Cross, StatusAction_Rotation, StatusAction_NewPriceIndication,
     StatusAction_Trading, StatusAction_Halt, StatusAction_Pause, StatusAction_Suspend,
     StatusAction_PreClose, StatusAction_Close, StatusAction_PostClose,
     StatusAction_SsrChange, StatusAction_NotAvailableForTrading]"

primrec status_action_as_u16 :: "StatusAction \<Rightarrow> u16" where
  "status_action_as_u16 StatusAction_None = 0"
| "status_action_as_u16 StatusAction_PreOpen = 1"
| "status_action_as_u16 StatusAction_PreCross = 2"
| "status_action_as_u16 StatusAction_Quoting = 3"
| "status_action_as_u16 StatusAction_Cross = 4"
| "status_action_as_u16 StatusAction_Rotation = 5"
| "status_action_as_u16 StatusAction_NewPriceIndication = 6"
| "status_action_as_u16 StatusAction_Trading = 7"
| "status_action_as_u16 StatusAction_Halt = 8"
| "status_action_as_u16 StatusAction_Pause = 9"
| "status_action_as_u16 StatusAction_Suspend = 10"
| "status_action_as_u16 StatusAction_PreClose = 11"
| "status_action_as_u16 StatusAction_Close = 12"
| "status_action_as_u16 StatusAction_PostClose = 13"
| "status_action_as_u16 StatusAction_SsrChange = 14"
| "status_action_as_u16 StatusAction_NotAvailableForTrading = 15"

definition status_action_try_from :: "u16 \<Rightarrow> StatusAction option" where
  "status_action_try_from x = find (\<lambda>v. status_action_as_u16 v = x) status_action_variants"

subsection \<open>StatusReason\<close>

datatype StatusReason =
    StatusReason_None | StatusReason_Scheduled | StatusReason_SurveillanceIntervention
    | StatusReason_MarketEvent | StatusReason_InstrumentActivation
    | StatusReason_InstrumentExpiration | StatusReason_RecoveryInProcess
    | StatusReason_Regulatory | StatusReason_Administrative | StatusReason_NonCompliance
    | StatusReason_FilingsNotCurrent | StatusReason_SecTradingSuspension
    | StatusReason_NewIssue | StatusReason_IssueAvailable | StatusReason_IssuesReviewed
    | StatusReason_FilingReqsSatisfied | StatusReason_NewsPending | StatusReason_NewsReleased
    | StatusReason_NewsAndResumptionTimes | StatusReason_NewsNotForthcoming
    | StatusReason_OrderImbalance | StatusReason_LuldPause | StatusReason_Operational
    | StatusReason_AdditionalInformationRequested | StatusReason_MergerEffective
    | StatusReason_Etf | StatusReason_CorporateAction | StatusReason_NewSecurityOffering
    | StatusReason_MarketWideHaltLevel1 | StatusReason_MarketWideHaltLevel2
    | StatusReason_MarketWideHaltLevel3 | StatusReason_MarketWideHaltCarryover
    | StatusReason_MarketWideHaltResumption | StatusReason_QuotationNotAvailable

definition status_reason_variants :: "StatusReason list" where
  "status_reason_variants =
    [StatusReason_None, StatusReason_Scheduled, StatusReason_SurveillanceIntervention,
     StatusReason_MarketEvent, StatusReason_InstrumentActivation,
     StatusReason_InstrumentExpiration, StatusReason_RecoveryInProcess,
     StatusReason_Regulatory, StatusReason_Administrative, StatusReason_NonCompliance,
     StatusReason_FilingsNotCurrent, StatusReason_SecTradingSuspension, StatusReason_NewIssue,
     StatusReason_IssueAvailable, StatusReason_IssuesReviewed,
     StatusReason_FilingReqsSatisfied, StatusReason_NewsPending, StatusReason_NewsReleased,
     StatusReason_NewsAndResumptionTimes, StatusReason_NewsNotForthcoming,
     StatusReason_OrderImbalance, StatusReason_LuldPause, StatusReason_Operational,
     StatusReason_AdditionalInformationRequested, StatusReason_MergerEffective,
     StatusReason_Etf, StatusReason_CorporateAction, StatusReason_NewSecurityOffering,
     StatusReason_MarketWideHaltLevel1, StatusReason_MarketWideHaltLevel2,
     StatusReason_MarketWideHaltLevel3, StatusReason_MarketWideHaltCarryover,
     StatusReason_MarketWideHaltResumption, StatusReason_QuotationNotAvailable]"

primrec status_reason_as_u16 :: "StatusReason \<Rightarrow> u16" where
  "status_reason_as_u16 StatusReason_None = 0"
| "status_reason_as_u16 StatusReason_Scheduled = 1"
| "status_reason_as_u16 StatusReason_SurveillanceIntervention = 2"
| "status_reason_as_u16 StatusReason_MarketEvent = 3"
| "status_reason_as_u16 StatusReason_InstrumentActivation = 4"
| "status_reason_as_u16 StatusReason_InstrumentExpiration = 5"
| "status_reason_as_u16 StatusReason_RecoveryInProcess = 6"
| "status_reason_as_u16 StatusReason_Regulatory = 10"
| "status_reason_as_u16 StatusReason_Administrative = 11"
| "status_reason_as_u16 StatusReason_NonCompliance = 12"
| "status_reason_as_u16 StatusReason_FilingsNotCurrent = 13"
| "status_reason_as_u16 StatusReason_SecTradingSuspension = 14"
| "status_reason_as_u16 StatusReason_NewIssue = 15"
| "status_reason_as_u16 StatusReason_IssueAvailable = 16"
| "status_reason_as_u16 StatusReason_IssuesReviewed = 17"
| "status_reason_as_u16 StatusReason_FilingReqsSatisfied = 18"
| "status_reason_as_u16 StatusReason_NewsPending = 30"
| "status_reason_as_u16 StatusReason_NewsReleased = 31"
| "status_reason_as_u16 StatusReason_NewsAndResumptionTimes = 32"
| "status_reason_as_u16 StatusReason_NewsNotForthcoming = 33"
| "status_reason_as_u16 StatusReason_OrderImbalance = 40"
| "status_reason_as_u16 StatusReason_LuldPause = 50"
| "status_reason_as_u16 StatusReason_Operational = 60"
| "status_reason_as_u16 StatusReason_AdditionalInformationRequested = 70"
| "status_reason_as_u16 StatusReason_MergerEffective = 80"
| "status_reason_as_u16 StatusReason_Etf = 90"
| "status_reason_as_u16 StatusReason_CorporateAction = 100"
| "status_reason_as_u16 StatusReason_NewSecurityOffering = 110"
| "status_reason_as_u16 StatusReason_MarketWideHaltLevel1 = 120"
| "status_reason_as_u16 StatusReason_MarketWideHaltLevel2 = 121"
| "status_reason_as_u16 StatusReason_MarketWideHaltLevel3 = 122"
| "status_reason_as_u16 StatusReason_MarketWideHaltCarryover = 123"
| "status_reason_as_u16 StatusReason_MarketWideHaltResumption = 124"
| "status_reason_as_u16 StatusReason_QuotationNotAvailable = 130"

definition status_reason_try_from :: "u16 \<Rightarrow> StatusReason option" where
  "status_reason_try_from x = find (\<lambda>v. status_reason_as_u16 v = x) status_reason_variants"

subsection \<open>TradingEvent\<close>

datatype TradingEvent =
    TradingEvent_None | TradingEvent_NoCancel | TradingEvent_ChangeTradingSession
    | TradingEvent_ImpliedMatchingOn | TradingEvent_ImpliedMatchingOff

definition trading_event_variants :: "TradingEvent list" where
  "trading_event_variants =
    [TradingEvent_None, TradingEvent_NoCancel, TradingEvent_ChangeTradingSession,
     TradingEvent_ImpliedMatchingOn, TradingEvent_ImpliedMatchingOff]"

primrec trading_event_as_u16 :: "TradingEvent \<Rightarrow> u16" where
  "trading_event_as_u16 TradingEvent_None = 0"
| "trading_event_as_u16 TradingEvent_NoCancel = 1"
| "trading_event_as_u16 TradingEvent_ChangeTradingSession = 2"
| "trading_event_as_u16 TradingEvent_ImpliedMatchingOn = 3"
| "trading_event_as_u16 TradingEvent_ImpliedMatchingOff = 4"

definition trading_event_try_from :: "u16 \<Rightarrow> TradingEvent option" where
  "trading_event_try_from x = find (\<lambda>v. trading_event_as_u16 v = x) trading_event_variants"

subsection \<open>TriState\<close>

datatype TriState =
    TriState_NotAvailable | TriState_No | TriState_Yes

definition tri_state_variants :: "TriState list" where
  "tri_state_variants =
    [TriState_NotAvailable, TriState_No, TriState_Yes]"

primrec tri_state_as_u8 :: "TriState \<Rightarrow> u8" where
  "tri_state_as_u8 TriState_NotAvailable = 126"
| "tri_state_as_u8 TriState_No = 78"
| "tri_state_as_u8 TriState_Yes = 89"

definition tri_state_try_from :: "u8 \<Rightarrow> TriState option" where
  "tri_state_try_from x = find (\<lambda>v. tri_state_as_u8 v = x) tri_state_variants"

subsection \<open>VersionUpgradePolicy\<close>

datatype VersionUpgradePolicy =
    VersionUpgradePolicy_AsIs | VersionUpgradePolicy_UpgradeToV2
    | VersionUpgradePolicy_UpgradeToV3

subsection \<open>ErrorCode\<close>

datatype ErrorCode =
    ErrorCode_AuthFailed | ErrorCode_ApiKeyDeactivated | ErrorCode_ConnectionLimitExceeded
    | ErrorCode_SymbolResolutionFailed | ErrorCode_InvalidSubscription
    | ErrorCode_InternalError | ErrorCode_Unset

definition error_code_variants :: "ErrorCode list" where
  "error_code_variants =
    [ErrorCode_AuthFailed, ErrorCode_ApiKeyDeactivated, ErrorCode_ConnectionLimitExceeded,
     ErrorCode_SymbolResolutionFailed, ErrorCode_InvalidSubscription, ErrorCode_InternalError,
     ErrorCode_Unset]"

primrec error_code_as_u8 :: "ErrorCode \<Rightarrow> u8" where
  "error_code_as_u8 ErrorCode_AuthFailed = 1"
| "error_code_as_u8 ErrorCode_ApiKeyDeactivated = 2"
| "error_code_as_u8 ErrorCode_ConnectionLimitExceeded = 3"
| "error_code_as_u8 ErrorCode_SymbolResolutionFailed = 4"
| "error_code_as_u8 ErrorCode_InvalidSubscription = 5"
| "error_code_as_u8 ErrorCode_InternalError = 6"
| "error_code_as_u8 ErrorCode_Unset = 255"

definition error_code_try_from :: "u8 \<Rightarrow> ErrorCode option" where
  "error_code_try_from x = find (\<lambda>v. error_code_as_u8 v = x) error_code_variants"

definition error_code_from_str :: "string \<Rightarrow> ErrorCode result" where
  "error_code_from_str s =
     (if s = ''auth_failed'' then Ok ErrorCode_AuthFailed
      else if s = ''api_key_deactivated'' then Ok ErrorCode_ApiKeyDeactivated
      else if s = ''connection_limit_exceeded'' then Ok ErrorCode_ConnectionLimitExceeded
      else if s = ''symbol_resolution_failed'' then Ok ErrorCode_SymbolResolutionFailed
      else if s = ''invalid_subscription'' then Ok ErrorCode_InvalidSubscription
      else if s = ''internal_error'' then Ok ErrorCode_InternalError
      else if s = ''unset'' then Ok ErrorCode_Unset
      else Err (Conversion s ''dbn::enums::ErrorCode''))"

primrec error_code_as_str :: "ErrorCode \<Rightarrow> string" where
  "error_code_as_str ErrorCode_AuthFailed = ''auth_failed''"
| "error_code_as_str ErrorCode_ApiKeyDeactivated = ''api_key_deactivated''"
| "error_code_as_str ErrorCode_ConnectionLimitExceeded = ''connection_limit_exceeded''"
| "error_code_as_str ErrorCode_SymbolResolutionFailed = ''symbol_resolution_failed''"
| "error_code_as_str ErrorCode_InvalidSubscription = ''invalid_subscription''"
| "error_code_as_str ErrorCode_InternalError = ''internal_error''"
| "error_code_as_str ErrorCode_Unset = ''unset''"

subsection \<open>SystemCode\<close>

datatype SystemCode =
    SystemCode_Heartbeat | SystemCode_SubscriptionAck | SystemCode_SlowReaderWarning
    | SystemCode_ReplayCompleted | SystemCode_EndOfInterval | SystemCode_Unset

definition system_code_variants :: "SystemCode list" where
  "system_code_variants =
    [SystemCode_Heartbeat, SystemCode_SubscriptionAck, SystemCode_SlowReaderWarning,
     SystemCode_ReplayCompleted, SystemCode_EndOfInterval, SystemCode_Unset]"

primrec system_code_as_u8 :: "SystemCode \<Rightarrow> u8" where
  "system_code_as_u8 SystemCode_Heartbeat = 0"
| "system_code_as_u8 SystemCode_SubscriptionAck = 1"
| "system_code_as_u8 SystemCode_SlowReaderWarning = 2"
| "system_code_as_u8 SystemCode_ReplayCompleted = 3"
| "system_code_as_u8 SystemCode_EndOfInterval = 4"
| "system_code_as_u8 SystemCode_Unset = 255"

definition system_code_try_from :: "u8 \<Rightarrow> SystemCode option" where
  "system_code_try_from x = find (\<lambda>v. system_code_as_u8 v = x) system_code_variants"

definition system_code_from_str :: "string \<Rightarrow> SystemCode result" where
  "system_code_from_str s =
     (if s = ''heartbeat'' then Ok SystemCode_Heartbeat
      else if s = ''subscription_ack'' then Ok SystemCode_SubscriptionAck
      else if s = ''slow_reader_warning'' then Ok SystemCode_SlowReaderWarning
      else if s = ''replay_completed'' then Ok SystemCode_ReplayCompleted
      else if s = ''end_of_interval'' then Ok SystemCode_EndOfInterval
      else if s = ''unset'' then Ok SystemCode_Unset
      else Err (Conversion s ''dbn::enums::SystemCode''))"

primrec system_code_as_str :: "SystemCode \<Rightarrow> string" where
  "system_code_as_str SystemCode_Heartbeat = ''heartbeat''"
| "system_code_as_str SystemCode_SubscriptionAck = ''subscription_ack''"
| "system_code_as_str SystemCode_SlowReaderWarning = ''slow_reader_warning''"
| "system_code_as_str SystemCode_ReplayCompleted = ''replay_completed''"
| "system_code_as_str SystemCode_EndOfInterval = ''end_of_interval''"
| "system_code_as_str SystemCode_Unset = ''unset''"

section \<open>Methods\<close>

definition is_option :: "InstrumentClass \<Rightarrow> bool" where
  "is_option c \<longleftrightarrow>
     c \<in> {InstrumentClass_Call, InstrumentClass_Put, InstrumentClass_OptionSpread}"

definition is_future :: "InstrumentClass \<Rightarrow> bool" where
  "is_future c \<longleftrightarrow> c \<in> {InstrumentClass_Future, InstrumentClass_FutureSpread}"

definition is_spread :: "InstrumentClass \<Rightarrow> bool" where
  "is_spread c \<longleftrightarrow>
     c \<in> {InstrumentClass_FutureSpread, InstrumentClass_OptionSpread, InstrumentClass_MixedSpread}"

primrec rtype_from_schema :: "Schema \<Rightarrow> RType" where
  "rtype_from_schema Schema_Mbo = RType_Mbo"
| "rtype_from_schema Schema_Mbp1 = RType_Mbp1"
| "rtype_from_schema Schema_Tbbo = RType_Mbp1"
| "rtype_from_schema Schema_Mbp10 = RType_Mbp10"
| "rtype_from_schema Schema_Trades = RType_Mbp0"
| "rtype_from_schema Schema_Ohlcv1S = RType_Ohlcv1S"
| "rtype_from_schema Schema_Ohlcv1M = RType_Ohlcv1M"
| "rtype_from_schema Schema_Ohlcv1H = RType_Ohlcv1H"
| "rtype_from_schema Schema_Ohlcv1D = RType_Ohlcv1D"
| "rtype_from_schema Schema_OhlcvEod = RType_OhlcvEod"
| "rtype_from_schema Schema_Definition = RType_InstrumentDef"
| "rtype_from_schema Schema_Statistics = RType_Statistics"
| "rtype_from_schema Schema_Status = RType_Status"
| "rtype_from_schema Schema_Imbalance = RType_Imbalance"
| "rtype_from_schema Schema_Cmbp1 = RType_Cmbp1"
| "rtype_from_schema Schema_Cbbo1S = RType_Cbbo1S"
| "rtype_from_schema Schema_Cbbo1M = RType_Cbbo1M"
| "rtype_from_schema Schema_Tcbbo = RType_Tcbbo"
| "rtype_from_schema Schema_Bbo1S = RType_Bbo1S"
| "rtype_from_schema Schema_Bbo1M = RType_Bbo1M"

definition try_into_schema :: "u8 \<Rightarrow> Schema option" where
  "try_into_schema rtype =
     (if rtype = rtype_as_u8 RType_Mbp0 then Some Schema_Trades
      else if rtype = rtype_as_u8 RType_Mbp1 then Some Schema_Mbp1
      else if rtype = rtype_as_u8 RType_Mbp10 then Some Schema_Mbp10
      else if rtype = rtype_as_u8 RType_Ohlcv1S then Some Schema_Ohlcv1S
      else if rtype = rtype_as_u8 RType_Ohlcv1M then Some Schema_Ohlcv1M
      else if rtype = rtype_as_u8 RType_Ohlcv1H then Some Schema_Ohlcv1H
      else if rtype = rtype_as_u8 RType_Ohlcv1D then Some Schema_Ohlcv1D
      else if rtype = rtype_as_u8 RType_OhlcvEod then Some Schema_OhlcvEod
      else if rtype = rtype_as_u8 RType_Status then Some Schema_Status
      else if rtype = rtype_as_u8 RType_InstrumentDef then Some Schema_Definition
      else if rtype = rtype_as_u8 RType_Imbalance then Some Schema_Imbalance
      else if rtype = rtype_as_u8 RType_Statistics then Some Schema_Statistics
      else if rtype = rtype_as_u8 RType_Mbo then Some Schema_Mbo
      else if rtype = rtype_as_u8 RType_Cmbp1 then Some Schema_Cmbp1
      else if rtype = rtype_as_u8 RType_Cbbo1S then Some Schema_Cbbo1S
      else if rtype = rtype_as_u8 RType_Cbbo1M then Some Schema_Cbbo1M
      else if rtype = rtype_as_u8 RType_Tcbbo then Some Schema_Tcbbo
      else if rtype = rtype_as_u8 RType_Bbo1S then Some Schema_Bbo1S
      else if rtype = rtype_as_u8 RType_Bbo1M then Some Schema_Bbo1M
      else None)"

text \<open>Intervals, as a number of seconds.\<close>

definition rtype_interval :: "RType \<Rightarrow> nat option" where
  "rtype_interval r =
     (if r \<in> {RType_Ohlcv1S, RType_Cbbo1S, RType_Bbo1S} then Some 1
      else if r \<in> {RType_Ohlcv1M, RType_Cbbo1M, RType_Bbo1M} then Some 60
      else if r = RType_Ohlcv1H then Some 3600
      else if r \<in> {RType_Ohlcv1D, RType_OhlcvEod} then Some 86400
      else None)"

definition schema_interval :: "Schema \<Rightarrow> nat option" where
  "schema_interval s = rtype_interval (rtype_from_schema s)"

primrec opt_of_tri_state :: "TriState \<Rightarrow> bool option" where
  "opt_of_tri_state TriState_NotAvailable = None"
| "opt_of_tri_state TriState_No = Some False"
| "opt_of_tri_state TriState_Yes = Some True"

definition tri_state_of_opt :: "bool option \<Rightarrow> TriState" where
  "tri_state_of_opt v =
     (case v of Some b \<Rightarrow> if b then TriState_Yes else TriState_No | None \<Rightarrow> TriState_NotAvailable)"

text \<open>Upgrade policies. Versions are unsigned bytes.\<close>

definition validate_compatibility :: "VersionUpgradePolicy \<Rightarrow> u8 \<Rightarrow> unit result" where
  "validate_compatibility p version =
     (if 2 < version \<and> p = VersionUpgradePolicy_UpgradeToV2
      then Err (Decode (''Invalid combination of `VersionUpgradePolicy::UpgradeToV2` and input version 3. '' @
             ''Choose either `AsIs` and `UpgradeToV3` as an upgrade policy''))
      else Ok ())"

definition is_upgrade_situation :: "VersionUpgradePolicy \<Rightarrow> u8 \<Rightarrow> bool" where
  "is_upgrade_situation p version =
     (case p of
        VersionUpgradePolicy_AsIs \<Rightarrow> False
      | VersionUpgradePolicy_UpgradeToV2 \<Rightarrow> version < 2
      | VersionUpgradePolicy_UpgradeToV3 \<Rightarrow> version < 3)"

definition output_version :: "VersionUpgradePolicy \<Rightarrow> u8 \<Rightarrow> u8" where
  "output_version p input_version =
     (case p of
        VersionUpgradePolicy_AsIs \<Rightarrow> input_version
      | VersionUpgradePolicy_UpgradeToV2 \<Rightarrow> 2
      | VersionUpgradePolicy_UpgradeToV3 \<Rightarrow> 3)"

text \<open>\<^verbatim>\<open>DBN_VERSION\<close> and the checked version of rust/dbn/src/lib.rs.\<close>

definition DBN_VERSION :: u8 where "DBN_VERSION = 3"

definition dbn_version_try_from :: "u8 \<Rightarrow> u8 result" where
  "dbn_version_try_from version =
     (if 1 \<le> version \<and> version \<le> DBN_VERSION then Ok version
      else Err (BadArgument ''version'' ''invalid, must be between 1 and 3, inclusive''))"

section \<open>The conversions meet their interfaces\<close>

interpretation rtype_enum: primitive_enum rtype_variants rtype_as_u8
proof unfold_locales
  show "distinct (map rtype_as_u8 rtype_variants)"
    by (simp add: rtype_variants_def)
  show "v \<in> set rtype_variants" for v
    by (cases v) (simp_all add: rtype_variants_def)
qed

lemmas rtype_try_from_iff = rtype_enum.try_from_iff [folded rtype_try_from_def]

interpretation rtype_text: str_enum rtype_as_str rtype_from_str
proof unfold_locales
  show "rtype_from_str (rtype_as_str v) = Ok v" for v
    by (cases v) (simp_all add: rtype_from_str_def)
qed

interpretation side_enum: primitive_enum side_variants side_as_u8
proof unfold_locales
  show "distinct (map side_as_u8 side_variants)"
    by (simp add: side_variants_def)
  show "v \<in> set side_variants" for v
    by (cases v) (simp_all add: side_variants_def)
qed

lemmas side_try_from_iff = side_enum.try_from_iff [folded side_try_from_def]

interpretation action_enum: primitive_enum action_variants action_as_u8
proof unfold_locales
  show "distinct (map action_as_u8 action_variants)"
    by (simp add: action_variants_def)
  show "v \<in> set action_variants" for v
    by (cases v) (simp_all add: action_variants_def)
qed

lemmas action_try_from_iff = action_enum.try_from_iff [folded action_try_from_def]

interpretation instrument_class_enum: primitive_enum instrument_class_variants instrument_class_as_u8
proof unfold_locales
  show "distinct (map instrument_class_as_u8 instrument_class_variants)"
    by (simp add: instrument_class_variants_def)
  show "v \<in> set instrument_class_variants" for v
    by (cases v) (simp_all add: instrument_class_variants_def)
qed

lemmas instrument_class_try_from_iff = instrument_class_enum.try_from_iff [folded instrument_class_try_from_def]

interpretation match_algorithm_enum: primitive_enum match_algorithm_variants match_algorithm_as_u8
proof unfold_locales
  show "distinct (map match_algorithm_as_u8 match_algorithm_variants)"
    by (simp add: match_algorithm_variants_def)
  show "v \<in> set match_algorithm_variants" for v
    by (cases v) (simp_all add: match_algorithm_variants_def)
qed

lemmas match_algorithm_try_from_iff = match_algorithm_enum.try_from_iff [folded match_algorithm_try_from_def]

interpretation user_defined_instrument_enum: primitive_enum user_defined_instrument_variants user_defined_instrument_as_u8
proof unfold_locales
  show "distinct (map user_defined_instrument_as_u8 user_defined_instrument_variants)"
    by (simp add: user_defined_instrument_variants_def)
  show "v \<in> set user_defined_instrument_variants" for v
    by (cases v) (simp_all add: user_defined_instrument_variants_def)
qed

lemmas user_defined_instrument_try_from_iff = user_defined_instrument_enum.try_from_iff [folded user_defined_instrument_try_from_def]

interpretation security_update_action_enum: primitive_enum security_update_action_variants security_update_action_as_u8
proof unfold_locales
  show "distinct (map security_update_action_as_u8 security_update_action_variants)"
    by (simp add: security_update_action_variants_def)
  show "v \<in> set security_update_action_variants" for v
    by (cases v) (simp_all add: security_update_action_variants_def)
qed

lemmas security_update_action_try_from_iff = security_update_action_enum.try_from_iff [folded security_update_action_try_from_def]

interpretation stype_enum: primitive_enum stype_variants stype_as_u8
proof unfold_locales
  show "distinct (map stype_as_u8 stype_variants)"
    by (simp add: stype_variants_def)
  show "v \<in> set stype_variants" for v
    by (cases v) (simp_all add: stype_variants_def)
qed

lemmas stype_try_from_iff = stype_enum.try_from_iff [folded stype_try_from_def]

interpretation stype_text: str_enum stype_as_str stype_from_str
proof unfold_locales
  show "stype_from_str (stype_as_str v) = Ok v" for v
    by (cases v) (simp_all add: stype_from_str_def)
qed

interpretation schema_enum: primitive_enum schema_variants schema_as_u16
proof unfold_locales
  show "distinct (map schema_as_u16 schema_variants)"
    by (simp add: schema_variants_def)
  show "v \<in> set schema_variants" for v
    by (cases v) (simp_all add: schema_variants_def)
qed

lemmas schema_try_from_iff = schema_enum.try_from_iff [folded schema_try_from_def]

interpretation schema_text: str_enum schema_as_str schema_from_str
proof unfold_locales
  show "schema_from_str (schema_as_str v) = Ok v" for v
    by (cases v) (simp_all add: schema_from_str_def)
qed

interpretation encoding_enum: primitive_enum encoding_variants encoding_as_u8
proof unfold_locales
  show "distinct (map encoding_as_u8 encoding_variants)"
    by (simp add: encoding_variants_def)
  show "v \<in> set encoding_variants" for v
    by (cases v) (simp_all add: encoding_variants_def)
qed

lemmas encoding_try_from_iff = encoding_enum.try_from_iff [folded encoding_try_from_def]

interpretation encoding_text: str_enum encoding_as_str encoding_from_str
proof unfold_locales
  show "encoding_from_str (encoding_as_str v) = Ok v" for v
    by (cases v) (simp_all add: encoding_from_str_def)
qed

interpretation compression_enum: primitive_enum compression_variants compression_as_u8
proof unfold_locales
  show "distinct (map compression_as_u8 compression_variants)"
    by (simp add: compression_variants_def)
  show "v \<in> set compression_variants" for v
    by (cases v) (simp_all add: compression_variants_def)
qed

lemmas compression_try_from_iff = compression_enum.try_from_iff [folded compression_try_from_def]

interpretation compression_text: str_enum compression_as_str compression_from_str
proof unfold_locales
  show "compression_from_str (compression_as_str v) = Ok v" for v
    by (cases v) (simp_all add: compression_from_str_def)
qed

interpretation stat_type_enum: primitive_enum stat_type_variants stat_type_as_u16
proof unfold_locales
  show "distinct (map stat_type_as_u16 stat_type_variants)"
    by (simp add: stat_type_variants_def)
  show "v \<in> set stat_type_variants" for v
    by (cases v) (simp_all add: stat_type_variants_def)
qed

lemmas stat_type_try_from_iff = stat_type_enum.try_from_iff [folded stat_type_try_from_def]

interpretation stat_update_action_enum: primitive_enum stat_update_action_variants stat_update_action_as_u8
proof unfold_locales
  show "distinct (map stat_update_action_as_u8 stat_update_action_variants)"
    by (simp add: stat_update_action_variants_def)
  show "v \<in> set stat_update_action_variants" for v
    by (cases v) (simp_all add: stat_update_action_variants_def)
qed

lemmas stat_update_action_try_from_iff = stat_update_action_enum.try_from_iff [folded stat_update_action_try_from_def]

interpretation status_action_enum: primitive_enum status_action_variants status_action_as_u16
proof unfold_locales
  show "distinct (map status_action_as_u16 status_action_variants)"
    by (simp add: status_action_variants_def)
  show "v \<in> set status_action_variants" for v
    by (cases v) (simp_all add: status_action_variants_def)
qed

lemmas status_action_try_from_iff = status_action_enum.try_from_iff [folded status_action_try_from_def]

interpretation status_reason_enum: primitive_enum status_reason_variants status_reason_as_u16
proof unfold_locales
  show "distinct (map status_reason_as_u16 status_reason_variants)"
    by (simp add: status_reason_variants_def)
  show "v \<in> set status_reason_variants" for v
    by (cases v) (simp_all add: status_reason_variants_def)
qed

lemmas status_reason_try_from_iff = status_reason_enum.try_from_iff [folded status_reason_try_from_def]

interpretation trading_event_enum: primitive_enum trading_event_variants trading_event_as_u16
proof unfold_locales
  show "distinct (map trading_event_as_u16 trading_event_variants)"
    by (simp add: trading_event_variants_def)
  show "v \<in> set trading_event_variants" for v
    by (cases v) (simp_all add: trading_event_variants_def)
qed

lemmas trading_event_try_from_iff = trading_event_enum.try_from_iff [folded trading_event_try_from_def]

interpretation tri_state_enum: primitive_enum tri_state_variants tri_state_as_u8
proof unfold_locales
  show "distinct (map tri_state_as_u8 tri_state_variants)"
    by (simp add: tri_state_variants_def)
  show "v \<in> set tri_state_variants" for v
    by (cases v) (simp_all add: tri_state_variants_def)
qed

lemmas tri_state_try_from_iff = tri_state_enum.try_from_iff [folded tri_state_try_from_def]

interpretation error_code_enum: primitive_enum error_code_variants error_code_as_u8
proof unfold_locales
  show "distinct (map error_code_as_u8 error_code_variants)"
    by (simp add: error_code_variants_def)
  show "v \<in> set error_code_variants" for v
    by (cases v) (simp_all add: error_code_variants_def)
qed

lemmas error_code_try_from_iff = error_code_enum.try_from_iff [folded error_code_try_from_def]

interpretation error_code_text: str_enum error_code_as_str error_code_from_str
proof unfold_locales
  show "error_code_from_str (error_code_as_str v) = Ok v" for v
    by (cases v) (simp_all add: error_code_from_str_def)
qed

interpretation system_code_enum: primitive_enum system_code_variants system_code_as_u8
proof unfold_locales
  show "distinct (map system_code_as_u8 system_code_variants)"
    by (simp add: system_code_variants_def)
  show "v \<in> set system_code_variants" for v
    by (cases v) (simp_all add: system_code_variants_def)
qed

lemmas system_code_try_from_iff = system_code_enum.try_from_iff [folded system_code_try_from_def]

interpretation system_code_text: str_enum system_code_as_str system_code_from_str
proof unfold_locales
  show "system_code_from_str (system_code_as_str v) = Ok v" for v
    by (cases v) (simp_all add: system_code_from_str_def)
qed

section \<open>Properties\<close>

lemma rtype_from_str_Ok: "rtype_from_str s = Ok r \<Longrightarrow> s = rtype_as_str r"
  by (auto simp: rtype_from_str_def split: if_splits)

lemma schema_from_str_Ok: "schema_from_str s = Ok r \<Longrightarrow> s = schema_as_str r"
  by (auto simp: schema_from_str_def split: if_splits)

text \<open>
  The record type of a schema, written as the byte of a record header, is read back as
  that schema, except that top-of-book trades (\<^verbatim>\<open>Tbbo\<close>) share the record type of
  \<^verbatim>\<open>Mbp1\<close> and are read back as the latter; and a byte read as a schema is that schema's
  record type.
\<close>

theorem schema_rtype_roundtrip:
  "try_into_schema (rtype_as_u8 (rtype_from_schema s)) =
     Some (if s = Schema_Tbbo then Schema_Mbp1 else s)
   \<and> (\<forall>b s'. try_into_schema b = Some s' \<longrightarrow> rtype_as_u8 (rtype_from_schema s') = b)"
proof
  show "try_into_schema (rtype_as_u8 (rtype_from_schema s)) =
      Some (if s = Schema_Tbbo then Schema_Mbp1 else s)"
    by (cases s) (simp_all add: try_into_schema_def)
  show "\<forall>b s'. try_into_schema b = Some s' \<longrightarrow> rtype_as_u8 (rtype_from_schema s') = b"
    by (auto simp: try_into_schema_def split: if_splits)
qed

theorem schema_rtype_roundtrip_witness:
  "rtype_as_u8 (rtype_from_schema Schema_Definition) = 0x13"
proof -
  have "try_into_schema 0x13 = Some Schema_Definition"
    by (simp add: try_into_schema_def)
  then show ?thesis using schema_rtype_roundtrip by blast
qed

text \<open>
  For every supported version that the policy accepts, decoding under the policy never
  lowers the version, the result is a supported version the policy accepts again, and the
  version changes exactly in the upgrade situations, those where decoders set the
  compatibility buffer up.
\<close>

theorem upgrade_policy_versions:
  assumes "v \<le> DBN_VERSION" and "validate_compatibility p v = Ok ()"
  shows "v \<le> output_version p v \<and> output_version p v \<le> DBN_VERSION
    \<and> (is_upgrade_situation p v \<longleftrightarrow> output_version p v \<noteq> v)
    \<and> validate_compatibility p (output_version p v) = Ok ()
    \<and> \<not> is_upgrade_situation p (output_version p v)"
proof (cases p)
  case VersionUpgradePolicy_UpgradeToV2
  then have "v \<le> 2"
    using assms(2) by (auto simp: validate_compatibility_def split: if_splits)
  then show ?thesis
    using VersionUpgradePolicy_UpgradeToV2
    by (auto simp: DBN_VERSION_def output_version_def is_upgrade_situation_def
        validate_compatibility_def)
qed (use assms in \<open>auto simp: DBN_VERSION_def output_version_def is_upgrade_situation_def
        validate_compatibility_def\<close>)

theorem upgrade_policy_versions_witness:
  "is_upgrade_situation VersionUpgradePolicy_UpgradeToV3 1
   \<and> output_version VersionUpgradePolicy_UpgradeToV3 1 = 3"
  using upgrade_policy_versions [of 1 VersionUpgradePolicy_UpgradeToV3]
  by (simp add: DBN_VERSION_def validate_compatibility_def output_version_def)

text \<open>
  The printable names of record types and schemas are exactly the accepted texts: a text
  parses to a value precisely when it is the name that value prints as.
\<close>

theorem enum_names_exact:
  "(rtype_from_str s = Ok r \<longleftrightarrow> s = rtype_as_str r) \<and> (schema_from_str t = Ok c \<longleftrightarrow> t = schema_as_str c)"
  using rtype_text.from_str_as_str schema_text.from_str_as_str
  by (auto dest: rtype_from_str_Ok schema_from_str_Ok)

lemma tri_state_of_opt_of [simp]: "tri_state_of_opt (opt_of_tri_state t) = t"
  by (cases t) (simp_all add: tri_state_of_opt_def)

lemma opt_of_tri_state_of [simp]: "opt_of_tri_state (tri_state_of_opt v) = v"
  by (auto simp: tri_state_of_opt_def split: option.splits)

lemma schema_interval_rtype:
  "try_into_schema (rtype_as_u8 r) = Some s \<Longrightarrow> schema_interval s = rtype_interval r"
  by (cases r) (auto simp: try_into_schema_def schema_interval_def)

end
