(* ===== verification/Flags.thy ===== *)
theory Flags
  imports Prelude
begin

text \<open>
  The bit field of rust/dbn/src/flags.rs. \<^verbatim>\<open>FlagSet\<close> is the record \<open>flag_set\<close>; a method
  on \<^verbatim>\<open>&mut self\<close> returns the updated record. Its contract is a set of flags: the
  abstraction \<open>flag_names\<close> maps a bit field to the flags that are on, and each operation is
  shown to act on that set.
\<close>

unbundle bit_operations_syntax

section \<open>Definitions\<close>

definition LAST :: u8 where "LAST = push_bit 7 1"
definition TOB :: u8 where "TOB = push_bit 6 1"
definition SNAPSHOT :: u8 where "SNAPSHOT = push_bit 5 1"
definition MBP :: u8 where "MBP = push_bit 4 1"
definition BAD_TS_RECV :: u8 where "BAD_TS_RECV = push_bit 3 1"
definition MAYBE_BAD_BOOK :: u8 where "MAYBE_BAD_BOOK = push_bit 2 1"
definition PUBLISHER_SPECIFIC :: u8 where "PUBLISHER_SPECIFIC = push_bit 1 1"

record flag_set =
  raw :: u8

definition flag_set_from :: "u8 \<Rightarrow> flag_set" where "flag_set_from r = \<lparr>raw = r\<rparr>"
definition flag_set_empty :: flag_set where "flag_set_empty = \<lparr>raw = 0\<rparr>"
definition flag_set_new :: "u8 \<Rightarrow> flag_set" where "flag_set_new r = \<lparr>raw = r\<rparr>"
definition clear :: "flag_set \<Rightarrow> flag_set" where "clear f = f\<lparr>raw := 0\<rparr>"
definition set_raw :: "flag_set \<Rightarrow> u8 \<Rightarrow> flag_set" where "set_raw f r = f\<lparr>raw := r\<rparr>"
definition any :: "flag_set \<Rightarrow> bool" where "any f \<longleftrightarrow> raw f > 0"
definition flag_set_is_empty :: "flag_set \<Rightarrow> bool" where "flag_set_is_empty f \<longleftrightarrow> raw f = 0"

definition is_last :: "flag_set \<Rightarrow> bool" where "is_last f \<longleftrightarrow> (raw f AND LAST) > 0"
definition set_last :: "flag_set \<Rightarrow> flag_set" where "set_last f = f\<lparr>raw := raw f OR LAST\<rparr>"
definition is_tob :: "flag_set \<Rightarrow> bool" where "is_tob f \<longleftrightarrow> (raw f AND TOB) > 0"
definition set_tob :: "flag_set \<Rightarrow> flag_set" where "set_tob f = f\<lparr>raw := raw f OR TOB\<rparr>"
definition is_snapshot :: "flag_set \<Rightarrow> bool" where
  "is_snapshot f \<longleftrightarrow> (raw f AND SNAPSHOT) > 0"
definition set_snapshot :: "flag_set \<Rightarrow> flag_set" where
  "set_snapshot f = f\<lparr>raw := raw f OR SNAPSHOT\<rparr>"
definition is_mbp :: "flag_set \<Rightarrow> bool" where "is_mbp f \<longleftrightarrow> (raw f AND MBP) > 0"
definition set_mbp :: "flag_set \<Rightarrow> flag_set" where "set_mbp f = f\<lparr>raw := raw f OR MBP\<rparr>"
definition is_bad_ts_recv :: "flag_set \<Rightarrow> bool" where
  "is_bad_ts_recv f \<longleftrightarrow> (raw f AND BAD_TS_RECV) > 0"
definition set_bad_ts_recv :: "flag_set \<Rightarrow> flag_set" where
  "set_bad_ts_recv f = f\<lparr>raw := raw f OR BAD_TS_RECV\<rparr>"
definition is_maybe_bad_book :: "flag_set \<Rightarrow> bool" where
  "is_maybe_bad_book f \<longleftrightarrow> (raw f AND MAYBE_BAD_BOOK) > 0"
definition set_maybe_bad_book :: "flag_set \<Rightarrow> flag_set" where
  "set_maybe_bad_book f = f\<lparr>raw := raw f OR MAYBE_BAD_BOOK\<rparr>"
definition is_publisher_specific :: "flag_set \<Rightarrow> bool" where
  "is_publisher_specific f \<longleftrightarrow> (raw f AND PUBLISHER_SPECIFIC) > 0"
definition set_publisher_specific :: "flag_set \<Rightarrow> flag_set" where
  "set_publisher_specific f = f\<lparr>raw := raw f OR PUBLISHER_SPECIFIC\<rparr>"

text \<open>The \<^verbatim>\<open>Debug\<close> rendering: the names of the flags that are on, then the raw value.\<close>

definition flag_table :: "(u8 \<times> string) list" where
  "flag_table =
    [(LAST, ''LAST''), (TOB, ''TOB''), (SNAPSHOT, ''SNAPSHOT''), (MBP, ''MBP''),
     (BAD_TS_RECV, ''BAD_TS_RECV''), (MAYBE_BAD_BOOK, ''MAYBE_BAD_BOOK''),
     (PUBLISHER_SPECIFIC, ''PUBLISHER_SPECIFIC'')]"

fun fmt_flags :: "flag_set \<Rightarrow> (u8 \<times> string) list \<Rightarrow> bool \<Rightarrow> string" where
  "fmt_flags f [] has_written_flag =
     (if has_written_flag then '' ('' @ dec_nat (unat (raw f)) @ '')'' else dec_nat (unat (raw f)))"
| "fmt_flags f ((flag, name) # rest) has_written_flag =
     (if (raw f AND flag) > 0 then
        (if has_written_flag then '' | '' @ name @ fmt_flags f rest has_written_flag
         else name @ fmt_flags f rest True)
      else fmt_flags f rest has_written_flag)"

definition flag_set_debug :: "flag_set \<Rightarrow> string" where
  "flag_set_debug f = fmt_flags f flag_table False"

section \<open>The set of flags\<close>

definition flag_names :: "flag_set \<Rightarrow> string set" where
  "flag_names f = {name. \<exists>flag. (flag, name) \<in> set flag_table \<and> (raw f AND flag) > 0}"

lemmas flag_bits =
  LAST_def TOB_def SNAPSHOT_def MBP_def BAD_TS_RECV_def MAYBE_BAD_BOOK_def PUBLISHER_SPECIFIC_def

lemma and_single_bit: "((x :: u8) AND 2 ^ n) > 0 \<longleftrightarrow> n < 8 \<and> bit x n"
proof -
  have "x AND 2 ^ n = (if bit x n then 2 ^ n else 0)"
    by (rule bit_word_eqI) (auto simp: bit_simps)
  moreover have "bit (2 ^ n :: u8) n \<longleftrightarrow> n < 8"
    by (simp add: bit_simps)
  then have "(2 ^ n :: u8) \<noteq> 0" if "n < 8"
    using that by force
  moreover have "n < 8" if "bit x n"
    using that by (auto dest: bit_imp_le_length)
  ultimately show ?thesis by (auto simp: word_gt_0)
qed

lemma or_single_bit: "bit ((x :: u8) OR 2 ^ n) m \<longleftrightarrow> bit x m \<or> (m = n \<and> n < 8)"
  by (auto simp: bit_simps)

lemma two_power_eq_iff: "n < 8 \<Longrightarrow> m < 8 \<Longrightarrow> (2 ^ n :: u8) = 2 ^ m \<longleftrightarrow> n = m"
  by (auto simp: bit_eq_iff bit_simps)

lemmas flag_defs =
  is_last_def set_last_def is_tob_def set_tob_def is_snapshot_def set_snapshot_def is_mbp_def
  set_mbp_def is_bad_ts_recv_def set_bad_ts_recv_def is_maybe_bad_book_def set_maybe_bad_book_def
  is_publisher_specific_def set_publisher_specific_def

lemma flag_table_powers:
  "flag_table =
    [(2 ^ 7, ''LAST''), (2 ^ 6, ''TOB''), (2 ^ 5, ''SNAPSHOT''), (2 ^ 4, ''MBP''),
     (2 ^ 3, ''BAD_TS_RECV''), (2 ^ 2, ''MAYBE_BAD_BOOK''), (2 ^ 1, ''PUBLISHER_SPECIFIC'')]"
  by (simp add: flag_table_def flag_bits)

lemma flag_table_bit: "(flag, name) \<in> set flag_table \<Longrightarrow> \<exists>n<8. flag = 2 ^ n"
  unfolding flag_table_powers list.set insert_iff prod.inject
  by (elim disjE conjE emptyE; (rule exI, rule conjI [rotated], assumption, simp))

lemma flag_table_distinct: "distinct (map fst flag_table)" "distinct (map snd flag_table)"
  by (simp_all add: flag_table_def flag_bits)

lemma flag_table_inj:
  "(flag, name) \<in> set flag_table \<Longrightarrow> (flag', name') \<in> set flag_table \<Longrightarrow> flag = flag' \<longleftrightarrow> name = name'"
  using flag_table_distinct by (fastforce simp: distinct_map inj_on_def)

lemma or_and_flag:
  assumes "(flag, name) \<in> set flag_table" and "(flag', name') \<in> set flag_table"
  shows "((r OR flag) AND flag') > 0 \<longleftrightarrow> (r AND flag') > 0 \<or> name' = name"
proof -
  obtain n m where n: "n < 8" "flag = 2 ^ n" and m: "m < 8" "flag' = 2 ^ m"
    using assms [THEN flag_table_bit] by blast
  have "m = n \<longleftrightarrow> flag' = flag"
    using n m by (simp add: two_power_eq_iff)
  then show ?thesis
    using n m flag_table_inj [OF assms(2,1)] by (auto simp: and_single_bit or_single_bit)
qed

lemma flag_names_set:
  assumes "(flag, name) \<in> set flag_table"
  shows "flag_names (f\<lparr>raw := raw f OR flag\<rparr>) = insert name (flag_names f)"
  using assms by (auto simp: flag_names_def or_and_flag [OF assms] cong: conj_cong)

lemma flag_names_mem:
  assumes "(flag, name) \<in> set flag_table"
  shows "(raw f AND flag) > 0 \<longleftrightarrow> name \<in> flag_names f"
  using assms by (auto simp: flag_names_def dest: flag_table_inj)

lemma flag_table_mem:
  "(LAST, ''LAST'') \<in> set flag_table" "(TOB, ''TOB'') \<in> set flag_table"
  "(SNAPSHOT, ''SNAPSHOT'') \<in> set flag_table" "(MBP, ''MBP'') \<in> set flag_table"
  "(BAD_TS_RECV, ''BAD_TS_RECV'') \<in> set flag_table"
  "(MAYBE_BAD_BOOK, ''MAYBE_BAD_BOOK'') \<in> set flag_table"
  "(PUBLISHER_SPECIFIC, ''PUBLISHER_SPECIFIC'') \<in> set flag_table"
  by (simp_all add: flag_table_def)

lemma flag_names_zero [simp]: "flag_names \<lparr>raw = 0\<rparr> = {}"
  by (simp add: flag_names_def)

text \<open>The lowest bit belongs to no flag: it counts for \<open>any\<close> and \<open>is_empty\<close> all the same.\<close>

lemma raw_zero_iff: "raw f = 0 \<longleftrightarrow> flag_names f = {} \<and> \<not> bit (raw f) 0"
proof
  assume none: "flag_names f = {} \<and> \<not> bit (raw f) 0"
  have "\<not> bit (raw f) n" for n
  proof (cases "n = 0 \<or> 8 \<le> n")
    case False
    then have "n \<in> {1, 2, 3, 4, 5, 6, 7}" by auto
    then obtain name where "(2 ^ n, name) \<in> set flag_table" by (auto simp: flag_table_powers)
    then show ?thesis using none and_single_bit [of "raw f" n] False by (auto simp: flag_names_def)
  qed (use none bit_imp_le_length [of "raw f" n] in auto)
  then show "raw f = 0" by (intro bit_word_eqI) simp
qed (simp add: flag_names_def)

lemma set_flag_low_bit: "(flag, name) \<in> set flag_table \<Longrightarrow> bit (r OR flag) 0 \<longleftrightarrow> bit r 0"
  by (auto simp: flag_table_powers bit_simps)

text \<open>
  C36. The bit field implements a set of flags: each query asks for membership of its flag,
  each setter adds exactly its flag and leaves the other six and the lowest bit, which is no flag, as they
  were, clearing or an empty field is the empty set, and a field built from a raw value keeps it.
  \<open>is_empty\<close> says that the set is empty and the lowest bit off, and \<open>any\<close> the opposite: with that bit
  alone \<open>any\<close> is true although no flag is on.
\<close>

theorem flag_set_refines_set:
  "is_last f = (''LAST'' \<in> flag_names f)
   \<and> is_tob f = (''TOB'' \<in> flag_names f)
   \<and> is_snapshot f = (''SNAPSHOT'' \<in> flag_names f)
   \<and> is_mbp f = (''MBP'' \<in> flag_names f)
   \<and> is_bad_ts_recv f = (''BAD_TS_RECV'' \<in> flag_names f)
   \<and> is_maybe_bad_book f = (''MAYBE_BAD_BOOK'' \<in> flag_names f)
   \<and> is_publisher_specific f = (''PUBLISHER_SPECIFIC'' \<in> flag_names f)
   \<and> flag_names (set_last f) = insert ''LAST'' (flag_names f)
   \<and> flag_names (set_tob f) = insert ''TOB'' (flag_names f)
   \<and> flag_names (set_snapshot f) = insert ''SNAPSHOT'' (flag_names f)
   \<and> flag_names (set_mbp f) = insert ''MBP'' (flag_names f)
   \<and> flag_names (set_bad_ts_recv f) = insert ''BAD_TS_RECV'' (flag_names f)
   \<and> flag_names (set_maybe_bad_book f) = insert ''MAYBE_BAD_BOOK'' (flag_names f)
   \<and> flag_names (set_publisher_specific f) = insert ''PUBLISHER_SPECIFIC'' (flag_names f)
   \<and> list_all (\<lambda>g. bit (raw g) 0 = bit (raw f) 0)
        [set_last f, set_tob f, set_snapshot f, set_mbp f, set_bad_ts_recv f, set_maybe_bad_book f, set_publisher_specific f]
   \<and> any f = (bit (raw f) 0 \<or> (\<exists>name. name \<in> flag_names f))
   \<and> flag_set_is_empty f = (flag_names f = {} \<and> \<not> bit (raw f) 0)
   \<and> flag_set_is_empty (clear f) \<and> flag_set_is_empty flag_set_empty
   \<and> flag_names (clear f) = {} \<and> flag_names flag_set_empty = {}
   \<and> raw (flag_set_new r) = r \<and> raw (flag_set_from r) = r \<and> raw (set_raw f r) = r"
proof -
  have low: "list_all (\<lambda>g. bit (raw g) 0 = bit (raw f) 0)
      [set_last f, set_tob f, set_snapshot f, set_mbp f, set_bad_ts_recv f, set_maybe_bad_book f, set_publisher_specific f]"
    by (simp add: flag_defs flag_table_mem [THEN set_flag_low_bit])
  have "any f = (bit (raw f) 0 \<or> (\<exists>name. name \<in> flag_names f))"
    and "flag_set_is_empty f = (flag_names f = {} \<and> \<not> bit (raw f) 0)"
    using raw_zero_iff [of f] by (auto simp: any_def flag_set_is_empty_def word_gt_0)
  moreover have "raw (clear f) = 0" "raw flag_set_empty = 0" "raw (flag_set_new r) = r" "raw (flag_set_from r) = r" "raw (set_raw f r) = r"
    by (simp_all add: clear_def flag_set_empty_def flag_set_new_def flag_set_from_def set_raw_def)
  moreover have "flag_names (clear f) = {}" "flag_names flag_set_empty = {}"
    using calculation raw_zero_iff by blast+
  ultimately show ?thesis
    using low unfolding flag_defs
    by (simp add: flag_table_mem [THEN flag_names_mem] flag_table_mem [THEN flag_names_set] flag_set_is_empty_def)
qed

end
