(* ===== verification/Codec.thy ===== *)
theory Codec
  imports Prelude
begin

text \<open>
  Fixed-size binary layouts. The record structs of the crate are \<^verbatim>\<open>repr(C)\<close> with no padding
  (rust/dbn/src/record/layout_tests.rs asserts it), and the crate reads and writes them by
  viewing their memory as bytes; on the little-endian targets it supports, that view is the
  concatenation of the little-endian fields. The interface of such a layout is the locale
  \<open>codec\<close>: a value that is \<open>ok\<close> (its arrays have the lengths their types say) is written
  to exactly \<open>size\<close> bytes and read back, and any \<open>size\<close> bytes are the layout of an
  \<open>ok\<close> value. Integers, byte arrays and arrays of structs interpret it here, each struct
  in the theory that declares it.
\<close>

definition rd :: "(bytes \<Rightarrow> 'a \<times> bytes) \<Rightarrow> bytes \<Rightarrow> 'a" where
  "rd get bs = fst (get bs)"

named_theorems rd_simps \<open>reading a layout off any sufficiently long byte sequence\<close>

locale codec =
  fixes put :: "'a \<Rightarrow> bytes" and get :: "bytes \<Rightarrow> 'a \<times> bytes" and size :: nat
    and ok :: "'a \<Rightarrow> bool"
  assumes get_put [codec_simps]: "ok r \<Longrightarrow> get (put r @ bs) = (r, bs)"
    and length_put [size_simps]: "ok r \<Longrightarrow> length (put r) = size"
    and get_ok: "size \<le> length bs \<Longrightarrow> ok (fst (get bs))"
    and put_get: "size \<le> length bs \<Longrightarrow> put (fst (get bs)) @ snd (get bs) = bs"
begin

lemma rd_ok [rd_simps]: "size \<le> length bs \<Longrightarrow> ok (rd get bs)"
  by (simp add: rd_def get_ok)

lemma put_rd [rd_simps]: "size \<le> length bs \<Longrightarrow> put (rd get bs) = take size bs"
  using put_get [of bs] length_put [OF get_ok, of bs] by (metis append_eq_conv_conj rd_def)

lemma get_eq [rd_simps]: "size \<le> length bs \<Longrightarrow> get bs = (rd get bs, drop size bs)"
  using put_get [of bs] length_put [OF get_ok, of bs]
  by (metis append_eq_conv_conj prod.collapse rd_def)

lemma rd_put: "ok r \<Longrightarrow> rd get (put r @ bs) = r"
  by (simp add: rd_def get_put)

lemma put_inject: "ok r \<Longrightarrow> ok s \<Longrightarrow> put r = put s \<longleftrightarrow> r = s"
  by (metis get_put prod.inject)

end

lemma take_drop_join [rd_simps]: "m = k + j \<Longrightarrow> take k (drop j bs) @ drop m bs = drop j bs"
  by (metis append_take_drop_id drop_drop)

lemma append_take_drop_join [rd_simps]:
  "m = k + j \<Longrightarrow> take k (drop j bs) @ drop m bs @ cs = drop j bs @ cs"
  by (metis append.assoc take_drop_join)

section \<open>Integers and arrays\<close>

lemma word_le_codec:
  assumes "LENGTH('a::len) = 8 * n"
  shows "codec (\<lambda>x. le_enc n (unat (x :: 'a word)))
           (\<lambda>bs. (word_of_nat (le_dec (take n bs)), drop n bs)) n (\<lambda>_. True)"
proof
  have w: "(256 :: nat) ^ n = 2 ^ LENGTH('a)"
    by (simp add: assms power_mult)
  show "(word_of_nat (le_dec (take n (le_enc n (unat x) @ bs))), drop n (le_enc n (unat x) @ bs)) = (x, bs)"
    for x :: "'a word" and bs
    using unat_less [of x] by (simp add: le_dec_le_enc w)
  show "le_enc n (unat (fst (word_of_nat (le_dec (take n bs)) :: 'a word, drop n bs))) @
      snd (word_of_nat (le_dec (take n bs)) :: 'a word, drop n bs) = bs" if "n \<le> length bs" for bs
    using that le_dec_less [of "take n bs"] le_enc_le_dec [of "take n bs"]
    by (simp add: unat_of_nat take_bit_eq_mod w [symmetric] min_absorb2)
qed auto

lemma put_u8_le_enc: "put_u8 = (\<lambda>x. le_enc 1 (unat x))"
  using unat_less [where 'a = 8] by (simp add: put_u8_def [abs_def])

interpretation u8_codec: codec put_u8 get_u8 1 "\<lambda>_. True"
  using word_le_codec [where 'a = 8 and n = 1]
  by (simp add: put_u8_le_enc get_u8_def [abs_def])

interpretation u16_codec: codec put_u16 get_u16 2 "\<lambda>_. True"
  using word_le_codec [where 'a = 16 and n = 2]
  by (simp add: put_u16_def [abs_def] get_u16_def [abs_def])

interpretation u32_codec: codec put_u32 get_u32 4 "\<lambda>_. True"
  using word_le_codec [where 'a = 32 and n = 4]
  by (simp add: put_u32_def [abs_def] get_u32_def [abs_def])

interpretation u64_codec: codec put_u64 get_u64 8 "\<lambda>_. True"
  using word_le_codec [where 'a = 64 and n = 8]
  by (simp add: put_u64_def [abs_def] get_u64_def [abs_def])

lemma get_arr_rd [rd_simps]: "get_arr n bs = (take n bs, drop n bs)"
  by (simp add: get_arr_def)

text \<open>An array of structs: its elements one after the other.\<close>

primrec put_list :: "('a \<Rightarrow> bytes) \<Rightarrow> 'a list \<Rightarrow> bytes" where
  "put_list p [] = []"
| "put_list p (x # xs) = p x @ put_list p xs"

primrec get_list :: "nat \<Rightarrow> (bytes \<Rightarrow> 'a \<times> bytes) \<Rightarrow> bytes \<Rightarrow> 'a list \<times> bytes" where
  "get_list 0 g bs = ([], bs)"
| "get_list (Suc n) g bs =
     (let (x, bs) = g bs; (xs, bs) = get_list n g bs in (x # xs, bs))"

lemma codec_list:
  assumes "codec p g k P"
  shows "codec (put_list p) (get_list n g) (n * k) (\<lambda>xs. length xs = n \<and> list_all P xs)"
proof -
  note get_put = codec.get_put [OF assms] and len = codec.length_put [OF assms]
    and get_ok = codec.get_ok [OF assms] and get_eq = codec.get_eq [OF assms]
    and put_rd = codec.put_rd [OF assms] and rd_ok = codec.rd_ok [OF assms]
  show ?thesis
  proof
    show "get_list n g (put_list p xs @ bs) = (xs, bs)" if "length xs = n \<and> list_all P xs" for xs bs
      using that by (induction xs arbitrary: n) (auto simp: get_put)
    show "length (put_list p xs) = n * k" if "length xs = n \<and> list_all P xs" for xs
      using that by (induction xs arbitrary: n) (auto simp: len)
    have *: "(let (xs, rest) = get_list n g bs in
        length xs = n \<and> list_all P xs \<and> put_list p xs @ rest = bs)" if "n * k \<le> length bs" for bs
      using that
    proof (induction n arbitrary: bs)
      case (Suc n)
      then have k: "k \<le> length bs" and "n * k \<le> length (drop k bs)" by auto
      with Suc.IH [of "drop k bs"] show ?case
        by (auto simp: get_eq rd_ok put_rd split: prod.splits)
    qed simp
    show "length (fst (get_list n g bs)) = n \<and> list_all P (fst (get_list n g bs))"
      if "n * k \<le> length bs" for bs
      using * [OF that] by (auto split: prod.splits)
    show "put_list p (fst (get_list n g bs)) @ snd (get_list n g bs) = bs"
      if "n * k \<le> length bs" for bs
      using * [OF that] by (auto split: prod.splits)
  qed
qed

declare put_list.simps [simp del] get_list.simps [simp del]

end
