(* ===== verification/Records.thy ===== *)
theory Records
  imports Codec Enums Flags
begin

text \<open>
  The record structs of rust/dbn/src/record.rs that are common to all DBN versions, and their
  memory layout. A struct \<^verbatim>\<open>MboMsg\<close> is the record \<open>MboMsg\<close> whose fields carry the prefix
  \<open>mbo_\<close> (the leading underscore of reserved fields is dropped); \<open>put_MboMsg\<close> is the byte view
  that \<^verbatim>\<open>AsRef<[u8]>\<close> gives (rust/dbn-macros/src/has_rtype.rs, \<^verbatim>\<open>as_u8_slice\<close> of
  record/conv.rs), \<open>get_MboMsg\<close> the cast of bytes to the struct, and \<open>MboMsg_ok\<close> says that
  the array fields have the lengths of their types. Every struct interprets the interface
  \<open>codec\<close> with the size that the layout tests of the repository assert.
\<close>

section \<open>Definitions\<close>

definition put_FlagSet :: "flag_set \<Rightarrow> bytes" where "put_FlagSet f = put_u8 (raw f)"

definition get_FlagSet :: "bytes \<Rightarrow> flag_set \<times> bytes" where
  "get_FlagSet bs = (let (r, bs) = get_u8 bs in (\<lparr>raw = r\<rparr>, bs))"

subsection \<open>RecordHeader\<close>

record RecordHeader =
  rh_length :: u8
  rh_rtype :: u8
  rh_publisher_id :: u16
  rh_instrument_id :: u32
  rh_ts_event :: u64

definition put_RecordHeader :: "RecordHeader \<Rightarrow> bytes" where
  "put_RecordHeader r =
    put_u8 (rh_length r) @ put_u8 (rh_rtype r) @ put_u16 (rh_publisher_id r) @
    put_u32 (rh_instrument_id r) @ put_u64 (rh_ts_event r)"

definition get_RecordHeader :: "bytes \<Rightarrow> RecordHeader \<times> bytes" where
  "get_RecordHeader bs =
    (let (len, bs) = get_u8 bs;
         (rtype, bs) = get_u8 bs;
         (publisher_id, bs) = get_u16 bs;
         (instrument_id, bs) = get_u32 bs;
         (ts_event, bs) = get_u64 bs
     in
      (\<lparr>rh_length = len, rh_rtype = rtype, rh_publisher_id = publisher_id,
        rh_instrument_id = instrument_id, rh_ts_event = ts_event\<rparr>, bs))"

subsection \<open>MboMsg\<close>

record MboMsg =
  mbo_hd :: RecordHeader
  mbo_order_id :: u64
  mbo_price :: i64
  mbo_size :: u32
  mbo_flags :: flag_set
  mbo_channel_id :: u8
  mbo_action :: c_char
  mbo_side :: c_char
  mbo_ts_recv :: u64
  mbo_ts_in_delta :: i32
  mbo_sequence :: u32

definition put_MboMsg :: "MboMsg \<Rightarrow> bytes" where
  "put_MboMsg r =
    put_RecordHeader (mbo_hd r) @ put_u64 (mbo_order_id r) @ put_u64 (mbo_price r) @
    put_u32 (mbo_size r) @ put_FlagSet (mbo_flags r) @ put_u8 (mbo_channel_id r) @
    put_u8 (mbo_action r) @ put_u8 (mbo_side r) @ put_u64 (mbo_ts_recv r) @
    put_u32 (mbo_ts_in_delta r) @ put_u32 (mbo_sequence r)"

definition get_MboMsg :: "bytes \<Rightarrow> MboMsg \<times> bytes" where
  "get_MboMsg bs =
    (let (hdr, bs) = get_RecordHeader bs;
         (order_id, bs) = get_u64 bs;
         (price, bs) = get_u64 bs;
         (sz, bs) = get_u32 bs;
         (flags, bs) = get_FlagSet bs;
         (channel_id, bs) = get_u8 bs;
         (action, bs) = get_u8 bs;
         (side, bs) = get_u8 bs;
         (ts_recv, bs) = get_u64 bs;
         (ts_in_delta, bs) = get_u32 bs;
         (sequence, bs) = get_u32 bs
     in
      (\<lparr>mbo_hd = hdr, mbo_order_id = order_id, mbo_price = price, mbo_size = sz,
        mbo_flags = flags, mbo_channel_id = channel_id, mbo_action = action, mbo_side = side,
        mbo_ts_recv = ts_recv, mbo_ts_in_delta = ts_in_delta,
        mbo_sequence = sequence\<rparr>, bs))"

subsection \<open>BidAskPair\<close>

record BidAskPair =
  bap_bid_px :: i64
  bap_ask_px :: i64
  bap_bid_sz :: u32
  bap_ask_sz :: u32
  bap_bid_ct :: u32
  bap_ask_ct :: u32

definition put_BidAskPair :: "BidAskPair \<Rightarrow> bytes" where
  "put_BidAskPair r =
    put_u64 (bap_bid_px r) @ put_u64 (bap_ask_px r) @ put_u32 (bap_bid_sz r) @
    put_u32 (bap_ask_sz r) @ put_u32 (bap_bid_ct r) @ put_u32 (bap_ask_ct r)"

definition get_BidAskPair :: "bytes \<Rightarrow> BidAskPair \<times> bytes" where
  "get_BidAskPair bs =
    (let (bid_px, bs) = get_u64 bs;
         (ask_px, bs) = get_u64 bs;
         (bid_sz, bs) = get_u32 bs;
         (ask_sz, bs) = get_u32 bs;
         (bid_ct, bs) = get_u32 bs;
         (ask_ct, bs) = get_u32 bs
     in
      (\<lparr>bap_bid_px = bid_px, bap_ask_px = ask_px, bap_bid_sz = bid_sz,
        bap_ask_sz = ask_sz, bap_bid_ct = bid_ct, bap_ask_ct = ask_ct\<rparr>, bs))"

subsection \<open>ConsolidatedBidAskPair\<close>

record ConsolidatedBidAskPair =
  cbap_bid_px :: i64
  cbap_ask_px :: i64
  cbap_bid_sz :: u32
  cbap_ask_sz :: u32
  cbap_bid_pb :: u16
  cbap_reserved1 :: bytes
  cbap_ask_pb :: u16
  cbap_reserved2 :: bytes

definition put_ConsolidatedBidAskPair :: "ConsolidatedBidAskPair \<Rightarrow> bytes" where
  "put_ConsolidatedBidAskPair r =
    put_u64 (cbap_bid_px r) @ put_u64 (cbap_ask_px r) @ put_u32 (cbap_bid_sz r) @
    put_u32 (cbap_ask_sz r) @ put_u16 (cbap_bid_pb r) @ cbap_reserved1 r @
    put_u16 (cbap_ask_pb r) @ cbap_reserved2 r"

definition get_ConsolidatedBidAskPair :: "bytes \<Rightarrow> ConsolidatedBidAskPair \<times> bytes" where
  "get_ConsolidatedBidAskPair bs =
    (let (bid_px, bs) = get_u64 bs;
         (ask_px, bs) = get_u64 bs;
         (bid_sz, bs) = get_u32 bs;
         (ask_sz, bs) = get_u32 bs;
         (bid_pb, bs) = get_u16 bs;
         (reserved1, bs) = get_arr 2 bs;
         (ask_pb, bs) = get_u16 bs;
         (reserved2, bs) = get_arr 2 bs
     in
      (\<lparr>cbap_bid_px = bid_px, cbap_ask_px = ask_px, cbap_bid_sz = bid_sz,
        cbap_ask_sz = ask_sz, cbap_bid_pb = bid_pb, cbap_reserved1 = reserved1,
        cbap_ask_pb = ask_pb, cbap_reserved2 = reserved2\<rparr>, bs))"

definition ConsolidatedBidAskPair_ok :: "ConsolidatedBidAskPair \<Rightarrow> bool" where
  "ConsolidatedBidAskPair_ok r \<longleftrightarrow>
     length (cbap_reserved1 r) = 2 \<and> length (cbap_reserved2 r) = 2"

subsection \<open>TradeMsg\<close>

record TradeMsg =
  trade_hd :: RecordHeader
  trade_price :: i64
  trade_size :: u32
  trade_action :: c_char
  trade_side :: c_char
  trade_flags :: flag_set
  trade_depth :: u8
  trade_ts_recv :: u64
  trade_ts_in_delta :: i32
  trade_sequence :: u32

definition put_TradeMsg :: "TradeMsg \<Rightarrow> bytes" where
  "put_TradeMsg r =
    put_RecordHeader (trade_hd r) @ put_u64 (trade_price r) @ put_u32 (trade_size r) @
    put_u8 (trade_action r) @ put_u8 (trade_side r) @ put_FlagSet (trade_flags r) @
    put_u8 (trade_depth r) @ put_u64 (trade_ts_recv r) @ put_u32 (trade_ts_in_delta r) @
    put_u32 (trade_sequence r)"

definition get_TradeMsg :: "bytes \<Rightarrow> TradeMsg \<times> bytes" where
  "get_TradeMsg bs =
    (let (hdr, bs) = get_RecordHeader bs;
         (price, bs) = get_u64 bs;
         (sz, bs) = get_u32 bs;
         (action, bs) = get_u8 bs;
         (side, bs) = get_u8 bs;
         (flags, bs) = get_FlagSet bs;
         (depth, bs) = get_u8 bs;
         (ts_recv, bs) = get_u64 bs;
         (ts_in_delta, bs) = get_u32 bs;
         (sequence, bs) = get_u32 bs
     in
      (\<lparr>trade_hd = hdr, trade_price = price, trade_size = sz, trade_action = action,
        trade_side = side, trade_flags = flags, trade_depth = depth, trade_ts_recv = ts_recv,
        trade_ts_in_delta = ts_in_delta, trade_sequence = sequence\<rparr>, bs))"

subsection \<open>Mbp1Msg\<close>

record Mbp1Msg =
  mbp1_hd :: RecordHeader
  mbp1_price :: i64
  mbp1_size :: u32
  mbp1_action :: c_char
  mbp1_side :: c_char
  mbp1_flags :: flag_set
  mbp1_depth :: u8
  mbp1_ts_recv :: u64
  mbp1_ts_in_delta :: i32
  mbp1_sequence :: u32
  mbp1_levels :: "BidAskPair list"

definition put_Mbp1Msg :: "Mbp1Msg \<Rightarrow> bytes" where
  "put_Mbp1Msg r =
    put_RecordHeader (mbp1_hd r) @ put_u64 (mbp1_price r) @ put_u32 (mbp1_size r) @
    put_u8 (mbp1_action r) @ put_u8 (mbp1_side r) @ put_FlagSet (mbp1_flags r) @
    put_u8 (mbp1_depth r) @ put_u64 (mbp1_ts_recv r) @ put_u32 (mbp1_ts_in_delta r) @
    put_u32 (mbp1_sequence r) @ put_list put_BidAskPair (mbp1_levels r)"

definition get_Mbp1Msg :: "bytes \<Rightarrow> Mbp1Msg \<times> bytes" where
  "get_Mbp1Msg bs =
    (let (hdr, bs) = get_RecordHeader bs;
         (price, bs) = get_u64 bs;
         (sz, bs) = get_u32 bs;
         (action, bs) = get_u8 bs;
         (side, bs) = get_u8 bs;
         (flags, bs) = get_FlagSet bs;
         (depth, bs) = get_u8 bs;
         (ts_recv, bs) = get_u64 bs;
         (ts_in_delta, bs) = get_u32 bs;
         (sequence, bs) = get_u32 bs;
         (levels, bs) = get_list 1 get_BidAskPair bs
     in
      (\<lparr>mbp1_hd = hdr, mbp1_price = price, mbp1_size = sz, mbp1_action = action,
        mbp1_side = side, mbp1_flags = flags, mbp1_depth = depth, mbp1_ts_recv = ts_recv,
        mbp1_ts_in_delta = ts_in_delta, mbp1_sequence = sequence,
        mbp1_levels = levels\<rparr>, bs))"

definition Mbp1Msg_ok :: "Mbp1Msg \<Rightarrow> bool" where
  "Mbp1Msg_ok r \<longleftrightarrow>
     length (mbp1_levels r) = 1"

subsection \<open>Mbp10Msg\<close>

record Mbp10Msg =
  mbp10_hd :: RecordHeader
  mbp10_price :: i64
  mbp10_size :: u32
  mbp10_action :: c_char
  mbp10_side :: c_char
  mbp10_flags :: flag_set
  mbp10_depth :: u8
  mbp10_ts_recv :: u64
  mbp10_ts_in_delta :: i32
  mbp10_sequence :: u32
  mbp10_levels :: "BidAskPair list"

definition put_Mbp10Msg :: "Mbp10Msg \<Rightarrow> bytes" where
  "put_Mbp10Msg r =
    put_RecordHeader (mbp10_hd r) @ put_u64 (mbp10_price r) @ put_u32 (mbp10_size r) @
    put_u8 (mbp10_action r) @ put_u8 (mbp10_side r) @ put_FlagSet (mbp10_flags r) @
    put_u8 (mbp10_depth r) @ put_u64 (mbp10_ts_recv r) @ put_u32 (mbp10_ts_in_delta r) @
    put_u32 (mbp10_sequence r) @ put_list put_BidAskPair (mbp10_levels r)"

definition get_Mbp10Msg :: "bytes \<Rightarrow> Mbp10Msg \<times> bytes" where
  "get_Mbp10Msg bs =
    (let (hdr, bs) = get_RecordHeader bs;
         (price, bs) = get_u64 bs;
         (sz, bs) = get_u32 bs;
         (action, bs) = get_u8 bs;
         (side, bs) = get_u8 bs;
         (flags, bs) = get_FlagSet bs;
         (depth, bs) = get_u8 bs;
         (ts_recv, bs) = get_u64 bs;
         (ts_in_delta, bs) = get_u32 bs;
         (sequence, bs) = get_u32 bs;
         (levels, bs) = get_list 10 get_BidAskPair bs
     in
      (\<lparr>mbp10_hd = hdr, mbp10_price = price, mbp10_size = sz, mbp10_action = action,
        mbp10_side = side, mbp10_flags = flags, mbp10_depth = depth, mbp10_ts_recv = ts_recv,
        mbp10_ts_in_delta = ts_in_delta, mbp10_sequence = sequence,
        mbp10_levels = levels\<rparr>, bs))"

definition Mbp10Msg_ok :: "Mbp10Msg \<Rightarrow> bool" where
  "Mbp10Msg_ok r \<longleftrightarrow>
     length (mbp10_levels r) = 10"

subsection \<open>BboMsg\<close>

record BboMsg =
  bbo_hd :: RecordHeader
  bbo_price :: i64
  bbo_size :: u32
  bbo_reserved1 :: u8
  bbo_side :: c_char
  bbo_flags :: flag_set
  bbo_reserved2 :: u8
  bbo_ts_recv :: u64
  bbo_reserved3 :: bytes
  bbo_sequence :: u32
  bbo_levels :: "BidAskPair list"

definition put_BboMsg :: "BboMsg \<Rightarrow> bytes" where
  "put_BboMsg r =
    put_RecordHeader (bbo_hd r) @ put_u64 (bbo_price r) @ put_u32 (bbo_size r) @
    put_u8 (bbo_reserved1 r) @ put_u8 (bbo_side r) @ put_FlagSet (bbo_flags r) @
    put_u8 (bbo_reserved2 r) @ put_u64 (bbo_ts_recv r) @ bbo_reserved3 r @
    put_u32 (bbo_sequence r) @ put_list put_BidAskPair (bbo_levels r)"

definition get_BboMsg :: "bytes \<Rightarrow> BboMsg \<times> bytes" where
  "get_BboMsg bs =
    (let (hdr, bs) = get_RecordHeader bs;
         (price, bs) = get_u64 bs;
         (sz, bs) = get_u32 bs;
         (reserved1, bs) = get_u8 bs;
         (side, bs) = get_u8 bs;
         (flags, bs) = get_FlagSet bs;
         (reserved2, bs) = get_u8 bs;
         (ts_recv, bs) = get_u64 bs;
         (reserved3, bs) = get_arr 4 bs;
         (sequence, bs) = get_u32 bs;
         (levels, bs) = get_list 1 get_BidAskPair bs
     in
      (\<lparr>bbo_hd = hdr, bbo_price = price, bbo_size = sz, bbo_reserved1 = reserved1,
        bbo_side = side, bbo_flags = flags, bbo_reserved2 = reserved2, bbo_ts_recv = ts_recv,
        bbo_reserved3 = reserved3, bbo_sequence = sequence, bbo_levels = levels\<rparr>, bs))"

definition BboMsg_ok :: "BboMsg \<Rightarrow> bool" where
  "BboMsg_ok r \<longleftrightarrow>
     length (bbo_reserved3 r) = 4 \<and> length (bbo_levels r) = 1"

subsection \<open>Cmbp1Msg\<close>

record Cmbp1Msg =
  cmbp1_hd :: RecordHeader
  cmbp1_price :: i64
  cmbp1_size :: u32
  cmbp1_action :: c_char
  cmbp1_side :: c_char
  cmbp1_flags :: flag_set
  cmbp1_reserved1 :: bytes
  cmbp1_ts_recv :: u64
  cmbp1_ts_in_delta :: i32
  cmbp1_reserved2 :: bytes
  cmbp1_levels :: "ConsolidatedBidAskPair list"

definition put_Cmbp1Msg :: "Cmbp1Msg \<Rightarrow> bytes" where
  "put_Cmbp1Msg r =
    put_RecordHeader (cmbp1_hd r) @ put_u64 (cmbp1_price r) @ put_u32 (cmbp1_size r) @
    put_u8 (cmbp1_action r) @ put_u8 (cmbp1_side r) @ put_FlagSet (cmbp1_flags r) @
    cmbp1_reserved1 r @ put_u64 (cmbp1_ts_recv r) @ put_u32 (cmbp1_ts_in_delta r) @
    cmbp1_reserved2 r @ put_list put_ConsolidatedBidAskPair (cmbp1_levels r)"

definition get_Cmbp1Msg :: "bytes \<Rightarrow> Cmbp1Msg \<times> bytes" where
  "get_Cmbp1Msg bs =
    (let (hdr, bs) = get_RecordHeader bs;
         (price, bs) = get_u64 bs;
         (sz, bs) = get_u32 bs;
         (action, bs) = get_u8 bs;
         (side, bs) = get_u8 bs;
         (flags, bs) = get_FlagSet bs;
         (reserved1, bs) = get_arr 1 bs;
         (ts_recv, bs) = get_u64 bs;
         (ts_in_delta, bs) = get_u32 bs;
         (reserved2, bs) = get_arr 4 bs;
         (levels, bs) = get_list 1 get_ConsolidatedBidAskPair bs
     in
      (\<lparr>cmbp1_hd = hdr, cmbp1_price = price, cmbp1_size = sz, cmbp1_action = action,
        cmbp1_side = side, cmbp1_flags = flags, cmbp1_reserved1 = reserved1,
        cmbp1_ts_recv = ts_recv, cmbp1_ts_in_delta = ts_in_delta, cmbp1_reserved2 = reserved2,
        cmbp1_levels = levels\<rparr>, bs))"

definition Cmbp1Msg_ok :: "Cmbp1Msg \<Rightarrow> bool" where
  "Cmbp1Msg_ok r \<longleftrightarrow>
     length (cmbp1_reserved1 r) = 1 \<and> length (cmbp1_reserved2 r) = 4 \<and>
     length (cmbp1_levels r) = 1 \<and> list_all (\<lambda>x. ConsolidatedBidAskPair_ok x) (cmbp1_levels r)"

subsection \<open>CbboMsg\<close>

record CbboMsg =
  cbbo_hd :: RecordHeader
  cbbo_price :: i64
  cbbo_size :: u32
  cbbo_reserved1 :: u8
  cbbo_side :: c_char
  cbbo_flags :: flag_set
  cbbo_reserved2 :: u8
  cbbo_ts_recv :: u64
  cbbo_reserved3 :: bytes
  cbbo_levels :: "ConsolidatedBidAskPair list"

definition put_CbboMsg :: "CbboMsg \<Rightarrow> bytes" where
  "put_CbboMsg r =
    put_RecordHeader (cbbo_hd r) @ put_u64 (cbbo_price r) @ put_u32 (cbbo_size r) @
    put_u8 (cbbo_reserved1 r) @ put_u8 (cbbo_side r) @ put_FlagSet (cbbo_flags r) @
    put_u8 (cbbo_reserved2 r) @ put_u64 (cbbo_ts_recv r) @ cbbo_reserved3 r @
    put_list put_ConsolidatedBidAskPair (cbbo_levels r)"

definition get_CbboMsg :: "bytes \<Rightarrow> CbboMsg \<times> bytes" where
  "get_CbboMsg bs =
    (let (hdr, bs) = get_RecordHeader bs;
         (price, bs) = get_u64 bs;
         (sz, bs) = get_u32 bs;
         (reserved1, bs) = get_u8 bs;
         (side, bs) = get_u8 bs;
         (flags, bs) = get_FlagSet bs;
         (reserved2, bs) = get_u8 bs;
         (ts_recv, bs) = get_u64 bs;
         (reserved3, bs) = get_arr 8 bs;
         (levels, bs) = get_list 1 get_ConsolidatedBidAskPair bs
     in
      (\<lparr>cbbo_hd = hdr, cbbo_price = price, cbbo_size = sz, cbbo_reserved1 = reserved1,
        cbbo_side = side, cbbo_flags = flags, cbbo_reserved2 = reserved2,
        cbbo_ts_recv = ts_recv, cbbo_reserved3 = reserved3, cbbo_levels = levels\<rparr>, bs))"

definition CbboMsg_ok :: "CbboMsg \<Rightarrow> bool" where
  "CbboMsg_ok r \<longleftrightarrow>
     length (cbbo_reserved3 r) = 8 \<and>
     length (cbbo_levels r) = 1 \<and> list_all (\<lambda>x. ConsolidatedBidAskPair_ok x) (cbbo_levels r)"

subsection \<open>OhlcvMsg\<close>

record OhlcvMsg =
  ohlcv_hd :: RecordHeader
  ohlcv_open :: i64
  ohlcv_high :: i64
  ohlcv_low :: i64
  ohlcv_close :: i64
  ohlcv_volume :: u64

definition put_OhlcvMsg :: "OhlcvMsg \<Rightarrow> bytes" where
  "put_OhlcvMsg r =
    put_RecordHeader (ohlcv_hd r) @ put_u64 (ohlcv_open r) @ put_u64 (ohlcv_high r) @
    put_u64 (ohlcv_low r) @ put_u64 (ohlcv_close r) @ put_u64 (ohlcv_volume r)"

definition get_OhlcvMsg :: "bytes \<Rightarrow> OhlcvMsg \<times> bytes" where
  "get_OhlcvMsg bs =
    (let (hdr, bs) = get_RecordHeader bs;
         (open, bs) = get_u64 bs;
         (high, bs) = get_u64 bs;
         (low, bs) = get_u64 bs;
         (close, bs) = get_u64 bs;
         (volume, bs) = get_u64 bs
     in
      (\<lparr>ohlcv_hd = hdr, ohlcv_open = open, ohlcv_high = high, ohlcv_low = low,
        ohlcv_close = close, ohlcv_volume = volume\<rparr>, bs))"

subsection \<open>StatusMsg\<close>

record StatusMsg =
  status_hd :: RecordHeader
  status_ts_recv :: u64
  status_action :: u16
  status_reason :: u16
  status_trading_event :: u16
  status_is_trading :: c_char
  status_is_quoting :: c_char
  status_is_short_sell_restricted :: c_char
  status_reserved :: bytes

definition put_StatusMsg :: "StatusMsg \<Rightarrow> bytes" where
  "put_StatusMsg r =
    put_RecordHeader (status_hd r) @ put_u64 (status_ts_recv r) @ put_u16 (status_action r) @
    put_u16 (status_reason r) @ put_u16 (status_trading_event r) @
    put_u8 (status_is_trading r) @ put_u8 (status_is_quoting r) @
    put_u8 (status_is_short_sell_restricted r) @ status_reserved r"

definition get_StatusMsg :: "bytes \<Rightarrow> StatusMsg \<times> bytes" where
  "get_StatusMsg bs =
    (let (hdr, bs) = get_RecordHeader bs;
         (ts_recv, bs) = get_u64 bs;
         (action, bs) = get_u16 bs;
         (reason, bs) = get_u16 bs;
         (trading_event, bs) = get_u16 bs;
         (is_trading, bs) = get_u8 bs;
         (is_quoting, bs) = get_u8 bs;
         (is_short_sell_restricted, bs) = get_u8 bs;
         (reserved, bs) = get_arr 7 bs
     in
      (\<lparr>status_hd = hdr, status_ts_recv = ts_recv, status_action = action,
        status_reason = reason, status_trading_event = trading_event,
        status_is_trading = is_trading, status_is_quoting = is_quoting,
        status_is_short_sell_restricted = is_short_sell_restricted,
        status_reserved = reserved\<rparr>, bs))"

definition StatusMsg_ok :: "StatusMsg \<Rightarrow> bool" where
  "StatusMsg_ok r \<longleftrightarrow>
     length (status_reserved r) = 7"

subsection \<open>ImbalanceMsg\<close>

record ImbalanceMsg =
  imb_hd :: RecordHeader
  imb_ts_recv :: u64
  imb_ref_price :: i64
  imb_auction_time :: u64
  imb_cont_book_clr_price :: i64
  imb_auct_interest_clr_price :: i64
  imb_ssr_filling_price :: i64
  imb_ind_match_price :: i64
  imb_upper_collar :: i64
  imb_lower_collar :: i64
  imb_paired_qty :: u32
  imb_total_imbalance_qty :: u32
  imb_market_imbalance_qty :: u32
  imb_unpaired_qty :: u32
  imb_auction_type :: c_char
  imb_side :: c_char
  imb_auction_status :: u8
  imb_freeze_status :: u8
  imb_num_extensions :: u8
  imb_unpaired_side :: c_char
  imb_significant_imbalance :: c_char
  imb_reserved :: bytes

definition put_ImbalanceMsg :: "ImbalanceMsg \<Rightarrow> bytes" where
  "put_ImbalanceMsg r =
    put_RecordHeader (imb_hd r) @ put_u64 (imb_ts_recv r) @ put_u64 (imb_ref_price r) @
    put_u64 (imb_auction_time r) @ put_u64 (imb_cont_book_clr_price r) @
    put_u64 (imb_auct_interest_clr_price r) @ put_u64 (imb_ssr_filling_price r) @
    put_u64 (imb_ind_match_price r) @ put_u64 (imb_upper_collar r) @
    put_u64 (imb_lower_collar r) @ put_u32 (imb_paired_qty r) @
    put_u32 (imb_total_imbalance_qty r) @ put_u32 (imb_market_imbalance_qty r) @
    put_u32 (imb_unpaired_qty r) @ put_u8 (imb_auction_type r) @ put_u8 (imb_side r) @
    put_u8 (imb_auction_status r) @ put_u8 (imb_freeze_status r) @
    put_u8 (imb_num_extensions r) @ put_u8 (imb_unpaired_side r) @
    put_u8 (imb_significant_imbalance r) @ imb_reserved r"

definition get_ImbalanceMsg :: "bytes \<Rightarrow> ImbalanceMsg \<times> bytes" where
  "get_ImbalanceMsg bs =
    (let (hdr, bs) = get_RecordHeader bs;
         (ts_recv, bs) = get_u64 bs;
         (ref_price, bs) = get_u64 bs;
         (auction_time, bs) = get_u64 bs;
         (cont_book_clr_price, bs) = get_u64 bs;
         (auct_interest_clr_price, bs) = get_u64 bs;
         (ssr_filling_price, bs) = get_u64 bs;
         (ind_match_price, bs) = get_u64 bs;
         (upper_collar, bs) = get_u64 bs;
         (lower_collar, bs) = get_u64 bs;
         (paired_qty, bs) = get_u32 bs;
         (total_imbalance_qty, bs) = get_u32 bs;
         (market_imbalance_qty, bs) = get_u32 bs;
         (unpaired_qty, bs) = get_u32 bs;
         (auction_type, bs) = get_u8 bs;
         (side, bs) = get_u8 bs;
         (auction_status, bs) = get_u8 bs;
         (freeze_status, bs) = get_u8 bs;
         (num_extensions, bs) = get_u8 bs;
         (unpaired_side, bs) = get_u8 bs;
         (significant_imbalance, bs) = get_u8 bs;
         (reserved, bs) = get_arr 1 bs
     in
      (\<lparr>imb_hd = hdr, imb_ts_recv = ts_recv, imb_ref_price = ref_price,
        imb_auction_time = auction_time, imb_cont_book_clr_price = cont_book_clr_price,
        imb_auct_interest_clr_price = auct_interest_clr_price,
        imb_ssr_filling_price = ssr_filling_price, imb_ind_match_price = ind_match_price,
        imb_upper_collar = upper_collar, imb_lower_collar = lower_collar,
        imb_paired_qty = paired_qty, imb_total_imbalance_qty = total_imbalance_qty,
        imb_market_imbalance_qty = market_imbalance_qty, imb_unpaired_qty = unpaired_qty,
        imb_auction_type = auction_type, imb_side = side, imb_auction_status = auction_status,
        imb_freeze_status = freeze_status, imb_num_extensions = num_extensions,
        imb_unpaired_side = unpaired_side, imb_significant_imbalance = significant_imbalance,
        imb_reserved = reserved\<rparr>, bs))"

definition ImbalanceMsg_ok :: "ImbalanceMsg \<Rightarrow> bool" where
  "ImbalanceMsg_ok r \<longleftrightarrow>
     length (imb_reserved r) = 1"

section \<open>Layouts\<close>

interpretation flag_codec: codec put_FlagSet get_FlagSet 1 "\<lambda>_. True"
proof
  show "get_FlagSet (put_FlagSet f @ bs) = (f, bs)" for f bs
    by (cases f) (simp add: get_FlagSet_def put_FlagSet_def)
  show "put_FlagSet (fst (get_FlagSet bs)) @ snd (get_FlagSet bs) = bs" if "1 \<le> length bs" for bs
    using that by (simp add: get_FlagSet_def put_FlagSet_def rd_simps)
qed (simp_all add: put_FlagSet_def)

interpretation rh_codec: codec put_RecordHeader get_RecordHeader 16 "\<lambda>_. True"
proof
  show "get_RecordHeader (put_RecordHeader r @ bs) = (r, bs)" for r bs
    by (simp add: get_RecordHeader_def put_RecordHeader_def codec_simps)
  show "length (put_RecordHeader r) = 16" for r
    by (simp add: put_RecordHeader_def size_simps)
  show "True" if "16 \<le> length bs" for bs
    by simp
  show "put_RecordHeader (fst (get_RecordHeader bs)) @ snd (get_RecordHeader bs) = bs" if "16 \<le> length bs" for bs
    using that by (simp add: get_RecordHeader_def put_RecordHeader_def rd_simps)
qed

interpretation mbo_codec: codec put_MboMsg get_MboMsg 56 "\<lambda>_. True"
proof
  show "get_MboMsg (put_MboMsg r @ bs) = (r, bs)" for r bs
    by (simp add: get_MboMsg_def put_MboMsg_def codec_simps)
  show "length (put_MboMsg r) = 56" for r
    by (simp add: put_MboMsg_def size_simps)
  show "True" if "56 \<le> length bs" for bs
    by simp
  show "put_MboMsg (fst (get_MboMsg bs)) @ snd (get_MboMsg bs) = bs" if "56 \<le> length bs" for bs
    using that by (simp add: get_MboMsg_def put_MboMsg_def rd_simps)
qed

interpretation bap_codec: codec put_BidAskPair get_BidAskPair 32 "\<lambda>_. True"
proof
  show "get_BidAskPair (put_BidAskPair r @ bs) = (r, bs)" for r bs
    by (simp add: get_BidAskPair_def put_BidAskPair_def codec_simps)
  show "length (put_BidAskPair r) = 32" for r
    by (simp add: put_BidAskPair_def size_simps)
  show "True" if "32 \<le> length bs" for bs
    by simp
  show "put_BidAskPair (fst (get_BidAskPair bs)) @ snd (get_BidAskPair bs) = bs" if "32 \<le> length bs" for bs
    using that by (simp add: get_BidAskPair_def put_BidAskPair_def rd_simps)
qed

interpretation bap1_codec:
  codec "put_list put_BidAskPair" "get_list (Suc 0) get_BidAskPair" 32 "\<lambda>xs. length xs = Suc 0"
  using codec_list [OF bap_codec.codec_axioms, where n = 1] by (simp add: list_all_iff)

interpretation bap10_codec:
  codec "put_list put_BidAskPair" "get_list 10 get_BidAskPair" 320 "\<lambda>xs. length xs = 10"
  using codec_list [OF bap_codec.codec_axioms, where n = 10] by (simp add: list_all_iff)

interpretation cbap_codec: codec put_ConsolidatedBidAskPair get_ConsolidatedBidAskPair 32 ConsolidatedBidAskPair_ok
proof
  show "get_ConsolidatedBidAskPair (put_ConsolidatedBidAskPair r @ bs) = (r, bs)" if "ConsolidatedBidAskPair_ok r" for r bs
    using that by (simp add: get_ConsolidatedBidAskPair_def put_ConsolidatedBidAskPair_def ConsolidatedBidAskPair_ok_def codec_simps)
  show "length (put_ConsolidatedBidAskPair r) = 32" if "ConsolidatedBidAskPair_ok r" for r
    using that by (simp add: put_ConsolidatedBidAskPair_def ConsolidatedBidAskPair_ok_def size_simps)
  show "ConsolidatedBidAskPair_ok (fst (get_ConsolidatedBidAskPair bs))" if "32 \<le> length bs" for bs
    using that by (simp add: get_ConsolidatedBidAskPair_def ConsolidatedBidAskPair_ok_def rd_simps)
  show "put_ConsolidatedBidAskPair (fst (get_ConsolidatedBidAskPair bs)) @ snd (get_ConsolidatedBidAskPair bs) = bs" if "32 \<le> length bs" for bs
    using that by (simp add: get_ConsolidatedBidAskPair_def put_ConsolidatedBidAskPair_def rd_simps)
qed

interpretation cbap1_codec:
  codec "put_list put_ConsolidatedBidAskPair" "get_list (Suc 0) get_ConsolidatedBidAskPair" 32
    "\<lambda>xs. length xs = Suc 0 \<and> list_all ConsolidatedBidAskPair_ok xs"
  using codec_list [OF cbap_codec.codec_axioms, where n = 1] by simp

interpretation trade_codec: codec put_TradeMsg get_TradeMsg 48 "\<lambda>_. True"
proof
  show "get_TradeMsg (put_TradeMsg r @ bs) = (r, bs)" for r bs
    by (simp add: get_TradeMsg_def put_TradeMsg_def codec_simps)
  show "length (put_TradeMsg r) = 48" for r
    by (simp add: put_TradeMsg_def size_simps)
  show "True" if "48 \<le> length bs" for bs
    by simp
  show "put_TradeMsg (fst (get_TradeMsg bs)) @ snd (get_TradeMsg bs) = bs" if "48 \<le> length bs" for bs
    using that by (simp add: get_TradeMsg_def put_TradeMsg_def rd_simps)
qed

interpretation mbp1_codec: codec put_Mbp1Msg get_Mbp1Msg 80 Mbp1Msg_ok
proof
  show "get_Mbp1Msg (put_Mbp1Msg r @ bs) = (r, bs)" if "Mbp1Msg_ok r" for r bs
    using that by (simp add: get_Mbp1Msg_def put_Mbp1Msg_def Mbp1Msg_ok_def codec_simps)
  show "length (put_Mbp1Msg r) = 80" if "Mbp1Msg_ok r" for r
    using that by (simp add: put_Mbp1Msg_def Mbp1Msg_ok_def size_simps)
  show "Mbp1Msg_ok (fst (get_Mbp1Msg bs))" if "80 \<le> length bs" for bs
    using that by (simp add: get_Mbp1Msg_def Mbp1Msg_ok_def rd_simps)
  show "put_Mbp1Msg (fst (get_Mbp1Msg bs)) @ snd (get_Mbp1Msg bs) = bs" if "80 \<le> length bs" for bs
    using that by (simp add: get_Mbp1Msg_def put_Mbp1Msg_def rd_simps)
qed

interpretation mbp10_codec: codec put_Mbp10Msg get_Mbp10Msg 368 Mbp10Msg_ok
proof
  show "get_Mbp10Msg (put_Mbp10Msg r @ bs) = (r, bs)" if "Mbp10Msg_ok r" for r bs
    using that by (simp add: get_Mbp10Msg_def put_Mbp10Msg_def Mbp10Msg_ok_def codec_simps)
  show "length (put_Mbp10Msg r) = 368" if "Mbp10Msg_ok r" for r
    using that by (simp add: put_Mbp10Msg_def Mbp10Msg_ok_def size_simps)
  show "Mbp10Msg_ok (fst (get_Mbp10Msg bs))" if "368 \<le> length bs" for bs
    using that by (simp add: get_Mbp10Msg_def Mbp10Msg_ok_def rd_simps)
  show "put_Mbp10Msg (fst (get_Mbp10Msg bs)) @ snd (get_Mbp10Msg bs) = bs" if "368 \<le> length bs" for bs
    using that by (simp add: get_Mbp10Msg_def put_Mbp10Msg_def rd_simps)
qed

interpretation bbo_codec: codec put_BboMsg get_BboMsg 80 BboMsg_ok
proof
  show "get_BboMsg (put_BboMsg r @ bs) = (r, bs)" if "BboMsg_ok r" for r bs
    using that by (simp add: get_BboMsg_def put_BboMsg_def BboMsg_ok_def codec_simps)
  show "length (put_BboMsg r) = 80" if "BboMsg_ok r" for r
    using that by (simp add: put_BboMsg_def BboMsg_ok_def size_simps)
  show "BboMsg_ok (fst (get_BboMsg bs))" if "80 \<le> length bs" for bs
    using that by (simp add: get_BboMsg_def BboMsg_ok_def rd_simps)
  show "put_BboMsg (fst (get_BboMsg bs)) @ snd (get_BboMsg bs) = bs" if "80 \<le> length bs" for bs
    using that by (simp add: get_BboMsg_def put_BboMsg_def rd_simps)
qed

interpretation cmbp1_codec: codec put_Cmbp1Msg get_Cmbp1Msg 80 Cmbp1Msg_ok
proof
  show "get_Cmbp1Msg (put_Cmbp1Msg r @ bs) = (r, bs)" if "Cmbp1Msg_ok r" for r bs
    using that by (simp add: get_Cmbp1Msg_def put_Cmbp1Msg_def Cmbp1Msg_ok_def codec_simps)
  show "length (put_Cmbp1Msg r) = 80" if "Cmbp1Msg_ok r" for r
    using that by (simp add: put_Cmbp1Msg_def Cmbp1Msg_ok_def size_simps)
  show "Cmbp1Msg_ok (fst (get_Cmbp1Msg bs))" if "80 \<le> length bs" for bs
    using that by (simp add: get_Cmbp1Msg_def Cmbp1Msg_ok_def rd_simps)
  show "put_Cmbp1Msg (fst (get_Cmbp1Msg bs)) @ snd (get_Cmbp1Msg bs) = bs" if "80 \<le> length bs" for bs
    using that by (simp add: get_Cmbp1Msg_def put_Cmbp1Msg_def rd_simps)
qed

interpretation cbbo_codec: codec put_CbboMsg get_CbboMsg 80 CbboMsg_ok
proof
  show "get_CbboMsg (put_CbboMsg r @ bs) = (r, bs)" if "CbboMsg_ok r" for r bs
    using that by (simp add: get_CbboMsg_def put_CbboMsg_def CbboMsg_ok_def codec_simps)
  show "length (put_CbboMsg r) = 80" if "CbboMsg_ok r" for r
    using that by (simp add: put_CbboMsg_def CbboMsg_ok_def size_simps)
  show "CbboMsg_ok (fst (get_CbboMsg bs))" if "80 \<le> length bs" for bs
    using that by (simp add: get_CbboMsg_def CbboMsg_ok_def rd_simps)
  show "put_CbboMsg (fst (get_CbboMsg bs)) @ snd (get_CbboMsg bs) = bs" if "80 \<le> length bs" for bs
    using that by (simp add: get_CbboMsg_def put_CbboMsg_def rd_simps)
qed

interpretation ohlcv_codec: codec put_OhlcvMsg get_OhlcvMsg 56 "\<lambda>_. True"
proof
  show "get_OhlcvMsg (put_OhlcvMsg r @ bs) = (r, bs)" for r bs
    by (simp add: get_OhlcvMsg_def put_OhlcvMsg_def codec_simps)
  show "length (put_OhlcvMsg r) = 56" for r
    by (simp add: put_OhlcvMsg_def size_simps)
  show "True" if "56 \<le> length bs" for bs
    by simp
  show "put_OhlcvMsg (fst (get_OhlcvMsg bs)) @ snd (get_OhlcvMsg bs) = bs" if "56 \<le> length bs" for bs
    using that by (simp add: get_OhlcvMsg_def put_OhlcvMsg_def rd_simps)
qed

interpretation status_codec: codec put_StatusMsg get_StatusMsg 40 StatusMsg_ok
proof
  show "get_StatusMsg (put_StatusMsg r @ bs) = (r, bs)" if "StatusMsg_ok r" for r bs
    using that by (simp add: get_StatusMsg_def put_StatusMsg_def StatusMsg_ok_def codec_simps)
  show "length (put_StatusMsg r) = 40" if "StatusMsg_ok r" for r
    using that by (simp add: put_StatusMsg_def StatusMsg_ok_def size_simps)
  show "StatusMsg_ok (fst (get_StatusMsg bs))" if "40 \<le> length bs" for bs
    using that by (simp add: get_StatusMsg_def StatusMsg_ok_def rd_simps)
  show "put_StatusMsg (fst (get_StatusMsg bs)) @ snd (get_StatusMsg bs) = bs" if "40 \<le> length bs" for bs
    using that by (simp add: get_StatusMsg_def put_StatusMsg_def rd_simps)
qed

interpretation imb_codec: codec put_ImbalanceMsg get_ImbalanceMsg 112 ImbalanceMsg_ok
proof
  show "get_ImbalanceMsg (put_ImbalanceMsg r @ bs) = (r, bs)" if "ImbalanceMsg_ok r" for r bs
    using that by (simp add: get_ImbalanceMsg_def put_ImbalanceMsg_def ImbalanceMsg_ok_def codec_simps)
  show "length (put_ImbalanceMsg r) = 112" if "ImbalanceMsg_ok r" for r
    using that by (simp add: put_ImbalanceMsg_def ImbalanceMsg_ok_def size_simps)
  show "ImbalanceMsg_ok (fst (get_ImbalanceMsg bs))" if "112 \<le> length bs" for bs
    using that by (simp add: get_ImbalanceMsg_def ImbalanceMsg_ok_def rd_simps)
  show "put_ImbalanceMsg (fst (get_ImbalanceMsg bs)) @ snd (get_ImbalanceMsg bs) = bs" if "112 \<le> length bs" for bs
    using that by (simp add: get_ImbalanceMsg_def put_ImbalanceMsg_def rd_simps)
qed

end
