(* ===== verification/Versioned_Records.thy ===== *)
theory Versioned_Records
  imports Records
begin

text \<open>
  The record structs whose layout changed between DBN versions: version 1 structs of
  rust/dbn/src/compat.rs (suffix \<^verbatim>\<open>V1\<close>; the statistics struct is shared by versions 1 and 2),
  the version 2 instrument definition, and the current structs of rust/dbn/src/record.rs.
  In version 1 and 2 instrument definitions two fields are Rust enumerations stored as a byte;
  they are kept as that byte.
\<close>

section \<open>Definitions\<close>

subsection \<open>ErrorMsgV1\<close>

record ErrorMsgV1 =
  err1_hd :: RecordHeader
  err1_err :: bytes

definition put_ErrorMsgV1 :: "ErrorMsgV1 \<Rightarrow> bytes" where
  "put_ErrorMsgV1 r =
    put_RecordHeader (err1_hd r) @ err1_err r"

definition get_ErrorMsgV1 :: "bytes \<Rightarrow> ErrorMsgV1 \<times> bytes" where
  "get_ErrorMsgV1 bs =
    (let (hdr, bs) = get_RecordHeader bs;
         (err, bs) = get_arr 64 bs
     in
      (\<lparr>err1_hd = hdr, err1_err = err\<rparr>, bs))"

definition ErrorMsgV1_ok :: "ErrorMsgV1 \<Rightarrow> bool" where
  "ErrorMsgV1_ok r \<longleftrightarrow>
     length (err1_err r) = 64"

subsection \<open>StatMsgV1\<close>

record StatMsgV1 =
  stat1_hd :: RecordHeader
  stat1_ts_recv :: u64
  stat1_ts_ref :: u64
  stat1_price :: i64
  stat1_quantity :: i32
  stat1_sequence :: u32
  stat1_ts_in_delta :: i32
  stat1_stat_type :: u16
  stat1_channel_id :: u16
  stat1_update_action :: u8
  stat1_stat_flags :: u8
  stat1_reserved :: bytes

definition put_StatMsgV1 :: "StatMsgV1 \<Rightarrow> bytes" where
  "put_StatMsgV1 r =
    put_RecordHeader (stat1_hd r) @ put_u64 (stat1_ts_recv r) @ put_u64 (stat1_ts_ref r) @
    put_u64 (stat1_price r) @ put_u32 (stat1_quantity r) @ put_u32 (stat1_sequence r) @
    put_u32 (stat1_ts_in_delta r) @ put_u16 (stat1_stat_type r) @
    put_u16 (stat1_channel_id r) @ put_u8 (stat1_update_action r) @
    put_u8 (stat1_stat_flags r) @ stat1_reserved r"

definition get_StatMsgV1 :: "bytes \<Rightarrow> StatMsgV1 \<times> bytes" where
  "get_StatMsgV1 bs =
    (let (hdr, bs) = get_RecordHeader bs;
         (ts_recv, bs) = get_u64 bs;
         (ts_ref, bs) = get_u64 bs;
         (price, bs) = get_u64 bs;
         (quantity, bs) = get_u32 bs;
         (sequence, bs) = get_u32 bs;
         (ts_in_delta, bs) = get_u32 bs;
         (stat_type, bs) = get_u16 bs;
         (channel_id, bs) = get_u16 bs;
         (update_action, bs) = get_u8 bs;
         (stat_flags, bs) = get_u8 bs;
         (reserved, bs) = get_arr 6 bs
     in
      (\<lparr>stat1_hd = hdr, stat1_ts_recv = ts_recv, stat1_ts_ref = ts_ref,
        stat1_price = price, stat1_quantity = quantity, stat1_sequence = sequence,
        stat1_ts_in_delta = ts_in_delta, stat1_stat_type = stat_type,
        stat1_channel_id = channel_id, stat1_update_action = update_action,
        stat1_stat_flags = stat_flags, stat1_reserved = reserved\<rparr>, bs))"

definition StatMsgV1_ok :: "StatMsgV1 \<Rightarrow> bool" where
  "StatMsgV1_ok r \<longleftrightarrow>
     length (stat1_reserved r) = 6"

subsection \<open>SymbolMappingMsgV1\<close>

record SymbolMappingMsgV1 =
  sm1_hd :: RecordHeader
  sm1_stype_in_symbol :: bytes
  sm1_stype_out_symbol :: bytes
  sm1_dummy :: bytes
  sm1_start_ts :: u64
  sm1_end_ts :: u64

definition put_SymbolMappingMsgV1 :: "SymbolMappingMsgV1 \<Rightarrow> bytes" where
  "put_SymbolMappingMsgV1 r =
    put_RecordHeader (sm1_hd r) @ sm1_stype_in_symbol r @ sm1_stype_out_symbol r @
    sm1_dummy r @ put_u64 (sm1_start_ts r) @ put_u64 (sm1_end_ts r)"

definition get_SymbolMappingMsgV1 :: "bytes \<Rightarrow> SymbolMappingMsgV1 \<times> bytes" where
  "get_SymbolMappingMsgV1 bs =
    (let (hdr, bs) = get_RecordHeader bs;
         (stype_in_symbol, bs) = get_arr 22 bs;
         (stype_out_symbol, bs) = get_arr 22 bs;
         (dummy, bs) = get_arr 4 bs;
         (start_ts, bs) = get_u64 bs;
         (end_ts, bs) = get_u64 bs
     in
      (\<lparr>sm1_hd = hdr, sm1_stype_in_symbol = stype_in_symbol,
        sm1_stype_out_symbol = stype_out_symbol, sm1_dummy = dummy, sm1_start_ts = start_ts,
        sm1_end_ts = end_ts\<rparr>, bs))"

definition SymbolMappingMsgV1_ok :: "SymbolMappingMsgV1 \<Rightarrow> bool" where
  "SymbolMappingMsgV1_ok r \<longleftrightarrow>
     length (sm1_stype_in_symbol r) = 22 \<and> length (sm1_stype_out_symbol r) = 22 \<and>
     length (sm1_dummy r) = 4"

subsection \<open>SystemMsgV1\<close>

record SystemMsgV1 =
  sys1_hd :: RecordHeader
  sys1_msg :: bytes

definition put_SystemMsgV1 :: "SystemMsgV1 \<Rightarrow> bytes" where
  "put_SystemMsgV1 r =
    put_RecordHeader (sys1_hd r) @ sys1_msg r"

definition get_SystemMsgV1 :: "bytes \<Rightarrow> SystemMsgV1 \<times> bytes" where
  "get_SystemMsgV1 bs =
    (let (hdr, bs) = get_RecordHeader bs;
         (msg, bs) = get_arr 64 bs
     in
      (\<lparr>sys1_hd = hdr, sys1_msg = msg\<rparr>, bs))"

definition SystemMsgV1_ok :: "SystemMsgV1 \<Rightarrow> bool" where
  "SystemMsgV1_ok r \<longleftrightarrow>
     length (sys1_msg r) = 64"

subsection \<open>ErrorMsg\<close>

record ErrorMsg =
  err2_hd :: RecordHeader
  err2_err :: bytes
  err2_code :: u8
  err2_is_last :: u8

definition put_ErrorMsg :: "ErrorMsg \<Rightarrow> bytes" where
  "put_ErrorMsg r =
    put_RecordHeader (err2_hd r) @ err2_err r @ put_u8 (err2_code r) @ put_u8 (err2_is_last r)"

definition get_ErrorMsg :: "bytes \<Rightarrow> ErrorMsg \<times> bytes" where
  "get_ErrorMsg bs =
    (let (hdr, bs) = get_RecordHeader bs;
         (err, bs) = get_arr 302 bs;
         (code, bs) = get_u8 bs;
         (is_last, bs) = get_u8 bs
     in
      (\<lparr>err2_hd = hdr, err2_err = err, err2_code = code,
        err2_is_last = is_last\<rparr>, bs))"

definition ErrorMsg_ok :: "ErrorMsg \<Rightarrow> bool" where
  "ErrorMsg_ok r \<longleftrightarrow>
     length (err2_err r) = 302"

subsection \<open>StatMsg\<close>

record StatMsg =
  stat3_hd :: RecordHeader
  stat3_ts_recv :: u64
  stat3_ts_ref :: u64
  stat3_price :: i64
  stat3_quantity :: i64
  stat3_sequence :: u32
  stat3_ts_in_delta :: i32
  stat3_stat_type :: u16
  stat3_channel_id :: u16
  stat3_update_action :: u8
  stat3_stat_flags :: u8
  stat3_reserved :: bytes

definition put_StatMsg :: "StatMsg \<Rightarrow> bytes" where
  "put_StatMsg r =
    put_RecordHeader (stat3_hd r) @ put_u64 (stat3_ts_recv r) @ put_u64 (stat3_ts_ref r) @
    put_u64 (stat3_price r) @ put_u64 (stat3_quantity r) @ put_u32 (stat3_sequence r) @
    put_u32 (stat3_ts_in_delta r) @ put_u16 (stat3_stat_type r) @
    put_u16 (stat3_channel_id r) @ put_u8 (stat3_update_action r) @
    put_u8 (stat3_stat_flags r) @ stat3_reserved r"

definition get_StatMsg :: "bytes \<Rightarrow> StatMsg \<times> bytes" where
  "get_StatMsg bs =
    (let (hdr, bs) = get_RecordHeader bs;
         (ts_recv, bs) = get_u64 bs;
         (ts_ref, bs) = get_u64 bs;
         (price, bs) = get_u64 bs;
         (quantity, bs) = get_u64 bs;
         (sequence, bs) = get_u32 bs;
         (ts_in_delta, bs) = get_u32 bs;
         (stat_type, bs) = get_u16 bs;
         (channel_id, bs) = get_u16 bs;
         (update_action, bs) = get_u8 bs;
         (stat_flags, bs) = get_u8 bs;
         (reserved, bs) = get_arr 18 bs
     in
      (\<lparr>stat3_hd = hdr, stat3_ts_recv = ts_recv, stat3_ts_ref = ts_ref,
        stat3_price = price, stat3_quantity = quantity, stat3_sequence = sequence,
        stat3_ts_in_delta = ts_in_delta, stat3_stat_type = stat_type,
        stat3_channel_id = channel_id, stat3_update_action = update_action,
        stat3_stat_flags = stat_flags, stat3_reserved = reserved\<rparr>, bs))"

definition StatMsg_ok :: "StatMsg \<Rightarrow> bool" where
  "StatMsg_ok r \<longleftrightarrow>
     length (stat3_reserved r) = 18"

subsection \<open>SymbolMappingMsg\<close>

record SymbolMappingMsg =
  sm2_hd :: RecordHeader
  sm2_stype_in :: u8
  sm2_stype_in_symbol :: bytes
  sm2_stype_out :: u8
  sm2_stype_out_symbol :: bytes
  sm2_start_ts :: u64
  sm2_end_ts :: u64

definition put_SymbolMappingMsg :: "SymbolMappingMsg \<Rightarrow> bytes" where
  "put_SymbolMappingMsg r =
    put_RecordHeader (sm2_hd r) @ put_u8 (sm2_stype_in r) @ sm2_stype_in_symbol r @
    put_u8 (sm2_stype_out r) @ sm2_stype_out_symbol r @ put_u64 (sm2_start_ts r) @
    put_u64 (sm2_end_ts r)"

definition get_SymbolMappingMsg :: "bytes \<Rightarrow> SymbolMappingMsg \<times> bytes" where
  "get_SymbolMappingMsg bs =
    (let (hdr, bs) = get_RecordHeader bs;
         (stype_in, bs) = get_u8 bs;
         (stype_in_symbol, bs) = get_arr 71 bs;
         (stype_out, bs) = get_u8 bs;
         (stype_out_symbol, bs) = get_arr 71 bs;
         (start_ts, bs) = get_u64 bs;
         (end_ts, bs) = get_u64 bs
     in
      (\<lparr>sm2_hd = hdr, sm2_stype_in = stype_in, sm2_stype_in_symbol = stype_in_symbol,
        sm2_stype_out = stype_out, sm2_stype_out_symbol = stype_out_symbol,
        sm2_start_ts = start_ts, sm2_end_ts = end_ts\<rparr>, bs))"

definition SymbolMappingMsg_ok :: "SymbolMappingMsg \<Rightarrow> bool" where
  "SymbolMappingMsg_ok r \<longleftrightarrow>
     length (sm2_stype_in_symbol r) = 71 \<and> length (sm2_stype_out_symbol r) = 71"

subsection \<open>SystemMsg\<close>

record SystemMsg =
  sys2_hd :: RecordHeader
  sys2_msg :: bytes
  sys2_code :: u8

definition put_SystemMsg :: "SystemMsg \<Rightarrow> bytes" where
  "put_SystemMsg r =
    put_RecordHeader (sys2_hd r) @ sys2_msg r @ put_u8 (sys2_code r)"

definition get_SystemMsg :: "bytes \<Rightarrow> SystemMsg \<times> bytes" where
  "get_SystemMsg bs =
    (let (hdr, bs) = get_RecordHeader bs;
         (msg, bs) = get_arr 303 bs;
         (code, bs) = get_u8 bs
     in
      (\<lparr>sys2_hd = hdr, sys2_msg = msg, sys2_code = code\<rparr>, bs))"

definition SystemMsg_ok :: "SystemMsg \<Rightarrow> bool" where
  "SystemMsg_ok r \<longleftrightarrow>
     length (sys2_msg r) = 303"

subsection \<open>InstrumentDefMsgV1\<close>

record InstrumentDefMsgV1 =
  def1_hd :: RecordHeader
  def1_ts_recv :: u64
  def1_min_price_increment :: i64
  def1_display_factor :: i64
  def1_expiration :: u64
  def1_activation :: u64
  def1_high_limit_price :: i64
  def1_low_limit_price :: i64
  def1_max_price_variation :: i64
  def1_trading_reference_price :: i64
  def1_unit_of_measure_qty :: i64
  def1_min_price_increment_amount :: i64
  def1_price_ratio :: i64
  def1_inst_attrib_value :: i32
  def1_underlying_id :: u32
  def1_raw_instrument_id :: u32
  def1_market_depth_implied :: i32
  def1_market_depth :: i32
  def1_market_segment_id :: u32
  def1_max_trade_vol :: u32
  def1_min_lot_size :: i32
  def1_min_lot_size_block :: i32
  def1_min_lot_size_round_lot :: i32
  def1_min_trade_vol :: u32
  def1_reserved2 :: bytes
  def1_contract_multiplier :: i32
  def1_decay_quantity :: i32
  def1_original_contract_size :: i32
  def1_reserved3 :: bytes
  def1_trading_reference_date :: u16
  def1_appl_id :: i16
  def1_maturity_year :: u16
  def1_decay_start_date :: u16
  def1_channel_id :: u16
  def1_currency :: bytes
  def1_settl_currency :: bytes
  def1_secsubtype :: bytes
  def1_raw_symbol :: bytes
  def1_group :: bytes
  def1_exchange :: bytes
  def1_asset :: bytes
  def1_cfi :: bytes
  def1_security_type :: bytes
  def1_unit_of_measure :: bytes
  def1_underlying :: bytes
  def1_strike_price_currency :: bytes
  def1_instrument_class :: c_char
  def1_reserved4 :: bytes
  def1_strike_price :: i64
  def1_reserved5 :: bytes
  def1_match_algorithm :: c_char
  def1_md_security_trading_status :: u8
  def1_main_fraction :: u8
  def1_price_display_format :: u8
  def1_settl_price_type :: u8
  def1_sub_fraction :: u8
  def1_underlying_product :: u8
  def1_security_update_action :: u8
  def1_maturity_month :: u8
  def1_maturity_day :: u8
  def1_maturity_week :: u8
  def1_user_defined_instrument :: u8
  def1_contract_multiplier_unit :: i8
  def1_flow_schedule_type :: i8
  def1_tick_rule :: u8
  def1_dummy :: bytes

definition put_InstrumentDefMsgV1 :: "InstrumentDefMsgV1 \<Rightarrow> bytes" where
  "put_InstrumentDefMsgV1 r =
    put_RecordHeader (def1_hd r) @ put_u64 (def1_ts_recv r) @
    put_u64 (def1_min_price_increment r) @ put_u64 (def1_display_factor r) @
    put_u64 (def1_expiration r) @ put_u64 (def1_activation r) @
    put_u64 (def1_high_limit_price r) @ put_u64 (def1_low_limit_price r) @
    put_u64 (def1_max_price_variation r) @ put_u64 (def1_trading_reference_price r) @
    put_u64 (def1_unit_of_measure_qty r) @ put_u64 (def1_min_price_increment_amount r) @
    put_u64 (def1_price_ratio r) @ put_u32 (def1_inst_attrib_value r) @
    put_u32 (def1_underlying_id r) @ put_u32 (def1_raw_instrument_id r) @
    put_u32 (def1_market_depth_implied r) @ put_u32 (def1_market_depth r) @
    put_u32 (def1_market_segment_id r) @ put_u32 (def1_max_trade_vol r) @
    put_u32 (def1_min_lot_size r) @ put_u32 (def1_min_lot_size_block r) @
    put_u32 (def1_min_lot_size_round_lot r) @ put_u32 (def1_min_trade_vol r) @
    def1_reserved2 r @ put_u32 (def1_contract_multiplier r) @ put_u32 (def1_decay_quantity r) @
    put_u32 (def1_original_contract_size r) @ def1_reserved3 r @
    put_u16 (def1_trading_reference_date r) @ put_u16 (def1_appl_id r) @
    put_u16 (def1_maturity_year r) @ put_u16 (def1_decay_start_date r) @
    put_u16 (def1_channel_id r) @ def1_currency r @ def1_settl_currency r @ def1_secsubtype r @
    def1_raw_symbol r @ def1_group r @ def1_exchange r @ def1_asset r @ def1_cfi r @
    def1_security_type r @ def1_unit_of_measure r @ def1_underlying r @
    def1_strike_price_currency r @ put_u8 (def1_instrument_class r) @ def1_reserved4 r @
    put_u64 (def1_strike_price r) @ def1_reserved5 r @ put_u8 (def1_match_algorithm r) @
    put_u8 (def1_md_security_trading_status r) @ put_u8 (def1_main_fraction r) @
    put_u8 (def1_price_display_format r) @ put_u8 (def1_settl_price_type r) @
    put_u8 (def1_sub_fraction r) @ put_u8 (def1_underlying_product r) @
    put_u8 (def1_security_update_action r) @ put_u8 (def1_maturity_month r) @
    put_u8 (def1_maturity_day r) @ put_u8 (def1_maturity_week r) @
    put_u8 (def1_user_defined_instrument r) @ put_u8 (def1_contract_multiplier_unit r) @
    put_u8 (def1_flow_schedule_type r) @ put_u8 (def1_tick_rule r) @ def1_dummy r"

definition get_InstrumentDefMsgV1 :: "bytes \<Rightarrow> InstrumentDefMsgV1 \<times> bytes" where
  "get_InstrumentDefMsgV1 bs =
    (let (hdr, bs) = get_RecordHeader bs;
         (ts_recv, bs) = get_u64 bs;
         (min_price_increment, bs) = get_u64 bs;
         (display_factor, bs) = get_u64 bs;
         (expiration, bs) = get_u64 bs;
         (activation, bs) = get_u64 bs;
         (high_limit_price, bs) = get_u64 bs;
         (low_limit_price, bs) = get_u64 bs;
         (max_price_variation, bs) = get_u64 bs;
         (trading_reference_price, bs) = get_u64 bs;
         (unit_of_measure_qty, bs) = get_u64 bs;
         (min_price_increment_amount, bs) = get_u64 bs;
         (price_ratio, bs) = get_u64 bs;
         (inst_attrib_value, bs) = get_u32 bs;
         (underlying_id, bs) = get_u32 bs;
         (raw_instrument_id, bs) = get_u32 bs;
         (market_depth_implied, bs) = get_u32 bs;
         (market_depth, bs) = get_u32 bs;
         (market_segment_id, bs) = get_u32 bs;
         (max_trade_vol, bs) = get_u32 bs;
         (min_lot_size, bs) = get_u32 bs;
         (min_lot_size_block, bs) = get_u32 bs;
         (min_lot_size_round_lot, bs) = get_u32 bs;
         (min_trade_vol, bs) = get_u32 bs;
         (reserved2, bs) = get_arr 4 bs;
         (contract_multiplier, bs) = get_u32 bs;
         (decay_quantity, bs) = get_u32 bs;
         (original_contract_size, bs) = get_u32 bs;
         (reserved3, bs) = get_arr 4 bs;
         (trading_reference_date, bs) = get_u16 bs;
         (appl_id, bs) = get_u16 bs;
         (maturity_year, bs) = get_u16 bs;
         (decay_start_date, bs) = get_u16 bs;
         (channel_id, bs) = get_u16 bs;
         (currency, bs) = get_arr 4 bs;
         (settl_currency, bs) = get_arr 4 bs;
         (secsubtype, bs) = get_arr 6 bs;
         (raw_symbol, bs) = get_arr 22 bs;
         (group, bs) = get_arr 21 bs;
         (exchange, bs) = get_arr 5 bs;
         (asset, bs) = get_arr 7 bs;
         (cfi, bs) = get_arr 7 bs;
         (security_type, bs) = get_arr 7 bs;
         (unit_of_measure, bs) = get_arr 31 bs;
         (underlying, bs) = get_arr 21 bs;
         (strike_price_currency, bs) = get_arr 4 bs;
         (instrument_class, bs) = get_u8 bs;
         (reserved4, bs) = get_arr 2 bs;
         (strike_price, bs) = get_u64 bs;
         (reserved5, bs) = get_arr 6 bs;
         (match_algorithm, bs) = get_u8 bs;
         (md_security_trading_status, bs) = get_u8 bs;
         (main_fraction, bs) = get_u8 bs;
         (price_display_format, bs) = get_u8 bs;
         (settl_price_type, bs) = get_u8 bs;
         (sub_fraction, bs) = get_u8 bs;
         (underlying_product, bs) = get_u8 bs;
         (security_update_action, bs) = get_u8 bs;
         (maturity_month, bs) = get_u8 bs;
         (maturity_day, bs) = get_u8 bs;
         (maturity_week, bs) = get_u8 bs;
         (user_defined_instrument, bs) = get_u8 bs;
         (contract_multiplier_unit, bs) = get_u8 bs;
         (flow_schedule_type, bs) = get_u8 bs;
         (tick_rule, bs) = get_u8 bs;
         (dummy, bs) = get_arr 3 bs
     in
      (\<lparr>def1_hd = hdr, def1_ts_recv = ts_recv,
        def1_min_price_increment = min_price_increment, def1_display_factor = display_factor,
        def1_expiration = expiration, def1_activation = activation,
        def1_high_limit_price = high_limit_price, def1_low_limit_price = low_limit_price,
        def1_max_price_variation = max_price_variation,
        def1_trading_reference_price = trading_reference_price,
        def1_unit_of_measure_qty = unit_of_measure_qty,
        def1_min_price_increment_amount = min_price_increment_amount,
        def1_price_ratio = price_ratio, def1_inst_attrib_value = inst_attrib_value,
        def1_underlying_id = underlying_id, def1_raw_instrument_id = raw_instrument_id,
        def1_market_depth_implied = market_depth_implied, def1_market_depth = market_depth,
        def1_market_segment_id = market_segment_id, def1_max_trade_vol = max_trade_vol,
        def1_min_lot_size = min_lot_size, def1_min_lot_size_block = min_lot_size_block,
        def1_min_lot_size_round_lot = min_lot_size_round_lot,
        def1_min_trade_vol = min_trade_vol, def1_reserved2 = reserved2,
        def1_contract_multiplier = contract_multiplier, def1_decay_quantity = decay_quantity,
        def1_original_contract_size = original_contract_size, def1_reserved3 = reserved3,
        def1_trading_reference_date = trading_reference_date, def1_appl_id = appl_id,
        def1_maturity_year = maturity_year, def1_decay_start_date = decay_start_date,
        def1_channel_id = channel_id, def1_currency = currency,
        def1_settl_currency = settl_currency, def1_secsubtype = secsubtype,
        def1_raw_symbol = raw_symbol, def1_group = group, def1_exchange = exchange,
        def1_asset = asset, def1_cfi = cfi, def1_security_type = security_type,
        def1_unit_of_measure = unit_of_measure, def1_underlying = underlying,
        def1_strike_price_currency = strike_price_currency,
        def1_instrument_class = instrument_class, def1_reserved4 = reserved4,
        def1_strike_price = strike_price, def1_reserved5 = reserved5,
        def1_match_algorithm = match_algorithm,
        def1_md_security_trading_status = md_security_trading_status,
        def1_main_fraction = main_fraction, def1_price_display_format = price_display_format,
        def1_settl_price_type = settl_price_type, def1_sub_fraction = sub_fraction,
        def1_underlying_product = underlying_product,
        def1_security_update_action = security_update_action,
        def1_maturity_month = maturity_month, def1_maturity_day = maturity_day,
        def1_maturity_week = maturity_week,
        def1_user_defined_instrument = user_defined_instrument,
        def1_contract_multiplier_unit = contract_multiplier_unit,
        def1_flow_schedule_type = flow_schedule_type, def1_tick_rule = tick_rule,
        def1_dummy = dummy\<rparr>, bs))"

definition InstrumentDefMsgV1_ok :: "InstrumentDefMsgV1 \<Rightarrow> bool" where
  "InstrumentDefMsgV1_ok r \<longleftrightarrow>
     length (def1_reserved2 r) = 4 \<and> length (def1_reserved3 r) = 4 \<and>
     length (def1_currency r) = 4 \<and> length (def1_settl_currency r) = 4 \<and>
     length (def1_secsubtype r) = 6 \<and> length (def1_raw_symbol r) = 22 \<and>
     length (def1_group r) = 21 \<and> length (def1_exchange r) = 5 \<and>
     length (def1_asset r) = 7 \<and> length (def1_cfi r) = 7 \<and>
     length (def1_security_type r) = 7 \<and> length (def1_unit_of_measure r) = 31 \<and>
     length (def1_underlying r) = 21 \<and> length (def1_strike_price_currency r) = 4 \<and>
     length (def1_reserved4 r) = 2 \<and> length (def1_reserved5 r) = 6 \<and>
     length (def1_dummy r) = 3"

subsection \<open>InstrumentDefMsgV2\<close>

record InstrumentDefMsgV2 =
  def2_hd :: RecordHeader
  def2_ts_recv :: u64
  def2_min_price_increment :: i64
  def2_display_factor :: i64
  def2_expiration :: u64
  def2_activation :: u64
  def2_high_limit_price :: i64
  def2_low_limit_price :: i64
  def2_max_price_variation :: i64
  def2_trading_reference_price :: i64
  def2_unit_of_measure_qty :: i64
  def2_min_price_increment_amount :: i64
  def2_price_ratio :: i64
  def2_strike_price :: i64
  def2_inst_attrib_value :: i32
  def2_underlying_id :: u32
  def2_raw_instrument_id :: u32
  def2_market_depth_implied :: i32
  def2_market_depth :: i32
  def2_market_segment_id :: u32
  def2_max_trade_vol :: u32
  def2_min_lot_size :: i32
  def2_min_lot_size_block :: i32
  def2_min_lot_size_round_lot :: i32
  def2_min_trade_vol :: u32
  def2_contract_multiplier :: i32
  def2_decay_quantity :: i32
  def2_original_contract_size :: i32
  def2_trading_reference_date :: u16
  def2_appl_id :: i16
  def2_maturity_year :: u16
  def2_decay_start_date :: u16
  def2_channel_id :: u16
  def2_currency :: bytes
  def2_settl_currency :: bytes
  def2_secsubtype :: bytes
  def2_raw_symbol :: bytes
  def2_group :: bytes
  def2_exchange :: bytes
  def2_asset :: bytes
  def2_cfi :: bytes
  def2_security_type :: bytes
  def2_unit_of_measure :: bytes
  def2_underlying :: bytes
  def2_strike_price_currency :: bytes
  def2_instrument_class :: c_char
  def2_match_algorithm :: c_char
  def2_md_security_trading_status :: u8
  def2_main_fraction :: u8
  def2_price_display_format :: u8
  def2_settl_price_type :: u8
  def2_sub_fraction :: u8
  def2_underlying_product :: u8
  def2_security_update_action :: c_char
  def2_maturity_month :: u8
  def2_maturity_day :: u8
  def2_maturity_week :: u8
  def2_user_defined_instrument :: u8
  def2_contract_multiplier_unit :: i8
  def2_flow_schedule_type :: i8
  def2_tick_rule :: u8
  def2_reserved :: bytes

definition put_InstrumentDefMsgV2 :: "InstrumentDefMsgV2 \<Rightarrow> bytes" where
  "put_InstrumentDefMsgV2 r =
    put_RecordHeader (def2_hd r) @ put_u64 (def2_ts_recv r) @
    put_u64 (def2_min_price_increment r) @ put_u64 (def2_display_factor r) @
    put_u64 (def2_expiration r) @ put_u64 (def2_activation r) @
    put_u64 (def2_high_limit_price r) @ put_u64 (def2_low_limit_price r) @
    put_u64 (def2_max_price_variation r) @ put_u64 (def2_trading_reference_price r) @
    put_u64 (def2_unit_of_measure_qty r) @ put_u64 (def2_min_price_increment_amount r) @
    put_u64 (def2_price_ratio r) @ put_u64 (def2_strike_price r) @
    put_u32 (def2_inst_attrib_value r) @ put_u32 (def2_underlying_id r) @
    put_u32 (def2_raw_instrument_id r) @ put_u32 (def2_market_depth_implied r) @
    put_u32 (def2_market_depth r) @ put_u32 (def2_market_segment_id r) @
    put_u32 (def2_max_trade_vol r) @ put_u32 (def2_min_lot_size r) @
    put_u32 (def2_min_lot_size_block r) @ put_u32 (def2_min_lot_size_round_lot r) @
    put_u32 (def2_min_trade_vol r) @ put_u32 (def2_contract_multiplier r) @
    put_u32 (def2_decay_quantity r) @ put_u32 (def2_original_contract_size r) @
    put_u16 (def2_trading_reference_date r) @ put_u16 (def2_appl_id r) @
    put_u16 (def2_maturity_year r) @ put_u16 (def2_decay_start_date r) @
    put_u16 (def2_channel_id r) @ def2_currency r @ def2_settl_currency r @ def2_secsubtype r @
    def2_raw_symbol r @ def2_group r @ def2_exchange r @ def2_asset r @ def2_cfi r @
    def2_security_type r @ def2_unit_of_measure r @ def2_underlying r @
    def2_strike_price_currency r @ put_u8 (def2_instrument_class r) @
    put_u8 (def2_match_algorithm r) @ put_u8 (def2_md_security_trading_status r) @
    put_u8 (def2_main_fraction r) @ put_u8 (def2_price_display_format r) @
    put_u8 (def2_settl_price_type r) @ put_u8 (def2_sub_fraction r) @
    put_u8 (def2_underlying_product r) @ put_u8 (def2_security_update_action r) @
    put_u8 (def2_maturity_month r) @ put_u8 (def2_maturity_day r) @
    put_u8 (def2_maturity_week r) @ put_u8 (def2_user_defined_instrument r) @
    put_u8 (def2_contract_multiplier_unit r) @ put_u8 (def2_flow_schedule_type r) @
    put_u8 (def2_tick_rule r) @ def2_reserved r"

definition get_InstrumentDefMsgV2 :: "bytes \<Rightarrow> InstrumentDefMsgV2 \<times> bytes" where
  "get_InstrumentDefMsgV2 bs =
    (let (hdr, bs) = get_RecordHeader bs;
         (ts_recv, bs) = get_u64 bs;
         (min_price_increment, bs) = get_u64 bs;
         (display_factor, bs) = get_u64 bs;
         (expiration, bs) = get_u64 bs;
         (activation, bs) = get_u64 bs;
         (high_limit_price, bs) = get_u64 bs;
         (low_limit_price, bs) = get_u64 bs;
         (max_price_variation, bs) = get_u64 bs;
         (trading_reference_price, bs) = get_u64 bs;
         (unit_of_measure_qty, bs) = get_u64 bs;
         (min_price_increment_amount, bs) = get_u64 bs;
         (price_ratio, bs) = get_u64 bs;
         (strike_price, bs) = get_u64 bs;
         (inst_attrib_value, bs) = get_u32 bs;
         (underlying_id, bs) = get_u32 bs;
         (raw_instrument_id, bs) = get_u32 bs;
         (market_depth_implied, bs) = get_u32 bs;
         (market_depth, bs) = get_u32 bs;
         (market_segment_id, bs) = get_u32 bs;
         (max_trade_vol, bs) = get_u32 bs;
         (min_lot_size, bs) = get_u32 bs;
         (min_lot_size_block, bs) = get_u32 bs;
         (min_lot_size_round_lot, bs) = get_u32 bs;
         (min_trade_vol, bs) = get_u32 bs;
         (contract_multiplier, bs) = get_u32 bs;
         (decay_quantity, bs) = get_u32 bs;
         (original_contract_size, bs) = get_u32 bs;
         (trading_reference_date, bs) = get_u16 bs;
         (appl_id, bs) = get_u16 bs;
         (maturity_year, bs) = get_u16 bs;
         (decay_start_date, bs) = get_u16 bs;
         (channel_id, bs) = get_u16 bs;
         (currency, bs) = get_arr 4 bs;
         (settl_currency, bs) = get_arr 4 bs;
         (secsubtype, bs) = get_arr 6 bs;
         (raw_symbol, bs) = get_arr 71 bs;
         (group, bs) = get_arr 21 bs;
         (exchange, bs) = get_arr 5 bs;
         (asset, bs) = get_arr 7 bs;
         (cfi, bs) = get_arr 7 bs;
         (security_type, bs) = get_arr 7 bs;
         (unit_of_measure, bs) = get_arr 31 bs;
         (underlying, bs) = get_arr 21 bs;
         (strike_price_currency, bs) = get_arr 4 bs;
         (instrument_class, bs) = get_u8 bs;
         (match_algorithm, bs) = get_u8 bs;
         (md_security_trading_status, bs) = get_u8 bs;
         (main_fraction, bs) = get_u8 bs;
         (price_display_format, bs) = get_u8 bs;
         (settl_price_type, bs) = get_u8 bs;
         (sub_fraction, bs) = get_u8 bs;
         (underlying_product, bs) = get_u8 bs;
         (security_update_action, bs) = get_u8 bs;
         (maturity_month, bs) = get_u8 bs;
         (maturity_day, bs) = get_u8 bs;
         (maturity_week, bs) = get_u8 bs;
         (user_defined_instrument, bs) = get_u8 bs;
         (contract_multiplier_unit, bs) = get_u8 bs;
         (flow_schedule_type, bs) = get_u8 bs;
         (tick_rule, bs) = get_u8 bs;
         (reserved, bs) = get_arr 10 bs
     in
      (\<lparr>def2_hd = hdr, def2_ts_recv = ts_recv,
        def2_min_price_increment = min_price_increment, def2_display_factor = display_factor,
        def2_expiration = expiration, def2_activation = activation,
        def2_high_limit_price = high_limit_price, def2_low_limit_price = low_limit_price,
        def2_max_price_variation = max_price_variation,
        def2_trading_reference_price = trading_reference_price,
        def2_unit_of_measure_qty = unit_of_measure_qty,
        def2_min_price_increment_amount = min_price_increment_amount,
        def2_price_ratio = price_ratio, def2_strike_price = strike_price,
        def2_inst_attrib_value = inst_attrib_value, def2_underlying_id = underlying_id,
        def2_raw_instrument_id = raw_instrument_id,
        def2_market_depth_implied = market_depth_implied, def2_market_depth = market_depth,
        def2_market_segment_id = market_segment_id, def2_max_trade_vol = max_trade_vol,
        def2_min_lot_size = min_lot_size, def2_min_lot_size_block = min_lot_size_block,
        def2_min_lot_size_round_lot = min_lot_size_round_lot,
        def2_min_trade_vol = min_trade_vol, def2_contract_multiplier = contract_multiplier,
        def2_decay_quantity = decay_quantity,
        def2_original_contract_size = original_contract_size,
        def2_trading_reference_date = trading_reference_date, def2_appl_id = appl_id,
        def2_maturity_year = maturity_year, def2_decay_start_date = decay_start_date,
        def2_channel_id = channel_id, def2_currency = currency,
        def2_settl_currency = settl_currency, def2_secsubtype = secsubtype,
        def2_raw_symbol = raw_symbol, def2_group = group, def2_exchange = exchange,
        def2_asset = asset, def2_cfi = cfi, def2_security_type = security_type,
        def2_unit_of_measure = unit_of_measure, def2_underlying = underlying,
        def2_strike_price_currency = strike_price_currency,
        def2_instrument_class = instrument_class, def2_match_algorithm = match_algorithm,
        def2_md_security_trading_status = md_security_trading_status,
        def2_main_fraction = main_fraction, def2_price_display_format = price_display_format,
        def2_settl_price_type = settl_price_type, def2_sub_fraction = sub_fraction,
        def2_underlying_product = underlying_product,
        def2_security_update_action = security_update_action,
        def2_maturity_month = maturity_month, def2_maturity_day = maturity_day,
        def2_maturity_week = maturity_week,
        def2_user_defined_instrument = user_defined_instrument,
        def2_contract_multiplier_unit = contract_multiplier_unit,
        def2_flow_schedule_type = flow_schedule_type, def2_tick_rule = tick_rule,
        def2_reserved = reserved\<rparr>, bs))"

definition InstrumentDefMsgV2_ok :: "InstrumentDefMsgV2 \<Rightarrow> bool" where
  "InstrumentDefMsgV2_ok r \<longleftrightarrow>
     length (def2_currency r) = 4 \<and> length (def2_settl_currency r) = 4 \<and>
     length (def2_secsubtype r) = 6 \<and> length (def2_raw_symbol r) = 71 \<and>
     length (def2_group r) = 21 \<and> length (def2_exchange r) = 5 \<and>
     length (def2_asset r) = 7 \<and> length (def2_cfi r) = 7 \<and>
     length (def2_security_type r) = 7 \<and> length (def2_unit_of_measure r) = 31 \<and>
     length (def2_underlying r) = 21 \<and> length (def2_strike_price_currency r) = 4 \<and>
     length (def2_reserved r) = 10"

subsection \<open>InstrumentDefMsg\<close>

record InstrumentDefMsg =
  def3_hd :: RecordHeader
  def3_ts_recv :: u64
  def3_min_price_increment :: i64
  def3_display_factor :: i64
  def3_expiration :: u64
  def3_activation :: u64
  def3_high_limit_price :: i64
  def3_low_limit_price :: i64
  def3_max_price_variation :: i64
  def3_unit_of_measure_qty :: i64
  def3_min_price_increment_amount :: i64
  def3_price_ratio :: i64
  def3_strike_price :: i64
  def3_raw_instrument_id :: u64
  def3_leg_price :: i64
  def3_leg_delta :: i64
  def3_inst_attrib_value :: i32
  def3_underlying_id :: u32
  def3_market_depth_implied :: i32
  def3_market_depth :: i32
  def3_market_segment_id :: u32
  def3_max_trade_vol :: u32
  def3_min_lot_size :: i32
  def3_min_lot_size_block :: i32
  def3_min_lot_size_round_lot :: i32
  def3_min_trade_vol :: u32
  def3_contract_multiplier :: i32
  def3_decay_quantity :: i32
  def3_original_contract_size :: i32
  def3_leg_instrument_id :: u32
  def3_leg_ratio_price_numerator :: i32
  def3_leg_ratio_price_denominator :: i32
  def3_leg_ratio_qty_numerator :: i32
  def3_leg_ratio_qty_denominator :: i32
  def3_leg_underlying_id :: u32
  def3_appl_id :: i16
  def3_maturity_year :: u16
  def3_decay_start_date :: u16
  def3_channel_id :: u16
  def3_leg_count :: u16
  def3_leg_index :: u16
  def3_currency :: bytes
  def3_settl_currency :: bytes
  def3_secsubtype :: bytes
  def3_raw_symbol :: bytes
  def3_group :: bytes
  def3_exchange :: bytes
  def3_asset :: bytes
  def3_cfi :: bytes
  def3_security_type :: bytes
  def3_unit_of_measure :: bytes
  def3_underlying :: bytes
  def3_strike_price_currency :: bytes
  def3_leg_raw_symbol :: bytes
  def3_instrument_class :: c_char
  def3_match_algorithm :: c_char
  def3_main_fraction :: u8
  def3_price_display_format :: u8
  def3_sub_fraction :: u8
  def3_underlying_product :: u8
  def3_security_update_action :: c_char
  def3_maturity_month :: u8
  def3_maturity_day :: u8
  def3_maturity_week :: u8
  def3_user_defined_instrument :: c_char
  def3_contract_multiplier_unit :: i8
  def3_flow_schedule_type :: i8
  def3_tick_rule :: u8
  def3_leg_instrument_class :: c_char
  def3_leg_side :: c_char
  def3_reserved :: bytes

definition put_InstrumentDefMsg :: "InstrumentDefMsg \<Rightarrow> bytes" where
  "put_InstrumentDefMsg r =
    put_RecordHeader (def3_hd r) @ put_u64 (def3_ts_recv r) @
    put_u64 (def3_min_price_increment r) @ put_u64 (def3_display_factor r) @
    put_u64 (def3_expiration r) @ put_u64 (def3_activation r) @
    put_u64 (def3_high_limit_price r) @ put_u64 (def3_low_limit_price r) @
    put_u64 (def3_max_price_variation r) @ put_u64 (def3_unit_of_measure_qty r) @
    put_u64 (def3_min_price_increment_amount r) @ put_u64 (def3_price_ratio r) @
    put_u64 (def3_strike_price r) @ put_u64 (def3_raw_instrument_id r) @
    put_u64 (def3_leg_price r) @ put_u64 (def3_leg_delta r) @
    put_u32 (def3_inst_attrib_value r) @ put_u32 (def3_underlying_id r) @
    put_u32 (def3_market_depth_implied r) @ put_u32 (def3_market_depth r) @
    put_u32 (def3_market_segment_id r) @ put_u32 (def3_max_trade_vol r) @
    put_u32 (def3_min_lot_size r) @ put_u32 (def3_min_lot_size_block r) @
    put_u32 (def3_min_lot_size_round_lot r) @ put_u32 (def3_min_trade_vol r) @
    put_u32 (def3_contract_multiplier r) @ put_u32 (def3_decay_quantity r) @
    put_u32 (def3_original_contract_size r) @ put_u32 (def3_leg_instrument_id r) @
    put_u32 (def3_leg_ratio_price_numerator r) @ put_u32 (def3_leg_ratio_price_denominator r) @
    put_u32 (def3_leg_ratio_qty_numerator r) @ put_u32 (def3_leg_ratio_qty_denominator r) @
    put_u32 (def3_leg_underlying_id r) @ put_u16 (def3_appl_id r) @
    put_u16 (def3_maturity_year r) @ put_u16 (def3_decay_start_date r) @
    put_u16 (def3_channel_id r) @ put_u16 (def3_leg_count r) @ put_u16 (def3_leg_index r) @
    def3_currency r @ def3_settl_currency r @ def3_secsubtype r @ def3_raw_symbol r @
    def3_group r @ def3_exchange r @ def3_asset r @ def3_cfi r @ def3_security_type r @
    def3_unit_of_measure r @ def3_underlying r @ def3_strike_price_currency r @
    def3_leg_raw_symbol r @ put_u8 (def3_instrument_class r) @
    put_u8 (def3_match_algorithm r) @ put_u8 (def3_main_fraction r) @
    put_u8 (def3_price_display_format r) @ put_u8 (def3_sub_fraction r) @
    put_u8 (def3_underlying_product r) @ put_u8 (def3_security_update_action r) @
    put_u8 (def3_maturity_month r) @ put_u8 (def3_maturity_day r) @
    put_u8 (def3_maturity_week r) @ put_u8 (def3_user_defined_instrument r) @
    put_u8 (def3_contract_multiplier_unit r) @ put_u8 (def3_flow_schedule_type r) @
    put_u8 (def3_tick_rule r) @ put_u8 (def3_leg_instrument_class r) @
    put_u8 (def3_leg_side r) @ def3_reserved r"

definition get_InstrumentDefMsg :: "bytes \<Rightarrow> InstrumentDefMsg \<times> bytes" where
  "get_InstrumentDefMsg bs =
    (let (hdr, bs) = get_RecordHeader bs;
         (ts_recv, bs) = get_u64 bs;
         (min_price_increment, bs) = get_u64 bs;
         (display_factor, bs) = get_u64 bs;
         (expiration, bs) = get_u64 bs;
         (activation, bs) = get_u64 bs;
         (high_limit_price, bs) = get_u64 bs;
         (low_limit_price, bs) = get_u64 bs;
         (max_price_variation, bs) = get_u64 bs;
         (unit_of_measure_qty, bs) = get_u64 bs;
         (min_price_increment_amount, bs) = get_u64 bs;
         (price_ratio, bs) = get_u64 bs;
         (strike_price, bs) = get_u64 bs;
         (raw_instrument_id, bs) = get_u64 bs;
         (leg_price, bs) = get_u64 bs;
         (leg_delta, bs) = get_u64 bs;
         (inst_attrib_value, bs) = get_u32 bs;
         (underlying_id, bs) = get_u32 bs;
         (market_depth_implied, bs) = get_u32 bs;
         (market_depth, bs) = get_u32 bs;
         (market_segment_id, bs) = get_u32 bs;
         (max_trade_vol, bs) = get_u32 bs;
         (min_lot_size, bs) = get_u32 bs;
         (min_lot_size_block, bs) = get_u32 bs;
         (min_lot_size_round_lot, bs) = get_u32 bs;
         (min_trade_vol, bs) = get_u32 bs;
         (contract_multiplier, bs) = get_u32 bs;
         (decay_quantity, bs) = get_u32 bs;
         (original_contract_size, bs) = get_u32 bs;
         (leg_instrument_id, bs) = get_u32 bs;
         (leg_ratio_price_numerator, bs) = get_u32 bs;
         (leg_ratio_price_denominator, bs) = get_u32 bs;
         (leg_ratio_qty_numerator, bs) = get_u32 bs;
         (leg_ratio_qty_denominator, bs) = get_u32 bs;
         (leg_underlying_id, bs) = get_u32 bs;
         (appl_id, bs) = get_u16 bs;
         (maturity_year, bs) = get_u16 bs;
         (decay_start_date, bs) = get_u16 bs;
         (channel_id, bs) = get_u16 bs;
         (leg_count, bs) = get_u16 bs;
         (leg_index, bs) = get_u16 bs;
         (currency, bs) = get_arr 4 bs;
         (settl_currency, bs) = get_arr 4 bs;
         (secsubtype, bs) = get_arr 6 bs;
         (raw_symbol, bs) = get_arr 71 bs;
         (group, bs) = get_arr 21 bs;
         (exchange, bs) = get_arr 5 bs;
         (asset, bs) = get_arr 11 bs;
         (cfi, bs) = get_arr 7 bs;
         (security_type, bs) = get_arr 7 bs;
         (unit_of_measure, bs) = get_arr 31 bs;
         (underlying, bs) = get_arr 21 bs;
         (strike_price_currency, bs) = get_arr 4 bs;
         (leg_raw_symbol, bs) = get_arr 71 bs;
         (instrument_class, bs) = get_u8 bs;
         (match_algorithm, bs) = get_u8 bs;
         (main_fraction, bs) = get_u8 bs;
         (price_display_format, bs) = get_u8 bs;
         (sub_fraction, bs) = get_u8 bs;
         (underlying_product, bs) = get_u8 bs;
         (security_update_action, bs) = get_u8 bs;
         (maturity_month, bs) = get_u8 bs;
         (maturity_day, bs) = get_u8 bs;
         (maturity_week, bs) = get_u8 bs;
         (user_defined_instrument, bs) = get_u8 bs;
         (contract_multiplier_unit, bs) = get_u8 bs;
         (flow_schedule_type, bs) = get_u8 bs;
         (tick_rule, bs) = get_u8 bs;
         (leg_instrument_class, bs) = get_u8 bs;
         (leg_side, bs) = get_u8 bs;
         (reserved, bs) = get_arr 17 bs
     in
      (\<lparr>def3_hd = hdr, def3_ts_recv = ts_recv,
        def3_min_price_increment = min_price_increment, def3_display_factor = display_factor,
        def3_expiration = expiration, def3_activation = activation,
        def3_high_limit_price = high_limit_price, def3_low_limit_price = low_limit_price,
        def3_max_price_variation = max_price_variation,
        def3_unit_of_measure_qty = unit_of_measure_qty,
        def3_min_price_increment_amount = min_price_increment_amount,
        def3_price_ratio = price_ratio, def3_strike_price = strike_price,
        def3_raw_instrument_id = raw_instrument_id, def3_leg_price = leg_price,
        def3_leg_delta = leg_delta, def3_inst_attrib_value = inst_attrib_value,
        def3_underlying_id = underlying_id, def3_market_depth_implied = market_depth_implied,
        def3_market_depth = market_depth, def3_market_segment_id = market_segment_id,
        def3_max_trade_vol = max_trade_vol, def3_min_lot_size = min_lot_size,
        def3_min_lot_size_block = min_lot_size_block,
        def3_min_lot_size_round_lot = min_lot_size_round_lot,
        def3_min_trade_vol = min_trade_vol, def3_contract_multiplier = contract_multiplier,
        def3_decay_quantity = decay_quantity,
        def3_original_contract_size = original_contract_size,
        def3_leg_instrument_id = leg_instrument_id,
        def3_leg_ratio_price_numerator = leg_ratio_price_numerator,
        def3_leg_ratio_price_denominator = leg_ratio_price_denominator,
        def3_leg_ratio_qty_numerator = leg_ratio_qty_numerator,
        def3_leg_ratio_qty_denominator = leg_ratio_qty_denominator,
        def3_leg_underlying_id = leg_underlying_id, def3_appl_id = appl_id,
        def3_maturity_year = maturity_year, def3_decay_start_date = decay_start_date,
        def3_channel_id = channel_id, def3_leg_count = leg_count, def3_leg_index = leg_index,
        def3_currency = currency, def3_settl_currency = settl_currency,
        def3_secsubtype = secsubtype, def3_raw_symbol = raw_symbol, def3_group = group,
        def3_exchange = exchange, def3_asset = asset, def3_cfi = cfi,
        def3_security_type = security_type, def3_unit_of_measure = unit_of_measure,
        def3_underlying = underlying, def3_strike_price_currency = strike_price_currency,
        def3_leg_raw_symbol = leg_raw_symbol, def3_instrument_class = instrument_class,
        def3_match_algorithm = match_algorithm, def3_main_fraction = main_fraction,
        def3_price_display_format = price_display_format, def3_sub_fraction = sub_fraction,
        def3_underlying_product = underlying_product,
        def3_security_update_action = security_update_action,
        def3_maturity_month = maturity_month, def3_maturity_day = maturity_day,
        def3_maturity_week = maturity_week,
        def3_user_defined_instrument = user_defined_instrument,
        def3_contract_multiplier_unit = contract_multiplier_unit,
        def3_flow_schedule_type = flow_schedule_type, def3_tick_rule = tick_rule,
        def3_leg_instrument_class = leg_instrument_class, def3_leg_side = leg_side,
        def3_reserved = reserved\<rparr>, bs))"

definition InstrumentDefMsg_ok :: "InstrumentDefMsg \<Rightarrow> bool" where
  "InstrumentDefMsg_ok r \<longleftrightarrow>
     length (def3_currency r) = 4 \<and> length (def3_settl_currency r) = 4 \<and>
     length (def3_secsubtype r) = 6 \<and> length (def3_raw_symbol r) = 71 \<and>
     length (def3_group r) = 21 \<and> length (def3_exchange r) = 5 \<and>
     length (def3_asset r) = 11 \<and> length (def3_cfi r) = 7 \<and>
     length (def3_security_type r) = 7 \<and> length (def3_unit_of_measure r) = 31 \<and>
     length (def3_underlying r) = 21 \<and> length (def3_strike_price_currency r) = 4 \<and>
     length (def3_leg_raw_symbol r) = 71 \<and> length (def3_reserved r) = 17"

section \<open>Layouts\<close>

interpretation err1_codec: codec put_ErrorMsgV1 get_ErrorMsgV1 80 ErrorMsgV1_ok
proof
  show "get_ErrorMsgV1 (put_ErrorMsgV1 r @ bs) = (r, bs)" if "ErrorMsgV1_ok r" for r bs
    using that by (simp add: get_ErrorMsgV1_def put_ErrorMsgV1_def ErrorMsgV1_ok_def codec_simps)
  show "length (put_ErrorMsgV1 r) = 80" if "ErrorMsgV1_ok r" for r
    using that by (simp add: put_ErrorMsgV1_def ErrorMsgV1_ok_def size_simps)
  show "ErrorMsgV1_ok (fst (get_ErrorMsgV1 bs))" if "80 \<le> length bs" for bs
    using that by (simp add: get_ErrorMsgV1_def ErrorMsgV1_ok_def rd_simps)
  show "put_ErrorMsgV1 (fst (get_ErrorMsgV1 bs)) @ snd (get_ErrorMsgV1 bs) = bs" if "80 \<le> length bs" for bs
    using that by (simp add: get_ErrorMsgV1_def put_ErrorMsgV1_def rd_simps)
qed

interpretation stat1_codec: codec put_StatMsgV1 get_StatMsgV1 64 StatMsgV1_ok
proof
  show "get_StatMsgV1 (put_StatMsgV1 r @ bs) = (r, bs)" if "StatMsgV1_ok r" for r bs
    using that by (simp add: get_StatMsgV1_def put_StatMsgV1_def StatMsgV1_ok_def codec_simps)
  show "length (put_StatMsgV1 r) = 64" if "StatMsgV1_ok r" for r
    using that by (simp add: put_StatMsgV1_def StatMsgV1_ok_def size_simps)
  show "StatMsgV1_ok (fst (get_StatMsgV1 bs))" if "64 \<le> length bs" for bs
    using that by (simp add: get_StatMsgV1_def StatMsgV1_ok_def rd_simps)
  show "put_StatMsgV1 (fst (get_StatMsgV1 bs)) @ snd (get_StatMsgV1 bs) = bs" if "64 \<le> length bs" for bs
    using that by (simp add: get_StatMsgV1_def put_StatMsgV1_def rd_simps)
qed

interpretation sm1_codec: codec put_SymbolMappingMsgV1 get_SymbolMappingMsgV1 80 SymbolMappingMsgV1_ok
proof
  show "get_SymbolMappingMsgV1 (put_SymbolMappingMsgV1 r @ bs) = (r, bs)" if "SymbolMappingMsgV1_ok r" for r bs
    using that by (simp add: get_SymbolMappingMsgV1_def put_SymbolMappingMsgV1_def SymbolMappingMsgV1_ok_def codec_simps)
  show "length (put_SymbolMappingMsgV1 r) = 80" if "SymbolMappingMsgV1_ok r" for r
    using that by (simp add: put_SymbolMappingMsgV1_def SymbolMappingMsgV1_ok_def size_simps)
  show "SymbolMappingMsgV1_ok (fst (get_SymbolMappingMsgV1 bs))" if "80 \<le> length bs" for bs
    using that by (simp add: get_SymbolMappingMsgV1_def SymbolMappingMsgV1_ok_def rd_simps)
  show "put_SymbolMappingMsgV1 (fst (get_SymbolMappingMsgV1 bs)) @ snd (get_SymbolMappingMsgV1 bs) = bs" if "80 \<le> length bs" for bs
    using that by (simp add: get_SymbolMappingMsgV1_def put_SymbolMappingMsgV1_def rd_simps)
qed

interpretation sys1_codec: codec put_SystemMsgV1 get_SystemMsgV1 80 SystemMsgV1_ok
proof
  show "get_SystemMsgV1 (put_SystemMsgV1 r @ bs) = (r, bs)" if "SystemMsgV1_ok r" for r bs
    using that by (simp add: get_SystemMsgV1_def put_SystemMsgV1_def SystemMsgV1_ok_def codec_simps)
  show "length (put_SystemMsgV1 r) = 80" if "SystemMsgV1_ok r" for r
    using that by (simp add: put_SystemMsgV1_def SystemMsgV1_ok_def size_simps)
  show "SystemMsgV1_ok (fst (get_SystemMsgV1 bs))" if "80 \<le> length bs" for bs
    using that by (simp add: get_SystemMsgV1_def SystemMsgV1_ok_def rd_simps)
  show "put_SystemMsgV1 (fst (get_SystemMsgV1 bs)) @ snd (get_SystemMsgV1 bs) = bs" if "80 \<le> length bs" for bs
    using that by (simp add: get_SystemMsgV1_def put_SystemMsgV1_def rd_simps)
qed

interpretation err2_codec: codec put_ErrorMsg get_ErrorMsg 320 ErrorMsg_ok
proof
  show "get_ErrorMsg (put_ErrorMsg r @ bs) = (r, bs)" if "ErrorMsg_ok r" for r bs
    using that by (simp add: get_ErrorMsg_def put_ErrorMsg_def ErrorMsg_ok_def codec_simps)
  show "length (put_ErrorMsg r) = 320" if "ErrorMsg_ok r" for r
    using that by (simp add: put_ErrorMsg_def ErrorMsg_ok_def size_simps)
  show "ErrorMsg_ok (fst (get_ErrorMsg bs))" if "320 \<le> length bs" for bs
    using that by (simp add: get_ErrorMsg_def ErrorMsg_ok_def rd_simps)
  show "put_ErrorMsg (fst (get_ErrorMsg bs)) @ snd (get_ErrorMsg bs) = bs" if "320 \<le> length bs" for bs
    using that by (simp add: get_ErrorMsg_def put_ErrorMsg_def rd_simps)
qed

interpretation stat3_codec: codec put_StatMsg get_StatMsg 80 StatMsg_ok
proof
  show "get_StatMsg (put_StatMsg r @ bs) = (r, bs)" if "StatMsg_ok r" for r bs
    using that by (simp add: get_StatMsg_def put_StatMsg_def StatMsg_ok_def codec_simps)
  show "length (put_StatMsg r) = 80" if "StatMsg_ok r" for r
    using that by (simp add: put_StatMsg_def StatMsg_ok_def size_simps)
  show "StatMsg_ok (fst (get_StatMsg bs))" if "80 \<le> length bs" for bs
    using that by (simp add: get_StatMsg_def StatMsg_ok_def rd_simps)
  show "put_StatMsg (fst (get_StatMsg bs)) @ snd (get_StatMsg bs) = bs" if "80 \<le> length bs" for bs
    using that by (simp add: get_StatMsg_def put_StatMsg_def rd_simps)
qed

interpretation sm2_codec: codec put_SymbolMappingMsg get_SymbolMappingMsg 176 SymbolMappingMsg_ok
proof
  show "get_SymbolMappingMsg (put_SymbolMappingMsg r @ bs) = (r, bs)" if "SymbolMappingMsg_ok r" for r bs
    using that by (simp add: get_SymbolMappingMsg_def put_SymbolMappingMsg_def SymbolMappingMsg_ok_def codec_simps)
  show "length (put_SymbolMappingMsg r) = 176" if "SymbolMappingMsg_ok r" for r
    using that by (simp add: put_SymbolMappingMsg_def SymbolMappingMsg_ok_def size_simps)
  show "SymbolMappingMsg_ok (fst (get_SymbolMappingMsg bs))" if "176 \<le> length bs" for bs
    using that by (simp add: get_SymbolMappingMsg_def SymbolMappingMsg_ok_def rd_simps)
  show "put_SymbolMappingMsg (fst (get_SymbolMappingMsg bs)) @ snd (get_SymbolMappingMsg bs) = bs" if "176 \<le> length bs" for bs
    using that by (simp add: get_SymbolMappingMsg_def put_SymbolMappingMsg_def rd_simps)
qed

interpretation sys2_codec: codec put_SystemMsg get_SystemMsg 320 SystemMsg_ok
proof
  show "get_SystemMsg (put_SystemMsg r @ bs) = (r, bs)" if "SystemMsg_ok r" for r bs
    using that by (simp add: get_SystemMsg_def put_SystemMsg_def SystemMsg_ok_def codec_simps)
  show "length (put_SystemMsg r) = 320" if "SystemMsg_ok r" for r
    using that by (simp add: put_SystemMsg_def SystemMsg_ok_def size_simps)
  show "SystemMsg_ok (fst (get_SystemMsg bs))" if "320 \<le> length bs" for bs
    using that by (simp add: get_SystemMsg_def SystemMsg_ok_def rd_simps)
  show "put_SystemMsg (fst (get_SystemMsg bs)) @ snd (get_SystemMsg bs) = bs" if "320 \<le> length bs" for bs
    using that by (simp add: get_SystemMsg_def put_SystemMsg_def rd_simps)
qed

interpretation def1_codec: codec put_InstrumentDefMsgV1 get_InstrumentDefMsgV1 360 InstrumentDefMsgV1_ok
proof
  show "get_InstrumentDefMsgV1 (put_InstrumentDefMsgV1 r @ bs) = (r, bs)" if "InstrumentDefMsgV1_ok r" for r bs
    using that by (simp add: get_InstrumentDefMsgV1_def put_InstrumentDefMsgV1_def InstrumentDefMsgV1_ok_def codec_simps)
  show "length (put_InstrumentDefMsgV1 r) = 360" if "InstrumentDefMsgV1_ok r" for r
    using that by (simp add: put_InstrumentDefMsgV1_def InstrumentDefMsgV1_ok_def size_simps)
  show "InstrumentDefMsgV1_ok (fst (get_InstrumentDefMsgV1 bs))" if "360 \<le> length bs" for bs
    using that by (simp add: get_InstrumentDefMsgV1_def InstrumentDefMsgV1_ok_def rd_simps)
  show "put_InstrumentDefMsgV1 (fst (get_InstrumentDefMsgV1 bs)) @ snd (get_InstrumentDefMsgV1 bs) = bs" if "360 \<le> length bs" for bs
    using that by (simp add: get_InstrumentDefMsgV1_def put_InstrumentDefMsgV1_def rd_simps)
qed

interpretation def2_codec: codec put_InstrumentDefMsgV2 get_InstrumentDefMsgV2 400 InstrumentDefMsgV2_ok
proof
  show "get_InstrumentDefMsgV2 (put_InstrumentDefMsgV2 r @ bs) = (r, bs)" if "InstrumentDefMsgV2_ok r" for r bs
    using that by (simp add: get_InstrumentDefMsgV2_def put_InstrumentDefMsgV2_def InstrumentDefMsgV2_ok_def codec_simps)
  show "length (put_InstrumentDefMsgV2 r) = 400" if "InstrumentDefMsgV2_ok r" for r
    using that by (simp add: put_InstrumentDefMsgV2_def InstrumentDefMsgV2_ok_def size_simps)
  show "InstrumentDefMsgV2_ok (fst (get_InstrumentDefMsgV2 bs))" if "400 \<le> length bs" for bs
    using that by (simp add: get_InstrumentDefMsgV2_def InstrumentDefMsgV2_ok_def rd_simps)
  show "put_InstrumentDefMsgV2 (fst (get_InstrumentDefMsgV2 bs)) @ snd (get_InstrumentDefMsgV2 bs) = bs" if "400 \<le> length bs" for bs
    using that by (simp add: get_InstrumentDefMsgV2_def put_InstrumentDefMsgV2_def rd_simps)
qed

interpretation def3_codec: codec put_InstrumentDefMsg get_InstrumentDefMsg 520 InstrumentDefMsg_ok
proof
  show "get_InstrumentDefMsg (put_InstrumentDefMsg r @ bs) = (r, bs)" if "InstrumentDefMsg_ok r" for r bs
    using that by (simp add: get_InstrumentDefMsg_def put_InstrumentDefMsg_def InstrumentDefMsg_ok_def codec_simps)
  show "length (put_InstrumentDefMsg r) = 520" if "InstrumentDefMsg_ok r" for r
    using that by (simp add: put_InstrumentDefMsg_def InstrumentDefMsg_ok_def size_simps)
  show "InstrumentDefMsg_ok (fst (get_InstrumentDefMsg bs))" if "520 \<le> length bs" for bs
    using that by (simp add: get_InstrumentDefMsg_def InstrumentDefMsg_ok_def rd_simps)
  show "put_InstrumentDefMsg (fst (get_InstrumentDefMsg bs)) @ snd (get_InstrumentDefMsg bs) = bs" if "520 \<le> length bs" for bs
    using that by (simp add: get_InstrumentDefMsg_def put_InstrumentDefMsg_def rd_simps)
qed

end
