(* ===== verification/Record_Types.thy ===== *)
theory Record_Types
  imports Versioned_Records
begin

text \<open>
  The traits \<^verbatim>\<open>Record\<close>, \<^verbatim>\<open>RecordMut\<close> and \<^verbatim>\<open>HasRType\<close> of rust/dbn/src/record/traits.rs
  and the header methods of rust/dbn/src/record/methods.rs. A Rust function generic in a record
  type takes the dictionary \<open>'r record_type\<close> of that type; \<^verbatim>\<open>WithTsOut\<close> maps dictionaries to
  dictionaries. What generic code relies on is the interface \<open>dbn_record\<close>: the type has a byte
  layout, its bytes start with its header, and its size fits the length byte of the header.
  \<open>dbn_struct\<close> extends it by the bound that leaves room for a send timestamp. Every record
  type of the crate, in every version, interprets \<open>dbn_struct\<close>, and \<^verbatim>\<open>WithTsOut\<close> of any such
  type is a \<open>dbn_record\<close>.

  A \<^verbatim>\<open>RecordRef\<close> (rust/dbn/src/record_ref.rs) points at the first byte of a record; it is
  modelled by the bytes from there on.
\<close>

section \<open>Definitions\<close>

subsection \<open>Sentinels\<close>

definition UNDEF_PRICE :: i64 where "UNDEF_PRICE = 0x7FFFFFFFFFFFFFFF"
definition UNDEF_ORDER_SIZE :: u32 where "UNDEF_ORDER_SIZE = 0xFFFFFFFF"
definition UNDEF_STAT_QUANTITY :: i64 where "UNDEF_STAT_QUANTITY = 0x7FFFFFFFFFFFFFFF"
definition UNDEF_STAT_QUANTITY_V1 :: i32 where "UNDEF_STAT_QUANTITY_V1 = 0x7FFFFFFF"
definition UNDEF_TIMESTAMP :: u64 where "UNDEF_TIMESTAMP = 0xFFFFFFFFFFFFFFFF"

subsection \<open>Record dictionaries\<close>

record 'r record_type =
  type_name :: string
  size_of :: nat
  has_rtype :: "u8 \<Rightarrow> bool"
  as_ref :: "'r \<Rightarrow> bytes"
  cast :: "bytes \<Rightarrow> 'r \<times> bytes"
  rec_ok :: "'r \<Rightarrow> bool"
  header :: "'r \<Rightarrow> RecordHeader"
  set_header :: "RecordHeader \<Rightarrow> 'r \<Rightarrow> 'r"
  raw_index_ts :: "'r \<Rightarrow> u64"

definition LENGTH_MULTIPLIER :: nat where "LENGTH_MULTIPLIER = 4"

definition record_header_new ::
  "'r record_type \<Rightarrow> u8 \<Rightarrow> u16 \<Rightarrow> u32 \<Rightarrow> u64 \<Rightarrow> RecordHeader" where
  "record_header_new R rtype publisher_id instrument_id ts_event =
     \<lparr>rh_length = word_of_nat (size_of R div LENGTH_MULTIPLIER), rh_rtype = rtype,
      rh_publisher_id = publisher_id, rh_instrument_id = instrument_id, rh_ts_event = ts_event\<rparr>"

definition record_header_default :: "'r record_type \<Rightarrow> u8 \<Rightarrow> RecordHeader" where
  "record_header_default R rtype = record_header_new R rtype 0 0 UNDEF_TIMESTAMP"

definition header_record_size :: "RecordHeader \<Rightarrow> nat" where
  "header_record_size h = unat (rh_length h) * LENGTH_MULTIPLIER"

definition MboMsg_type :: "MboMsg record_type" where
  "MboMsg_type =
     \<lparr>type_name = ''dbn::record::MboMsg'', size_of = 56,
      has_rtype = (\<lambda>t. t \<in> {rtype_as_u8 RType_Mbo}),
      as_ref = put_MboMsg, cast = get_MboMsg, rec_ok = (\<lambda>_. True),
      header = mbo_hd, set_header = (\<lambda>h. mbo_hd_update (\<lambda>_. h)),
      raw_index_ts = mbo_ts_recv\<rparr>"

definition TradeMsg_type :: "TradeMsg record_type" where
  "TradeMsg_type =
     \<lparr>type_name = ''dbn::record::TradeMsg'', size_of = 48,
      has_rtype = (\<lambda>t. t \<in> {rtype_as_u8 RType_Mbp0}),
      as_ref = put_TradeMsg, cast = get_TradeMsg, rec_ok = (\<lambda>_. True),
      header = trade_hd, set_header = (\<lambda>h. trade_hd_update (\<lambda>_. h)),
      raw_index_ts = trade_ts_recv\<rparr>"

definition Mbp1Msg_type :: "Mbp1Msg record_type" where
  "Mbp1Msg_type =
     \<lparr>type_name = ''dbn::record::Mbp1Msg'', size_of = 80,
      has_rtype = (\<lambda>t. t \<in> {rtype_as_u8 RType_Mbp1}),
      as_ref = put_Mbp1Msg, cast = get_Mbp1Msg, rec_ok = Mbp1Msg_ok,
      header = mbp1_hd, set_header = (\<lambda>h. mbp1_hd_update (\<lambda>_. h)),
      raw_index_ts = mbp1_ts_recv\<rparr>"

definition Mbp10Msg_type :: "Mbp10Msg record_type" where
  "Mbp10Msg_type =
     \<lparr>type_name = ''dbn::record::Mbp10Msg'', size_of = 368,
      has_rtype = (\<lambda>t. t \<in> {rtype_as_u8 RType_Mbp10}),
      as_ref = put_Mbp10Msg, cast = get_Mbp10Msg, rec_ok = Mbp10Msg_ok,
      header = mbp10_hd, set_header = (\<lambda>h. mbp10_hd_update (\<lambda>_. h)),
      raw_index_ts = mbp10_ts_recv\<rparr>"

definition BboMsg_type :: "BboMsg record_type" where
  "BboMsg_type =
     \<lparr>type_name = ''dbn::record::BboMsg'', size_of = 80,
      has_rtype = (\<lambda>t. t \<in> {rtype_as_u8 RType_Bbo1S, rtype_as_u8 RType_Bbo1M}),
      as_ref = put_BboMsg, cast = get_BboMsg, rec_ok = BboMsg_ok,
      header = bbo_hd, set_header = (\<lambda>h. bbo_hd_update (\<lambda>_. h)),
      raw_index_ts = bbo_ts_recv\<rparr>"

definition Cmbp1Msg_type :: "Cmbp1Msg record_type" where
  "Cmbp1Msg_type =
     \<lparr>type_name = ''dbn::record::Cmbp1Msg'', size_of = 80,
      has_rtype = (\<lambda>t. t \<in> {rtype_as_u8 RType_Cmbp1, rtype_as_u8 RType_Tcbbo}),
      as_ref = put_Cmbp1Msg, cast = get_Cmbp1Msg, rec_ok = Cmbp1Msg_ok,
      header = cmbp1_hd, set_header = (\<lambda>h. cmbp1_hd_update (\<lambda>_. h)),
      raw_index_ts = cmbp1_ts_recv\<rparr>"

definition CbboMsg_type :: "CbboMsg record_type" where
  "CbboMsg_type =
     \<lparr>type_name = ''dbn::record::CbboMsg'', size_of = 80,
      has_rtype = (\<lambda>t. t \<in> {rtype_as_u8 RType_Cbbo1S, rtype_as_u8 RType_Cbbo1M}),
      as_ref = put_CbboMsg, cast = get_CbboMsg, rec_ok = CbboMsg_ok,
      header = cbbo_hd, set_header = (\<lambda>h. cbbo_hd_update (\<lambda>_. h)),
      raw_index_ts = cbbo_ts_recv\<rparr>"

definition OhlcvMsg_type :: "OhlcvMsg record_type" where
  "OhlcvMsg_type =
     \<lparr>type_name = ''dbn::record::OhlcvMsg'', size_of = 56,
      has_rtype = (\<lambda>t. t \<in> {rtype_as_u8 RType_Ohlcv1S, rtype_as_u8 RType_Ohlcv1M, rtype_as_u8 RType_Ohlcv1H,
        rtype_as_u8 RType_Ohlcv1D, rtype_as_u8 RType_OhlcvEod, rtype_as_u8 RType_OhlcvDeprecated}),
      as_ref = put_OhlcvMsg, cast = get_OhlcvMsg, rec_ok = (\<lambda>_. True),
      header = ohlcv_hd, set_header = (\<lambda>h. ohlcv_hd_update (\<lambda>_. h)),
      raw_index_ts = (\<lambda>r. rh_ts_event (ohlcv_hd r))\<rparr>"

definition StatusMsg_type :: "StatusMsg record_type" where
  "StatusMsg_type =
     \<lparr>type_name = ''dbn::record::StatusMsg'', size_of = 40,
      has_rtype = (\<lambda>t. t \<in> {rtype_as_u8 RType_Status}),
      as_ref = put_StatusMsg, cast = get_StatusMsg, rec_ok = StatusMsg_ok,
      header = status_hd, set_header = (\<lambda>h. status_hd_update (\<lambda>_. h)),
      raw_index_ts = status_ts_recv\<rparr>"

definition ImbalanceMsg_type :: "ImbalanceMsg record_type" where
  "ImbalanceMsg_type =
     \<lparr>type_name = ''dbn::record::ImbalanceMsg'', size_of = 112,
      has_rtype = (\<lambda>t. t \<in> {rtype_as_u8 RType_Imbalance}),
      as_ref = put_ImbalanceMsg, cast = get_ImbalanceMsg, rec_ok = ImbalanceMsg_ok,
      header = imb_hd, set_header = (\<lambda>h. imb_hd_update (\<lambda>_. h)),
      raw_index_ts = imb_ts_recv\<rparr>"

definition ErrorMsgV1_type :: "ErrorMsgV1 record_type" where
  "ErrorMsgV1_type =
     \<lparr>type_name = ''dbn::compat::ErrorMsgV1'', size_of = 80,
      has_rtype = (\<lambda>t. t \<in> {rtype_as_u8 RType_Error}),
      as_ref = put_ErrorMsgV1, cast = get_ErrorMsgV1, rec_ok = ErrorMsgV1_ok,
      header = err1_hd, set_header = (\<lambda>h. err1_hd_update (\<lambda>_. h)),
      raw_index_ts = (\<lambda>r. rh_ts_event (err1_hd r))\<rparr>"

definition StatMsgV1_type :: "StatMsgV1 record_type" where
  "StatMsgV1_type =
     \<lparr>type_name = ''dbn::compat::StatMsgV1'', size_of = 64,
      has_rtype = (\<lambda>t. t \<in> {rtype_as_u8 RType_Statistics}),
      as_ref = put_StatMsgV1, cast = get_StatMsgV1, rec_ok = StatMsgV1_ok,
      header = stat1_hd, set_header = (\<lambda>h. stat1_hd_update (\<lambda>_. h)),
      raw_index_ts = stat1_ts_recv\<rparr>"

definition SymbolMappingMsgV1_type :: "SymbolMappingMsgV1 record_type" where
  "SymbolMappingMsgV1_type =
     \<lparr>type_name = ''dbn::compat::SymbolMappingMsgV1'', size_of = 80,
      has_rtype = (\<lambda>t. t \<in> {rtype_as_u8 RType_SymbolMapping}),
      as_ref = put_SymbolMappingMsgV1, cast = get_SymbolMappingMsgV1, rec_ok = SymbolMappingMsgV1_ok,
      header = sm1_hd, set_header = (\<lambda>h. sm1_hd_update (\<lambda>_. h)),
      raw_index_ts = (\<lambda>r. rh_ts_event (sm1_hd r))\<rparr>"

definition SystemMsgV1_type :: "SystemMsgV1 record_type" where
  "SystemMsgV1_type =
     \<lparr>type_name = ''dbn::compat::SystemMsgV1'', size_of = 80,
      has_rtype = (\<lambda>t. t \<in> {rtype_as_u8 RType_System}),
      as_ref = put_SystemMsgV1, cast = get_SystemMsgV1, rec_ok = SystemMsgV1_ok,
      header = sys1_hd, set_header = (\<lambda>h. sys1_hd_update (\<lambda>_. h)),
      raw_index_ts = (\<lambda>r. rh_ts_event (sys1_hd r))\<rparr>"

definition ErrorMsg_type :: "ErrorMsg record_type" where
  "ErrorMsg_type =
     \<lparr>type_name = ''dbn::record::ErrorMsg'', size_of = 320,
      has_rtype = (\<lambda>t. t \<in> {rtype_as_u8 RType_Error}),
      as_ref = put_ErrorMsg, cast = get_ErrorMsg, rec_ok = ErrorMsg_ok,
      header = err2_hd, set_header = (\<lambda>h. err2_hd_update (\<lambda>_. h)),
      raw_index_ts = (\<lambda>r. rh_ts_event (err2_hd r))\<rparr>"

definition StatMsg_type :: "StatMsg record_type" where
  "StatMsg_type =
     \<lparr>type_name = ''dbn::record::StatMsg'', size_of = 80,
      has_rtype = (\<lambda>t. t \<in> {rtype_as_u8 RType_Statistics}),
      as_ref = put_StatMsg, cast = get_StatMsg, rec_ok = StatMsg_ok,
      header = stat3_hd, set_header = (\<lambda>h. stat3_hd_update (\<lambda>_. h)),
      raw_index_ts = stat3_ts_recv\<rparr>"

definition SymbolMappingMsg_type :: "SymbolMappingMsg record_type" where
  "SymbolMappingMsg_type =
     \<lparr>type_name = ''dbn::record::SymbolMappingMsg'', size_of = 176,
      has_rtype = (\<lambda>t. t \<in> {rtype_as_u8 RType_SymbolMapping}),
      as_ref = put_SymbolMappingMsg, cast = get_SymbolMappingMsg, rec_ok = SymbolMappingMsg_ok,
      header = sm2_hd, set_header = (\<lambda>h. sm2_hd_update (\<lambda>_. h)),
      raw_index_ts = (\<lambda>r. rh_ts_event (sm2_hd r))\<rparr>"

definition SystemMsg_type :: "SystemMsg record_type" where
  "SystemMsg_type =
     \<lparr>type_name = ''dbn::record::SystemMsg'', size_of = 320,
      has_rtype = (\<lambda>t. t \<in> {rtype_as_u8 RType_System}),
      as_ref = put_SystemMsg, cast = get_SystemMsg, rec_ok = SystemMsg_ok,
      header = sys2_hd, set_header = (\<lambda>h. sys2_hd_update (\<lambda>_. h)),
      raw_index_ts = (\<lambda>r. rh_ts_event (sys2_hd r))\<rparr>"

definition InstrumentDefMsgV1_type :: "InstrumentDefMsgV1 record_type" where
  "InstrumentDefMsgV1_type =
     \<lparr>type_name = ''dbn::compat::InstrumentDefMsgV1'', size_of = 360,
      has_rtype = (\<lambda>t. t \<in> {rtype_as_u8 RType_InstrumentDef}),
      as_ref = put_InstrumentDefMsgV1, cast = get_InstrumentDefMsgV1, rec_ok = InstrumentDefMsgV1_ok,
      header = def1_hd, set_header = (\<lambda>h. def1_hd_update (\<lambda>_. h)),
      raw_index_ts = def1_ts_recv\<rparr>"

definition InstrumentDefMsgV2_type :: "InstrumentDefMsgV2 record_type" where
  "InstrumentDefMsgV2_type =
     \<lparr>type_name = ''dbn::compat::InstrumentDefMsgV2'', size_of = 400,
      has_rtype = (\<lambda>t. t \<in> {rtype_as_u8 RType_InstrumentDef}),
      as_ref = put_InstrumentDefMsgV2, cast = get_InstrumentDefMsgV2, rec_ok = InstrumentDefMsgV2_ok,
      header = def2_hd, set_header = (\<lambda>h. def2_hd_update (\<lambda>_. h)),
      raw_index_ts = def2_ts_recv\<rparr>"

definition InstrumentDefMsg_type :: "InstrumentDefMsg record_type" where
  "InstrumentDefMsg_type =
     \<lparr>type_name = ''dbn::record::InstrumentDefMsg'', size_of = 520,
      has_rtype = (\<lambda>t. t \<in> {rtype_as_u8 RType_InstrumentDef}),
      as_ref = put_InstrumentDefMsg, cast = get_InstrumentDefMsg, rec_ok = InstrumentDefMsg_ok,
      header = def3_hd, set_header = (\<lambda>h. def3_hd_update (\<lambda>_. h)),
      raw_index_ts = def3_ts_recv\<rparr>"

subsection \<open>WithTsOut\<close>

record 'r WithTsOut =
  wto_rec :: 'r
  wto_ts_out :: u64

definition with_ts_out_type :: "'r record_type \<Rightarrow> 'r WithTsOut record_type" where
  "with_ts_out_type T =
     \<lparr>type_name = ''dbn::record::WithTsOut<'' @ type_name T @ ''>'',
      size_of = size_of T + 8, has_rtype = has_rtype T,
      as_ref = (\<lambda>r. as_ref T (wto_rec r) @ put_u64 (wto_ts_out r)),
      cast = (\<lambda>bs. let (r, bs) = cast T bs; (t, bs) = get_u64 bs
                   in (\<lparr>wto_rec = r, wto_ts_out = t\<rparr>, bs)),
      rec_ok = (\<lambda>r. rec_ok T (wto_rec r)),
      header = (\<lambda>r. header T (wto_rec r)),
      set_header = (\<lambda>h. wto_rec_update (set_header T h)),
      raw_index_ts = (\<lambda>r. raw_index_ts T (wto_rec r))\<rparr>"

definition with_ts_out_new :: "'r record_type \<Rightarrow> 'r \<Rightarrow> u64 \<Rightarrow> 'r WithTsOut" where
  "with_ts_out_new T r ts_out =
     (let res = \<lparr>wto_rec = r, wto_ts_out = ts_out\<rparr>; W = with_ts_out_type T
      in set_header W
           ((header W res)\<lparr>rh_length := word_of_nat (size_of W div LENGTH_MULTIPLIER)\<rparr>) res)"

subsection \<open>RecordRef\<close>

definition rr_header :: "bytes \<Rightarrow> RecordHeader" where
  "rr_header r = rd get_RecordHeader r"

definition rr_record_size :: "bytes \<Rightarrow> nat" where
  "rr_record_size r = header_record_size (rr_header r)"

definition rr_has :: "'r record_type \<Rightarrow> bytes \<Rightarrow> bool" where
  "rr_has T r = has_rtype T (rh_rtype (rr_header r))"

definition rr_get :: "'r record_type \<Rightarrow> bytes \<Rightarrow> 'r option result" where
  "rr_get T r =
     (if rr_has T r then
        (if size_of T \<le> rr_record_size r then Ok (Some (rd (cast T) r))
         else Panic (''Malformed `'' @ type_name T @ ''` record: expected length of at least '' @
                dec_nat (size_of T) @ '' bytes, found '' @ dec_nat (rr_record_size r) @ '' bytes. '' @
                ''Confirm the DBN version in the Metadata header and the version upgrade policy''))
      else Ok None)"

definition rr_try_get :: "'r record_type \<Rightarrow> bytes \<Rightarrow> 'r result" where
  "rr_try_get T r =
     (if rr_has T r then
        (if size_of T \<le> rr_record_size r then Ok (rd (cast T) r)
         else Err (Conversion
                '' has insufficient length, may be an earlier version of this record'' (type_name T)))
      else Err (Conversion '' has incorrect rtype'' (type_name T)))"

definition rr_get_unchecked :: "'r record_type \<Rightarrow> bytes \<Rightarrow> 'r" where
  "rr_get_unchecked T r = rd (cast T) r"

definition rr_as_ref :: "bytes \<Rightarrow> bytes" where
  "rr_as_ref r = take (rr_record_size r) r"

definition rr_rtype :: "bytes \<Rightarrow> RType option" where
  "rr_rtype r = rtype_try_from (rh_rtype (rr_header r))"

section \<open>The interface of a record type\<close>

locale dbn_record =
  fixes T :: "'r record_type"
  assumes layout: "codec (as_ref T) (cast T) (size_of T) (rec_ok T)"
    and header_first: "rec_ok T r \<Longrightarrow> rd get_RecordHeader (as_ref T r) = header T r"
    and header_fits: "16 \<le> size_of T"
    and length_fits: "size_of T < 1024"
    and size_multiple: "8 dvd size_of T"
    and header_set: "header T (set_header T h r) = h"
    and set_header_ok: "rec_ok T r \<Longrightarrow> rec_ok T (set_header T h r)"
begin

sublocale layout: codec "as_ref T" "cast T" "size_of T" "rec_ok T"
  by (rule layout)

lemma header_of_prefix:
  assumes "16 \<le> n" and "n \<le> length bs"
  shows "rd get_RecordHeader (take n bs) = rd get_RecordHeader bs"
proof -
  have h: "put_RecordHeader (rd get_RecordHeader (take n bs)) = take 16 bs"
    using assms by (subst rh_codec.put_rd) (simp_all add: min_absorb1)
  have "put_RecordHeader (rd get_RecordHeader bs) = take 16 bs"
    using assms by (subst rh_codec.put_rd) simp_all
  with h show ?thesis by (metis rh_codec.put_inject)
qed

lemma header_cast: "size_of T \<le> length bs \<Longrightarrow> header T (rd (cast T) bs) = rr_header bs"
  using header_first [of "rd (cast T) bs"] header_of_prefix [OF header_fits, of bs]
  by (simp add: layout.rd_ok layout.put_rd rr_header_def)

lemma rr_header_as_ref: "rec_ok T r \<Longrightarrow> rr_header (as_ref T r @ bs) = header T r"
  using header_cast [of "as_ref T r @ bs"] layout.rd_put [of r bs]
  by (simp add: layout.length_put)

lemma unat_size_div: "unat (word_of_nat (size_of T div 4) :: u8) * 4 = size_of T"
proof -
  have "4 dvd size_of T"
    using size_multiple by (rule dvd_trans [rotated]) simp
  then show ?thesis
    using length_fits by (simp add: unat_of_nat take_bit_eq_mod)
qed

lemma new_header_size: "header_record_size (record_header_new T rt p i t) = size_of T"
  using unat_size_div
  by (simp add: header_record_size_def record_header_new_def LENGTH_MULTIPLIER_def)

lemma rr_get_as_ref:
  assumes "rec_ok T r" and "has_rtype T (rh_rtype (header T r))"
    and "size_of T \<le> header_record_size (header T r)"
  shows "rr_get T (as_ref T r @ bs) = Ok (Some r)" and "rr_try_get T (as_ref T r @ bs) = Ok r"
  using assms
  by (simp_all add: rr_get_def rr_try_get_def rr_has_def rr_record_size_def rr_header_as_ref
      layout.rd_put)

end

locale dbn_struct = dbn_record +
  assumes size_bound: "size_of T \<le> 520"

lemma with_ts_out_record:
  assumes "dbn_struct T"
  shows "dbn_record (with_ts_out_type T)"
proof -
  note rec = dbn_struct.axioms(1) [OF assms]
  note c = dbn_record.layout [OF rec]
  note get_put = codec.get_put [OF c] and len = codec.length_put [OF c]
    and get_eq = codec.get_eq [OF c] and put_rd = codec.put_rd [OF c] and rd_ok = codec.rd_ok [OF c]
  have cast_eq: "cast T bs = (rd (cast T) bs, drop (size_of T) bs)" if "size_of T + 8 \<le> length bs" for bs
    using get_eq [of bs] that by simp
  show ?thesis
  proof (rule dbn_record.intro)
    show "codec (as_ref (with_ts_out_type T)) (cast (with_ts_out_type T))
        (size_of (with_ts_out_type T)) (rec_ok (with_ts_out_type T))"
    proof
      show "rec_ok (with_ts_out_type T) (fst (cast (with_ts_out_type T) bs))"
        "as_ref (with_ts_out_type T) (fst (cast (with_ts_out_type T) bs)) @
           snd (cast (with_ts_out_type T) bs) = bs"
        if "size_of (with_ts_out_type T) \<le> length bs" for bs
        using that by (simp_all add: with_ts_out_type_def cast_eq rd_ok put_rd rd_simps)
    qed (auto simp: with_ts_out_type_def get_put len)
    show "rd get_RecordHeader (as_ref (with_ts_out_type T) r) = header (with_ts_out_type T) r"
      if "rec_ok (with_ts_out_type T) r" for r
      using that dbn_record.rr_header_as_ref [OF rec, of "wto_rec r" "put_u64 (wto_ts_out r)"]
      by (simp add: with_ts_out_type_def rr_header_def)
    show "16 \<le> size_of (with_ts_out_type T)" "8 dvd size_of (with_ts_out_type T)"
      "size_of (with_ts_out_type T) < 1024"
      using dbn_record.header_fits [OF rec] dbn_record.size_multiple [OF rec]
        dbn_struct.size_bound [OF assms]
      by (auto simp: with_ts_out_type_def)
  qed (simp_all add: with_ts_out_type_def dbn_record.header_set [OF rec]
      dbn_record.set_header_ok [OF rec])
qed

section \<open>Every record type meets it\<close>

interpretation mbo_record: dbn_struct MboMsg_type
proof (intro dbn_struct.intro dbn_record.intro dbn_struct_axioms.intro)
  show "codec (as_ref MboMsg_type) (cast MboMsg_type) (size_of MboMsg_type) (rec_ok MboMsg_type)"
    using mbo_codec.codec_axioms by (simp add: MboMsg_type_def)
qed (auto simp: MboMsg_type_def put_MboMsg_def rh_codec.rd_put)

interpretation trade_record: dbn_struct TradeMsg_type
proof (intro dbn_struct.intro dbn_record.intro dbn_struct_axioms.intro)
  show "codec (as_ref TradeMsg_type) (cast TradeMsg_type) (size_of TradeMsg_type) (rec_ok TradeMsg_type)"
    using trade_codec.codec_axioms by (simp add: TradeMsg_type_def)
qed (auto simp: TradeMsg_type_def put_TradeMsg_def rh_codec.rd_put)

interpretation mbp1_record: dbn_struct Mbp1Msg_type
proof (intro dbn_struct.intro dbn_record.intro dbn_struct_axioms.intro)
  show "codec (as_ref Mbp1Msg_type) (cast Mbp1Msg_type) (size_of Mbp1Msg_type) (rec_ok Mbp1Msg_type)"
    using mbp1_codec.codec_axioms by (simp add: Mbp1Msg_type_def)
qed (auto simp: Mbp1Msg_type_def put_Mbp1Msg_def Mbp1Msg_ok_def rh_codec.rd_put)

interpretation mbp10_record: dbn_struct Mbp10Msg_type
proof (intro dbn_struct.intro dbn_record.intro dbn_struct_axioms.intro)
  show "codec (as_ref Mbp10Msg_type) (cast Mbp10Msg_type) (size_of Mbp10Msg_type) (rec_ok Mbp10Msg_type)"
    using mbp10_codec.codec_axioms by (simp add: Mbp10Msg_type_def)
qed (auto simp: Mbp10Msg_type_def put_Mbp10Msg_def Mbp10Msg_ok_def rh_codec.rd_put)

interpretation bbo_record: dbn_struct BboMsg_type
proof (intro dbn_struct.intro dbn_record.intro dbn_struct_axioms.intro)
  show "codec (as_ref BboMsg_type) (cast BboMsg_type) (size_of BboMsg_type) (rec_ok BboMsg_type)"
    using bbo_codec.codec_axioms by (simp add: BboMsg_type_def)
qed (auto simp: BboMsg_type_def put_BboMsg_def BboMsg_ok_def rh_codec.rd_put)

interpretation cmbp1_record: dbn_struct Cmbp1Msg_type
proof (intro dbn_struct.intro dbn_record.intro dbn_struct_axioms.intro)
  show "codec (as_ref Cmbp1Msg_type) (cast Cmbp1Msg_type) (size_of Cmbp1Msg_type) (rec_ok Cmbp1Msg_type)"
    using cmbp1_codec.codec_axioms by (simp add: Cmbp1Msg_type_def)
qed (auto simp: Cmbp1Msg_type_def put_Cmbp1Msg_def Cmbp1Msg_ok_def rh_codec.rd_put)

interpretation cbbo_record: dbn_struct CbboMsg_type
proof (intro dbn_struct.intro dbn_record.intro dbn_struct_axioms.intro)
  show "codec (as_ref CbboMsg_type) (cast CbboMsg_type) (size_of CbboMsg_type) (rec_ok CbboMsg_type)"
    using cbbo_codec.codec_axioms by (simp add: CbboMsg_type_def)
qed (auto simp: CbboMsg_type_def put_CbboMsg_def CbboMsg_ok_def rh_codec.rd_put)

interpretation ohlcv_record: dbn_struct OhlcvMsg_type
proof (intro dbn_struct.intro dbn_record.intro dbn_struct_axioms.intro)
  show "codec (as_ref OhlcvMsg_type) (cast OhlcvMsg_type) (size_of OhlcvMsg_type) (rec_ok OhlcvMsg_type)"
    using ohlcv_codec.codec_axioms by (simp add: OhlcvMsg_type_def)
qed (auto simp: OhlcvMsg_type_def put_OhlcvMsg_def rh_codec.rd_put)

interpretation status_record: dbn_struct StatusMsg_type
proof (intro dbn_struct.intro dbn_record.intro dbn_struct_axioms.intro)
  show "codec (as_ref StatusMsg_type) (cast StatusMsg_type) (size_of StatusMsg_type) (rec_ok StatusMsg_type)"
    using status_codec.codec_axioms by (simp add: StatusMsg_type_def)
qed (auto simp: StatusMsg_type_def put_StatusMsg_def StatusMsg_ok_def rh_codec.rd_put)

interpretation imb_record: dbn_struct ImbalanceMsg_type
proof (intro dbn_struct.intro dbn_record.intro dbn_struct_axioms.intro)
  show "codec (as_ref ImbalanceMsg_type) (cast ImbalanceMsg_type) (size_of ImbalanceMsg_type) (rec_ok ImbalanceMsg_type)"
    using imb_codec.codec_axioms by (simp add: ImbalanceMsg_type_def)
qed (auto simp: ImbalanceMsg_type_def put_ImbalanceMsg_def ImbalanceMsg_ok_def rh_codec.rd_put)

interpretation err1_record: dbn_struct ErrorMsgV1_type
proof (intro dbn_struct.intro dbn_record.intro dbn_struct_axioms.intro)
  show "codec (as_ref ErrorMsgV1_type) (cast ErrorMsgV1_type) (size_of ErrorMsgV1_type) (rec_ok ErrorMsgV1_type)"
    using err1_codec.codec_axioms by (simp add: ErrorMsgV1_type_def)
qed (auto simp: ErrorMsgV1_type_def put_ErrorMsgV1_def ErrorMsgV1_ok_def rh_codec.rd_put)

interpretation stat1_record: dbn_struct StatMsgV1_type
proof (intro dbn_struct.intro dbn_record.intro dbn_struct_axioms.intro)
  show "codec (as_ref StatMsgV1_type) (cast StatMsgV1_type) (size_of StatMsgV1_type) (rec_ok StatMsgV1_type)"
    using stat1_codec.codec_axioms by (simp add: StatMsgV1_type_def)
qed (auto simp: StatMsgV1_type_def put_StatMsgV1_def StatMsgV1_ok_def rh_codec.rd_put)

interpretation sm1_record: dbn_struct SymbolMappingMsgV1_type
proof (intro dbn_struct.intro dbn_record.intro dbn_struct_axioms.intro)
  show "codec (as_ref SymbolMappingMsgV1_type) (cast SymbolMappingMsgV1_type) (size_of SymbolMappingMsgV1_type) (rec_ok SymbolMappingMsgV1_type)"
    using sm1_codec.codec_axioms by (simp add: SymbolMappingMsgV1_type_def)
qed (auto simp: SymbolMappingMsgV1_type_def put_SymbolMappingMsgV1_def SymbolMappingMsgV1_ok_def rh_codec.rd_put)

interpretation sys1_record: dbn_struct SystemMsgV1_type
proof (intro dbn_struct.intro dbn_record.intro dbn_struct_axioms.intro)
  show "codec (as_ref SystemMsgV1_type) (cast SystemMsgV1_type) (size_of SystemMsgV1_type) (rec_ok SystemMsgV1_type)"
    using sys1_codec.codec_axioms by (simp add: SystemMsgV1_type_def)
qed (auto simp: SystemMsgV1_type_def put_SystemMsgV1_def SystemMsgV1_ok_def rh_codec.rd_put)

interpretation err2_record: dbn_struct ErrorMsg_type
proof (intro dbn_struct.intro dbn_record.intro dbn_struct_axioms.intro)
  show "codec (as_ref ErrorMsg_type) (cast ErrorMsg_type) (size_of ErrorMsg_type) (rec_ok ErrorMsg_type)"
    using err2_codec.codec_axioms by (simp add: ErrorMsg_type_def)
qed (auto simp: ErrorMsg_type_def put_ErrorMsg_def ErrorMsg_ok_def rh_codec.rd_put)

interpretation stat3_record: dbn_struct StatMsg_type
proof (intro dbn_struct.intro dbn_record.intro dbn_struct_axioms.intro)
  show "codec (as_ref StatMsg_type) (cast StatMsg_type) (size_of StatMsg_type) (rec_ok StatMsg_type)"
    using stat3_codec.codec_axioms by (simp add: StatMsg_type_def)
qed (auto simp: StatMsg_type_def put_StatMsg_def StatMsg_ok_def rh_codec.rd_put)

interpretation sm2_record: dbn_struct SymbolMappingMsg_type
proof (intro dbn_struct.intro dbn_record.intro dbn_struct_axioms.intro)
  show "codec (as_ref SymbolMappingMsg_type) (cast SymbolMappingMsg_type) (size_of SymbolMappingMsg_type) (rec_ok SymbolMappingMsg_type)"
    using sm2_codec.codec_axioms by (simp add: SymbolMappingMsg_type_def)
qed (auto simp: SymbolMappingMsg_type_def put_SymbolMappingMsg_def SymbolMappingMsg_ok_def rh_codec.rd_put)

interpretation sys2_record: dbn_struct SystemMsg_type
proof (intro dbn_struct.intro dbn_record.intro dbn_struct_axioms.intro)
  show "codec (as_ref SystemMsg_type) (cast SystemMsg_type) (size_of SystemMsg_type) (rec_ok SystemMsg_type)"
    using sys2_codec.codec_axioms by (simp add: SystemMsg_type_def)
qed (auto simp: SystemMsg_type_def put_SystemMsg_def SystemMsg_ok_def rh_codec.rd_put)

interpretation def1_record: dbn_struct InstrumentDefMsgV1_type
proof (intro dbn_struct.intro dbn_record.intro dbn_struct_axioms.intro)
  show "codec (as_ref InstrumentDefMsgV1_type) (cast InstrumentDefMsgV1_type) (size_of InstrumentDefMsgV1_type) (rec_ok InstrumentDefMsgV1_type)"
    using def1_codec.codec_axioms by (simp add: InstrumentDefMsgV1_type_def)
qed (auto simp: InstrumentDefMsgV1_type_def put_InstrumentDefMsgV1_def InstrumentDefMsgV1_ok_def rh_codec.rd_put)

interpretation def2_record: dbn_struct InstrumentDefMsgV2_type
proof (intro dbn_struct.intro dbn_record.intro dbn_struct_axioms.intro)
  show "codec (as_ref InstrumentDefMsgV2_type) (cast InstrumentDefMsgV2_type) (size_of InstrumentDefMsgV2_type) (rec_ok InstrumentDefMsgV2_type)"
    using def2_codec.codec_axioms by (simp add: InstrumentDefMsgV2_type_def)
qed (auto simp: InstrumentDefMsgV2_type_def put_InstrumentDefMsgV2_def InstrumentDefMsgV2_ok_def rh_codec.rd_put)

interpretation def3_record: dbn_struct InstrumentDefMsg_type
proof (intro dbn_struct.intro dbn_record.intro dbn_struct_axioms.intro)
  show "codec (as_ref InstrumentDefMsg_type) (cast InstrumentDefMsg_type) (size_of InstrumentDefMsg_type) (rec_ok InstrumentDefMsg_type)"
    using def3_codec.codec_axioms by (simp add: InstrumentDefMsg_type_def)
qed (auto simp: InstrumentDefMsg_type_def put_InstrumentDefMsg_def InstrumentDefMsg_ok_def rh_codec.rd_put)

end
