(* ===== verification/Defaults.thy ===== *)
theory Defaults
  imports Record_Types
begin

text \<open>
  The default values of the record structs: rust/dbn/src/record/impl_default.rs, and
  v1/impl_default.rs and v2/impl_default.rs for the structs of earlier versions. A default record
  is well formed, carries the record type of its struct and a length byte that matches its size.
\<close>

section \<open>Definitions\<close>

definition MboMsg_default :: MboMsg where
  "MboMsg_default =
     \<lparr>mbo_hd = record_header_default MboMsg_type (rtype_as_u8 RType_Mbo),
      mbo_order_id = 0, mbo_price = UNDEF_PRICE, mbo_size = UNDEF_ORDER_SIZE,
      mbo_flags = flag_set_empty, mbo_channel_id = 0xFF, mbo_action = action_as_u8 Action_None,
      mbo_side = side_as_u8 Side_None, mbo_ts_recv = UNDEF_TIMESTAMP, mbo_ts_in_delta = 0,
      mbo_sequence = 0\<rparr>"

definition BidAskPair_default :: BidAskPair where
  "BidAskPair_default =
     \<lparr>bap_bid_px = UNDEF_PRICE, bap_ask_px = UNDEF_PRICE, bap_bid_sz = 0,
      bap_ask_sz = 0, bap_bid_ct = 0, bap_ask_ct = 0\<rparr>"

definition ConsolidatedBidAskPair_default :: ConsolidatedBidAskPair where
  "ConsolidatedBidAskPair_default =
     \<lparr>cbap_bid_px = UNDEF_PRICE, cbap_ask_px = UNDEF_PRICE, cbap_bid_sz = 0,
      cbap_ask_sz = 0, cbap_bid_pb = 0, cbap_reserved1 = replicate 2 0, cbap_ask_pb = 0,
      cbap_reserved2 = replicate 2 0\<rparr>"

definition TradeMsg_default :: TradeMsg where
  "TradeMsg_default =
     \<lparr>trade_hd = record_header_default TradeMsg_type (rtype_as_u8 RType_Mbp0),
      trade_price = UNDEF_PRICE, trade_size = UNDEF_ORDER_SIZE,
      trade_action = action_as_u8 Action_None, trade_side = side_as_u8 Side_None,
      trade_flags = flag_set_empty, trade_depth = 0, trade_ts_recv = UNDEF_TIMESTAMP,
      trade_ts_in_delta = 0, trade_sequence = 0\<rparr>"

definition Mbp1Msg_default :: Mbp1Msg where
  "Mbp1Msg_default =
     \<lparr>mbp1_hd = record_header_default Mbp1Msg_type (rtype_as_u8 RType_Mbp1),
      mbp1_price = UNDEF_PRICE, mbp1_size = UNDEF_ORDER_SIZE,
      mbp1_action = action_as_u8 Action_None, mbp1_side = side_as_u8 Side_None,
      mbp1_flags = flag_set_empty, mbp1_depth = 0, mbp1_ts_recv = UNDEF_TIMESTAMP,
      mbp1_ts_in_delta = 0, mbp1_sequence = 0,
      mbp1_levels = replicate 1 BidAskPair_default\<rparr>"

definition Mbp10Msg_default :: Mbp10Msg where
  "Mbp10Msg_default =
     \<lparr>mbp10_hd = record_header_default Mbp10Msg_type (rtype_as_u8 RType_Mbp10),
      mbp10_price = UNDEF_PRICE, mbp10_size = UNDEF_ORDER_SIZE,
      mbp10_action = action_as_u8 Action_None, mbp10_side = side_as_u8 Side_None,
      mbp10_flags = flag_set_empty, mbp10_depth = 0, mbp10_ts_recv = UNDEF_TIMESTAMP,
      mbp10_ts_in_delta = 0, mbp10_sequence = 0,
      mbp10_levels = replicate 10 BidAskPair_default\<rparr>"

definition BboMsg_default_for_schema :: "Schema \<Rightarrow> BboMsg" where
  "BboMsg_default_for_schema schema =
     \<lparr>
      bbo_hd = record_header_default BboMsg_type (rtype_as_u8 (rtype_from_schema schema)),
      bbo_price = UNDEF_PRICE, bbo_size = UNDEF_ORDER_SIZE, bbo_reserved1 = 0,
      bbo_side = side_as_u8 Side_None, bbo_flags = flag_set_empty, bbo_reserved2 = 0,
      bbo_ts_recv = UNDEF_TIMESTAMP, bbo_reserved3 = replicate 4 0, bbo_sequence = 0,
      bbo_levels = replicate 1 BidAskPair_default\<rparr>"

definition Cmbp1Msg_default_for_schema :: "Schema \<Rightarrow> Cmbp1Msg" where
  "Cmbp1Msg_default_for_schema schema =
     \<lparr>
      cmbp1_hd = record_header_default Cmbp1Msg_type (rtype_as_u8 (rtype_from_schema schema)),
      cmbp1_price = UNDEF_PRICE, cmbp1_size = UNDEF_ORDER_SIZE,
      cmbp1_action = action_as_u8 Action_None, cmbp1_side = side_as_u8 Side_None,
      cmbp1_flags = flag_set_empty, cmbp1_reserved1 = replicate 1 0,
      cmbp1_ts_recv = UNDEF_TIMESTAMP, cmbp1_ts_in_delta = 0, cmbp1_reserved2 = replicate 4 0,
      cmbp1_levels = replicate 1 ConsolidatedBidAskPair_default\<rparr>"

definition CbboMsg_default_for_schema :: "Schema \<Rightarrow> CbboMsg" where
  "CbboMsg_default_for_schema schema =
     \<lparr>
      cbbo_hd = record_header_default CbboMsg_type (rtype_as_u8 (rtype_from_schema schema)),
      cbbo_price = UNDEF_PRICE, cbbo_size = UNDEF_ORDER_SIZE, cbbo_reserved1 = 0,
      cbbo_side = side_as_u8 Side_None, cbbo_flags = flag_set_empty, cbbo_reserved2 = 0,
      cbbo_ts_recv = UNDEF_TIMESTAMP, cbbo_reserved3 = replicate 8 0,
      cbbo_levels = replicate 1 ConsolidatedBidAskPair_default\<rparr>"

definition OhlcvMsg_default_for_schema :: "Schema \<Rightarrow> OhlcvMsg" where
  "OhlcvMsg_default_for_schema schema =
     \<lparr>
      ohlcv_hd = record_header_default OhlcvMsg_type (rtype_as_u8 (rtype_from_schema schema)),
      ohlcv_open = UNDEF_PRICE, ohlcv_high = UNDEF_PRICE, ohlcv_low = UNDEF_PRICE,
      ohlcv_close = UNDEF_PRICE, ohlcv_volume = 0\<rparr>"

definition StatusMsg_default :: StatusMsg where
  "StatusMsg_default =
     \<lparr>status_hd = record_header_default StatusMsg_type (rtype_as_u8 RType_Status),
      status_ts_recv = UNDEF_TIMESTAMP, status_action = status_action_as_u16 StatusAction_None,
      status_reason = status_reason_as_u16 StatusReason_None,
      status_trading_event = trading_event_as_u16 TradingEvent_None,
      status_is_trading = tri_state_as_u8 TriState_NotAvailable,
      status_is_quoting = tri_state_as_u8 TriState_NotAvailable,
      status_is_short_sell_restricted = tri_state_as_u8 TriState_NotAvailable,
      status_reserved = replicate 7 0\<rparr>"

definition InstrumentDefMsg_default :: InstrumentDefMsg where
  "InstrumentDefMsg_default =
     \<lparr>
      def3_hd = record_header_default InstrumentDefMsg_type (rtype_as_u8 RType_InstrumentDef),
      def3_ts_recv = UNDEF_TIMESTAMP, def3_min_price_increment = UNDEF_PRICE,
      def3_display_factor = UNDEF_PRICE, def3_expiration = UNDEF_TIMESTAMP,
      def3_activation = UNDEF_TIMESTAMP, def3_high_limit_price = UNDEF_PRICE,
      def3_low_limit_price = UNDEF_PRICE, def3_max_price_variation = UNDEF_PRICE,
      def3_unit_of_measure_qty = UNDEF_PRICE, def3_min_price_increment_amount = UNDEF_PRICE,
      def3_price_ratio = UNDEF_PRICE, def3_strike_price = UNDEF_PRICE,
      def3_raw_instrument_id = 0, def3_leg_price = UNDEF_PRICE, def3_leg_delta = UNDEF_PRICE,
      def3_inst_attrib_value = 0x7FFFFFFF, def3_underlying_id = 0,
      def3_market_depth_implied = 0x7FFFFFFF, def3_market_depth = 0x7FFFFFFF,
      def3_market_segment_id = 0xFFFFFFFF, def3_max_trade_vol = 0xFFFFFFFF,
      def3_min_lot_size = 0x7FFFFFFF, def3_min_lot_size_block = 0x7FFFFFFF,
      def3_min_lot_size_round_lot = 0x7FFFFFFF, def3_min_trade_vol = 0xFFFFFFFF,
      def3_contract_multiplier = 0x7FFFFFFF, def3_decay_quantity = 0x7FFFFFFF,
      def3_original_contract_size = 0x7FFFFFFF, def3_leg_instrument_id = 0,
      def3_leg_ratio_price_numerator = 0, def3_leg_ratio_price_denominator = 0,
      def3_leg_ratio_qty_numerator = 0, def3_leg_ratio_qty_denominator = 0,
      def3_leg_underlying_id = 0, def3_appl_id = 0x7FFF, def3_maturity_year = 0xFFFF,
      def3_decay_start_date = 0xFFFF, def3_channel_id = 0xFFFF, def3_leg_count = 0,
      def3_leg_index = 0, def3_currency = replicate 4 0, def3_settl_currency = replicate 4 0,
      def3_secsubtype = replicate 6 0, def3_raw_symbol = replicate 71 0,
      def3_group = replicate 21 0, def3_exchange = replicate 5 0, def3_asset = replicate 11 0,
      def3_cfi = replicate 7 0, def3_security_type = replicate 7 0,
      def3_unit_of_measure = replicate 31 0, def3_underlying = replicate 21 0,
      def3_strike_price_currency = replicate 4 0, def3_leg_raw_symbol = replicate 71 0,
      def3_instrument_class = 0,
      def3_match_algorithm = match_algorithm_as_u8 MatchAlgorithm_Undefined,
      def3_main_fraction = 0xFF, def3_price_display_format = 0xFF, def3_sub_fraction = 0xFF,
      def3_underlying_product = 0xFF,
      def3_security_update_action = security_update_action_as_u8 SecurityUpdateAction_Add,
      def3_maturity_month = 0xFF, def3_maturity_day = 0xFF, def3_maturity_week = 0xFF,
      def3_user_defined_instrument = user_defined_instrument_as_u8 UserDefinedInstrument_No,
      def3_contract_multiplier_unit = 0x7F, def3_flow_schedule_type = 0x7F,
      def3_tick_rule = 0xFF, def3_leg_instrument_class = 0,
      def3_leg_side = side_as_u8 Side_None, def3_reserved = replicate 17 0\<rparr>"

definition ImbalanceMsg_default :: ImbalanceMsg where
  "ImbalanceMsg_default =
     \<lparr>imb_hd = record_header_default ImbalanceMsg_type (rtype_as_u8 RType_Imbalance),
      imb_ts_recv = UNDEF_TIMESTAMP, imb_ref_price = UNDEF_PRICE,
      imb_auction_time = UNDEF_TIMESTAMP, imb_cont_book_clr_price = UNDEF_PRICE,
      imb_auct_interest_clr_price = UNDEF_PRICE, imb_ssr_filling_price = UNDEF_PRICE,
      imb_ind_match_price = UNDEF_PRICE, imb_upper_collar = UNDEF_PRICE,
      imb_lower_collar = UNDEF_PRICE, imb_paired_qty = UNDEF_ORDER_SIZE,
      imb_total_imbalance_qty = UNDEF_ORDER_SIZE, imb_market_imbalance_qty = UNDEF_ORDER_SIZE,
      imb_unpaired_qty = UNDEF_ORDER_SIZE, imb_auction_type = 126,
      imb_side = side_as_u8 Side_None, imb_auction_status = 0, imb_freeze_status = 0,
      imb_num_extensions = 0, imb_unpaired_side = side_as_u8 Side_None,
      imb_significant_imbalance = 126, imb_reserved = replicate 1 0\<rparr>"

definition StatMsg_default :: StatMsg where
  "StatMsg_default =
     \<lparr>stat3_hd = record_header_default StatMsg_type (rtype_as_u8 RType_Statistics),
      stat3_ts_recv = UNDEF_TIMESTAMP, stat3_ts_ref = UNDEF_TIMESTAMP,
      stat3_price = UNDEF_PRICE, stat3_quantity = UNDEF_STAT_QUANTITY, stat3_sequence = 0,
      stat3_ts_in_delta = 0, stat3_stat_type = 0, stat3_channel_id = 0xFFFF,
      stat3_update_action = stat_update_action_as_u8 StatUpdateAction_New,
      stat3_stat_flags = 0, stat3_reserved = replicate 18 0\<rparr>"

definition ErrorMsg_default :: ErrorMsg where
  "ErrorMsg_default =
     \<lparr>err2_hd = record_header_default ErrorMsg_type (rtype_as_u8 RType_Error),
      err2_err = replicate 302 0, err2_code = error_code_as_u8 ErrorCode_Unset,
      err2_is_last = 0xFF\<rparr>"

definition SymbolMappingMsg_default :: SymbolMappingMsg where
  "SymbolMappingMsg_default =
     \<lparr>
      sm2_hd = record_header_default SymbolMappingMsg_type (rtype_as_u8 RType_SymbolMapping),
      sm2_stype_in = 0xFF, sm2_stype_in_symbol = replicate 71 0, sm2_stype_out = 0xFF,
      sm2_stype_out_symbol = replicate 71 0, sm2_start_ts = UNDEF_TIMESTAMP,
      sm2_end_ts = UNDEF_TIMESTAMP\<rparr>"

definition SystemMsg_default :: SystemMsg where
  "SystemMsg_default =
     \<lparr>sys2_hd = record_header_default SystemMsg_type (rtype_as_u8 RType_System),
      sys2_msg = replicate 303 0, sys2_code = system_code_as_u8 SystemCode_Unset\<rparr>"

definition ErrorMsgV1_default :: ErrorMsgV1 where
  "ErrorMsgV1_default =
     \<lparr>err1_hd = record_header_default ErrorMsgV1_type (rtype_as_u8 RType_Error),
      err1_err = replicate 64 0\<rparr>"

definition InstrumentDefMsgV1_default :: InstrumentDefMsgV1 where
  "InstrumentDefMsgV1_default =
     \<lparr>
      def1_hd = record_header_default InstrumentDefMsgV1_type (rtype_as_u8 RType_InstrumentDef),
      def1_ts_recv = UNDEF_TIMESTAMP, def1_min_price_increment = UNDEF_PRICE,
      def1_display_factor = UNDEF_PRICE, def1_expiration = UNDEF_TIMESTAMP,
      def1_activation = UNDEF_TIMESTAMP, def1_high_limit_price = UNDEF_PRICE,
      def1_low_limit_price = UNDEF_PRICE, def1_max_price_variation = UNDEF_PRICE,
      def1_trading_reference_price = UNDEF_PRICE, def1_unit_of_measure_qty = UNDEF_PRICE,
      def1_min_price_increment_amount = UNDEF_PRICE, def1_price_ratio = UNDEF_PRICE,
      def1_inst_attrib_value = 0x7FFFFFFF, def1_underlying_id = 0, def1_raw_instrument_id = 0,
      def1_market_depth_implied = 0x7FFFFFFF, def1_market_depth = 0x7FFFFFFF,
      def1_market_segment_id = 0xFFFFFFFF, def1_max_trade_vol = 0xFFFFFFFF,
      def1_min_lot_size = 0x7FFFFFFF, def1_min_lot_size_block = 0x7FFFFFFF,
      def1_min_lot_size_round_lot = 0x7FFFFFFF, def1_min_trade_vol = 0xFFFFFFFF,
      def1_reserved2 = replicate 4 0, def1_contract_multiplier = 0x7FFFFFFF,
      def1_decay_quantity = 0x7FFFFFFF, def1_original_contract_size = 0x7FFFFFFF,
      def1_reserved3 = replicate 4 0, def1_trading_reference_date = 0xFFFF,
      def1_appl_id = 0x7FFF, def1_maturity_year = 0xFFFF, def1_decay_start_date = 0xFFFF,
      def1_channel_id = 0xFFFF, def1_currency = replicate 4 0,
      def1_settl_currency = replicate 4 0, def1_secsubtype = replicate 6 0,
      def1_raw_symbol = replicate 22 0, def1_group = replicate 21 0,
      def1_exchange = replicate 5 0, def1_asset = replicate 7 0, def1_cfi = replicate 7 0,
      def1_security_type = replicate 7 0, def1_unit_of_measure = replicate 31 0,
      def1_underlying = replicate 21 0, def1_strike_price_currency = replicate 4 0,
      def1_instrument_class = 0, def1_reserved4 = replicate 2 0,
      def1_strike_price = UNDEF_PRICE, def1_reserved5 = replicate 6 0,
      def1_match_algorithm = match_algorithm_as_u8 MatchAlgorithm_Undefined,
      def1_md_security_trading_status = 0xFF, def1_main_fraction = 0xFF,
      def1_price_display_format = 0xFF, def1_settl_price_type = 0xFF, def1_sub_fraction = 0xFF,
      def1_underlying_product = 0xFF,
      def1_security_update_action = security_update_action_as_u8 SecurityUpdateAction_Add,
      def1_maturity_month = 0xFF, def1_maturity_day = 0xFF, def1_maturity_week = 0xFF,
      def1_user_defined_instrument = user_defined_instrument_as_u8 UserDefinedInstrument_No,
      def1_contract_multiplier_unit = 0x7F, def1_flow_schedule_type = 0x7F,
      def1_tick_rule = 0xFF, def1_dummy = replicate 3 0\<rparr>"

definition StatMsgV1_default :: StatMsgV1 where
  "StatMsgV1_default =
     \<lparr>stat1_hd = record_header_default StatMsgV1_type (rtype_as_u8 RType_Statistics),
      stat1_ts_recv = UNDEF_TIMESTAMP, stat1_ts_ref = UNDEF_TIMESTAMP,
      stat1_price = UNDEF_PRICE, stat1_quantity = UNDEF_STAT_QUANTITY_V1, stat1_sequence = 0,
      stat1_ts_in_delta = 0, stat1_stat_type = 0, stat1_channel_id = 0xFFFF,
      stat1_update_action = stat_update_action_as_u8 StatUpdateAction_New,
      stat1_stat_flags = 0, stat1_reserved = replicate 6 0\<rparr>"

definition SymbolMappingMsgV1_default :: SymbolMappingMsgV1 where
  "SymbolMappingMsgV1_default =
     \<lparr>
      sm1_hd = record_header_default SymbolMappingMsgV1_type (rtype_as_u8 RType_SymbolMapping),
      sm1_stype_in_symbol = replicate 22 0, sm1_stype_out_symbol = replicate 22 0,
      sm1_dummy = replicate 4 0, sm1_start_ts = UNDEF_TIMESTAMP,
      sm1_end_ts = UNDEF_TIMESTAMP\<rparr>"

definition SystemMsgV1_default :: SystemMsgV1 where
  "SystemMsgV1_default =
     \<lparr>sys1_hd = record_header_default SystemMsgV1_type (rtype_as_u8 RType_System),
      sys1_msg = replicate 64 0\<rparr>"

definition InstrumentDefMsgV2_default :: InstrumentDefMsgV2 where
  "InstrumentDefMsgV2_default =
     \<lparr>
      def2_hd = record_header_default InstrumentDefMsgV2_type (rtype_as_u8 RType_InstrumentDef),
      def2_ts_recv = UNDEF_TIMESTAMP, def2_min_price_increment = UNDEF_PRICE,
      def2_display_factor = UNDEF_PRICE, def2_expiration = UNDEF_TIMESTAMP,
      def2_activation = UNDEF_TIMESTAMP, def2_high_limit_price = UNDEF_PRICE,
      def2_low_limit_price = UNDEF_PRICE, def2_max_price_variation = UNDEF_PRICE,
      def2_trading_reference_price = UNDEF_PRICE, def2_unit_of_measure_qty = UNDEF_PRICE,
      def2_min_price_increment_amount = UNDEF_PRICE, def2_price_ratio = UNDEF_PRICE,
      def2_strike_price = UNDEF_PRICE, def2_inst_attrib_value = 0x7FFFFFFF,
      def2_underlying_id = 0, def2_raw_instrument_id = 0,
      def2_market_depth_implied = 0x7FFFFFFF, def2_market_depth = 0x7FFFFFFF,
      def2_market_segment_id = 0xFFFFFFFF, def2_max_trade_vol = 0xFFFFFFFF,
      def2_min_lot_size = 0x7FFFFFFF, def2_min_lot_size_block = 0x7FFFFFFF,
      def2_min_lot_size_round_lot = 0x7FFFFFFF, def2_min_trade_vol = 0xFFFFFFFF,
      def2_contract_multiplier = 0x7FFFFFFF, def2_decay_quantity = 0x7FFFFFFF,
      def2_original_contract_size = 0x7FFFFFFF, def2_trading_reference_date = 0xFFFF,
      def2_appl_id = 0x7FFF, def2_maturity_year = 0xFFFF, def2_decay_start_date = 0xFFFF,
      def2_channel_id = 0xFFFF, def2_currency = replicate 4 0,
      def2_settl_currency = replicate 4 0, def2_secsubtype = replicate 6 0,
      def2_raw_symbol = replicate 71 0, def2_group = replicate 21 0,
      def2_exchange = replicate 5 0, def2_asset = replicate 7 0, def2_cfi = replicate 7 0,
      def2_security_type = replicate 7 0, def2_unit_of_measure = replicate 31 0,
      def2_underlying = replicate 21 0, def2_strike_price_currency = replicate 4 0,
      def2_instrument_class = 0,
      def2_match_algorithm = match_algorithm_as_u8 MatchAlgorithm_Undefined,
      def2_md_security_trading_status = 0xFF, def2_main_fraction = 0xFF,
      def2_price_display_format = 0xFF, def2_settl_price_type = 0xFF, def2_sub_fraction = 0xFF,
      def2_underlying_product = 0xFF,
      def2_security_update_action = security_update_action_as_u8 SecurityUpdateAction_Add,
      def2_maturity_month = 0xFF, def2_maturity_day = 0xFF, def2_maturity_week = 0xFF,
      def2_user_defined_instrument = user_defined_instrument_as_u8 UserDefinedInstrument_No,
      def2_contract_multiplier_unit = 0x7F, def2_flow_schedule_type = 0x7F,
      def2_tick_rule = 0xFF, def2_reserved = replicate 10 0\<rparr>"

section \<open>Defaults are well formed\<close>

definition well_formed :: "'r record_type \<Rightarrow> 'r \<Rightarrow> bool" where
  "well_formed T r \<longleftrightarrow>
     rec_ok T r \<and> has_rtype T (rh_rtype (header T r)) \<and> header_record_size (header T r) = size_of T"

lemma header_default_size [simp]:
  "header_record_size (record_header_default T t) = unat (word_of_nat (size_of T div 4) :: u8) * 4"
  by (simp add: header_record_size_def record_header_default_def record_header_new_def
      LENGTH_MULTIPLIER_def)

lemma header_default_rtype [simp]: "rh_rtype (record_header_default T t) = t"
  by (simp add: record_header_default_def record_header_new_def)

lemma MboMsg_default_ok: "well_formed MboMsg_type MboMsg_default"
  by (simp add: well_formed_def MboMsg_type_def MboMsg_default_def)

lemma TradeMsg_default_ok: "well_formed TradeMsg_type TradeMsg_default"
  by (simp add: well_formed_def TradeMsg_type_def TradeMsg_default_def)

lemma Mbp1Msg_default_ok: "well_formed Mbp1Msg_type Mbp1Msg_default"
  by (simp add: well_formed_def Mbp1Msg_type_def Mbp1Msg_default_def Mbp1Msg_ok_def)

lemma Mbp10Msg_default_ok: "well_formed Mbp10Msg_type Mbp10Msg_default"
  by (simp add: well_formed_def Mbp10Msg_type_def Mbp10Msg_default_def Mbp10Msg_ok_def)

lemma StatusMsg_default_ok: "well_formed StatusMsg_type StatusMsg_default"
  by (simp add: well_formed_def StatusMsg_type_def StatusMsg_default_def StatusMsg_ok_def)

lemma InstrumentDefMsg_default_ok: "well_formed InstrumentDefMsg_type InstrumentDefMsg_default"
  by (simp add: well_formed_def InstrumentDefMsg_type_def InstrumentDefMsg_default_def InstrumentDefMsg_ok_def)

lemma ImbalanceMsg_default_ok: "well_formed ImbalanceMsg_type ImbalanceMsg_default"
  by (simp add: well_formed_def ImbalanceMsg_type_def ImbalanceMsg_default_def ImbalanceMsg_ok_def)

lemma StatMsg_default_ok: "well_formed StatMsg_type StatMsg_default"
  by (simp add: well_formed_def StatMsg_type_def StatMsg_default_def StatMsg_ok_def)

lemma ErrorMsg_default_ok: "well_formed ErrorMsg_type ErrorMsg_default"
  by (simp add: well_formed_def ErrorMsg_type_def ErrorMsg_default_def ErrorMsg_ok_def)

lemma SymbolMappingMsg_default_ok: "well_formed SymbolMappingMsg_type SymbolMappingMsg_default"
  by (simp add: well_formed_def SymbolMappingMsg_type_def SymbolMappingMsg_default_def SymbolMappingMsg_ok_def)

lemma SystemMsg_default_ok: "well_formed SystemMsg_type SystemMsg_default"
  by (simp add: well_formed_def SystemMsg_type_def SystemMsg_default_def SystemMsg_ok_def)

lemma ErrorMsgV1_default_ok: "well_formed ErrorMsgV1_type ErrorMsgV1_default"
  by (simp add: well_formed_def ErrorMsgV1_type_def ErrorMsgV1_default_def ErrorMsgV1_ok_def)

lemma InstrumentDefMsgV1_default_ok: "well_formed InstrumentDefMsgV1_type InstrumentDefMsgV1_default"
  by (simp add: well_formed_def InstrumentDefMsgV1_type_def InstrumentDefMsgV1_default_def InstrumentDefMsgV1_ok_def)

lemma StatMsgV1_default_ok: "well_formed StatMsgV1_type StatMsgV1_default"
  by (simp add: well_formed_def StatMsgV1_type_def StatMsgV1_default_def StatMsgV1_ok_def)

lemma SymbolMappingMsgV1_default_ok: "well_formed SymbolMappingMsgV1_type SymbolMappingMsgV1_default"
  by (simp add: well_formed_def SymbolMappingMsgV1_type_def SymbolMappingMsgV1_default_def SymbolMappingMsgV1_ok_def)

lemma SystemMsgV1_default_ok: "well_formed SystemMsgV1_type SystemMsgV1_default"
  by (simp add: well_formed_def SystemMsgV1_type_def SystemMsgV1_default_def SystemMsgV1_ok_def)

lemma InstrumentDefMsgV2_default_ok: "well_formed InstrumentDefMsgV2_type InstrumentDefMsgV2_default"
  by (simp add: well_formed_def InstrumentDefMsgV2_type_def InstrumentDefMsgV2_default_def InstrumentDefMsgV2_ok_def)

end
