(* ===== verification/Compat.thy ===== *)
theory Compat
  imports Defaults
begin

text \<open>
  Conversions between the versions of a record struct: the \<^verbatim>\<open>From\<close> implementations of
  rust/dbn/src/v2.rs and rust/dbn/src/v3/methods.rs, with the text helpers of
  rust/dbn/src/record/conv.rs and the message methods of rust/dbn/src/v1/methods.rs they use.

  What the decoder relies on is the interface \<open>record_upgrade\<close>: a conversion between two record
  types gives a well-formed record of the target type that keeps the record type, publisher,
  instrument, event timestamp and index timestamp. All seven conversions interpret it.
\<close>

section \<open>Definitions\<close>

subsection \<open>Fixed-length strings\<close>

definition str_to_c_chars :: "nat \<Rightarrow> string \<Rightarrow> bytes result" where
  "str_to_c_chars N s =
     (if length s > N - 1
      then Err (Encode (''string cannot be longer than '' @ dec_nat (N - 1) @
             ''; received str of length '' @ dec_nat (length s)))
      else Ok (as_bytes s @ replicate (N - length s) 0))"

definition c_chars_to_str :: "bytes \<Rightarrow> string result" where
  "c_chars_to_str chars =
     (if 0 \<notin> set chars then Err (Conversion '''' ''CStr (null-terminated)'')
      else from_utf8 ''converting c_char array'' (takeWhile (\<lambda>c. c \<noteq> 0) chars))"

text \<open>\<^verbatim>\<open>dst[..src.len()].copy_from_slice(src)\<close>\<close>

definition copy_prefix :: "'a list \<Rightarrow> 'a list \<Rightarrow> 'a list" where
  "copy_prefix dst src = src @ drop (length src) dst"

definition starts_with :: "string \<Rightarrow> string \<Rightarrow> bool" where
  "starts_with s p \<longleftrightarrow> take (length p) s = p"

definition ends_with :: "string \<Rightarrow> string \<Rightarrow> bool" where
  "ends_with s p \<longleftrightarrow> length p \<le> length s \<and> drop (length s - length p) s = p"

subsection \<open>Messages of version 1\<close>

definition error_msg_v1_new :: "u64 \<Rightarrow> string \<Rightarrow> ErrorMsgV1" where
  "error_msg_v1_new ts_event msg =
     ErrorMsgV1_default
       \<lparr>err1_hd := record_header_new ErrorMsgV1_type (rtype_as_u8 RType_Error) 0 0 ts_event,
        err1_err := copy_prefix (err1_err ErrorMsgV1_default)
          (take (length (err1_err ErrorMsgV1_default) - 1) (as_bytes msg))\<rparr>"

definition err1_err_str :: "ErrorMsgV1 \<Rightarrow> string result" where
  "err1_err_str r = c_chars_to_str (err1_err r)"

definition HEARTBEAT :: string where "HEARTBEAT = ''Heartbeat''"

definition sys1_msg_str :: "SystemMsgV1 \<Rightarrow> string result" where
  "sys1_msg_str r = c_chars_to_str (sys1_msg r)"

definition sys1_is_heartbeat :: "SystemMsgV1 \<Rightarrow> bool" where
  "sys1_is_heartbeat r = (case sys1_msg_str r of Ok msg \<Rightarrow> msg = HEARTBEAT | _ \<Rightarrow> False)"

definition system_msg_v1_new :: "u64 \<Rightarrow> string \<Rightarrow> SystemMsgV1 result" where
  "system_msg_v1_new ts_event msg =
     and_then (str_to_c_chars 64 msg) (\<lambda>chars.
       Ok \<lparr>sys1_hd = record_header_new SystemMsgV1_type (rtype_as_u8 RType_System) 0 0 ts_event,
           sys1_msg = chars\<rparr>)"

definition symbol_mapping_msg_v1_new ::
  "u32 \<Rightarrow> u64 \<Rightarrow> string \<Rightarrow> string \<Rightarrow> u64 \<Rightarrow> u64 \<Rightarrow> SymbolMappingMsgV1 result" where
  "symbol_mapping_msg_v1_new instrument_id ts_event stype_in_symbol stype_out_symbol start_ts end_ts =
     and_then (str_to_c_chars 22 stype_in_symbol) (\<lambda>in_chars.
     and_then (str_to_c_chars 22 stype_out_symbol) (\<lambda>out_chars.
       Ok \<lparr>sm1_hd = record_header_new SymbolMappingMsgV1_type (rtype_as_u8 RType_SymbolMapping) 0
              instrument_id ts_event,
           sm1_stype_in_symbol = in_chars, sm1_stype_out_symbol = out_chars,
           sm1_dummy = replicate 4 0, sm1_start_ts = start_ts, sm1_end_ts = end_ts\<rparr>))"

subsection \<open>Conversions\<close>

text \<open>The header of a converted record: its length byte is that of the new struct.\<close>

definition upgraded_header :: "'r record_type \<Rightarrow> u8 \<Rightarrow> RecordHeader \<Rightarrow> RecordHeader" where
  "upgraded_header R rtype h =
     record_header_new R rtype (rh_publisher_id h) (rh_instrument_id h) (rh_ts_event h)"

definition ErrorMsg_from_v1 :: "ErrorMsgV1 \<Rightarrow> ErrorMsg" where
  "ErrorMsg_from_v1 old =
     ErrorMsg_default
       \<lparr>err2_hd := upgraded_header ErrorMsg_type (rtype_as_u8 RType_Error) (err1_hd old),
        err2_err := copy_prefix (err2_err ErrorMsg_default) (err1_err old)\<rparr>"

definition SymbolMappingMsg_from_v1 :: "SymbolMappingMsgV1 \<Rightarrow> SymbolMappingMsg" where
  "SymbolMappingMsg_from_v1 old =
     SymbolMappingMsg_default
       \<lparr>sm2_hd := upgraded_header SymbolMappingMsg_type (rtype_as_u8 RType_SymbolMapping) (sm1_hd old),
        sm2_start_ts := sm1_start_ts old, sm2_end_ts := sm1_end_ts old,
        sm2_stype_in_symbol :=
          copy_prefix (sm2_stype_in_symbol SymbolMappingMsg_default) (sm1_stype_in_symbol old),
        sm2_stype_out_symbol :=
          copy_prefix (sm2_stype_out_symbol SymbolMappingMsg_default) (sm1_stype_out_symbol old)\<rparr>"

text \<open>The code of a version 1 system message, recognised from its text.\<close>

definition system_code_of_v1 :: "SystemMsgV1 \<Rightarrow> u8" where
  "system_code_of_v1 old =
     (if sys1_is_heartbeat old then system_code_as_u8 SystemCode_Heartbeat
      else case sys1_msg_str old of
        Ok msg \<Rightarrow>
          if starts_with msg ''End of interval for '' then system_code_as_u8 SystemCode_EndOfInterval
          else if starts_with msg ''Subscription request '' \<and> ends_with msg '' succeeded''
          then system_code_as_u8 SystemCode_SubscriptionAck
          else if starts_with msg ''Warning: slow reading''
          then system_code_as_u8 SystemCode_SlowReaderWarning
          else if starts_with msg ''Finished '' \<and> ends_with msg '' replay''
          then system_code_as_u8 SystemCode_ReplayCompleted
          else sys2_code SystemMsg_default
      | _ \<Rightarrow> sys2_code SystemMsg_default)"

definition SystemMsg_from_v1 :: "SystemMsgV1 \<Rightarrow> SystemMsg" where
  "SystemMsg_from_v1 old =
     SystemMsg_default
       \<lparr>sys2_hd := upgraded_header SystemMsg_type (rtype_as_u8 RType_System) (sys1_hd old),
        sys2_code := system_code_of_v1 old,
        sys2_msg := copy_prefix (sys2_msg SystemMsg_default) (sys1_msg old)\<rparr>"

definition StatMsg_from_v1 :: "StatMsgV1 \<Rightarrow> StatMsg" where
  "StatMsg_from_v1 old =
     \<lparr>stat3_hd = upgraded_header StatMsg_type (rtype_as_u8 RType_Statistics) (stat1_hd old),
      stat3_ts_recv = stat1_ts_recv old, stat3_ts_ref = stat1_ts_ref old,
      stat3_price = stat1_price old,
      stat3_quantity =
        (if stat1_quantity old = UNDEF_STAT_QUANTITY_V1 then UNDEF_STAT_QUANTITY
         else scast (stat1_quantity old)),
      stat3_sequence = stat1_sequence old, stat3_ts_in_delta = stat1_ts_in_delta old,
      stat3_stat_type = stat1_stat_type old, stat3_channel_id = stat1_channel_id old,
      stat3_update_action = stat1_update_action old, stat3_stat_flags = stat1_stat_flags old,
      stat3_reserved = replicate 18 0\<rparr>"

definition InstrumentDefMsgV2_from_v1 :: "InstrumentDefMsgV1 \<Rightarrow> InstrumentDefMsgV2" where
  "InstrumentDefMsgV2_from_v1 old =
     \<lparr>
      def2_hd = upgraded_header InstrumentDefMsgV2_type (rtype_as_u8 RType_InstrumentDef) (def1_hd old),
      def2_ts_recv = def1_ts_recv old, def2_min_price_increment = def1_min_price_increment old,
      def2_display_factor = def1_display_factor old, def2_expiration = def1_expiration old,
      def2_activation = def1_activation old, def2_high_limit_price = def1_high_limit_price old,
      def2_low_limit_price = def1_low_limit_price old,
      def2_max_price_variation = def1_max_price_variation old,
      def2_trading_reference_price = def1_trading_reference_price old,
      def2_unit_of_measure_qty = def1_unit_of_measure_qty old,
      def2_min_price_increment_amount = def1_min_price_increment_amount old,
      def2_price_ratio = def1_price_ratio old, def2_strike_price = def1_strike_price old,
      def2_inst_attrib_value = def1_inst_attrib_value old,
      def2_underlying_id = def1_underlying_id old,
      def2_raw_instrument_id = def1_raw_instrument_id old,
      def2_market_depth_implied = def1_market_depth_implied old,
      def2_market_depth = def1_market_depth old,
      def2_market_segment_id = def1_market_segment_id old,
      def2_max_trade_vol = def1_max_trade_vol old, def2_min_lot_size = def1_min_lot_size old,
      def2_min_lot_size_block = def1_min_lot_size_block old,
      def2_min_lot_size_round_lot = def1_min_lot_size_round_lot old,
      def2_min_trade_vol = def1_min_trade_vol old,
      def2_contract_multiplier = def1_contract_multiplier old,
      def2_decay_quantity = def1_decay_quantity old,
      def2_original_contract_size = def1_original_contract_size old,
      def2_trading_reference_date = def1_trading_reference_date old,
      def2_appl_id = def1_appl_id old, def2_maturity_year = def1_maturity_year old,
      def2_decay_start_date = def1_decay_start_date old, def2_channel_id = def1_channel_id old,
      def2_currency = def1_currency old, def2_settl_currency = def1_settl_currency old,
      def2_secsubtype = def1_secsubtype old,
      def2_raw_symbol = copy_prefix (def2_raw_symbol InstrumentDefMsgV2_default) (def1_raw_symbol old),
      def2_group = def1_group old, def2_exchange = def1_exchange old,
      def2_asset = def1_asset old, def2_cfi = def1_cfi old,
      def2_security_type = def1_security_type old,
      def2_unit_of_measure = def1_unit_of_measure old, def2_underlying = def1_underlying old,
      def2_strike_price_currency = def1_strike_price_currency old,
      def2_instrument_class = def1_instrument_class old,
      def2_match_algorithm = def1_match_algorithm old,
      def2_md_security_trading_status = def1_md_security_trading_status old,
      def2_main_fraction = def1_main_fraction old,
      def2_price_display_format = def1_price_display_format old,
      def2_settl_price_type = def1_settl_price_type old,
      def2_sub_fraction = def1_sub_fraction old,
      def2_underlying_product = def1_underlying_product old,
      def2_security_update_action = def1_security_update_action old,
      def2_maturity_month = def1_maturity_month old, def2_maturity_day = def1_maturity_day old,
      def2_maturity_week = def1_maturity_week old,
      def2_user_defined_instrument = def1_user_defined_instrument old,
      def2_contract_multiplier_unit = def1_contract_multiplier_unit old,
      def2_flow_schedule_type = def1_flow_schedule_type old,
      def2_tick_rule = def1_tick_rule old,
      def2_reserved = def2_reserved InstrumentDefMsgV2_default\<rparr>"

definition InstrumentDefMsg_from_v1 :: "InstrumentDefMsgV1 \<Rightarrow> InstrumentDefMsg" where
  "InstrumentDefMsg_from_v1 old =
     \<lparr>
      def3_hd = upgraded_header InstrumentDefMsg_type (rtype_as_u8 RType_InstrumentDef) (def1_hd old),
      def3_ts_recv = def1_ts_recv old, def3_min_price_increment = def1_min_price_increment old,
      def3_display_factor = def1_display_factor old, def3_expiration = def1_expiration old,
      def3_activation = def1_activation old, def3_high_limit_price = def1_high_limit_price old,
      def3_low_limit_price = def1_low_limit_price old,
      def3_max_price_variation = def1_max_price_variation old,
      def3_unit_of_measure_qty = def1_unit_of_measure_qty old,
      def3_min_price_increment_amount = def1_min_price_increment_amount old,
      def3_price_ratio = def1_price_ratio old, def3_strike_price = def1_strike_price old,
      def3_raw_instrument_id = ucast (def1_raw_instrument_id old),
      def3_leg_price = def3_leg_price InstrumentDefMsg_default,
      def3_leg_delta = def3_leg_delta InstrumentDefMsg_default,
      def3_inst_attrib_value = def1_inst_attrib_value old,
      def3_underlying_id = def1_underlying_id old,
      def3_market_depth_implied = def1_market_depth_implied old,
      def3_market_depth = def1_market_depth old,
      def3_market_segment_id = def1_market_segment_id old,
      def3_max_trade_vol = def1_max_trade_vol old, def3_min_lot_size = def1_min_lot_size old,
      def3_min_lot_size_block = def1_min_lot_size_block old,
      def3_min_lot_size_round_lot = def1_min_lot_size_round_lot old,
      def3_min_trade_vol = def1_min_trade_vol old,
      def3_contract_multiplier = def1_contract_multiplier old,
      def3_decay_quantity = def1_decay_quantity old,
      def3_original_contract_size = def1_original_contract_size old,
      def3_leg_instrument_id = def3_leg_instrument_id InstrumentDefMsg_default,
      def3_leg_ratio_price_numerator = def3_leg_ratio_price_numerator InstrumentDefMsg_default,
      def3_leg_ratio_price_denominator = def3_leg_ratio_price_denominator InstrumentDefMsg_default,
      def3_leg_ratio_qty_numerator = def3_leg_ratio_qty_numerator InstrumentDefMsg_default,
      def3_leg_ratio_qty_denominator = def3_leg_ratio_qty_denominator InstrumentDefMsg_default,
      def3_leg_underlying_id = def3_leg_underlying_id InstrumentDefMsg_default,
      def3_appl_id = def1_appl_id old, def3_maturity_year = def1_maturity_year old,
      def3_decay_start_date = def1_decay_start_date old, def3_channel_id = def1_channel_id old,
      def3_leg_count = def3_leg_count InstrumentDefMsg_default,
      def3_leg_index = def3_leg_index InstrumentDefMsg_default,
      def3_currency = def1_currency old, def3_settl_currency = def1_settl_currency old,
      def3_secsubtype = def1_secsubtype old,
      def3_raw_symbol = copy_prefix (def3_raw_symbol InstrumentDefMsg_default) (def1_raw_symbol old),
      def3_group = def1_group old, def3_exchange = def1_exchange old,
      def3_asset = copy_prefix (def3_asset InstrumentDefMsg_default) (def1_asset old),
      def3_cfi = def1_cfi old, def3_security_type = def1_security_type old,
      def3_unit_of_measure = def1_unit_of_measure old, def3_underlying = def1_underlying old,
      def3_strike_price_currency = def1_strike_price_currency old,
      def3_leg_raw_symbol = def3_leg_raw_symbol InstrumentDefMsg_default,
      def3_instrument_class = def1_instrument_class old,
      def3_match_algorithm = def1_match_algorithm old,
      def3_main_fraction = def1_main_fraction old,
      def3_price_display_format = def1_price_display_format old,
      def3_sub_fraction = def1_sub_fraction old,
      def3_underlying_product = def1_underlying_product old,
      def3_security_update_action = def1_security_update_action old,
      def3_maturity_month = def1_maturity_month old, def3_maturity_day = def1_maturity_day old,
      def3_maturity_week = def1_maturity_week old,
      def3_user_defined_instrument = def1_user_defined_instrument old,
      def3_contract_multiplier_unit = def1_contract_multiplier_unit old,
      def3_flow_schedule_type = def1_flow_schedule_type old,
      def3_tick_rule = def1_tick_rule old,
      def3_leg_instrument_class = def3_leg_instrument_class InstrumentDefMsg_default,
      def3_leg_side = def3_leg_side InstrumentDefMsg_default,
      def3_reserved = def3_reserved InstrumentDefMsg_default\<rparr>"

definition InstrumentDefMsg_from_v2 :: "InstrumentDefMsgV2 \<Rightarrow> InstrumentDefMsg" where
  "InstrumentDefMsg_from_v2 old =
     \<lparr>
      def3_hd = upgraded_header InstrumentDefMsg_type (rtype_as_u8 RType_InstrumentDef) (def2_hd old),
      def3_ts_recv = def2_ts_recv old, def3_min_price_increment = def2_min_price_increment old,
      def3_display_factor = def2_display_factor old, def3_expiration = def2_expiration old,
      def3_activation = def2_activation old, def3_high_limit_price = def2_high_limit_price old,
      def3_low_limit_price = def2_low_limit_price old,
      def3_max_price_variation = def2_max_price_variation old,
      def3_unit_of_measure_qty = def2_unit_of_measure_qty old,
      def3_min_price_increment_amount = def2_min_price_increment_amount old,
      def3_price_ratio = def2_price_ratio old, def3_strike_price = def2_strike_price old,
      def3_raw_instrument_id = ucast (def2_raw_instrument_id old),
      def3_leg_price = def3_leg_price InstrumentDefMsg_default,
      def3_leg_delta = def3_leg_delta InstrumentDefMsg_default,
      def3_inst_attrib_value = def2_inst_attrib_value old,
      def3_underlying_id = def2_underlying_id old,
      def3_market_depth_implied = def2_market_depth_implied old,
      def3_market_depth = def2_market_depth old,
      def3_market_segment_id = def2_market_segment_id old,
      def3_max_trade_vol = def2_max_trade_vol old, def3_min_lot_size = def2_min_lot_size old,
      def3_min_lot_size_block = def2_min_lot_size_block old,
      def3_min_lot_size_round_lot = def2_min_lot_size_round_lot old,
      def3_min_trade_vol = def2_min_trade_vol old,
      def3_contract_multiplier = def2_contract_multiplier old,
      def3_decay_quantity = def2_decay_quantity old,
      def3_original_contract_size = def2_original_contract_size old,
      def3_leg_instrument_id = def3_leg_instrument_id InstrumentDefMsg_default,
      def3_leg_ratio_price_numerator = def3_leg_ratio_price_numerator InstrumentDefMsg_default,
      def3_leg_ratio_price_denominator = def3_leg_ratio_price_denominator InstrumentDefMsg_default,
      def3_leg_ratio_qty_numerator = def3_leg_ratio_qty_numerator InstrumentDefMsg_default,
      def3_leg_ratio_qty_denominator = def3_leg_ratio_qty_denominator InstrumentDefMsg_default,
      def3_leg_underlying_id = def3_leg_underlying_id InstrumentDefMsg_default,
      def3_appl_id = def2_appl_id old, def3_maturity_year = def2_maturity_year old,
      def3_decay_start_date = def2_decay_start_date old, def3_channel_id = def2_channel_id old,
      def3_leg_count = def3_leg_count InstrumentDefMsg_default,
      def3_leg_index = def3_leg_index InstrumentDefMsg_default,
      def3_currency = def2_currency old, def3_settl_currency = def2_settl_currency old,
      def3_secsubtype = def2_secsubtype old, def3_raw_symbol = def2_raw_symbol old,
      def3_group = def2_group old, def3_exchange = def2_exchange old,
      def3_asset = copy_prefix (def3_asset InstrumentDefMsg_default) (def2_asset old),
      def3_cfi = def2_cfi old, def3_security_type = def2_security_type old,
      def3_unit_of_measure = def2_unit_of_measure old, def3_underlying = def2_underlying old,
      def3_strike_price_currency = def2_strike_price_currency old,
      def3_leg_raw_symbol = def3_leg_raw_symbol InstrumentDefMsg_default,
      def3_instrument_class = def2_instrument_class old,
      def3_match_algorithm = def2_match_algorithm old,
      def3_main_fraction = def2_main_fraction old,
      def3_price_display_format = def2_price_display_format old,
      def3_sub_fraction = def2_sub_fraction old,
      def3_underlying_product = def2_underlying_product old,
      def3_security_update_action = def2_security_update_action old,
      def3_maturity_month = def2_maturity_month old, def3_maturity_day = def2_maturity_day old,
      def3_maturity_week = def2_maturity_week old,
      def3_user_defined_instrument = def2_user_defined_instrument old,
      def3_contract_multiplier_unit = def2_contract_multiplier_unit old,
      def3_flow_schedule_type = def2_flow_schedule_type old,
      def3_tick_rule = def2_tick_rule old,
      def3_leg_instrument_class = def3_leg_instrument_class InstrumentDefMsg_default,
      def3_leg_side = def3_leg_side InstrumentDefMsg_default,
      def3_reserved = def3_reserved InstrumentDefMsg_default\<rparr>"

section \<open>The interface of a conversion\<close>

locale record_upgrade =
  src: dbn_struct T + dst: dbn_struct U for T :: "'t record_type" and U :: "'u record_type" +
  fixes conv :: "'t \<Rightarrow> 'u" and rt :: RType
  assumes conv_ok: "rec_ok T r \<Longrightarrow> rec_ok U (conv r)"
    and conv_header: "header U (conv r) = upgraded_header U (rtype_as_u8 rt) (header T r)"
    and conv_index_ts: "raw_index_ts U (conv r) = raw_index_ts T r"
    and rtype_src: "has_rtype T t \<longleftrightarrow> t = rtype_as_u8 rt"
    and rtype_dst: "has_rtype U t \<longleftrightarrow> t = rtype_as_u8 rt"
    and grows: "size_of T + 8 < size_of U"
begin

lemma conv_well_formed: "rec_ok T r \<Longrightarrow> well_formed U (conv r)"
  using dst.new_header_size
  by (simp add: well_formed_def conv_ok conv_header rtype_dst upgraded_header_def)
    (simp add: record_header_new_def)

lemma conv_header_fields:
  "rh_publisher_id (header U (conv r)) = rh_publisher_id (header T r)"
  "rh_instrument_id (header U (conv r)) = rh_instrument_id (header T r)"
  "rh_ts_event (header U (conv r)) = rh_ts_event (header T r)"
  "rh_rtype (header U (conv r)) = rtype_as_u8 rt"
  by (simp_all add: conv_header upgraded_header_def record_header_new_def)

end

lemma length_copy_prefix [simp]:
  "length src \<le> length dst \<Longrightarrow> length (copy_prefix dst src) = length dst"
  by (simp add: copy_prefix_def)

lemmas upgrade_defs =
  ErrorMsg_from_v1_def SymbolMappingMsg_from_v1_def SystemMsg_from_v1_def StatMsg_from_v1_def
  InstrumentDefMsgV2_from_v1_def InstrumentDefMsg_from_v1_def InstrumentDefMsg_from_v2_def

lemmas versioned_types =
  ErrorMsgV1_type_def ErrorMsg_type_def SymbolMappingMsgV1_type_def SymbolMappingMsg_type_def
  SystemMsgV1_type_def SystemMsg_type_def StatMsgV1_type_def StatMsg_type_def
  InstrumentDefMsgV1_type_def InstrumentDefMsgV2_type_def InstrumentDefMsg_type_def

lemmas versioned_ok =
  ErrorMsgV1_ok_def ErrorMsg_ok_def SymbolMappingMsgV1_ok_def SymbolMappingMsg_ok_def
  SystemMsgV1_ok_def SystemMsg_ok_def StatMsgV1_ok_def StatMsg_ok_def
  InstrumentDefMsgV1_ok_def InstrumentDefMsgV2_ok_def InstrumentDefMsg_ok_def

lemma upgrade_intro:
  assumes "dbn_struct T" "dbn_struct U"
    and "\<And>r. rec_ok T r \<Longrightarrow> rec_ok U (conv r)"
    and "\<And>r. header U (conv r) = upgraded_header U (rtype_as_u8 rt) (header T r)"
    and "\<And>r. raw_index_ts U (conv r) = raw_index_ts T r"
    and "\<And>t. has_rtype T t \<longleftrightarrow> t = rtype_as_u8 rt"
    and "\<And>t. has_rtype U t \<longleftrightarrow> t = rtype_as_u8 rt"
    and "size_of T + 8 < size_of U"
  shows "record_upgrade T U conv rt"
  using assms by (auto intro!: record_upgrade.intro record_upgrade_axioms.intro)

interpretation err_upgrade: record_upgrade ErrorMsgV1_type ErrorMsg_type ErrorMsg_from_v1 RType_Error
  by (rule upgrade_intro [OF err1_record.dbn_struct_axioms err2_record.dbn_struct_axioms])
    (auto simp: versioned_types versioned_ok ErrorMsg_from_v1_def ErrorMsg_default_def upgraded_header_def
      record_header_new_def)

interpretation sm_upgrade:
  record_upgrade SymbolMappingMsgV1_type SymbolMappingMsg_type SymbolMappingMsg_from_v1
    RType_SymbolMapping
  by (rule upgrade_intro [OF sm1_record.dbn_struct_axioms sm2_record.dbn_struct_axioms])
    (auto simp: versioned_types versioned_ok SymbolMappingMsg_from_v1_def
      SymbolMappingMsg_default_def upgraded_header_def record_header_new_def)

interpretation sys_upgrade:
  record_upgrade SystemMsgV1_type SystemMsg_type SystemMsg_from_v1 RType_System
  by (rule upgrade_intro [OF sys1_record.dbn_struct_axioms sys2_record.dbn_struct_axioms])
    (auto simp: versioned_types versioned_ok SystemMsg_from_v1_def SystemMsg_default_def
      upgraded_header_def record_header_new_def)

interpretation stat_upgrade:
  record_upgrade StatMsgV1_type StatMsg_type StatMsg_from_v1 RType_Statistics
  by (rule upgrade_intro [OF stat1_record.dbn_struct_axioms stat3_record.dbn_struct_axioms])
    (auto simp: versioned_types versioned_ok StatMsg_from_v1_def upgraded_header_def)

interpretation def12_upgrade:
  record_upgrade InstrumentDefMsgV1_type InstrumentDefMsgV2_type InstrumentDefMsgV2_from_v1
    RType_InstrumentDef
  by (rule upgrade_intro [OF def1_record.dbn_struct_axioms def2_record.dbn_struct_axioms])
    (simp_all add: versioned_types versioned_ok InstrumentDefMsgV2_from_v1_def
      InstrumentDefMsgV2_default_def upgraded_header_def)

interpretation def13_upgrade:
  record_upgrade InstrumentDefMsgV1_type InstrumentDefMsg_type InstrumentDefMsg_from_v1
    RType_InstrumentDef
  by (rule upgrade_intro [OF def1_record.dbn_struct_axioms def3_record.dbn_struct_axioms])
    (simp_all add: versioned_types versioned_ok InstrumentDefMsg_from_v1_def
      InstrumentDefMsg_default_def upgraded_header_def)

interpretation def23_upgrade:
  record_upgrade InstrumentDefMsgV2_type InstrumentDefMsg_type InstrumentDefMsg_from_v2
    RType_InstrumentDef
  by (rule upgrade_intro [OF def2_record.dbn_struct_axioms def3_record.dbn_struct_axioms])
    (simp_all add: versioned_types versioned_ok InstrumentDefMsg_from_v2_def
      InstrumentDefMsg_default_def upgraded_header_def)

section \<open>Properties\<close>

lemma takeWhile_append_nul: "0 \<in> set src \<Longrightarrow> takeWhile (\<lambda>c. c \<noteq> 0) (src @ ys) = takeWhile (\<lambda>c. c \<noteq> (0 :: u8)) src"
  by (rule takeWhile_append1) auto

lemma c_chars_copy_prefix: "0 \<in> set src \<Longrightarrow> c_chars_to_str (copy_prefix dst src) = c_chars_to_str src"
  by (simp add: c_chars_to_str_def copy_prefix_def takeWhile_append_nul)

lemma of_char_eq_0_iff: "of_char c = (0 :: u8) \<longleftrightarrow> c = CHR 0x00"
proof
  assume "of_char c = (0 :: u8)"
  then have "of_char c = (0 :: nat)"
    by (metis unat_0 unat_of_char)
  then have "c = char_of (0 :: nat)" by (metis char_of_char)
  then show "c = CHR 0x00" by (simp add: char_of_def)
qed simp

text \<open>
  A text with no NUL that fits a fixed-length field is stored null-terminated in exactly
  that many bytes and read back unchanged; a text that leaves no room for the terminator is
  refused.
\<close>

theorem c_chars_roundtrip:
  assumes "str_ok s" and "CHR 0x00 \<notin> set s" and "0 < N"
  shows "if length s < N
    then \<exists>chars. str_to_c_chars N s = Ok chars \<and> length chars = N \<and> c_chars_to_str chars = Ok s
    else \<exists>e. str_to_c_chars N s = Err (Encode e)"
proof (cases "length s < N")
  case True
  have no_nul: "0 \<notin> set (as_bytes s)"
    using assms(2) by (auto simp: as_bytes_def of_char_eq_0_iff dest: sym)
  then have "takeWhile (\<lambda>c. c \<noteq> 0) (as_bytes s @ replicate (N - length s) 0) = as_bytes s"
    by (subst takeWhile_append2) (auto simp: takeWhile_replicate)
  then show ?thesis
    using True assms(1,3) by (auto simp: str_to_c_chars_def c_chars_to_str_def from_utf8_def str_ok_def)
next
  case False
  then show ?thesis using assms(3) by (auto simp: str_to_c_chars_def)
qed

theorem c_chars_roundtrip_witness:
  "\<exists>chars. str_to_c_chars 22 ''ESH4'' = Ok chars \<and> length chars = 22 \<and> c_chars_to_str chars = Ok ''ESH4''"
  using c_chars_roundtrip [of "''ESH4''" 22] is_ascii_str_ok [of "''ESH4''"]
  by (simp add: is_ascii_def of_char_def)

definition keeps_identity :: "'t record_type \<Rightarrow> 'u record_type \<Rightarrow> ('t \<Rightarrow> 'u) \<Rightarrow> 't \<Rightarrow> bool" where
  "keeps_identity T U conv r \<longleftrightarrow>
     well_formed U (conv r) \<and>
     rh_publisher_id (header U (conv r)) = rh_publisher_id (header T r) \<and>
     rh_instrument_id (header U (conv r)) = rh_instrument_id (header T r) \<and>
     rh_ts_event (header U (conv r)) = rh_ts_event (header T r) \<and>
     raw_index_ts U (conv r) = raw_index_ts T r"

lemma upgrade_keeps_identity_lift:
  assumes "record_upgrade T U conv rt" and "rec_ok T r"
  shows "keeps_identity T U conv r"
  using record_upgrade.conv_well_formed [OF assms] record_upgrade.conv_header_fields [OF assms(1)]
    record_upgrade.conv_index_ts [OF assms(1)]
  by (simp add: keeps_identity_def)

lemmas conversions_keep_identity =
  upgrade_keeps_identity_lift [OF err_upgrade.record_upgrade_axioms]
  upgrade_keeps_identity_lift [OF sm_upgrade.record_upgrade_axioms]
  upgrade_keeps_identity_lift [OF sys_upgrade.record_upgrade_axioms]
  upgrade_keeps_identity_lift [OF stat_upgrade.record_upgrade_axioms]
  upgrade_keeps_identity_lift [OF def12_upgrade.record_upgrade_axioms]
  upgrade_keeps_identity_lift [OF def13_upgrade.record_upgrade_axioms]
  upgrade_keeps_identity_lift [OF def23_upgrade.record_upgrade_axioms]

text \<open>
  C30. Converting a record to a newer version gives a well-formed record of the new struct (its
  arrays, record type and length byte are right) with the publisher, instrument, event
  timestamp and index timestamp of the old one; this holds for each of the seven conversions.
\<close>

theorem upgrade_keeps_identity:
  assumes "ErrorMsgV1_ok e" "SymbolMappingMsgV1_ok m" "SystemMsgV1_ok s" "StatMsgV1_ok t"
    "InstrumentDefMsgV1_ok d" "InstrumentDefMsgV2_ok d'"
  shows "keeps_identity ErrorMsgV1_type ErrorMsg_type ErrorMsg_from_v1 e
    \<and> keeps_identity SymbolMappingMsgV1_type SymbolMappingMsg_type SymbolMappingMsg_from_v1 m
    \<and> keeps_identity SystemMsgV1_type SystemMsg_type SystemMsg_from_v1 s
    \<and> keeps_identity StatMsgV1_type StatMsg_type StatMsg_from_v1 t
    \<and> keeps_identity InstrumentDefMsgV1_type InstrumentDefMsgV2_type InstrumentDefMsgV2_from_v1 d
    \<and> keeps_identity InstrumentDefMsgV1_type InstrumentDefMsg_type InstrumentDefMsg_from_v1 d
    \<and> keeps_identity InstrumentDefMsgV2_type InstrumentDefMsg_type InstrumentDefMsg_from_v2 d'"
proof -
  have "rec_ok ErrorMsgV1_type e" "rec_ok SymbolMappingMsgV1_type m" "rec_ok SystemMsgV1_type s"
    "rec_ok StatMsgV1_type t" "rec_ok InstrumentDefMsgV1_type d" "rec_ok InstrumentDefMsgV2_type d'"
    using assms by (simp_all add: versioned_types)
  then show ?thesis by (blast intro: conversions_keep_identity)
qed

theorem upgrade_keeps_identity_witness:
  "well_formed InstrumentDefMsg_type (InstrumentDefMsg_from_v1 InstrumentDefMsgV1_default)"
proof -
  have "ErrorMsgV1_ok ErrorMsgV1_default" "SymbolMappingMsgV1_ok SymbolMappingMsgV1_default"
    "SystemMsgV1_ok SystemMsgV1_default" "StatMsgV1_ok StatMsgV1_default"
    "InstrumentDefMsgV1_ok InstrumentDefMsgV1_default" "InstrumentDefMsgV2_ok InstrumentDefMsgV2_default"
    using ErrorMsgV1_default_ok SymbolMappingMsgV1_default_ok SystemMsgV1_default_ok
      StatMsgV1_default_ok InstrumentDefMsgV1_default_ok InstrumentDefMsgV2_default_ok
    by (simp_all add: well_formed_def versioned_types)
  from upgrade_keeps_identity [OF this] show ?thesis by (simp add: keeps_identity_def)
qed

text \<open>
  Version 1 instrument definitions reach version 3 by the same result whether they are
  converted directly or through version 2.
\<close>

theorem instrument_def_upgrade_path:
  "InstrumentDefMsg_from_v2 (InstrumentDefMsgV2_from_v1 d) = InstrumentDefMsg_from_v1 d"
  by (simp add: InstrumentDefMsg_from_v2_def InstrumentDefMsgV2_from_v1_def
      InstrumentDefMsg_from_v1_def upgraded_header_def record_header_new_def copy_prefix_def
      InstrumentDefMsgV2_default_def InstrumentDefMsg_default_def)

lemma sint_scast_i32_i64: "sint (scast (x :: i32) :: i64) = sint x"
  using sint_less [of x] sint_ge [of x]
  by (simp add: signed_scast_eq signed_take_bit_int_eq_self)

text \<open>
  The widened statistics quantity keeps its meaning: the version 1 null becomes the
  version 3 null, every other quantity keeps its signed value, and no real quantity becomes
  null.
\<close>

theorem stat_quantity_upgrade:
  "(stat3_quantity (StatMsg_from_v1 s) = UNDEF_STAT_QUANTITY \<longleftrightarrow>
      stat1_quantity s = UNDEF_STAT_QUANTITY_V1)
   \<and> (stat1_quantity s \<noteq> UNDEF_STAT_QUANTITY_V1 \<longrightarrow>
      sint (stat3_quantity (StatMsg_from_v1 s)) = sint (stat1_quantity s))"
proof -
  have "sint (stat1_quantity s) < 2 ^ 31"
    using sint_less [of "stat1_quantity s"] by simp
  then have "(scast (stat1_quantity s) :: i64) \<noteq> 0x7FFFFFFFFFFFFFFF"
    using sint_scast_i32_i64 [of "stat1_quantity s"] by auto
  then show ?thesis
    by (auto simp: StatMsg_from_v1_def UNDEF_STAT_QUANTITY_def sint_scast_i32_i64)
qed

theorem stat_quantity_upgrade_witness:
  "sint (stat3_quantity (StatMsg_from_v1 (StatMsgV1_default\<lparr>stat1_quantity := - 5\<rparr>))) = - 5"
  using stat_quantity_upgrade [of "StatMsgV1_default\<lparr>stat1_quantity := - 5\<rparr>"]
  by (simp add: UNDEF_STAT_QUANTITY_V1_def)

lemma system_code_heartbeat: "system_code_of_v1 s = 0 \<longleftrightarrow> sys1_is_heartbeat s"
  by (auto simp: system_code_of_v1_def SystemMsg_default_def split: result.splits)

text \<open>
  C31. Texts survive the conversions: where the old field is null-terminated, the symbols of a
  symbol mapping, the raw symbol and asset of a definition, and the text of an error or system
  message read the same in the new record; and a converted system message has the heartbeat
  code exactly when the old one was a heartbeat.
\<close>

theorem upgrade_keeps_text:
  "(0 \<in> set (sm1_stype_in_symbol m) \<longrightarrow>
      c_chars_to_str (sm2_stype_in_symbol (SymbolMappingMsg_from_v1 m)) =
      c_chars_to_str (sm1_stype_in_symbol m))
   \<and> (0 \<in> set (sm1_stype_out_symbol m) \<longrightarrow>
      c_chars_to_str (sm2_stype_out_symbol (SymbolMappingMsg_from_v1 m)) =
      c_chars_to_str (sm1_stype_out_symbol m))
   \<and> (0 \<in> set (def1_raw_symbol d) \<longrightarrow>
      c_chars_to_str (def3_raw_symbol (InstrumentDefMsg_from_v1 d)) = c_chars_to_str (def1_raw_symbol d))
   \<and> (0 \<in> set (def1_asset d) \<longrightarrow>
      c_chars_to_str (def3_asset (InstrumentDefMsg_from_v1 d)) = c_chars_to_str (def1_asset d))
   \<and> (0 \<in> set (err1_err e) \<longrightarrow>
      c_chars_to_str (err2_err (ErrorMsg_from_v1 e)) = err1_err_str e)
   \<and> (0 \<in> set (sys1_msg s) \<longrightarrow>
      c_chars_to_str (sys2_msg (SystemMsg_from_v1 s)) = sys1_msg_str s)
   \<and> (sys2_code (SystemMsg_from_v1 s) = system_code_as_u8 SystemCode_Heartbeat \<longleftrightarrow>
      sys1_is_heartbeat s)"
  by (auto simp: SymbolMappingMsg_from_v1_def InstrumentDefMsg_from_v1_def ErrorMsg_from_v1_def
      SystemMsg_from_v1_def c_chars_copy_prefix err1_err_str_def sys1_msg_str_def
      system_code_heartbeat)

theorem upgrade_keeps_text_witness:
  "sys1_msg_str \<lparr>sys1_hd = record_header_new SystemMsgV1_type 0x17 0 0 7,
     sys1_msg = as_bytes HEARTBEAT @ replicate 55 0\<rparr> = Ok ''Heartbeat''
   \<and> c_chars_to_str (sys2_msg (SystemMsg_from_v1
       \<lparr>sys1_hd = record_header_new SystemMsgV1_type 0x17 0 0 7,
        sys1_msg = as_bytes HEARTBEAT @ replicate 55 0\<rparr>)) = Ok ''Heartbeat''"
proof -
  let ?s = "\<lparr>sys1_hd = record_header_new SystemMsgV1_type 0x17 0 0 7,
     sys1_msg = as_bytes HEARTBEAT @ replicate 55 0\<rparr>"
  have m: "sys1_msg_str ?s = Ok ''Heartbeat''"
    by (code_simp)
  moreover have "c_chars_to_str (sys2_msg (SystemMsg_from_v1 ?s)) = sys1_msg_str ?s"
    using upgrade_keeps_text [of undefined undefined undefined ?s] by simp
  ultimately show ?thesis by simp
qed

end
