(* ===== verification/Metadata.thy ===== *)
theory Metadata
  imports Enums Record_Types
begin

text \<open>
  The stream metadata of rust/dbn/src/metadata.rs: the structs \<^verbatim>\<open>Metadata\<close>,
  \<^verbatim>\<open>SymbolMapping\<close> and \<^verbatim>\<open>MappingInterval\<close>, the type-state builder
  \<^verbatim>\<open>MetadataBuilder\<close>, and \<^verbatim>\<open>Metadata::upgrade\<close>, with the layout constants of
  rust/dbn/src/lib.rs and rust/dbn/src/compat.rs.

  Calendar dates are those of the \<^verbatim>\<open>time\<close> crate, which is not part of the sources. A date is
  a value of a type parameter \<open>'d\<close> with a linear order (the order of \<^verbatim>\<open>time::Date\<close>), and
  the functions of the crate that the sources call are the fields of a dictionary
  \<open>'d date_ops\<close>. What the sources rely on is the interface \<open>calendar\<close>. A
  \<^verbatim>\<open>NonZeroU64\<close> is a word that is not zero; that it is not is part of \<open>metadata_ok\<close>.
\<close>

section \<open>Definitions\<close>

subsection \<open>Calendar dates\<close>

record 'd date_ops =
  from_calendar_date :: "int \<Rightarrow> nat \<Rightarrow> nat \<Rightarrow> 'd option"
  year :: "'d \<Rightarrow> int"
  month :: "'d \<Rightarrow> nat"
  day :: "'d \<Rightarrow> nat"
  next_day :: "'d \<Rightarrow> 'd option"

subsection \<open>Layout constants\<close>

definition SYMBOL_CSTR_LEN_V1 :: nat where "SYMBOL_CSTR_LEN_V1 = 22"
definition SYMBOL_CSTR_LEN_V2 :: nat where "SYMBOL_CSTR_LEN_V2 = 71"
definition SYMBOL_CSTR_LEN_V3 :: nat where "SYMBOL_CSTR_LEN_V3 = SYMBOL_CSTR_LEN_V2"
definition METADATA_RESERVED_LEN_V1 :: nat where "METADATA_RESERVED_LEN_V1 = 47"
definition METADATA_DATASET_CSTR_LEN :: nat where "METADATA_DATASET_CSTR_LEN = 16"
definition METADATA_RESERVED_LEN :: nat where "METADATA_RESERVED_LEN = 53"
definition METADATA_FIXED_LEN :: nat where "METADATA_FIXED_LEN = 100"
definition NULL_LIMIT :: u64 where "NULL_LIMIT = 0"
definition NULL_RECORD_COUNT :: u64 where "NULL_RECORD_COUNT = 0xFFFFFFFFFFFFFFFF"
definition NULL_SCHEMA :: u16 where "NULL_SCHEMA = 0xFFFF"
definition NULL_STYPE :: u8 where "NULL_STYPE = 0xFF"
definition MAX_RECORD_LEN :: nat where
  "MAX_RECORD_LEN = size_of (with_ts_out_type InstrumentDefMsg_type)"

definition version_symbol_cstr_len :: "u8 \<Rightarrow> nat" where
  "version_symbol_cstr_len version = (if version < 2 then SYMBOL_CSTR_LEN_V1 else SYMBOL_CSTR_LEN_V2)"

subsection \<open>The structs\<close>

record 'd MappingInterval =
  start_date :: 'd
  end_date :: 'd
  symbol :: string

record 'd SymbolMapping =
  raw_symbol :: string
  intervals :: "'d MappingInterval list"

record 'd Metadata =
  md_version :: u8
  md_dataset :: string
  md_schema :: "Schema option"
  md_start :: u64
  md_end :: "u64 option"
  md_limit :: "u64 option"
  md_stype_in :: "SType option"
  md_stype_out :: SType
  md_ts_out :: bool
  md_symbol_cstr_len :: nat
  md_symbols :: "string list"
  md_partial :: "string list"
  md_not_found :: "string list"
  md_mappings :: "'d SymbolMapping list"

definition metadata_upgrade :: "VersionUpgradePolicy \<Rightarrow> 'd Metadata \<Rightarrow> 'd Metadata" where
  "metadata_upgrade upgrade_policy m =
     (if md_version m < 2 then
        (case upgrade_policy of
           VersionUpgradePolicy_AsIs \<Rightarrow> m\<lparr>md_symbol_cstr_len := SYMBOL_CSTR_LEN_V1\<rparr>
         | VersionUpgradePolicy_UpgradeToV2 \<Rightarrow>
             m\<lparr>md_version := 2, md_symbol_cstr_len := SYMBOL_CSTR_LEN_V2\<rparr>
         | VersionUpgradePolicy_UpgradeToV3 \<Rightarrow>
             m\<lparr>md_version := 3, md_symbol_cstr_len := SYMBOL_CSTR_LEN_V3\<rparr>)
      else if md_version m = 2 \<and> upgrade_policy = VersionUpgradePolicy_UpgradeToV3
      then m\<lparr>md_version := 3\<rparr>
      else m)"

subsection \<open>The builder\<close>

text \<open>
  A required field that is not set has the type \<open>Unset\<close>: \<open>build\<close> applies only to a builder
  whose five required fields have their final types, as in the source.
\<close>

datatype Unset = Unset

record ('ds, 'sch, 'st, 'sin, 'sout, 'd) MetadataBuilder =
  mb_version :: u8
  mb_dataset :: 'ds
  mb_schema :: 'sch
  mb_start :: 'st
  mb_end :: "u64 option"
  mb_limit :: "u64 option"
  mb_stype_in :: 'sin
  mb_stype_out :: 'sout
  mb_ts_out :: bool
  mb_symbols :: "string list"
  mb_partial :: "string list"
  mb_not_found :: "string list"
  mb_mappings :: "'d SymbolMapping list"

definition metadata_builder :: "(Unset, Unset, Unset, Unset, Unset, 'd) MetadataBuilder" where
  "metadata_builder =
     \<lparr>mb_version = DBN_VERSION, mb_dataset = Unset, mb_schema = Unset, mb_start = Unset,
      mb_end = None, mb_limit = None, mb_stype_in = Unset, mb_stype_out = Unset,
      mb_ts_out = False, mb_symbols = [], mb_partial = [], mb_not_found = [], mb_mappings = []\<rparr>"

definition set_version ::
  "u8 \<Rightarrow> ('ds, 'sch, 'st, 'sin, 'sout, 'd) MetadataBuilder \<Rightarrow> ('ds, 'sch, 'st, 'sin, 'sout, 'd) MetadataBuilder"
where "set_version version b = b\<lparr>mb_version := version\<rparr>"

definition set_dataset ::
  "string \<Rightarrow> ('ds, 'sch, 'st, 'sin, 'sout, 'd) MetadataBuilder \<Rightarrow> (string, 'sch, 'st, 'sin, 'sout, 'd) MetadataBuilder"
where
  "set_dataset dataset b =
     \<lparr>mb_version = mb_version b, mb_dataset = dataset, mb_schema = mb_schema b,
      mb_start = mb_start b, mb_end = mb_end b, mb_limit = mb_limit b,
      mb_stype_in = mb_stype_in b, mb_stype_out = mb_stype_out b, mb_ts_out = mb_ts_out b,
      mb_symbols = mb_symbols b, mb_partial = mb_partial b, mb_not_found = mb_not_found b,
      mb_mappings = mb_mappings b\<rparr>"

definition set_schema ::
  "Schema option \<Rightarrow> ('ds, 'sch, 'st, 'sin, 'sout, 'd) MetadataBuilder
   \<Rightarrow> ('ds, Schema option, 'st, 'sin, 'sout, 'd) MetadataBuilder"
where
  "set_schema schema b =
     \<lparr>mb_version = mb_version b, mb_dataset = mb_dataset b, mb_schema = schema,
      mb_start = mb_start b, mb_end = mb_end b, mb_limit = mb_limit b,
      mb_stype_in = mb_stype_in b, mb_stype_out = mb_stype_out b, mb_ts_out = mb_ts_out b,
      mb_symbols = mb_symbols b, mb_partial = mb_partial b, mb_not_found = mb_not_found b,
      mb_mappings = mb_mappings b\<rparr>"

definition set_start ::
  "u64 \<Rightarrow> ('ds, 'sch, 'st, 'sin, 'sout, 'd) MetadataBuilder \<Rightarrow> ('ds, 'sch, u64, 'sin, 'sout, 'd) MetadataBuilder"
where
  "set_start start b =
     \<lparr>mb_version = mb_version b, mb_dataset = mb_dataset b, mb_schema = mb_schema b,
      mb_start = start, mb_end = mb_end b, mb_limit = mb_limit b,
      mb_stype_in = mb_stype_in b, mb_stype_out = mb_stype_out b, mb_ts_out = mb_ts_out b,
      mb_symbols = mb_symbols b, mb_partial = mb_partial b, mb_not_found = mb_not_found b,
      mb_mappings = mb_mappings b\<rparr>"

definition set_end ::
  "u64 option \<Rightarrow> ('ds, 'sch, 'st, 'sin, 'sout, 'd) MetadataBuilder \<Rightarrow> ('ds, 'sch, 'st, 'sin, 'sout, 'd) MetadataBuilder"
where "set_end e b = b\<lparr>mb_end := e\<rparr>"

definition set_limit ::
  "u64 option \<Rightarrow> ('ds, 'sch, 'st, 'sin, 'sout, 'd) MetadataBuilder \<Rightarrow> ('ds, 'sch, 'st, 'sin, 'sout, 'd) MetadataBuilder"
where "set_limit l b = b\<lparr>mb_limit := l\<rparr>"

definition set_stype_in ::
  "SType option \<Rightarrow> ('ds, 'sch, 'st, 'sin, 'sout, 'd) MetadataBuilder
   \<Rightarrow> ('ds, 'sch, 'st, SType option, 'sout, 'd) MetadataBuilder"
where
  "set_stype_in stype_in b =
     \<lparr>mb_version = mb_version b, mb_dataset = mb_dataset b, mb_schema = mb_schema b,
      mb_start = mb_start b, mb_end = mb_end b, mb_limit = mb_limit b,
      mb_stype_in = stype_in, mb_stype_out = mb_stype_out b, mb_ts_out = mb_ts_out b,
      mb_symbols = mb_symbols b, mb_partial = mb_partial b, mb_not_found = mb_not_found b,
      mb_mappings = mb_mappings b\<rparr>"

definition set_stype_out ::
  "SType \<Rightarrow> ('ds, 'sch, 'st, 'sin, 'sout, 'd) MetadataBuilder \<Rightarrow> ('ds, 'sch, 'st, 'sin, SType, 'd) MetadataBuilder"
where
  "set_stype_out stype_out b =
     \<lparr>mb_version = mb_version b, mb_dataset = mb_dataset b, mb_schema = mb_schema b,
      mb_start = mb_start b, mb_end = mb_end b, mb_limit = mb_limit b,
      mb_stype_in = mb_stype_in b, mb_stype_out = stype_out, mb_ts_out = mb_ts_out b,
      mb_symbols = mb_symbols b, mb_partial = mb_partial b, mb_not_found = mb_not_found b,
      mb_mappings = mb_mappings b\<rparr>"

definition set_ts_out ::
  "bool \<Rightarrow> ('ds, 'sch, 'st, 'sin, 'sout, 'd) MetadataBuilder \<Rightarrow> ('ds, 'sch, 'st, 'sin, 'sout, 'd) MetadataBuilder"
where "set_ts_out t b = b\<lparr>mb_ts_out := t\<rparr>"

definition set_symbols ::
  "string list \<Rightarrow> ('ds, 'sch, 'st, 'sin, 'sout, 'd) MetadataBuilder \<Rightarrow> ('ds, 'sch, 'st, 'sin, 'sout, 'd) MetadataBuilder"
where "set_symbols ss b = b\<lparr>mb_symbols := ss\<rparr>"

definition set_partial ::
  "string list \<Rightarrow> ('ds, 'sch, 'st, 'sin, 'sout, 'd) MetadataBuilder \<Rightarrow> ('ds, 'sch, 'st, 'sin, 'sout, 'd) MetadataBuilder"
where "set_partial ss b = b\<lparr>mb_partial := ss\<rparr>"

definition set_not_found ::
  "string list \<Rightarrow> ('ds, 'sch, 'st, 'sin, 'sout, 'd) MetadataBuilder \<Rightarrow> ('ds, 'sch, 'st, 'sin, 'sout, 'd) MetadataBuilder"
where "set_not_found ss b = b\<lparr>mb_not_found := ss\<rparr>"

definition set_mappings ::
  "'d SymbolMapping list \<Rightarrow> ('ds, 'sch, 'st, 'sin, 'sout, 'd) MetadataBuilder
   \<Rightarrow> ('ds, 'sch, 'st, 'sin, 'sout, 'd) MetadataBuilder"
where "set_mappings ms b = b\<lparr>mb_mappings := ms\<rparr>"

definition metadata_build ::
  "(string, Schema option, u64, SType option, SType, 'd) MetadataBuilder \<Rightarrow> 'd Metadata" where
  "metadata_build b =
     \<lparr>md_version = mb_version b, md_dataset = mb_dataset b, md_schema = mb_schema b,
      md_start = mb_start b, md_end = mb_end b, md_limit = mb_limit b,
      md_stype_in = mb_stype_in b, md_stype_out = mb_stype_out b, md_ts_out = mb_ts_out b,
      md_symbol_cstr_len = version_symbol_cstr_len (mb_version b),
      md_symbols = mb_symbols b, md_partial = mb_partial b, md_not_found = mb_not_found b,
      md_mappings = mb_mappings b\<rparr>"

section \<open>The interface of the calendar\<close>

text \<open>
  What the sources rely on of \<^verbatim>\<open>time::Date\<close>: a date is determined by its year, month and
  day, which lie in the documented ranges, and \<^verbatim>\<open>next_day\<close> is the successor in the order of
  dates, missing only for the last date.
\<close>

locale calendar =
  fixes C :: "'d::linorder date_ops"
  assumes from_to: "from_calendar_date C (year C d) (month C d) (day C d) = Some d"
    and to_from: "from_calendar_date C y m n = Some d \<Longrightarrow> year C d = y \<and> month C d = m \<and> day C d = n"
    and year_range: "- 9999 \<le> year C d \<and> year C d \<le> 9999"
    and month_range: "1 \<le> month C d \<and> month C d \<le> 12"
    and day_range: "1 \<le> day C d \<and> day C d \<le> 31"
    and next_day_succ: "next_day C d = Some d' \<Longrightarrow> d < d' \<and> (\<forall>x. d < x \<longrightarrow> d' \<le> x)"
    and next_day_last: "next_day C d = None \<Longrightarrow> x \<le> d"
begin

lemma date_eq_iff:
  "d = d' \<longleftrightarrow> year C d = year C d' \<and> month C d = month C d' \<and> day C d = day C d'"
  by (metis from_to option.inject)

lemma next_day_less: "d < e \<Longrightarrow> \<exists>d'. next_day C d = Some d' \<and> d < d' \<and> d' \<le> e"
  using next_day_succ [of d] next_day_last [of d e] by (cases "next_day C d") auto

lemma next_day_between: "next_day C d = Some d' \<Longrightarrow> x < d' \<longleftrightarrow> x \<le> d"
  using next_day_succ [of d d'] by (meson leD leI le_less_trans less_le_trans)

end

section \<open>Lemmas\<close>

lemma metadata_upgrade_keeps [simp]:
  "md_dataset (metadata_upgrade p m) = md_dataset m"
  "md_schema (metadata_upgrade p m) = md_schema m"
  "md_start (metadata_upgrade p m) = md_start m"
  "md_end (metadata_upgrade p m) = md_end m"
  "md_limit (metadata_upgrade p m) = md_limit m"
  "md_stype_in (metadata_upgrade p m) = md_stype_in m"
  "md_stype_out (metadata_upgrade p m) = md_stype_out m"
  "md_ts_out (metadata_upgrade p m) = md_ts_out m"
  "md_symbols (metadata_upgrade p m) = md_symbols m"
  "md_partial (metadata_upgrade p m) = md_partial m"
  "md_not_found (metadata_upgrade p m) = md_not_found m"
  "md_mappings (metadata_upgrade p m) = md_mappings m"
  by (simp_all add: metadata_upgrade_def split: VersionUpgradePolicy.split)

end
