(* ===== verification/Gregorian.thy ===== *)
theory Gregorian
  imports Metadata
begin

text \<open>
  The proleptic Gregorian calendar of the years -9999 to 9999 meets the interface
  \<open>calendar\<close> that the metadata code relies on. A date is stored as one integer that orders
  dates by year, month and day.
\<close>

section \<open>Dates\<close>

definition is_leap :: "int \<Rightarrow> bool" where
  "is_leap y \<longleftrightarrow> 4 dvd y \<and> (\<not> 100 dvd y \<or> 400 dvd y)"

definition days_in_month :: "int \<Rightarrow> int \<Rightarrow> int" where
  "days_in_month y m =
     (if m = 2 then (if is_leap y then 29 else 28)
      else if m \<in> {4, 6, 9, 11} then 30 else 31)"

definition valid_ymd :: "int \<Rightarrow> int \<Rightarrow> int \<Rightarrow> bool" where
  "valid_ymd y m d \<longleftrightarrow> - 9999 \<le> y \<and> y \<le> 9999 \<and> 1 \<le> m \<and> m \<le> 12 \<and> 1 \<le> d \<and> d \<le> days_in_month y m"

definition date_key :: "int \<Rightarrow> int \<Rightarrow> int \<Rightarrow> int" where
  "date_key y m d = 32 * (16 * y + m) + d"

definition key_year :: "int \<Rightarrow> int" where "key_year k = k div 32 div 16"
definition key_month :: "int \<Rightarrow> int" where "key_month k = k div 32 mod 16"
definition key_day :: "int \<Rightarrow> int" where "key_day k = k mod 32"

definition valid_key :: "int \<Rightarrow> bool" where
  "valid_key k \<longleftrightarrow> valid_ymd (key_year k) (key_month k) (key_day k)"

definition next_key :: "int \<Rightarrow> int option" where
  "next_key k =
     (let y = key_year k; m = key_month k; d = key_day k in
      if d < days_in_month y m then Some (date_key y m (d + 1))
      else if m < 12 then Some (date_key y (m + 1) 1)
      else if y < 9999 then Some (date_key (y + 1) 1 1)
      else None)"

lemma days_in_month_range: "28 \<le> days_in_month y m \<and> days_in_month y m \<le> 31"
  by (simp add: days_in_month_def)

lemma key_of_parts:
  assumes "0 \<le> m" "m < 16" "0 \<le> d" "d < 32"
  shows "key_year (date_key y m d) = y" "key_month (date_key y m d) = m" "key_day (date_key y m d) = d"
proof -
  have "date_key y m d div 32 = 16 * y + m"
    using assms by (simp add: date_key_def)
  moreover have "date_key y m d mod 32 = d"
    using assms mod_mult_self4 [of 32 "16 * y + m" d] by (simp add: date_key_def del: mod_mult_self4)
  ultimately show "key_year (date_key y m d) = y" "key_month (date_key y m d) = m" "key_day (date_key y m d) = d"
    using assms by (simp_all add: key_year_def key_month_def key_day_def)
qed

lemma date_key_parts: "date_key (key_year k) (key_month k) (key_day k) = k"
  by (simp add: key_year_def key_month_def key_day_def date_key_def)

lemma key_parts_range: "0 \<le> key_month k \<and> key_month k < 16 \<and> 0 \<le> key_day k \<and> key_day k < 32"
  by (simp add: key_month_def key_day_def)

lemma valid_date_key: "valid_ymd y m d \<Longrightarrow> valid_key (date_key y m d)"
  using days_in_month_range [of y m] key_of_parts [of m d y]
  by (simp add: valid_key_def valid_ymd_def)

lemma date_key_less_iff:
  assumes "0 \<le> m" "m < 16" "0 \<le> d" "d < 32" "0 \<le> m'" "m' < 16" "0 \<le> d'" "d' < 32"
  shows "date_key y m d < date_key y' m' d' \<longleftrightarrow> y < y' \<or> y = y' \<and> (m < m' \<or> m = m' \<and> d < d')"
  using assms by (auto simp: date_key_def)

lemma next_key_succ:
  assumes "valid_key k" and "next_key k = Some k'"
  shows "valid_key k' \<and> k < k' \<and> (\<forall>x. valid_key x \<and> k < x \<longrightarrow> k' \<le> x)"
proof -
  define y m d where "y = key_year k" and "m = key_month k" and "d = key_day k"
  have k: "k = date_key y m d" by (simp add: y_def m_def d_def date_key_parts)
  have v: "valid_ymd y m d" using assms(1) by (simp add: valid_key_def y_def m_def d_def)
  note dim = days_in_month_range [of y m]
  have valid: "valid_key k'"
    using assms(2) v days_in_month_range
    by (auto simp: next_key_def Let_def y_def [symmetric] m_def [symmetric] d_def [symmetric]
        split: if_splits intro!: valid_date_key)
      (auto simp: valid_ymd_def days_in_month_def)
  have less: "date_key y m d < k'"
    using assms(2) v dim
    by (auto simp: next_key_def Let_def y_def [symmetric] m_def [symmetric] d_def [symmetric]
        valid_ymd_def date_key_def split: if_splits)
  have "k' \<le> x" if x: "valid_key x" "k < x" for x
  proof -
    define y2 m2 d2 where "y2 = key_year x" and "m2 = key_month x" and "d2 = key_day x"
    have xk: "x = date_key y2 m2 d2" by (simp add: y2_def m2_def d2_def date_key_parts)
    have v2: "valid_ymd y2 m2 d2" using x(1) by (simp add: valid_key_def y2_def m2_def d2_def)
    have "y < y2 \<or> y = y2 \<and> (m < m2 \<or> m = m2 \<and> d < d2)"
      using x(2) v v2 dim days_in_month_range [of y2 m2]
      by (simp add: k xk date_key_less_iff valid_ymd_def)
    then show ?thesis
      using assms(2) v v2 dim
      by (auto simp: next_key_def Let_def y_def [symmetric] m_def [symmetric] d_def [symmetric]
          xk date_key_def valid_ymd_def split: if_splits)
  qed
  with valid less show ?thesis unfolding k [symmetric] by blast
qed

lemma next_key_last:
  assumes "valid_key k" and "next_key k = None" and "valid_key x"
  shows "x \<le> k"
proof -
  have "key_year k = 9999" "key_month k = 12" "key_day k = days_in_month (key_year k) (key_month k)"
    using assms(1,2) by (auto simp: next_key_def Let_def valid_key_def valid_ymd_def split: if_splits)
  then have "k = date_key 9999 12 31"
    using date_key_parts [of k] by (simp add: days_in_month_def)
  moreover have "x = date_key (key_year x) (key_month x) (key_day x)" by (simp add: date_key_parts)
  ultimately show ?thesis
    using assms(3) days_in_month_range [of "key_year x" "key_month x"]
    by (auto simp: date_key_def valid_key_def valid_ymd_def)
qed

section \<open>The type of dates\<close>

typedef gdate = "{k. valid_key k}"
proof
  show "date_key 2000 1 1 \<in> {k. valid_key k}"
    by (simp add: valid_date_key valid_ymd_def days_in_month_def)
qed

setup_lifting type_definition_gdate

instantiation gdate :: linorder
begin
lift_definition less_eq_gdate :: "gdate \<Rightarrow> gdate \<Rightarrow> bool" is "(\<le>)" .
lift_definition less_gdate :: "gdate \<Rightarrow> gdate \<Rightarrow> bool" is "(<)" .
instance by standard (transfer; auto)+
end

definition gregorian :: "gdate date_ops" where
  "gregorian =
     \<lparr>from_calendar_date = (\<lambda>y m d. if valid_ymd y (int m) (int d)
        then Some (Abs_gdate (date_key y (int m) (int d))) else None),
      year = (\<lambda>g. key_year (Rep_gdate g)),
      month = (\<lambda>g. nat (key_month (Rep_gdate g))),
      day = (\<lambda>g. nat (key_day (Rep_gdate g))),
      next_day = (\<lambda>g. map_option Abs_gdate (next_key (Rep_gdate g)))\<rparr>"

lemma Rep_gdate_valid [simp]: "valid_key (Rep_gdate g)"
  using Rep_gdate [of g] by simp

lemma Rep_gdate_key: "valid_ymd y m d \<Longrightarrow> Rep_gdate (Abs_gdate (date_key y m d)) = date_key y m d"
  by (simp add: Abs_gdate_inverse valid_date_key)

interpretation gregorian: calendar gregorian
proof unfold_locales
  fix d d' x :: gdate and y and m n :: nat
  have v: "valid_ymd (key_year (Rep_gdate d)) (key_month (Rep_gdate d)) (key_day (Rep_gdate d))"
    using Rep_gdate_valid [of d] by (simp only: valid_key_def)
  show "from_calendar_date gregorian (year gregorian d) (month gregorian d) (day gregorian d) = Some d"
    using v key_parts_range [of "Rep_gdate d"]
    by (simp add: gregorian_def date_key_parts Rep_gdate_inverse)
  show "year gregorian d = y \<and> month gregorian d = m \<and> day gregorian d = n"
    if "from_calendar_date gregorian y m n = Some d"
  proof -
    from that have vy: "valid_ymd y (int m) (int n)" and d: "d = Abs_gdate (date_key y (int m) (int n))"
      by (auto simp: gregorian_def split: if_splits)
    then show ?thesis
      using days_in_month_range [of y "int m"] key_of_parts [of "int m" "int n" y]
      by (simp add: gregorian_def Rep_gdate_key valid_ymd_def)
  qed
  show "- 9999 \<le> year gregorian d \<and> year gregorian d \<le> 9999"
    "1 \<le> month gregorian d \<and> month gregorian d \<le> 12"
    "1 \<le> day gregorian d \<and> day gregorian d \<le> 31"
    using v days_in_month_range [of "key_year (Rep_gdate d)" "key_month (Rep_gdate d)"]
    by (auto simp: gregorian_def valid_ymd_def)
  show "d < d' \<and> (\<forall>x. d < x \<longrightarrow> d' \<le> x)" if "next_day gregorian d = Some d'"
  proof -
    from that obtain k' where k': "next_key (Rep_gdate d) = Some k'" "d' = Abs_gdate k'"
      by (auto simp: gregorian_def)
    with next_key_succ [OF Rep_gdate_valid k'(1)] have "Rep_gdate d' = k'"
      by (simp add: Abs_gdate_inverse)
    then show ?thesis
      using next_key_succ [OF Rep_gdate_valid k'(1)] by (auto simp: less_gdate.rep_eq less_eq_gdate.rep_eq)
  qed
  show "x \<le> d" if "next_day gregorian d = None"
    using that next_key_last [OF Rep_gdate_valid, of d "Rep_gdate x"]
    by (simp add: gregorian_def less_eq_gdate.rep_eq)
qed

section \<open>A concrete metadata header\<close>

definition gdate_of :: "int \<Rightarrow> int \<Rightarrow> int \<Rightarrow> gdate" where
  "gdate_of y m d = Abs_gdate (date_key y m d)"

lemma gregorian_parts:
  assumes "valid_ymd y m d"
  shows "year gregorian (gdate_of y m d) = y" "month gregorian (gdate_of y m d) = nat m"
    "day gregorian (gdate_of y m d) = nat d"
  using assms days_in_month_range [of y m] key_of_parts [of m d y]
  by (simp_all add: gregorian_def gdate_of_def Rep_gdate_key valid_ymd_def)

text \<open>A daily request for one future, with one mapping of two intervals.\<close>

definition sample_metadata :: "u8 \<Rightarrow> gdate Metadata" where
  "sample_metadata version =
     metadata_build
       (set_mappings
          [\<lparr>raw_symbol = ''ES.c.0'', intervals =
             [\<lparr>start_date = gdate_of 2024 1 1, end_date = gdate_of 2024 3 1, symbol = ''17077''\<rparr>,
              \<lparr>start_date = gdate_of 2024 3 1, end_date = gdate_of 2024 4 1, symbol = ''5602''\<rparr>]\<rparr>]
       (set_symbols [''ES.c.0''] (set_version version (set_stype_out SType_InstrumentId
       (set_stype_in (Some SType_Continuous) (set_start 1704067200000000000
       (set_schema (Some Schema_Mbp1) (set_dataset ''GLBX.MDP3'' metadata_builder))))))))"

lemmas sample_metadata_simps =
  sample_metadata_def metadata_build_def set_mappings_def set_symbols_def set_version_def
  set_stype_out_def set_stype_in_def set_start_def set_schema_def set_dataset_def metadata_builder_def
  version_symbol_cstr_len_def SYMBOL_CSTR_LEN_V1_def SYMBOL_CSTR_LEN_V2_def

end
