(* ===== verification/Writer.thy ===== *)
theory Writer
  imports Prelude
begin

text \<open>
  The standard library's \<^verbatim>\<open>io::Write\<close> and \<^verbatim>\<open>io::Seek\<close> as the encoders use them. Generic
  code takes a dictionary of the writer's operations; each returns the writer as it is
  afterwards and whether the operation succeeded, so that what was written before a failure
  stays written. An encoder is a function from a writer to a writer and a result, and the
  combinators below are Rust's \<^verbatim>\<open>?\<close> operator and \<^verbatim>\<open>for\<close> loop at that type.

  What an encoder promises about the bytes it produces rests on the interface
  \<open>appending_writer\<close>: a successful write appends to the contents. A \<^verbatim>\<open>Vec<u8>\<close>
  and a \<^verbatim>\<open>Cursor<Vec<u8>>\<close> interpret it.
\<close>

section \<open>Definitions\<close>

record 'w writer =
  write_all :: "bytes \<Rightarrow> 'w \<Rightarrow> 'w \<times> bool"
  flush :: "'w \<Rightarrow> 'w \<times> bool"
  seek_start :: "nat \<Rightarrow> 'w \<Rightarrow> 'w \<times> bool"
  seek_end :: "'w \<Rightarrow> 'w \<times> bool"

type_synonym 'w enc = "'w \<Rightarrow> 'w \<times> unit result"

definition io_op :: "string \<Rightarrow> ('w \<Rightarrow> 'w \<times> bool) \<Rightarrow> 'w enc" where
  "io_op context f w = (case f w of (w', success) \<Rightarrow> (w', if success then Ok () else Err (Io context)))"

definition put :: "'w writer \<Rightarrow> string \<Rightarrow> bytes \<Rightarrow> 'w enc" where
  "put W context bs = io_op context (write_all W bs)"

definition ret :: "'w enc" where "ret w = (w, Ok ())"

definition fail :: "error \<Rightarrow> 'w enc" where "fail e w = (w, Err e)"

definition seq :: "'w enc \<Rightarrow> 'w enc \<Rightarrow> 'w enc" where
  "seq f g w = (case f w of (w', Ok _) \<Rightarrow> g w' | (w', Err e) \<Rightarrow> (w', Err e) | (w', Panic p) \<Rightarrow> (w', Panic p))"

fun seqs :: "'w enc list \<Rightarrow> 'w enc" where
  "seqs [] = ret"
| "seqs (f # fs) = seq f (seqs fs)"

definition for_each :: "'a list \<Rightarrow> ('a \<Rightarrow> 'w enc) \<Rightarrow> 'w enc" where
  "for_each xs f = seqs (map f xs)"

definition map_io_err :: "string \<Rightarrow> 'w enc \<Rightarrow> 'w enc" where
  "map_io_err context f w = (case f w of (w', Err (Io _)) \<Rightarrow> (w', Err (Io context)) | r \<Rightarrow> r)"

text \<open>\<^verbatim>\<open>Vec<u8>\<close> and \<^verbatim>\<open>Cursor<Vec<u8>>\<close>.\<close>

definition vec_writer :: "bytes writer" where
  "vec_writer =
     \<lparr>write_all = (\<lambda>bs w. (w @ bs, True)), flush = (\<lambda>w. (w, True)),
      seek_start = (\<lambda>_ w. (w, False)), seek_end = (\<lambda>w. (w, False))\<rparr>"

definition overwrite :: "nat \<Rightarrow> bytes \<Rightarrow> bytes \<Rightarrow> bytes" where
  "overwrite pos bs file =
     take pos (file @ replicate (pos - length file) 0) @ bs @ drop (pos + length bs) file"

definition cursor_writer :: "(bytes \<times> nat) writer" where
  "cursor_writer =
     \<lparr>write_all = (\<lambda>bs (file, pos). ((overwrite pos bs file, pos + length bs), True)),
      flush = (\<lambda>w. (w, True)),
      seek_start = (\<lambda>n (file, pos). ((file, n), True)),
      seek_end = (\<lambda>(file, pos). ((file, length file), True))\<rparr>"

lemma map_io_err_Ok: "map_io_err c f w = (w', Ok ()) \<longleftrightarrow> f w = (w', Ok ())"
  by (auto simp: map_io_err_def split: prod.splits result.splits error.splits)

section \<open>What an encoder writes\<close>

text \<open>
  \<open>writes W contents f bs\<close>: whenever \<open>f\<close> succeeds it has appended exactly \<open>bs\<close>, and it
  succeeds when no write fails.
\<close>

locale appending_writer =
  fixes W :: "'w writer" and contents :: "'w \<Rightarrow> bytes" and inv :: "'w \<Rightarrow> bool"
  assumes write_all_appends:
    "inv w \<Longrightarrow> write_all W bs w = (w', True) \<Longrightarrow> inv w' \<and> contents w' = contents w @ bs"
begin

definition writes :: "'w enc \<Rightarrow> bytes \<Rightarrow> bool" where
  "writes f bs \<longleftrightarrow>
     (\<forall>w w'. inv w \<longrightarrow> f w = (w', Ok ()) \<longrightarrow> inv w' \<and> contents w' = contents w @ bs) \<and>
     ((\<forall>w bs'. snd (write_all W bs' w)) \<longrightarrow> (\<forall>w. \<exists>w'. f w = (w', Ok ())))"

lemma writes_put: "writes (put W c bs) bs"
  unfolding writes_def put_def io_op_def
  by (auto split: prod.splits if_splits dest: write_all_appends) (metis snd_conv)

lemma writes_ret: "writes ret []"
  by (simp add: writes_def ret_def)

lemma writesD:
  "writes f bs \<Longrightarrow> inv w \<Longrightarrow> f w = (w', Ok ()) \<Longrightarrow> inv w' \<and> contents w' = contents w @ bs"
  unfolding writes_def by blast

lemma writes_total:
  "writes f bs \<Longrightarrow> \<forall>w bs'. snd (write_all W bs' w) \<Longrightarrow> \<exists>w'. f w = (w', Ok ())"
  unfolding writes_def by blast

lemma writes_seq:
  assumes f: "writes f xs" and g: "writes g ys"
  shows "writes (seq f g) (xs @ ys)"
  unfolding writes_def
proof (intro conjI allI impI)
  fix w w' assume w: "inv w" and "seq f g w = (w', Ok ())"
  then obtain v where "f w = (v, Ok ())" and "g v = (w', Ok ())"
    by (auto simp: seq_def split: prod.splits result.splits)
  then have "inv v" "contents v = contents w @ xs" "inv w'" "contents w' = contents v @ ys"
    using writesD [OF f w] writesD [OF g] by blast+
  then show "inv w'" "contents w' = contents w @ xs @ ys" by simp_all
next
  fix w assume total: "\<forall>w bs'. snd (write_all W bs' w)"
  obtain v where "f w = (v, Ok ())" using writes_total [OF f total] by blast
  moreover obtain w' where "g v = (w', Ok ())" using writes_total [OF g total] by blast
  ultimately show "\<exists>w'. seq f g w = (w', Ok ())" by (simp add: seq_def)
qed

lemma writes_seqs: "list_all2 writes fs xss \<Longrightarrow> writes (seqs fs) (concat xss)"
  by (induction rule: list_all2_induct) (simp_all add: writes_ret writes_seq)

lemma writes_for_each:
  "(\<And>x. x \<in> set xs \<Longrightarrow> writes (f x) (g x)) \<Longrightarrow> writes (for_each xs f) (concat (map g xs))"
  unfolding for_each_def by (rule writes_seqs) (simp add: list_all2_conv_all_nth)

lemma writes_map_io_err: "writes f bs \<Longrightarrow> writes (map_io_err c f) bs"
  by (simp add: writes_def map_io_err_Ok)

text \<open>
  \<open>encodes P f bs\<close>: \<open>f\<close> writes \<open>bs\<close> if \<open>P\<close> holds, never succeeds if it does not, and never
  panics.
\<close>

definition encodes :: "bool \<Rightarrow> 'w enc \<Rightarrow> bytes \<Rightarrow> bool" where
  "encodes P f bs \<longleftrightarrow>
     (P \<longrightarrow> writes f bs) \<and> (\<not> P \<longrightarrow> (\<forall>w w'. f w \<noteq> (w', Ok ()))) \<and> (\<forall>w w' p. f w \<noteq> (w', Panic p))"

lemma encodes_put: "encodes True (put W c bs) bs"
  using writes_put by (auto simp: encodes_def put_def io_op_def split: prod.splits)

lemma encodes_ret: "encodes True ret []"
  using writes_ret by (simp add: encodes_def ret_def)

lemma encodes_fail: "encodes False (fail e) bs"
  by (simp add: encodes_def fail_def)

lemma seq_eq_Ok: "seq f g w = (w', Ok u) \<longleftrightarrow> (\<exists>v. f w = (v, Ok ()) \<and> g v = (w', Ok u))"
  by (auto simp: seq_def split: prod.splits result.splits)

lemma seq_eq_Panic:
  "seq f g w = (w', Panic p) \<longleftrightarrow> f w = (w', Panic p) \<or> (\<exists>v. f w = (v, Ok ()) \<and> g v = (w', Panic p))"
  by (auto simp: seq_def split: prod.splits result.splits)

lemma encodes_seq: "encodes P f xs \<Longrightarrow> encodes Q g ys \<Longrightarrow> encodes (P \<and> Q) (seq f g) (xs @ ys)"
  by (auto simp: encodes_def seq_eq_Ok seq_eq_Panic intro: writes_seq)

lemma encodes_Cons:
  "encodes P f xs \<Longrightarrow> encodes Q (seqs fs) ys \<Longrightarrow> encodes (P \<and> Q) (seqs (f # fs)) (xs @ ys)"
  by (simp add: encodes_seq)

lemma encodes_Nil: "encodes True (seqs []) []"
  by (simp add: encodes_ret)

lemma encodes_for_each:
  "(\<And>x. encodes (P x) (f x) (g x)) \<Longrightarrow> encodes (list_all P xs) (for_each xs f) (concat (map g xs))"
  by (induction xs) (auto simp: for_each_def encodes_ret intro: encodes_seq)

lemma encodes_cong:
  "encodes P f xs \<Longrightarrow> P = Q \<Longrightarrow> (Q \<Longrightarrow> xs = ys) \<Longrightarrow> encodes Q f ys"
  by (auto simp: encodes_def)

lemma encodes_if:
  "(b \<Longrightarrow> encodes P f xs) \<Longrightarrow> (\<not> b \<Longrightarrow> encodes P g ys) \<Longrightarrow>
   encodes P (if b then f else g) (if b then xs else ys)"
  by simp

end

interpretation vec: appending_writer vec_writer "\<lambda>w. w" "\<lambda>_. True"
  by unfold_locales (simp add: vec_writer_def)

text \<open>
  A cursor anywhere in a file \<open>F\<close>: what lies before the position is the contents, what lies
  behind it is still that of \<open>F\<close>.
\<close>

interpretation cursor: appending_writer cursor_writer "\<lambda>(file, pos). take pos file"
    "\<lambda>(file, pos). pos \<le> length file \<and> drop pos file = drop pos F" for F
proof
  fix w :: "bytes \<times> nat" and bs w'
  assume w: "case w of (file, pos) \<Rightarrow> pos \<le> length file \<and> drop pos file = drop pos F"
    and w': "write_all cursor_writer bs w = (w', True)"
  obtain f pos where wp: "w = (f, pos)" by fastforce
  have "drop (length bs) (drop pos f) = drop (length bs) (drop pos F)"
    using w wp by (simp del: drop_drop)
  then have "drop (pos + length bs) f = drop (pos + length bs) F"
    by (simp add: add.commute)
  then show "(case w' of (file, pos) \<Rightarrow> pos \<le> length file \<and> drop pos file = drop pos F) \<and>
      (case w' of (file, pos) \<Rightarrow> take pos file) = (case w of (file, pos) \<Rightarrow> take pos file) @ bs"
    using w w' by (auto simp: cursor_writer_def overwrite_def wp)
qed

lemma cursor_write_total: "\<forall>w bs'. snd (write_all cursor_writer bs' w)"
  by (auto simp: cursor_writer_def)

text \<open>A successful encoder on a cursor replaces the bytes from the position on.\<close>

lemma cursor_encodes_result:
  assumes "cursor.encodes F True f bs" and "pos \<le> length F"
  shows "f (F, pos) = ((take pos F @ bs @ drop (pos + length bs) F, pos + length bs), Ok ())"
proof -
  have "cursor.writes F f bs" using assms(1) by (simp add: cursor.encodes_def)
  then obtain file' pos' where f: "f (F, pos) = ((file', pos'), Ok ())"
    using cursor.writes_total [OF _ cursor_write_total, of F f bs "(F, pos)"] by auto
  with \<open>cursor.writes F f bs\<close> have inv: "pos' \<le> length file'" "drop pos' file' = drop pos' F"
    and c: "take pos' file' = take pos F @ bs"
    using cursor.writesD [of F f bs "(F, pos)" "(file', pos')"] assms(2) by auto
  have pos': "pos' = pos + length bs"
    using arg_cong [OF c, of length] inv(1) assms(2) by simp
  have "file' = take pos' file' @ drop pos' file'" by simp
  also have "\<dots> = take pos F @ bs @ drop (pos + length bs) F"
    using c inv(2) pos' by simp
  finally show ?thesis using f pos' by simp
qed

lemma vec_write_total: "\<forall>w bs'. snd (write_all vec_writer bs' w)"
  by (simp add: vec_writer_def)

lemma vec_encodes_result:
  assumes "vec.encodes P f bs"
  shows "if P then f w = (w @ bs, Ok ()) else \<exists>w' e. f w = (w', Err e)"
proof (cases P)
  case True
  then have "vec.writes f bs" using assms by (simp add: vec.encodes_def)
  then obtain w' where "f w = (w', Ok ())" using vec.writes_total vec_write_total by blast
  with \<open>vec.writes f bs\<close> show ?thesis using vec.writesD [of f bs w w'] True by simp
next
  case False
  obtain w' r where "f w = (w', r)" by fastforce
  with False assms show ?thesis by (cases r) (auto simp: vec.encodes_def)
qed

end
