(* ===== verification/Dbn_Encode.thy ===== *)
theory Dbn_Encode
  imports Gregorian Writer
begin

text \<open>
  Encoding of DBN streams, rust/dbn/src/encode/dbn/sync.rs: the \<^verbatim>\<open>MetadataEncoder\<close>, the
  \<^verbatim>\<open>RecordEncoder\<close> and the \<^verbatim>\<open>Encoder\<close> that writes a metadata header and then records. An
  encoder's only state is its writer, so its methods are functions on the writer.

  \<open>metadata_bytes\<close> is the abstract layout of a metadata header. The encoder refines it: on
  encodable metadata it writes exactly that layout and nothing else.
\<close>

section \<open>Definitions\<close>

subsection \<open>Metadata\<close>

definition encode_fixed_len_cstr :: "'w writer \<Rightarrow> nat \<Rightarrow> string \<Rightarrow> 'w enc" where
  "encode_fixed_len_cstr W symbol_cstr_len string =
     (if \<not> is_ascii string then fail (Conversion string ''ASCII'')
      else if length string \<ge> symbol_cstr_len then
        fail (Encode (CHR 0x27 # string @ [CHR 0x27] @
          '' is too long to be encoded in DBN; it cannot be longer than '' @
          dec_nat (if symbol_cstr_len = 0 then 2 ^ 64 - 1 else symbol_cstr_len - 1) @ '' characters''))
      else seqs
        [put W ''writing cstr'' (as_bytes string),
         for_each [length string..<symbol_cstr_len] (\<lambda>_. put W ''writing cstr'' [0])])"

definition encode_date :: "'d date_ops \<Rightarrow> 'w writer \<Rightarrow> string \<Rightarrow> 'd \<Rightarrow> 'w enc" where
  "encode_date C W context date =
     (let date_int = word_of_int (year C date) * 10000 :: u32;
          date_int = date_int + word_of_nat (month C date) * 100;
          date_int = date_int + word_of_nat (day C date)
      in put W context (put_u32 date_int))"

definition encode_repeated_symbol_cstr :: "'w writer \<Rightarrow> nat \<Rightarrow> string list \<Rightarrow> 'w enc" where
  "encode_repeated_symbol_cstr W symbol_cstr_len symbols = seqs
     [put W ''writing repeated symbols length'' (put_u32 (word_of_nat (length symbols))),
      for_each symbols (encode_fixed_len_cstr W symbol_cstr_len)]"

definition encode_symbol_mapping :: "'d date_ops \<Rightarrow> 'w writer \<Rightarrow> nat \<Rightarrow> 'd SymbolMapping \<Rightarrow> 'w enc" where
  "encode_symbol_mapping C W symbol_cstr_len symbol_mapping = seqs
     [encode_fixed_len_cstr W symbol_cstr_len (raw_symbol symbol_mapping),
      put W ''writing symbol mapping interval count''
        (put_u32 (word_of_nat (length (intervals symbol_mapping)))),
      for_each (intervals symbol_mapping) (\<lambda>interval. seqs
        [encode_date C W ''writing start date'' (start_date interval),
         encode_date C W ''writing end date'' (end_date interval),
         encode_fixed_len_cstr W symbol_cstr_len (symbol interval)])]"

definition encode_symbol_mappings ::
  "'d date_ops \<Rightarrow> 'w writer \<Rightarrow> nat \<Rightarrow> 'd SymbolMapping list \<Rightarrow> 'w enc" where
  "encode_symbol_mappings C W symbol_cstr_len symbol_mappings = seqs
     [put W ''writing symbol mappings length'' (put_u32 (word_of_nat (length symbol_mappings))),
      for_each symbol_mappings (encode_symbol_mapping C W symbol_cstr_len)]"

definition encode_range_and_counts ::
  "'w writer \<Rightarrow> u8 \<Rightarrow> u64 \<Rightarrow> u64 option \<Rightarrow> u64 option \<Rightarrow> 'w enc" where
  "encode_range_and_counts W version start end_ts limit = seqs
     [put W ''writing DBN metadata'' (put_u64 start),
      put W ''writing DBN metadata'' (put_u64 (case end_ts of Some e \<Rightarrow> e | None \<Rightarrow> UNDEF_TIMESTAMP)),
      put W ''writing DBN metadata'' (put_u64 (case limit of Some l \<Rightarrow> l | None \<Rightarrow> NULL_LIMIT)),
      if version = 1 then put W ''writing DBN metadata'' (put_u64 NULL_RECORD_COUNT) else ret]"

definition needed_len :: "'d Metadata \<Rightarrow> nat" where
  "needed_len m =
     (let mapping_interval_len = 4 * 2 + md_symbol_cstr_len m;
          var_len_counts_size = 4 * 5;
          c_str_count = length (md_symbols m) + length (md_partial m) + length (md_not_found m)
      in METADATA_FIXED_LEN + var_len_counts_size + c_str_count * md_symbol_cstr_len m +
         sum_list (map (\<lambda>sm. md_symbol_cstr_len m + 4 + length (intervals sm) * mapping_interval_len)
           (md_mappings m)))"

definition calc_length :: "'d Metadata \<Rightarrow> u32 \<times> u32" where
  "calc_length m =
     (let needed = word_of_nat (needed_len m) :: u32; r = needed mod 8
      in if md_version m < 3 \<or> r = 0 then (needed, 0)
         else let end_padding = 8 - r in (needed + end_padding, end_padding))"

definition metadata_encode :: "'d date_ops \<Rightarrow> 'w writer \<Rightarrow> 'd Metadata \<Rightarrow> 'w enc" where
  "metadata_encode C W m = seq (put W ''writing DBN metadata'' (as_bytes ''DBN''))
     (if md_version m > DBN_VERSION then
        fail (Encode (''can't encode Metadata with version '' @ dec_nat (unat (md_version m)) @
          '' which is greater than the maximum supported version 3''))
      else case calc_length m of (metadata_length, end_padding) \<Rightarrow> seqs
        [put W ''writing DBN metadata'' [max (md_version m) 1],
         put W ''writing DBN metadata'' (put_u32 metadata_length),
         encode_fixed_len_cstr W METADATA_DATASET_CSTR_LEN (md_dataset m),
         put W ''writing DBN metadata''
           (put_u16 (case md_schema m of Some s \<Rightarrow> schema_as_u16 s | None \<Rightarrow> NULL_SCHEMA)),
         encode_range_and_counts W (md_version m) (md_start m) (md_end m) (md_limit m),
         put W ''writing DBN metadata''
           [case md_stype_in m of Some s \<Rightarrow> stype_as_u8 s | None \<Rightarrow> NULL_STYPE,
            stype_as_u8 (md_stype_out m),
            if md_ts_out m then 1 else 0],
         if md_version m > 1
         then put W ''writing DBN metadata'' (put_u16 (word_of_nat (md_symbol_cstr_len m))) else ret,
         put W ''writing DBN metadata''
           (if md_version m = 1 then replicate METADATA_RESERVED_LEN_V1 0
            else replicate METADATA_RESERVED_LEN 0),
         put W ''writing DBN metadata'' (put_u32 0),
         encode_repeated_symbol_cstr W (md_symbol_cstr_len m) (md_symbols m),
         encode_repeated_symbol_cstr W (md_symbol_cstr_len m) (md_partial m),
         encode_repeated_symbol_cstr W (md_symbol_cstr_len m) (md_not_found m),
         encode_symbol_mappings C W (md_symbol_cstr_len m) (md_mappings m),
         if end_padding > 0
         then put W ''writing DBN metadata'' (take (unat end_padding) (replicate 7 0)) else ret])"

definition START_OFFSET :: nat where "START_OFFSET = 8 + METADATA_DATASET_CSTR_LEN + 2"

definition update_encoded ::
  "'w writer \<Rightarrow> u8 \<Rightarrow> u64 \<Rightarrow> u64 option \<Rightarrow> u64 option \<Rightarrow> 'w enc" where
  "update_encoded W version start end_ts limit = seqs
     [io_op ''seeking to write position'' (seek_start W START_OFFSET),
      encode_range_and_counts W version start end_ts limit,
      io_op ''seeking back to end'' (seek_end W)]"

subsection \<open>Records\<close>

definition encode_record :: "'r record_type \<Rightarrow> 'w writer \<Rightarrow> 'r \<Rightarrow> 'w enc" where
  "encode_record T W r = put W ''serializing '' (as_ref T r)"

definition encode_record_ref :: "'w writer \<Rightarrow> bytes \<Rightarrow> 'w enc" where
  "encode_record_ref W rec = put W ''serializing '' (rr_as_ref rec)"

definition encode_record_ref_ts_out :: "'w writer \<Rightarrow> bytes \<Rightarrow> bool \<Rightarrow> 'w enc" where
  "encode_record_ref_ts_out W rec ts_out = encode_record_ref W rec"

definition encoder_flush :: "'w writer \<Rightarrow> 'w enc" where
  "encoder_flush W = io_op ''flushing output'' (flush W)"

text \<open>\<^verbatim>\<open>Encoder::new\<close> followed by one \<^verbatim>\<open>encode_record_ref\<close> per record.\<close>

definition encoder_new :: "'d date_ops \<Rightarrow> 'w writer \<Rightarrow> 'd Metadata \<Rightarrow> 'w enc" where
  "encoder_new C W m = metadata_encode C W m"

definition encode_stream :: "'d date_ops \<Rightarrow> 'w writer \<Rightarrow> 'd Metadata \<Rightarrow> bytes list \<Rightarrow> 'w enc" where
  "encode_stream C W m recs = seq (encoder_new C W m) (for_each recs (encode_record_ref W))"

section \<open>The abstract layout\<close>

definition cstr_bytes :: "nat \<Rightarrow> string \<Rightarrow> bytes" where
  "cstr_bytes n s = as_bytes s @ replicate (n - length s) 0"

definition date_bytes :: "'d date_ops \<Rightarrow> 'd \<Rightarrow> bytes" where
  "date_bytes C d =
     put_u32 (word_of_int (year C d) * 10000 + word_of_nat (month C d) * 100 + word_of_nat (day C d))"

definition symbols_bytes :: "nat \<Rightarrow> string list \<Rightarrow> bytes" where
  "symbols_bytes n ss = put_u32 (word_of_nat (length ss)) @ concat (map (cstr_bytes n) ss)"

definition interval_bytes :: "'d date_ops \<Rightarrow> nat \<Rightarrow> 'd MappingInterval \<Rightarrow> bytes" where
  "interval_bytes C n i = date_bytes C (start_date i) @ date_bytes C (end_date i) @ cstr_bytes n (symbol i)"

definition mapping_bytes :: "'d date_ops \<Rightarrow> nat \<Rightarrow> 'd SymbolMapping \<Rightarrow> bytes" where
  "mapping_bytes C n sm =
     cstr_bytes n (raw_symbol sm) @ put_u32 (word_of_nat (length (intervals sm))) @
     concat (map (interval_bytes C n) (intervals sm))"

definition mappings_bytes :: "'d date_ops \<Rightarrow> nat \<Rightarrow> 'd SymbolMapping list \<Rightarrow> bytes" where
  "mappings_bytes C n ms =
     put_u32 (word_of_nat (length ms)) @ concat (map (mapping_bytes C n) ms)"

definition range_bytes :: "u8 \<Rightarrow> u64 \<Rightarrow> u64 option \<Rightarrow> u64 option \<Rightarrow> bytes" where
  "range_bytes version start end_ts limit =
     put_u64 start @ put_u64 (case end_ts of Some e \<Rightarrow> e | None \<Rightarrow> UNDEF_TIMESTAMP) @
     put_u64 (case limit of Some l \<Rightarrow> l | None \<Rightarrow> NULL_LIMIT) @
     (if version = 1 then put_u64 NULL_RECORD_COUNT else [])"

text \<open>The part of the body before the counted lists, and the body up to the end padding.\<close>

definition fixed_bytes :: "'d Metadata \<Rightarrow> bytes" where
  "fixed_bytes m =
     cstr_bytes METADATA_DATASET_CSTR_LEN (md_dataset m) @
     put_u16 (case md_schema m of Some s \<Rightarrow> schema_as_u16 s | None \<Rightarrow> NULL_SCHEMA) @
     range_bytes (md_version m) (md_start m) (md_end m) (md_limit m) @
     [case md_stype_in m of Some s \<Rightarrow> stype_as_u8 s | None \<Rightarrow> NULL_STYPE,
      stype_as_u8 (md_stype_out m), if md_ts_out m then 1 else 0] @
     (if md_version m > 1 then put_u16 (word_of_nat (md_symbol_cstr_len m)) else []) @
     replicate (if md_version m = 1 then METADATA_RESERVED_LEN_V1 else METADATA_RESERVED_LEN) 0"

definition body_bytes :: "'d date_ops \<Rightarrow> 'd Metadata \<Rightarrow> bytes" where
  "body_bytes C m =
     fixed_bytes m @ put_u32 0 @
     symbols_bytes (md_symbol_cstr_len m) (md_symbols m) @
     symbols_bytes (md_symbol_cstr_len m) (md_partial m) @
     symbols_bytes (md_symbol_cstr_len m) (md_not_found m) @
     mappings_bytes C (md_symbol_cstr_len m) (md_mappings m)"

definition metadata_bytes :: "'d date_ops \<Rightarrow> 'd Metadata \<Rightarrow> bytes" where
  "metadata_bytes C m =
     as_bytes ''DBN'' @ [max (md_version m) 1] @ put_u32 (fst (calc_length m)) @
     body_bytes C m @ replicate (unat (snd (calc_length m))) 0"

text \<open>The texts that fit a field, and the metadata that can be encoded.\<close>

definition cstr_fits :: "nat \<Rightarrow> string \<Rightarrow> bool" where
  "cstr_fits n s \<longleftrightarrow> is_ascii s \<and> length s < n"

definition mapping_fits :: "nat \<Rightarrow> 'd SymbolMapping \<Rightarrow> bool" where
  "mapping_fits n sm \<longleftrightarrow>
     cstr_fits n (raw_symbol sm) \<and> list_all (\<lambda>i. cstr_fits n (symbol i)) (intervals sm)"

definition encodable :: "'d Metadata \<Rightarrow> bool" where
  "encodable m \<longleftrightarrow>
     md_version m \<le> DBN_VERSION \<and> cstr_fits METADATA_DATASET_CSTR_LEN (md_dataset m) \<and>
     list_all (cstr_fits (md_symbol_cstr_len m)) (md_symbols m @ md_partial m @ md_not_found m) \<and>
     list_all (mapping_fits (md_symbol_cstr_len m)) (md_mappings m)"

section \<open>The encoder refines the layout\<close>

lemma concat_replicate_single: "concat (map (\<lambda>_. [x]) xs) = replicate (length xs) x"
  by (induction xs) auto

lemma calc_length_padding:
  "unat (snd (calc_length m)) =
    (if md_version m < 3 then 0 else (8 - needed_len m mod 2 ^ 32 mod 8) mod 8)"
proof -
  define needed where "needed = (word_of_nat (needed_len m) :: u32)"
  have n: "unat needed = needed_len m mod 2 ^ 32" by (simp add: needed_def unat_of_nat take_bit_eq_mod)
  have r: "unat (needed mod 8) = unat needed mod 8" by (simp add: unat_mod_distrib)
  have z: "needed mod 8 = 0 \<longleftrightarrow> unat needed mod 8 = 0" by (metis r unat_eq_zero)
  have "unat (8 - needed mod 8) = 8 - unat needed mod 8"
    using r by (subst unat_sub) (auto simp: word_le_nat_alt less_imp_le)
  then show ?thesis
    using r z n by (auto simp: calc_length_def Let_def needed_def [symmetric])
qed

lemma calc_length_padding_le: "unat (snd (calc_length m)) \<le> 7"
  using mod_less_divisor [of 8] by (simp add: calc_length_padding less_Suc_eq_le [symmetric])

context appending_writer
begin

lemma encodes_cstr: "encodes (cstr_fits n s) (encode_fixed_len_cstr W n s) (cstr_bytes n s)"
proof (cases "cstr_fits n s")
  case True
  have "encodes (list_all (\<lambda>_. True) [length s..<n]) (for_each [length s..<n] (\<lambda>_. put W ''writing cstr'' [0]))
      (concat (map (\<lambda>_. [0]) [length s..<n]))"
    by (rule encodes_for_each) (rule encodes_put)
  then have "encodes True (for_each [length s..<n] (\<lambda>_. put W ''writing cstr'' [0])) (replicate (n - length s) 0)"
    by (simp add: map_replicate_const list.pred_True)
  from encodes_Cons [OF encodes_put encodes_Cons [OF this encodes_Nil]] True show ?thesis
    by (simp add: encode_fixed_len_cstr_def cstr_fits_def cstr_bytes_def)
next
  case False
  then show ?thesis
    by (auto simp: encode_fixed_len_cstr_def cstr_fits_def encodes_fail)
qed

lemma encodes_date: "encodes True (encode_date C W c d) (date_bytes C d)"
  by (simp add: encode_date_def date_bytes_def encodes_put)

lemma encodes_symbols:
  "encodes (list_all (cstr_fits n) ss) (encode_repeated_symbol_cstr W n ss) (symbols_bytes n ss)"
  unfolding encode_repeated_symbol_cstr_def symbols_bytes_def
  by (rule encodes_cong)
    (rule encodes_Cons encodes_Nil encodes_put encodes_for_each encodes_cstr | simp)+

lemma encodes_interval:
  "encodes (cstr_fits n (symbol i))
     (seqs [encode_date C W c (start_date i), encode_date C W c' (end_date i),
        encode_fixed_len_cstr W n (symbol i)]) (interval_bytes C n i)"
  unfolding interval_bytes_def
  by (rule encodes_cong) (rule encodes_Cons encodes_Nil encodes_date encodes_cstr | simp)+

lemma encodes_mapping:
  "encodes (mapping_fits n sm) (encode_symbol_mapping C W n sm) (mapping_bytes C n sm)"
  unfolding encode_symbol_mapping_def mapping_bytes_def mapping_fits_def
  by (rule encodes_cong)
    (rule encodes_Cons encodes_Nil encodes_put encodes_for_each encodes_interval encodes_cstr | simp)+

lemma encodes_mappings:
  "encodes (list_all (mapping_fits n) ms) (encode_symbol_mappings C W n ms) (mappings_bytes C n ms)"
  unfolding encode_symbol_mappings_def mappings_bytes_def
  by (rule encodes_cong)
    (rule encodes_Cons encodes_Nil encodes_put encodes_for_each encodes_mapping | simp)+

lemma encodes_range:
  "encodes True (encode_range_and_counts W v s e l) (range_bytes v s e l)"
  unfolding encode_range_and_counts_def range_bytes_def
  by (rule encodes_cong)
    (rule encodes_Cons encodes_Nil encodes_put encodes_if encodes_ret | simp)+

lemma encodes_metadata: "encodes (encodable m) (metadata_encode C W m) (metadata_bytes C m)"
proof (cases "md_version m > DBN_VERSION")
  case True
  then have "encodes (True \<and> False) (metadata_encode C W m) (as_bytes ''DBN'' @ [])"
    unfolding metadata_encode_def by (simp only: if_True) (rule encodes_seq [OF encodes_put encodes_fail])
  then show ?thesis
    by (rule encodes_cong) (use True in \<open>auto simp: encodable_def\<close>)
next
  case False
  obtain len pad where cl: "calc_length m = (len, pad)" by fastforce
  have pad: "unat pad \<le> 7"
    using calc_length_padding_le [of m] by (simp add: cl)
  show ?thesis
    unfolding metadata_encode_def cl prod.case using False
    by (simp only: if_False) (rule encodes_cong,
      (rule encodes_seq encodes_Cons encodes_Nil encodes_put encodes_if encodes_ret encodes_cstr
        encodes_range encodes_symbols encodes_mappings)+,
      use pad in \<open>auto simp: encodable_def not_less metadata_bytes_def body_bytes_def
        fixed_bytes_def cl take_replicate min_def word_gt_0\<close>)
qed

end

section \<open>Lengths\<close>

lemma length_cstr_bytes: "length s \<le> n \<Longrightarrow> length (cstr_bytes n s) = n"
  by (simp add: cstr_bytes_def)

lemma length_date_bytes [simp]: "length (date_bytes C d) = 4"
  by (simp add: date_bytes_def)

lemma length_concat_const:
  "(\<And>x. x \<in> set xs \<Longrightarrow> length (f x) = n) \<Longrightarrow> length (concat (map f xs)) = length xs * n"
  by (induction xs) auto

lemma length_symbols_bytes:
  "list_all (cstr_fits n) ss \<Longrightarrow> length (symbols_bytes n ss) = 4 + length ss * n"
  by (auto simp: symbols_bytes_def list_all_iff cstr_fits_def length_cstr_bytes less_imp_le
      intro!: length_concat_const)

lemma length_interval_bytes: "cstr_fits n (symbol i) \<Longrightarrow> length (interval_bytes C n i) = 8 + n"
  by (simp add: interval_bytes_def length_cstr_bytes cstr_fits_def)

lemma length_mapping_bytes:
  assumes "mapping_fits n sm"
  shows "length (mapping_bytes C n sm) = n + 4 + length (intervals sm) * (8 + n)"
proof -
  have "length (concat (map (interval_bytes C n) (intervals sm))) = length (intervals sm) * (8 + n)"
    using assms by (intro length_concat_const length_interval_bytes) (auto simp: mapping_fits_def list_all_iff)
  then show ?thesis
    using assms by (simp add: mapping_bytes_def length_cstr_bytes mapping_fits_def cstr_fits_def)
qed

lemma length_mappings_bytes:
  "list_all (mapping_fits n) ms \<Longrightarrow> length (mappings_bytes C n ms) =
     4 + sum_list (map (\<lambda>sm. n + 4 + length (intervals sm) * (8 + n)) ms)"
  by (induction ms) (auto simp: mappings_bytes_def length_mapping_bytes)

lemma length_range_bytes: "length (range_bytes v s e l) = (if v = 1 then 32 else 24)"
  by (simp add: range_bytes_def)

lemma length_fixed_bytes:
  assumes "length (md_dataset m) \<le> 16" and "1 \<le> md_version m"
  shows "length (fixed_bytes m) = METADATA_FIXED_LEN"
proof -
  have "md_version m > 1 \<longleftrightarrow> md_version m \<noteq> 1"
    using assms(2) by auto
  then show ?thesis
    using assms by (simp add: fixed_bytes_def length_cstr_bytes length_range_bytes
        METADATA_DATASET_CSTR_LEN_def METADATA_FIXED_LEN_def METADATA_RESERVED_LEN_V1_def
        METADATA_RESERVED_LEN_def)
qed

lemma length_body_bytes:
  assumes "encodable m" and "1 \<le> md_version m"
  shows "length (body_bytes C m) = needed_len m"
proof -
  have "length (fixed_bytes m) = METADATA_FIXED_LEN"
    using assms by (intro length_fixed_bytes) (auto simp: encodable_def cstr_fits_def METADATA_DATASET_CSTR_LEN_def)
  then show ?thesis
    using assms by (simp add: body_bytes_def encodable_def length_symbols_bytes length_mappings_bytes
        needed_len_def Let_def algebra_simps)
qed

lemma pad8_dvd: "8 dvd n + (8 - n mod 8) mod 8" for n :: nat
proof -
  have "q * 8 + r = n \<Longrightarrow> r < 8 \<Longrightarrow> n + (8 - r) = 8 * (q + 1)" for q r by auto
  from this [OF div_mult_mod_eq] have "n + (8 - n mod 8) = 8 * (n div 8 + 1)" by simp
  then have "(n + (8 - n mod 8)) mod 8 = 0" by simp
  then show ?thesis by (metis dvd_eq_mod_eq_0 mod_add_right_eq)
qed

lemma calc_length_value:
  assumes "needed_len m + 7 < 2 ^ 32"
  shows "unat (fst (calc_length m)) = needed_len m + unat (snd (calc_length m))"
proof -
  define needed where "needed = (word_of_nat (needed_len m) :: u32)"
  have n: "unat needed = needed_len m"
    using assms by (simp add: needed_def unat_of_nat)
  have "unat (needed + (8 - needed mod 8)) = unat needed + unat (8 - needed mod 8)"
    if "snd (calc_length m) = 8 - needed mod 8"
    using that calc_length_padding_le [of m] assms n by (subst unat_add_lem [symmetric]) simp
  then show ?thesis
    using n by (auto simp: calc_length_def Let_def needed_def [symmetric])
qed

section \<open>Properties\<close>

text \<open>
  The metadata encoder writes exactly the layout of the metadata when its version is
  supported and every text is ASCII and fits its field with a terminator; otherwise it returns
  an error. It never panics.
\<close>

theorem metadata_encode_layout:
  "if encodable m then metadata_encode C vec_writer m w = (w @ metadata_bytes C m, Ok ())
   else \<exists>w' e. metadata_encode C vec_writer m w = (w', Err e)"
  by (rule vec_encodes_result) (rule vec.encodes_metadata)

text \<open>
  The length written in the prelude is the number of bytes that follow the prelude, and a
  version 3 header, prelude included, is a multiple of 8 bytes long.
\<close>

theorem metadata_length_field:
  assumes "encodable m" and "1 \<le> md_version m" and "needed_len m + 7 < 2 ^ 32"
  shows "length (metadata_bytes C m) = 8 + unat (fst (calc_length m))
    \<and> (md_version m = 3 \<longrightarrow> 8 dvd length (metadata_bytes C m))"
proof -
  have len: "length (metadata_bytes C m) = 8 + unat (fst (calc_length m))"
    using assms by (simp add: metadata_bytes_def length_body_bytes calc_length_value)
  moreover have "8 dvd unat (fst (calc_length m))" if "md_version m = 3"
  proof -
    have "unat (fst (calc_length m)) = needed_len m + (8 - needed_len m mod 8) mod 8"
      using that assms(3) by (simp add: calc_length_value calc_length_padding)
    then show ?thesis by (simp add: pad8_dvd)
  qed
  ultimately show ?thesis by auto
qed

lemma sample_encodable: "v \<le> 3 \<Longrightarrow> encodable (sample_metadata v)"
  by (auto simp: encodable_def sample_metadata_simps DBN_VERSION_def cstr_fits_def mapping_fits_def
      is_ascii_def METADATA_DATASET_CSTR_LEN_def)

lemma sample_needed_len: "needed_len (sample_metadata 3) = 424"
  by (simp add: needed_len_def sample_metadata_simps METADATA_FIXED_LEN_def)

theorem metadata_length_field_witness: "length (metadata_bytes gregorian (sample_metadata 3)) = 432"
proof -
  have "md_version (sample_metadata 3) = 3" by (simp add: sample_metadata_simps)
  then show ?thesis
    using metadata_length_field [of "sample_metadata 3" gregorian] sample_encodable [of 3]
    by (simp add: sample_needed_len calc_length_value calc_length_padding)
qed

text \<open>
  C23. Updating the time range and limit of a header in place gives the file that encoding the
  updated metadata would have given, records included, and leaves the position at its end.
\<close>

theorem update_encoded_in_place:
  assumes "length (md_dataset m) \<le> 16"
  shows "update_encoded cursor_writer (md_version m) s e l (metadata_bytes C m @ recs, pos) =
    ((metadata_bytes C (m\<lparr>md_start := s, md_end := e, md_limit := l\<rparr>) @ recs,
      length (metadata_bytes C m @ recs)), Ok ())"
proof -
  let ?pre = "as_bytes ''DBN'' @ [max (md_version m) 1] @ put_u32 (fst (calc_length m)) @
    cstr_bytes METADATA_DATASET_CSTR_LEN (md_dataset m) @
    put_u16 (case md_schema m of Some s \<Rightarrow> schema_as_u16 s | None \<Rightarrow> NULL_SCHEMA)"
  have pre: "length ?pre = START_OFFSET"
    using assms by (simp add: START_OFFSET_def length_cstr_bytes METADATA_DATASET_CSTR_LEN_def)
  have cl: "calc_length (m\<lparr>md_start := s, md_end := e, md_limit := l\<rparr>) = calc_length m"
    by (simp add: calc_length_def needed_len_def)
  obtain pre rest where pre_len: "length pre = START_OFFSET"
    and old: "metadata_bytes C m @ recs =
      pre @ range_bytes (md_version m) (md_start m) (md_end m) (md_limit m) @ rest"
    and new: "metadata_bytes C (m\<lparr>md_start := s, md_end := e, md_limit := l\<rparr>) @ recs =
      pre @ range_bytes (md_version m) s e l @ rest"
    using pre by (rule that) (simp_all add: metadata_bytes_def body_bytes_def fixed_bytes_def cl)
  have "encode_range_and_counts cursor_writer (md_version m) s e l (metadata_bytes C m @ recs, START_OFFSET) =
      ((pre @ range_bytes (md_version m) s e l @ rest,
        START_OFFSET + length (range_bytes (md_version m) s e l)), Ok ())"
    unfolding old pre_len [symmetric]
    by (subst cursor_encodes_result [OF cursor.encodes_range]) (simp_all add: length_range_bytes)
  then show ?thesis
    unfolding new unfolding old using length_range_bytes
    by (simp add: update_encoded_def seq_def io_op_def ret_def cursor_writer_def)
qed

theorem update_encoded_in_place_witness:
  "update_encoded cursor_writer 3 7 (Some 9) None (metadata_bytes gregorian (sample_metadata 3), 0) =
     ((metadata_bytes gregorian (sample_metadata 3\<lparr>md_start := 7, md_end := Some 9, md_limit := None\<rparr>),
       length (metadata_bytes gregorian (sample_metadata 3))), Ok ())"
proof -
  have "md_version (sample_metadata 3) = 3" "length (md_dataset (sample_metadata 3)) \<le> 16"
    by (simp_all add: sample_metadata_simps)
  then show ?thesis
    using update_encoded_in_place [of "sample_metadata 3" 7 "Some 9" None gregorian "[]" 0] by simp
qed

end
