(* ===== verification/Metadata_Decode.thy ===== *)
theory Metadata_Decode
  imports Dbn_Encode
begin

text \<open>
  Decoding of a metadata header: \<^verbatim>\<open>DbnFsm::decode_metadata_impl\<close> and the functions it calls in
  rust/dbn/src/decode/dbn/fsm.rs, and \<^verbatim>\<open>decode_iso8601\<close> of
  rust/dbn/src/decode/dbn/sync.rs. The decoder reads from a buffer at a position it advances;
  here the position is passed and returned. Every slice of the buffer that Rust checks at run
  time is a \<open>slice\<close> or \<open>slice_from\<close> that may panic.

  The theorems: decoding the layout of \<open>metadata_bytes\<close> gives the metadata back, decoding never
  panics on a body of at least 104 bytes, and it does panic on a body that ends before the
  length of the schema definition.
\<close>

section \<open>Definitions\<close>

definition u16_at :: "bytes \<Rightarrow> nat \<Rightarrow> u16 result" where
  "u16_at buffer pos = and_then (slice_from buffer pos) u16_from_le_slice"

definition u32_at :: "bytes \<Rightarrow> nat \<Rightarrow> u32 result" where
  "u32_at buffer pos = and_then (slice_from buffer pos) u32_from_le_slice"

definition u64_at :: "bytes \<Rightarrow> nat \<Rightarrow> u64 result" where
  "u64_at buffer pos = and_then (slice_from buffer pos) u64_from_le_slice"

definition decode_iso8601 :: "'d date_ops \<Rightarrow> u32 \<Rightarrow> string + 'd" where
  "decode_iso8601 C raw_date =
     (let y = unat raw_date div 10000; remaining = unat raw_date mod 10000; raw_month = remaining div 100 in
      if raw_month < 1 \<or> 12 < raw_month
      then Inl ('' while parsing '' @ dec_nat (unat raw_date) @ '' into date'')
      else case from_calendar_date C (int y) raw_month (remaining mod 100) of
        Some d \<Rightarrow> Inr d
      | None \<Rightarrow> Inl (''couldn't convert '' @ dec_nat (unat raw_date) @ '' to a valid date: ''))"

definition decode_metadata_symbol :: "string \<Rightarrow> nat \<Rightarrow> bytes \<Rightarrow> nat \<Rightarrow> (string \<times> nat) result" where
  "decode_metadata_symbol context symbol_cstr_len buffer pos =
     and_then (slice buffer pos (pos + symbol_cstr_len)) (\<lambda>symbol_slice.
     and_then (from_utf8 context symbol_slice) (\<lambda>s.
       Ok (trim_end_nul s, pos + symbol_cstr_len)))"

fun decode_symbols_loop :: "nat \<Rightarrow> bytes \<Rightarrow> nat \<Rightarrow> nat \<Rightarrow> nat \<Rightarrow> (string list \<times> nat) result" where
  "decode_symbols_loop symbol_cstr_len buffer i 0 pos = Ok ([], pos)"
| "decode_symbols_loop symbol_cstr_len buffer i (Suc n) pos =
     and_then (decode_metadata_symbol (''decoding symbol at index '' @ dec_nat i) symbol_cstr_len buffer pos)
       (\<lambda>(s, pos). and_then (decode_symbols_loop symbol_cstr_len buffer (i + 1) n pos)
          (\<lambda>(ss, pos). Ok (s # ss, pos)))"

definition decode_metadata_repeated_symbol_cstr ::
  "nat \<Rightarrow> bytes \<Rightarrow> nat \<Rightarrow> (string list \<times> nat) result" where
  "decode_metadata_repeated_symbol_cstr symbol_cstr_len buffer pos =
     (if pos + 4 > length buffer then Err (Decode ''unexpected end of metadata buffer in symbol cstr'')
      else and_then (u32_at buffer pos) (\<lambda>raw_count.
        let count = unat raw_count; pos = pos + 4; read_size = count * symbol_cstr_len in
        if pos + read_size > length buffer
        then Err (Decode ''unexpected end of metadata buffer in symbol cstr'')
        else decode_symbols_loop symbol_cstr_len buffer 0 count pos))"

definition decode_interval ::
  "'d date_ops \<Rightarrow> nat \<Rightarrow> nat \<Rightarrow> nat \<Rightarrow> bytes \<Rightarrow> nat \<Rightarrow> ('d MappingInterval \<times> nat) result" where
  "decode_interval C symbol_cstr_len idx i buffer pos =
     (let place = dec_nat i @ '' within mapping at index '' @ dec_nat idx in
      and_then (u32_at buffer pos) (\<lambda>raw_start_date.
      let pos = pos + 4 in
      case decode_iso8601 C raw_start_date of
        Inl e \<Rightarrow> Err (Decode (e @ '' while parsing start date of mapping interval at index '' @ place))
      | Inr start \<Rightarrow>
      and_then (u32_at buffer pos) (\<lambda>raw_end_date.
      let pos = pos + 4 in
      case decode_iso8601 C raw_end_date of
        Inl e \<Rightarrow> Err (Decode (e @ '' while parsing end date of mapping interval at index '' @ place))
      | Inr end_d \<Rightarrow>
      and_then (decode_metadata_symbol (''parsing symbol for mapping interval at index '' @ place)
          symbol_cstr_len buffer pos) (\<lambda>(s, pos).
        Ok (\<lparr>start_date = start, end_date = end_d, symbol = s\<rparr>, pos)))))"

fun decode_intervals_loop ::
  "'d date_ops \<Rightarrow> nat \<Rightarrow> nat \<Rightarrow> bytes \<Rightarrow> nat \<Rightarrow> nat \<Rightarrow> nat \<Rightarrow> ('d MappingInterval list \<times> nat) result" where
  "decode_intervals_loop C symbol_cstr_len idx buffer i 0 pos = Ok ([], pos)"
| "decode_intervals_loop C symbol_cstr_len idx buffer i (Suc n) pos =
     and_then (decode_interval C symbol_cstr_len idx i buffer pos)
       (\<lambda>(interval, pos). and_then (decode_intervals_loop C symbol_cstr_len idx buffer (i + 1) n pos)
          (\<lambda>(rest, pos). Ok (interval # rest, pos)))"

definition decode_metadata_symbol_mapping ::
  "'d date_ops \<Rightarrow> nat \<Rightarrow> nat \<Rightarrow> bytes \<Rightarrow> nat \<Rightarrow> ('d SymbolMapping \<times> nat) result" where
  "decode_metadata_symbol_mapping C symbol_cstr_len idx buffer pos =
     (let min_symbol_mapping_encoded_len = symbol_cstr_len + 4;
          mapping_interval_encoded_len = 4 * 2 + symbol_cstr_len in
      if pos + min_symbol_mapping_encoded_len > length buffer
      then Err (Decode (''unexpected end of metadata buffer while parsing symbol mapping at index '' @ dec_nat idx))
      else and_then (decode_metadata_symbol ''parsing raw symbol'' symbol_cstr_len buffer pos) (\<lambda>(raw, pos).
        and_then (u32_at buffer pos) (\<lambda>raw_count.
        let interval_count = unat raw_count; pos = pos + 4;
            read_size = interval_count * mapping_interval_encoded_len in
        if pos + read_size > length buffer
        then Err (Decode (''symbol mapping at index '' @ dec_nat idx @ '' with `interval_count` '' @
               dec_nat interval_count @ '' doesn't match size of buffer which only contains space for '' @
               dec_nat ((length buffer - pos) div mapping_interval_encoded_len) @ '' intervals''))
        else and_then (decode_intervals_loop C symbol_cstr_len idx buffer 0 interval_count pos)
          (\<lambda>(ints, pos). Ok (\<lparr>raw_symbol = raw, intervals = ints\<rparr>, pos)))))"

fun decode_mappings_loop ::
  "'d date_ops \<Rightarrow> nat \<Rightarrow> bytes \<Rightarrow> nat \<Rightarrow> nat \<Rightarrow> nat \<Rightarrow> ('d SymbolMapping list \<times> nat) result" where
  "decode_mappings_loop C symbol_cstr_len buffer i 0 pos = Ok ([], pos)"
| "decode_mappings_loop C symbol_cstr_len buffer i (Suc n) pos =
     and_then (decode_metadata_symbol_mapping C symbol_cstr_len i buffer pos)
       (\<lambda>(m, pos). and_then (decode_mappings_loop C symbol_cstr_len buffer (i + 1) n pos)
          (\<lambda>(ms, pos). Ok (m # ms, pos)))"

definition decode_metadata_symbol_mappings ::
  "'d date_ops \<Rightarrow> nat \<Rightarrow> bytes \<Rightarrow> nat \<Rightarrow> ('d SymbolMapping list \<times> nat) result" where
  "decode_metadata_symbol_mappings C symbol_cstr_len buffer pos =
     (if pos + 4 > length buffer then Err (Decode ''unexpected end of metadata buffer in symbol mapping'')
      else and_then (u32_at buffer pos) (\<lambda>raw_count.
        decode_mappings_loop C symbol_cstr_len buffer 0 (unat raw_count) (pos + 4)))"

definition non_zero :: "u64 \<Rightarrow> u64 option" where
  "non_zero x = (if x = 0 then None else Some x)"

text \<open>The debug output of a slice of bytes, \<^verbatim>\<open>{:?}\<close>.\<close>

fun debug_elems :: "bytes \<Rightarrow> string" where
  "debug_elems [] = ''''"
| "debug_elems [b] = dec_nat (unat b)"
| "debug_elems (b # c # bs) = dec_nat (unat b) @ '', '' @ debug_elems (c # bs)"

definition debug_bytes :: "bytes \<Rightarrow> string" where
  "debug_bytes bs = ''['' @ debug_elems bs @ '']''"

definition decode_schema :: "u16 \<Rightarrow> Schema option result" where
  "decode_schema raw_schema =
     (if raw_schema = NULL_SCHEMA then Ok None
      else case schema_try_from raw_schema of
        Some s \<Rightarrow> Ok (Some s)
      | None \<Rightarrow> Err (Conversion (debug_bytes (put_u16 raw_schema)) ''dbn::enums::Schema''))"

definition decode_stype :: "u8 \<Rightarrow> SType result" where
  "decode_stype raw_stype = (case stype_try_from raw_stype of
        Some s \<Rightarrow> Ok s
      | None \<Rightarrow> Err (Conversion (dec_nat (unat raw_stype)) ''dbn::enums::SType''))"

definition decode_metadata_impl :: "'d date_ops \<Rightarrow> u8 \<Rightarrow> bytes \<Rightarrow> 'd Metadata result" where
  "decode_metadata_impl C input_version buffer =
     (let pos = 0 in
      and_then (slice buffer pos (pos + METADATA_DATASET_CSTR_LEN)) (\<lambda>raw_dataset.
      and_then (from_utf8 ''reading dataset from metadata'' raw_dataset) (\<lambda>padded_dataset.
      let dataset = trim_end_nul padded_dataset; pos = pos + METADATA_DATASET_CSTR_LEN in
      and_then (u16_at buffer pos) (\<lambda>raw_schema.
      and_then (decode_schema raw_schema) (\<lambda>schema.
      let pos = pos + 2 in
      and_then (u64_at buffer pos) (\<lambda>start.
      let pos = pos + 8 in
      and_then (u64_at buffer pos) (\<lambda>end_ts.
      let pos = pos + 8 in
      and_then (u64_at buffer pos) (\<lambda>raw_limit.
      let limit = non_zero raw_limit; pos = pos + 8;
          pos = (if input_version = 1 then pos + 8 else pos) in
      and_then (index buffer pos) (\<lambda>raw_stype_in.
      and_then (if raw_stype_in = NULL_STYPE then Ok None
                else and_then (decode_stype raw_stype_in) (\<lambda>s. Ok (Some s))) (\<lambda>stype_in.
      let pos = pos + 1 in
      and_then (index buffer pos) (\<lambda>raw_stype_out.
      and_then (decode_stype raw_stype_out) (\<lambda>stype_out.
      let pos = pos + 1 in
      and_then (index buffer pos) (\<lambda>raw_ts_out.
      let ts_out = (raw_ts_out \<noteq> 0); pos = pos + 1 in
      and_then (if input_version = 1 then Ok (SYMBOL_CSTR_LEN_V1, pos)
                else and_then (u16_at buffer pos) (\<lambda>res. Ok (unat res, pos + 2))) (\<lambda>(symbol_cstr_len, pos).
      let pos = pos + (if input_version = 1 then METADATA_RESERVED_LEN_V1 else METADATA_RESERVED_LEN) in
      and_then (u32_at buffer pos) (\<lambda>schema_definition_length.
      if schema_definition_length \<noteq> 0
      then Err (Decode ''this version of dbn can't parse schema definitions'')
      else let pos = pos + 4 + unat schema_definition_length in
      and_then (decode_metadata_repeated_symbol_cstr symbol_cstr_len buffer pos) (\<lambda>(symbols, pos).
      and_then (decode_metadata_repeated_symbol_cstr symbol_cstr_len buffer pos) (\<lambda>(partial, pos).
      and_then (decode_metadata_repeated_symbol_cstr symbol_cstr_len buffer pos) (\<lambda>(not_found, pos).
      and_then (decode_metadata_symbol_mappings C symbol_cstr_len buffer pos) (\<lambda>(mappings, pos).
      Ok \<lparr>md_version = input_version, md_dataset = dataset, md_schema = schema, md_start = start,
          md_end = (if end_ts = UNDEF_TIMESTAMP then None else non_zero end_ts), md_limit = limit,
          md_stype_in = stype_in, md_stype_out = stype_out, md_ts_out = ts_out,
          md_symbol_cstr_len = symbol_cstr_len, md_symbols = symbols, md_partial = partial,
          md_not_found = not_found, md_mappings = mappings\<rparr>)))))))))))))))))))"

section \<open>Reading back what was written\<close>


text \<open>
  \<open>at buffer pos bs\<close>: the bytes \<open>bs\<close> lie at \<open>pos\<close> in the buffer.
\<close>

definition at :: "bytes \<Rightarrow> nat \<Rightarrow> bytes \<Rightarrow> bool" where
  "at buffer pos bs \<longleftrightarrow> pos \<le> length buffer \<and> take (length bs) (drop pos buffer) = bs"

lemma atE:
  assumes "at buffer pos bs"
  obtains pre post where "buffer = pre @ bs @ post" and "length pre = pos"
proof
  show "buffer = take pos buffer @ bs @ drop (length bs) (drop pos buffer)"
    using assms by (metis append_take_drop_id at_def)
  show "length (take pos buffer) = pos" using assms by (simp add: at_def)
qed

lemma at_append: "at buffer pos (xs @ ys) \<longleftrightarrow> at buffer pos xs \<and> at buffer (pos + length xs) ys"
proof
  assume "at buffer pos (xs @ ys)"
  then obtain pre post where "buffer = pre @ (xs @ ys) @ post" "length pre = pos" by (rule atE)
  then show "at buffer pos xs \<and> at buffer (pos + length xs) ys" by (auto simp: at_def)
next
  assume a: "at buffer pos xs \<and> at buffer (pos + length xs) ys"
  then have "take (length xs + length ys) (drop pos buffer) = xs @ ys"
    unfolding take_add by (simp add: at_def add.commute)
  with a show "at buffer pos (xs @ ys)" by (simp add: at_def)
qed

lemma at_length: "at buffer pos bs \<Longrightarrow> pos + length bs \<le> length buffer"
  by (erule atE) auto

lemma at_reads:
  "at buffer pos (put_u16 a) \<Longrightarrow> u16_at buffer pos = Ok a"
  "at buffer pos (put_u32 b) \<Longrightarrow> u32_at buffer pos = Ok b"
  "at buffer pos (put_u64 c) \<Longrightarrow> u64_at buffer pos = Ok c"
  "at buffer pos [x] \<Longrightarrow> index buffer pos = Ok x"
  "at buffer pos bs \<Longrightarrow> p = pos + length bs \<Longrightarrow> slice buffer pos p = Ok bs"
  by (auto elim!: atE simp: u16_at_def u32_at_def u64_at_def index_def slice_def slice_from_def
      u16_from_le_slice_def u32_from_le_slice_def u64_from_le_slice_def)

lemma at_Cons: "xs \<noteq> [] \<Longrightarrow> at buffer pos (x # xs) \<longleftrightarrow> at buffer pos [x] \<and> at buffer (Suc pos) xs"
  using at_append [of buffer pos "[x]" xs] by simp

lemma at_0_append [simp]: "at (bs @ post) 0 bs"
  by (simp add: at_def)

section \<open>Metadata that reads back\<close>

definition no_trailing_nul :: "string \<Rightarrow> bool" where
  "no_trailing_nul s \<longleftrightarrow> s = [] \<or> last s \<noteq> CHR 0x00"

definition text_ok :: "nat \<Rightarrow> string \<Rightarrow> bool" where
  "text_ok n s \<longleftrightarrow> cstr_fits n s \<and> no_trailing_nul s"

definition texts_ok :: "nat \<Rightarrow> string list \<Rightarrow> bool" where
  "texts_ok n ss \<longleftrightarrow> list_all (text_ok n) ss \<and> length ss < 2 ^ 32"

definition interval_ok :: "'d date_ops \<Rightarrow> nat \<Rightarrow> 'd MappingInterval \<Rightarrow> bool" where
  "interval_ok C n i \<longleftrightarrow> 0 \<le> year C (start_date i) \<and> 0 \<le> year C (end_date i) \<and> text_ok n (symbol i)"

definition mapping_ok :: "'d date_ops \<Rightarrow> nat \<Rightarrow> 'd SymbolMapping \<Rightarrow> bool" where
  "mapping_ok C n sm \<longleftrightarrow>
     text_ok n (raw_symbol sm) \<and> list_all (interval_ok C n) (intervals sm) \<and> length (intervals sm) < 2 ^ 32"

definition metadata_ok :: "'d date_ops \<Rightarrow> 'd Metadata \<Rightarrow> bool" where
  "metadata_ok C m \<longleftrightarrow>
     1 \<le> md_version m \<and> md_version m \<le> DBN_VERSION \<and>
     text_ok METADATA_DATASET_CSTR_LEN (md_dataset m) \<and>
     md_end m \<noteq> Some 0 \<and> md_end m \<noteq> Some UNDEF_TIMESTAMP \<and> md_limit m \<noteq> Some 0 \<and>
     (md_version m = 1 \<longrightarrow> md_symbol_cstr_len m = SYMBOL_CSTR_LEN_V1) \<and> md_symbol_cstr_len m < 2 ^ 16 \<and>
     texts_ok (md_symbol_cstr_len m) (md_symbols m) \<and> texts_ok (md_symbol_cstr_len m) (md_partial m) \<and>
     texts_ok (md_symbol_cstr_len m) (md_not_found m) \<and>
     list_all (mapping_ok C (md_symbol_cstr_len m)) (md_mappings m) \<and> length (md_mappings m) < 2 ^ 32"

section \<open>Round trip\<close>

lemmas layout_lens =
  METADATA_DATASET_CSTR_LEN_def METADATA_RESERVED_LEN_V1_def METADATA_RESERVED_LEN_def

lemma utf8_valid_nuls: "utf8_valid (replicate n 0)"
  by (induction n) auto

lemma decode_cstr_text:
  assumes "text_ok n s"
  shows "utf8_valid (cstr_bytes n s) \<and> trim_end_nul (of_bytes (cstr_bytes n s)) = s"
  using assms by (simp add: text_ok_def cstr_fits_def cstr_bytes_def is_ascii_bytes
      utf8_valid_ascii_append utf8_valid_nuls no_trailing_nul_def trim_end_nul_pad)

lemma decode_metadata_symbol_at:
  assumes "text_ok n s" and "at buffer pos (cstr_bytes n s)"
  shows "decode_metadata_symbol c n buffer pos = Ok (s, pos + n)"
proof -
  have "length (cstr_bytes n s) = n"
    using assms(1) by (simp add: length_cstr_bytes text_ok_def cstr_fits_def)
  then show ?thesis
    using decode_cstr_text [OF assms(1)] at_reads(5) [OF assms(2), of "pos + n"]
    by (simp add: decode_metadata_symbol_def from_utf8_def)
qed

lemma length_text_bytes [simp]: "text_ok n s \<Longrightarrow> length (cstr_bytes n s) = n"
  by (simp add: length_cstr_bytes text_ok_def cstr_fits_def)

lemma decode_symbols_loop_at:
  assumes "list_all (text_ok n) ss" and "at buffer pos (concat (map (cstr_bytes n) ss))"
  shows "decode_symbols_loop n buffer i (length ss) pos = Ok (ss, pos + length ss * n)"
  using assms
proof (induction ss arbitrary: i pos)
  case (Cons s ss)
  then show ?case
    using decode_metadata_symbol_at [of n s buffer pos] by (simp add: at_append add.assoc)
qed simp

lemma unat_count: "k < 2 ^ 32 \<Longrightarrow> unat (word_of_nat k :: u32) = k"
  by (simp add: unat_of_nat)

lemma decode_symbols_at:
  assumes "texts_ok n ss" and "at buffer pos (symbols_bytes n ss)"
  shows "decode_metadata_repeated_symbol_cstr n buffer pos = Ok (ss, pos + length (symbols_bytes n ss))"
proof -
  have len: "length (symbols_bytes n ss) = 4 + length ss * n"
    using assms(1) by (intro length_symbols_bytes) (auto simp: texts_ok_def text_ok_def list_all_iff)
  have "at buffer pos (put_u32 (word_of_nat (length ss)))"
    "at buffer (pos + 4) (concat (map (cstr_bytes n) ss))"
    using assms(2) by (simp_all add: symbols_bytes_def at_append)
  then show ?thesis
    using assms(1) at_length [OF assms(2)]
    by (simp add: decode_metadata_repeated_symbol_cstr_def at_reads(2) unat_count texts_ok_def len
        decode_symbols_loop_at add.assoc)
qed

context calendar
begin

lemma decode_iso8601_date:
  assumes "0 \<le> year C d"
  shows "decode_iso8601 C (word_of_int (year C d) * 10000 + word_of_nat (month C d) * 100 +
    word_of_nat (day C d)) = Inr d"
proof -
  define y where "y = nat (year C d)"
  have y: "year C d = int y" "y \<le> 9999"
    using assms year_range [of d] by (simp_all add: y_def)
  have "(word_of_int (year C d) * 10000 + word_of_nat (month C d) * 100 + word_of_nat (day C d) :: u32) =
      word_of_nat (y * 10000 + month C d * 100 + day C d)"
    by (simp add: y)
  moreover have "unat (word_of_nat (y * 10000 + month C d * 100 + day C d) :: u32) =
      y * 10000 + (month C d * 100 + day C d)"
    using y month_range [of d] day_range [of d]
    by (subst unat_of_nat) (simp del: of_nat_add of_nat_mult)
  moreover have "month C d * 100 + day C d < 10000" "(month C d * 100 + day C d) div 100 = month C d"
    "(month C d * 100 + day C d) mod 100 = day C d"
    using month_range [of d] day_range [of d] by simp_all
  ultimately show ?thesis
    using from_to [of d] month_range [of d] y by (simp add: decode_iso8601_def Let_def)
qed

lemma decode_interval_at:
  assumes "interval_ok C n i" and "at buffer pos (interval_bytes C n i)"
  shows "decode_interval C n idx k buffer pos = Ok (i, pos + (8 + n))"
proof -
  have "at buffer pos (date_bytes C (start_date i))" "at buffer (pos + 4) (date_bytes C (end_date i))"
    "at buffer (pos + 4 + 4) (cstr_bytes n (symbol i))"
    using assms(2) by (simp_all add: interval_bytes_def at_append)
  moreover have "text_ok n (symbol i)" "0 \<le> year C (start_date i)" "0 \<le> year C (end_date i)"
    using assms(1) by (simp_all add: interval_ok_def)
  ultimately show ?thesis
    using decode_metadata_symbol_at [of n "symbol i" buffer "pos + 4 + 4"]
    by (simp add: decode_interval_def Let_def date_bytes_def at_reads(2) decode_iso8601_date)
qed

lemma decode_intervals_loop_at:
  assumes "list_all (interval_ok C n) is" and "at buffer pos (concat (map (interval_bytes C n) is))"
  shows "decode_intervals_loop C n idx buffer k (length is) pos = Ok (is, pos + length is * (8 + n))"
  using assms
proof (induction "is" arbitrary: k pos)
  case (Cons i "is")
  then have "length (interval_bytes C n i) = 8 + n"
    by (simp add: interval_ok_def text_ok_def length_interval_bytes)
  with Cons show ?case
    using decode_interval_at [of n i buffer pos] by (simp add: at_append add.assoc)
qed simp

lemma mapping_ok_fits: "mapping_ok C n sm \<Longrightarrow> mapping_fits n sm"
  by (auto simp: mapping_ok_def mapping_fits_def list_all_iff interval_ok_def text_ok_def)

lemma decode_mapping_at:
  assumes "mapping_ok C n sm" and "at buffer pos (mapping_bytes C n sm)"
  shows "decode_metadata_symbol_mapping C n idx buffer pos = Ok (sm, pos + length (mapping_bytes C n sm))"
proof -
  have len: "length (mapping_bytes C n sm) = n + 4 + length (intervals sm) * (8 + n)"
    using assms(1) by (intro length_mapping_bytes mapping_ok_fits)
  have ok: "text_ok n (raw_symbol sm)" "list_all (interval_ok C n) (intervals sm)"
    "length (intervals sm) < 2 ^ 32"
    using assms(1) by (simp_all add: mapping_ok_def)
  have "at buffer pos (cstr_bytes n (raw_symbol sm))"
    "at buffer (pos + n) (put_u32 (word_of_nat (length (intervals sm))))"
    "at buffer (pos + n + 4) (concat (map (interval_bytes C n) (intervals sm)))"
    using assms(2) ok(1) by (simp_all add: mapping_bytes_def at_append)
  then show ?thesis
    using ok at_length [OF assms(2)] decode_metadata_symbol_at [of n "raw_symbol sm" buffer pos]
      decode_intervals_loop_at [of n "intervals sm" buffer "pos + n + 4"]
    by (simp add: decode_metadata_symbol_mapping_def Let_def at_reads(2) unat_count len add.assoc)
qed

lemma decode_mappings_loop_at:
  assumes "list_all (mapping_ok C n) ms" and "at buffer pos (concat (map (mapping_bytes C n) ms))"
  shows "decode_mappings_loop C n buffer k (length ms) pos =
    Ok (ms, pos + length (concat (map (mapping_bytes C n) ms)))"
  using assms
proof (induction ms arbitrary: k pos)
  case (Cons m ms)
  then show ?case
    using decode_mapping_at [of n m buffer pos] by (simp add: at_append add.assoc)
qed simp

lemma decode_mappings_at:
  assumes "list_all (mapping_ok C n) ms" and "length ms < 2 ^ 32" and "at buffer pos (mappings_bytes C n ms)"
  shows "decode_metadata_symbol_mappings C n buffer pos = Ok (ms, pos + length (mappings_bytes C n ms))"
proof -
  have "at buffer pos (put_u32 (word_of_nat (length ms)))"
    "at buffer (pos + 4) (concat (map (mapping_bytes C n) ms))"
    using assms(3) by (simp_all add: mappings_bytes_def at_append)
  then show ?thesis
    using assms(1,2) at_length [OF assms(3)] decode_mappings_loop_at [of n ms buffer "pos + 4"]
    by (simp add: decode_metadata_symbol_mappings_def at_reads(2) unat_count mappings_bytes_def add.assoc)
qed

lemma metadata_ok_parts:
  assumes "metadata_ok C m"
  shows "non_zero (case md_limit m of Some l \<Rightarrow> l | None \<Rightarrow> NULL_LIMIT) = md_limit m"
    and "(let e = (case md_end m of Some e \<Rightarrow> e | None \<Rightarrow> UNDEF_TIMESTAMP)
          in if e = UNDEF_TIMESTAMP then None else non_zero e) = md_end m"
    and "decode_schema (case md_schema m of Some s \<Rightarrow> schema_as_u16 s | None \<Rightarrow> NULL_SCHEMA) = Ok (md_schema m)"
    and "decode_stype (stype_as_u8 s) = Ok s"
    and "stype_as_u8 s \<noteq> NULL_STYPE"
proof -
  have "schema_as_u16 sc \<noteq> NULL_SCHEMA" for sc
    by (cases sc) (simp_all add: NULL_SCHEMA_def)
  then show "decode_schema (case md_schema m of Some s \<Rightarrow> schema_as_u16 s | None \<Rightarrow> NULL_SCHEMA) = Ok (md_schema m)"
    using schema_try_from_iff [of "schema_as_u16 s" s for s] by (auto simp: decode_schema_def split: option.splits)
  show "decode_stype (stype_as_u8 s) = Ok s"
    using stype_try_from_iff [of "stype_as_u8 s" s] by (simp add: decode_stype_def)
  show "stype_as_u8 s \<noteq> NULL_STYPE"
    by (cases s) (simp_all add: NULL_STYPE_def)
qed (use assms in \<open>auto simp: metadata_ok_def non_zero_def NULL_LIMIT_def split: option.splits\<close>)

lemma decode_fixed_dataset:
  assumes "metadata_ok C m"
  shows "from_utf8 c (cstr_bytes METADATA_DATASET_CSTR_LEN (md_dataset m)) =
      Ok (of_bytes (cstr_bytes METADATA_DATASET_CSTR_LEN (md_dataset m)))"
    and "trim_end_nul (of_bytes (cstr_bytes METADATA_DATASET_CSTR_LEN (md_dataset m))) = md_dataset m"
    and "length (cstr_bytes METADATA_DATASET_CSTR_LEN (md_dataset m)) = METADATA_DATASET_CSTR_LEN"
  using assms decode_cstr_text [of METADATA_DATASET_CSTR_LEN "md_dataset m"]
  by (simp_all add: metadata_ok_def from_utf8_def)

text \<open>What remains to be done once the fixed part of the metadata \<open>m\<close> has been read.\<close>

definition decode_tail :: "'d Metadata \<Rightarrow> bytes \<Rightarrow> u32 \<Rightarrow> 'd Metadata result" where
  "decode_tail m buffer schema_definition_length =
     (if schema_definition_length \<noteq> 0
      then Err (Decode ''this version of dbn can't parse schema definitions'')
      else
      and_then (decode_metadata_repeated_symbol_cstr (md_symbol_cstr_len m) buffer
        (104 + unat schema_definition_length)) (\<lambda>(symbols, pos).
      and_then (decode_metadata_repeated_symbol_cstr (md_symbol_cstr_len m) buffer pos) (\<lambda>(partial, pos).
      and_then (decode_metadata_repeated_symbol_cstr (md_symbol_cstr_len m) buffer pos) (\<lambda>(not_found, pos).
      and_then (decode_metadata_symbol_mappings C (md_symbol_cstr_len m) buffer pos) (\<lambda>(mappings, pos).
      Ok (m\<lparr>md_symbols := symbols, md_partial := partial, md_not_found := not_found,
            md_mappings := mappings\<rparr>))))))"

lemma metadata_lists_update:
  "m\<lparr>md_symbols := a, md_partial := b, md_not_found := c, md_mappings := d\<rparr> =
   \<lparr>md_version = md_version m, md_dataset = md_dataset m, md_schema = md_schema m, md_start = md_start m,
    md_end = md_end m, md_limit = md_limit m, md_stype_in = md_stype_in m, md_stype_out = md_stype_out m,
    md_ts_out = md_ts_out m, md_symbol_cstr_len = md_symbol_cstr_len m, md_symbols = a, md_partial = b,
    md_not_found = c, md_mappings = d\<rparr>"
  for m :: "'x Metadata"
  by (cases m) simp

lemma decode_metadata_fixed_at:
  assumes ok: "metadata_ok C m" and at: "at buffer 0 (fixed_bytes m)"
  shows "decode_metadata_impl C (md_version m) buffer = and_then (u32_at buffer 100) (decode_tail m buffer)"
proof -
  let ?n = "md_symbol_cstr_len m"
  have v: "md_version m \<noteq> 1 \<Longrightarrow> 1 < md_version m"
    using ok by (auto simp: metadata_ok_def)
  note dataset = decode_fixed_dataset [OF ok] and parts = metadata_ok_parts [OF ok]
  note dataset16 = dataset [unfolded METADATA_DATASET_CSTR_LEN_def]
  define si where "si = (case md_stype_in m of Some s \<Rightarrow> stype_as_u8 s | None \<Rightarrow> NULL_STYPE)"
  define t where "t = (if md_ts_out m then 1 else 0 :: u8)"
  define e where "e = (case md_end m of Some e \<Rightarrow> e | None \<Rightarrow> UNDEF_TIMESTAMP)"
  define l where "l = (case md_limit m of Some l \<Rightarrow> l | None \<Rightarrow> NULL_LIMIT)"
  note fixed_eq = fixed_bytes_def [of m, unfolded range_bytes_def, folded si_def t_def e_def l_def]
  have head: "at buffer 0 (cstr_bytes 16 (md_dataset m))"
    "at buffer 16 (put_u16 (case md_schema m of Some s \<Rightarrow> schema_as_u16 s | None \<Rightarrow> NULL_SCHEMA))"
    "at buffer 18 (put_u64 (md_start m))"
    "at buffer 26 (put_u64 e)" "at buffer 34 (put_u64 l)"
    using at by (simp_all add: fixed_eq at_append dataset16 layout_lens)
  have slice16: "slice buffer 0 16 = Ok (cstr_bytes 16 (md_dataset m))"
    by (rule at_reads(5) [OF head(1)]) (simp add: dataset16)
  have si: "(if si = NULL_STYPE then Ok None else and_then (decode_stype si) (\<lambda>s. Ok (Some s))) =
      Ok (md_stype_in m)"
    by (simp add: si_def parts(4,5) split: option.splits)
  have t: "t \<noteq> 0 \<longleftrightarrow> md_ts_out m" by (simp add: t_def)
  note read_head = slice16 dataset16 at_reads(1) [OF head(2)] at_reads(3) [OF head(3)]
    at_reads(3) [OF head(4)] at_reads(3) [OF head(5)] parts(1) [folded l_def]
    parts(2) [unfolded Let_def, folded e_def] parts(3,4) si t
  show ?thesis
  proof (cases "md_version m = 1")
    case True
    then have n: "?n = SYMBOL_CSTR_LEN_V1" using ok by (simp add: metadata_ok_def)
    have reads: "at buffer 50 [si]" "at buffer 51 [stype_as_u8 (md_stype_out m)]" "at buffer 52 [t]"
      using at True by (simp_all add: fixed_eq at_append dataset16 layout_lens at_Cons)
    show ?thesis
      using n True
      by (simp add: decode_metadata_impl_def layout_lens read_head Let_def
          at_reads(4) [OF reads(1)] at_reads(4) [OF reads(2)] at_reads(4) [OF reads(3)] decode_tail_def
          metadata_lists_update cong: if_cong and_then_cong)
  next
    case False
    then have n: "unat (word_of_nat ?n :: u16) = ?n" using ok by (simp add: metadata_ok_def unat_of_nat)
    have reads: "at buffer 42 [si]" "at buffer 43 [stype_as_u8 (md_stype_out m)]" "at buffer 44 [t]"
      "at buffer 45 (put_u16 (word_of_nat ?n))"
      using at False v by (simp_all add: fixed_eq at_append dataset16 layout_lens at_Cons)
    show ?thesis
      using n False
      by (simp add: decode_metadata_impl_def layout_lens read_head Let_def
          at_reads(4) [OF reads(1)] at_reads(4) [OF reads(2)] at_reads(4) [OF reads(3)]
          at_reads(1) [OF reads(4)] decode_tail_def metadata_lists_update cong: if_cong and_then_cong)
  qed
qed

lemma metadata_ok_fixed_length: "metadata_ok C m \<Longrightarrow> length (fixed_bytes m) = 100"
  using length_fixed_bytes [of m]
  by (simp add: metadata_ok_def text_ok_def cstr_fits_def METADATA_DATASET_CSTR_LEN_def METADATA_FIXED_LEN_def)

lemma decode_metadata_impl_at:
  assumes ok: "metadata_ok C m" and at: "at buffer 0 (body_bytes C m)"
  shows "decode_metadata_impl C (md_version m) buffer = Ok m"
proof -
  let ?n = "md_symbol_cstr_len m"
  let ?p1 = "104 + length (symbols_bytes ?n (md_symbols m))"
  let ?p2 = "?p1 + length (symbols_bytes ?n (md_partial m))"
  let ?p3 = "?p2 + length (symbols_bytes ?n (md_not_found m))"
  from at have ats: "at buffer 0 (fixed_bytes m)" "at buffer 100 (put_u32 0)"
    "at buffer 104 (symbols_bytes ?n (md_symbols m))" "at buffer ?p1 (symbols_bytes ?n (md_partial m))"
    "at buffer ?p2 (symbols_bytes ?n (md_not_found m))" "at buffer ?p3 (mappings_bytes C ?n (md_mappings m))"
    by (simp_all add: body_bytes_def at_append metadata_ok_fixed_length [OF ok])
  have "decode_metadata_repeated_symbol_cstr ?n buffer 104 = Ok (md_symbols m, ?p1)"
    "decode_metadata_repeated_symbol_cstr ?n buffer ?p1 = Ok (md_partial m, ?p2)"
    "decode_metadata_repeated_symbol_cstr ?n buffer ?p2 = Ok (md_not_found m, ?p3)"
    "decode_metadata_symbol_mappings C ?n buffer ?p3 =
       Ok (md_mappings m, ?p3 + length (mappings_bytes C ?n (md_mappings m)))"
    using ok by (simp_all add: decode_symbols_at ats decode_mappings_at metadata_ok_def)
  then show ?thesis
    by (simp add: decode_metadata_fixed_at [OF ok ats(1)] at_reads(2) [OF ats(2)] decode_tail_def)
qed

end

section \<open>No panic\<close>

lemma no_panic_reads:
  "pos + 2 \<le> length buffer \<Longrightarrow> no_panic (u16_at buffer pos)"
  "pos + 4 \<le> length buffer \<Longrightarrow> no_panic (u32_at buffer pos)"
  "pos + 8 \<le> length buffer \<Longrightarrow> no_panic (u64_at buffer pos)"
  "pos < length buffer \<Longrightarrow> no_panic (index buffer pos)"
  "a \<le> b \<Longrightarrow> b \<le> length buffer \<Longrightarrow> no_panic (slice buffer a b)"
  by (simp_all add: u16_at_def u32_at_def u64_at_def slice_from_def index_def slice_def
      u16_from_le_slice_def u32_from_le_slice_def u64_from_le_slice_def)

lemma no_panic_from_utf8 [simp]: "no_panic (from_utf8 c bs)"
  by (simp add: from_utf8_def)

lemma no_panic_enums [simp]: "no_panic (decode_schema x)" "no_panic (decode_stype y)"
  by (auto simp: decode_schema_def decode_stype_def split: option.splits)

lemma no_panic_symbol:
  "pos + n \<le> length buffer \<Longrightarrow> no_panic (decode_metadata_symbol c n buffer pos)"
  unfolding decode_metadata_symbol_def by (intro no_panic_and_then no_panic_reads) simp_all

lemma decode_metadata_symbol_pos:
  "decode_metadata_symbol c n buffer pos = Ok (s, pos') \<Longrightarrow> pos' = pos + n"
  by (auto simp: decode_metadata_symbol_def and_then_eq_Ok)

lemma no_panic_symbols_loop:
  "pos + k * n \<le> length buffer \<Longrightarrow> no_panic (decode_symbols_loop n buffer i k pos)"
  by (induction n buffer i k pos rule: decode_symbols_loop.induct)
    (auto intro!: no_panic_and_then no_panic_symbol dest!: decode_metadata_symbol_pos)

lemma no_panic_symbols: "no_panic (decode_metadata_repeated_symbol_cstr n buffer pos)"
  unfolding decode_metadata_repeated_symbol_cstr_def
  by (auto simp: Let_def intro!: no_panic_and_then no_panic_reads no_panic_symbols_loop)

lemma no_panic_interval:
  "pos + (8 + n) \<le> length buffer \<Longrightarrow> no_panic (decode_interval C n idx i buffer pos)"
  unfolding decode_interval_def
  by (auto simp: Let_def intro!: no_panic_and_then no_panic_reads no_panic_symbol split: sum.split)

lemma case_sum_eq_Ok:
  "(case s of Inl e \<Rightarrow> Err (f e) | Inr x \<Rightarrow> g x) = Ok y \<longleftrightarrow> (\<exists>x. s = Inr x \<and> g x = Ok y)"
  by (cases s) auto

lemma decode_interval_pos:
  "decode_interval C n idx i buffer pos = Ok (x, pos') \<Longrightarrow> pos' = pos + (8 + n)"
  by (auto simp: decode_interval_def Let_def and_then_eq_Ok case_sum_eq_Ok
      dest!: decode_metadata_symbol_pos)

lemma no_panic_intervals_loop:
  "pos + k * (8 + n) \<le> length buffer \<Longrightarrow> no_panic (decode_intervals_loop C n idx buffer i k pos)"
  by (induction C n idx buffer i k pos rule: decode_intervals_loop.induct)
    (auto intro!: no_panic_and_then no_panic_interval dest!: decode_interval_pos)

lemma no_panic_mapping: "no_panic (decode_metadata_symbol_mapping C n idx buffer pos)"
  unfolding decode_metadata_symbol_mapping_def
  by (auto simp: Let_def intro!: no_panic_and_then no_panic_reads no_panic_symbol no_panic_intervals_loop
      dest!: decode_metadata_symbol_pos)

lemma no_panic_mappings_loop: "no_panic (decode_mappings_loop C n buffer i k pos)"
  by (induction C n buffer i k pos rule: decode_mappings_loop.induct)
    (auto intro!: no_panic_and_then no_panic_mapping)

lemma no_panic_mappings: "no_panic (decode_metadata_symbol_mappings C n buffer pos)"
  unfolding decode_metadata_symbol_mappings_def
  by (auto intro!: no_panic_and_then no_panic_reads no_panic_mappings_loop)

section \<open>Properties\<close>

text \<open>
  C5. Metadata survives a round trip: what the encoder writes for well-formed metadata, the
  decoder reads back as the same metadata, whatever bytes follow the header.
\<close>

theorem metadata_roundtrip:
  assumes "calendar C" and "metadata_ok C m"
  shows "\<exists>bs. metadata_encode C vec_writer m [] = (bs, Ok ()) \<and>
    decode_metadata_impl C (md_version m) (drop 8 bs @ rest) = Ok m"
proof (intro exI conjI)
  have "encodable m"
    using assms(2) calendar.mapping_ok_fits [OF assms(1)]
    by (auto simp: metadata_ok_def encodable_def texts_ok_def text_ok_def list_all_iff)
  then show "metadata_encode C vec_writer m [] = (metadata_bytes C m, Ok ())"
    using vec_encodes_result [OF vec.encodes_metadata, of m C "[]"] by simp
  have "drop 8 (metadata_bytes C m) @ rest = body_bytes C m @ (replicate (unat (snd (calc_length m))) 0 @ rest)"
    by (simp add: metadata_bytes_def)
  then show "decode_metadata_impl C (md_version m) (drop 8 (metadata_bytes C m) @ rest) = Ok m"
    using calendar.decode_metadata_impl_at [OF assms] by simp
qed

lemma sample_metadata_ok: "v \<in> {1, 2, 3} \<Longrightarrow> metadata_ok gregorian (sample_metadata v)"
  by (auto simp: metadata_ok_def sample_metadata_simps DBN_VERSION_def text_ok_def texts_ok_def cstr_fits_def
      mapping_ok_def interval_ok_def is_ascii_def METADATA_DATASET_CSTR_LEN_def no_trailing_nul_def
      gregorian_parts valid_ymd_def days_in_month_def)

theorem metadata_roundtrip_witness:
  "\<exists>bs. metadata_encode gregorian vec_writer (sample_metadata 1) [] = (bs, Ok ()) \<and>
    decode_metadata_impl gregorian 1 (drop 8 bs @ [0x14, 0xFF]) = Ok (sample_metadata 1)"
proof -
  have "md_version (sample_metadata 1) = 1" by (simp add: sample_metadata_simps)
  then show ?thesis
    using metadata_roundtrip [OF gregorian.calendar_axioms sample_metadata_ok [of 1], of "[0x14, 0xFF]"] by simp
qed

text \<open>
  C28. Decoding a metadata body of at least 104 bytes never panics: whatever the bytes, the
  decoder returns metadata or an error.
\<close>

theorem metadata_decode_no_panic:
  assumes "104 \<le> length buffer"
  shows "no_panic (decode_metadata_impl C v buffer)"
  unfolding decode_metadata_impl_def Let_def layout_lens using assms
  by (auto simp: and_then_eq_Ok intro!: no_panic_and_then no_panic_reads no_panic_symbols no_panic_mappings
      split: prod.splits)

theorem metadata_decode_no_panic_witness:
  "no_panic (decode_metadata_impl gregorian 3 (replicate 104 0xFF))"
  using metadata_decode_no_panic [of "replicate 104 0xFF" gregorian 3] by simp

text \<open>
  The prelude accepts a metadata length of 100, but the body needs 104 bytes: decoding a
  body that holds only the fixed part, with up to three more bytes, panics.
\<close>

theorem metadata_decode_truncated_panics:
  assumes "calendar C" and "metadata_ok C m" and "length rest < 4"
  shows "\<not> no_panic (decode_metadata_impl C (md_version m) (fixed_bytes m @ rest))"
proof -
  have "length (fixed_bytes m) = 100"
    using assms by (simp add: calendar.metadata_ok_fixed_length)
  then have "u32_at (fixed_bytes m @ rest) 100 = Panic ''mid > len''"
    using assms(3) by (simp add: u32_at_def slice_from_def u32_from_le_slice_def)
  then show ?thesis
    using calendar.decode_metadata_fixed_at [OF assms(1,2), of "fixed_bytes m @ rest"] by simp
qed

theorem metadata_decode_truncated_panics_witness:
  "\<not> no_panic (decode_metadata_impl gregorian (md_version (sample_metadata 3))
     (fixed_bytes (sample_metadata 3) @ [0, 0, 0]))"
  using metadata_decode_truncated_panics [OF gregorian.calendar_axioms sample_metadata_ok [of 3], of "[0, 0, 0]"]
  by simp

end
