(* ===== verification/Metadata_Merge.thy ===== *)
theory Metadata_Merge
  imports Gregorian "HOL-Library.Char_ord" "HOL-Library.List_Lexorder"
begin

text \<open>
  Merging of metadata, rust/dbn/src/metadata/merge.rs, and \<^verbatim>\<open>Metadata::merge\<close> of
  rust/dbn/src/metadata.rs. The merger collects symbols in hash sets and mappings in a hash
  map. A hash set is the list of its elements without duplicates, a hash map the list of its
  entries with distinct keys. The order in which hash containers are iterated is unspecified:
  \<open>finalize\<close> takes, for each container, a function \<open>ord\<close> from a set to one of its
  enumerations, and the theorems hold for every such function.

  What merging promises is stated on the relation between dates and symbols that a list of
  intervals denotes, \<open>covers\<close>.
\<close>

section \<open>Definitions\<close>

record 'd MetadataMerger =
  mm_version :: u8
  mm_dataset :: string
  mm_schema :: "Schema option"
  mm_start :: u64
  mm_end :: "u64 option"
  mm_limit :: "u64 option"
  mm_stype_in :: "SType option"
  mm_stype_out :: SType
  mm_ts_out :: bool
  mm_symbol_cstr_len :: nat
  mm_symbols :: "string set"
  mm_partial :: "string set"
  mm_not_found :: "string set"
  mm_mappings :: "(string \<times> 'd MappingInterval list) list"

text \<open>\<^verbatim>\<open>HashMap::insert\<close>, with \<^verbatim>\<open>HashMap::get_mut\<close> as \<open>map_of\<close>.\<close>

fun insert_entry :: "'k \<Rightarrow> 'v \<Rightarrow> ('k \<times> 'v) list \<Rightarrow> ('k \<times> 'v) list" where
  "insert_entry k v [] = [(k, v)]"
| "insert_entry k v ((k', v') # es) = (if k' = k then (k, v) # es else (k', v') # insert_entry k v es)"

definition merger_new :: "'d Metadata \<Rightarrow> 'd MetadataMerger" where
  "merger_new original =
     \<lparr>mm_version = md_version original, mm_dataset = md_dataset original,
      mm_schema = md_schema original, mm_start = md_start original, mm_end = md_end original,
      mm_limit = md_limit original, mm_stype_in = md_stype_in original,
      mm_stype_out = md_stype_out original, mm_ts_out = md_ts_out original,
      mm_symbol_cstr_len = md_symbol_cstr_len original,
      mm_symbols = set (md_symbols original), mm_partial = set (md_partial original),
      mm_not_found = set (md_not_found original),
      mm_mappings = foldl (\<lambda>es m. insert_entry (raw_symbol m) (intervals m) es) []
        (md_mappings original)\<rparr>"

datatype IntervalOrdering = Less | Overlap | Equal | Greater

definition interval_ordering ::
  "'d::linorder MappingInterval \<Rightarrow> 'd MappingInterval \<Rightarrow> IntervalOrdering result" where
  "interval_ordering i j =
     (if start_date i = start_date j \<and> end_date i = end_date j then
        (if symbol i = symbol j then Ok Equal
         else Err (BadArgument ''mappings''
           (''conflicting intervals mapping to '' @ symbol i @ '' and '' @ symbol j)))
      else if end_date i \<le> start_date j then Ok Less
      else if start_date i \<ge> end_date j then Ok Greater
      else if symbol i = symbol j then Ok Overlap
      else Err (BadArgument ''mappings'' ''invalid mapping interval ''))"

definition interval_merge ::
  "'d::linorder MappingInterval \<Rightarrow> 'd MappingInterval \<Rightarrow> 'd MappingInterval" where
  "interval_merge i j =
     \<lparr>start_date = min (start_date i) (start_date j), end_date = max (end_date i) (end_date j),
      symbol = symbol i\<rparr>"

fun merge_intervals ::
  "'d::linorder MappingInterval list \<Rightarrow> 'd MappingInterval list \<Rightarrow> 'd MappingInterval list result" where
  "merge_intervals (i # is) (j # js) =
     and_then (interval_ordering i j) (\<lambda>ordering. case ordering of
       Less \<Rightarrow> and_then (merge_intervals is (j # js)) (\<lambda>ms. Ok (i # ms))
     | Greater \<Rightarrow> and_then (merge_intervals (i # is) js) (\<lambda>ms. Ok (j # ms))
     | Overlap \<Rightarrow> and_then (merge_intervals is js) (\<lambda>ms. Ok (interval_merge i j # ms))
     | Equal \<Rightarrow> and_then (merge_intervals is js) (\<lambda>ms. Ok (i # ms)))"
| "merge_intervals (i # is) [] = and_then (merge_intervals is []) (\<lambda>ms. Ok (i # ms))"
| "merge_intervals [] (j # js) = and_then (merge_intervals [] js) (\<lambda>ms. Ok (j # ms))"
| "merge_intervals [] [] = Ok []"

fun merge_mappings ::
  "'d::linorder SymbolMapping list \<Rightarrow> (string \<times> 'd MappingInterval list) list
   \<Rightarrow> (string \<times> 'd MappingInterval list) list result" where
  "merge_mappings [] es = Ok es"
| "merge_mappings (a # as) es =
     (case map_of es (raw_symbol a) of
        None \<Rightarrow> merge_mappings as (insert_entry (raw_symbol a) (intervals a) es)
      | Some orig_intervals \<Rightarrow>
          and_then (merge_intervals orig_intervals (intervals a)) (\<lambda>merged.
            merge_mappings as (insert_entry (raw_symbol a) merged es)))"

definition bad_arg :: "string \<Rightarrow> 'a result" where
  "bad_arg field =
     Err (BadArgument ''additional'' (field @ '' mismatch when attempting to merge Metadata objects''))"

text \<open>\<^verbatim>\<open>Option::max\<close>, with \<^verbatim>\<open>None\<close> below every value.\<close>

fun option_max :: "'a::linorder option \<Rightarrow> 'a option \<Rightarrow> 'a option" where
  "option_max None y = y"
| "option_max x None = x"
| "option_max (Some a) (Some b) = Some (max a b)"

definition merger_merge :: "'d::linorder Metadata \<Rightarrow> 'd MetadataMerger \<Rightarrow> 'd MetadataMerger result" where
  "merger_merge additional s =
     (if mm_version s \<noteq> md_version additional then bad_arg ''version''
      else if mm_dataset s \<noteq> md_dataset additional then bad_arg ''dataset''
      else if mm_stype_in s \<noteq> md_stype_in additional then bad_arg ''stype_in''
      else if mm_stype_out s \<noteq> md_stype_out additional then bad_arg ''stype_out''
      else if mm_ts_out s \<noteq> md_ts_out additional then bad_arg ''ts_out''
      else if mm_symbol_cstr_len s \<noteq> md_symbol_cstr_len additional then bad_arg ''symbol_cstr_len''
      else and_then (merge_mappings (md_mappings additional) (mm_mappings s)) (\<lambda>mappings.
        Ok (s\<lparr>mm_schema := (if mm_schema s \<noteq> md_schema additional then None else mm_schema s),
              mm_start := min (mm_start s) (md_start additional),
              mm_end := option_max (mm_end s) (md_end additional),
              mm_limit := None,
              mm_symbols := mm_symbols s \<union> set (md_symbols additional),
              mm_partial := mm_partial s \<union> set (md_partial additional),
              mm_not_found := mm_not_found s \<union> set (md_not_found additional),
              mm_mappings := mappings\<rparr>)))"

definition merger_finalize :: "(string \<Rightarrow> string set \<Rightarrow> string list) \<Rightarrow> 'd MetadataMerger \<Rightarrow> 'd Metadata" where
  "merger_finalize ord s =
     \<lparr>md_version = mm_version s, md_dataset = mm_dataset s, md_schema = mm_schema s,
      md_start = mm_start s, md_end = mm_end s, md_limit = mm_limit s,
      md_stype_in = mm_stype_in s, md_stype_out = mm_stype_out s, md_ts_out = mm_ts_out s,
      md_symbol_cstr_len = mm_symbol_cstr_len s,
      md_symbols = ord ''symbols'' (mm_symbols s), md_partial = ord ''partial'' (mm_partial s),
      md_not_found = ord ''not_found'' (mm_not_found s),
      md_mappings = map (\<lambda>sym. \<lparr>raw_symbol = sym, intervals = the (map_of (mm_mappings s) sym)\<rparr>)
        (ord ''mappings'' (set (map fst (mm_mappings s))))\<rparr>"

fun merge_all :: "'d::linorder Metadata list \<Rightarrow> 'd MetadataMerger \<Rightarrow> 'd MetadataMerger result" where
  "merge_all [] s = Ok s"
| "merge_all (m # ms) s = and_then (merger_merge m s) (merge_all ms)"

definition metadata_merge ::
  "(string \<Rightarrow> string set \<Rightarrow> string list) \<Rightarrow> 'd::linorder Metadata \<Rightarrow> 'd Metadata list \<Rightarrow> 'd Metadata result" where
  "metadata_merge ord m others =
     and_then (merge_all others (merger_new m)) (\<lambda>s. Ok (merger_finalize ord s))"

text \<open>\<open>ord\<close> enumerates every finite set.\<close>

definition enumerates :: "(string \<Rightarrow> string set \<Rightarrow> string list) \<Rightarrow> bool" where
  "enumerates ord \<longleftrightarrow> (\<forall>c S. finite S \<longrightarrow> set (ord c S) = S \<and> distinct (ord c S))"

section \<open>What intervals denote\<close>

definition covers :: "'d::linorder MappingInterval list \<Rightarrow> 'd \<Rightarrow> string \<Rightarrow> bool" where
  "covers is d s \<longleftrightarrow> (\<exists>i \<in> set is. start_date i \<le> d \<and> d < end_date i \<and> symbol i = s)"

lemma covers_simps [simp]:
  "\<not> covers [] d s"
  "covers (i # is) d s \<longleftrightarrow> start_date i \<le> d \<and> d < end_date i \<and> symbol i = s \<or> covers is d s"
  by (auto simp: covers_def)

lemma interval_ordering_Ok:
  "interval_ordering i j = Ok r \<longleftrightarrow>
     (case r of
        Equal \<Rightarrow> i = j
      | Less \<Rightarrow> \<not> (start_date i = start_date j \<and> end_date i = end_date j) \<and> end_date i \<le> start_date j
      | Greater \<Rightarrow> \<not> (start_date i = start_date j \<and> end_date i = end_date j) \<and>
          \<not> end_date i \<le> start_date j \<and> end_date j \<le> start_date i
      | Overlap \<Rightarrow> \<not> (start_date i = start_date j \<and> end_date i = end_date j) \<and>
          start_date j < end_date i \<and> start_date i < end_date j \<and> symbol i = symbol j)"
  by (cases r) (auto simp: interval_ordering_def not_le)

lemma interval_merge_covers:
  assumes "interval_ordering i j = Ok Overlap"
  shows "start_date (interval_merge i j) \<le> d \<and> d < end_date (interval_merge i j) \<longleftrightarrow>
    start_date i \<le> d \<and> d < end_date i \<or> start_date j \<le> d \<and> d < end_date j"
  using assms by (auto simp: interval_ordering_Ok interval_merge_def min_def max_def)

lemma merge_intervals_covers:
  "merge_intervals is js = Ok ms \<Longrightarrow> covers ms d s \<longleftrightarrow> covers is d s \<or> covers js d s"
proof (induction "is" js arbitrary: ms rule: merge_intervals.induct)
  case (1 i "is" j js)
  then obtain r where r: "interval_ordering i j = Ok r" by (auto simp: and_then_eq_Ok)
  show ?case
  proof (cases r)
    case Overlap
    then have "symbol i = symbol j" using r by (simp add: interval_ordering_Ok)
    with 1 r Overlap show ?thesis
      using interval_merge_covers [of i j d] by (auto simp: and_then_eq_Ok interval_merge_def)
  next
    case Equal
    then have "i = j" using r by (simp add: interval_ordering_Ok)
    with 1 r Equal show ?thesis by (auto simp: and_then_eq_Ok)
  qed (use 1 r in \<open>auto simp: and_then_eq_Ok\<close>)
qed (auto simp: and_then_eq_Ok)

section \<open>The merged mappings\<close>

definition alist_covers ::
  "(string \<times> 'd::linorder MappingInterval list) list \<Rightarrow> string \<Rightarrow> 'd \<Rightarrow> string \<Rightarrow> bool" where
  "alist_covers es raw_sym d s \<longleftrightarrow> (\<exists>is. map_of es raw_sym = Some is \<and> covers is d s)"

definition md_covers :: "'d::linorder Metadata \<Rightarrow> string \<Rightarrow> 'd \<Rightarrow> string \<Rightarrow> bool" where
  "md_covers m raw_sym d s \<longleftrightarrow>
     (\<exists>sm \<in> set (md_mappings m). raw_symbol sm = raw_sym \<and> covers (intervals sm) d s)"

lemma map_of_insert_entry: "map_of (insert_entry k v es) = (map_of es)(k \<mapsto> v)"
  by (induction k v es rule: insert_entry.induct) auto

lemma merge_mappings_covers:
  "merge_mappings as es = Ok es' \<Longrightarrow>
     alist_covers es' raw_sym d s \<longleftrightarrow> alist_covers es raw_sym d s \<or>
       (\<exists>a \<in> set as. raw_symbol a = raw_sym \<and> covers (intervals a) d s)"
proof (induction as es arbitrary: es' rule: merge_mappings.induct)
  case (2 a as es)
  show ?case
  proof (cases "map_of es (raw_symbol a)")
    case None
    with 2 show ?thesis by (auto simp: alist_covers_def map_of_insert_entry)
  next
    case (Some orig)
    with 2(3) obtain merged where m: "merge_intervals orig (intervals a) = Ok merged"
      and rest: "merge_mappings as (insert_entry (raw_symbol a) merged es) = Ok es'"
      by (auto simp: and_then_eq_Ok)
    from 2(2) [OF Some rest] Some show ?thesis
      using merge_intervals_covers [OF m, of d s] by (auto simp: alist_covers_def map_of_insert_entry)
  qed
qed simp

lemma merger_new_covers_aux:
  assumes "distinct (map raw_symbol ms)" and "\<forall>m \<in> set ms. map_of es (raw_symbol m) = None"
  shows "alist_covers (foldl (\<lambda>es m. insert_entry (raw_symbol m) (intervals m) es) es ms) raw_sym d s \<longleftrightarrow>
    alist_covers es raw_sym d s \<or> (\<exists>m \<in> set ms. raw_symbol m = raw_sym \<and> covers (intervals m) d s)"
  using assms
proof (induction ms arbitrary: es)
  case (Cons m ms)
  have "\<forall>n \<in> set ms. raw_symbol n \<noteq> raw_symbol m"
    using Cons.prems(1) by auto (metis image_eqI)
  with Cons show ?case
    by (auto simp: map_of_insert_entry alist_covers_def)
qed (simp add: alist_covers_def)

lemma merger_new_covers:
  "distinct (map raw_symbol (md_mappings m)) \<Longrightarrow>
   alist_covers (mm_mappings (merger_new m)) raw_sym d s \<longleftrightarrow> md_covers m raw_sym d s"
  by (simp add: merger_new_def merger_new_covers_aux md_covers_def) (simp add: alist_covers_def)

lemma merger_finalize_covers:
  assumes "enumerates ord"
  shows "md_covers (merger_finalize ord s) raw_sym d y \<longleftrightarrow> alist_covers (mm_mappings s) raw_sym d y"
proof -
  have "set (ord ''mappings'' (set (map fst (mm_mappings s)))) = fst ` set (mm_mappings s)"
    using assms by (simp add: enumerates_def)
  then show ?thesis
    by (auto simp: md_covers_def merger_finalize_def alist_covers_def map_of_eq_None_iff
        dest: map_of_SomeD weak_map_of_SomeI intro: rev_image_eqI)
qed

lemma merge_all_covers:
  "merge_all ms s = Ok s' \<Longrightarrow>
     alist_covers (mm_mappings s') raw_sym d y \<longleftrightarrow>
     alist_covers (mm_mappings s) raw_sym d y \<or> (\<exists>m \<in> set ms. md_covers m raw_sym d y)"
proof (induction ms arbitrary: s)
  case (Cons m ms)
  then obtain t where t: "merger_merge m s = Ok t" "merge_all ms t = Ok s'"
    by (auto simp: and_then_eq_Ok)
  then obtain es where "merge_mappings (md_mappings m) (mm_mappings s) = Ok es" "mm_mappings t = es"
    by (auto simp: merger_merge_def bad_arg_def and_then_eq_Ok split: if_splits)
  then have "alist_covers (mm_mappings t) raw_sym d y \<longleftrightarrow>
      alist_covers (mm_mappings s) raw_sym d y \<or> md_covers m raw_sym d y"
    using merge_mappings_covers [of "md_mappings m" "mm_mappings s" es raw_sym d y]
    by (simp add: md_covers_def)
  with Cons.IH [OF t(2)] show ?case by auto
qed simp

section \<open>The merged fields\<close>

definition mergeable :: "'d Metadata \<Rightarrow> 'd Metadata \<Rightarrow> bool" where
  "mergeable m a \<longleftrightarrow>
     md_version a = md_version m \<and> md_dataset a = md_dataset m \<and> md_stype_in a = md_stype_in m \<and>
     md_stype_out a = md_stype_out m \<and> md_ts_out a = md_ts_out m \<and>
     md_symbol_cstr_len a = md_symbol_cstr_len m"

definition same_stream :: "'d MetadataMerger \<Rightarrow> 'd Metadata \<Rightarrow> bool" where
  "same_stream s a \<longleftrightarrow>
     md_version a = mm_version s \<and> md_dataset a = mm_dataset s \<and> md_stype_in a = mm_stype_in s \<and>
     md_stype_out a = mm_stype_out s \<and> md_ts_out a = mm_ts_out s \<and>
     md_symbol_cstr_len a = mm_symbol_cstr_len s"

lemma merger_merge_fields:
  assumes "merger_merge a s = Ok t"
  shows "same_stream s a" and "same_stream t = same_stream s"
    and "mm_start t = min (mm_start s) (md_start a)"
    and "mm_schema t = (if mm_schema s = md_schema a then mm_schema s else None)"
    and "mm_symbols t = mm_symbols s \<union> set (md_symbols a)"
    and "mm_partial t = mm_partial s \<union> set (md_partial a)"
    and "mm_not_found t = mm_not_found s \<union> set (md_not_found a)"
  using assms by (auto simp: merger_merge_def bad_arg_def and_then_eq_Ok same_stream_def fun_eq_iff split: if_splits)

lemma merger_merge_mismatch: "\<not> same_stream s a \<Longrightarrow> \<exists>e. merger_merge a s = Err e"
  by (auto simp: merger_merge_def bad_arg_def same_stream_def)

lemma merge_all_mismatch: "a \<in> set ms \<Longrightarrow> \<not> same_stream s a \<Longrightarrow> \<not> is_ok (merge_all ms s)"
proof (induction ms arbitrary: s)
  case (Cons m ms)
  show ?case
  proof (cases "merger_merge m s")
    case (Ok t)
    then have "same_stream t = same_stream s" "same_stream s m"
      using merger_merge_fields by blast+
    then show ?thesis using Cons Ok by auto
  qed simp_all
qed simp

lemma merge_all_fields:
  assumes "merge_all ms s = Ok t"
  shows "same_stream t = same_stream s
    \<and> mm_start t = Min (insert (mm_start s) (md_start ` set ms))
    \<and> mm_symbols t = mm_symbols s \<union> (\<Union>m \<in> set ms. set (md_symbols m))
    \<and> mm_partial t = mm_partial s \<union> (\<Union>m \<in> set ms. set (md_partial m))
    \<and> mm_not_found t = mm_not_found s \<union> (\<Union>m \<in> set ms. set (md_not_found m))
    \<and> mm_schema t = (if \<forall>m \<in> set ms. md_schema m = mm_schema s then mm_schema s else None)"
  using assms
proof (induction ms arbitrary: s)
  case (Cons m ms)
  then obtain u where u: "merger_merge m s = Ok u" "merge_all ms u = Ok t" by (auto simp: and_then_eq_Ok)
  have "Min (insert (min (mm_start s) (md_start m)) (md_start ` set ms)) =
      Min (insert (mm_start s) (insert (md_start m) (md_start ` set ms)))"
    by (cases "ms = []") (simp_all add: min.assoc)
  with Cons.IH [OF u(2)] merger_merge_fields [OF u(1)] show ?case by auto
qed simp

section \<open>Sorted intervals\<close>

definition ivals_sorted :: "'d::linorder MappingInterval list \<Rightarrow> bool" where
  "ivals_sorted is \<longleftrightarrow>
     sorted_wrt (\<lambda>i j. end_date i \<le> start_date j) is \<and> (\<forall>i \<in> set is. start_date i < end_date i)"

definition aligned :: "'d::linorder MappingInterval list \<Rightarrow> 'd MappingInterval list \<Rightarrow> bool" where
  "aligned is js \<longleftrightarrow> (\<forall>i \<in> set is. \<forall>j \<in> set js.
     start_date i = start_date j \<and> end_date i = end_date j \<or>
     end_date i \<le> start_date j \<or> end_date j \<le> start_date i)"

lemma merge_intervals_subset:
  "merge_intervals is js = Ok ms \<Longrightarrow> aligned is js \<Longrightarrow> set ms \<subseteq> set is \<union> set js"
proof (induction "is" js arbitrary: ms rule: merge_intervals.induct)
  case (1 i "is" j js)
  then obtain r where r: "interval_ordering i j = Ok r" by (auto simp: and_then_eq_Ok)
  have "aligned is (j # js)" "aligned (i # is) js" "aligned is js" and ij: "aligned [i] [j]"
    using 1(6) by (auto simp: aligned_def)
  moreover have "r \<noteq> Overlap" using r ij by (auto simp: interval_ordering_Ok aligned_def)
  ultimately show ?case using 1(1-5) r by (cases r) (auto simp: and_then_eq_Ok)
next
  case (2 i "is")
  then show ?case by (auto simp: and_then_eq_Ok aligned_def)
next
  case (3 j js)
  then show ?case by (auto simp: and_then_eq_Ok aligned_def)
qed simp

lemma ivals_sorted_Cons:
  "ivals_sorted (i # is) \<longleftrightarrow>
     start_date i < end_date i \<and> (\<forall>x \<in> set is. end_date i \<le> start_date x) \<and> ivals_sorted is"
  by (auto simp: ivals_sorted_def)

lemma ivals_sorted_Nil [simp]: "ivals_sorted []"
  by (simp add: ivals_sorted_def)

lemma sorted_head_le: "ivals_sorted (j # js) \<Longrightarrow> x \<in> set (j # js) \<Longrightarrow> start_date j \<le> start_date x"
  by (auto simp: ivals_sorted_Cons)

text \<open>An interval that precedes everything still to be merged may head the merged list.\<close>

lemma merge_head_sorted:
  assumes "merge_intervals is js = Ok ms" and "aligned is js" and "ivals_sorted ms"
    and "start_date h < end_date h" and "\<forall>x \<in> set is \<union> set js. end_date h \<le> start_date x"
  shows "ivals_sorted (h # ms)"
  using merge_intervals_subset [OF assms(1,2)] assms(3-) by (auto simp: ivals_sorted_Cons)

lemma merge_intervals_sorted_aux:
  "merge_intervals is js = Ok ms \<Longrightarrow> aligned is js \<Longrightarrow> ivals_sorted is \<Longrightarrow> ivals_sorted js \<Longrightarrow>
   ivals_sorted ms"
proof (induction "is" js arbitrary: ms rule: merge_intervals.induct)
  case (1 i "is" j js)
  then obtain r where r: "interval_ordering i j = Ok r" by (auto simp: and_then_eq_Ok)
  have al: "aligned is (j # js)" "aligned (i # is) js" "aligned is js" and ij: "aligned [i] [j]"
    using 1(6) by (auto simp: aligned_def)
  note i = 1(7) [unfolded ivals_sorted_Cons] and j = 1(8) [unfolded ivals_sorted_Cons]
  note hj = sorted_head_le [OF 1(8)] and hi = sorted_head_le [OF 1(7)]
  show ?case
  proof (cases r)
    case Less
    then obtain ms' where ms': "merge_intervals is (j # js) = Ok ms'" "ms = i # ms'"
      using 1(5) r by (auto simp: and_then_eq_Ok)
    moreover have "\<forall>x \<in> set is \<union> set (j # js). end_date i \<le> start_date x"
      using i hj r Less order_trans [of "end_date i" "start_date j"] by (auto simp: interval_ordering_Ok)
    ultimately show ?thesis
      using merge_head_sorted [OF ms'(1) al(1)] 1(1) [OF ms'(1) al(1)] i 1(8) by blast
  next
    case Greater
    then obtain ms' where ms': "merge_intervals (i # is) js = Ok ms'" "ms = j # ms'"
      using 1(5) r by (auto simp: and_then_eq_Ok)
    moreover have "\<forall>x \<in> set (i # is) \<union> set js. end_date j \<le> start_date x"
      using j hi r Greater order_trans [of "end_date j" "start_date i"] by (auto simp: interval_ordering_Ok)
    ultimately show ?thesis
      using merge_head_sorted [OF ms'(1) al(2)] 1(4) [OF ms'(1) al(2)] j 1(7) by blast
  next
    case Equal
    then have "i = j" using r by (simp add: interval_ordering_Ok)
    obtain ms' where ms': "merge_intervals is js = Ok ms'" "ms = i # ms'"
      using 1(5) r Equal by (auto simp: and_then_eq_Ok)
    with \<open>i = j\<close> show ?thesis
      using merge_head_sorted [OF ms'(1) al(3)] 1(3) [OF ms'(1) al(3)] i j by blast
  next
    case Overlap
    then show ?thesis using r ij by (auto simp: interval_ordering_Ok aligned_def)
  qed
next
  case (2 i "is")
  then obtain ms' where "merge_intervals is [] = Ok ms'" "ms = i # ms'" by (auto simp: and_then_eq_Ok)
  with 2 show ?case using merge_head_sorted [of "is" "[]" ms' i] by (auto simp: aligned_def ivals_sorted_Cons)
next
  case (3 j js)
  then obtain ms' where "merge_intervals [] js = Ok ms'" "ms = j # ms'" by (auto simp: and_then_eq_Ok)
  with 3 show ?case using merge_head_sorted [of "[]" js ms' j] by (auto simp: aligned_def ivals_sorted_Cons)
qed simp

section \<open>Properties\<close>

text \<open>
  Merging metadata succeeds only for headers of the same stream: a mismatch of version,
  dataset, symbology types, send timestamps or symbol length is an error. The merged header has
  those fields, the earliest start, the common schema or none, and the unions of the symbol
  lists without duplicates.
\<close>

theorem metadata_merge_fields:
  assumes "enumerates ord"
  shows "case metadata_merge ord m others of
      Ok r \<Rightarrow> (\<forall>a \<in> set others. mergeable m a) \<and> mergeable m r \<and>
        md_start r = Min (insert (md_start m) (md_start ` set others)) \<and>
        md_schema r = (if \<forall>a \<in> set others. md_schema a = md_schema m then md_schema m else None) \<and>
        set (md_symbols r) = (\<Union>a \<in> insert m (set others). set (md_symbols a)) \<and>
        set (md_partial r) = (\<Union>a \<in> insert m (set others). set (md_partial a)) \<and>
        set (md_not_found r) = (\<Union>a \<in> insert m (set others). set (md_not_found a)) \<and>
        distinct (md_symbols r) \<and> distinct (map raw_symbol (md_mappings r))
    | _ \<Rightarrow> True"
proof (cases "merge_all others (merger_new m)")
  case (Ok t)
  have new: "same_stream (merger_new m) a \<longleftrightarrow> mergeable m a" for a
    by (simp add: merger_new_def same_stream_def mergeable_def)
  note fields = merge_all_fields [OF Ok]
  have "\<forall>a \<in> set others. mergeable m a"
    using merge_all_mismatch [of _ others "merger_new m"] Ok new by auto
  moreover have "same_stream t (merger_finalize ord t)"
    by (simp add: same_stream_def merger_finalize_def)
  then have "mergeable m (merger_finalize ord t)" using new fields by simp
  moreover have "finite (mm_symbols t)" "finite (mm_partial t)" "finite (mm_not_found t)"
    using fields by (simp_all add: merger_new_def)
  then have "set (ord ''symbols'' (mm_symbols t)) = mm_symbols t" "distinct (ord ''symbols'' (mm_symbols t))"
    "set (ord ''partial'' (mm_partial t)) = mm_partial t"
    "set (ord ''not_found'' (mm_not_found t)) = mm_not_found t"
    "distinct (ord ''mappings'' (set (map fst (mm_mappings t))))"
    using assms by (simp_all add: enumerates_def)
  ultimately show ?thesis
    using Ok fields by (auto simp: metadata_merge_def merger_finalize_def merger_new_def comp_def)
qed (simp_all add: metadata_merge_def)

text \<open>
  C19. Merging keeps the symbology: a raw symbol maps to a symbol on a date in the merged header
  exactly when it does so in one of the headers that were merged. The raw symbols of the first header
  are distinct, and the merge succeeds.
\<close>

theorem metadata_merge_covers:
  assumes "enumerates ord" and "distinct (map raw_symbol (md_mappings m))"
    and "metadata_merge ord m others = Ok r"
  shows "md_covers r raw_sym d s \<longleftrightarrow> (\<exists>a \<in> set (m # others). md_covers a raw_sym d s)"
proof -
  obtain t where "merge_all others (merger_new m) = Ok t" "r = merger_finalize ord t"
    using assms(3) by (auto simp: metadata_merge_def and_then_eq_Ok)
  then show ?thesis
    using merge_all_covers [of others "merger_new m" t raw_sym d s] merger_new_covers [OF assms(2)]
      merger_finalize_covers [OF assms(1), of t] by simp
qed

text \<open>
  Merging two sorted lists of intervals that are pairwise equal or disjoint gives a sorted
  list: no two of its intervals overlap, and every date still has at most one symbol.
\<close>

theorem merge_intervals_sorted:
  assumes "merge_intervals is js = Ok ms" and "aligned is js" and "ivals_sorted is" and "ivals_sorted js"
  shows "ivals_sorted ms \<and> (covers ms d s \<and> covers ms d s' \<longrightarrow> s = s')"
proof -
  have "ivals_sorted ms" using assms by (rule merge_intervals_sorted_aux)
  moreover from this have "covers ms d s \<Longrightarrow> covers ms d s' \<Longrightarrow> s = s'"
  proof (induction ms)
    case (Cons i ms)
    then show ?case
      by (auto simp: ivals_sorted_Cons covers_def)
  qed simp
  ultimately show ?thesis by blast
qed

text \<open>Two requests for one symbol over adjoining ranges.\<close>

definition sorted_order :: "string \<Rightarrow> string set \<Rightarrow> string list" where
  "sorted_order c S = sorted_list_of_set S"

lemma sorted_order_enumerates: "enumerates sorted_order"
  by (simp add: enumerates_def sorted_order_def)

definition spring :: "gdate MappingInterval" where
  "spring = \<lparr>start_date = gdate_of 2024 3 1, end_date = gdate_of 2024 6 1, symbol = ''17077''\<rparr>"

definition summer :: "gdate MappingInterval" where
  "summer = \<lparr>start_date = gdate_of 2024 6 1, end_date = gdate_of 2024 9 1, symbol = ''5602''\<rparr>"

lemma gdate_of_order:
  assumes "valid_ymd y m d" and "valid_ymd y' m' d'"
  shows "gdate_of y m d < gdate_of y' m' d' \<longleftrightarrow> date_key y m d < date_key y' m' d'"
    and "gdate_of y m d \<le> gdate_of y' m' d' \<longleftrightarrow> date_key y m d \<le> date_key y' m' d'"
    and "gdate_of y m d = gdate_of y' m' d' \<longleftrightarrow> date_key y m d = date_key y' m' d'"
  using assms by (simp_all add: gdate_of_def less_gdate.rep_eq less_eq_gdate.rep_eq Rep_gdate_key
      Abs_gdate_inject valid_date_key)

lemmas sample_dates =
  gdate_of_order valid_ymd_def days_in_month_def date_key_def spring_def summer_def

theorem merge_intervals_sorted_witness:
  "merge_intervals [spring] [summer] = Ok [spring, summer] \<and> ivals_sorted [spring, summer]"
proof -
  have "merge_intervals [spring] [summer] = Ok [spring, summer]"
    by (simp add: interval_ordering_def sample_dates)
  then show ?thesis
    using merge_intervals_sorted [of "[spring]" "[summer]" "[spring, summer]"]
    by (simp add: aligned_def ivals_sorted_Cons sample_dates)
qed

definition with_mappings :: "gdate SymbolMapping list \<Rightarrow> gdate Metadata" where
  "with_mappings ms = (sample_metadata 3)\<lparr>md_mappings := ms\<rparr>"

theorem metadata_merge_fields_witness:
  "\<exists>r. metadata_merge sorted_order (sample_metadata 3) [(sample_metadata 3)\<lparr>md_symbols := [''CL.c.0'']\<rparr>] = Ok r \<and>
     set (md_symbols r) = {''ES.c.0'', ''CL.c.0''}"
proof -
  let ?o = "(sample_metadata 3)\<lparr>md_symbols := [''CL.c.0'']\<rparr>"
  have "\<exists>r. metadata_merge sorted_order (sample_metadata 3) [?o] = Ok r"
    by (simp add: metadata_merge_def merger_merge_def merger_new_def sample_metadata_simps interval_ordering_def)
  then show ?thesis
    using metadata_merge_fields [OF sorted_order_enumerates, where m = "sample_metadata 3" and others = "[?o]"]
    by (auto simp: sample_metadata_simps)
qed

theorem metadata_merge_covers_witness:
  "\<exists>r. metadata_merge sorted_order (with_mappings [\<lparr>raw_symbol = ''ES'', intervals = [spring]\<rparr>])
       [with_mappings [\<lparr>raw_symbol = ''ES'', intervals = [summer]\<rparr>]] = Ok r \<and>
     md_covers r ''ES'' (gdate_of 2024 7 4) ''5602''"
proof -
  let ?m = "with_mappings [\<lparr>raw_symbol = ''ES'', intervals = [spring]\<rparr>]"
  let ?o = "with_mappings [\<lparr>raw_symbol = ''ES'', intervals = [summer]\<rparr>]"
  obtain r where r: "metadata_merge sorted_order ?m [?o] = Ok r"
    by (simp add: metadata_merge_def merger_merge_def merger_new_def with_mappings_def
        interval_ordering_def sample_dates)
  have "md_covers ?o ''ES'' (gdate_of 2024 7 4) ''5602''"
    by (simp add: md_covers_def with_mappings_def sample_dates)
  then show ?thesis
    using metadata_merge_covers [OF sorted_order_enumerates _ r, of "''ES''" "gdate_of 2024 7 4" "''5602''"] r
    by (auto simp: with_mappings_def)
qed

text \<open>
  Conflicts can go unnoticed: merging the sorted list of two adjoining intervals with one
  interval that spans both and agrees with the first only succeeds, although the lists map the
  dates of the second interval to different symbols; the merged list then has both.
\<close>

theorem merge_intervals_conflict_unnoticed:
  "\<exists>is js ms d. ivals_sorted is \<and> ivals_sorted (js :: gdate MappingInterval list) \<and>
     merge_intervals is js = Ok ms \<and> covers is d ''5602'' \<and> covers js d ''17077'' \<and>
     covers ms d ''5602'' \<and> covers ms d ''17077'' \<and> \<not> ivals_sorted ms"
proof (intro exI conjI)
  let ?whole = "spring\<lparr>end_date := gdate_of 2024 9 1\<rparr>"
  show "merge_intervals [spring, summer] [?whole] = Ok [?whole, summer]"
    by (simp add: interval_ordering_def interval_merge_def sample_dates min_def max_def)
  show "ivals_sorted [spring, summer]" "ivals_sorted [?whole]" "\<not> ivals_sorted [?whole, summer]"
    by (simp_all add: ivals_sorted_Cons sample_dates)
  show "covers [spring, summer] (gdate_of 2024 7 4) ''5602''" "covers [?whole] (gdate_of 2024 7 4) ''17077''"
    "covers [?whole, summer] (gdate_of 2024 7 4) ''5602''" "covers [?whole, summer] (gdate_of 2024 7 4) ''17077''"
    by (simp_all add: sample_dates)
qed

end
