(* ===== verification/Oval.thy ===== *)
theory Oval
  imports Prelude
begin

text \<open>
  The decoder reads into a growable buffer of the third-party crate \<^verbatim>\<open>oval\<close>. Its operations
  are the fields of a dictionary \<open>'b buf_ops\<close>; what the decoder relies on is the interface
  \<open>oval_buffer\<close>, the documented effect of each operation on the unread data, the writable
  space and the capacity. Writing through the slice \<^verbatim>\<open>space()\<close> is \<open>set_space\<close>. The laws on
  the amount of space are inequalities: when the crate moves data to the front of its memory is
  left open, except that consuming past the middle of the memory moves it.

  The generic loop of the decoder, \<open>iterate\<close>, is here too: it runs a step function until it
  returns, and is undefined (\<open>None\<close>) when it does not.
\<close>

section \<open>Definitions\<close>

record 'b buf_ops =
  with_capacity :: "nat \<Rightarrow> 'b"
  data :: "'b \<Rightarrow> bytes"
  space :: "'b \<Rightarrow> bytes"
  set_space :: "bytes \<Rightarrow> 'b \<Rightarrow> 'b"
  fill :: "nat \<Rightarrow> 'b \<Rightarrow> 'b"
  consume :: "nat \<Rightarrow> 'b \<Rightarrow> 'b"
  consume_noshift :: "nat \<Rightarrow> 'b \<Rightarrow> 'b"
  grow :: "nat \<Rightarrow> 'b \<Rightarrow> 'b"
  shift :: "'b \<Rightarrow> 'b"
  reset :: "'b \<Rightarrow> 'b"
  capacity :: "'b \<Rightarrow> nat"

abbreviation available_data :: "'b buf_ops \<Rightarrow> 'b \<Rightarrow> nat" where
  "available_data B b \<equiv> length (data B b)"

abbreviation available_space :: "'b buf_ops \<Rightarrow> 'b \<Rightarrow> nat" where
  "available_space B b \<equiv> length (space B b)"

partial_function (option) iterate :: "('s \<Rightarrow> ('s + 'r) result) \<Rightarrow> 's \<Rightarrow> 'r result option" where
  "iterate step s =
     (case step s of
        Ok (Inl s') \<Rightarrow> iterate step s'
      | Ok (Inr r) \<Rightarrow> Some (Ok r)
      | Err e \<Rightarrow> Some (Err e)
      | Panic p \<Rightarrow> Some (Panic p))"

section \<open>The interface\<close>

locale oval_buffer =
  fixes B :: "'b buf_ops"
  assumes with_capacity: "data B (with_capacity B n) = []"
      "length (space B (with_capacity B n)) = n" "capacity B (with_capacity B n) = n"
    and set_space: "length s = length (space B b) \<Longrightarrow> space B (set_space B s b) = s"
      "length s = length (space B b) \<Longrightarrow> data B (set_space B s b) = data B b"
      "length s = length (space B b) \<Longrightarrow> capacity B (set_space B s b) = capacity B b"
    and fill: "n \<le> length (space B b) \<Longrightarrow> data B (fill B n b) = data B b @ take n (space B b)"
      "length (space B b) - n \<le> length (space B (fill B n b))" "capacity B (fill B n b) = capacity B b"
    and consume: "data B (consume B n b) = drop n (data B b)"
      "length (space B b) \<le> length (space B (consume B n b))" "capacity B (consume B n b) = capacity B b"
      "capacity B b \<le> 2 * (length (data B (consume B n b)) + length (space B (consume B n b)))"
    and consume_noshift: "data B (consume_noshift B n b) = drop n (data B b)"
      "length (space B b) \<le> length (space B (consume_noshift B n b))"
      "capacity B (consume_noshift B n b) = capacity B b"
    and grow: "data B (grow B n b) = data B b"
      "length (space B b) + (n - capacity B b) \<le> length (space B (grow B n b))"
      "capacity B (grow B n b) = max (capacity B b) n"
    and shift: "data B (shift B b) = data B b"
      "length (space B b) \<le> length (space B (shift B b))" "capacity B (shift B b) = capacity B b"
    and reset: "data B (reset B b) = []" "capacity B (reset B b) = capacity B b"
begin

lemmas buf_simps [simp] =
  with_capacity set_space fill(1,3) consume(1,3) consume_noshift(1,3) grow(1,3) shift(1,3) reset

text \<open>Writing into the space and filling appends to the data.\<close>

lemma write_fill:
  assumes "length bs \<le> length (space B b)"
  shows "data B (fill B (length bs) (set_space B (bs @ drop (length bs) (space B b)) b)) = data B b @ bs"
  using assms by simp

lemma double_grows: "length (space B b) < length (space B (grow B (max (Suc n) (capacity B b * 2)) b))"
  using grow(2) [of b "max (Suc n) (capacity B b * 2)"] by (cases "capacity B b") auto

end

section \<open>A buffer that meets it\<close>

text \<open>The unread data and the space, as two lists: a buffer that always compacts.\<close>

definition list_buffer :: "(bytes \<times> bytes) buf_ops" where
  "list_buffer =
     \<lparr>with_capacity = (\<lambda>n. ([], replicate n 0)),
      data = fst, space = snd,
      set_space = (\<lambda>s (d, _). (d, s)),
      fill = (\<lambda>n (d, s). (d @ take n s, drop n s)),
      consume = (\<lambda>n (d, s). (drop n d, s @ take n d)),
      consume_noshift = (\<lambda>n (d, s). (drop n d, s @ take n d)),
      grow = (\<lambda>n (d, s). (d, s @ replicate (n - (length d + length s)) 0)),
      shift = (\<lambda>b. b),
      reset = (\<lambda>(d, s). ([], s @ d)),
      capacity = (\<lambda>(d, s). length d + length s)\<rparr>"

interpretation list_buffer: oval_buffer list_buffer
  by unfold_locales (auto simp: list_buffer_def split: prod.splits)

section \<open>The loop\<close>

lemma iterate_terminates:
  fixes m :: "'s \<Rightarrow> nat"
  assumes "\<And>s s'. step s = Ok (Inl s') \<Longrightarrow> m s' < m s"
  shows "\<exists>r. iterate step s = Some r"
proof (induction "m s" arbitrary: s rule: less_induct)
  case less
  show ?case
    using less [OF assms] by (subst iterate.simps) (auto split: result.split sum.split)
qed

lemma iterate_invariant:
  assumes "iterate step s = Some (Ok x)" and "P s"
    and "\<And>s s'. P s \<Longrightarrow> step s = Ok (Inl s') \<Longrightarrow> P s'"
    and "\<And>s x. P s \<Longrightarrow> step s = Ok (Inr x) \<Longrightarrow> Q x"
  shows "Q x"
proof -
  have "step = step \<longrightarrow> P s \<longrightarrow> (\<forall>x'. Ok x = Ok x' \<longrightarrow> Q x')"
    by (rule iterate.raw_induct [OF _ assms(1), where P = "\<lambda>stp s r. stp = step \<longrightarrow> P s \<longrightarrow> (\<forall>x. r = Ok x \<longrightarrow> Q x)"])
      (auto split: result.splits sum.splits dest: assms(3,4))
  with assms(2) show ?thesis by blast
qed

lemma iterate_Inl: "step s = Ok (Inl s') \<Longrightarrow> iterate step s = iterate step s'"
  by (subst iterate.simps) simp

lemma iterate_Inr: "step s = Ok (Inr r) \<Longrightarrow> iterate step s = Some (Ok r)"
  by (subst iterate.simps) simp

lemma iterate_Panic: "step s = Panic p \<Longrightarrow> iterate step s = Some (Panic p)"
  by (subst iterate.simps) simp

end
