(* ===== verification/Fsm.thy ===== *)
theory Fsm
  imports Metadata_Decode Compat Oval
begin

text \<open>
  The decoder state machine \<^verbatim>\<open>DbnFsm\<close> of rust/dbn/src/decode/dbn/fsm.rs: its state, the
  configuration and buffer methods, \<^verbatim>\<open>process\<close>, the batch methods \<^verbatim>\<open>process_all\<close> and
  \<^verbatim>\<open>process_many\<close>, the version upgrade of records, and the builder \<^verbatim>\<open>DbnFsmBuilder\<close>.

  A record reference is the byte sequence it points into, from the first byte of the record on.
  The functions on the compatibility buffer work on slices of it: such a function returns the
  bytes it wrote at the front of the slice, the rest of the slice, and the reference. A method
  returns the state machine as it is afterwards with its result, inside \<open>result\<close> for panics.
\<close>

section \<open>Definitions\<close>

subsection \<open>Upgrading a record\<close>

definition upgrade_cast ::
  "'t record_type \<Rightarrow> 'u record_type \<Rightarrow> ('t \<Rightarrow> 'u) \<Rightarrow> bytes \<Rightarrow> bytes
   \<Rightarrow> (bytes \<times> bytes \<times> bytes option) result" where
  "upgrade_cast T U conv compat_buffer input =
     and_then (rr_get T input) (\<lambda>found. case found of
       None \<Rightarrow> Panic ''called `Option::unwrap()` on a `None` value''
     | Some rec \<Rightarrow>
         if size_of U \<ge> length compat_buffer then Ok ([], compat_buffer, None)
         else Ok (as_ref U (conv rec), drop (size_of U) compat_buffer, Some (as_ref U (conv rec))))"

definition upgrade_record ::
  "'t record_type \<Rightarrow> 'u record_type \<Rightarrow> ('t \<Rightarrow> 'u) \<Rightarrow> bool \<Rightarrow> bytes \<Rightarrow> bytes
   \<Rightarrow> (bytes \<times> bytes \<times> bytes option) result" where
  "upgrade_record T U from_t ts_out compat_buffer input =
     (if ts_out
      then upgrade_cast (with_ts_out_type T) (with_ts_out_type U)
        (\<lambda>rec. with_ts_out_new U (from_t (wto_rec rec)) (wto_ts_out rec)) compat_buffer input
      else upgrade_cast T U from_t compat_buffer input)"

definition upgrade_record_with_version ::
  "u8 \<Rightarrow> VersionUpgradePolicy \<Rightarrow> bool \<Rightarrow> bytes \<Rightarrow> bytes \<Rightarrow> (bytes \<times> bytes \<times> bytes option) result" where
  "upgrade_record_with_version version policy ts_out read_buffer compat_buffer =
     (let rtype = rh_rtype (rr_header read_buffer);
          to_v2 = (policy = VersionUpgradePolicy_UpgradeToV2);
          to_v3 = (policy = VersionUpgradePolicy_UpgradeToV3) in
      if version = 1 \<and> to_v2 \<and> rtype = rtype_as_u8 RType_InstrumentDef
      then upgrade_record InstrumentDefMsgV1_type InstrumentDefMsgV2_type InstrumentDefMsgV2_from_v1
             ts_out compat_buffer read_buffer
      else if version = 1 \<and> to_v3 \<and> rtype = rtype_as_u8 RType_InstrumentDef
      then upgrade_record InstrumentDefMsgV1_type InstrumentDefMsg_type InstrumentDefMsg_from_v1
             ts_out compat_buffer read_buffer
      else if version \<in> {1, 2} \<and> to_v3 \<and> rtype = rtype_as_u8 RType_Statistics
      then upgrade_record StatMsgV1_type StatMsg_type StatMsg_from_v1 ts_out compat_buffer read_buffer
      else if version = 1 \<and> (to_v2 \<or> to_v3) \<and> rtype = rtype_as_u8 RType_SymbolMapping
      then upgrade_record SymbolMappingMsgV1_type SymbolMappingMsg_type SymbolMappingMsg_from_v1
             ts_out compat_buffer read_buffer
      else if version = 1 \<and> (to_v2 \<or> to_v3) \<and> rtype = rtype_as_u8 RType_Error
      then upgrade_record ErrorMsgV1_type ErrorMsg_type ErrorMsg_from_v1 ts_out compat_buffer read_buffer
      else if version = 1 \<and> (to_v2 \<or> to_v3) \<and> rtype = rtype_as_u8 RType_System
      then upgrade_record SystemMsgV1_type SystemMsg_type SystemMsg_from_v1 ts_out compat_buffer read_buffer
      else if version = 2 \<and> to_v3 \<and> rtype = rtype_as_u8 RType_InstrumentDef
      then upgrade_record InstrumentDefMsgV2_type InstrumentDefMsg_type InstrumentDefMsg_from_v2
             ts_out compat_buffer read_buffer
      else if version > DBN_VERSION then Panic (''Unsupported version '' @ dec_nat (unat version))
      else Ok ([], compat_buffer, Some read_buffer))"

text \<open>The detected version comes first in the result.\<close>

definition upgrade_record_detect_version ::
  "VersionUpgradePolicy \<Rightarrow> bool \<Rightarrow> bytes \<Rightarrow> bytes \<Rightarrow> (u8 option \<times> bytes \<times> bytes \<times> bytes option) result" where
  "upgrade_record_detect_version policy ts_out read_buffer compat_buffer =
     (let rtype = rh_rtype (rr_header read_buffer); rec_size = rr_record_size read_buffer;
          to_v2 = (policy = VersionUpgradePolicy_UpgradeToV2);
          to_v3 = (policy = VersionUpgradePolicy_UpgradeToV3);
          found = (\<lambda>version r. and_then r (\<lambda>res. Ok (version, res))) in
      if rtype = rtype_as_u8 RType_InstrumentDef \<and> to_v2 \<and> rec_size < size_of InstrumentDefMsgV2_type
      then found (Some 1) (upgrade_record InstrumentDefMsgV1_type InstrumentDefMsgV2_type
             InstrumentDefMsgV2_from_v1 ts_out compat_buffer read_buffer)
      else if rtype = rtype_as_u8 RType_InstrumentDef \<and> to_v3 \<and> rec_size < size_of InstrumentDefMsgV2_type
      then found (Some 1) (upgrade_record InstrumentDefMsgV1_type InstrumentDefMsg_type
             InstrumentDefMsg_from_v1 ts_out compat_buffer read_buffer)
      else if rtype = rtype_as_u8 RType_InstrumentDef \<and> to_v3 \<and> rec_size < size_of InstrumentDefMsg_type
      then found (Some 2) (upgrade_record InstrumentDefMsgV2_type InstrumentDefMsg_type
             InstrumentDefMsg_from_v2 ts_out compat_buffer read_buffer)
      else if rtype = rtype_as_u8 RType_Statistics \<and> to_v3 \<and> rec_size < size_of StatMsg_type
      then found None (upgrade_record StatMsgV1_type StatMsg_type StatMsg_from_v1 ts_out compat_buffer read_buffer)
      else if rtype = rtype_as_u8 RType_SymbolMapping \<and> (to_v2 \<or> to_v3) \<and> rec_size < size_of SymbolMappingMsg_type
      then found (Some 1) (upgrade_record SymbolMappingMsgV1_type SymbolMappingMsg_type
             SymbolMappingMsg_from_v1 ts_out compat_buffer read_buffer)
      else if rtype = rtype_as_u8 RType_Error \<and> (to_v2 \<or> to_v3) \<and> rec_size < size_of ErrorMsg_type
      then found (Some 1) (upgrade_record ErrorMsgV1_type ErrorMsg_type ErrorMsg_from_v1
             ts_out compat_buffer read_buffer)
      else if rtype = rtype_as_u8 RType_System \<and> (to_v2 \<or> to_v3) \<and> rec_size < size_of SystemMsg_type
      then found (Some 1) (upgrade_record SystemMsgV1_type SystemMsg_type SystemMsg_from_v1
             ts_out compat_buffer read_buffer)
      else Ok (None, [], compat_buffer, Some read_buffer))"

definition fsm_upgrade_record ::
  "u8 option \<Rightarrow> VersionUpgradePolicy \<Rightarrow> bool \<Rightarrow> bytes \<Rightarrow> bytes
   \<Rightarrow> (u8 option \<times> bytes \<times> bytes \<times> bytes option) result" where
  "fsm_upgrade_record input_version policy ts_out read_buffer compat_buffer =
     (case input_version of
        Some version \<Rightarrow>
          and_then (upgrade_record_with_version version policy ts_out read_buffer compat_buffer)
            (\<lambda>res. Ok (Some version, res))
      | None \<Rightarrow> upgrade_record_detect_version policy ts_out read_buffer compat_buffer)"

subsection \<open>The state machine\<close>

datatype State =
    State_Prelude
  | State_Metadata u32
  | State_Record
  | State_Consume (st_read: nat) (st_compat: nat) (st_compat_fill: nat) (st_expand: bool)

record 'b DbnFsm =
  input_dbn_version :: "u8 option"
  upgrade_policy :: VersionUpgradePolicy
  fsm_ts_out :: bool
  state :: State
  buffer :: 'b
  compat_buffer :: 'b

datatype ('d, 'r) ProcessResult =
    ReadMore nat
  | Result_Metadata "'d Metadata"
  | Result_Record 'r
  | Result_Err error

definition DEFAULT_BUF_SIZE :: nat where "DEFAULT_BUF_SIZE = 64 * 1024"
definition METADATA_PRELUDE_LEN :: nat where "METADATA_PRELUDE_LEN = 8"
definition HEADER_LEN :: nat where "HEADER_LEN = 16"

definition fsm_new :: "'b buf_ops \<Rightarrow> nat \<Rightarrow> nat \<Rightarrow> 'b DbnFsm" where
  "fsm_new B buffer_size compat_size =
     \<lparr>input_dbn_version = None, upgrade_policy = VersionUpgradePolicy_UpgradeToV3, fsm_ts_out = False,
      state = State_Prelude, buffer = with_capacity B buffer_size,
      compat_buffer = with_capacity B compat_size\<rparr>"

definition fsm_default :: "'b buf_ops \<Rightarrow> 'b DbnFsm" where
  "fsm_default B =
     \<lparr>input_dbn_version = None, upgrade_policy = VersionUpgradePolicy_UpgradeToV3, fsm_ts_out = False,
      state = State_Prelude, buffer = with_capacity B DEFAULT_BUF_SIZE,
      compat_buffer = with_capacity B 0\<rparr>"

definition set_input_dbn_version :: "u8 \<Rightarrow> 'b DbnFsm \<Rightarrow> 'b DbnFsm result" where
  "set_input_dbn_version version f =
     and_then (dbn_version_try_from version) (\<lambda>version.
     and_then (validate_compatibility (upgrade_policy f) version) (\<lambda>_.
       Ok (f\<lparr>input_dbn_version := Some version\<rparr>)))"

definition fsm_set_ts_out :: "bool \<Rightarrow> 'b DbnFsm \<Rightarrow> 'b DbnFsm" where
  "fsm_set_ts_out t f = f\<lparr>fsm_ts_out := t\<rparr>"

definition set_upgrade_policy :: "VersionUpgradePolicy \<Rightarrow> 'b DbnFsm \<Rightarrow> 'b DbnFsm result" where
  "set_upgrade_policy policy f =
     and_then (case input_dbn_version f of
                 Some version \<Rightarrow> validate_compatibility (upgrade_policy f) version
               | None \<Rightarrow> Ok ())
       (\<lambda>_. Ok (f\<lparr>upgrade_policy := policy\<rparr>))"

definition last_record :: "'b buf_ops \<Rightarrow> 'b DbnFsm \<Rightarrow> bytes option" where
  "last_record B f =
     (case state f of
        State_Consume read cbytes compat_fill expand \<Rightarrow>
          if compat_fill > 0 then None
          else if cbytes > 0 then Some (data B (compat_buffer f))
          else Some (data B (buffer f))
      | _ \<Rightarrow> None)"

definition fsm_data :: "'b buf_ops \<Rightarrow> 'b DbnFsm \<Rightarrow> bytes result" where
  "fsm_data B f =
     (case state f of
        State_Consume read cbytes compat_fill expand \<Rightarrow> slice_from (data B (buffer f)) read
      | _ \<Rightarrow> Ok (data B (buffer f)))"

definition fsm_space :: "'b buf_ops \<Rightarrow> 'b DbnFsm \<Rightarrow> bytes" where
  "fsm_space B f = space B (buffer f)"

definition fsm_fill :: "'b buf_ops \<Rightarrow> nat \<Rightarrow> 'b DbnFsm \<Rightarrow> 'b DbnFsm" where
  "fsm_fill B nbytes f = f\<lparr>buffer := fill B nbytes (buffer f)\<rparr>"

definition double_compat_buffer :: "'b buf_ops \<Rightarrow> 'b DbnFsm \<Rightarrow> 'b DbnFsm" where
  "double_compat_buffer B f =
     f\<lparr>compat_buffer := grow B (max MAX_RECORD_LEN (capacity B (compat_buffer f) * 2)) (compat_buffer f)\<rparr>"

definition fsm_consume :: "'b buf_ops \<Rightarrow> nat \<Rightarrow> nat \<Rightarrow> nat \<Rightarrow> bool \<Rightarrow> 'b DbnFsm \<Rightarrow> 'b DbnFsm" where
  "fsm_consume B read cbytes compat_fill expand_compat f =
     (let f = f\<lparr>buffer := consume B read (buffer f)\<rparr>;
          f = (if compat_fill > 0 then f\<lparr>compat_buffer := fill B compat_fill (compat_buffer f)\<rparr> else f);
          f = (if cbytes > 0 then f\<lparr>compat_buffer := consume B cbytes (compat_buffer f)\<rparr> else f);
          f = (if expand_compat then double_compat_buffer B f else f)
      in f\<lparr>state := State_Record\<rparr>)"

text \<open>Writing through the slice of the space: it panics when the bytes do not fit.\<close>

definition copy_into_space :: "'b buf_ops \<Rightarrow> bytes \<Rightarrow> 'b DbnFsm \<Rightarrow> 'b DbnFsm result" where
  "copy_into_space B bs f =
     (if length bs \<le> length (fsm_space B f)
      then Ok (f\<lparr>buffer := set_space B (bs @ drop (length bs) (fsm_space B f)) (buffer f)\<rparr>)
      else Panic ''slice index out of range'')"

definition fsm_write_all :: "'b buf_ops \<Rightarrow> bytes \<Rightarrow> 'b DbnFsm \<Rightarrow> 'b DbnFsm result" where
  "fsm_write_all B bs f =
     (let f = (if available_space B (buffer f) < length bs then
                 (let f = (case state f of
                             State_Consume read cbytes compat_fill expand \<Rightarrow>
                               fsm_consume B read cbytes compat_fill expand f
                           | _ \<Rightarrow> f)
                  in if available_space B (buffer f) < length bs then
                       f\<lparr>buffer := grow B (max (capacity B (buffer f) * 2)
                           (capacity B (buffer f) + length bs)) (buffer f)\<rparr>
                     else f)
               else f)
      in and_then (copy_into_space B bs f) (\<lambda>f. Ok (fsm_fill B (length bs) f)))"

definition grow_compat :: "'b buf_ops \<Rightarrow> nat \<Rightarrow> 'b DbnFsm \<Rightarrow> 'b DbnFsm" where
  "grow_compat B n f = f\<lparr>compat_buffer := grow B n (compat_buffer f)\<rparr>"

definition has_decoded_metadata :: "'b DbnFsm \<Rightarrow> bool" where
  "has_decoded_metadata f =
     (case state f of State_Record \<Rightarrow> True | State_Consume _ _ _ _ \<Rightarrow> True | _ \<Rightarrow> False)"

definition fsm_reset :: "'b buf_ops \<Rightarrow> 'b DbnFsm \<Rightarrow> 'b DbnFsm" where
  "fsm_reset B f =
     f\<lparr>state := State_Prelude, buffer := reset B (buffer f),
       compat_buffer := reset B (compat_buffer f), input_dbn_version := None\<rparr>"

text \<open>\<^verbatim>\<open>skip\<close> also returns how many bytes the buffer consumed.\<close>

definition skip :: "'b buf_ops \<Rightarrow> nat \<Rightarrow> 'b DbnFsm \<Rightarrow> 'b DbnFsm \<times> nat" where
  "skip B nbytes f =
     (let f = (case state f of
                 State_Consume read cbytes compat_fill expand \<Rightarrow>
                   fsm_consume B read cbytes compat_fill expand f
               | _ \<Rightarrow> f)
      in (f\<lparr>buffer := consume B nbytes (buffer f)\<rparr>, min nbytes (available_data B (buffer f))))"

definition decode_prelude :: "'b buf_ops \<Rightarrow> 'b DbnFsm \<Rightarrow> ('b DbnFsm \<times> unit result) result" where
  "decode_prelude B f =
     (let data = data B (buffer f) in
      and_then (slice data 0 3) (\<lambda>prefix.
      if prefix \<noteq> as_bytes ''DBN'' then Ok (f, Err (Decode ''invalid DBN header''))
      else and_then (index data 3) (\<lambda>version.
      let f = f\<lparr>input_dbn_version := Some version\<rparr> in
      if version > DBN_VERSION then
        Ok (f, Err (Decode (''can't decode newer version of DBN. Decoder version is 3, input version is '' @
          dec_nat (unat version))))
      else case validate_compatibility (upgrade_policy f) version of
        Err e \<Rightarrow> Ok (f, Err e)
      | Panic p \<Rightarrow> Panic p
      | Ok _ \<Rightarrow>
      and_then (u32_at data 4) (\<lambda>metadata_length.
      if unat metadata_length < METADATA_FIXED_LEN then
        Ok (f, Err (Decode ''invalid DBN metadata. Metadata length shorter than fixed length.''))
      else
        let f = (if is_upgrade_situation (upgrade_policy f) version \<and> capacity B (compat_buffer f) = 0
                 then double_compat_buffer B f else f);
            f = f\<lparr>state := State_Metadata metadata_length\<rparr>;
            f = f\<lparr>buffer := consume_noshift B METADATA_PRELUDE_LEN (buffer f)\<rparr>;
            f = f\<lparr>buffer := grow B (unat metadata_length + METADATA_PRELUDE_LEN) (buffer f)\<rparr>
        in Ok (f, Ok ())))))"

definition decode_metadata ::
  "'d date_ops \<Rightarrow> 'b buf_ops \<Rightarrow> u32 \<Rightarrow> 'b DbnFsm \<Rightarrow> ('b DbnFsm \<times> 'd Metadata result) result" where
  "decode_metadata C B metadata_length f =
     (case input_dbn_version f of
        None \<Rightarrow> Panic ''called `Option::unwrap()` on a `None` value''
      | Some version \<Rightarrow>
          (case decode_metadata_impl C version (data B (buffer f)) of
             Panic p \<Rightarrow> Panic p
           | Err e \<Rightarrow> Ok (f, Err e)
           | Ok metadata \<Rightarrow>
               let metadata = metadata_upgrade (upgrade_policy f) metadata;
                   f = f\<lparr>fsm_ts_out := md_ts_out metadata\<rparr>;
                   f = f\<lparr>buffer := consume B (unat metadata_length) (buffer f)\<rparr>;
                   f = f\<lparr>buffer := shift B (buffer f)\<rparr>;
                   f = f\<lparr>state := State_Record\<rparr>
               in Ok (f, Ok metadata)))"

definition impossible_length :: "nat \<Rightarrow> error" where
  "impossible_length n =
     Decode (''invalid record with impossible length '' @ dec_nat n @ '' which is shorter than the header'')"

text \<open>One pass through the loop of \<^verbatim>\<open>process\<close>: continue with a state, or return.\<close>

definition process_step ::
  "'d date_ops \<Rightarrow> 'b buf_ops \<Rightarrow> 'b DbnFsm
   \<Rightarrow> ('b DbnFsm + 'b DbnFsm \<times> ('d, unit) ProcessResult) result" where
  "process_step C B f =
     (let available = available_data B (buffer f); data = data B (buffer f) in
      case state f of
        State_Prelude \<Rightarrow>
          if available < METADATA_PRELUDE_LEN then Ok (Inr (f, ReadMore (METADATA_PRELUDE_LEN - available)))
          else and_then (decode_prelude B f) (\<lambda>(f, r). case r of
              Err e \<Rightarrow> Ok (Inr (f, Result_Err e))
            | Panic p \<Rightarrow> Panic p
            | Ok _ \<Rightarrow> Ok (Inl f))
      | State_Metadata metadata_length \<Rightarrow>
          if available < unat metadata_length then Ok (Inr (f, ReadMore (unat metadata_length - available)))
          else and_then (decode_metadata C B metadata_length f) (\<lambda>(f, r). case r of
              Ok metadata \<Rightarrow> Ok (Inr (f, Result_Metadata metadata))
            | Err e \<Rightarrow> Ok (Inr (f, Result_Err e))
            | Panic p \<Rightarrow> Panic p)
      | State_Record \<Rightarrow>
          if available < HEADER_LEN then Ok (Inr (f, ReadMore (HEADER_LEN - available)))
          else and_then (index data 0) (\<lambda>len_byte.
            let rec_length = unat len_byte * LENGTH_MULTIPLIER in
            if rec_length < HEADER_LEN then Ok (Inr (f, Result_Err (impossible_length rec_length)))
            else if rec_length > available then Ok (Inr (f, ReadMore (rec_length - available)))
            else
              let prev_compat_cap = available_space B (compat_buffer f) in
              and_then (fsm_upgrade_record (input_dbn_version f) (upgrade_policy f) (fsm_ts_out f)
                  data (space B (compat_buffer f))) (\<lambda>(version, written, rem_compat, rec).
              let f = f\<lparr>input_dbn_version := version,
                        compat_buffer := set_space B (written @ rem_compat) (compat_buffer f)\<rparr> in
              case rec of
                None \<Rightarrow> Ok (Inl (double_compat_buffer B f))
              | Some _ \<Rightarrow>
                  let compat_bytes = prev_compat_cap - length rem_compat;
                      f = f\<lparr>compat_buffer := fill B compat_bytes (compat_buffer f)\<rparr>;
                      f = f\<lparr>state := State_Consume rec_length compat_bytes 0 False\<rparr>
                  in Ok (Inr (f, Result_Record ()))))
      | State_Consume read cbytes compat_fill expand \<Rightarrow>
          Ok (Inl (fsm_consume B read cbytes compat_fill expand f)))"

definition process ::
  "'d date_ops \<Rightarrow> 'b buf_ops \<Rightarrow> 'b DbnFsm \<Rightarrow> ('b DbnFsm \<times> ('d, unit) ProcessResult) result option" where
  "process C B f = iterate (process_step C B) f"

subsection \<open>Batches\<close>

text \<open>
  The first loop of \<^verbatim>\<open>process_multiple\<close> gets to the record state or returns early; the
  second decodes records while the destination has capacity. The destination is a
  \<^verbatim>\<open>RecRefBuf\<close>: a vector with an optional limit, or a slice; both accept the record with
  index \<open>n\<close> exactly if \<open>has_capacity n\<close>, and what they hold at the end is the list of the
  records pushed.
\<close>

definition advance_step ::
  "'d date_ops \<Rightarrow> 'b buf_ops \<Rightarrow> 'b DbnFsm
   \<Rightarrow> ('b DbnFsm + 'b DbnFsm \<times> ('d, unit) ProcessResult option) result" where
  "advance_step C B f =
     (let available = available_data B (buffer f) in
      case state f of
        State_Record \<Rightarrow> Ok (Inr (f, None))
      | State_Prelude \<Rightarrow>
          if available < METADATA_PRELUDE_LEN
          then Ok (Inr (f, Some (ReadMore (METADATA_PRELUDE_LEN - available))))
          else and_then (decode_prelude B f) (\<lambda>(f, r). case r of
              Err e \<Rightarrow> Ok (Inr (f, Some (Result_Err e)))
            | Panic p \<Rightarrow> Panic p
            | Ok _ \<Rightarrow> Ok (Inl f))
      | State_Metadata metadata_length \<Rightarrow>
          if available < unat metadata_length
          then Ok (Inr (f, Some (ReadMore (unat metadata_length - available))))
          else and_then (decode_metadata C B metadata_length f) (\<lambda>(f, r). case r of
              Ok metadata \<Rightarrow> Ok (Inr (f, Some (Result_Metadata metadata)))
            | Err e \<Rightarrow> Ok (Inr (f, Some (Result_Err e)))
            | Panic p \<Rightarrow> Panic p)
      | State_Consume read cbytes compat_fill expand \<Rightarrow>
          Ok (Inl (fsm_consume B read cbytes compat_fill expand f)))"

record batch =
  b_version :: "u8 option"
  b_read :: nat
  b_written :: bytes
  b_rem :: bytes
  b_refs :: "bytes list"
  b_expand :: bool

definition batch_step ::
  "(nat \<Rightarrow> bool) \<Rightarrow> VersionUpgradePolicy \<Rightarrow> bool \<Rightarrow> bytes \<Rightarrow> batch \<Rightarrow> (batch + batch \<times> error option) result" where
  "batch_step has_capacity policy ts_out all_data b =
     (if has_capacity (length (b_refs b)) \<and> b_read b < length all_data then
        and_then (slice_from all_data (b_read b)) (\<lambda>remaining_data.
        and_then (index remaining_data 0) (\<lambda>len_byte.
        let rec_length = unat len_byte * LENGTH_MULTIPLIER in
        if rec_length < HEADER_LEN then Ok (Inr (b, Some (impossible_length rec_length)))
        else if rec_length > length remaining_data then Ok (Inr (b, None))
        else and_then (fsm_upgrade_record (b_version b) policy ts_out remaining_data (b_rem b))
          (\<lambda>(version, written, new_rem, rec). case rec of
             None \<Rightarrow> Ok (Inr (b\<lparr>b_version := version, b_expand := True\<rparr>, None))
           | Some rec \<Rightarrow> Ok (Inl
               \<lparr>b_version = version, b_read = b_read b + rec_length, b_written = b_written b @ written,
                b_rem = new_rem, b_refs = b_refs b @ [rec], b_expand = b_expand b\<rparr>))))
      else Ok (Inr (b, None)))"

definition process_multiple ::
  "'d date_ops \<Rightarrow> 'b buf_ops \<Rightarrow> (nat \<Rightarrow> bool) \<Rightarrow> 'b DbnFsm
   \<Rightarrow> ('b DbnFsm \<times> bytes list \<times> ('d, nat) ProcessResult) result option" where
  "process_multiple C B has_capacity f =
     (case iterate (advance_step C B) f of
        None \<Rightarrow> None
      | Some (Err e) \<Rightarrow> Some (Err e)
      | Some (Panic p) \<Rightarrow> Some (Panic p)
      | Some (Ok (f, Some (ReadMore n))) \<Rightarrow> Some (Ok (f, [], ReadMore n))
      | Some (Ok (f, Some (Result_Metadata m))) \<Rightarrow> Some (Ok (f, [], Result_Metadata m))
      | Some (Ok (f, Some (Result_Err e))) \<Rightarrow> Some (Ok (f, [], Result_Err e))
      | Some (Ok (f, _)) \<Rightarrow>
          (case iterate (batch_step has_capacity (upgrade_policy f) (fsm_ts_out f) (data B (buffer f)))
                  \<lparr>b_version = input_dbn_version f, b_read = 0, b_written = [],
                   b_rem = space B (compat_buffer f), b_refs = [], b_expand = False\<rparr> of
             None \<Rightarrow> None
           | Some (Err e) \<Rightarrow> Some (Err e)
           | Some (Panic p) \<Rightarrow> Some (Panic p)
           | Some (Ok (b, failed)) \<Rightarrow>
               let f = f\<lparr>input_dbn_version := b_version b,
                         compat_buffer := set_space B (b_written b @ b_rem b) (compat_buffer f)\<rparr>
               in case failed of
                    Some e \<Rightarrow> Some (Ok (f, b_refs b, Result_Err e))
                  | None \<Rightarrow>
                      let compat_bytes = length (b_written b);
                          f = f\<lparr>state := State_Consume (b_read b) compat_bytes compat_bytes (b_expand b)\<rparr>
                      in Some (Ok (f, b_refs b, Result_Record (length (b_refs b))))))"

definition process_all ::
  "'d date_ops \<Rightarrow> 'b buf_ops \<Rightarrow> u64 option \<Rightarrow> 'b DbnFsm
   \<Rightarrow> ('b DbnFsm \<times> bytes list \<times> ('d, nat) ProcessResult) result option" where
  "process_all C B limit f =
     process_multiple C B (\<lambda>record_count. case limit of None \<Rightarrow> True | Some l \<Rightarrow> unat l > record_count) f"

definition process_many ::
  "'d date_ops \<Rightarrow> 'b buf_ops \<Rightarrow> nat \<Rightarrow> 'b DbnFsm
   \<Rightarrow> ('b DbnFsm \<times> bytes list \<times> ('d, nat) ProcessResult) result option" where
  "process_many C B slots f = process_multiple C B (\<lambda>record_count. record_count < slots) f"

subsection \<open>The builder\<close>

record DbnFsmBuilder =
  fb_input_dbn_version :: "u8 option"
  fb_upgrade_policy :: VersionUpgradePolicy
  fb_ts_out :: bool
  fb_skip_metadata :: bool
  fb_buffer_size :: nat
  fb_compat_size :: "nat option"

definition fsm_builder :: DbnFsmBuilder where
  "fsm_builder =
     \<lparr>fb_input_dbn_version = None, fb_upgrade_policy = VersionUpgradePolicy_UpgradeToV3, fb_ts_out = False,
      fb_skip_metadata = False, fb_buffer_size = DEFAULT_BUF_SIZE, fb_compat_size = None\<rparr>"

definition builder_input_dbn_version :: "u8 option \<Rightarrow> DbnFsmBuilder \<Rightarrow> DbnFsmBuilder result" where
  "builder_input_dbn_version version b =
     (case version of
        None \<Rightarrow> Ok (b\<lparr>fb_input_dbn_version := None\<rparr>)
      | Some v \<Rightarrow> and_then (dbn_version_try_from v) (\<lambda>v. Ok (b\<lparr>fb_input_dbn_version := Some v\<rparr>)))"

definition builder_upgrade_policy :: "VersionUpgradePolicy \<Rightarrow> DbnFsmBuilder \<Rightarrow> DbnFsmBuilder" where
  "builder_upgrade_policy p b = b\<lparr>fb_upgrade_policy := p\<rparr>"

definition builder_ts_out :: "bool \<Rightarrow> DbnFsmBuilder \<Rightarrow> DbnFsmBuilder" where
  "builder_ts_out t b = b\<lparr>fb_ts_out := t\<rparr>"

definition builder_skip_metadata :: "bool \<Rightarrow> DbnFsmBuilder \<Rightarrow> DbnFsmBuilder" where
  "builder_skip_metadata s b = b\<lparr>fb_skip_metadata := s\<rparr>"

definition builder_buffer_size :: "nat \<Rightarrow> DbnFsmBuilder \<Rightarrow> DbnFsmBuilder" where
  "builder_buffer_size n b = b\<lparr>fb_buffer_size := n\<rparr>"

definition builder_compat_size :: "nat \<Rightarrow> DbnFsmBuilder \<Rightarrow> DbnFsmBuilder" where
  "builder_compat_size n b = b\<lparr>fb_compat_size := Some n\<rparr>"

definition fsm_build :: "'b buf_ops \<Rightarrow> DbnFsmBuilder \<Rightarrow> 'b DbnFsm result" where
  "fsm_build B b =
     and_then (case fb_input_dbn_version b of
                 Some v \<Rightarrow> validate_compatibility (fb_upgrade_policy b) v
               | None \<Rightarrow> Ok ()) (\<lambda>_.
       Ok \<lparr>input_dbn_version = fb_input_dbn_version b, upgrade_policy = fb_upgrade_policy b,
           fsm_ts_out = fb_ts_out b,
           state = (if fb_skip_metadata b then State_Record else State_Prelude),
           buffer = with_capacity B (fb_buffer_size b),
           compat_buffer = with_capacity B (case fb_compat_size b of
               Some n \<Rightarrow> n
             | None \<Rightarrow>
                 if fb_skip_metadata b \<and>
                    (case fb_input_dbn_version b of
                       None \<Rightarrow> True
                     | Some v \<Rightarrow> is_upgrade_situation (fb_upgrade_policy b) v)
                 then DEFAULT_BUF_SIZE else 0)\<rparr>)"

end
