(* ===== verification/Reader.thy ===== *)
theory Reader
  imports Prelude
begin

text \<open>
  The standard library's \<^verbatim>\<open>io::Read\<close> and the forward seek of \<^verbatim>\<open>SkipBytes\<close>
  (rust/dbn/src/decode.rs) as the decoders use them. Generic code takes a dictionary of the
  reader's operations; \<^verbatim>\<open>read\<close> is given the length of the slice to fill and returns the
  bytes it put there or the kind of an error.

  What a decoder promises about the records it returns rests on the interface
  \<open>byte_reader\<close>: a reader delivers a fixed byte sequence in order, in pieces of any size, and
  delivers nothing only at its end. An in-memory source that hands out pieces of given sizes
  interprets it; with no sizes given it is the reader of a byte slice.
\<close>

section \<open>Definitions\<close>

datatype io_error_kind = UnexpectedEof | OtherKind

record 'r reader =
  read :: "nat \<Rightarrow> 'r \<Rightarrow> 'r \<times> (io_error_kind + bytes)"
  seek_current :: "nat \<Rightarrow> 'r \<Rightarrow> 'r \<times> bool"

definition skip_bytes :: "'r reader \<Rightarrow> nat \<Rightarrow> 'r \<Rightarrow> 'r \<times> unit result" where
  "skip_bytes R n_bytes r =
     (case seek_current R n_bytes r of
        (r, success) \<Rightarrow>
          (r, if success then Ok () else Err (Io (''seeking ahead '' @ dec_nat n_bytes @ '' bytes''))))"

text \<open>A source that delivers its bytes in pieces of the given sizes, as a socket would.\<close>

definition piece_reader :: "(nat list \<times> bytes) reader" where
  "piece_reader =
     \<lparr>read = (\<lambda>n (sizes, bs).
        let k = (case sizes of [] \<Rightarrow> n | s # _ \<Rightarrow> min n (max 1 s))
        in ((tl sizes, drop k bs), Inr (take k bs))),
      seek_current = (\<lambda>n (sizes, bs). ((sizes, drop n bs), True))\<rparr>"

section \<open>The interface\<close>

locale byte_reader =
  fixes R :: "'r reader" and pending :: "'r \<Rightarrow> bytes"
  assumes read_prefix:
    "\<exists>r' bs. read R n r = (r', Inr bs) \<and> length bs \<le> n \<and> pending r = bs @ pending r' \<and>
      (bs = [] \<longrightarrow> n = 0 \<or> pending r = [])"
begin

lemma readE:
  obtains r' bs where "read R n r = (r', Inr bs)" and "length bs \<le> n" and "pending r = bs @ pending r'"
    and "bs = [] \<Longrightarrow> n \<noteq> 0 \<Longrightarrow> pending r = []"
  using read_prefix [of n r] by blast

end

locale skipping_reader = byte_reader +
  assumes seek_drops: "\<exists>r'. seek_current R n r = (r', True) \<and> pending r' = drop n (pending r)"

interpretation piece: skipping_reader piece_reader snd
proof
  fix n :: nat and r :: "nat list \<times> bytes"
  obtain sizes bs where r: "r = (sizes, bs)" by (cases r)
  show "\<exists>r' bs. read piece_reader n r = (r', Inr bs) \<and> length bs \<le> n \<and> snd r = bs @ snd r' \<and>
      (bs = [] \<longrightarrow> n = 0 \<or> snd r = [])"
    by (cases sizes) (auto simp: piece_reader_def r Let_def)
  show "\<exists>r'. seek_current piece_reader n r = (r', True) \<and> snd r' = drop n (snd r)"
    by (simp add: piece_reader_def r)
qed

end
