(* ===== verification/Sync_Decoder.thy ===== *)
theory Sync_Decoder
  imports Fsm Reader
begin

text \<open>
  The blocking decoders of rust/dbn/src/decode/dbn/sync.rs: \<^verbatim>\<open>MetadataDecoder\<close>,
  \<^verbatim>\<open>RecordDecoder\<close> and \<^verbatim>\<open>Decoder\<close>, the default method \<^verbatim>\<open>decode_records\<close> of
  \<^verbatim>\<open>DecodeRecord\<close> (rust/dbn/src/decode.rs) and the streaming iterator of
  rust/dbn/src/decode/stream.rs. They drive the state machine of theory \<open>Fsm\<close> with the bytes of a
  reader.

  A method returns the decoder as it is afterwards with its Rust result; the outer \<open>result\<close>
  carries panics and the outer \<open>option\<close> is \<open>None\<close> when the method does not return.
\<close>

section \<open>Definitions\<close>

record ('r, 'b) RecordDecoder =
  rd_reader :: 'r
  rd_fsm :: "'b DbnFsm"

record ('r, 'b) MetadataDecoder =
  mdd_reader :: 'r
  mdd_fsm :: "'b DbnFsm"

record ('d, 'r, 'b) Decoder =
  dec_metadata :: "'d Metadata"
  dec_decoder :: "('r, 'b) RecordDecoder"

text \<open>\<^verbatim>\<open>reader.read(fsm.space())\<close>: the number of bytes put into the space, or the error.\<close>

definition read_into ::
  "'b buf_ops \<Rightarrow> 'r reader \<Rightarrow> 'r \<Rightarrow> 'b DbnFsm \<Rightarrow> ('r \<times> 'b DbnFsm \<times> (io_error_kind + nat)) result" where
  "read_into B R r f =
     (case read R (length (fsm_space B f)) r of
        (r, Inl kind) \<Rightarrow> Ok (r, f, Inl kind)
      | (r, Inr bs) \<Rightarrow> and_then (copy_into_space B bs f) (\<lambda>f. Ok (r, f, Inr (length bs))))"

subsection \<open>Records\<close>

definition record_decoder_with_version ::
  "'b buf_ops \<Rightarrow> 'r \<Rightarrow> u8 \<Rightarrow> VersionUpgradePolicy \<Rightarrow> bool \<Rightarrow> ('r, 'b) RecordDecoder result" where
  "record_decoder_with_version B r version policy ts_out =
     and_then (builder_input_dbn_version (Some version)
         (builder_skip_metadata True (builder_compat_size MAX_RECORD_LEN fsm_builder))) (\<lambda>b.
     and_then (fsm_build B (builder_ts_out ts_out (builder_upgrade_policy policy b))) (\<lambda>f.
       Ok \<lparr>rd_reader = r, rd_fsm = f\<rparr>))"

definition unwrap :: "'a result \<Rightarrow> 'a result" where
  "unwrap x = (case x of
     Err e \<Rightarrow> Panic ''called `Result::unwrap()` on an `Err` value'' | _ \<Rightarrow> x)"

definition record_decoder_new :: "'b buf_ops \<Rightarrow> 'r \<Rightarrow> ('r, 'b) RecordDecoder result" where
  "record_decoder_new B r =
     unwrap (record_decoder_with_version B r DBN_VERSION VersionUpgradePolicy_AsIs False)"

definition record_decoder_from ::
  "'b buf_ops \<Rightarrow> ('r, 'b) MetadataDecoder \<Rightarrow> ('r, 'b) RecordDecoder result" where
  "record_decoder_from B md =
     (case input_dbn_version (mdd_fsm md) of
        None \<Rightarrow> Panic ''called `Option::unwrap()` on a `None` value''
      | Some version \<Rightarrow>
          Ok \<lparr>rd_reader = mdd_reader md,
              rd_fsm = (if is_upgrade_situation (upgrade_policy (mdd_fsm md)) version
                        then grow_compat B DEFAULT_BUF_SIZE (mdd_fsm md) else mdd_fsm md)\<rparr>)"

definition record_decoder_set_version :: "u8 \<Rightarrow> ('r, 'b) RecordDecoder \<Rightarrow> ('r, 'b) RecordDecoder result" where
  "record_decoder_set_version version d =
     and_then (set_input_dbn_version version (rd_fsm d)) (\<lambda>f. Ok (d\<lparr>rd_fsm := f\<rparr>))"

definition record_decoder_set_upgrade_policy ::
  "VersionUpgradePolicy \<Rightarrow> ('r, 'b) RecordDecoder \<Rightarrow> ('r, 'b) RecordDecoder result" where
  "record_decoder_set_upgrade_policy policy d =
     and_then (set_upgrade_policy policy (rd_fsm d)) (\<lambda>f. Ok (d\<lparr>rd_fsm := f\<rparr>))"

definition record_decoder_set_ts_out :: "bool \<Rightarrow> ('r, 'b) RecordDecoder \<Rightarrow> ('r, 'b) RecordDecoder" where
  "record_decoder_set_ts_out t d = d\<lparr>rd_fsm := fsm_set_ts_out t (rd_fsm d)\<rparr>"

partial_function (option) decode_ref ::
  "'d date_ops \<Rightarrow> 'b buf_ops \<Rightarrow> 'r reader \<Rightarrow> ('r, 'b) RecordDecoder
   \<Rightarrow> (('r, 'b) RecordDecoder \<times> bytes option result) result option" where
  "decode_ref C B R d =
     (case process C B (rd_fsm d) of
        None \<Rightarrow> None
      | Some (Panic p) \<Rightarrow> Some (Panic p)
      | Some (Err e) \<Rightarrow> Some (Err e)
      | Some (Ok (f, ReadMore _)) \<Rightarrow>
          (case read_into B R (rd_reader d) f of
             Panic p \<Rightarrow> Some (Panic p)
           | Err e \<Rightarrow> Some (Err e)
           | Ok (r, f, Inr nbytes) \<Rightarrow>
               if nbytes = 0 then Some (Ok (\<lparr>rd_reader = r, rd_fsm = f\<rparr>, Ok None))
               else decode_ref C B R \<lparr>rd_reader = r, rd_fsm = fsm_fill B nbytes f\<rparr>
           | Ok (r, f, Inl UnexpectedEof) \<Rightarrow> Some (Ok (\<lparr>rd_reader = r, rd_fsm = f\<rparr>, Ok None))
           | Ok (r, f, Inl OtherKind) \<Rightarrow>
               Some (Ok (\<lparr>rd_reader = r, rd_fsm = f\<rparr>, Err (Io ''decoding record reference''))))
      | Some (Ok (f, Result_Record _)) \<Rightarrow>
          Some (Ok (\<lparr>rd_reader = rd_reader d, rd_fsm = f\<rparr>, Ok (last_record B f)))
      | Some (Ok (f, Result_Err e)) \<Rightarrow> Some (Ok (\<lparr>rd_reader = rd_reader d, rd_fsm = f\<rparr>, Err e))
      | Some (Ok (f, Result_Metadata _)) \<Rightarrow>
          Some (Panic ''internal error: entered unreachable code: skipped metadata''))"

definition record_decode ::
  "'t record_type \<Rightarrow> 'd date_ops \<Rightarrow> 'b buf_ops \<Rightarrow> 'r reader \<Rightarrow> ('r, 'b) RecordDecoder
   \<Rightarrow> (('r, 'b) RecordDecoder \<times> 't option result) result option" where
  "record_decode T C B R d =
     (case decode_ref C B R d of
        None \<Rightarrow> None
      | Some res \<Rightarrow> Some (and_then res (\<lambda>(d, found).
          Ok (d, and_then found (\<lambda>rec. case rec of
              Some rec \<Rightarrow> and_then (rr_try_get T rec) (\<lambda>x. Ok (Some x))
            | None \<Rightarrow> Ok None)))))"

definition record_decoder_skip_bytes ::
  "'b buf_ops \<Rightarrow> 'r reader \<Rightarrow> nat \<Rightarrow> ('r, 'b) RecordDecoder \<Rightarrow> ('r, 'b) RecordDecoder \<times> unit result" where
  "record_decoder_skip_bytes B R n_bytes d =
     (case skip B n_bytes (rd_fsm d) of
        (f, skipped) \<Rightarrow>
          if skipped < n_bytes then
            (case skip_bytes R (n_bytes - skipped) (rd_reader d) of
               (r, res) \<Rightarrow> (\<lparr>rd_reader = r, rd_fsm = f\<rparr>, res))
          else (\<lparr>rd_reader = rd_reader d, rd_fsm = f\<rparr>, Ok ()))"

subsection \<open>Metadata\<close>

definition metadata_decoder_new :: "'b buf_ops \<Rightarrow> 'r \<Rightarrow> ('r, 'b) MetadataDecoder" where
  "metadata_decoder_new B r = \<lparr>mdd_reader = r, mdd_fsm = fsm_new B DEFAULT_BUF_SIZE 0\<rparr>"

definition metadata_decoder_with_upgrade_policy ::
  "'b buf_ops \<Rightarrow> 'r \<Rightarrow> VersionUpgradePolicy \<Rightarrow> ('r, 'b) MetadataDecoder result" where
  "metadata_decoder_with_upgrade_policy B r policy =
     and_then (unwrap (fsm_build B (builder_upgrade_policy policy (builder_compat_size 0 fsm_builder))))
       (\<lambda>f. Ok \<lparr>mdd_reader = r, mdd_fsm = f\<rparr>)"

text \<open>The loop that reads until the missing bytes have arrived; \<open>Some e\<close> is its early return.\<close>

definition fill_step ::
  "'b buf_ops \<Rightarrow> 'r reader \<Rightarrow> nat \<Rightarrow> nat \<times> ('r, 'b) MetadataDecoder
   \<Rightarrow> (nat \<times> ('r, 'b) MetadataDecoder + ('r, 'b) MetadataDecoder \<times> error option) result" where
  "fill_step B R n = (\<lambda>(total_read, md).
     and_then (read_into B R (mdd_reader md) (mdd_fsm md)) (\<lambda>(r, f, got). case got of
         Inl _ \<Rightarrow> Ok (Inr (\<lparr>mdd_reader = r, mdd_fsm = f\<rparr>, Some (Io ''decoding metadata'')))
       | Inr nread \<Rightarrow>
           if nread = 0 then Ok (Inr (\<lparr>mdd_reader = r, mdd_fsm = f\<rparr>, Some (Io ''decoding metadata'')))
           else
             let md = \<lparr>mdd_reader = r, mdd_fsm = fsm_fill B nread f\<rparr>; total_read = total_read + nread
             in if total_read \<ge> n then Ok (Inr (md, None)) else Ok (Inl (total_read, md))))"

text \<open>The second call of \<^verbatim>\<open>process\<close>, after the missing bytes were read.\<close>

definition metadata_process_again ::
  "'d date_ops \<Rightarrow> 'b buf_ops \<Rightarrow> ('r, 'b) MetadataDecoder
   \<Rightarrow> (('r, 'b) MetadataDecoder \<times> 'd Metadata result) result option" where
  "metadata_process_again C B md =
     (case process C B (mdd_fsm md) of
        None \<Rightarrow> None
      | Some res \<Rightarrow> Some (and_then res (\<lambda>(f, r). case r of
            Result_Metadata m \<Rightarrow> Ok (md\<lparr>mdd_fsm := f\<rparr>, Ok m)
          | Result_Err e \<Rightarrow> Ok (md\<lparr>mdd_fsm := f\<rparr>, Err e)
          | ReadMore _ \<Rightarrow> Panic ''internal error: entered unreachable code: read requested number of bytes''
          | Result_Record _ \<Rightarrow> Panic ''internal error: entered unreachable code: metadata precedes records'')))"

definition metadata_decoder_decode ::
  "'d date_ops \<Rightarrow> 'b buf_ops \<Rightarrow> 'r reader \<Rightarrow> ('r, 'b) MetadataDecoder
   \<Rightarrow> (('r, 'b) MetadataDecoder \<times> 'd Metadata result) result option" where
  "metadata_decoder_decode C B R md =
     (case read_into B R (mdd_reader md) (mdd_fsm md) of
        Panic p \<Rightarrow> Some (Panic p)
      | Err e \<Rightarrow> Some (Err e)
      | Ok (r, f, Inl _) \<Rightarrow> Some (Ok (\<lparr>mdd_reader = r, mdd_fsm = f\<rparr>, Err (Io ''decoding metadata'')))
      | Ok (r, f, Inr nbytes) \<Rightarrow>
          (case process C B (fsm_fill B nbytes f) of
             None \<Rightarrow> None
           | Some (Panic p) \<Rightarrow> Some (Panic p)
           | Some (Err e) \<Rightarrow> Some (Err e)
           | Some (Ok (f, Result_Metadata m)) \<Rightarrow> Some (Ok (\<lparr>mdd_reader = r, mdd_fsm = f\<rparr>, Ok m))
           | Some (Ok (f, Result_Record _)) \<Rightarrow>
               Some (Panic ''internal error: entered unreachable code: metadata precedes records'')
           | Some (Ok (f, Result_Err e)) \<Rightarrow> Some (Ok (\<lparr>mdd_reader = r, mdd_fsm = f\<rparr>, Err e))
           | Some (Ok (f, ReadMore n)) \<Rightarrow>
               (case iterate (fill_step B R n) (0, \<lparr>mdd_reader = r, mdd_fsm = f\<rparr>) of
                  None \<Rightarrow> None
                | Some (Panic p) \<Rightarrow> Some (Panic p)
                | Some (Err e) \<Rightarrow> Some (Err e)
                | Some (Ok (md, Some e)) \<Rightarrow> Some (Ok (md, Err e))
                | Some (Ok (md, None)) \<Rightarrow> metadata_process_again C B md)))"

subsection \<open>Metadata and records\<close>

text \<open>\<^verbatim>\<open>Decoder::new\<close> and \<^verbatim>\<open>Decoder::with_upgrade_policy\<close> from a metadata decoder on.\<close>

definition decoder_from_metadata ::
  "'d date_ops \<Rightarrow> 'b buf_ops \<Rightarrow> 'r reader \<Rightarrow> ('r, 'b) MetadataDecoder \<Rightarrow> ('d, 'r, 'b) Decoder result option" where
  "decoder_from_metadata C B R md =
     (case metadata_decoder_decode C B R md of
        None \<Rightarrow> None
      | Some res \<Rightarrow> Some (and_then res (\<lambda>(md, found).
          and_then found (\<lambda>m.
          and_then (record_decoder_from B md) (\<lambda>d.
            Ok \<lparr>dec_metadata = m, dec_decoder = d\<rparr>)))))"

definition decoder_new ::
  "'d date_ops \<Rightarrow> 'b buf_ops \<Rightarrow> 'r reader \<Rightarrow> 'r \<Rightarrow> ('d, 'r, 'b) Decoder result option" where
  "decoder_new C B R r = decoder_from_metadata C B R (metadata_decoder_new B r)"

definition decoder_with_upgrade_policy ::
  "'d date_ops \<Rightarrow> 'b buf_ops \<Rightarrow> 'r reader \<Rightarrow> 'r \<Rightarrow> VersionUpgradePolicy
   \<Rightarrow> ('d, 'r, 'b) Decoder result option" where
  "decoder_with_upgrade_policy C B R r policy =
     (case metadata_decoder_with_upgrade_policy B r policy of
        Ok md \<Rightarrow> decoder_from_metadata C B R md
      | Err e \<Rightarrow> Some (Err e)
      | Panic p \<Rightarrow> Some (Panic p))"

definition decoder_set_upgrade_policy ::
  "VersionUpgradePolicy \<Rightarrow> ('d, 'r, 'b) Decoder \<Rightarrow> ('d, 'r, 'b) Decoder result" where
  "decoder_set_upgrade_policy policy d =
     and_then (record_decoder_set_upgrade_policy policy (dec_decoder d)) (\<lambda>rd.
       Ok (d\<lparr>dec_decoder := rd, dec_metadata := metadata_upgrade policy (dec_metadata d)\<rparr>))"

definition decoder_decode_record_ref ::
  "'d date_ops \<Rightarrow> 'b buf_ops \<Rightarrow> 'r reader \<Rightarrow> ('d, 'r, 'b) Decoder
   \<Rightarrow> (('d, 'r, 'b) Decoder \<times> bytes option result) result option" where
  "decoder_decode_record_ref C B R d =
     (case decode_ref C B R (dec_decoder d) of
        None \<Rightarrow> None
      | Some res \<Rightarrow> Some (and_then res (\<lambda>(rd, found). Ok (d\<lparr>dec_decoder := rd\<rparr>, found))))"

definition decoder_decode_record ::
  "'t record_type \<Rightarrow> 'd date_ops \<Rightarrow> 'b buf_ops \<Rightarrow> 'r reader \<Rightarrow> ('d, 'r, 'b) Decoder
   \<Rightarrow> (('d, 'r, 'b) Decoder \<times> 't option result) result option" where
  "decoder_decode_record T C B R d =
     (case record_decode T C B R (dec_decoder d) of
        None \<Rightarrow> None
      | Some res \<Rightarrow> Some (and_then res (\<lambda>(rd, found). Ok (d\<lparr>dec_decoder := rd\<rparr>, found))))"

subsection \<open>Default methods and the streaming iterator\<close>

text \<open>They are generic in the decoder, given by its \<^verbatim>\<open>decode_record\<close>.\<close>

partial_function (option) decode_records ::
  "('s \<Rightarrow> ('s \<times> 't option result) result option) \<Rightarrow> 's \<Rightarrow> 't list \<Rightarrow> 't list result option" where
  "decode_records decode_record s res =
     (case decode_record s of
        None \<Rightarrow> None
      | Some (Panic p) \<Rightarrow> Some (Panic p)
      | Some (Err e) \<Rightarrow> Some (Err e)
      | Some (Ok (s, Ok (Some rec))) \<Rightarrow> decode_records decode_record s (res @ [rec])
      | Some (Ok (s, Ok None)) \<Rightarrow> Some (Ok res)
      | Some (Ok (s, Err e)) \<Rightarrow> Some (Err e)
      | Some (Ok (s, Panic p)) \<Rightarrow> Some (Panic p))"

record 's StreamIterDecoder =
  sid_decoder :: 's
  sid_i :: "nat option"

definition stream_new :: "'s \<Rightarrow> 's StreamIterDecoder" where
  "stream_new d = \<lparr>sid_decoder = d, sid_i = Some 0\<rparr>"

definition stream_advance ::
  "('s \<Rightarrow> ('s \<times> 't option result) result option) \<Rightarrow> 's StreamIterDecoder
   \<Rightarrow> ('s StreamIterDecoder \<times> unit result) result option" where
  "stream_advance decode_record it =
     (case sid_i it of
        None \<Rightarrow> Some (Ok (it, Ok ()))
      | Some i \<Rightarrow>
          (case decode_record (sid_decoder it) of
             None \<Rightarrow> None
           | Some res \<Rightarrow> Some (and_then res (\<lambda>(d, found). case found of
                 Ok (Some _) \<Rightarrow> Ok (\<lparr>sid_decoder = d, sid_i = Some (i + 1)\<rparr>, Ok ())
               | Ok None \<Rightarrow> Ok (\<lparr>sid_decoder = d, sid_i = None\<rparr>, Ok ())
               | Err e \<Rightarrow> Ok (\<lparr>sid_decoder = d, sid_i = None\<rparr>, Err e)
               | Panic p \<Rightarrow> Panic p))))"

definition stream_get ::
  "'t record_type \<Rightarrow> ('s \<Rightarrow> bytes option) \<Rightarrow> 's StreamIterDecoder \<Rightarrow> 't option" where
  "stream_get T last_rec it =
     (case sid_i it of
        Some _ \<Rightarrow> map_option (rr_get_unchecked T) (last_rec (sid_decoder it))
      | None \<Rightarrow> None)"

end
