(* ===== verification/Fsm_Spec.thy ===== *)
theory Fsm_Spec
  imports Fsm
begin

text \<open>
  What the decoder state machine promises, stated without buffers, and the proof that
  \<^verbatim>\<open>process\<close> implements it.

  The abstract decoder has the configuration, the phase and the bytes not yet decoded; a step
  yields the request for more bytes, the metadata, the bytes of the next record, or an error.
  The upgrade of a record is one of seven conversions, chosen by version, policy and record
  type. The state machine refines it: from every state that satisfies the invariant, with
  buffers that meet the interface \<open>oval_buffer\<close>, \<open>process\<close> returns, and its result and
  the record it exposes are those of the abstract decoder, whatever the sizes of the buffers.
\<close>

section \<open>Definitions\<close>

subsection \<open>The choice of a conversion\<close>

datatype upgrade = Up_Def12 | Up_Def13 | Up_Def23 | Up_Stat | Up_Symbol | Up_Error | Up_System

definition convert ::
  "'t record_type \<Rightarrow> 'u record_type \<Rightarrow> ('t \<Rightarrow> 'u) \<Rightarrow> bytes \<Rightarrow> bytes result" where
  "convert T U conv input =
     and_then (rr_get T input) (\<lambda>found. case found of
       None \<Rightarrow> Panic ''called `Option::unwrap()` on a `None` value''
     | Some rec \<Rightarrow> Ok (as_ref U (conv rec)))"

definition convert_ts_out ::
  "'t record_type \<Rightarrow> 'u record_type \<Rightarrow> ('t \<Rightarrow> 'u) \<Rightarrow> bool \<Rightarrow> bytes \<Rightarrow> bytes result" where
  "convert_ts_out T U conv ts_out input =
     (if ts_out
      then convert (with_ts_out_type T) (with_ts_out_type U)
        (\<lambda>rec. with_ts_out_new U (conv (wto_rec rec)) (wto_ts_out rec)) input
      else convert T U conv input)"

primrec apply_upgrade :: "upgrade \<Rightarrow> bool \<Rightarrow> bytes \<Rightarrow> bytes result" where
  "apply_upgrade Up_Def12 = convert_ts_out InstrumentDefMsgV1_type InstrumentDefMsgV2_type InstrumentDefMsgV2_from_v1"
| "apply_upgrade Up_Def13 = convert_ts_out InstrumentDefMsgV1_type InstrumentDefMsg_type InstrumentDefMsg_from_v1"
| "apply_upgrade Up_Def23 = convert_ts_out InstrumentDefMsgV2_type InstrumentDefMsg_type InstrumentDefMsg_from_v2"
| "apply_upgrade Up_Stat = convert_ts_out StatMsgV1_type StatMsg_type StatMsg_from_v1"
| "apply_upgrade Up_Symbol = convert_ts_out SymbolMappingMsgV1_type SymbolMappingMsg_type SymbolMappingMsg_from_v1"
| "apply_upgrade Up_Error = convert_ts_out ErrorMsgV1_type ErrorMsg_type ErrorMsg_from_v1"
| "apply_upgrade Up_System = convert_ts_out SystemMsgV1_type SystemMsg_type SystemMsg_from_v1"

definition upgrade_for :: "u8 \<Rightarrow> VersionUpgradePolicy \<Rightarrow> u8 \<Rightarrow> upgrade option" where
  "upgrade_for version policy rtype =
     (if \<not> is_upgrade_situation policy version \<or> version = 0 then None
      else if rtype = rtype_as_u8 RType_InstrumentDef then
        Some (if version = 2 then Up_Def23
              else if policy = VersionUpgradePolicy_UpgradeToV2 then Up_Def12 else Up_Def13)
      else if rtype = rtype_as_u8 RType_Statistics then
        (if policy = VersionUpgradePolicy_UpgradeToV3 then Some Up_Stat else None)
      else if version = 2 then None
      else if rtype = rtype_as_u8 RType_SymbolMapping then Some Up_Symbol
      else if rtype = rtype_as_u8 RType_Error then Some Up_Error
      else if rtype = rtype_as_u8 RType_System then Some Up_System
      else None)"

definition detect_for :: "VersionUpgradePolicy \<Rightarrow> u8 \<Rightarrow> nat \<Rightarrow> (u8 option \<times> upgrade) option" where
  "detect_for policy rtype rec_size =
     (if policy = VersionUpgradePolicy_AsIs then None
      else if rtype = rtype_as_u8 RType_InstrumentDef then
        (if rec_size < 400 then
           Some (Some 1, if policy = VersionUpgradePolicy_UpgradeToV2 then Up_Def12 else Up_Def13)
         else if rec_size < 520 \<and> policy = VersionUpgradePolicy_UpgradeToV3 then Some (Some 2, Up_Def23)
         else None)
      else if rtype = rtype_as_u8 RType_Statistics then
        (if rec_size < 80 \<and> policy = VersionUpgradePolicy_UpgradeToV3 then Some (None, Up_Stat) else None)
      else if rtype = rtype_as_u8 RType_SymbolMapping then
        (if rec_size < 176 then Some (Some 1, Up_Symbol) else None)
      else if rtype = rtype_as_u8 RType_Error then
        (if rec_size < 320 then Some (Some 1, Up_Error) else None)
      else if rtype = rtype_as_u8 RType_System then
        (if rec_size < 320 then Some (Some 1, Up_System) else None)
      else None)"

text \<open>The version known afterwards, and the converted record if there is a conversion.\<close>

definition select_upgrade ::
  "u8 option \<Rightarrow> VersionUpgradePolicy \<Rightarrow> bool \<Rightarrow> bytes \<Rightarrow> (u8 option \<times> bytes option) result" where
  "select_upgrade version policy ts_out bs =
     (let rtype = rh_rtype (rr_header bs) in
      case version of
        Some v \<Rightarrow>
          (case upgrade_for v policy rtype of
             Some u \<Rightarrow> and_then (apply_upgrade u ts_out bs) (\<lambda>w. Ok (Some v, Some w))
           | None \<Rightarrow> if v > DBN_VERSION then Panic (''Unsupported version '' @ dec_nat (unat v))
                     else Ok (Some v, None))
      | None \<Rightarrow>
          (case detect_for policy rtype (rr_record_size bs) of
             Some (v, u) \<Rightarrow> and_then (apply_upgrade u ts_out bs) (\<lambda>w. Ok (v, Some w))
           | None \<Rightarrow> Ok (None, None)))"

subsection \<open>The abstract decoder\<close>

datatype phase = Ph_Prelude | Ph_Metadata u32 | Ph_Record

record decoder =
  d_version :: "u8 option"
  d_policy :: VersionUpgradePolicy
  d_ts_out :: bool
  d_phase :: phase
  d_bytes :: bytes

datatype 'd outcome =
    More nat
  | Got_Metadata "'d Metadata"
  | Got_Record bytes
  | Failed error

definition spec_record :: "decoder \<Rightarrow> (decoder \<times> 'd outcome) result" where
  "spec_record a =
     (let available = length (d_bytes a); rec_length = unat (hd (d_bytes a)) * 4 in
      if available < 16 then Ok (a, More (16 - available))
      else if rec_length < 16 then Ok (a, Failed (impossible_length rec_length))
      else if available < rec_length then Ok (a, More (rec_length - available))
      else and_then (select_upgrade (d_version a) (d_policy a) (d_ts_out a) (d_bytes a)) (\<lambda>(v, up).
        Ok (a\<lparr>d_version := v, d_bytes := drop rec_length (d_bytes a)\<rparr>,
            Got_Record (case up of Some w \<Rightarrow> w | None \<Rightarrow> take rec_length (d_bytes a)))))"

definition spec_metadata :: "'d date_ops \<Rightarrow> u32 \<Rightarrow> decoder \<Rightarrow> (decoder \<times> 'd outcome) result" where
  "spec_metadata C n a =
     (if length (d_bytes a) < unat n then Ok (a, More (unat n - length (d_bytes a)))
      else case decode_metadata_impl C (the (d_version a)) (d_bytes a) of
        Ok m \<Rightarrow> Ok (a\<lparr>d_ts_out := md_ts_out m, d_phase := Ph_Record,
                      d_bytes := drop (unat n) (d_bytes a)\<rparr>,
                   Got_Metadata (metadata_upgrade (d_policy a) m))
      | Err e \<Rightarrow> Ok (a, Failed e)
      | Panic p \<Rightarrow> Panic p)"

definition prelude_error :: "VersionUpgradePolicy \<Rightarrow> bytes \<Rightarrow> error option" where
  "prelude_error policy bs =
     (if take 3 bs \<noteq> as_bytes ''DBN'' then Some (Decode ''invalid DBN header'')
      else if bs ! 3 > DBN_VERSION then
        Some (Decode (''can't decode newer version of DBN. Decoder version is 3, input version is '' @
          dec_nat (unat (bs ! 3))))
      else case validate_compatibility policy (bs ! 3) of
        Err e \<Rightarrow> Some e
      | _ \<Rightarrow>
        if unat (fst (get_u32 (drop 4 bs))) < METADATA_FIXED_LEN
        then Some (Decode ''invalid DBN metadata. Metadata length shorter than fixed length.'')
        else None)"

definition spec_process :: "'d date_ops \<Rightarrow> decoder \<Rightarrow> (decoder \<times> 'd outcome) result" where
  "spec_process C a =
     (case d_phase a of
        Ph_Prelude \<Rightarrow>
          if length (d_bytes a) < 8 then Ok (a, More (8 - length (d_bytes a)))
          else (case prelude_error (d_policy a) (d_bytes a) of
             Some e \<Rightarrow>
               Ok (if take 3 (d_bytes a) = as_bytes ''DBN''
                   then a\<lparr>d_version := Some (d_bytes a ! 3)\<rparr> else a, Failed e)
           | None \<Rightarrow>
               let n = fst (get_u32 (drop 4 (d_bytes a))) in
               spec_metadata C n (a\<lparr>d_version := Some (d_bytes a ! 3), d_phase := Ph_Metadata n,
                 d_bytes := drop 8 (d_bytes a)\<rparr>))
      | Ph_Metadata n \<Rightarrow> spec_metadata C n a
      | Ph_Record \<Rightarrow> spec_record a)"

subsection \<open>Abstraction and invariant of the state machine\<close>

definition fsm_abs :: "'b buf_ops \<Rightarrow> 'b DbnFsm \<Rightarrow> decoder" where
  "fsm_abs B f =
     \<lparr>d_version = input_dbn_version f, d_policy = upgrade_policy f, d_ts_out = fsm_ts_out f,
      d_phase = (case state f of State_Prelude \<Rightarrow> Ph_Prelude | State_Metadata n \<Rightarrow> Ph_Metadata n
                 | _ \<Rightarrow> Ph_Record),
      d_bytes = (case state f of
          State_Consume read cbytes compat_fill expand \<Rightarrow> drop read (data B (buffer f))
        | _ \<Rightarrow> data B (buffer f))\<rparr>"

definition fsm_inv :: "'b buf_ops \<Rightarrow> 'b DbnFsm \<Rightarrow> bool" where
  "fsm_inv B f \<longleftrightarrow>
     (case state f of
        State_Consume read cbytes compat_fill expand \<Rightarrow>
          read \<le> length (data B (buffer f)) \<and>
          (if compat_fill = 0 then length (data B (compat_buffer f)) = cbytes
           else compat_fill = cbytes \<and> data B (compat_buffer f) = [] \<and>
             cbytes \<le> length (space B (compat_buffer f)))
      | State_Metadata n \<Rightarrow> data B (compat_buffer f) = [] \<and> input_dbn_version f \<noteq> None
      | _ \<Rightarrow> data B (compat_buffer f) = [])"

definition output_of :: "'b buf_ops \<Rightarrow> 'b DbnFsm \<Rightarrow> ('d, unit) ProcessResult \<Rightarrow> 'd outcome" where
  "output_of B f r =
     (case r of
        ReadMore n \<Rightarrow> More n
      | Result_Metadata m \<Rightarrow> Got_Metadata m
      | Result_Record _ \<Rightarrow> Got_Record (rr_as_ref (the (last_record B f)))
      | Result_Err e \<Rightarrow> Failed e)"

section \<open>The conversions\<close>

text \<open>How a converted record is handed to the caller, given the space for it.\<close>

definition offer :: "bytes option \<Rightarrow> bytes \<Rightarrow> bytes \<Rightarrow> bytes \<times> bytes \<times> bytes option" where
  "offer up bs compat_space =
     (case up of
        None \<Rightarrow> ([], compat_space, Some bs)
      | Some w \<Rightarrow> if length w \<ge> length compat_space then ([], compat_space, None)
                   else (w, drop (length w) compat_space, Some w))"

lemma rr_get_Some:
  assumes "dbn_record T" and "rr_get T bs = Ok (Some r)" and "rr_record_size bs \<le> length bs"
  shows "rec_ok T r"
proof -
  have "size_of T \<le> length bs" "r = rd (cast T) bs"
    using assms(2,3) by (auto simp: rr_get_def split: if_splits)
  then show ?thesis using codec.rd_ok [OF dbn_record.layout [OF assms(1)]] by simp
qed

lemma upgrade_cast_convert:
  assumes "dbn_record T" and "dbn_record U" and "\<And>r. rec_ok T r \<Longrightarrow> rec_ok U (conv r)"
    and "rr_record_size bs \<le> length bs"
  shows "upgrade_cast T U conv compat_space bs = and_then (convert T U conv bs) (\<lambda>w. Ok (offer (Some w) bs compat_space))"
proof (cases "rr_get T bs")
  case (Ok found)
  have "length (as_ref U (conv r)) = size_of U" if "found = Some r" for r
    using assms(3) rr_get_Some [OF assms(1) _ assms(4), of r] Ok that
      codec.length_put [OF dbn_record.layout [OF assms(2)]] by simp
  then show ?thesis
    using Ok by (auto simp: upgrade_cast_def convert_def offer_def split: option.split)
qed (simp_all add: upgrade_cast_def convert_def)

context record_upgrade
begin

lemma ts_out_records: "dbn_record (with_ts_out_type T)" "dbn_record (with_ts_out_type U)"
  using with_ts_out_record src.dbn_struct_axioms dst.dbn_struct_axioms by blast+

lemma ts_out_ok:
  "rec_ok (with_ts_out_type T) r \<Longrightarrow>
   rec_ok (with_ts_out_type U) (with_ts_out_new U (conv (wto_rec r)) (wto_ts_out r))"
  using dst.set_header_ok conv_ok by (simp add: with_ts_out_new_def with_ts_out_type_def Let_def)

lemma upgrade_record_convert:
  assumes "rr_record_size bs \<le> length bs"
  shows "upgrade_record T U conv ts compat_space bs =
    and_then (convert_ts_out T U conv ts bs) (\<lambda>w. Ok (offer (Some w) bs compat_space))"
  using upgrade_cast_convert [OF src.dbn_record_axioms dst.dbn_record_axioms conv_ok assms]
    upgrade_cast_convert [OF ts_out_records ts_out_ok assms]
  by (simp add: upgrade_record_def convert_ts_out_def)

lemma ts_out_new_size:
  "header_record_size (header (with_ts_out_type U) (with_ts_out_new U r t)) = size_of (with_ts_out_type U)"
  using dbn_record.unat_size_div [OF ts_out_records(2)] dst.header_set
  by (simp add: with_ts_out_new_def Let_def with_ts_out_type_def header_record_size_def LENGTH_MULTIPLIER_def)

lemma as_ref_whole:
  assumes "dbn_record V" and "rec_ok V r" and "header_record_size (header V r) = size_of V"
  shows "rr_as_ref (as_ref V r) = as_ref V r \<and> length (as_ref V r) = size_of V \<and>
    rr_header (as_ref V r) = header V r"
  using assms(3) dbn_record.rr_header_as_ref [OF assms(1,2), of "[]"]
    codec.length_put [OF dbn_record.layout [OF assms(1)] assms(2)]
  by (simp add: rr_as_ref_def rr_record_size_def)

text \<open>A converted record is exactly a well-formed record of the new type.\<close>

lemma convert_result:
  assumes "convert_ts_out T U conv ts bs = Ok w" and "rr_record_size bs \<le> length bs"
  shows "rr_as_ref w = w \<and> length w = size_of U + (if ts then 8 else 0) \<and>
    rh_rtype (rr_header w) = rtype_as_u8 rt"
proof (cases ts)
  case True
  then obtain r where r: "rr_get (with_ts_out_type T) bs = Ok (Some r)"
    and w: "w = as_ref (with_ts_out_type U) (with_ts_out_new U (conv (wto_rec r)) (wto_ts_out r))"
    using assms(1) by (auto simp: convert_ts_out_def convert_def and_then_eq_Ok split: option.splits)
  have "rh_rtype (header (with_ts_out_type U) (with_ts_out_new U (conv (wto_rec r)) (wto_ts_out r))) = rtype_as_u8 rt"
    using conv_header_fields(4) dst.header_set by (simp add: with_ts_out_new_def Let_def with_ts_out_type_def)
  then show ?thesis
    using as_ref_whole [OF ts_out_records(2) ts_out_ok [OF rr_get_Some [OF ts_out_records(1) r assms(2)]] ts_out_new_size]
      w True by (simp add: with_ts_out_type_def)
next
  case False
  then obtain r where r: "rr_get T bs = Ok (Some r)" and w: "w = as_ref U (conv r)"
    using assms(1) by (auto simp: convert_ts_out_def convert_def and_then_eq_Ok split: option.splits)
  have "well_formed U (conv r)"
    using conv_well_formed rr_get_Some [OF src.dbn_record_axioms r assms(2)] by blast
  then show ?thesis
    using as_ref_whole [OF dst.dbn_record_axioms, of "conv r"] conv_header_fields(4) w False
    by (simp add: well_formed_def)
qed

end

lemmas record_conversions =
  def12_upgrade.upgrade_record_convert def13_upgrade.upgrade_record_convert
  def23_upgrade.upgrade_record_convert stat_upgrade.upgrade_record_convert
  sm_upgrade.upgrade_record_convert err_upgrade.upgrade_record_convert
  sys_upgrade.upgrade_record_convert

primrec upgrade_rtype :: "upgrade \<Rightarrow> RType" where
  "upgrade_rtype Up_Def12 = RType_InstrumentDef"
| "upgrade_rtype Up_Def13 = RType_InstrumentDef"
| "upgrade_rtype Up_Def23 = RType_InstrumentDef"
| "upgrade_rtype Up_Stat = RType_Statistics"
| "upgrade_rtype Up_Symbol = RType_SymbolMapping"
| "upgrade_rtype Up_Error = RType_Error"
| "upgrade_rtype Up_System = RType_System"

primrec upgrade_size :: "upgrade \<Rightarrow> nat" where
  "upgrade_size Up_Def12 = 400"
| "upgrade_size Up_Def13 = 520"
| "upgrade_size Up_Def23 = 520"
| "upgrade_size Up_Stat = 80"
| "upgrade_size Up_Symbol = 176"
| "upgrade_size Up_Error = 320"
| "upgrade_size Up_System = 320"

lemma apply_upgrade_result:
  assumes "apply_upgrade u ts bs = Ok w" and "rr_record_size bs \<le> length bs"
  shows "rr_as_ref w = w \<and> length w = upgrade_size u + (if ts then 8 else 0) \<and>
    rh_rtype (rr_header w) = rtype_as_u8 (upgrade_rtype u)"
  using assms def12_upgrade.convert_result [of ts bs w] def13_upgrade.convert_result [of ts bs w]
    def23_upgrade.convert_result [of ts bs w] stat_upgrade.convert_result [of ts bs w]
    sm_upgrade.convert_result [of ts bs w] err_upgrade.convert_result [of ts bs w]
    sys_upgrade.convert_result [of ts bs w]
  by (cases u) (simp_all add: versioned_types)

lemma rtype_codes_distinct:
  "rtype_as_u8 RType_InstrumentDef = 0x13" "rtype_as_u8 RType_Statistics = 0x18"
  "rtype_as_u8 RType_SymbolMapping = 0x16" "rtype_as_u8 RType_Error = 0x15" "rtype_as_u8 RType_System = 0x17"
  by simp_all

lemma and_then_assoc: "and_then (and_then r f) g = and_then r (\<lambda>x. and_then (f x) g)"
  by (cases r) simp_all

lemma detect_select:
  assumes "rr_record_size bs \<le> length bs"
  shows "upgrade_record_detect_version policy ts bs compat_space =
    and_then (select_upgrade None policy ts bs) (\<lambda>(v, up). Ok (v, offer up bs compat_space))"
proof -
  have sizes: "size_of InstrumentDefMsgV2_type = 400" "size_of InstrumentDefMsg_type = 520"
    "size_of StatMsg_type = 80" "size_of SymbolMappingMsg_type = 176" "size_of ErrorMsg_type = 320"
    "size_of SystemMsg_type = 320"
    by (simp_all add: versioned_types)
  show ?thesis
    unfolding upgrade_record_detect_version_def select_upgrade_def detect_for_def Let_def sizes
      rtype_codes_distinct record_conversions [OF assms]
    by (cases policy) (auto simp: and_then_assoc offer_def)
qed

lemma small_versions:
  "v < 2 \<longleftrightarrow> v = 0 \<or> v = 1" "v < 3 \<longleftrightarrow> v = 0 \<or> v = 1 \<or> v = 2" for v :: u8
proof -
  have "v = w \<longleftrightarrow> unat v = unat w" for w by (rule word_unat_eq_iff)
  then show "v < 2 \<longleftrightarrow> v = 0 \<or> v = 1" "v < 3 \<longleftrightarrow> v = 0 \<or> v = 1 \<or> v = 2"
    by (auto simp: word_less_nat_alt)
qed

lemma with_version_select:
  assumes "rr_record_size bs \<le> length bs"
  shows "and_then (upgrade_record_with_version v policy ts bs compat_space) (\<lambda>res. Ok (Some v, res)) =
    and_then (select_upgrade (Some v) policy ts bs) (\<lambda>(v, up). Ok (v, offer up bs compat_space))"
proof -
  have versions: "v < 2 \<longleftrightarrow> v = 0 \<or> v = 1" "v < 3 \<longleftrightarrow> v = 0 \<or> v = 1 \<or> v = 2" for v :: u8
    by (simp_all add: small_versions)
  show ?thesis
    unfolding upgrade_record_with_version_def select_upgrade_def upgrade_for_def Let_def
      rtype_codes_distinct record_conversions [OF assms] is_upgrade_situation_def
    by (cases policy) (auto simp: and_then_assoc offer_def versions DBN_VERSION_def)
qed

lemma fsm_upgrade_record_select:
  assumes "rr_record_size bs \<le> length bs"
  shows "fsm_upgrade_record version policy ts bs compat_space =
    and_then (select_upgrade version policy ts bs) (\<lambda>(v, up). Ok (v, offer up bs compat_space))"
  using detect_select [OF assms] with_version_select [OF assms]
  by (simp add: fsm_upgrade_record_def split: option.split)

lemma select_upgrade_result:
  assumes "select_upgrade version policy ts bs = Ok (v, Some w)" and "rr_record_size bs \<le> length bs"
  shows "rr_as_ref w = w \<and> 16 \<le> length w \<and> length w \<le> 528"
proof -
  obtain u where "apply_upgrade u ts bs = Ok w"
    using assms(1) by (auto simp: select_upgrade_def Let_def and_then_eq_Ok split: option.splits if_splits)
  with apply_upgrade_result [OF this assms(2)] show ?thesis by (cases u) simp_all
qed

lemma convert_not_Err: "convert T U conv bs \<noteq> Err e"
  by (simp add: convert_def rr_get_def)

lemma apply_upgrade_not_Err: "apply_upgrade u ts bs \<noteq> Err e"
  by (cases u) (simp_all add: convert_ts_out_def convert_not_Err)

lemma and_then_upgrade_not_Err: "and_then (apply_upgrade u ts bs) (\<lambda>w. Ok (g w)) \<noteq> Err e"
  using apply_upgrade_not_Err [of u ts bs e] by (cases "apply_upgrade u ts bs") auto

lemma select_upgrade_not_Err: "select_upgrade version policy ts bs \<noteq> Err e"
  by (simp add: select_upgrade_def Let_def and_then_upgrade_not_Err split: option.split)

text \<open>Detecting the version settles the choice: deciding again with it gives the same record.\<close>

lemma select_upgrade_again:
  assumes "select_upgrade version policy ts bs = Ok (v, up)"
  shows "select_upgrade v policy ts bs = Ok (v, up)"
proof (cases "version = None \<and> v \<noteq> None")
  case True
  then obtain n u w where d: "detect_for policy (rh_rtype (rr_header bs)) (rr_record_size bs) = Some (Some n, u)"
    and w: "apply_upgrade u ts bs = Ok w" and v: "v = Some n" "up = Some w"
    using assms by (auto simp: select_upgrade_def Let_def and_then_eq_Ok split: option.splits)
  from d have "upgrade_for n policy (rh_rtype (rr_header bs)) = Some u"
    by (cases policy) (auto simp: detect_for_def upgrade_for_def is_upgrade_situation_def split: if_splits)
  with w v show ?thesis by (simp add: select_upgrade_def)
next
  case False
  with assms have "v = version"
    by (auto simp: select_upgrade_def Let_def and_then_eq_Ok split: option.splits if_splits)
  with assms show ?thesis by simp
qed

section \<open>Refinement\<close>

lemma rh_length_hd: "bs \<noteq> [] \<Longrightarrow> rh_length (rr_header bs) = hd bs"
  by (cases bs) (simp_all add: rr_header_def rd_def get_RecordHeader_def get_u8_def Let_def split: prod.split)

lemma rr_record_size_hd: "bs \<noteq> [] \<Longrightarrow> rr_record_size bs = unat (hd bs) * 4"
  by (simp add: rr_record_size_def header_record_size_def LENGTH_MULTIPLIER_def rh_length_hd)

lemma index_0: "bs \<noteq> [] \<Longrightarrow> index bs 0 = Ok (hd bs)"
  by (cases bs) (simp_all add: index_def)

lemma prelude_reads:
  assumes "8 \<le> length bs"
  shows "slice bs 0 3 = Ok (take 3 bs)" "index bs 3 = Ok (bs ! 3)"
    "u32_at bs 4 = Ok (fst (get_u32 (drop 4 bs)))"
  using assms by (simp_all add: slice_def index_def u32_at_def slice_from_def u32_from_le_slice_def)

context oval_buffer
begin

lemma space_doubles:
  "length (space B (compat_buffer f)) < length (space B (compat_buffer (double_compat_buffer B f)))"
  using double_grows [of "compat_buffer f" 527]
  by (simp add: double_compat_buffer_def MAX_RECORD_LEN_def with_ts_out_type_def InstrumentDefMsg_type_def)

lemma double_compat_abs [simp]:
  "fsm_abs B (double_compat_buffer B f) = fsm_abs B f" "state (double_compat_buffer B f) = state f"
  "buffer (double_compat_buffer B f) = buffer f"
  "data B (compat_buffer (double_compat_buffer B f)) = data B (compat_buffer f)"
  "input_dbn_version (double_compat_buffer B f) = input_dbn_version f"
  "upgrade_policy (double_compat_buffer B f) = upgrade_policy f"
  "fsm_ts_out (double_compat_buffer B f) = fsm_ts_out f"
  by (cases "state f"; simp add: double_compat_buffer_def fsm_abs_def)+

lemma consume_refines:
  assumes "fsm_inv B f" and "state f = State_Consume r c fl e"
  shows "fsm_inv B (fsm_consume B r c fl e f) \<and> fsm_abs B (fsm_consume B r c fl e f) = fsm_abs B f
    \<and> state (fsm_consume B r c fl e f) = State_Record"
  using assms
  by (auto simp: fsm_inv_def fsm_abs_def fsm_consume_def Let_def double_compat_buffer_def split: if_splits)

text \<open>The relation between what \<open>process\<close> returns and what the abstract decoder does.\<close>

definition refines ::
  "('b DbnFsm \<times> ('d, unit) ProcessResult) result option \<Rightarrow> (decoder \<times> 'd outcome) result \<Rightarrow> bool" where
  "refines x y \<longleftrightarrow>
     (case y of
        Ok (a, out) \<Rightarrow> \<exists>f r. x = Some (Ok (f, r)) \<and> fsm_inv B f \<and> fsm_abs B f = a \<and> output_of B f r = out
      | Err e \<Rightarrow> False
      | Panic p \<Rightarrow> x = Some (Panic p))"

lemma refines_return:
  "fsm_inv B f \<Longrightarrow> fsm_abs B f = a \<Longrightarrow> output_of B f r = out \<Longrightarrow>
   refines (Some (Ok (f, r))) (Ok (a, out))"
  by (auto simp: refines_def)

lemma spec_record_again:
  assumes "select_upgrade (d_version a) (d_policy a) (d_ts_out a) (d_bytes a) = Ok (v, up)"
    and "16 \<le> length (d_bytes a)" and "16 \<le> unat (hd (d_bytes a)) * 4"
    and "unat (hd (d_bytes a)) * 4 \<le> length (d_bytes a)"
  shows "spec_record (a\<lparr>d_version := v\<rparr>) = spec_record a"
  using assms select_upgrade_again [OF assms(1)] by (simp add: spec_record_def Let_def split: option.split)

text \<open>A pass of the loop when there is no complete, plausible record.\<close>

lemma incomplete_record_step:
  assumes "state f = State_Record" and "bs = data B (buffer f)" and "len = unat (hd bs) * 4"
    and "\<not> (16 \<le> length bs \<and> 16 \<le> len \<and> len \<le> length bs)"
  shows "\<exists>r. process_step C B f = Ok (Inr (f, r)) \<and>
    spec_record (fsm_abs B f) = Ok (fsm_abs B f, output_of B f r)"
proof -
  let ?r = "if length bs < 16 then ReadMore (16 - length bs)
    else if len < 16 then Result_Err (impossible_length len) else ReadMore (len - length bs)"
  have "16 \<le> length bs \<Longrightarrow> index bs 0 = Ok (hd bs)" by (rule index_0) auto
  moreover have "d_bytes (fsm_abs B f) = bs" using assms(1,2) by (simp add: fsm_abs_def)
  ultimately have "process_step C B f = Ok (Inr (f, ?r))"
    "spec_record (fsm_abs B f) = Ok (fsm_abs B f, output_of B f ?r)"
    using assms(1,3,4) unfolding process_step_def spec_record_def Let_def assms(2) [symmetric]
    by (cases "length bs < 16"; cases "len < 16";
        simp add: HEADER_LEN_def LENGTH_MULTIPLIER_def output_of_def not_le)+
  then show ?thesis by blast
qed

text \<open>One pass of the loop on a complete record.\<close>

lemma record_step:
  assumes "fsm_inv B f" and "state f = State_Record" and "bs = data B (buffer f)"
    and "16 \<le> length bs" and "len = unat (hd bs) * 4" and "16 \<le> len" and "len \<le> length bs"
    and sel: "select_upgrade (input_dbn_version f) (upgrade_policy f) (fsm_ts_out f) bs = Ok (v, up)"
  shows "case offer up bs (space B (compat_buffer f)) of
      (w, rest, None) \<Rightarrow>
        process_step C B f = Ok (Inl (double_compat_buffer B (f\<lparr>input_dbn_version := v,
          compat_buffer := set_space B (space B (compat_buffer f)) (compat_buffer f)\<rparr>)))
    | (w, rest, Some rec) \<Rightarrow> \<exists>f'. process_step C B f = Ok (Inr (f', Result_Record ())) \<and> fsm_inv B f' \<and>
        fsm_abs B f' = (fsm_abs B f)\<lparr>d_version := v, d_bytes := drop len bs\<rparr> \<and>
        rr_as_ref (the (last_record B f')) = (case up of Some w \<Rightarrow> w | None \<Rightarrow> take len bs)"
proof -
  have bs: "bs \<noteq> []" using assms(4) by auto
  have size: "rr_record_size bs = len" using bs assms(5) by (simp add: rr_record_size_hd)
  have d: "data B (compat_buffer f) = []" using assms(1,2) by (simp add: fsm_inv_def)
  have upg: "fsm_upgrade_record (input_dbn_version f) (upgrade_policy f) (fsm_ts_out f)
      (data B (buffer f)) (space B (compat_buffer f)) = Ok (v, offer up bs (space B (compat_buffer f)))"
    using fsm_upgrade_record_select [of bs] sel size assms(3,7) by simp
  have f0: "index (data B (buffer f)) 0 = Ok (hd bs)" using bs assms(3) by (simp add: index_0)
  note step = process_step_def Let_def upg f0 HEADER_LEN_def LENGTH_MULTIPLIER_def assms(2)
  show ?thesis
  proof (cases up)
    case None
    let ?f = "f\<lparr>input_dbn_version := v,
      compat_buffer := fill B 0 (set_space B (space B (compat_buffer f)) (compat_buffer f)),
      state := State_Consume len 0 0 False\<rparr>"
    have "process_step C B f = Ok (Inr (?f, Result_Record ()))"
      using assms(3-7) None by (simp add: step offer_def)
    moreover have "fsm_inv B ?f" "fsm_abs B ?f = (fsm_abs B f)\<lparr>d_version := v, d_bytes := drop len bs\<rparr>"
      "rr_as_ref (the (last_record B ?f)) = take len bs"
      using assms(2,3,7) d size by (simp_all add: fsm_inv_def fsm_abs_def last_record_def rr_as_ref_def)
    ultimately show ?thesis using None by (simp add: offer_def)
  next
    case (Some w)
    have w: "rr_as_ref w = w" "w \<noteq> []"
      using select_upgrade_result [OF sel [unfolded Some]] assms(7) size by auto
    show ?thesis
    proof (cases "length (space B (compat_buffer f)) \<le> length w")
      case True
      then show ?thesis using assms(3-7) Some by (simp add: step offer_def)
    next
      case False
      let ?f = "f\<lparr>input_dbn_version := v,
        compat_buffer := fill B (length w)
          (set_space B (w @ drop (length w) (space B (compat_buffer f))) (compat_buffer f)),
        state := State_Consume len (length w) 0 False\<rparr>"
      have "process_step C B f = Ok (Inr (?f, Result_Record ()))"
        using assms(3-7) Some False by (simp add: step offer_def)
      moreover have "fsm_inv B ?f" "fsm_abs B ?f = (fsm_abs B f)\<lparr>d_version := v, d_bytes := drop len bs\<rparr>"
        "rr_as_ref (the (last_record B ?f)) = w"
        using assms(2,3,7) d False w by (simp_all add: fsm_inv_def fsm_abs_def last_record_def write_fill)
      ultimately show ?thesis using Some False by (simp add: offer_def)
    qed
  qed
qed

lemma process_record_refines:
  fixes C :: "'d date_ops"
  assumes "fsm_inv B f" and "state f = State_Record"
  shows "refines (process C B f) (spec_record (fsm_abs B f))"
  using assms
proof (induction "1000 - length (space B (compat_buffer f))" arbitrary: f rule: less_induct)
  case less
  define bs where "bs = data B (buffer f)"
  define len where "len = unat (hd bs) * 4"
  note f = less.prems
  have abs: "d_bytes (fsm_abs B f) = bs" "d_version (fsm_abs B f) = input_dbn_version f"
    "d_policy (fsm_abs B f) = upgrade_policy f" "d_ts_out (fsm_abs B f) = fsm_ts_out f"
    using f(2) by (simp_all add: fsm_abs_def bs_def)
  have idx: "16 \<le> length bs \<Longrightarrow> index bs 0 = Ok (hd bs)" by (rule index_0) auto
  show ?case
  proof (cases "16 \<le> length bs \<and> 16 \<le> len \<and> len \<le> length bs")
    case False
    then obtain r where "process_step C B f = Ok (Inr (f, r))"
      "spec_record (fsm_abs B f) = Ok (fsm_abs B f, output_of B f r)"
      using incomplete_record_step [OF f(2) bs_def len_def] by blast
    then show ?thesis using f(1) by (simp add: process_def iterate_Inr refines_return)
  next
    case True
    then have size: "rr_record_size bs \<le> length bs"
      using rr_record_size_hd [of bs] by (cases bs) (simp_all add: len_def)
    show ?thesis
    proof (cases "select_upgrade (input_dbn_version f) (upgrade_policy f) (fsm_ts_out f) bs")
      case (Ok vu)
      then obtain v up where sel: "select_upgrade (input_dbn_version f) (upgrade_policy f) (fsm_ts_out f) bs = Ok (v, up)"
        by (cases vu) auto
      note step = record_step [OF f bs_def _ len_def _ _ sel, where C = C]
      show ?thesis
      proof (cases "offer up bs (space B (compat_buffer f))")
        case (fields w rest found)
        show ?thesis
        proof (cases found)
          case None
          let ?f = "f\<lparr>input_dbn_version := v,
            compat_buffer := set_space B (space B (compat_buffer f)) (compat_buffer f)\<rparr>"
          obtain w' where w': "up = Some w'" "length (space B (compat_buffer f)) \<le> length w'"
            using fields None by (auto simp: offer_def split: option.splits if_splits)
          then have "length w' \<le> 528" using select_upgrade_result [OF sel [unfolded w'] size] by simp
          then have "1000 - length (space B (compat_buffer (double_compat_buffer B ?f))) <
              1000 - length (space B (compat_buffer f))"
            using space_doubles [of ?f] w'(2) by simp
          then have "refines (process C B (double_compat_buffer B ?f)) (spec_record (fsm_abs B (double_compat_buffer B ?f)))"
            by (rule less.hyps) (use f in \<open>simp_all add: fsm_inv_def\<close>)
          moreover have "fsm_abs B (double_compat_buffer B ?f) = (fsm_abs B f)\<lparr>d_version := v\<rparr>"
            using f(2) by (simp add: fsm_abs_def)
          moreover have "process C B f = process C B (double_compat_buffer B ?f)"
            using step True fields None by (simp add: process_def iterate_Inl)
          moreover have "spec_record ((fsm_abs B f)\<lparr>d_version := v\<rparr>) = (spec_record (fsm_abs B f) :: (decoder \<times> 'd outcome) result)"
            using sel True unfolding len_def abs(1) [symmetric] abs(2) [symmetric] abs(3) [symmetric] abs(4) [symmetric]
            by (intro spec_record_again) simp_all
          ultimately show ?thesis by simp
        next
          case (Some rec)
          then obtain f' where "process_step C B f = Ok (Inr (f', Result_Record ()))" "fsm_inv B f'"
            "fsm_abs B f' = (fsm_abs B f)\<lparr>d_version := v, d_bytes := drop len bs\<rparr>"
            "rr_as_ref (the (last_record B f')) = (case up of Some w \<Rightarrow> w | None \<Rightarrow> take len bs)"
            using step True fields by auto
          then show ?thesis
            using True sel abs
            by (cases up) (simp_all add: process_def iterate_Inr spec_record_def Let_def len_def [symmetric]
                refines_return output_of_def)
        qed
      qed
    next
      case (Panic p)
      then have "process_step C B f = Panic p"
        using True idx f(2) fsm_upgrade_record_select [OF size] unfolding len_def
        by (simp add: process_step_def Let_def bs_def [symmetric] HEADER_LEN_def LENGTH_MULTIPLIER_def)
      then show ?thesis
        using Panic True abs by (simp add: process_def iterate_Panic spec_record_def Let_def len_def [symmetric] refines_def)
    qed (use select_upgrade_not_Err in auto)
  qed
qed

lemma process_metadata_refines:
  assumes "fsm_inv B f" and "state f = State_Metadata n"
  shows "refines (process C B f) (spec_metadata C n (fsm_abs B f))"
proof -
  obtain v where v: "input_dbn_version f = Some v"
    using assms by (auto simp: fsm_inv_def)
  have abs: "d_bytes (fsm_abs B f) = data B (buffer f)" "d_version (fsm_abs B f) = Some v"
    "d_policy (fsm_abs B f) = upgrade_policy f"
    using assms(2) v by (simp_all add: fsm_abs_def)
  show ?thesis
  proof (cases "length (data B (buffer f)) < unat n")
    case True
    then have "process_step C B f = Ok (Inr (f, ReadMore (unat n - length (data B (buffer f)))))"
      using assms(2) by (simp add: process_step_def)
    then show ?thesis
      using True assms(1) abs by (simp add: process_def iterate_Inr spec_metadata_def refines_return output_of_def)
  next
    case False
    show ?thesis
    proof (cases "decode_metadata_impl C v (data B (buffer f))")
      case (Ok m)
      let ?f = "f\<lparr>fsm_ts_out := md_ts_out m, buffer := shift B (consume B (unat n) (buffer f)), state := State_Record\<rparr>"
      have "process_step C B f = Ok (Inr (?f, Result_Metadata (metadata_upgrade (upgrade_policy f) m)))"
        using Ok False assms(2) v by (simp add: process_step_def decode_metadata_def Let_def)
      moreover have "fsm_inv B ?f" using assms by (simp add: fsm_inv_def)
      moreover have "fsm_abs B ?f =
          (fsm_abs B f)\<lparr>d_ts_out := md_ts_out m, d_phase := Ph_Record, d_bytes := drop (unat n) (data B (buffer f))\<rparr>"
        by (simp add: fsm_abs_def)
      ultimately show ?thesis
        using Ok False abs by (simp add: process_def iterate_Inr spec_metadata_def refines_return output_of_def)
    next
      case (Err e)
      then have "process_step C B f = Ok (Inr (f, Result_Err e))"
        using False assms(2) v by (simp add: process_step_def decode_metadata_def)
      then show ?thesis
        using Err False assms(1) abs by (simp add: process_def iterate_Inr spec_metadata_def refines_return output_of_def)
    next
      case (Panic p)
      then have "process_step C B f = Panic p"
        using False assms(2) v by (simp add: process_step_def decode_metadata_def)
      then show ?thesis
        using Panic False abs by (simp add: process_def iterate_Panic spec_metadata_def refines_def)
    qed
  qed
qed

lemma decode_prelude_refines:
  assumes "fsm_inv B f" and "state f = State_Prelude" and "bs = data B (buffer f)" and "8 \<le> length bs"
  shows "case prelude_error (upgrade_policy f) bs of
      Some e \<Rightarrow> decode_prelude B f =
        Ok (if take 3 bs = as_bytes ''DBN'' then f\<lparr>input_dbn_version := Some (bs ! 3)\<rparr> else f, Err e)
    | None \<Rightarrow> \<exists>f'. decode_prelude B f = Ok (f', Ok ()) \<and> fsm_inv B f' \<and>
        state f' = State_Metadata (fst (get_u32 (drop 4 bs))) \<and>
        fsm_abs B f' = (fsm_abs B f)\<lparr>d_version := Some (bs ! 3),
          d_phase := Ph_Metadata (fst (get_u32 (drop 4 bs))), d_bytes := drop 8 bs\<rparr>"
  using assms prelude_reads [OF assms(4)]
  by (auto simp: decode_prelude_def Let_def prelude_error_def validate_compatibility_def fsm_inv_def
      fsm_abs_def double_compat_buffer_def METADATA_PRELUDE_LEN_def)

lemma process_prelude_refines:
  assumes "fsm_inv B f" and "state f = State_Prelude"
  shows "refines (process C B f) (spec_process C (fsm_abs B f))"
proof (cases "length (data B (buffer f)) < 8")
  case True
  then have "process_step C B f = Ok (Inr (f, ReadMore (8 - length (data B (buffer f)))))"
    using assms(2) by (simp add: process_step_def METADATA_PRELUDE_LEN_def)
  then show ?thesis
    using True assms by (simp add: process_def iterate_Inr spec_process_def refines_return output_of_def fsm_abs_def)
next
  case False
  define bs where "bs = data B (buffer f)"
  have abs: "d_bytes (fsm_abs B f) = bs" "d_phase (fsm_abs B f) = Ph_Prelude" "d_policy (fsm_abs B f) = upgrade_policy f"
    using assms(2) by (simp_all add: fsm_abs_def bs_def)
  note pre = decode_prelude_refines [OF assms bs_def]
  have step: "process_step C B f = and_then (decode_prelude B f) (\<lambda>(f, r). case r of
              Err e \<Rightarrow> Ok (Inr (f, Result_Err e))
            | Panic p \<Rightarrow> Panic p
            | Ok _ \<Rightarrow> Ok (Inl f))"
    using False assms(2) by (simp add: process_step_def METADATA_PRELUDE_LEN_def)
  show ?thesis
  proof (cases "prelude_error (upgrade_policy f) bs")
    case None
    then obtain f' where f': "decode_prelude B f = Ok (f', Ok ())" "fsm_inv B f'"
      "state f' = State_Metadata (fst (get_u32 (drop 4 bs)))"
      "fsm_abs B f' = (fsm_abs B f)\<lparr>d_version := Some (bs ! 3),
          d_phase := Ph_Metadata (fst (get_u32 (drop 4 bs))), d_bytes := drop 8 bs\<rparr>"
      using pre False bs_def by auto
    then have "process C B f = process C B f'"
      using step by (simp add: process_def iterate_Inl)
    then show ?thesis
      using process_metadata_refines [OF f'(2,3), of C] f'(4) abs None False
      by (simp add: spec_process_def Let_def bs_def [symmetric])
  next
    case (Some e)
    let ?f = "if take 3 bs = as_bytes ''DBN'' then f\<lparr>input_dbn_version := Some (bs ! 3)\<rparr> else f"
    have "process_step C B f = Ok (Inr (?f, Result_Err e))"
      using step pre Some False bs_def by simp
    moreover have "fsm_inv B ?f" using assms by (simp add: fsm_inv_def)
    moreover have "fsm_abs B ?f = (if take 3 bs = as_bytes ''DBN''
        then (fsm_abs B f)\<lparr>d_version := Some (bs ! 3)\<rparr> else fsm_abs B f)"
      using assms(2) by (simp add: fsm_abs_def)
    ultimately show ?thesis
      using Some False abs by (simp add: process_def iterate_Inr spec_process_def refines_def output_of_def bs_def [symmetric])
  qed
qed

lemma process_refines_spec:
  assumes "fsm_inv B f"
  shows "refines (process C B f) (spec_process C (fsm_abs B f))"
proof (cases "state f")
  case State_Prelude
  then show ?thesis using assms by (rule process_prelude_refines [rotated])
next
  case (State_Metadata n)
  then show ?thesis
    using process_metadata_refines [OF assms State_Metadata, of C] by (simp add: spec_process_def fsm_abs_def)
next
  case State_Record
  then show ?thesis
    using process_record_refines [OF assms State_Record, of C] by (simp add: spec_process_def fsm_abs_def)
next
  case (State_Consume r c fl e)
  let ?f = "fsm_consume B r c fl e f"
  have "process C B f = process C B ?f"
    using State_Consume by (simp add: process_def process_step_def iterate_Inl)
  then show ?thesis
    using process_record_refines [of ?f C] consume_refines [OF assms State_Consume]
    by (simp add: spec_process_def) (simp add: fsm_abs_def State_Consume)
qed

end

section \<open>Operations other than process\<close>

text \<open>Appending bytes to what the abstract decoder has not decoded.\<close>

definition feed :: "bytes \<Rightarrow> decoder \<Rightarrow> decoder" where
  "feed bs a = a\<lparr>d_bytes := d_bytes a @ bs\<rparr>"

context oval_buffer
begin

lemma write_fill_refines:
  assumes "fsm_inv B f" and "length bs \<le> length (space B (buffer f))"
  shows "\<exists>f'. and_then (copy_into_space B bs f) (\<lambda>f. Ok (fsm_fill B (length bs) f)) = Ok f' \<and> fsm_inv B f' \<and>
    fsm_abs B f' = feed bs (fsm_abs B f)"
  using assms write_fill [OF assms(2)]
  by (auto simp: copy_into_space_def fsm_fill_def fsm_space_def fsm_inv_def fsm_abs_def feed_def
      split: State.split)

lemma write_all_refines:
  assumes "fsm_inv B f"
  shows "\<exists>f'. fsm_write_all B bs f = Ok f' \<and> fsm_inv B f' \<and> fsm_abs B f' = feed bs (fsm_abs B f)"
proof -
  let ?g = "case state f of
      State_Consume read cbytes compat_fill expand \<Rightarrow> fsm_consume B read cbytes compat_fill expand f
    | _ \<Rightarrow> f"
  have g: "fsm_inv B ?g" "fsm_abs B ?g = fsm_abs B f"
    using assms consume_refines [OF assms] by (auto split: State.split)
  let ?h = "if length (space B (buffer ?g)) < length bs
    then ?g\<lparr>buffer := grow B (max (capacity B (buffer ?g) * 2) (capacity B (buffer ?g) + length bs)) (buffer ?g)\<rparr>
    else ?g"
  have h: "fsm_inv B ?h" "fsm_abs B ?h = fsm_abs B f"
    using g by (auto simp: fsm_inv_def fsm_abs_def split: State.splits)
  moreover have "length bs \<le> length (space B (buffer ?h))"
    using grow(2) [of "buffer ?g" "max (capacity B (buffer ?g) * 2) (capacity B (buffer ?g) + length bs)"]
    by auto
  ultimately show ?thesis
    using write_fill_refines [of ?h bs] write_fill_refines [OF assms, of bs]
    by (cases "length (space B (buffer f)) < length bs") (simp_all add: fsm_write_all_def Let_def not_less)
qed

text \<open>Growing the compatibility buffer keeps what it holds, and so the record that is exposed.\<close>

lemma grow_compat_keeps:
  "fsm_abs B (grow_compat B n f) = fsm_abs B f"
  "data B (compat_buffer (grow_compat B n f)) = data B (compat_buffer f)"
  "last_record B (grow_compat B n f) = last_record B f"
  "fsm_inv B f \<Longrightarrow> fsm_inv B (grow_compat B n f)"
  using grow(2) [of "compat_buffer f" n]
  by (auto simp: grow_compat_def last_record_def fsm_abs_def fsm_inv_def split: State.split)

lemma skip_refines:
  assumes "fsm_inv B f"
  shows "fsm_inv B (fst (skip B n f)) \<and>
    fsm_abs B (fst (skip B n f)) = (fsm_abs B f)\<lparr>d_bytes := drop n (d_bytes (fsm_abs B f))\<rparr> \<and>
    snd (skip B n f) = min n (length (d_bytes (fsm_abs B f)))"
proof (cases "state f")
  case (State_Consume r c fl e)
  then show ?thesis
    using consume_refines [OF assms State_Consume] by (auto simp: skip_def Let_def fsm_inv_def fsm_abs_def)
qed (use assms in \<open>auto simp: skip_def Let_def fsm_inv_def fsm_abs_def\<close>)

end

section \<open>Properties\<close>

text \<open>
  C1. The decoder state machine implements the abstract decoder: from every state that
  satisfies the invariant, \<open>process\<close> returns; its result, the record it exposes and the state it
  leaves are those of the abstract decoder, independent of how the buffers are laid out and how
  large they are; it panics only where the abstract decoder does.
\<close>

theorem process_refines:
  assumes "oval_buffer B" and "fsm_inv B f"
  shows "case spec_process C (fsm_abs B f) of
      Ok (a, out) \<Rightarrow> \<exists>f' r. process C B f = Some (Ok (f', r)) \<and> fsm_inv B f' \<and> fsm_abs B f' = a \<and>
        output_of B f' r = out
    | Err e \<Rightarrow> False
    | Panic p \<Rightarrow> process C B f = Some (Panic p)"
  using oval_buffer.process_refines_spec [OF assms] by (simp add: oval_buffer.refines_def [OF assms(1)])

theorem process_refines_witness:
  "\<exists>f' r. process gregorian list_buffer (fsm_default list_buffer) = Some (Ok (f', r)) \<and>
     output_of list_buffer f' r = More 8"
proof -
  have "fsm_inv list_buffer (fsm_default list_buffer)"
    "fsm_abs list_buffer (fsm_default list_buffer) =
       \<lparr>d_version = None, d_policy = VersionUpgradePolicy_UpgradeToV3, d_ts_out = False,
        d_phase = Ph_Prelude, d_bytes = []\<rparr>"
    by (simp_all add: fsm_inv_def fsm_default_def fsm_abs_def)
  then show ?thesis
    using process_refines [OF list_buffer.oval_buffer_axioms, of "fsm_default list_buffer" gregorian]
    by (auto simp: spec_process_def)
qed

text \<open>
  C16. The other operations keep the invariant and do what the abstract decoder sees: a new,
  default, built or reset state machine has no bytes; \<open>write_all\<close> appends its bytes, growing the
  buffer as needed, and never panics; \<open>skip\<close> drops bytes and returns how many;
  growing the compatibility buffer keeps the converted bytes in it and the record last returned.
\<close>

theorem fsm_operations:
  assumes "oval_buffer B" and "fsm_inv B f"
  shows "fsm_inv B (fsm_new B n k) \<and> d_bytes (fsm_abs B (fsm_new B n k)) = []
    \<and> fsm_inv B (fsm_default B) \<and> d_bytes (fsm_abs B (fsm_default B)) = []
    \<and> (\<forall>b g. fsm_build B b = Ok g \<longrightarrow> fsm_inv B g \<and> d_bytes (fsm_abs B g) = [] \<and>
        d_phase (fsm_abs B g) = (if fb_skip_metadata b then Ph_Record else Ph_Prelude))
    \<and> fsm_inv B (fsm_reset B f)
    \<and> fsm_abs B (fsm_reset B f) = (fsm_abs B f)\<lparr>d_version := None, d_phase := Ph_Prelude, d_bytes := []\<rparr>
    \<and> (\<exists>g. fsm_write_all B bs f = Ok g \<and> fsm_inv B g \<and> fsm_abs B g = feed bs (fsm_abs B f))
    \<and> fsm_inv B (fst (skip B n f))
    \<and> fsm_abs B (fst (skip B n f)) = (fsm_abs B f)\<lparr>d_bytes := drop n (d_bytes (fsm_abs B f))\<rparr>
    \<and> snd (skip B n f) = min n (length (d_bytes (fsm_abs B f)))
    \<and> fsm_inv B (grow_compat B n f) \<and> fsm_abs B (grow_compat B n f) = fsm_abs B f
    \<and> data B (compat_buffer (grow_compat B n f)) = data B (compat_buffer f)
    \<and> last_record B (grow_compat B n f) = last_record B f"
proof -
  note buf = oval_buffer.buf_simps [OF assms(1)]
  have "fsm_inv B g \<and> d_bytes (fsm_abs B g) = [] \<and>
      d_phase (fsm_abs B g) = (if fb_skip_metadata b then Ph_Record else Ph_Prelude)"
    if "fsm_build B b = Ok g" for b g
    using that buf by (auto simp: fsm_build_def and_then_eq_Ok fsm_inv_def fsm_abs_def)
  then show ?thesis
    using oval_buffer.write_all_refines [OF assms, of bs] oval_buffer.skip_refines [OF assms, of n]
      oval_buffer.grow_compat_keeps [OF assms(1), where n = n and f = f] assms(2) buf
    by (auto simp: fsm_new_def fsm_default_def fsm_reset_def fsm_inv_def fsm_abs_def
        split: State.split)
qed

theorem fsm_operations_witness:
  "\<exists>g. fsm_write_all list_buffer (replicate 100000 7) (fsm_default list_buffer) = Ok g \<and>
     d_bytes (fsm_abs list_buffer g) = replicate 100000 7"
proof -
  have "fsm_inv list_buffer (fsm_default list_buffer)" "d_bytes (fsm_abs list_buffer (fsm_default list_buffer)) = []"
    by (simp_all add: fsm_inv_def fsm_default_def fsm_abs_def)
  then show ?thesis
    using fsm_operations [OF list_buffer.oval_buffer_axioms, of "fsm_default list_buffer"]
    by (fastforce simp: feed_def)
qed

text \<open>
  Setting the upgrade policy checks the policy in force instead of the new one: with input
  version 3 the incompatible policy \<^verbatim>\<open>UpgradeToV2\<close> is accepted, although the check refuses that
  combination, and then no compatible policy can be set any more.
\<close>

theorem set_upgrade_policy_checks_old:
  "set_upgrade_policy VersionUpgradePolicy_UpgradeToV2
     (f\<lparr>input_dbn_version := Some 3, upgrade_policy := VersionUpgradePolicy_AsIs\<rparr>) =
     Ok (f\<lparr>input_dbn_version := Some 3, upgrade_policy := VersionUpgradePolicy_UpgradeToV2\<rparr>)
   \<and> (\<exists>e. validate_compatibility VersionUpgradePolicy_UpgradeToV2 3 = Err e)
   \<and> (\<exists>e. set_upgrade_policy VersionUpgradePolicy_AsIs
        (f\<lparr>input_dbn_version := Some 3, upgrade_policy := VersionUpgradePolicy_UpgradeToV2\<rparr>) = Err e)"
  by (simp add: set_upgrade_policy_def validate_compatibility_def)

end
