(* ===== verification/Fsm_Stream.thy ===== *)
theory Fsm_Stream
  imports Fsm_Spec
begin

text \<open>
  How the decoder state machine behaves on a stream that arrives in pieces. A step of the
  abstract decoder on a complete item depends on the bytes of that item only, so bytes that
  arrive later do not change what was decoded; an incomplete item asks for no more than its
  missing bytes. And the buffer always has room: when \<^verbatim>\<open>process\<close> asks for bytes, that
  many fit in its space (the guarantee the readers rely on), for a buffer of 2,048 bytes or more.
\<close>

section \<open>Definitions\<close>

text \<open>The undecoded bytes hold a whole record, or a length that no record has.\<close>

definition complete :: "decoder \<Rightarrow> bool" where
  "complete a \<longleftrightarrow> 16 \<le> length (d_bytes a) \<and> unat (hd (d_bytes a)) * 4 \<le> length (d_bytes a)"

text \<open>
  The position in the memory of the buffer leaves room for what is still missing: nothing is
  consumed before the prelude, only the prelude before the metadata, and afterwards at least
  half of the memory is free or holds unread data.
\<close>

definition roomy :: "'b buf_ops \<Rightarrow> 'b DbnFsm \<Rightarrow> bool" where
  "roomy B f \<longleftrightarrow>
     (let room = length (data B (buffer f)) + length (space B (buffer f)); cap = capacity B (buffer f) in
      2048 \<le> cap \<and>
      (case state f of
         State_Prelude \<Rightarrow> cap \<le> room
       | State_Metadata n \<Rightarrow> cap \<le> room + 8 \<and> unat n + 8 \<le> cap
       | _ \<Rightarrow> cap \<le> 2 * room))"

section \<open>Later bytes do not matter\<close>

context codec
begin

lemma rd_append: "size \<le> length bs \<Longrightarrow> rd get (bs @ ys) = rd get bs"
  using put_inject [OF rd_ok rd_ok, of "bs @ ys" bs] by (simp add: put_rd)

end

lemma rr_header_append: "16 \<le> length bs \<Longrightarrow> rr_header (bs @ ys) = rr_header bs"
  by (simp add: rr_header_def rh_codec.rd_append)

lemma rr_record_size_append: "16 \<le> length bs \<Longrightarrow> rr_record_size (bs @ ys) = rr_record_size bs"
  by (simp add: rr_record_size_def rr_header_append)

text \<open>A reference to a record is a byte sequence that begins with all of it.\<close>

definition whole_record :: "bytes \<Rightarrow> bool" where
  "whole_record bs \<longleftrightarrow> 16 \<le> length bs \<and> rr_record_size bs \<le> length bs"

lemma rr_get_append:
  assumes "dbn_record T" and "whole_record bs"
  shows "rr_get T (bs @ ys) = rr_get T bs"
proof -
  have "rd (cast T) (bs @ ys) = rd (cast T) bs" if "size_of T \<le> rr_record_size bs"
    using that assms(2) codec.rd_append [OF dbn_record.layout [OF assms(1)], of bs ys]
    by (simp add: whole_record_def)
  then show ?thesis
    using assms(2) by (simp add: rr_get_def rr_has_def whole_record_def rr_header_append rr_record_size_append)
qed

context record_upgrade
begin

lemma convert_append:
  assumes "whole_record bs"
  shows "convert_ts_out T U conv ts (bs @ ys) = convert_ts_out T U conv ts bs"
  using rr_get_append [OF src.dbn_record_axioms assms] rr_get_append [OF ts_out_records(1) assms]
  by (simp add: convert_ts_out_def convert_def)

end

lemmas conversions_append =
  def12_upgrade.convert_append def13_upgrade.convert_append def23_upgrade.convert_append
  stat_upgrade.convert_append sm_upgrade.convert_append err_upgrade.convert_append
  sys_upgrade.convert_append

lemma select_upgrade_append:
  assumes "whole_record bs"
  shows "select_upgrade v p ts (bs @ ys) = select_upgrade v p ts bs"
proof -
  have "apply_upgrade u ts (bs @ ys) = apply_upgrade u ts bs" for u
    by (cases u) (simp_all add: conversions_append [OF assms])
  then show ?thesis
    using assms unfolding whole_record_def
    by (simp add: select_upgrade_def Let_def rr_header_append rr_record_size_append split: option.split)
qed

lemma complete_whole: "complete a \<Longrightarrow> whole_record (d_bytes a)"
  by (cases "d_bytes a") (simp_all add: complete_def whole_record_def rr_record_size_hd)

lemma spec_record_feed:
  assumes "complete a"
  shows "spec_record (feed ys a) = and_then (spec_record a) (\<lambda>(a', out). Ok (feed ys a', out))"
proof -
  have "d_bytes a \<noteq> []" using assms by (auto simp: complete_def)
  then show ?thesis
    using assms select_upgrade_append [OF complete_whole [OF assms], of "d_version a" "d_policy a" "d_ts_out a" ys]
    by (cases "select_upgrade (d_version a) (d_policy a) (d_ts_out a) (d_bytes a)")
      (auto simp: spec_record_def feed_def Let_def complete_def split: option.split)
qed

lemma spec_record_incomplete:
  assumes "\<not> complete a"
  obtains n where "spec_record a = Ok (a, More n)" and "0 < n" and "length (d_bytes a) + n \<le> 1020"
proof (cases "length (d_bytes a) < 16")
  case True
  then show thesis by (intro that [of "16 - length (d_bytes a)"]) (simp_all add: spec_record_def)
next
  case False
  have "unat (hd (d_bytes a)) < 256" using unat_less [of "hd (d_bytes a)"] by simp
  then show thesis
    using False assms
    by (intro that [of "unat (hd (d_bytes a)) * 4 - length (d_bytes a)"])
      (simp_all add: spec_record_def complete_def)
qed

lemma complete_outcome:
  assumes "complete a" and "spec_record a = Ok (a', out)"
  shows "out \<noteq> More n" and "out \<noteq> Got_Metadata m"
  using assms by (auto simp: spec_record_def complete_def Let_def and_then_eq_Ok split: if_splits prod.splits)

lemma complete_feed: "complete a \<Longrightarrow> complete (feed ys a)"
  by (cases "d_bytes a") (simp_all add: complete_def feed_def)

lemma feed_feed [simp]: "feed ys (feed xs a) = feed (xs @ ys) a"
  by (simp add: feed_def)

lemma feed_Nil [simp]: "feed [] a = a"
  by (simp add: feed_def)

lemma feed_select [simp]:
  "d_phase (feed ys a) = d_phase a" "d_version (feed ys a) = d_version a"
  "d_policy (feed ys a) = d_policy a" "d_ts_out (feed ys a) = d_ts_out a"
  "d_bytes (feed ys a) = d_bytes a @ ys"
  by (simp_all add: feed_def)

section \<open>Room in the buffer\<close>

context oval_buffer
begin

lemma record_room:
  assumes "roomy B f" and "state f = State_Record \<or> (\<exists>r c fl e. state f = State_Consume r c fl e)"
    and "state f' \<noteq> State_Prelude" and "\<forall>n. state f' \<noteq> State_Metadata n"
    and "buffer f' = buffer f \<or> (\<exists>n. buffer f' = consume B n (buffer f))"
  shows "roomy B f'"
  using assms consume(4) [of "buffer f"]
  by (auto simp: roomy_def Let_def split: State.splits)

lemma decode_prelude_buffer:
  assumes "decode_prelude B f = Ok (f', r)" and "8 \<le> length (data B (buffer f))"
  shows "state f' = state f \<and> buffer f' = buffer f \<or>
    (\<exists>n. state f' = State_Metadata n \<and> buffer f' = grow B (unat n + 8) (consume_noshift B 8 (buffer f)))"
  using assms(1) prelude_reads [OF assms(2)]
  by (cases "validate_compatibility (upgrade_policy f) (data B (buffer f) ! 3)")
    (auto simp: decode_prelude_def Let_def double_compat_buffer_def METADATA_PRELUDE_LEN_def split: if_splits)

lemma decode_prelude_roomy:
  assumes "roomy B f" and "state f = State_Prelude" and "decode_prelude B f = Ok (f', r)"
    and "8 \<le> length (data B (buffer f))"
  shows "roomy B f'"
  using decode_prelude_buffer [OF assms(3,4)]
proof
  assume "state f' = state f \<and> buffer f' = buffer f"
  then show ?thesis using assms(1) by (simp add: roomy_def)
next
  assume "\<exists>n. state f' = State_Metadata n \<and> buffer f' = grow B (unat n + 8) (consume_noshift B 8 (buffer f))"
  then obtain n where n: "state f' = State_Metadata n"
    "buffer f' = grow B (unat n + 8) (consume_noshift B 8 (buffer f))" by blast
  show ?thesis
    using assms(1,2,4) n grow(2) [of "consume_noshift B 8 (buffer f)" "unat n + 8"]
      consume_noshift(2) [of "buffer f" 8]
    by (auto simp: roomy_def Let_def max_def)
qed

lemma process_step_roomy:
  assumes "roomy B f" and "process_step C B f = Ok s"
  shows "case s of Inl f' \<Rightarrow> roomy B f'
    | Inr (f', r) \<Rightarrow> roomy B f' \<and> (\<forall>n. r = ReadMore n \<longrightarrow> n \<le> length (fsm_space B f'))"
proof (cases "state f")
  case State_Prelude
  show ?thesis
  proof (cases "length (data B (buffer f)) < 8")
    case True
    then show ?thesis
      using assms State_Prelude
      by (auto simp: process_step_def METADATA_PRELUDE_LEN_def roomy_def fsm_space_def Let_def)
  next
    case False
    then have s: "and_then (decode_prelude B f) (\<lambda>(f, r). case r of
              Err e \<Rightarrow> Ok (Inr (f, Result_Err e))
            | Panic p \<Rightarrow> Panic p
            | Ok _ \<Rightarrow> Ok (Inl f)) = Ok s"
      using assms(2) State_Prelude by (simp add: process_step_def METADATA_PRELUDE_LEN_def)
    then obtain f' r where "decode_prelude B f = Ok (f', r)" by (auto simp: and_then_eq_Ok)
    then show ?thesis
      using decode_prelude_roomy [OF assms(1) State_Prelude, of f' r] False s by (cases r) auto
  qed
next
  case (State_Metadata n)
  let ?b = "consume B (unat n) (buffer f)"
  have "roomy B (f\<lparr>fsm_ts_out := t, buffer := shift B ?b, state := State_Record\<rparr>)" for t
    using assms(1) shift(2) [of ?b] consume(4) [of "buffer f" "unat n"] by (simp add: roomy_def Let_def)
  moreover have "unat n - length (data B (buffer f)) \<le> length (fsm_space B f)"
    using assms(1) State_Metadata by (auto simp: roomy_def Let_def fsm_space_def)
  ultimately show ?thesis
    using assms State_Metadata
    by (cases "input_dbn_version f";
        cases "decode_metadata_impl C (the (input_dbn_version f)) (data B (buffer f))")
      (auto simp: process_step_def decode_metadata_def Let_def split: if_splits)
next
  case State_Record
  have more: "n \<le> length (fsm_space B f)" if "length (data B (buffer f)) + n \<le> 1020" for n
    using that assms(1) State_Record by (simp add: roomy_def Let_def fsm_space_def)
  have len: "unat l * 4 \<le> 1020" for l :: u8
    using unat_less [of l] by simp
  note keep = record_room [OF assms(1) disjI1, OF State_Record]
  show ?thesis
    using assms(2) State_Record assms(1) len
    by (auto simp: process_step_def Let_def and_then_eq_Ok HEADER_LEN_def LENGTH_MULTIPLIER_def
        double_compat_buffer_def intro!: keep more split: if_splits option.splits)
next
  case (State_Consume r c fl e)
  then have "s = Inl (fsm_consume B r c fl e f)"
    using assms(2) by (simp add: process_step_def)
  moreover have "roomy B (fsm_consume B r c fl e f)"
    by (rule record_room [OF assms(1)])
      (use State_Consume in \<open>auto simp: fsm_consume_def Let_def double_compat_buffer_def\<close>)
  ultimately show ?thesis by simp
qed

lemma process_roomy:
  assumes "process C B f = Some (Ok (f', r))" and "roomy B f"
  shows "roomy B f' \<and> (\<forall>n. r = ReadMore n \<longrightarrow> n \<le> length (fsm_space B f'))"
proof -
  have "case (f', r) of (f', r) \<Rightarrow> roomy B f' \<and> (\<forall>n. r = ReadMore n \<longrightarrow> n \<le> length (fsm_space B f'))"
    by (rule iterate_invariant [OF assms(1) [unfolded process_def], where P = "roomy B", OF assms(2)])
      (use process_step_roomy [where C = C] in fastforce)+
  then show ?thesis by simp
qed

end

section \<open>Properties\<close>

text \<open>
  C18. The state machine has room for the bytes it asks for: from a state that a new state
  machine with a buffer of at least 2,048 bytes can be in, \<open>process\<close> leaves such a state, and
  when it asks for \<open>n\<close> more bytes the space of its buffer holds at least \<open>n\<close>. So reading into the
  space never gets stuck on an empty slice.
\<close>

theorem read_more_has_space:
  assumes "oval_buffer B" and "roomy B f" and "process C B f = Some (Ok (f', r))"
  shows "roomy B f' \<and> (r = ReadMore n \<longrightarrow> n \<le> length (fsm_space B f'))"
  using oval_buffer.process_roomy [OF assms(1,3,2)] by simp

theorem read_more_has_space_witness:
  "\<exists>f'. process gregorian list_buffer (fsm_default list_buffer) = Some (Ok (f', ReadMore 8)) \<and>
     8 \<le> length (fsm_space list_buffer f')"
proof -
  have step: "process gregorian list_buffer (fsm_default list_buffer) =
      Some (Ok (fsm_default list_buffer, ReadMore 8))"
    by (simp add: process_def iterate_Inr process_step_def fsm_default_def METADATA_PRELUDE_LEN_def)
  have "roomy list_buffer (fsm_default list_buffer)"
    by (simp add: roomy_def fsm_default_def DEFAULT_BUF_SIZE_def)
  then show ?thesis
    using step read_more_has_space [OF list_buffer.oval_buffer_axioms _ step, of 8] by simp
qed

end
