(* ===== verification/Sync_Spec.thy ===== *)
theory Sync_Spec
  imports Sync_Decoder Fsm_Stream
begin

text \<open>
  What the blocking decoders promise. A record decoder is seen as the abstract decoder over the
  buffered bytes followed by those its reader still has to deliver; \<^verbatim>\<open>decode_ref\<close> then
  returns the next record of that byte sequence, however the reader cuts it into pieces.
\<close>

section \<open>Definitions\<close>

text \<open>The next record of the abstract decoder, when no more bytes will arrive.\<close>

definition next_record :: "decoder \<Rightarrow> (decoder \<times> bytes option result) result" where
  "next_record a =
     (let bs = d_bytes a; rec_length = unat (hd bs) * 4 in
      if length bs < 16 then Ok (a, Ok None)
      else if rec_length < 16 then Ok (a, Err (impossible_length rec_length))
      else if length bs < rec_length then Ok (a, Ok None)
      else and_then (select_upgrade (d_version a) (d_policy a) (d_ts_out a) bs) (\<lambda>(v, up).
        Ok (a\<lparr>d_version := v, d_bytes := drop rec_length bs\<rparr>,
            Ok (Some (case up of Some w \<Rightarrow> w | None \<Rightarrow> take rec_length bs)))))"

text \<open>What a decoder still has to decode, and the states it can be in.\<close>

definition dec_abs :: "'b buf_ops \<Rightarrow> ('r \<Rightarrow> bytes) \<Rightarrow> ('r, 'b) RecordDecoder \<Rightarrow> decoder" where
  "dec_abs B pending d = feed (pending (rd_reader d)) (fsm_abs B (rd_fsm d))"

definition dec_inv :: "'b buf_ops \<Rightarrow> ('r, 'b) RecordDecoder \<Rightarrow> bool" where
  "dec_inv B d \<longleftrightarrow> fsm_inv B (rd_fsm d) \<and> roomy B (rd_fsm d) \<and> has_decoded_metadata (rd_fsm d)"

text \<open>A returned reference is compared by the bytes of its record.\<close>

primrec ref_bytes :: "bytes option result \<Rightarrow> bytes option result" where
  "ref_bytes (Ok r) = Ok (map_option rr_as_ref r)"
| "ref_bytes (Err e) = Err e"
| "ref_bytes (Panic p) = Panic p"

section \<open>The next record\<close>

lemma next_record_complete:
  assumes "complete a" and "spec_record a = Ok (a', out)"
  shows "next_record a = Ok (a', case out of Failed e \<Rightarrow> Err e | Got_Record w \<Rightarrow> Ok (Some w) | _ \<Rightarrow> Ok None)"
proof (cases "unat (hd (d_bytes a)) * 4 < 16")
  case True
  then show ?thesis
    using assms by (auto simp: next_record_def spec_record_def complete_def Let_def)
next
  case False
  then obtain v up where "select_upgrade (d_version a) (d_policy a) (d_ts_out a) (d_bytes a) = Ok (v, up)"
    using assms by (auto simp: spec_record_def complete_def Let_def and_then_eq_Ok)
  then show ?thesis
    using assms False by (auto simp: next_record_def spec_record_def complete_def Let_def)
qed

lemma next_record_panic:
  assumes "complete a" and "spec_record a = Panic p"
  shows "next_record a = Panic p"
  using assms
  by (cases "select_upgrade (d_version a) (d_policy a) (d_ts_out a) (d_bytes a)")
    (auto simp: next_record_def spec_record_def complete_def Let_def split: if_splits)

lemma next_record_incomplete: "\<not> complete a \<Longrightarrow> next_record a = Ok (a, Ok None)"
  by (auto simp: next_record_def complete_def Let_def)

lemma spec_record_not_Err: "spec_record a \<noteq> Err e"
  using select_upgrade_not_Err [of "d_version a" "d_policy a" "d_ts_out a" "d_bytes a"]
  by (cases "select_upgrade (d_version a) (d_policy a) (d_ts_out a) (d_bytes a)")
    (auto simp: spec_record_def Let_def)

section \<open>Reading\<close>

lemma and_then_step_Ok:
  "and_then x (\<lambda>(f, r). case r of Err e \<Rightarrow> A f e | Panic p \<Rightarrow> Panic p | Ok y \<Rightarrow> K f y) = Ok z \<longleftrightarrow>
   (\<exists>f r. x = Ok (f, r) \<and> ((\<exists>e. r = Err e \<and> A f e = Ok z) \<or> (\<exists>y. r = Ok y \<and> K f y = Ok z)))"
  "and_then x (\<lambda>(f, r). case r of Ok y \<Rightarrow> K f y | Err e \<Rightarrow> A f e | Panic p \<Rightarrow> Panic p) = Ok z \<longleftrightarrow>
   (\<exists>f r. x = Ok (f, r) \<and> ((\<exists>e. r = Err e \<and> A f e = Ok z) \<or> (\<exists>y. r = Ok y \<and> K f y = Ok z)))"
  by (auto simp: and_then_eq_Ok split: result.splits) (metis result.exhaust)+

context oval_buffer
begin

text \<open>Copying bytes into the space and filling feeds the decoder.\<close>

lemma copy_feeds:
  assumes "fsm_inv B f" and "roomy B f" and "length bs \<le> length (fsm_space B f)"
  obtains f' where "copy_into_space B bs f = Ok f'"
    and "fsm_inv B (fsm_fill B (length bs) f')" and "roomy B (fsm_fill B (length bs) f')"
    and "fsm_abs B (fsm_fill B (length bs) f') = feed bs (fsm_abs B f)"
    and "state (fsm_fill B (length bs) f') = state f"
    and "fsm_inv B f'" and "roomy B f'" and "fsm_abs B f' = fsm_abs B f" and "state f' = state f"
proof -
  let ?f = "f\<lparr>buffer := set_space B (bs @ drop (length bs) (fsm_space B f)) (buffer f)\<rparr>"
  have copy: "copy_into_space B bs f = Ok ?f" using assms(3) by (simp add: copy_into_space_def)
  have len: "length (bs @ drop (length bs) (fsm_space B f)) = length (space B (buffer f))"
    using assms(3) by (simp add: fsm_space_def)
  have f': "fsm_inv B ?f" "roomy B ?f" "fsm_abs B ?f = fsm_abs B f"
    using assms len by (auto simp: fsm_inv_def roomy_def fsm_abs_def split: State.split)
  have filled: "fsm_inv B (fsm_fill B (length bs) ?f)" "fsm_abs B (fsm_fill B (length bs) ?f) = feed bs (fsm_abs B f)"
    using write_fill_refines [OF assms(1), of bs] assms(3) copy by (simp_all add: fsm_space_def)
  have "roomy B (fsm_fill B (length bs) ?f)"
    using assms(2,3) len fill(2) [of "buffer ?f" "length bs"]
    by (auto simp: roomy_def Let_def fsm_fill_def fsm_space_def split: State.splits)
  then show thesis
    using copy f' filled by (intro that [of ?f]) (auto simp: fsm_fill_def)
qed

lemma has_decoded_abs: "has_decoded_metadata f \<longleftrightarrow> d_phase (fsm_abs B f) = Ph_Record"
  by (simp add: has_decoded_metadata_def fsm_abs_def split: State.split)

lemma process_dec:
  assumes "dec_inv B d" and "spec_record (fsm_abs B (rd_fsm d)) = Ok (a, out)"
  obtains f r where "process C B (rd_fsm d) = Some (Ok (f, r))" and "dec_inv B (d\<lparr>rd_fsm := f\<rparr>)"
    and "fsm_abs B f = a" and "output_of B f r = out"
    and "\<And>n. r = ReadMore n \<Longrightarrow> n \<le> length (fsm_space B f)"
proof -
  have "spec_process C (fsm_abs B (rd_fsm d)) = Ok (a, out)"
    using assms by (simp add: dec_inv_def has_decoded_abs spec_process_def)
  then obtain f r where f: "process C B (rd_fsm d) = Some (Ok (f, r))" "fsm_inv B f" "fsm_abs B f = a"
    "output_of B f r = out"
    using process_refines_spec [of "rd_fsm d" C] assms(1) by (auto simp: dec_inv_def refines_def)
  have "d_phase a = Ph_Record"
    using assms by (auto simp: dec_inv_def has_decoded_abs spec_record_def Let_def and_then_eq_Ok split: if_splits)
  then show thesis
    using f process_roomy [OF f(1)] assms(1)
    by (intro that [of f r]) (auto simp: dec_inv_def has_decoded_abs)
qed

lemma process_step_exposes:
  assumes "process_step C B f = Ok (Inr (f', Result_Record u))"
  shows "\<exists>rec. last_record B f' = Some rec"
proof (cases "state f")
  case State_Record
  then show ?thesis
    using assms
    by (auto simp: process_step_def Let_def and_then_eq_Ok last_record_def split: if_splits option.splits)
qed (use assms in \<open>auto simp: process_step_def Let_def and_then_step_Ok split: if_splits\<close>)

lemma process_exposes:
  fixes C :: "'d date_ops"
  assumes "process C B f = Some (Ok (f', Result_Record u))"
  shows "\<exists>rec. last_record B f' = Some rec"
proof -
  have "\<forall>v. snd (f', Result_Record u :: ('d, unit) ProcessResult) = Result_Record v \<longrightarrow>
      (\<exists>rec. last_record B (fst (f', Result_Record u :: ('d, unit) ProcessResult)) = Some rec)"
    by (rule iterate_invariant [OF assms [unfolded process_def], where P = "\<lambda>_. True" and
          Q = "\<lambda>x. \<forall>v. snd x = Result_Record v \<longrightarrow> (\<exists>rec. last_record B (fst x) = Some rec)"])
      (auto dest: process_step_exposes)
  then show ?thesis by simp
qed

lemma process_outcome:
  assumes "fsm_inv B f" and "roomy B f" and "spec_process C (fsm_abs B f) = Ok (a, out)"
  obtains f' x where "process C B f = Some (Ok (f', x))" and "fsm_inv B f'" and "roomy B f'"
    and "fsm_abs B f' = a" and "output_of B f' x = out"
proof -
  obtain f' x where f': "process C B f = Some (Ok (f', x))" "fsm_inv B f'" "fsm_abs B f' = a" "output_of B f' x = out"
    using process_refines_spec [OF assms(1), of C] assms(3) by (auto simp: refines_def)
  then show thesis using process_roomy [OF f'(1) assms(2)] that by blast
qed

text \<open>With a whole record buffered, \<^verbatim>\<open>process\<close> gives the result of the call.\<close>

lemma process_complete:
  fixes C :: "'d date_ops"
  assumes "dec_inv B d" and "complete (fsm_abs B (rd_fsm d))"
  shows "case next_record (dec_abs B pending d) of
      Ok (a, r) \<Rightarrow> \<exists>f x. process C B (rd_fsm d) = Some (Ok (f, x)) \<and> dec_inv B (d\<lparr>rd_fsm := f\<rparr>) \<and>
        dec_abs B pending (d\<lparr>rd_fsm := f\<rparr>) = a \<and>
        ((\<exists>u. x = Result_Record u \<and> ref_bytes (Ok (last_record B f)) = r) \<or> (\<exists>e. x = Result_Err e \<and> r = Err e))
    | Err e \<Rightarrow> False
    | Panic p \<Rightarrow> process C B (rd_fsm d) = Some (Panic p)"
proof (cases "spec_record (fsm_abs B (rd_fsm d)) :: (decoder \<times> 'd outcome) result")
  case (Ok res)
  then obtain a out where ok: "spec_record (fsm_abs B (rd_fsm d)) = Ok (a, out :: 'd outcome)" by (cases res) auto
  obtain f r where f: "process C B (rd_fsm d) = Some (Ok (f, r))"
    "dec_inv B (d\<lparr>rd_fsm := f\<rparr>)" "fsm_abs B f = a" "output_of B f r = out"
    using process_dec [OF assms(1) ok] by metis
  have "spec_record (dec_abs B pending d) = Ok (feed (pending (rd_reader d)) a, out)"
    by (simp add: dec_abs_def spec_record_feed [OF assms(2)] ok)
  then have "next_record (dec_abs B pending d) = Ok (feed (pending (rd_reader d)) a,
      case out of Failed e \<Rightarrow> Err e | Got_Record w \<Rightarrow> Ok (Some w) | _ \<Rightarrow> Ok None)"
    using next_record_complete [of "dec_abs B pending d"] complete_feed [OF assms(2)]
    by (simp add: dec_abs_def)
  then show ?thesis
    using f complete_outcome [OF assms(2) ok] process_exposes [of C "rd_fsm d" f]
    by (cases r) (auto simp: output_of_def dec_abs_def)
next
  case (Panic p)
  then have "spec_record (dec_abs B pending d) = (Panic p :: (decoder \<times> 'd outcome) result)"
    by (simp add: dec_abs_def spec_record_feed [OF assms(2)])
  then have "next_record (dec_abs B pending d) = Panic p"
    using next_record_panic [of "dec_abs B pending d"] complete_feed [OF assms(2)] by (simp add: dec_abs_def)
  moreover have "process C B (rd_fsm d) = Some (Panic p)"
    using Panic assms(1) process_refines_spec [of "rd_fsm d" C]
    by (simp add: dec_inv_def has_decoded_abs spec_process_def refines_def)
  ultimately show ?thesis by simp
qed (use spec_record_not_Err in auto)

text \<open>Otherwise it asks for more bytes, for which there is space.\<close>

lemma process_incomplete:
  fixes C :: "'d date_ops"
  assumes "dec_inv B d" and "\<not> complete (fsm_abs B (rd_fsm d))"
  obtains f n where "process C B (rd_fsm d) = Some (Ok (f, ReadMore n))" and "dec_inv B (d\<lparr>rd_fsm := f\<rparr>)"
    and "fsm_abs B f = fsm_abs B (rd_fsm d)" and "fsm_space B f \<noteq> []"
proof -
  obtain n where n: "spec_record (fsm_abs B (rd_fsm d)) = Ok (fsm_abs B (rd_fsm d), More n :: 'd outcome)" "0 < n"
    using spec_record_incomplete assms(2) by metis
  obtain f r where f: "process C B (rd_fsm d) = Some (Ok (f, r))" "dec_inv B (d\<lparr>rd_fsm := f\<rparr>)"
    "fsm_abs B f = fsm_abs B (rd_fsm d)" "output_of B f r = More n" "\<And>n. r = ReadMore n \<Longrightarrow> n \<le> length (fsm_space B f)"
    using process_dec [OF assms(1) n(1)] by metis
  have "r = ReadMore n" using f(4) by (cases r) (simp_all add: output_of_def)
  with f n(2) show thesis by (intro that [of f n]) auto
qed

end

locale sync_reading = oval_buffer B + byte_reader R pending
  for B :: "'b buf_ops" and R :: "'r reader" and pending :: "'r \<Rightarrow> bytes"
begin

text \<open>Reading into the space and filling feeds the decoder.\<close>

lemma read_into_feeds:
  assumes "fsm_inv B f" and "roomy B f"
  obtains r' f' bs where "read_into B R r f = Ok (r', f', Inr (length bs))"
    and "read R (length (fsm_space B f)) r = (r', Inr bs)" and "length bs \<le> length (fsm_space B f)" and "pending r = bs @ pending r'"
    and "bs = [] \<Longrightarrow> fsm_space B f \<noteq> [] \<Longrightarrow> pending r = []"
    and "fsm_inv B (fsm_fill B (length bs) f')" and "roomy B (fsm_fill B (length bs) f')"
    and "fsm_abs B (fsm_fill B (length bs) f') = feed bs (fsm_abs B f)"
    and "state (fsm_fill B (length bs) f') = state f"
    and "fsm_inv B f'" and "roomy B f'" and "fsm_abs B f' = fsm_abs B f" and "state f' = state f"
proof -
  obtain r' bs where r: "read R (length (fsm_space B f)) r = (r', Inr bs)"
    "length bs \<le> length (fsm_space B f)" "pending r = bs @ pending r'"
    "bs = [] \<longrightarrow> length (fsm_space B f) = 0 \<or> pending r = []"
    using read_prefix [of "length (fsm_space B f)" r] by blast
  show thesis
  proof (rule copy_feeds [OF assms r(2)])
    fix f' assume "copy_into_space B bs f = Ok f'"
      "fsm_inv B (fsm_fill B (length bs) f')" "roomy B (fsm_fill B (length bs) f')"
      "fsm_abs B (fsm_fill B (length bs) f') = feed bs (fsm_abs B f)" "state (fsm_fill B (length bs) f') = state f"
      "fsm_inv B f'" "roomy B f'" "fsm_abs B f' = fsm_abs B f" "state f' = state f"
    with r show thesis by (intro that [of r' f' bs]) (auto simp: read_into_def)
  qed
qed

lemma decode_ref_refines_next:
  fixes C :: "'d date_ops"
  assumes "dec_inv B d"
  shows "case next_record (dec_abs B pending d) of
      Ok (a, r) \<Rightarrow> \<exists>d' r'. decode_ref C B R d = Some (Ok (d', r')) \<and> dec_inv B d' \<and>
        dec_abs B pending d' = a \<and> ref_bytes r' = r
    | Err e \<Rightarrow> False
    | Panic p \<Rightarrow> decode_ref C B R d = Some (Panic p)"
  using assms
proof (induction "length (pending (rd_reader d))" arbitrary: d rule: less_induct)
  case less
  show ?case
  proof (cases "complete (fsm_abs B (rd_fsm d))")
    case True
    then show ?thesis
      using process_complete [OF less.prems True, where pending = pending and C = C]
      by (auto simp: decode_ref.simps [of C B R d] dec_inv_def dec_abs_def split: result.splits prod.splits)
  next
    case False
    obtain f n where f: "process C B (rd_fsm d) = Some (Ok (f, ReadMore n))" "dec_inv B (d\<lparr>rd_fsm := f\<rparr>)"
      "fsm_abs B f = fsm_abs B (rd_fsm d)" "fsm_space B f \<noteq> []"
      using process_incomplete [OF less.prems False] by metis
    have inv: "fsm_inv B f" "roomy B f" "has_decoded_metadata f" using f(2) by (simp_all add: dec_inv_def)
    obtain r' f' bs where g: "read_into B R (rd_reader d) f = Ok (r', f', Inr (length bs))"
      "pending (rd_reader d) = bs @ pending r'"
      "bs = [] \<Longrightarrow> fsm_space B f \<noteq> [] \<Longrightarrow> pending (rd_reader d) = []"
      "fsm_inv B (fsm_fill B (length bs) f')" "roomy B (fsm_fill B (length bs) f')"
      "fsm_abs B (fsm_fill B (length bs) f') = feed bs (fsm_abs B f)"
      "fsm_inv B f'" "roomy B f'" "fsm_abs B f' = fsm_abs B f"
      using read_into_feeds [OF inv(1,2), of "rd_reader d"] by metis
    have phase: "has_decoded_metadata f'" "has_decoded_metadata (fsm_fill B (length bs) f')"
      using inv(3) g by (simp_all add: has_decoded_abs)
    show ?thesis
    proof (cases "bs = []")
      case True
      then have "pending (rd_reader d) = []" "pending r' = []" using g(2,3) f(4) by auto
      then show ?thesis
        using f g True phase False
        by (subst decode_ref.simps) (simp add: next_record_incomplete dec_abs_def dec_inv_def)
    next
      case ne: False
      let ?d = "\<lparr>rd_reader = r', rd_fsm = fsm_fill B (length bs) f'\<rparr>"
      have eq: "decode_ref C B R d = decode_ref C B R ?d"
        using f g ne by (subst decode_ref.simps) simp
      moreover have "dec_abs B pending ?d = dec_abs B pending d" using f g by (simp add: dec_abs_def)
      moreover have "dec_inv B ?d" using g phase by (simp add: dec_inv_def)
      ultimately show ?thesis unfolding eq using less.hyps [of ?d] g(2) ne by simp
    qed
  qed
qed

end

section \<open>Metadata at the front of a stream\<close>

text \<open>The abstract decoder once it has decoded the metadata.\<close>

definition after_metadata :: "VersionUpgradePolicy \<Rightarrow> 'd Metadata \<Rightarrow> bytes \<Rightarrow> decoder" where
  "after_metadata policy m bs =
     \<lparr>d_version = Some (md_version m), d_policy = policy, d_ts_out = md_ts_out m, d_phase = Ph_Record,
      d_bytes = bs\<rparr>"

definition streamable :: "'d date_ops \<Rightarrow> VersionUpgradePolicy \<Rightarrow> 'd Metadata \<Rightarrow> bool" where
  "streamable C policy m \<longleftrightarrow> metadata_ok C m \<and> needed_len m + 7 < 2 ^ 32 \<and>
     is_ok (validate_compatibility policy (md_version m))"

context calendar
begin

lemma streamable_encodable: "streamable C policy m \<Longrightarrow> encodable m"
  using mapping_ok_fits
  by (auto simp: streamable_def metadata_ok_def encodable_def texts_ok_def text_ok_def list_all_iff)

lemma streamable_length:
  assumes "streamable C policy m"
  shows "length (metadata_bytes C m) = 8 + unat (fst (calc_length m))"
    and "100 \<le> unat (fst (calc_length m))" and "md_version m \<le> DBN_VERSION" and "max (md_version m) 1 = md_version m"
  using assms streamable_encodable [OF assms]
  by (auto simp: streamable_def metadata_ok_def metadata_bytes_def length_body_bytes calc_length_value
      needed_len_def Let_def max_def METADATA_FIXED_LEN_def)

lemma metadata_prelude:
  assumes "streamable C policy m" and "bs @ later = metadata_bytes C m @ rest" and "8 \<le> length bs"
  shows "prelude_error policy bs = None" and "bs ! 3 = md_version m" and "fst (get_u32 (drop 4 bs)) = fst (calc_length m)"
    and "bs = (as_bytes ''DBN'' @ [md_version m] @ put_u32 (fst (calc_length m))) @ drop 8 bs"
proof -
  let ?p = "as_bytes ''DBN'' @ [md_version m] @ put_u32 (fst (calc_length m))"
  have "take 8 bs = take 8 (metadata_bytes C m @ rest)"
    using assms(3) by (simp add: assms(2) [symmetric])
  also have "\<dots> = ?p"
    using streamable_length(4) [OF assms(1)] by (simp add: metadata_bytes_def)
  finally obtain ys where bs: "bs = ?p @ ys" by (metis append_take_drop_id)
  then show v: "bs ! 3 = md_version m" and n: "fst (get_u32 (drop 4 bs)) = fst (calc_length m)"
    and "bs = ?p @ drop 8 bs"
    by (simp_all add: nth_append)
  have "take 3 bs = as_bytes ''DBN''" using bs by simp
  then show "prelude_error policy bs = None"
    using assms(1) streamable_length [OF assms(1)] v n
    by (auto simp: prelude_error_def streamable_def METADATA_FIXED_LEN_def not_less split: result.split)
qed

lemma spec_metadata_stream:
  assumes "streamable C (d_policy a) m" and "d_version a = Some (md_version m)"
    and "as_bytes ''DBN'' @ [md_version m] @ put_u32 (fst (calc_length m)) @ d_bytes a @ later =
      metadata_bytes C m @ rest"
  shows "spec_metadata C (fst (calc_length m)) a =
    (if length (d_bytes a) < unat (fst (calc_length m))
     then Ok (a, More (unat (fst (calc_length m)) - length (d_bytes a)))
     else Ok (after_metadata (d_policy a) m (drop (unat (fst (calc_length m))) (d_bytes a)),
       Got_Metadata (metadata_upgrade (d_policy a) m)))"
proof (cases "length (d_bytes a) < unat (fst (calc_length m))")
  case True
  then show ?thesis by (simp add: spec_metadata_def)
next
  case False
  let ?n = "unat (fst (calc_length m))"
  let ?body = "body_bytes C m @ replicate (unat (snd (calc_length m))) 0"
  have whole: "d_bytes a @ later = ?body @ rest"
    using assms(3) streamable_length(4) [OF assms(1)] by (simp add: metadata_bytes_def)
  have len: "length ?body = ?n"
    using streamable_length(1) [OF assms(1)] by (simp add: metadata_bytes_def)
  have "take ?n (d_bytes a) = take ?n (d_bytes a @ later)" using False by simp
  also have "\<dots> = ?body" unfolding whole len [symmetric] by simp
  finally have "d_bytes a = body_bytes C m @ (replicate (unat (snd (calc_length m))) 0 @ drop ?n (d_bytes a))"
    using append_take_drop_id [of ?n "d_bytes a"] by simp
  then have "at (d_bytes a) 0 (body_bytes C m)" by (metis at_0_append)
  then have "decode_metadata_impl C (md_version m) (d_bytes a) = Ok m"
    using assms(1) decode_metadata_impl_at by (simp add: streamable_def)
  then show ?thesis
    using False assms(2) by (simp add: spec_metadata_def after_metadata_def)
qed

lemma spec_process_stream:
  assumes "streamable C (d_policy a) m" and "d_phase a = Ph_Prelude"
    and "d_bytes a @ later = metadata_bytes C m @ rest" and "8 \<le> length (d_bytes a)"
  shows "spec_process C a =
    (if length (d_bytes a) < 8 + unat (fst (calc_length m))
     then Ok (a\<lparr>d_version := Some (md_version m), d_phase := Ph_Metadata (fst (calc_length m)),
                d_bytes := drop 8 (d_bytes a)\<rparr>,
              More (8 + unat (fst (calc_length m)) - length (d_bytes a)))
     else Ok (after_metadata (d_policy a) m (drop (8 + unat (fst (calc_length m))) (d_bytes a)),
       Got_Metadata (metadata_upgrade (d_policy a) m)))"
proof -
  note pre = metadata_prelude [OF assms(1,3,4)]
  let ?a = "a\<lparr>d_version := Some (md_version m), d_phase := Ph_Metadata (fst (calc_length m)),
                d_bytes := drop 8 (d_bytes a)\<rparr>"
  have "as_bytes ''DBN'' @ [md_version m] @ put_u32 (fst (calc_length m)) @ d_bytes ?a @ later =
      metadata_bytes C m @ rest"
    using assms(3) by (subst (asm) pre(4)) simp
  then have "spec_metadata C (fst (calc_length m)) ?a =
    (if length (d_bytes ?a) < unat (fst (calc_length m))
     then Ok (?a, More (unat (fst (calc_length m)) - length (d_bytes ?a)))
     else Ok (after_metadata (d_policy ?a) m (drop (unat (fst (calc_length m))) (d_bytes ?a)),
       Got_Metadata (metadata_upgrade (d_policy ?a) m)))"
    using spec_metadata_stream [of ?a m later rest] assms(1) by simp
  moreover have "spec_process C a = spec_metadata C (fst (calc_length m)) ?a"
    using pre assms(2,4) by (simp add: spec_process_def Let_def)
  ultimately show ?thesis using assms(4) by (auto simp: add.commute)
qed

end

section \<open>Decoding the metadata\<close>

locale stream_reading = sync_reading B R pending + calendar C
  for B :: "'b buf_ops" and R :: "'r reader" and pending :: "'r \<Rightarrow> bytes" and C :: "'d::linorder date_ops"
begin

text \<open>The loop of the metadata decoder reads on until the missing bytes are there.\<close>

lemma fill_loop:
  assumes "fsm_inv B f" and "roomy B f" and "state f = State_Metadata k" and "got < n"
    and "length (data B (buffer f)) + (n - got) = unat k" and "n - got \<le> length (pending r)"
  shows "\<exists>r' f' bs. iterate (fill_step B R n) (got, \<lparr>mdd_reader = r, mdd_fsm = f\<rparr>) =
      Some (Ok (\<lparr>mdd_reader = r', mdd_fsm = f'\<rparr>, None)) \<and> pending r = bs @ pending r' \<and>
    n - got \<le> length bs \<and> fsm_inv B f' \<and> roomy B f' \<and> state f' = State_Metadata k \<and>
    fsm_abs B f' = feed bs (fsm_abs B f)"
  using assms
proof (induction "n - got" arbitrary: got r f rule: less_induct)
  case less
  have room: "fsm_space B f \<noteq> []"
    using less.prems(2-5) by (auto simp: roomy_def Let_def fsm_space_def)
  obtain r' g bs where g: "read_into B R r f = Ok (r', g, Inr (length bs))" "pending r = bs @ pending r'"
    "bs = [] \<Longrightarrow> fsm_space B f \<noteq> [] \<Longrightarrow> pending r = []"
    "fsm_inv B (fsm_fill B (length bs) g)" "roomy B (fsm_fill B (length bs) g)"
    "fsm_abs B (fsm_fill B (length bs) g) = feed bs (fsm_abs B f)"
    "state (fsm_fill B (length bs) g) = state f"
    using read_into_feeds [OF less.prems(1,2), of r] by metis
  have bs: "bs \<noteq> []" using g(2,3) room less.prems(4,6) by auto
  let ?f = "fsm_fill B (length bs) g"
  have data: "length (data B (buffer ?f)) = length (data B (buffer f)) + length bs"
    using arg_cong [OF g(6), of "\<lambda>a. length (d_bytes a)"] g(7) less.prems(3) by (simp add: fsm_abs_def)
  show ?case
  proof (cases "n \<le> got + length bs")
    case True
    then have "fill_step B R n (got, \<lparr>mdd_reader = r, mdd_fsm = f\<rparr>) =
        Ok (Inr (\<lparr>mdd_reader = r', mdd_fsm = ?f\<rparr>, None))"
      using g(1) bs by (simp add: fill_step_def)
    then show ?thesis
      using g True less.prems(3) by (intro exI [of _ r'] exI [of _ ?f] exI [of _ bs]) (simp add: iterate_Inr)
  next
    case False
    then have step: "fill_step B R n (got, \<lparr>mdd_reader = r, mdd_fsm = f\<rparr>) =
        Ok (Inl (got + length bs, \<lparr>mdd_reader = r', mdd_fsm = ?f\<rparr>))"
      using g(1) bs by (simp add: fill_step_def)
    have lt: "n - (got + length bs) < n - got"
      using bs less.prems(4) by (cases bs) auto
    have left: "n - (got + length bs) \<le> length (pending r')"
      "length (data B (buffer ?f)) + (n - (got + length bs)) = unat k" "got + length bs < n"
      using g(2) less.prems(5,6) data False by simp_all
    obtain r'' f'' cs where "iterate (fill_step B R n) (got + length bs, \<lparr>mdd_reader = r', mdd_fsm = ?f\<rparr>) =
        Some (Ok (\<lparr>mdd_reader = r'', mdd_fsm = f''\<rparr>, None))" "pending r' = cs @ pending r''"
      "n - (got + length bs) \<le> length cs" "fsm_inv B f''" "roomy B f''" "state f'' = State_Metadata k"
      "fsm_abs B f'' = feed cs (fsm_abs B ?f)"
      using less.hyps [OF lt g(4,5) _ left(3,2,1)] g(7) less.prems(3) by (auto simp del: feed_feed)
    then show ?thesis
      using g step by (intro exI [of _ r''] exI [of _ f''] exI [of _ "bs @ cs"]) (simp add: iterate_Inl)
  qed
qed

lemma process_again:
  assumes "fsm_inv B f" and "roomy B f" and "state f = State_Metadata (fst (calc_length m))"
    and "streamable C (upgrade_policy f) m" and "input_dbn_version f = Some (md_version m)"
    and "as_bytes ''DBN'' @ [md_version m] @ put_u32 (fst (calc_length m)) @ data B (buffer f) @ later =
      metadata_bytes C m @ rest"
    and "unat (fst (calc_length m)) \<le> length (data B (buffer f))"
  shows "\<exists>f'. process C B f = Some (Ok (f', Result_Metadata (metadata_upgrade (upgrade_policy f) m))) \<and>
    fsm_inv B f' \<and> roomy B f' \<and> fsm_abs B f' =
      after_metadata (upgrade_policy f) m (drop (unat (fst (calc_length m))) (data B (buffer f)))"
proof -
  have "spec_process C (fsm_abs B f) = Ok (after_metadata (upgrade_policy f) m
      (drop (unat (fst (calc_length m))) (data B (buffer f))), Got_Metadata (metadata_upgrade (upgrade_policy f) m))"
    using spec_metadata_stream [of "fsm_abs B f" m later rest] assms(3-7)
    by (simp add: spec_process_def fsm_abs_def)
  then obtain f' r where f': "process C B f = Some (Ok (f', r))" "fsm_inv B f'"
    "fsm_abs B f' = after_metadata (upgrade_policy f) m (drop (unat (fst (calc_length m))) (data B (buffer f)))"
    "output_of B f' r = Got_Metadata (metadata_upgrade (upgrade_policy f) m)"
    using process_refines_spec [OF assms(1), of C] by (auto simp: refines_def)
  then show ?thesis
    using process_roomy [OF f'(1) assms(2)] by (cases r) (auto simp: output_of_def)
qed

lemma abs_metadata:
  assumes "d_phase (fsm_abs B f) = Ph_Metadata n"
  shows "state f = State_Metadata n" and "data B (buffer f) = d_bytes (fsm_abs B f)"
    and "input_dbn_version f = d_version (fsm_abs B f)" and "upgrade_policy f = d_policy (fsm_abs B f)"
  using assms by (auto simp: fsm_abs_def split: State.splits)

lemma metadata_resume:
  assumes f: "fsm_inv B f" "roomy B f" "d_phase (fsm_abs B f) = Ph_Metadata (fst (calc_length m))"
    and m: "streamable C (d_policy (fsm_abs B f)) m" "d_version (fsm_abs B f) = Some (md_version m)"
    and whole: "as_bytes ''DBN'' @ [md_version m] @ put_u32 (fst (calc_length m)) @ d_bytes (fsm_abs B f) @ pending r =
      metadata_bytes C m @ rest"
    and short: "n = unat (fst (calc_length m)) - length (d_bytes (fsm_abs B f))" "0 < n"
  shows "\<exists>md r' f' bs. iterate (fill_step B R n) (0, \<lparr>mdd_reader = r, mdd_fsm = f\<rparr>) = Some (Ok (md, None)) \<and>
    metadata_process_again C B md = Some (Ok (\<lparr>mdd_reader = r', mdd_fsm = f'\<rparr>,
      Ok (metadata_upgrade (d_policy (fsm_abs B f)) m))) \<and>
    fsm_inv B f' \<and> roomy B f' \<and> fsm_abs B f' = after_metadata (d_policy (fsm_abs B f)) m bs \<and>
    bs @ pending r' = rest"
proof -
  let ?n = "unat (fst (calc_length m))"
  note st = abs_metadata [OF f(3)]
  have len: "length (d_bytes (fsm_abs B f)) + length (pending r) = ?n + length rest"
    using arg_cong [OF whole, of length] streamable_length(1) [OF m(1)] by simp
  then have n: "n - 0 \<le> length (pending r)" "length (data B (buffer f)) + (n - 0) = ?n"
    using short st(2) by simp_all
  obtain r' g xs where g: "iterate (fill_step B R n) (0, \<lparr>mdd_reader = r, mdd_fsm = f\<rparr>) =
      Some (Ok (\<lparr>mdd_reader = r', mdd_fsm = g\<rparr>, None))" "pending r = xs @ pending r'"
    "n - 0 \<le> length xs" "fsm_inv B g" "roomy B g" "state g = State_Metadata (fst (calc_length m))"
    "fsm_abs B g = feed xs (fsm_abs B f)"
    using fill_loop [OF f(1,2) st(1) short(2) n(2,1)] by blast
  let ?ds = "d_bytes (fsm_abs B f) @ xs"
  have stg: "data B (buffer g) = ?ds" "input_dbn_version g = Some (md_version m)"
    "upgrade_policy g = d_policy (fsm_abs B f)"
    using abs_metadata [of g] g(7) f(3) m(2) by simp_all
  have enough: "?n \<le> length (data B (buffer g))" using stg(1) g(3) short by simp
  obtain f' where f': "process C B g = Some (Ok (f', Result_Metadata (metadata_upgrade (d_policy (fsm_abs B f)) m)))"
    "fsm_inv B f'" "roomy B f'" "fsm_abs B f' = after_metadata (d_policy (fsm_abs B f)) m (drop ?n ?ds)"
    using process_again [OF g(4,5,6), of "pending r'" rest] m(1) stg whole g(2) enough by auto
  have "drop 8 (metadata_bytes C m @ rest) = ?ds @ pending r'"
    by (subst whole [symmetric]) (simp add: g(2))
  then have "drop ?n (drop 8 (metadata_bytes C m @ rest)) = drop ?n ?ds @ pending r'"
    using enough stg(1) by simp
  then have "drop ?n ?ds @ pending r' = rest" using streamable_length(1) [OF m(1)] by (simp add: add.commute)
  with g(1) f' show ?thesis
    by (intro exI conjI) (auto simp: metadata_process_again_def)
qed

text \<open>What the metadata decoder returns for a stream that starts with encoded metadata.\<close>

lemma metadata_decoder_decodes:
  assumes f: "fsm_inv B f" "roomy B f" "state f = State_Prelude" "data B (buffer f) = []"
    and m: "streamable C (upgrade_policy f) m" and r: "pending r = metadata_bytes C m @ rest"
    and first: "read R (length (fsm_space B f)) r = (r1, Inr piece)" "8 \<le> length piece"
  shows "\<exists>r' f' bs. metadata_decoder_decode C B R \<lparr>mdd_reader = r, mdd_fsm = f\<rparr> =
      Some (Ok (\<lparr>mdd_reader = r', mdd_fsm = f'\<rparr>, Ok (metadata_upgrade (upgrade_policy f) m))) \<and>
    fsm_inv B f' \<and> roomy B f' \<and> fsm_abs B f' = after_metadata (upgrade_policy f) m bs \<and>
    bs @ pending r' = rest"
proof -
  let ?n = "fst (calc_length m)" and ?p = "upgrade_policy f"
  have N: "length (metadata_bytes C m) = 8 + unat ?n" by (rule streamable_length(1) [OF m])
  obtain r' g bs where g: "read_into B R r f = Ok (r', g, Inr (length bs))"
    "read R (length (fsm_space B f)) r = (r', Inr bs)" "pending r = bs @ pending r'"
    "fsm_inv B (fsm_fill B (length bs) g)" "roomy B (fsm_fill B (length bs) g)"
    "fsm_abs B (fsm_fill B (length bs) g) = feed bs (fsm_abs B f)"
    using read_into_feeds [OF f(1,2), of r] by metis
  have len: "8 \<le> length bs" using g(2) first by simp
  let ?f = "fsm_fill B (length bs) g"
  have a: "d_bytes (fsm_abs B ?f) = bs" "d_policy (fsm_abs B ?f) = ?p" "d_phase (fsm_abs B ?f) = Ph_Prelude"
    using g(6) f by (simp_all add: fsm_abs_def)
  have spec: "spec_process C (fsm_abs B ?f) =
    (if length bs < 8 + unat ?n
     then Ok ((fsm_abs B ?f)\<lparr>d_version := Some (md_version m), d_phase := Ph_Metadata ?n, d_bytes := drop 8 bs\<rparr>,
              More (8 + unat ?n - length bs))
     else Ok (after_metadata ?p m (drop (8 + unat ?n) bs), Got_Metadata (metadata_upgrade ?p m)))"
    using spec_process_stream [of "fsm_abs B ?f" m "pending r'" rest] m a g(3) r len by simp
  show ?thesis
  proof (cases "length bs < 8 + unat ?n")
    case False
    then have "spec_process C (fsm_abs B ?f) =
        Ok (after_metadata ?p m (drop (8 + unat ?n) bs), Got_Metadata (metadata_upgrade ?p m))"
      using spec by simp
    then obtain f' x where f': "process C B ?f = Some (Ok (f', x))" "fsm_inv B f'" "roomy B f'"
      "fsm_abs B f' = after_metadata ?p m (drop (8 + unat ?n) bs)"
      "output_of B f' x = Got_Metadata (metadata_upgrade ?p m)"
      using process_outcome [OF g(4,5)] by metis
    then have "x = Result_Metadata (metadata_upgrade ?p m)" by (cases x) (simp_all add: output_of_def)
    moreover have "drop (8 + unat ?n) bs @ pending r' = rest"
      using False g(3) r N by (metis drop_append diff_is_0_eq drop0 not_less append_eq_conv_conj)
    ultimately show ?thesis using f' g(1) by (simp add: metadata_decoder_decode_def) blast
  next
    case True
    define k where "k = 8 + unat ?n - length bs"
    define a1 where "a1 = (fsm_abs B ?f)\<lparr>d_version := Some (md_version m), d_phase := Ph_Metadata ?n, d_bytes := drop 8 bs\<rparr>"
    have "spec_process C (fsm_abs B ?f) = Ok (a1, More k)"
      using spec True by (simp add: a1_def k_def)
    then obtain f' x where f': "process C B ?f = Some (Ok (f', x))" "fsm_inv B f'" "roomy B f'"
      "fsm_abs B f' = a1" "output_of B f' x = More k"
      using process_outcome [OF g(4,5)] by metis
    then have x: "x = ReadMore k" by (cases x) (simp_all add: output_of_def)
    have "bs @ pending r' = metadata_bytes C m @ rest" using g(3) r by simp
    then have "(as_bytes ''DBN'' @ [md_version m] @ put_u32 ?n) @ drop 8 bs @ pending r' = metadata_bytes C m @ rest"
      using metadata_prelude(4) [OF m _ len, of "pending r'" rest] by (metis append.assoc)
    moreover have "k = unat ?n - length (d_bytes (fsm_abs B f'))" "0 < k"
      using f'(4) True len by (simp_all add: a1_def k_def)
    ultimately obtain md r'' f'' ys where "iterate (fill_step B R k)
        (0, \<lparr>mdd_reader = r', mdd_fsm = f'\<rparr>) = Some (Ok (md, None))"
      "metadata_process_again C B md = Some (Ok (\<lparr>mdd_reader = r'', mdd_fsm = f''\<rparr>, Ok (metadata_upgrade ?p m)))"
      "fsm_inv B f''" "roomy B f''" "fsm_abs B f'' = after_metadata ?p m ys" "ys @ pending r'' = rest"
      using metadata_resume [OF f'(2,3), of m r' rest k] f'(4) m a(2) by (auto simp: a1_def)
    then show ?thesis
      using f'(1) x g(1) by (intro exI [of _ r''] exI [of _ f''] exI [of _ ys]) (simp add: metadata_decoder_decode_def)
  qed
qed

end

section \<open>Properties\<close>

text \<open>
  C2. The record decoder returns the next record of the stream: with the buffered bytes and
  those still to come from the reader taken together, \<open>decode_ref\<close> returns the next record,
  converted as the version and the policy ask for, or nothing at the end of the stream, or an
  error for a length that no record has. It always returns, and how the reader cuts the stream
  into pieces makes no difference.
\<close>

theorem decode_ref_refines:
  assumes "oval_buffer B" and "byte_reader R pending" and "dec_inv B d"
  shows "case next_record (dec_abs B pending d) of
      Ok (a, r) \<Rightarrow> \<exists>d' r'. decode_ref C B R d = Some (Ok (d', r')) \<and> dec_inv B d' \<and>
        dec_abs B pending d' = a \<and> ref_bytes r' = r
    | Err e \<Rightarrow> False
    | Panic p \<Rightarrow> decode_ref C B R d = Some (Panic p)"
proof -
  have "sync_reading B R pending" using assms(1,2) by (simp add: sync_reading_def)
  then show ?thesis using sync_reading.decode_ref_refines_next [OF _ assms(3)] by blast
qed

theorem decode_ref_refines_witness:
  "\<exists>d d' r'. record_decoder_new list_buffer ([5, 1, 9], 14 # replicate 55 0) = Ok d \<and>
     decode_ref gregorian list_buffer piece_reader d = Some (Ok (d', r')) \<and>
     ref_bytes r' = Ok (Some (14 # replicate 55 0))"
proof -
  define f where "f = \<lparr>input_dbn_version = Some 3, upgrade_policy = VersionUpgradePolicy_AsIs, fsm_ts_out = False,
    state = State_Record, buffer = with_capacity list_buffer DEFAULT_BUF_SIZE,
    compat_buffer = with_capacity list_buffer MAX_RECORD_LEN\<rparr>"
  let ?bs = "14 # replicate 55 0 :: bytes"
  let ?r = "([5, 1, 9], ?bs) :: nat list \<times> bytes"
  let ?d = "\<lparr>rd_reader = ?r, rd_fsm = f\<rparr>"
  have new: "record_decoder_new list_buffer ?r = Ok ?d"
    by (simp add: record_decoder_new_def record_decoder_with_version_def builder_input_dbn_version_def
        dbn_version_try_from_def DBN_VERSION_def builder_skip_metadata_def builder_compat_size_def fsm_builder_def
        builder_ts_out_def builder_upgrade_policy_def fsm_build_def validate_compatibility_def unwrap_def f_def)
  have "dec_inv list_buffer ?d"
    by (simp add: dec_inv_def f_def fsm_inv_def roomy_def has_decoded_metadata_def DEFAULT_BUF_SIZE_def)
  moreover have "next_record (dec_abs list_buffer snd ?d) =
      Ok ((dec_abs list_buffer snd ?d)\<lparr>d_bytes := []\<rparr>, Ok (Some ?bs))"
    by (simp add: next_record_def dec_abs_def fsm_abs_def f_def feed_def select_upgrade_def upgrade_for_def
        is_upgrade_situation_def DBN_VERSION_def)
  ultimately show ?thesis
    using decode_ref_refines [OF list_buffer.oval_buffer_axioms piece.byte_reader_axioms, of ?d gregorian] new by auto
qed

end
