(* ===== verification/Transcode.thy ===== *)
theory Transcode
  imports Sync_Spec Defaults
begin

text \<open>
  The default methods of the trait \<^verbatim>\<open>EncodeDbn\<close> (rust/dbn/src/encode.rs), which feed an
  encoder from a slice of records or from a decoder, and the properties of a whole stream:
  what \<^verbatim>\<open>Encoder\<close> wrote is what \<^verbatim>\<open>Decoder\<close> returns, converted to the version the
  upgrade policy asks for, whatever the pieces in which the reader delivers it.
\<close>

section \<open>Definitions\<close>

definition encode_records :: "('t \<Rightarrow> 'w enc) \<Rightarrow> 'w enc \<Rightarrow> 't list \<Rightarrow> 'w enc" where
  "encode_records enc_record enc_flush records = seq (for_each records enc_record) enc_flush"

text \<open>
  A decoder is given by its \<^verbatim>\<open>decode_record_ref\<close> and its state, an encoder by its
  \<^verbatim>\<open>encode_record_ref_ts_out\<close> and \<^verbatim>\<open>flush\<close>; the limit counts the records left.
\<close>

partial_function (option) encode_decoded_loop ::
  "('s \<Rightarrow> ('s \<times> bytes option result) result option) \<Rightarrow> (bytes \<Rightarrow> 'w enc) \<Rightarrow> 'w enc \<Rightarrow> nat option \<Rightarrow> 's \<Rightarrow> 'w
   \<Rightarrow> ('w \<times> unit result) result option" where
  "encode_decoded_loop decode_record_ref enc_ref enc_flush left s w =
     (case decode_record_ref s of
        None \<Rightarrow> None
      | Some (Panic p) \<Rightarrow> Some (Panic p)
      | Some (Err e) \<Rightarrow> Some (Err e)
      | Some (Ok (s, Err e)) \<Rightarrow> Some (Ok (w, Err e))
      | Some (Ok (s, Panic p)) \<Rightarrow> Some (Panic p)
      | Some (Ok (s, Ok None)) \<Rightarrow> Some (Ok (enc_flush w))
      | Some (Ok (s, Ok (Some rec))) \<Rightarrow>
          (case enc_ref rec w of
             (w, Err e) \<Rightarrow> Some (Ok (w, Err e))
           | (w, Panic p) \<Rightarrow> Some (Panic p)
           | (w, Ok _) \<Rightarrow>
               if left = Some 1 then Some (Ok (enc_flush w))
               else encode_decoded_loop decode_record_ref enc_ref enc_flush (map_option (\<lambda>n. n - 1) left) s w))"

definition encode_decoded ::
  "('s \<Rightarrow> ('s \<times> bytes option result) result option) \<Rightarrow> (bytes \<Rightarrow> bool \<Rightarrow> 'w enc) \<Rightarrow> 'w enc \<Rightarrow> bool \<Rightarrow> 's \<Rightarrow> 'w
   \<Rightarrow> ('w \<times> unit result) result option" where
  "encode_decoded decode_record_ref enc_ref enc_flush ts_out s w =
     encode_decoded_loop decode_record_ref (\<lambda>rec. enc_ref rec ts_out) enc_flush None s w"

definition encode_decoded_with_limit ::
  "('s \<Rightarrow> ('s \<times> bytes option result) result option) \<Rightarrow> (bytes \<Rightarrow> bool \<Rightarrow> 'w enc) \<Rightarrow> 'w enc \<Rightarrow> bool \<Rightarrow> u64 \<Rightarrow> 's \<Rightarrow> 'w
   \<Rightarrow> ('w \<times> unit result) result option" where
  "encode_decoded_with_limit decode_record_ref enc_ref enc_flush ts_out limit s w =
     encode_decoded_loop decode_record_ref (\<lambda>rec. enc_ref rec ts_out) enc_flush (Some (unat limit)) s w"

section \<open>Streams of records\<close>

text \<open>
  \<open>upgrades policy m w v\<close>: the bytes \<open>w\<close> are one record of a stream with metadata \<open>m\<close>, and
  under the policy it is returned as \<open>v\<close>.
\<close>

definition upgrades :: "VersionUpgradePolicy \<Rightarrow> 'd Metadata \<Rightarrow> bytes \<Rightarrow> bytes \<Rightarrow> bool" where
  "upgrades policy m w v \<longleftrightarrow>
     16 \<le> length w \<and> rr_record_size w = length w \<and>
     (\<exists>up. select_upgrade (Some (md_version m)) policy (md_ts_out m) w = Ok (Some (md_version m), up) \<and>
        v = (case up of Some x \<Rightarrow> x | None \<Rightarrow> w))"

lemma next_record_upgrades:
  assumes "upgrades policy m w v"
  shows "next_record (after_metadata policy m (w @ rest)) = Ok (after_metadata policy m rest, Ok (Some v))"
proof -
  obtain up where up: "select_upgrade (Some (md_version m)) policy (md_ts_out m) w = Ok (Some (md_version m), up)"
    "v = (case up of Some x \<Rightarrow> x | None \<Rightarrow> w)"
    using assms by (auto simp: upgrades_def)
  have w: "16 \<le> length w" "w \<noteq> []" "unat (hd w) * 4 = length w"
    using assms rr_record_size_hd [of w] by (cases w; simp add: upgrades_def)+
  have "whole_record w" using assms by (simp add: upgrades_def whole_record_def)
  then show ?thesis
    using up w by (simp add: next_record_def after_metadata_def select_upgrade_append Let_def split: option.split)
qed

lemma next_record_end: "next_record (after_metadata policy m []) = Ok (after_metadata policy m [], Ok None)"
  by (simp add: next_record_def after_metadata_def)

text \<open>A reference with the bytes of a whole record is read as those bytes are.\<close>

lemma rr_try_get_append:
  assumes "dbn_record T" and "whole_record bs"
  shows "rr_try_get T (bs @ ys) = rr_try_get T bs"
proof -
  have "rd (cast T) (bs @ ys) = rd (cast T) bs" if "size_of T \<le> rr_record_size bs"
    using that assms(2) codec.rd_append [OF dbn_record.layout [OF assms(1)], of bs ys]
    by (simp add: whole_record_def)
  then show ?thesis
    using assms(2) by (simp add: rr_try_get_def rr_has_def whole_record_def rr_header_append rr_record_size_append)
qed

lemma try_get_ref:
  assumes "dbn_record T" and "rr_as_ref ref = v" and "whole_record v"
  shows "rr_try_get T ref = rr_try_get T v"
proof -
  have "ref = v @ drop (rr_record_size ref) ref"
    unfolding assms(2) [symmetric] rr_as_ref_def by simp
  then show ?thesis using rr_try_get_append [OF assms(1,3)] by metis
qed

context sync_reading
begin

lemma decode_ref_upgrades:
  assumes "dec_inv B d" and "dec_abs B pending d = after_metadata policy m (w @ rest)"
    and "upgrades policy m w v"
  obtains d' ref where "decode_ref C B R d = Some (Ok (d', Ok (Some ref)))" and "dec_inv B d'"
    and "dec_abs B pending d' = after_metadata policy m rest" and "rr_as_ref ref = v"
proof -
  obtain d' r' where d': "decode_ref C B R d = Some (Ok (d', r'))" "dec_inv B d'"
    "dec_abs B pending d' = after_metadata policy m rest" "ref_bytes r' = Ok (Some v)"
    using decode_ref_refines_next [OF assms(1), of C] assms(2) next_record_upgrades [OF assms(3), of rest]
    by auto
  then obtain ref where "r' = Ok (Some ref)" "rr_as_ref ref = v"
    by (cases r') auto
  with d' that show thesis by blast
qed

lemma decode_ref_end:
  assumes "dec_inv B d" and "dec_abs B pending d = after_metadata policy m []"
  obtains d' where "decode_ref C B R d = Some (Ok (d', Ok None))" and "dec_inv B d'"
    and "dec_abs B pending d' = after_metadata policy m []"
proof -
  obtain d' r' where "decode_ref C B R d = Some (Ok (d', r'))" "dec_inv B d'"
    "dec_abs B pending d' = after_metadata policy m []" "ref_bytes r' = Ok None"
    using decode_ref_refines_next [OF assms(1), of C] assms(2) next_record_end [of policy m] by auto
  moreover from this have "r' = Ok None" by (cases r') auto
  ultimately show thesis using that by blast
qed

text \<open>Decoding all records of a type.\<close>

lemma decode_records_upgrades:
  assumes "dbn_record T" and "dec_inv B (dec_decoder d)"
    and "dec_abs B pending (dec_decoder d) = after_metadata policy m (concat ws)"
    and "list_all2 (\<lambda>w x. \<exists>v. upgrades policy m w v \<and> whole_record v \<and> rr_try_get T v = Ok x) ws xs"
  shows "decode_records (decoder_decode_record T C B R) d res = Some (Ok (res @ xs))"
  using assms(4,2,3)
proof (induction ws xs arbitrary: d res rule: list_all2_induct)
  case Nil
  then obtain d' where "decode_ref C B R (dec_decoder d) = Some (Ok (d', Ok None))"
    using decode_ref_end [of "dec_decoder d" policy m] by auto
  then show ?case
    by (subst decode_records.simps) (simp add: decoder_decode_record_def record_decode_def)
next
  case (Cons w ws x xs)
  then obtain v where v: "upgrades policy m w v" "whole_record v" "rr_try_get T v = Ok x" by blast
  obtain d' ref where d': "decode_ref C B R (dec_decoder d) = Some (Ok (d', Ok (Some ref)))" "dec_inv B d'"
    "dec_abs B pending d' = after_metadata policy m (concat ws)" "rr_as_ref ref = v"
    using decode_ref_upgrades [of "dec_decoder d" policy m w "concat ws" v C] Cons.prems v(1) by auto
  have "rr_try_get T ref = Ok x" using try_get_ref [OF assms(1) d'(4) v(2)] v(3) by simp
  then have "decode_records (decoder_decode_record T C B R) d res =
      decode_records (decoder_decode_record T C B R) (d\<lparr>dec_decoder := d'\<rparr>) (res @ [x])"
    using d'(1) by (subst decode_records.simps) (simp add: decoder_decode_record_def record_decode_def)
  then show ?case using Cons.IH [of "d\<lparr>dec_decoder := d'\<rparr>" "res @ [x]"] d' by simp
qed

text \<open>Copying a decoder's records to a DBN encoder over a vector.\<close>

lemma encode_decoded_upgrades:
  assumes "dec_inv B (dec_decoder d)" and "left \<noteq> Some 0"
    and "dec_abs B pending (dec_decoder d) = after_metadata policy m (concat ws)"
    and "list_all2 (upgrades policy m) ws vs"
  shows "encode_decoded_loop (decoder_decode_record_ref C B R) (\<lambda>rec. encode_record_ref_ts_out vec_writer rec ts)
      (encoder_flush vec_writer) left d out =
    Some (Ok (out @ concat (case left of None \<Rightarrow> vs | Some n \<Rightarrow> take n vs), Ok ()))"
  using assms(4,1-3)
proof (induction ws vs arbitrary: d out left rule: list_all2_induct)
  case Nil
  then obtain d' where "decode_ref C B R (dec_decoder d) = Some (Ok (d', Ok None))"
    using decode_ref_end [of "dec_decoder d" policy m] by auto
  then show ?case
    by (subst encode_decoded_loop.simps)
      (simp add: decoder_decode_record_ref_def encoder_flush_def io_op_def vec_writer_def split: option.split)
next
  case (Cons w ws v vs)
  obtain d' ref where d': "decode_ref C B R (dec_decoder d) = Some (Ok (d', Ok (Some ref)))" "dec_inv B d'"
    "dec_abs B pending d' = after_metadata policy m (concat ws)" "rr_as_ref ref = v"
    using decode_ref_upgrades [of "dec_decoder d" policy m w "concat ws" v C] Cons.prems Cons.hyps(1) by auto
  let ?loop = "encode_decoded_loop (decoder_decode_record_ref C B R)
    (\<lambda>rec. encode_record_ref_ts_out vec_writer rec ts) (encoder_flush vec_writer)"
  note enc = encode_record_ref_ts_out_def encode_record_ref_def put_def io_op_def vec_writer_def
  show ?case
  proof (cases "left = Some 1")
    case True
    then show ?thesis
      using d' by (subst encode_decoded_loop.simps)
        (simp add: decoder_decode_record_ref_def enc encoder_flush_def)
  next
    case False
    have "?loop left d out = ?loop (map_option (\<lambda>n. n - 1) left) (d\<lparr>dec_decoder := d'\<rparr>) (out @ v)"
      using d' False by (subst encode_decoded_loop.simps) (simp add: decoder_decode_record_ref_def enc)
    also have "\<dots> = Some (Ok (out @ v @ concat (case map_option (\<lambda>n. n - 1) left of None \<Rightarrow> vs | Some n \<Rightarrow> take n vs), Ok ()))"
      using Cons.IH [of "d\<lparr>dec_decoder := d'\<rparr>" "map_option (\<lambda>n. n - 1) left" "out @ v"] d'(2,3) False Cons.prems(2)
      by (cases left) simp_all
    finally show ?thesis
      using Cons.prems(2) by (cases left) (auto simp: take_Cons')
  qed
qed

end

section \<open>A whole stream\<close>

text \<open>The state machine of a new decoder.\<close>

context oval_buffer
begin

lemma grow_compat_refines:
  "roomy B (grow_compat B n f) = roomy B f"
  "has_decoded_metadata (grow_compat B n f) = has_decoded_metadata f"
  by (auto simp: grow_compat_def roomy_def has_decoded_metadata_def split: State.split)

lemma new_metadata_decoder:
  obtains f where "metadata_decoder_with_upgrade_policy B r policy = Ok \<lparr>mdd_reader = r, mdd_fsm = f\<rparr>"
    and "fsm_inv B f" and "roomy B f" and "state f = State_Prelude" and "data B (buffer f) = []"
    and "upgrade_policy f = policy" and "length (fsm_space B f) = DEFAULT_BUF_SIZE"
  by (rule that [of "\<lparr>input_dbn_version = None, upgrade_policy = policy, fsm_ts_out = False, state = State_Prelude,
      buffer = with_capacity B DEFAULT_BUF_SIZE, compat_buffer = with_capacity B 0\<rparr>"])
    (simp_all add: metadata_decoder_with_upgrade_policy_def fsm_build_def builder_upgrade_policy_def
      builder_compat_size_def fsm_builder_def unwrap_def fsm_inv_def roomy_def fsm_space_def DEFAULT_BUF_SIZE_def)

end

context stream_reading
begin

lemma decoder_decodes_metadata:
  assumes "streamable C policy m" and "pending r = metadata_bytes C m @ rest"
    and "read R DEFAULT_BUF_SIZE r = (r1, Inr piece)" and "8 \<le> length piece"
  obtains d where "decoder_with_upgrade_policy C B R r policy =
      Some (Ok \<lparr>dec_metadata = metadata_upgrade policy m, dec_decoder = d\<rparr>)"
    and "dec_inv B d" and "dec_abs B pending d = after_metadata policy m rest"
proof -
  obtain f where f: "metadata_decoder_with_upgrade_policy B r policy = Ok \<lparr>mdd_reader = r, mdd_fsm = f\<rparr>"
    "fsm_inv B f" "roomy B f" "state f = State_Prelude" "data B (buffer f) = []"
    "upgrade_policy f = policy" "length (fsm_space B f) = DEFAULT_BUF_SIZE"
    by (rule new_metadata_decoder [of r policy])
  obtain r' g bs where g: "metadata_decoder_decode C B R \<lparr>mdd_reader = r, mdd_fsm = f\<rparr> =
      Some (Ok (\<lparr>mdd_reader = r', mdd_fsm = g\<rparr>, Ok (metadata_upgrade policy m)))"
    "fsm_inv B g" "roomy B g" "fsm_abs B g = after_metadata policy m bs" "bs @ pending r' = rest"
    using metadata_decoder_decodes [OF f(2-5), of m r rest r1 piece] assms f(6,7) by auto
  have v: "input_dbn_version g = Some (md_version m)" "upgrade_policy g = policy" "has_decoded_metadata g"
    using g(4) has_decoded_abs [of g] by (simp_all add: fsm_abs_def after_metadata_def)
  let ?g = "if is_upgrade_situation policy (md_version m) then grow_compat B DEFAULT_BUF_SIZE g else g"
  have "fsm_inv B ?g" "roomy B ?g" "has_decoded_metadata ?g" "fsm_abs B ?g = fsm_abs B g"
    using g(2,3) v(3) by (simp_all add: grow_compat_keeps grow_compat_refines)
  then show thesis
    using f(1) g v
    by (intro that [of "\<lparr>rd_reader = r', rd_fsm = ?g\<rparr>"])
      (simp_all add: decoder_with_upgrade_policy_def decoder_from_metadata_def record_decoder_from_def
        dec_inv_def dec_abs_def after_metadata_def feed_def)
qed

lemma decoder_decodes_stream:
  assumes "streamable C policy m" and "dbn_record T" and "pending r = metadata_bytes C m @ concat ws"
    and "read R DEFAULT_BUF_SIZE r = (r1, Inr piece)" and "8 \<le> length piece"
    and "list_all2 (\<lambda>w x. \<exists>v. upgrades policy m w v \<and> whole_record v \<and> rr_try_get T v = Ok x) ws xs"
  shows "\<exists>d. decoder_with_upgrade_policy C B R r policy = Some (Ok d) \<and>
    dec_metadata d = metadata_upgrade policy m \<and>
    decode_records (decoder_decode_record T C B R) d [] = Some (Ok xs)"
proof -
  obtain d where d: "decoder_with_upgrade_policy C B R r policy =
      Some (Ok \<lparr>dec_metadata = metadata_upgrade policy m, dec_decoder = d\<rparr>)"
    "dec_inv B d" "dec_abs B pending d = after_metadata policy m (concat ws)"
    by (rule decoder_decodes_metadata [OF assms(1,3-5)])
  then show ?thesis
    using decode_records_upgrades [OF assms(2), of "\<lparr>dec_metadata = metadata_upgrade policy m, dec_decoder = d\<rparr>"
        policy m ws xs C "[]"] assms(6) by simp
qed

end

interpretation list_piece: stream_reading list_buffer piece_reader snd gregorian
  by unfold_locales

section \<open>What the encoder writes\<close>

context appending_writer
begin

lemma encodes_records:
  "encodes True (for_each rs (encode_record T W)) (concat (map (as_ref T) rs))"
  using encodes_for_each [of "\<lambda>_. True" "encode_record T W" "as_ref T" rs] encodes_put
  by (simp add: encode_record_def list_all_iff)

end

lemma vec_encode_stream:
  assumes "encodable m"
  shows "seq (encoder_new C vec_writer m)
      (encode_records (encode_record T vec_writer) (encoder_flush vec_writer) rs) [] =
    (metadata_bytes C m @ concat (map (as_ref T) rs), Ok ())"
proof -
  have "encoder_new C vec_writer m [] = (metadata_bytes C m, Ok ())"
    using vec_encodes_result [OF vec.encodes_metadata, of m C "[]"] assms by (simp add: encoder_new_def)
  moreover have "for_each rs (encode_record T vec_writer) w = (w @ concat (map (as_ref T) rs), Ok ())" for w
    using vec_encodes_result [OF vec.encodes_records, of rs T w] by simp
  ultimately show ?thesis
    by (simp add: seq_def encode_records_def encoder_flush_def io_op_def vec_writer_def)
qed

text \<open>A record that needs no conversion, and one that is converted.\<close>

lemma upgrades_same:
  assumes "dbn_record T" and "well_formed T r" and "md_version m \<le> DBN_VERSION"
    and "upgrade_for (md_version m) policy (rh_rtype (header T r)) = None"
  shows "upgrades policy m (as_ref T r) (as_ref T r)" and "whole_record (as_ref T r)"
    and "rr_try_get T (as_ref T r) = Ok r"
proof -
  have r: "rec_ok T r" "header_record_size (header T r) = size_of T" "has_rtype T (rh_rtype (header T r))"
    using assms(2) by (simp_all add: well_formed_def)
  have h: "rr_header (as_ref T r) = header T r" "length (as_ref T r) = size_of T" "16 \<le> size_of T"
    using dbn_record.rr_header_as_ref [OF assms(1) r(1), of "[]"] dbn_record.header_fits [OF assms(1)]
      codec.length_put [OF dbn_record.layout [OF assms(1)] r(1)] by simp_all
  then show "upgrades policy m (as_ref T r) (as_ref T r)" "whole_record (as_ref T r)"
    using r assms(3,4) by (auto simp: upgrades_def whole_record_def rr_record_size_def select_upgrade_def not_less)
  show "rr_try_get T (as_ref T r) = Ok r"
    using dbn_record.rr_get_as_ref(2) [OF assms(1) r(1,3), of "[]"] r(2) by simp
qed

lemma with_ts_out_new_well_formed:
  assumes "dbn_struct T" and "well_formed T r"
  shows "well_formed (with_ts_out_type T) (with_ts_out_new T r t)"
proof -
  have T: "dbn_record T" using assms(1) by (simp add: dbn_struct_def)
  have "header_record_size (header (with_ts_out_type T) (with_ts_out_new T r t)) = size_of (with_ts_out_type T)"
    using dbn_record.unat_size_div [OF with_ts_out_record [OF assms(1)]] dbn_record.header_set [OF T]
    by (simp add: with_ts_out_new_def Let_def with_ts_out_type_def header_record_size_def LENGTH_MULTIPLIER_def)
  then show ?thesis
    using assms(2) dbn_record.header_set [OF T] dbn_record.set_header_ok [OF T]
    by (simp add: well_formed_def with_ts_out_new_def Let_def with_ts_out_type_def)
qed

lemma upgrades_to:
  assumes V: "dbn_record V" "well_formed V r" and W: "dbn_record W" "well_formed W y"
    and "upgrade_for (md_version m) policy (rh_rtype (header V r)) = Some u"
    and "apply_upgrade u (md_ts_out m) (as_ref V r) = Ok (as_ref W y)"
  shows "upgrades policy m (as_ref V r) (as_ref W y)" and "whole_record (as_ref W y)"
    and "rr_try_get W (as_ref W y) = Ok y"
proof -
  have r: "rec_ok V r" "header_record_size (header V r) = size_of V" "rec_ok W y" "header_record_size (header W y) = size_of W"
    "has_rtype W (rh_rtype (header W y))"
    using V(2) W(2) by (simp_all add: well_formed_def)
  have h: "rr_header (as_ref V r) = header V r" "length (as_ref V r) = size_of V" "16 \<le> size_of V"
    using dbn_record.rr_header_as_ref [OF V(1) r(1), of "[]"] dbn_record.header_fits [OF V(1)]
      codec.length_put [OF dbn_record.layout [OF V(1)] r(1)] by simp_all
  then show "upgrades policy m (as_ref V r) (as_ref W y)"
    using assms(5,6) r(2) by (simp add: upgrades_def rr_record_size_def select_upgrade_def)
  show "whole_record (as_ref W y)"
    using dbn_record.rr_header_as_ref [OF W(1) r(3), of "[]"] dbn_record.header_fits [OF W(1)] r(4)
      codec.length_put [OF dbn_record.layout [OF W(1)] r(3)] by (simp add: whole_record_def rr_record_size_def)
  show "rr_try_get W (as_ref W y) = Ok y"
    using dbn_record.rr_get_as_ref(2) [OF W(1) r(3,5), of "[]"] r(4) by simp
qed

context record_upgrade
begin

text \<open>The conversion keeps the send timestamp of a record that has one.\<close>

definition conv_ts_out :: "'t WithTsOut \<Rightarrow> 'u WithTsOut" where
  "conv_ts_out r = with_ts_out_new U (conv (wto_rec r)) (wto_ts_out r)"

lemma upgrades_converted:
  assumes "well_formed T r" and "apply_upgrade u = convert_ts_out T U conv" and "\<not> md_ts_out m"
    and "upgrade_for (md_version m) policy (rtype_as_u8 rt) = Some u"
  shows "upgrades policy m (as_ref T r) (as_ref U (conv r))" and "whole_record (as_ref U (conv r))"
    and "rr_try_get U (as_ref U (conv r)) = Ok (conv r)"
proof -
  have r: "rec_ok T r" "header_record_size (header T r) = size_of T" "has_rtype T (rh_rtype (header T r))"
    using assms(1) by (simp_all add: well_formed_def)
  have "rr_get T (as_ref T r) = Ok (Some r)"
    using src.rr_get_as_ref(1) [OF r(1,3), of "[]"] r(2) by simp
  then have "apply_upgrade u (md_ts_out m) (as_ref T r) = Ok (as_ref U (conv r))"
    using assms(2,3) by (simp add: convert_ts_out_def convert_def)
  moreover have "upgrade_for (md_version m) policy (rh_rtype (header T r)) = Some u"
    using assms(4) r(3) rtype_src by simp
  ultimately show "upgrades policy m (as_ref T r) (as_ref U (conv r))" and "whole_record (as_ref U (conv r))"
    and "rr_try_get U (as_ref U (conv r)) = Ok (conv r)"
    using upgrades_to [OF src.dbn_record_axioms assms(1) dst.dbn_record_axioms conv_well_formed [OF r(1)]] by blast+
qed

lemma upgrades_converted_ts_out:
  assumes "well_formed (with_ts_out_type T) r" and "apply_upgrade u = convert_ts_out T U conv" and "md_ts_out m"
    and "upgrade_for (md_version m) policy (rtype_as_u8 rt) = Some u"
  shows "upgrades policy m (as_ref (with_ts_out_type T) r) (as_ref (with_ts_out_type U) (conv_ts_out r))"
    and "whole_record (as_ref (with_ts_out_type U) (conv_ts_out r))"
    and "rr_try_get (with_ts_out_type U) (as_ref (with_ts_out_type U) (conv_ts_out r)) = Ok (conv_ts_out r)"
proof -
  let ?V = "with_ts_out_type T" and ?W = "with_ts_out_type U"
  have r: "rec_ok ?V r" "header_record_size (header ?V r) = size_of ?V" "has_rtype ?V (rh_rtype (header ?V r))"
    using assms(1) by (simp_all add: well_formed_def)
  have "rh_rtype (header ?W (conv_ts_out r)) = rtype_as_u8 rt"
    using conv_header_fields(4) dst.header_set by (simp add: conv_ts_out_def with_ts_out_new_def Let_def with_ts_out_type_def)
  then have y: "well_formed ?W (conv_ts_out r)"
    using ts_out_ok [OF r(1)] ts_out_new_size rtype_dst by (simp add: well_formed_def conv_ts_out_def with_ts_out_type_def)
  have "rr_get ?V (as_ref ?V r) = Ok (Some r)"
    using dbn_record.rr_get_as_ref(1) [OF ts_out_records(1) r(1,3), of "[]"] r(2) by simp
  then have "apply_upgrade u (md_ts_out m) (as_ref ?V r) = Ok (as_ref ?W (conv_ts_out r))"
    using assms(2,3) by (simp add: convert_ts_out_def convert_def conv_ts_out_def)
  moreover have "upgrade_for (md_version m) policy (rh_rtype (header ?V r)) = Some u"
    using assms(4) r(3) rtype_src by (simp add: with_ts_out_type_def)
  ultimately show "upgrades policy m (as_ref ?V r) (as_ref ?W (conv_ts_out r))" and "whole_record (as_ref ?W (conv_ts_out r))"
    and "rr_try_get ?W (as_ref ?W (conv_ts_out r)) = Ok (conv_ts_out r)"
    using upgrades_to [OF ts_out_records(1) assms(1) ts_out_records(2) y] by blast+
qed

end

section \<open>Properties\<close>

text \<open>
  C3. Writing and reading back a stream: the records an encoder wrote after the metadata are
  the records a decoder returns, and the metadata is the one written, upgraded by the policy,
  for every record type and every policy that does not convert these records, and in whatever
  pieces the reader delivers the bytes after a first read of at least 8.
\<close>

theorem stream_roundtrip:
  assumes "stream_reading B R pending C" and "streamable C policy m" and "dbn_record T"
    and "\<forall>x\<in>set rs. well_formed T x \<and> upgrade_for (md_version m) policy (rh_rtype (header T x)) = None"
    and "seq (encoder_new C vec_writer m)
      (encode_records (encode_record T vec_writer) (encoder_flush vec_writer) rs) [] = (bs, res)"
    and "pending r = bs" and "read R DEFAULT_BUF_SIZE r = (r1, Inr piece)" and "8 \<le> length piece"
  shows "res = Ok () \<and> (\<exists>d. decoder_with_upgrade_policy C B R r policy = Some (Ok d) \<and>
    dec_metadata d = metadata_upgrade policy m \<and>
    decode_records (decoder_decode_record T C B R) d [] = Some (Ok rs))"
proof -
  have cal: "calendar C" using assms(1) by (simp add: stream_reading_def)
  note enc = vec_encode_stream [OF calendar.streamable_encodable [OF cal assms(2)], of C T rs]
  have bs: "pending r = metadata_bytes C m @ concat (map (as_ref T) rs)" "res = Ok ()"
    using enc assms(5,6) by simp_all
  have v: "md_version m \<le> DBN_VERSION" using calendar.streamable_length(3) [OF cal assms(2)] .
  have "list_all2 (\<lambda>w x. \<exists>v. upgrades policy m w v \<and> whole_record v \<and> rr_try_get T v = Ok x) (map (as_ref T) rs) rs"
    using upgrades_same [OF assms(3) _ v] assms(4) by (fastforce simp: list_all2_conv_all_nth)
  then show ?thesis
    using stream_reading.decoder_decodes_stream [OF assms(1-3) bs(1) assms(7,8)] bs(2) by blast
qed

lemma sample_version: "md_version (sample_metadata v) = v" "\<not> md_ts_out (sample_metadata v)"
  by (simp_all add: sample_metadata_simps)

lemma sample_needed_len_v1: "needed_len (sample_metadata 1) < 1000"
  by (simp add: needed_len_def sample_metadata_simps METADATA_FIXED_LEN_def)

lemma sample_streamable:
  "streamable gregorian VersionUpgradePolicy_AsIs (sample_metadata 3)"
  "streamable gregorian VersionUpgradePolicy_UpgradeToV3 (sample_metadata 1)"
  using sample_metadata_ok [of 3] sample_metadata_ok [of 1] sample_needed_len_v1
  by (simp_all add: streamable_def sample_needed_len validate_compatibility_def sample_version)

text \<open>A first piece of 100 bytes of an encoded stream.\<close>

lemma sample_piece:
  assumes "streamable gregorian policy m" and "bs = metadata_bytes gregorian m @ rest"
  shows "read piece_reader DEFAULT_BUF_SIZE (100 # sizes, bs) = ((sizes, drop 100 bs), Inr (take 100 bs))"
    and "8 \<le> length (take 100 bs)"
  using gregorian.streamable_length [OF assms(1)] assms(2)
  by (simp_all add: piece_reader_def DEFAULT_BUF_SIZE_def)

theorem stream_roundtrip_witness:
  "\<exists>bs d. seq (encoder_new gregorian vec_writer (sample_metadata 3))
      (encode_records (encode_record MboMsg_type vec_writer) (encoder_flush vec_writer)
        [MboMsg_default, MboMsg_default]) [] = (bs, Ok ()) \<and>
    decoder_with_upgrade_policy gregorian list_buffer piece_reader ([100, 1, 7], bs) VersionUpgradePolicy_AsIs =
      Some (Ok d) \<and>
    decode_records (decoder_decode_record MboMsg_type gregorian list_buffer piece_reader) d [] =
      Some (Ok [MboMsg_default, MboMsg_default])"
proof -
  let ?enc = "seq (encoder_new gregorian vec_writer (sample_metadata 3))
      (encode_records (encode_record MboMsg_type vec_writer) (encoder_flush vec_writer)
        [MboMsg_default, MboMsg_default]) []"
  have enc: "?enc = (metadata_bytes gregorian (sample_metadata 3) @ concat (map (as_ref MboMsg_type) [MboMsg_default, MboMsg_default]), Ok ())"
    (is "_ = (?bs, _)")
    by (rule vec_encode_stream [OF sample_encodable]) simp
  note piece = sample_piece(1) [OF sample_streamable(1) refl, where sizes = "[1, 7]"] sample_piece(2) [OF sample_streamable(1) refl]
  have "\<forall>x\<in>set [MboMsg_default, MboMsg_default]. well_formed MboMsg_type x \<and>
      upgrade_for (md_version (sample_metadata 3)) VersionUpgradePolicy_AsIs (rh_rtype (header MboMsg_type x)) = None"
    using MboMsg_default_ok by (simp add: upgrade_for_def is_upgrade_situation_def)
  then show ?thesis
    using stream_roundtrip [OF list_piece.stream_reading_axioms sample_streamable(1) mbo_record.dbn_record_axioms _ enc _ piece] 
    by (intro exI [of _ ?bs]) (auto simp: enc)
qed

text \<open>
  C6. Reading an old stream: under a policy that upgrades them, the records of an old version
  that an encoder wrote are returned converted to the new one, record by record, by the
  conversion that belongs to the version, the policy and the record type; when the metadata says
  that the records carry send timestamps, each is returned with its own. The bytes may come in any
  pieces after a first read of at least 8, the length of the prelude.
\<close>

theorem stream_upgrade:
  assumes "stream_reading B R pending C" and "streamable C policy m" and "record_upgrade T U conv rt"
    and "apply_upgrade u = convert_ts_out T U conv"
    and "upgrade_for (md_version m) policy (rtype_as_u8 rt) = Some u"
    and "read R DEFAULT_BUF_SIZE r = (r1, Inr piece)" and "8 \<le> length piece"
  shows "(\<not> md_ts_out m \<and> (\<forall>x\<in>set rs. well_formed T x) \<and>
      seq (encoder_new C vec_writer m)
        (encode_records (encode_record T vec_writer) (encoder_flush vec_writer) rs) [] = (pending r, res) \<longrightarrow>
      res = Ok () \<and> (\<exists>d. decoder_with_upgrade_policy C B R r policy = Some (Ok d) \<and>
        dec_metadata d = metadata_upgrade policy m \<and>
        decode_records (decoder_decode_record U C B R) d [] = Some (Ok (map conv rs)))) \<and>
    (md_ts_out m \<and> (\<forall>x\<in>set xs. well_formed (with_ts_out_type T) x) \<and>
      seq (encoder_new C vec_writer m)
        (encode_records (encode_record (with_ts_out_type T) vec_writer) (encoder_flush vec_writer) xs) [] = (pending r, res) \<longrightarrow>
      res = Ok () \<and> (\<exists>d. decoder_with_upgrade_policy C B R r policy = Some (Ok d) \<and>
        dec_metadata d = metadata_upgrade policy m \<and>
        decode_records (decoder_decode_record (with_ts_out_type U) C B R) d [] =
          Some (Ok (map (\<lambda>x. with_ts_out_new U (conv (wto_rec x)) (wto_ts_out x)) xs))))"
proof -
  have cal: "calendar C" using assms(1) by (simp add: stream_reading_def)
  have U: "dbn_record U" "dbn_record (with_ts_out_type U)"
    using assms(3) record_upgrade.ts_out_records(2) [OF assms(3)] by (simp_all add: record_upgrade_def dbn_struct_def)
  note enc = vec_encode_stream [OF calendar.streamable_encodable [OF cal assms(2)], of C T rs]
    vec_encode_stream [OF calendar.streamable_encodable [OF cal assms(2)], of C "with_ts_out_type T" xs]
  have plain: "list_all2 (\<lambda>w x. \<exists>v. upgrades policy m w v \<and> whole_record v \<and> rr_try_get U v = Ok x)
      (map (as_ref T) rs) (map conv rs)" if "\<not> md_ts_out m" "\<forall>x\<in>set rs. well_formed T x"
    using record_upgrade.upgrades_converted [OF assms(3) _ assms(4) that(1) assms(5)] that(2)
    by (fastforce simp: list_all2_conv_all_nth)
  have with_ts_out: "list_all2 (\<lambda>w x. \<exists>v. upgrades policy m w v \<and> whole_record v \<and> rr_try_get (with_ts_out_type U) v = Ok x)
      (map (as_ref (with_ts_out_type T)) xs) (map (\<lambda>x. with_ts_out_new U (conv (wto_rec x)) (wto_ts_out x)) xs)"
    if "md_ts_out m" "\<forall>x\<in>set xs. well_formed (with_ts_out_type T) x"
    using record_upgrade.upgrades_converted_ts_out [OF assms(3) _ assms(4) that(1) assms(5)] that(2)
    by (fastforce simp: list_all2_conv_all_nth record_upgrade.conv_ts_out_def [OF assms(3)])
  show ?thesis
    using stream_reading.decoder_decodes_stream [OF assms(1,2) U(1) _ assms(6,7) plain]
      stream_reading.decoder_decodes_stream [OF assms(1,2) U(2) _ assms(6,7) with_ts_out] enc by auto
qed

text \<open>A stream of version 1 whose records have send timestamps.\<close>

theorem stream_upgrade_witness:
  "\<exists>bs d. seq (encoder_new gregorian vec_writer ((sample_metadata 1)\<lparr>md_ts_out := True\<rparr>))
      (encode_records (encode_record (with_ts_out_type StatMsgV1_type) vec_writer) (encoder_flush vec_writer)
        [with_ts_out_new StatMsgV1_type StatMsgV1_default 5]) [] = (bs, Ok ()) \<and>
    decoder_with_upgrade_policy gregorian list_buffer piece_reader ([100, 3], bs) VersionUpgradePolicy_UpgradeToV3 =
      Some (Ok d) \<and>
    decode_records (decoder_decode_record (with_ts_out_type StatMsg_type) gregorian list_buffer piece_reader) d [] =
      Some (Ok [with_ts_out_new StatMsg_type (StatMsg_from_v1 StatMsgV1_default) 5])"
proof -
  let ?x = "with_ts_out_new StatMsgV1_type StatMsgV1_default 5" and ?m = "(sample_metadata 1)\<lparr>md_ts_out := True\<rparr>"
  let ?bs = "metadata_bytes gregorian ?m @ concat (map (as_ref (with_ts_out_type StatMsgV1_type)) [?x])"
  have m: "streamable gregorian VersionUpgradePolicy_UpgradeToV3 ?m" "encodable ?m"
    using sample_streamable(2) sample_encodable [of 1] by (simp_all add: streamable_def metadata_ok_def needed_len_def encodable_def texts_ok_def)
  have enc: "seq (encoder_new gregorian vec_writer ?m)
      (encode_records (encode_record (with_ts_out_type StatMsgV1_type) vec_writer) (encoder_flush vec_writer) [?x]) [] = (?bs, Ok ())"
    by (rule vec_encode_stream [OF m(2)])
  note piece = sample_piece(1) [OF m(1) refl, where sizes = "[3]"] sample_piece(2) [OF m(1) refl]
  have up: "upgrade_for (md_version ?m) VersionUpgradePolicy_UpgradeToV3 (rtype_as_u8 RType_Statistics) = Some Up_Stat"
    by (simp add: sample_version upgrade_for_def is_upgrade_situation_def)
  have x: "\<forall>x\<in>set [?x]. well_formed (with_ts_out_type StatMsgV1_type) x"
    using with_ts_out_new_well_formed [OF stat1_record.dbn_struct_axioms StatMsgV1_default_ok] by simp
  have conv: "StatMsg_from_v1 (wto_rec ?x) = StatMsg_from_v1 StatMsgV1_default" "wto_ts_out ?x = 5"
    by (simp_all add: with_ts_out_new_def Let_def with_ts_out_type_def StatMsgV1_type_def StatMsg_from_v1_def upgraded_header_def)
  have "apply_upgrade Up_Stat = convert_ts_out StatMsgV1_type StatMsg_type StatMsg_from_v1" by simp
  note result = stream_upgrade [OF list_piece.stream_reading_axioms m(1) stat_upgrade.record_upgrade_axioms this up piece]
  show ?thesis
    using result [where xs = "[?x]" and res = "Ok ()"] x enc conv by (intro exI [of _ ?bs]) auto
qed

text \<open>
  Transcoding: encoding what a decoder returns writes the records of the input, each
  converted by the policy, and then flushes; with a limit it writes the first records only.
\<close>

theorem encode_decoded_transcodes:
  assumes "stream_reading B R pending C" and "streamable C policy m"
    and "pending r = metadata_bytes C m @ concat ws" and "list_all2 (upgrades policy m) ws vs"
    and "read R DEFAULT_BUF_SIZE r = (r1, Inr piece)" and "8 \<le> length piece" and "limit \<noteq> 0"
  shows "\<exists>d. decoder_with_upgrade_policy C B R r policy = Some (Ok d) \<and>
    encode_decoded (decoder_decode_record_ref C B R) (encode_record_ref_ts_out vec_writer) (encoder_flush vec_writer)
      (md_ts_out (dec_metadata d)) d out = Some (Ok (out @ concat vs, Ok ())) \<and>
    encode_decoded_with_limit (decoder_decode_record_ref C B R) (encode_record_ref_ts_out vec_writer)
      (encoder_flush vec_writer) (md_ts_out (dec_metadata d)) limit d out =
      Some (Ok (out @ concat (take (unat limit) vs), Ok ()))"
proof -
  have syn: "sync_reading B R pending" using assms(1) by (simp add: stream_reading_def)
  obtain d where d: "decoder_with_upgrade_policy C B R r policy =
      Some (Ok \<lparr>dec_metadata = metadata_upgrade policy m, dec_decoder = d\<rparr>)"
    "dec_inv B d" "dec_abs B pending d = after_metadata policy m (concat ws)"
    by (rule stream_reading.decoder_decodes_metadata [OF assms(1-3,5,6)])
  have "unat limit \<noteq> 0" using assms(7) by (simp add: unat_eq_zero)
  then show ?thesis
    using d assms(4) sync_reading.encode_decoded_upgrades [OF syn,
        of "\<lparr>dec_metadata = metadata_upgrade policy m, dec_decoder = d\<rparr>" _ policy m ws vs]
    by (simp add: encode_decoded_def encode_decoded_with_limit_def)
qed

theorem encode_decoded_transcodes_witness:
  "\<exists>d. decoder_with_upgrade_policy gregorian list_buffer piece_reader
        ([100, 2], metadata_bytes gregorian (sample_metadata 1) @ as_ref StatMsgV1_type StatMsgV1_default)
        VersionUpgradePolicy_UpgradeToV3 = Some (Ok d) \<and>
    encode_decoded (decoder_decode_record_ref gregorian list_buffer piece_reader) (encode_record_ref_ts_out vec_writer)
      (encoder_flush vec_writer) (md_ts_out (dec_metadata d)) d [] =
      Some (Ok (as_ref StatMsg_type (StatMsg_from_v1 StatMsgV1_default), Ok ()))"
proof -
  let ?ws = "[as_ref StatMsgV1_type StatMsgV1_default]" and ?m = "sample_metadata 1"
  let ?vs = "[as_ref StatMsg_type (StatMsg_from_v1 StatMsgV1_default)]"
  let ?bs = "metadata_bytes gregorian ?m @ concat ?ws"
  have "upgrade_for (md_version ?m) VersionUpgradePolicy_UpgradeToV3 (rtype_as_u8 RType_Statistics) = Some Up_Stat"
    by (simp add: sample_version upgrade_for_def is_upgrade_situation_def)
  then have up: "list_all2 (upgrades VersionUpgradePolicy_UpgradeToV3 ?m) ?ws ?vs"
    using stat_upgrade.upgrades_converted(1) [OF StatMsgV1_default_ok apply_upgrade.simps(4) sample_version(2)] by simp
  note piece = sample_piece(1) [OF sample_streamable(2) refl, where rest = "concat ?ws" and sizes = "[2]"]
    sample_piece(2) [OF sample_streamable(2) refl, where rest = "concat ?ws"]
  show ?thesis
    using encode_decoded_transcodes [OF list_piece.stream_reading_axioms sample_streamable(2) _ up piece, where out = "[]" and limit = 1]
    by auto
qed

text \<open>Reading a piece of \<open>k\<close> bytes and processing it.\<close>

lemma piece_process:
  assumes "oval_buffer B" and "fsm_inv B f" and "roomy B f"
    and "0 < k" and "k \<le> length (fsm_space B f)" and "k \<le> length bs"
    and "spec_process C (feed (take k bs) (fsm_abs B f)) = Ok (a, More n)"
  obtains g f' where "read_into B piece_reader (k # sizes, bs) f = Ok ((sizes, drop k bs), g, Inr k)"
    and "process C B (fsm_fill B k g) = Some (Ok (f', ReadMore n))" and "fsm_inv B f'" and "roomy B f'"
    and "fsm_abs B f' = a" and "n \<le> length (fsm_space B f')"
proof -
  have syn: "sync_reading B piece_reader snd"
    using assms(1) piece.byte_reader_axioms by (simp add: sync_reading_def)
  have rd: "read piece_reader (length (fsm_space B f)) (k # sizes, bs) = ((sizes, drop k bs), Inr (take k bs))"
    using assms(4,5) by (simp add: piece_reader_def)
  obtain r' g xs where "read_into B piece_reader (k # sizes, bs) f = Ok (r', g, Inr (length xs))"
    "read piece_reader (length (fsm_space B f)) (k # sizes, bs) = (r', Inr xs)"
    "fsm_inv B (fsm_fill B (length xs) g)" "roomy B (fsm_fill B (length xs) g)"
    "fsm_abs B (fsm_fill B (length xs) g) = feed xs (fsm_abs B f)"
    using sync_reading.read_into_feeds [OF syn assms(2,3), of "(k # sizes, bs)"] by metis
  then have g: "read_into B piece_reader (k # sizes, bs) f = Ok ((sizes, drop k bs), g, Inr k)"
    "fsm_inv B (fsm_fill B k g)" "roomy B (fsm_fill B k g)" "fsm_abs B (fsm_fill B k g) = feed (take k bs) (fsm_abs B f)"
    using rd assms(6) by auto
  obtain f' x where f': "process C B (fsm_fill B k g) = Some (Ok (f', x))" "fsm_inv B f'" "roomy B f'"
    "fsm_abs B f' = a" "output_of B f' x = More n"
    using oval_buffer.process_outcome [OF assms(1) g(2,3), of C a "More n"] assms(7) g(4) by metis
  then have "x = ReadMore n" by (cases x) (simp_all add: output_of_def)
  then show thesis
    using f' g(1) oval_buffer.process_roomy [OF assms(1) f'(1) g(3)] by (intro that [of g f']) auto
qed

text \<open>
  C37. A short first read makes the metadata decoder panic: if the first read of a valid stream
  returns fewer than the 8 bytes of the prelude and the next one the rest of them, the decoder
  has read as many bytes as it was asked for, is asked for more, and takes that for impossible.
\<close>

theorem short_first_read_panics:
  assumes "oval_buffer B" and "calendar C" and "streamable C policy m" and "0 < k" and "k < 8"
  shows "\<exists>md. metadata_decoder_with_upgrade_policy B (k # (8 - k) # sizes, metadata_bytes C m @ rest) policy = Ok md \<and>
    metadata_decoder_decode C B piece_reader md =
      Some (Panic ''internal error: entered unreachable code: read requested number of bytes'')"
proof -
  define bs where "bs = metadata_bytes C m @ rest"
  let ?n = "unat (fst (calc_length m))"
  have len: "length bs = 8 + ?n + length rest" "100 \<le> ?n"
    using calendar.streamable_length [OF assms(2,3)] by (simp_all add: bs_def)
  obtain f where f: "metadata_decoder_with_upgrade_policy B (k # (8 - k) # sizes, bs) policy =
      Ok \<lparr>mdd_reader = (k # (8 - k) # sizes, bs), mdd_fsm = f\<rparr>"
    "fsm_inv B f" "roomy B f" "state f = State_Prelude" "data B (buffer f) = []"
    "upgrade_policy f = policy" "length (fsm_space B f) = DEFAULT_BUF_SIZE"
    by (rule oval_buffer.new_metadata_decoder [OF assms(1)])
  have pre: "d_phase (fsm_abs B f) = Ph_Prelude" "d_bytes (fsm_abs B f) = []" "d_policy (fsm_abs B f) = policy"
    using f by (simp_all add: fsm_abs_def)
  have "spec_process C (feed (take k bs) (fsm_abs B f)) = Ok (feed (take k bs) (fsm_abs B f), More (8 - k))"
    "k \<le> length (fsm_space B f)" "k \<le> length bs"
    using f(7) pre assms(5) len by (simp_all add: spec_process_def DEFAULT_BUF_SIZE_def)
  then obtain g f1 where g: "read_into B piece_reader (k # (8 - k) # sizes, bs) f = Ok (((8 - k) # sizes, drop k bs), g, Inr k)"
    "process C B (fsm_fill B k g) = Some (Ok (f1, ReadMore (8 - k)))" "fsm_inv B f1" "roomy B f1"
    "fsm_abs B f1 = feed (take k bs) (fsm_abs B f)" "8 - k \<le> length (fsm_space B f1)"
    using piece_process [OF assms(1) f(2,3) assms(4)] by metis
  define a where "a = feed (take (8 - k) (drop k bs)) (fsm_abs B f1)"
  have a: "d_bytes a = take 8 bs" "d_phase a = Ph_Prelude" "d_policy a = policy"
    using g(5) pre assms(5) take_add [of k "8 - k" bs] by (simp_all add: a_def)
  have "d_bytes a @ drop 8 bs = metadata_bytes C m @ rest" "8 \<le> length (d_bytes a)" "length (d_bytes a) = 8"
    unfolding a(1) using len(1) by (simp_all add: bs_def)
  then obtain a' where a': "spec_process C (feed (take (8 - k) (drop k bs)) (fsm_abs B f1)) = Ok (a', More ?n)"
    unfolding a_def [symmetric] using calendar.spec_process_stream [OF assms(2) _ a(2), of m "drop 8 bs" rest] assms(3) a(3) len(2) by simp
  have "0 < 8 - k" "8 - k \<le> length (drop k bs)" using assms(5) len by simp_all
  then obtain g1 f2 where g1: "read_into B piece_reader ((8 - k) # sizes, drop k bs) f1 =
      Ok ((sizes, drop (8 - k) (drop k bs)), g1, Inr (8 - k))"
    "process C B (fsm_fill B (8 - k) g1) = Some (Ok (f2, ReadMore ?n))"
    using piece_process [OF assms(1) g(3,4) _ g(6) _ a'] by metis
  have "iterate (fill_step B piece_reader (8 - k)) (0, \<lparr>mdd_reader = ((8 - k) # sizes, drop k bs), mdd_fsm = f1\<rparr>) =
      Some (Ok (\<lparr>mdd_reader = (sizes, drop 8 bs), mdd_fsm = fsm_fill B (8 - k) g1\<rparr>, None))"
    using g1(1) assms(5) by (intro iterate_Inr) (simp add: fill_step_def)
  then show ?thesis
    using f(1) g(1,2) g1(2) by (simp add: metadata_decoder_decode_def metadata_process_again_def bs_def)
qed

theorem short_first_read_panics_witness:
  "\<exists>md. metadata_decoder_with_upgrade_policy list_buffer
      ([3, 5], metadata_bytes gregorian (sample_metadata 3)) VersionUpgradePolicy_AsIs = Ok md \<and>
    metadata_decoder_decode gregorian list_buffer piece_reader md =
      Some (Panic ''internal error: entered unreachable code: read requested number of bytes'')"
  using short_first_read_panics [OF list_buffer.oval_buffer_axioms gregorian.calendar_axioms sample_streamable(1),
      of 3 "[]" "[]"] by simp

end
