(* ===== verification/Record_Enum.thy ===== *)
theory Record_Enum
  imports Record_Types Defaults
begin

text \<open>
  Access to a record of dynamic type: the dispatch on the record type of
  rust/dbn/src/macros.rs (\<^verbatim>\<open>rtype_dispatch_base!\<close>), the index timestamp of a
  \<^verbatim>\<open>RecordRef\<close>, and the enums \<^verbatim>\<open>RecordEnum\<close> and \<^verbatim>\<open>RecordRefEnum\<close> of
  rust/dbn/src/record_enum.rs.

  A macro that is instantiated with one generic function per record type is a choice of a
  \<open>record_kind\<close> here, on which each use of the macro is a function by cases. A Rust reference to
  a record is the record.
\<close>

section \<open>Definitions\<close>

subsection \<open>Dispatch on the record type\<close>

datatype record_kind =
    Kind_TradeMsg
  | Kind_Mbp1Msg
  | Kind_Mbp10Msg
  | Kind_OhlcvMsg
  | Kind_ImbalanceMsg
  | Kind_StatusMsg
  | Kind_InstrumentDefMsgV1
  | Kind_InstrumentDefMsgV2
  | Kind_InstrumentDefMsg
  | Kind_SymbolMappingMsgV1
  | Kind_SymbolMappingMsg
  | Kind_ErrorMsgV1
  | Kind_ErrorMsg
  | Kind_SystemMsgV1
  | Kind_SystemMsg
  | Kind_StatMsgV1
  | Kind_StatMsg
  | Kind_MboMsg
  | Kind_Cmbp1Msg
  | Kind_BboMsg
  | Kind_CbboMsg

definition rtype_dispatch_base :: "bytes \<Rightarrow> record_kind option" where
  "rtype_dispatch_base r =
     (let size = rr_record_size r in
      case rr_rtype r of
        None \<Rightarrow> None
      | Some t \<Rightarrow> Some (case t of
          RType_Mbp0 \<Rightarrow> Kind_TradeMsg
        | RType_Mbp1 \<Rightarrow> Kind_Mbp1Msg
        | RType_Mbp10 \<Rightarrow> Kind_Mbp10Msg
        | RType_OhlcvDeprecated \<Rightarrow> Kind_OhlcvMsg
        | RType_Ohlcv1S \<Rightarrow> Kind_OhlcvMsg
        | RType_Ohlcv1M \<Rightarrow> Kind_OhlcvMsg
        | RType_Ohlcv1H \<Rightarrow> Kind_OhlcvMsg
        | RType_Ohlcv1D \<Rightarrow> Kind_OhlcvMsg
        | RType_OhlcvEod \<Rightarrow> Kind_OhlcvMsg
        | RType_Imbalance \<Rightarrow> Kind_ImbalanceMsg
        | RType_Status \<Rightarrow> Kind_StatusMsg
        | RType_InstrumentDef \<Rightarrow>
            if size < size_of InstrumentDefMsgV2_type then Kind_InstrumentDefMsgV1
            else if size < size_of InstrumentDefMsg_type then Kind_InstrumentDefMsgV2
            else Kind_InstrumentDefMsg
        | RType_SymbolMapping \<Rightarrow>
            if size < size_of SymbolMappingMsg_type then Kind_SymbolMappingMsgV1 else Kind_SymbolMappingMsg
        | RType_Error \<Rightarrow> if size < size_of ErrorMsg_type then Kind_ErrorMsgV1 else Kind_ErrorMsg
        | RType_System \<Rightarrow> if size < size_of SystemMsg_type then Kind_SystemMsgV1 else Kind_SystemMsg
        | RType_Statistics \<Rightarrow> if size < size_of StatMsg_type then Kind_StatMsgV1 else Kind_StatMsg
        | RType_Mbo \<Rightarrow> Kind_MboMsg
        | RType_Cmbp1 \<Rightarrow> Kind_Cmbp1Msg
        | RType_Tcbbo \<Rightarrow> Kind_Cmbp1Msg
        | RType_Bbo1S \<Rightarrow> Kind_BboMsg
        | RType_Bbo1M \<Rightarrow> Kind_BboMsg
        | RType_Cbbo1S \<Rightarrow> Kind_CbboMsg
        | RType_Cbbo1M \<Rightarrow> Kind_CbboMsg))"

text \<open>The handler of a dispatch: \<^verbatim>\<open>rec_ref.get::<T>().unwrap()\<close>, passed to a function.\<close>

definition handle :: "'t record_type \<Rightarrow> ('t \<Rightarrow> 'a) \<Rightarrow> bytes \<Rightarrow> 'a result" where
  "handle T g r =
     and_then (rr_get T r) (\<lambda>found. case found of
       None \<Rightarrow> Panic ''called `Option::unwrap()` on a `None` value''
     | Some rec \<Rightarrow> Ok (g rec))"

primrec kind_raw_index_ts :: "record_kind \<Rightarrow> bytes \<Rightarrow> u64 result" where
  "kind_raw_index_ts Kind_TradeMsg = handle TradeMsg_type (raw_index_ts TradeMsg_type)"
| "kind_raw_index_ts Kind_Mbp1Msg = handle Mbp1Msg_type (raw_index_ts Mbp1Msg_type)"
| "kind_raw_index_ts Kind_Mbp10Msg = handle Mbp10Msg_type (raw_index_ts Mbp10Msg_type)"
| "kind_raw_index_ts Kind_OhlcvMsg = handle OhlcvMsg_type (raw_index_ts OhlcvMsg_type)"
| "kind_raw_index_ts Kind_ImbalanceMsg = handle ImbalanceMsg_type (raw_index_ts ImbalanceMsg_type)"
| "kind_raw_index_ts Kind_StatusMsg = handle StatusMsg_type (raw_index_ts StatusMsg_type)"
| "kind_raw_index_ts Kind_InstrumentDefMsgV1 = handle InstrumentDefMsgV1_type (raw_index_ts InstrumentDefMsgV1_type)"
| "kind_raw_index_ts Kind_InstrumentDefMsgV2 = handle InstrumentDefMsgV2_type (raw_index_ts InstrumentDefMsgV2_type)"
| "kind_raw_index_ts Kind_InstrumentDefMsg = handle InstrumentDefMsg_type (raw_index_ts InstrumentDefMsg_type)"
| "kind_raw_index_ts Kind_SymbolMappingMsgV1 = handle SymbolMappingMsgV1_type (raw_index_ts SymbolMappingMsgV1_type)"
| "kind_raw_index_ts Kind_SymbolMappingMsg = handle SymbolMappingMsg_type (raw_index_ts SymbolMappingMsg_type)"
| "kind_raw_index_ts Kind_ErrorMsgV1 = handle ErrorMsgV1_type (raw_index_ts ErrorMsgV1_type)"
| "kind_raw_index_ts Kind_ErrorMsg = handle ErrorMsg_type (raw_index_ts ErrorMsg_type)"
| "kind_raw_index_ts Kind_SystemMsgV1 = handle SystemMsgV1_type (raw_index_ts SystemMsgV1_type)"
| "kind_raw_index_ts Kind_SystemMsg = handle SystemMsg_type (raw_index_ts SystemMsg_type)"
| "kind_raw_index_ts Kind_StatMsgV1 = handle StatMsgV1_type (raw_index_ts StatMsgV1_type)"
| "kind_raw_index_ts Kind_StatMsg = handle StatMsg_type (raw_index_ts StatMsg_type)"
| "kind_raw_index_ts Kind_MboMsg = handle MboMsg_type (raw_index_ts MboMsg_type)"
| "kind_raw_index_ts Kind_Cmbp1Msg = handle Cmbp1Msg_type (raw_index_ts Cmbp1Msg_type)"
| "kind_raw_index_ts Kind_BboMsg = handle BboMsg_type (raw_index_ts BboMsg_type)"
| "kind_raw_index_ts Kind_CbboMsg = handle CbboMsg_type (raw_index_ts CbboMsg_type)"

definition rr_raw_index_ts :: "bytes \<Rightarrow> u64 result" where
  "rr_raw_index_ts r =
     (case rtype_dispatch_base r of
        None \<Rightarrow> Ok (rh_ts_event (rr_header r))
      | Some k \<Rightarrow> kind_raw_index_ts k r)"

subsection \<open>RecordEnum and RecordRefEnum\<close>

datatype RecordEnum =
    RecordEnum_Mbo MboMsg
  | RecordEnum_Trade TradeMsg
  | RecordEnum_Mbp1 Mbp1Msg
  | RecordEnum_Mbp10 Mbp10Msg
  | RecordEnum_Ohlcv OhlcvMsg
  | RecordEnum_Status StatusMsg
  | RecordEnum_InstrumentDef InstrumentDefMsg
  | RecordEnum_Imbalance ImbalanceMsg
  | RecordEnum_Stat StatMsg
  | RecordEnum_Error ErrorMsg
  | RecordEnum_SymbolMapping SymbolMappingMsg
  | RecordEnum_System SystemMsg
  | RecordEnum_Cmbp1 Cmbp1Msg
  | RecordEnum_Bbo BboMsg
  | RecordEnum_Cbbo CbboMsg

datatype RecordRefEnum =
    RecordRefEnum_Mbo MboMsg
  | RecordRefEnum_Trade TradeMsg
  | RecordRefEnum_Mbp1 Mbp1Msg
  | RecordRefEnum_Mbp10 Mbp10Msg
  | RecordRefEnum_Ohlcv OhlcvMsg
  | RecordRefEnum_Status StatusMsg
  | RecordRefEnum_InstrumentDef InstrumentDefMsg
  | RecordRefEnum_Imbalance ImbalanceMsg
  | RecordRefEnum_Stat StatMsg
  | RecordRefEnum_Error ErrorMsg
  | RecordRefEnum_SymbolMapping SymbolMappingMsg
  | RecordRefEnum_System SystemMsg
  | RecordRefEnum_Cmbp1 Cmbp1Msg
  | RecordRefEnum_Bbo BboMsg
  | RecordRefEnum_Cbbo CbboMsg

primrec record_ref_enum_from :: "RecordEnum \<Rightarrow> RecordRefEnum" where
  "record_ref_enum_from (RecordEnum_Mbo r) = RecordRefEnum_Mbo r"
| "record_ref_enum_from (RecordEnum_Trade r) = RecordRefEnum_Trade r"
| "record_ref_enum_from (RecordEnum_Mbp1 r) = RecordRefEnum_Mbp1 r"
| "record_ref_enum_from (RecordEnum_Mbp10 r) = RecordRefEnum_Mbp10 r"
| "record_ref_enum_from (RecordEnum_Ohlcv r) = RecordRefEnum_Ohlcv r"
| "record_ref_enum_from (RecordEnum_Status r) = RecordRefEnum_Status r"
| "record_ref_enum_from (RecordEnum_InstrumentDef r) = RecordRefEnum_InstrumentDef r"
| "record_ref_enum_from (RecordEnum_Imbalance r) = RecordRefEnum_Imbalance r"
| "record_ref_enum_from (RecordEnum_Stat r) = RecordRefEnum_Stat r"
| "record_ref_enum_from (RecordEnum_Error r) = RecordRefEnum_Error r"
| "record_ref_enum_from (RecordEnum_SymbolMapping r) = RecordRefEnum_SymbolMapping r"
| "record_ref_enum_from (RecordEnum_System r) = RecordRefEnum_System r"
| "record_ref_enum_from (RecordEnum_Cmbp1 r) = RecordRefEnum_Cmbp1 r"
| "record_ref_enum_from (RecordEnum_Bbo r) = RecordRefEnum_Bbo r"
| "record_ref_enum_from (RecordEnum_Cbbo r) = RecordRefEnum_Cbbo r"

primrec to_owned :: "RecordRefEnum \<Rightarrow> RecordEnum" where
  "to_owned (RecordRefEnum_Mbo r) = RecordEnum_Mbo r"
| "to_owned (RecordRefEnum_Trade r) = RecordEnum_Trade r"
| "to_owned (RecordRefEnum_Mbp1 r) = RecordEnum_Mbp1 r"
| "to_owned (RecordRefEnum_Mbp10 r) = RecordEnum_Mbp10 r"
| "to_owned (RecordRefEnum_Ohlcv r) = RecordEnum_Ohlcv r"
| "to_owned (RecordRefEnum_Status r) = RecordEnum_Status r"
| "to_owned (RecordRefEnum_InstrumentDef r) = RecordEnum_InstrumentDef r"
| "to_owned (RecordRefEnum_Imbalance r) = RecordEnum_Imbalance r"
| "to_owned (RecordRefEnum_Stat r) = RecordEnum_Stat r"
| "to_owned (RecordRefEnum_Error r) = RecordEnum_Error r"
| "to_owned (RecordRefEnum_SymbolMapping r) = RecordEnum_SymbolMapping r"
| "to_owned (RecordRefEnum_System r) = RecordEnum_System r"
| "to_owned (RecordRefEnum_Cmbp1 r) = RecordEnum_Cmbp1 r"
| "to_owned (RecordRefEnum_Bbo r) = RecordEnum_Bbo r"
| "to_owned (RecordRefEnum_Cbbo r) = RecordEnum_Cbbo r"

primrec record_enum_header :: "RecordEnum \<Rightarrow> RecordHeader" where
  "record_enum_header (RecordEnum_Mbo r) = header MboMsg_type r"
| "record_enum_header (RecordEnum_Trade r) = header TradeMsg_type r"
| "record_enum_header (RecordEnum_Mbp1 r) = header Mbp1Msg_type r"
| "record_enum_header (RecordEnum_Mbp10 r) = header Mbp10Msg_type r"
| "record_enum_header (RecordEnum_Ohlcv r) = header OhlcvMsg_type r"
| "record_enum_header (RecordEnum_Status r) = header StatusMsg_type r"
| "record_enum_header (RecordEnum_InstrumentDef r) = header InstrumentDefMsg_type r"
| "record_enum_header (RecordEnum_Imbalance r) = header ImbalanceMsg_type r"
| "record_enum_header (RecordEnum_Stat r) = header StatMsg_type r"
| "record_enum_header (RecordEnum_Error r) = header ErrorMsg_type r"
| "record_enum_header (RecordEnum_SymbolMapping r) = header SymbolMappingMsg_type r"
| "record_enum_header (RecordEnum_System r) = header SystemMsg_type r"
| "record_enum_header (RecordEnum_Cmbp1 r) = header Cmbp1Msg_type r"
| "record_enum_header (RecordEnum_Bbo r) = header BboMsg_type r"
| "record_enum_header (RecordEnum_Cbbo r) = header CbboMsg_type r"

primrec record_enum_raw_index_ts :: "RecordEnum \<Rightarrow> u64" where
  "record_enum_raw_index_ts (RecordEnum_Mbo r) = raw_index_ts MboMsg_type r"
| "record_enum_raw_index_ts (RecordEnum_Trade r) = raw_index_ts TradeMsg_type r"
| "record_enum_raw_index_ts (RecordEnum_Mbp1 r) = raw_index_ts Mbp1Msg_type r"
| "record_enum_raw_index_ts (RecordEnum_Mbp10 r) = raw_index_ts Mbp10Msg_type r"
| "record_enum_raw_index_ts (RecordEnum_Ohlcv r) = raw_index_ts OhlcvMsg_type r"
| "record_enum_raw_index_ts (RecordEnum_Status r) = raw_index_ts StatusMsg_type r"
| "record_enum_raw_index_ts (RecordEnum_InstrumentDef r) = raw_index_ts InstrumentDefMsg_type r"
| "record_enum_raw_index_ts (RecordEnum_Imbalance r) = raw_index_ts ImbalanceMsg_type r"
| "record_enum_raw_index_ts (RecordEnum_Stat r) = raw_index_ts StatMsg_type r"
| "record_enum_raw_index_ts (RecordEnum_Error r) = raw_index_ts ErrorMsg_type r"
| "record_enum_raw_index_ts (RecordEnum_SymbolMapping r) = raw_index_ts SymbolMappingMsg_type r"
| "record_enum_raw_index_ts (RecordEnum_System r) = raw_index_ts SystemMsg_type r"
| "record_enum_raw_index_ts (RecordEnum_Cmbp1 r) = raw_index_ts Cmbp1Msg_type r"
| "record_enum_raw_index_ts (RecordEnum_Bbo r) = raw_index_ts BboMsg_type r"
| "record_enum_raw_index_ts (RecordEnum_Cbbo r) = raw_index_ts CbboMsg_type r"

primrec record_enum_as_ref :: "RecordEnum \<Rightarrow> bytes" where
  "record_enum_as_ref (RecordEnum_Mbo r) = as_ref MboMsg_type r"
| "record_enum_as_ref (RecordEnum_Trade r) = as_ref TradeMsg_type r"
| "record_enum_as_ref (RecordEnum_Mbp1 r) = as_ref Mbp1Msg_type r"
| "record_enum_as_ref (RecordEnum_Mbp10 r) = as_ref Mbp10Msg_type r"
| "record_enum_as_ref (RecordEnum_Ohlcv r) = as_ref OhlcvMsg_type r"
| "record_enum_as_ref (RecordEnum_Status r) = as_ref StatusMsg_type r"
| "record_enum_as_ref (RecordEnum_InstrumentDef r) = as_ref InstrumentDefMsg_type r"
| "record_enum_as_ref (RecordEnum_Imbalance r) = as_ref ImbalanceMsg_type r"
| "record_enum_as_ref (RecordEnum_Stat r) = as_ref StatMsg_type r"
| "record_enum_as_ref (RecordEnum_Error r) = as_ref ErrorMsg_type r"
| "record_enum_as_ref (RecordEnum_SymbolMapping r) = as_ref SymbolMappingMsg_type r"
| "record_enum_as_ref (RecordEnum_System r) = as_ref SystemMsg_type r"
| "record_enum_as_ref (RecordEnum_Cmbp1 r) = as_ref Cmbp1Msg_type r"
| "record_enum_as_ref (RecordEnum_Bbo r) = as_ref BboMsg_type r"
| "record_enum_as_ref (RecordEnum_Cbbo r) = as_ref CbboMsg_type r"

primrec record_ref_enum_header :: "RecordRefEnum \<Rightarrow> RecordHeader" where
  "record_ref_enum_header (RecordRefEnum_Mbo r) = header MboMsg_type r"
| "record_ref_enum_header (RecordRefEnum_Trade r) = header TradeMsg_type r"
| "record_ref_enum_header (RecordRefEnum_Mbp1 r) = header Mbp1Msg_type r"
| "record_ref_enum_header (RecordRefEnum_Mbp10 r) = header Mbp10Msg_type r"
| "record_ref_enum_header (RecordRefEnum_Ohlcv r) = header OhlcvMsg_type r"
| "record_ref_enum_header (RecordRefEnum_Status r) = header StatusMsg_type r"
| "record_ref_enum_header (RecordRefEnum_InstrumentDef r) = header InstrumentDefMsg_type r"
| "record_ref_enum_header (RecordRefEnum_Imbalance r) = header ImbalanceMsg_type r"
| "record_ref_enum_header (RecordRefEnum_Stat r) = header StatMsg_type r"
| "record_ref_enum_header (RecordRefEnum_Error r) = header ErrorMsg_type r"
| "record_ref_enum_header (RecordRefEnum_SymbolMapping r) = header SymbolMappingMsg_type r"
| "record_ref_enum_header (RecordRefEnum_System r) = header SystemMsg_type r"
| "record_ref_enum_header (RecordRefEnum_Cmbp1 r) = header Cmbp1Msg_type r"
| "record_ref_enum_header (RecordRefEnum_Bbo r) = header BboMsg_type r"
| "record_ref_enum_header (RecordRefEnum_Cbbo r) = header CbboMsg_type r"

primrec record_ref_enum_raw_index_ts :: "RecordRefEnum \<Rightarrow> u64" where
  "record_ref_enum_raw_index_ts (RecordRefEnum_Mbo r) = raw_index_ts MboMsg_type r"
| "record_ref_enum_raw_index_ts (RecordRefEnum_Trade r) = raw_index_ts TradeMsg_type r"
| "record_ref_enum_raw_index_ts (RecordRefEnum_Mbp1 r) = raw_index_ts Mbp1Msg_type r"
| "record_ref_enum_raw_index_ts (RecordRefEnum_Mbp10 r) = raw_index_ts Mbp10Msg_type r"
| "record_ref_enum_raw_index_ts (RecordRefEnum_Ohlcv r) = raw_index_ts OhlcvMsg_type r"
| "record_ref_enum_raw_index_ts (RecordRefEnum_Status r) = raw_index_ts StatusMsg_type r"
| "record_ref_enum_raw_index_ts (RecordRefEnum_InstrumentDef r) = raw_index_ts InstrumentDefMsg_type r"
| "record_ref_enum_raw_index_ts (RecordRefEnum_Imbalance r) = raw_index_ts ImbalanceMsg_type r"
| "record_ref_enum_raw_index_ts (RecordRefEnum_Stat r) = raw_index_ts StatMsg_type r"
| "record_ref_enum_raw_index_ts (RecordRefEnum_Error r) = raw_index_ts ErrorMsg_type r"
| "record_ref_enum_raw_index_ts (RecordRefEnum_SymbolMapping r) = raw_index_ts SymbolMappingMsg_type r"
| "record_ref_enum_raw_index_ts (RecordRefEnum_System r) = raw_index_ts SystemMsg_type r"
| "record_ref_enum_raw_index_ts (RecordRefEnum_Cmbp1 r) = raw_index_ts Cmbp1Msg_type r"
| "record_ref_enum_raw_index_ts (RecordRefEnum_Bbo r) = raw_index_ts BboMsg_type r"
| "record_ref_enum_raw_index_ts (RecordRefEnum_Cbbo r) = raw_index_ts CbboMsg_type r"

primrec record_ref_enum_as_ref :: "RecordRefEnum \<Rightarrow> bytes" where
  "record_ref_enum_as_ref (RecordRefEnum_Mbo r) = as_ref MboMsg_type r"
| "record_ref_enum_as_ref (RecordRefEnum_Trade r) = as_ref TradeMsg_type r"
| "record_ref_enum_as_ref (RecordRefEnum_Mbp1 r) = as_ref Mbp1Msg_type r"
| "record_ref_enum_as_ref (RecordRefEnum_Mbp10 r) = as_ref Mbp10Msg_type r"
| "record_ref_enum_as_ref (RecordRefEnum_Ohlcv r) = as_ref OhlcvMsg_type r"
| "record_ref_enum_as_ref (RecordRefEnum_Status r) = as_ref StatusMsg_type r"
| "record_ref_enum_as_ref (RecordRefEnum_InstrumentDef r) = as_ref InstrumentDefMsg_type r"
| "record_ref_enum_as_ref (RecordRefEnum_Imbalance r) = as_ref ImbalanceMsg_type r"
| "record_ref_enum_as_ref (RecordRefEnum_Stat r) = as_ref StatMsg_type r"
| "record_ref_enum_as_ref (RecordRefEnum_Error r) = as_ref ErrorMsg_type r"
| "record_ref_enum_as_ref (RecordRefEnum_SymbolMapping r) = as_ref SymbolMappingMsg_type r"
| "record_ref_enum_as_ref (RecordRefEnum_System r) = as_ref SystemMsg_type r"
| "record_ref_enum_as_ref (RecordRefEnum_Cmbp1 r) = as_ref Cmbp1Msg_type r"
| "record_ref_enum_as_ref (RecordRefEnum_Bbo r) = as_ref BboMsg_type r"
| "record_ref_enum_as_ref (RecordRefEnum_Cbbo r) = as_ref CbboMsg_type r"

primrec record_enum_set_header :: "RecordHeader \<Rightarrow> RecordEnum \<Rightarrow> RecordEnum" where
  "record_enum_set_header h (RecordEnum_Mbo r) = RecordEnum_Mbo (set_header MboMsg_type h r)"
| "record_enum_set_header h (RecordEnum_Trade r) = RecordEnum_Trade (set_header TradeMsg_type h r)"
| "record_enum_set_header h (RecordEnum_Mbp1 r) = RecordEnum_Mbp1 (set_header Mbp1Msg_type h r)"
| "record_enum_set_header h (RecordEnum_Mbp10 r) = RecordEnum_Mbp10 (set_header Mbp10Msg_type h r)"
| "record_enum_set_header h (RecordEnum_Ohlcv r) = RecordEnum_Ohlcv (set_header OhlcvMsg_type h r)"
| "record_enum_set_header h (RecordEnum_Status r) = RecordEnum_Status (set_header StatusMsg_type h r)"
| "record_enum_set_header h (RecordEnum_InstrumentDef r) = RecordEnum_InstrumentDef (set_header InstrumentDefMsg_type h r)"
| "record_enum_set_header h (RecordEnum_Imbalance r) = RecordEnum_Imbalance (set_header ImbalanceMsg_type h r)"
| "record_enum_set_header h (RecordEnum_Stat r) = RecordEnum_Stat (set_header StatMsg_type h r)"
| "record_enum_set_header h (RecordEnum_Error r) = RecordEnum_Error (set_header ErrorMsg_type h r)"
| "record_enum_set_header h (RecordEnum_SymbolMapping r) = RecordEnum_SymbolMapping (set_header SymbolMappingMsg_type h r)"
| "record_enum_set_header h (RecordEnum_System r) = RecordEnum_System (set_header SystemMsg_type h r)"
| "record_enum_set_header h (RecordEnum_Cmbp1 r) = RecordEnum_Cmbp1 (set_header Cmbp1Msg_type h r)"
| "record_enum_set_header h (RecordEnum_Bbo r) = RecordEnum_Bbo (set_header BboMsg_type h r)"
| "record_enum_set_header h (RecordEnum_Cbbo r) = RecordEnum_Cbbo (set_header CbboMsg_type h r)"

definition earlier_version :: "string \<Rightarrow> error" where
  "earlier_version msg =
     Conversion (''earlier version of '' @ msg @ '' (must be current version)'') ''dbn::record_enum::RecordRefEnum''"

text \<open>The error of an unknown record type carries the rendering of the byte.\<close>

definition record_ref_enum_try_from :: "bytes \<Rightarrow> RecordRefEnum result" where
  "record_ref_enum_try_from r =
     (let size = rr_record_size r in
      case rr_rtype r of
        None \<Rightarrow> Err (Conversion (dec_nat (unat (rh_rtype (rr_header r)))) ''dbn::enums::rtype::RType'')
      | Some t \<Rightarrow> (case t of
          RType_Mbo \<Rightarrow> Ok (RecordRefEnum_Mbo (rr_get_unchecked MboMsg_type r))
        | RType_Mbp0 \<Rightarrow> Ok (RecordRefEnum_Trade (rr_get_unchecked TradeMsg_type r))
        | RType_Mbp1 \<Rightarrow> Ok (RecordRefEnum_Mbp1 (rr_get_unchecked Mbp1Msg_type r))
        | RType_Bbo1S \<Rightarrow> Ok (RecordRefEnum_Bbo (rr_get_unchecked BboMsg_type r))
        | RType_Bbo1M \<Rightarrow> Ok (RecordRefEnum_Bbo (rr_get_unchecked BboMsg_type r))
        | RType_Mbp10 \<Rightarrow> Ok (RecordRefEnum_Mbp10 (rr_get_unchecked Mbp10Msg_type r))
        | RType_OhlcvDeprecated \<Rightarrow> Ok (RecordRefEnum_Ohlcv (rr_get_unchecked OhlcvMsg_type r))
        | RType_Ohlcv1S \<Rightarrow> Ok (RecordRefEnum_Ohlcv (rr_get_unchecked OhlcvMsg_type r))
        | RType_Ohlcv1M \<Rightarrow> Ok (RecordRefEnum_Ohlcv (rr_get_unchecked OhlcvMsg_type r))
        | RType_Ohlcv1H \<Rightarrow> Ok (RecordRefEnum_Ohlcv (rr_get_unchecked OhlcvMsg_type r))
        | RType_Ohlcv1D \<Rightarrow> Ok (RecordRefEnum_Ohlcv (rr_get_unchecked OhlcvMsg_type r))
        | RType_OhlcvEod \<Rightarrow> Ok (RecordRefEnum_Ohlcv (rr_get_unchecked OhlcvMsg_type r))
        | RType_Status \<Rightarrow> Ok (RecordRefEnum_Status (rr_get_unchecked StatusMsg_type r))
        | RType_InstrumentDef \<Rightarrow> 
            if size < size_of InstrumentDefMsg_type then Err (earlier_version ''InstrumentDefMsg'')
            else Ok (RecordRefEnum_InstrumentDef (rr_get_unchecked InstrumentDefMsg_type r))
        | RType_Imbalance \<Rightarrow> Ok (RecordRefEnum_Imbalance (rr_get_unchecked ImbalanceMsg_type r))
        | RType_Statistics \<Rightarrow> 
            if size < size_of StatMsg_type then Err (earlier_version ''StatMsg'')
            else Ok (RecordRefEnum_Stat (rr_get_unchecked StatMsg_type r))
        | RType_Error \<Rightarrow> 
            if size < size_of ErrorMsg_type then Err (earlier_version ''ErrorMsg'')
            else Ok (RecordRefEnum_Error (rr_get_unchecked ErrorMsg_type r))
        | RType_SymbolMapping \<Rightarrow> 
            if size < size_of SymbolMappingMsg_type then Err (earlier_version ''SymbolMappingMsg'')
            else Ok (RecordRefEnum_SymbolMapping (rr_get_unchecked SymbolMappingMsg_type r))
        | RType_System \<Rightarrow> 
            if size < size_of SystemMsg_type then Err (earlier_version ''SystemMsg'')
            else Ok (RecordRefEnum_System (rr_get_unchecked SystemMsg_type r))
        | RType_Cmbp1 \<Rightarrow> Ok (RecordRefEnum_Cmbp1 (rr_get_unchecked Cmbp1Msg_type r))
        | RType_Tcbbo \<Rightarrow> Ok (RecordRefEnum_Cmbp1 (rr_get_unchecked Cmbp1Msg_type r))
        | RType_Cbbo1S \<Rightarrow> Ok (RecordRefEnum_Cbbo (rr_get_unchecked CbboMsg_type r))
        | RType_Cbbo1M \<Rightarrow> Ok (RecordRefEnum_Cbbo (rr_get_unchecked CbboMsg_type r))))"

text \<open>A record of the enum whose header fits it.\<close>

primrec record_enum_ok :: "RecordEnum \<Rightarrow> bool" where
  "record_enum_ok (RecordEnum_Mbo r) = well_formed MboMsg_type r"
| "record_enum_ok (RecordEnum_Trade r) = well_formed TradeMsg_type r"
| "record_enum_ok (RecordEnum_Mbp1 r) = well_formed Mbp1Msg_type r"
| "record_enum_ok (RecordEnum_Mbp10 r) = well_formed Mbp10Msg_type r"
| "record_enum_ok (RecordEnum_Ohlcv r) = well_formed OhlcvMsg_type r"
| "record_enum_ok (RecordEnum_Status r) = well_formed StatusMsg_type r"
| "record_enum_ok (RecordEnum_InstrumentDef r) = well_formed InstrumentDefMsg_type r"
| "record_enum_ok (RecordEnum_Imbalance r) = well_formed ImbalanceMsg_type r"
| "record_enum_ok (RecordEnum_Stat r) = well_formed StatMsg_type r"
| "record_enum_ok (RecordEnum_Error r) = well_formed ErrorMsg_type r"
| "record_enum_ok (RecordEnum_SymbolMapping r) = well_formed SymbolMappingMsg_type r"
| "record_enum_ok (RecordEnum_System r) = well_formed SystemMsg_type r"
| "record_enum_ok (RecordEnum_Cmbp1 r) = well_formed Cmbp1Msg_type r"
| "record_enum_ok (RecordEnum_Bbo r) = well_formed BboMsg_type r"
| "record_enum_ok (RecordEnum_Cbbo r) = well_formed CbboMsg_type r"

section \<open>Viewing the bytes of a record\<close>

context dbn_record
begin

lemma well_formed_view:
  assumes "well_formed T r"
  shows "rr_header (as_ref T r @ bs) = header T r" and "rr_record_size (as_ref T r @ bs) = size_of T"
    and "rr_get_unchecked T (as_ref T r @ bs) = r" and "handle T g (as_ref T r @ bs) = Ok (g r)"
    and "has_rtype T (rh_rtype (header T r))"
  using assms rr_get_as_ref(1) [of r bs] rr_header_as_ref [of r bs] layout.rd_put [of r bs]
  by (simp_all add: well_formed_def rr_record_size_def rr_get_unchecked_def handle_def)

end

lemmas current_types =
  MboMsg_type_def TradeMsg_type_def Mbp1Msg_type_def Mbp10Msg_type_def OhlcvMsg_type_def StatusMsg_type_def
  InstrumentDefMsg_type_def ImbalanceMsg_type_def StatMsg_type_def ErrorMsg_type_def SymbolMappingMsg_type_def
  SystemMsg_type_def Cmbp1Msg_type_def BboMsg_type_def CbboMsg_type_def

lemmas enum_views =
  mbo_record.well_formed_view trade_record.well_formed_view mbp1_record.well_formed_view
  mbp10_record.well_formed_view ohlcv_record.well_formed_view status_record.well_formed_view
  def3_record.well_formed_view imb_record.well_formed_view stat3_record.well_formed_view
  err2_record.well_formed_view sm2_record.well_formed_view sys2_record.well_formed_view
  cmbp1_record.well_formed_view bbo_record.well_formed_view cbbo_record.well_formed_view

lemma rtype_of_u8 [simp]: "rtype_try_from (rtype_as_u8 t) = Some t"
  by (simp only: rtype_try_from_iff)

text \<open>The record types that a record of each variant can carry.\<close>

primrec variant_rtypes :: "RecordEnum \<Rightarrow> RType set" where
  "variant_rtypes (RecordEnum_Mbo r) = {RType_Mbo}"
| "variant_rtypes (RecordEnum_Trade r) = {RType_Mbp0}"
| "variant_rtypes (RecordEnum_Mbp1 r) = {RType_Mbp1}"
| "variant_rtypes (RecordEnum_Mbp10 r) = {RType_Mbp10}"
| "variant_rtypes (RecordEnum_Ohlcv r) =
     {RType_OhlcvDeprecated, RType_Ohlcv1S, RType_Ohlcv1M, RType_Ohlcv1H, RType_Ohlcv1D, RType_OhlcvEod}"
| "variant_rtypes (RecordEnum_Status r) = {RType_Status}"
| "variant_rtypes (RecordEnum_InstrumentDef r) = {RType_InstrumentDef}"
| "variant_rtypes (RecordEnum_Imbalance r) = {RType_Imbalance}"
| "variant_rtypes (RecordEnum_Stat r) = {RType_Statistics}"
| "variant_rtypes (RecordEnum_Error r) = {RType_Error}"
| "variant_rtypes (RecordEnum_SymbolMapping r) = {RType_SymbolMapping}"
| "variant_rtypes (RecordEnum_System r) = {RType_System}"
| "variant_rtypes (RecordEnum_Cmbp1 r) = {RType_Cmbp1, RType_Tcbbo}"
| "variant_rtypes (RecordEnum_Bbo r) = {RType_Bbo1S, RType_Bbo1M}"
| "variant_rtypes (RecordEnum_Cbbo r) = {RType_Cbbo1S, RType_Cbbo1M}"

lemma variant_rtype:
  assumes "record_enum_ok e"
  shows "\<exists>t\<in>variant_rtypes e. rh_rtype (record_enum_header e) = rtype_as_u8 t"
  using assms by (cases e) (auto simp: well_formed_def current_types)

lemma enum_header:
  assumes "record_enum_ok e"
  shows "rr_header (record_enum_as_ref e @ bs) = record_enum_header e"
  using assms
  by (cases e) (simp_all add: enum_views)

lemma def_sizes: "size_of InstrumentDefMsgV2_type = 400" "size_of InstrumentDefMsg_type = 520"
  by (simp_all add: InstrumentDefMsgV2_type_def InstrumentDefMsg_type_def)

lemma enum_rtype:
  assumes "record_enum_ok e"
  obtains t where "t \<in> variant_rtypes e" and "rr_rtype (record_enum_as_ref e @ bs) = Some t"
  using variant_rtype [OF assms] enum_header [OF assms, of bs] by (auto simp: rr_rtype_def)

lemma try_from_view:
  assumes "record_enum_ok e"
  shows "record_ref_enum_try_from (record_enum_as_ref e @ bs) = Ok (record_ref_enum_from e)"
proof -
  obtain t where t: "t \<in> variant_rtypes e" "rr_rtype (record_enum_as_ref e @ bs) = Some t"
    by (rule enum_rtype [OF assms])
  then show ?thesis
    using assms by (cases e) (auto simp: record_ref_enum_try_from_def enum_views)
qed

lemma raw_index_ts_view:
  assumes "record_enum_ok e"
  shows "rr_raw_index_ts (record_enum_as_ref e @ bs) = Ok (record_enum_raw_index_ts e)"
proof -
  obtain t where t: "t \<in> variant_rtypes e" "rr_rtype (record_enum_as_ref e @ bs) = Some t"
    by (rule enum_rtype [OF assms])
  then show ?thesis
    using assms by (cases e) (auto simp: rr_raw_index_ts_def rtype_dispatch_base_def enum_views def_sizes)
qed

section \<open>Properties\<close>

text \<open>
  C26. The enum view of a record: for every record of the current version whose header fits
  it, the conversion of its bytes to the enum gives that record back, whatever bytes follow,
  and copying it out of the reference gives the record itself; the index timestamp that the
  dispatch on the dynamic type finds is the one of the record's static type.
\<close>

theorem record_enum_view:
  assumes "record_enum_ok e"
  shows "record_ref_enum_try_from (record_enum_as_ref e @ bs) = Ok (record_ref_enum_from e)
    \<and> to_owned (record_ref_enum_from e) = e
    \<and> rr_header (record_enum_as_ref e @ bs) = record_enum_header e
    \<and> rr_raw_index_ts (record_enum_as_ref e @ bs) = Ok (record_enum_raw_index_ts e)
    \<and> record_ref_enum_raw_index_ts (record_ref_enum_from e) = record_enum_raw_index_ts e"
proof -
  have "to_owned (record_ref_enum_from e) = e"
    "record_ref_enum_raw_index_ts (record_ref_enum_from e) = record_enum_raw_index_ts e"
    by (cases e; simp)+
  then show ?thesis
    using try_from_view [OF assms] raw_index_ts_view [OF assms] enum_header [OF assms] by blast
qed

theorem record_enum_view_witness:
  "record_ref_enum_try_from (as_ref MboMsg_type MboMsg_default @ [1, 2, 3]) = Ok (RecordRefEnum_Mbo MboMsg_default)"
  using record_enum_view [of "RecordEnum_Mbo MboMsg_default" "[1, 2, 3]"] MboMsg_default_ok by simp

text \<open>
  The enum view does not check the length of the records that have one version only: a
  record of 16 bytes, a header alone, whose type says market-by-order is accepted, although
  the struct it is then read as has 56 bytes and the checked access refuses it.
\<close>

theorem record_enum_view_unchecked:
  "let r = put_RecordHeader \<lparr>rh_length = 4, rh_rtype = rtype_as_u8 RType_Mbo, rh_publisher_id = p,
      rh_instrument_id = i, rh_ts_event = t\<rparr>
   in length r = 16 \<and> rr_as_ref r = r
     \<and> record_ref_enum_try_from r = Ok (RecordRefEnum_Mbo (rr_get_unchecked MboMsg_type r))
     \<and> size_of MboMsg_type = 56 \<and> (\<exists>e. rr_try_get MboMsg_type r = Err e)"
proof -
  let ?h = "\<lparr>rh_length = 4, rh_rtype = rtype_as_u8 RType_Mbo, rh_publisher_id = p,
      rh_instrument_id = i, rh_ts_event = t\<rparr>"
  have h: "rr_header (put_RecordHeader ?h) = ?h"
    using rh_codec.rd_put [of ?h "[]"] by (simp add: rr_header_def)
  moreover have "length (put_RecordHeader ?h) = 16" using rh_codec.length_put [of ?h] by simp
  moreover have "rr_rtype (put_RecordHeader ?h) = Some RType_Mbo"
    using h by (simp only: rr_rtype_def rtype_of_u8 RecordHeader.select_convs)
  ultimately show ?thesis
    by (simp add: rr_as_ref_def rr_record_size_def header_record_size_def LENGTH_MULTIPLIER_def
        record_ref_enum_try_from_def rr_try_get_def rr_has_def MboMsg_type_def)
qed

end
