(* ===== verification/Decode_Merge.thy ===== *)
theory Decode_Merge
  imports Record_Enum Transcode Metadata_Merge "HOL-Library.Product_Lexorder"
begin

text \<open>
  The merge of several decoders by index timestamp: \<^verbatim>\<open>RecordDecoder\<close> and
  \<^verbatim>\<open>Decoder\<close> of rust/dbn/src/decode/merge.rs. The inner decoders are given by the methods of
  the traits \<^verbatim>\<open>DecodeRecordRef\<close>, \<^verbatim>\<open>LastRecord\<close> and \<^verbatim>\<open>DbnMetadata\<close>, as a dictionary;
  what the merge relies on is the interface \<open>record_stream\<close>: a decoder delivers a sequence of
  records and then nothing. The blocking decoder of theory \<open>Sync_Decoder\<close> meets it.

  The standard library's \<^verbatim>\<open>BinaryHeap\<close> of reversed heads is a list in ascending order, the
  head of which \<^verbatim>\<open>peek\<close> and \<^verbatim>\<open>pop\<close> give; heads are ordered by timestamp, then by decoder.

  The theorem: records come out in the order of a stable sort of the concatenated inputs by
  index timestamp, whether or not the merge was given hints.
\<close>

section \<open>Definitions\<close>

record ('d, 's) decoder_ops =
  decode_record_ref :: "'s \<Rightarrow> ('s \<times> bytes option result) result option"
  last_rec :: "'s \<Rightarrow> bytes option"
  dec_md :: "'s \<Rightarrow> 'd Metadata"

datatype IndexTs = IndexTs_Real u64 | IndexTs_Hint u64

primrec index_ts_ts :: "IndexTs \<Rightarrow> u64" where
  "index_ts_ts (IndexTs_Real t) = t"
| "index_ts_ts (IndexTs_Hint t) = t"

record StreamHead =
  sh_index_ts :: IndexTs
  sh_decoder_idx :: nat

text \<open>The derived order of \<^verbatim>\<open>StreamHead\<close> over the order of \<^verbatim>\<open>IndexTs\<close>, which compares timestamps only.\<close>

definition head_key :: "StreamHead \<Rightarrow> u64 \<times> nat" where
  "head_key h = (index_ts_ts (sh_index_ts h), sh_decoder_idx h)"

definition heap_push :: "StreamHead \<Rightarrow> StreamHead list \<Rightarrow> StreamHead list" where
  "heap_push h heap = insort_key head_key h heap"

record 's MergeRecordDecoder =
  decoders :: "'s list"
  min_heap :: "StreamHead list"
  is_first :: bool

text \<open>
  The step that the methods share: decode the next record of a decoder and push its head; an
  error of the decoder is returned with the state as it is then.
\<close>

definition decode_and_push ::
  "('d, 's) decoder_ops \<Rightarrow> nat \<Rightarrow> 's MergeRecordDecoder \<Rightarrow> ('s MergeRecordDecoder \<times> unit result) result option" where
  "decode_and_push D decoder_idx m =
     (case index (decoders m) decoder_idx of
        Panic p \<Rightarrow> Some (Panic p)
      | Err e \<Rightarrow> Some (Err e)
      | Ok d \<Rightarrow>
          (case decode_record_ref D d of
             None \<Rightarrow> None
           | Some res \<Rightarrow> Some (and_then res (\<lambda>(d, found).
               let m = m\<lparr>decoders := (decoders m)[decoder_idx := d]\<rparr> in
               case found of
                 Ok (Some rec) \<Rightarrow>
                   and_then (rr_raw_index_ts rec) (\<lambda>t.
                     Ok (m\<lparr>min_heap := heap_push
                            \<lparr>sh_index_ts = IndexTs_Real t, sh_decoder_idx = decoder_idx\<rparr> (min_heap m)\<rparr>, Ok ()))
               | Ok None \<Rightarrow> Ok (m, Ok ())
               | Err e \<Rightarrow> Ok (m, Err e)
               | Panic p \<Rightarrow> Panic p))))"

definition no_decoders :: error where
  "no_decoders = BadArgument ''decoders'' ''none provided''"

fun populate ::
  "('d, 's) decoder_ops \<Rightarrow> nat list \<Rightarrow> 's MergeRecordDecoder \<Rightarrow> 's MergeRecordDecoder result option" where
  "populate D [] m = Some (Ok m)"
| "populate D (decoder_idx # rest) m =
     (case decode_and_push D decoder_idx m of
        None \<Rightarrow> None
      | Some (Panic p) \<Rightarrow> Some (Panic p)
      | Some (Err e) \<Rightarrow> Some (Err e)
      | Some (Ok (m, Ok _)) \<Rightarrow> populate D rest m
      | Some (Ok (m, Err e)) \<Rightarrow> Some (Err e)
      | Some (Ok (m, Panic p)) \<Rightarrow> Some (Panic p))"

definition merge_new :: "('d, 's) decoder_ops \<Rightarrow> 's list \<Rightarrow> 's MergeRecordDecoder result option" where
  "merge_new D ds =
     (if ds = [] then Some (Err no_decoders)
      else populate D [0..<length ds] \<lparr>decoders = ds, min_heap = [], is_first = True\<rparr>)"

definition merge_with_hints :: "'s list \<Rightarrow> u64 list \<Rightarrow> 's MergeRecordDecoder result" where
  "merge_with_hints ds start_ts_hints =
     (if ds = [] then Err no_decoders
      else if length ds \<noteq> length start_ts_hints
      then Err (BadArgument ''hints'' ''must have the same length as `decoders`'')
      else Ok \<lparr>decoders = ds,
               min_heap = fold heap_push (map (\<lambda>(decoder_idx, hint).
                 \<lparr>sh_index_ts = IndexTs_Hint hint, sh_decoder_idx = decoder_idx\<rparr>)
                 (enumerate 0 start_ts_hints)) [],
               is_first = True\<rparr>)"

definition peek_decoder_idx :: "'s MergeRecordDecoder \<Rightarrow> nat option" where
  "peek_decoder_idx m = (case min_heap m of [] \<Rightarrow> None | h # _ \<Rightarrow> Some (sh_decoder_idx h))"

partial_function (option) next_decoder_idx ::
  "('d, 's) decoder_ops \<Rightarrow> 's MergeRecordDecoder \<Rightarrow> ('s MergeRecordDecoder \<times> nat option result) result option" where
  "next_decoder_idx D m =
     (case min_heap m of
        [] \<Rightarrow> Some (Ok (m, Ok None))
      | h # heap \<Rightarrow>
          (case sh_index_ts h of
             IndexTs_Real _ \<Rightarrow> Some (Ok (m, Ok (Some (sh_decoder_idx h))))
           | IndexTs_Hint _ \<Rightarrow>
               (case decode_and_push D (sh_decoder_idx h) (m\<lparr>min_heap := heap\<rparr>) of
                  None \<Rightarrow> None
                | Some (Panic p) \<Rightarrow> Some (Panic p)
                | Some (Err e) \<Rightarrow> Some (Err e)
                | Some (Ok (m, Err e)) \<Rightarrow> Some (Ok (m, Err e))
                | Some (Ok (m, Panic p)) \<Rightarrow> Some (Panic p)
                | Some (Ok (m, Ok _)) \<Rightarrow> next_decoder_idx D m)))"

text \<open>The end of \<^verbatim>\<open>decode_record_ref\<close>: the record that the chosen decoder exposes.\<close>

definition merge_current ::
  "('d, 's) decoder_ops \<Rightarrow> 's MergeRecordDecoder \<Rightarrow> ('s MergeRecordDecoder \<times> bytes option result) result option" where
  "merge_current D m =
     (case next_decoder_idx D m of
        None \<Rightarrow> None
      | Some res \<Rightarrow> Some (and_then res (\<lambda>(m, idx). case idx of
            Ok (Some i) \<Rightarrow> and_then (index (decoders m) i) (\<lambda>d. Ok (m, Ok (last_rec D d)))
          | Ok None \<Rightarrow> Ok (m, Ok None)
          | Err e \<Rightarrow> Ok (m, Err e)
          | Panic p \<Rightarrow> Panic p)))"

definition merge_decode_record_ref ::
  "('d, 's) decoder_ops \<Rightarrow> 's MergeRecordDecoder \<Rightarrow> ('s MergeRecordDecoder \<times> bytes option result) result option" where
  "merge_decode_record_ref D m =
     (if is_first m then merge_current D (m\<lparr>is_first := False\<rparr>)
      else case min_heap m of
        [] \<Rightarrow> Some (Ok (m, Ok None))
      | h # heap \<Rightarrow>
          (case decode_and_push D (sh_decoder_idx h) (m\<lparr>min_heap := heap\<rparr>) of
             None \<Rightarrow> None
           | Some (Panic p) \<Rightarrow> Some (Panic p)
           | Some (Err e) \<Rightarrow> Some (Err e)
           | Some (Ok (m, Err e)) \<Rightarrow> Some (Ok (m, Err e))
           | Some (Ok (m, Panic p)) \<Rightarrow> Some (Panic p)
           | Some (Ok (m, Ok _)) \<Rightarrow> merge_current D m))"

definition merge_decode_record ::
  "'t record_type \<Rightarrow> ('d, 's) decoder_ops \<Rightarrow> 's MergeRecordDecoder
   \<Rightarrow> ('s MergeRecordDecoder \<times> 't option result) result option" where
  "merge_decode_record T D m =
     (case merge_decode_record_ref D m of
        None \<Rightarrow> None
      | Some res \<Rightarrow> Some (and_then res (\<lambda>(m, found).
          Ok (m, and_then found (\<lambda>rec. case rec of
              Some rec \<Rightarrow> and_then (rr_try_get T rec) (\<lambda>x. Ok (Some x))
            | None \<Rightarrow> Ok None)))))"

definition merge_last_record :: "('d, 's) decoder_ops \<Rightarrow> 's MergeRecordDecoder \<Rightarrow> bytes option result" where
  "merge_last_record D m =
     and_then (index (decoders m) (case peek_decoder_idx m of None \<Rightarrow> 0 | Some i \<Rightarrow> i))
       (\<lambda>d. Ok (last_rec D d))"

record ('d, 's) MergeDecoder =
  mgd_metadata :: "'d Metadata"
  mgd_decoder :: "'s MergeRecordDecoder"

text \<open>The order in which the metadata merger lists a set of symbols is the parameter \<open>order\<close>.\<close>

definition merge_decoder_new ::
  "(string \<Rightarrow> string set \<Rightarrow> string list) \<Rightarrow> ('d::linorder, 's) decoder_ops \<Rightarrow> 's list
   \<Rightarrow> ('d, 's) MergeDecoder result" where
  "merge_decoder_new order D ds =
     (let hints = map (\<lambda>d. md_start (dec_md D d)) ds in
      case ds of
        [] \<Rightarrow> Err no_decoders
      | first # rest \<Rightarrow>
          and_then (metadata_merge order (dec_md D first) (map (dec_md D) rest)) (\<lambda>metadata.
          and_then (merge_with_hints ds hints) (\<lambda>decoder.
            Ok \<lparr>mgd_metadata = metadata, mgd_decoder = decoder\<rparr>)))"

text \<open>The blocking decoder as an inner decoder of a merge.\<close>

definition decoder_last_record :: "'b buf_ops \<Rightarrow> ('d, 'r, 'b) Decoder \<Rightarrow> bytes option" where
  "decoder_last_record B d = last_record B (rd_fsm (dec_decoder d))"

definition sync_ops :: "'d date_ops \<Rightarrow> 'b buf_ops \<Rightarrow> 'r reader \<Rightarrow> ('d, ('d, 'r, 'b) Decoder) decoder_ops" where
  "sync_ops C B R = \<lparr>decode_record_ref = decoder_decode_record_ref C B R, last_rec = decoder_last_record B,
     dec_md = dec_metadata\<rparr>"

definition merge_decoder_decode_record_ref ::
  "('d, 's) decoder_ops \<Rightarrow> ('d, 's) MergeDecoder \<Rightarrow> (('d, 's) MergeDecoder \<times> bytes option result) result option" where
  "merge_decoder_decode_record_ref D g =
     (case merge_decode_record_ref D (mgd_decoder g) of
        None \<Rightarrow> None
      | Some res \<Rightarrow> Some (and_then res (\<lambda>(m, found). Ok (g\<lparr>mgd_decoder := m\<rparr>, found))))"

section \<open>The merge of record streams\<close>

text \<open>
  The reference: records waiting in several streams are taken one at a time, each time from a
  stream whose first record has the smallest index timestamp, the first such stream in case of
  a tie.
\<close>

definition index_of :: "bytes \<Rightarrow> u64" where
  "index_of x = (case rr_raw_index_ts x of Ok t \<Rightarrow> t | _ \<Rightarrow> 0)"

definition next_stream :: "bytes list list \<Rightarrow> nat \<Rightarrow> bool" where
  "next_stream S i \<longleftrightarrow> i < length S \<and> S ! i \<noteq> [] \<and>
     (\<forall>j < length S. S ! j \<noteq> [] \<longrightarrow> (index_of (hd (S ! i)), i) \<le> (index_of (hd (S ! j)), j))"

inductive merges :: "bytes list list \<Rightarrow> bytes list \<Rightarrow> bool" where
  merges_Nil: "concat S = [] \<Longrightarrow> merges S []"
| merges_Cons: "next_stream S i \<Longrightarrow> merges (S[i := tl (S ! i)]) xs \<Longrightarrow> merges S (hd (S ! i) # xs)"

text \<open>Streams that are in order themselves are merged to the stable sort of all their records.\<close>

lemma insort_key_first: "(\<And>y. y \<in> set ys \<Longrightarrow> f x \<le> f y) \<Longrightarrow> insort_key f x ys = x # ys"
  by (cases ys) auto

lemma sort_key_first:
  assumes "\<And>a. a \<in> set as \<Longrightarrow> f x < f a" and "\<And>b. b \<in> set bs \<Longrightarrow> f x \<le> f b"
  shows "sort_key f (as @ x # bs) = x # sort_key f (as @ bs)"
  using assms(1)
proof (induction as)
  case Nil
  then show ?case using assms(2) insort_key_first [of "sort_key f bs" f x] by simp
next
  case (Cons a as)
  then have "f x < f a" "sort_key f (as @ x # bs) = x # sort_key f (as @ bs)" by auto
  then show ?case by (simp add: not_le [symmetric])
qed

lemma concat_split: "i < length S \<Longrightarrow> concat S = concat (take i S) @ S ! i @ concat (drop (Suc i) S)"
  by (metis concat_append concat.simps(2) id_take_nth_drop)

lemma concat_update: "i < length S \<Longrightarrow> concat (S[i := xs]) = concat (take i S) @ xs @ concat (drop (Suc i) S)"
  by (simp add: upd_conv_take_nth_drop)

lemma sorted_key_hd: "sorted (map f s) \<Longrightarrow> x \<in> set s \<Longrightarrow> f (hd s) \<le> (f x :: 'a :: linorder)"
  by (cases s) auto

lemma next_stream_below:
  assumes "next_stream S i" and "\<forall>s \<in> set S. sorted (map index_of s)"
  shows "a \<in> set (concat (take i S)) \<Longrightarrow> index_of (hd (S ! i)) < index_of a"
    and "b \<in> set (concat (drop (Suc i) S)) \<Longrightarrow> index_of (hd (S ! i)) \<le> index_of b"
proof -
  have before: "index_of (hd (S ! i)) < index_of (hd (S ! j))" if "j < i" "S ! j \<noteq> []" for j
  proof -
    have "j < length S" using assms(1) that by (simp add: next_stream_def)
    then have "(index_of (hd (S ! i)), i) \<le> (index_of (hd (S ! j)), j)"
      using assms(1) that(2) unfolding next_stream_def by blast
    then show ?thesis using that by simp
  qed
  have after: "index_of (hd (S ! i)) \<le> index_of (hd (S ! j))" if "j < length S" "S ! j \<noteq> []" for j
  proof -
    have "(index_of (hd (S ! i)), i) \<le> (index_of (hd (S ! j)), j)"
      using assms(1) that by (simp add: next_stream_def)
    then show ?thesis by auto
  qed
  have i: "i < length S" using assms(1) by (simp add: next_stream_def)
  show "index_of (hd (S ! i)) < index_of a" if a: "a \<in> set (concat (take i S))"
  proof -
    obtain s where s: "s \<in> set (take i S)" "a \<in> set s" using a by auto
    then obtain j where j: "j < i" "a \<in> set (S ! j)" using i by (auto simp: in_set_conv_nth [of s])
    then have "index_of (hd (S ! j)) \<le> index_of a"
      using assms(2) i by (intro sorted_key_hd [where f = index_of]) auto
    moreover have "S ! j \<noteq> []" using j by auto
    ultimately show ?thesis using before [OF j(1)] by simp
  qed
  show "index_of (hd (S ! i)) \<le> index_of b" if b: "b \<in> set (concat (drop (Suc i) S))"
  proof -
    obtain s where "s \<in> set (drop (Suc i) S)" "b \<in> set s" using b by auto
    then obtain j where j: "j < length S" "b \<in> set (S ! j)" by (metis in_set_dropD in_set_conv_nth)
    then have "index_of (hd (S ! j)) \<le> index_of b"
      using assms(2) by (intro sorted_key_hd [where f = index_of]) auto
    moreover have "S ! j \<noteq> []" using j by auto
    ultimately show ?thesis using after [OF j(1)] by simp
  qed
qed

lemma merges_sort:
  assumes "merges S xs" and "\<forall>s \<in> set S. sorted (map index_of s)"
  shows "xs = sort_key index_of (concat S)"
  using assms
proof (induction rule: merges.induct)
  case (merges_Cons S i xs)
  then have i: "i < length S" "S ! i = hd (S ! i) # tl (S ! i)" by (simp_all add: next_stream_def)
  have sorted: "sorted (map index_of (S ! i))" using i(1) merges_Cons.prems by simp
  have "sorted (map index_of (tl (S ! i)))" using sorted by (cases "S ! i") auto
  then have IH: "xs = sort_key index_of (concat (S[i := tl (S ! i)]))"
    using merges_Cons by (auto dest!: set_update_subset_insert [THEN subsetD])
  have "sort_key index_of (concat (take i S) @ hd (S ! i) # tl (S ! i) @ concat (drop (Suc i) S)) =
      hd (S ! i) # sort_key index_of (concat (take i S) @ tl (S ! i) @ concat (drop (Suc i) S))"
    using next_stream_below [OF merges_Cons.hyps(1) merges_Cons.prems] sorted_key_hd [OF sorted]
      list.set_sel(2) [of "S ! i"] i(2)
    by (intro sort_key_first) (auto, metis list.sel(3) list.set_sel(2) list.discI)
  then show ?case
    using IH concat_split [OF i(1)] concat_update [OF i(1), of "tl (S ! i)"] i(2) by (metis append_Cons)
qed (metis sort_key_simps(1))

section \<open>The merging decoder\<close>

text \<open>The hints left in a heap: every round of the loop that replaces them removes one.\<close>

definition hints :: "StreamHead list \<Rightarrow> nat" where
  "hints heap = length (filter (\<lambda>h. case sh_index_ts h of IndexTs_Hint _ \<Rightarrow> True | _ \<Rightarrow> False) heap)"

lemma hints_push_real:
  "hints (heap_push \<lparr>sh_index_ts = IndexTs_Real t, sh_decoder_idx = i\<rparr> heap) = hints heap"
  by (induction heap) (auto simp: hints_def heap_push_def)

text \<open>
  What the merge relies on of an inner decoder: \<open>delivers d xs\<close> says that the decoder in state
  \<open>d\<close> returns the records \<open>xs\<close> and then nothing, and that its last record stays available.
\<close>

locale record_stream =
  fixes D :: "('d, 's) decoder_ops" and delivers :: "'s \<Rightarrow> bytes list \<Rightarrow> bool"
  assumes deliver_Cons: "delivers d (x # xs) \<Longrightarrow>
      \<exists>d' ref. decode_record_ref D d = Some (Ok (d', Ok (Some ref))) \<and> last_rec D d' = Some ref \<and>
        rr_as_ref ref = x \<and> rr_raw_index_ts ref = Ok (index_of x) \<and> delivers d' xs"
    and deliver_Nil: "delivers d [] \<Longrightarrow> \<exists>d'. decode_record_ref D d = Some (Ok (d', Ok None))"
begin

text \<open>The head of a stream in the heap, and what it says of the records \<open>s\<close> that are left.\<close>

definition entry :: "StreamHead list \<Rightarrow> nat \<Rightarrow> IndexTs option" where
  "entry heap = map_of (map (\<lambda>h. (sh_decoder_idx h, sh_index_ts h)) heap)"

primrec waits :: "'s \<Rightarrow> bytes list \<Rightarrow> IndexTs \<Rightarrow> bool" where
  "waits d s (IndexTs_Real t) \<longleftrightarrow> (\<exists>x xs ref. s = x # xs \<and> t = index_of x \<and>
     last_rec D d = Some ref \<and> rr_as_ref ref = x \<and> rr_raw_index_ts ref = Ok t \<and> delivers d xs)"
| "waits d s (IndexTs_Hint t) \<longleftrightarrow> delivers d s \<and> (s \<noteq> [] \<longrightarrow> t \<le> index_of (hd s))"

definition accounts :: "'s \<Rightarrow> bytes list \<Rightarrow> IndexTs option \<Rightarrow> bool" where
  "accounts d s e \<longleftrightarrow> (case e of None \<Rightarrow> s = [] | Some e \<Rightarrow> waits d s e)"

lemma accounts_simps [simp]:
  "accounts d s None \<longleftrightarrow> s = []" "accounts d s (Some e) \<longleftrightarrow> waits d s e"
  by (simp_all add: accounts_def)

definition holds :: "'s MergeRecordDecoder \<Rightarrow> bytes list list \<Rightarrow> bool" where
  "holds m S \<longleftrightarrow> length (decoders m) = length S \<and> sorted (map head_key (min_heap m)) \<and>
     distinct (map sh_decoder_idx (min_heap m)) \<and> (\<forall>h \<in> set (min_heap m). sh_decoder_idx h < length S) \<and>
     (\<forall>i < length S. accounts (decoders m ! i) (S ! i) (entry (min_heap m) i))"

text \<open>The state between two calls: the record returned last is still at the top of the heap.\<close>

definition ready :: "'s MergeRecordDecoder \<Rightarrow> bytes list list \<Rightarrow> bool" where
  "ready m S \<longleftrightarrow>
     (if is_first m then holds m S
      else case min_heap m of
        [] \<Rightarrow> holds m S
      | h # _ \<Rightarrow> (\<exists>x. holds m (S[sh_decoder_idx h := x # S ! sh_decoder_idx h]) \<and>
                   (\<exists>t. sh_index_ts h = IndexTs_Real t)) \<and> sh_decoder_idx h < length S)"

lemma entry_None: "entry heap i = None \<longleftrightarrow> i \<notin> sh_decoder_idx ` set heap"
  by (auto simp: entry_def map_of_eq_None_iff image_image)

lemma entry_Some_mem: "entry heap i = Some e \<Longrightarrow> \<exists>h \<in> set heap. sh_decoder_idx h = i \<and> sh_index_ts h = e"
  by (auto simp: entry_def dest!: map_of_SomeD)

lemma entry_Cons: "entry (h # heap) = (entry heap)(sh_decoder_idx h \<mapsto> sh_index_ts h)"
  by (simp add: entry_def)

lemma entry_push:
  "sh_decoder_idx h \<notin> sh_decoder_idx ` set heap \<Longrightarrow>
   entry (heap_push h heap) = (entry heap)(sh_decoder_idx h \<mapsto> sh_index_ts h)"
proof (induction heap)
  case (Cons g heap)
  then show ?case
    by (auto simp: heap_push_def entry_Cons fun_upd_twist)
qed (simp add: heap_push_def entry_def)

lemma heap_push_simps [simp]:
  "set (heap_push h heap) = insert h (set heap)"
  "sorted (map head_key (heap_push h heap)) \<longleftrightarrow> sorted (map head_key heap)"
  by (simp_all add: heap_push_def set_insort_key sorted_insort_key)

lemma distinct_push [simp]:
  "distinct (map sh_decoder_idx (heap_push h heap)) \<longleftrightarrow>
   sh_decoder_idx h \<notin> sh_decoder_idx ` set heap \<and> distinct (map sh_decoder_idx heap)"
proof (induction heap)
  case (Cons g heap)
  then show ?case by (auto simp: heap_push_def set_insort_key)
qed (simp add: heap_push_def)

lemma holds_pop:
  assumes "holds m S" and "min_heap m = h # heap"
  shows "holds (m\<lparr>min_heap := heap\<rparr>) (S[sh_decoder_idx h := []])"
    and "waits (decoders m ! sh_decoder_idx h) (S ! sh_decoder_idx h) (sh_index_ts h)"
    and "sh_decoder_idx h < length S" and "sh_decoder_idx h \<notin> sh_decoder_idx ` set heap"
proof -
  show i: "sh_decoder_idx h < length S" "sh_decoder_idx h \<notin> sh_decoder_idx ` set heap"
    using assms by (auto simp: holds_def)
  then show "waits (decoders m ! sh_decoder_idx h) (S ! sh_decoder_idx h) (sh_index_ts h)"
    using assms by (auto simp: holds_def entry_Cons)
  have "accounts (decoders m ! j) (S[sh_decoder_idx h := []] ! j) (entry heap j)" if "j < length S" for j
  proof (cases "j = sh_decoder_idx h")
    case True
    then have "entry heap j = None" using i by (simp add: entry_None)
    then show ?thesis using True i by simp
  next
    case False
    then have "entry (min_heap m) j = entry heap j" using assms(2) by (simp add: entry_Cons)
    then show ?thesis using assms(1) that False by (auto simp: holds_def)
  qed
  then show "holds (m\<lparr>min_heap := heap\<rparr>) (S[sh_decoder_idx h := []])"
    using assms by (simp add: holds_def)
qed

text \<open>The common step of the loops: the decoder advances and its new head is pushed.\<close>

lemma decode_and_push_holds:
  assumes "holds m (S[i := []])" and "i < length S" and "i \<notin> sh_decoder_idx ` set (min_heap m)"
    and "delivers (decoders m ! i) (S ! i)"
  shows "\<exists>m'. decode_and_push D i m = Some (Ok (m', Ok ())) \<and> holds m' S \<and> is_first m' = is_first m \<and>
    (\<exists>d. decoders m' = (decoders m)[i := d]) \<and>
    (min_heap m' = min_heap m \<or>
     (\<exists>t. min_heap m' = heap_push \<lparr>sh_index_ts = IndexTs_Real t, sh_decoder_idx = i\<rparr> (min_heap m)))"
proof -
  have len: "length (decoders m) = length S" using assms(1) by (simp add: holds_def)
  have other: "accounts (decoders m ! j) (S ! j) (entry (min_heap m) j)" if "j < length S" "j \<noteq> i" for j
    using assms(1) that by (simp add: holds_def) (metis nth_list_update_neq)
  have none: "entry (min_heap m) i = None" using assms(3) by (simp add: entry_None)
  have d: "index (decoders m) i = Ok (decoders m ! i)" using assms(2) len by (simp add: index_def)
  show ?thesis
  proof (cases "S ! i")
    case Nil
    then obtain d' where d': "decode_record_ref D (decoders m ! i) = Some (Ok (d', Ok None))"
      using assms(4) deliver_Nil by metis
    define m' where "m' = m\<lparr>decoders := (decoders m)[i := d']\<rparr>"
    have "accounts ((decoders m)[i := d'] ! j) (S ! j) (entry (min_heap m) j)" if "j < length S" for j
      using other [OF that] none Nil by (cases "j = i") simp_all
    then have "holds m' S" using assms(1) by (simp add: holds_def m'_def)
    moreover have "decode_and_push D i m = Some (Ok (m', Ok ()))"
      using d d' by (simp add: decode_and_push_def m'_def Let_def)
    ultimately show ?thesis by (intro exI [of _ m']) (auto simp: m'_def)
  next
    case (Cons x xs)
    then obtain d' ref where d': "decode_record_ref D (decoders m ! i) = Some (Ok (d', Ok (Some ref)))"
      "last_rec D d' = Some ref" "rr_as_ref ref = x" "rr_raw_index_ts ref = Ok (index_of x)" "delivers d' xs"
      using assms(4) deliver_Cons by metis
    define h where "h = \<lparr>sh_index_ts = IndexTs_Real (index_of x), sh_decoder_idx = i\<rparr>"
    define m' where "m' = m\<lparr>decoders := (decoders m)[i := d'], min_heap := heap_push h (min_heap m)\<rparr>"
    have "accounts ((decoders m)[i := d'] ! j) (S ! j) (entry (heap_push h (min_heap m)) j)" if "j < length S" for j
      using other [OF that] d' Cons assms(2,3) len
      by (cases "j = i") (simp_all add: entry_push h_def)
    then have "holds m' S" using assms(1-3) by (auto simp: holds_def m'_def h_def)
    moreover have "decode_and_push D i m = Some (Ok (m', Ok ()))"
      using d d' by (simp add: decode_and_push_def m'_def h_def Let_def)
    ultimately show ?thesis by (intro exI [of _ m']) (auto simp: m'_def h_def)
  qed
qed

lemma next_decoder_idx_holds:
  assumes "holds m S"
  shows "\<exists>m'. holds m' S \<and> is_first m' = is_first m \<and>
    (min_heap m' = [] \<and> next_decoder_idx D m = Some (Ok (m', Ok None)) \<or>
     (\<exists>h heap t. min_heap m' = h # heap \<and> sh_index_ts h = IndexTs_Real t \<and>
        next_decoder_idx D m = Some (Ok (m', Ok (Some (sh_decoder_idx h))))))"
  using assms
proof (induction "hints (min_heap m)" arbitrary: m rule: less_induct)
  case less
  show ?case
  proof (cases "min_heap m")
    case Nil
    then show ?thesis using less.prems by (subst next_decoder_idx.simps) (auto intro!: exI [of _ m])
  next
    case (Cons h heap)
    show ?thesis
    proof (cases "sh_index_ts h")
      case (IndexTs_Real t)
      then show ?thesis using less.prems Cons by (subst next_decoder_idx.simps) (auto intro!: exI [of _ m])
    next
      case (IndexTs_Hint t)
      let ?m = "m\<lparr>min_heap := heap\<rparr>" and ?i = "sh_decoder_idx h"
      note pop = holds_pop [OF less.prems Cons]
      have "delivers (decoders ?m ! ?i) (S ! ?i)" using pop(2) IndexTs_Hint by simp
      then obtain m' where m': "decode_and_push D ?i ?m = Some (Ok (m', Ok ()))" "holds m' S"
        "is_first m' = is_first m" "hints (min_heap m') = hints heap"
        using decode_and_push_holds [OF pop(1,3)] pop(4) by (force simp: hints_push_real)
      then have "hints (min_heap m') < hints (min_heap m)" using Cons IndexTs_Hint by (simp add: hints_def)
      moreover have "next_decoder_idx D m = next_decoder_idx D m'"
        using Cons IndexTs_Hint m'(1) by (subst next_decoder_idx.simps) simp
      ultimately show ?thesis using less.hyps [OF _ m'(2)] m'(3) by simp
    qed
  qed
qed

lemma holds_next_stream:
  assumes "holds m S" and "min_heap m = h # heap" and "sh_index_ts h = IndexTs_Real t"
  shows "next_stream S (sh_decoder_idx h)"
proof -
  note pop = holds_pop [OF assms(1,2)]
  have t: "t = index_of (hd (S ! sh_decoder_idx h))" "S ! sh_decoder_idx h \<noteq> []"
    using pop(2) assms(3) by auto
  have "head_key h \<le> (index_of (hd (S ! j)), j)" if j: "j < length S" "S ! j \<noteq> []" for j
  proof -
    obtain e where e: "entry (min_heap m) j = Some e" "waits (decoders m ! j) (S ! j) e"
      using assms(1) j by (cases "entry (min_heap m) j") (auto simp: holds_def)
    then obtain g where g: "g \<in> set (min_heap m)" "sh_decoder_idx g = j" "sh_index_ts g = e"
      using entry_Some_mem by blast
    have "head_key h \<le> head_key g" using assms(1,2) g(1) by (auto simp: holds_def)
    also have "\<dots> \<le> (index_of (hd (S ! j)), j)"
      using e(2) g j(2) by (cases e) (auto simp: head_key_def)
    finally show ?thesis .
  qed
  then show ?thesis using t pop(3) assms(3) by (simp add: next_stream_def head_key_def)
qed

lemma merge_current_holds:
  assumes "holds m S" and "\<not> is_first m"
  shows "(concat S = [] \<and> (\<exists>m'. merge_current D m = Some (Ok (m', Ok None)) \<and> ready m' S)) \<or>
    (\<exists>i m' ref. next_stream S i \<and> merge_current D m = Some (Ok (m', Ok (Some ref))) \<and>
       merge_last_record D m' = Ok (Some ref) \<and> rr_as_ref ref = hd (S ! i) \<and>
       rr_raw_index_ts ref = Ok (index_of (hd (S ! i))) \<and> ready m' (S[i := tl (S ! i)]))"
proof -
  obtain m' where m': "holds m' S" "is_first m' = is_first m"
    "min_heap m' = [] \<and> next_decoder_idx D m = Some (Ok (m', Ok None)) \<or>
     (\<exists>h heap t. min_heap m' = h # heap \<and> sh_index_ts h = IndexTs_Real t \<and>
        next_decoder_idx D m = Some (Ok (m', Ok (Some (sh_decoder_idx h)))))"
    using next_decoder_idx_holds [OF assms(1)] by blast
  from m'(3) show ?thesis
  proof (elim disjE conjE exE)
    assume empty: "min_heap m' = []" "next_decoder_idx D m = Some (Ok (m', Ok None))"
    then have "concat S = []" using m'(1) by (auto simp: holds_def entry_def in_set_conv_nth)
    then show ?thesis
      using empty m' assms(2) by (intro disjI1 conjI exI [of _ m']) (auto simp: merge_current_def ready_def)
  next
    fix h heap t
    assume top: "min_heap m' = h # heap" "sh_index_ts h = IndexTs_Real t"
      "next_decoder_idx D m = Some (Ok (m', Ok (Some (sh_decoder_idx h))))"
    let ?i = "sh_decoder_idx h"
    note pop = holds_pop [OF m'(1) top(1)]
    obtain x xs ref where x: "S ! ?i = x # xs" "last_rec D (decoders m' ! ?i) = Some ref" "rr_as_ref ref = x"
      "rr_raw_index_ts ref = Ok (index_of x)"
      using pop(2) top(2) by auto
    have "(S[?i := tl (S ! ?i)])[?i := x # (S[?i := tl (S ! ?i)]) ! ?i] = S"
      using x(1) pop(3) by (metis list.sel(3) list_update_id list_update_overwrite nth_list_update_eq)
    then have "ready m' (S[?i := tl (S ! ?i)])"
      using m' assms(2) top pop(3) unfolding ready_def by (auto intro!: exI [of _ x])
    moreover have "merge_current D m = Some (Ok (m', Ok (Some ref)))" "merge_last_record D m' = Ok (Some ref)"
      using top x m'(1) pop(3)
      by (simp_all add: merge_current_def merge_last_record_def peek_decoder_idx_def index_def holds_def)
    ultimately show ?thesis
      using holds_next_stream [OF m'(1) top(1,2)] x by (intro disjI2 exI [of _ ?i] exI [of _ m']) auto
  qed
qed

lemma merge_decode_ready:
  assumes "ready m S"
  shows "(concat S = [] \<and> (\<exists>m'. merge_decode_record_ref D m = Some (Ok (m', Ok None)) \<and> ready m' S)) \<or>
    (\<exists>i m' ref. next_stream S i \<and> merge_decode_record_ref D m = Some (Ok (m', Ok (Some ref))) \<and>
       merge_last_record D m' = Ok (Some ref) \<and> rr_as_ref ref = hd (S ! i) \<and>
       rr_raw_index_ts ref = Ok (index_of (hd (S ! i))) \<and> ready m' (S[i := tl (S ! i)]))"
proof (cases "is_first m")
  case True
  let ?m = "m\<lparr>is_first := False\<rparr>"
  have "holds ?m S" using assms True by (simp add: ready_def holds_def)
  then show ?thesis
    using merge_current_holds [of ?m S] True by (simp add: merge_decode_record_ref_def)
next
  case False
  show ?thesis
  proof (cases "min_heap m")
    case Nil
    then have "concat S = []" using assms False by (auto simp: ready_def holds_def entry_def in_set_conv_nth)
    then show ?thesis using Nil assms False by (simp add: merge_decode_record_ref_def)
  next
    case (Cons h heap)
    let ?m = "m\<lparr>min_heap := heap\<rparr>" and ?i = "sh_decoder_idx h"
    obtain x t where h: "holds m (S[?i := x # S ! ?i])" "sh_index_ts h = IndexTs_Real t" "?i < length S"
      using assms False Cons by (auto simp: ready_def)
    note pop = holds_pop [OF h(1) Cons]
    have "delivers (decoders ?m ! ?i) (S ! ?i)" using pop(2) h(2,3) by auto
    then obtain m' where m': "decode_and_push D ?i ?m = Some (Ok (m', Ok ()))" "holds m' S" "is_first m' = is_first m"
      using decode_and_push_holds [of ?m S ?i] pop(1,4) h(3) by auto
    then show ?thesis
      using merge_current_holds [of m' S] False Cons by (simp add: merge_decode_record_ref_def)
  qed
qed

text \<open>The two constructors.\<close>

lemma merge_with_hints_ready:
  assumes "list_all2 delivers ds S" and "ds \<noteq> []" and "length hs = length ds"
    and "\<And>i. i < length ds \<Longrightarrow> S ! i \<noteq> [] \<Longrightarrow> hs ! i \<le> index_of (hd (S ! i))"
  shows "\<exists>m. merge_with_hints ds hs = Ok m \<and> ready m S"
proof -
  define heap where "heap n = fold heap_push (map (\<lambda>(decoder_idx, hint).
    \<lparr>sh_index_ts = IndexTs_Hint hint, sh_decoder_idx = decoder_idx\<rparr>) (enumerate 0 (take n hs))) []" for n
  have step: "heap (Suc n) = heap_push \<lparr>sh_index_ts = IndexTs_Hint (hs ! n), sh_decoder_idx = n\<rparr> (heap n)"
    if "n < length hs" for n
    using that by (simp add: heap_def take_Suc_conv_app_nth enumerate_append_eq)
  have inv: "n \<le> length hs \<Longrightarrow> sorted (map head_key (heap n)) \<and> distinct (map sh_decoder_idx (heap n)) \<and>
      sh_decoder_idx ` set (heap n) = {..<n} \<and>
      entry (heap n) = (\<lambda>i. if i < n then Some (IndexTs_Hint (hs ! i)) else None)" for n
  proof (induction n)
    case 0
    then show ?case by (simp add: heap_def entry_def)
  next
    case (Suc n)
    then show ?case by (auto simp: step entry_push lessThan_Suc fun_eq_iff less_Suc_eq)
  qed
  define m where "m = \<lparr>decoders = ds, min_heap = heap (length hs), is_first = True\<rparr>"
  have "length S = length ds" using assms(1) by (simp add: list_all2_lengthD)
  then have "holds m S"
    using inv [of "length hs"] assms by (auto simp: holds_def m_def list_all2_nthD)
  then show ?thesis
    using assms(2,3) by (simp add: merge_with_hints_def m_def heap_def ready_def)
qed

lemma populate_holds:
  assumes "holds m (take n S @ replicate k [])" and "length S = n + k" and "list_all2 delivers (drop n (decoders m)) (drop n S)"
    and "\<forall>h \<in> set (min_heap m). sh_decoder_idx h < n"
  shows "\<exists>m'. populate D [n..<n + k] m = Some (Ok m') \<and> holds m' S \<and> is_first m' = is_first m"
  using assms
proof (induction k arbitrary: n m)
  case 0
  then show ?case by simp
next
  case (Suc k)
  let ?S = "take (Suc n) S @ replicate k []"
  have len: "length (decoders m) = length S" using Suc.prems(1,2) by (simp add: holds_def)
  have "?S[n := []] = take n S @ replicate (Suc k) []"
    using Suc.prems(2) by (simp add: take_Suc_conv_app_nth list_update_append)
  then have "holds m (?S[n := []])" using Suc.prems(1) by simp
  moreover have "delivers (decoders m ! n) (?S ! n)"
    using list_all2_nthD2 [OF Suc.prems(3), of 0] Suc.prems(2) len by (simp add: nth_append)
  moreover have "n < length ?S" "n \<notin> sh_decoder_idx ` set (min_heap m)" using Suc.prems(2,4) by auto
  ultimately obtain m' d where m': "decode_and_push D n m = Some (Ok (m', Ok ()))" "holds m' ?S"
    "is_first m' = is_first m" "decoders m' = (decoders m)[n := d]" "min_heap m' = min_heap m \<or>
     (\<exists>t. min_heap m' = heap_push \<lparr>sh_index_ts = IndexTs_Real t, sh_decoder_idx = n\<rparr> (min_heap m))"
    using decode_and_push_holds [of m ?S n] by blast
  have "list_all2 delivers (drop 1 (drop n (decoders m))) (drop 1 (drop n S))"
    using Suc.prems(3) by (rule list_all2_dropI)
  then have "list_all2 delivers (drop (Suc n) (decoders m')) (drop (Suc n) S)"
    using m'(4) by simp
  moreover have "\<forall>h \<in> set (min_heap m'). sh_decoder_idx h < Suc n" using m'(5) Suc.prems(4) by (auto simp: less_Suc_eq)
  ultimately obtain m'' where "populate D [Suc n..<Suc n + k] m' = Some (Ok m'')" "holds m'' S"
    "is_first m'' = is_first m'"
    using Suc.IH [OF m'(2)] Suc.prems(2) by auto
  moreover have "[n..<n + Suc k] = n # [Suc n..<Suc n + k]" by (simp add: upt_rec)
  ultimately show ?case using m'(1,3) by simp
qed

lemma merge_new_ready:
  assumes "list_all2 delivers ds S" and "ds \<noteq> []"
  shows "\<exists>m. merge_new D ds = Some (Ok m) \<and> ready m S"
proof -
  let ?m = "\<lparr>decoders = ds, min_heap = [], is_first = True\<rparr>"
  have len: "length S = length ds" using assms(1) by (simp add: list_all2_lengthD)
  then have "holds ?m (take 0 S @ replicate (length ds) [])" by (simp add: holds_def entry_def)
  then show ?thesis
    using populate_holds [of ?m 0 S "length ds"] assms len by (auto simp: merge_new_def ready_def)
qed

text \<open>Decoding to the end.\<close>

lemma merge_decode_all:
  assumes "ready m S"
  shows "\<exists>refs. decode_records (merge_decode_record_ref D) m out = Some (Ok (out @ refs)) \<and> merges S (map rr_as_ref refs)"
  using assms
proof (induction "length (concat S)" arbitrary: m S out rule: less_induct)
  case less
  from merge_decode_ready [OF less.prems] show ?case
  proof (elim disjE conjE exE)
    fix m'
    assume "concat S = []" "merge_decode_record_ref D m = Some (Ok (m', Ok None))"
    then show ?thesis by (subst decode_records.simps) (auto intro: merges_Nil)
  next
    fix i m' ref
    assume step: "next_stream S i" "merge_decode_record_ref D m = Some (Ok (m', Ok (Some ref)))"
      "rr_as_ref ref = hd (S ! i)" "ready m' (S[i := tl (S ! i)])"
    have i: "i < length S" "S ! i \<noteq> []" using step(1) by (simp_all add: next_stream_def)
    have "length (concat (S[i := tl (S ! i)])) < length (concat S)"
      using i concat_split [OF i(1)] concat_update [OF i(1), of "tl (S ! i)"] by (cases "S ! i") auto
    then obtain refs where "decode_records (merge_decode_record_ref D) m' (out @ [ref]) = Some (Ok ((out @ [ref]) @ refs))"
      "merges (S[i := tl (S ! i)]) (map rr_as_ref refs)"
      using less.hyps [OF _ step(4)] by blast
    then show ?thesis
      using step merges_Cons [OF step(1)] by (subst decode_records.simps) (auto intro!: exI [of _ "ref # refs"])
  qed
qed

end

section \<open>Merging blocking decoders\<close>

lemma handle_append:
  "dbn_record T \<Longrightarrow> whole_record bs \<Longrightarrow> handle T g (bs @ ys) = handle T g bs"
  by (simp add: handle_def rr_get_append)

lemmas all_records =
  mbo_record.dbn_record_axioms trade_record.dbn_record_axioms mbp1_record.dbn_record_axioms
  mbp10_record.dbn_record_axioms bbo_record.dbn_record_axioms cmbp1_record.dbn_record_axioms
  cbbo_record.dbn_record_axioms ohlcv_record.dbn_record_axioms status_record.dbn_record_axioms
  imb_record.dbn_record_axioms err1_record.dbn_record_axioms stat1_record.dbn_record_axioms
  sm1_record.dbn_record_axioms sys1_record.dbn_record_axioms err2_record.dbn_record_axioms
  stat3_record.dbn_record_axioms sm2_record.dbn_record_axioms sys2_record.dbn_record_axioms
  def1_record.dbn_record_axioms def2_record.dbn_record_axioms def3_record.dbn_record_axioms

lemma rr_raw_index_ts_append:
  assumes "whole_record bs"
  shows "rr_raw_index_ts (bs @ ys) = rr_raw_index_ts bs"
proof -
  have "rr_header (bs @ ys) = rr_header bs" "rr_record_size (bs @ ys) = rr_record_size bs"
    using assms by (simp_all add: whole_record_def rr_header_append rr_record_size_append)
  then have "rtype_dispatch_base (bs @ ys) = rtype_dispatch_base bs" "rh_ts_event (rr_header (bs @ ys)) = rh_ts_event (rr_header bs)"
    by (simp_all add: rtype_dispatch_base_def rr_rtype_def)
  moreover have "kind_raw_index_ts k (bs @ ys) = kind_raw_index_ts k bs" for k
    by (cases k) (simp_all add: handle_append assms all_records)
  ultimately show ?thesis by (simp add: rr_raw_index_ts_def split: option.split)
qed

text \<open>\<open>indexed v\<close>: the record is as long as its type asks for, so that its timestamp can be read.\<close>

definition indexed :: "bytes \<Rightarrow> bool" where
  "indexed v \<longleftrightarrow> whole_record v \<and> is_ok (rr_raw_index_ts v)"

lemma indexed_ref: "indexed v \<Longrightarrow> rr_as_ref ref = v \<Longrightarrow> rr_raw_index_ts ref = Ok (index_of v)"
  using rr_raw_index_ts_append [of v "drop (rr_record_size ref) ref"]
  by (cases "rr_raw_index_ts v") (auto simp: indexed_def index_of_def rr_as_ref_def)

text \<open>\<open>decoder_delivers B pending d vs\<close>: the records left in the decoder's stream are returned as \<open>vs\<close>.\<close>

definition decoder_delivers :: "'b buf_ops \<Rightarrow> ('r \<Rightarrow> bytes) \<Rightarrow> ('d, 'r, 'b) Decoder \<Rightarrow> bytes list \<Rightarrow> bool" where
  "decoder_delivers B pending d vs \<longleftrightarrow> dec_inv B (dec_decoder d) \<and> list_all indexed vs \<and>
     (\<exists>policy m ws. dec_abs B pending (dec_decoder d) = after_metadata policy (m :: 'd Metadata) (concat ws) \<and>
        list_all2 (upgrades policy m) ws vs)"

lemma decode_ref_last:
  fixes d d' :: "('r, 'b) RecordDecoder" and C :: "'d date_ops"
  assumes "decode_ref C B R d = Some (Ok (d', Ok (Some ref)))"
  shows "last_record B (rd_fsm d') = Some ref"
proof -
  define P where "P = (\<lambda>(_ :: 'd date_ops) B (_ :: 'r reader) (_ :: ('r, 'b) RecordDecoder) (x :: (('r, 'b) RecordDecoder \<times> bytes option result) result).
    \<forall>d' ref. x = Ok (d', Ok (Some ref)) \<longrightarrow> last_record B (rd_fsm d') = Some ref)"
  have "P C B R d (Ok (d', Ok (Some ref)))"
  proof (rule decode_ref.raw_induct [where P = P, OF _ assms], goal_cases)
    case (1 f C B R d x)
    show ?case
      using 1(2) 1(1) unfolding P_def
      by (auto split: option.splits result.splits prod.splits ProcessResult.splits sum.splits if_splits io_error_kind.splits)
  qed
  then show ?thesis by (simp add: P_def)
qed

sublocale stream_reading \<subseteq> record_stream "sync_ops C B R" "decoder_delivers B pending"
proof
  fix d :: "('d, 'r, 'b) Decoder" and x xs
  assume deliver: "decoder_delivers B pending d (x # xs)"
  then obtain policy m us where us: "dec_inv B (dec_decoder d)" "indexed x" "list_all indexed xs"
    "dec_abs B pending (dec_decoder d) = after_metadata policy (m :: 'd Metadata) (concat us)"
    "list_all2 (upgrades policy m) us (x # xs)"
    by (auto simp: decoder_delivers_def)
  then obtain w ws where "us = w # ws" "upgrades policy m w x" and ws: "list_all2 (upgrades policy m) ws xs"
    by (auto simp: list_all2_Cons2)
  with us have d: "dec_abs B pending (dec_decoder d) = after_metadata policy m (w @ concat ws)" "upgrades policy m w x"
    by simp_all
  obtain d' ref where d': "decode_ref C B R (dec_decoder d) = Some (Ok (d', Ok (Some ref)))" "dec_inv B d'"
    "dec_abs B pending d' = after_metadata policy m (concat ws)" "rr_as_ref ref = x"
    using decode_ref_upgrades [OF us(1) d] by metis
  then show "\<exists>d' ref. decode_record_ref (sync_ops C B R) d = Some (Ok (d', Ok (Some ref))) \<and>
      last_rec (sync_ops C B R) d' = Some ref \<and> rr_as_ref ref = x \<and> rr_raw_index_ts ref = Ok (index_of x) \<and>
      decoder_delivers B pending d' xs"
    using us(3) ws indexed_ref [OF us(2) d'(4)] decode_ref_last [OF d'(1)]
    by (auto simp: sync_ops_def decoder_decode_record_ref_def decoder_last_record_def decoder_delivers_def
        intro!: exI [of _ "d\<lparr>dec_decoder := d'\<rparr>"])
next
  fix d :: "('d, 'r, 'b) Decoder"
  assume "decoder_delivers B pending d []"
  then obtain policy m where "dec_inv B (dec_decoder d)"
    "dec_abs B pending (dec_decoder d) = after_metadata policy (m :: 'd Metadata) []"
    by (auto simp: decoder_delivers_def)
  then obtain d' where "decode_ref C B R (dec_decoder d) = Some (Ok (d', Ok None))"
    using decode_ref_end by metis
  then show "\<exists>d'. decode_record_ref (sync_ops C B R) d = Some (Ok (d', Ok None))"
    by (simp add: sync_ops_def decoder_decode_record_ref_def)
qed

subsection \<open>Calls that always return\<close>

text \<open>The laws of a decoder that returns from every state of a kind, with a value, an error or a panic.\<close>

locale returning_decoder =
  fixes D :: "('d, 's) decoder_ops" and live :: "'s \<Rightarrow> bool"
  assumes returns: "live d \<Longrightarrow> \<exists>res. decode_record_ref D d = Some res"
    and stays_live: "live d \<Longrightarrow> decode_record_ref D d = Some (Ok (d', found)) \<Longrightarrow> live d'"
begin

lemma decode_and_push_live:
  assumes "\<forall>d \<in> set (decoders m). live d"
  shows "\<exists>res. decode_and_push D i m = Some res \<and> (\<forall>m' r. res = Ok (m', r) \<longrightarrow>
    (\<forall>d \<in> set (decoders m'). live d) \<and>
    (min_heap m' = min_heap m \<or>
     (\<exists>t. min_heap m' = heap_push \<lparr>sh_index_ts = IndexTs_Real t, sh_decoder_idx = i\<rparr> (min_heap m))))"
proof (cases "i < length (decoders m)")
  case True
  then have d: "index (decoders m) i = Ok (decoders m ! i)" "live (decoders m ! i)"
    using assms by (simp_all add: index_def)
  obtain res where res: "decode_record_ref D (decoders m ! i) = Some res" using returns [OF d(2)] by blast
  have live: "\<forall>d \<in> set ((decoders m)[i := d']). live d" if "res = Ok (d', found)" for d' found
    using assms stays_live [OF d(2)] res that by (auto dest!: set_update_subset_insert [THEN subsetD])
  show ?thesis
  proof (cases res)
    case (Ok p)
    then obtain d' found where "res = Ok (d', found)" by (cases p) simp
    then show ?thesis
      using d res live by (cases found) (auto simp: decode_and_push_def and_then_eq_Ok Let_def split: option.splits)
  qed (use d res in \<open>simp_all add: decode_and_push_def\<close>)
next
  case False
  then show ?thesis by (simp add: decode_and_push_def index_def)
qed

text \<open>However many hints are left, the loop over them ends.\<close>

lemma next_decoder_idx_returns:
  assumes "\<forall>d \<in> set (decoders m). live d"
  shows "\<exists>res. next_decoder_idx D m = Some res \<and> (\<forall>m' r. res = Ok (m', r) \<longrightarrow> (\<forall>d \<in> set (decoders m'). live d))"
  using assms
proof (induction "hints (min_heap m)" arbitrary: m rule: less_induct)
  case less
  show ?case
  proof (cases "\<exists>h heap t. min_heap m = h # heap \<and> sh_index_ts h = IndexTs_Hint t")
    case False
    then show ?thesis
      using less.prems by (subst next_decoder_idx.simps) (auto split: list.split IndexTs.split)
  next
    case True
    then obtain h heap t where h: "min_heap m = h # heap" "sh_index_ts h = IndexTs_Hint t" by blast
    let ?m = "m\<lparr>min_heap := heap\<rparr>"
    have live: "\<forall>d \<in> set (decoders ?m). live d" using less.prems by simp
    obtain res where res: "decode_and_push D (sh_decoder_idx h) ?m = Some res"
      "\<And>m' r. res = Ok (m', r) \<Longrightarrow> (\<forall>d \<in> set (decoders m'). live d)"
      "\<And>m' r. res = Ok (m', r) \<Longrightarrow> hints (min_heap m') = hints heap"
      using decode_and_push_live [OF live, of "sh_decoder_idx h"] by (fastforce simp: hints_push_real)
    have less: "hints heap < hints (min_heap m)" using h by (simp add: hints_def)
    show ?thesis
    proof (cases "\<exists>m' u. res = Ok (m', Ok u)")
      case True
      then obtain m' u where m': "res = Ok (m', Ok u)" by blast
      then have "next_decoder_idx D m = next_decoder_idx D m'"
        using h res(1) by (subst next_decoder_idx.simps) simp
      then show ?thesis using less.hyps [of m'] res(2,3) [OF m'] less by simp
    next
      case False
      then show ?thesis
        using h res(1,2) by (subst next_decoder_idx.simps) (auto split: result.split)
    qed
  qed
qed

lemma merge_current_returns:
  assumes "\<forall>d \<in> set (decoders m). live d"
  shows "\<exists>res. merge_current D m = Some res \<and> (\<forall>m' r. res = Ok (m', r) \<longrightarrow> (\<forall>d \<in> set (decoders m'). live d))"
proof -
  obtain res where res: "next_decoder_idx D m = Some res" "\<And>m' r. res = Ok (m', r) \<Longrightarrow> (\<forall>d \<in> set (decoders m'). live d)"
    using next_decoder_idx_returns [OF assms] by blast
  show ?thesis
  proof (cases res)
    case (Ok p)
    then obtain m' idx where m': "res = Ok (m', idx)" by (cases p) simp
    then show ?thesis
      using res(1) res(2) [OF m'] by (cases idx) (auto simp: merge_current_def and_then_eq_Ok split: option.splits)
  qed (use res(1) in \<open>simp_all add: merge_current_def\<close>)
qed

lemma merge_decode_returns:
  assumes "\<forall>d \<in> set (decoders m). live d"
  shows "\<exists>res. merge_decode_record_ref D m = Some res \<and> (\<forall>m' r. res = Ok (m', r) \<longrightarrow> (\<forall>d \<in> set (decoders m'). live d))"
proof (cases "is_first m \<or> min_heap m = []")
  case True
  then show ?thesis
    using merge_current_returns [of "m\<lparr>is_first := False\<rparr>"] assms by (auto simp: merge_decode_record_ref_def)
next
  case False
  then obtain h heap where h: "min_heap m = h # heap" "\<not> is_first m" by (cases "min_heap m") auto
  let ?m = "m\<lparr>min_heap := heap\<rparr>"
  have live: "\<forall>d \<in> set (decoders ?m). live d" using assms by simp
  obtain res where res: "decode_and_push D (sh_decoder_idx h) ?m = Some res"
    "\<And>m' r. res = Ok (m', r) \<Longrightarrow> (\<forall>d \<in> set (decoders m'). live d)"
    using decode_and_push_live [OF live, of "sh_decoder_idx h"] by fastforce
  show ?thesis
  proof (cases "\<exists>m' u. res = Ok (m', Ok u)")
    case True
    then obtain m' u where m': "res = Ok (m', Ok u)" by blast
    then show ?thesis
      using merge_current_returns [OF res(2) [OF m']] h res(1) by (simp add: merge_decode_record_ref_def)
  next
    case False
    then show ?thesis
      using h res by (auto simp: merge_decode_record_ref_def split: result.split)
  qed
qed

end

sublocale stream_reading \<subseteq> sync_returns: returning_decoder "sync_ops C B R" "\<lambda>d. dec_inv B (dec_decoder d)"
proof
  fix d :: "('d, 'r, 'b) Decoder"
  assume "dec_inv B (dec_decoder d)"
  note nx = decode_ref_refines_next [OF this, of C]
  show "\<exists>res. decode_record_ref (sync_ops C B R) d = Some res"
    using nx by (cases "next_record (dec_abs B pending (dec_decoder d))")
      (auto simp: sync_ops_def decoder_decode_record_ref_def)
  show "dec_inv B (dec_decoder d')" if "decode_record_ref (sync_ops C B R) d = Some (Ok (d', found))" for d' found
    using nx that by (cases "next_record (dec_abs B pending (dec_decoder d))")
      (auto simp: sync_ops_def decoder_decode_record_ref_def)
qed

text \<open>
  \<open>merge_input C R pending policy (r, m, ws, vs)\<close>: a reader over a stream with metadata \<open>m\<close>, whose
  records \<open>ws\<close> are returned as \<open>vs\<close>, in order and none of them before the start in the metadata.
\<close>

definition merge_input ::
  "'d::linorder date_ops \<Rightarrow> 'r reader \<Rightarrow> ('r \<Rightarrow> bytes) \<Rightarrow> VersionUpgradePolicy
   \<Rightarrow> 'r \<times> 'd Metadata \<times> bytes list \<times> bytes list \<Rightarrow> bool" where
  "merge_input C R pending policy = (\<lambda>(r, m, ws, vs).
     streamable C policy m \<and> pending r = metadata_bytes C m @ concat ws \<and>
     (\<exists>r1 piece. read R DEFAULT_BUF_SIZE r = (r1, Inr piece) \<and> 8 \<le> length piece) \<and>
     list_all2 (upgrades policy m) ws vs \<and> list_all indexed vs \<and> sorted (map index_of vs) \<and>
     (\<forall>v \<in> set vs. md_start m \<le> index_of v))"

context stream_reading
begin

lemma merges_as_stream: "record_stream (sync_ops C B R) (decoder_delivers B pending)"
  by unfold_locales

lemma merge_always_returns:
  assumes "\<forall>d \<in> set (decoders m). dec_inv B (dec_decoder d)"
  shows "\<exists>res. merge_decode_record_ref (sync_ops C B R) m = Some res \<and>
    (\<forall>m' r. res = Ok (m', r) \<longrightarrow> (\<forall>d \<in> set (decoders m'). dec_inv B (dec_decoder d)))"
  by (rule sync_returns.merge_decode_returns [OF assms])

lemma open_input:
  assumes "merge_input C R pending policy (r, m, ws, vs)"
  shows "\<exists>d. decoder_with_upgrade_policy C B R r policy = Some (Ok d) \<and>
    dec_metadata d = metadata_upgrade policy m \<and> decoder_delivers B pending d vs"
proof -
  obtain r1 piece where a: "streamable C policy m" "pending r = metadata_bytes C m @ concat ws"
    "read R DEFAULT_BUF_SIZE r = (r1, Inr piece)" "8 \<le> length piece"
    "list_all2 (upgrades policy m) ws vs" "list_all indexed vs"
    using assms by (auto simp: merge_input_def)
  obtain d where "decoder_with_upgrade_policy C B R r policy =
      Some (Ok \<lparr>dec_metadata = metadata_upgrade policy m, dec_decoder = d\<rparr>)"
    "dec_inv B d" "dec_abs B pending d = after_metadata policy m (concat ws)"
    by (rule decoder_decodes_metadata [OF a(1-4)])
  then show ?thesis using a(5,6) by (auto simp: decoder_delivers_def)
qed

lemma open_inputs:
  assumes "list_all (merge_input C R pending policy) xs"
  shows "\<exists>ds. list_all2 (\<lambda>(r, _) d. decoder_with_upgrade_policy C B R r policy = Some (Ok d)) xs ds \<and>
    map dec_metadata ds = map (\<lambda>(_, m, _). metadata_upgrade policy m) xs \<and>
    list_all2 (decoder_delivers B pending) ds (map (\<lambda>(_, _, _, vs). vs) xs)"
  using assms
proof (induction xs)
  case (Cons x xs)
  obtain r m ws vs where x: "x = (r, m, ws, vs)" by (cases x)
  then obtain d where "decoder_with_upgrade_policy C B R r policy = Some (Ok d)"
    "dec_metadata d = metadata_upgrade policy m" "decoder_delivers B pending d vs"
    using open_input [of policy r m ws vs] Cons.prems by auto
  moreover obtain ds where "list_all2 (\<lambda>(r, _) d. decoder_with_upgrade_policy C B R r policy = Some (Ok d)) xs ds"
    "map dec_metadata ds = map (\<lambda>(_, m, _). metadata_upgrade policy m) xs"
    "list_all2 (decoder_delivers B pending) ds (map (\<lambda>(_, _, _, vs). vs) xs)"
    using Cons by auto
  ultimately show ?case using x by (intro exI [of _ "d # ds"]) simp
qed simp

end

text \<open>The merging decoder adds its metadata to the merge of the records.\<close>

lemma merge_decoder_records:
  fixes D :: "('d, 's) decoder_ops"
  assumes "decode_records (merge_decode_record_ref D) m out = Some x" and "mgd_decoder g = m"
  shows "decode_records (merge_decoder_decode_record_ref D) g out = Some x"
proof -
  define P where "P = (\<lambda>dec m out x. \<forall>g. dec = merge_decode_record_ref D \<longrightarrow> mgd_decoder g = m \<longrightarrow>
    decode_records (merge_decoder_decode_record_ref D) g out = Some x)"
  have "P (merge_decode_record_ref D) m out x"
  proof (rule decode_records.raw_induct [where P = P, OF _ assms(1)], goal_cases)
    case (1 f dec m out x)
    show ?case
      unfolding P_def
    proof (intro allI impI)
      fix g :: "('d, 's) MergeDecoder"
      assume g: "dec = merge_decode_record_ref D" "mgd_decoder g = m"
      show "decode_records (merge_decoder_decode_record_ref D) g out = Some x"
        using 1(2) 1(1) [unfolded P_def] g
        by (subst decode_records.simps)
          (auto simp: merge_decoder_decode_record_ref_def split: option.splits result.splits prod.splits)
    qed
  qed
  then show ?thesis using assms(2) by (simp add: P_def)
qed

subsection \<open>A decoder over a list, and sample records\<close>

text \<open>An inner decoder that returns what it is given, errors included.\<close>

definition listed_ops :: "(gdate, bytes option \<times> bytes result list) decoder_ops" where
  "listed_ops =
     \<lparr>decode_record_ref = (\<lambda>(last, xs). case xs of
          [] \<Rightarrow> Some (Ok ((last, []), Ok None))
        | x # xs \<Rightarrow> Some (case x of
              Ok r \<Rightarrow> Ok ((Some r, xs), Ok (Some r))
            | Err e \<Rightarrow> Ok ((last, xs), Err e)
            | Panic p \<Rightarrow> Panic p)),
      last_rec = fst, dec_md = (\<lambda>_. sample_metadata 3)\<rparr>"

interpretation listed: record_stream listed_ops "\<lambda>d xs. snd d = map Ok xs \<and> list_all (\<lambda>x. indexed x \<and> rr_as_ref x = x) xs"
  by unfold_locales (auto simp: listed_ops_def split_def intro: indexed_ref)

definition mbo_at :: "u64 \<Rightarrow> MboMsg" where
  "mbo_at t = MboMsg_default\<lparr>mbo_ts_recv := t\<rparr>"

lemma mbo_at_ok: "well_formed MboMsg_type (mbo_at t)"
  by (simp add: mbo_at_def well_formed_def MboMsg_type_def MboMsg_default_def)

lemma mbo_at_view [simp]:
  "rr_raw_index_ts (put_MboMsg (mbo_at t)) = Ok t" "index_of (put_MboMsg (mbo_at t)) = t"
  "rr_as_ref (put_MboMsg (mbo_at t)) = put_MboMsg (mbo_at t)" "indexed (put_MboMsg (mbo_at t))"
proof -
  have ref: "as_ref MboMsg_type = put_MboMsg" "raw_index_ts MboMsg_type = mbo_ts_recv" "size_of MboMsg_type = 56"
    by (simp_all add: MboMsg_type_def)
  show t: "rr_raw_index_ts (put_MboMsg (mbo_at t)) = Ok t"
    using raw_index_ts_view [of "RecordEnum_Mbo (mbo_at t)" "[]"] mbo_at_ok [of t] ref by (simp add: mbo_at_def)
  then show "index_of (put_MboMsg (mbo_at t)) = t" by (simp add: index_of_def)
  have "rr_record_size (put_MboMsg (mbo_at t)) = 56" "length (put_MboMsg (mbo_at t)) = 56"
    using mbo_record.well_formed_view(2) [OF mbo_at_ok, of t "[]"] mbo_codec.length_put [of "mbo_at t"] ref by simp_all
  then show "rr_as_ref (put_MboMsg (mbo_at t)) = put_MboMsg (mbo_at t)" "indexed (put_MboMsg (mbo_at t))"
    using t by (simp_all add: rr_as_ref_def indexed_def whole_record_def)
qed

section \<open>Properties\<close>

text \<open>
  C4. The merge sorts: decoders that deliver records in the order of their index timestamps are
  merged to the stable sort of all their records by index timestamp, records with the same
  timestamp in the order of the decoders. Both ways to construct the merge give this, whatever
  the hints, as long as no decoder's hint is later than its first record, and both always end.
\<close>

theorem merge_sorts:
  assumes "record_stream D delivers" and "list_all2 delivers ds S" and "ds \<noteq> []"
    and "\<forall>s \<in> set S. sorted (map index_of s)" and "length hs = length ds"
    and "\<forall>i < length ds. S ! i \<noteq> [] \<longrightarrow> hs ! i \<le> index_of (hd (S ! i))"
  shows "(\<exists>m refs. merge_new D ds = Some (Ok m) \<and> decode_records (merge_decode_record_ref D) m [] = Some (Ok refs) \<and>
      map rr_as_ref refs = sort_key index_of (concat S)) \<and>
    (\<exists>m refs. merge_with_hints ds hs = Ok m \<and> decode_records (merge_decode_record_ref D) m [] = Some (Ok refs) \<and>
      map rr_as_ref refs = sort_key index_of (concat S))"
proof -
  have sorts: "\<exists>refs. decode_records (merge_decode_record_ref D) m [] = Some (Ok refs) \<and>
      map rr_as_ref refs = sort_key index_of (concat S)" if "record_stream.ready D delivers m S" for m
    using record_stream.merge_decode_all [OF assms(1) that, of "[]"] merges_sort [OF _ assms(4)] by auto
  obtain m where "merge_new D ds = Some (Ok m)" "record_stream.ready D delivers m S"
    using record_stream.merge_new_ready [OF assms(1-3)] by blast
  moreover obtain m' where "merge_with_hints ds hs = Ok m'" "record_stream.ready D delivers m' S"
    using record_stream.merge_with_hints_ready [OF assms(1-3,5)] assms(6) by blast
  ultimately show ?thesis using sorts by blast
qed

theorem merge_sorts_witness:
  "\<exists>m refs. merge_with_hints [(None, map Ok [put_MboMsg (mbo_at 3), put_MboMsg (mbo_at 9)]), (None, [Ok (put_MboMsg (mbo_at 5))])] [2, 5] = Ok m \<and>
     decode_records (merge_decode_record_ref listed_ops) m [] = Some (Ok refs) \<and>
     map rr_as_ref refs = [put_MboMsg (mbo_at 3), put_MboMsg (mbo_at 5), put_MboMsg (mbo_at 9)]"
proof -
  let ?S = "[[put_MboMsg (mbo_at 3), put_MboMsg (mbo_at 9)], [put_MboMsg (mbo_at 5)]]"
  have "list_all2 (\<lambda>d xs. snd d = map Ok xs \<and> list_all (\<lambda>x. indexed x \<and> rr_as_ref x = x) xs)
      (map (\<lambda>xs. (None :: bytes option, map Ok xs)) ?S) ?S" by simp
  then show ?thesis
    using merge_sorts [OF listed.record_stream_axioms, of "map (\<lambda>xs. (None, map Ok xs)) ?S" ?S "[2, 5]"]
    by (auto simp: less_Suc_eq nth_Cons')
qed

text \<open>
  C7. Merging streams: decoders opened on several encoded streams, given to the merging decoder,
  have the merge of their metadata and return the records of all streams, each converted by the
  policy, as a stable sort by index timestamp; the start in each metadata serves as the hint.
\<close>

theorem merge_decoder_streams:
  assumes "stream_reading B R pending C" and "list_all (merge_input C R pending policy) (x # xs)"
    and "metadata_merge order (metadata_upgrade policy (fst (snd x)))
      (map (\<lambda>(_, m, _). metadata_upgrade policy m) xs) = Ok md"
  shows "\<exists>ds g refs. list_all2 (\<lambda>(r, _) d. decoder_with_upgrade_policy C B R r policy = Some (Ok d)) (x # xs) ds \<and>
    merge_decoder_new order (sync_ops C B R) ds = Ok g \<and> mgd_metadata g = md \<and>
    decode_records (merge_decoder_decode_record_ref (sync_ops C B R)) g [] = Some (Ok refs) \<and>
    map rr_as_ref refs = sort_key index_of (concat (map (\<lambda>(_, _, _, vs). vs) (x # xs)))"
proof -
  let ?S = "map (\<lambda>(_, _, _, vs). vs) (x # xs)" and ?D = "sync_ops C B R"
  have rs: "record_stream ?D (decoder_delivers B pending)"
    by (rule stream_reading.merges_as_stream [OF assms(1)])
  obtain ds where ds: "list_all2 (\<lambda>(r, _) d. decoder_with_upgrade_policy C B R r policy = Some (Ok d)) (x # xs) ds"
    "map dec_metadata ds = map (\<lambda>(_, m, _). metadata_upgrade policy m) (x # xs)"
    "list_all2 (decoder_delivers B pending) ds ?S"
    using stream_reading.open_inputs [OF assms(1,2)] by blast
  have len: "length ds = length (x # xs)" by (metis ds(1) list_all2_lengthD)
  have hints: "map (\<lambda>d. md_start (dec_metadata d)) ds = map (\<lambda>(_, m, _). md_start m) (x # xs)"
    using arg_cong [OF ds(2), of "map md_start"] by (simp add: comp_def case_prod_beta)
  have bound: "map (\<lambda>d. md_start (dec_metadata d)) ds ! i \<le> index_of (hd (?S ! i))" if "i < length ds" "?S ! i \<noteq> []" for i
  proof -
    have "merge_input C R pending policy ((x # xs) ! i)" using assms(2) that(1) len by (metis list_all_length)
    then show ?thesis
      unfolding hints using that len by (cases "(x # xs) ! i") (auto simp: merge_input_def nth_map simp del: list.map nth_Cons)
  qed
  have "ds \<noteq> []" using len by auto
  then obtain m where m: "merge_with_hints ds (map (\<lambda>d. md_start (dec_metadata d)) ds) = Ok m"
    "record_stream.ready ?D (decoder_delivers B pending) m ?S"
    using record_stream.merge_with_hints_ready [OF rs ds(3) _ length_map bound] by blast
  have sorted: "\<forall>s \<in> set ?S. sorted (map index_of s)"
    using assms(2) by (auto simp: merge_input_def list_all_iff)
  obtain refs where refs: "decode_records (merge_decode_record_ref ?D) m [] = Some (Ok refs)"
    "map rr_as_ref refs = sort_key index_of (concat ?S)"
    using record_stream.merge_decode_all [OF rs m(2), of "[]"] merges_sort [OF _ sorted] by auto
  obtain d ds' where d: "ds = d # ds'" using ds(1) by (auto simp: list_all2_Cons1)
  then have "metadata_merge order (dec_metadata d) (map dec_metadata ds') = Ok md"
    using assms(3) ds(2) by (cases x) auto
  then have "merge_decoder_new order ?D ds = Ok \<lparr>mgd_metadata = md, mgd_decoder = m\<rparr>"
    using m(1) d by (simp add: merge_decoder_new_def sync_ops_def)
  then show ?thesis
    using ds(1) refs merge_decoder_records [OF refs(1), of "\<lparr>mgd_metadata = md, mgd_decoder = m\<rparr>"] by auto
qed

theorem merge_decoder_streams_witness:
  "\<exists>ds g refs. merge_decoder_new sorted_order (sync_ops gregorian list_buffer piece_reader) ds = Ok g \<and>
     decode_records (merge_decoder_decode_record_ref (sync_ops gregorian list_buffer piece_reader)) g [] = Some (Ok refs) \<and>
     map rr_as_ref refs = [put_MboMsg (mbo_at 1704067200000000005), put_MboMsg (mbo_at 1704067200000000009)]"
proof -
  let ?m = "sample_metadata 3" and ?a = "put_MboMsg (mbo_at 1704067200000000009)" and ?b = "put_MboMsg (mbo_at 1704067200000000005)"
  let ?policy = VersionUpgradePolicy_AsIs
  let ?in = "\<lambda>v. (([100, 3], metadata_bytes gregorian ?m @ v), ?m, [v], [v])"
  have "upgrades ?policy ?m (as_ref MboMsg_type (mbo_at t)) (as_ref MboMsg_type (mbo_at t))" for t
    by (rule upgrades_same(1) [OF mbo_record.dbn_record_axioms mbo_at_ok])
      (simp_all add: sample_version DBN_VERSION_def upgrade_for_def is_upgrade_situation_def)
  then have input: "merge_input gregorian piece_reader snd ?policy (?in (put_MboMsg (mbo_at t)))" if "1704067200000000000 \<le> t" for t
    using that sample_streamable(1) sample_piece(1) [OF sample_streamable(1) refl, where sizes = "[3]"]
      sample_piece(2) [OF sample_streamable(1) refl]
    by (auto simp: merge_input_def MboMsg_type_def sample_metadata_simps)
  obtain md where "metadata_merge sorted_order (metadata_upgrade ?policy ?m) [metadata_upgrade ?policy ?m] = Ok md"
    by (simp add: metadata_merge_def merger_merge_def merger_new_def metadata_upgrade_def sample_metadata_simps interval_ordering_def)
  then obtain ds g refs where "merge_decoder_new sorted_order (sync_ops gregorian list_buffer piece_reader) ds = Ok g"
    "decode_records (merge_decoder_decode_record_ref (sync_ops gregorian list_buffer piece_reader)) g [] = Some (Ok refs)"
    "map rr_as_ref refs = sort_key index_of (concat (map (\<lambda>(_, _, _, vs). vs) [?in ?a, ?in ?b]))"
    using merge_decoder_streams [OF list_piece.stream_reading_axioms, of ?policy "?in ?a" "[?in ?b]" sorted_order md] input
    by auto
  moreover have "sort_key index_of (concat (map (\<lambda>(_, _, _, vs). vs) [?in ?a, ?in ?b])) = [?b, ?a]" by simp
  ultimately show ?thesis by metis
qed

text \<open>
  C17. Termination: on blocking decoders in any state they can be in, over streams of arbitrary
  bytes, a call of the merge returns, and leaves all decoders in such states, so that the next
  call returns too. The heap need not be the one that the constructors build.
\<close>

theorem merge_returns:
  assumes "stream_reading B R pending C" and "\<forall>d \<in> set (decoders m). dec_inv B (dec_decoder d)"
  shows "\<exists>res. merge_decode_record_ref (sync_ops C B R) m = Some res \<and>
    (\<forall>m' r. res = Ok (m', r) \<longrightarrow> (\<forall>d \<in> set (decoders m'). dec_inv B (dec_decoder d)))"
  by (rule stream_reading.merge_always_returns [OF assms])

theorem merge_returns_witness:
  "\<exists>d m res. record_decoder_new list_buffer ([5, 1, 9 :: nat], [14, 1, 2] :: bytes) = Ok d \<and>
     merge_with_hints [\<lparr>dec_metadata = sample_metadata 3, dec_decoder = d\<rparr>] [0] = Ok m \<and>
     merge_decode_record_ref (sync_ops gregorian list_buffer piece_reader) m = Some res"
proof -
  obtain d where d: "record_decoder_new list_buffer ([5, 1, 9 :: nat], [14, 1, 2] :: bytes) = Ok d" "dec_inv list_buffer d"
    by (simp add: record_decoder_new_def record_decoder_with_version_def builder_input_dbn_version_def
        dbn_version_try_from_def DBN_VERSION_def builder_skip_metadata_def builder_compat_size_def fsm_builder_def
        builder_ts_out_def builder_upgrade_policy_def fsm_build_def validate_compatibility_def unwrap_def
        dec_inv_def fsm_inv_def roomy_def has_decoded_metadata_def DEFAULT_BUF_SIZE_def)
  let ?m = "\<lparr>decoders = [\<lparr>dec_metadata = sample_metadata 3, dec_decoder = d\<rparr>],
    min_heap = [\<lparr>sh_index_ts = IndexTs_Hint 0, sh_decoder_idx = 0\<rparr>], is_first = True\<rparr>"
  have "merge_with_hints [\<lparr>dec_metadata = sample_metadata 3, dec_decoder = d\<rparr>] [0] = Ok ?m"
    by (simp add: merge_with_hints_def heap_push_def)
  then show ?thesis
    using merge_returns [OF list_piece.stream_reading_axioms, of ?m] d by auto
qed

text \<open>
  C38. An error loses a record: when the first call has read a record of one decoder and then
  meets an error in another, whose hint came first, it returns the error; the next call takes the
  record at the top of the heap for one that it has returned, drops it and goes on with the next.
\<close>

theorem merge_error_drops_record:
  assumes "decode_record_ref D d0 = Some (Ok (d1, Ok (Some a)))" and "rr_raw_index_ts a = Ok s"
    and "decode_record_ref D d1 = Some (Ok (d2, Ok (Some b)))" and "rr_raw_index_ts b = Ok t"
    and "last_rec D d2 = Some b" and "decode_record_ref D e0 = Some (Ok (e1, Err err))"
    and "h0 \<le> h1" and "h1 < s"
  shows "\<exists>m m1 m2. merge_with_hints [d0, e0] [h0, h1] = Ok m \<and>
    merge_decode_record_ref D m = Some (Ok (m1, Err err)) \<and>
    merge_decode_record_ref D m1 = Some (Ok (m2, Ok (Some b)))"
proof -
  let ?real = "\<lambda>t. \<lparr>sh_index_ts = IndexTs_Real t, sh_decoder_idx = 0\<rparr>"
  let ?hint = "\<lambda>h i. \<lparr>sh_index_ts = IndexTs_Hint h, sh_decoder_idx = i\<rparr>"
  let ?m = "\<lparr>decoders = [d0, e0], min_heap = [?hint h0 0, ?hint h1 1], is_first = True\<rparr>"
  let ?m1 = "\<lparr>decoders = [d1, e1], min_heap = [?real s], is_first = False\<rparr>"
  let ?m2 = "\<lparr>decoders = [d2, e1], min_heap = [?real t], is_first = False\<rparr>"
  note heap = heap_push_def head_key_def
  have lt: "\<not> s \<le> h1" "\<not> s < h1" using assms(8) by simp_all
  have "merge_with_hints [d0, e0] [h0, h1] = Ok ?m"
    using assms(7) by (auto simp: merge_with_hints_def heap)
  moreover have "next_decoder_idx D (?m\<lparr>is_first := False\<rparr>) =
      next_decoder_idx D \<lparr>decoders = [d1, e0], min_heap = [?hint h1 1, ?real s], is_first = False\<rparr>"
    using assms(1,2) lt by (subst next_decoder_idx.simps) (simp add: decode_and_push_def index_def heap)
  moreover have "next_decoder_idx D \<lparr>decoders = [d1, e0], min_heap = [?hint h1 1, ?real s], is_first = False\<rparr> =
      Some (Ok (?m1, Err err))"
    using assms(6) by (subst next_decoder_idx.simps) (simp add: decode_and_push_def index_def heap)
  moreover have "merge_decode_record_ref D ?m1 = merge_current D ?m2"
    using assms(3,4) by (simp add: merge_decode_record_ref_def decode_and_push_def index_def heap)
  moreover have "next_decoder_idx D ?m2 = Some (Ok (?m2, Ok (Some 0)))"
    by (subst next_decoder_idx.simps) simp
  ultimately show ?thesis
    using assms(5) by (intro exI [of _ ?m] exI [of _ ?m1] exI [of _ ?m2])
      (simp add: merge_decode_record_ref_def merge_current_def index_def)
qed

theorem merge_error_drops_record_witness:
  "\<exists>m m1 m2 a b. a = put_MboMsg (mbo_at 3) \<and> b = put_MboMsg (mbo_at 9) \<and>
     merge_with_hints [(None, [Ok a, Ok b]), (None, [Err no_decoders])] [1, 2] = Ok m \<and>
     merge_decode_record_ref listed_ops m = Some (Ok (m1, Err no_decoders)) \<and>
     merge_decode_record_ref listed_ops m1 = Some (Ok (m2, Ok (Some b)))"
proof -
  let ?a = "put_MboMsg (mbo_at 3)" and ?b = "put_MboMsg (mbo_at 9)"
  show ?thesis
    using merge_error_drops_record [of listed_ops "(None, [Ok ?a, Ok ?b])" "(Some ?a, [Ok ?b])" ?a 3 "(Some ?b, [])" ?b 9
        "(None, [Err no_decoders])" "(None, [])" no_decoders 1 2]
    by (simp add: listed_ops_def)
qed

end
