(* ===== verification/Unix_Time.thy ===== *)
theory Unix_Time
  imports Gregorian
begin

text \<open>
  Dates and Unix timestamps: what the sources use of \<^verbatim>\<open>time::OffsetDateTime\<close>, as an interface,
  and the Gregorian calendar with days of 86,400 seconds as the instance.
\<close>

section \<open>Interface\<close>

text \<open>The date of a timestamp in nanoseconds since 1970, and the timestamp of midnight of a date.\<close>

record 'd clock_ops =
  to_date :: "int \<Rightarrow> 'd"
  midnight :: "'d \<Rightarrow> int"

locale clock = calendar C for C :: "'d::linorder date_ops" +
  fixes K :: "'d clock_ops"
  assumes midnight_le: "0 \<le> t \<Longrightarrow> t < 2 ^ 64 \<Longrightarrow> midnight K d \<le> t \<longleftrightarrow> d \<le> to_date K t"
    and day_length: "0 \<le> t \<Longrightarrow> t < 2 ^ 64 \<Longrightarrow> t < midnight K (to_date K t) + 86400000000000"
    and since_1970: "0 \<le> t \<Longrightarrow> t < 2 ^ 64 \<Longrightarrow> 1970 \<le> year C (to_date K t)"
begin

lemma less_midnight: "0 \<le> t \<Longrightarrow> t < 2 ^ 64 \<Longrightarrow> t < midnight K d \<longleftrightarrow> to_date K t < d"
  using midnight_le [of t d] by (simp add: not_le [symmetric])

end

context calendar
begin

text \<open>There are finitely many dates, so a walk from day to day reaches every later date.\<close>

lemma finite_dates: "finite (UNIV :: 'd set)"
proof -
  have "range (\<lambda>d. (year C d, month C d, day C d)) \<subseteq> {- 9999..9999} \<times> {1..12} \<times> {1..31}"
    using year_range month_range day_range by auto
  then have "finite (range (\<lambda>d. (year C d, month C d, day C d)))"
    by (rule finite_subset) simp
  moreover have "inj (\<lambda>d. (year C d, month C d, day C d))"
    by (rule injI) (simp add: date_eq_iff)
  ultimately show ?thesis by (rule finite_imageD)
qed

lemma next_day_Some:
  assumes "d < e"
  obtains d' where "next_day C d = Some d'" and "d < d'" and "d' \<le> e" and "\<And>x. x < d' \<longleftrightarrow> x \<le> d"
proof (cases "next_day C d")
  case None
  then show thesis using next_day_last [of d e] assms by simp
next
  case (Some d')
  have "x < d' \<longleftrightarrow> x \<le> d" for x
    using next_day_succ [OF Some] by (meson dual_order.strict_trans1 leD linorder_le_less_linear)
  then show thesis using that Some next_day_succ [OF Some] assms by blast
qed

lemma days_after_less:
  fixes d d' :: 'd
  assumes "d < d'"
  shows "card {d'<..} < card {d<..}"
proof (rule psubset_card_mono)
  show "finite {d<..}" by (rule finite_subset [OF subset_UNIV finite_dates])
  have "{d'<..} \<subseteq> {d<..}" using assms by (simp add: subset_eq less_trans [OF assms])
  moreover have "d' \<in> {d<..} - {d'<..}" using assms by simp
  ultimately show "{d'<..} \<subset> {d<..}" by blast
qed

end

section \<open>Day numbers\<close>

definition year_days :: "int \<Rightarrow> int" where
  "year_days y = 365 * y + (y - 1) div 4 - (y - 1) div 100 + (y - 1) div 400"

definition month_days :: "int \<Rightarrow> int \<Rightarrow> int" where
  "month_days y m = (\<Sum>k \<in> {1..<m}. days_in_month y k)"

text \<open>The number of days from the first of January 1970.\<close>

definition day_number :: "int \<Rightarrow> int" where
  "day_number k = year_days (key_year k) + month_days (key_year k) (key_month k) + key_day k - 719528"

lemma div_pred:
  fixes y n :: int
  assumes "1 < n"
  shows "y div n - (y - 1) div n = (if n dvd y then 1 else 0)"
proof -
  define q where "q = y div n"
  define i where "i = y mod n"
  have y: "y = n * q + i" "0 \<le> i" "i < n" using assms by (simp_all add: q_def i_def)
  have dvd: "n dvd y \<longleftrightarrow> i = 0" by (simp add: dvd_eq_mod_eq_0 i_def)
  show ?thesis
  proof (cases "i = 0")
    case True
    then have "(y - 1) div n = q - 1"
      using y assms by (intro int_div_pos_eq [where r = "n - 1"]) (auto simp: algebra_simps)
    then show ?thesis using True dvd by (simp add: q_def)
  next
    case False
    then have "(y - 1) div n = q"
      using y by (intro int_div_pos_eq [where r = "i - 1"]) auto
    then show ?thesis using False dvd by (simp add: q_def)
  qed
qed

lemma year_days_Suc: "year_days (y + 1) - year_days y = (if is_leap y then 366 else 365)"
proof -
  define P Q R where "P \<longleftrightarrow> 4 dvd y" and "Q \<longleftrightarrow> 100 dvd y" and "R \<longleftrightarrow> 400 dvd y"
  define a b c where "a = y div 4 - (y - 1) div 4" and "b = y div 100 - (y - 1) div 100"
    and "c = y div 400 - (y - 1) div 400"
  have "Q \<longrightarrow> P" "R \<longrightarrow> Q"
    using dvd_trans [of 4 100 y] dvd_trans [of 100 400 y] unfolding P_def Q_def R_def by simp_all
  moreover have "a = (if P then 1 else 0)" "b = (if Q then 1 else 0)" "c = (if R then 1 else 0)"
    unfolding P_def Q_def R_def a_def b_def c_def by (rule div_pred; simp)+
  moreover have "year_days (y + 1) - year_days y = 365 + a - b + c"
    unfolding a_def b_def c_def year_days_def by (simp only: add_diff_cancel_right') (simp only: algebra_simps)
  moreover have "is_leap y \<longleftrightarrow> P \<and> (\<not> Q \<or> R)"
    unfolding is_leap_def P_def Q_def R_def ..
  ultimately show ?thesis by (cases P; cases Q; cases R) (simp_all only:, simp_all)
qed

lemma month_days_Suc: "1 \<le> m \<Longrightarrow> month_days y (m + 1) = month_days y m + days_in_month y m"
proof -
  assume "1 \<le> m"
  then have "{1..<m + 1} = insert m {1..<m}" by auto
  then show ?thesis by (simp add: month_days_def)
qed

lemma month_days_1: "month_days y 1 = 0"
  by (simp add: month_days_def)

lemma month_days_12: "month_days y 12 + 31 = (if is_leap y then 366 else 365)"
  using month_days_Suc [of 1 y] month_days_Suc [of 2 y] month_days_Suc [of 3 y] month_days_Suc [of 4 y]
    month_days_Suc [of 5 y] month_days_Suc [of 6 y] month_days_Suc [of 7 y] month_days_Suc [of 8 y]
    month_days_Suc [of 9 y] month_days_Suc [of 10 y] month_days_Suc [of 11 y] month_days_1 [of y]
  by (simp add: days_in_month_def)

lemma day_number_next:
  assumes "valid_key k" and "next_key k = Some k'"
  shows "day_number k' = day_number k + 1"
proof -
  define y m d where "y = key_year k" and "m = key_month k" and "d = key_day k"
  have v: "1 \<le> m" "m \<le> 12" "1 \<le> d" "d \<le> days_in_month y m"
    using assms(1) by (simp_all add: valid_key_def valid_ymd_def y_def m_def d_def)
  note dim = days_in_month_range [of y m]
  have next_k: "k' = (if d < days_in_month y m then date_key y m (d + 1)
      else if m < 12 then date_key y (m + 1) 1 else date_key (y + 1) 1 1)"
    using assms(2) by (auto simp: next_key_def Let_def y_def m_def d_def split: if_splits)
  have k: "day_number k = year_days y + month_days y m + d - 719528"
    by (simp add: day_number_def y_def m_def d_def)
  have parts: "day_number (date_key y' m' d') = year_days y' + month_days y' m' + d' - 719528"
    if "0 \<le> m'" "m' < 16" "0 \<le> d'" "d' < 32" for y' m' d'
    using key_of_parts [OF that] by (simp add: day_number_def)
  consider "d < days_in_month y m" | "d = days_in_month y m" "m < 12" | "d = days_in_month y m" "m = 12"
    using v by linarith
  then show ?thesis
  proof cases
    case 1
    then show ?thesis using next_k k parts [of m "d + 1" y] v dim by simp
  next
    case 2
    then show ?thesis using next_k k parts [of "m + 1" 1 y] v month_days_Suc [of m y] by simp
  next
    case 3
    then have "d = 31" by (simp add: days_in_month_def)
    then show ?thesis
      using 3 next_k k parts [of 1 1 "y + 1"] v month_days_12 [of y] month_days_1 [of "y + 1"] year_days_Suc [of y]
      by (simp split: if_splits)
  qed
qed

definition day_of :: "gdate \<Rightarrow> int" where
  "day_of g = day_number (Rep_gdate g)"

lemma day_of_next: "next_day gregorian g = Some g' \<Longrightarrow> day_of g' = day_of g + 1"
  using day_number_next [OF Rep_gdate_valid [of g]] next_key_succ [OF Rep_gdate_valid [of g]]
  by (auto simp: gregorian_def day_of_def Abs_gdate_inverse)

lemma day_of_mono: "g < g' \<Longrightarrow> day_of g < day_of g'"
proof (induction "card {g<..}" arbitrary: g rule: less_induct)
  case less
  obtain h where h: "next_day gregorian g = Some h" "g < h" "h \<le> g'"
    using gregorian.next_day_Some [OF less.prems] by metis
  then show ?case
    using less.hyps [OF gregorian.days_after_less [OF h(2)]] day_of_next [OF h(1)] by (cases "h = g'") force+
qed

lemma day_of_le_iff: "day_of g \<le> day_of g' \<longleftrightarrow> g \<le> g'"
  using day_of_mono [of g g'] day_of_mono [of g' g] by (cases g g' rule: linorder_cases) auto

section \<open>The clock\<close>

definition tomorrow :: "gdate \<Rightarrow> gdate" where
  "tomorrow g = (case next_day gregorian g of Some g' \<Rightarrow> g' | None \<Rightarrow> g)"

definition nanos_per_day :: int where
  "nanos_per_day = 86400000000000"

definition unix_clock :: "gdate clock_ops" where
  "unix_clock =
     \<lparr>to_date = (\<lambda>t. (tomorrow ^^ nat (t div nanos_per_day)) (gdate_of 1970 1 1)),
      midnight = (\<lambda>g. nanos_per_day * day_of g)\<rparr>"

lemma day_of_parts: "valid_ymd y m d \<Longrightarrow> day_of (gdate_of y m d) = year_days y + month_days y m + d - 719528"
  using days_in_month_range [of y m] key_of_parts [of m d y]
  by (simp add: day_of_def gdate_of_def Rep_gdate_key day_number_def valid_ymd_def)

lemma day_of_epoch: "day_of (gdate_of 1970 1 1) = 0"
  by (simp add: day_of_parts valid_ymd_def days_in_month_def year_days_def month_days_1)

lemma day_of_tomorrow:
  assumes "day_of g < 2932896"
  shows "day_of (tomorrow g) = day_of g + 1"
proof -
  let ?last = "gdate_of 9999 12 31"
  have "day_of ?last = 2932896"
    using month_days_12 [of 9999] by (simp add: day_of_parts valid_ymd_def days_in_month_def year_days_def is_leap_def)
  then have "g < ?last" using assms day_of_le_iff [of ?last g] by simp
  then obtain g' where "next_day gregorian g = Some g'" using gregorian.next_day_Some by metis
  then show ?thesis using day_of_next by (simp add: tomorrow_def)
qed

lemma day_of_walk: "int n \<le> 2932896 \<Longrightarrow> day_of ((tomorrow ^^ n) (gdate_of 1970 1 1)) = int n"
  by (induction n) (simp_all add: day_of_epoch day_of_tomorrow)

lemma day_of_to_date:
  assumes "0 \<le> t" "t < 2 ^ 64"
  shows "day_of (to_date unix_clock t) = t div nanos_per_day"
proof -
  have "0 \<le> t div nanos_per_day" using assms by (simp add: nanos_per_day_def pos_imp_zdiv_nonneg_iff)
  moreover have "t div nanos_per_day < 2932896" using assms by (simp add: nanos_per_day_def)
  ultimately show ?thesis using day_of_walk [of "nat (t div nanos_per_day)"] by (simp add: unix_clock_def)
qed

lemma year_mono: "g \<le> g' \<Longrightarrow> year gregorian g \<le> year gregorian g'"
  by (simp add: gregorian_def key_year_def less_eq_gdate.rep_eq zdiv_mono1)

interpretation unix: clock gregorian unix_clock
proof
  fix t :: int and d
  assume t: "0 \<le> t" "t < 2 ^ 64"
  note day = day_of_to_date [OF t]
  have "nanos_per_day * day_of d \<le> t \<longleftrightarrow> day_of d \<le> t div nanos_per_day"
    by (simp add: nanos_per_day_def) linarith
  then show "midnight unix_clock d \<le> t \<longleftrightarrow> d \<le> to_date unix_clock t"
    using day_of_le_iff [of d "to_date unix_clock t"] day by (simp add: unix_clock_def)
  have "t < nanos_per_day * (t div nanos_per_day) + nanos_per_day"
    by (simp add: nanos_per_day_def)
  then show "t < midnight unix_clock (to_date unix_clock t) + 86400000000000"
    using day by (simp add: unix_clock_def nanos_per_day_def)
  have "gdate_of 1970 1 1 \<le> to_date unix_clock t"
    using day t by (simp add: day_of_epoch pos_imp_zdiv_nonneg_iff nanos_per_day_def flip: day_of_le_iff)
  then show "1970 \<le> year gregorian (to_date unix_clock t)"
    using year_mono [of "gdate_of 1970 1 1"] gregorian_parts(1) [of 1970 1 1]
    by (simp add: valid_ymd_def days_in_month_def)
qed

end
