(* ===== verification/Decimal.thy ===== *)
theory Decimal
  imports Prelude
begin

text \<open>
  Decimal digits: the value of a digit sequence, which the parsers of the standard library
  compute, and its relation to the rendering \<open>dec_nat\<close>, with and without leading zeros.
\<close>

section \<open>Definitions\<close>

definition is_digit :: "char \<Rightarrow> bool" where
  "is_digit c \<longleftrightarrow> 48 \<le> (of_char c :: nat) \<and> (of_char c :: nat) \<le> 57"

definition dec_value :: "string \<Rightarrow> nat" where
  "dec_value s = foldl (\<lambda>n c. 10 * n + (of_char c - 48)) 0 s"

text \<open>The format \<^verbatim>\<open>{:0>width}\<close>: a text filled with zeros from the left.\<close>

definition zero_fill :: "nat \<Rightarrow> string \<Rightarrow> string" where
  "zero_fill width s = replicate (width - length s) CHR ''0'' @ s"

text \<open>A signed integer, as the \<^verbatim>\<open>itoa\<close> crate and the standard library print it.\<close>

definition dec_int :: "int \<Rightarrow> string" where
  "dec_int i = (if i < 0 then CHR ''-'' # dec_nat (nat (- i)) else dec_nat (nat i))"

section \<open>Lemmas\<close>

lemma dec_value_Nil [simp]: "dec_value [] = 0"
  by (simp add: dec_value_def)

lemma dec_value_snoc [simp]: "dec_value (s @ [c]) = 10 * dec_value s + (of_char c - 48)"
  by (simp add: dec_value_def)

lemma of_char_digit [simp]: "k < 10 \<Longrightarrow> (of_char (char_of (48 + k)) :: nat) = 48 + k"
  by simp

lemma dec_value_dec_nat [simp]: "dec_value (dec_nat n) = n"
proof (induction n rule: dec_nat.induct)
  case (1 n)
  show ?case
  proof (cases "n < 10")
    case True
    then show ?thesis by (subst dec_nat.simps) (simp add: dec_value_def)
  next
    case False
    then show ?thesis using 1 by (subst dec_nat.simps) simp
  qed
qed

lemma is_digit_char_of: "(k :: nat) < 10 \<Longrightarrow> is_digit (char_of (48 + k))"
  by (simp add: is_digit_def)

lemma digits_dec_nat [simp]: "list_all is_digit (dec_nat n)"
proof (induction n rule: dec_nat.induct)
  case (1 n)
  then show ?case by (subst dec_nat.simps) (simp add: is_digit_char_of)
qed

lemma dec_nat_not_Nil [simp]: "dec_nat n \<noteq> []"
  by (subst dec_nat.simps) simp

lemma dec_value_zeros: "dec_value (replicate k CHR ''0'' @ s) = dec_value s"
proof -
  have "foldl (\<lambda>n c. 10 * n + (of_char c - 48)) 0 (replicate k CHR ''0'') = (0 :: nat)"
    by (induction k) simp_all
  then show ?thesis by (simp add: dec_value_def)
qed

lemma dec_value_zero_fill [simp]: "dec_value (zero_fill w s) = dec_value s"
  by (simp add: zero_fill_def dec_value_zeros)

lemma length_zero_fill: "length s \<le> w \<Longrightarrow> length (zero_fill w s) = w"
  by (simp add: zero_fill_def)

lemma digits_zero_fill: "list_all is_digit s \<Longrightarrow> list_all is_digit (zero_fill w s)"
proof -
  have "list_all is_digit (replicate k CHR ''0'')" for k by (induction k) (simp_all add: is_digit_def)
  then show "list_all is_digit s \<Longrightarrow> list_all is_digit (zero_fill w s)" by (simp add: zero_fill_def)
qed

lemma length_dec_nat: "n < 10 ^ k \<Longrightarrow> 0 < k \<Longrightarrow> length (dec_nat n) \<le> k"
proof (induction n arbitrary: k rule: dec_nat.induct)
  case (1 n)
  show ?case
  proof (cases "n < 10")
    case True
    then show ?thesis using 1(3) by (subst dec_nat.simps) simp
  next
    case False
    then obtain j where k: "k = Suc j" "0 < j" using 1(2,3) by (cases k; cases "k - 1") auto
    then have "n div 10 < 10 ^ j" using 1(2) by (simp add: less_mult_imp_div_less mult.commute)
    then show ?thesis using 1(1) [OF False _ k(2)] False k(1) by (subst dec_nat.simps) simp
  qed
qed

text \<open>Every digit sequence of a given length is the zero-filled rendering of its value.\<close>

lemma zero_fill_dec_nat:
  assumes "n < 10 ^ k" and "0 < k"
  shows "length (zero_fill k (dec_nat n)) = k" and "list_all is_digit (zero_fill k (dec_nat n))"
    and "dec_value (zero_fill k (dec_nat n)) = n"
  using assms by (simp_all add: length_zero_fill length_dec_nat digits_zero_fill)

lemma dec_value_append: "dec_value (s @ t) = dec_value s * 10 ^ length t + dec_value t"
proof (induction t rule: rev_induct)
  case (snoc c t)
  then show ?case by (simp add: algebra_simps flip: append_assoc)
qed simp

text \<open>Digit sequences of the same length and value are the same.\<close>

lemma digit_inj: "is_digit c \<Longrightarrow> is_digit d \<Longrightarrow> (of_char c - 48 :: nat) = of_char d - 48 \<Longrightarrow> c = d"
proof -
  assume "is_digit c" "is_digit d" "(of_char c - 48 :: nat) = of_char d - 48"
  then have "(of_char c :: nat) = of_char d" unfolding is_digit_def by linarith
  then show "c = d" by (simp add: of_char_eq_iff)
qed

lemma digits_value_less: "list_all is_digit s \<Longrightarrow> dec_value s < 10 ^ length s"
proof (induction s rule: rev_induct)
  case (snoc c s)
  then have "dec_value s < 10 ^ length s" "of_char c - 48 < (10 :: nat)" by (auto simp: is_digit_def)
  then have "10 * dec_value s + (of_char c - 48) < 10 * 10 ^ length s" by linarith
  then show ?case by simp
qed simp

lemma digits_unique:
  assumes "list_all is_digit s" "list_all is_digit t" "length s = length t" "dec_value s = dec_value t"
  shows "s = t"
  using assms
proof (induction s arbitrary: t rule: rev_induct)
  case (snoc c s)
  then obtain t' d where t: "t = t' @ [d]" by (cases t rule: rev_cases) auto
  have digits: "is_digit c" "is_digit d" using snoc.prems t by auto
  then have less: "of_char c - 48 < (10 :: nat)" "of_char d - 48 < (10 :: nat)" by (auto simp: is_digit_def)
  have eq: "10 * dec_value s + (of_char c - 48) = 10 * dec_value t' + (of_char d - 48)"
    using snoc.prems(4) t by simp
  then have "dec_value s = dec_value t'" "of_char c - 48 = (of_char d - 48 :: nat)" using less by presburger+
  then show ?case using snoc.IH [of t'] snoc.prems t digits digit_inj by auto
qed simp

lemma take_zero_fill:
  assumes "n < 10 ^ (k + j)" and "0 < k"
  shows "zero_fill k (dec_nat (n div 10 ^ j)) = take k (zero_fill (k + j) (dec_nat n))"
proof (rule digits_unique)
  let ?s = "zero_fill (k + j) (dec_nat n)"
  have s: "length ?s = k + j" "list_all is_digit ?s" "dec_value ?s = n"
    using zero_fill_dec_nat [OF assms(1)] assms(2) by simp_all
  have "n div 10 ^ j < 10 ^ k" using assms(1) by (simp add: less_mult_imp_div_less power_add)
  note t = zero_fill_dec_nat [OF this assms(2)]
  show "list_all is_digit (zero_fill k (dec_nat (n div 10 ^ j)))" by (rule t(2))
  have split: "list_all is_digit (take k ?s)" "list_all is_digit (drop k ?s)"
    using s(2) append_take_drop_id [of k ?s] by (metis list_all_append)+
  then show "list_all is_digit (take k ?s)" by simp
  show "length (zero_fill k (dec_nat (n div 10 ^ j))) = length (take k ?s)" using s(1) t(1) by simp
  have "n = dec_value (take k ?s) * 10 ^ j + dec_value (drop k ?s)"
    using dec_value_append [of "take k ?s" "drop k ?s"] s(1,3) by simp
  moreover have "dec_value (drop k ?s) < 10 ^ j" using digits_value_less [OF split(2)] s(1) by simp
  ultimately have "n div 10 ^ j = dec_value (take k ?s)" by (metis div_mult_self3 div_less add.right_neutral add.commute power_not_zero zero_neq_numeral)
  then show "dec_value (zero_fill k (dec_nat (n div 10 ^ j))) = dec_value (take k ?s)" using t(3) by simp
qed

lemma digit_not_dot: "list_all is_digit s \<Longrightarrow> CHR ''.'' \<notin> set s"
  by (induction s) (auto simp: is_digit_def)

lemma digit_not_minus: "list_all is_digit s \<Longrightarrow> CHR ''-'' \<notin> set s"
  by (induction s) (auto simp: is_digit_def)

end
