(* ===== verification/Symbol_Map.thy ===== *)
theory Symbol_Map
  imports Metadata_Merge Unix_Time Decimal Compat Record_Enum "HOL-Library.Mapping"
begin

text \<open>
  The symbol maps of rust/dbn/src/symbol_map.rs: \<^verbatim>\<open>TsSymbolMap\<close>, from a date and an
  instrument to a symbol, and \<^verbatim>\<open>PitSymbolMap\<close>, from an instrument to a symbol, built from
  metadata or kept up to date by the records of a live stream.

  The standard library's hash maps are the mappings of the library. Of the \<^verbatim>\<open>time\<close> crate the
  code uses, besides the calendar of theory \<open>Metadata\<close>, the date of a Unix timestamp in
  nanoseconds and the timestamp of midnight of a date: the parameter \<open>K\<close>, with the interface
  \<open>clock\<close> of theory \<open>Unix_Time\<close>. An insertion that fails leaves the map as it was.
\<close>

section \<open>Definitions\<close>

type_synonym 'd TsSymbolMap = "('d \<times> u32, string) mapping"
type_synonym PitSymbolMap = "(u32, string) mapping"

subsection \<open>Parsing an instrument ID\<close>

text \<open>\<^verbatim>\<open>str::parse::<u32>\<close>: an optional plus sign and decimal digits, without overflow.\<close>

definition parse_u32 :: "string \<Rightarrow> u32 option" where
  "parse_u32 s =
     (let digits = (case s of c # rest \<Rightarrow> if c = CHR ''+'' \<and> rest \<noteq> [] then rest else s | [] \<Rightarrow> []) in
      if digits \<noteq> [] \<and> list_all is_digit digits \<and> dec_value digits < 2 ^ 32
      then Some (of_nat (dec_value digits)) else None)"

definition parse_iid :: "string \<Rightarrow> u32 result" where
  "parse_iid s = (case parse_u32 s of Some iid \<Rightarrow> Ok iid | None \<Rightarrow> Err (Conversion s ''u32''))"

definition is_inverse :: "'d Metadata \<Rightarrow> bool result" where
  "is_inverse metadata =
     (if md_stype_out metadata = SType_InstrumentId then Ok False
      else if md_stype_in metadata = Some SType_InstrumentId then Ok True
      else Err (BadArgument ''metadata'' (''Can only create symbol maps from metadata where either '' @
             ''stype_out or stype_in is instrument ID'')))"

subsection \<open>Timeseries symbol map\<close>

definition ts_new :: "'d TsSymbolMap" where
  "ts_new = Mapping.empty"

definition ts_is_empty :: "'d TsSymbolMap \<Rightarrow> bool" where
  "ts_is_empty m = Mapping.is_empty m"

definition ts_len :: "'d TsSymbolMap \<Rightarrow> nat" where
  "ts_len m = Mapping.size m"

text \<open>The loop over the days of an interval.\<close>

partial_function (option) ts_insert_days ::
  "'d::linorder date_ops \<Rightarrow> u32 \<Rightarrow> 'd \<Rightarrow> 'd \<Rightarrow> string \<Rightarrow> 'd TsSymbolMap \<Rightarrow> 'd TsSymbolMap result option" where
  "ts_insert_days C instrument_id dy until sy m =
     (let m = Mapping.update (dy, instrument_id) sy m in
      case next_day C dy of
        None \<Rightarrow> Some (Panic ''called `Option::unwrap()` on a `None` value'')
      | Some dy \<Rightarrow>
          if until \<le> dy then Some (Ok m)
          else ts_insert_days C instrument_id dy until sy m)"

definition ts_insert ::
  "'d::linorder date_ops \<Rightarrow> u32 \<Rightarrow> 'd \<Rightarrow> 'd \<Rightarrow> string \<Rightarrow> 'd TsSymbolMap \<Rightarrow> 'd TsSymbolMap result option" where
  "ts_insert C instrument_id since until sy m =
     (if since < until then ts_insert_days C instrument_id since until sy m
      else if since = until then Some (Ok m)
      else Some (Err (BadArgument ''start_date'' ''start_date cannot come after end_date'')))"

definition ts_get :: "'d TsSymbolMap \<Rightarrow> 'd \<Rightarrow> u32 \<Rightarrow> string option" where
  "ts_get m date instrument_id = Mapping.lookup m (date, instrument_id)"

text \<open>\<^verbatim>\<open>ts_to_dt\<close> and \<^verbatim>\<open>Record::index_date\<close> of rust/dbn/src/record.\<close>

definition ts_to_date :: "'d clock_ops \<Rightarrow> u64 \<Rightarrow> 'd option" where
  "ts_to_date K ts = (if ts = UNDEF_TIMESTAMP then None else Some (to_date K (uint ts)))"

definition index_date :: "'d clock_ops \<Rightarrow> 't record_type \<Rightarrow> 't \<Rightarrow> 'd option" where
  "index_date K T rec = ts_to_date K (raw_index_ts T rec)"

definition ts_get_for_rec :: "'d clock_ops \<Rightarrow> 't record_type \<Rightarrow> 'd TsSymbolMap \<Rightarrow> 't \<Rightarrow> string option" where
  "ts_get_for_rec K T m rec =
     (case index_date K T rec of
        None \<Rightarrow> None
      | Some date \<Rightarrow> ts_get m date (rh_instrument_id (header T rec)))"

text \<open>A fallible step of a loop that may not end, followed by the rest of the loop.\<close>

definition then_loop :: "'a result option \<Rightarrow> ('a \<Rightarrow> 'b result option) \<Rightarrow> 'b result option" where
  "then_loop x f =
     (case x of
        None \<Rightarrow> None
      | Some (Ok a) \<Rightarrow> f a
      | Some (Err e) \<Rightarrow> Some (Err e)
      | Some (Panic p) \<Rightarrow> Some (Panic p))"

fun ts_inverse_intervals ::
  "'d::linorder date_ops \<Rightarrow> u32 \<Rightarrow> 'd MappingInterval list \<Rightarrow> 'd TsSymbolMap \<Rightarrow> 'd TsSymbolMap result option" where
  "ts_inverse_intervals C iid [] res = Some (Ok res)"
| "ts_inverse_intervals C iid (interval # rest) res =
     (if symbol interval = [] then ts_inverse_intervals C iid rest res
      else then_loop (ts_insert C iid (start_date interval) (end_date interval) (symbol interval) res)
        (ts_inverse_intervals C iid rest))"

fun ts_inverse_mappings ::
  "'d::linorder date_ops \<Rightarrow> 'd SymbolMapping list \<Rightarrow> 'd TsSymbolMap \<Rightarrow> 'd TsSymbolMap result option" where
  "ts_inverse_mappings C [] res = Some (Ok res)"
| "ts_inverse_mappings C (mapping # rest) res =
     then_loop (Some (parse_iid (raw_symbol mapping))) (\<lambda>iid.
       then_loop (ts_inverse_intervals C iid (intervals mapping) res) (ts_inverse_mappings C rest))"

fun ts_direct_intervals ::
  "'d::linorder date_ops \<Rightarrow> string \<Rightarrow> 'd MappingInterval list \<Rightarrow> 'd TsSymbolMap \<Rightarrow> 'd TsSymbolMap result option" where
  "ts_direct_intervals C sy [] res = Some (Ok res)"
| "ts_direct_intervals C sy (interval # rest) res =
     (if symbol interval = [] then ts_direct_intervals C sy rest res
      else then_loop (Some (parse_iid (symbol interval))) (\<lambda>iid.
        then_loop (ts_insert C iid (start_date interval) (end_date interval) sy res)
          (ts_direct_intervals C sy rest)))"

fun ts_direct_mappings ::
  "'d::linorder date_ops \<Rightarrow> 'd SymbolMapping list \<Rightarrow> 'd TsSymbolMap \<Rightarrow> 'd TsSymbolMap result option" where
  "ts_direct_mappings C [] res = Some (Ok res)"
| "ts_direct_mappings C (mapping # rest) res =
     then_loop (ts_direct_intervals C (raw_symbol mapping) (intervals mapping) res) (ts_direct_mappings C rest)"

definition ts_from_metadata :: "'d::linorder date_ops \<Rightarrow> 'd Metadata \<Rightarrow> 'd TsSymbolMap result option" where
  "ts_from_metadata C metadata =
     then_loop (Some (is_inverse metadata)) (\<lambda>inverted.
       if inverted then ts_inverse_mappings C (md_mappings metadata) ts_new
       else ts_direct_mappings C (md_mappings metadata) ts_new)"

subsection \<open>Point-in-time symbol map\<close>

definition pit_new :: PitSymbolMap where
  "pit_new = Mapping.empty"

definition pit_is_empty :: "PitSymbolMap \<Rightarrow> bool" where
  "pit_is_empty m = Mapping.is_empty m"

definition pit_len :: "PitSymbolMap \<Rightarrow> nat" where
  "pit_len m = Mapping.size m"

fun pit_mappings ::
  "bool \<Rightarrow> 'd::linorder \<Rightarrow> 'd SymbolMapping list \<Rightarrow> PitSymbolMap \<Rightarrow> PitSymbolMap result" where
  "pit_mappings inverted date [] res = Ok res"
| "pit_mappings inverted date (mapping # rest) res =
     (case find (\<lambda>interval. start_date interval \<le> date \<and> date < end_date interval) (intervals mapping) of
        None \<Rightarrow> pit_mappings inverted date rest res
      | Some interval \<Rightarrow>
          if symbol interval = [] then pit_mappings inverted date rest res
          else if inverted then
            and_then (parse_iid (raw_symbol mapping)) (\<lambda>iid.
              pit_mappings inverted date rest (Mapping.update iid (symbol interval) res))
          else
            and_then (parse_iid (symbol interval)) (\<lambda>iid.
              pit_mappings inverted date rest (Mapping.update iid (raw_symbol mapping) res)))"

definition pit_from_metadata :: "'d::linorder clock_ops \<Rightarrow> 'd Metadata \<Rightarrow> 'd \<Rightarrow> PitSymbolMap result" where
  "pit_from_metadata K metadata date =
     and_then (is_inverse metadata) (\<lambda>inverted.
       if date < to_date K (uint (md_start metadata)) \<or>
          (case md_end metadata of None \<Rightarrow> False | Some e \<Rightarrow> uint e \<le> midnight K date)
       then Err (BadArgument ''date'' ''Outside the query range'')
       else pit_mappings inverted date (md_mappings metadata) pit_new)"

text \<open>The methods for records are generic in the version, given by the fields they use.\<close>

definition on_symbol_mapping ::
  "('s \<Rightarrow> RecordHeader) \<Rightarrow> ('s \<Rightarrow> string result) \<Rightarrow> 's \<Rightarrow> PitSymbolMap \<Rightarrow> PitSymbolMap result" where
  "on_symbol_mapping hd_of stype_out_symbol symbol_mapping m =
     and_then (stype_out_symbol symbol_mapping) (\<lambda>sy.
       Ok (Mapping.update (rh_instrument_id (hd_of symbol_mapping)) sy m))"

definition on_instrument_def ::
  "('s \<Rightarrow> RecordHeader) \<Rightarrow> ('s \<Rightarrow> string result) \<Rightarrow> 's \<Rightarrow> PitSymbolMap \<Rightarrow> PitSymbolMap result" where
  "on_instrument_def hd_of raw_symbol_of instrument_def m =
     and_then (raw_symbol_of instrument_def) (\<lambda>sy.
       Ok (Mapping.update (rh_instrument_id (hd_of instrument_def)) sy m))"

definition on_record :: "bytes \<Rightarrow> PitSymbolMap \<Rightarrow> PitSymbolMap result" where
  "on_record record m =
     (if rr_rtype record = Some RType_SymbolMapping then
        (if size_of SymbolMappingMsg_type \<le> rr_record_size record
         then on_symbol_mapping sm2_hd (\<lambda>s. c_chars_to_str (sm2_stype_out_symbol s))
                (rr_get_unchecked SymbolMappingMsg_type record) m
         else and_then (rr_get SymbolMappingMsgV1_type record) (\<lambda>found. case found of
             Some s \<Rightarrow> on_symbol_mapping sm1_hd (\<lambda>s. c_chars_to_str (sm1_stype_out_symbol s)) s m
           | None \<Rightarrow> Panic ''called `Option::unwrap()` on a `None` value''))
      else Ok m)"

definition pit_get :: "PitSymbolMap \<Rightarrow> u32 \<Rightarrow> string option" where
  "pit_get m instrument_id = Mapping.lookup m instrument_id"

definition pit_get_for_rec :: "'t record_type \<Rightarrow> PitSymbolMap \<Rightarrow> 't \<Rightarrow> string option" where
  "pit_get_for_rec T m rec = pit_get m (rh_instrument_id (header T rec))"

subsection \<open>Indexing\<close>

definition ts_index_rec :: "'d clock_ops \<Rightarrow> 't record_type \<Rightarrow> 'd TsSymbolMap \<Rightarrow> 't \<Rightarrow> string result" where
  "ts_index_rec K T m rec =
     (case ts_get_for_rec K T m rec of
        Some s \<Rightarrow> Ok s | None \<Rightarrow> Panic ''called `Option::unwrap()` on a `None` value'')"

definition ts_index :: "'d TsSymbolMap \<Rightarrow> 'd \<times> u32 \<Rightarrow> string result" where
  "ts_index m idx =
     (case ts_get m (fst idx) (snd idx) of
        Some s \<Rightarrow> Ok s | None \<Rightarrow> Panic ''symbol mapping for date and instrument ID'')"

definition pit_index_rec :: "'t record_type \<Rightarrow> PitSymbolMap \<Rightarrow> 't \<Rightarrow> string result" where
  "pit_index_rec T m rec =
     (case pit_get_for_rec T m rec of
        Some s \<Rightarrow> Ok s | None \<Rightarrow> Panic ''called `Option::unwrap()` on a `None` value'')"

definition pit_index :: "PitSymbolMap \<Rightarrow> u32 \<Rightarrow> string result" where
  "pit_index m instrument_id =
     (case pit_get m instrument_id of
        Some s \<Rightarrow> Ok s | None \<Rightarrow> Panic ''symbol mapping for instrument ID'')"

section \<open>The entries of the metadata\<close>

text \<open>
  What the maps should hold: an entry of an instrument, an interval of dates and a symbol for
  every interval of the metadata that has a symbol; the last entry for a date counts.
\<close>

definition parsed :: "string \<Rightarrow> u32" where
  "parsed s = (case parse_u32 s of Some iid \<Rightarrow> iid | None \<Rightarrow> 0)"

definition entry_of :: "bool \<Rightarrow> 'd SymbolMapping \<Rightarrow> 'd MappingInterval \<Rightarrow> u32 \<times> 'd \<times> 'd \<times> string" where
  "entry_of inverted mapping interval =
     (if inverted then (parsed (raw_symbol mapping), start_date interval, end_date interval, symbol interval)
      else (parsed (symbol interval), start_date interval, end_date interval, raw_symbol mapping))"

definition mapping_entries :: "bool \<Rightarrow> 'd SymbolMapping \<Rightarrow> (u32 \<times> 'd \<times> 'd \<times> string) list" where
  "mapping_entries inverted mapping =
     map (entry_of inverted mapping) (filter (\<lambda>i. symbol i \<noteq> []) (intervals mapping))"

definition md_entries :: "'d Metadata \<Rightarrow> (u32 \<times> 'd \<times> 'd \<times> string) list" where
  "md_entries md = concat (map (mapping_entries (is_inverse md = Ok True)) (md_mappings md))"

definition covering :: "'d::linorder \<Rightarrow> u32 \<Rightarrow> u32 \<times> 'd \<times> 'd \<times> string \<Rightarrow> bool" where
  "covering d i = (\<lambda>(iid, s, e, _). iid = i \<and> s \<le> d \<and> d < e)"

definition last_symbol :: "(u32 \<times> 'd::linorder \<times> 'd \<times> string) list \<Rightarrow> 'd \<Rightarrow> u32 \<Rightarrow> string option" where
  "last_symbol es d i = map_option (\<lambda>(_, _, _, sy). sy) (find (covering d i) (rev es))"

text \<open>The metadata that a map can be made from.\<close>

definition interval_usable :: "bool \<Rightarrow> 'd::linorder MappingInterval \<Rightarrow> bool" where
  "interval_usable inverted i \<longleftrightarrow>
     (symbol i \<noteq> [] \<longrightarrow> start_date i \<le> end_date i \<and> (inverted \<or> parse_u32 (symbol i) \<noteq> None))"

definition usable :: "bool \<Rightarrow> 'd::linorder SymbolMapping \<Rightarrow> bool" where
  "usable inverted mapping \<longleftrightarrow>
     (inverted \<longrightarrow> parse_u32 (raw_symbol mapping) \<noteq> None) \<and> list_all (interval_usable inverted) (intervals mapping)"

definition has_symbols :: "'d::linorder Metadata \<Rightarrow> bool" where
  "has_symbols md \<longleftrightarrow> is_ok (is_inverse md) \<and> list_all (usable (is_inverse md = Ok True)) (md_mappings md)"

lemma entry_of_parsed:
  "parse_u32 (symbol i) = Some iid \<Longrightarrow> entry_of False mp i = (iid, start_date i, end_date i, raw_symbol mp)"
  "parse_u32 (raw_symbol mp) = Some iid \<Longrightarrow> entry_of True mp i = (iid, start_date i, end_date i, symbol i)"
  by (simp_all add: entry_of_def parsed_def)

lemma find_append: "find P (xs @ ys) = (case find P xs of Some x \<Rightarrow> Some x | None \<Rightarrow> find P ys)"
  by (induction xs) auto

lemma find_unique:
  assumes "x \<in> set xs" and "P x" and "\<And>y. y \<in> set xs \<Longrightarrow> P y \<Longrightarrow> y = x"
  shows "find P xs = Some x"
proof (cases "find P xs")
  case None
  then show ?thesis using assms(1,2) by (simp add: find_None_iff)
next
  case (Some y)
  then have "y \<in> set xs" "P y" by (auto simp: find_Some_iff)
  then show ?thesis using assms(3) Some by blast
qed

lemma last_symbol_Nil [simp]: "last_symbol [] d i = None"
  by (simp add: last_symbol_def)

lemma last_symbol_append:
  "last_symbol (es @ fs) d i = (case last_symbol fs d i of Some sy \<Rightarrow> Some sy | None \<Rightarrow> last_symbol es d i)"
  by (simp add: last_symbol_def find_append split: option.split)

lemma last_symbol_single [simp]:
  "last_symbol [(iid, s, e, sy)] d i = (if iid = i \<and> s \<le> d \<and> d < e then Some sy else None)"
  by (simp add: last_symbol_def covering_def)

section \<open>The timeseries map\<close>

text \<open>\<open>adds es m m'\<close>: the map \<open>m'\<close> is \<open>m\<close> with the entries inserted in order.\<close>

definition adds :: "(u32 \<times> 'd::linorder \<times> 'd \<times> string) list \<Rightarrow> 'd TsSymbolMap \<Rightarrow> 'd TsSymbolMap \<Rightarrow> bool" where
  "adds es m m' \<longleftrightarrow> (\<forall>d i. ts_get m' d i = (case last_symbol es d i of Some sy \<Rightarrow> Some sy | None \<Rightarrow> ts_get m d i))"

text \<open>\<open>builds ok es m x\<close>: the loop returns, with the entries added if all are usable and else an error.\<close>

definition builds ::
  "bool \<Rightarrow> (u32 \<times> 'd::linorder \<times> 'd \<times> string) list \<Rightarrow> 'd TsSymbolMap \<Rightarrow> 'd TsSymbolMap result option \<Rightarrow> bool" where
  "builds ok es m x \<longleftrightarrow> (if ok then \<exists>m'. x = Some (Ok m') \<and> adds es m m' else \<exists>e. x = Some (Err e))"

lemma adds_Nil: "adds [] m m"
  by (simp add: adds_def)

lemma builds_Nil: "builds True [] m (Some (Ok m))"
  by (simp add: builds_def adds_Nil)

lemma builds_then:
  assumes "builds ok es m x" and "\<And>m'. builds ok' fs m' (f m')"
  shows "builds (ok \<and> ok') (es @ fs) m (then_loop x f)"
proof (cases ok)
  case True
  then obtain m' where m': "x = Some (Ok m')" "adds es m m'" using assms(1) by (auto simp: builds_def)
  then show ?thesis
    using assms(2) [of m'] True
    by (auto simp: builds_def then_loop_def adds_def last_symbol_append split: option.split if_splits)
next
  case False
  then show ?thesis using assms(1) by (auto simp: builds_def then_loop_def)
qed

lemma builds_parse:
  assumes "\<And>iid. parse_u32 s = Some iid \<Longrightarrow> builds ok es m (f iid)"
  shows "builds (parse_u32 s \<noteq> None \<and> ok) es m (then_loop (Some (parse_iid s)) f)"
  using assms by (auto simp: builds_def then_loop_def parse_iid_def split: option.splits)

context calendar
begin

lemma ts_insert_days_adds:
  assumes "d < e"
  shows "\<exists>m'. ts_insert_days C iid d e sy m = Some (Ok m') \<and> adds [(iid, d, e, sy)] m m'"
  using assms
proof (induction "card {d<..}" arbitrary: d m rule: less_induct)
  case less
  obtain d' where d': "next_day C d = Some d'" "d < d'" "d' \<le> e" "\<And>x. x < d' \<longleftrightarrow> x \<le> d"
    using next_day_Some [OF less.prems] by metis
  let ?m = "Mapping.update (d, iid) sy m"
  show ?case
  proof (cases "d' = e")
    case True
    then have "ts_insert_days C iid d e sy m = Some (Ok ?m)"
      using d' by (subst ts_insert_days.simps) simp
    moreover have "d \<le> x \<and> x < e \<longleftrightarrow> x = d" for x using d'(4) [of x] True by auto
    ultimately show ?thesis by (auto simp: adds_def ts_get_def lookup_update')
  next
    case False
    then have "d' < e" using d'(3) by simp
    then obtain m' where m': "ts_insert_days C iid d' e sy ?m = Some (Ok m')" "adds [(iid, d', e, sy)] ?m m'"
      using less.hyps [OF days_after_less [OF d'(2)], of ?m] by blast
    moreover have "ts_insert_days C iid d e sy m = ts_insert_days C iid d' e sy ?m"
      using d' False by (subst ts_insert_days.simps) simp
    moreover have "d \<le> x \<and> x < e \<longleftrightarrow> x = d \<or> d' \<le> x \<and> x < e" for x
      using d'(4) [of x] less.prems by (auto simp: not_less [symmetric])
    ultimately show ?thesis by (auto simp: adds_def ts_get_def lookup_update')
  qed
qed

lemma ts_insert_builds: "builds (s \<le> e) [(iid, s, e, sy)] m (ts_insert C iid s e sy m)"
proof (cases s e rule: linorder_cases)
  case less
  then show ?thesis
    using ts_insert_days_adds [OF less] less_imp_le [OF less] by (simp add: builds_def ts_insert_def)
next
  case equal
  then show ?thesis by (auto simp: builds_def ts_insert_def adds_def)
qed (auto simp: builds_def ts_insert_def)

lemma inverse_intervals_build:
  assumes "parse_u32 (raw_symbol mp) = Some iid"
  shows "builds (list_all (interval_usable True) is)
    (map (entry_of True mp) (filter (\<lambda>i. symbol i \<noteq> []) is)) m (ts_inverse_intervals C iid is m)"
proof (induction "is" arbitrary: m)
  case (Cons i "is")
  then show ?case
    using builds_then [OF ts_insert_builds Cons.IH, of "start_date i" "end_date i" iid "symbol i" m] assms
    by (simp add: interval_usable_def entry_of_parsed)
qed (simp add: builds_Nil)

lemma direct_intervals_build:
  "builds (list_all (interval_usable False) is)
    (map (entry_of False mp) (filter (\<lambda>i. symbol i \<noteq> []) is)) m (ts_direct_intervals C (raw_symbol mp) is m)"
proof (induction "is" arbitrary: m)
  case (Cons i "is")
  show ?case
  proof (cases "symbol i = []")
    case True
    then show ?thesis using Cons.IH [of m] by (simp add: interval_usable_def)
  next
    case False
    let ?f = "\<lambda>iid. then_loop (ts_insert C iid (start_date i) (end_date i) (raw_symbol mp) m)
      (ts_direct_intervals C (raw_symbol mp) is)"
    have "builds (parse_u32 (symbol i) \<noteq> None \<and> start_date i \<le> end_date i \<and> list_all (interval_usable False) is)
      (entry_of False mp i # map (entry_of False mp) (filter (\<lambda>i. symbol i \<noteq> []) is)) m
      (then_loop (Some (parse_iid (symbol i))) ?f)"
      using builds_then [OF ts_insert_builds Cons.IH, of "start_date i" "end_date i" _ "raw_symbol mp" m]
      by (intro builds_parse) (simp add: entry_of_parsed)
    moreover have "(parse_u32 (symbol i) \<noteq> None \<and> start_date i \<le> end_date i \<and> list_all (interval_usable False) is) =
        list_all (interval_usable False) (i # is)"
      using False by (auto simp: interval_usable_def)
    ultimately show ?thesis using False by simp
  qed
qed (simp add: builds_Nil)

lemma mappings_build:
  "builds (list_all (usable True) mps) (concat (map (mapping_entries True) mps)) m (ts_inverse_mappings C mps m)"
  "builds (list_all (usable False) mps) (concat (map (mapping_entries False) mps)) m (ts_direct_mappings C mps m)"
proof (induction mps arbitrary: m)
  case (Cons mp mps)
  {
    case 1
    show ?case
    proof -
      have "builds (parse_u32 (raw_symbol mp) \<noteq> None \<and>
          (list_all (interval_usable True) (intervals mp) \<and> list_all (usable True) mps))
        (mapping_entries True mp @ concat (map (mapping_entries True) mps)) m (ts_inverse_mappings C (mp # mps) m)"
        unfolding ts_inverse_mappings.simps mapping_entries_def [of True mp]
        by (rule builds_parse) (rule builds_then [OF inverse_intervals_build Cons.IH(1)])
      then show ?thesis by (simp only: usable_def [of True mp] list.pred_inject concat.simps list.map conj_assoc simp_thms)
    qed
  next
    case 2
    show ?case
      using builds_then [OF direct_intervals_build Cons.IH(2), of "intervals mp" mp m]
      by (simp add: usable_def mapping_entries_def)
  }
qed (simp_all add: builds_Nil)

lemma ts_from_metadata_builds: "builds (has_symbols md) (md_entries md) ts_new (ts_from_metadata C md)"
proof (cases "is_inverse md")
  case (Ok b)
  then show ?thesis
    using mappings_build [of "md_mappings md" ts_new]
    by (cases b) (simp_all add: ts_from_metadata_def then_loop_def md_entries_def has_symbols_def)
qed (simp_all add: ts_from_metadata_def then_loop_def has_symbols_def builds_def is_inverse_def split: if_splits)

end

section \<open>The point-in-time map\<close>

text \<open>In a sorted list of intervals at most one covers a date.\<close>

lemma ivals_sorted_unique:
  assumes "ivals_sorted is" and "i \<in> set is" and "j \<in> set is"
    and "start_date i \<le> d" "d < end_date i" "start_date j \<le> d" "d < end_date j"
  shows "i = j"
  using assms
proof (induction "is")
  case (Cons k "is")
  have "\<not> (start_date x \<le> d \<and> d < end_date k)" if "x \<in> set is" for x
    using Cons.prems(1) that by (auto simp: ivals_sorted_Cons)
  then show ?case using Cons by (auto simp: ivals_sorted_Cons)
qed simp

lemma last_symbol_mapping:
  fixes mp :: "'d::linorder SymbolMapping"
  assumes "ivals_sorted (intervals mp)"
  shows "last_symbol (mapping_entries b mp) d i =
    (case find (\<lambda>j. start_date j \<le> d \<and> d < end_date j) (intervals mp) of
       None \<Rightarrow> None
     | Some j \<Rightarrow> if symbol j \<noteq> [] then last_symbol [entry_of b mp j] d i else None)"
proof -
  let ?P = "\<lambda>j. start_date j \<le> d \<and> d < end_date j"
  have cov: "covering d i (entry_of b mp j) \<longleftrightarrow> fst (entry_of b mp j) = i \<and> ?P j" for j
    by (simp add: covering_def entry_of_def)
  show ?thesis
  proof (cases "find ?P (intervals mp)")
    case None
    then have "find (covering d i) (rev (mapping_entries b mp)) = None"
      by (auto simp: find_None_iff mapping_entries_def cov)
    then show ?thesis using None by (simp add: last_symbol_def)
  next
    case (Some j)
    then have j: "j \<in> set (intervals mp)" "?P j" by (auto simp: find_Some_iff)
    have unique: "k = j" if "k \<in> set (intervals mp)" "?P k" for k
      using ivals_sorted_unique [OF assms that(1) j(1)] that(2) j(2) by blast
    have only: "e = entry_of b mp j \<and> symbol j \<noteq> []"
      if e: "e \<in> set (rev (mapping_entries b mp))" "covering d i e" for e
    proof -
      obtain k where k: "k \<in> set (intervals mp)" "symbol k \<noteq> []" "e = entry_of b mp k"
        using e(1) by (auto simp: mapping_entries_def)
      then have "k = j" using unique [OF k(1)] e(2) cov by simp
      then show ?thesis using k by simp
    qed
    show ?thesis
    proof (cases "symbol j \<noteq> [] \<and> fst (entry_of b mp j) = i")
      case True
      have "find (covering d i) (rev (mapping_entries b mp)) = Some (entry_of b mp j)"
      proof (rule find_unique)
        show "entry_of b mp j \<in> set (rev (mapping_entries b mp))" using True j(1) by (simp add: mapping_entries_def)
        show "covering d i (entry_of b mp j)" using True j(2) cov by simp
      qed (use only in blast)
      then show ?thesis using True Some j(2) cov [of j] by (simp add: last_symbol_def)
    next
      case False
      have "find (covering d i) (rev (mapping_entries b mp)) = None"
        unfolding find_None_iff using False only cov [of j] by blast
      moreover have "symbol j \<noteq> [] \<Longrightarrow> find (covering d i) [entry_of b mp j] = None" using False cov [of j] by simp
      ultimately show ?thesis using Some by (simp add: last_symbol_def)
    qed
  qed
qed

lemma pit_mappings_lookup:
  fixes d :: "'d::linorder"
  assumes "list_all (usable b) mps" and "\<forall>mp \<in> set mps. ivals_sorted (intervals mp)"
  shows "\<exists>p. pit_mappings b d mps res = Ok p \<and> (\<forall>i. pit_get p i =
    (case last_symbol (concat (map (mapping_entries b) mps)) d i of Some sy \<Rightarrow> Some sy | None \<Rightarrow> pit_get res i))"
  using assms
proof (induction mps arbitrary: res)
  case (Cons mp mps)
  show ?case
  proof (cases "\<exists>j. find (\<lambda>j. start_date j \<le> d \<and> d < end_date j) (intervals mp) = Some j \<and> symbol j \<noteq> []")
    case True
    then obtain j where j: "find (\<lambda>j. start_date j \<le> d \<and> d < end_date j) (intervals mp) = Some j" "symbol j \<noteq> []"
      by blast
    then have "j \<in> set (intervals mp)" and P: "start_date j \<le> d" "d < end_date j" by (auto simp: find_Some_iff)
    then have "interval_usable b j" using Cons.prems(1) by (auto simp: usable_def list_all_iff)
    then obtain iid sy where e: "entry_of b mp j = (iid, start_date j, end_date j, sy)"
      "pit_mappings b d (mp # mps) res = pit_mappings b d mps (Mapping.update iid sy res)"
      using Cons.prems(1) j by (cases b) (auto simp: usable_def interval_usable_def entry_of_parsed parse_iid_def)
    have "last_symbol (mapping_entries b mp) d i = (if iid = i then Some sy else None)" for i
      using last_symbol_mapping [of mp b d i] Cons.prems(2) j e(1) P by simp
    then show ?thesis
      using e(2) Cons.IH [of "Mapping.update iid sy res"] Cons.prems
      by (auto simp: last_symbol_append pit_get_def lookup_update' split: option.split)
  next
    case False
    then have "last_symbol (mapping_entries b mp) d i = None" for i
      using last_symbol_mapping [of mp b d i] Cons.prems(2) by (auto split: option.split)
    then have "last_symbol (concat (map (mapping_entries b) (mp # mps))) d i =
        last_symbol (concat (map (mapping_entries b) mps)) d i" for i
      by (simp add: last_symbol_append split: option.split)
    moreover have "pit_mappings b d (mp # mps) res = pit_mappings b d mps res"
      using False by (auto split: option.split)
    ultimately show ?thesis
      using Cons.IH [of res] Cons.prems
      by (simp del: pit_mappings.simps map_eq_Cons_conv concat.simps list.map)
  qed
qed (simp add: pit_get_def)

context clock
begin

lemma covering_timestamp:
  fixes t :: u64
  shows "covering (to_date K (uint t)) i =
    (\<lambda>(iid, s, e, _). iid = i \<and> midnight K s \<le> uint t \<and> uint t < midnight K e)"
proof -
  have "0 \<le> uint t" "uint t < 2 ^ 64" using uint_lt2p [of t] by simp_all
  then show ?thesis
    using midnight_le [of "uint t"] less_midnight [of "uint t"] by (auto simp: covering_def)
qed

lemma pit_range:
  assumes "md_end md \<noteq> Some 0"
  shows "(d < to_date K (uint (md_start md)) \<or> (case md_end md of None \<Rightarrow> False | Some e \<Rightarrow> uint e \<le> midnight K d)) \<longleftrightarrow>
    \<not> (to_date K (uint (md_start md)) \<le> d \<and> (\<forall>e. md_end md = Some e \<longrightarrow> d \<le> to_date K (uint e - 1)))"
proof (cases "md_end md")
  case (Some e)
  then have "0 < uint e" using assms by (simp add: word_gt_0 uint_0_iff order_less_le)
  then have "0 \<le> uint e - 1" "uint e - 1 < 2 ^ 64" using uint_lt2p [of e] by simp_all
  then have "midnight K d \<le> uint e - 1 \<longleftrightarrow> d \<le> to_date K (uint e - 1)" by (rule midnight_le)
  then show ?thesis using Some by auto
qed auto

end

section \<open>Live symbol mappings\<close>

lemma on_record_v1:
  assumes "well_formed SymbolMappingMsgV1_type s"
  shows "on_record (as_ref SymbolMappingMsgV1_type s @ bs) m =
    and_then (c_chars_to_str (sm1_stype_out_symbol s)) (\<lambda>sy. Ok (Mapping.update (rh_instrument_id (sm1_hd s)) sy m))"
proof -
  note view = sm1_record.well_formed_view [OF assms]
  have "rh_rtype (header SymbolMappingMsgV1_type s) = rtype_as_u8 RType_SymbolMapping"
    using view(5) by (simp add: sm_upgrade.rtype_src)
  then have "rr_rtype (as_ref SymbolMappingMsgV1_type s @ bs) = Some RType_SymbolMapping"
    by (simp only: rr_rtype_def view(1) rtype_of_u8)
  moreover have "rr_get SymbolMappingMsgV1_type (as_ref SymbolMappingMsgV1_type s @ bs) = Ok (Some s)"
    using assms by (intro sm1_record.rr_get_as_ref) (simp_all add: well_formed_def)
  ultimately show ?thesis
    using view(2) [of bs] sm_upgrade.grows by (simp add: on_record_def on_symbol_mapping_def)
qed

lemma on_record_v2:
  assumes "well_formed SymbolMappingMsg_type s"
  shows "on_record (as_ref SymbolMappingMsg_type s @ bs) m =
    and_then (c_chars_to_str (sm2_stype_out_symbol s)) (\<lambda>sy. Ok (Mapping.update (rh_instrument_id (sm2_hd s)) sy m))"
proof -
  note view = sm2_record.well_formed_view [OF assms]
  have "rh_rtype (header SymbolMappingMsg_type s) = rtype_as_u8 RType_SymbolMapping"
    using view(5) by (simp add: sm_upgrade.rtype_dst)
  then have "rr_rtype (as_ref SymbolMappingMsg_type s @ bs) = Some RType_SymbolMapping"
    by (simp only: rr_rtype_def view(1) rtype_of_u8)
  then show ?thesis
    using view(2,3) [of bs] by (simp add: on_record_def on_symbol_mapping_def)
qed

lemma sample_ids: "parse_u32 ''17077'' = Some 17077" "parse_u32 ''5602'' = Some 5602"
    "parsed ''17077'' = 17077" "parsed ''5602'' = 5602"
  by (simp_all add: parse_u32_def parsed_def dec_value_def is_digit_def)

definition early_metadata :: "gdate Metadata" where
  "early_metadata = (sample_metadata 3)\<lparr>md_start := 0, md_mappings :=
     [\<lparr>raw_symbol = ''ES'', intervals =
        [\<lparr>start_date = gdate_of 1970 1 1, end_date = gdate_of 1970 2 1, symbol = ''17077''\<rparr>]\<rparr>]\<rparr>"

lemmas early_metadata_simps =
  early_metadata_def has_symbols_def is_inverse_def usable_def interval_usable_def md_entries_def mapping_entries_def
  entry_of_def last_symbol_def covering_def sample_metadata_simps sample_dates is_leap_def sample_ids

section \<open>Properties\<close>

text \<open>
  C9. The timeseries symbol map of metadata: building it always ends, with an error exactly when
  the metadata is not mapped to or from instrument IDs, an ID does not parse or an interval with
  a symbol ends before it starts. Otherwise the symbol found for a date and an instrument is that
  of the last interval of the metadata that covers the date; and the symbol found for a record is
  that of the last interval between whose midnights the record's timestamp lies.
\<close>

theorem ts_symbol_map:
  assumes "clock C K"
  shows "if has_symbols md
    then \<exists>m. ts_from_metadata C md = Some (Ok m) \<and> (\<forall>d i. ts_get m d i = last_symbol (md_entries md) d i) \<and>
      (raw_index_ts T rec \<noteq> UNDEF_TIMESTAMP \<longrightarrow>
       ts_get_for_rec K T m rec = map_option (\<lambda>(_, _, _, sy). sy)
         (find (\<lambda>(iid, s, e, _). iid = rh_instrument_id (header T rec) \<and>
            midnight K s \<le> uint (raw_index_ts T rec) \<and> uint (raw_index_ts T rec) < midnight K e)
          (rev (md_entries md))))
    else \<exists>e. ts_from_metadata C md = Some (Err e)"
proof -
  have "calendar C" using assms by (simp add: clock_def)
  then have "builds (has_symbols md) (md_entries md) ts_new (ts_from_metadata C md)"
    by (rule calendar.ts_from_metadata_builds)
  then show ?thesis
    by (auto simp: builds_def adds_def ts_new_def ts_get_def [of Mapping.empty] lookup_empty ts_get_for_rec_def
        index_date_def ts_to_date_def last_symbol_def clock.covering_timestamp [OF assms] split: option.split)
qed

theorem ts_symbol_map_witness:
  "\<exists>m. ts_from_metadata gregorian (sample_metadata 3) = Some (Ok m) \<and>
     ts_get m (gdate_of 2024 2 29) 17077 = Some ''ES.c.0'' \<and> ts_get m (gdate_of 2024 3 1) 17077 = None"
proof -
  have "has_symbols (sample_metadata 3)"
    by (simp add: has_symbols_def is_inverse_def usable_def interval_usable_def sample_metadata_simps sample_dates sample_ids)
  moreover have "last_symbol (md_entries (sample_metadata 3)) (gdate_of 2024 2 29) 17077 = Some ''ES.c.0''"
    "last_symbol (md_entries (sample_metadata 3)) (gdate_of 2024 3 1) 17077 = None"
    by (simp_all add: md_entries_def mapping_entries_def entry_of_def is_inverse_def last_symbol_def covering_def
        sample_metadata_simps sample_dates is_leap_def sample_ids)
  ultimately show ?thesis
    using ts_symbol_map [OF unix.clock_axioms, of "sample_metadata 3" MboMsg_type MboMsg_default] by auto
qed

text \<open>
  C10. The two maps agree: for metadata whose intervals are in order, the point-in-time map of a
  date can be built exactly when the query range, from start to end, has an instant on that date,
  and then gives every instrument the symbol that the timeseries map gives it on that date.
\<close>

theorem pit_agrees_with_ts:
  assumes "clock C K" and "ts_from_metadata C md = Some (Ok m)"
    and "\<forall>mp \<in> set (md_mappings md). ivals_sorted (intervals mp)" and "md_end md \<noteq> Some 0"
  shows "if to_date K (uint (md_start md)) \<le> d \<and> (\<forall>e. md_end md = Some e \<longrightarrow> d \<le> to_date K (uint e - 1))
    then \<exists>p. pit_from_metadata K md d = Ok p \<and> (\<forall>i. pit_get p i = ts_get m d i)
    else pit_from_metadata K md d = Err (BadArgument ''date'' ''Outside the query range'')"
proof -
  have "calendar C" using assms(1) by (simp add: clock_def)
  then have "builds (has_symbols md) (md_entries md) ts_new (ts_from_metadata C md)"
    by (rule calendar.ts_from_metadata_builds)
  then have m: "has_symbols md" "\<And>i. ts_get m d i = last_symbol (md_entries md) d i"
    using assms(2) by (auto simp: builds_def adds_def ts_new_def ts_get_def [of Mapping.empty] lookup_empty
        split: if_splits option.splits)
  then obtain b where b: "is_inverse md = Ok b" by (cases "is_inverse md") (auto simp: has_symbols_def)
  then have "list_all (usable b) (md_mappings md)" and e: "md_entries md = concat (map (mapping_entries b) (md_mappings md))"
    using m(1) by (cases b; simp add: has_symbols_def md_entries_def)+
  then obtain p where p: "pit_mappings b d (md_mappings md) pit_new = Ok p"
    "\<And>i. pit_get p i = (case last_symbol (md_entries md) d i of Some sy \<Rightarrow> Some sy | None \<Rightarrow> pit_get pit_new i)"
    using pit_mappings_lookup [OF _ assms(3), of b d pit_new] by auto
  have "pit_get pit_new i = None" for i by (simp add: pit_get_def pit_new_def lookup_empty)
  then have "pit_get p i = ts_get m d i" for i by (simp add: p(2) m(2) split: option.split)
  then show ?thesis
    using p(1) b clock.pit_range [OF assms(1,4), of d] by (simp add: pit_from_metadata_def)
qed

theorem pit_agrees_with_ts_witness:
  "\<exists>p. pit_from_metadata unix_clock early_metadata (gdate_of 1970 1 3) = Ok p \<and> pit_get p 17077 = Some ''ES''"
proof -
  let ?d = "gdate_of 1970 1 3"
  have "has_symbols early_metadata" "last_symbol (md_entries early_metadata) ?d 17077 = Some ''ES''"
    by (simp_all add: early_metadata_simps)
  then obtain m where m: "ts_from_metadata gregorian early_metadata = Some (Ok m)" "ts_get m ?d 17077 = Some ''ES''"
    using gregorian.ts_from_metadata_builds [of early_metadata] by (auto simp: builds_def adds_def)
  have "md_end early_metadata = None" "md_start early_metadata = 0"
    "\<forall>mp \<in> set (md_mappings early_metadata). ivals_sorted (intervals mp)"
    by (simp_all add: early_metadata_simps ivals_sorted_Cons ivals_sorted_Nil)
  moreover have "to_date unix_clock 0 \<le> ?d"
    by (simp add: unix_clock_def sample_dates)
  ultimately show ?thesis
    using pit_agrees_with_ts [OF unix.clock_axioms m(1), of ?d] m(2) by auto
qed

text \<open>
  Following a live stream: a symbol mapping record of either version, whatever bytes follow
  it, maps its instrument to the text of its output symbol and changes nothing else, or returns
  the error for a symbol that is not valid text; it makes no difference whether the decoder
  upgraded the record; and records of other types change nothing.
\<close>

theorem pit_on_record:
  assumes "well_formed SymbolMappingMsgV1_type s"
  shows "on_record (as_ref SymbolMappingMsgV1_type s @ bs) m =
      and_then (c_chars_to_str (sm1_stype_out_symbol s)) (\<lambda>sy. Ok (Mapping.update (rh_instrument_id (sm1_hd s)) sy m))
    \<and> (0 \<in> set (sm1_stype_out_symbol s) \<longrightarrow>
      on_record (as_ref SymbolMappingMsg_type (SymbolMappingMsg_from_v1 s) @ bs) m =
      on_record (as_ref SymbolMappingMsgV1_type s @ bs) m)
    \<and> (rr_rtype r \<noteq> Some RType_SymbolMapping \<longrightarrow> on_record r m = Ok m)"
proof -
  have v2: "well_formed SymbolMappingMsg_type (SymbolMappingMsg_from_v1 s)"
    using assms sm_upgrade.conv_well_formed by (simp add: well_formed_def)
  have "c_chars_to_str (sm2_stype_out_symbol (SymbolMappingMsg_from_v1 s)) = c_chars_to_str (sm1_stype_out_symbol s)"
    if "0 \<in> set (sm1_stype_out_symbol s)"
    using that by (simp add: SymbolMappingMsg_from_v1_def c_chars_copy_prefix)
  moreover have "rh_instrument_id (sm2_hd (SymbolMappingMsg_from_v1 s)) = rh_instrument_id (sm1_hd s)"
    using sm_upgrade.conv_header_fields(2) [of s] by (simp add: SymbolMappingMsg_type_def SymbolMappingMsgV1_type_def)
  ultimately show ?thesis
    by (auto simp: on_record_v1 [OF assms] on_record_v2 [OF v2]) (simp add: on_record_def)
qed

theorem pit_on_record_witness:
  "let s = SymbolMappingMsgV1_default\<lparr>sm1_stype_out_symbol := as_bytes ''ESH4'' @ replicate 18 0\<rparr> in
   on_record (as_ref SymbolMappingMsgV1_type s) Mapping.empty =
   Ok (Mapping.update 0 ''ESH4'' Mapping.empty)"
proof -
  let ?s = "SymbolMappingMsgV1_default\<lparr>sm1_stype_out_symbol := as_bytes ''ESH4'' @ replicate 18 0\<rparr>"
  have "well_formed SymbolMappingMsgV1_type ?s"
    using SymbolMappingMsgV1_default_ok
    by (simp add: well_formed_def SymbolMappingMsgV1_type_def SymbolMappingMsgV1_ok_def)
  moreover have "c_chars_to_str (sm1_stype_out_symbol ?s) = Ok ''ESH4''" by code_simp
  moreover have "rh_instrument_id (sm1_hd ?s) = 0" by code_simp
  ultimately show ?thesis
    using pit_on_record [of ?s "[]" Mapping.empty] by (simp add: Let_def)
qed

end
