(* ===== verification/Pretty.thy ===== *)
theory Pretty
  imports Decimal Unix_Time Record_Types "HOL-Library.Signed_Division"
begin

text \<open>
  Rendering of prices and timestamps: rust/dbn/src/pretty.rs. The options of a Rust format
  specification are a record; \<^verbatim>\<open>pad\<close> and \<^verbatim>\<open>pad_integral\<close> of the standard library's formatter
  are modelled with them. Negation of a price wraps as in a release build.
\<close>

section \<open>Definitions\<close>

definition FIXED_PRICE_SCALE :: i64 where "FIXED_PRICE_SCALE = 1000000000"

subsection \<open>Formatter\<close>

datatype alignment = Align_Left | Align_Right | Align_Center

record formatter =
  fmt_width :: "nat option"
  fmt_fill :: char
  fmt_align :: "alignment option"
  fmt_sign_plus :: bool
  fmt_zero_pad :: bool
  fmt_precision :: "nat option"

definition default_formatter :: formatter where
  "default_formatter = \<lparr>fmt_width = None, fmt_fill = CHR '' '', fmt_align = None, fmt_sign_plus = False,
     fmt_zero_pad = False, fmt_precision = None\<rparr>"

definition pads :: "alignment \<Rightarrow> nat \<Rightarrow> nat \<times> nat" where
  "pads a n =
     (case a of
        Align_Left \<Rightarrow> (0, n)
      | Align_Right \<Rightarrow> (n, 0)
      | Align_Center \<Rightarrow> (n div 2, (n + 1) div 2))"

definition with_padding :: "formatter \<Rightarrow> alignment \<Rightarrow> nat \<Rightarrow> string \<Rightarrow> string" where
  "with_padding f dflt n s =
     (case pads (case fmt_align f of Some a \<Rightarrow> a | None \<Rightarrow> dflt) n of
        (pre, post) \<Rightarrow> replicate pre (fmt_fill f) @ s @ replicate post (fmt_fill f))"

definition pad_integral :: "formatter \<Rightarrow> bool \<Rightarrow> string \<Rightarrow> string" where
  "pad_integral f is_nonnegative buf =
     (let sign = (if \<not> is_nonnegative then ''-'' else if fmt_sign_plus f then ''+'' else []);
          len = length sign + length buf in
      case fmt_width f of
        None \<Rightarrow> sign @ buf
      | Some width \<Rightarrow>
          if width \<le> len then sign @ buf
          else if fmt_zero_pad f then sign @ replicate (width - len) CHR ''0'' @ buf
          else with_padding f Align_Right (width - len) (sign @ buf))"

definition pad :: "formatter \<Rightarrow> string \<Rightarrow> string" where
  "pad f s =
     (let s = (case fmt_precision f of None \<Rightarrow> s | Some n \<Rightarrow> take n s) in
      case fmt_width f of
        None \<Rightarrow> s
      | Some width \<Rightarrow> if width \<le> length s then s else with_padding f Align_Left (width - length s) s)"

subsection \<open>Prices\<close>

definition divisors :: "int list" where
  "divisors = [0, 100000000, 10000000, 1000000, 100000, 10000, 1000, 100, 10]"

definition px_display :: "formatter \<Rightarrow> i64 \<Rightarrow> string" where
  "px_display f px =
     (if px = UNDEF_PRICE then ''UNDEF_PRICE''
      else
        let (is_nonnegative, px_abs) = (if px <s 0 then (False, - px) else (True, px));
            px_integer = sint px_abs sdiv sint FIXED_PRICE_SCALE;
            px_fraction = sint px_abs smod sint FIXED_PRICE_SCALE
        in case fmt_precision f of
             None \<Rightarrow> pad_integral f is_nonnegative (dec_int px_integer @ ''.'' @ zero_fill 9 (dec_int px_fraction))
           | Some precision \<Rightarrow>
               if precision = 0 then pad_integral f is_nonnegative (dec_int (sint px_abs))
               else if precision < 9 then pad_integral f is_nonnegative
                 (dec_int px_integer @ ''.'' @ zero_fill precision (dec_int (px_fraction sdiv divisors ! precision)))
               else pad_integral f is_nonnegative (dec_int px_integer @ ''.'' @ zero_fill 9 (dec_int px_fraction)))"

definition fmt_px :: "i64 \<Rightarrow> string" where
  "fmt_px px =
     (if px = UNDEF_PRICE then ''UNDEF_PRICE''
      else
        let (sign, px_abs) = (if px <s 0 then (''-'', - px) else ([], px));
            px_integer = sint px_abs sdiv sint FIXED_PRICE_SCALE;
            px_fraction = sint px_abs smod sint FIXED_PRICE_SCALE
        in sign @ dec_int px_integer @ ''.'' @ zero_fill 9 (dec_int px_fraction))"

subsection \<open>Timestamps\<close>

text \<open>
  The format \<^verbatim>\<open>[year]-[month]-[day]T[hour]:[minute]:[second].[subsecond digits:9]Z\<close> of a
  datetime, given by its date and the nanoseconds since midnight. For years that a timestamp of
  64 bits can reach, the crate prints four digits without a sign.
\<close>

definition fmt_datetime :: "'d date_ops \<Rightarrow> 'd \<Rightarrow> nat \<Rightarrow> string" where
  "fmt_datetime C d nanos =
     (let seconds = nanos div 1000000000 in
      zero_fill 4 (dec_int (year C d)) @ ''-'' @ zero_fill 2 (dec_nat (month C d)) @ ''-'' @
      zero_fill 2 (dec_nat (day C d)) @ ''T'' @ zero_fill 2 (dec_nat (seconds div 3600)) @ '':'' @
      zero_fill 2 (dec_nat (seconds div 60 mod 60)) @ '':'' @ zero_fill 2 (dec_nat (seconds mod 60)) @ ''.'' @
      zero_fill 9 (dec_nat (nanos mod 1000000000)) @ ''Z'')"

definition ts_display :: "'d date_ops \<Rightarrow> 'd clock_ops \<Rightarrow> formatter \<Rightarrow> u64 \<Rightarrow> string" where
  "ts_display C K f ts =
     (if ts \<noteq> 0 then
        let d = to_date K (uint ts)
        in pad f (fmt_datetime C d (nat (uint ts - midnight K d)))
      else [])"

definition fmt_ts :: "'d date_ops \<Rightarrow> 'd clock_ops \<Rightarrow> u64 \<Rightarrow> string" where
  "fmt_ts C K ts = ts_display C K default_formatter ts"

section \<open>Prices\<close>

text \<open>The price that a text denotes: digits, a point and nine digits, with an optional minus sign.\<close>

definition px_of_text :: "string \<Rightarrow> int option" where
  "px_of_text s =
     (let neg = (s \<noteq> [] \<and> hd s = CHR ''-''); t = (if neg then tl s else s);
          whole = takeWhile (\<lambda>c. c \<noteq> CHR ''.'') t; frac = drop (length whole + 1) t in
      if whole \<noteq> [] \<and> list_all is_digit whole \<and> length frac = 9 \<and> list_all is_digit frac \<and> length whole < length t
      then Some ((if neg then - 1 else 1) * (int (dec_value whole) * 1000000000 + int (dec_value frac)))
      else None)"

lemma sint_scale [simp]: "sint FIXED_PRICE_SCALE = 1000000000"
  by (simp add: FIXED_PRICE_SCALE_def)

lemma sint_range_i64: "- (2 ^ 63) \<le> sint (x :: i64)" "sint (x :: i64) < 2 ^ 63"
  using sint_ge [of x] sint_lt [of x] by simp_all

lemma sint_neg_i64: "sint x \<noteq> - (2 ^ 63) \<Longrightarrow> sint (- x) = - sint (x :: i64)"
  using sint_range_i64 [of x] by (simp add: sint_word_ariths(4) signed_take_bit_int_eq_self)

text \<open>The digits of a price that is not null, with its sign split off.\<close>

lemma px_parts:
  fixes px :: i64
  assumes "sint px \<noteq> - (2 ^ 63)"
  defines "n \<equiv> nat \<bar>sint px\<bar>"
  shows "sint (if px <s 0 then - px else px) = int n"
    and "int n sdiv 1000000000 = int (n div 1000000000)" and "int n smod 1000000000 = int (n mod 1000000000)"
proof -
  show "sint (if px <s 0 then - px else px) = int n"
    using sint_neg_i64 [OF assms(1)] by (simp add: n_def word_sless_alt)
  show "int n sdiv 1000000000 = int (n div 1000000000)" "int n smod 1000000000 = int (n mod 1000000000)"
    by (cases "n = 0"; simp add: signed_divide_int_def signed_modulo_int_def zdiv_int zmod_int minus_mult_div_eq_mod)+
qed

lemma fmt_px_digits:
  assumes "px \<noteq> UNDEF_PRICE" and "sint px \<noteq> - (2 ^ 63)"
  defines "n \<equiv> nat \<bar>sint px\<bar>"
  shows "fmt_px px = (if px <s 0 then ''-'' else []) @ dec_nat (n div 1000000000) @ ''.'' @
    zero_fill 9 (dec_nat (n mod 1000000000))"
proof -
  define a where "a = (if px <s 0 then - px else px)"
  have a: "sint a = int n" "int n sdiv 1000000000 = int (n div 1000000000)" "int n smod 1000000000 = int (n mod 1000000000)"
    using px_parts [OF assms(2)] by (simp_all add: a_def n_def)
  have "fmt_px px = (if px <s 0 then ''-'' else []) @ dec_int (sint a sdiv 1000000000) @ ''.'' @
      zero_fill 9 (dec_int (sint a smod 1000000000))"
    using assms(1) by (simp add: fmt_px_def a_def Let_def)
  then show ?thesis unfolding a by (simp add: dec_int_def)
qed

lemma px_of_text_digits:
  assumes "list_all is_digit whole" "whole \<noteq> []" "list_all is_digit frac" "length frac = 9"
  shows "px_of_text (whole @ ''.'' @ frac) = Some (int (dec_value whole) * 1000000000 + int (dec_value frac))"
    and "px_of_text (''-'' @ whole @ ''.'' @ frac) = Some (- (int (dec_value whole) * 1000000000 + int (dec_value frac)))"
proof -
  have split: "takeWhile (\<lambda>c. c \<noteq> CHR ''.'') (whole @ CHR ''.'' # frac) = whole"
    using digit_not_dot [OF assms(1)] by (subst takeWhile_append2) auto
  have "hd (whole @ ''.'' @ frac) \<noteq> CHR ''-''"
    using digit_not_minus [OF assms(1)] assms(2) by (cases whole) auto
  then show "px_of_text (whole @ ''.'' @ frac) = Some (int (dec_value whole) * 1000000000 + int (dec_value frac))"
    using assms split by (simp add: px_of_text_def Let_def)
  show "px_of_text (''-'' @ whole @ ''.'' @ frac) = Some (- (int (dec_value whole) * 1000000000 + int (dec_value frac)))"
    using assms split by (simp add: px_of_text_def Let_def)
qed

lemma px_of_fmt_px:
  assumes "px \<noteq> UNDEF_PRICE" and "sint px \<noteq> - (2 ^ 63)"
  shows "px_of_text (fmt_px px) = Some (sint px)"
proof -
  define n where "n = nat \<bar>sint px\<bar>"
  have frac: "length (zero_fill 9 (dec_nat (n mod 1000000000))) = 9"
    "list_all is_digit (zero_fill 9 (dec_nat (n mod 1000000000)))"
    "dec_value (zero_fill 9 (dec_nat (n mod 1000000000))) = n mod 1000000000"
    using zero_fill_dec_nat [of "n mod 1000000000" 9] by simp_all
  have "int (n div 1000000000) * 1000000000 + int (n mod 1000000000) = int n"
    by (simp add: zdiv_int zmod_int)
  then show ?thesis
    using fmt_px_digits [OF assms] px_of_text_digits [of "dec_nat (n div 1000000000)", OF _ _ frac(2,1)] frac(3)
    by (cases "px <s 0") (simp_all add: n_def word_sless_alt)
qed

lemma px_display_digits:
  assumes "px \<noteq> UNDEF_PRICE" and "sint px \<noteq> - (2 ^ 63)"
  shows "px_display default_formatter px = fmt_px px"
    and "0 < p \<Longrightarrow> p < 9 \<Longrightarrow> px_display (default_formatter\<lparr>fmt_precision := Some p\<rparr>) px =
      take (length (fmt_px px) - (9 - p)) (fmt_px px)"
proof -
  define n where "n = nat \<bar>sint px\<bar>"
  define a where "a = (if px <s 0 then - px else px)"
  have a: "sint a = int n" "int n sdiv 1000000000 = int (n div 1000000000)" "int n smod 1000000000 = int (n mod 1000000000)"
    using px_parts [OF assms(2)] by (simp_all add: a_def n_def)
  note digits = fmt_px_digits [OF assms, folded n_def]
  have sign: "pad_integral (default_formatter\<lparr>fmt_precision := q\<rparr>) b s = (if b then [] else ''-'') @ s" for q b s
    by (simp add: pad_integral_def default_formatter_def)
  have "px_display default_formatter px =
      pad_integral default_formatter (\<not> px <s 0) (dec_int (sint a sdiv 1000000000) @ ''.'' @ zero_fill 9 (dec_int (sint a smod 1000000000)))"
    using assms(1) by (simp add: px_display_def a_def default_formatter_def Let_def)
  then show "px_display default_formatter px = fmt_px px"
    using sign [of None] unfolding a by (simp add: digits dec_int_def default_formatter_def)
  assume p: "0 < p" "p < 9"
  then have "divisors ! p = 10 ^ (9 - p)"
    by (auto simp: divisors_def numeral_eq_Suc less_Suc_eq)
  moreover have "int (n mod 1000000000) sdiv int (10 ^ (9 - p)) = int (n mod 1000000000 div 10 ^ (9 - p))"
    by (cases "n mod 1000000000 = 0") (simp_all add: signed_divide_int_def zdiv_int)
  ultimately have "px_display (default_formatter\<lparr>fmt_precision := Some p\<rparr>) px =
      (if px <s 0 then ''-'' else []) @ dec_nat (n div 1000000000) @ ''.'' @ zero_fill p (dec_nat (n mod 1000000000 div 10 ^ (9 - p)))"
    using assms(1) p a sign [of "Some p"] by (cases "px <s 0") (simp_all add: px_display_def a_def default_formatter_def Let_def dec_int_def)
  moreover have "zero_fill p (dec_nat (n mod 1000000000 div 10 ^ (9 - p))) = take p (zero_fill 9 (dec_nat (n mod 1000000000)))"
    using take_zero_fill [of "n mod 1000000000" p "9 - p"] p by simp
  moreover have "length (zero_fill 9 (dec_nat (n mod 1000000000))) = 9"
    using zero_fill_dec_nat(1) [of "n mod 1000000000" 9] by simp
  ultimately show "px_display (default_formatter\<lparr>fmt_precision := Some p\<rparr>) px = take (length (fmt_px px) - (9 - p)) (fmt_px px)"
    using p digits by (cases "px <s 0") (simp_all add: Suc_diff_le)
qed

section \<open>Timestamps\<close>

text \<open>The timestamp that a text in the format denotes.\<close>

definition field :: "nat \<Rightarrow> nat \<Rightarrow> string \<Rightarrow> nat" where
  "field i n s = dec_value (take n (drop i s))"

definition ts_of_text :: "'d date_ops \<Rightarrow> 'd clock_ops \<Rightarrow> string \<Rightarrow> int option" where
  "ts_of_text C K s =
     map_option (\<lambda>d. midnight K d + int ((field 11 2 s * 3600 + field 14 2 s * 60 + field 17 2 s) * 1000000000 + field 20 9 s))
       (from_calendar_date C (int (field 0 4 s)) (field 5 2 s) (field 8 2 s))"

lemma fields:
  assumes "length a = 4" "length b = 2" "length c = 2" "length d = 2" "length e = 2" "length f = 2" "length g = 9"
  defines "s \<equiv> a @ ''-'' @ b @ ''-'' @ c @ ''T'' @ d @ '':'' @ e @ '':'' @ f @ ''.'' @ g @ ''Z''"
  shows "length s = 30" "field 0 4 s = dec_value a" "field 5 2 s = dec_value b" "field 8 2 s = dec_value c"
    "field 11 2 s = dec_value d" "field 14 2 s = dec_value e" "field 17 2 s = dec_value f" "field 20 9 s = dec_value g"
  using assms by (simp_all add: field_def)

lemma clock_seconds:
  fixes n :: nat
  shows "(n div 1000000000 div 3600 * 3600 + n div 1000000000 div 60 mod 60 * 60 + n div 1000000000 mod 60) * 1000000000 +
    n mod 1000000000 = n"
proof -
  define q where "q = n div 1000000000"
  have "q div 3600 * 3600 + q div 60 mod 60 * 60 + q mod 60 = q"
  proof -
    have "q div 3600 = q div 60 div 60" by (simp flip: div_mult2_eq)
    moreover have "q div 60 div 60 * 60 + q div 60 mod 60 = q div 60" "q div 60 * 60 + q mod 60 = q" by simp_all
    ultimately show ?thesis by linarith
  qed
  then show ?thesis by (simp add: q_def)
qed

context clock
begin

lemma fmt_datetime_fields:
  assumes "0 \<le> year C d" and "n < 86400000000000"
  shows "length (fmt_datetime C d n) = 30"
    and "ts_of_text C K (fmt_datetime C d n) = Some (midnight K d + int n)"
proof -
  define q where "q = n div 1000000000"
  have q: "q < 86400" using assms(2) by (simp add: q_def less_mult_imp_div_less)
  have y: "nat (year C d) < 10 ^ 4" "month C d < 10 ^ 2" "day C d < 10 ^ 2"
    using year_range [of d] month_range [of d] day_range [of d] by auto
  have t: "q div 3600 < 10 ^ 2" "q div 60 mod 60 < 10 ^ 2" "q mod 60 < 10 ^ 2" "n mod 1000000000 < 10 ^ 9"
    using q by (auto simp: less_mult_imp_div_less intro: less_trans [OF mod_less_divisor])
  note z = zero_fill_dec_nat(1,3) [OF y(1)] zero_fill_dec_nat(1,3) [OF y(2)] zero_fill_dec_nat(1,3) [OF y(3)]
    zero_fill_dec_nat(1,3) [OF t(1)] zero_fill_dec_nat(1,3) [OF t(2)] zero_fill_dec_nat(1,3) [OF t(3)]
    zero_fill_dec_nat(1,3) [OF t(4)]
  have "dec_int (year C d) = dec_nat (nat (year C d))" using assms(1) by (simp add: dec_int_def)
  then have shape: "fmt_datetime C d n = zero_fill 4 (dec_nat (nat (year C d))) @ ''-'' @ zero_fill 2 (dec_nat (month C d)) @ ''-'' @
      zero_fill 2 (dec_nat (day C d)) @ ''T'' @ zero_fill 2 (dec_nat (q div 3600)) @ '':'' @
      zero_fill 2 (dec_nat (q div 60 mod 60)) @ '':'' @ zero_fill 2 (dec_nat (q mod 60)) @ ''.'' @
      zero_fill 9 (dec_nat (n mod 1000000000)) @ ''Z''"
    by (simp add: fmt_datetime_def q_def Let_def)
  note fs = fields [of "zero_fill 4 (dec_nat (nat (year C d)))" "zero_fill 2 (dec_nat (month C d))"
      "zero_fill 2 (dec_nat (day C d))" "zero_fill 2 (dec_nat (q div 3600))" "zero_fill 2 (dec_nat (q div 60 mod 60))"
      "zero_fill 2 (dec_nat (q mod 60))" "zero_fill 9 (dec_nat (n mod 1000000000))", folded shape]
  show "length (fmt_datetime C d n) = 30" using fs(1) z by simp
  have "int (nat (year C d)) = year C d" using assms(1) by simp
  moreover have "(q div 3600 * 3600 + q div 60 mod 60 * 60 + q mod 60) * 1000000000 + n mod 1000000000 = n"
    unfolding q_def by (rule clock_seconds)
  ultimately show "ts_of_text C K (fmt_datetime C d n) = Some (midnight K d + int n)"
    using fs(2-8) z from_to [of d] by (simp only: ts_of_text_def option.map simp_thms)
qed

lemma ts_of_fmt_ts:
  fixes ts :: u64
  assumes "ts \<noteq> 0"
  shows "length (fmt_ts C K ts) = 30" and "ts_of_text C K (fmt_ts C K ts) = Some (uint ts)"
proof -
  let ?d = "to_date K (uint ts)" and ?n = "nat (uint ts - midnight K (to_date K (uint ts)))"
  have t: "0 \<le> uint ts" "uint ts < 2 ^ 64" using uint_lt2p [of ts] by simp_all
  have mid: "midnight K ?d \<le> uint ts" using midnight_le [OF t, of ?d] by simp
  then have n: "?n < 86400000000000" "midnight K ?d + int ?n = uint ts"
    using day_length [OF t] by auto
  have y: "0 \<le> year C ?d" using since_1970 [OF t] by simp
  have "fmt_ts C K ts = fmt_datetime C ?d ?n"
    using assms by (simp add: fmt_ts_def ts_display_def pad_def default_formatter_def Let_def)
  then show "length (fmt_ts C K ts) = 30" "ts_of_text C K (fmt_ts C K ts) = Some (uint ts)"
    using fmt_datetime_fields [OF y n(1)] n(2) by simp_all
qed

end

section \<open>Properties\<close>

text \<open>
  C34. Prices read back: the text of a price that is not null is an optional minus sign, digits, a
  point and nine digits that denote exactly the price; formatting without options gives the same
  text, and formatting with one to eight decimal places cuts the text after that many. The null
  price is written as its name, whatever the options, and no price has this text. The
  smallest price of 64 bits, the only one that cannot be negated, is excluded.
\<close>

theorem px_text_roundtrip:
  assumes "sint px \<noteq> - (2 ^ 63)"
  shows "if px = UNDEF_PRICE
    then fmt_px px = ''UNDEF_PRICE'' \<and> px_display f px = ''UNDEF_PRICE'' \<and> px_of_text ''UNDEF_PRICE'' = None
    else px_of_text (fmt_px px) = Some (sint px) \<and> px_display default_formatter px = fmt_px px \<and>
      (\<forall>p. 0 < p \<and> p < 9 \<longrightarrow> px_display (default_formatter\<lparr>fmt_precision := Some p\<rparr>) px =
         take (length (fmt_px px) - (9 - p)) (fmt_px px))"
proof (cases "px = UNDEF_PRICE")
  case True
  then show ?thesis by (simp add: fmt_px_def px_display_def px_of_text_def Let_def)
next
  case False
  then show ?thesis using px_of_fmt_px [OF _ assms] px_display_digits [OF _ assms] by simp
qed

theorem px_text_roundtrip_witness:
  "fmt_px UNDEF_PRICE = ''UNDEF_PRICE'' \<and> px_of_text (fmt_px (- 100000)) = Some (- 100000) \<and>
   px_display (default_formatter\<lparr>fmt_precision := Some 4\<rparr>) (- 100000) = take (length (fmt_px (- 100000)) - 5) (fmt_px (- 100000))"
proof -
  have "(- 100000 :: i64) \<noteq> UNDEF_PRICE" "sint (- 100000 :: i64) = - 100000" "sint UNDEF_PRICE \<noteq> - (2 ^ 63)"
    by (simp_all add: UNDEF_PRICE_def)
  then show ?thesis using px_text_roundtrip [of "- 100000"] px_text_roundtrip [of UNDEF_PRICE] by simp
qed

text \<open>
  C33. Timestamps read back: the text of a timestamp other than 0 has 30 characters, and its date and
  time of day denote exactly the timestamp, to the nanosecond.
\<close>

theorem ts_text_roundtrip:
  assumes "clock C K" and "ts \<noteq> 0"
  shows "length (fmt_ts C K ts) = 30 \<and> ts_of_text C K (fmt_ts C K ts) = Some (uint ts)"
  using clock.ts_of_fmt_ts [OF assms] by blast

theorem ts_text_roundtrip_witness:
  "ts_of_text gregorian unix_clock (fmt_ts gregorian unix_clock 1622838300000000000) = Some 1622838300000000000"
  using ts_text_roundtrip [OF unix.clock_axioms, of 1622838300000000000] by simp

text \<open>
  Formatting with no decimal places prints the fixed-precision integer, a thousand million times
  the price.
\<close>

theorem px_precision_zero:
  "px_display (default_formatter\<lparr>fmt_precision := Some 0\<rparr>) 32500000000 = ''32500000000''"
  by (simp add: px_display_def UNDEF_PRICE_def word_sless_alt pad_integral_def default_formatter_def dec_int_def
      dec_nat.simps char_of_def bit_Suc_0_iff)

end
