(* ===== verification/Csv_Fields.thy ===== *)
theory Csv_Fields
  imports Pretty Compat Record_Enum
begin

text \<open>
  The fields of the records in CSV: rust/dbn/src/encode/csv/serialize.rs, and for every record
  struct what the derive macro \<^verbatim>\<open>CsvSerialize\<close> generates from the attributes of its fields
  (their order, which are hidden, and which are prices, timestamps or characters). A field that
  is written is a text, one character for each byte.
\<close>

section \<open>Definitions\<close>

subsection \<open>Single fields\<close>

definition csv_unsigned :: "'a::len word \<Rightarrow> string" where
  "csv_unsigned w = dec_nat (unat w)"

definition csv_signed :: "'a::len word \<Rightarrow> string" where
  "csv_signed w = dec_int (sint w)"

definition csv_flags :: "flag_set \<Rightarrow> string" where
  "csv_flags f = csv_unsigned (raw f)"

definition csv_byte :: "u8 \<Rightarrow> string" where
  "csv_byte b = of_bytes [b]"

definition csv_cstr :: "bytes \<Rightarrow> string" where
  "csv_cstr chars = (case c_chars_to_str chars of Ok s \<Rightarrow> s | _ \<Rightarrow> [])"

definition csv_px :: "bool \<Rightarrow> i64 \<Rightarrow> string" where
  "csv_px pretty_px px =
     (if pretty_px then (if px = UNDEF_PRICE then [] else fmt_px px) else csv_signed px)"

definition csv_ts :: "'d date_ops \<Rightarrow> 'd clock_ops \<Rightarrow> bool \<Rightarrow> u64 \<Rightarrow> string" where
  "csv_ts C K pretty_ts ts =
     (if pretty_ts then (if ts = 0 \<or> ts = UNDEF_TIMESTAMP then [] else fmt_ts C K ts) else csv_unsigned ts)"

text \<open>\<^verbatim>\<open>std::ascii::escape_default\<close>.\<close>

definition hex_digit :: "u8 \<Rightarrow> char" where
  "hex_digit n = char_of (if n < 10 then 48 + unat n else 87 + unat n)"

definition escape_default :: "u8 \<Rightarrow> string" where
  "escape_default c =
     (if c = 9 then [CHR 0x5C, CHR ''t''] else if c = 13 then [CHR 0x5C, CHR ''r'']
      else if c = 10 then [CHR 0x5C, CHR ''n''] else if c = 39 then [CHR 0x5C, CHR 0x27]
      else if c = 34 then [CHR 0x5C, CHR 0x22] else if c = 92 then [CHR 0x5C, CHR 0x5C]
      else if 32 \<le> c \<and> c \<le> 126 then of_bytes [c]
      else [CHR 0x5C, CHR ''x'', hex_digit (c div 16), hex_digit (c mod 16)])"

definition csv_c_char :: "c_char \<Rightarrow> string" where
  "csv_c_char c = (if c = 0 then [] else escape_default c)"

subsection \<open>Price levels\<close>

definition csv_column :: "nat \<Rightarrow> string \<Rightarrow> string" where
  "csv_column i f = f @ ''_'' @ zero_fill 2 (dec_nat i)"

definition csv_level_header :: "nat \<Rightarrow> string list" where
  "csv_level_header n =
     concat (map (\<lambda>i. map (csv_column i) [''bid_px'', ''ask_px'', ''bid_sz'', ''ask_sz'', ''bid_ct'', ''ask_ct'']) [0..<n])"

definition csv_level :: "bool \<Rightarrow> BidAskPair \<Rightarrow> string list" where
  "csv_level pretty_px l =
     [csv_px pretty_px (bap_bid_px l), csv_px pretty_px (bap_ask_px l), csv_unsigned (bap_bid_sz l),
      csv_unsigned (bap_ask_sz l), csv_unsigned (bap_bid_ct l), csv_unsigned (bap_ask_ct l)]"

definition csv_clevel_header :: "nat \<Rightarrow> string list" where
  "csv_clevel_header n =
     concat (map (\<lambda>i. map (csv_column i) [''bid_px'', ''ask_px'', ''bid_sz'', ''ask_sz'', ''bid_pb'', ''ask_pb'']) [0..<n])"

definition csv_clevel :: "bool \<Rightarrow> ConsolidatedBidAskPair \<Rightarrow> string list" where
  "csv_clevel pretty_px l =
     [csv_px pretty_px (cbap_bid_px l), csv_px pretty_px (cbap_ask_px l), csv_unsigned (cbap_bid_sz l),
      csv_unsigned (cbap_ask_sz l), csv_unsigned (cbap_bid_pb l), csv_unsigned (cbap_ask_pb l)]"

subsection \<open>Records\<close>

definition csv_header_RecordHeader :: "string list" where
  "csv_header_RecordHeader =
     [''ts_event'', ''rtype'', ''publisher_id'', ''instrument_id'']"

definition csv_fields_RecordHeader :: "'d date_ops \<Rightarrow> 'd clock_ops \<Rightarrow> bool \<Rightarrow> bool \<Rightarrow> RecordHeader \<Rightarrow> string list" where
  "csv_fields_RecordHeader C K pretty_px pretty_ts r =
     [csv_ts C K pretty_ts (rh_ts_event r), csv_unsigned (rh_rtype r),
      csv_unsigned (rh_publisher_id r), csv_unsigned (rh_instrument_id r)]"

definition csv_header_MboMsg :: "string list" where
  "csv_header_MboMsg =
     [''ts_recv''] @
     csv_header_RecordHeader @
     [''action'', ''side'', ''price'', ''size'', ''channel_id'', ''order_id'', ''flags'',
      ''ts_in_delta'', ''sequence'']"

definition csv_fields_MboMsg :: "'d date_ops \<Rightarrow> 'd clock_ops \<Rightarrow> bool \<Rightarrow> bool \<Rightarrow> MboMsg \<Rightarrow> string list" where
  "csv_fields_MboMsg C K pretty_px pretty_ts r =
     [csv_ts C K pretty_ts (mbo_ts_recv r)] @
     csv_fields_RecordHeader C K pretty_px pretty_ts (mbo_hd r) @
     [csv_c_char (mbo_action r), csv_c_char (mbo_side r), csv_px pretty_px (mbo_price r),
      csv_unsigned (mbo_size r), csv_unsigned (mbo_channel_id r),
      csv_unsigned (mbo_order_id r), csv_flags (mbo_flags r), csv_signed (mbo_ts_in_delta r),
      csv_unsigned (mbo_sequence r)]"

definition csv_header_TradeMsg :: "string list" where
  "csv_header_TradeMsg =
     [''ts_recv''] @
     csv_header_RecordHeader @
     [''action'', ''side'', ''depth'', ''price'', ''size'', ''flags'', ''ts_in_delta'',
      ''sequence'']"

definition csv_fields_TradeMsg :: "'d date_ops \<Rightarrow> 'd clock_ops \<Rightarrow> bool \<Rightarrow> bool \<Rightarrow> TradeMsg \<Rightarrow> string list" where
  "csv_fields_TradeMsg C K pretty_px pretty_ts r =
     [csv_ts C K pretty_ts (trade_ts_recv r)] @
     csv_fields_RecordHeader C K pretty_px pretty_ts (trade_hd r) @
     [csv_c_char (trade_action r), csv_c_char (trade_side r), csv_unsigned (trade_depth r),
      csv_px pretty_px (trade_price r), csv_unsigned (trade_size r), csv_flags (trade_flags r),
      csv_signed (trade_ts_in_delta r), csv_unsigned (trade_sequence r)]"

definition csv_header_Mbp1Msg :: "string list" where
  "csv_header_Mbp1Msg =
     [''ts_recv''] @
     csv_header_RecordHeader @
     [''action'', ''side'', ''depth'', ''price'', ''size'', ''flags'', ''ts_in_delta'',
      ''sequence''] @
     csv_level_header 1"

definition csv_fields_Mbp1Msg :: "'d date_ops \<Rightarrow> 'd clock_ops \<Rightarrow> bool \<Rightarrow> bool \<Rightarrow> Mbp1Msg \<Rightarrow> string list" where
  "csv_fields_Mbp1Msg C K pretty_px pretty_ts r =
     [csv_ts C K pretty_ts (mbp1_ts_recv r)] @
     csv_fields_RecordHeader C K pretty_px pretty_ts (mbp1_hd r) @
     [csv_c_char (mbp1_action r), csv_c_char (mbp1_side r), csv_unsigned (mbp1_depth r),
      csv_px pretty_px (mbp1_price r), csv_unsigned (mbp1_size r), csv_flags (mbp1_flags r),
      csv_signed (mbp1_ts_in_delta r), csv_unsigned (mbp1_sequence r)] @
     concat (map (csv_level pretty_px) (mbp1_levels r))"

definition csv_header_Mbp10Msg :: "string list" where
  "csv_header_Mbp10Msg =
     [''ts_recv''] @
     csv_header_RecordHeader @
     [''action'', ''side'', ''depth'', ''price'', ''size'', ''flags'', ''ts_in_delta'',
      ''sequence''] @
     csv_level_header 10"

definition csv_fields_Mbp10Msg :: "'d date_ops \<Rightarrow> 'd clock_ops \<Rightarrow> bool \<Rightarrow> bool \<Rightarrow> Mbp10Msg \<Rightarrow> string list" where
  "csv_fields_Mbp10Msg C K pretty_px pretty_ts r =
     [csv_ts C K pretty_ts (mbp10_ts_recv r)] @
     csv_fields_RecordHeader C K pretty_px pretty_ts (mbp10_hd r) @
     [csv_c_char (mbp10_action r), csv_c_char (mbp10_side r), csv_unsigned (mbp10_depth r),
      csv_px pretty_px (mbp10_price r), csv_unsigned (mbp10_size r), csv_flags (mbp10_flags r),
      csv_signed (mbp10_ts_in_delta r), csv_unsigned (mbp10_sequence r)] @
     concat (map (csv_level pretty_px) (mbp10_levels r))"

definition csv_header_BboMsg :: "string list" where
  "csv_header_BboMsg =
     [''ts_recv''] @
     csv_header_RecordHeader @
     [''side'', ''price'', ''size'', ''flags'', ''sequence''] @
     csv_level_header 1"

definition csv_fields_BboMsg :: "'d date_ops \<Rightarrow> 'd clock_ops \<Rightarrow> bool \<Rightarrow> bool \<Rightarrow> BboMsg \<Rightarrow> string list" where
  "csv_fields_BboMsg C K pretty_px pretty_ts r =
     [csv_ts C K pretty_ts (bbo_ts_recv r)] @
     csv_fields_RecordHeader C K pretty_px pretty_ts (bbo_hd r) @
     [csv_c_char (bbo_side r), csv_px pretty_px (bbo_price r), csv_unsigned (bbo_size r),
      csv_flags (bbo_flags r), csv_unsigned (bbo_sequence r)] @
     concat (map (csv_level pretty_px) (bbo_levels r))"

definition csv_header_Cmbp1Msg :: "string list" where
  "csv_header_Cmbp1Msg =
     [''ts_recv''] @
     csv_header_RecordHeader @
     [''action'', ''side'', ''price'', ''size'', ''flags'', ''ts_in_delta''] @
     csv_clevel_header 1"

definition csv_fields_Cmbp1Msg :: "'d date_ops \<Rightarrow> 'd clock_ops \<Rightarrow> bool \<Rightarrow> bool \<Rightarrow> Cmbp1Msg \<Rightarrow> string list" where
  "csv_fields_Cmbp1Msg C K pretty_px pretty_ts r =
     [csv_ts C K pretty_ts (cmbp1_ts_recv r)] @
     csv_fields_RecordHeader C K pretty_px pretty_ts (cmbp1_hd r) @
     [csv_c_char (cmbp1_action r), csv_c_char (cmbp1_side r), csv_px pretty_px (cmbp1_price r),
      csv_unsigned (cmbp1_size r), csv_flags (cmbp1_flags r), csv_signed (cmbp1_ts_in_delta r)] @
     concat (map (csv_clevel pretty_px) (cmbp1_levels r))"

definition csv_header_CbboMsg :: "string list" where
  "csv_header_CbboMsg =
     [''ts_recv''] @
     csv_header_RecordHeader @
     [''side'', ''price'', ''size'', ''flags''] @
     csv_clevel_header 1"

definition csv_fields_CbboMsg :: "'d date_ops \<Rightarrow> 'd clock_ops \<Rightarrow> bool \<Rightarrow> bool \<Rightarrow> CbboMsg \<Rightarrow> string list" where
  "csv_fields_CbboMsg C K pretty_px pretty_ts r =
     [csv_ts C K pretty_ts (cbbo_ts_recv r)] @
     csv_fields_RecordHeader C K pretty_px pretty_ts (cbbo_hd r) @
     [csv_c_char (cbbo_side r), csv_px pretty_px (cbbo_price r), csv_unsigned (cbbo_size r),
      csv_flags (cbbo_flags r)] @
     concat (map (csv_clevel pretty_px) (cbbo_levels r))"

definition csv_header_OhlcvMsg :: "string list" where
  "csv_header_OhlcvMsg =
     csv_header_RecordHeader @
     [''open'', ''high'', ''low'', ''close'', ''volume'']"

definition csv_fields_OhlcvMsg :: "'d date_ops \<Rightarrow> 'd clock_ops \<Rightarrow> bool \<Rightarrow> bool \<Rightarrow> OhlcvMsg \<Rightarrow> string list" where
  "csv_fields_OhlcvMsg C K pretty_px pretty_ts r =
     csv_fields_RecordHeader C K pretty_px pretty_ts (ohlcv_hd r) @
     [csv_px pretty_px (ohlcv_open r), csv_px pretty_px (ohlcv_high r),
      csv_px pretty_px (ohlcv_low r), csv_px pretty_px (ohlcv_close r),
      csv_unsigned (ohlcv_volume r)]"

definition csv_header_StatusMsg :: "string list" where
  "csv_header_StatusMsg =
     [''ts_recv''] @
     csv_header_RecordHeader @
     [''action'', ''reason'', ''trading_event'', ''is_trading'', ''is_quoting'',
      ''is_short_sell_restricted'']"

definition csv_fields_StatusMsg :: "'d date_ops \<Rightarrow> 'd clock_ops \<Rightarrow> bool \<Rightarrow> bool \<Rightarrow> StatusMsg \<Rightarrow> string list" where
  "csv_fields_StatusMsg C K pretty_px pretty_ts r =
     [csv_ts C K pretty_ts (status_ts_recv r)] @
     csv_fields_RecordHeader C K pretty_px pretty_ts (status_hd r) @
     [csv_unsigned (status_action r), csv_unsigned (status_reason r),
      csv_unsigned (status_trading_event r), csv_c_char (status_is_trading r),
      csv_c_char (status_is_quoting r), csv_c_char (status_is_short_sell_restricted r)]"

definition csv_header_InstrumentDefMsg :: "string list" where
  "csv_header_InstrumentDefMsg =
     [''ts_recv''] @
     csv_header_RecordHeader @
     [''raw_symbol'', ''security_update_action'', ''instrument_class'',
      ''min_price_increment'', ''display_factor'', ''expiration'', ''activation'',
      ''high_limit_price'', ''low_limit_price'', ''max_price_variation'',
      ''unit_of_measure_qty'', ''min_price_increment_amount'', ''price_ratio'',
      ''inst_attrib_value'', ''underlying_id'', ''raw_instrument_id'',
      ''market_depth_implied'', ''market_depth'', ''market_segment_id'', ''max_trade_vol'',
      ''min_lot_size'', ''min_lot_size_block'', ''min_lot_size_round_lot'', ''min_trade_vol'',
      ''contract_multiplier'', ''decay_quantity'', ''original_contract_size'', ''appl_id'',
      ''maturity_year'', ''decay_start_date'', ''channel_id'', ''currency'',
      ''settl_currency'', ''secsubtype'', ''group'', ''exchange'', ''asset'', ''cfi'',
      ''security_type'', ''unit_of_measure'', ''underlying'', ''strike_price_currency'',
      ''strike_price'', ''match_algorithm'', ''main_fraction'', ''price_display_format'',
      ''sub_fraction'', ''underlying_product'', ''maturity_month'', ''maturity_day'',
      ''maturity_week'', ''user_defined_instrument'', ''contract_multiplier_unit'',
      ''flow_schedule_type'', ''tick_rule'', ''leg_count'', ''leg_index'',
      ''leg_instrument_id'', ''leg_raw_symbol'', ''leg_instrument_class'', ''leg_side'',
      ''leg_price'', ''leg_delta'', ''leg_ratio_price_numerator'',
      ''leg_ratio_price_denominator'', ''leg_ratio_qty_numerator'',
      ''leg_ratio_qty_denominator'', ''leg_underlying_id'']"

definition csv_fields_InstrumentDefMsg :: "'d date_ops \<Rightarrow> 'd clock_ops \<Rightarrow> bool \<Rightarrow> bool \<Rightarrow> InstrumentDefMsg \<Rightarrow> string list" where
  "csv_fields_InstrumentDefMsg C K pretty_px pretty_ts r =
     [csv_ts C K pretty_ts (def3_ts_recv r)] @
     csv_fields_RecordHeader C K pretty_px pretty_ts (def3_hd r) @
     [csv_cstr (def3_raw_symbol r), csv_c_char (def3_security_update_action r),
      csv_c_char (def3_instrument_class r), csv_px pretty_px (def3_min_price_increment r),
      csv_px pretty_px (def3_display_factor r), csv_ts C K pretty_ts (def3_expiration r),
      csv_ts C K pretty_ts (def3_activation r), csv_px pretty_px (def3_high_limit_price r),
      csv_px pretty_px (def3_low_limit_price r), csv_px pretty_px (def3_max_price_variation r),
      csv_px pretty_px (def3_unit_of_measure_qty r),
      csv_px pretty_px (def3_min_price_increment_amount r),
      csv_px pretty_px (def3_price_ratio r), csv_signed (def3_inst_attrib_value r),
      csv_unsigned (def3_underlying_id r), csv_unsigned (def3_raw_instrument_id r),
      csv_signed (def3_market_depth_implied r), csv_signed (def3_market_depth r),
      csv_unsigned (def3_market_segment_id r), csv_unsigned (def3_max_trade_vol r),
      csv_signed (def3_min_lot_size r), csv_signed (def3_min_lot_size_block r),
      csv_signed (def3_min_lot_size_round_lot r), csv_unsigned (def3_min_trade_vol r),
      csv_signed (def3_contract_multiplier r), csv_signed (def3_decay_quantity r),
      csv_signed (def3_original_contract_size r), csv_signed (def3_appl_id r),
      csv_unsigned (def3_maturity_year r), csv_unsigned (def3_decay_start_date r),
      csv_unsigned (def3_channel_id r), csv_cstr (def3_currency r),
      csv_cstr (def3_settl_currency r), csv_cstr (def3_secsubtype r), csv_cstr (def3_group r),
      csv_cstr (def3_exchange r), csv_cstr (def3_asset r), csv_cstr (def3_cfi r),
      csv_cstr (def3_security_type r), csv_cstr (def3_unit_of_measure r),
      csv_cstr (def3_underlying r), csv_cstr (def3_strike_price_currency r),
      csv_px pretty_px (def3_strike_price r), csv_c_char (def3_match_algorithm r),
      csv_unsigned (def3_main_fraction r), csv_unsigned (def3_price_display_format r),
      csv_unsigned (def3_sub_fraction r), csv_unsigned (def3_underlying_product r),
      csv_unsigned (def3_maturity_month r), csv_unsigned (def3_maturity_day r),
      csv_unsigned (def3_maturity_week r), csv_c_char (def3_user_defined_instrument r),
      csv_signed (def3_contract_multiplier_unit r), csv_signed (def3_flow_schedule_type r),
      csv_unsigned (def3_tick_rule r), csv_unsigned (def3_leg_count r),
      csv_unsigned (def3_leg_index r), csv_unsigned (def3_leg_instrument_id r),
      csv_cstr (def3_leg_raw_symbol r), csv_c_char (def3_leg_instrument_class r),
      csv_c_char (def3_leg_side r), csv_px pretty_px (def3_leg_price r),
      csv_px pretty_px (def3_leg_delta r), csv_signed (def3_leg_ratio_price_numerator r),
      csv_signed (def3_leg_ratio_price_denominator r),
      csv_signed (def3_leg_ratio_qty_numerator r),
      csv_signed (def3_leg_ratio_qty_denominator r), csv_unsigned (def3_leg_underlying_id r)]"

definition csv_header_ImbalanceMsg :: "string list" where
  "csv_header_ImbalanceMsg =
     [''ts_recv''] @
     csv_header_RecordHeader @
     [''ref_price'', ''auction_time'', ''cont_book_clr_price'', ''auct_interest_clr_price'',
      ''ssr_filling_price'', ''ind_match_price'', ''upper_collar'', ''lower_collar'',
      ''paired_qty'', ''total_imbalance_qty'', ''market_imbalance_qty'', ''unpaired_qty'',
      ''auction_type'', ''side'', ''auction_status'', ''freeze_status'', ''num_extensions'',
      ''unpaired_side'', ''significant_imbalance'']"

definition csv_fields_ImbalanceMsg :: "'d date_ops \<Rightarrow> 'd clock_ops \<Rightarrow> bool \<Rightarrow> bool \<Rightarrow> ImbalanceMsg \<Rightarrow> string list" where
  "csv_fields_ImbalanceMsg C K pretty_px pretty_ts r =
     [csv_ts C K pretty_ts (imb_ts_recv r)] @
     csv_fields_RecordHeader C K pretty_px pretty_ts (imb_hd r) @
     [csv_px pretty_px (imb_ref_price r), csv_ts C K pretty_ts (imb_auction_time r),
      csv_px pretty_px (imb_cont_book_clr_price r),
      csv_px pretty_px (imb_auct_interest_clr_price r),
      csv_px pretty_px (imb_ssr_filling_price r), csv_px pretty_px (imb_ind_match_price r),
      csv_px pretty_px (imb_upper_collar r), csv_px pretty_px (imb_lower_collar r),
      csv_unsigned (imb_paired_qty r), csv_unsigned (imb_total_imbalance_qty r),
      csv_unsigned (imb_market_imbalance_qty r), csv_unsigned (imb_unpaired_qty r),
      csv_c_char (imb_auction_type r), csv_c_char (imb_side r),
      csv_unsigned (imb_auction_status r), csv_unsigned (imb_freeze_status r),
      csv_unsigned (imb_num_extensions r), csv_c_char (imb_unpaired_side r),
      csv_c_char (imb_significant_imbalance r)]"

definition csv_header_StatMsg :: "string list" where
  "csv_header_StatMsg =
     [''ts_recv''] @
     csv_header_RecordHeader @
     [''ts_ref'', ''price'', ''quantity'', ''sequence'', ''ts_in_delta'', ''stat_type'',
      ''channel_id'', ''update_action'', ''stat_flags'']"

definition csv_fields_StatMsg :: "'d date_ops \<Rightarrow> 'd clock_ops \<Rightarrow> bool \<Rightarrow> bool \<Rightarrow> StatMsg \<Rightarrow> string list" where
  "csv_fields_StatMsg C K pretty_px pretty_ts r =
     [csv_ts C K pretty_ts (stat3_ts_recv r)] @
     csv_fields_RecordHeader C K pretty_px pretty_ts (stat3_hd r) @
     [csv_ts C K pretty_ts (stat3_ts_ref r), csv_px pretty_px (stat3_price r),
      csv_signed (stat3_quantity r), csv_unsigned (stat3_sequence r),
      csv_signed (stat3_ts_in_delta r), csv_unsigned (stat3_stat_type r),
      csv_unsigned (stat3_channel_id r), csv_unsigned (stat3_update_action r),
      csv_unsigned (stat3_stat_flags r)]"

definition csv_header_ErrorMsg :: "string list" where
  "csv_header_ErrorMsg =
     csv_header_RecordHeader @
     [''err'', ''code'', ''is_last'']"

definition csv_fields_ErrorMsg :: "'d date_ops \<Rightarrow> 'd clock_ops \<Rightarrow> bool \<Rightarrow> bool \<Rightarrow> ErrorMsg \<Rightarrow> string list" where
  "csv_fields_ErrorMsg C K pretty_px pretty_ts r =
     csv_fields_RecordHeader C K pretty_px pretty_ts (err2_hd r) @
     [csv_cstr (err2_err r), csv_unsigned (err2_code r), csv_unsigned (err2_is_last r)]"

definition csv_header_SymbolMappingMsg :: "string list" where
  "csv_header_SymbolMappingMsg =
     csv_header_RecordHeader @
     [''stype_in'', ''stype_in_symbol'', ''stype_out'', ''stype_out_symbol'', ''start_ts'',
      ''end_ts'']"

definition csv_fields_SymbolMappingMsg :: "'d date_ops \<Rightarrow> 'd clock_ops \<Rightarrow> bool \<Rightarrow> bool \<Rightarrow> SymbolMappingMsg \<Rightarrow> string list" where
  "csv_fields_SymbolMappingMsg C K pretty_px pretty_ts r =
     csv_fields_RecordHeader C K pretty_px pretty_ts (sm2_hd r) @
     [csv_unsigned (sm2_stype_in r), csv_cstr (sm2_stype_in_symbol r),
      csv_unsigned (sm2_stype_out r), csv_cstr (sm2_stype_out_symbol r),
      csv_ts C K pretty_ts (sm2_start_ts r), csv_ts C K pretty_ts (sm2_end_ts r)]"

definition csv_header_SystemMsg :: "string list" where
  "csv_header_SystemMsg =
     csv_header_RecordHeader @
     [''msg'', ''code'']"

definition csv_fields_SystemMsg :: "'d date_ops \<Rightarrow> 'd clock_ops \<Rightarrow> bool \<Rightarrow> bool \<Rightarrow> SystemMsg \<Rightarrow> string list" where
  "csv_fields_SystemMsg C K pretty_px pretty_ts r =
     csv_fields_RecordHeader C K pretty_px pretty_ts (sys2_hd r) @
     [csv_cstr (sys2_msg r), csv_unsigned (sys2_code r)]"

definition csv_header_ErrorMsgV1 :: "string list" where
  "csv_header_ErrorMsgV1 =
     csv_header_RecordHeader @
     [''err'']"

definition csv_fields_ErrorMsgV1 :: "'d date_ops \<Rightarrow> 'd clock_ops \<Rightarrow> bool \<Rightarrow> bool \<Rightarrow> ErrorMsgV1 \<Rightarrow> string list" where
  "csv_fields_ErrorMsgV1 C K pretty_px pretty_ts r =
     csv_fields_RecordHeader C K pretty_px pretty_ts (err1_hd r) @
     [csv_cstr (err1_err r)]"

definition csv_header_InstrumentDefMsgV1 :: "string list" where
  "csv_header_InstrumentDefMsgV1 =
     [''ts_recv''] @
     csv_header_RecordHeader @
     [''raw_symbol'', ''security_update_action'', ''instrument_class'',
      ''min_price_increment'', ''display_factor'', ''expiration'', ''activation'',
      ''high_limit_price'', ''low_limit_price'', ''max_price_variation'',
      ''trading_reference_price'', ''unit_of_measure_qty'', ''min_price_increment_amount'',
      ''price_ratio'', ''inst_attrib_value'', ''underlying_id'', ''raw_instrument_id'',
      ''market_depth_implied'', ''market_depth'', ''market_segment_id'', ''max_trade_vol'',
      ''min_lot_size'', ''min_lot_size_block'', ''min_lot_size_round_lot'', ''min_trade_vol'',
      ''contract_multiplier'', ''decay_quantity'', ''original_contract_size'',
      ''trading_reference_date'', ''appl_id'', ''maturity_year'', ''decay_start_date'',
      ''channel_id'', ''currency'', ''settl_currency'', ''secsubtype'', ''group'',
      ''exchange'', ''asset'', ''cfi'', ''security_type'', ''unit_of_measure'', ''underlying'',
      ''strike_price_currency'', ''strike_price'', ''match_algorithm'',
      ''md_security_trading_status'', ''main_fraction'', ''price_display_format'',
      ''settl_price_type'', ''sub_fraction'', ''underlying_product'', ''maturity_month'',
      ''maturity_day'', ''maturity_week'', ''user_defined_instrument'',
      ''contract_multiplier_unit'', ''flow_schedule_type'', ''tick_rule'']"

definition csv_fields_InstrumentDefMsgV1 :: "'d date_ops \<Rightarrow> 'd clock_ops \<Rightarrow> bool \<Rightarrow> bool \<Rightarrow> InstrumentDefMsgV1 \<Rightarrow> string list" where
  "csv_fields_InstrumentDefMsgV1 C K pretty_px pretty_ts r =
     [csv_ts C K pretty_ts (def1_ts_recv r)] @
     csv_fields_RecordHeader C K pretty_px pretty_ts (def1_hd r) @
     [csv_cstr (def1_raw_symbol r), csv_byte (def1_security_update_action r),
      csv_c_char (def1_instrument_class r), csv_px pretty_px (def1_min_price_increment r),
      csv_px pretty_px (def1_display_factor r), csv_ts C K pretty_ts (def1_expiration r),
      csv_ts C K pretty_ts (def1_activation r), csv_px pretty_px (def1_high_limit_price r),
      csv_px pretty_px (def1_low_limit_price r), csv_px pretty_px (def1_max_price_variation r),
      csv_px pretty_px (def1_trading_reference_price r),
      csv_px pretty_px (def1_unit_of_measure_qty r),
      csv_px pretty_px (def1_min_price_increment_amount r),
      csv_px pretty_px (def1_price_ratio r), csv_signed (def1_inst_attrib_value r),
      csv_unsigned (def1_underlying_id r), csv_unsigned (def1_raw_instrument_id r),
      csv_signed (def1_market_depth_implied r), csv_signed (def1_market_depth r),
      csv_unsigned (def1_market_segment_id r), csv_unsigned (def1_max_trade_vol r),
      csv_signed (def1_min_lot_size r), csv_signed (def1_min_lot_size_block r),
      csv_signed (def1_min_lot_size_round_lot r), csv_unsigned (def1_min_trade_vol r),
      csv_signed (def1_contract_multiplier r), csv_signed (def1_decay_quantity r),
      csv_signed (def1_original_contract_size r), csv_unsigned (def1_trading_reference_date r),
      csv_signed (def1_appl_id r), csv_unsigned (def1_maturity_year r),
      csv_unsigned (def1_decay_start_date r), csv_unsigned (def1_channel_id r),
      csv_cstr (def1_currency r), csv_cstr (def1_settl_currency r),
      csv_cstr (def1_secsubtype r), csv_cstr (def1_group r), csv_cstr (def1_exchange r),
      csv_cstr (def1_asset r), csv_cstr (def1_cfi r), csv_cstr (def1_security_type r),
      csv_cstr (def1_unit_of_measure r), csv_cstr (def1_underlying r),
      csv_cstr (def1_strike_price_currency r), csv_px pretty_px (def1_strike_price r),
      csv_c_char (def1_match_algorithm r), csv_unsigned (def1_md_security_trading_status r),
      csv_unsigned (def1_main_fraction r), csv_unsigned (def1_price_display_format r),
      csv_unsigned (def1_settl_price_type r), csv_unsigned (def1_sub_fraction r),
      csv_unsigned (def1_underlying_product r), csv_unsigned (def1_maturity_month r),
      csv_unsigned (def1_maturity_day r), csv_unsigned (def1_maturity_week r),
      csv_byte (def1_user_defined_instrument r), csv_signed (def1_contract_multiplier_unit r),
      csv_signed (def1_flow_schedule_type r), csv_unsigned (def1_tick_rule r)]"

definition csv_header_StatMsgV1 :: "string list" where
  "csv_header_StatMsgV1 =
     [''ts_recv''] @
     csv_header_RecordHeader @
     [''ts_ref'', ''price'', ''quantity'', ''sequence'', ''ts_in_delta'', ''stat_type'',
      ''channel_id'', ''update_action'', ''stat_flags'']"

definition csv_fields_StatMsgV1 :: "'d date_ops \<Rightarrow> 'd clock_ops \<Rightarrow> bool \<Rightarrow> bool \<Rightarrow> StatMsgV1 \<Rightarrow> string list" where
  "csv_fields_StatMsgV1 C K pretty_px pretty_ts r =
     [csv_ts C K pretty_ts (stat1_ts_recv r)] @
     csv_fields_RecordHeader C K pretty_px pretty_ts (stat1_hd r) @
     [csv_ts C K pretty_ts (stat1_ts_ref r), csv_px pretty_px (stat1_price r),
      csv_signed (stat1_quantity r), csv_unsigned (stat1_sequence r),
      csv_signed (stat1_ts_in_delta r), csv_unsigned (stat1_stat_type r),
      csv_unsigned (stat1_channel_id r), csv_unsigned (stat1_update_action r),
      csv_unsigned (stat1_stat_flags r)]"

definition csv_header_SymbolMappingMsgV1 :: "string list" where
  "csv_header_SymbolMappingMsgV1 =
     csv_header_RecordHeader @
     [''stype_in_symbol'', ''stype_out_symbol'', ''start_ts'', ''end_ts'']"

definition csv_fields_SymbolMappingMsgV1 :: "'d date_ops \<Rightarrow> 'd clock_ops \<Rightarrow> bool \<Rightarrow> bool \<Rightarrow> SymbolMappingMsgV1 \<Rightarrow> string list" where
  "csv_fields_SymbolMappingMsgV1 C K pretty_px pretty_ts r =
     csv_fields_RecordHeader C K pretty_px pretty_ts (sm1_hd r) @
     [csv_cstr (sm1_stype_in_symbol r), csv_cstr (sm1_stype_out_symbol r),
      csv_ts C K pretty_ts (sm1_start_ts r), csv_ts C K pretty_ts (sm1_end_ts r)]"

definition csv_header_SystemMsgV1 :: "string list" where
  "csv_header_SystemMsgV1 =
     csv_header_RecordHeader @
     [''msg'']"

definition csv_fields_SystemMsgV1 :: "'d date_ops \<Rightarrow> 'd clock_ops \<Rightarrow> bool \<Rightarrow> bool \<Rightarrow> SystemMsgV1 \<Rightarrow> string list" where
  "csv_fields_SystemMsgV1 C K pretty_px pretty_ts r =
     csv_fields_RecordHeader C K pretty_px pretty_ts (sys1_hd r) @
     [csv_cstr (sys1_msg r)]"

definition csv_header_InstrumentDefMsgV2 :: "string list" where
  "csv_header_InstrumentDefMsgV2 =
     [''ts_recv''] @
     csv_header_RecordHeader @
     [''raw_symbol'', ''security_update_action'', ''instrument_class'',
      ''min_price_increment'', ''display_factor'', ''expiration'', ''activation'',
      ''high_limit_price'', ''low_limit_price'', ''max_price_variation'',
      ''trading_reference_price'', ''unit_of_measure_qty'', ''min_price_increment_amount'',
      ''price_ratio'', ''inst_attrib_value'', ''underlying_id'', ''raw_instrument_id'',
      ''market_depth_implied'', ''market_depth'', ''market_segment_id'', ''max_trade_vol'',
      ''min_lot_size'', ''min_lot_size_block'', ''min_lot_size_round_lot'', ''min_trade_vol'',
      ''contract_multiplier'', ''decay_quantity'', ''original_contract_size'',
      ''trading_reference_date'', ''appl_id'', ''maturity_year'', ''decay_start_date'',
      ''channel_id'', ''currency'', ''settl_currency'', ''secsubtype'', ''group'',
      ''exchange'', ''asset'', ''cfi'', ''security_type'', ''unit_of_measure'', ''underlying'',
      ''strike_price_currency'', ''strike_price'', ''match_algorithm'',
      ''md_security_trading_status'', ''main_fraction'', ''price_display_format'',
      ''settl_price_type'', ''sub_fraction'', ''underlying_product'', ''maturity_month'',
      ''maturity_day'', ''maturity_week'', ''user_defined_instrument'',
      ''contract_multiplier_unit'', ''flow_schedule_type'', ''tick_rule'']"

definition csv_fields_InstrumentDefMsgV2 :: "'d date_ops \<Rightarrow> 'd clock_ops \<Rightarrow> bool \<Rightarrow> bool \<Rightarrow> InstrumentDefMsgV2 \<Rightarrow> string list" where
  "csv_fields_InstrumentDefMsgV2 C K pretty_px pretty_ts r =
     [csv_ts C K pretty_ts (def2_ts_recv r)] @
     csv_fields_RecordHeader C K pretty_px pretty_ts (def2_hd r) @
     [csv_cstr (def2_raw_symbol r), csv_c_char (def2_security_update_action r),
      csv_c_char (def2_instrument_class r), csv_px pretty_px (def2_min_price_increment r),
      csv_px pretty_px (def2_display_factor r), csv_ts C K pretty_ts (def2_expiration r),
      csv_ts C K pretty_ts (def2_activation r), csv_px pretty_px (def2_high_limit_price r),
      csv_px pretty_px (def2_low_limit_price r), csv_px pretty_px (def2_max_price_variation r),
      csv_px pretty_px (def2_trading_reference_price r),
      csv_px pretty_px (def2_unit_of_measure_qty r),
      csv_px pretty_px (def2_min_price_increment_amount r),
      csv_px pretty_px (def2_price_ratio r), csv_signed (def2_inst_attrib_value r),
      csv_unsigned (def2_underlying_id r), csv_unsigned (def2_raw_instrument_id r),
      csv_signed (def2_market_depth_implied r), csv_signed (def2_market_depth r),
      csv_unsigned (def2_market_segment_id r), csv_unsigned (def2_max_trade_vol r),
      csv_signed (def2_min_lot_size r), csv_signed (def2_min_lot_size_block r),
      csv_signed (def2_min_lot_size_round_lot r), csv_unsigned (def2_min_trade_vol r),
      csv_signed (def2_contract_multiplier r), csv_signed (def2_decay_quantity r),
      csv_signed (def2_original_contract_size r), csv_unsigned (def2_trading_reference_date r),
      csv_signed (def2_appl_id r), csv_unsigned (def2_maturity_year r),
      csv_unsigned (def2_decay_start_date r), csv_unsigned (def2_channel_id r),
      csv_cstr (def2_currency r), csv_cstr (def2_settl_currency r),
      csv_cstr (def2_secsubtype r), csv_cstr (def2_group r), csv_cstr (def2_exchange r),
      csv_cstr (def2_asset r), csv_cstr (def2_cfi r), csv_cstr (def2_security_type r),
      csv_cstr (def2_unit_of_measure r), csv_cstr (def2_underlying r),
      csv_cstr (def2_strike_price_currency r), csv_px pretty_px (def2_strike_price r),
      csv_c_char (def2_match_algorithm r), csv_unsigned (def2_md_security_trading_status r),
      csv_unsigned (def2_main_fraction r), csv_unsigned (def2_price_display_format r),
      csv_unsigned (def2_settl_price_type r), csv_unsigned (def2_sub_fraction r),
      csv_unsigned (def2_underlying_product r), csv_unsigned (def2_maturity_month r),
      csv_unsigned (def2_maturity_day r), csv_unsigned (def2_maturity_week r),
      csv_byte (def2_user_defined_instrument r), csv_signed (def2_contract_multiplier_unit r),
      csv_signed (def2_flow_schedule_type r), csv_unsigned (def2_tick_rule r)]"

text \<open>The dictionary of \<^verbatim>\<open>CsvSerialize\<close>; \<^verbatim>\<open>WithTsOut\<close> appends a field.\<close>

record 'r csv_type =
  csv_header :: "string list"
  csv_fields :: "bool \<Rightarrow> bool \<Rightarrow> 'r \<Rightarrow> string list"

definition csv_with_ts_out :: "'d date_ops \<Rightarrow> 'd clock_ops \<Rightarrow> 'r csv_type \<Rightarrow> 'r WithTsOut csv_type" where
  "csv_with_ts_out C K T =
     \<lparr>csv_header = csv_header T @ [''ts_out''],
      csv_fields = (\<lambda>pretty_px pretty_ts r.
        csv_fields T pretty_px pretty_ts (wto_rec r) @ [csv_ts C K pretty_ts (wto_ts_out r)])\<rparr>"

subsection \<open>Dispatch\<close>

text \<open>
  The dispatch macros instantiate the generic encoding functions with one record type; what
  those use of the type is the header and the fields of the record behind the reference.
\<close>

definition row_of ::
  "'d date_ops \<Rightarrow> 'd clock_ops \<Rightarrow> 'r record_type \<Rightarrow> 'r csv_type \<Rightarrow> bool \<Rightarrow> bool \<Rightarrow> bool \<Rightarrow> bytes
   \<Rightarrow> string list result" where
  "row_of C K T CT ts_out pretty_px pretty_ts record =
     (if ts_out then handle (with_ts_out_type T) (csv_fields (csv_with_ts_out C K CT) pretty_px pretty_ts) record
      else handle T (csv_fields CT pretty_px pretty_ts) record)"

primrec kind_header :: "record_kind \<Rightarrow> string list" where
  "kind_header Kind_TradeMsg = csv_header_TradeMsg"
| "kind_header Kind_Mbp1Msg = csv_header_Mbp1Msg"
| "kind_header Kind_Mbp10Msg = csv_header_Mbp10Msg"
| "kind_header Kind_OhlcvMsg = csv_header_OhlcvMsg"
| "kind_header Kind_ImbalanceMsg = csv_header_ImbalanceMsg"
| "kind_header Kind_StatusMsg = csv_header_StatusMsg"
| "kind_header Kind_InstrumentDefMsgV1 = csv_header_InstrumentDefMsgV1"
| "kind_header Kind_InstrumentDefMsgV2 = csv_header_InstrumentDefMsgV2"
| "kind_header Kind_InstrumentDefMsg = csv_header_InstrumentDefMsg"
| "kind_header Kind_SymbolMappingMsgV1 = csv_header_SymbolMappingMsgV1"
| "kind_header Kind_SymbolMappingMsg = csv_header_SymbolMappingMsg"
| "kind_header Kind_ErrorMsgV1 = csv_header_ErrorMsgV1"
| "kind_header Kind_ErrorMsg = csv_header_ErrorMsg"
| "kind_header Kind_SystemMsgV1 = csv_header_SystemMsgV1"
| "kind_header Kind_SystemMsg = csv_header_SystemMsg"
| "kind_header Kind_StatMsgV1 = csv_header_StatMsgV1"
| "kind_header Kind_StatMsg = csv_header_StatMsg"
| "kind_header Kind_MboMsg = csv_header_MboMsg"
| "kind_header Kind_Cmbp1Msg = csv_header_Cmbp1Msg"
| "kind_header Kind_BboMsg = csv_header_BboMsg"
| "kind_header Kind_CbboMsg = csv_header_CbboMsg"

definition ts_out_header :: "bool \<Rightarrow> string list \<Rightarrow> string list" where
  "ts_out_header ts_out h = (if ts_out then h @ [''ts_out''] else h)"

primrec kind_row ::
  "record_kind \<Rightarrow> 'd date_ops \<Rightarrow> 'd clock_ops \<Rightarrow> bool \<Rightarrow> bool \<Rightarrow> bool \<Rightarrow> bytes \<Rightarrow> string list result" where
  "kind_row Kind_TradeMsg C K = row_of C K TradeMsg_type
     \<lparr>csv_header = csv_header_TradeMsg, csv_fields = csv_fields_TradeMsg C K\<rparr>"
| "kind_row Kind_Mbp1Msg C K = row_of C K Mbp1Msg_type
     \<lparr>csv_header = csv_header_Mbp1Msg, csv_fields = csv_fields_Mbp1Msg C K\<rparr>"
| "kind_row Kind_Mbp10Msg C K = row_of C K Mbp10Msg_type
     \<lparr>csv_header = csv_header_Mbp10Msg, csv_fields = csv_fields_Mbp10Msg C K\<rparr>"
| "kind_row Kind_OhlcvMsg C K = row_of C K OhlcvMsg_type
     \<lparr>csv_header = csv_header_OhlcvMsg, csv_fields = csv_fields_OhlcvMsg C K\<rparr>"
| "kind_row Kind_ImbalanceMsg C K = row_of C K ImbalanceMsg_type
     \<lparr>csv_header = csv_header_ImbalanceMsg, csv_fields = csv_fields_ImbalanceMsg C K\<rparr>"
| "kind_row Kind_StatusMsg C K = row_of C K StatusMsg_type
     \<lparr>csv_header = csv_header_StatusMsg, csv_fields = csv_fields_StatusMsg C K\<rparr>"
| "kind_row Kind_InstrumentDefMsgV1 C K = row_of C K InstrumentDefMsgV1_type
     \<lparr>csv_header = csv_header_InstrumentDefMsgV1, csv_fields = csv_fields_InstrumentDefMsgV1 C K\<rparr>"
| "kind_row Kind_InstrumentDefMsgV2 C K = row_of C K InstrumentDefMsgV2_type
     \<lparr>csv_header = csv_header_InstrumentDefMsgV2, csv_fields = csv_fields_InstrumentDefMsgV2 C K\<rparr>"
| "kind_row Kind_InstrumentDefMsg C K = row_of C K InstrumentDefMsg_type
     \<lparr>csv_header = csv_header_InstrumentDefMsg, csv_fields = csv_fields_InstrumentDefMsg C K\<rparr>"
| "kind_row Kind_SymbolMappingMsgV1 C K = row_of C K SymbolMappingMsgV1_type
     \<lparr>csv_header = csv_header_SymbolMappingMsgV1, csv_fields = csv_fields_SymbolMappingMsgV1 C K\<rparr>"
| "kind_row Kind_SymbolMappingMsg C K = row_of C K SymbolMappingMsg_type
     \<lparr>csv_header = csv_header_SymbolMappingMsg, csv_fields = csv_fields_SymbolMappingMsg C K\<rparr>"
| "kind_row Kind_ErrorMsgV1 C K = row_of C K ErrorMsgV1_type
     \<lparr>csv_header = csv_header_ErrorMsgV1, csv_fields = csv_fields_ErrorMsgV1 C K\<rparr>"
| "kind_row Kind_ErrorMsg C K = row_of C K ErrorMsg_type
     \<lparr>csv_header = csv_header_ErrorMsg, csv_fields = csv_fields_ErrorMsg C K\<rparr>"
| "kind_row Kind_SystemMsgV1 C K = row_of C K SystemMsgV1_type
     \<lparr>csv_header = csv_header_SystemMsgV1, csv_fields = csv_fields_SystemMsgV1 C K\<rparr>"
| "kind_row Kind_SystemMsg C K = row_of C K SystemMsg_type
     \<lparr>csv_header = csv_header_SystemMsg, csv_fields = csv_fields_SystemMsg C K\<rparr>"
| "kind_row Kind_StatMsgV1 C K = row_of C K StatMsgV1_type
     \<lparr>csv_header = csv_header_StatMsgV1, csv_fields = csv_fields_StatMsgV1 C K\<rparr>"
| "kind_row Kind_StatMsg C K = row_of C K StatMsg_type
     \<lparr>csv_header = csv_header_StatMsg, csv_fields = csv_fields_StatMsg C K\<rparr>"
| "kind_row Kind_MboMsg C K = row_of C K MboMsg_type
     \<lparr>csv_header = csv_header_MboMsg, csv_fields = csv_fields_MboMsg C K\<rparr>"
| "kind_row Kind_Cmbp1Msg C K = row_of C K Cmbp1Msg_type
     \<lparr>csv_header = csv_header_Cmbp1Msg, csv_fields = csv_fields_Cmbp1Msg C K\<rparr>"
| "kind_row Kind_BboMsg C K = row_of C K BboMsg_type
     \<lparr>csv_header = csv_header_BboMsg, csv_fields = csv_fields_BboMsg C K\<rparr>"
| "kind_row Kind_CbboMsg C K = row_of C K CbboMsg_type
     \<lparr>csv_header = csv_header_CbboMsg, csv_fields = csv_fields_CbboMsg C K\<rparr>"

definition schema_kind :: "Schema \<Rightarrow> record_kind" where
  "schema_kind s =
     (case s of
        Schema_Mbo \<Rightarrow> Kind_MboMsg
      | Schema_Mbp1 \<Rightarrow> Kind_Mbp1Msg
      | Schema_Tbbo \<Rightarrow> Kind_Mbp1Msg
      | Schema_Bbo1S \<Rightarrow> Kind_BboMsg
      | Schema_Bbo1M \<Rightarrow> Kind_BboMsg
      | Schema_Mbp10 \<Rightarrow> Kind_Mbp10Msg
      | Schema_Trades \<Rightarrow> Kind_TradeMsg
      | Schema_Ohlcv1D \<Rightarrow> Kind_OhlcvMsg
      | Schema_Ohlcv1H \<Rightarrow> Kind_OhlcvMsg
      | Schema_Ohlcv1M \<Rightarrow> Kind_OhlcvMsg
      | Schema_Ohlcv1S \<Rightarrow> Kind_OhlcvMsg
      | Schema_OhlcvEod \<Rightarrow> Kind_OhlcvMsg
      | Schema_Definition \<Rightarrow> Kind_InstrumentDefMsg
      | Schema_Statistics \<Rightarrow> Kind_StatMsg
      | Schema_Status \<Rightarrow> Kind_StatusMsg
      | Schema_Imbalance \<Rightarrow> Kind_ImbalanceMsg
      | Schema_Cmbp1 \<Rightarrow> Kind_Cmbp1Msg
      | Schema_Tcbbo \<Rightarrow> Kind_Cmbp1Msg
      | Schema_Cbbo1S \<Rightarrow> Kind_CbboMsg
      | Schema_Cbbo1M \<Rightarrow> Kind_CbboMsg)"

section \<open>Rows fit their header\<close>

text \<open>
  The interface of a record type in CSV: whatever bytes a record is read from, it is written as
  as many fields as its header has.
\<close>

locale csv_record = dbn_struct T for T :: "'r record_type" +
  fixes CT :: "'r csv_type"
  assumes fields_fit: "length (csv_fields CT pretty_px pretty_ts (rd (cast T) bs)) = length (csv_header CT)"
begin

lemma row_width:
  assumes "row_of C K T CT ts_out pretty_px pretty_ts record = Ok row"
  shows "length row = length (ts_out_header ts_out (csv_header CT))"
proof (cases ts_out)
  case True
  then obtain x where "rr_get (with_ts_out_type T) record = Ok (Some x)"
    "row = csv_fields (csv_with_ts_out C K CT) pretty_px pretty_ts x"
    using assms by (auto simp: row_of_def handle_def and_then_eq_Ok split: option.splits)
  moreover from this have "wto_rec x = rd (cast T) record"
    by (auto simp: rr_get_def with_ts_out_type_def rd_def split: if_splits prod.splits)
  ultimately show ?thesis
    using True fields_fit by (simp add: csv_with_ts_out_def ts_out_header_def)
next
  case False
  then obtain x where "rr_get T record = Ok (Some x)" "row = csv_fields CT pretty_px pretty_ts x"
    using assms by (auto simp: row_of_def handle_def and_then_eq_Ok split: option.splits)
  then show ?thesis
    using False fields_fit by (auto simp: rr_get_def ts_out_header_def split: if_splits)
qed

end

lemma length_get_list [simp]: "length (fst (get_list n g bs)) = n"
  by (induction n arbitrary: bs) (simp_all add: get_list.simps split_def Let_def)

lemma length_level_headers [simp]:
  "length (csv_level_header n) = 6 * n" "length (csv_clevel_header n) = 6 * n"
  by (simp_all add: csv_level_header_def csv_clevel_header_def length_concat comp_def sum_list_triv)

lemma length_levels [simp]:
  "length (concat (map (csv_level pretty_px) ls)) = 6 * length ls"
  "length (concat (map (csv_clevel pretty_px) cs)) = 6 * length cs"
  by (induction ls; simp add: csv_level_def) (induction cs; simp add: csv_clevel_def)

interpretation trade_csv: csv_record TradeMsg_type
  "\<lparr>csv_header = csv_header_TradeMsg, csv_fields = csv_fields_TradeMsg C K\<rparr>" for C K
  by unfold_locales (simp add: csv_header_TradeMsg_def csv_fields_TradeMsg_def csv_header_RecordHeader_def
      csv_fields_RecordHeader_def)

interpretation mbp1_csv: csv_record Mbp1Msg_type
  "\<lparr>csv_header = csv_header_Mbp1Msg, csv_fields = csv_fields_Mbp1Msg C K\<rparr>" for C K
  by unfold_locales (simp add: csv_header_Mbp1Msg_def csv_fields_Mbp1Msg_def csv_header_RecordHeader_def
      csv_fields_RecordHeader_def Mbp1Msg_type_def get_Mbp1Msg_def rd_def split_def Let_def)

interpretation mbp10_csv: csv_record Mbp10Msg_type
  "\<lparr>csv_header = csv_header_Mbp10Msg, csv_fields = csv_fields_Mbp10Msg C K\<rparr>" for C K
  by unfold_locales (simp add: csv_header_Mbp10Msg_def csv_fields_Mbp10Msg_def csv_header_RecordHeader_def
      csv_fields_RecordHeader_def Mbp10Msg_type_def get_Mbp10Msg_def rd_def split_def Let_def)

interpretation ohlcv_csv: csv_record OhlcvMsg_type
  "\<lparr>csv_header = csv_header_OhlcvMsg, csv_fields = csv_fields_OhlcvMsg C K\<rparr>" for C K
  by unfold_locales (simp add: csv_header_OhlcvMsg_def csv_fields_OhlcvMsg_def csv_header_RecordHeader_def
      csv_fields_RecordHeader_def)

interpretation imb_csv: csv_record ImbalanceMsg_type
  "\<lparr>csv_header = csv_header_ImbalanceMsg, csv_fields = csv_fields_ImbalanceMsg C K\<rparr>" for C K
  by unfold_locales (simp add: csv_header_ImbalanceMsg_def csv_fields_ImbalanceMsg_def csv_header_RecordHeader_def
      csv_fields_RecordHeader_def)

interpretation status_csv: csv_record StatusMsg_type
  "\<lparr>csv_header = csv_header_StatusMsg, csv_fields = csv_fields_StatusMsg C K\<rparr>" for C K
  by unfold_locales (simp add: csv_header_StatusMsg_def csv_fields_StatusMsg_def csv_header_RecordHeader_def
      csv_fields_RecordHeader_def)

interpretation def1_csv: csv_record InstrumentDefMsgV1_type
  "\<lparr>csv_header = csv_header_InstrumentDefMsgV1, csv_fields = csv_fields_InstrumentDefMsgV1 C K\<rparr>" for C K
  by unfold_locales (simp add: csv_header_InstrumentDefMsgV1_def csv_fields_InstrumentDefMsgV1_def csv_header_RecordHeader_def
      csv_fields_RecordHeader_def)

interpretation def2_csv: csv_record InstrumentDefMsgV2_type
  "\<lparr>csv_header = csv_header_InstrumentDefMsgV2, csv_fields = csv_fields_InstrumentDefMsgV2 C K\<rparr>" for C K
  by unfold_locales (simp add: csv_header_InstrumentDefMsgV2_def csv_fields_InstrumentDefMsgV2_def csv_header_RecordHeader_def
      csv_fields_RecordHeader_def)

interpretation def3_csv: csv_record InstrumentDefMsg_type
  "\<lparr>csv_header = csv_header_InstrumentDefMsg, csv_fields = csv_fields_InstrumentDefMsg C K\<rparr>" for C K
  by unfold_locales (simp add: csv_header_InstrumentDefMsg_def csv_fields_InstrumentDefMsg_def csv_header_RecordHeader_def
      csv_fields_RecordHeader_def)

interpretation sm1_csv: csv_record SymbolMappingMsgV1_type
  "\<lparr>csv_header = csv_header_SymbolMappingMsgV1, csv_fields = csv_fields_SymbolMappingMsgV1 C K\<rparr>" for C K
  by unfold_locales (simp add: csv_header_SymbolMappingMsgV1_def csv_fields_SymbolMappingMsgV1_def csv_header_RecordHeader_def
      csv_fields_RecordHeader_def)

interpretation sm2_csv: csv_record SymbolMappingMsg_type
  "\<lparr>csv_header = csv_header_SymbolMappingMsg, csv_fields = csv_fields_SymbolMappingMsg C K\<rparr>" for C K
  by unfold_locales (simp add: csv_header_SymbolMappingMsg_def csv_fields_SymbolMappingMsg_def csv_header_RecordHeader_def
      csv_fields_RecordHeader_def)

interpretation err1_csv: csv_record ErrorMsgV1_type
  "\<lparr>csv_header = csv_header_ErrorMsgV1, csv_fields = csv_fields_ErrorMsgV1 C K\<rparr>" for C K
  by unfold_locales (simp add: csv_header_ErrorMsgV1_def csv_fields_ErrorMsgV1_def csv_header_RecordHeader_def
      csv_fields_RecordHeader_def)

interpretation err2_csv: csv_record ErrorMsg_type
  "\<lparr>csv_header = csv_header_ErrorMsg, csv_fields = csv_fields_ErrorMsg C K\<rparr>" for C K
  by unfold_locales (simp add: csv_header_ErrorMsg_def csv_fields_ErrorMsg_def csv_header_RecordHeader_def
      csv_fields_RecordHeader_def)

interpretation sys1_csv: csv_record SystemMsgV1_type
  "\<lparr>csv_header = csv_header_SystemMsgV1, csv_fields = csv_fields_SystemMsgV1 C K\<rparr>" for C K
  by unfold_locales (simp add: csv_header_SystemMsgV1_def csv_fields_SystemMsgV1_def csv_header_RecordHeader_def
      csv_fields_RecordHeader_def)

interpretation sys2_csv: csv_record SystemMsg_type
  "\<lparr>csv_header = csv_header_SystemMsg, csv_fields = csv_fields_SystemMsg C K\<rparr>" for C K
  by unfold_locales (simp add: csv_header_SystemMsg_def csv_fields_SystemMsg_def csv_header_RecordHeader_def
      csv_fields_RecordHeader_def)

interpretation stat1_csv: csv_record StatMsgV1_type
  "\<lparr>csv_header = csv_header_StatMsgV1, csv_fields = csv_fields_StatMsgV1 C K\<rparr>" for C K
  by unfold_locales (simp add: csv_header_StatMsgV1_def csv_fields_StatMsgV1_def csv_header_RecordHeader_def
      csv_fields_RecordHeader_def)

interpretation stat3_csv: csv_record StatMsg_type
  "\<lparr>csv_header = csv_header_StatMsg, csv_fields = csv_fields_StatMsg C K\<rparr>" for C K
  by unfold_locales (simp add: csv_header_StatMsg_def csv_fields_StatMsg_def csv_header_RecordHeader_def
      csv_fields_RecordHeader_def)

interpretation mbo_csv: csv_record MboMsg_type
  "\<lparr>csv_header = csv_header_MboMsg, csv_fields = csv_fields_MboMsg C K\<rparr>" for C K
  by unfold_locales (simp add: csv_header_MboMsg_def csv_fields_MboMsg_def csv_header_RecordHeader_def
      csv_fields_RecordHeader_def)

interpretation cmbp1_csv: csv_record Cmbp1Msg_type
  "\<lparr>csv_header = csv_header_Cmbp1Msg, csv_fields = csv_fields_Cmbp1Msg C K\<rparr>" for C K
  by unfold_locales (simp add: csv_header_Cmbp1Msg_def csv_fields_Cmbp1Msg_def csv_header_RecordHeader_def
      csv_fields_RecordHeader_def Cmbp1Msg_type_def get_Cmbp1Msg_def rd_def split_def Let_def)

interpretation bbo_csv: csv_record BboMsg_type
  "\<lparr>csv_header = csv_header_BboMsg, csv_fields = csv_fields_BboMsg C K\<rparr>" for C K
  by unfold_locales (simp add: csv_header_BboMsg_def csv_fields_BboMsg_def csv_header_RecordHeader_def
      csv_fields_RecordHeader_def BboMsg_type_def get_BboMsg_def rd_def split_def Let_def)

interpretation cbbo_csv: csv_record CbboMsg_type
  "\<lparr>csv_header = csv_header_CbboMsg, csv_fields = csv_fields_CbboMsg C K\<rparr>" for C K
  by unfold_locales (simp add: csv_header_CbboMsg_def csv_fields_CbboMsg_def csv_header_RecordHeader_def
      csv_fields_RecordHeader_def CbboMsg_type_def get_CbboMsg_def rd_def split_def Let_def)

lemmas row_widths =
  trade_csv.row_width mbp1_csv.row_width mbp10_csv.row_width ohlcv_csv.row_width
  imb_csv.row_width status_csv.row_width def1_csv.row_width def2_csv.row_width
  def3_csv.row_width sm1_csv.row_width sm2_csv.row_width err1_csv.row_width
  err2_csv.row_width sys1_csv.row_width sys2_csv.row_width stat1_csv.row_width
  stat3_csv.row_width mbo_csv.row_width cmbp1_csv.row_width bbo_csv.row_width
  cbbo_csv.row_width

lemma kind_row_width:
  assumes "kind_row k C K ts_out pretty_px pretty_ts record = Ok row"
  shows "length row = length (ts_out_header ts_out (kind_header k))"
  using assms by (cases k) (auto dest: row_widths)

end
