(* ===== verification/Csv_Encode.thy ===== *)
theory Csv_Encode
  imports Csv_Fields Decode_Merge
begin

text \<open>
  The CSV encoder: rust/dbn/src/encode/csv/sync.rs, the text methods of
  rust/dbn/src/encode.rs and the conversion of the csv crate's errors in rust/dbn/src/error.rs.

  The writer of the csv crate is a dictionary of the three operations that the encoder uses.
  Generic code over a record type uses its header and the fields of one record; a dispatch on
  the schema or on the dynamic type of a record chooses them by \<open>kind_header\<close> and \<open>kind_row\<close>.
\<close>

section \<open>Definitions\<close>

subsection \<open>The csv crate\<close>

text \<open>The kinds of \<^verbatim>\<open>csv::Error\<close>; the position of a parse error is left out.\<close>

datatype csv_error = Csv_Io | Csv_Utf8 | Csv_UnequalLengths nat nat | Csv_Seek | Csv_Serialize string | Csv_Deserialize

record 'w csv_writer =
  csv_write_field :: "string \<Rightarrow> 'w \<Rightarrow> 'w \<times> csv_error option"
  csv_end_record :: "'w \<Rightarrow> 'w \<times> csv_error option"
  csv_flush :: "'w \<Rightarrow> 'w \<times> bool"

primrec error_from_csv :: "csv_error \<Rightarrow> error" where
  "error_from_csv Csv_Io = Io ''while writing CSV''"
| "error_from_csv Csv_Utf8 = Encode ''UTF-8 error ''"
| "error_from_csv (Csv_UnequalLengths expected_len len) =
     Encode (''unequal CSV row lengths: expected '' @ dec_nat expected_len @ '', found '' @ dec_nat len)"
| "error_from_csv Csv_Seek = Encode []"
| "error_from_csv (Csv_Serialize msg) = Encode []"
| "error_from_csv Csv_Deserialize = Encode []"

definition serializing_error :: "csv_error \<Rightarrow> error" where
  "serializing_error e = (case e of Csv_Io \<Rightarrow> Io ''serializing '' | _ \<Rightarrow> Encode ''failed to serialize : '')"

definition csv_then :: "('w \<Rightarrow> 'w \<times> csv_error option) \<Rightarrow> ('w \<Rightarrow> 'w \<times> csv_error option) \<Rightarrow> 'w \<Rightarrow> 'w \<times> csv_error option" where
  "csv_then f g w = (case f w of (w, Some e) \<Rightarrow> (w, Some e) | (w, None) \<Rightarrow> g w)"

primrec csv_write_fields :: "'w csv_writer \<Rightarrow> string list \<Rightarrow> 'w \<Rightarrow> 'w \<times> csv_error option" where
  "csv_write_fields W [] = (\<lambda>w. (w, None))"
| "csv_write_fields W (f # fs) = csv_then (csv_write_field W f) (csv_write_fields W fs)"

subsection \<open>The encoder\<close>

record 'w CsvEncoder =
  enc_writer :: 'w
  has_written_header :: bool
  use_pretty_px :: bool
  use_pretty_ts :: bool

text \<open>Runs operations of the csv writer inside the encoder, with a conversion of their error.\<close>

definition on_writer ::
  "(csv_error \<Rightarrow> error) \<Rightarrow> ('w \<Rightarrow> 'w \<times> csv_error option) \<Rightarrow> 'w CsvEncoder enc" where
  "on_writer err f e =
     (case f (enc_writer e) of (w, res) \<Rightarrow>
       (e\<lparr>enc_writer := w\<rparr>, case res of None \<Rightarrow> Ok () | Some x \<Rightarrow> Err (err x)))"

definition header_written :: "'w CsvEncoder enc" where
  "header_written e = (e\<lparr>has_written_header := True\<rparr>, Ok ())"

definition csv_encode_header :: "'w csv_writer \<Rightarrow> string list \<Rightarrow> bool \<Rightarrow> 'w CsvEncoder enc" where
  "csv_encode_header W columns with_symbol =
     seqs [on_writer error_from_csv (csv_write_fields W columns),
           if with_symbol then on_writer error_from_csv (csv_write_field W ''symbol'') else ret,
           on_writer error_from_csv (csv_end_record W),
           header_written]"

definition csv_encode_header_for_schema ::
  "'w csv_writer \<Rightarrow> u8 \<Rightarrow> Schema \<Rightarrow> bool \<Rightarrow> bool \<Rightarrow> 'w CsvEncoder enc" where
  "csv_encode_header_for_schema W version schema ts_out with_symbol =
     seq (if version < 3 \<and> schema = Schema_Definition
          then csv_encode_header W (ts_out_header ts_out csv_header_InstrumentDefMsgV2) with_symbol
          else csv_encode_header W (ts_out_header ts_out (kind_header (schema_kind schema))) with_symbol)
         header_written"

record 'w CsvEncoderBuilder =
  bld_writer :: 'w
  bld_use_pretty_px :: bool
  bld_use_pretty_ts :: bool
  bld_write_header :: bool
  bld_version :: u8
  bld_schema :: "Schema option"
  bld_ts_out :: bool
  bld_with_symbol :: bool
  bld_delimiter :: u8

definition csv_builder_new :: "'w \<Rightarrow> 'w CsvEncoderBuilder" where
  "csv_builder_new w =
     \<lparr>bld_writer = w, bld_use_pretty_px = False, bld_use_pretty_ts = False, bld_write_header = True,
      bld_version = DBN_VERSION, bld_schema = None, bld_ts_out = False, bld_with_symbol = False,
      bld_delimiter = 44\<rparr>"

text \<open>\<open>from_writer\<close> is the csv crate's \<^verbatim>\<open>WriterBuilder\<close> with the given delimiter.\<close>

definition csv_build ::
  "'w csv_writer \<Rightarrow> (u8 \<Rightarrow> 'v \<Rightarrow> 'w) \<Rightarrow> 'v CsvEncoderBuilder \<Rightarrow> 'w CsvEncoder result" where
  "csv_build W from_writer b =
     (let encoder = \<lparr>enc_writer = from_writer (bld_delimiter b) (bld_writer b), has_written_header = True,
          use_pretty_px = bld_use_pretty_px b, use_pretty_ts = bld_use_pretty_ts b\<rparr> in
      if bld_write_header b then
        (case bld_schema b of
           Some schema \<Rightarrow>
             (case csv_encode_header_for_schema W (bld_version b) schema (bld_ts_out b) (bld_with_symbol b) encoder of
                (encoder, res) \<Rightarrow> and_then res (\<lambda>_. Ok encoder))
         | None \<Rightarrow> Ok (encoder\<lparr>has_written_header := False\<rparr>))
      else Ok encoder)"

definition csv_new ::
  "'w csv_writer \<Rightarrow> (u8 \<Rightarrow> 'v \<Rightarrow> 'w) \<Rightarrow> 'v \<Rightarrow> bool \<Rightarrow> bool \<Rightarrow> 'w CsvEncoder result" where
  "csv_new W from_writer w pretty_px pretty_ts =
     (case csv_build W from_writer
        ((csv_builder_new w)\<lparr>bld_use_pretty_px := pretty_px, bld_use_pretty_ts := pretty_ts\<rparr>) of
        Err e \<Rightarrow> Panic ''called `Result::unwrap()` on an `Err` value''
      | res \<Rightarrow> res)"

text \<open>
  \<^verbatim>\<open>encode_record\<close> and \<^verbatim>\<open>encode_record_with_sym\<close> on the header and the fields of a record; the
  type of the record only enters through these.
\<close>

definition encode_fields :: "'w csv_writer \<Rightarrow> string list \<Rightarrow> string list \<Rightarrow> 'w CsvEncoder enc" where
  "encode_fields W columns row e =
     seq (if has_written_header e then ret else csv_encode_header W columns False)
         (on_writer serializing_error (csv_then (csv_write_fields W row) (csv_end_record W))) e"

definition encode_fields_with_sym ::
  "'w csv_writer \<Rightarrow> string option \<Rightarrow> string list \<Rightarrow> string list \<Rightarrow> 'w CsvEncoder enc" where
  "encode_fields_with_sym W sym_text columns row e =
     seq (if has_written_header e then ret else csv_encode_header W columns True)
         (on_writer serializing_error
            (csv_then (csv_write_fields W row)
               (csv_then (csv_write_field W (case sym_text of Some s \<Rightarrow> s | None \<Rightarrow> [])) (csv_end_record W)))) e"

definition csv_encode_record :: "'w csv_writer \<Rightarrow> 'r csv_type \<Rightarrow> 'r \<Rightarrow> 'w CsvEncoder enc" where
  "csv_encode_record W T record e =
     encode_fields W (csv_header T) (csv_fields T (use_pretty_px e) (use_pretty_ts e) record) e"

definition csv_encode_record_with_sym ::
  "'w csv_writer \<Rightarrow> 'r csv_type \<Rightarrow> string option \<Rightarrow> 'r \<Rightarrow> 'w CsvEncoder enc" where
  "csv_encode_record_with_sym W T sym_text record e =
     encode_fields_with_sym W sym_text (csv_header T) (csv_fields T (use_pretty_px e) (use_pretty_ts e) record) e"

definition csv_encoder_flush :: "'w csv_writer \<Rightarrow> 'w CsvEncoder enc" where
  "csv_encoder_flush W = on_writer (\<lambda>_. Io ''flushing output'')
     (\<lambda>w. case csv_flush W w of (w, success) \<Rightarrow> (w, if success then None else Some Csv_Io))"

text \<open>The dispatch on the dynamic type of a record, with either method as its handler.\<close>

definition dispatch_fields ::
  "'d date_ops \<Rightarrow> 'd clock_ops \<Rightarrow> (string list \<Rightarrow> string list \<Rightarrow> 'w CsvEncoder enc) \<Rightarrow> bytes \<Rightarrow> bool
   \<Rightarrow> 'w CsvEncoder enc" where
  "dispatch_fields C K method record ts_out e =
     (case rtype_dispatch_base record of
        None \<Rightarrow> (e, Err (Conversion (dec_nat (unat (rh_rtype (rr_header record)))) ''dbn::enums::rtype::RType''))
      | Some k \<Rightarrow>
          (case kind_row k C K ts_out (use_pretty_px e) (use_pretty_ts e) record of
             Ok row \<Rightarrow> method (ts_out_header ts_out (kind_header k)) row e
           | Err x \<Rightarrow> (e, Err x)
           | Panic p \<Rightarrow> (e, Panic p)))"

definition csv_encode_record_ref_ts_out ::
  "'d date_ops \<Rightarrow> 'd clock_ops \<Rightarrow> 'w csv_writer \<Rightarrow> bytes \<Rightarrow> bool \<Rightarrow> 'w CsvEncoder enc" where
  "csv_encode_record_ref_ts_out C K W = dispatch_fields C K (encode_fields W)"

definition csv_encode_record_ref ::
  "'d date_ops \<Rightarrow> 'd clock_ops \<Rightarrow> 'w csv_writer \<Rightarrow> bytes \<Rightarrow> 'w CsvEncoder enc" where
  "csv_encode_record_ref C K W record = dispatch_fields C K (encode_fields W) record False"

definition csv_encode_ref_ts_out_with_sym ::
  "'d date_ops \<Rightarrow> 'd clock_ops \<Rightarrow> 'w csv_writer \<Rightarrow> bytes \<Rightarrow> bool \<Rightarrow> string option \<Rightarrow> 'w CsvEncoder enc" where
  "csv_encode_ref_ts_out_with_sym C K W record ts_out sym_text =
     dispatch_fields C K (encode_fields_with_sym W sym_text) record ts_out"

definition csv_encode_ref_with_sym ::
  "'d date_ops \<Rightarrow> 'd clock_ops \<Rightarrow> 'w csv_writer \<Rightarrow> bytes \<Rightarrow> string option \<Rightarrow> 'w CsvEncoder enc" where
  "csv_encode_ref_with_sym C K W record sym_text =
     dispatch_fields C K (encode_fields_with_sym W sym_text) record False"

definition csv_encode_records :: "'w csv_writer \<Rightarrow> 'r csv_type \<Rightarrow> 'r list \<Rightarrow> 'w CsvEncoder enc" where
  "csv_encode_records W T records = encode_records (csv_encode_record W T) (csv_encoder_flush W) records"

text \<open>A fallible streaming iterator is given by its \<^verbatim>\<open>next\<close>.\<close>

partial_function (option) csv_encode_stream ::
  "'w csv_writer \<Rightarrow> 'r csv_type \<Rightarrow> ('s \<Rightarrow> ('s \<times> 'r option result) option) \<Rightarrow> 's \<Rightarrow> 'w CsvEncoder
   \<Rightarrow> ('w CsvEncoder \<times> unit result) option" where
  "csv_encode_stream W T stream_next s e =
     (case stream_next s of
        None \<Rightarrow> None
      | Some (s, Err x) \<Rightarrow> Some (e, Err x)
      | Some (s, Panic p) \<Rightarrow> Some (e, Panic p)
      | Some (s, Ok None) \<Rightarrow> Some (csv_encoder_flush W e)
      | Some (s, Ok (Some record)) \<Rightarrow>
          (case csv_encode_record W T record e of
             (e, Ok _) \<Rightarrow> csv_encode_stream W T stream_next s e
           | (e, Err x) \<Rightarrow> Some (e, Err x)
           | (e, Panic p) \<Rightarrow> Some (e, Panic p)))"

text \<open>
  \<^verbatim>\<open>encode_decoded\<close>: its loop is the one of the default method, over an encoding step that first
  checks the record type.
\<close>

definition csv_checked ::
  "'d date_ops \<Rightarrow> 'd clock_ops \<Rightarrow> 'w csv_writer \<Rightarrow> RType \<Rightarrow> bool \<Rightarrow> bytes \<Rightarrow> 'w CsvEncoder enc" where
  "csv_checked C K W rtype ts_out record =
     (if rr_rtype record \<noteq> Some rtype
      then fail (Encode ''schema indicated , but found record with rtype . Mixed schemas cannot be encoded in CSV.'')
      else csv_encode_record_ref_ts_out C K W record ts_out)"

definition csv_encode_decoded ::
  "'d date_ops \<Rightarrow> 'd clock_ops \<Rightarrow> 'w csv_writer \<Rightarrow> ('d, 's) decoder_ops \<Rightarrow> 's \<Rightarrow> 'w CsvEncoder
   \<Rightarrow> ('w CsvEncoder \<times> unit result) result option" where
  "csv_encode_decoded C K W D s e =
     (let ts_out = md_ts_out (dec_md D s) in
      case md_schema (dec_md D s) of
        None \<Rightarrow> Some (Ok (e, Err (Encode ''can't encode a CSV with mixed schemas'')))
      | Some schema \<Rightarrow>
          encode_decoded_loop (decode_record_ref D) (csv_checked C K W (rtype_from_schema schema) ts_out)
            (csv_encoder_flush W) None s e)"

definition csv_encode_decoded_with_limit ::
  "'d date_ops \<Rightarrow> 'd clock_ops \<Rightarrow> 'w csv_writer \<Rightarrow> ('d, 's) decoder_ops \<Rightarrow> u64 \<Rightarrow> 's \<Rightarrow> 'w CsvEncoder
   \<Rightarrow> ('w CsvEncoder \<times> unit result) result option" where
  "csv_encode_decoded_with_limit C K W D limit s e =
     (let ts_out = md_ts_out (dec_md D s) in
      case md_schema (dec_md D s) of
        None \<Rightarrow> Some (Ok (e, Err (Encode ''can't encode a CSV with mixed schemas'')))
      | Some schema \<Rightarrow>
          (case csv_encode_header W (kind_header (schema_kind schema)) False e of
             (e, Ok _) \<Rightarrow>
               encode_decoded_loop (decode_record_ref D) (csv_checked C K W (rtype_from_schema schema) ts_out)
                 (csv_encoder_flush W) (Some (unat limit)) s e
           | (e, Err x) \<Rightarrow> Some (Ok (e, Err x))
           | (e, Panic p) \<Rightarrow> Some (Panic p)))"

section \<open>Tables\<close>

lemma csv_then_skip [simp]: "csv_then (\<lambda>w. (w, None)) g = g"
  by (simp add: csv_then_def fun_eq_iff)

text \<open>
  What the encoder relies on of a csv writer over memory, as the csv crate documents it: fields
  are collected, a record is complete when it is ended, and it must have as many fields as the
  first record.
\<close>

locale csv_table =
  fixes W :: "'w csv_writer" and rows :: "'w \<Rightarrow> string list list" and cur :: "'w \<Rightarrow> string list"
  assumes write_field: "\<exists>w'. csv_write_field W f w = (w', None) \<and> rows w' = rows w \<and> cur w' = cur w @ [f]"
    and end_record: "rows w = [] \<or> length (hd (rows w)) = length (cur w) \<Longrightarrow>
      \<exists>w'. csv_end_record W w = (w', None) \<and> rows w' = rows w @ [cur w] \<and> cur w' = []"
    and end_unequal: "rows w \<noteq> [] \<Longrightarrow> length (hd (rows w)) \<noteq> length (cur w) \<Longrightarrow>
      \<exists>w'. csv_end_record W w = (w', Some (Csv_UnequalLengths (length (hd (rows w))) (length (cur w)))) \<and> rows w' = rows w"
    and flush_keeps: "\<exists>w'. csv_flush W w = (w', True) \<and> rows w' = rows w \<and> cur w' = cur w"
begin

text \<open>\<open>between e t\<close>: the encoder has written the records \<open>t\<close> and is between two records.\<close>

definition between :: "'w CsvEncoder \<Rightarrow> string list list \<Rightarrow> bool" where
  "between e t \<longleftrightarrow> rows (enc_writer e) = t \<and> cur (enc_writer e) = []"

definition same_style :: "'w CsvEncoder \<Rightarrow> 'w CsvEncoder \<Rightarrow> bool" where
  "same_style e e' \<longleftrightarrow> use_pretty_px e' = use_pretty_px e \<and> use_pretty_ts e' = use_pretty_ts e"

definition fits :: "string list list \<Rightarrow> string list \<Rightarrow> bool" where
  "fits t row \<longleftrightarrow> t = [] \<or> length (hd t) = length row"

lemma write_fields:
  "\<exists>w'. csv_write_fields W fs w = (w', None) \<and> rows w' = rows w \<and> cur w' = cur w @ fs"
proof (induction fs arbitrary: w)
  case (Cons f fs)
  obtain v where "csv_write_field W f w = (v, None)" "rows v = rows w" "cur v = cur w @ [f]"
    using write_field by blast
  then show ?case using Cons.IH [of v] by (auto simp: csv_then_def)
qed simp

lemma encode_header_writes:
  assumes "between e t" and "fits t (columns @ (if with_symbol then [''symbol''] else []))"
  shows "\<exists>e'. csv_encode_header W columns with_symbol e = (e', Ok ()) \<and> has_written_header e' \<and> same_style e e' \<and>
    between e' (t @ [columns @ (if with_symbol then [''symbol''] else [])])"
proof -
  obtain v where v: "csv_write_fields W columns (enc_writer e) = (v, None)" "rows v = t" "cur v = columns"
    using write_fields [of columns "enc_writer e"] assms(1) by (auto simp: between_def)
  obtain u where u: "csv_write_field W ''symbol'' v = (u, None)" "rows u = t" "cur u = columns @ [''symbol'']"
    using write_field [of "''symbol''" v] v by auto
  define x where "x = (if with_symbol then u else v)"
  have x: "rows x = t" "cur x = columns @ (if with_symbol then [''symbol''] else [])"
    using u v by (auto simp: x_def)
  then obtain w' where w': "csv_end_record W x = (w', None)" "rows w' = t @ [cur x]" "cur w' = []"
    using end_record [of x] assms(2) by (auto simp: fits_def)
  show ?thesis
    using u(1) v(1) w' x
    by (auto simp: csv_encode_header_def seq_def on_writer_def ret_def header_written_def between_def
        same_style_def x_def split: if_splits)
qed

lemma end_row:
  assumes "between e t" and "fits t (row @ extra)"
    and "\<And>w. \<exists>w'. f w = (w', None) \<and> rows w' = rows w \<and> cur w' = cur w @ extra"
  shows "\<exists>e'. on_writer serializing_error (csv_then (csv_write_fields W row) (csv_then f (csv_end_record W))) e = (e', Ok ()) \<and>
    has_written_header e' = has_written_header e \<and> same_style e e' \<and> between e' (t @ [row @ extra])"
proof -
  obtain v where v: "csv_write_fields W row (enc_writer e) = (v, None)" "rows v = t" "cur v = row"
    using write_fields [of row "enc_writer e"] assms(1) by (auto simp: between_def)
  obtain u where u: "f v = (u, None)" "rows u = t" "cur u = row @ extra"
    using assms(3) [of v] v by auto
  then obtain w' where "csv_end_record W u = (w', None)" "rows w' = t @ [row @ extra]" "cur w' = []"
    using end_record [of u] assms(2) by (auto simp: fits_def)
  then show ?thesis
    using u(1) v(1) by (auto simp: on_writer_def csv_then_def between_def same_style_def)
qed

text \<open>What is written before a record: its header, unless one was written already.\<close>

definition heading :: "'w CsvEncoder \<Rightarrow> string list \<Rightarrow> string list list" where
  "heading e columns = (if has_written_header e then [] else [columns])"

lemma header_first:
  assumes "between e t" and "fits t (columns @ extra)" and "extra = (if with_symbol then [''symbol''] else [])"
  shows "\<exists>d. (if has_written_header e then ret else csv_encode_header W columns with_symbol) e = (d, Ok ()) \<and>
    has_written_header d \<and> same_style e d \<and> between d (t @ heading e (columns @ extra))"
proof (cases "has_written_header e")
  case True
  then show ?thesis using assms(1) by (simp add: ret_def same_style_def heading_def)
next
  case False
  then show ?thesis
    using encode_header_writes [of e t columns with_symbol] assms by (simp add: heading_def)
qed

lemma encode_fields_writes:
  assumes "between e t" and "fits t row" and "length columns = length row"
  shows "\<exists>e'. encode_fields W columns row e = (e', Ok ()) \<and> has_written_header e' \<and> same_style e e' \<and>
    between e' (t @ heading e columns @ [row])"
proof -
  obtain d where d: "(if has_written_header e then ret else csv_encode_header W columns False) e = (d, Ok ())"
    "has_written_header d" "same_style e d" "between d (t @ heading e columns)"
    using header_first [of e t columns "[]" False] assms by (auto simp: fits_def)
  have "fits (t @ heading e columns) (row @ [])"
    using assms(2,3) by (cases t) (auto simp: fits_def heading_def)
  then show ?thesis
    using d end_row [OF d(4), of row "[]" "\<lambda>w. (w, None)"]
    by (auto simp: encode_fields_def seq_def same_style_def)
qed

lemma encode_fields_with_sym_writes:
  assumes "between e t" and "fits t (row @ [s])" and "length columns = length row"
    and "s = (case sym_text of Some s \<Rightarrow> s | None \<Rightarrow> [])"
  shows "\<exists>e'. encode_fields_with_sym W sym_text columns row e = (e', Ok ()) \<and> has_written_header e' \<and> same_style e e' \<and>
    between e' (t @ heading e (columns @ [''symbol'']) @ [row @ [s]])"
proof -
  obtain d where d: "(if has_written_header e then ret else csv_encode_header W columns True) e = (d, Ok ())"
    "has_written_header d" "same_style e d" "between d (t @ heading e (columns @ [''symbol'']))"
    using header_first [of e t columns "[''symbol'']" True] assms by (auto simp: fits_def)
  have "fits (t @ heading e (columns @ [''symbol''])) (row @ [s])"
    using assms(2,3) by (cases t) (auto simp: fits_def heading_def)
  then show ?thesis
    using d end_row [OF d(4), of row "[s]" "csv_write_field W s"] write_field [of s] assms(4)
    by (auto simp: encode_fields_with_sym_def seq_def same_style_def)
qed

lemma flush_between:
  assumes "between e t"
  shows "\<exists>e'. csv_encoder_flush W e = (e', Ok ()) \<and> has_written_header e' = has_written_header e \<and> between e' t"
  using flush_keeps [of "enc_writer e"] assms
  by (auto simp: csv_encoder_flush_def on_writer_def between_def)

end

section \<open>Records of a decoder\<close>

text \<open>\<open>yields D s refs\<close>: the decoder in state \<open>s\<close> returns the references \<open>refs\<close> and then nothing.\<close>

primrec yields :: "('d, 's) decoder_ops \<Rightarrow> 's \<Rightarrow> bytes list \<Rightarrow> bool" where
  "yields D s [] \<longleftrightarrow> (\<exists>s'. decode_record_ref D s = Some (Ok (s', Ok None)))"
| "yields D s (ref # refs) \<longleftrightarrow> (\<exists>s'. decode_record_ref D s = Some (Ok (s', Ok (Some ref))) \<and> yields D s' refs)"

context record_stream
begin

lemma delivers_yields:
  "delivers s vs \<Longrightarrow> \<exists>refs. yields D s refs \<and> map rr_as_ref refs = vs"
proof (induction vs arbitrary: s)
  case Nil
  then show ?case using deliver_Nil by (intro exI [of _ "[]"]) auto
next
  case (Cons v vs)
  obtain s' ref where "decode_record_ref D s = Some (Ok (s', Ok (Some ref)))" "rr_as_ref ref = v" "delivers s' vs"
    using deliver_Cons [OF Cons.prems] by blast
  moreover obtain refs where "yields D s' refs" "map rr_as_ref refs = vs" using Cons.IH [OF calculation(3)] by blast
  ultimately show ?case by (intro exI [of _ "ref # refs"]) auto
qed

end

text \<open>
  \<open>renders C K schema k ts_out pretty_px pretty_ts v row\<close>: the bytes \<open>v\<close> are a record of the schema,
  of the kind \<open>k\<close>, and its fields are \<open>row\<close>.
\<close>

definition renders ::
  "'d date_ops \<Rightarrow> 'd clock_ops \<Rightarrow> Schema \<Rightarrow> record_kind \<Rightarrow> bool \<Rightarrow> bool \<Rightarrow> bool \<Rightarrow> bytes \<Rightarrow> string list \<Rightarrow> bool" where
  "renders C K schema k ts_out pretty_px pretty_ts v row \<longleftrightarrow>
     whole_record v \<and> rr_rtype v = Some (rtype_from_schema schema) \<and> rtype_dispatch_base v = Some k \<and>
     kind_row k C K ts_out pretty_px pretty_ts v = Ok row"

lemma row_of_append:
  assumes "dbn_struct T" and "whole_record v"
  shows "row_of C K T CT ts_out pretty_px pretty_ts (v @ ys) = row_of C K T CT ts_out pretty_px pretty_ts v"
  by (simp add: row_of_def handle_append assms with_ts_out_record dbn_struct.axioms(1))

lemmas all_structs =
  mbo_record.dbn_struct_axioms trade_record.dbn_struct_axioms mbp1_record.dbn_struct_axioms
  mbp10_record.dbn_struct_axioms bbo_record.dbn_struct_axioms cmbp1_record.dbn_struct_axioms
  cbbo_record.dbn_struct_axioms ohlcv_record.dbn_struct_axioms status_record.dbn_struct_axioms
  imb_record.dbn_struct_axioms err1_record.dbn_struct_axioms stat1_record.dbn_struct_axioms
  sm1_record.dbn_struct_axioms sys1_record.dbn_struct_axioms err2_record.dbn_struct_axioms
  stat3_record.dbn_struct_axioms sm2_record.dbn_struct_axioms sys2_record.dbn_struct_axioms
  def1_record.dbn_struct_axioms def2_record.dbn_struct_axioms def3_record.dbn_struct_axioms

lemma kind_row_append:
  "whole_record v \<Longrightarrow> kind_row k C K ts_out pretty_px pretty_ts (v @ ys) = kind_row k C K ts_out pretty_px pretty_ts v"
  by (cases k) (simp_all add: row_of_append all_structs)

lemma dispatch_append:
  assumes "whole_record v"
  shows "rr_rtype (v @ ys) = rr_rtype v" "rtype_dispatch_base (v @ ys) = rtype_dispatch_base v"
proof -
  have "rr_header (v @ ys) = rr_header v" "rr_record_size (v @ ys) = rr_record_size v"
    using assms by (simp_all add: whole_record_def rr_header_append rr_record_size_append)
  then show "rr_rtype (v @ ys) = rr_rtype v" "rtype_dispatch_base (v @ ys) = rtype_dispatch_base v"
    by (simp_all add: rr_rtype_def rtype_dispatch_base_def)
qed

lemma ref_split: "ref = rr_as_ref ref @ drop (rr_record_size ref) ref"
  by (simp add: rr_as_ref_def)

lemma renders_ref:
  assumes "renders C K schema k ts_out pretty_px pretty_ts (rr_as_ref ref) row"
  shows "rr_rtype ref = Some (rtype_from_schema schema)" "rtype_dispatch_base ref = Some k"
    "kind_row k C K ts_out pretty_px pretty_ts ref = Ok row"
  using assms dispatch_append [of "rr_as_ref ref"] kind_row_append [of "rr_as_ref ref"] ref_split [of ref]
  unfolding renders_def by metis+

context csv_table
begin

lemma encode_ref_writes:
  assumes "between e t" and "renders C K schema k ts_out (use_pretty_px e) (use_pretty_ts e) (rr_as_ref ref) row"
    and "fits t row"
  shows "\<exists>e'. csv_checked C K W (rtype_from_schema schema) ts_out ref e = (e', Ok ()) \<and> has_written_header e' \<and>
    same_style e e' \<and> between e' (t @ heading e (ts_out_header ts_out (kind_header k)) @ [row])"
proof -
  note r = renders_ref [OF assms(2)]
  show ?thesis
    using encode_fields_writes [OF assms(1,3), of "ts_out_header ts_out (kind_header k)"] kind_row_width [OF r(3)]
    by (simp add: csv_checked_def csv_encode_record_ref_ts_out_def dispatch_fields_def r)
qed

lemma loop_writes:
  assumes "yields D s refs" and "between e t" and "left \<noteq> Some 0"
    and "list_all2 (\<lambda>ref row. renders C K schema k ts_out (use_pretty_px e) (use_pretty_ts e) (rr_as_ref ref) row) refs tbl"
    and "fits t (ts_out_header ts_out (kind_header k))"
  shows "\<exists>e'. encode_decoded_loop (decode_record_ref D) (csv_checked C K W (rtype_from_schema schema) ts_out)
      (csv_encoder_flush W) left s e = Some (Ok (e', Ok ())) \<and>
    between e' (t @ (if refs = [] then [] else heading e (ts_out_header ts_out (kind_header k))) @
      (case left of None \<Rightarrow> tbl | Some n \<Rightarrow> take n tbl))"
  using assms
proof (induction refs arbitrary: s e t left tbl)
  case Nil
  then obtain s' where "decode_record_ref D s = Some (Ok (s', Ok None))" by auto
  then show ?case
    using flush_between [OF Nil.prems(2)] Nil.prems(4)
    by (subst encode_decoded_loop.simps) (auto split: option.split)
next
  case (Cons ref refs)
  let ?h = "ts_out_header ts_out (kind_header k)"
  obtain s' where s': "decode_record_ref D s = Some (Ok (s', Ok (Some ref)))" "yields D s' refs"
    using Cons.prems(1) by auto
  obtain row tbl' where tbl: "tbl = row # tbl'"
    "renders C K schema k ts_out (use_pretty_px e) (use_pretty_ts e) (rr_as_ref ref) row"
    "list_all2 (\<lambda>ref row. renders C K schema k ts_out (use_pretty_px e) (use_pretty_ts e) (rr_as_ref ref) row) refs tbl'"
    using Cons.prems(4) by (auto simp: list_all2_Cons1)
  have width: "length row = length ?h"
    using kind_row_width renders_ref(3) [OF tbl(2)] by blast
  then have "fits t row" using Cons.prems(5) by (simp add: fits_def)
  then obtain d where d: "csv_checked C K W (rtype_from_schema schema) ts_out ref e = (d, Ok ())" "has_written_header d"
    "same_style e d" "between d (t @ heading e ?h @ [row])"
    using encode_ref_writes [OF Cons.prems(2) tbl(2)] by blast
  have style: "use_pretty_px d = use_pretty_px e" "use_pretty_ts d = use_pretty_ts e"
    using d(3) by (simp_all add: same_style_def)
  have fit: "fits (t @ heading e ?h @ [row]) ?h"
    using Cons.prems(5) width by (cases t) (auto simp: fits_def heading_def)
  show ?case
  proof (cases "left = Some 1")
    case True
    then show ?thesis
      using s'(1) d flush_between [OF d(4)] tbl(1)
      by (subst encode_decoded_loop.simps) auto
  next
    case False
    let ?left = "map_option (\<lambda>n. n - 1) left"
    have left: "?left \<noteq> Some 0" using False Cons.prems(3) by (cases left) auto
    have IH: "\<exists>e'. encode_decoded_loop (decode_record_ref D) (csv_checked C K W (rtype_from_schema schema) ts_out)
        (csv_encoder_flush W) ?left s' d = Some (Ok (e', Ok ())) \<and>
      between e' ((t @ heading e ?h @ [row]) @ (if refs = [] then [] else heading d ?h) @
        (case ?left of None \<Rightarrow> tbl' | Some n \<Rightarrow> take n tbl'))"
      by (rule Cons.IH [OF s'(2) d(4) left _ fit]) (use tbl(3) style in simp)
    have "(case left of None \<Rightarrow> tbl | Some n \<Rightarrow> take n tbl) = row # (case ?left of None \<Rightarrow> tbl' | Some n \<Rightarrow> take n tbl')"
      using tbl(1) Cons.prems(3) by (cases left) (auto simp: take_Cons')
    moreover have "(if refs = [] then [] else heading d ?h) = []" using d(2) by (simp add: heading_def)
    ultimately show ?thesis
      using IH s'(1) d(1) False by (subst encode_decoded_loop.simps) auto
  qed
qed

end

subsection \<open>A table in memory\<close>

definition table_writer :: "(string list list \<times> string list) csv_writer" where
  "table_writer =
     \<lparr>csv_write_field = (\<lambda>f (t, row). ((t, row @ [f]), None)),
      csv_end_record = (\<lambda>(t, row).
        if t = [] \<or> length (hd t) = length row then ((t @ [row], []), None)
        else ((t, []), Some (Csv_UnequalLengths (length (hd t)) (length row)))),
      csv_flush = (\<lambda>w. (w, True))\<rparr>"

interpretation table: csv_table table_writer fst snd
  by unfold_locales (auto simp: table_writer_def)

definition csv_fresh :: "bool \<Rightarrow> bool \<Rightarrow> (string list list \<times> string list) CsvEncoder" where
  "csv_fresh pretty_px pretty_ts =
     \<lparr>enc_writer = ([], []), has_written_header = False, use_pretty_px = pretty_px, use_pretty_ts = pretty_ts\<rparr>"

lemma csv_new_fresh: "csv_new table_writer (\<lambda>_ w. w) ([], []) pretty_px pretty_ts = Ok (csv_fresh pretty_px pretty_ts)"
  by (simp add: csv_new_def csv_build_def csv_builder_new_def csv_fresh_def)

lemma mbp1_renders:
  assumes "well_formed Mbp1Msg_type x" and "rh_rtype (mbp1_hd x) = rtype_as_u8 RType_Mbp1"
  shows "renders C K Schema_Mbp1 Kind_Mbp1Msg False pretty_px pretty_ts (as_ref Mbp1Msg_type x)
    (csv_fields_Mbp1Msg C K pretty_px pretty_ts x)"
proof -
  note view = mbp1_record.well_formed_view(1,2) [OF assms(1), of "[]"]
  have "rr_rtype (as_ref Mbp1Msg_type x) = Some RType_Mbp1"
    using view assms(2) rtype_of_u8 [of RType_Mbp1] by (simp add: rr_rtype_def Mbp1Msg_type_def)
  moreover have "whole_record (as_ref Mbp1Msg_type x)"
    using view mbp1_record.layout.length_put [of x] assms(1) mbp1_record.header_fits by (simp add: whole_record_def well_formed_def)
  ultimately show ?thesis
    using mbp1_record.rr_get_as_ref(1) [of x "[]"] assms(1)
    by (simp add: renders_def rtype_dispatch_base_def row_of_def handle_def well_formed_def)
qed

lemma Mbp1Msg_default_rtype: "rh_rtype (mbp1_hd Mbp1Msg_default) = rtype_as_u8 RType_Mbp1"
  by (simp add: Mbp1Msg_default_def record_header_default_def record_header_new_def)

text \<open>A sample record with a send timestamp.\<close>

definition mbp1_ts_out :: "Mbp1Msg WithTsOut" where
  "mbp1_ts_out = with_ts_out_new Mbp1Msg_type Mbp1Msg_default 7"

lemma mbp1_ts_out_renders:
  defines "v \<equiv> as_ref (with_ts_out_type Mbp1Msg_type) mbp1_ts_out"
  shows "renders C K Schema_Mbp1 Kind_Mbp1Msg True pretty_px pretty_ts v
      (csv_fields_Mbp1Msg C K pretty_px pretty_ts (wto_rec mbp1_ts_out) @ [csv_ts C K pretty_ts 7])"
    and "indexed v" and "rr_as_ref v = v"
proof -
  let ?T = "with_ts_out_type Mbp1Msg_type"
  note W = with_ts_out_record [OF mbp1_record.dbn_struct_axioms]
  have x: "rec_ok ?T mbp1_ts_out" "wto_ts_out mbp1_ts_out = 7" "size_of ?T = 88" "size_of Mbp1Msg_type = 80"
    "header ?T mbp1_ts_out = mbp1_hd (wto_rec mbp1_ts_out)" "has_rtype Mbp1Msg_type (rtype_as_u8 RType_Mbp1)"
    using Mbp1Msg_default_ok
    by (simp_all add: with_ts_out_type_def mbp1_ts_out_def with_ts_out_new_def Let_def Mbp1Msg_type_def well_formed_def
        Mbp1Msg_ok_def Mbp1Msg_default_def)
  have h: "rh_rtype (mbp1_hd (wto_rec mbp1_ts_out)) = rtype_as_u8 RType_Mbp1"
    "header_record_size (mbp1_hd (wto_rec mbp1_ts_out)) = 88"
    using Mbp1Msg_default_rtype
    by (simp_all add: mbp1_ts_out_def with_ts_out_new_def Let_def with_ts_out_type_def Mbp1Msg_type_def
        header_record_size_def LENGTH_MULTIPLIER_def)
  have wf: "well_formed ?T mbp1_ts_out"
    using x h by (simp add: well_formed_def with_ts_out_type_def)
  note view = dbn_record.well_formed_view [OF W wf]
  have size: "rr_record_size v = 88" "length v = 88"
    using view(2) [of "[]"] x codec.length_put [OF dbn_record.layout [OF W] x(1)] by (simp_all add: v_def)
  have rt: "rr_rtype v = Some RType_Mbp1"
    using view(1) [of "[]"] h x(5) rtype_of_u8 [of RType_Mbp1] by (simp add: rr_rtype_def v_def)
  show "rr_as_ref v = v" using size by (simp add: rr_as_ref_def)
  show "renders C K Schema_Mbp1 Kind_Mbp1Msg True pretty_px pretty_ts v
      (csv_fields_Mbp1Msg C K pretty_px pretty_ts (wto_rec mbp1_ts_out) @ [csv_ts C K pretty_ts 7])"
    using rt size x(2)
    by (simp add: renders_def rtype_dispatch_base_def row_of_def whole_record_def v_def csv_with_ts_out_def
        view(4) [where bs = "[]", unfolded append_Nil2])
  have "rr_get Mbp1Msg_type v = Ok (Some (wto_rec mbp1_ts_out))"
    using mbp1_record.rr_get_as_ref(1) [of "wto_rec mbp1_ts_out" "put_u64 (wto_ts_out mbp1_ts_out)"] x h
    by (simp add: v_def with_ts_out_type_def Mbp1Msg_type_def)
  then show "indexed v"
    using size rt by (simp add: indexed_def whole_record_def rr_raw_index_ts_def rtype_dispatch_base_def handle_def)
qed

lemma record_stream_metadata: "record_stream D delivers \<Longrightarrow> record_stream (D\<lparr>dec_md := f\<rparr>) delivers"
  by (simp add: record_stream_def)

text \<open>The kind of the records of a schema in a version.\<close>

definition version_kind :: "u8 \<Rightarrow> Schema \<Rightarrow> record_kind" where
  "version_kind version schema =
     (if schema = Schema_Definition \<and> version \<le> 1 then Kind_InstrumentDefMsgV1
      else if schema = Schema_Definition \<and> version = 2 then Kind_InstrumentDefMsgV2
      else if schema = Schema_Statistics \<and> version \<le> 2 then Kind_StatMsgV1
      else schema_kind schema)"

lemma level_header_eval:
  "csv_level_header 1 = [''bid_px_00'', ''ask_px_00'', ''bid_sz_00'', ''ask_sz_00'', ''bid_ct_00'', ''ask_ct_00'']"
  "csv_clevel_header 1 = [''bid_px_00'', ''ask_px_00'', ''bid_sz_00'', ''ask_sz_00'', ''bid_pb_00'', ''ask_pb_00'']"
  by (simp_all add: csv_level_header_def csv_clevel_header_def csv_column_def zero_fill_def dec_nat.simps char_of_def
      bit_Suc_0_iff)

lemma level_header_10:
  "csv_level_header 10 = concat (map (\<lambda>i. [''bid_px_'' @ i, ''ask_px_'' @ i, ''bid_sz_'' @ i, ''ask_sz_'' @ i, ''bid_ct_'' @ i, ''ask_ct_'' @ i])
     [''00'', ''01'', ''02'', ''03'', ''04'', ''05'', ''06'', ''07'', ''08'', ''09''])"
proof -
  have "[0..<10] = [0, 1, 2, 3, 4, 5, 6, 7, 8, 9 :: nat]" by (simp add: upt_conv_Cons)
  then show ?thesis
    by (simp add: csv_level_header_def csv_column_def zero_fill_def dec_nat.simps char_of_def bit_Suc_0_iff)
qed

lemmas kind_columns =
  csv_header_TradeMsg_def csv_header_Mbp1Msg_def csv_header_Mbp10Msg_def csv_header_OhlcvMsg_def
  csv_header_ImbalanceMsg_def csv_header_StatusMsg_def csv_header_InstrumentDefMsgV1_def
  csv_header_InstrumentDefMsgV2_def csv_header_InstrumentDefMsg_def csv_header_SymbolMappingMsgV1_def
  csv_header_SymbolMappingMsg_def csv_header_ErrorMsgV1_def csv_header_ErrorMsg_def
  csv_header_SystemMsgV1_def csv_header_SystemMsg_def csv_header_StatMsgV1_def csv_header_StatMsg_def
  csv_header_MboMsg_def csv_header_Cmbp1Msg_def csv_header_BboMsg_def csv_header_CbboMsg_def
  csv_header_RecordHeader_def

lemma distinct_kind_header: "distinct (ts_out_header ts_out (kind_header k))"
  by (cases k) (simp_all add: ts_out_header_def kind_columns
      level_header_eval [unfolded One_nat_def] level_header_10)

lemma same_columns:
  "csv_header_InstrumentDefMsgV1 = csv_header_InstrumentDefMsgV2" "csv_header_StatMsgV1 = csv_header_StatMsg"
  by (simp_all add: kind_columns)

context csv_table
begin

lemma header_for_schema_writes:
  assumes "between e []"
  shows "\<exists>e'. csv_encode_header_for_schema W version schema ts_out with_symbol e = (e', Ok ()) \<and> has_written_header e' \<and>
    between e' [ts_out_header ts_out (kind_header (version_kind version schema)) @ (if with_symbol then [''symbol''] else [])]"
proof -
  let ?h = "ts_out_header ts_out (kind_header (version_kind version schema))"
  have small: "version \<le> 1 \<longleftrightarrow> version = 0 \<or> version = 1" "version \<le> 2 \<longleftrightarrow> version = 0 \<or> version = 1 \<or> version = 2"
    "version < 3 \<longleftrightarrow> version = 0 \<or> version = 1 \<or> version = 2"
    by (simp_all add: word_le_nat_alt word_less_nat_alt unat_arith_simps) auto
  have "csv_encode_header_for_schema W version schema ts_out with_symbol =
      seq (csv_encode_header W ?h with_symbol) header_written"
    by (auto simp: csv_encode_header_for_schema_def version_kind_def small schema_kind_def same_columns)
  then show ?thesis
    using encode_header_writes [OF assms, of ?h with_symbol]
    by (auto simp: fits_def seq_def header_written_def between_def)
qed

lemma encode_decoded_writes:
  assumes "yields D s refs" and "between e []" and "\<not> has_written_header e"
    and "md_schema (dec_md D s) = Some schema"
    and "list_all2 (\<lambda>ref row. renders C K schema k (md_ts_out (dec_md D s)) (use_pretty_px e) (use_pretty_ts e) (rr_as_ref ref) row)
      refs tbl"
  shows "\<exists>e'. csv_encode_decoded C K W D s e = Some (Ok (e', Ok ())) \<and>
      between e' (if refs = [] then [] else ts_out_header (md_ts_out (dec_md D s)) (kind_header k) # tbl)"
    and "\<not> md_ts_out (dec_md D s) \<Longrightarrow> k = schema_kind schema \<Longrightarrow> limit \<noteq> 0 \<Longrightarrow>
      \<exists>e'. csv_encode_decoded_with_limit C K W D limit s e = Some (Ok (e', Ok ())) \<and>
        between e' (kind_header k # take (unat limit) tbl)"
proof -
  let ?ts = "md_ts_out (dec_md D s)"
  have "heading e (ts_out_header ?ts (kind_header k)) = [ts_out_header ?ts (kind_header k)]"
    using assms(3) by (simp add: heading_def)
  moreover have "refs = [] \<longleftrightarrow> tbl = []" using assms(5) by (auto simp: list_all2_Nil list_all2_Nil2)
  ultimately show "\<exists>e'. csv_encode_decoded C K W D s e = Some (Ok (e', Ok ())) \<and>
      between e' (if refs = [] then [] else ts_out_header ?ts (kind_header k) # tbl)"
    using loop_writes [OF assms(1,2) _ assms(5), of None] assms(4)
    by (auto simp: csv_encode_decoded_def fits_def)
  assume lim: "\<not> ?ts" "k = schema_kind schema" "limit \<noteq> 0"
  obtain d where d: "csv_encode_header W (kind_header k) False e = (d, Ok ())" "has_written_header d"
    "same_style e d" "between d [kind_header k]"
    using encode_header_writes [OF assms(2), of "kind_header k" False] by (auto simp: fits_def)
  have left: "Some (unat limit) \<noteq> Some 0" using lim(3) by (simp add: unat_eq_zero)
  have "\<exists>e'. encode_decoded_loop (decode_record_ref D) (csv_checked C K W (rtype_from_schema schema) ?ts)
      (csv_encoder_flush W) (Some (unat limit)) s d = Some (Ok (e', Ok ())) \<and>
    between e' ([kind_header k] @ (if refs = [] then [] else heading d (ts_out_header ?ts (kind_header k))) @
      (case Some (unat limit) of None \<Rightarrow> tbl | Some n \<Rightarrow> take n tbl))"
    using assms(5) d(3) lim(1)
    by (intro loop_writes [OF assms(1) d(4) left]) (auto simp: same_style_def fits_def ts_out_header_def)
  moreover have "(if refs = [] then [] else heading d (ts_out_header ?ts (kind_header k))) = []"
    using d(2) by (simp add: heading_def)
  ultimately show "\<exists>e'. csv_encode_decoded_with_limit C K W D limit s e = Some (Ok (e', Ok ())) \<and>
      between e' (kind_header k # take (unat limit) tbl)"
    using d(1) assms(4) lim(2) by (auto simp: csv_encode_decoded_with_limit_def)
qed

end

context csv_table
begin

lemma encode_fields_unequal:
  assumes "between e t" and "has_written_header e" and "\<not> fits t row"
  shows "\<exists>e'. encode_fields W columns row e = (e', Err (Encode ''failed to serialize : '')) \<and> rows (enc_writer e') = t"
proof -
  obtain v where v: "csv_write_fields W row (enc_writer e) = (v, None)" "rows v = t" "cur v = row"
    using write_fields [of row "enc_writer e"] assms(1) by (auto simp: between_def)
  then obtain w' where "csv_end_record W v = (w', Some (Csv_UnequalLengths (length (hd t)) (length row)))" "rows w' = t"
    using end_unequal [of v] assms(3) by (auto simp: fits_def)
  then show ?thesis
    using v(1) assms(2) by (auto simp: encode_fields_def seq_def ret_def on_writer_def csv_then_def serializing_error_def)
qed

lemma limit_ts_out_unequal:
  assumes "yields D s (ref # refs)" and "between e []" and "md_schema (dec_md D s) = Some schema"
    and "md_ts_out (dec_md D s)"
    and "renders C K schema (schema_kind schema) True (use_pretty_px e) (use_pretty_ts e) (rr_as_ref ref) row"
  shows "\<exists>e'. csv_encode_decoded_with_limit C K W D limit s e = Some (Ok (e', Err (Encode ''failed to serialize : ''))) \<and>
    rows (enc_writer e') = [kind_header (schema_kind schema)]"
proof -
  let ?h = "kind_header (schema_kind schema)"
  obtain d where d: "csv_encode_header W ?h False e = (d, Ok ())" "has_written_header d" "same_style e d" "between d [?h]"
    using encode_header_writes [OF assms(2), of ?h False] by (auto simp: fits_def)
  note r = renders_ref [OF assms(5)]
  have style: "use_pretty_px d = use_pretty_px e" "use_pretty_ts d = use_pretty_ts e"
    using d(3) by (simp_all add: same_style_def)
  have "\<not> fits [?h] row" using kind_row_width [OF r(3)] by (simp add: fits_def ts_out_header_def)
  then obtain e' where e': "encode_fields W (ts_out_header True ?h) row d = (e', Err (Encode ''failed to serialize : ''))"
    "rows (enc_writer e') = [?h]"
    using encode_fields_unequal [OF d(4,2)] by blast
  then have "csv_checked C K W (rtype_from_schema schema) True ref d = (e', Err (Encode ''failed to serialize : ''))"
    by (simp add: csv_checked_def csv_encode_record_ref_ts_out_def dispatch_fields_def r style)
  moreover obtain s' where "decode_record_ref D s = Some (Ok (s', Ok (Some ref)))" using assms(1) by auto
  ultimately show ?thesis
    using d(1) assms(3,4) e'(2)
    by (auto simp: csv_encode_decoded_with_limit_def encode_decoded_loop.simps)
qed

end

section \<open>Properties\<close>

text \<open>
  C32. The columns of a record type: whatever the bytes of a record, it is written as as many
  fields as its header has columns, with or without the send timestamp, and no two columns have
  the same name; and the header chosen from a version and a schema has the columns of the records
  of that schema in that version. This holds for every version, although the comment of
  \<^verbatim>\<open>encode_header_for_schema\<close> says that the method only supports the current one.
\<close>

theorem csv_columns:
  assumes "csv_table W rows cur"
  shows "(kind_row k C K ts_out pretty_px pretty_ts record = Ok row \<longrightarrow>
      length row = length (ts_out_header ts_out (kind_header k))) \<and>
    distinct (ts_out_header ts_out (kind_header k)) \<and>
    (rows (enc_writer e) = [] \<and> cur (enc_writer e) = [] \<longrightarrow>
      (\<exists>e'. csv_encode_header_for_schema W version schema ts_out with_symbol e = (e', Ok ()) \<and>
        rows (enc_writer e') = [ts_out_header ts_out (kind_header (version_kind version schema)) @
          (if with_symbol then [''symbol''] else [])]))"
  using kind_row_width distinct_kind_header csv_table.header_for_schema_writes [OF assms, of e version schema ts_out with_symbol]
  by (auto simp: csv_table.between_def [OF assms])

theorem csv_columns_witness:
  "length (csv_fields_Mbp1Msg gregorian unix_clock True False Mbp1Msg_default) = length csv_header_Mbp1Msg \<and>
   (\<exists>e'. csv_encode_header_for_schema table_writer 1 Schema_Definition True False (csv_fresh False False) = (e', Ok ()) \<and>
      fst (enc_writer e') = [csv_header_InstrumentDefMsgV1 @ [''ts_out'']])"
proof
  have "kind_row Kind_Mbp1Msg gregorian unix_clock False True False (as_ref Mbp1Msg_type Mbp1Msg_default) =
      Ok (csv_fields_Mbp1Msg gregorian unix_clock True False Mbp1Msg_default)"
    using mbp1_renders [OF Mbp1Msg_default_ok Mbp1Msg_default_rtype, of gregorian unix_clock True False]
    by (simp add: renders_def)
  then show "length (csv_fields_Mbp1Msg gregorian unix_clock True False Mbp1Msg_default) = length csv_header_Mbp1Msg"
    using csv_columns [OF table.csv_table_axioms, of Kind_Mbp1Msg gregorian unix_clock False]
    by (simp add: ts_out_header_def)
  show "\<exists>e'. csv_encode_header_for_schema table_writer 1 Schema_Definition True False (csv_fresh False False) = (e', Ok ()) \<and>
      fst (enc_writer e') = [csv_header_InstrumentDefMsgV1 @ [''ts_out'']]"
    using csv_columns [OF table.csv_table_axioms, of Kind_Mbp1Msg gregorian unix_clock True False False "[]" "[]"
        "csv_fresh False False" 1 Schema_Definition False]
    by (simp add: csv_fresh_def version_kind_def ts_out_header_def)
qed

text \<open>
  C20. A table: encoding what a decoder returns, with an encoder that has written nothing yet,
  gives a table with the header of the record type followed by one row per record, whatever the
  decoder; a stream without records gives no header. With a limit, and without send timestamps,
  the table has the header of the schema and the rows of the first records.
\<close>

theorem csv_table_of_stream:
  assumes "csv_table W rows cur" and "record_stream D delivers" and "delivers s vs"
    and "md_schema (dec_md D s) = Some schema" and "ts_out = md_ts_out (dec_md D s)"
    and "list_all2 (renders C K schema k ts_out (use_pretty_px e) (use_pretty_ts e)) vs tbl"
    and "rows (enc_writer e) = []" and "cur (enc_writer e) = []" and "\<not> has_written_header e"
  shows "(\<exists>e'. csv_encode_decoded C K W D s e = Some (Ok (e', Ok ())) \<and>
      rows (enc_writer e') = (if vs = [] then [] else ts_out_header ts_out (kind_header k) # tbl)) \<and>
    (\<not> ts_out \<and> k = schema_kind schema \<and> limit \<noteq> 0 \<longrightarrow>
      (\<exists>e'. csv_encode_decoded_with_limit C K W D limit s e = Some (Ok (e', Ok ())) \<and>
        rows (enc_writer e') = kind_header k # take (unat limit) tbl))"
proof -
  obtain refs where refs: "yields D s refs" "map rr_as_ref refs = vs"
    using record_stream.delivers_yields [OF assms(2,3)] by blast
  have between: "csv_table.between rows cur e []" using assms(7,8) by (simp add: csv_table.between_def [OF assms(1)])
  have all: "list_all2 (\<lambda>ref row. renders C K schema k (md_ts_out (dec_md D s)) (use_pretty_px e) (use_pretty_ts e) (rr_as_ref ref) row)
      refs tbl"
    using assms(5,6) refs(2) by (auto simp: list_all2_map1)
  show ?thesis
    using csv_table.encode_decoded_writes [OF assms(1) refs(1) between assms(9,4) all] refs(2) assms(5)
    by (auto simp: csv_table.between_def [OF assms(1)])
qed

theorem csv_table_of_stream_witness:
  "\<exists>d e'. decoder_with_upgrade_policy gregorian list_buffer piece_reader
        ([100, 3], metadata_bytes gregorian (sample_metadata 3) @ put_Mbp1Msg Mbp1Msg_default) VersionUpgradePolicy_AsIs = Some (Ok d) \<and>
     csv_encode_decoded gregorian unix_clock table_writer (sync_ops gregorian list_buffer piece_reader) d (csv_fresh True True) =
       Some (Ok (e', Ok ())) \<and>
     fst (enc_writer e') = [csv_header_Mbp1Msg, csv_fields_Mbp1Msg gregorian unix_clock True True Mbp1Msg_default]"
proof -
  let ?m = "sample_metadata 3" and ?v = "put_Mbp1Msg Mbp1Msg_default" and ?policy = VersionUpgradePolicy_AsIs
  have v: "as_ref Mbp1Msg_type Mbp1Msg_default = ?v" "size_of Mbp1Msg_type = 80" by (simp_all add: Mbp1Msg_type_def)
  have up: "upgrades ?policy ?m ?v ?v"
    unfolding v(1) [symmetric]
    by (rule upgrades_same(1) [OF mbp1_record.dbn_record_axioms Mbp1Msg_default_ok])
      (simp_all add: sample_version DBN_VERSION_def upgrade_for_def is_upgrade_situation_def)
  have ts: "rr_raw_index_ts ?v = Ok UNDEF_TIMESTAMP"
    using raw_index_ts_view [of "RecordEnum_Mbp1 Mbp1Msg_default" "[]"] Mbp1Msg_default_ok v(1)
    by (simp add: Mbp1Msg_type_def Mbp1Msg_default_def)
  have r: "renders gregorian unix_clock Schema_Mbp1 Kind_Mbp1Msg False True True ?v
      (csv_fields_Mbp1Msg gregorian unix_clock True True Mbp1Msg_default)"
    using mbp1_renders [OF Mbp1Msg_default_ok Mbp1Msg_default_rtype] v(1) by simp
  then have "merge_input gregorian piece_reader snd ?policy (([100, 3], metadata_bytes gregorian ?m @ ?v), ?m, [?v], [?v])"
    using up ts sample_streamable(1) sample_piece(1) [OF sample_streamable(1) refl, where sizes = "[3]"]
      sample_piece(2) [OF sample_streamable(1) refl]
    by (auto simp: merge_input_def renders_def indexed_def index_of_def UNDEF_TIMESTAMP_def sample_metadata_simps)
  then obtain d where d: "decoder_with_upgrade_policy gregorian list_buffer piece_reader
        ([100, 3], metadata_bytes gregorian ?m @ ?v) ?policy = Some (Ok d)"
      "dec_metadata d = metadata_upgrade ?policy ?m" "decoder_delivers list_buffer snd d [?v]"
    using list_piece.open_input by blast
  have "md_schema (dec_metadata d) = Some Schema_Mbp1" "\<not> md_ts_out (dec_metadata d)"
    by (simp_all add: d(2) metadata_upgrade_def sample_metadata_simps)
  then show ?thesis
    using csv_table_of_stream [OF table.csv_table_axioms list_piece.merges_as_stream d(3), of Schema_Mbp1 False
        gregorian unix_clock Kind_Mbp1Msg "csv_fresh True True"
        "[csv_fields_Mbp1Msg gregorian unix_clock True True Mbp1Msg_default]"] d(1) r
    by (auto simp: sync_ops_def csv_fresh_def ts_out_header_def)
qed

text \<open>
  With a limit, send timestamps are refused: the header is written without their column, so
  the first record has a field too many and the encoding ends with an error after the header.
\<close>

theorem csv_limit_drops_ts_out:
  assumes "csv_table W rows cur" and "record_stream D delivers" and "delivers s (v # vs)"
    and "md_schema (dec_md D s) = Some schema" and "md_ts_out (dec_md D s)"
    and "renders C K schema (schema_kind schema) True (use_pretty_px e) (use_pretty_ts e) v row"
    and "rows (enc_writer e) = []" and "cur (enc_writer e) = []"
  shows "\<exists>e'. csv_encode_decoded_with_limit C K W D limit s e = Some (Ok (e', Err (Encode ''failed to serialize : ''))) \<and>
    rows (enc_writer e') = [kind_header (schema_kind schema)]"
proof -
  obtain ref refs where refs: "yields D s (ref # refs)" "rr_as_ref ref = v"
    using record_stream.delivers_yields [OF assms(2,3)] by auto
  have "csv_table.between rows cur e []" using assms(7,8) by (simp add: csv_table.between_def [OF assms(1)])
  then show ?thesis
    using csv_table.limit_ts_out_unequal [OF assms(1) refs(1) _ assms(4,5)] assms(6) refs(2) by blast
qed

theorem csv_limit_drops_ts_out_witness:
  "\<exists>e'. csv_encode_decoded_with_limit gregorian unix_clock table_writer
      (listed_ops\<lparr>dec_md := \<lambda>_. (sample_metadata 3)\<lparr>md_ts_out := True\<rparr>\<rparr>) 1
      (None, [Ok (as_ref (with_ts_out_type Mbp1Msg_type) mbp1_ts_out)]) (csv_fresh False False) =
      Some (Ok (e', Err (Encode ''failed to serialize : ''))) \<and>
    fst (enc_writer e') = [csv_header_Mbp1Msg]"
proof -
  let ?v = "as_ref (with_ts_out_type Mbp1Msg_type) mbp1_ts_out"
  have r: "renders gregorian unix_clock Schema_Mbp1 (schema_kind Schema_Mbp1) True False False ?v
      (csv_fields_Mbp1Msg gregorian unix_clock False False (wto_rec mbp1_ts_out) @ [csv_ts gregorian unix_clock False 7])"
    using mbp1_ts_out_renders(1) by (simp add: schema_kind_def)
  have "snd (None, [Ok ?v]) = map Ok [?v] \<and> list_all (\<lambda>x. indexed x \<and> rr_as_ref x = x) [?v]"
    using mbp1_ts_out_renders(2,3) by simp
  then show ?thesis
    using csv_limit_drops_ts_out [OF table.csv_table_axioms record_stream_metadata [OF listed.record_stream_axioms], 
        of "(None, [Ok ?v])" ?v "[]" "\<lambda>_. (sample_metadata 3)\<lparr>md_ts_out := True\<rparr>" Schema_Mbp1 gregorian unix_clock
          "csv_fresh False False"] r
    by (simp add: csv_fresh_def schema_kind_def sample_metadata_simps)
qed

end
