(* ===== verification/Json_Fields.thy ===== *)
theory Json_Fields
  imports Csv_Fields
begin

text \<open>
  The JSON objects of the records and of the metadata: rust/dbn/src/encode/json/serialize.rs, and
  for every record struct what the derive macro \<^verbatim>\<open>JsonSerialize\<close> generates from the attributes of
  its fields. The macro and the csv one read the same attributes; the agreement of the two
  renderings is proved at the end.

  The json_writer crate turns calls into text; here a value is the sequence of calls, as an
  abstract syntax of JSON. A string that the code escapes by itself and passes as a fragment
  between quotes is a \<open>JRawStr\<close>.
\<close>

section \<open>Definitions\<close>

datatype json =
    JNull
  | JNum int
  | JBool bool
  | JStr string
  | JRawStr string
  | JArr "json list"
  | JObj "(string \<times> json) list"

type_synonym json_object = "(string \<times> json) list"

subsection \<open>Single fields\<close>

definition json_unsigned :: "'a::len word \<Rightarrow> json" where
  "json_unsigned w = JNum (uint w)"

definition json_signed :: "'a::len word \<Rightarrow> json" where
  "json_signed w = JNum (sint w)"

definition json_u64 :: "u64 \<Rightarrow> json" where
  "json_u64 w = JStr (dec_nat (unat w))"

definition json_i64 :: "i64 \<Rightarrow> json" where
  "json_i64 w = JStr (dec_int (sint w))"

definition json_flags :: "flag_set \<Rightarrow> json" where
  "json_flags f = json_unsigned (raw f)"

text \<open>A byte as a \<^verbatim>\<open>char\<close>, encoded as UTF-8.\<close>

definition json_byte :: "u8 \<Rightarrow> json" where
  "json_byte b =
     JStr (of_bytes (if b < 128 then [b] else [192 + b div 64, 128 + b mod 64]))"

definition json_cstr :: "bytes \<Rightarrow> json" where
  "json_cstr chars = JStr (case c_chars_to_str chars of Ok s \<Rightarrow> s | _ \<Rightarrow> [])"

definition json_c_char :: "c_char \<Rightarrow> json" where
  "json_c_char c = (if c = 0 then JNull else JRawStr (escape_default c))"

definition json_px :: "bool \<Rightarrow> i64 \<Rightarrow> json" where
  "json_px pretty_px px =
     (if pretty_px then (if px = UNDEF_PRICE then JNull else JStr (fmt_px px)) else JStr (dec_int (sint px)))"

definition json_ts :: "'d date_ops \<Rightarrow> 'd clock_ops \<Rightarrow> bool \<Rightarrow> u64 \<Rightarrow> json" where
  "json_ts C K pretty_ts ts =
     (if pretty_ts then (if ts = 0 \<or> ts = UNDEF_TIMESTAMP then JNull else JStr (fmt_ts C K ts))
      else JStr (dec_nat (unat ts)))"

definition json_header :: "'d date_ops \<Rightarrow> 'd clock_ops \<Rightarrow> bool \<Rightarrow> RecordHeader \<Rightarrow> json" where
  "json_header C K pretty_ts r =
     JObj [(''ts_event'', json_ts C K pretty_ts (rh_ts_event r)), (''rtype'', json_unsigned (rh_rtype r)),
       (''publisher_id'', json_unsigned (rh_publisher_id r)), (''instrument_id'', json_unsigned (rh_instrument_id r))]"

definition json_levels :: "bool \<Rightarrow> BidAskPair list \<Rightarrow> json" where
  "json_levels pretty_px ls =
     JArr (map (\<lambda>l. JObj [(''bid_px'', json_px pretty_px (bap_bid_px l)), (''ask_px'', json_px pretty_px (bap_ask_px l)),
       (''bid_sz'', json_unsigned (bap_bid_sz l)), (''ask_sz'', json_unsigned (bap_ask_sz l)),
       (''bid_ct'', json_unsigned (bap_bid_ct l)), (''ask_ct'', json_unsigned (bap_ask_ct l))]) ls)"

definition json_clevels :: "bool \<Rightarrow> ConsolidatedBidAskPair list \<Rightarrow> json" where
  "json_clevels pretty_px ls =
     JArr (map (\<lambda>l. JObj [(''bid_px'', json_px pretty_px (cbap_bid_px l)), (''ask_px'', json_px pretty_px (cbap_ask_px l)),
       (''bid_sz'', json_unsigned (cbap_bid_sz l)), (''ask_sz'', json_unsigned (cbap_ask_sz l)),
       (''bid_pb'', json_unsigned (cbap_bid_pb l)), (''ask_pb'', json_unsigned (cbap_ask_pb l))]) ls)"

subsection \<open>Metadata\<close>

text \<open>\<^verbatim>\<open>DATE_FORMAT\<close> of rust/dbn/src/metadata.rs, and the date as a number.\<close>

definition fmt_date :: "'d date_ops \<Rightarrow> 'd \<Rightarrow> string" where
  "fmt_date C d =
     (if year C d < 0 then ''-'' else []) @ zero_fill 4 (dec_nat (nat \<bar>year C d\<bar>)) @ ''-'' @
     zero_fill 2 (dec_nat (month C d)) @ ''-'' @ zero_fill 2 (dec_nat (day C d))"

definition json_date :: "'d date_ops \<Rightarrow> bool \<Rightarrow> 'd \<Rightarrow> json" where
  "json_date C pretty_ts d =
     (if pretty_ts then JStr (fmt_date C d)
      else json_unsigned (word_of_int (year C d) * 10000 + word_of_nat (month C d) * 100 +
        word_of_nat (day C d) :: u32))"

definition json_opt_str :: "string option \<Rightarrow> json" where
  "json_opt_str s = (case s of None \<Rightarrow> JNull | Some s \<Rightarrow> JStr s)"

definition json_metadata :: "'d date_ops \<Rightarrow> 'd clock_ops \<Rightarrow> bool \<Rightarrow> 'd Metadata \<Rightarrow> json_object" where
  "json_metadata C K pretty_ts m =
     [(''version'', json_unsigned (md_version m)), (''dataset'', JStr (md_dataset m)),
      (''schema'', json_opt_str (map_option schema_as_str (md_schema m))),
      (''start'', json_ts C K pretty_ts (md_start m)),
      (''end'', case md_end m of Some t \<Rightarrow> json_ts C K pretty_ts t | None \<Rightarrow> JNull),
      (''limit'', json_opt_str (map_option (\<lambda>n. dec_nat (unat n)) (md_limit m))),
      (''stype_in'', json_opt_str (map_option stype_as_str (md_stype_in m))),
      (''stype_out'', JStr (stype_as_str (md_stype_out m))), (''ts_out'', JBool (md_ts_out m)),
      (''symbol_cstr_len'', json_unsigned (word_of_nat (md_symbol_cstr_len m) :: u32)),
      (''symbols'', JArr (map JStr (md_symbols m))), (''partial'', JArr (map JStr (md_partial m))),
      (''not_found'', JArr (map JStr (md_not_found m))),
      (''mappings'', JArr (map (\<lambda>sm. JObj
         [(''raw_symbol'', JStr (raw_symbol sm)),
          (''intervals'', JArr (map (\<lambda>i. JObj
             [(''start_date'', json_date C pretty_ts (start_date i)), (''end_date'', json_date C pretty_ts (end_date i)),
              (''symbol'', JStr (symbol i))]) (intervals sm)))]) (md_mappings m)))]"

subsection \<open>Records\<close>

definition json_fields_MboMsg :: "'d date_ops \<Rightarrow> 'd clock_ops \<Rightarrow> bool \<Rightarrow> bool \<Rightarrow> MboMsg \<Rightarrow> json_object" where
  "json_fields_MboMsg C K pretty_px pretty_ts r =
     [(''ts_recv'', json_ts C K pretty_ts (mbo_ts_recv r)),
      (''hd'', json_header C K pretty_ts (mbo_hd r)), (''action'', json_c_char (mbo_action r)),
      (''side'', json_c_char (mbo_side r)), (''price'', json_px pretty_px (mbo_price r)),
      (''size'', json_unsigned (mbo_size r)),
      (''channel_id'', json_unsigned (mbo_channel_id r)),
      (''order_id'', json_u64 (mbo_order_id r)), (''flags'', json_flags (mbo_flags r)),
      (''ts_in_delta'', json_signed (mbo_ts_in_delta r)),
      (''sequence'', json_unsigned (mbo_sequence r))]"

definition json_fields_TradeMsg :: "'d date_ops \<Rightarrow> 'd clock_ops \<Rightarrow> bool \<Rightarrow> bool \<Rightarrow> TradeMsg \<Rightarrow> json_object" where
  "json_fields_TradeMsg C K pretty_px pretty_ts r =
     [(''ts_recv'', json_ts C K pretty_ts (trade_ts_recv r)),
      (''hd'', json_header C K pretty_ts (trade_hd r)),
      (''action'', json_c_char (trade_action r)), (''side'', json_c_char (trade_side r)),
      (''depth'', json_unsigned (trade_depth r)),
      (''price'', json_px pretty_px (trade_price r)), (''size'', json_unsigned (trade_size r)),
      (''flags'', json_flags (trade_flags r)),
      (''ts_in_delta'', json_signed (trade_ts_in_delta r)),
      (''sequence'', json_unsigned (trade_sequence r))]"

definition json_fields_Mbp1Msg :: "'d date_ops \<Rightarrow> 'd clock_ops \<Rightarrow> bool \<Rightarrow> bool \<Rightarrow> Mbp1Msg \<Rightarrow> json_object" where
  "json_fields_Mbp1Msg C K pretty_px pretty_ts r =
     [(''ts_recv'', json_ts C K pretty_ts (mbp1_ts_recv r)),
      (''hd'', json_header C K pretty_ts (mbp1_hd r)),
      (''action'', json_c_char (mbp1_action r)), (''side'', json_c_char (mbp1_side r)),
      (''depth'', json_unsigned (mbp1_depth r)), (''price'', json_px pretty_px (mbp1_price r)),
      (''size'', json_unsigned (mbp1_size r)), (''flags'', json_flags (mbp1_flags r)),
      (''ts_in_delta'', json_signed (mbp1_ts_in_delta r)),
      (''sequence'', json_unsigned (mbp1_sequence r)),
      (''levels'', json_levels pretty_px (mbp1_levels r))]"

definition json_fields_Mbp10Msg :: "'d date_ops \<Rightarrow> 'd clock_ops \<Rightarrow> bool \<Rightarrow> bool \<Rightarrow> Mbp10Msg \<Rightarrow> json_object" where
  "json_fields_Mbp10Msg C K pretty_px pretty_ts r =
     [(''ts_recv'', json_ts C K pretty_ts (mbp10_ts_recv r)),
      (''hd'', json_header C K pretty_ts (mbp10_hd r)),
      (''action'', json_c_char (mbp10_action r)), (''side'', json_c_char (mbp10_side r)),
      (''depth'', json_unsigned (mbp10_depth r)),
      (''price'', json_px pretty_px (mbp10_price r)), (''size'', json_unsigned (mbp10_size r)),
      (''flags'', json_flags (mbp10_flags r)),
      (''ts_in_delta'', json_signed (mbp10_ts_in_delta r)),
      (''sequence'', json_unsigned (mbp10_sequence r)),
      (''levels'', json_levels pretty_px (mbp10_levels r))]"

definition json_fields_BboMsg :: "'d date_ops \<Rightarrow> 'd clock_ops \<Rightarrow> bool \<Rightarrow> bool \<Rightarrow> BboMsg \<Rightarrow> json_object" where
  "json_fields_BboMsg C K pretty_px pretty_ts r =
     [(''ts_recv'', json_ts C K pretty_ts (bbo_ts_recv r)),
      (''hd'', json_header C K pretty_ts (bbo_hd r)), (''side'', json_c_char (bbo_side r)),
      (''price'', json_px pretty_px (bbo_price r)), (''size'', json_unsigned (bbo_size r)),
      (''flags'', json_flags (bbo_flags r)), (''sequence'', json_unsigned (bbo_sequence r)),
      (''levels'', json_levels pretty_px (bbo_levels r))]"

definition json_fields_Cmbp1Msg :: "'d date_ops \<Rightarrow> 'd clock_ops \<Rightarrow> bool \<Rightarrow> bool \<Rightarrow> Cmbp1Msg \<Rightarrow> json_object" where
  "json_fields_Cmbp1Msg C K pretty_px pretty_ts r =
     [(''ts_recv'', json_ts C K pretty_ts (cmbp1_ts_recv r)),
      (''hd'', json_header C K pretty_ts (cmbp1_hd r)),
      (''action'', json_c_char (cmbp1_action r)), (''side'', json_c_char (cmbp1_side r)),
      (''price'', json_px pretty_px (cmbp1_price r)), (''size'', json_unsigned (cmbp1_size r)),
      (''flags'', json_flags (cmbp1_flags r)),
      (''ts_in_delta'', json_signed (cmbp1_ts_in_delta r)),
      (''levels'', json_clevels pretty_px (cmbp1_levels r))]"

definition json_fields_CbboMsg :: "'d date_ops \<Rightarrow> 'd clock_ops \<Rightarrow> bool \<Rightarrow> bool \<Rightarrow> CbboMsg \<Rightarrow> json_object" where
  "json_fields_CbboMsg C K pretty_px pretty_ts r =
     [(''ts_recv'', json_ts C K pretty_ts (cbbo_ts_recv r)),
      (''hd'', json_header C K pretty_ts (cbbo_hd r)), (''side'', json_c_char (cbbo_side r)),
      (''price'', json_px pretty_px (cbbo_price r)), (''size'', json_unsigned (cbbo_size r)),
      (''flags'', json_flags (cbbo_flags r)),
      (''levels'', json_clevels pretty_px (cbbo_levels r))]"

definition json_fields_OhlcvMsg :: "'d date_ops \<Rightarrow> 'd clock_ops \<Rightarrow> bool \<Rightarrow> bool \<Rightarrow> OhlcvMsg \<Rightarrow> json_object" where
  "json_fields_OhlcvMsg C K pretty_px pretty_ts r =
     [(''hd'', json_header C K pretty_ts (ohlcv_hd r)),
      (''open'', json_px pretty_px (ohlcv_open r)),
      (''high'', json_px pretty_px (ohlcv_high r)), (''low'', json_px pretty_px (ohlcv_low r)),
      (''close'', json_px pretty_px (ohlcv_close r)), (''volume'', json_u64 (ohlcv_volume r))]"

definition json_fields_StatusMsg :: "'d date_ops \<Rightarrow> 'd clock_ops \<Rightarrow> bool \<Rightarrow> bool \<Rightarrow> StatusMsg \<Rightarrow> json_object" where
  "json_fields_StatusMsg C K pretty_px pretty_ts r =
     [(''ts_recv'', json_ts C K pretty_ts (status_ts_recv r)),
      (''hd'', json_header C K pretty_ts (status_hd r)),
      (''action'', json_unsigned (status_action r)),
      (''reason'', json_unsigned (status_reason r)),
      (''trading_event'', json_unsigned (status_trading_event r)),
      (''is_trading'', json_c_char (status_is_trading r)),
      (''is_quoting'', json_c_char (status_is_quoting r)),
      (''is_short_sell_restricted'', json_c_char (status_is_short_sell_restricted r))]"

definition json_fields_InstrumentDefMsg :: "'d date_ops \<Rightarrow> 'd clock_ops \<Rightarrow> bool \<Rightarrow> bool \<Rightarrow> InstrumentDefMsg \<Rightarrow> json_object" where
  "json_fields_InstrumentDefMsg C K pretty_px pretty_ts r =
     [(''ts_recv'', json_ts C K pretty_ts (def3_ts_recv r)),
      (''hd'', json_header C K pretty_ts (def3_hd r)),
      (''raw_symbol'', json_cstr (def3_raw_symbol r)),
      (''security_update_action'', json_c_char (def3_security_update_action r)),
      (''instrument_class'', json_c_char (def3_instrument_class r)),
      (''min_price_increment'', json_px pretty_px (def3_min_price_increment r)),
      (''display_factor'', json_px pretty_px (def3_display_factor r)),
      (''expiration'', json_ts C K pretty_ts (def3_expiration r)),
      (''activation'', json_ts C K pretty_ts (def3_activation r)),
      (''high_limit_price'', json_px pretty_px (def3_high_limit_price r)),
      (''low_limit_price'', json_px pretty_px (def3_low_limit_price r)),
      (''max_price_variation'', json_px pretty_px (def3_max_price_variation r)),
      (''unit_of_measure_qty'', json_px pretty_px (def3_unit_of_measure_qty r)),
      (''min_price_increment_amount'', json_px pretty_px (def3_min_price_increment_amount r)),
      (''price_ratio'', json_px pretty_px (def3_price_ratio r)),
      (''inst_attrib_value'', json_signed (def3_inst_attrib_value r)),
      (''underlying_id'', json_unsigned (def3_underlying_id r)),
      (''raw_instrument_id'', json_u64 (def3_raw_instrument_id r)),
      (''market_depth_implied'', json_signed (def3_market_depth_implied r)),
      (''market_depth'', json_signed (def3_market_depth r)),
      (''market_segment_id'', json_unsigned (def3_market_segment_id r)),
      (''max_trade_vol'', json_unsigned (def3_max_trade_vol r)),
      (''min_lot_size'', json_signed (def3_min_lot_size r)),
      (''min_lot_size_block'', json_signed (def3_min_lot_size_block r)),
      (''min_lot_size_round_lot'', json_signed (def3_min_lot_size_round_lot r)),
      (''min_trade_vol'', json_unsigned (def3_min_trade_vol r)),
      (''contract_multiplier'', json_signed (def3_contract_multiplier r)),
      (''decay_quantity'', json_signed (def3_decay_quantity r)),
      (''original_contract_size'', json_signed (def3_original_contract_size r)),
      (''appl_id'', json_signed (def3_appl_id r)),
      (''maturity_year'', json_unsigned (def3_maturity_year r)),
      (''decay_start_date'', json_unsigned (def3_decay_start_date r)),
      (''channel_id'', json_unsigned (def3_channel_id r)),
      (''currency'', json_cstr (def3_currency r)),
      (''settl_currency'', json_cstr (def3_settl_currency r)),
      (''secsubtype'', json_cstr (def3_secsubtype r)), (''group'', json_cstr (def3_group r)),
      (''exchange'', json_cstr (def3_exchange r)), (''asset'', json_cstr (def3_asset r)),
      (''cfi'', json_cstr (def3_cfi r)), (''security_type'', json_cstr (def3_security_type r)),
      (''unit_of_measure'', json_cstr (def3_unit_of_measure r)),
      (''underlying'', json_cstr (def3_underlying r)),
      (''strike_price_currency'', json_cstr (def3_strike_price_currency r)),
      (''strike_price'', json_px pretty_px (def3_strike_price r)),
      (''match_algorithm'', json_c_char (def3_match_algorithm r)),
      (''main_fraction'', json_unsigned (def3_main_fraction r)),
      (''price_display_format'', json_unsigned (def3_price_display_format r)),
      (''sub_fraction'', json_unsigned (def3_sub_fraction r)),
      (''underlying_product'', json_unsigned (def3_underlying_product r)),
      (''maturity_month'', json_unsigned (def3_maturity_month r)),
      (''maturity_day'', json_unsigned (def3_maturity_day r)),
      (''maturity_week'', json_unsigned (def3_maturity_week r)),
      (''user_defined_instrument'', json_c_char (def3_user_defined_instrument r)),
      (''contract_multiplier_unit'', json_signed (def3_contract_multiplier_unit r)),
      (''flow_schedule_type'', json_signed (def3_flow_schedule_type r)),
      (''tick_rule'', json_unsigned (def3_tick_rule r)),
      (''leg_count'', json_unsigned (def3_leg_count r)),
      (''leg_index'', json_unsigned (def3_leg_index r)),
      (''leg_instrument_id'', json_unsigned (def3_leg_instrument_id r)),
      (''leg_raw_symbol'', json_cstr (def3_leg_raw_symbol r)),
      (''leg_instrument_class'', json_c_char (def3_leg_instrument_class r)),
      (''leg_side'', json_c_char (def3_leg_side r)),
      (''leg_price'', json_px pretty_px (def3_leg_price r)),
      (''leg_delta'', json_px pretty_px (def3_leg_delta r)),
      (''leg_ratio_price_numerator'', json_signed (def3_leg_ratio_price_numerator r)),
      (''leg_ratio_price_denominator'', json_signed (def3_leg_ratio_price_denominator r)),
      (''leg_ratio_qty_numerator'', json_signed (def3_leg_ratio_qty_numerator r)),
      (''leg_ratio_qty_denominator'', json_signed (def3_leg_ratio_qty_denominator r)),
      (''leg_underlying_id'', json_unsigned (def3_leg_underlying_id r))]"

definition json_fields_ImbalanceMsg :: "'d date_ops \<Rightarrow> 'd clock_ops \<Rightarrow> bool \<Rightarrow> bool \<Rightarrow> ImbalanceMsg \<Rightarrow> json_object" where
  "json_fields_ImbalanceMsg C K pretty_px pretty_ts r =
     [(''ts_recv'', json_ts C K pretty_ts (imb_ts_recv r)),
      (''hd'', json_header C K pretty_ts (imb_hd r)),
      (''ref_price'', json_px pretty_px (imb_ref_price r)),
      (''auction_time'', json_ts C K pretty_ts (imb_auction_time r)),
      (''cont_book_clr_price'', json_px pretty_px (imb_cont_book_clr_price r)),
      (''auct_interest_clr_price'', json_px pretty_px (imb_auct_interest_clr_price r)),
      (''ssr_filling_price'', json_px pretty_px (imb_ssr_filling_price r)),
      (''ind_match_price'', json_px pretty_px (imb_ind_match_price r)),
      (''upper_collar'', json_px pretty_px (imb_upper_collar r)),
      (''lower_collar'', json_px pretty_px (imb_lower_collar r)),
      (''paired_qty'', json_unsigned (imb_paired_qty r)),
      (''total_imbalance_qty'', json_unsigned (imb_total_imbalance_qty r)),
      (''market_imbalance_qty'', json_unsigned (imb_market_imbalance_qty r)),
      (''unpaired_qty'', json_unsigned (imb_unpaired_qty r)),
      (''auction_type'', json_c_char (imb_auction_type r)),
      (''side'', json_c_char (imb_side r)),
      (''auction_status'', json_unsigned (imb_auction_status r)),
      (''freeze_status'', json_unsigned (imb_freeze_status r)),
      (''num_extensions'', json_unsigned (imb_num_extensions r)),
      (''unpaired_side'', json_c_char (imb_unpaired_side r)),
      (''significant_imbalance'', json_c_char (imb_significant_imbalance r))]"

definition json_fields_StatMsg :: "'d date_ops \<Rightarrow> 'd clock_ops \<Rightarrow> bool \<Rightarrow> bool \<Rightarrow> StatMsg \<Rightarrow> json_object" where
  "json_fields_StatMsg C K pretty_px pretty_ts r =
     [(''ts_recv'', json_ts C K pretty_ts (stat3_ts_recv r)),
      (''hd'', json_header C K pretty_ts (stat3_hd r)),
      (''ts_ref'', json_ts C K pretty_ts (stat3_ts_ref r)),
      (''price'', json_px pretty_px (stat3_price r)),
      (''quantity'', json_i64 (stat3_quantity r)),
      (''sequence'', json_unsigned (stat3_sequence r)),
      (''ts_in_delta'', json_signed (stat3_ts_in_delta r)),
      (''stat_type'', json_unsigned (stat3_stat_type r)),
      (''channel_id'', json_unsigned (stat3_channel_id r)),
      (''update_action'', json_unsigned (stat3_update_action r)),
      (''stat_flags'', json_unsigned (stat3_stat_flags r))]"

definition json_fields_ErrorMsg :: "'d date_ops \<Rightarrow> 'd clock_ops \<Rightarrow> bool \<Rightarrow> bool \<Rightarrow> ErrorMsg \<Rightarrow> json_object" where
  "json_fields_ErrorMsg C K pretty_px pretty_ts r =
     [(''hd'', json_header C K pretty_ts (err2_hd r)), (''err'', json_cstr (err2_err r)),
      (''code'', json_unsigned (err2_code r)), (''is_last'', json_unsigned (err2_is_last r))]"

definition json_fields_SymbolMappingMsg :: "'d date_ops \<Rightarrow> 'd clock_ops \<Rightarrow> bool \<Rightarrow> bool \<Rightarrow> SymbolMappingMsg \<Rightarrow> json_object" where
  "json_fields_SymbolMappingMsg C K pretty_px pretty_ts r =
     [(''hd'', json_header C K pretty_ts (sm2_hd r)),
      (''stype_in'', json_unsigned (sm2_stype_in r)),
      (''stype_in_symbol'', json_cstr (sm2_stype_in_symbol r)),
      (''stype_out'', json_unsigned (sm2_stype_out r)),
      (''stype_out_symbol'', json_cstr (sm2_stype_out_symbol r)),
      (''start_ts'', json_ts C K pretty_ts (sm2_start_ts r)),
      (''end_ts'', json_ts C K pretty_ts (sm2_end_ts r))]"

definition json_fields_SystemMsg :: "'d date_ops \<Rightarrow> 'd clock_ops \<Rightarrow> bool \<Rightarrow> bool \<Rightarrow> SystemMsg \<Rightarrow> json_object" where
  "json_fields_SystemMsg C K pretty_px pretty_ts r =
     [(''hd'', json_header C K pretty_ts (sys2_hd r)), (''msg'', json_cstr (sys2_msg r)),
      (''code'', json_unsigned (sys2_code r))]"

definition json_fields_ErrorMsgV1 :: "'d date_ops \<Rightarrow> 'd clock_ops \<Rightarrow> bool \<Rightarrow> bool \<Rightarrow> ErrorMsgV1 \<Rightarrow> json_object" where
  "json_fields_ErrorMsgV1 C K pretty_px pretty_ts r =
     [(''hd'', json_header C K pretty_ts (err1_hd r)), (''err'', json_cstr (err1_err r))]"

definition json_fields_InstrumentDefMsgV1 :: "'d date_ops \<Rightarrow> 'd clock_ops \<Rightarrow> bool \<Rightarrow> bool \<Rightarrow> InstrumentDefMsgV1 \<Rightarrow> json_object" where
  "json_fields_InstrumentDefMsgV1 C K pretty_px pretty_ts r =
     [(''ts_recv'', json_ts C K pretty_ts (def1_ts_recv r)),
      (''hd'', json_header C K pretty_ts (def1_hd r)),
      (''raw_symbol'', json_cstr (def1_raw_symbol r)),
      (''security_update_action'', json_byte (def1_security_update_action r)),
      (''instrument_class'', json_c_char (def1_instrument_class r)),
      (''min_price_increment'', json_px pretty_px (def1_min_price_increment r)),
      (''display_factor'', json_px pretty_px (def1_display_factor r)),
      (''expiration'', json_ts C K pretty_ts (def1_expiration r)),
      (''activation'', json_ts C K pretty_ts (def1_activation r)),
      (''high_limit_price'', json_px pretty_px (def1_high_limit_price r)),
      (''low_limit_price'', json_px pretty_px (def1_low_limit_price r)),
      (''max_price_variation'', json_px pretty_px (def1_max_price_variation r)),
      (''trading_reference_price'', json_px pretty_px (def1_trading_reference_price r)),
      (''unit_of_measure_qty'', json_px pretty_px (def1_unit_of_measure_qty r)),
      (''min_price_increment_amount'', json_px pretty_px (def1_min_price_increment_amount r)),
      (''price_ratio'', json_px pretty_px (def1_price_ratio r)),
      (''inst_attrib_value'', json_signed (def1_inst_attrib_value r)),
      (''underlying_id'', json_unsigned (def1_underlying_id r)),
      (''raw_instrument_id'', json_unsigned (def1_raw_instrument_id r)),
      (''market_depth_implied'', json_signed (def1_market_depth_implied r)),
      (''market_depth'', json_signed (def1_market_depth r)),
      (''market_segment_id'', json_unsigned (def1_market_segment_id r)),
      (''max_trade_vol'', json_unsigned (def1_max_trade_vol r)),
      (''min_lot_size'', json_signed (def1_min_lot_size r)),
      (''min_lot_size_block'', json_signed (def1_min_lot_size_block r)),
      (''min_lot_size_round_lot'', json_signed (def1_min_lot_size_round_lot r)),
      (''min_trade_vol'', json_unsigned (def1_min_trade_vol r)),
      (''contract_multiplier'', json_signed (def1_contract_multiplier r)),
      (''decay_quantity'', json_signed (def1_decay_quantity r)),
      (''original_contract_size'', json_signed (def1_original_contract_size r)),
      (''trading_reference_date'', json_unsigned (def1_trading_reference_date r)),
      (''appl_id'', json_signed (def1_appl_id r)),
      (''maturity_year'', json_unsigned (def1_maturity_year r)),
      (''decay_start_date'', json_unsigned (def1_decay_start_date r)),
      (''channel_id'', json_unsigned (def1_channel_id r)),
      (''currency'', json_cstr (def1_currency r)),
      (''settl_currency'', json_cstr (def1_settl_currency r)),
      (''secsubtype'', json_cstr (def1_secsubtype r)), (''group'', json_cstr (def1_group r)),
      (''exchange'', json_cstr (def1_exchange r)), (''asset'', json_cstr (def1_asset r)),
      (''cfi'', json_cstr (def1_cfi r)), (''security_type'', json_cstr (def1_security_type r)),
      (''unit_of_measure'', json_cstr (def1_unit_of_measure r)),
      (''underlying'', json_cstr (def1_underlying r)),
      (''strike_price_currency'', json_cstr (def1_strike_price_currency r)),
      (''strike_price'', json_px pretty_px (def1_strike_price r)),
      (''match_algorithm'', json_c_char (def1_match_algorithm r)),
      (''md_security_trading_status'', json_unsigned (def1_md_security_trading_status r)),
      (''main_fraction'', json_unsigned (def1_main_fraction r)),
      (''price_display_format'', json_unsigned (def1_price_display_format r)),
      (''settl_price_type'', json_unsigned (def1_settl_price_type r)),
      (''sub_fraction'', json_unsigned (def1_sub_fraction r)),
      (''underlying_product'', json_unsigned (def1_underlying_product r)),
      (''maturity_month'', json_unsigned (def1_maturity_month r)),
      (''maturity_day'', json_unsigned (def1_maturity_day r)),
      (''maturity_week'', json_unsigned (def1_maturity_week r)),
      (''user_defined_instrument'', json_byte (def1_user_defined_instrument r)),
      (''contract_multiplier_unit'', json_signed (def1_contract_multiplier_unit r)),
      (''flow_schedule_type'', json_signed (def1_flow_schedule_type r)),
      (''tick_rule'', json_unsigned (def1_tick_rule r))]"

definition json_fields_StatMsgV1 :: "'d date_ops \<Rightarrow> 'd clock_ops \<Rightarrow> bool \<Rightarrow> bool \<Rightarrow> StatMsgV1 \<Rightarrow> json_object" where
  "json_fields_StatMsgV1 C K pretty_px pretty_ts r =
     [(''ts_recv'', json_ts C K pretty_ts (stat1_ts_recv r)),
      (''hd'', json_header C K pretty_ts (stat1_hd r)),
      (''ts_ref'', json_ts C K pretty_ts (stat1_ts_ref r)),
      (''price'', json_px pretty_px (stat1_price r)),
      (''quantity'', json_signed (stat1_quantity r)),
      (''sequence'', json_unsigned (stat1_sequence r)),
      (''ts_in_delta'', json_signed (stat1_ts_in_delta r)),
      (''stat_type'', json_unsigned (stat1_stat_type r)),
      (''channel_id'', json_unsigned (stat1_channel_id r)),
      (''update_action'', json_unsigned (stat1_update_action r)),
      (''stat_flags'', json_unsigned (stat1_stat_flags r))]"

definition json_fields_SymbolMappingMsgV1 :: "'d date_ops \<Rightarrow> 'd clock_ops \<Rightarrow> bool \<Rightarrow> bool \<Rightarrow> SymbolMappingMsgV1 \<Rightarrow> json_object" where
  "json_fields_SymbolMappingMsgV1 C K pretty_px pretty_ts r =
     [(''hd'', json_header C K pretty_ts (sm1_hd r)),
      (''stype_in_symbol'', json_cstr (sm1_stype_in_symbol r)),
      (''stype_out_symbol'', json_cstr (sm1_stype_out_symbol r)),
      (''start_ts'', json_ts C K pretty_ts (sm1_start_ts r)),
      (''end_ts'', json_ts C K pretty_ts (sm1_end_ts r))]"

definition json_fields_SystemMsgV1 :: "'d date_ops \<Rightarrow> 'd clock_ops \<Rightarrow> bool \<Rightarrow> bool \<Rightarrow> SystemMsgV1 \<Rightarrow> json_object" where
  "json_fields_SystemMsgV1 C K pretty_px pretty_ts r =
     [(''hd'', json_header C K pretty_ts (sys1_hd r)), (''msg'', json_cstr (sys1_msg r))]"

definition json_fields_InstrumentDefMsgV2 :: "'d date_ops \<Rightarrow> 'd clock_ops \<Rightarrow> bool \<Rightarrow> bool \<Rightarrow> InstrumentDefMsgV2 \<Rightarrow> json_object" where
  "json_fields_InstrumentDefMsgV2 C K pretty_px pretty_ts r =
     [(''ts_recv'', json_ts C K pretty_ts (def2_ts_recv r)),
      (''hd'', json_header C K pretty_ts (def2_hd r)),
      (''raw_symbol'', json_cstr (def2_raw_symbol r)),
      (''security_update_action'', json_c_char (def2_security_update_action r)),
      (''instrument_class'', json_c_char (def2_instrument_class r)),
      (''min_price_increment'', json_px pretty_px (def2_min_price_increment r)),
      (''display_factor'', json_px pretty_px (def2_display_factor r)),
      (''expiration'', json_ts C K pretty_ts (def2_expiration r)),
      (''activation'', json_ts C K pretty_ts (def2_activation r)),
      (''high_limit_price'', json_px pretty_px (def2_high_limit_price r)),
      (''low_limit_price'', json_px pretty_px (def2_low_limit_price r)),
      (''max_price_variation'', json_px pretty_px (def2_max_price_variation r)),
      (''trading_reference_price'', json_px pretty_px (def2_trading_reference_price r)),
      (''unit_of_measure_qty'', json_px pretty_px (def2_unit_of_measure_qty r)),
      (''min_price_increment_amount'', json_px pretty_px (def2_min_price_increment_amount r)),
      (''price_ratio'', json_px pretty_px (def2_price_ratio r)),
      (''inst_attrib_value'', json_signed (def2_inst_attrib_value r)),
      (''underlying_id'', json_unsigned (def2_underlying_id r)),
      (''raw_instrument_id'', json_unsigned (def2_raw_instrument_id r)),
      (''market_depth_implied'', json_signed (def2_market_depth_implied r)),
      (''market_depth'', json_signed (def2_market_depth r)),
      (''market_segment_id'', json_unsigned (def2_market_segment_id r)),
      (''max_trade_vol'', json_unsigned (def2_max_trade_vol r)),
      (''min_lot_size'', json_signed (def2_min_lot_size r)),
      (''min_lot_size_block'', json_signed (def2_min_lot_size_block r)),
      (''min_lot_size_round_lot'', json_signed (def2_min_lot_size_round_lot r)),
      (''min_trade_vol'', json_unsigned (def2_min_trade_vol r)),
      (''contract_multiplier'', json_signed (def2_contract_multiplier r)),
      (''decay_quantity'', json_signed (def2_decay_quantity r)),
      (''original_contract_size'', json_signed (def2_original_contract_size r)),
      (''trading_reference_date'', json_unsigned (def2_trading_reference_date r)),
      (''appl_id'', json_signed (def2_appl_id r)),
      (''maturity_year'', json_unsigned (def2_maturity_year r)),
      (''decay_start_date'', json_unsigned (def2_decay_start_date r)),
      (''channel_id'', json_unsigned (def2_channel_id r)),
      (''currency'', json_cstr (def2_currency r)),
      (''settl_currency'', json_cstr (def2_settl_currency r)),
      (''secsubtype'', json_cstr (def2_secsubtype r)), (''group'', json_cstr (def2_group r)),
      (''exchange'', json_cstr (def2_exchange r)), (''asset'', json_cstr (def2_asset r)),
      (''cfi'', json_cstr (def2_cfi r)), (''security_type'', json_cstr (def2_security_type r)),
      (''unit_of_measure'', json_cstr (def2_unit_of_measure r)),
      (''underlying'', json_cstr (def2_underlying r)),
      (''strike_price_currency'', json_cstr (def2_strike_price_currency r)),
      (''strike_price'', json_px pretty_px (def2_strike_price r)),
      (''match_algorithm'', json_c_char (def2_match_algorithm r)),
      (''md_security_trading_status'', json_unsigned (def2_md_security_trading_status r)),
      (''main_fraction'', json_unsigned (def2_main_fraction r)),
      (''price_display_format'', json_unsigned (def2_price_display_format r)),
      (''settl_price_type'', json_unsigned (def2_settl_price_type r)),
      (''sub_fraction'', json_unsigned (def2_sub_fraction r)),
      (''underlying_product'', json_unsigned (def2_underlying_product r)),
      (''maturity_month'', json_unsigned (def2_maturity_month r)),
      (''maturity_day'', json_unsigned (def2_maturity_day r)),
      (''maturity_week'', json_unsigned (def2_maturity_week r)),
      (''user_defined_instrument'', json_byte (def2_user_defined_instrument r)),
      (''contract_multiplier_unit'', json_signed (def2_contract_multiplier_unit r)),
      (''flow_schedule_type'', json_signed (def2_flow_schedule_type r)),
      (''tick_rule'', json_unsigned (def2_tick_rule r))]"

subsection \<open>Dispatch\<close>

text \<open>\<^verbatim>\<open>WithTsOut\<close> appends a field.\<close>

definition json_with_ts_out ::
  "'d date_ops \<Rightarrow> 'd clock_ops \<Rightarrow> (bool \<Rightarrow> bool \<Rightarrow> 'r \<Rightarrow> json_object) \<Rightarrow> bool \<Rightarrow> bool \<Rightarrow> 'r WithTsOut \<Rightarrow> json_object" where
  "json_with_ts_out C K to_json pretty_px pretty_ts r =
     to_json pretty_px pretty_ts (wto_rec r) @ [(''ts_out'', json_ts C K pretty_ts (wto_ts_out r))]"

definition object_of ::
  "'d date_ops \<Rightarrow> 'd clock_ops \<Rightarrow> 'r record_type \<Rightarrow> (bool \<Rightarrow> bool \<Rightarrow> 'r \<Rightarrow> json_object) \<Rightarrow> bool \<Rightarrow> bool \<Rightarrow> bool \<Rightarrow> bytes
   \<Rightarrow> json_object result" where
  "object_of C K T to_json ts_out pretty_px pretty_ts record =
     (if ts_out then handle (with_ts_out_type T) (json_with_ts_out C K to_json pretty_px pretty_ts) record
      else handle T (to_json pretty_px pretty_ts) record)"

primrec kind_json ::
  "record_kind \<Rightarrow> 'd date_ops \<Rightarrow> 'd clock_ops \<Rightarrow> bool \<Rightarrow> bool \<Rightarrow> bool \<Rightarrow> bytes \<Rightarrow> json_object result" where
  "kind_json Kind_TradeMsg C K = object_of C K TradeMsg_type (json_fields_TradeMsg C K)"
| "kind_json Kind_Mbp1Msg C K = object_of C K Mbp1Msg_type (json_fields_Mbp1Msg C K)"
| "kind_json Kind_Mbp10Msg C K = object_of C K Mbp10Msg_type (json_fields_Mbp10Msg C K)"
| "kind_json Kind_OhlcvMsg C K = object_of C K OhlcvMsg_type (json_fields_OhlcvMsg C K)"
| "kind_json Kind_ImbalanceMsg C K = object_of C K ImbalanceMsg_type (json_fields_ImbalanceMsg C K)"
| "kind_json Kind_StatusMsg C K = object_of C K StatusMsg_type (json_fields_StatusMsg C K)"
| "kind_json Kind_InstrumentDefMsgV1 C K = object_of C K InstrumentDefMsgV1_type (json_fields_InstrumentDefMsgV1 C K)"
| "kind_json Kind_InstrumentDefMsgV2 C K = object_of C K InstrumentDefMsgV2_type (json_fields_InstrumentDefMsgV2 C K)"
| "kind_json Kind_InstrumentDefMsg C K = object_of C K InstrumentDefMsg_type (json_fields_InstrumentDefMsg C K)"
| "kind_json Kind_SymbolMappingMsgV1 C K = object_of C K SymbolMappingMsgV1_type (json_fields_SymbolMappingMsgV1 C K)"
| "kind_json Kind_SymbolMappingMsg C K = object_of C K SymbolMappingMsg_type (json_fields_SymbolMappingMsg C K)"
| "kind_json Kind_ErrorMsgV1 C K = object_of C K ErrorMsgV1_type (json_fields_ErrorMsgV1 C K)"
| "kind_json Kind_ErrorMsg C K = object_of C K ErrorMsg_type (json_fields_ErrorMsg C K)"
| "kind_json Kind_SystemMsgV1 C K = object_of C K SystemMsgV1_type (json_fields_SystemMsgV1 C K)"
| "kind_json Kind_SystemMsg C K = object_of C K SystemMsg_type (json_fields_SystemMsg C K)"
| "kind_json Kind_StatMsgV1 C K = object_of C K StatMsgV1_type (json_fields_StatMsgV1 C K)"
| "kind_json Kind_StatMsg C K = object_of C K StatMsg_type (json_fields_StatMsg C K)"
| "kind_json Kind_MboMsg C K = object_of C K MboMsg_type (json_fields_MboMsg C K)"
| "kind_json Kind_Cmbp1Msg C K = object_of C K Cmbp1Msg_type (json_fields_Cmbp1Msg C K)"
| "kind_json Kind_BboMsg C K = object_of C K BboMsg_type (json_fields_BboMsg C K)"
| "kind_json Kind_CbboMsg C K = object_of C K CbboMsg_type (json_fields_CbboMsg C K)"

section \<open>Agreement with CSV\<close>

text \<open>
  The columns of a JSON object: the header object is flattened, the fields of a level are
  numbered, and \<open>null\<close> is an empty text.
\<close>

primrec json_text :: "json \<Rightarrow> string" where
  "json_text JNull = []"
| "json_text (JNum i) = dec_int i"
| "json_text (JBool b) = (if b then ''true'' else ''false'')"
| "json_text (JStr s) = s"
| "json_text (JRawStr s) = s"
| "json_text (JArr xs) = []"
| "json_text (JObj kvs) = []"

fun members :: "json \<Rightarrow> json_object" where
  "members (JObj kvs) = kvs"
| "members _ = []"

fun field_columns :: "string \<times> json \<Rightarrow> (string \<times> string) list" where
  "field_columns (k, JObj kvs) = map (map_prod id json_text) kvs"
| "field_columns (k, JArr xs) =
     concat (map (\<lambda>(i, x). map (map_prod (csv_column i) json_text) (members x)) (enumerate 0 xs))"
| "field_columns (k, v) = [(k, json_text v)]"

definition object_columns :: "json_object \<Rightarrow> (string \<times> string) list" where
  "object_columns kvs = concat (map field_columns kvs)"

lemma dec_int_uint: "dec_int (uint (w :: 'a::len word)) = dec_nat (unat w)"
  by (simp add: dec_int_def)

text \<open>A value that is neither an array nor an object is one column.\<close>

fun is_scalar :: "json \<Rightarrow> bool" where
  "is_scalar (JArr _) = False"
| "is_scalar (JObj _) = False"
| "is_scalar _ = True"

lemma scalar_column: "is_scalar v \<Longrightarrow> field_columns (k, v) = [(k, json_text v)]"
  by (cases v) auto

lemma scalar_text:
  fixes w :: "'a::len word"
  shows "json_text (json_unsigned w) = csv_unsigned w"
    and "json_text (json_signed w) = csv_signed w"
    and "json_text (json_u64 u) = csv_unsigned u"
    and "json_text (json_i64 u) = csv_signed u"
    and "json_text (json_cstr chars) = csv_cstr chars"
    and "json_text (json_c_char c) = csv_c_char c"
    and "b < 128 \<Longrightarrow> json_text (json_byte b) = csv_byte b"
  by (simp_all add: json_unsigned_def json_signed_def json_u64_def json_i64_def json_cstr_def
      json_c_char_def json_byte_def csv_unsigned_def csv_signed_def csv_cstr_def
      csv_c_char_def csv_byte_def dec_int_uint)

lemma flags_text: "json_text (json_flags f) = csv_flags f"
  by (simp add: json_flags_def csv_flags_def scalar_text)

lemma px_text: "json_text (json_px pretty_px u) = csv_px pretty_px u"
  by (simp add: json_px_def csv_px_def csv_signed_def)

lemma ts_text: "json_text (json_ts C K pretty_ts u) = csv_ts C K pretty_ts u"
  by (simp add: json_ts_def csv_ts_def csv_unsigned_def)

lemma scalars:
  fixes w :: "'a::len word"
  shows "is_scalar (json_unsigned w)" "is_scalar (json_signed w)" "is_scalar (json_u64 u)" "is_scalar (json_i64 u)"
    "is_scalar (json_flags f)" "is_scalar (json_cstr chars)" "is_scalar (json_c_char c)" "is_scalar (json_byte b)"
    "is_scalar (json_px pretty_px u)" "is_scalar (json_ts C K pretty_ts u)"
  by (simp_all add: json_unsigned_def json_signed_def json_u64_def json_i64_def json_flags_def json_cstr_def
      json_c_char_def json_byte_def json_px_def json_ts_def)

lemmas json_texts = scalar_text flags_text px_text ts_text

lemma level_columns_from:
  assumes "\<And>x. length (f x) = length names" and "\<And>x. map (map_prod id json_text) (members (g x)) = zip names (f x)"
  shows "concat (map (\<lambda>(i, x). map (map_prod (csv_column i) json_text) (members x)) (enumerate n (map g ls))) =
    zip (concat (map (\<lambda>i. map (csv_column i) names) [n..<n + length ls])) (concat (map f ls))"
proof (induction ls arbitrary: n)
  case (Cons l ls)
  have "map (map_prod (csv_column n) json_text) (members (g l)) = zip (map (csv_column n) names) (f l)"
    using arg_cong [OF assms(2) [of l], of "map (map_prod (csv_column n) id)"]
    by (simp add: comp_def map_prod_def split_def zip_map1)
  then show ?case
    using Cons.IH [of "Suc n"] assms(1) by (simp add: upt_conv_Cons del: upt_Suc)
qed simp

lemma level_columns:
  "field_columns (k, json_levels pretty_px ls) = zip (csv_level_header (length ls)) (concat (map (csv_level pretty_px) ls))"
  "field_columns (k, json_clevels pretty_px cs) = zip (csv_clevel_header (length cs)) (concat (map (csv_clevel pretty_px) cs))"
  unfolding json_levels_def json_clevels_def csv_level_header_def csv_clevel_header_def field_columns.simps
  using level_columns_from [of "csv_level pretty_px" "[''bid_px'', ''ask_px'', ''bid_sz'', ''ask_sz'', ''bid_ct'', ''ask_ct'']" _ 0 ls]
    level_columns_from [of "csv_clevel pretty_px" "[''bid_px'', ''ask_px'', ''bid_sz'', ''ask_sz'', ''bid_pb'', ''ask_pb'']" _ 0 cs]
  by (simp_all add: csv_level_def csv_clevel_def json_texts)

lemmas json_columns = object_columns_def scalar_column scalars json_texts json_header_def level_columns
  csv_header_RecordHeader_def csv_fields_RecordHeader_def

text \<open>
  The interface of a record type in JSON: whatever bytes a record is read from, its object has the
  columns of its row, as long as its enum fields hold one of their variants.
\<close>

locale json_record = csv_record T CT for T :: "'r record_type" and CT :: "'r csv_type" +
  fixes to_json :: "bool \<Rightarrow> bool \<Rightarrow> 'r \<Rightarrow> json_object" and variants :: "'r \<Rightarrow> bool"
  assumes columns_agree: "variants (rd (cast T) bs) \<Longrightarrow>
    object_columns (to_json pretty_px pretty_ts (rd (cast T) bs)) =
      zip (csv_header CT) (csv_fields CT pretty_px pretty_ts (rd (cast T) bs))"
begin

lemma agree_row:
  assumes "object_of C K T to_json ts_out pretty_px pretty_ts record = Ok kvs" and "variants (rd (cast T) record)"
  shows "\<exists>row. row_of C K T CT ts_out pretty_px pretty_ts record = Ok row \<and>
    object_columns kvs = zip (ts_out_header ts_out (csv_header CT)) row"
proof (cases ts_out)
  case True
  then obtain x where x: "rr_get (with_ts_out_type T) record = Ok (Some x)"
    "kvs = json_with_ts_out C K to_json pretty_px pretty_ts x"
    using assms by (auto simp: object_of_def handle_def and_then_eq_Ok split: option.splits)
  then have "wto_rec x = rd (cast T) record"
    by (auto simp: rr_get_def with_ts_out_type_def rd_def split: if_splits prod.splits)
  then show ?thesis
    using True x assms(2) columns_agree [of "record" pretty_px pretty_ts] fields_fit [of pretty_px pretty_ts "record"]
    by (simp add: row_of_def handle_def csv_with_ts_out_def ts_out_header_def json_with_ts_out_def object_columns_def
        scalar_column scalars json_texts)
next
  case False
  then obtain x where x: "rr_get T record = Ok (Some x)" "kvs = to_json pretty_px pretty_ts x"
    using assms by (auto simp: object_of_def handle_def and_then_eq_Ok split: option.splits)
  then have "x = rd (cast T) record" by (auto simp: rr_get_def split: if_splits)
  then show ?thesis
    using False x assms(2) columns_agree [of "record" pretty_px pretty_ts]
    by (simp add: row_of_def handle_def ts_out_header_def)
qed

end

definition def1_variants :: "InstrumentDefMsgV1 \<Rightarrow> bool" where
  "def1_variants r \<longleftrightarrow> def1_security_update_action r < 128 \<and> def1_user_defined_instrument r < 128"

definition def2_variants :: "InstrumentDefMsgV2 \<Rightarrow> bool" where
  "def2_variants r \<longleftrightarrow> def2_user_defined_instrument r < 128"

interpretation trade_json: json_record TradeMsg_type
  "\<lparr>csv_header = csv_header_TradeMsg, csv_fields = csv_fields_TradeMsg C K\<rparr>" "json_fields_TradeMsg C K" "\<lambda>_. True" for C K
  by unfold_locales (simp add: csv_header_TradeMsg_def csv_fields_TradeMsg_def json_fields_TradeMsg_def json_columns)

interpretation mbp1_json: json_record Mbp1Msg_type
  "\<lparr>csv_header = csv_header_Mbp1Msg, csv_fields = csv_fields_Mbp1Msg C K\<rparr>" "json_fields_Mbp1Msg C K" "\<lambda>_. True" for C K
  by unfold_locales (simp add: csv_header_Mbp1Msg_def csv_fields_Mbp1Msg_def json_fields_Mbp1Msg_def json_columns Mbp1Msg_type_def get_Mbp1Msg_def rd_def split_def Let_def)

interpretation mbp10_json: json_record Mbp10Msg_type
  "\<lparr>csv_header = csv_header_Mbp10Msg, csv_fields = csv_fields_Mbp10Msg C K\<rparr>" "json_fields_Mbp10Msg C K" "\<lambda>_. True" for C K
  by unfold_locales (simp add: csv_header_Mbp10Msg_def csv_fields_Mbp10Msg_def json_fields_Mbp10Msg_def json_columns Mbp10Msg_type_def get_Mbp10Msg_def rd_def split_def Let_def)

interpretation ohlcv_json: json_record OhlcvMsg_type
  "\<lparr>csv_header = csv_header_OhlcvMsg, csv_fields = csv_fields_OhlcvMsg C K\<rparr>" "json_fields_OhlcvMsg C K" "\<lambda>_. True" for C K
  by unfold_locales (simp add: csv_header_OhlcvMsg_def csv_fields_OhlcvMsg_def json_fields_OhlcvMsg_def json_columns)

interpretation imb_json: json_record ImbalanceMsg_type
  "\<lparr>csv_header = csv_header_ImbalanceMsg, csv_fields = csv_fields_ImbalanceMsg C K\<rparr>" "json_fields_ImbalanceMsg C K" "\<lambda>_. True" for C K
  by unfold_locales (simp add: csv_header_ImbalanceMsg_def csv_fields_ImbalanceMsg_def json_fields_ImbalanceMsg_def json_columns)

interpretation status_json: json_record StatusMsg_type
  "\<lparr>csv_header = csv_header_StatusMsg, csv_fields = csv_fields_StatusMsg C K\<rparr>" "json_fields_StatusMsg C K" "\<lambda>_. True" for C K
  by unfold_locales (simp add: csv_header_StatusMsg_def csv_fields_StatusMsg_def json_fields_StatusMsg_def json_columns)

interpretation def1_json: json_record InstrumentDefMsgV1_type
  "\<lparr>csv_header = csv_header_InstrumentDefMsgV1, csv_fields = csv_fields_InstrumentDefMsgV1 C K\<rparr>" "json_fields_InstrumentDefMsgV1 C K" def1_variants for C K
  by unfold_locales (simp add: csv_header_InstrumentDefMsgV1_def csv_fields_InstrumentDefMsgV1_def json_fields_InstrumentDefMsgV1_def json_columns def1_variants_def)

interpretation def2_json: json_record InstrumentDefMsgV2_type
  "\<lparr>csv_header = csv_header_InstrumentDefMsgV2, csv_fields = csv_fields_InstrumentDefMsgV2 C K\<rparr>" "json_fields_InstrumentDefMsgV2 C K" def2_variants for C K
  by unfold_locales (simp add: csv_header_InstrumentDefMsgV2_def csv_fields_InstrumentDefMsgV2_def json_fields_InstrumentDefMsgV2_def json_columns def2_variants_def)

interpretation def3_json: json_record InstrumentDefMsg_type
  "\<lparr>csv_header = csv_header_InstrumentDefMsg, csv_fields = csv_fields_InstrumentDefMsg C K\<rparr>" "json_fields_InstrumentDefMsg C K" "\<lambda>_. True" for C K
  by unfold_locales (simp add: csv_header_InstrumentDefMsg_def csv_fields_InstrumentDefMsg_def json_fields_InstrumentDefMsg_def json_columns)

interpretation sm1_json: json_record SymbolMappingMsgV1_type
  "\<lparr>csv_header = csv_header_SymbolMappingMsgV1, csv_fields = csv_fields_SymbolMappingMsgV1 C K\<rparr>" "json_fields_SymbolMappingMsgV1 C K" "\<lambda>_. True" for C K
  by unfold_locales (simp add: csv_header_SymbolMappingMsgV1_def csv_fields_SymbolMappingMsgV1_def json_fields_SymbolMappingMsgV1_def json_columns)

interpretation sm2_json: json_record SymbolMappingMsg_type
  "\<lparr>csv_header = csv_header_SymbolMappingMsg, csv_fields = csv_fields_SymbolMappingMsg C K\<rparr>" "json_fields_SymbolMappingMsg C K" "\<lambda>_. True" for C K
  by unfold_locales (simp add: csv_header_SymbolMappingMsg_def csv_fields_SymbolMappingMsg_def json_fields_SymbolMappingMsg_def json_columns)

interpretation err1_json: json_record ErrorMsgV1_type
  "\<lparr>csv_header = csv_header_ErrorMsgV1, csv_fields = csv_fields_ErrorMsgV1 C K\<rparr>" "json_fields_ErrorMsgV1 C K" "\<lambda>_. True" for C K
  by unfold_locales (simp add: csv_header_ErrorMsgV1_def csv_fields_ErrorMsgV1_def json_fields_ErrorMsgV1_def json_columns)

interpretation err2_json: json_record ErrorMsg_type
  "\<lparr>csv_header = csv_header_ErrorMsg, csv_fields = csv_fields_ErrorMsg C K\<rparr>" "json_fields_ErrorMsg C K" "\<lambda>_. True" for C K
  by unfold_locales (simp add: csv_header_ErrorMsg_def csv_fields_ErrorMsg_def json_fields_ErrorMsg_def json_columns)

interpretation sys1_json: json_record SystemMsgV1_type
  "\<lparr>csv_header = csv_header_SystemMsgV1, csv_fields = csv_fields_SystemMsgV1 C K\<rparr>" "json_fields_SystemMsgV1 C K" "\<lambda>_. True" for C K
  by unfold_locales (simp add: csv_header_SystemMsgV1_def csv_fields_SystemMsgV1_def json_fields_SystemMsgV1_def json_columns)

interpretation sys2_json: json_record SystemMsg_type
  "\<lparr>csv_header = csv_header_SystemMsg, csv_fields = csv_fields_SystemMsg C K\<rparr>" "json_fields_SystemMsg C K" "\<lambda>_. True" for C K
  by unfold_locales (simp add: csv_header_SystemMsg_def csv_fields_SystemMsg_def json_fields_SystemMsg_def json_columns)

interpretation stat1_json: json_record StatMsgV1_type
  "\<lparr>csv_header = csv_header_StatMsgV1, csv_fields = csv_fields_StatMsgV1 C K\<rparr>" "json_fields_StatMsgV1 C K" "\<lambda>_. True" for C K
  by unfold_locales (simp add: csv_header_StatMsgV1_def csv_fields_StatMsgV1_def json_fields_StatMsgV1_def json_columns)

interpretation stat3_json: json_record StatMsg_type
  "\<lparr>csv_header = csv_header_StatMsg, csv_fields = csv_fields_StatMsg C K\<rparr>" "json_fields_StatMsg C K" "\<lambda>_. True" for C K
  by unfold_locales (simp add: csv_header_StatMsg_def csv_fields_StatMsg_def json_fields_StatMsg_def json_columns)

interpretation mbo_json: json_record MboMsg_type
  "\<lparr>csv_header = csv_header_MboMsg, csv_fields = csv_fields_MboMsg C K\<rparr>" "json_fields_MboMsg C K" "\<lambda>_. True" for C K
  by unfold_locales (simp add: csv_header_MboMsg_def csv_fields_MboMsg_def json_fields_MboMsg_def json_columns)

interpretation cmbp1_json: json_record Cmbp1Msg_type
  "\<lparr>csv_header = csv_header_Cmbp1Msg, csv_fields = csv_fields_Cmbp1Msg C K\<rparr>" "json_fields_Cmbp1Msg C K" "\<lambda>_. True" for C K
  by unfold_locales (simp add: csv_header_Cmbp1Msg_def csv_fields_Cmbp1Msg_def json_fields_Cmbp1Msg_def json_columns Cmbp1Msg_type_def get_Cmbp1Msg_def rd_def split_def Let_def)

interpretation bbo_json: json_record BboMsg_type
  "\<lparr>csv_header = csv_header_BboMsg, csv_fields = csv_fields_BboMsg C K\<rparr>" "json_fields_BboMsg C K" "\<lambda>_. True" for C K
  by unfold_locales (simp add: csv_header_BboMsg_def csv_fields_BboMsg_def json_fields_BboMsg_def json_columns BboMsg_type_def get_BboMsg_def rd_def split_def Let_def)

interpretation cbbo_json: json_record CbboMsg_type
  "\<lparr>csv_header = csv_header_CbboMsg, csv_fields = csv_fields_CbboMsg C K\<rparr>" "json_fields_CbboMsg C K" "\<lambda>_. True" for C K
  by unfold_locales (simp add: csv_header_CbboMsg_def csv_fields_CbboMsg_def json_fields_CbboMsg_def json_columns CbboMsg_type_def get_CbboMsg_def rd_def split_def Let_def)

lemmas json_agreements =
  trade_json.agree_row mbp1_json.agree_row mbp10_json.agree_row ohlcv_json.agree_row
  imb_json.agree_row status_json.agree_row def1_json.agree_row def2_json.agree_row
  def3_json.agree_row sm1_json.agree_row sm2_json.agree_row err1_json.agree_row
  err2_json.agree_row sys1_json.agree_row sys2_json.agree_row stat1_json.agree_row
  stat3_json.agree_row mbo_json.agree_row cmbp1_json.agree_row bbo_json.agree_row
  cbbo_json.agree_row

text \<open>The enum fields of the old instrument definitions hold one of their variants.\<close>

definition kind_variants :: "record_kind \<Rightarrow> bytes \<Rightarrow> bool" where
  "kind_variants k record \<longleftrightarrow>
     (k = Kind_InstrumentDefMsgV1 \<longrightarrow> def1_variants (rd (cast InstrumentDefMsgV1_type) record)) \<and>
     (k = Kind_InstrumentDefMsgV2 \<longrightarrow> def2_variants (rd (cast InstrumentDefMsgV2_type) record))"

lemma kind_json_agrees:
  assumes "kind_json k C K ts_out pretty_px pretty_ts record = Ok kvs" and "kind_variants k record"
  shows "\<exists>row. kind_row k C K ts_out pretty_px pretty_ts record = Ok row \<and>
    object_columns kvs = zip (ts_out_header ts_out (kind_header k)) row"
  using assms
  by (cases k) (auto simp: kind_variants_def dest: json_agreements)

end
