(* ===== verification/Json_Encode.thy ===== *)
theory Json_Encode
  imports Json_Fields Csv_Encode
begin

text \<open>
  The JSON lines encoder: rust/dbn/src/encode/json/sync.rs and the functions of
  rust/dbn/src/encode/json/serialize.rs that write an object to a buffer. The json_writer crate
  is a parameter: the text it produces for an object, compact or indented.
\<close>

section \<open>Definitions\<close>

type_synonym json_text_writer = "bool \<Rightarrow> json_object \<Rightarrow> string"

definition to_json_in_buf :: "json_text_writer \<Rightarrow> string \<Rightarrow> json_object \<Rightarrow> bool \<Rightarrow> string" where
  "to_json_in_buf J buf obj should_pretty_print = buf @ J should_pretty_print obj @ [CHR 0x0A]"

definition to_json_with_sym_in_buf :: "json_text_writer \<Rightarrow> string \<Rightarrow> json_object \<Rightarrow> bool \<Rightarrow> string option \<Rightarrow> string" where
  "to_json_with_sym_in_buf J buf obj should_pretty_print sym_text =
     buf @ J should_pretty_print (obj @ [(''symbol'', json_opt_str sym_text)]) @ [CHR 0x0A]"

record 'w JsonEncoder =
  js_writer :: 'w
  js_buf :: string
  should_pretty_print :: bool
  js_pretty_px :: bool
  js_pretty_ts :: bool

definition json_new :: "'w \<Rightarrow> bool \<Rightarrow> bool \<Rightarrow> bool \<Rightarrow> 'w JsonEncoder" where
  "json_new w pretty_print pretty_px pretty_ts =
     \<lparr>js_writer = w, js_buf = [], should_pretty_print = pretty_print, js_pretty_px = pretty_px, js_pretty_ts = pretty_ts\<rparr>"

definition json_write_buf :: "'w writer \<Rightarrow> string \<Rightarrow> 'w JsonEncoder enc" where
  "json_write_buf W context e =
     (case write_all W (as_bytes (js_buf e)) (js_writer e) of (w, success) \<Rightarrow>
       (e\<lparr>js_writer := w, js_buf := []\<rparr>, if success then Ok () else Err (Io context)))"

definition json_flush :: "'w writer \<Rightarrow> string \<Rightarrow> 'w JsonEncoder enc" where
  "json_flush W context e =
     (case flush W (js_writer e) of (w, success) \<Rightarrow>
       (e\<lparr>js_writer := w\<rparr>, if success then Ok () else Err (Io context)))"

definition json_encode_metadata ::
  "json_text_writer \<Rightarrow> 'd date_ops \<Rightarrow> 'd clock_ops \<Rightarrow> 'w writer \<Rightarrow> 'd Metadata \<Rightarrow> 'w JsonEncoder enc" where
  "json_encode_metadata J C K W m e =
     seq (json_write_buf W ''writing metadata'') (json_flush W ''writing metadata'')
       (e\<lparr>js_buf := to_json_in_buf J (js_buf e) (json_metadata C K (js_pretty_ts e) m) (should_pretty_print e)\<rparr>)"

text \<open>
  \<^verbatim>\<open>encode_record\<close> and \<^verbatim>\<open>encode_record_with_sym\<close> on the object of a record, through which its type
  enters.
\<close>

definition encode_object :: "json_text_writer \<Rightarrow> 'w writer \<Rightarrow> json_object \<Rightarrow> 'w JsonEncoder enc" where
  "encode_object J W obj e =
     json_write_buf W ''writing record '' (e\<lparr>js_buf := to_json_in_buf J (js_buf e) obj (should_pretty_print e)\<rparr>)"

definition encode_object_with_sym ::
  "json_text_writer \<Rightarrow> 'w writer \<Rightarrow> string option \<Rightarrow> json_object \<Rightarrow> 'w JsonEncoder enc" where
  "encode_object_with_sym J W sym_text obj e =
     json_write_buf W ''writing record  with symbol ''
       (e\<lparr>js_buf := to_json_with_sym_in_buf J (js_buf e) obj (should_pretty_print e) sym_text\<rparr>)"

definition json_encode_record ::
  "json_text_writer \<Rightarrow> 'w writer \<Rightarrow> (bool \<Rightarrow> bool \<Rightarrow> 'r \<Rightarrow> json_object) \<Rightarrow> 'r \<Rightarrow> 'w JsonEncoder enc" where
  "json_encode_record J W to_json record e = encode_object J W (to_json (js_pretty_px e) (js_pretty_ts e) record) e"

definition json_encode_record_with_sym ::
  "json_text_writer \<Rightarrow> 'w writer \<Rightarrow> (bool \<Rightarrow> bool \<Rightarrow> 'r \<Rightarrow> json_object) \<Rightarrow> string option \<Rightarrow> 'r \<Rightarrow> 'w JsonEncoder enc" where
  "json_encode_record_with_sym J W to_json sym_text record e =
     encode_object_with_sym J W sym_text (to_json (js_pretty_px e) (js_pretty_ts e) record) e"

definition dispatch_object ::
  "'d date_ops \<Rightarrow> 'd clock_ops \<Rightarrow> (json_object \<Rightarrow> 'w JsonEncoder enc) \<Rightarrow> bytes \<Rightarrow> bool \<Rightarrow> 'w JsonEncoder enc" where
  "dispatch_object C K method record ts_out e =
     (case rtype_dispatch_base record of
        None \<Rightarrow> (e, Err (Conversion (dec_nat (unat (rh_rtype (rr_header record)))) ''dbn::enums::rtype::RType''))
      | Some k \<Rightarrow>
          (case kind_json k C K ts_out (js_pretty_px e) (js_pretty_ts e) record of
             Ok obj \<Rightarrow> method obj e
           | Err x \<Rightarrow> (e, Err x)
           | Panic p \<Rightarrow> (e, Panic p)))"

definition json_encode_record_ref_ts_out ::
  "json_text_writer \<Rightarrow> 'd date_ops \<Rightarrow> 'd clock_ops \<Rightarrow> 'w writer \<Rightarrow> bytes \<Rightarrow> bool \<Rightarrow> 'w JsonEncoder enc" where
  "json_encode_record_ref_ts_out J C K W = dispatch_object C K (encode_object J W)"

definition json_encode_record_ref ::
  "json_text_writer \<Rightarrow> 'd date_ops \<Rightarrow> 'd clock_ops \<Rightarrow> 'w writer \<Rightarrow> bytes \<Rightarrow> 'w JsonEncoder enc" where
  "json_encode_record_ref J C K W record = dispatch_object C K (encode_object J W) record False"

definition json_encode_ref_ts_out_with_sym ::
  "json_text_writer \<Rightarrow> 'd date_ops \<Rightarrow> 'd clock_ops \<Rightarrow> 'w writer \<Rightarrow> bytes \<Rightarrow> bool \<Rightarrow> string option \<Rightarrow> 'w JsonEncoder enc" where
  "json_encode_ref_ts_out_with_sym J C K W record ts_out sym_text =
     dispatch_object C K (encode_object_with_sym J W sym_text) record ts_out"

text \<open>\<^verbatim>\<open>encode_decoded\<close> and \<^verbatim>\<open>encode_decoded_with_limit\<close> are the default methods.\<close>

definition json_encode_decoded ::
  "json_text_writer \<Rightarrow> 'd date_ops \<Rightarrow> 'd clock_ops \<Rightarrow> 'w writer \<Rightarrow> ('d, 's) decoder_ops \<Rightarrow> 's \<Rightarrow> 'w JsonEncoder
   \<Rightarrow> ('w JsonEncoder \<times> unit result) result option" where
  "json_encode_decoded J C K W D s =
     encode_decoded (decode_record_ref D) (json_encode_record_ref_ts_out J C K W) (json_flush W ''flushing output'')
       (md_ts_out (dec_md D s)) s"

definition json_encode_decoded_with_limit ::
  "json_text_writer \<Rightarrow> 'd date_ops \<Rightarrow> 'd clock_ops \<Rightarrow> 'w writer \<Rightarrow> ('d, 's) decoder_ops \<Rightarrow> u64 \<Rightarrow> 's \<Rightarrow> 'w JsonEncoder
   \<Rightarrow> ('w JsonEncoder \<times> unit result) result option" where
  "json_encode_decoded_with_limit J C K W D limit s =
     encode_decoded_with_limit (decode_record_ref D) (json_encode_record_ref_ts_out J C K W) (json_flush W ''flushing output'')
       (md_ts_out (dec_md D s)) limit s"

section \<open>Lines\<close>

text \<open>The line of an object, and the state of an encoder over a vector that has written some bytes.\<close>

definition json_line :: "json_text_writer \<Rightarrow> 'w JsonEncoder \<Rightarrow> json_object \<Rightarrow> bytes" where
  "json_line J e obj = as_bytes (J (should_pretty_print e) obj @ [CHR 0x0A])"

definition has_written :: "bytes JsonEncoder \<Rightarrow> bytes \<Rightarrow> bytes JsonEncoder" where
  "has_written e out = e\<lparr>js_writer := js_writer e @ out, js_buf := []\<rparr>"

lemma has_written_simps [simp]:
  "js_pretty_px (has_written e out) = js_pretty_px e" "js_pretty_ts (has_written e out) = js_pretty_ts e"
  by (simp_all add: has_written_def)

lemma encode_object_vec:
  "encode_object J vec_writer obj (has_written e out) = (has_written e (out @ json_line J e obj), Ok ())"
  by (simp add: encode_object_def json_write_buf_def vec_writer_def to_json_in_buf_def has_written_def json_line_def)

text \<open>Whatever the writer does, the buffer is empty afterwards: a failed write leaves nothing behind.\<close>

lemma buffer_cleared:
  "js_buf (fst (encode_object J W obj e)) = []" "js_buf (fst (encode_object_with_sym J W sym_text obj e)) = []"
  "js_buf (fst (json_encode_metadata J C K W m e)) = []"
  by (auto simp: encode_object_def encode_object_with_sym_def json_encode_metadata_def json_write_buf_def seq_def
      json_flush_def split: prod.splits result.splits)

text \<open>\<open>objectifies C K ts_out pretty_px pretty_ts v obj\<close>: the bytes \<open>v\<close> are a record whose object is \<open>obj\<close>.\<close>

definition objectifies :: "'d date_ops \<Rightarrow> 'd clock_ops \<Rightarrow> bool \<Rightarrow> bool \<Rightarrow> bool \<Rightarrow> bytes \<Rightarrow> json_object \<Rightarrow> bool" where
  "objectifies C K ts_out pretty_px pretty_ts v obj \<longleftrightarrow>
     whole_record v \<and> (\<exists>k. rtype_dispatch_base v = Some k \<and> kind_json k C K ts_out pretty_px pretty_ts v = Ok obj)"

lemma object_of_append:
  assumes "dbn_struct T" and "whole_record v"
  shows "object_of C K T to_json ts_out pretty_px pretty_ts (v @ ys) = object_of C K T to_json ts_out pretty_px pretty_ts v"
  by (simp add: object_of_def handle_append assms with_ts_out_record dbn_struct.axioms(1))

lemma kind_json_append:
  "whole_record v \<Longrightarrow> kind_json k C K ts_out pretty_px pretty_ts (v @ ys) = kind_json k C K ts_out pretty_px pretty_ts v"
  by (cases k) (simp_all add: object_of_append all_structs)

lemma objectifies_ref:
  assumes "objectifies C K ts_out (js_pretty_px e) (js_pretty_ts e) (rr_as_ref ref) obj"
  shows "json_encode_record_ref_ts_out J C K W ref ts_out e = encode_object J W obj e"
proof -
  obtain k where "rtype_dispatch_base ref = Some k" "kind_json k C K ts_out (js_pretty_px e) (js_pretty_ts e) ref = Ok obj"
    using assms dispatch_append [of "rr_as_ref ref"] kind_json_append [of "rr_as_ref ref"] ref_split [of ref]
    unfolding objectifies_def by metis
  then show ?thesis by (simp add: json_encode_record_ref_ts_out_def dispatch_object_def)
qed

lemma json_loop_writes:
  assumes "yields D s refs" and "left \<noteq> Some 0"
    and "list_all2 (\<lambda>ref obj. objectifies C K ts_out (js_pretty_px e) (js_pretty_ts e) (rr_as_ref ref) obj) refs objs"
  shows "encode_decoded_loop (decode_record_ref D) (\<lambda>rec. json_encode_record_ref_ts_out J C K vec_writer rec ts_out)
      (json_flush vec_writer ''flushing output'') left s (has_written e out) =
    Some (Ok (has_written e (out @ concat (map (json_line J e) (case left of None \<Rightarrow> objs | Some n \<Rightarrow> take n objs))), Ok ()))"
  using assms
proof (induction refs arbitrary: s out left objs)
  case Nil
  then show ?case
    by (subst encode_decoded_loop.simps)
      (auto simp: json_flush_def vec_writer_def has_written_def split: option.split)
next
  case (Cons ref refs)
  obtain s' where s': "decode_record_ref D s = Some (Ok (s', Ok (Some ref)))" "yields D s' refs"
    using Cons.prems(1) by auto
  obtain obj objs' where objs: "objs = obj # objs'"
    "objectifies C K ts_out (js_pretty_px e) (js_pretty_ts e) (rr_as_ref ref) obj"
    "list_all2 (\<lambda>ref obj. objectifies C K ts_out (js_pretty_px e) (js_pretty_ts e) (rr_as_ref ref) obj) refs objs'"
    using Cons.prems(3) by (auto simp: list_all2_Cons1)
  have enc: "json_encode_record_ref_ts_out J C K vec_writer ref ts_out (has_written e out) =
      (has_written e (out @ json_line J e obj), Ok ())"
    using objectifies_ref [of C K ts_out "has_written e out" ref obj J vec_writer] objs(2)
    by (simp add: encode_object_vec)
  show ?case
  proof (cases "left = Some 1")
    case True
    then show ?thesis
      using s'(1) enc objs(1)
      by (subst encode_decoded_loop.simps) (simp add: json_flush_def vec_writer_def has_written_def)
  next
    case False
    let ?left = "map_option (\<lambda>n. n - 1) left"
    have "?left \<noteq> Some 0" using False Cons.prems(2) by (cases left) auto
    note IH = Cons.IH [OF s'(2) this objs(3), of "out @ json_line J e obj"]
    have "(case left of None \<Rightarrow> objs | Some n \<Rightarrow> take n objs) = obj # (case ?left of None \<Rightarrow> objs' | Some n \<Rightarrow> take n objs')"
      using objs(1) Cons.prems(2) by (cases left) (auto simp: take_Cons')
    then show ?thesis
      using IH s'(1) enc False by (subst encode_decoded_loop.simps) auto
  qed
qed

section \<open>Valid strings\<close>

text \<open>The text between the quotes of a JSON string, after RFC 8259.\<close>

definition is_hex :: "char \<Rightarrow> bool" where
  "is_hex c \<longleftrightarrow> c \<in> set ''0123456789abcdefABCDEF''"

fun json_string_body :: "string \<Rightarrow> bool" where
  "json_string_body [] \<longleftrightarrow> True"
| "json_string_body (c # cs) \<longleftrightarrow>
     (if c = CHR 0x5C then
        (case cs of
           [] \<Rightarrow> False
         | d # ds \<Rightarrow>
             if d = CHR ''u'' then 4 \<le> length ds \<and> list_all is_hex (take 4 ds) \<and> json_string_body (drop 4 ds)
             else d \<in> {CHR 0x22, CHR 0x5C, CHR ''/'', CHR ''b'', CHR ''f'', CHR ''n'', CHR ''r'', CHR ''t''} \<and>
               json_string_body ds)
      else c \<noteq> CHR 0x22 \<and> 32 \<le> (of_char c :: nat) \<and> json_string_body cs)"

lemma printable_valid:
  assumes "32 \<le> c" and "c \<le> 126" and "c \<noteq> 34" and "c \<noteq> 92"
  shows "json_string_body (of_bytes [c :: u8])"
proof -
  have n: "32 \<le> unat c" "unat c \<le> 126" "unat c \<noteq> 34" "unat c \<noteq> 92"
    using assms by (simp_all add: word_le_nat_alt unat_arith_simps)
  then have "char_of (unat c) \<noteq> CHR 0x5C" "char_of (unat c) \<noteq> CHR 0x22" "of_char (char_of (unat c) :: char) = unat c"
    by (simp_all add: char_of_eq_iff take_bit_eq_mod)
  then show ?thesis using n by (simp add: of_bytes_def)
qed

lemma escape_default_valid:
  "json_string_body (escape_default c) \<longleftrightarrow> c = 9 \<or> c = 10 \<or> c = 13 \<or> (32 \<le> c \<and> c \<le> 126 \<and> c \<noteq> 39)"
proof (cases "c \<in> {9, 13, 10, 39, 34, 92}")
  case True
  then show ?thesis by (auto simp: escape_default_def)
next
  case False
  then show ?thesis
    using printable_valid [of c] by (auto simp: escape_default_def)
qed

section \<open>A sample record and a compact writer\<close>

lemma mbp1_object:
  assumes "well_formed Mbp1Msg_type x"
  shows "kind_json Kind_Mbp1Msg C K False pretty_px pretty_ts (as_ref Mbp1Msg_type x) =
    Ok (json_fields_Mbp1Msg C K pretty_px pretty_ts x)"
  using mbp1_record.rr_get_as_ref(1) [of x "[]"] assms by (simp add: object_of_def handle_def well_formed_def)

primrec json_compact :: "json \<Rightarrow> string" where
  "json_compact JNull = ''null''"
| "json_compact (JNum i) = dec_int i"
| "json_compact (JBool b) = (if b then ''true'' else ''false'')"
| "json_compact (JStr s) = [CHR 0x22] @ s @ [CHR 0x22]"
| "json_compact (JRawStr s) = [CHR 0x22] @ s @ [CHR 0x22]"
| "json_compact (JArr xs) = ''['' @ concat (map (\<lambda>x. x @ '','') (map json_compact xs)) @ '']''"
| "json_compact (JObj kvs) = ''{'' @
     concat (map (\<lambda>(k, v). [CHR 0x22] @ k @ [CHR 0x22] @ '':'' @ v @ '','') (map (map_prod id json_compact) kvs)) @ ''}''"

definition sample_json_writer :: json_text_writer where
  "sample_json_writer _ obj = json_compact (JObj obj)"

section \<open>Properties\<close>

text \<open>
  C21. JSON and CSV agree: whenever the object of a record is produced, its row is too, and the
  leaves of the object, in order, are the columns of the row under the names of its header
  (the header object flattened, price levels numbered, null as an empty field), with or without
  prices and timestamps as text.
\<close>

theorem json_agrees_with_csv:
  assumes "kind_json k C K ts_out pretty_px pretty_ts record = Ok obj" and "kind_variants k record"
  shows "\<exists>row. kind_row k C K ts_out pretty_px pretty_ts record = Ok row \<and>
    length row = length (ts_out_header ts_out (kind_header k)) \<and>
    object_columns obj = zip (ts_out_header ts_out (kind_header k)) row"
  using kind_json_agrees [OF assms] kind_row_width by blast

theorem json_agrees_with_csv_witness:
  "object_columns (json_fields_Mbp1Msg gregorian unix_clock True False Mbp1Msg_default) =
   zip csv_header_Mbp1Msg (csv_fields_Mbp1Msg gregorian unix_clock True False Mbp1Msg_default)"
  using json_agrees_with_csv [OF mbp1_object [OF Mbp1Msg_default_ok], of gregorian unix_clock True False]
    mbp1_renders [OF Mbp1Msg_default_ok Mbp1Msg_default_rtype, of gregorian unix_clock True False]
  by (simp add: kind_variants_def renders_def ts_out_header_def)

text \<open>
  JSON lines: encoding what a decoder returns appends, for every record in turn, the text of
  its object and a newline, whatever the record types, and with a limit that of the first
  records; the encoder's buffer is empty afterwards.
\<close>

theorem json_lines:
  assumes "record_stream D delivers" and "delivers s vs" and "ts_out = md_ts_out (dec_md D s)"
    and "list_all2 (objectifies C K ts_out (js_pretty_px e) (js_pretty_ts e)) vs objs" and "js_buf e = []"
  shows "(\<exists>e'. json_encode_decoded J C K vec_writer D s e = Some (Ok (e', Ok ())) \<and> js_buf e' = [] \<and>
      js_writer e' = js_writer e @ concat (map (json_line J e) objs)) \<and>
    (limit \<noteq> 0 \<longrightarrow> (\<exists>e'. json_encode_decoded_with_limit J C K vec_writer D limit s e = Some (Ok (e', Ok ())) \<and>
      js_buf e' = [] \<and> js_writer e' = js_writer e @ concat (map (json_line J e) (take (unat limit) objs))))"
proof -
  obtain refs where refs: "yields D s refs" "map rr_as_ref refs = vs"
    using record_stream.delivers_yields [OF assms(1,2)] by blast
  have all: "list_all2 (\<lambda>ref obj. objectifies C K ts_out (js_pretty_px e) (js_pretty_ts e) (rr_as_ref ref) obj) refs objs"
    using assms(4) refs(2) by (auto simp: list_all2_map1)
  have e: "has_written e [] = e" using assms(5) by (simp add: has_written_def)
  note loop = json_loop_writes [OF refs(1) _ all, of _ J "[]", unfolded e]
  have lim: "Some (unat limit) \<noteq> Some 0" if "limit \<noteq> 0" using that by (simp add: unat_eq_zero)
  show ?thesis
    using loop [of None] loop [OF lim] assms(3)
    by (simp add: json_encode_decoded_def json_encode_decoded_with_limit_def encode_decoded_def
        encode_decoded_with_limit_def has_written_def)
qed

theorem json_lines_witness:
  "\<exists>e'. json_encode_decoded sample_json_writer gregorian unix_clock vec_writer listed_ops
      (None, [Ok (put_Mbp1Msg Mbp1Msg_default)]) (json_new [] False True True) = Some (Ok (e', Ok ())) \<and>
    js_writer e' = as_bytes (json_compact (JObj (json_fields_Mbp1Msg gregorian unix_clock True True Mbp1Msg_default)) @ [CHR 0x0A])"
proof -
  let ?v = "put_Mbp1Msg Mbp1Msg_default" and ?obj = "json_fields_Mbp1Msg gregorian unix_clock True True Mbp1Msg_default"
  have v: "as_ref Mbp1Msg_type Mbp1Msg_default = ?v" by (simp add: Mbp1Msg_type_def)
  have r: "whole_record ?v" "rtype_dispatch_base ?v = Some Kind_Mbp1Msg"
    using mbp1_renders [OF Mbp1Msg_default_ok Mbp1Msg_default_rtype, of gregorian unix_clock True True] v
    by (simp_all add: renders_def)
  then have "objectifies gregorian unix_clock False True True ?v ?obj"
    using mbp1_object [OF Mbp1Msg_default_ok, of gregorian unix_clock True True] v by (simp add: objectifies_def)
  moreover have "rr_raw_index_ts ?v = Ok UNDEF_TIMESTAMP"
    using raw_index_ts_view [of "RecordEnum_Mbp1 Mbp1Msg_default" "[]"] Mbp1Msg_default_ok v
    by (simp add: Mbp1Msg_type_def Mbp1Msg_default_def)
  moreover have "rr_as_ref ?v = ?v"
    using mbp1_record.well_formed_view(2) [OF Mbp1Msg_default_ok, of "[]"] mbp1_record.layout.length_put [of Mbp1Msg_default]
      Mbp1Msg_default_ok v
    by (simp add: rr_as_ref_def well_formed_def)
  ultimately show ?thesis
    using json_lines [OF listed.record_stream_axioms, of "(None, [Ok ?v])" "[?v]" False gregorian unix_clock
        "json_new [] False True True" "[?obj]" sample_json_writer] r(1)
    by (auto simp: indexed_def listed_ops_def sample_metadata_simps json_new_def json_line_def sample_json_writer_def)
qed

text \<open>
  A character is not always a JSON string: the escapes of a single-character field are
  those of Rust, not of JSON. The text written between the quotes is a JSON string exactly for
  tabs, newlines, carriage returns and printable ASCII other than the single quote.
\<close>

theorem json_c_char_valid:
  assumes "c \<noteq> 0"
  shows "\<exists>s. json_c_char c = JRawStr s \<and>
    (json_string_body s \<longleftrightarrow> c = 9 \<or> c = 10 \<or> c = 13 \<or> (32 \<le> c \<and> c \<le> 126 \<and> c \<noteq> 39))"
  using assms by (simp add: json_c_char_def escape_default_valid)

theorem json_c_char_valid_witness:
  "json_c_char 255 = JRawStr [CHR 0x5C, CHR ''x'', CHR ''f'', CHR ''f''] \<and>
   \<not> json_string_body [CHR 0x5C, CHR ''x'', CHR ''f'', CHR ''f'']"
proof -
  have "json_c_char 255 = JRawStr [CHR 0x5C, CHR ''x'', CHR ''f'', CHR ''f'']"
    by (simp add: json_c_char_def escape_default_def hex_digit_def char_of_def bit_Suc_0_iff)
  then show ?thesis using json_c_char_valid [of 255] by simp
qed

end
