(* ===== verification/Publishers.thy ===== *)
theory Publishers
  imports Prelude
begin

text \<open>
  Venues, datasets and publishers: rust/dbn/src/publishers.rs. Each enum has a number and a name;
  a publisher is a venue of a dataset. A match on a literal is a lookup in the table of its arms,
  in their order.
\<close>

section \<open>Definitions\<close>

subsection \<open>Venue\<close>

datatype Venue =
    Venue_Glbx | Venue_Xnas | Venue_Xbos | Venue_Xpsx | Venue_Bats | Venue_Baty | Venue_Edga
    | Venue_Edgx | Venue_Xnys | Venue_Xcis | Venue_Xase | Venue_Arcx | Venue_Xchi | Venue_Iexg
    | Venue_Finn | Venue_Finc | Venue_Finy | Venue_Memx | Venue_Eprl | Venue_Amxo | Venue_Xbox
    | Venue_Xcbo | Venue_Emld | Venue_Edgo | Venue_Gmni | Venue_Xisx | Venue_Mcry | Venue_Xmio
    | Venue_Arco | Venue_Opra | Venue_Mprl | Venue_Xndq | Venue_Xbxo | Venue_C2Ox | Venue_Xphl
    | Venue_Bato | Venue_Mxop | Venue_Ifeu | Venue_Ndex | Venue_Dbeq | Venue_Sphr | Venue_Ltse
    | Venue_Xoff | Venue_Aspn | Venue_Asmt | Venue_Aspi | Venue_Equs | Venue_Ifus | Venue_Ifll
    | Venue_Xeur | Venue_Xeee

definition venue_variants :: "Venue list" where
  "venue_variants =
    [Venue_Glbx, Venue_Xnas, Venue_Xbos, Venue_Xpsx, Venue_Bats, Venue_Baty, Venue_Edga, Venue_Edgx,
     Venue_Xnys, Venue_Xcis, Venue_Xase, Venue_Arcx, Venue_Xchi, Venue_Iexg, Venue_Finn, Venue_Finc,
     Venue_Finy, Venue_Memx, Venue_Eprl, Venue_Amxo, Venue_Xbox, Venue_Xcbo, Venue_Emld, Venue_Edgo,
     Venue_Gmni, Venue_Xisx, Venue_Mcry, Venue_Xmio, Venue_Arco, Venue_Opra, Venue_Mprl, Venue_Xndq,
     Venue_Xbxo, Venue_C2Ox, Venue_Xphl, Venue_Bato, Venue_Mxop, Venue_Ifeu, Venue_Ndex, Venue_Dbeq,
     Venue_Sphr, Venue_Ltse, Venue_Xoff, Venue_Aspn, Venue_Asmt, Venue_Aspi, Venue_Equs, Venue_Ifus,
     Venue_Ifll, Venue_Xeur, Venue_Xeee]"

primrec venue_as_u16 :: "Venue \<Rightarrow> u16" where
  "venue_as_u16 Venue_Glbx = 1"
| "venue_as_u16 Venue_Xnas = 2"
| "venue_as_u16 Venue_Xbos = 3"
| "venue_as_u16 Venue_Xpsx = 4"
| "venue_as_u16 Venue_Bats = 5"
| "venue_as_u16 Venue_Baty = 6"
| "venue_as_u16 Venue_Edga = 7"
| "venue_as_u16 Venue_Edgx = 8"
| "venue_as_u16 Venue_Xnys = 9"
| "venue_as_u16 Venue_Xcis = 10"
| "venue_as_u16 Venue_Xase = 11"
| "venue_as_u16 Venue_Arcx = 12"
| "venue_as_u16 Venue_Xchi = 13"
| "venue_as_u16 Venue_Iexg = 14"
| "venue_as_u16 Venue_Finn = 15"
| "venue_as_u16 Venue_Finc = 16"
| "venue_as_u16 Venue_Finy = 17"
| "venue_as_u16 Venue_Memx = 18"
| "venue_as_u16 Venue_Eprl = 19"
| "venue_as_u16 Venue_Amxo = 20"
| "venue_as_u16 Venue_Xbox = 21"
| "venue_as_u16 Venue_Xcbo = 22"
| "venue_as_u16 Venue_Emld = 23"
| "venue_as_u16 Venue_Edgo = 24"
| "venue_as_u16 Venue_Gmni = 25"
| "venue_as_u16 Venue_Xisx = 26"
| "venue_as_u16 Venue_Mcry = 27"
| "venue_as_u16 Venue_Xmio = 28"
| "venue_as_u16 Venue_Arco = 29"
| "venue_as_u16 Venue_Opra = 30"
| "venue_as_u16 Venue_Mprl = 31"
| "venue_as_u16 Venue_Xndq = 32"
| "venue_as_u16 Venue_Xbxo = 33"
| "venue_as_u16 Venue_C2Ox = 34"
| "venue_as_u16 Venue_Xphl = 35"
| "venue_as_u16 Venue_Bato = 36"
| "venue_as_u16 Venue_Mxop = 37"
| "venue_as_u16 Venue_Ifeu = 38"
| "venue_as_u16 Venue_Ndex = 39"
| "venue_as_u16 Venue_Dbeq = 40"
| "venue_as_u16 Venue_Sphr = 41"
| "venue_as_u16 Venue_Ltse = 42"
| "venue_as_u16 Venue_Xoff = 43"
| "venue_as_u16 Venue_Aspn = 44"
| "venue_as_u16 Venue_Asmt = 45"
| "venue_as_u16 Venue_Aspi = 46"
| "venue_as_u16 Venue_Equs = 47"
| "venue_as_u16 Venue_Ifus = 48"
| "venue_as_u16 Venue_Ifll = 49"
| "venue_as_u16 Venue_Xeur = 50"
| "venue_as_u16 Venue_Xeee = 51"

definition venue_try_from :: "u16 \<Rightarrow> Venue option" where
  "venue_try_from x = find (\<lambda>v. venue_as_u16 v = x) venue_variants"

primrec venue_as_str :: "Venue \<Rightarrow> string" where
  "venue_as_str Venue_Glbx = ''GLBX''"
| "venue_as_str Venue_Xnas = ''XNAS''"
| "venue_as_str Venue_Xbos = ''XBOS''"
| "venue_as_str Venue_Xpsx = ''XPSX''"
| "venue_as_str Venue_Bats = ''BATS''"
| "venue_as_str Venue_Baty = ''BATY''"
| "venue_as_str Venue_Edga = ''EDGA''"
| "venue_as_str Venue_Edgx = ''EDGX''"
| "venue_as_str Venue_Xnys = ''XNYS''"
| "venue_as_str Venue_Xcis = ''XCIS''"
| "venue_as_str Venue_Xase = ''XASE''"
| "venue_as_str Venue_Arcx = ''ARCX''"
| "venue_as_str Venue_Xchi = ''XCHI''"
| "venue_as_str Venue_Iexg = ''IEXG''"
| "venue_as_str Venue_Finn = ''FINN''"
| "venue_as_str Venue_Finc = ''FINC''"
| "venue_as_str Venue_Finy = ''FINY''"
| "venue_as_str Venue_Memx = ''MEMX''"
| "venue_as_str Venue_Eprl = ''EPRL''"
| "venue_as_str Venue_Amxo = ''AMXO''"
| "venue_as_str Venue_Xbox = ''XBOX''"
| "venue_as_str Venue_Xcbo = ''XCBO''"
| "venue_as_str Venue_Emld = ''EMLD''"
| "venue_as_str Venue_Edgo = ''EDGO''"
| "venue_as_str Venue_Gmni = ''GMNI''"
| "venue_as_str Venue_Xisx = ''XISX''"
| "venue_as_str Venue_Mcry = ''MCRY''"
| "venue_as_str Venue_Xmio = ''XMIO''"
| "venue_as_str Venue_Arco = ''ARCO''"
| "venue_as_str Venue_Opra = ''OPRA''"
| "venue_as_str Venue_Mprl = ''MPRL''"
| "venue_as_str Venue_Xndq = ''XNDQ''"
| "venue_as_str Venue_Xbxo = ''XBXO''"
| "venue_as_str Venue_C2Ox = ''C2OX''"
| "venue_as_str Venue_Xphl = ''XPHL''"
| "venue_as_str Venue_Bato = ''BATO''"
| "venue_as_str Venue_Mxop = ''MXOP''"
| "venue_as_str Venue_Ifeu = ''IFEU''"
| "venue_as_str Venue_Ndex = ''NDEX''"
| "venue_as_str Venue_Dbeq = ''DBEQ''"
| "venue_as_str Venue_Sphr = ''SPHR''"
| "venue_as_str Venue_Ltse = ''LTSE''"
| "venue_as_str Venue_Xoff = ''XOFF''"
| "venue_as_str Venue_Aspn = ''ASPN''"
| "venue_as_str Venue_Asmt = ''ASMT''"
| "venue_as_str Venue_Aspi = ''ASPI''"
| "venue_as_str Venue_Equs = ''EQUS''"
| "venue_as_str Venue_Ifus = ''IFUS''"
| "venue_as_str Venue_Ifll = ''IFLL''"
| "venue_as_str Venue_Xeur = ''XEUR''"
| "venue_as_str Venue_Xeee = ''XEEE''"

definition venue_names :: "(string \<times> Venue) list" where
  "venue_names =
    [(''GLBX'', Venue_Glbx), (''XNAS'', Venue_Xnas), (''XBOS'', Venue_Xbos), (''XPSX'', Venue_Xpsx),
     (''BATS'', Venue_Bats), (''BATY'', Venue_Baty), (''EDGA'', Venue_Edga), (''EDGX'', Venue_Edgx),
     (''XNYS'', Venue_Xnys), (''XCIS'', Venue_Xcis), (''XASE'', Venue_Xase), (''ARCX'', Venue_Arcx),
     (''XCHI'', Venue_Xchi), (''IEXG'', Venue_Iexg), (''FINN'', Venue_Finn), (''FINC'', Venue_Finc),
     (''FINY'', Venue_Finy), (''MEMX'', Venue_Memx), (''EPRL'', Venue_Eprl), (''AMXO'', Venue_Amxo),
     (''XBOX'', Venue_Xbox), (''XCBO'', Venue_Xcbo), (''EMLD'', Venue_Emld), (''EDGO'', Venue_Edgo),
     (''GMNI'', Venue_Gmni), (''XISX'', Venue_Xisx), (''MCRY'', Venue_Mcry), (''XMIO'', Venue_Xmio),
     (''ARCO'', Venue_Arco), (''OPRA'', Venue_Opra), (''MPRL'', Venue_Mprl), (''XNDQ'', Venue_Xndq),
     (''XBXO'', Venue_Xbxo), (''C2OX'', Venue_C2Ox), (''XPHL'', Venue_Xphl), (''BATO'', Venue_Bato),
     (''MXOP'', Venue_Mxop), (''IFEU'', Venue_Ifeu), (''NDEX'', Venue_Ndex), (''DBEQ'', Venue_Dbeq),
     (''SPHR'', Venue_Sphr), (''LTSE'', Venue_Ltse), (''XOFF'', Venue_Xoff), (''ASPN'', Venue_Aspn),
     (''ASMT'', Venue_Asmt), (''ASPI'', Venue_Aspi), (''EQUS'', Venue_Equs), (''IFUS'', Venue_Ifus),
     (''IFLL'', Venue_Ifll), (''XEUR'', Venue_Xeur), (''XEEE'', Venue_Xeee)]"

definition venue_from_str :: "string \<Rightarrow> Venue result" where
  "venue_from_str s =
     (case map_of venue_names s of Some v \<Rightarrow> Ok v | None \<Rightarrow> Err (Conversion s ''dbn::publishers::Venue''))"

subsection \<open>Dataset\<close>

datatype Dataset =
    Dataset_GlbxMdp3 | Dataset_XnasItch | Dataset_XbosItch | Dataset_XpsxItch | Dataset_BatsPitch
    | Dataset_BatyPitch | Dataset_EdgaPitch | Dataset_EdgxPitch | Dataset_XnysPillar
    | Dataset_XcisPillar | Dataset_XasePillar | Dataset_XchiPillar | Dataset_XcisBbo
    | Dataset_XcisTrades | Dataset_MemxMemoir | Dataset_EprlDom | Dataset_FinnNls | Dataset_FinyTrades
    | Dataset_OpraPillar | Dataset_DbeqBasic | Dataset_ArcxPillar | Dataset_IexgTops
    | Dataset_EqusPlus | Dataset_XnysBbo | Dataset_XnysTrades | Dataset_XnasQbbo | Dataset_XnasNls
    | Dataset_IfeuImpact | Dataset_NdexImpact | Dataset_EqusAll | Dataset_XnasBasic
    | Dataset_EqusSummary | Dataset_XcisTradesbbo | Dataset_XnysTradesbbo | Dataset_EqusMini
    | Dataset_IfusImpact | Dataset_IfllImpact | Dataset_XeurEobi | Dataset_XeeeEobi

definition dataset_variants :: "Dataset list" where
  "dataset_variants =
    [Dataset_GlbxMdp3, Dataset_XnasItch, Dataset_XbosItch, Dataset_XpsxItch, Dataset_BatsPitch,
     Dataset_BatyPitch, Dataset_EdgaPitch, Dataset_EdgxPitch, Dataset_XnysPillar, Dataset_XcisPillar,
     Dataset_XasePillar, Dataset_XchiPillar, Dataset_XcisBbo, Dataset_XcisTrades, Dataset_MemxMemoir,
     Dataset_EprlDom, Dataset_FinnNls, Dataset_FinyTrades, Dataset_OpraPillar, Dataset_DbeqBasic,
     Dataset_ArcxPillar, Dataset_IexgTops, Dataset_EqusPlus, Dataset_XnysBbo, Dataset_XnysTrades,
     Dataset_XnasQbbo, Dataset_XnasNls, Dataset_IfeuImpact, Dataset_NdexImpact, Dataset_EqusAll,
     Dataset_XnasBasic, Dataset_EqusSummary, Dataset_XcisTradesbbo, Dataset_XnysTradesbbo,
     Dataset_EqusMini, Dataset_IfusImpact, Dataset_IfllImpact, Dataset_XeurEobi, Dataset_XeeeEobi]"

primrec dataset_as_u16 :: "Dataset \<Rightarrow> u16" where
  "dataset_as_u16 Dataset_GlbxMdp3 = 1"
| "dataset_as_u16 Dataset_XnasItch = 2"
| "dataset_as_u16 Dataset_XbosItch = 3"
| "dataset_as_u16 Dataset_XpsxItch = 4"
| "dataset_as_u16 Dataset_BatsPitch = 5"
| "dataset_as_u16 Dataset_BatyPitch = 6"
| "dataset_as_u16 Dataset_EdgaPitch = 7"
| "dataset_as_u16 Dataset_EdgxPitch = 8"
| "dataset_as_u16 Dataset_XnysPillar = 9"
| "dataset_as_u16 Dataset_XcisPillar = 10"
| "dataset_as_u16 Dataset_XasePillar = 11"
| "dataset_as_u16 Dataset_XchiPillar = 12"
| "dataset_as_u16 Dataset_XcisBbo = 13"
| "dataset_as_u16 Dataset_XcisTrades = 14"
| "dataset_as_u16 Dataset_MemxMemoir = 15"
| "dataset_as_u16 Dataset_EprlDom = 16"
| "dataset_as_u16 Dataset_FinnNls = 17"
| "dataset_as_u16 Dataset_FinyTrades = 18"
| "dataset_as_u16 Dataset_OpraPillar = 19"
| "dataset_as_u16 Dataset_DbeqBasic = 20"
| "dataset_as_u16 Dataset_ArcxPillar = 21"
| "dataset_as_u16 Dataset_IexgTops = 22"
| "dataset_as_u16 Dataset_EqusPlus = 23"
| "dataset_as_u16 Dataset_XnysBbo = 24"
| "dataset_as_u16 Dataset_XnysTrades = 25"
| "dataset_as_u16 Dataset_XnasQbbo = 26"
| "dataset_as_u16 Dataset_XnasNls = 27"
| "dataset_as_u16 Dataset_IfeuImpact = 28"
| "dataset_as_u16 Dataset_NdexImpact = 29"
| "dataset_as_u16 Dataset_EqusAll = 30"
| "dataset_as_u16 Dataset_XnasBasic = 31"
| "dataset_as_u16 Dataset_EqusSummary = 32"
| "dataset_as_u16 Dataset_XcisTradesbbo = 33"
| "dataset_as_u16 Dataset_XnysTradesbbo = 34"
| "dataset_as_u16 Dataset_EqusMini = 35"
| "dataset_as_u16 Dataset_IfusImpact = 36"
| "dataset_as_u16 Dataset_IfllImpact = 37"
| "dataset_as_u16 Dataset_XeurEobi = 38"
| "dataset_as_u16 Dataset_XeeeEobi = 39"

definition dataset_try_from :: "u16 \<Rightarrow> Dataset option" where
  "dataset_try_from x = find (\<lambda>v. dataset_as_u16 v = x) dataset_variants"

primrec dataset_as_str :: "Dataset \<Rightarrow> string" where
  "dataset_as_str Dataset_GlbxMdp3 = ''GLBX.MDP3''"
| "dataset_as_str Dataset_XnasItch = ''XNAS.ITCH''"
| "dataset_as_str Dataset_XbosItch = ''XBOS.ITCH''"
| "dataset_as_str Dataset_XpsxItch = ''XPSX.ITCH''"
| "dataset_as_str Dataset_BatsPitch = ''BATS.PITCH''"
| "dataset_as_str Dataset_BatyPitch = ''BATY.PITCH''"
| "dataset_as_str Dataset_EdgaPitch = ''EDGA.PITCH''"
| "dataset_as_str Dataset_EdgxPitch = ''EDGX.PITCH''"
| "dataset_as_str Dataset_XnysPillar = ''XNYS.PILLAR''"
| "dataset_as_str Dataset_XcisPillar = ''XCIS.PILLAR''"
| "dataset_as_str Dataset_XasePillar = ''XASE.PILLAR''"
| "dataset_as_str Dataset_XchiPillar = ''XCHI.PILLAR''"
| "dataset_as_str Dataset_XcisBbo = ''XCIS.BBO''"
| "dataset_as_str Dataset_XcisTrades = ''XCIS.TRADES''"
| "dataset_as_str Dataset_MemxMemoir = ''MEMX.MEMOIR''"
| "dataset_as_str Dataset_EprlDom = ''EPRL.DOM''"
| "dataset_as_str Dataset_FinnNls = ''FINN.NLS''"
| "dataset_as_str Dataset_FinyTrades = ''FINY.TRADES''"
| "dataset_as_str Dataset_OpraPillar = ''OPRA.PILLAR''"
| "dataset_as_str Dataset_DbeqBasic = ''DBEQ.BASIC''"
| "dataset_as_str Dataset_ArcxPillar = ''ARCX.PILLAR''"
| "dataset_as_str Dataset_IexgTops = ''IEXG.TOPS''"
| "dataset_as_str Dataset_EqusPlus = ''EQUS.PLUS''"
| "dataset_as_str Dataset_XnysBbo = ''XNYS.BBO''"
| "dataset_as_str Dataset_XnysTrades = ''XNYS.TRADES''"
| "dataset_as_str Dataset_XnasQbbo = ''XNAS.QBBO''"
| "dataset_as_str Dataset_XnasNls = ''XNAS.NLS''"
| "dataset_as_str Dataset_IfeuImpact = ''IFEU.IMPACT''"
| "dataset_as_str Dataset_NdexImpact = ''NDEX.IMPACT''"
| "dataset_as_str Dataset_EqusAll = ''EQUS.ALL''"
| "dataset_as_str Dataset_XnasBasic = ''XNAS.BASIC''"
| "dataset_as_str Dataset_EqusSummary = ''EQUS.SUMMARY''"
| "dataset_as_str Dataset_XcisTradesbbo = ''XCIS.TRADESBBO''"
| "dataset_as_str Dataset_XnysTradesbbo = ''XNYS.TRADESBBO''"
| "dataset_as_str Dataset_EqusMini = ''EQUS.MINI''"
| "dataset_as_str Dataset_IfusImpact = ''IFUS.IMPACT''"
| "dataset_as_str Dataset_IfllImpact = ''IFLL.IMPACT''"
| "dataset_as_str Dataset_XeurEobi = ''XEUR.EOBI''"
| "dataset_as_str Dataset_XeeeEobi = ''XEEE.EOBI''"

definition dataset_names :: "(string \<times> Dataset) list" where
  "dataset_names =
    [(''GLBX.MDP3'', Dataset_GlbxMdp3), (''XNAS.ITCH'', Dataset_XnasItch),
     (''XBOS.ITCH'', Dataset_XbosItch), (''XPSX.ITCH'', Dataset_XpsxItch),
     (''BATS.PITCH'', Dataset_BatsPitch), (''BATY.PITCH'', Dataset_BatyPitch),
     (''EDGA.PITCH'', Dataset_EdgaPitch), (''EDGX.PITCH'', Dataset_EdgxPitch),
     (''XNYS.PILLAR'', Dataset_XnysPillar), (''XCIS.PILLAR'', Dataset_XcisPillar),
     (''XASE.PILLAR'', Dataset_XasePillar), (''XCHI.PILLAR'', Dataset_XchiPillar),
     (''XCIS.BBO'', Dataset_XcisBbo), (''XCIS.TRADES'', Dataset_XcisTrades),
     (''MEMX.MEMOIR'', Dataset_MemxMemoir), (''EPRL.DOM'', Dataset_EprlDom),
     (''FINN.NLS'', Dataset_FinnNls), (''FINY.TRADES'', Dataset_FinyTrades),
     (''OPRA.PILLAR'', Dataset_OpraPillar), (''DBEQ.BASIC'', Dataset_DbeqBasic),
     (''ARCX.PILLAR'', Dataset_ArcxPillar), (''IEXG.TOPS'', Dataset_IexgTops),
     (''EQUS.PLUS'', Dataset_EqusPlus), (''XNYS.BBO'', Dataset_XnysBbo),
     (''XNYS.TRADES'', Dataset_XnysTrades), (''XNAS.QBBO'', Dataset_XnasQbbo),
     (''XNAS.NLS'', Dataset_XnasNls), (''IFEU.IMPACT'', Dataset_IfeuImpact),
     (''NDEX.IMPACT'', Dataset_NdexImpact), (''EQUS.ALL'', Dataset_EqusAll),
     (''XNAS.BASIC'', Dataset_XnasBasic), (''EQUS.SUMMARY'', Dataset_EqusSummary),
     (''XCIS.TRADESBBO'', Dataset_XcisTradesbbo), (''XNYS.TRADESBBO'', Dataset_XnysTradesbbo),
     (''EQUS.MINI'', Dataset_EqusMini), (''IFUS.IMPACT'', Dataset_IfusImpact),
     (''IFLL.IMPACT'', Dataset_IfllImpact), (''XEUR.EOBI'', Dataset_XeurEobi),
     (''XEEE.EOBI'', Dataset_XeeeEobi)]"

definition dataset_from_str :: "string \<Rightarrow> Dataset result" where
  "dataset_from_str s =
     (case map_of dataset_names s of Some v \<Rightarrow> Ok v | None \<Rightarrow> Err (Conversion s ''dbn::publishers::Dataset''))"

subsection \<open>Publisher\<close>

datatype (plugins only:) Publisher =
    Publisher_GlbxMdp3Glbx | Publisher_XnasItchXnas | Publisher_XbosItchXbos
    | Publisher_XpsxItchXpsx | Publisher_BatsPitchBats | Publisher_BatyPitchBaty
    | Publisher_EdgaPitchEdga | Publisher_EdgxPitchEdgx | Publisher_XnysPillarXnys
    | Publisher_XcisPillarXcis | Publisher_XasePillarXase | Publisher_XchiPillarXchi
    | Publisher_XcisBboXcis | Publisher_XcisTradesXcis | Publisher_MemxMemoirMemx
    | Publisher_EprlDomEprl | Publisher_XnasNlsFinn | Publisher_XnasNlsFinc | Publisher_XnysTradesFiny
    | Publisher_OpraPillarAmxo | Publisher_OpraPillarXbox | Publisher_OpraPillarXcbo
    | Publisher_OpraPillarEmld | Publisher_OpraPillarEdgo | Publisher_OpraPillarGmni
    | Publisher_OpraPillarXisx | Publisher_OpraPillarMcry | Publisher_OpraPillarXmio
    | Publisher_OpraPillarArco | Publisher_OpraPillarOpra | Publisher_OpraPillarMprl
    | Publisher_OpraPillarXndq | Publisher_OpraPillarXbxo | Publisher_OpraPillarC2Ox
    | Publisher_OpraPillarXphl | Publisher_OpraPillarBato | Publisher_OpraPillarMxop
    | Publisher_IexgTopsIexg | Publisher_DbeqBasicXchi | Publisher_DbeqBasicXcis
    | Publisher_DbeqBasicIexg | Publisher_DbeqBasicEprl | Publisher_ArcxPillarArcx
    | Publisher_XnysBboXnys | Publisher_XnysTradesXnys | Publisher_XnasQbboXnas
    | Publisher_XnasNlsXnas | Publisher_EqusPlusXchi | Publisher_EqusPlusXcis | Publisher_EqusPlusIexg
    | Publisher_EqusPlusEprl | Publisher_EqusPlusXnas | Publisher_EqusPlusXnys
    | Publisher_EqusPlusFinn | Publisher_EqusPlusFiny | Publisher_EqusPlusFinc
    | Publisher_IfeuImpactIfeu | Publisher_NdexImpactNdex | Publisher_DbeqBasicDbeq
    | Publisher_EqusPlusEqus | Publisher_OpraPillarSphr | Publisher_EqusAllXchi
    | Publisher_EqusAllXcis | Publisher_EqusAllIexg | Publisher_EqusAllEprl | Publisher_EqusAllXnas
    | Publisher_EqusAllXnys | Publisher_EqusAllFinn | Publisher_EqusAllFiny | Publisher_EqusAllFinc
    | Publisher_EqusAllBats | Publisher_EqusAllBaty | Publisher_EqusAllEdga | Publisher_EqusAllEdgx
    | Publisher_EqusAllXbos | Publisher_EqusAllXpsx | Publisher_EqusAllMemx | Publisher_EqusAllXase
    | Publisher_EqusAllArcx | Publisher_EqusAllLtse | Publisher_XnasBasicXnas
    | Publisher_XnasBasicFinn | Publisher_XnasBasicFinc | Publisher_IfeuImpactXoff
    | Publisher_NdexImpactXoff | Publisher_XnasNlsXbos | Publisher_XnasNlsXpsx
    | Publisher_XnasBasicXbos | Publisher_XnasBasicXpsx | Publisher_EqusSummaryEqus
    | Publisher_XcisTradesbboXcis | Publisher_XnysTradesbboXnys | Publisher_XnasBasicEqus
    | Publisher_EqusAllEqus | Publisher_EqusMiniEqus | Publisher_XnysTradesEqus
    | Publisher_IfusImpactIfus | Publisher_IfusImpactXoff | Publisher_IfllImpactIfll
    | Publisher_IfllImpactXoff | Publisher_XeurEobiXeur | Publisher_XeeeEobiXeee
    | Publisher_XeurEobiXoff | Publisher_XeeeEobiXoff

definition publisher_variants :: "Publisher list" where
  "publisher_variants =
    [Publisher_GlbxMdp3Glbx, Publisher_XnasItchXnas, Publisher_XbosItchXbos, Publisher_XpsxItchXpsx,
     Publisher_BatsPitchBats, Publisher_BatyPitchBaty, Publisher_EdgaPitchEdga,
     Publisher_EdgxPitchEdgx, Publisher_XnysPillarXnys, Publisher_XcisPillarXcis,
     Publisher_XasePillarXase, Publisher_XchiPillarXchi, Publisher_XcisBboXcis,
     Publisher_XcisTradesXcis, Publisher_MemxMemoirMemx, Publisher_EprlDomEprl, Publisher_XnasNlsFinn,
     Publisher_XnasNlsFinc, Publisher_XnysTradesFiny, Publisher_OpraPillarAmxo,
     Publisher_OpraPillarXbox, Publisher_OpraPillarXcbo, Publisher_OpraPillarEmld,
     Publisher_OpraPillarEdgo, Publisher_OpraPillarGmni, Publisher_OpraPillarXisx,
     Publisher_OpraPillarMcry, Publisher_OpraPillarXmio, Publisher_OpraPillarArco,
     Publisher_OpraPillarOpra, Publisher_OpraPillarMprl, Publisher_OpraPillarXndq,
     Publisher_OpraPillarXbxo, Publisher_OpraPillarC2Ox, Publisher_OpraPillarXphl,
     Publisher_OpraPillarBato, Publisher_OpraPillarMxop, Publisher_IexgTopsIexg,
     Publisher_DbeqBasicXchi, Publisher_DbeqBasicXcis, Publisher_DbeqBasicIexg,
     Publisher_DbeqBasicEprl, Publisher_ArcxPillarArcx, Publisher_XnysBboXnys,
     Publisher_XnysTradesXnys, Publisher_XnasQbboXnas, Publisher_XnasNlsXnas, Publisher_EqusPlusXchi,
     Publisher_EqusPlusXcis, Publisher_EqusPlusIexg, Publisher_EqusPlusEprl, Publisher_EqusPlusXnas,
     Publisher_EqusPlusXnys, Publisher_EqusPlusFinn, Publisher_EqusPlusFiny, Publisher_EqusPlusFinc,
     Publisher_IfeuImpactIfeu, Publisher_NdexImpactNdex, Publisher_DbeqBasicDbeq,
     Publisher_EqusPlusEqus, Publisher_OpraPillarSphr, Publisher_EqusAllXchi, Publisher_EqusAllXcis,
     Publisher_EqusAllIexg, Publisher_EqusAllEprl, Publisher_EqusAllXnas, Publisher_EqusAllXnys,
     Publisher_EqusAllFinn, Publisher_EqusAllFiny, Publisher_EqusAllFinc, Publisher_EqusAllBats,
     Publisher_EqusAllBaty, Publisher_EqusAllEdga, Publisher_EqusAllEdgx, Publisher_EqusAllXbos,
     Publisher_EqusAllXpsx, Publisher_EqusAllMemx, Publisher_EqusAllXase, Publisher_EqusAllArcx,
     Publisher_EqusAllLtse, Publisher_XnasBasicXnas, Publisher_XnasBasicFinn, Publisher_XnasBasicFinc,
     Publisher_IfeuImpactXoff, Publisher_NdexImpactXoff, Publisher_XnasNlsXbos, Publisher_XnasNlsXpsx,
     Publisher_XnasBasicXbos, Publisher_XnasBasicXpsx, Publisher_EqusSummaryEqus,
     Publisher_XcisTradesbboXcis, Publisher_XnysTradesbboXnys, Publisher_XnasBasicEqus,
     Publisher_EqusAllEqus, Publisher_EqusMiniEqus, Publisher_XnysTradesEqus,
     Publisher_IfusImpactIfus, Publisher_IfusImpactXoff, Publisher_IfllImpactIfll,
     Publisher_IfllImpactXoff, Publisher_XeurEobiXeur, Publisher_XeeeEobiXeee, Publisher_XeurEobiXoff,
     Publisher_XeeeEobiXoff]"

primrec publisher_as_u16 :: "Publisher \<Rightarrow> u16" where
  "publisher_as_u16 Publisher_GlbxMdp3Glbx = 1"
| "publisher_as_u16 Publisher_XnasItchXnas = 2"
| "publisher_as_u16 Publisher_XbosItchXbos = 3"
| "publisher_as_u16 Publisher_XpsxItchXpsx = 4"
| "publisher_as_u16 Publisher_BatsPitchBats = 5"
| "publisher_as_u16 Publisher_BatyPitchBaty = 6"
| "publisher_as_u16 Publisher_EdgaPitchEdga = 7"
| "publisher_as_u16 Publisher_EdgxPitchEdgx = 8"
| "publisher_as_u16 Publisher_XnysPillarXnys = 9"
| "publisher_as_u16 Publisher_XcisPillarXcis = 10"
| "publisher_as_u16 Publisher_XasePillarXase = 11"
| "publisher_as_u16 Publisher_XchiPillarXchi = 12"
| "publisher_as_u16 Publisher_XcisBboXcis = 13"
| "publisher_as_u16 Publisher_XcisTradesXcis = 14"
| "publisher_as_u16 Publisher_MemxMemoirMemx = 15"
| "publisher_as_u16 Publisher_EprlDomEprl = 16"
| "publisher_as_u16 Publisher_XnasNlsFinn = 17"
| "publisher_as_u16 Publisher_XnasNlsFinc = 18"
| "publisher_as_u16 Publisher_XnysTradesFiny = 19"
| "publisher_as_u16 Publisher_OpraPillarAmxo = 20"
| "publisher_as_u16 Publisher_OpraPillarXbox = 21"
| "publisher_as_u16 Publisher_OpraPillarXcbo = 22"
| "publisher_as_u16 Publisher_OpraPillarEmld = 23"
| "publisher_as_u16 Publisher_OpraPillarEdgo = 24"
| "publisher_as_u16 Publisher_OpraPillarGmni = 25"
| "publisher_as_u16 Publisher_OpraPillarXisx = 26"
| "publisher_as_u16 Publisher_OpraPillarMcry = 27"
| "publisher_as_u16 Publisher_OpraPillarXmio = 28"
| "publisher_as_u16 Publisher_OpraPillarArco = 29"
| "publisher_as_u16 Publisher_OpraPillarOpra = 30"
| "publisher_as_u16 Publisher_OpraPillarMprl = 31"
| "publisher_as_u16 Publisher_OpraPillarXndq = 32"
| "publisher_as_u16 Publisher_OpraPillarXbxo = 33"
| "publisher_as_u16 Publisher_OpraPillarC2Ox = 34"
| "publisher_as_u16 Publisher_OpraPillarXphl = 35"
| "publisher_as_u16 Publisher_OpraPillarBato = 36"
| "publisher_as_u16 Publisher_OpraPillarMxop = 37"
| "publisher_as_u16 Publisher_IexgTopsIexg = 38"
| "publisher_as_u16 Publisher_DbeqBasicXchi = 39"
| "publisher_as_u16 Publisher_DbeqBasicXcis = 40"
| "publisher_as_u16 Publisher_DbeqBasicIexg = 41"
| "publisher_as_u16 Publisher_DbeqBasicEprl = 42"
| "publisher_as_u16 Publisher_ArcxPillarArcx = 43"
| "publisher_as_u16 Publisher_XnysBboXnys = 44"
| "publisher_as_u16 Publisher_XnysTradesXnys = 45"
| "publisher_as_u16 Publisher_XnasQbboXnas = 46"
| "publisher_as_u16 Publisher_XnasNlsXnas = 47"
| "publisher_as_u16 Publisher_EqusPlusXchi = 48"
| "publisher_as_u16 Publisher_EqusPlusXcis = 49"
| "publisher_as_u16 Publisher_EqusPlusIexg = 50"
| "publisher_as_u16 Publisher_EqusPlusEprl = 51"
| "publisher_as_u16 Publisher_EqusPlusXnas = 52"
| "publisher_as_u16 Publisher_EqusPlusXnys = 53"
| "publisher_as_u16 Publisher_EqusPlusFinn = 54"
| "publisher_as_u16 Publisher_EqusPlusFiny = 55"
| "publisher_as_u16 Publisher_EqusPlusFinc = 56"
| "publisher_as_u16 Publisher_IfeuImpactIfeu = 57"
| "publisher_as_u16 Publisher_NdexImpactNdex = 58"
| "publisher_as_u16 Publisher_DbeqBasicDbeq = 59"
| "publisher_as_u16 Publisher_EqusPlusEqus = 60"
| "publisher_as_u16 Publisher_OpraPillarSphr = 61"
| "publisher_as_u16 Publisher_EqusAllXchi = 62"
| "publisher_as_u16 Publisher_EqusAllXcis = 63"
| "publisher_as_u16 Publisher_EqusAllIexg = 64"
| "publisher_as_u16 Publisher_EqusAllEprl = 65"
| "publisher_as_u16 Publisher_EqusAllXnas = 66"
| "publisher_as_u16 Publisher_EqusAllXnys = 67"
| "publisher_as_u16 Publisher_EqusAllFinn = 68"
| "publisher_as_u16 Publisher_EqusAllFiny = 69"
| "publisher_as_u16 Publisher_EqusAllFinc = 70"
| "publisher_as_u16 Publisher_EqusAllBats = 71"
| "publisher_as_u16 Publisher_EqusAllBaty = 72"
| "publisher_as_u16 Publisher_EqusAllEdga = 73"
| "publisher_as_u16 Publisher_EqusAllEdgx = 74"
| "publisher_as_u16 Publisher_EqusAllXbos = 75"
| "publisher_as_u16 Publisher_EqusAllXpsx = 76"
| "publisher_as_u16 Publisher_EqusAllMemx = 77"
| "publisher_as_u16 Publisher_EqusAllXase = 78"
| "publisher_as_u16 Publisher_EqusAllArcx = 79"
| "publisher_as_u16 Publisher_EqusAllLtse = 80"
| "publisher_as_u16 Publisher_XnasBasicXnas = 81"
| "publisher_as_u16 Publisher_XnasBasicFinn = 82"
| "publisher_as_u16 Publisher_XnasBasicFinc = 83"
| "publisher_as_u16 Publisher_IfeuImpactXoff = 84"
| "publisher_as_u16 Publisher_NdexImpactXoff = 85"
| "publisher_as_u16 Publisher_XnasNlsXbos = 86"
| "publisher_as_u16 Publisher_XnasNlsXpsx = 87"
| "publisher_as_u16 Publisher_XnasBasicXbos = 88"
| "publisher_as_u16 Publisher_XnasBasicXpsx = 89"
| "publisher_as_u16 Publisher_EqusSummaryEqus = 90"
| "publisher_as_u16 Publisher_XcisTradesbboXcis = 91"
| "publisher_as_u16 Publisher_XnysTradesbboXnys = 92"
| "publisher_as_u16 Publisher_XnasBasicEqus = 93"
| "publisher_as_u16 Publisher_EqusAllEqus = 94"
| "publisher_as_u16 Publisher_EqusMiniEqus = 95"
| "publisher_as_u16 Publisher_XnysTradesEqus = 96"
| "publisher_as_u16 Publisher_IfusImpactIfus = 97"
| "publisher_as_u16 Publisher_IfusImpactXoff = 98"
| "publisher_as_u16 Publisher_IfllImpactIfll = 99"
| "publisher_as_u16 Publisher_IfllImpactXoff = 100"
| "publisher_as_u16 Publisher_XeurEobiXeur = 101"
| "publisher_as_u16 Publisher_XeeeEobiXeee = 102"
| "publisher_as_u16 Publisher_XeurEobiXoff = 103"
| "publisher_as_u16 Publisher_XeeeEobiXoff = 104"

definition publisher_try_from :: "u16 \<Rightarrow> Publisher option" where
  "publisher_try_from x = find (\<lambda>v. publisher_as_u16 v = x) publisher_variants"

primrec publisher_as_str :: "Publisher \<Rightarrow> string" where
  "publisher_as_str Publisher_GlbxMdp3Glbx = ''GLBX.MDP3.GLBX''"
| "publisher_as_str Publisher_XnasItchXnas = ''XNAS.ITCH.XNAS''"
| "publisher_as_str Publisher_XbosItchXbos = ''XBOS.ITCH.XBOS''"
| "publisher_as_str Publisher_XpsxItchXpsx = ''XPSX.ITCH.XPSX''"
| "publisher_as_str Publisher_BatsPitchBats = ''BATS.PITCH.BATS''"
| "publisher_as_str Publisher_BatyPitchBaty = ''BATY.PITCH.BATY''"
| "publisher_as_str Publisher_EdgaPitchEdga = ''EDGA.PITCH.EDGA''"
| "publisher_as_str Publisher_EdgxPitchEdgx = ''EDGX.PITCH.EDGX''"
| "publisher_as_str Publisher_XnysPillarXnys = ''XNYS.PILLAR.XNYS''"
| "publisher_as_str Publisher_XcisPillarXcis = ''XCIS.PILLAR.XCIS''"
| "publisher_as_str Publisher_XasePillarXase = ''XASE.PILLAR.XASE''"
| "publisher_as_str Publisher_XchiPillarXchi = ''XCHI.PILLAR.XCHI''"
| "publisher_as_str Publisher_XcisBboXcis = ''XCIS.BBO.XCIS''"
| "publisher_as_str Publisher_XcisTradesXcis = ''XCIS.TRADES.XCIS''"
| "publisher_as_str Publisher_MemxMemoirMemx = ''MEMX.MEMOIR.MEMX''"
| "publisher_as_str Publisher_EprlDomEprl = ''EPRL.DOM.EPRL''"
| "publisher_as_str Publisher_XnasNlsFinn = ''XNAS.NLS.FINN''"
| "publisher_as_str Publisher_XnasNlsFinc = ''XNAS.NLS.FINC''"
| "publisher_as_str Publisher_XnysTradesFiny = ''XNYS.TRADES.FINY''"
| "publisher_as_str Publisher_OpraPillarAmxo = ''OPRA.PILLAR.AMXO''"
| "publisher_as_str Publisher_OpraPillarXbox = ''OPRA.PILLAR.XBOX''"
| "publisher_as_str Publisher_OpraPillarXcbo = ''OPRA.PILLAR.XCBO''"
| "publisher_as_str Publisher_OpraPillarEmld = ''OPRA.PILLAR.EMLD''"
| "publisher_as_str Publisher_OpraPillarEdgo = ''OPRA.PILLAR.EDGO''"
| "publisher_as_str Publisher_OpraPillarGmni = ''OPRA.PILLAR.GMNI''"
| "publisher_as_str Publisher_OpraPillarXisx = ''OPRA.PILLAR.XISX''"
| "publisher_as_str Publisher_OpraPillarMcry = ''OPRA.PILLAR.MCRY''"
| "publisher_as_str Publisher_OpraPillarXmio = ''OPRA.PILLAR.XMIO''"
| "publisher_as_str Publisher_OpraPillarArco = ''OPRA.PILLAR.ARCO''"
| "publisher_as_str Publisher_OpraPillarOpra = ''OPRA.PILLAR.OPRA''"
| "publisher_as_str Publisher_OpraPillarMprl = ''OPRA.PILLAR.MPRL''"
| "publisher_as_str Publisher_OpraPillarXndq = ''OPRA.PILLAR.XNDQ''"
| "publisher_as_str Publisher_OpraPillarXbxo = ''OPRA.PILLAR.XBXO''"
| "publisher_as_str Publisher_OpraPillarC2Ox = ''OPRA.PILLAR.C2OX''"
| "publisher_as_str Publisher_OpraPillarXphl = ''OPRA.PILLAR.XPHL''"
| "publisher_as_str Publisher_OpraPillarBato = ''OPRA.PILLAR.BATO''"
| "publisher_as_str Publisher_OpraPillarMxop = ''OPRA.PILLAR.MXOP''"
| "publisher_as_str Publisher_IexgTopsIexg = ''IEXG.TOPS.IEXG''"
| "publisher_as_str Publisher_DbeqBasicXchi = ''DBEQ.BASIC.XCHI''"
| "publisher_as_str Publisher_DbeqBasicXcis = ''DBEQ.BASIC.XCIS''"
| "publisher_as_str Publisher_DbeqBasicIexg = ''DBEQ.BASIC.IEXG''"
| "publisher_as_str Publisher_DbeqBasicEprl = ''DBEQ.BASIC.EPRL''"
| "publisher_as_str Publisher_ArcxPillarArcx = ''ARCX.PILLAR.ARCX''"
| "publisher_as_str Publisher_XnysBboXnys = ''XNYS.BBO.XNYS''"
| "publisher_as_str Publisher_XnysTradesXnys = ''XNYS.TRADES.XNYS''"
| "publisher_as_str Publisher_XnasQbboXnas = ''XNAS.QBBO.XNAS''"
| "publisher_as_str Publisher_XnasNlsXnas = ''XNAS.NLS.XNAS''"
| "publisher_as_str Publisher_EqusPlusXchi = ''EQUS.PLUS.XCHI''"
| "publisher_as_str Publisher_EqusPlusXcis = ''EQUS.PLUS.XCIS''"
| "publisher_as_str Publisher_EqusPlusIexg = ''EQUS.PLUS.IEXG''"
| "publisher_as_str Publisher_EqusPlusEprl = ''EQUS.PLUS.EPRL''"
| "publisher_as_str Publisher_EqusPlusXnas = ''EQUS.PLUS.XNAS''"
| "publisher_as_str Publisher_EqusPlusXnys = ''EQUS.PLUS.XNYS''"
| "publisher_as_str Publisher_EqusPlusFinn = ''EQUS.PLUS.FINN''"
| "publisher_as_str Publisher_EqusPlusFiny = ''EQUS.PLUS.FINY''"
| "publisher_as_str Publisher_EqusPlusFinc = ''EQUS.PLUS.FINC''"
| "publisher_as_str Publisher_IfeuImpactIfeu = ''IFEU.IMPACT.IFEU''"
| "publisher_as_str Publisher_NdexImpactNdex = ''NDEX.IMPACT.NDEX''"
| "publisher_as_str Publisher_DbeqBasicDbeq = ''DBEQ.BASIC.DBEQ''"
| "publisher_as_str Publisher_EqusPlusEqus = ''EQUS.PLUS.EQUS''"
| "publisher_as_str Publisher_OpraPillarSphr = ''OPRA.PILLAR.SPHR''"
| "publisher_as_str Publisher_EqusAllXchi = ''EQUS.ALL.XCHI''"
| "publisher_as_str Publisher_EqusAllXcis = ''EQUS.ALL.XCIS''"
| "publisher_as_str Publisher_EqusAllIexg = ''EQUS.ALL.IEXG''"
| "publisher_as_str Publisher_EqusAllEprl = ''EQUS.ALL.EPRL''"
| "publisher_as_str Publisher_EqusAllXnas = ''EQUS.ALL.XNAS''"
| "publisher_as_str Publisher_EqusAllXnys = ''EQUS.ALL.XNYS''"
| "publisher_as_str Publisher_EqusAllFinn = ''EQUS.ALL.FINN''"
| "publisher_as_str Publisher_EqusAllFiny = ''EQUS.ALL.FINY''"
| "publisher_as_str Publisher_EqusAllFinc = ''EQUS.ALL.FINC''"
| "publisher_as_str Publisher_EqusAllBats = ''EQUS.ALL.BATS''"
| "publisher_as_str Publisher_EqusAllBaty = ''EQUS.ALL.BATY''"
| "publisher_as_str Publisher_EqusAllEdga = ''EQUS.ALL.EDGA''"
| "publisher_as_str Publisher_EqusAllEdgx = ''EQUS.ALL.EDGX''"
| "publisher_as_str Publisher_EqusAllXbos = ''EQUS.ALL.XBOS''"
| "publisher_as_str Publisher_EqusAllXpsx = ''EQUS.ALL.XPSX''"
| "publisher_as_str Publisher_EqusAllMemx = ''EQUS.ALL.MEMX''"
| "publisher_as_str Publisher_EqusAllXase = ''EQUS.ALL.XASE''"
| "publisher_as_str Publisher_EqusAllArcx = ''EQUS.ALL.ARCX''"
| "publisher_as_str Publisher_EqusAllLtse = ''EQUS.ALL.LTSE''"
| "publisher_as_str Publisher_XnasBasicXnas = ''XNAS.BASIC.XNAS''"
| "publisher_as_str Publisher_XnasBasicFinn = ''XNAS.BASIC.FINN''"
| "publisher_as_str Publisher_XnasBasicFinc = ''XNAS.BASIC.FINC''"
| "publisher_as_str Publisher_IfeuImpactXoff = ''IFEU.IMPACT.XOFF''"
| "publisher_as_str Publisher_NdexImpactXoff = ''NDEX.IMPACT.XOFF''"
| "publisher_as_str Publisher_XnasNlsXbos = ''XNAS.NLS.XBOS''"
| "publisher_as_str Publisher_XnasNlsXpsx = ''XNAS.NLS.XPSX''"
| "publisher_as_str Publisher_XnasBasicXbos = ''XNAS.BASIC.XBOS''"
| "publisher_as_str Publisher_XnasBasicXpsx = ''XNAS.BASIC.XPSX''"
| "publisher_as_str Publisher_EqusSummaryEqus = ''EQUS.SUMMARY.EQUS''"
| "publisher_as_str Publisher_XcisTradesbboXcis = ''XCIS.TRADESBBO.XCIS''"
| "publisher_as_str Publisher_XnysTradesbboXnys = ''XNYS.TRADESBBO.XNYS''"
| "publisher_as_str Publisher_XnasBasicEqus = ''XNAS.BASIC.EQUS''"
| "publisher_as_str Publisher_EqusAllEqus = ''EQUS.ALL.EQUS''"
| "publisher_as_str Publisher_EqusMiniEqus = ''EQUS.MINI.EQUS''"
| "publisher_as_str Publisher_XnysTradesEqus = ''XNYS.TRADES.EQUS''"
| "publisher_as_str Publisher_IfusImpactIfus = ''IFUS.IMPACT.IFUS''"
| "publisher_as_str Publisher_IfusImpactXoff = ''IFUS.IMPACT.XOFF''"
| "publisher_as_str Publisher_IfllImpactIfll = ''IFLL.IMPACT.IFLL''"
| "publisher_as_str Publisher_IfllImpactXoff = ''IFLL.IMPACT.XOFF''"
| "publisher_as_str Publisher_XeurEobiXeur = ''XEUR.EOBI.XEUR''"
| "publisher_as_str Publisher_XeeeEobiXeee = ''XEEE.EOBI.XEEE''"
| "publisher_as_str Publisher_XeurEobiXoff = ''XEUR.EOBI.XOFF''"
| "publisher_as_str Publisher_XeeeEobiXoff = ''XEEE.EOBI.XOFF''"

definition publisher_names :: "(string \<times> Publisher) list" where
  "publisher_names =
    [(''GLBX.MDP3.GLBX'', Publisher_GlbxMdp3Glbx), (''XNAS.ITCH.XNAS'', Publisher_XnasItchXnas),
     (''XBOS.ITCH.XBOS'', Publisher_XbosItchXbos), (''XPSX.ITCH.XPSX'', Publisher_XpsxItchXpsx),
     (''BATS.PITCH.BATS'', Publisher_BatsPitchBats), (''BATY.PITCH.BATY'', Publisher_BatyPitchBaty),
     (''EDGA.PITCH.EDGA'', Publisher_EdgaPitchEdga), (''EDGX.PITCH.EDGX'', Publisher_EdgxPitchEdgx),
     (''XNYS.PILLAR.XNYS'', Publisher_XnysPillarXnys),
     (''XCIS.PILLAR.XCIS'', Publisher_XcisPillarXcis),
     (''XASE.PILLAR.XASE'', Publisher_XasePillarXase),
     (''XCHI.PILLAR.XCHI'', Publisher_XchiPillarXchi), (''XCIS.BBO.XCIS'', Publisher_XcisBboXcis),
     (''XCIS.TRADES.XCIS'', Publisher_XcisTradesXcis),
     (''MEMX.MEMOIR.MEMX'', Publisher_MemxMemoirMemx), (''EPRL.DOM.EPRL'', Publisher_EprlDomEprl),
     (''XNAS.NLS.FINN'', Publisher_XnasNlsFinn), (''XNAS.NLS.FINC'', Publisher_XnasNlsFinc),
     (''XNYS.TRADES.FINY'', Publisher_XnysTradesFiny),
     (''OPRA.PILLAR.AMXO'', Publisher_OpraPillarAmxo),
     (''OPRA.PILLAR.XBOX'', Publisher_OpraPillarXbox),
     (''OPRA.PILLAR.XCBO'', Publisher_OpraPillarXcbo),
     (''OPRA.PILLAR.EMLD'', Publisher_OpraPillarEmld),
     (''OPRA.PILLAR.EDGO'', Publisher_OpraPillarEdgo),
     (''OPRA.PILLAR.GMNI'', Publisher_OpraPillarGmni),
     (''OPRA.PILLAR.XISX'', Publisher_OpraPillarXisx),
     (''OPRA.PILLAR.MCRY'', Publisher_OpraPillarMcry),
     (''OPRA.PILLAR.XMIO'', Publisher_OpraPillarXmio),
     (''OPRA.PILLAR.ARCO'', Publisher_OpraPillarArco),
     (''OPRA.PILLAR.OPRA'', Publisher_OpraPillarOpra),
     (''OPRA.PILLAR.MPRL'', Publisher_OpraPillarMprl),
     (''OPRA.PILLAR.XNDQ'', Publisher_OpraPillarXndq),
     (''OPRA.PILLAR.XBXO'', Publisher_OpraPillarXbxo),
     (''OPRA.PILLAR.C2OX'', Publisher_OpraPillarC2Ox),
     (''OPRA.PILLAR.XPHL'', Publisher_OpraPillarXphl),
     (''OPRA.PILLAR.BATO'', Publisher_OpraPillarBato),
     (''OPRA.PILLAR.MXOP'', Publisher_OpraPillarMxop), (''IEXG.TOPS.IEXG'', Publisher_IexgTopsIexg),
     (''DBEQ.BASIC.XCHI'', Publisher_DbeqBasicXchi), (''DBEQ.BASIC.XCIS'', Publisher_DbeqBasicXcis),
     (''DBEQ.BASIC.IEXG'', Publisher_DbeqBasicIexg), (''DBEQ.BASIC.EPRL'', Publisher_DbeqBasicEprl),
     (''ARCX.PILLAR.ARCX'', Publisher_ArcxPillarArcx), (''XNYS.BBO.XNYS'', Publisher_XnysBboXnys),
     (''XNYS.TRADES.XNYS'', Publisher_XnysTradesXnys), (''XNAS.QBBO.XNAS'', Publisher_XnasQbboXnas),
     (''XNAS.NLS.XNAS'', Publisher_XnasNlsXnas), (''EQUS.PLUS.XCHI'', Publisher_EqusPlusXchi),
     (''EQUS.PLUS.XCIS'', Publisher_EqusPlusXcis), (''EQUS.PLUS.IEXG'', Publisher_EqusPlusIexg),
     (''EQUS.PLUS.EPRL'', Publisher_EqusPlusEprl), (''EQUS.PLUS.XNAS'', Publisher_EqusPlusXnas),
     (''EQUS.PLUS.XNYS'', Publisher_EqusPlusXnys), (''EQUS.PLUS.FINN'', Publisher_EqusPlusFinn),
     (''EQUS.PLUS.FINY'', Publisher_EqusPlusFiny), (''EQUS.PLUS.FINC'', Publisher_EqusPlusFinc),
     (''IFEU.IMPACT.IFEU'', Publisher_IfeuImpactIfeu),
     (''NDEX.IMPACT.NDEX'', Publisher_NdexImpactNdex), (''DBEQ.BASIC.DBEQ'', Publisher_DbeqBasicDbeq),
     (''EQUS.PLUS.EQUS'', Publisher_EqusPlusEqus), (''OPRA.PILLAR.SPHR'', Publisher_OpraPillarSphr),
     (''EQUS.ALL.XCHI'', Publisher_EqusAllXchi), (''EQUS.ALL.XCIS'', Publisher_EqusAllXcis),
     (''EQUS.ALL.IEXG'', Publisher_EqusAllIexg), (''EQUS.ALL.EPRL'', Publisher_EqusAllEprl),
     (''EQUS.ALL.XNAS'', Publisher_EqusAllXnas), (''EQUS.ALL.XNYS'', Publisher_EqusAllXnys),
     (''EQUS.ALL.FINN'', Publisher_EqusAllFinn), (''EQUS.ALL.FINY'', Publisher_EqusAllFiny),
     (''EQUS.ALL.FINC'', Publisher_EqusAllFinc), (''EQUS.ALL.BATS'', Publisher_EqusAllBats),
     (''EQUS.ALL.BATY'', Publisher_EqusAllBaty), (''EQUS.ALL.EDGA'', Publisher_EqusAllEdga),
     (''EQUS.ALL.EDGX'', Publisher_EqusAllEdgx), (''EQUS.ALL.XBOS'', Publisher_EqusAllXbos),
     (''EQUS.ALL.XPSX'', Publisher_EqusAllXpsx), (''EQUS.ALL.MEMX'', Publisher_EqusAllMemx),
     (''EQUS.ALL.XASE'', Publisher_EqusAllXase), (''EQUS.ALL.ARCX'', Publisher_EqusAllArcx),
     (''EQUS.ALL.LTSE'', Publisher_EqusAllLtse), (''XNAS.BASIC.XNAS'', Publisher_XnasBasicXnas),
     (''XNAS.BASIC.FINN'', Publisher_XnasBasicFinn), (''XNAS.BASIC.FINC'', Publisher_XnasBasicFinc),
     (''IFEU.IMPACT.XOFF'', Publisher_IfeuImpactXoff),
     (''NDEX.IMPACT.XOFF'', Publisher_NdexImpactXoff), (''XNAS.NLS.XBOS'', Publisher_XnasNlsXbos),
     (''XNAS.NLS.XPSX'', Publisher_XnasNlsXpsx), (''XNAS.BASIC.XBOS'', Publisher_XnasBasicXbos),
     (''XNAS.BASIC.XPSX'', Publisher_XnasBasicXpsx),
     (''EQUS.SUMMARY.EQUS'', Publisher_EqusSummaryEqus),
     (''XCIS.TRADESBBO.XCIS'', Publisher_XcisTradesbboXcis),
     (''XNYS.TRADESBBO.XNYS'', Publisher_XnysTradesbboXnys),
     (''XNAS.BASIC.EQUS'', Publisher_XnasBasicEqus), (''EQUS.ALL.EQUS'', Publisher_EqusAllEqus),
     (''EQUS.MINI.EQUS'', Publisher_EqusMiniEqus), (''XNYS.TRADES.EQUS'', Publisher_XnysTradesEqus),
     (''IFUS.IMPACT.IFUS'', Publisher_IfusImpactIfus),
     (''IFUS.IMPACT.XOFF'', Publisher_IfusImpactXoff),
     (''IFLL.IMPACT.IFLL'', Publisher_IfllImpactIfll),
     (''IFLL.IMPACT.XOFF'', Publisher_IfllImpactXoff), (''XEUR.EOBI.XEUR'', Publisher_XeurEobiXeur),
     (''XEEE.EOBI.XEEE'', Publisher_XeeeEobiXeee), (''XEUR.EOBI.XOFF'', Publisher_XeurEobiXoff),
     (''XEEE.EOBI.XOFF'', Publisher_XeeeEobiXoff)]"

definition publisher_from_str :: "string \<Rightarrow> Publisher result" where
  "publisher_from_str s =
     (case map_of publisher_names s of Some v \<Rightarrow> Ok v | None \<Rightarrow> Err (Conversion s ''dbn::publishers::Publisher''))"

subsection \<open>The relations between them\<close>

primrec publisher_venue :: "Publisher \<Rightarrow> Venue" where
  "publisher_venue Publisher_GlbxMdp3Glbx = Venue_Glbx"
| "publisher_venue Publisher_XnasItchXnas = Venue_Xnas"
| "publisher_venue Publisher_XbosItchXbos = Venue_Xbos"
| "publisher_venue Publisher_XpsxItchXpsx = Venue_Xpsx"
| "publisher_venue Publisher_BatsPitchBats = Venue_Bats"
| "publisher_venue Publisher_BatyPitchBaty = Venue_Baty"
| "publisher_venue Publisher_EdgaPitchEdga = Venue_Edga"
| "publisher_venue Publisher_EdgxPitchEdgx = Venue_Edgx"
| "publisher_venue Publisher_XnysPillarXnys = Venue_Xnys"
| "publisher_venue Publisher_XcisPillarXcis = Venue_Xcis"
| "publisher_venue Publisher_XasePillarXase = Venue_Xase"
| "publisher_venue Publisher_XchiPillarXchi = Venue_Xchi"
| "publisher_venue Publisher_XcisBboXcis = Venue_Xcis"
| "publisher_venue Publisher_XcisTradesXcis = Venue_Xcis"
| "publisher_venue Publisher_MemxMemoirMemx = Venue_Memx"
| "publisher_venue Publisher_EprlDomEprl = Venue_Eprl"
| "publisher_venue Publisher_XnasNlsFinn = Venue_Finn"
| "publisher_venue Publisher_XnasNlsFinc = Venue_Finc"
| "publisher_venue Publisher_XnysTradesFiny = Venue_Finy"
| "publisher_venue Publisher_OpraPillarAmxo = Venue_Amxo"
| "publisher_venue Publisher_OpraPillarXbox = Venue_Xbox"
| "publisher_venue Publisher_OpraPillarXcbo = Venue_Xcbo"
| "publisher_venue Publisher_OpraPillarEmld = Venue_Emld"
| "publisher_venue Publisher_OpraPillarEdgo = Venue_Edgo"
| "publisher_venue Publisher_OpraPillarGmni = Venue_Gmni"
| "publisher_venue Publisher_OpraPillarXisx = Venue_Xisx"
| "publisher_venue Publisher_OpraPillarMcry = Venue_Mcry"
| "publisher_venue Publisher_OpraPillarXmio = Venue_Xmio"
| "publisher_venue Publisher_OpraPillarArco = Venue_Arco"
| "publisher_venue Publisher_OpraPillarOpra = Venue_Opra"
| "publisher_venue Publisher_OpraPillarMprl = Venue_Mprl"
| "publisher_venue Publisher_OpraPillarXndq = Venue_Xndq"
| "publisher_venue Publisher_OpraPillarXbxo = Venue_Xbxo"
| "publisher_venue Publisher_OpraPillarC2Ox = Venue_C2Ox"
| "publisher_venue Publisher_OpraPillarXphl = Venue_Xphl"
| "publisher_venue Publisher_OpraPillarBato = Venue_Bato"
| "publisher_venue Publisher_OpraPillarMxop = Venue_Mxop"
| "publisher_venue Publisher_IexgTopsIexg = Venue_Iexg"
| "publisher_venue Publisher_DbeqBasicXchi = Venue_Xchi"
| "publisher_venue Publisher_DbeqBasicXcis = Venue_Xcis"
| "publisher_venue Publisher_DbeqBasicIexg = Venue_Iexg"
| "publisher_venue Publisher_DbeqBasicEprl = Venue_Eprl"
| "publisher_venue Publisher_ArcxPillarArcx = Venue_Arcx"
| "publisher_venue Publisher_XnysBboXnys = Venue_Xnys"
| "publisher_venue Publisher_XnysTradesXnys = Venue_Xnys"
| "publisher_venue Publisher_XnasQbboXnas = Venue_Xnas"
| "publisher_venue Publisher_XnasNlsXnas = Venue_Xnas"
| "publisher_venue Publisher_EqusPlusXchi = Venue_Xchi"
| "publisher_venue Publisher_EqusPlusXcis = Venue_Xcis"
| "publisher_venue Publisher_EqusPlusIexg = Venue_Iexg"
| "publisher_venue Publisher_EqusPlusEprl = Venue_Eprl"
| "publisher_venue Publisher_EqusPlusXnas = Venue_Xnas"
| "publisher_venue Publisher_EqusPlusXnys = Venue_Xnys"
| "publisher_venue Publisher_EqusPlusFinn = Venue_Finn"
| "publisher_venue Publisher_EqusPlusFiny = Venue_Finy"
| "publisher_venue Publisher_EqusPlusFinc = Venue_Finc"
| "publisher_venue Publisher_IfeuImpactIfeu = Venue_Ifeu"
| "publisher_venue Publisher_NdexImpactNdex = Venue_Ndex"
| "publisher_venue Publisher_DbeqBasicDbeq = Venue_Dbeq"
| "publisher_venue Publisher_EqusPlusEqus = Venue_Equs"
| "publisher_venue Publisher_OpraPillarSphr = Venue_Sphr"
| "publisher_venue Publisher_EqusAllXchi = Venue_Xchi"
| "publisher_venue Publisher_EqusAllXcis = Venue_Xcis"
| "publisher_venue Publisher_EqusAllIexg = Venue_Iexg"
| "publisher_venue Publisher_EqusAllEprl = Venue_Eprl"
| "publisher_venue Publisher_EqusAllXnas = Venue_Xnas"
| "publisher_venue Publisher_EqusAllXnys = Venue_Xnys"
| "publisher_venue Publisher_EqusAllFinn = Venue_Finn"
| "publisher_venue Publisher_EqusAllFiny = Venue_Finy"
| "publisher_venue Publisher_EqusAllFinc = Venue_Finc"
| "publisher_venue Publisher_EqusAllBats = Venue_Bats"
| "publisher_venue Publisher_EqusAllBaty = Venue_Baty"
| "publisher_venue Publisher_EqusAllEdga = Venue_Edga"
| "publisher_venue Publisher_EqusAllEdgx = Venue_Edgx"
| "publisher_venue Publisher_EqusAllXbos = Venue_Xbos"
| "publisher_venue Publisher_EqusAllXpsx = Venue_Xpsx"
| "publisher_venue Publisher_EqusAllMemx = Venue_Memx"
| "publisher_venue Publisher_EqusAllXase = Venue_Xase"
| "publisher_venue Publisher_EqusAllArcx = Venue_Arcx"
| "publisher_venue Publisher_EqusAllLtse = Venue_Ltse"
| "publisher_venue Publisher_XnasBasicXnas = Venue_Xnas"
| "publisher_venue Publisher_XnasBasicFinn = Venue_Finn"
| "publisher_venue Publisher_XnasBasicFinc = Venue_Finc"
| "publisher_venue Publisher_IfeuImpactXoff = Venue_Xoff"
| "publisher_venue Publisher_NdexImpactXoff = Venue_Xoff"
| "publisher_venue Publisher_XnasNlsXbos = Venue_Xbos"
| "publisher_venue Publisher_XnasNlsXpsx = Venue_Xpsx"
| "publisher_venue Publisher_XnasBasicXbos = Venue_Xbos"
| "publisher_venue Publisher_XnasBasicXpsx = Venue_Xpsx"
| "publisher_venue Publisher_EqusSummaryEqus = Venue_Equs"
| "publisher_venue Publisher_XcisTradesbboXcis = Venue_Xcis"
| "publisher_venue Publisher_XnysTradesbboXnys = Venue_Xnys"
| "publisher_venue Publisher_XnasBasicEqus = Venue_Equs"
| "publisher_venue Publisher_EqusAllEqus = Venue_Equs"
| "publisher_venue Publisher_EqusMiniEqus = Venue_Equs"
| "publisher_venue Publisher_XnysTradesEqus = Venue_Equs"
| "publisher_venue Publisher_IfusImpactIfus = Venue_Ifus"
| "publisher_venue Publisher_IfusImpactXoff = Venue_Xoff"
| "publisher_venue Publisher_IfllImpactIfll = Venue_Ifll"
| "publisher_venue Publisher_IfllImpactXoff = Venue_Xoff"
| "publisher_venue Publisher_XeurEobiXeur = Venue_Xeur"
| "publisher_venue Publisher_XeeeEobiXeee = Venue_Xeee"
| "publisher_venue Publisher_XeurEobiXoff = Venue_Xoff"
| "publisher_venue Publisher_XeeeEobiXoff = Venue_Xoff"

primrec publisher_dataset :: "Publisher \<Rightarrow> Dataset" where
  "publisher_dataset Publisher_GlbxMdp3Glbx = Dataset_GlbxMdp3"
| "publisher_dataset Publisher_XnasItchXnas = Dataset_XnasItch"
| "publisher_dataset Publisher_XbosItchXbos = Dataset_XbosItch"
| "publisher_dataset Publisher_XpsxItchXpsx = Dataset_XpsxItch"
| "publisher_dataset Publisher_BatsPitchBats = Dataset_BatsPitch"
| "publisher_dataset Publisher_BatyPitchBaty = Dataset_BatyPitch"
| "publisher_dataset Publisher_EdgaPitchEdga = Dataset_EdgaPitch"
| "publisher_dataset Publisher_EdgxPitchEdgx = Dataset_EdgxPitch"
| "publisher_dataset Publisher_XnysPillarXnys = Dataset_XnysPillar"
| "publisher_dataset Publisher_XcisPillarXcis = Dataset_XcisPillar"
| "publisher_dataset Publisher_XasePillarXase = Dataset_XasePillar"
| "publisher_dataset Publisher_XchiPillarXchi = Dataset_XchiPillar"
| "publisher_dataset Publisher_XcisBboXcis = Dataset_XcisBbo"
| "publisher_dataset Publisher_XcisTradesXcis = Dataset_XcisTrades"
| "publisher_dataset Publisher_MemxMemoirMemx = Dataset_MemxMemoir"
| "publisher_dataset Publisher_EprlDomEprl = Dataset_EprlDom"
| "publisher_dataset Publisher_XnasNlsFinn = Dataset_XnasNls"
| "publisher_dataset Publisher_XnasNlsFinc = Dataset_XnasNls"
| "publisher_dataset Publisher_XnysTradesFiny = Dataset_XnysTrades"
| "publisher_dataset Publisher_OpraPillarAmxo = Dataset_OpraPillar"
| "publisher_dataset Publisher_OpraPillarXbox = Dataset_OpraPillar"
| "publisher_dataset Publisher_OpraPillarXcbo = Dataset_OpraPillar"
| "publisher_dataset Publisher_OpraPillarEmld = Dataset_OpraPillar"
| "publisher_dataset Publisher_OpraPillarEdgo = Dataset_OpraPillar"
| "publisher_dataset Publisher_OpraPillarGmni = Dataset_OpraPillar"
| "publisher_dataset Publisher_OpraPillarXisx = Dataset_OpraPillar"
| "publisher_dataset Publisher_OpraPillarMcry = Dataset_OpraPillar"
| "publisher_dataset Publisher_OpraPillarXmio = Dataset_OpraPillar"
| "publisher_dataset Publisher_OpraPillarArco = Dataset_OpraPillar"
| "publisher_dataset Publisher_OpraPillarOpra = Dataset_OpraPillar"
| "publisher_dataset Publisher_OpraPillarMprl = Dataset_OpraPillar"
| "publisher_dataset Publisher_OpraPillarXndq = Dataset_OpraPillar"
| "publisher_dataset Publisher_OpraPillarXbxo = Dataset_OpraPillar"
| "publisher_dataset Publisher_OpraPillarC2Ox = Dataset_OpraPillar"
| "publisher_dataset Publisher_OpraPillarXphl = Dataset_OpraPillar"
| "publisher_dataset Publisher_OpraPillarBato = Dataset_OpraPillar"
| "publisher_dataset Publisher_OpraPillarMxop = Dataset_OpraPillar"
| "publisher_dataset Publisher_IexgTopsIexg = Dataset_IexgTops"
| "publisher_dataset Publisher_DbeqBasicXchi = Dataset_DbeqBasic"
| "publisher_dataset Publisher_DbeqBasicXcis = Dataset_DbeqBasic"
| "publisher_dataset Publisher_DbeqBasicIexg = Dataset_DbeqBasic"
| "publisher_dataset Publisher_DbeqBasicEprl = Dataset_DbeqBasic"
| "publisher_dataset Publisher_ArcxPillarArcx = Dataset_ArcxPillar"
| "publisher_dataset Publisher_XnysBboXnys = Dataset_XnysBbo"
| "publisher_dataset Publisher_XnysTradesXnys = Dataset_XnysTrades"
| "publisher_dataset Publisher_XnasQbboXnas = Dataset_XnasQbbo"
| "publisher_dataset Publisher_XnasNlsXnas = Dataset_XnasNls"
| "publisher_dataset Publisher_EqusPlusXchi = Dataset_EqusPlus"
| "publisher_dataset Publisher_EqusPlusXcis = Dataset_EqusPlus"
| "publisher_dataset Publisher_EqusPlusIexg = Dataset_EqusPlus"
| "publisher_dataset Publisher_EqusPlusEprl = Dataset_EqusPlus"
| "publisher_dataset Publisher_EqusPlusXnas = Dataset_EqusPlus"
| "publisher_dataset Publisher_EqusPlusXnys = Dataset_EqusPlus"
| "publisher_dataset Publisher_EqusPlusFinn = Dataset_EqusPlus"
| "publisher_dataset Publisher_EqusPlusFiny = Dataset_EqusPlus"
| "publisher_dataset Publisher_EqusPlusFinc = Dataset_EqusPlus"
| "publisher_dataset Publisher_IfeuImpactIfeu = Dataset_IfeuImpact"
| "publisher_dataset Publisher_NdexImpactNdex = Dataset_NdexImpact"
| "publisher_dataset Publisher_DbeqBasicDbeq = Dataset_DbeqBasic"
| "publisher_dataset Publisher_EqusPlusEqus = Dataset_EqusPlus"
| "publisher_dataset Publisher_OpraPillarSphr = Dataset_OpraPillar"
| "publisher_dataset Publisher_EqusAllXchi = Dataset_EqusAll"
| "publisher_dataset Publisher_EqusAllXcis = Dataset_EqusAll"
| "publisher_dataset Publisher_EqusAllIexg = Dataset_EqusAll"
| "publisher_dataset Publisher_EqusAllEprl = Dataset_EqusAll"
| "publisher_dataset Publisher_EqusAllXnas = Dataset_EqusAll"
| "publisher_dataset Publisher_EqusAllXnys = Dataset_EqusAll"
| "publisher_dataset Publisher_EqusAllFinn = Dataset_EqusAll"
| "publisher_dataset Publisher_EqusAllFiny = Dataset_EqusAll"
| "publisher_dataset Publisher_EqusAllFinc = Dataset_EqusAll"
| "publisher_dataset Publisher_EqusAllBats = Dataset_EqusAll"
| "publisher_dataset Publisher_EqusAllBaty = Dataset_EqusAll"
| "publisher_dataset Publisher_EqusAllEdga = Dataset_EqusAll"
| "publisher_dataset Publisher_EqusAllEdgx = Dataset_EqusAll"
| "publisher_dataset Publisher_EqusAllXbos = Dataset_EqusAll"
| "publisher_dataset Publisher_EqusAllXpsx = Dataset_EqusAll"
| "publisher_dataset Publisher_EqusAllMemx = Dataset_EqusAll"
| "publisher_dataset Publisher_EqusAllXase = Dataset_EqusAll"
| "publisher_dataset Publisher_EqusAllArcx = Dataset_EqusAll"
| "publisher_dataset Publisher_EqusAllLtse = Dataset_EqusAll"
| "publisher_dataset Publisher_XnasBasicXnas = Dataset_XnasBasic"
| "publisher_dataset Publisher_XnasBasicFinn = Dataset_XnasBasic"
| "publisher_dataset Publisher_XnasBasicFinc = Dataset_XnasBasic"
| "publisher_dataset Publisher_IfeuImpactXoff = Dataset_IfeuImpact"
| "publisher_dataset Publisher_NdexImpactXoff = Dataset_NdexImpact"
| "publisher_dataset Publisher_XnasNlsXbos = Dataset_XnasNls"
| "publisher_dataset Publisher_XnasNlsXpsx = Dataset_XnasNls"
| "publisher_dataset Publisher_XnasBasicXbos = Dataset_XnasBasic"
| "publisher_dataset Publisher_XnasBasicXpsx = Dataset_XnasBasic"
| "publisher_dataset Publisher_EqusSummaryEqus = Dataset_EqusSummary"
| "publisher_dataset Publisher_XcisTradesbboXcis = Dataset_XcisTradesbbo"
| "publisher_dataset Publisher_XnysTradesbboXnys = Dataset_XnysTradesbbo"
| "publisher_dataset Publisher_XnasBasicEqus = Dataset_XnasBasic"
| "publisher_dataset Publisher_EqusAllEqus = Dataset_EqusAll"
| "publisher_dataset Publisher_EqusMiniEqus = Dataset_EqusMini"
| "publisher_dataset Publisher_XnysTradesEqus = Dataset_XnysTrades"
| "publisher_dataset Publisher_IfusImpactIfus = Dataset_IfusImpact"
| "publisher_dataset Publisher_IfusImpactXoff = Dataset_IfusImpact"
| "publisher_dataset Publisher_IfllImpactIfll = Dataset_IfllImpact"
| "publisher_dataset Publisher_IfllImpactXoff = Dataset_IfllImpact"
| "publisher_dataset Publisher_XeurEobiXeur = Dataset_XeurEobi"
| "publisher_dataset Publisher_XeeeEobiXeee = Dataset_XeeeEobi"
| "publisher_dataset Publisher_XeurEobiXoff = Dataset_XeurEobi"
| "publisher_dataset Publisher_XeeeEobiXoff = Dataset_XeeeEobi"

definition dataset_venue_arms :: "((Dataset \<times> Venue) \<times> Publisher) list" where
  "dataset_venue_arms =
    [((Dataset_GlbxMdp3, Venue_Glbx), Publisher_GlbxMdp3Glbx),
     ((Dataset_XnasItch, Venue_Xnas), Publisher_XnasItchXnas),
     ((Dataset_XbosItch, Venue_Xbos), Publisher_XbosItchXbos),
     ((Dataset_XpsxItch, Venue_Xpsx), Publisher_XpsxItchXpsx),
     ((Dataset_BatsPitch, Venue_Bats), Publisher_BatsPitchBats),
     ((Dataset_BatyPitch, Venue_Baty), Publisher_BatyPitchBaty),
     ((Dataset_EdgaPitch, Venue_Edga), Publisher_EdgaPitchEdga),
     ((Dataset_EdgxPitch, Venue_Edgx), Publisher_EdgxPitchEdgx),
     ((Dataset_XnysPillar, Venue_Xnys), Publisher_XnysPillarXnys),
     ((Dataset_XcisPillar, Venue_Xcis), Publisher_XcisPillarXcis),
     ((Dataset_XasePillar, Venue_Xase), Publisher_XasePillarXase),
     ((Dataset_XchiPillar, Venue_Xchi), Publisher_XchiPillarXchi),
     ((Dataset_XcisBbo, Venue_Xcis), Publisher_XcisBboXcis),
     ((Dataset_XcisTrades, Venue_Xcis), Publisher_XcisTradesXcis),
     ((Dataset_MemxMemoir, Venue_Memx), Publisher_MemxMemoirMemx),
     ((Dataset_EprlDom, Venue_Eprl), Publisher_EprlDomEprl),
     ((Dataset_XnasNls, Venue_Finn), Publisher_XnasNlsFinn),
     ((Dataset_XnasNls, Venue_Finc), Publisher_XnasNlsFinc),
     ((Dataset_XnysTrades, Venue_Finy), Publisher_XnysTradesFiny),
     ((Dataset_OpraPillar, Venue_Amxo), Publisher_OpraPillarAmxo),
     ((Dataset_OpraPillar, Venue_Xbox), Publisher_OpraPillarXbox),
     ((Dataset_OpraPillar, Venue_Xcbo), Publisher_OpraPillarXcbo),
     ((Dataset_OpraPillar, Venue_Emld), Publisher_OpraPillarEmld),
     ((Dataset_OpraPillar, Venue_Edgo), Publisher_OpraPillarEdgo),
     ((Dataset_OpraPillar, Venue_Gmni), Publisher_OpraPillarGmni),
     ((Dataset_OpraPillar, Venue_Xisx), Publisher_OpraPillarXisx),
     ((Dataset_OpraPillar, Venue_Mcry), Publisher_OpraPillarMcry),
     ((Dataset_OpraPillar, Venue_Xmio), Publisher_OpraPillarXmio),
     ((Dataset_OpraPillar, Venue_Arco), Publisher_OpraPillarArco),
     ((Dataset_OpraPillar, Venue_Opra), Publisher_OpraPillarOpra),
     ((Dataset_OpraPillar, Venue_Mprl), Publisher_OpraPillarMprl),
     ((Dataset_OpraPillar, Venue_Xndq), Publisher_OpraPillarXndq),
     ((Dataset_OpraPillar, Venue_Xbxo), Publisher_OpraPillarXbxo),
     ((Dataset_OpraPillar, Venue_C2Ox), Publisher_OpraPillarC2Ox),
     ((Dataset_OpraPillar, Venue_Xphl), Publisher_OpraPillarXphl),
     ((Dataset_OpraPillar, Venue_Bato), Publisher_OpraPillarBato),
     ((Dataset_OpraPillar, Venue_Mxop), Publisher_OpraPillarMxop),
     ((Dataset_IexgTops, Venue_Iexg), Publisher_IexgTopsIexg),
     ((Dataset_DbeqBasic, Venue_Xchi), Publisher_DbeqBasicXchi),
     ((Dataset_DbeqBasic, Venue_Xcis), Publisher_DbeqBasicXcis),
     ((Dataset_DbeqBasic, Venue_Iexg), Publisher_DbeqBasicIexg),
     ((Dataset_DbeqBasic, Venue_Eprl), Publisher_DbeqBasicEprl),
     ((Dataset_ArcxPillar, Venue_Arcx), Publisher_ArcxPillarArcx),
     ((Dataset_XnysBbo, Venue_Xnys), Publisher_XnysBboXnys),
     ((Dataset_XnysTrades, Venue_Xnys), Publisher_XnysTradesXnys),
     ((Dataset_XnasQbbo, Venue_Xnas), Publisher_XnasQbboXnas),
     ((Dataset_XnasNls, Venue_Xnas), Publisher_XnasNlsXnas),
     ((Dataset_EqusPlus, Venue_Xchi), Publisher_EqusPlusXchi),
     ((Dataset_EqusPlus, Venue_Xcis), Publisher_EqusPlusXcis),
     ((Dataset_EqusPlus, Venue_Iexg), Publisher_EqusPlusIexg),
     ((Dataset_EqusPlus, Venue_Eprl), Publisher_EqusPlusEprl),
     ((Dataset_EqusPlus, Venue_Xnas), Publisher_EqusPlusXnas),
     ((Dataset_EqusPlus, Venue_Xnys), Publisher_EqusPlusXnys),
     ((Dataset_EqusPlus, Venue_Finn), Publisher_EqusPlusFinn),
     ((Dataset_EqusPlus, Venue_Finy), Publisher_EqusPlusFiny),
     ((Dataset_EqusPlus, Venue_Finc), Publisher_EqusPlusFinc),
     ((Dataset_IfeuImpact, Venue_Ifeu), Publisher_IfeuImpactIfeu),
     ((Dataset_NdexImpact, Venue_Ndex), Publisher_NdexImpactNdex),
     ((Dataset_DbeqBasic, Venue_Dbeq), Publisher_DbeqBasicDbeq),
     ((Dataset_EqusPlus, Venue_Equs), Publisher_EqusPlusEqus),
     ((Dataset_OpraPillar, Venue_Sphr), Publisher_OpraPillarSphr),
     ((Dataset_EqusAll, Venue_Xchi), Publisher_EqusAllXchi),
     ((Dataset_EqusAll, Venue_Xcis), Publisher_EqusAllXcis),
     ((Dataset_EqusAll, Venue_Iexg), Publisher_EqusAllIexg),
     ((Dataset_EqusAll, Venue_Eprl), Publisher_EqusAllEprl),
     ((Dataset_EqusAll, Venue_Xnas), Publisher_EqusAllXnas),
     ((Dataset_EqusAll, Venue_Xnys), Publisher_EqusAllXnys),
     ((Dataset_EqusAll, Venue_Finn), Publisher_EqusAllFinn),
     ((Dataset_EqusAll, Venue_Finy), Publisher_EqusAllFiny),
     ((Dataset_EqusAll, Venue_Finc), Publisher_EqusAllFinc),
     ((Dataset_EqusAll, Venue_Bats), Publisher_EqusAllBats),
     ((Dataset_EqusAll, Venue_Baty), Publisher_EqusAllBaty),
     ((Dataset_EqusAll, Venue_Edga), Publisher_EqusAllEdga),
     ((Dataset_EqusAll, Venue_Edgx), Publisher_EqusAllEdgx),
     ((Dataset_EqusAll, Venue_Xbos), Publisher_EqusAllXbos),
     ((Dataset_EqusAll, Venue_Xpsx), Publisher_EqusAllXpsx),
     ((Dataset_EqusAll, Venue_Memx), Publisher_EqusAllMemx),
     ((Dataset_EqusAll, Venue_Xase), Publisher_EqusAllXase),
     ((Dataset_EqusAll, Venue_Arcx), Publisher_EqusAllArcx),
     ((Dataset_EqusAll, Venue_Ltse), Publisher_EqusAllLtse),
     ((Dataset_XnasBasic, Venue_Xnas), Publisher_XnasBasicXnas),
     ((Dataset_XnasBasic, Venue_Finn), Publisher_XnasBasicFinn),
     ((Dataset_XnasBasic, Venue_Finc), Publisher_XnasBasicFinc),
     ((Dataset_IfeuImpact, Venue_Xoff), Publisher_IfeuImpactXoff),
     ((Dataset_NdexImpact, Venue_Xoff), Publisher_NdexImpactXoff),
     ((Dataset_XnasNls, Venue_Xbos), Publisher_XnasNlsXbos),
     ((Dataset_XnasNls, Venue_Xpsx), Publisher_XnasNlsXpsx),
     ((Dataset_XnasBasic, Venue_Xbos), Publisher_XnasBasicXbos),
     ((Dataset_XnasBasic, Venue_Xpsx), Publisher_XnasBasicXpsx),
     ((Dataset_EqusSummary, Venue_Equs), Publisher_EqusSummaryEqus),
     ((Dataset_XcisTradesbbo, Venue_Xcis), Publisher_XcisTradesbboXcis),
     ((Dataset_XnysTradesbbo, Venue_Xnys), Publisher_XnysTradesbboXnys),
     ((Dataset_XnasBasic, Venue_Equs), Publisher_XnasBasicEqus),
     ((Dataset_EqusAll, Venue_Equs), Publisher_EqusAllEqus),
     ((Dataset_EqusMini, Venue_Equs), Publisher_EqusMiniEqus),
     ((Dataset_XnysTrades, Venue_Equs), Publisher_XnysTradesEqus),
     ((Dataset_IfusImpact, Venue_Ifus), Publisher_IfusImpactIfus),
     ((Dataset_IfusImpact, Venue_Xoff), Publisher_IfusImpactXoff),
     ((Dataset_IfllImpact, Venue_Ifll), Publisher_IfllImpactIfll),
     ((Dataset_IfllImpact, Venue_Xoff), Publisher_IfllImpactXoff),
     ((Dataset_XeurEobi, Venue_Xeur), Publisher_XeurEobiXeur),
     ((Dataset_XeeeEobi, Venue_Xeee), Publisher_XeeeEobiXeee),
     ((Dataset_XeurEobi, Venue_Xoff), Publisher_XeurEobiXoff),
     ((Dataset_XeeeEobi, Venue_Xoff), Publisher_XeeeEobiXoff)]"

definition from_dataset_venue :: "Dataset \<Rightarrow> Venue \<Rightarrow> Publisher result" where
  "from_dataset_venue dataset venue =
     (case map_of dataset_venue_arms (dataset, venue) of
        Some p \<Rightarrow> Ok p
      | None \<Rightarrow> Err (Conversion (''('' @ dataset_as_str dataset @ '', '' @ venue_as_str venue @ '')'')
          ''dbn::publishers::Publisher''))"

primrec dataset_publishers :: "Dataset \<Rightarrow> Publisher list" where
  "dataset_publishers Dataset_GlbxMdp3 =
     [Publisher_GlbxMdp3Glbx]"
| "dataset_publishers Dataset_XnasItch =
     [Publisher_XnasItchXnas]"
| "dataset_publishers Dataset_XbosItch =
     [Publisher_XbosItchXbos]"
| "dataset_publishers Dataset_XpsxItch =
     [Publisher_XpsxItchXpsx]"
| "dataset_publishers Dataset_BatsPitch =
     [Publisher_BatsPitchBats]"
| "dataset_publishers Dataset_BatyPitch =
     [Publisher_BatyPitchBaty]"
| "dataset_publishers Dataset_EdgaPitch =
     [Publisher_EdgaPitchEdga]"
| "dataset_publishers Dataset_EdgxPitch =
     [Publisher_EdgxPitchEdgx]"
| "dataset_publishers Dataset_XnysPillar =
     [Publisher_XnysPillarXnys]"
| "dataset_publishers Dataset_XcisPillar =
     [Publisher_XcisPillarXcis]"
| "dataset_publishers Dataset_XasePillar =
     [Publisher_XasePillarXase]"
| "dataset_publishers Dataset_XchiPillar =
     [Publisher_XchiPillarXchi]"
| "dataset_publishers Dataset_XcisBbo =
     [Publisher_XcisBboXcis]"
| "dataset_publishers Dataset_XcisTrades =
     [Publisher_XcisTradesXcis]"
| "dataset_publishers Dataset_MemxMemoir =
     [Publisher_MemxMemoirMemx]"
| "dataset_publishers Dataset_EprlDom =
     [Publisher_EprlDomEprl]"
| "dataset_publishers Dataset_FinnNls =
     []"
| "dataset_publishers Dataset_FinyTrades =
     []"
| "dataset_publishers Dataset_OpraPillar =
     [Publisher_OpraPillarAmxo, Publisher_OpraPillarXbox, Publisher_OpraPillarXcbo,
      Publisher_OpraPillarEmld, Publisher_OpraPillarEdgo, Publisher_OpraPillarGmni,
      Publisher_OpraPillarXisx, Publisher_OpraPillarMcry, Publisher_OpraPillarXmio,
      Publisher_OpraPillarArco, Publisher_OpraPillarOpra, Publisher_OpraPillarMprl,
      Publisher_OpraPillarXndq, Publisher_OpraPillarXbxo, Publisher_OpraPillarC2Ox,
      Publisher_OpraPillarXphl, Publisher_OpraPillarBato, Publisher_OpraPillarMxop,
      Publisher_OpraPillarSphr]"
| "dataset_publishers Dataset_DbeqBasic =
     [Publisher_DbeqBasicXchi, Publisher_DbeqBasicXcis, Publisher_DbeqBasicIexg,
      Publisher_DbeqBasicEprl, Publisher_DbeqBasicDbeq]"
| "dataset_publishers Dataset_ArcxPillar =
     [Publisher_ArcxPillarArcx]"
| "dataset_publishers Dataset_IexgTops =
     [Publisher_IexgTopsIexg]"
| "dataset_publishers Dataset_EqusPlus =
     [Publisher_EqusPlusXchi, Publisher_EqusPlusXcis, Publisher_EqusPlusIexg, Publisher_EqusPlusEprl,
      Publisher_EqusPlusXnas, Publisher_EqusPlusXnys, Publisher_EqusPlusFinn, Publisher_EqusPlusFiny,
      Publisher_EqusPlusFinc, Publisher_EqusPlusEqus]"
| "dataset_publishers Dataset_XnysBbo =
     [Publisher_XnysBboXnys]"
| "dataset_publishers Dataset_XnysTrades =
     [Publisher_XnysTradesFiny, Publisher_XnysTradesXnys, Publisher_XnysTradesEqus]"
| "dataset_publishers Dataset_XnasQbbo =
     [Publisher_XnasQbboXnas]"
| "dataset_publishers Dataset_XnasNls =
     [Publisher_XnasNlsFinn, Publisher_XnasNlsFinc, Publisher_XnasNlsXnas, Publisher_XnasNlsXbos,
      Publisher_XnasNlsXpsx]"
| "dataset_publishers Dataset_IfeuImpact =
     [Publisher_IfeuImpactIfeu, Publisher_IfeuImpactXoff]"
| "dataset_publishers Dataset_NdexImpact =
     [Publisher_NdexImpactNdex, Publisher_NdexImpactXoff]"
| "dataset_publishers Dataset_EqusAll =
     [Publisher_EqusAllXchi, Publisher_EqusAllXcis, Publisher_EqusAllIexg, Publisher_EqusAllEprl,
      Publisher_EqusAllXnas, Publisher_EqusAllXnys, Publisher_EqusAllFinn, Publisher_EqusAllFiny,
      Publisher_EqusAllFinc, Publisher_EqusAllBats, Publisher_EqusAllBaty, Publisher_EqusAllEdga,
      Publisher_EqusAllEdgx, Publisher_EqusAllXbos, Publisher_EqusAllXpsx, Publisher_EqusAllMemx,
      Publisher_EqusAllXase, Publisher_EqusAllArcx, Publisher_EqusAllLtse, Publisher_EqusAllEqus]"
| "dataset_publishers Dataset_XnasBasic =
     [Publisher_XnasBasicXnas, Publisher_XnasBasicFinn, Publisher_XnasBasicFinc,
      Publisher_XnasBasicXbos, Publisher_XnasBasicXpsx, Publisher_XnasBasicEqus]"
| "dataset_publishers Dataset_EqusSummary =
     [Publisher_EqusSummaryEqus]"
| "dataset_publishers Dataset_XcisTradesbbo =
     [Publisher_XcisTradesbboXcis]"
| "dataset_publishers Dataset_XnysTradesbbo =
     [Publisher_XnysTradesbboXnys]"
| "dataset_publishers Dataset_EqusMini =
     [Publisher_EqusMiniEqus]"
| "dataset_publishers Dataset_IfusImpact =
     [Publisher_IfusImpactIfus, Publisher_IfusImpactXoff]"
| "dataset_publishers Dataset_IfllImpact =
     [Publisher_IfllImpactIfll, Publisher_IfllImpactXoff]"
| "dataset_publishers Dataset_XeurEobi =
     [Publisher_XeurEobiXeur, Publisher_XeurEobiXoff]"
| "dataset_publishers Dataset_XeeeEobi =
     [Publisher_XeeeEobiXeee, Publisher_XeeeEobiXoff]"

section \<open>The tables\<close>

text \<open>Parsing by a table that lists every variant under its name.\<close>

lemma map_of_names:
  assumes "names = map (\<lambda>v. (f v, v)) variants" and "distinct (map f variants)" and "v \<in> set variants"
  shows "map_of names (f v) = Some v"
proof -
  have "distinct (map fst names)" using assms(1,2) by (simp add: comp_def)
  moreover have "(f v, v) \<in> set names" using assms(1,3) by auto
  ultimately show ?thesis by (simp add: map_of_eq_Some_iff)
qed

lemma names_tables:
  "venue_names = map (\<lambda>v. (venue_as_str v, v)) venue_variants"
  "dataset_names = map (\<lambda>v. (dataset_as_str v, v)) dataset_variants"
  "publisher_names = map (\<lambda>v. (publisher_as_str v, v)) publisher_variants"
  by (simp_all add: venue_names_def venue_variants_def dataset_names_def dataset_variants_def
      publisher_names_def publisher_variants_def)

lemma distinct_venue_names: "distinct (map venue_as_str venue_variants)"
  by (simp add: venue_variants_def)

lemma distinct_dataset_names: "distinct (map dataset_as_str dataset_variants)"
  by (simp add: dataset_variants_def)

interpretation venue_enum: primitive_enum venue_variants venue_as_u16
proof unfold_locales
  show "distinct (map venue_as_u16 venue_variants)" by (simp add: venue_variants_def)
  show "v \<in> set venue_variants" for v by (cases v) (simp_all add: venue_variants_def)
qed

interpretation dataset_enum: primitive_enum dataset_variants dataset_as_u16
proof unfold_locales
  show "distinct (map dataset_as_u16 dataset_variants)" by (simp add: dataset_variants_def)
  show "v \<in> set dataset_variants" for v by (cases v) (simp_all add: dataset_variants_def)
qed

interpretation publisher_enum: primitive_enum publisher_variants publisher_as_u16
proof unfold_locales
  show "distinct (map publisher_as_u16 publisher_variants)" by (simp add: publisher_variants_def)
  show "v \<in> set publisher_variants" for v by (cases v) (simp_all add: publisher_variants_def)
qed

interpretation venue_text: str_enum venue_as_str venue_from_str
  using map_of_names [OF names_tables(1) distinct_venue_names venue_enum.variants_complete]
  by unfold_locales (simp add: venue_from_str_def)

interpretation dataset_text: str_enum dataset_as_str dataset_from_str
  using map_of_names [OF names_tables(2) distinct_dataset_names dataset_enum.variants_complete]
  by unfold_locales (simp add: dataset_from_str_def)

text \<open>The arms of \<^verbatim>\<open>from_dataset_venue\<close> list every publisher under its dataset and venue.\<close>

lemma arms_table:
  "dataset_venue_arms = map (\<lambda>p. ((publisher_dataset p, publisher_venue p), p)) publisher_variants"
  by (simp add: dataset_venue_arms_def publisher_variants_def)

lemma publisher_name: "publisher_as_str p = dataset_as_str (publisher_dataset p) @ ''.'' @ venue_as_str (publisher_venue p)"
  by (cases p) simp_all

lemma distinct_arms: "distinct (map (\<lambda>p. (publisher_dataset p, publisher_venue p)) publisher_variants)"
  by (simp add: publisher_variants_def)

lemma distinct_publisher_names: "distinct (map publisher_as_str publisher_variants)"
  by (simp add: publisher_variants_def)

interpretation publisher_text: str_enum publisher_as_str publisher_from_str
  using map_of_names [OF names_tables(3) distinct_publisher_names publisher_enum.variants_complete]
  by unfold_locales (simp add: publisher_from_str_def)

lemma dataset_publishers_filter:
  "dataset_publishers d = filter (\<lambda>p. publisher_dataset p = d) publisher_variants"
  by (cases d) (simp_all add: publisher_variants_def)

section \<open>Properties\<close>

text \<open>
  C35. The publisher tables agree: a publisher is found from its dataset and venue, and from no
  other pair; the publishers of a dataset are those whose dataset it is; a publisher's name is the
  name of its dataset, a dot and the name of its venue, which parses back, and no other text parses
  to the publisher; and its number converts back.
\<close>

theorem publisher_tables:
  "(from_dataset_venue d v = Ok p \<longleftrightarrow> publisher_dataset p = d \<and> publisher_venue p = v) \<and>
   (p \<in> set (dataset_publishers d) \<longleftrightarrow> publisher_dataset p = d) \<and>
   publisher_as_str p = dataset_as_str (publisher_dataset p) @ ''.'' @ venue_as_str (publisher_venue p) \<and>
   (publisher_from_str s = Ok p \<longleftrightarrow> s = publisher_as_str p) \<and>
   (publisher_try_from x = Some p \<longleftrightarrow> publisher_as_u16 p = x)"
proof -
  have "from_dataset_venue (publisher_dataset p) (publisher_venue p) = Ok p" for p
    using map_of_names [OF arms_table distinct_arms publisher_enum.variants_complete, of p]
    by (simp add: from_dataset_venue_def)
  moreover have "publisher_dataset p = d \<and> publisher_venue p = v" if "from_dataset_venue d v = Ok p"
    using that by (auto simp: from_dataset_venue_def arms_table split: option.splits dest!: map_of_SomeD)
  moreover have "p \<in> set (dataset_publishers d) \<longleftrightarrow> publisher_dataset p = d"
    using publisher_enum.variants_complete [of p] by (simp add: dataset_publishers_filter)
  moreover have "s = publisher_as_str p" if "publisher_from_str s = Ok p"
    using that by (auto simp: publisher_from_str_def names_tables split: option.splits dest!: map_of_SomeD)
  then have "publisher_from_str s = Ok p \<longleftrightarrow> s = publisher_as_str p"
    using publisher_text.from_str_as_str [of p] by blast
  ultimately show ?thesis
    using publisher_name [of p] publisher_enum.try_from_iff [of x p] by (simp add: publisher_try_from_def) blast
qed

end
