(* ===== verification/Float64.thy ===== *)
theory Float64
  imports Prelude "HOL-Library.Log_Nat"
begin

text \<open>
  The double precision numbers that prices are converted to, \<^verbatim>\<open>px_to_f64\<close> of rust/dbn/src/pretty.rs.
  A finite number is its value; an operation gives the exact result rounded to the nearest number
  with 53 significant bits, to the even one of two. Prices are far from the ends of the range of
  exponents, so that no result overflows or is subnormal.
\<close>

section \<open>Definitions\<close>

datatype f64 = F64_NaN | F64 rat

text \<open>The exponent of the greatest power of two that is not above a positive number.\<close>

definition log2_floor :: "rat \<Rightarrow> int" where
  "log2_floor x =
     (case quotient_of x of (n, d) \<Rightarrow>
        let l = bitlen n - bitlen d in if x < 2 powi l then l - 1 else l)"

definition round_half_even :: "rat \<Rightarrow> int" where
  "round_half_even y =
     (let n = \<lfloor>y\<rfloor>; f = y - of_int n in
      if f < 1 / 2 then n else if f > 1 / 2 then n + 1 else if even n then n else n + 1)"

definition f64_round :: "rat \<Rightarrow> rat" where
  "f64_round x =
     (if x = 0 then 0
      else let u = 2 powi (log2_floor \<bar>x\<bar> - 52) in of_int (round_half_even (x / u)) * u)"

section \<open>Rounding\<close>

lemma quotient_powers:
  assumes "0 < x" and "quotient_of x = (n, d)"
  shows "2 powi (bitlen n - bitlen d - 1) \<le> x"
proof -
  have x: "x = of_int n / of_int d" "0 < d" "0 < n"
    using assms quotient_of_div [of x n d] quotient_of_denom_pos [of x n d] by (auto simp: zero_less_divide_iff)
  have n: "2 ^ nat (bitlen n - 1) \<le> n" and d: "d < 2 ^ nat (bitlen d)"
    using bitlen_bounds [OF x(3)] bitlen_bounds [OF x(2)] by simp_all
  have pos: "0 < bitlen n" "0 < bitlen d" using x bitlen_eq_zero_iff [of n] bitlen_eq_zero_iff [of d] bitlen_nonneg [of n] bitlen_nonneg [of d] by linarith+
  have "(2::rat) powi (bitlen n - bitlen d - 1) = 2 powi (bitlen n - 1) / 2 powi bitlen d"
    by (simp add: power_int_diff [symmetric] diff_diff_eq add.commute)
  also have "\<dots> = 2 ^ nat (bitlen n - 1) / 2 ^ nat (bitlen d)"
    using pos by (simp add: power_int_def)
  also have "\<dots> \<le> of_int n / of_int d"
  proof (rule frac_le)
    show "(2::rat) ^ nat (bitlen n - 1) \<le> of_int n" using n by (metis of_int_le_iff of_int_numeral of_int_power)
    show "of_int d \<le> (2::rat) ^ nat (bitlen d)" using d by (metis less_imp_le of_int_le_iff of_int_numeral of_int_power)
  qed (use x in simp_all)
  finally show ?thesis using x(1) by simp
qed

lemma log2_floor_le: "0 < x \<Longrightarrow> 2 powi log2_floor x \<le> x"
  using quotient_powers [of x] by (auto simp: log2_floor_def Let_def split: prod.split)

lemma round_half_even_near: "\<bar>of_int (round_half_even y) - y\<bar> \<le> 1 / 2"
proof -
  have "of_int \<lfloor>y\<rfloor> \<le> y" "y < of_int \<lfloor>y\<rfloor> + 1" by linarith+
  then show ?thesis by (auto simp: round_half_even_def Let_def)
qed

lemma round_half_even_int [simp]: "round_half_even (of_int n) = n"
  by (simp add: round_half_even_def)

lemma f64_round_error: "\<bar>f64_round x - x\<bar> \<le> \<bar>x\<bar> / 2 ^ 53"
proof (cases "x = 0")
  case False
  define u :: rat where "u = 2 powi (log2_floor \<bar>x\<bar> - 52)"
  have u: "0 < u" by (simp add: u_def)
  have "u * 2 ^ 52 = 2 powi log2_floor \<bar>x\<bar>"
    by (simp add: u_def power_int_diff)
  then have below: "u * 2 ^ 52 \<le> \<bar>x\<bar>" using log2_floor_le [of "\<bar>x\<bar>"] False by simp
  have "f64_round x - x = (of_int (round_half_even (x / u)) - x / u) * u"
    using False u by (simp add: f64_round_def Let_def u_def [symmetric] algebra_simps)
  then have "\<bar>f64_round x - x\<bar> \<le> 1 / 2 * u"
    using round_half_even_near [of "x / u"] u by (simp only: abs_mult abs_of_pos) (rule mult_right_mono, simp_all)
  also have "\<dots> \<le> \<bar>x\<bar> / 2 ^ 53" using below by simp
  finally show ?thesis .
qed (simp add: f64_round_def)

text \<open>Integers of up to 53 bits are exact.\<close>

lemma f64_round_int:
  assumes "\<bar>n\<bar> < 2 ^ 53"
  shows "f64_round (of_int n) = of_int n"
proof (cases "n = 0")
  case False
  let ?l = "log2_floor \<bar>of_int n\<bar>"
  have "(2::rat) powi ?l \<le> \<bar>of_int n\<bar>" using log2_floor_le [of "\<bar>of_int n\<bar>"] False by simp
  also have "\<dots> < 2 powi 53" using assms by simp
  finally have "?l < 53" by (rule power_int_le_imp_less_exp [rotated]) simp_all
  then have "(2::rat) powi (?l - 52) = inverse (2 powi int (nat (52 - ?l)))"
    by (simp only: power_int_minus [symmetric]) simp
  then have "of_int n / (2::rat) powi (?l - 52) = of_int (n * 2 ^ nat (52 - ?l))"
    by (simp only: power_int_of_nat) (simp add: divide_inverse)
  then have "of_int (round_half_even (of_int n / (2::rat) powi (?l - 52))) = of_int n / (2::rat) powi (?l - 52)"
    by (metis round_half_even_int)
  then show ?thesis
    using False by (simp add: f64_round_def Let_def)
qed (simp add: f64_round_def)

text \<open>Two roundings, of a numerator and of the quotient by an exact denominator.\<close>

lemma f64_divide_error:
  assumes "d \<noteq> 0"
  shows "\<bar>f64_round (f64_round x / d) - x / d\<bar> \<le> \<bar>x / d\<bar> * (2 / 2 ^ 53 + 1 / 2 ^ 106)"
proof -
  have "\<bar>f64_round x\<bar> \<le> \<bar>x\<bar> * (1 + 1 / 2 ^ 53)" using f64_round_error [of x] abs_triangle_ineq2 [of "f64_round x" x] by (simp add: field_simps)
  then have "\<bar>f64_round x / d\<bar> \<le> \<bar>x / d\<bar> * (1 + 1 / 2 ^ 53)"
    using assms by (simp add: divide_right_mono field_simps)
  moreover have "\<bar>f64_round x / d - x / d\<bar> \<le> \<bar>x / d\<bar> / 2 ^ 53"
    using f64_round_error [of x] assms by (simp add: divide_right_mono field_simps flip: diff_divide_distrib)
  ultimately show ?thesis using f64_round_error [of "f64_round x / d"] by (simp add: field_simps) linarith
qed

end
