(* ===== verification/Record_Methods.thy ===== *)
theory Record_Methods
  imports Float64 Pretty Publishers Compat
begin

text \<open>
  The methods of the record structs: rust/dbn/src/record/methods.rs, rust/dbn/src/v1/methods.rs and
  rust/dbn/src/v2/methods.rs, which read a field as an enumeration, a timestamp, a duration, a text or
  a floating-point price, and the constructors of the messages that a gateway sends, with the
  conversions of rust/dbn/src/record/conv.rs and rust/dbn/src/pretty.rs they use.

  A \<^verbatim>\<open>time::OffsetDateTime\<close> is its number of nanoseconds since the UNIX epoch, as elsewhere, and a
  \<^verbatim>\<open>time::Duration\<close> its number of nanoseconds.
\<close>

section \<open>Definitions\<close>

type_synonym offset_date_time = int
type_synonym duration = int

definition px_to_f64 :: "i64 \<Rightarrow> f64" where
  "px_to_f64 px =
     (if px = UNDEF_PRICE then F64_NaN
      else F64 (f64_round (f64_round (of_int (sint px)) / f64_round (of_int (sint FIXED_PRICE_SCALE)))))"

definition ts_to_dt :: "u64 \<Rightarrow> offset_date_time option" where
  "ts_to_dt ts = (if ts = UNDEF_TIMESTAMP then None else Some (uint ts))"

definition duration_new :: "int \<Rightarrow> i32 \<Rightarrow> duration" where
  "duration_new seconds nanoseconds = seconds * 1000000000 + sint nanoseconds"

text \<open>The format \<^verbatim>\<open>{:#04X}\<close>: at least two upper-case digits after the prefix.\<close>

definition hex_upper :: "nat \<Rightarrow> char" where
  "hex_upper n = (if n < 10 then char_of (48 + n) else char_of (55 + n))"

fun hex_digits :: "nat \<Rightarrow> string" where
  "hex_digits n = (if n < 16 then [hex_upper n] else hex_digits (n div 16) @ [hex_upper (n mod 16)])"

declare hex_digits.simps [simp del]

definition fmt_hex :: "nat \<Rightarrow> string" where
  "fmt_hex n = ''0x'' @ replicate (2 - length (hex_digits n)) CHR ''0'' @ hex_digits n"

text \<open>A raw field read as an enumeration, and a flag with three states.\<close>

definition try_enum :: "('w::len word \<Rightarrow> 'e option) \<Rightarrow> string \<Rightarrow> 'w word \<Rightarrow> 'e result" where
  "try_enum try_from name raw_value =
     (case try_from raw_value of Some v \<Rightarrow> Ok v | None \<Rightarrow> Err (Conversion (fmt_hex (unat raw_value)) name))"

definition tri_state_flag :: "u8 \<Rightarrow> bool option" where
  "tri_state_flag raw_value = (case tri_state_try_from raw_value of Some t \<Rightarrow> opt_of_tri_state t | None \<Rightarrow> None)"

subsection \<open>RecordHeader\<close>

definition RecordHeader_rtype :: "RecordHeader \<Rightarrow> RType result" where
  "RecordHeader_rtype r = try_enum rtype_try_from ''dbn::enums::rtype::RType'' (rh_rtype r)"

subsection \<open>MboMsg\<close>

definition MboMsg_price_f64 :: "MboMsg \<Rightarrow> f64" where
  "MboMsg_price_f64 r = px_to_f64 (mbo_price r)"

definition MboMsg_action :: "MboMsg \<Rightarrow> Action result" where
  "MboMsg_action r = try_enum action_try_from ''dbn::enums::Action'' (mbo_action r)"

definition MboMsg_side :: "MboMsg \<Rightarrow> Side result" where
  "MboMsg_side r = try_enum side_try_from ''dbn::enums::Side'' (mbo_side r)"

definition MboMsg_ts_recv :: "MboMsg \<Rightarrow> offset_date_time option" where
  "MboMsg_ts_recv r = ts_to_dt (mbo_ts_recv r)"

definition MboMsg_ts_in_delta :: "MboMsg \<Rightarrow> duration" where
  "MboMsg_ts_in_delta r = duration_new 0 (mbo_ts_in_delta r)"

subsection \<open>BidAskPair\<close>

definition BidAskPair_bid_px_f64 :: "BidAskPair \<Rightarrow> f64" where
  "BidAskPair_bid_px_f64 r = px_to_f64 (bap_bid_px r)"

definition BidAskPair_ask_px_f64 :: "BidAskPair \<Rightarrow> f64" where
  "BidAskPair_ask_px_f64 r = px_to_f64 (bap_ask_px r)"

subsection \<open>ConsolidatedBidAskPair\<close>

definition ConsolidatedBidAskPair_bid_px_f64 :: "ConsolidatedBidAskPair \<Rightarrow> f64" where
  "ConsolidatedBidAskPair_bid_px_f64 r = px_to_f64 (cbap_bid_px r)"

definition ConsolidatedBidAskPair_ask_px_f64 :: "ConsolidatedBidAskPair \<Rightarrow> f64" where
  "ConsolidatedBidAskPair_ask_px_f64 r = px_to_f64 (cbap_ask_px r)"

definition ConsolidatedBidAskPair_bid_pb :: "ConsolidatedBidAskPair \<Rightarrow> Publisher result" where
  "ConsolidatedBidAskPair_bid_pb r = try_enum publisher_try_from ''dbn::publishers::Publisher'' (cbap_bid_pb r)"

definition ConsolidatedBidAskPair_ask_pb :: "ConsolidatedBidAskPair \<Rightarrow> Publisher result" where
  "ConsolidatedBidAskPair_ask_pb r = try_enum publisher_try_from ''dbn::publishers::Publisher'' (cbap_ask_pb r)"

subsection \<open>TradeMsg\<close>

definition TradeMsg_price_f64 :: "TradeMsg \<Rightarrow> f64" where
  "TradeMsg_price_f64 r = px_to_f64 (trade_price r)"

definition TradeMsg_action :: "TradeMsg \<Rightarrow> Action result" where
  "TradeMsg_action r = try_enum action_try_from ''dbn::enums::Action'' (trade_action r)"

definition TradeMsg_side :: "TradeMsg \<Rightarrow> Side result" where
  "TradeMsg_side r = try_enum side_try_from ''dbn::enums::Side'' (trade_side r)"

definition TradeMsg_ts_recv :: "TradeMsg \<Rightarrow> offset_date_time option" where
  "TradeMsg_ts_recv r = ts_to_dt (trade_ts_recv r)"

definition TradeMsg_ts_in_delta :: "TradeMsg \<Rightarrow> duration" where
  "TradeMsg_ts_in_delta r = duration_new 0 (trade_ts_in_delta r)"

subsection \<open>Mbp1Msg\<close>

definition Mbp1Msg_price_f64 :: "Mbp1Msg \<Rightarrow> f64" where
  "Mbp1Msg_price_f64 r = px_to_f64 (mbp1_price r)"

definition Mbp1Msg_action :: "Mbp1Msg \<Rightarrow> Action result" where
  "Mbp1Msg_action r = try_enum action_try_from ''dbn::enums::Action'' (mbp1_action r)"

definition Mbp1Msg_side :: "Mbp1Msg \<Rightarrow> Side result" where
  "Mbp1Msg_side r = try_enum side_try_from ''dbn::enums::Side'' (mbp1_side r)"

definition Mbp1Msg_ts_recv :: "Mbp1Msg \<Rightarrow> offset_date_time option" where
  "Mbp1Msg_ts_recv r = ts_to_dt (mbp1_ts_recv r)"

definition Mbp1Msg_ts_in_delta :: "Mbp1Msg \<Rightarrow> duration" where
  "Mbp1Msg_ts_in_delta r = duration_new 0 (mbp1_ts_in_delta r)"

subsection \<open>Mbp10Msg\<close>

definition Mbp10Msg_price_f64 :: "Mbp10Msg \<Rightarrow> f64" where
  "Mbp10Msg_price_f64 r = px_to_f64 (mbp10_price r)"

definition Mbp10Msg_action :: "Mbp10Msg \<Rightarrow> Action result" where
  "Mbp10Msg_action r = try_enum action_try_from ''dbn::enums::Action'' (mbp10_action r)"

definition Mbp10Msg_side :: "Mbp10Msg \<Rightarrow> Side result" where
  "Mbp10Msg_side r = try_enum side_try_from ''dbn::enums::Side'' (mbp10_side r)"

definition Mbp10Msg_ts_recv :: "Mbp10Msg \<Rightarrow> offset_date_time option" where
  "Mbp10Msg_ts_recv r = ts_to_dt (mbp10_ts_recv r)"

definition Mbp10Msg_ts_in_delta :: "Mbp10Msg \<Rightarrow> duration" where
  "Mbp10Msg_ts_in_delta r = duration_new 0 (mbp10_ts_in_delta r)"

subsection \<open>BboMsg\<close>

definition BboMsg_price_f64 :: "BboMsg \<Rightarrow> f64" where
  "BboMsg_price_f64 r = px_to_f64 (bbo_price r)"

definition BboMsg_side :: "BboMsg \<Rightarrow> Side result" where
  "BboMsg_side r = try_enum side_try_from ''dbn::enums::Side'' (bbo_side r)"

definition BboMsg_ts_recv :: "BboMsg \<Rightarrow> offset_date_time option" where
  "BboMsg_ts_recv r = ts_to_dt (bbo_ts_recv r)"

subsection \<open>Cmbp1Msg\<close>

definition Cmbp1Msg_price_f64 :: "Cmbp1Msg \<Rightarrow> f64" where
  "Cmbp1Msg_price_f64 r = px_to_f64 (cmbp1_price r)"

definition Cmbp1Msg_action :: "Cmbp1Msg \<Rightarrow> Action result" where
  "Cmbp1Msg_action r = try_enum action_try_from ''dbn::enums::Action'' (cmbp1_action r)"

definition Cmbp1Msg_side :: "Cmbp1Msg \<Rightarrow> Side result" where
  "Cmbp1Msg_side r = try_enum side_try_from ''dbn::enums::Side'' (cmbp1_side r)"

definition Cmbp1Msg_ts_recv :: "Cmbp1Msg \<Rightarrow> offset_date_time option" where
  "Cmbp1Msg_ts_recv r = ts_to_dt (cmbp1_ts_recv r)"

definition Cmbp1Msg_ts_in_delta :: "Cmbp1Msg \<Rightarrow> duration" where
  "Cmbp1Msg_ts_in_delta r = duration_new 0 (cmbp1_ts_in_delta r)"

subsection \<open>CbboMsg\<close>

definition CbboMsg_price_f64 :: "CbboMsg \<Rightarrow> f64" where
  "CbboMsg_price_f64 r = px_to_f64 (cbbo_price r)"

definition CbboMsg_side :: "CbboMsg \<Rightarrow> Side result" where
  "CbboMsg_side r = try_enum side_try_from ''dbn::enums::Side'' (cbbo_side r)"

definition CbboMsg_ts_recv :: "CbboMsg \<Rightarrow> offset_date_time option" where
  "CbboMsg_ts_recv r = ts_to_dt (cbbo_ts_recv r)"

subsection \<open>OhlcvMsg\<close>

definition OhlcvMsg_open_f64 :: "OhlcvMsg \<Rightarrow> f64" where
  "OhlcvMsg_open_f64 r = px_to_f64 (ohlcv_open r)"

definition OhlcvMsg_high_f64 :: "OhlcvMsg \<Rightarrow> f64" where
  "OhlcvMsg_high_f64 r = px_to_f64 (ohlcv_high r)"

definition OhlcvMsg_low_f64 :: "OhlcvMsg \<Rightarrow> f64" where
  "OhlcvMsg_low_f64 r = px_to_f64 (ohlcv_low r)"

definition OhlcvMsg_close_f64 :: "OhlcvMsg \<Rightarrow> f64" where
  "OhlcvMsg_close_f64 r = px_to_f64 (ohlcv_close r)"

subsection \<open>StatusMsg\<close>

definition StatusMsg_ts_recv :: "StatusMsg \<Rightarrow> offset_date_time option" where
  "StatusMsg_ts_recv r = ts_to_dt (status_ts_recv r)"

definition StatusMsg_action :: "StatusMsg \<Rightarrow> StatusAction result" where
  "StatusMsg_action r = try_enum status_action_try_from ''dbn::enums::StatusAction'' (status_action r)"

definition StatusMsg_reason :: "StatusMsg \<Rightarrow> StatusReason result" where
  "StatusMsg_reason r = try_enum status_reason_try_from ''dbn::enums::StatusReason'' (status_reason r)"

definition StatusMsg_trading_event :: "StatusMsg \<Rightarrow> TradingEvent result" where
  "StatusMsg_trading_event r = try_enum trading_event_try_from ''dbn::enums::TradingEvent'' (status_trading_event r)"

definition StatusMsg_is_trading :: "StatusMsg \<Rightarrow> bool option" where
  "StatusMsg_is_trading r = tri_state_flag (status_is_trading r)"

definition StatusMsg_is_quoting :: "StatusMsg \<Rightarrow> bool option" where
  "StatusMsg_is_quoting r = tri_state_flag (status_is_quoting r)"

definition StatusMsg_is_short_sell_restricted :: "StatusMsg \<Rightarrow> bool option" where
  "StatusMsg_is_short_sell_restricted r = tri_state_flag (status_is_short_sell_restricted r)"

subsection \<open>InstrumentDefMsg\<close>

definition InstrumentDefMsg_ts_recv :: "InstrumentDefMsg \<Rightarrow> offset_date_time option" where
  "InstrumentDefMsg_ts_recv r = ts_to_dt (def3_ts_recv r)"

definition InstrumentDefMsg_min_price_increment_f64 :: "InstrumentDefMsg \<Rightarrow> f64" where
  "InstrumentDefMsg_min_price_increment_f64 r = px_to_f64 (def3_min_price_increment r)"

definition InstrumentDefMsg_display_factor_f64 :: "InstrumentDefMsg \<Rightarrow> f64" where
  "InstrumentDefMsg_display_factor_f64 r = px_to_f64 (def3_display_factor r)"

definition InstrumentDefMsg_expiration :: "InstrumentDefMsg \<Rightarrow> offset_date_time option" where
  "InstrumentDefMsg_expiration r = ts_to_dt (def3_expiration r)"

definition InstrumentDefMsg_activation :: "InstrumentDefMsg \<Rightarrow> offset_date_time option" where
  "InstrumentDefMsg_activation r = ts_to_dt (def3_activation r)"

definition InstrumentDefMsg_high_limit_price_f64 :: "InstrumentDefMsg \<Rightarrow> f64" where
  "InstrumentDefMsg_high_limit_price_f64 r = px_to_f64 (def3_high_limit_price r)"

definition InstrumentDefMsg_low_limit_price_f64 :: "InstrumentDefMsg \<Rightarrow> f64" where
  "InstrumentDefMsg_low_limit_price_f64 r = px_to_f64 (def3_low_limit_price r)"

definition InstrumentDefMsg_max_price_variation_f64 :: "InstrumentDefMsg \<Rightarrow> f64" where
  "InstrumentDefMsg_max_price_variation_f64 r = px_to_f64 (def3_max_price_variation r)"

definition InstrumentDefMsg_unit_of_measure_qty_f64 :: "InstrumentDefMsg \<Rightarrow> f64" where
  "InstrumentDefMsg_unit_of_measure_qty_f64 r = px_to_f64 (def3_unit_of_measure_qty r)"

definition InstrumentDefMsg_min_price_increment_amount_f64 :: "InstrumentDefMsg \<Rightarrow> f64" where
  "InstrumentDefMsg_min_price_increment_amount_f64 r = px_to_f64 (def3_min_price_increment_amount r)"

definition InstrumentDefMsg_price_ratio_f64 :: "InstrumentDefMsg \<Rightarrow> f64" where
  "InstrumentDefMsg_price_ratio_f64 r = px_to_f64 (def3_price_ratio r)"

definition InstrumentDefMsg_strike_price_f64 :: "InstrumentDefMsg \<Rightarrow> f64" where
  "InstrumentDefMsg_strike_price_f64 r = px_to_f64 (def3_strike_price r)"

definition InstrumentDefMsg_leg_price_f64 :: "InstrumentDefMsg \<Rightarrow> f64" where
  "InstrumentDefMsg_leg_price_f64 r = px_to_f64 (def3_leg_price r)"

definition InstrumentDefMsg_leg_delta_f64 :: "InstrumentDefMsg \<Rightarrow> f64" where
  "InstrumentDefMsg_leg_delta_f64 r = px_to_f64 (def3_leg_delta r)"

definition InstrumentDefMsg_currency :: "InstrumentDefMsg \<Rightarrow> string result" where
  "InstrumentDefMsg_currency r = c_chars_to_str (def3_currency r)"

definition InstrumentDefMsg_settl_currency :: "InstrumentDefMsg \<Rightarrow> string result" where
  "InstrumentDefMsg_settl_currency r = c_chars_to_str (def3_settl_currency r)"

definition InstrumentDefMsg_secsubtype :: "InstrumentDefMsg \<Rightarrow> string result" where
  "InstrumentDefMsg_secsubtype r = c_chars_to_str (def3_secsubtype r)"

definition InstrumentDefMsg_raw_symbol :: "InstrumentDefMsg \<Rightarrow> string result" where
  "InstrumentDefMsg_raw_symbol r = c_chars_to_str (def3_raw_symbol r)"

definition InstrumentDefMsg_group :: "InstrumentDefMsg \<Rightarrow> string result" where
  "InstrumentDefMsg_group r = c_chars_to_str (def3_group r)"

definition InstrumentDefMsg_exchange :: "InstrumentDefMsg \<Rightarrow> string result" where
  "InstrumentDefMsg_exchange r = c_chars_to_str (def3_exchange r)"

definition InstrumentDefMsg_asset :: "InstrumentDefMsg \<Rightarrow> string result" where
  "InstrumentDefMsg_asset r = c_chars_to_str (def3_asset r)"

definition InstrumentDefMsg_cfi :: "InstrumentDefMsg \<Rightarrow> string result" where
  "InstrumentDefMsg_cfi r = c_chars_to_str (def3_cfi r)"

definition InstrumentDefMsg_security_type :: "InstrumentDefMsg \<Rightarrow> string result" where
  "InstrumentDefMsg_security_type r = c_chars_to_str (def3_security_type r)"

definition InstrumentDefMsg_unit_of_measure :: "InstrumentDefMsg \<Rightarrow> string result" where
  "InstrumentDefMsg_unit_of_measure r = c_chars_to_str (def3_unit_of_measure r)"

definition InstrumentDefMsg_underlying :: "InstrumentDefMsg \<Rightarrow> string result" where
  "InstrumentDefMsg_underlying r = c_chars_to_str (def3_underlying r)"

definition InstrumentDefMsg_strike_price_currency :: "InstrumentDefMsg \<Rightarrow> string result" where
  "InstrumentDefMsg_strike_price_currency r = c_chars_to_str (def3_strike_price_currency r)"

definition InstrumentDefMsg_leg_raw_symbol :: "InstrumentDefMsg \<Rightarrow> string result" where
  "InstrumentDefMsg_leg_raw_symbol r = c_chars_to_str (def3_leg_raw_symbol r)"

definition InstrumentDefMsg_instrument_class :: "InstrumentDefMsg \<Rightarrow> InstrumentClass result" where
  "InstrumentDefMsg_instrument_class r = try_enum instrument_class_try_from ''dbn::enums::InstrumentClass'' (def3_instrument_class r)"

definition InstrumentDefMsg_match_algorithm :: "InstrumentDefMsg \<Rightarrow> MatchAlgorithm result" where
  "InstrumentDefMsg_match_algorithm r = try_enum match_algorithm_try_from ''dbn::enums::MatchAlgorithm'' (def3_match_algorithm r)"

definition InstrumentDefMsg_security_update_action :: "InstrumentDefMsg \<Rightarrow> SecurityUpdateAction result" where
  "InstrumentDefMsg_security_update_action r = try_enum security_update_action_try_from ''dbn::enums::SecurityUpdateAction'' (def3_security_update_action r)"

definition InstrumentDefMsg_user_defined_instrument :: "InstrumentDefMsg \<Rightarrow> UserDefinedInstrument result" where
  "InstrumentDefMsg_user_defined_instrument r = try_enum user_defined_instrument_try_from ''dbn::enums::UserDefinedInstrument'' (def3_user_defined_instrument r)"

definition InstrumentDefMsg_leg_instrument_class :: "InstrumentDefMsg \<Rightarrow> InstrumentClass result" where
  "InstrumentDefMsg_leg_instrument_class r = try_enum instrument_class_try_from ''dbn::enums::InstrumentClass'' (def3_leg_instrument_class r)"

definition InstrumentDefMsg_leg_side :: "InstrumentDefMsg \<Rightarrow> Side result" where
  "InstrumentDefMsg_leg_side r = try_enum side_try_from ''dbn::enums::Side'' (def3_leg_side r)"

subsection \<open>ImbalanceMsg\<close>

definition ImbalanceMsg_ts_recv :: "ImbalanceMsg \<Rightarrow> offset_date_time option" where
  "ImbalanceMsg_ts_recv r = ts_to_dt (imb_ts_recv r)"

definition ImbalanceMsg_ref_price_f64 :: "ImbalanceMsg \<Rightarrow> f64" where
  "ImbalanceMsg_ref_price_f64 r = px_to_f64 (imb_ref_price r)"

definition ImbalanceMsg_auction_time :: "ImbalanceMsg \<Rightarrow> offset_date_time option" where
  "ImbalanceMsg_auction_time r = ts_to_dt (imb_auction_time r)"

definition ImbalanceMsg_cont_book_clr_price_f64 :: "ImbalanceMsg \<Rightarrow> f64" where
  "ImbalanceMsg_cont_book_clr_price_f64 r = px_to_f64 (imb_cont_book_clr_price r)"

definition ImbalanceMsg_auct_interest_clr_price_f64 :: "ImbalanceMsg \<Rightarrow> f64" where
  "ImbalanceMsg_auct_interest_clr_price_f64 r = px_to_f64 (imb_auct_interest_clr_price r)"

definition ImbalanceMsg_ssr_filling_price_f64 :: "ImbalanceMsg \<Rightarrow> f64" where
  "ImbalanceMsg_ssr_filling_price_f64 r = px_to_f64 (imb_ssr_filling_price r)"

definition ImbalanceMsg_ind_match_price_f64 :: "ImbalanceMsg \<Rightarrow> f64" where
  "ImbalanceMsg_ind_match_price_f64 r = px_to_f64 (imb_ind_match_price r)"

definition ImbalanceMsg_upper_collar_f64 :: "ImbalanceMsg \<Rightarrow> f64" where
  "ImbalanceMsg_upper_collar_f64 r = px_to_f64 (imb_upper_collar r)"

definition ImbalanceMsg_lower_collar_f64 :: "ImbalanceMsg \<Rightarrow> f64" where
  "ImbalanceMsg_lower_collar_f64 r = px_to_f64 (imb_lower_collar r)"

definition ImbalanceMsg_side :: "ImbalanceMsg \<Rightarrow> Side result" where
  "ImbalanceMsg_side r = try_enum side_try_from ''dbn::enums::Side'' (imb_side r)"

definition ImbalanceMsg_unpaired_side :: "ImbalanceMsg \<Rightarrow> Side result" where
  "ImbalanceMsg_unpaired_side r = try_enum side_try_from ''dbn::enums::Side'' (imb_unpaired_side r)"

subsection \<open>StatMsg\<close>

definition StatMsg_ts_recv :: "StatMsg \<Rightarrow> offset_date_time option" where
  "StatMsg_ts_recv r = ts_to_dt (stat3_ts_recv r)"

definition StatMsg_ts_ref :: "StatMsg \<Rightarrow> offset_date_time option" where
  "StatMsg_ts_ref r = ts_to_dt (stat3_ts_ref r)"

definition StatMsg_price_f64 :: "StatMsg \<Rightarrow> f64" where
  "StatMsg_price_f64 r = px_to_f64 (stat3_price r)"

definition StatMsg_ts_in_delta :: "StatMsg \<Rightarrow> duration" where
  "StatMsg_ts_in_delta r = duration_new 0 (stat3_ts_in_delta r)"

definition StatMsg_stat_type :: "StatMsg \<Rightarrow> StatType result" where
  "StatMsg_stat_type r = try_enum stat_type_try_from ''dbn::enums::StatType'' (stat3_stat_type r)"

definition StatMsg_update_action :: "StatMsg \<Rightarrow> StatUpdateAction result" where
  "StatMsg_update_action r = try_enum stat_update_action_try_from ''dbn::enums::StatUpdateAction'' (stat3_update_action r)"

subsection \<open>ErrorMsg\<close>

definition ErrorMsg_err :: "ErrorMsg \<Rightarrow> string result" where
  "ErrorMsg_err r = c_chars_to_str (err2_err r)"

definition ErrorMsg_code :: "ErrorMsg \<Rightarrow> ErrorCode result" where
  "ErrorMsg_code r = try_enum error_code_try_from ''dbn::enums::ErrorCode'' (err2_code r)"

subsection \<open>SymbolMappingMsg\<close>

definition SymbolMappingMsg_stype_in :: "SymbolMappingMsg \<Rightarrow> SType result" where
  "SymbolMappingMsg_stype_in r = try_enum stype_try_from ''dbn::enums::SType'' (sm2_stype_in r)"

definition SymbolMappingMsg_stype_in_symbol :: "SymbolMappingMsg \<Rightarrow> string result" where
  "SymbolMappingMsg_stype_in_symbol r = c_chars_to_str (sm2_stype_in_symbol r)"

definition SymbolMappingMsg_stype_out :: "SymbolMappingMsg \<Rightarrow> SType result" where
  "SymbolMappingMsg_stype_out r = try_enum stype_try_from ''dbn::enums::SType'' (sm2_stype_out r)"

definition SymbolMappingMsg_stype_out_symbol :: "SymbolMappingMsg \<Rightarrow> string result" where
  "SymbolMappingMsg_stype_out_symbol r = c_chars_to_str (sm2_stype_out_symbol r)"

definition SymbolMappingMsg_start_ts :: "SymbolMappingMsg \<Rightarrow> offset_date_time option" where
  "SymbolMappingMsg_start_ts r = ts_to_dt (sm2_start_ts r)"

definition SymbolMappingMsg_end_ts :: "SymbolMappingMsg \<Rightarrow> offset_date_time option" where
  "SymbolMappingMsg_end_ts r = ts_to_dt (sm2_end_ts r)"

subsection \<open>SystemMsg\<close>

definition SystemMsg_msg :: "SystemMsg \<Rightarrow> string result" where
  "SystemMsg_msg r = c_chars_to_str (sys2_msg r)"

definition SystemMsg_code :: "SystemMsg \<Rightarrow> SystemCode result" where
  "SystemMsg_code r = try_enum system_code_try_from ''dbn::enums::SystemCode'' (sys2_code r)"

subsection \<open>ErrorMsgV1\<close>

definition ErrorMsgV1_err :: "ErrorMsgV1 \<Rightarrow> string result" where
  "ErrorMsgV1_err r = c_chars_to_str (err1_err r)"

subsection \<open>InstrumentDefMsgV1\<close>

definition InstrumentDefMsgV1_ts_recv :: "InstrumentDefMsgV1 \<Rightarrow> offset_date_time option" where
  "InstrumentDefMsgV1_ts_recv r = ts_to_dt (def1_ts_recv r)"

definition InstrumentDefMsgV1_min_price_increment_f64 :: "InstrumentDefMsgV1 \<Rightarrow> f64" where
  "InstrumentDefMsgV1_min_price_increment_f64 r = px_to_f64 (def1_min_price_increment r)"

definition InstrumentDefMsgV1_display_factor_f64 :: "InstrumentDefMsgV1 \<Rightarrow> f64" where
  "InstrumentDefMsgV1_display_factor_f64 r = px_to_f64 (def1_display_factor r)"

definition InstrumentDefMsgV1_expiration :: "InstrumentDefMsgV1 \<Rightarrow> offset_date_time option" where
  "InstrumentDefMsgV1_expiration r = ts_to_dt (def1_expiration r)"

definition InstrumentDefMsgV1_activation :: "InstrumentDefMsgV1 \<Rightarrow> offset_date_time option" where
  "InstrumentDefMsgV1_activation r = ts_to_dt (def1_activation r)"

definition InstrumentDefMsgV1_high_limit_price_f64 :: "InstrumentDefMsgV1 \<Rightarrow> f64" where
  "InstrumentDefMsgV1_high_limit_price_f64 r = px_to_f64 (def1_high_limit_price r)"

definition InstrumentDefMsgV1_low_limit_price_f64 :: "InstrumentDefMsgV1 \<Rightarrow> f64" where
  "InstrumentDefMsgV1_low_limit_price_f64 r = px_to_f64 (def1_low_limit_price r)"

definition InstrumentDefMsgV1_max_price_variation_f64 :: "InstrumentDefMsgV1 \<Rightarrow> f64" where
  "InstrumentDefMsgV1_max_price_variation_f64 r = px_to_f64 (def1_max_price_variation r)"

definition InstrumentDefMsgV1_trading_reference_price_f64 :: "InstrumentDefMsgV1 \<Rightarrow> f64" where
  "InstrumentDefMsgV1_trading_reference_price_f64 r = px_to_f64 (def1_trading_reference_price r)"

definition InstrumentDefMsgV1_unit_of_measure_qty_f64 :: "InstrumentDefMsgV1 \<Rightarrow> f64" where
  "InstrumentDefMsgV1_unit_of_measure_qty_f64 r = px_to_f64 (def1_unit_of_measure_qty r)"

definition InstrumentDefMsgV1_min_price_increment_amount_f64 :: "InstrumentDefMsgV1 \<Rightarrow> f64" where
  "InstrumentDefMsgV1_min_price_increment_amount_f64 r = px_to_f64 (def1_min_price_increment_amount r)"

definition InstrumentDefMsgV1_price_ratio_f64 :: "InstrumentDefMsgV1 \<Rightarrow> f64" where
  "InstrumentDefMsgV1_price_ratio_f64 r = px_to_f64 (def1_price_ratio r)"

definition InstrumentDefMsgV1_currency :: "InstrumentDefMsgV1 \<Rightarrow> string result" where
  "InstrumentDefMsgV1_currency r = c_chars_to_str (def1_currency r)"

definition InstrumentDefMsgV1_settl_currency :: "InstrumentDefMsgV1 \<Rightarrow> string result" where
  "InstrumentDefMsgV1_settl_currency r = c_chars_to_str (def1_settl_currency r)"

definition InstrumentDefMsgV1_secsubtype :: "InstrumentDefMsgV1 \<Rightarrow> string result" where
  "InstrumentDefMsgV1_secsubtype r = c_chars_to_str (def1_secsubtype r)"

definition InstrumentDefMsgV1_raw_symbol :: "InstrumentDefMsgV1 \<Rightarrow> string result" where
  "InstrumentDefMsgV1_raw_symbol r = c_chars_to_str (def1_raw_symbol r)"

definition InstrumentDefMsgV1_group :: "InstrumentDefMsgV1 \<Rightarrow> string result" where
  "InstrumentDefMsgV1_group r = c_chars_to_str (def1_group r)"

definition InstrumentDefMsgV1_exchange :: "InstrumentDefMsgV1 \<Rightarrow> string result" where
  "InstrumentDefMsgV1_exchange r = c_chars_to_str (def1_exchange r)"

definition InstrumentDefMsgV1_asset :: "InstrumentDefMsgV1 \<Rightarrow> string result" where
  "InstrumentDefMsgV1_asset r = c_chars_to_str (def1_asset r)"

definition InstrumentDefMsgV1_cfi :: "InstrumentDefMsgV1 \<Rightarrow> string result" where
  "InstrumentDefMsgV1_cfi r = c_chars_to_str (def1_cfi r)"

definition InstrumentDefMsgV1_security_type :: "InstrumentDefMsgV1 \<Rightarrow> string result" where
  "InstrumentDefMsgV1_security_type r = c_chars_to_str (def1_security_type r)"

definition InstrumentDefMsgV1_unit_of_measure :: "InstrumentDefMsgV1 \<Rightarrow> string result" where
  "InstrumentDefMsgV1_unit_of_measure r = c_chars_to_str (def1_unit_of_measure r)"

definition InstrumentDefMsgV1_underlying :: "InstrumentDefMsgV1 \<Rightarrow> string result" where
  "InstrumentDefMsgV1_underlying r = c_chars_to_str (def1_underlying r)"

definition InstrumentDefMsgV1_strike_price_currency :: "InstrumentDefMsgV1 \<Rightarrow> string result" where
  "InstrumentDefMsgV1_strike_price_currency r = c_chars_to_str (def1_strike_price_currency r)"

definition InstrumentDefMsgV1_instrument_class :: "InstrumentDefMsgV1 \<Rightarrow> InstrumentClass result" where
  "InstrumentDefMsgV1_instrument_class r = try_enum instrument_class_try_from ''dbn::enums::InstrumentClass'' (def1_instrument_class r)"

definition InstrumentDefMsgV1_strike_price_f64 :: "InstrumentDefMsgV1 \<Rightarrow> f64" where
  "InstrumentDefMsgV1_strike_price_f64 r = px_to_f64 (def1_strike_price r)"

definition InstrumentDefMsgV1_match_algorithm :: "InstrumentDefMsgV1 \<Rightarrow> MatchAlgorithm result" where
  "InstrumentDefMsgV1_match_algorithm r = try_enum match_algorithm_try_from ''dbn::enums::MatchAlgorithm'' (def1_match_algorithm r)"

subsection \<open>StatMsgV1\<close>

definition StatMsgV1_ts_recv :: "StatMsgV1 \<Rightarrow> offset_date_time option" where
  "StatMsgV1_ts_recv r = ts_to_dt (stat1_ts_recv r)"

definition StatMsgV1_ts_ref :: "StatMsgV1 \<Rightarrow> offset_date_time option" where
  "StatMsgV1_ts_ref r = ts_to_dt (stat1_ts_ref r)"

definition StatMsgV1_price_f64 :: "StatMsgV1 \<Rightarrow> f64" where
  "StatMsgV1_price_f64 r = px_to_f64 (stat1_price r)"

definition StatMsgV1_ts_in_delta :: "StatMsgV1 \<Rightarrow> duration" where
  "StatMsgV1_ts_in_delta r = duration_new 0 (stat1_ts_in_delta r)"

definition StatMsgV1_stat_type :: "StatMsgV1 \<Rightarrow> StatType result" where
  "StatMsgV1_stat_type r = try_enum stat_type_try_from ''dbn::enums::StatType'' (stat1_stat_type r)"

definition StatMsgV1_update_action :: "StatMsgV1 \<Rightarrow> StatUpdateAction result" where
  "StatMsgV1_update_action r = try_enum stat_update_action_try_from ''dbn::enums::StatUpdateAction'' (stat1_update_action r)"

subsection \<open>SymbolMappingMsgV1\<close>

definition SymbolMappingMsgV1_stype_in_symbol :: "SymbolMappingMsgV1 \<Rightarrow> string result" where
  "SymbolMappingMsgV1_stype_in_symbol r = c_chars_to_str (sm1_stype_in_symbol r)"

definition SymbolMappingMsgV1_stype_out_symbol :: "SymbolMappingMsgV1 \<Rightarrow> string result" where
  "SymbolMappingMsgV1_stype_out_symbol r = c_chars_to_str (sm1_stype_out_symbol r)"

definition SymbolMappingMsgV1_start_ts :: "SymbolMappingMsgV1 \<Rightarrow> offset_date_time option" where
  "SymbolMappingMsgV1_start_ts r = ts_to_dt (sm1_start_ts r)"

definition SymbolMappingMsgV1_end_ts :: "SymbolMappingMsgV1 \<Rightarrow> offset_date_time option" where
  "SymbolMappingMsgV1_end_ts r = ts_to_dt (sm1_end_ts r)"

subsection \<open>SystemMsgV1\<close>

definition SystemMsgV1_msg :: "SystemMsgV1 \<Rightarrow> string result" where
  "SystemMsgV1_msg r = c_chars_to_str (sys1_msg r)"

subsection \<open>InstrumentDefMsgV2\<close>

definition InstrumentDefMsgV2_ts_recv :: "InstrumentDefMsgV2 \<Rightarrow> offset_date_time option" where
  "InstrumentDefMsgV2_ts_recv r = ts_to_dt (def2_ts_recv r)"

definition InstrumentDefMsgV2_min_price_increment_f64 :: "InstrumentDefMsgV2 \<Rightarrow> f64" where
  "InstrumentDefMsgV2_min_price_increment_f64 r = px_to_f64 (def2_min_price_increment r)"

definition InstrumentDefMsgV2_display_factor_f64 :: "InstrumentDefMsgV2 \<Rightarrow> f64" where
  "InstrumentDefMsgV2_display_factor_f64 r = px_to_f64 (def2_display_factor r)"

definition InstrumentDefMsgV2_expiration :: "InstrumentDefMsgV2 \<Rightarrow> offset_date_time option" where
  "InstrumentDefMsgV2_expiration r = ts_to_dt (def2_expiration r)"

definition InstrumentDefMsgV2_activation :: "InstrumentDefMsgV2 \<Rightarrow> offset_date_time option" where
  "InstrumentDefMsgV2_activation r = ts_to_dt (def2_activation r)"

definition InstrumentDefMsgV2_high_limit_price_f64 :: "InstrumentDefMsgV2 \<Rightarrow> f64" where
  "InstrumentDefMsgV2_high_limit_price_f64 r = px_to_f64 (def2_high_limit_price r)"

definition InstrumentDefMsgV2_low_limit_price_f64 :: "InstrumentDefMsgV2 \<Rightarrow> f64" where
  "InstrumentDefMsgV2_low_limit_price_f64 r = px_to_f64 (def2_low_limit_price r)"

definition InstrumentDefMsgV2_max_price_variation_f64 :: "InstrumentDefMsgV2 \<Rightarrow> f64" where
  "InstrumentDefMsgV2_max_price_variation_f64 r = px_to_f64 (def2_max_price_variation r)"

definition InstrumentDefMsgV2_trading_reference_price_f64 :: "InstrumentDefMsgV2 \<Rightarrow> f64" where
  "InstrumentDefMsgV2_trading_reference_price_f64 r = px_to_f64 (def2_trading_reference_price r)"

definition InstrumentDefMsgV2_unit_of_measure_qty_f64 :: "InstrumentDefMsgV2 \<Rightarrow> f64" where
  "InstrumentDefMsgV2_unit_of_measure_qty_f64 r = px_to_f64 (def2_unit_of_measure_qty r)"

definition InstrumentDefMsgV2_min_price_increment_amount_f64 :: "InstrumentDefMsgV2 \<Rightarrow> f64" where
  "InstrumentDefMsgV2_min_price_increment_amount_f64 r = px_to_f64 (def2_min_price_increment_amount r)"

definition InstrumentDefMsgV2_price_ratio_f64 :: "InstrumentDefMsgV2 \<Rightarrow> f64" where
  "InstrumentDefMsgV2_price_ratio_f64 r = px_to_f64 (def2_price_ratio r)"

definition InstrumentDefMsgV2_strike_price_f64 :: "InstrumentDefMsgV2 \<Rightarrow> f64" where
  "InstrumentDefMsgV2_strike_price_f64 r = px_to_f64 (def2_strike_price r)"

definition InstrumentDefMsgV2_currency :: "InstrumentDefMsgV2 \<Rightarrow> string result" where
  "InstrumentDefMsgV2_currency r = c_chars_to_str (def2_currency r)"

definition InstrumentDefMsgV2_settl_currency :: "InstrumentDefMsgV2 \<Rightarrow> string result" where
  "InstrumentDefMsgV2_settl_currency r = c_chars_to_str (def2_settl_currency r)"

definition InstrumentDefMsgV2_secsubtype :: "InstrumentDefMsgV2 \<Rightarrow> string result" where
  "InstrumentDefMsgV2_secsubtype r = c_chars_to_str (def2_secsubtype r)"

definition InstrumentDefMsgV2_raw_symbol :: "InstrumentDefMsgV2 \<Rightarrow> string result" where
  "InstrumentDefMsgV2_raw_symbol r = c_chars_to_str (def2_raw_symbol r)"

definition InstrumentDefMsgV2_group :: "InstrumentDefMsgV2 \<Rightarrow> string result" where
  "InstrumentDefMsgV2_group r = c_chars_to_str (def2_group r)"

definition InstrumentDefMsgV2_exchange :: "InstrumentDefMsgV2 \<Rightarrow> string result" where
  "InstrumentDefMsgV2_exchange r = c_chars_to_str (def2_exchange r)"

definition InstrumentDefMsgV2_asset :: "InstrumentDefMsgV2 \<Rightarrow> string result" where
  "InstrumentDefMsgV2_asset r = c_chars_to_str (def2_asset r)"

definition InstrumentDefMsgV2_cfi :: "InstrumentDefMsgV2 \<Rightarrow> string result" where
  "InstrumentDefMsgV2_cfi r = c_chars_to_str (def2_cfi r)"

definition InstrumentDefMsgV2_security_type :: "InstrumentDefMsgV2 \<Rightarrow> string result" where
  "InstrumentDefMsgV2_security_type r = c_chars_to_str (def2_security_type r)"

definition InstrumentDefMsgV2_unit_of_measure :: "InstrumentDefMsgV2 \<Rightarrow> string result" where
  "InstrumentDefMsgV2_unit_of_measure r = c_chars_to_str (def2_unit_of_measure r)"

definition InstrumentDefMsgV2_underlying :: "InstrumentDefMsgV2 \<Rightarrow> string result" where
  "InstrumentDefMsgV2_underlying r = c_chars_to_str (def2_underlying r)"

definition InstrumentDefMsgV2_strike_price_currency :: "InstrumentDefMsgV2 \<Rightarrow> string result" where
  "InstrumentDefMsgV2_strike_price_currency r = c_chars_to_str (def2_strike_price_currency r)"

definition InstrumentDefMsgV2_instrument_class :: "InstrumentDefMsgV2 \<Rightarrow> InstrumentClass result" where
  "InstrumentDefMsgV2_instrument_class r = try_enum instrument_class_try_from ''dbn::enums::InstrumentClass'' (def2_instrument_class r)"

definition InstrumentDefMsgV2_match_algorithm :: "InstrumentDefMsgV2 \<Rightarrow> MatchAlgorithm result" where
  "InstrumentDefMsgV2_match_algorithm r = try_enum match_algorithm_try_from ''dbn::enums::MatchAlgorithm'' (def2_match_algorithm r)"

definition InstrumentDefMsgV2_security_update_action :: "InstrumentDefMsgV2 \<Rightarrow> SecurityUpdateAction result" where
  "InstrumentDefMsgV2_security_update_action r = try_enum security_update_action_try_from ''dbn::enums::SecurityUpdateAction'' (def2_security_update_action r)"

definition RecordHeader_publisher :: "RecordHeader \<Rightarrow> Publisher result" where
  "RecordHeader_publisher r =
     (case publisher_try_from (rh_publisher_id r) of
        Some p \<Rightarrow> Ok p
      | None \<Rightarrow> Err (Conversion (dec_nat (unat (rh_publisher_id r))) ''dbn::publishers::Publisher''))"

definition RecordHeader_ts_event :: "RecordHeader \<Rightarrow> offset_date_time option" where
  "RecordHeader_ts_event r = (if rh_ts_event r = UNDEF_TIMESTAMP then None else Some (uint (rh_ts_event r)))"

subsection \<open>Constructors\<close>

definition ErrorMsg_new :: "u64 \<Rightarrow> ErrorCode option \<Rightarrow> string \<Rightarrow> bool \<Rightarrow> ErrorMsg" where
  "ErrorMsg_new ts_event code msg last_one =
     (let error = ErrorMsg_default
            \<lparr>err2_hd := record_header_new ErrorMsg_type (rtype_as_u8 RType_Error) 0 0 ts_event,
             err2_is_last := (if last_one then 1 else 0)\<rparr>;
          error = (case code of Some c \<Rightarrow> error\<lparr>err2_code := error_code_as_u8 c\<rparr> | None \<Rightarrow> error) in
      error\<lparr>err2_err := copy_prefix (err2_err error) (take (length (err2_err error) - 1) (as_bytes msg))\<rparr>)"

definition SymbolMappingMsg_new ::
  "u32 \<Rightarrow> u64 \<Rightarrow> SType \<Rightarrow> string \<Rightarrow> SType \<Rightarrow> string \<Rightarrow> u64 \<Rightarrow> u64 \<Rightarrow> SymbolMappingMsg result" where
  "SymbolMappingMsg_new instrument_id ts_event stype_in stype_in_symbol stype_out stype_out_symbol start_ts end_ts =
     and_then (str_to_c_chars 71 stype_in_symbol) (\<lambda>in_chars.
     and_then (str_to_c_chars 71 stype_out_symbol) (\<lambda>out_chars.
       Ok \<lparr>sm2_hd = record_header_new SymbolMappingMsg_type (rtype_as_u8 RType_SymbolMapping) 0 instrument_id ts_event,
           sm2_stype_in = stype_as_u8 stype_in, sm2_stype_in_symbol = in_chars,
           sm2_stype_out = stype_as_u8 stype_out, sm2_stype_out_symbol = out_chars,
           sm2_start_ts = start_ts, sm2_end_ts = end_ts\<rparr>))"

definition SystemMsg_new :: "u64 \<Rightarrow> SystemCode option \<Rightarrow> string \<Rightarrow> SystemMsg result" where
  "SystemMsg_new ts_event code msg =
     and_then (str_to_c_chars 303 msg) (\<lambda>chars.
       Ok \<lparr>sys2_hd = record_header_new SystemMsg_type (rtype_as_u8 RType_System) 0 0 ts_event,
           sys2_msg = chars, sys2_code = (case code of Some c \<Rightarrow> system_code_as_u8 c | None \<Rightarrow> 0xFF)\<rparr>)"

definition SystemMsg_heartbeat :: "u64 \<Rightarrow> SystemMsg result" where
  "SystemMsg_heartbeat ts_event =
     and_then (case str_to_c_chars 303 HEARTBEAT of
         Err e \<Rightarrow> Panic ''called `Result::unwrap()` on an `Err` value'' | res \<Rightarrow> res) (\<lambda>chars.
       Ok \<lparr>sys2_hd = record_header_new SystemMsg_type (rtype_as_u8 RType_System) 0 0 ts_event,
           sys2_msg = chars, sys2_code = system_code_as_u8 SystemCode_Heartbeat\<rparr>)"

definition SystemMsg_is_heartbeat :: "SystemMsg \<Rightarrow> bool" where
  "SystemMsg_is_heartbeat r =
     (case SystemMsg_code r of
        Ok code \<Rightarrow> code = SystemCode_Heartbeat
      | _ \<Rightarrow> (case SystemMsg_msg r of Ok msg \<Rightarrow> msg = HEARTBEAT | _ \<Rightarrow> False))"

section \<open>Prices\<close>

lemma price_scale: "sint FIXED_PRICE_SCALE = 1000000000" "f64_round (of_int (sint FIXED_PRICE_SCALE)) = 1000000000"
proof -
  show scale: "sint FIXED_PRICE_SCALE = 1000000000" by (simp add: FIXED_PRICE_SCALE_def)
  show "f64_round (of_int (sint FIXED_PRICE_SCALE)) = 1000000000"
    using f64_round_int [of 1000000000] by (simp add: scale)
qed

lemma px_to_f64_value: "px \<noteq> UNDEF_PRICE \<Longrightarrow> px_to_f64 px = F64 (f64_round (f64_round (of_int (sint px)) / 1000000000))"
  unfolding px_to_f64_def price_scale(2) by simp

lemma px_to_f64_round:
  assumes "px \<noteq> UNDEF_PRICE" and "\<bar>sint px\<bar> < 2 ^ 52" and "px_to_f64 px = F64 x"
  shows "round (x * 1000000000) = sint px"
proof -
  let ?p = "rat_of_int (sint px)"
  have "f64_round ?p = ?p" using f64_round_int [of "sint px"] assms(2) by simp
  then have x: "x = f64_round (?p / 1000000000)" using assms(1,3) px_to_f64_value by simp
  have "\<bar>x - ?p / 1000000000\<bar> \<le> \<bar>?p / 1000000000\<bar> / 2 ^ 53" unfolding x by (rule f64_round_error)
  then have "\<bar>x * 1000000000 - ?p\<bar> \<le> \<bar>?p\<bar> / 2 ^ 53" by (simp add: abs_if field_simps split: if_splits)
  moreover have "\<bar>?p\<bar> < 2 ^ 52" using assms(2) by (metis of_int_abs of_int_less_iff of_int_numeral of_int_power)
  ultimately have "\<bar>x * 1000000000 - ?p\<bar> < 1 / 2" by simp
  then show ?thesis by (simp add: round_unique')
qed

section \<open>Messages\<close>

lemma nul_terminated:
  assumes "CHR 0x00 \<notin> set s" and "0 < k"
  shows "takeWhile (\<lambda>c. c \<noteq> 0) (as_bytes s @ replicate k 0) = as_bytes s" and "0 \<in> set (as_bytes s @ replicate k 0)"
proof -
  have "0 \<notin> set (as_bytes s)" using assms(1) by (auto simp: as_bytes_def of_char_eq_0_iff dest: sym)
  then show "takeWhile (\<lambda>c. c \<noteq> 0) (as_bytes s @ replicate k 0) = as_bytes s"
    by (subst takeWhile_append2) (auto simp: takeWhile_replicate)
  show "0 \<in> set (as_bytes s @ replicate k 0)" using assms(2) by simp
qed

lemma system_msg_reads_back:
  assumes "str_ok msg" and "CHR 0x00 \<notin> set msg" and "length msg < 303"
  shows "\<exists>r. SystemMsg_new ts_event code msg = Ok r \<and> well_formed SystemMsg_type r \<and> SystemMsg_msg r = Ok msg \<and>
    SystemMsg_code r = Ok (case code of Some c \<Rightarrow> c | None \<Rightarrow> SystemCode_Unset) \<and>
    (SystemMsg_is_heartbeat r \<longleftrightarrow> code = Some SystemCode_Heartbeat)"
proof -
  obtain chars where chars: "str_to_c_chars 303 msg = Ok chars" "length chars = 303" "c_chars_to_str chars = Ok msg"
    using c_chars_roundtrip [OF assms(1,2), of 303] assms(3) by auto
  define v where "v = (case code of Some c \<Rightarrow> c | None \<Rightarrow> SystemCode_Unset)"
  have v: "(case code of Some c \<Rightarrow> system_code_as_u8 c | None \<Rightarrow> 0xFF) = system_code_as_u8 v"
    "system_code_try_from (system_code_as_u8 v) = Some v" "v = SystemCode_Heartbeat \<longleftrightarrow> code = Some SystemCode_Heartbeat"
    using system_code_try_from_iff [of "system_code_as_u8 v" v] by (auto simp: v_def split: option.split)
  show ?thesis
    using chars v unfolding v_def [symmetric]
    by (simp add: SystemMsg_new_def SystemMsg_msg_def SystemMsg_code_def SystemMsg_is_heartbeat_def try_enum_def
        well_formed_def SystemMsg_type_def record_header_new_def SystemMsg_ok_def header_record_size_def LENGTH_MULTIPLIER_def)
qed

lemma symbol_mapping_reads_back:
  assumes "str_ok sym_in" "CHR 0x00 \<notin> set sym_in" "length sym_in < 71" "str_ok sym_out" "CHR 0x00 \<notin> set sym_out" "length sym_out < 71"
  shows "\<exists>r. SymbolMappingMsg_new iid ts_event stype_in sym_in stype_out sym_out start_ts end_ts = Ok r \<and>
    well_formed SymbolMappingMsg_type r \<and>
    SymbolMappingMsg_stype_in r = Ok stype_in \<and> SymbolMappingMsg_stype_in_symbol r = Ok sym_in \<and>
    SymbolMappingMsg_stype_out r = Ok stype_out \<and> SymbolMappingMsg_stype_out_symbol r = Ok sym_out \<and>
    SymbolMappingMsg_start_ts r = ts_to_dt start_ts \<and> SymbolMappingMsg_end_ts r = ts_to_dt end_ts"
proof -
  obtain a where a: "str_to_c_chars 71 sym_in = Ok a" "length a = 71" "c_chars_to_str a = Ok sym_in"
    using c_chars_roundtrip [OF assms(1,2), of 71] assms(3) by auto
  obtain b where b: "str_to_c_chars 71 sym_out = Ok b" "length b = 71" "c_chars_to_str b = Ok sym_out"
    using c_chars_roundtrip [OF assms(4,5), of 71] assms(6) by auto
  have v: "stype_try_from (stype_as_u8 t) = Some t" for t
    using stype_try_from_iff [of "stype_as_u8 t" t] by simp
  show ?thesis
    using a b
    by (simp add: SymbolMappingMsg_new_def SymbolMappingMsg_stype_in_def SymbolMappingMsg_stype_in_symbol_def
        SymbolMappingMsg_stype_out_def SymbolMappingMsg_stype_out_symbol_def SymbolMappingMsg_start_ts_def
        SymbolMappingMsg_end_ts_def try_enum_def v
        well_formed_def SymbolMappingMsg_type_def record_header_new_def SymbolMappingMsg_ok_def header_record_size_def LENGTH_MULTIPLIER_def)
qed

text \<open>The constructor of the error message cuts the text after 301 bytes.\<close>

lemma error_msg_text: "err2_err (ErrorMsg_new ts_event code msg last_one) =
    as_bytes (take 301 msg) @ replicate (302 - length (take 301 msg)) 0"
  by (cases code) (simp_all add: ErrorMsg_new_def ErrorMsg_default_def Let_def copy_prefix_def as_bytes_def take_map)

lemma error_msg_reads_back:
  assumes "CHR 0x00 \<notin> set msg"
  shows "ErrorMsg_err (ErrorMsg_new ts_event code msg last_one) =
      from_utf8 ''converting c_char array'' (as_bytes (take 301 msg))"
    and "ErrorMsg_code (ErrorMsg_new ts_event code msg last_one) = Ok (case code of Some c \<Rightarrow> c | None \<Rightarrow> ErrorCode_Unset)"
    and "well_formed ErrorMsg_type (ErrorMsg_new ts_event code msg last_one)"
proof -
  let ?s = "take 301 msg"
  have "CHR 0x00 \<notin> set ?s" using assms by (auto dest: in_set_takeD)
  from nul_terminated [OF this, of "302 - length ?s"]
  show "ErrorMsg_err (ErrorMsg_new ts_event code msg last_one) =
      from_utf8 ''converting c_char array'' (as_bytes ?s)"
    unfolding ErrorMsg_err_def c_chars_to_str_def error_msg_text by simp
  define v where "v = (case code of Some c \<Rightarrow> c | None \<Rightarrow> ErrorCode_Unset)"
  have "err2_code (ErrorMsg_new ts_event code msg last_one) = error_code_as_u8 v"
    by (cases code) (simp_all add: ErrorMsg_new_def ErrorMsg_default_def Let_def v_def)
  moreover have "error_code_try_from (error_code_as_u8 v) = Some v"
    using error_code_try_from_iff [of "error_code_as_u8 v" v] by simp
  ultimately show "ErrorMsg_code (ErrorMsg_new ts_event code msg last_one) = Ok (case code of Some c \<Rightarrow> c | None \<Rightarrow> ErrorCode_Unset)"
    by (simp add: ErrorMsg_code_def try_enum_def v_def)
  show "well_formed ErrorMsg_type (ErrorMsg_new ts_event code msg last_one)"
    by (cases code) (simp_all add: ErrorMsg_new_def ErrorMsg_default_def Let_def well_formed_def ErrorMsg_type_def copy_prefix_def
        record_header_new_def ErrorMsg_ok_def header_record_size_def LENGTH_MULTIPLIER_def)
qed

text \<open>A text of 302 bytes with a two-byte character at the cut.\<close>

definition cut_text :: string where
  "cut_text = replicate 300 CHR ''a'' @ [CHR 0xC3, CHR 0xA9]"

lemma cut_text_facts:
  shows "str_ok cut_text" and "CHR 0x00 \<notin> set cut_text" and "length cut_text = 302"
    and "\<not> utf8_valid (as_bytes (take 301 cut_text))"
proof -
  have ascii: "list_all (\<lambda>b. b < 0x80) (as_bytes (replicate 300 CHR ''a''))"
    by (simp add: as_bytes_def list_all_iff)
  have bytes: "as_bytes cut_text = as_bytes (replicate 300 CHR ''a'') @ [0xC3, 0xA9]"
    "as_bytes (take 301 cut_text) = as_bytes (replicate 300 CHR ''a'') @ [0xC3]"
    by (simp_all add: cut_text_def as_bytes_def)
  show "str_ok cut_text" "\<not> utf8_valid (as_bytes (take 301 cut_text))"
    unfolding str_ok_def bytes utf8_valid_ascii_append [OF ascii] by (simp_all add: is_cont_def)
qed (simp_all add: cut_text_def)

section \<open>Properties\<close>

text \<open>
  C25. A fixed-point price read as a floating-point number is NaN exactly for the undefined price;
  otherwise it is the price within two roundings of a binary64, and a price of up to 52 bits is what
  rounding the number, scaled back to nanounits, returns.
\<close>

theorem price_as_f64:
  "(px_to_f64 px = F64_NaN \<longleftrightarrow> px = UNDEF_PRICE) \<and>
   (px \<noteq> UNDEF_PRICE \<longrightarrow>
     (\<exists>x. px_to_f64 px = F64 x \<and>
       \<bar>x - of_int (sint px) / 10 ^ 9\<bar> \<le> \<bar>of_int (sint px) / 10 ^ 9\<bar> * (2 / 2 ^ 53 + 1 / 2 ^ 106) \<and>
       (\<bar>sint px\<bar> < 2 ^ 52 \<longrightarrow> round (x * 10 ^ 9) = sint px)))"
proof (cases "px = UNDEF_PRICE")
  case False
  then show ?thesis
    using px_to_f64_round [OF False] f64_divide_error [of 1000000000 "of_int (sint px)"]
    by (auto simp: px_to_f64_value [OF False])
qed (simp add: px_to_f64_def)

theorem price_as_f64_witness:
  "\<exists>x. px_to_f64 1250000001 = F64 x \<and> round (x * 10 ^ 9) = 1250000001"
  using price_as_f64 [of 1250000001] by (auto simp: UNDEF_PRICE_def)

text \<open>
  C24. A system message and a symbol mapping whose texts fit their fields read back as they were made, each
  symbol from its own field; a text that does not fit is an encoding error, for a symbol mapping also when
  only one of its two symbols does not fit. The text of an error message is cut after 301 bytes, and reads
  back as that prefix exactly when the cut leaves valid UTF-8. A system message made without a code is
  never a heartbeat, whatever its text.
\<close>

theorem messages_read_back:
  assumes "str_ok msg" and "CHR 0x00 \<notin> set msg" and "str_ok sym_out" and "CHR 0x00 \<notin> set sym_out"
  shows "(if length msg < 303
          then \<exists>r. SystemMsg_new ts_event code msg = Ok r \<and> well_formed SystemMsg_type r \<and> SystemMsg_msg r = Ok msg \<and>
            SystemMsg_code r = Ok (case code of Some c \<Rightarrow> c | None \<Rightarrow> SystemCode_Unset) \<and>
            (SystemMsg_is_heartbeat r \<longleftrightarrow> code = Some SystemCode_Heartbeat)
          else \<exists>e. SystemMsg_new ts_event code msg = Err (Encode e)) \<and>
         (if length msg < 71 \<and> length sym_out < 71
          then \<exists>r. SymbolMappingMsg_new iid ts_event stype_in msg stype_out sym_out start_ts end_ts = Ok r \<and>
            well_formed SymbolMappingMsg_type r \<and>
            SymbolMappingMsg_stype_in r = Ok stype_in \<and> SymbolMappingMsg_stype_in_symbol r = Ok msg \<and>
            SymbolMappingMsg_stype_out r = Ok stype_out \<and> SymbolMappingMsg_stype_out_symbol r = Ok sym_out \<and>
            SymbolMappingMsg_start_ts r = ts_to_dt start_ts \<and> SymbolMappingMsg_end_ts r = ts_to_dt end_ts
          else \<exists>e. SymbolMappingMsg_new iid ts_event stype_in msg stype_out sym_out start_ts end_ts = Err (Encode e)) \<and>
         ErrorMsg_err (ErrorMsg_new ts_event err_code msg last_one) =
           (if utf8_valid (as_bytes (take 301 msg)) then Ok (take 301 msg) else Err (Utf8 ''converting c_char array'')) \<and>
         ErrorMsg_code (ErrorMsg_new ts_event err_code msg last_one) = Ok (case err_code of Some c \<Rightarrow> c | None \<Rightarrow> ErrorCode_Unset) \<and>
         well_formed ErrorMsg_type (ErrorMsg_new ts_event err_code msg last_one)"
proof (intro conjI)
  have long: "\<exists>e. SystemMsg_new ts_event code msg = Err (Encode e)" if "\<not> length msg < 303"
    using c_chars_roundtrip [OF assms(1,2), of 303] that by (auto simp: SystemMsg_new_def)
  then show "if length msg < 303
    then \<exists>r. SystemMsg_new ts_event code msg = Ok r \<and> well_formed SystemMsg_type r \<and> SystemMsg_msg r = Ok msg \<and>
      SystemMsg_code r = Ok (case code of Some c \<Rightarrow> c | None \<Rightarrow> SystemCode_Unset) \<and>
      (SystemMsg_is_heartbeat r \<longleftrightarrow> code = Some SystemCode_Heartbeat)
    else \<exists>e. SystemMsg_new ts_event code msg = Err (Encode e)"
    using system_msg_reads_back [OF assms(1,2)] by simp
  have long: "\<exists>e. SymbolMappingMsg_new iid ts_event stype_in msg stype_out sym_out start_ts end_ts = Err (Encode e)"
    if "\<not> (length msg < 71 \<and> length sym_out < 71)"
    using c_chars_roundtrip [OF assms(1,2), of 71] c_chars_roundtrip [OF assms(3,4), of 71] that
    by (cases "length msg < 71") (auto simp: SymbolMappingMsg_new_def)
  then show "if length msg < 71 \<and> length sym_out < 71
    then \<exists>r. SymbolMappingMsg_new iid ts_event stype_in msg stype_out sym_out start_ts end_ts = Ok r \<and>
      well_formed SymbolMappingMsg_type r \<and>
      SymbolMappingMsg_stype_in r = Ok stype_in \<and> SymbolMappingMsg_stype_in_symbol r = Ok msg \<and>
      SymbolMappingMsg_stype_out r = Ok stype_out \<and> SymbolMappingMsg_stype_out_symbol r = Ok sym_out \<and>
      SymbolMappingMsg_start_ts r = ts_to_dt start_ts \<and> SymbolMappingMsg_end_ts r = ts_to_dt end_ts
    else \<exists>e. SymbolMappingMsg_new iid ts_event stype_in msg stype_out sym_out start_ts end_ts = Err (Encode e)"
    using symbol_mapping_reads_back [OF assms(1,2) _ assms(3,4)] by simp
qed (simp_all add: error_msg_reads_back [OF assms(2)] from_utf8_def)

theorem messages_read_back_witness:
  "(\<exists>r. SystemMsg_new 0 None cut_text = Ok r \<and> SystemMsg_msg r = Ok cut_text \<and> \<not> SystemMsg_is_heartbeat r) \<and>
   (\<exists>e. SymbolMappingMsg_new 0 0 SType_RawSymbol cut_text SType_InstrumentId ''17077'' 0 0 = Err (Encode e)) \<and>
   (\<exists>r. SymbolMappingMsg_new 0 0 SType_RawSymbol ''ES'' SType_InstrumentId ''17077'' 0 0 = Ok r \<and>
      SymbolMappingMsg_stype_in_symbol r = Ok ''ES'' \<and> SymbolMappingMsg_stype_out_symbol r = Ok ''17077'') \<and>
   ErrorMsg_err (ErrorMsg_new 0 None cut_text True) = Err (Utf8 ''converting c_char array'')"
proof -
  have ok: "str_ok ''17077''" "str_ok ''ES''" "CHR 0x00 \<notin> set ''17077''" "CHR 0x00 \<notin> set ''ES''"
    by (simp_all add: is_ascii_str_ok is_ascii_def)
  note long = messages_read_back [OF cut_text_facts(1,2) ok(1,3), where ts_event = 0 and code = None and err_code = None
      and last_one = True and iid = 0 and stype_in = SType_RawSymbol and stype_out = SType_InstrumentId and start_ts = 0 and end_ts = 0]
  note short = messages_read_back [OF ok(2,4,1,3), where ts_event = 0 and code = None and err_code = None
      and last_one = True and iid = 0 and stype_in = SType_RawSymbol and stype_out = SType_InstrumentId and start_ts = 0 and end_ts = 0]
  have "\<exists>r. SymbolMappingMsg_new 0 0 SType_RawSymbol ''ES'' SType_InstrumentId ''17077'' 0 0 = Ok r \<and>
      SymbolMappingMsg_stype_in_symbol r = Ok ''ES'' \<and> SymbolMappingMsg_stype_out_symbol r = Ok ''17077''"
    using short by auto
  then show ?thesis using long by (auto simp: cut_text_facts)
qed

end
