(* ===== verification/Dbz_Metadata.thy ===== *)
theory Dbz_Metadata
  imports Metadata_Decode Reader
begin

text \<open>
  The metadata of legacy DBZ files, rust/dbn/src/decode/dbz.rs: a Zstandard skippable frame whose
  variable-length part is compressed. The prefixes by which the formats are told apart are here, too.

  The crate \<^verbatim>\<open>zstd\<close> is a dictionary: a decoder over a reader, which is a reader again, and the
  decompression of a byte slice.
\<close>

section \<open>Definitions\<close>

text \<open>\<open>None\<close> is an I/O error.\<close>

record ('r, 'z) zstd_ops =
  zstd_with_buffer :: "'r \<Rightarrow> 'z option"
  zstd_reader :: "'z reader"
  zstd_slice_new :: "bytes \<Rightarrow> bytes option"
  zstd_read_to_end :: "bytes \<Rightarrow> bytes option"

text \<open>The standard library's \<^verbatim>\<open>read_exact\<close>; \<open>None\<close> is an I/O error.\<close>

function read_exact :: "'r reader \<Rightarrow> nat \<Rightarrow> 'r \<Rightarrow> 'r \<times> bytes option" where
  "read_exact R n r =
     (if n = 0 then (r, Some [])
      else case read R n r of
        (r, Inl _) \<Rightarrow> (r, None)
      | (r, Inr bs) \<Rightarrow>
          if bs = [] then (r, None)
          else case read_exact R (n - length bs) r of
            (r, Some rest) \<Rightarrow> (r, Some (bs @ rest))
          | (r, None) \<Rightarrow> (r, None))"
  by pat_completeness auto

termination by (relation "measure (\<lambda>(R, n, r). n)") auto

declare read_exact.simps [simp del]

definition ZSTD_MAGIC_NUMBER :: u32 where "ZSTD_MAGIC_NUMBER = 0xFD2FB528"

definition zstd_skippable_magic :: "u32 \<Rightarrow> bool" where
  "zstd_skippable_magic magic \<longleftrightarrow> 0x184D2A50 \<le> magic \<and> magic < 0x184D2A60"

definition zstd_starts_with_prefix :: "bytes \<Rightarrow> bool" where
  "zstd_starts_with_prefix bs \<longleftrightarrow> 4 \<le> length bs \<and> fst (get_u32 bs) = ZSTD_MAGIC_NUMBER"

definition dbz_starts_with_prefix :: "bytes \<Rightarrow> bool" where
  "dbz_starts_with_prefix bs \<longleftrightarrow>
     12 \<le> length bs \<and> zstd_skippable_magic (fst (get_u32 bs)) \<and>
     take 3 (drop 8 bs) = as_bytes ''DBZ'' \<and> bs ! 11 = 1"

definition dbn_starts_with_prefix :: "bytes \<Rightarrow> bool" where
  "dbn_starts_with_prefix bs \<longleftrightarrow> 3 < length bs \<and> take 3 bs = as_bytes ''DBN''"

subsection \<open>Metadata\<close>

definition dbz_decode_symbol :: "string \<Rightarrow> bytes \<Rightarrow> nat \<Rightarrow> (string \<times> nat) result" where
  "dbz_decode_symbol context buffer pos =
     and_then (slice buffer pos (pos + SYMBOL_CSTR_LEN_V1)) (\<lambda>symbol_slice.
     and_then (from_utf8 context symbol_slice) (\<lambda>s.
       Ok (trim_end_nul s, pos + SYMBOL_CSTR_LEN_V1)))"

fun dbz_symbols_loop :: "bytes \<Rightarrow> nat \<Rightarrow> nat \<Rightarrow> nat \<Rightarrow> (string list \<times> nat) result" where
  "dbz_symbols_loop buffer i 0 pos = Ok ([], pos)"
| "dbz_symbols_loop buffer i (Suc n) pos =
     and_then (dbz_decode_symbol (''decoding symbol at index '' @ dec_nat i) buffer pos)
       (\<lambda>(s, pos). and_then (dbz_symbols_loop buffer (i + 1) n pos) (\<lambda>(ss, pos). Ok (s # ss, pos)))"

definition dbz_decode_repeated_symbol_cstr :: "bytes \<Rightarrow> nat \<Rightarrow> (string list \<times> nat) result" where
  "dbz_decode_repeated_symbol_cstr buffer pos =
     (if pos + 4 > length buffer then Err (Decode ''unexpected end of metadata buffer'')
      else and_then (u32_at buffer pos) (\<lambda>raw_count.
        let count = unat raw_count; pos = pos + 4; read_size = count * SYMBOL_CSTR_LEN_V1 in
        if pos + read_size > length buffer then Err (Decode ''unexpected end of metadata buffer'')
        else dbz_symbols_loop buffer 0 count pos))"

definition dbz_decode_interval ::
  "'d date_ops \<Rightarrow> nat \<Rightarrow> bytes \<Rightarrow> nat \<Rightarrow> ('d MappingInterval \<times> nat) result" where
  "dbz_decode_interval C i buffer pos =
     and_then (u32_at buffer pos) (\<lambda>raw_start_date.
     let pos = pos + 4 in
     case decode_iso8601 C raw_start_date of
       Inl e \<Rightarrow> Err (Decode (e @ '' while parsing start date of mapping interval at index '' @ dec_nat i))
     | Inr start \<Rightarrow>
     and_then (u32_at buffer pos) (\<lambda>raw_end_date.
     let pos = pos + 4 in
     case decode_iso8601 C raw_end_date of
       Inl e \<Rightarrow> Err (Decode (e @ '' while parsing start date of mapping interval at index '' @ dec_nat i))
     | Inr end_d \<Rightarrow>
     and_then (dbz_decode_symbol (''parsing symbol mapping interval at index '' @ dec_nat i) buffer pos) (\<lambda>(s, pos).
       Ok (\<lparr>start_date = start, end_date = end_d, symbol = s\<rparr>, pos))))"

fun dbz_intervals_loop ::
  "'d date_ops \<Rightarrow> bytes \<Rightarrow> nat \<Rightarrow> nat \<Rightarrow> nat \<Rightarrow> ('d MappingInterval list \<times> nat) result" where
  "dbz_intervals_loop C buffer i 0 pos = Ok ([], pos)"
| "dbz_intervals_loop C buffer i (Suc n) pos =
     and_then (dbz_decode_interval C i buffer pos)
       (\<lambda>(interval, pos). and_then (dbz_intervals_loop C buffer (i + 1) n pos)
          (\<lambda>(rest, pos). Ok (interval # rest, pos)))"

definition dbz_decode_symbol_mapping :: "'d date_ops \<Rightarrow> bytes \<Rightarrow> nat \<Rightarrow> ('d SymbolMapping \<times> nat) result" where
  "dbz_decode_symbol_mapping C buffer pos =
     (let min_symbol_mapping_encoded_size = SYMBOL_CSTR_LEN_V1 + 4;
          mapping_interval_encoded_size = 4 * 2 + SYMBOL_CSTR_LEN_V1 in
      if pos + min_symbol_mapping_encoded_size > length buffer
      then Err (Decode ''unexpected end of metadata buffer while parsing symbol mapping'')
      else and_then (dbz_decode_symbol ''parsing raw symbol'' buffer pos) (\<lambda>(raw, pos).
        and_then (u32_at buffer pos) (\<lambda>raw_count.
        let interval_count = unat raw_count; pos = pos + 4;
            read_size = interval_count * mapping_interval_encoded_size in
        if pos + read_size > length buffer
        then Err (Decode (''symbol mapping interval_count ('' @ dec_nat interval_count @
               '') doesn't match size of buffer which only contains space for '' @
               dec_nat ((length buffer - pos) div mapping_interval_encoded_size) @ '' intervals''))
        else and_then (dbz_intervals_loop C buffer 0 interval_count pos)
          (\<lambda>(ints, pos). Ok (\<lparr>raw_symbol = raw, intervals = ints\<rparr>, pos)))))"

fun dbz_mappings_loop :: "'d date_ops \<Rightarrow> bytes \<Rightarrow> nat \<Rightarrow> nat \<Rightarrow> ('d SymbolMapping list \<times> nat) result" where
  "dbz_mappings_loop C buffer 0 pos = Ok ([], pos)"
| "dbz_mappings_loop C buffer (Suc n) pos =
     and_then (dbz_decode_symbol_mapping C buffer pos)
       (\<lambda>(m, pos). and_then (dbz_mappings_loop C buffer n pos) (\<lambda>(ms, pos). Ok (m # ms, pos)))"

definition dbz_decode_symbol_mappings :: "'d date_ops \<Rightarrow> bytes \<Rightarrow> nat \<Rightarrow> ('d SymbolMapping list \<times> nat) result" where
  "dbz_decode_symbol_mappings C buffer pos =
     (if pos + 4 > length buffer
      then Err (Decode ''unexpected end of metadata buffer while decoding symbol mappings'')
      else and_then (u32_at buffer pos) (\<lambda>raw_count. dbz_mappings_loop C buffer (unat raw_count) (pos + 4)))"

text \<open>\<^verbatim>\<open>MetadataDecoder::decode\<close>: the variable-length part, on the decompressed buffer.\<close>

definition dbz_decode_lists ::
  "'d date_ops \<Rightarrow> bytes \<Rightarrow> (string list \<times> string list \<times> string list \<times> 'd SymbolMapping list) result" where
  "dbz_decode_lists C var_buffer =
     and_then (u32_at var_buffer 0) (\<lambda>schema_definition_length.
     if schema_definition_length \<noteq> 0 then Err (Decode ''DBZ doesn't support schema definitions'')
     else let pos = 0 + 4 + unat schema_definition_length in
     and_then (dbz_decode_repeated_symbol_cstr var_buffer pos) (\<lambda>(symbols, pos).
     and_then (dbz_decode_repeated_symbol_cstr var_buffer pos) (\<lambda>(partial, pos).
     and_then (dbz_decode_repeated_symbol_cstr var_buffer pos) (\<lambda>(not_found, pos).
     and_then (dbz_decode_symbol_mappings C var_buffer pos) (\<lambda>(mappings, pos).
       Ok (symbols, partial, not_found, mappings))))))"

definition dbz_metadata_decode :: "'d date_ops \<Rightarrow> ('r, 'z) zstd_ops \<Rightarrow> bytes \<Rightarrow> 'd Metadata result" where
  "dbz_metadata_decode C Z buffer =
     (let pos = 0 in
      and_then (slice buffer pos (pos + 3)) (\<lambda>prefix.
      if prefix \<noteq> as_bytes ''DBZ'' then Err (Decode ''Invalid version string'') else
      and_then (index buffer (pos + 3)) (\<lambda>version.
      if version > 1 then Err (Decode ''Can't read newer version of DBZ'') else
      let pos = pos + 4 in
      and_then (slice buffer pos (pos + METADATA_DATASET_CSTR_LEN)) (\<lambda>raw_dataset.
      and_then (from_utf8 ''reading dataset from metadata'' raw_dataset) (\<lambda>padded_dataset.
      let dataset = trim_end_nul padded_dataset; pos = pos + METADATA_DATASET_CSTR_LEN in
      and_then (u16_at buffer pos) (\<lambda>raw_schema.
      and_then (case schema_try_from raw_schema of Some s \<Rightarrow> Ok s
                | None \<Rightarrow> Err (Conversion (debug_bytes (put_u16 raw_schema)) ''dbn::enums::Schema'')) (\<lambda>schema.
      let pos = pos + 2 in
      and_then (u64_at buffer pos) (\<lambda>start.
      let pos = pos + 8 in
      and_then (u64_at buffer pos) (\<lambda>end_ts.
      let pos = pos + 8 in
      and_then (u64_at buffer pos) (\<lambda>raw_limit.
      let limit = non_zero raw_limit; pos = pos + 8; pos = pos + 8 in
      and_then (index buffer pos) (\<lambda>raw_compression.
      and_then (case compression_try_from raw_compression of Some c \<Rightarrow> Ok c
                | None \<Rightarrow> Err (Conversion (dec_nat (unat raw_compression)) ''dbn::enums::Compression'')) (\<lambda>_.
      let pos = pos + 1 in
      and_then (index buffer pos) (\<lambda>raw_stype_in.
      and_then (decode_stype raw_stype_in) (\<lambda>stype_in.
      let pos = pos + 1 in
      and_then (index buffer pos) (\<lambda>raw_stype_out.
      and_then (decode_stype raw_stype_out) (\<lambda>stype_out.
      let pos = pos + 1 + 39 in
      and_then (slice_from buffer pos) (\<lambda>compressed.
      case zstd_slice_new Z compressed of
        None \<Rightarrow> Err (Io ''reading zstd-compressed variable-length metadata'')
      | Some decoder \<Rightarrow>
      (case zstd_read_to_end Z decoder of
        None \<Rightarrow> Err (Io ''reading variable-length metadata'')
      | Some var_buffer \<Rightarrow>
      and_then (dbz_decode_lists C var_buffer) (\<lambda>(symbols, partial, not_found, mappings).
      Ok \<lparr>md_version = 0, md_dataset = dataset, md_schema = Some schema, md_start = start,
          md_end = non_zero end_ts, md_limit = limit, md_stype_in = Some stype_in, md_stype_out = stype_out,
          md_ts_out = False, md_symbol_cstr_len = SYMBOL_CSTR_LEN_V1, md_symbols = symbols, md_partial = partial,
          md_not_found = not_found, md_mappings = mappings\<rparr>)))))))))))))))))))"

definition dbz_metadata_read ::
  "'d date_ops \<Rightarrow> ('r, 'z) zstd_ops \<Rightarrow> 'r reader \<Rightarrow> 'r \<Rightarrow> 'r \<times> 'd Metadata result" where
  "dbz_metadata_read C Z R r =
     (case read_exact R 8 r of
        (r, None) \<Rightarrow> (r, Err (Io ''reading metadata prelude''))
      | (r, Some prelude_buffer) \<Rightarrow>
          if \<not> zstd_skippable_magic (fst (get_u32 prelude_buffer))
          then (r, Err (Decode ''invalid metadata: no zstd magic number''))
          else
            let frame_size = unat (fst (get_u32 (drop 4 prelude_buffer))) in
            if frame_size < 96
            then (r, Err (Decode ''frame length cannot be shorter than the fixed metadata size''))
            else
              (case read_exact R frame_size r of
                 (r, None) \<Rightarrow> (r, Err (Io ''reading metadata''))
               | (r, Some metadata_buffer) \<Rightarrow> (r, dbz_metadata_decode C Z metadata_buffer)))"

section \<open>The layout\<close>

text \<open>The fixed part, with the fields that decoding skips, and the variable-length part.\<close>

definition dbz_fixed_bytes :: "'d Metadata \<Rightarrow> u64 \<Rightarrow> Compression \<Rightarrow> bytes \<Rightarrow> bytes" where
  "dbz_fixed_bytes m record_count compression reserved =
     as_bytes ''DBZ'' @ [1] @ cstr_bytes METADATA_DATASET_CSTR_LEN (md_dataset m) @
     put_u16 (case md_schema m of Some s \<Rightarrow> schema_as_u16 s | None \<Rightarrow> NULL_SCHEMA) @
     put_u64 (md_start m) @ put_u64 (case md_end m of Some e \<Rightarrow> e | None \<Rightarrow> 0) @
     put_u64 (case md_limit m of Some l \<Rightarrow> l | None \<Rightarrow> 0) @ put_u64 record_count @
     [compression_as_u8 compression] @
     [case md_stype_in m of Some s \<Rightarrow> stype_as_u8 s | None \<Rightarrow> NULL_STYPE] @ [stype_as_u8 (md_stype_out m)] @ reserved"

definition dbz_list_bytes :: "'d date_ops \<Rightarrow> 'd Metadata \<Rightarrow> bytes" where
  "dbz_list_bytes C m =
     put_u32 0 @ symbols_bytes SYMBOL_CSTR_LEN_V1 (md_symbols m) @ symbols_bytes SYMBOL_CSTR_LEN_V1 (md_partial m) @
     symbols_bytes SYMBOL_CSTR_LEN_V1 (md_not_found m) @ mappings_bytes C SYMBOL_CSTR_LEN_V1 (md_mappings m)"

definition dbz_metadata_ok :: "'d date_ops \<Rightarrow> 'd Metadata \<Rightarrow> bool" where
  "dbz_metadata_ok C m \<longleftrightarrow>
     md_version m = 0 \<and> text_ok METADATA_DATASET_CSTR_LEN (md_dataset m) \<and>
     md_schema m \<noteq> None \<and> md_stype_in m \<noteq> None \<and> md_end m \<noteq> Some 0 \<and> md_limit m \<noteq> Some 0 \<and>
     \<not> md_ts_out m \<and> md_symbol_cstr_len m = SYMBOL_CSTR_LEN_V1 \<and>
     texts_ok SYMBOL_CSTR_LEN_V1 (md_symbols m) \<and> texts_ok SYMBOL_CSTR_LEN_V1 (md_partial m) \<and>
     texts_ok SYMBOL_CSTR_LEN_V1 (md_not_found m) \<and>
     list_all (mapping_ok C SYMBOL_CSTR_LEN_V1) (md_mappings m) \<and> length (md_mappings m) < 2 ^ 32"

section \<open>Agreement with DBN version 1\<close>

text \<open>
  \<open>agree x y\<close>: the same value, or an error each, or a panic each. The lists of a DBZ file are read
  as those of DBN version 1; only the texts of the errors differ.
\<close>

fun agree :: "'a result \<Rightarrow> 'a result \<Rightarrow> bool" where
  "agree (Ok x) (Ok y) \<longleftrightarrow> x = y"
| "agree (Err _) (Err _) \<longleftrightarrow> True"
| "agree (Panic _) (Panic _) \<longleftrightarrow> True"
| "agree _ _ \<longleftrightarrow> False"

lemma agree_refl [simp]: "agree x x"
  by (cases x) simp_all

lemma agree_and_then:
  assumes "agree x y" and "\<And>v. agree (f v) (g v)"
  shows "agree (and_then x f) (and_then y g)"
  using assms by (cases x; cases y) auto

lemma agree_Ok: "agree x y \<Longrightarrow> y = Ok v \<Longrightarrow> x = Ok v"
  by (cases x) auto

lemma agree_no_panic: "agree x y \<Longrightarrow> no_panic y \<Longrightarrow> no_panic x"
  by (cases x; cases y) auto

lemma agree_symbol: "agree (dbz_decode_symbol c buffer pos) (decode_metadata_symbol c' SYMBOL_CSTR_LEN_V1 buffer pos)"
  unfolding dbz_decode_symbol_def decode_metadata_symbol_def
  by (intro agree_and_then) (auto simp: from_utf8_def)

lemma agree_symbols_loop:
  "agree (dbz_symbols_loop buffer i n pos) (decode_symbols_loop SYMBOL_CSTR_LEN_V1 buffer j n pos)"
proof (induction n arbitrary: i j pos)
  case (Suc n)
  then show ?case by (auto intro!: agree_and_then agree_symbol)
qed simp

lemma agree_symbols:
  "agree (dbz_decode_repeated_symbol_cstr buffer pos) (decode_metadata_repeated_symbol_cstr SYMBOL_CSTR_LEN_V1 buffer pos)"
  unfolding dbz_decode_repeated_symbol_cstr_def decode_metadata_repeated_symbol_cstr_def
  by (auto simp: Let_def intro!: agree_and_then agree_symbols_loop)

lemma agree_interval:
  "agree (dbz_decode_interval C i buffer pos) (decode_interval C SYMBOL_CSTR_LEN_V1 idx j buffer pos)"
  unfolding dbz_decode_interval_def decode_interval_def Let_def
  by (intro agree_and_then agree_refl) (auto split: sum.split intro!: agree_and_then agree_symbol)

lemma agree_intervals_loop:
  "agree (dbz_intervals_loop C buffer i n pos) (decode_intervals_loop C SYMBOL_CSTR_LEN_V1 idx buffer j n pos)"
proof (induction n arbitrary: i j pos)
  case (Suc n)
  then show ?case by (auto intro!: agree_and_then agree_interval)
qed simp

lemma agree_mapping:
  "agree (dbz_decode_symbol_mapping C buffer pos) (decode_metadata_symbol_mapping C SYMBOL_CSTR_LEN_V1 idx buffer pos)"
  unfolding dbz_decode_symbol_mapping_def decode_metadata_symbol_mapping_def Let_def
  by (auto intro!: agree_and_then agree_symbol agree_intervals_loop)

lemma agree_mappings_loop:
  "agree (dbz_mappings_loop C buffer n pos) (decode_mappings_loop C SYMBOL_CSTR_LEN_V1 buffer i n pos)"
proof (induction n arbitrary: i pos)
  case (Suc n)
  then show ?case by (auto intro!: agree_and_then agree_mapping)
qed simp

lemma agree_mappings:
  "agree (dbz_decode_symbol_mappings C buffer pos) (decode_metadata_symbol_mappings C SYMBOL_CSTR_LEN_V1 buffer pos)"
  unfolding dbz_decode_symbol_mappings_def decode_metadata_symbol_mappings_def
  by (auto intro!: agree_and_then agree_mappings_loop)

lemma dbz_lists_no_panic: "4 \<le> length var_buffer \<Longrightarrow> no_panic (dbz_decode_lists C var_buffer)"
  unfolding dbz_decode_lists_def Let_def
  by (auto intro!: no_panic_and_then no_panic_reads agree_no_panic [OF agree_symbols] agree_no_panic [OF agree_mappings]
      no_panic_symbols no_panic_mappings)

context calendar
begin

lemma dbz_decode_lists_at:
  assumes "dbz_metadata_ok C m"
  shows "dbz_decode_lists C (dbz_list_bytes C m) = Ok (md_symbols m, md_partial m, md_not_found m, md_mappings m)"
proof -
  let ?n = SYMBOL_CSTR_LEN_V1 and ?b = "dbz_list_bytes C m"
  let ?p1 = "4 + length (symbols_bytes ?n (md_symbols m))"
  let ?p2 = "?p1 + length (symbols_bytes ?n (md_partial m))"
  let ?p3 = "?p2 + length (symbols_bytes ?n (md_not_found m))"
  have "at ?b 0 ?b" by (simp add: at_def)
  then have ats: "at ?b 0 (put_u32 0)" "at ?b 4 (symbols_bytes ?n (md_symbols m))"
    "at ?b ?p1 (symbols_bytes ?n (md_partial m))" "at ?b ?p2 (symbols_bytes ?n (md_not_found m))"
    "at ?b ?p3 (mappings_bytes C ?n (md_mappings m))"
    unfolding dbz_list_bytes_def by (simp_all add: at_append)
  have "decode_metadata_repeated_symbol_cstr ?n ?b 4 = Ok (md_symbols m, ?p1)"
    "decode_metadata_repeated_symbol_cstr ?n ?b ?p1 = Ok (md_partial m, ?p2)"
    "decode_metadata_repeated_symbol_cstr ?n ?b ?p2 = Ok (md_not_found m, ?p3)"
    "decode_metadata_symbol_mappings C ?n ?b ?p3 = Ok (md_mappings m, ?p3 + length (mappings_bytes C ?n (md_mappings m)))"
    using assms by (simp_all add: decode_symbols_at ats decode_mappings_at dbz_metadata_ok_def)
  then have "dbz_decode_repeated_symbol_cstr ?b 4 = Ok (md_symbols m, ?p1)"
    "dbz_decode_repeated_symbol_cstr ?b ?p1 = Ok (md_partial m, ?p2)"
    "dbz_decode_repeated_symbol_cstr ?b ?p2 = Ok (md_not_found m, ?p3)"
    "dbz_decode_symbol_mappings C ?b ?p3 = Ok (md_mappings m, ?p3 + length (mappings_bytes C ?n (md_mappings m)))"
    using agree_Ok [OF agree_symbols] agree_Ok [OF agree_mappings] by blast+
  then show ?thesis by (simp add: dbz_decode_lists_def at_reads(2) [OF ats(1)])
qed

end

section \<open>Reading the frame\<close>

lemma dbz_fixed_decodes:
  assumes "dbz_metadata_ok C m" and "length reserved = 39"
  shows "dbz_metadata_decode C Z (dbz_fixed_bytes m count compression reserved @ cs) =
    (case zstd_slice_new Z cs of
       None \<Rightarrow> Err (Io ''reading zstd-compressed variable-length metadata'')
     | Some decoder \<Rightarrow>
    (case zstd_read_to_end Z decoder of
       None \<Rightarrow> Err (Io ''reading variable-length metadata'')
     | Some var_buffer \<Rightarrow>
    and_then (dbz_decode_lists C var_buffer) (\<lambda>(symbols, partial, not_found, mappings).
      Ok (m\<lparr>md_symbols := symbols, md_partial := partial, md_not_found := not_found, md_mappings := mappings\<rparr>))))"
    and "length (dbz_fixed_bytes m count compression reserved) = 96"
proof -
  define buf where "buf = dbz_fixed_bytes m count compression reserved @ cs"
  obtain schema stype where some: "md_schema m = Some schema" "md_stype_in m = Some stype"
    using assms(1) by (auto simp: dbz_metadata_ok_def)
  have ds: "text_ok 16 (md_dataset m)" using assms(1) by (simp add: dbz_metadata_ok_def METADATA_DATASET_CSTR_LEN_def)
  note cstr = decode_cstr_text [OF ds] length_text_bytes [OF ds]
  show len: "length (dbz_fixed_bytes m count compression reserved) = 96"
    using assms(2) cstr by (simp add: dbz_fixed_bytes_def METADATA_DATASET_CSTR_LEN_def)
  have "at buf 0 (dbz_fixed_bytes m count compression reserved)" by (simp add: buf_def)
  then have ats: "at buf 0 (as_bytes ''DBZ'')" "at buf 3 [1]" "at buf 4 (cstr_bytes 16 (md_dataset m))"
    "at buf 20 (put_u16 (schema_as_u16 schema))" "at buf 22 (put_u64 (md_start m))"
    "at buf 30 (put_u64 (case md_end m of Some e \<Rightarrow> e | None \<Rightarrow> 0))"
    "at buf 38 (put_u64 (case md_limit m of Some l \<Rightarrow> l | None \<Rightarrow> 0))"
    "at buf 54 [compression_as_u8 compression]" "at buf 55 [stype_as_u8 stype]" "at buf 56 [stype_as_u8 (md_stype_out m)]"
    unfolding dbz_fixed_bytes_def by (simp_all add: at_append cstr some METADATA_DATASET_CSTR_LEN_def numeral_3_eq_3 [symmetric] Suc3_eq_add_3 del: append_Cons)
  have slices: "slice buf 0 3 = Ok (as_bytes ''DBZ'')" "slice buf 4 20 = Ok (cstr_bytes 16 (md_dataset m))"
    "slice_from buf 96 = Ok cs"
    using at_reads(5) [OF ats(1), of 3] at_reads(5) [OF ats(3), of 20] cstr len by (simp_all add: slice_from_def buf_def)
  have enums: "schema_try_from (schema_as_u16 schema) = Some schema"
    "compression_try_from (compression_as_u8 compression) = Some compression"
    "decode_stype (stype_as_u8 stype) = Ok stype" "decode_stype (stype_as_u8 (md_stype_out m)) = Ok (md_stype_out m)"
    using schema_try_from_iff [of "schema_as_u16 schema" schema] compression_try_from_iff [of "compression_as_u8 compression" compression]
      stype_try_from_iff [of "stype_as_u8 stype" stype] stype_try_from_iff [of "stype_as_u8 (md_stype_out m)" "md_stype_out m"]
    by (simp_all add: decode_stype_def)
  have ends: "non_zero (case md_end m of Some e \<Rightarrow> e | None \<Rightarrow> 0) = md_end m"
    "non_zero (case md_limit m of Some l \<Rightarrow> l | None \<Rightarrow> 0) = md_limit m"
    using assms(1) by (auto simp: dbz_metadata_ok_def non_zero_def split: option.split)
  have m: "md_version m = 0" "\<not> md_ts_out m" "md_symbol_cstr_len m = SYMBOL_CSTR_LEN_V1"
    using assms(1) by (simp_all add: dbz_metadata_ok_def)
  have upd: "m\<lparr>md_symbols := a, md_partial := b, md_not_found := c, md_mappings := d\<rparr> =
     \<lparr>md_version = 0, md_dataset = md_dataset m, md_schema = Some schema, md_start = md_start m,
      md_end = md_end m, md_limit = md_limit m, md_stype_in = Some stype, md_stype_out = md_stype_out m,
      md_ts_out = False, md_symbol_cstr_len = SYMBOL_CSTR_LEN_V1, md_symbols = a, md_partial = b,
      md_not_found = c, md_mappings = d\<rparr>" for a b c d
    using m some by (cases m) simp
  show "dbz_metadata_decode C Z (dbz_fixed_bytes m count compression reserved @ cs) = (case zstd_slice_new Z cs of
       None \<Rightarrow> Err (Io ''reading zstd-compressed variable-length metadata'')
     | Some decoder \<Rightarrow>
    (case zstd_read_to_end Z decoder of
       None \<Rightarrow> Err (Io ''reading variable-length metadata'')
     | Some var_buffer \<Rightarrow>
    and_then (dbz_decode_lists C var_buffer) (\<lambda>(symbols, partial, not_found, mappings).
      Ok (m\<lparr>md_symbols := symbols, md_partial := partial, md_not_found := not_found, md_mappings := mappings\<rparr>))))"
    unfolding buf_def [symmetric] dbz_metadata_decode_def upd
    by (simp add: Let_def METADATA_DATASET_CSTR_LEN_def slices at_reads(4) [OF ats(2)] from_utf8_def cstr
        at_reads(1) [OF ats(4)] at_reads(3) [OF ats(5)] at_reads(3) [OF ats(6)] at_reads(3) [OF ats(7)]
        at_reads(4) [OF ats(8)] at_reads(4) [OF ats(9)] at_reads(4) [OF ats(10)] enums ends
        cong: and_then_cong option.case_cong)
qed

context byte_reader
begin

lemma read_exact_prefix:
  "\<exists>r'. if n \<le> length (pending r) then read_exact R n r = (r', Some (take n (pending r))) \<and> pending r' = drop n (pending r)
        else read_exact R n r = (r', None)"
proof (induction n arbitrary: r rule: less_induct)
  case (less n)
  show ?case
  proof (cases "n = 0")
    case True
    then show ?thesis by (simp add: read_exact.simps)
  next
    case False
    obtain r' bs where r': "read R n r = (r', Inr bs)" "length bs \<le> n" "pending r = bs @ pending r'"
      "bs = [] \<Longrightarrow> n \<noteq> 0 \<Longrightarrow> pending r = []"
      using readE [of n r] by metis
    show ?thesis
    proof (cases "bs = []")
      case True
      then show ?thesis using False r' by (subst (1 2) read_exact.simps) simp
    next
      case ne: False
      then have "n - length bs < n" using False by simp
      from less.IH [OF this, of r'] show ?thesis
        using False ne r' by (subst (1 2) read_exact.simps) (auto split: if_splits option.splits)
    qed
  qed
qed

end

section \<open>Decompression\<close>

text \<open>
  What the decoders rely on of the crate \<^verbatim>\<open>zstd\<close>: where \<open>unzip cs = Some bs\<close> says that the
  frames \<open>cs\<close> hold the bytes \<open>bs\<close>, a decoder over a reader delivers the bytes the rest of the
  reader's frames hold, and a slice is decompressed to those it holds.
\<close>

locale zstd_codec = src: byte_reader R pending + unz: byte_reader "zstd_reader Z" zpending
  for R :: "'r reader" and pending :: "'r \<Rightarrow> bytes" and Z :: "('r, 'z) zstd_ops" and zpending :: "'z \<Rightarrow> bytes" +
  fixes unzip :: "bytes \<Rightarrow> bytes option"
  assumes open_stream: "unzip (pending r) = Some bs \<Longrightarrow> \<exists>z. zstd_with_buffer Z r = Some z \<and> zpending z = bs"
    and open_slice: "unzip cs = Some bs \<Longrightarrow> \<exists>dec. zstd_slice_new Z cs = Some dec \<and> zstd_read_to_end Z dec = Some bs"

text \<open>Frames that hold their bytes as they are, after the magic number.\<close>

definition unstore :: "bytes \<Rightarrow> bytes option" where
  "unstore cs = (if zstd_starts_with_prefix cs then Some (drop 4 cs) else None)"

definition stored_zstd :: "('r \<Rightarrow> bytes) \<Rightarrow> ('r, nat list \<times> bytes) zstd_ops" where
  "stored_zstd pending =
     \<lparr>zstd_with_buffer = (\<lambda>r. Some ([], case unstore (pending r) of Some bs \<Rightarrow> bs | None \<Rightarrow> [])),
      zstd_reader = piece_reader, zstd_slice_new = Some, zstd_read_to_end = unstore\<rparr>"

lemma stored_zstd_codec: "byte_reader R pending \<Longrightarrow> zstd_codec R pending (stored_zstd pending) snd unstore"
  using piece.byte_reader_axioms by (simp add: zstd_codec_def zstd_codec_axioms_def stored_zstd_def)

interpretation stored: zstd_codec piece_reader snd "stored_zstd snd" snd unstore
  by (rule stored_zstd_codec) (rule piece.byte_reader_axioms)

lemma unstore_magic [simp]: "unstore (put_u32 ZSTD_MAGIC_NUMBER @ bs) = Some bs"
  by (simp add: unstore_def zstd_starts_with_prefix_def)

text \<open>The skippable frame a DBZ file starts with.\<close>

definition dbz_frame :: "'d date_ops \<Rightarrow> (bytes \<Rightarrow> bytes option) \<Rightarrow> 'd Metadata \<Rightarrow> bytes \<Rightarrow> bool" where
  "dbz_frame C unzip m frame \<longleftrightarrow> dbz_metadata_ok C m \<and>
     (\<exists>magic cs count compression reserved. zstd_skippable_magic magic \<and> 96 + length cs < 2 ^ 32 \<and>
        unzip cs = Some (dbz_list_bytes C m) \<and> length reserved = 39 \<and>
        frame = put_u32 magic @ put_u32 (word_of_nat (96 + length cs)) @
          dbz_fixed_bytes m count compression reserved @ cs)"

lemma dbz_metadata_read_frame:
  assumes "byte_reader R pending" and "calendar C" and "dbz_metadata_ok C m" and "length reserved = 39"
    and "zstd_skippable_magic magic" and "96 + length cs < 2 ^ 32"
    and "zstd_slice_new Z cs = Some decoder" and "zstd_read_to_end Z decoder = Some (dbz_list_bytes C m)"
    and "frame = put_u32 magic @ put_u32 (word_of_nat (96 + length cs)) @ dbz_fixed_bytes m count compression reserved @ cs"
  shows "(pending r = frame @ rest \<longrightarrow> (\<exists>r'. dbz_metadata_read C Z R r = (r', Ok m) \<and> pending r' = rest)) \<and>
    (pending r = take k frame \<and> k < length frame \<longrightarrow> (\<exists>r' c. dbz_metadata_read C Z R r = (r', Err (Io c))))"
proof -
  note exact = byte_reader.read_exact_prefix [OF assms(1)]
  let ?n = "96 + length cs"
  have len: "length (dbz_fixed_bytes m count compression reserved) = 96" by (rule dbz_fixed_decodes(2) [OF assms(3,4)])
  have n: "unat (word_of_nat ?n :: u32) = ?n" by (rule unat_count) (rule assms(6))
  have frame: "length frame = 8 + ?n" "take 8 frame = put_u32 magic @ put_u32 (word_of_nat ?n)"
    "drop 8 frame = dbz_fixed_bytes m count compression reserved @ cs"
    using assms(9) len by simp_all
  have prelude: "fst (get_u32 (take 8 frame)) = magic" "fst (get_u32 (drop 4 (take 8 frame))) = word_of_nat ?n"
    unfolding frame(2) by (simp_all add: get_put_u32 [of _ "[]", simplified] del: of_nat_add)
  have decode: "dbz_metadata_decode C Z (drop 8 frame) = Ok m"
    unfolding frame(3) dbz_fixed_decodes(1) [OF assms(3,4)]
    using calendar.dbz_decode_lists_at [OF assms(2,3)] assms(7,8) by (cases m) simp
  have read8: "\<exists>r1. read_exact R 8 r = (r1, Some (take 8 frame)) \<and> pending r1 = drop 8 (pending r) \<and>
      dbz_metadata_read C Z R r = (case read_exact R ?n r1 of
          (r, None) \<Rightarrow> (r, Err (Io ''reading metadata''))
        | (r, Some metadata_buffer) \<Rightarrow> (r, dbz_metadata_decode C Z metadata_buffer))"
    if first: "take 8 (pending r) = take 8 frame"
  proof -
    have "8 \<le> length (pending r)" using arg_cong [OF first, of length] frame(1) by simp
    then obtain r1 where "read_exact R 8 r = (r1, Some (take 8 frame))" "pending r1 = drop 8 (pending r)"
      using exact [of 8 r] first by auto
    then show ?thesis
      using assms(5) prelude n by (simp add: dbz_metadata_read_def)
  qed
  show ?thesis
  proof (intro conjI impI)
    assume r: "pending r = frame @ rest"
    then obtain r1 where r1: "pending r1 = drop 8 frame @ rest" "dbz_metadata_read C Z R r = (case read_exact R ?n r1 of
          (r, None) \<Rightarrow> (r, Err (Io ''reading metadata''))
        | (r, Some metadata_buffer) \<Rightarrow> (r, dbz_metadata_decode C Z metadata_buffer))"
      using read8 frame(1) by auto
    then show "\<exists>r'. dbz_metadata_read C Z R r = (r', Ok m) \<and> pending r' = rest"
      using exact [of ?n r1] decode frame(1) by auto
  next
    assume r: "pending r = take k frame \<and> k < length frame"
    show "\<exists>r' c. dbz_metadata_read C Z R r = (r', Err (Io c))"
    proof (cases "k < 8")
      case True
      then show ?thesis using exact [of 8 r] r by (auto simp: dbz_metadata_read_def)
    next
      case False
      then obtain r1 where "pending r1 = drop 8 (take k frame)" "dbz_metadata_read C Z R r = (case read_exact R ?n r1 of
          (r, None) \<Rightarrow> (r, Err (Io ''reading metadata''))
        | (r, Some metadata_buffer) \<Rightarrow> (r, dbz_metadata_decode C Z metadata_buffer))"
        using read8 r by auto
      then show ?thesis using exact [of ?n r1] r False frame(1) by auto
    qed
  qed
qed

context zstd_codec
begin

lemma dbz_frame_reads:
  assumes "calendar C" and "dbz_frame C unzip m frame"
  shows "pending r = frame @ rest \<Longrightarrow> \<exists>r'. dbz_metadata_read C Z R r = (r', Ok m) \<and> pending r' = rest"
    and "pending r = take k frame \<Longrightarrow> k < length frame \<Longrightarrow> \<exists>r' c. dbz_metadata_read C Z R r = (r', Err (Io c))"
proof -
  obtain magic cs count compression reserved where f: "zstd_skippable_magic magic" "96 + length cs < 2 ^ 32"
    "unzip cs = Some (dbz_list_bytes C m)" "length reserved = 39" "dbz_metadata_ok C m"
    "frame = put_u32 magic @ put_u32 (word_of_nat (96 + length cs)) @ dbz_fixed_bytes m count compression reserved @ cs"
    using assms(2) by (auto simp: dbz_frame_def)
  obtain dec where "zstd_slice_new Z cs = Some dec" "zstd_read_to_end Z dec = Some (dbz_list_bytes C m)"
    using open_slice [OF f(3)] by blast
  note frame = dbz_metadata_read_frame [OF src.byte_reader_axioms assms(1) f(5,4,1,2) this f(6)]
  show "pending r = frame @ rest \<Longrightarrow> \<exists>r'. dbz_metadata_read C Z R r = (r', Ok m) \<and> pending r' = rest"
    and "pending r = take k frame \<Longrightarrow> k < length frame \<Longrightarrow> \<exists>r' c. dbz_metadata_read C Z R r = (r', Err (Io c))"
    using frame [of r rest k] by blast+
qed

end

section \<open>No panic\<close>

lemma read_exact_length:
  assumes "byte_reader R pending" and "read_exact R n r = (r', Some bs)"
  shows "length bs = n"
  using byte_reader.read_exact_prefix [OF assms(1), of n r] assms(2) by (auto split: if_splits)

lemma dbz_decode_no_panic:
  assumes "96 \<le> length buffer"
    and "\<And>dec v. zstd_slice_new Z (drop 96 buffer) = Some dec \<Longrightarrow> zstd_read_to_end Z dec = Some v \<Longrightarrow> 4 \<le> length v"
  shows "no_panic (dbz_metadata_decode C Z buffer)"
proof -
  have "no_panic (slice_from buffer 96)" "slice_from buffer 96 = Ok x \<Longrightarrow> x = drop 96 buffer" for x
    using assms(1) by (simp_all add: slice_from_def)
  then show ?thesis
    unfolding dbz_metadata_decode_def Let_def METADATA_DATASET_CSTR_LEN_def using assms
    by (auto intro!: no_panic_and_then no_panic_reads dbz_lists_no_panic split: option.split)
qed

text \<open>
  Reading DBZ metadata panics on no input, whatever the bytes, unless the lists are decompressed to
  fewer than the four bytes of their first field; then it does.
\<close>

lemma dbz_metadata_no_panic:
  assumes "byte_reader R pending"
    and "\<And>cs dec v. zstd_slice_new Z cs = Some dec \<Longrightarrow> zstd_read_to_end Z dec = Some v \<Longrightarrow> 4 \<le> length v"
  shows "no_panic (snd (dbz_metadata_read C Z R r))"
  using read_exact_length [OF assms(1)] assms(2)
  by (auto simp: dbz_metadata_read_def Let_def not_less intro!: dbz_decode_no_panic split: prod.split option.split)

lemma dbz_short_lists_panic:
  assumes "dbz_metadata_ok C m" and "length reserved = 39"
    and "zstd_slice_new Z cs = Some dec" and "zstd_read_to_end Z dec = Some v"
  shows "no_panic (dbz_metadata_decode C Z (dbz_fixed_bytes m count compression reserved @ cs)) \<longleftrightarrow> 4 \<le> length v"
proof
  show "no_panic (dbz_metadata_decode C Z (dbz_fixed_bytes m count compression reserved @ cs)) \<Longrightarrow> 4 \<le> length v"
    using assms by (auto simp: dbz_fixed_decodes dbz_decode_lists_def u32_at_def slice_from_def u32_from_le_slice_def split: if_splits)
  show "4 \<le> length v \<Longrightarrow> no_panic (dbz_metadata_decode C Z (dbz_fixed_bytes m count compression reserved @ cs))"
    using assms by (intro dbz_decode_no_panic) (simp_all add: dbz_fixed_decodes(2))
qed

section \<open>Properties\<close>

text \<open>
  C29. DBZ metadata is read back: from a stream that starts with a skippable frame holding the fixed
  fields and the compressed lists of well-formed metadata, however the reader cuts it into pieces,
  the decoder reads that metadata and leaves the reader at the compressed records. A stream that
  ends within the frame is an error.
\<close>

theorem dbz_metadata_reads:
  assumes "zstd_codec R pending Z zpending unzip" and "calendar C" and "dbz_frame C unzip m frame"
  shows "(pending r = frame @ rest \<longrightarrow> (\<exists>r'. dbz_metadata_read C Z R r = (r', Ok m) \<and> pending r' = rest)) \<and>
    (pending r = take k frame \<and> k < length frame \<longrightarrow> (\<exists>r' c. dbz_metadata_read C Z R r = (r', Err (Io c))))"
  using zstd_codec.dbz_frame_reads [OF assms, of r] by blast

text \<open>The sample metadata in a DBZ frame.\<close>

definition dbz_sample :: "gdate Metadata" where
  "dbz_sample = (sample_metadata 1)\<lparr>md_version := 0\<rparr>"

definition dbz_sample_frame :: bytes where
  "dbz_sample_frame =
     (let cs = put_u32 ZSTD_MAGIC_NUMBER @ dbz_list_bytes gregorian dbz_sample in
      put_u32 0x184D2A51 @ put_u32 (word_of_nat (96 + length cs)) @
      dbz_fixed_bytes dbz_sample 2 Compression_Zstd (replicate 39 0) @ cs)"

lemma dbz_sample_framed: "dbz_frame gregorian unstore dbz_sample dbz_sample_frame"
proof -
  have "dbz_metadata_ok gregorian dbz_sample"
    using sample_metadata_ok [of 1] by (simp add: dbz_metadata_ok_def metadata_ok_def dbz_sample_def sample_metadata_simps)
  moreover have "length (dbz_list_bytes gregorian dbz_sample) < 1000"
    by (simp add: dbz_list_bytes_def dbz_sample_def sample_metadata_simps length_symbols_bytes length_mappings_bytes
        mapping_fits_def cstr_fits_def is_ascii_def SYMBOL_CSTR_LEN_V1_def)
  ultimately show ?thesis
    unfolding dbz_frame_def dbz_sample_frame_def Let_def
    by (intro conjI exI [of _ "0x184D2A51 :: u32"] exI [of _ "put_u32 ZSTD_MAGIC_NUMBER @ dbz_list_bytes gregorian dbz_sample"]
        exI [of _ "2 :: u64"] exI [of _ Compression_Zstd] exI [of _ "replicate 39 0 :: bytes"])
      (simp_all add: zstd_skippable_magic_def)
qed

theorem dbz_metadata_reads_witness:
  "\<exists>r'. dbz_metadata_read gregorian (stored_zstd snd) piece_reader ([3, 1, 40], dbz_sample_frame @ [7]) = (r', Ok dbz_sample) \<and>
    snd r' = [7]"
  using dbz_metadata_reads [OF stored.zstd_codec_axioms gregorian.calendar_axioms dbz_sample_framed,
      of "([3, 1, 40], dbz_sample_frame @ [7])" "[7]"] by simp

end
