(* ===== verification/Dyn_Decoder.thy ===== *)
theory Dyn_Decoder
  imports Dbz_Metadata Transcode
begin

text \<open>
  The decoder of legacy DBZ files (rust/dbn/src/decode/dbz.rs) and the decoder that infers the
  encoding and the compression of its input (rust/dbn/src/decode/dyn_decoder.rs), with the standard
  library's \<^verbatim>\<open>BufReader\<close> they read through.
\<close>

section \<open>Definitions\<close>

subsection \<open>DBZ\<close>

record ('d, 'z, 'b) DbzDecoder =
  dbz_decoder :: "('z, 'b) RecordDecoder"
  dbz_metadata :: "'d Metadata"

definition dbz_with_upgrade_policy ::
  "'d date_ops \<Rightarrow> 'b buf_ops \<Rightarrow> ('r, 'z) zstd_ops \<Rightarrow> 'r reader \<Rightarrow> 'r \<Rightarrow> VersionUpgradePolicy
   \<Rightarrow> ('d, 'z, 'b) DbzDecoder result" where
  "dbz_with_upgrade_policy C B Z R r policy =
     (case dbz_metadata_read C Z R r of
        (r, found) \<Rightarrow>
          and_then found (\<lambda>m.
          and_then (unwrap (builder_input_dbn_version (Some 1) fsm_builder)) (\<lambda>b.
          and_then (fsm_build B (builder_skip_metadata True
              (builder_upgrade_policy policy (builder_ts_out (md_ts_out m) b)))) (\<lambda>f.
          case zstd_with_buffer Z r of
            None \<Rightarrow> Err (Io ''creating zstd decoder'')
          | Some z \<Rightarrow>
              Ok \<lparr>dbz_decoder = \<lparr>rd_reader = z, rd_fsm = f\<rparr>, dbz_metadata = metadata_upgrade policy m\<rparr>))))"

definition dbz_new ::
  "'d date_ops \<Rightarrow> 'b buf_ops \<Rightarrow> ('r, 'z) zstd_ops \<Rightarrow> 'r reader \<Rightarrow> 'r \<Rightarrow> ('d, 'z, 'b) DbzDecoder result" where
  "dbz_new C B Z R r = dbz_with_upgrade_policy C B Z R r VersionUpgradePolicy_UpgradeToV3"

text \<open>The loop of \<^verbatim>\<open>decode_record_ref\<close> is that of the record decoder, with the same body.\<close>

definition dbz_decode_record_ref ::
  "'d date_ops \<Rightarrow> 'b buf_ops \<Rightarrow> ('r, 'z) zstd_ops \<Rightarrow> ('d, 'z, 'b) DbzDecoder
   \<Rightarrow> (('d, 'z, 'b) DbzDecoder \<times> bytes option result) result option" where
  "dbz_decode_record_ref C B Z d =
     (case decode_ref C B (zstd_reader Z) (dbz_decoder d) of
        None \<Rightarrow> None
      | Some res \<Rightarrow> Some (and_then res (\<lambda>(rd, found). Ok (d\<lparr>dbz_decoder := rd\<rparr>, found))))"

definition dbz_decode_record ::
  "'t record_type \<Rightarrow> 'd date_ops \<Rightarrow> 'b buf_ops \<Rightarrow> ('r, 'z) zstd_ops \<Rightarrow> ('d, 'z, 'b) DbzDecoder
   \<Rightarrow> (('d, 'z, 'b) DbzDecoder \<times> 't option result) result option" where
  "dbz_decode_record T C B Z d =
     (case dbz_decode_record_ref C B Z d of
        None \<Rightarrow> None
      | Some res \<Rightarrow> Some (and_then res (\<lambda>(d, found).
          Ok (d, and_then found (\<lambda>rec. case rec of
              Some rec \<Rightarrow> and_then (rr_try_get T rec) (\<lambda>x. Ok (Some x))
            | None \<Rightarrow> Ok None)))))"

definition dbz_last_record :: "'b buf_ops \<Rightarrow> ('d, 'z, 'b) DbzDecoder \<Rightarrow> bytes option" where
  "dbz_last_record B d = last_record B (rd_fsm (dbz_decoder d))"

subsection \<open>Buffered readers\<close>

text \<open>
  \<^verbatim>\<open>BufReader\<close> over a reader, with the standard library's 8 KiB: a read is served from the buffer,
  which is filled when it is empty; a read at least as large as an empty buffer bypasses it. The
  decoders only read through it.
\<close>

definition BUF_READER_CAPACITY :: nat where "BUF_READER_CAPACITY = 8 * 1024"

record 'r BufReader =
  br_buf :: bytes
  br_inner :: 'r

definition buf_reader_new :: "'r \<Rightarrow> 'r BufReader" where
  "buf_reader_new r = \<lparr>br_buf = [], br_inner = r\<rparr>"

definition buf_reader_fill_buf :: "'r reader \<Rightarrow> 'r BufReader \<Rightarrow> 'r BufReader \<times> (io_error_kind + bytes)" where
  "buf_reader_fill_buf R s =
     (if br_buf s \<noteq> [] then (s, Inr (br_buf s))
      else case read R BUF_READER_CAPACITY (br_inner s) of
        (r, Inl e) \<Rightarrow> (s\<lparr>br_inner := r\<rparr>, Inl e)
      | (r, Inr bs) \<Rightarrow> (\<lparr>br_buf = bs, br_inner = r\<rparr>, Inr bs))"

definition buf_reader_read :: "'r reader \<Rightarrow> nat \<Rightarrow> 'r BufReader \<Rightarrow> 'r BufReader \<times> (io_error_kind + bytes)" where
  "buf_reader_read R n s =
     (if br_buf s = [] \<and> BUF_READER_CAPACITY \<le> n then
        (case read R n (br_inner s) of (r, res) \<Rightarrow> (s\<lparr>br_inner := r\<rparr>, res))
      else case buf_reader_fill_buf R s of
        (s, Inl e) \<Rightarrow> (s, Inl e)
      | (s, Inr bs) \<Rightarrow> (s\<lparr>br_buf := drop n bs\<rparr>, Inr (take n bs)))"

definition buf_reader :: "'r reader \<Rightarrow> 'r BufReader reader" where
  "buf_reader R = \<lparr>read = buf_reader_read R, seek_current = (\<lambda>n s. (s, False))\<rparr>"

subsection \<open>Dynamic decoder\<close>

datatype ('d, 'r, 'z, 'b) DynDecoder =
  DynDecoder_Dbn "('d, 'r, 'b) Decoder"
| DynDecoder_ZstdDbn "('d, 'z, 'b) Decoder"
| DynDecoder_LegacyDbz "('d, 'z, 'b) DbzDecoder"

text \<open>A DBN decoder over the decompressed reader.\<close>

definition dyn_zstd ::
  "'d date_ops \<Rightarrow> 'b buf_ops \<Rightarrow> ('r, 'z) zstd_ops \<Rightarrow> 'r \<Rightarrow> VersionUpgradePolicy
   \<Rightarrow> ('d, 'r, 'z, 'b) DynDecoder result option" where
  "dyn_zstd C B Z r policy =
     (case zstd_with_buffer Z r of
        None \<Rightarrow> Some (Err (Io ''creating zstd decoder''))
      | Some z \<Rightarrow> map_option (\<lambda>res. and_then res (\<lambda>d. Ok (DynDecoder_ZstdDbn d)))
          (decoder_with_upgrade_policy C B (zstd_reader Z) z policy))"

definition dyn_with_buffer ::
  "'d date_ops \<Rightarrow> 'b buf_ops \<Rightarrow> ('r, 'z) zstd_ops \<Rightarrow> 'r reader \<Rightarrow> 'r \<Rightarrow> Compression \<Rightarrow> VersionUpgradePolicy
   \<Rightarrow> ('d, 'r, 'z, 'b) DynDecoder result option" where
  "dyn_with_buffer C B Z R r compression policy =
     (case compression of
        Compression_None \<Rightarrow> map_option (\<lambda>res. and_then res (\<lambda>d. Ok (DynDecoder_Dbn d)))
          (decoder_with_upgrade_policy C B R r policy)
      | Compression_Zstd \<Rightarrow> dyn_zstd C B Z r policy)"

definition dyn_new ::
  "'d date_ops \<Rightarrow> 'b buf_ops \<Rightarrow> ('r BufReader, 'z) zstd_ops \<Rightarrow> 'r reader \<Rightarrow> 'r \<Rightarrow> Compression \<Rightarrow> VersionUpgradePolicy
   \<Rightarrow> ('d, 'r BufReader, 'z, 'b) DynDecoder result option" where
  "dyn_new C B Z R r = dyn_with_buffer C B Z (buf_reader R) (buf_reader_new r)"

definition dyn_inferred_with_buffer ::
  "'d date_ops \<Rightarrow> 'b buf_ops \<Rightarrow> ('r, 'z) zstd_ops \<Rightarrow> 'r reader \<Rightarrow> ('r \<Rightarrow> 'r \<times> (io_error_kind + bytes)) \<Rightarrow> 'r
   \<Rightarrow> VersionUpgradePolicy \<Rightarrow> ('d, 'r, 'z, 'b) DynDecoder result option" where
  "dyn_inferred_with_buffer C B Z R fill_buf r policy =
     (case fill_buf r of
        (r, Inl _) \<Rightarrow> Some (Err (Io ''creating buffer to infer encoding''))
      | (r, Inr first_bytes) \<Rightarrow>
          if dbz_starts_with_prefix first_bytes then
            Some (and_then (dbz_with_upgrade_policy C B Z R r policy) (\<lambda>d. Ok (DynDecoder_LegacyDbz d)))
          else if dbn_starts_with_prefix first_bytes then
            map_option (\<lambda>res. and_then res (\<lambda>d. Ok (DynDecoder_Dbn d)))
              (decoder_with_upgrade_policy C B R r policy)
          else if zstd_starts_with_prefix first_bytes then dyn_zstd C B Z r policy
          else Some (Err (Decode ''unable to determine encoding'')))"

definition dyn_new_inferred ::
  "'d date_ops \<Rightarrow> 'b buf_ops \<Rightarrow> ('r BufReader, 'z) zstd_ops \<Rightarrow> 'r reader \<Rightarrow> 'r \<Rightarrow> VersionUpgradePolicy
   \<Rightarrow> ('d, 'r BufReader, 'z, 'b) DynDecoder result option" where
  "dyn_new_inferred C B Z R r =
     dyn_inferred_with_buffer C B Z (buf_reader R) (buf_reader_fill_buf R) (buf_reader_new r)"

fun dyn_metadata :: "('d, 'r, 'z, 'b) DynDecoder \<Rightarrow> 'd Metadata" where
  "dyn_metadata (DynDecoder_Dbn decoder) = dec_metadata decoder"
| "dyn_metadata (DynDecoder_ZstdDbn decoder) = dec_metadata decoder"
| "dyn_metadata (DynDecoder_LegacyDbz decoder) = dbz_metadata decoder"

text \<open>The decoder in its new state with a method's result.\<close>

definition dyn_return ::
  "('s \<Rightarrow> 'e) \<Rightarrow> ('s \<times> 'a result) result option \<Rightarrow> ('e \<times> 'a result) result option" where
  "dyn_return variant = map_option (\<lambda>res. and_then res (\<lambda>(d, found). Ok (variant d, found)))"

fun dyn_decode_record_ref ::
  "'d date_ops \<Rightarrow> 'b buf_ops \<Rightarrow> ('r, 'z) zstd_ops \<Rightarrow> 'r reader \<Rightarrow> ('d, 'r, 'z, 'b) DynDecoder
   \<Rightarrow> (('d, 'r, 'z, 'b) DynDecoder \<times> bytes option result) result option" where
  "dyn_decode_record_ref C B Z R (DynDecoder_Dbn decoder) =
     dyn_return DynDecoder_Dbn (decoder_decode_record_ref C B R decoder)"
| "dyn_decode_record_ref C B Z R (DynDecoder_ZstdDbn decoder) =
     dyn_return DynDecoder_ZstdDbn (decoder_decode_record_ref C B (zstd_reader Z) decoder)"
| "dyn_decode_record_ref C B Z R (DynDecoder_LegacyDbz decoder) =
     dyn_return DynDecoder_LegacyDbz (dbz_decode_record_ref C B Z decoder)"

fun dyn_decode_record ::
  "'t record_type \<Rightarrow> 'd date_ops \<Rightarrow> 'b buf_ops \<Rightarrow> ('r, 'z) zstd_ops \<Rightarrow> 'r reader \<Rightarrow> ('d, 'r, 'z, 'b) DynDecoder
   \<Rightarrow> (('d, 'r, 'z, 'b) DynDecoder \<times> 't option result) result option" where
  "dyn_decode_record T C B Z R (DynDecoder_Dbn decoder) =
     dyn_return DynDecoder_Dbn (decoder_decode_record T C B R decoder)"
| "dyn_decode_record T C B Z R (DynDecoder_ZstdDbn decoder) =
     dyn_return DynDecoder_ZstdDbn (decoder_decode_record T C B (zstd_reader Z) decoder)"
| "dyn_decode_record T C B Z R (DynDecoder_LegacyDbz decoder) =
     dyn_return DynDecoder_LegacyDbz (dbz_decode_record T C B Z decoder)"

fun dyn_last_record :: "'b buf_ops \<Rightarrow> ('d, 'r, 'z, 'b) DynDecoder \<Rightarrow> bytes option" where
  "dyn_last_record B (DynDecoder_Dbn decoder) = last_record B (rd_fsm (dec_decoder decoder))"
| "dyn_last_record B (DynDecoder_ZstdDbn decoder) = last_record B (rd_fsm (dec_decoder decoder))"
| "dyn_last_record B (DynDecoder_LegacyDbz decoder) = dbz_last_record B decoder"

section \<open>Buffered readers\<close>

text \<open>
  The interface of a buffered reader: filling the buffer shows the bytes that come next and
  consumes none of them, and the next read serves them.
\<close>

locale buffered_reader = byte_reader R pending
  for R :: "'r reader" and pending :: "'r \<Rightarrow> bytes" +
  fixes fill_buf :: "'r \<Rightarrow> 'r \<times> (io_error_kind + bytes)"
  assumes fill_buf_shows: "fill_buf r = (r', Inr bs) \<Longrightarrow> pending r' = pending r \<and> (\<exists>rest. pending r = bs @ rest)"
    and fill_buf_served: "fill_buf r = (r', Inr bs) \<Longrightarrow> bs \<noteq> [] \<Longrightarrow> \<exists>r''. read R n r' = (r'', Inr (take n bs))"

definition br_pending :: "('r \<Rightarrow> bytes) \<Rightarrow> 'r BufReader \<Rightarrow> bytes" where
  "br_pending pending s = br_buf s @ pending (br_inner s)"

lemma buf_reader_buffered:
  assumes "byte_reader R pending"
  shows "buffered_reader (buf_reader R) (br_pending pending) (buf_reader_fill_buf R)"
proof
  note readE = byte_reader.readE [OF assms]
  fix n and s :: "'a BufReader"
  show "\<exists>s' bs. read (buf_reader R) n s = (s', Inr bs) \<and> length bs \<le> n \<and>
      br_pending pending s = bs @ br_pending pending s' \<and> (bs = [] \<longrightarrow> n = 0 \<or> br_pending pending s = [])"
  proof (cases "br_buf s = []")
    case True
    let ?n = "if BUF_READER_CAPACITY \<le> n then n else BUF_READER_CAPACITY"
    obtain r' bs where "read R ?n (br_inner s) = (r', Inr bs)" "length bs \<le> ?n" "pending (br_inner s) = bs @ pending r'"
      "bs = [] \<longrightarrow> ?n \<noteq> 0 \<longrightarrow> pending (br_inner s) = []"
      using readE [of ?n "br_inner s"] by metis
    then show ?thesis
      using True by (auto simp: buf_reader_def buf_reader_read_def buf_reader_fill_buf_def br_pending_def BUF_READER_CAPACITY_def split: if_splits)
  next
    case False
    then show ?thesis
      by (auto simp: buf_reader_def buf_reader_read_def buf_reader_fill_buf_def br_pending_def)
  qed
next
  fix s s' :: "'a BufReader" and bs
  assume fill: "buf_reader_fill_buf R s = (s', Inr bs)"
  obtain r' bs' where "read R BUF_READER_CAPACITY (br_inner s) = (r', Inr bs')" "pending (br_inner s) = bs' @ pending r'"
    using byte_reader.readE [OF assms, of BUF_READER_CAPACITY "br_inner s"] by metis
  then show "br_pending pending s' = br_pending pending s \<and> (\<exists>rest. br_pending pending s = bs @ rest)"
    using fill by (auto simp: buf_reader_fill_buf_def br_pending_def split: if_splits)
  fix n
  assume "bs \<noteq> []"
  then have "br_buf s' = bs" using fill by (auto simp: buf_reader_fill_buf_def split: if_splits prod.splits sum.splits)
  then show "\<exists>s''. read (buf_reader R) n s' = (s'', Inr (take n bs))"
    using \<open>bs \<noteq> []\<close> by (simp add: buf_reader_def buf_reader_read_def buf_reader_fill_buf_def)
qed

interpretation buffered_piece: buffered_reader "buf_reader piece_reader" "br_pending snd" "buf_reader_fill_buf piece_reader"
  by (rule buf_reader_buffered) (rule piece.byte_reader_axioms)

section \<open>The formats are told apart\<close>

text \<open>The three prefixes exclude each other, and the bytes after a long enough prefix do not matter.\<close>

lemma dbn_prefix_magic:
  assumes "dbn_starts_with_prefix bs"
  shows "\<not> zstd_skippable_magic (fst (get_u32 bs))" and "fst (get_u32 bs) \<noteq> ZSTD_MAGIC_NUMBER"
proof -
  obtain b rest where bs: "bs = as_bytes ''DBN'' @ b # rest"
    using assms by (metis dbn_starts_with_prefix_def append_take_drop_id Cons_nth_drop_Suc)
  let ?n = "0x4E4244 + 0x1000000 * unat b"
  have "le_dec (take 4 bs) = ?n" by (simp add: bs as_bytes_def)
  moreover have "?n < 2 ^ 32" using unat_less [of b] by simp
  ultimately have "unat (fst (get_u32 bs)) = ?n" by (simp only: get_u32_def fst_conv unat_of_nat) simp
  moreover have "unat b \<le> 0x17 \<or> 0x18 \<le> unat b" "unat b \<le> 0xFC \<or> 0xFD \<le> unat b" by linarith+
  ultimately have "unat (fst (get_u32 bs)) < 0x184D2A50 \<or> 0x184D2A60 \<le> unat (fst (get_u32 bs))"
    "unat (fst (get_u32 bs)) \<noteq> 0xFD2FB528"
    by linarith+
  then show "\<not> zstd_skippable_magic (fst (get_u32 bs))" "fst (get_u32 bs) \<noteq> ZSTD_MAGIC_NUMBER"
    by (auto simp: zstd_skippable_magic_def ZSTD_MAGIC_NUMBER_def word_le_nat_alt word_less_nat_alt)
qed

lemma prefixes_exclusive:
  "dbn_starts_with_prefix bs \<Longrightarrow> \<not> dbz_starts_with_prefix bs"
  "dbn_starts_with_prefix bs \<Longrightarrow> \<not> zstd_starts_with_prefix bs"
  "dbz_starts_with_prefix bs \<Longrightarrow> \<not> zstd_starts_with_prefix bs"
  using dbn_prefix_magic [of bs]
  by (auto simp: dbz_starts_with_prefix_def zstd_starts_with_prefix_def zstd_skippable_magic_def ZSTD_MAGIC_NUMBER_def)

lemma prefixes_append:
  assumes "12 \<le> length bs"
  shows "dbn_starts_with_prefix (bs @ rest) = dbn_starts_with_prefix bs"
    and "dbz_starts_with_prefix (bs @ rest) = dbz_starts_with_prefix bs"
    and "zstd_starts_with_prefix (bs @ rest) = zstd_starts_with_prefix bs"
  using assms
  by (simp_all add: dbn_starts_with_prefix_def dbz_starts_with_prefix_def zstd_starts_with_prefix_def get_u32_def nth_append)

lemma dbz_frame_prefix: "dbz_frame C unzip m frame \<Longrightarrow> dbz_starts_with_prefix (frame @ rest)"
  by (auto simp: dbz_frame_def dbz_starts_with_prefix_def dbz_fixed_bytes_def as_bytes_def nth_append)

section \<open>Reading any of the formats\<close>

text \<open>
  \<open>stream_of C unzip policy m m' ws bs\<close>: the bytes \<open>bs\<close> are a stream with metadata \<open>m\<close> and the
  records \<open>ws\<close>, as DBN, as compressed DBN or as a DBZ file; \<open>m'\<close> gives the version the records
  have. DBZ files hold records of DBN version 1.
\<close>

inductive stream_of ::
  "'d date_ops \<Rightarrow> (bytes \<Rightarrow> bytes option) \<Rightarrow> VersionUpgradePolicy \<Rightarrow> 'd Metadata \<Rightarrow> 'd Metadata \<Rightarrow> bytes list \<Rightarrow> bytes \<Rightarrow> bool"
  for C unzip policy where
  Plain: "streamable C policy m \<Longrightarrow> stream_of C unzip policy m m ws (metadata_bytes C m @ concat ws)"
| Compressed: "\<lbrakk>streamable C policy m; zstd_starts_with_prefix cs; unzip cs = Some (metadata_bytes C m @ concat ws)\<rbrakk>
    \<Longrightarrow> stream_of C unzip policy m m ws cs"
| Legacy: "\<lbrakk>dbz_frame C unzip m frame; unzip cs = Some (concat ws)\<rbrakk>
    \<Longrightarrow> stream_of C unzip policy m (m\<lparr>md_version := 1\<rparr>) ws (frame @ cs)"

inductive_cases stream_ofE: "stream_of C unzip policy m m' ws bs"

text \<open>\<open>returns_as T policy m w x\<close>: the record \<open>w\<close> is returned as \<open>x\<close> of type \<open>T\<close>.\<close>

definition returns_as :: "'t record_type \<Rightarrow> VersionUpgradePolicy \<Rightarrow> 'd Metadata \<Rightarrow> bytes \<Rightarrow> 't \<Rightarrow> bool" where
  "returns_as T policy m w x \<longleftrightarrow> (\<exists>v. upgrades policy m w v \<and> whole_record v \<and> rr_try_get T v = Ok x)"

text \<open>A record decoder with the bytes \<open>bs\<close> ahead, buffered or not, and one about to return \<open>xs\<close>.\<close>

definition rd_holds ::
  "'b buf_ops \<Rightarrow> ('r \<Rightarrow> bytes) \<Rightarrow> VersionUpgradePolicy \<Rightarrow> 'd Metadata \<Rightarrow> bytes \<Rightarrow> ('r, 'b) RecordDecoder \<Rightarrow> bool" where
  "rd_holds B pending policy m bs d \<longleftrightarrow> dec_inv B d \<and> dec_abs B pending d = after_metadata policy m bs"

definition rd_yields ::
  "'t record_type \<Rightarrow> 'b buf_ops \<Rightarrow> ('r \<Rightarrow> bytes) \<Rightarrow> VersionUpgradePolicy \<Rightarrow> 'd Metadata \<Rightarrow> ('r, 'b) RecordDecoder
   \<Rightarrow> 't list \<Rightarrow> bool" where
  "rd_yields T B pending policy m d xs \<longleftrightarrow>
     (\<exists>ws. rd_holds B pending policy m (concat ws) d \<and> list_all2 (returns_as T policy m) ws xs)"

lemma decode_records_steps:
  assumes "\<And>s. P s [] \<Longrightarrow> \<exists>s'. decode_record s = Some (Ok (s', Ok None))"
    and "\<And>s x xs. P s (x # xs) \<Longrightarrow> \<exists>s'. decode_record s = Some (Ok (s', Ok (Some x))) \<and> P s' xs"
    and "P s xs"
  shows "decode_records decode_record s res = Some (Ok (res @ xs))"
  using assms(3)
proof (induction xs arbitrary: s res)
  case Nil
  then obtain s' where "decode_record s = Some (Ok (s', Ok None))" using assms(1) by blast
  then show ?case by (subst decode_records.simps) simp
next
  case (Cons x xs)
  then obtain s' where "decode_record s = Some (Ok (s', Ok (Some x)))" "P s' xs" using assms(2) by blast
  then show ?case using Cons.IH [of s' "res @ [x]"] by (subst decode_records.simps) simp
qed

context sync_reading
begin

lemma record_decode_yields:
  assumes "dbn_record T"
  shows "rd_yields T B pending policy m d [] \<Longrightarrow> \<exists>d'. record_decode T C B R d = Some (Ok (d', Ok None))"
    and "rd_yields T B pending policy m d (x # xs) \<Longrightarrow>
      \<exists>d'. record_decode T C B R d = Some (Ok (d', Ok (Some x))) \<and> rd_yields T B pending policy m d' xs"
proof -
  assume "rd_yields T B pending policy m d []"
  then have "dec_inv B d" "dec_abs B pending d = after_metadata policy m []" by (simp_all add: rd_yields_def rd_holds_def)
  from decode_ref_end [OF this] obtain d' where "decode_ref C B R d = Some (Ok (d', Ok None))" by metis
  then show "\<exists>d'. record_decode T C B R d = Some (Ok (d', Ok None))" by (simp add: record_decode_def)
next
  assume "rd_yields T B pending policy m d (x # xs)"
  then obtain w ws v where d: "dec_inv B d" "dec_abs B pending d = after_metadata policy m (w @ concat ws)"
    "upgrades policy m w v" "whole_record v" "rr_try_get T v = Ok x" "list_all2 (returns_as T policy m) ws xs"
    by (auto simp: rd_yields_def rd_holds_def returns_as_def list_all2_Cons2)
  obtain d' ref where d': "decode_ref C B R d = Some (Ok (d', Ok (Some ref)))" "dec_inv B d'"
    "dec_abs B pending d' = after_metadata policy m (concat ws)" "rr_as_ref ref = v"
    using decode_ref_upgrades [OF d(1-3)] by metis
  moreover have "rr_try_get T ref = Ok x" using try_get_ref [OF assms d'(4) d(4)] d(5) by simp
  ultimately show "\<exists>d'. record_decode T C B R d = Some (Ok (d', Ok (Some x))) \<and> rd_yields T B pending policy m d' xs"
    using d(6) by (auto simp: record_decode_def rd_yields_def rd_holds_def)
qed

end

lemma dbz_decode_record_eq:
  "dbz_decode_record T C B Z d =
     (case record_decode T C B (zstd_reader Z) (dbz_decoder d) of
        None \<Rightarrow> None
      | Some res \<Rightarrow> Some (and_then res (\<lambda>(rd, found). Ok (d\<lparr>dbz_decoder := rd\<rparr>, found))))"
proof (cases "decode_ref C B (zstd_reader Z) (dbz_decoder d)")
  case (Some res)
  then show ?thesis by (cases res) (auto simp: dbz_decode_record_def dbz_decode_record_ref_def record_decode_def)
qed (simp add: dbz_decode_record_def dbz_decode_record_ref_def record_decode_def)

text \<open>The decoder of a DBZ file, once the metadata is read.\<close>

context oval_buffer
begin

lemma dbz_fsm:
  obtains f where "and_then (unwrap (builder_input_dbn_version (Some 1) fsm_builder)) (\<lambda>b.
      fsm_build B (builder_skip_metadata True (builder_upgrade_policy policy (builder_ts_out t b)))) = Ok f"
    and "fsm_inv B f" and "roomy B f" and "has_decoded_metadata f"
    and "fsm_abs B f = \<lparr>d_version = Some 1, d_policy = policy, d_ts_out = t, d_phase = Ph_Record, d_bytes = []\<rparr>"
  by (rule that [of "\<lparr>input_dbn_version = Some 1, upgrade_policy = policy, fsm_ts_out = t, state = State_Record,
      buffer = with_capacity B DEFAULT_BUF_SIZE, compat_buffer = with_capacity B
        (if is_upgrade_situation policy 1 then DEFAULT_BUF_SIZE else 0)\<rparr>"])
    (simp_all add: builder_input_dbn_version_def dbn_version_try_from_def DBN_VERSION_def unwrap_def fsm_builder_def
      builder_skip_metadata_def builder_upgrade_policy_def builder_ts_out_def fsm_build_def validate_compatibility_def
      fsm_inv_def roomy_def has_decoded_metadata_def fsm_abs_def DEFAULT_BUF_SIZE_def)

end

text \<open>The same of a dynamic decoder.\<close>

fun dyn_holds ::
  "'b buf_ops \<Rightarrow> ('r \<Rightarrow> bytes) \<Rightarrow> ('z \<Rightarrow> bytes) \<Rightarrow> VersionUpgradePolicy \<Rightarrow> 'd Metadata \<Rightarrow> bytes
   \<Rightarrow> ('d, 'r, 'z, 'b) DynDecoder \<Rightarrow> bool" where
  "dyn_holds B pending zpending policy m bs (DynDecoder_Dbn d) \<longleftrightarrow> rd_holds B pending policy m bs (dec_decoder d)"
| "dyn_holds B pending zpending policy m bs (DynDecoder_ZstdDbn d) \<longleftrightarrow> rd_holds B zpending policy m bs (dec_decoder d)"
| "dyn_holds B pending zpending policy m bs (DynDecoder_LegacyDbz d) \<longleftrightarrow> rd_holds B zpending policy m bs (dbz_decoder d)"

fun dyn_yields ::
  "'t record_type \<Rightarrow> 'b buf_ops \<Rightarrow> ('r \<Rightarrow> bytes) \<Rightarrow> ('z \<Rightarrow> bytes) \<Rightarrow> VersionUpgradePolicy \<Rightarrow> 'd Metadata
   \<Rightarrow> ('d, 'r, 'z, 'b) DynDecoder \<Rightarrow> 't list \<Rightarrow> bool" where
  "dyn_yields T B pending zpending policy m (DynDecoder_Dbn d) xs \<longleftrightarrow> rd_yields T B pending policy m (dec_decoder d) xs"
| "dyn_yields T B pending zpending policy m (DynDecoder_ZstdDbn d) xs \<longleftrightarrow> rd_yields T B zpending policy m (dec_decoder d) xs"
| "dyn_yields T B pending zpending policy m (DynDecoder_LegacyDbz d) xs \<longleftrightarrow> rd_yields T B zpending policy m (dbz_decoder d) xs"

lemma dyn_holds_yields:
  "\<lbrakk>dyn_holds B pending zpending policy m (concat ws) d; list_all2 (returns_as T policy m) ws xs\<rbrakk>
   \<Longrightarrow> dyn_yields T B pending zpending policy m d xs"
  by (cases d) (auto simp: rd_yields_def)

text \<open>The first read from the decompressor returns at least the prelude of a stream, if there is one.\<close>

definition first_read_ok :: "('r, 'z) zstd_ops \<Rightarrow> ('z \<Rightarrow> bytes) \<Rightarrow> 'r \<Rightarrow> bool" where
  "first_read_ok Z zpending r \<longleftrightarrow>
     (\<forall>z. zstd_with_buffer Z r = Some z \<longrightarrow> 8 \<le> length (zpending z) \<longrightarrow>
        (\<exists>z' piece. read (zstd_reader Z) DEFAULT_BUF_SIZE z = (z', Inr piece) \<and> 8 \<le> length piece))"

locale dyn_reading = oval_buffer B + buffered_reader R pending fill_buf + zstd_codec R pending Z zpending unzip + calendar C
  for B :: "'b buf_ops" and R :: "'r reader" and pending :: "'r \<Rightarrow> bytes" and fill_buf
    and Z :: "('r, 'z) zstd_ops" and zpending :: "'z \<Rightarrow> bytes" and unzip and C :: "'d::linorder date_ops"

sublocale dyn_reading \<subseteq> plain: stream_reading B R pending C
  by unfold_locales

sublocale dyn_reading \<subseteq> unzipped: stream_reading B "zstd_reader Z" zpending C
  by unfold_locales

context dyn_reading
begin

lemma dyn_decode_record_yields:
  assumes "dbn_record T"
  shows "dyn_yields T B pending zpending policy m d [] \<Longrightarrow> \<exists>d'. dyn_decode_record T C B Z R d = Some (Ok (d', Ok None))"
    and "dyn_yields T B pending zpending policy m d (x # xs) \<Longrightarrow>
      \<exists>d'. dyn_decode_record T C B Z R d = Some (Ok (d', Ok (Some x))) \<and> dyn_yields T B pending zpending policy m d' xs"
proof -
  note step = dyn_return_def decoder_decode_record_def dbz_decode_record_eq
  assume "dyn_yields T B pending zpending policy m d []"
  then show "\<exists>d'. dyn_decode_record T C B Z R d = Some (Ok (d', Ok None))"
    using plain.record_decode_yields(1) [OF assms, of policy m _ C] unzipped.record_decode_yields(1) [OF assms, of policy m _ C]
    by (cases d) (force simp: step)+
next
  note step = dyn_return_def decoder_decode_record_def dbz_decode_record_eq
  assume y: "dyn_yields T B pending zpending policy m d (x # xs)"
  show "\<exists>d'. dyn_decode_record T C B Z R d = Some (Ok (d', Ok (Some x))) \<and> dyn_yields T B pending zpending policy m d' xs"
  proof (cases d)
    case (DynDecoder_Dbn e)
    then obtain rd where "record_decode T C B R (dec_decoder e) = Some (Ok (rd, Ok (Some x)))" "rd_yields T B pending policy m rd xs"
      using plain.record_decode_yields(2) [OF assms, of policy m "dec_decoder e" x xs C] y by auto
    then show ?thesis using DynDecoder_Dbn by (simp add: step)
  next
    case (DynDecoder_ZstdDbn e)
    then obtain rd where "record_decode T C B (zstd_reader Z) (dec_decoder e) = Some (Ok (rd, Ok (Some x)))" "rd_yields T B zpending policy m rd xs"
      using unzipped.record_decode_yields(2) [OF assms, of policy m "dec_decoder e" x xs C] y by auto
    then show ?thesis using DynDecoder_ZstdDbn by (simp add: step)
  next
    case (DynDecoder_LegacyDbz e)
    then obtain rd where "record_decode T C B (zstd_reader Z) (dbz_decoder e) = Some (Ok (rd, Ok (Some x)))" "rd_yields T B zpending policy m rd xs"
      using unzipped.record_decode_yields(2) [OF assms, of policy m "dbz_decoder e" x xs C] y by auto
    then show ?thesis using DynDecoder_LegacyDbz by (simp add: step)
  qed
qed

lemma dyn_records:
  assumes "dbn_record T" and "dyn_yields T B pending zpending policy m d xs"
  shows "decode_records (dyn_decode_record T C B Z R) d [] = Some (Ok xs)"
  using decode_records_steps [where P = "dyn_yields T B pending zpending policy m" and res = "[]",
      OF dyn_decode_record_yields [OF assms(1)] assms(2)] by simp

lemma dbz_opens:
  assumes "dbz_frame C unzip m frame" and "unzip cs = Some bs" and "pending r = frame @ cs"
  obtains d where "dbz_with_upgrade_policy C B Z R r policy =
      Ok \<lparr>dbz_decoder = d, dbz_metadata = metadata_upgrade policy m\<rparr>"
    and "dec_inv B d" and "dec_abs B zpending d = after_metadata policy (m\<lparr>md_version := 1\<rparr>) bs"
proof -
  obtain r' where r': "dbz_metadata_read C Z R r = (r', Ok m)" "pending r' = cs"
    using dbz_frame_reads(1) [OF calendar_axioms assms(1,3)] by blast
  obtain z where z: "zstd_with_buffer Z r' = Some z" "zpending z = bs"
    using open_stream [of r' bs] assms(2) r'(2) by blast
  obtain f where f: "and_then (unwrap (builder_input_dbn_version (Some 1) fsm_builder)) (\<lambda>b.
      fsm_build B (builder_skip_metadata True (builder_upgrade_policy policy (builder_ts_out (md_ts_out m) b)))) = Ok f"
    "fsm_inv B f" "roomy B f" "has_decoded_metadata f"
    "fsm_abs B f = \<lparr>d_version = Some 1, d_policy = policy, d_ts_out = md_ts_out m, d_phase = Ph_Record, d_bytes = []\<rparr>"
    by (rule dbz_fsm)
  from f(1) have "dbz_with_upgrade_policy C B Z R r policy =
      Ok \<lparr>dbz_decoder = \<lparr>rd_reader = z, rd_fsm = f\<rparr>, dbz_metadata = metadata_upgrade policy m\<rparr>"
    using r' z by (auto simp: dbz_with_upgrade_policy_def and_then_eq_Ok)
  then show thesis
    using f z by (intro that [of "\<lparr>rd_reader = z, rd_fsm = f\<rparr>"])
      (simp_all add: dec_inv_def dec_abs_def after_metadata_def feed_def)
qed

lemma dyn_opens:
  assumes "fill_buf r = (r', Inr first_bytes)" and "12 \<le> length first_bytes"
    and "stream_of C unzip policy m m' ws (pending r)"
    and "zstd_starts_with_prefix first_bytes \<longrightarrow> first_read_ok Z zpending r'"
  shows "\<exists>d. dyn_inferred_with_buffer C B Z R fill_buf r policy = Some (Ok d) \<and>
    dyn_metadata d = metadata_upgrade policy m \<and> dyn_holds B pending zpending policy m' (concat ws) d"
proof -
  obtain rest where r': "pending r' = pending r" "pending r = first_bytes @ rest"
    using fill_buf_shows [OF assms(1)] by blast
  note prefix = prefixes_append [OF assms(2), of rest, folded r'(2)]
  consider (Plain) "m' = m" "pending r = metadata_bytes C m @ concat ws" "streamable C policy m"
    | (Compressed) "m' = m" "streamable C policy m" "zstd_starts_with_prefix (pending r)"
        "unzip (pending r) = Some (metadata_bytes C m @ concat ws)"
    | (Legacy) frame cs where "m' = m\<lparr>md_version := 1\<rparr>" "pending r = frame @ cs" "dbz_frame C unzip m frame"
        "unzip cs = Some (concat ws)"
    using assms(3) by (auto elim: stream_ofE)
  then show ?thesis
  proof cases
    case Plain
    obtain r1 where r1: "read R DEFAULT_BUF_SIZE r' = (r1, Inr (take DEFAULT_BUF_SIZE first_bytes))"
      using fill_buf_served [OF assms(1), of DEFAULT_BUF_SIZE] assms(2) by force
    have "8 \<le> length (take DEFAULT_BUF_SIZE first_bytes)" using assms(2) by (simp add: DEFAULT_BUF_SIZE_def)
    then obtain d where d: "decoder_with_upgrade_policy C B R r' policy =
        Some (Ok \<lparr>dec_metadata = metadata_upgrade policy m, dec_decoder = d\<rparr>)"
      "dec_inv B d" "dec_abs B pending d = after_metadata policy m (concat ws)"
      using plain.decoder_decodes_metadata [OF Plain(3) _ r1] r'(1) Plain(2) by metis
    have "dbn_starts_with_prefix (pending r)"
      unfolding Plain(2) by (simp add: dbn_starts_with_prefix_def metadata_bytes_def as_bytes_def)
    then show ?thesis
      using assms(1) d prefix prefixes_exclusive [of first_bytes] Plain
      by (auto simp: dyn_inferred_with_buffer_def rd_holds_def)
  next
    case Compressed
    obtain z where z: "zstd_with_buffer Z r' = Some z" "zpending z = metadata_bytes C m @ concat ws"
      using open_stream [of r'] Compressed r'(1) by auto
    have "8 \<le> length (zpending z)" using streamable_length [OF Compressed(2)] z(2) by simp
    then obtain z' piece where "read (zstd_reader Z) DEFAULT_BUF_SIZE z = (z', Inr piece)" "8 \<le> length piece"
      using assms(4) prefix Compressed(3) z(1) by (auto simp: first_read_ok_def)
    then obtain d where d: "decoder_with_upgrade_policy C B (zstd_reader Z) z policy =
        Some (Ok \<lparr>dec_metadata = metadata_upgrade policy m, dec_decoder = d\<rparr>)"
      "dec_inv B d" "dec_abs B zpending d = after_metadata policy m (concat ws)"
      using unzipped.decoder_decodes_metadata [OF Compressed(2) z(2)] by metis
    then show ?thesis
      using assms(1) z(1) prefix prefixes_exclusive [of first_bytes] Compressed
      by (auto simp: dyn_inferred_with_buffer_def dyn_zstd_def rd_holds_def)
  next
    case Legacy
    obtain d where "dbz_with_upgrade_policy C B Z R r' policy =
        Ok \<lparr>dbz_decoder = d, dbz_metadata = metadata_upgrade policy m\<rparr>"
      "dec_inv B d" "dec_abs B zpending d = after_metadata policy (m\<lparr>md_version := 1\<rparr>) (concat ws)"
      using dbz_opens [OF Legacy(3,4)] r'(1) Legacy(2) by metis
    moreover have "dbz_starts_with_prefix (pending r)" unfolding Legacy(2) by (rule dbz_frame_prefix) (rule Legacy(3))
    ultimately show ?thesis
      using assms(1) prefix Legacy(1) by (auto simp: dyn_inferred_with_buffer_def rd_holds_def)
  qed
qed

end

lemma stored_dyn_reading:
  assumes "byte_reader R pending"
  shows "dyn_reading list_buffer (buf_reader R) (br_pending pending) (buf_reader_fill_buf R)
    (stored_zstd (br_pending pending)) snd unstore gregorian"
  using buf_reader_buffered [OF assms] stored_zstd_codec [of "buf_reader R" "br_pending pending"]
    list_buffer.oval_buffer_axioms gregorian.calendar_axioms
  by (simp add: dyn_reading_def buffered_reader_def)

interpretation dyn_piece: dyn_reading list_buffer "buf_reader piece_reader" "br_pending snd" "buf_reader_fill_buf piece_reader"
    "stored_zstd (br_pending snd)" snd unstore gregorian
  by (rule stored_dyn_reading) (rule piece.byte_reader_axioms)

lemma short_fill_unknown:
  assumes "buffered_reader R pending fill_buf" and "fill_buf r = (r', Inr first_bytes)"
    and "length first_bytes < 4 \<or> length first_bytes < 12 \<and> (\<exists>frame rest. dbz_frame C' unzip m frame \<and> pending r = frame @ rest)"
  shows "dyn_inferred_with_buffer C B Z R fill_buf r policy = Some (Err (Decode ''unable to determine encoding''))"
proof -
  have "\<not> dbn_starts_with_prefix first_bytes \<and> \<not> zstd_starts_with_prefix first_bytes"
  proof (cases "length first_bytes < 4")
    case False
    then obtain frame rest where frame: "dbz_frame C' unzip m frame" "pending r = frame @ rest" using assms(3) by blast
    obtain rest' where "pending r = first_bytes @ rest'"
      using buffered_reader.fill_buf_shows [OF assms(1,2)] by blast
    then have "fst (get_u32 first_bytes) = fst (get_u32 (frame @ rest))"
      using frame(2) False by (simp add: get_u32_def)
    then have "zstd_skippable_magic (fst (get_u32 first_bytes))"
      using dbz_frame_prefix [OF frame(1)] by (simp add: dbz_starts_with_prefix_def)
    then show ?thesis
      using dbn_prefix_magic(1) by (auto simp: zstd_starts_with_prefix_def zstd_skippable_magic_def ZSTD_MAGIC_NUMBER_def)
  qed (auto simp: dbn_starts_with_prefix_def zstd_starts_with_prefix_def)
  then show ?thesis
    using assms(2,3) by (auto simp: dyn_inferred_with_buffer_def dbz_starts_with_prefix_def)
qed

section \<open>Properties\<close>

text \<open>
  C13. The dynamic decoder reads every format alike: given a stream of DBN, of compressed DBN or of
  legacy DBZ, it finds out the format, has the
  stream's metadata, upgraded by the policy, and returns all records, upgraded by the policy, the
  records of a DBZ file as those of DBN version 1. Two conditions are not promises of the readers: the
  first buffer shows at least 12 bytes, without which no encoding is found, and for compressed DBN the
  decompressor's first read returns at least 8 bytes, without which the metadata decoder panics.
\<close>

theorem dyn_infers_encoding:
  assumes "dyn_reading B R pending fill_buf Z zpending unzip C" and "dbn_record T"
    and "fill_buf r = (r', Inr first_bytes)" and "12 \<le> length first_bytes"
    and "stream_of C unzip policy m m' ws (pending r)" and "list_all2 (returns_as T policy m') ws xs"
    and "zstd_starts_with_prefix first_bytes \<longrightarrow> first_read_ok Z zpending r'"
  shows "\<exists>d. dyn_inferred_with_buffer C B Z R fill_buf r policy = Some (Ok d) \<and>
    dyn_metadata d = metadata_upgrade policy m \<and>
    decode_records (dyn_decode_record T C B Z R) d [] = Some (Ok xs)"
  using dyn_reading.dyn_opens [OF assms(1,3-5)] assms(7) dyn_holds_yields [OF _ assms(6)]
    dyn_reading.dyn_records [OF assms(1,2)] by blast

lemma stored_first_read: "first_read_ok (stored_zstd pending) snd r"
  by (auto simp: first_read_ok_def stored_zstd_def piece_reader_def DEFAULT_BUF_SIZE_def)

theorem dyn_infers_encoding_witness:
  "\<exists>d. dyn_new_inferred gregorian list_buffer (stored_zstd (br_pending snd)) piece_reader
      ([50, 3], dbz_sample_frame @ put_u32 ZSTD_MAGIC_NUMBER @ as_ref MboMsg_type MboMsg_default)
      VersionUpgradePolicy_UpgradeToV3 = Some (Ok d) \<and>
    dyn_metadata d = metadata_upgrade VersionUpgradePolicy_UpgradeToV3 dbz_sample \<and>
    decode_records (dyn_decode_record MboMsg_type gregorian list_buffer (stored_zstd (br_pending snd)) (buf_reader piece_reader))
      d [] = Some (Ok [MboMsg_default])"
proof -
  let ?w = "as_ref MboMsg_type MboMsg_default" and ?policy = VersionUpgradePolicy_UpgradeToV3
  let ?bs = "dbz_sample_frame @ put_u32 ZSTD_MAGIC_NUMBER @ ?w"
  let ?r = "buf_reader_new ([50, 3], ?bs)"
  have "96 \<le> length dbz_sample_frame"
    using dbz_sample_framed dbz_fixed_decodes(2) [of gregorian dbz_sample "replicate 39 0" 2 Compression_Zstd]
    by (simp add: dbz_frame_def dbz_sample_frame_def Let_def)
  then have fill: "buf_reader_fill_buf piece_reader ?r = (\<lparr>br_buf = take 50 ?bs, br_inner = ([3], drop 50 ?bs)\<rparr>, Inr (take 50 ?bs))"
    "12 \<le> length (take 50 ?bs)"
    by (simp_all add: buf_reader_fill_buf_def buf_reader_new_def piece_reader_def BUF_READER_CAPACITY_def)
  have stream: "stream_of gregorian unstore ?policy dbz_sample (dbz_sample\<lparr>md_version := 1\<rparr>) [?w] (br_pending snd ?r)"
    using stream_of.Legacy [OF dbz_sample_framed, of "put_u32 ZSTD_MAGIC_NUMBER @ ?w" "[?w]"]
    by (simp add: br_pending_def buf_reader_new_def)
  have "rh_rtype (header MboMsg_type MboMsg_default) = rtype_as_u8 RType_Mbo"
    using MboMsg_default_ok by (simp add: well_formed_def MboMsg_type_def)
  then have "upgrade_for 1 ?policy (rh_rtype (header MboMsg_type MboMsg_default)) = None"
    by (simp add: upgrade_for_def)
  then have "returns_as MboMsg_type ?policy (dbz_sample\<lparr>md_version := 1\<rparr>) ?w MboMsg_default"
    unfolding returns_as_def
    using upgrades_same [OF mbo_record.dbn_record_axioms, of MboMsg_default "dbz_sample\<lparr>md_version := 1\<rparr>" ?policy] MboMsg_default_ok
    by (auto simp: DBN_VERSION_def)
  then have "list_all2 (returns_as MboMsg_type ?policy (dbz_sample\<lparr>md_version := 1\<rparr>)) [?w] [MboMsg_default]" by simp
  moreover have first: "b \<longrightarrow> first_read_ok (stored_zstd (br_pending snd)) snd x" for b x
    by (intro impI stored_first_read)
  ultimately have returned: "list_all2 (returns_as MboMsg_type ?policy (dbz_sample\<lparr>md_version := 1\<rparr>)) [?w] [MboMsg_default]" by blast
  from dyn_infers_encoding [OF dyn_piece.dyn_reading_axioms mbo_record.dbn_record_axioms fill stream returned first]
  show ?thesis unfolding dyn_new_inferred_def by blast
qed

end
