(* ===== verification/Cli_Filter.thy ===== *)
theory Cli_Filter
  imports Json_Encode Dyn_Decoder
begin

text \<open>
  The decoder side of the command line tool: the filters of rust/dbn-cli/src/filter.rs, how
  rust/dbn-cli/src/main.rs puts them around a decoder, and the arguments that choose them and the
  output (rust/dbn-cli/src/lib.rs).

  A filter is a decoder over another decoder, so its operations are a dictionary over the inner
  one's; the setter of the inner decoder's metadata is an argument where the code uses
  \<^verbatim>\<open>metadata_mut\<close>.
\<close>

section \<open>Definitions\<close>

subsection \<open>Filters\<close>

record 's SchemaFilter =
  sf_decoder :: 's
  sf_rtype :: "RType option"

definition schema_filter_new_no_metadata :: "'s \<Rightarrow> Schema option \<Rightarrow> 's SchemaFilter" where
  "schema_filter_new_no_metadata decoder schema =
     \<lparr>sf_decoder = decoder, sf_rtype = map_option rtype_from_schema schema\<rparr>"

definition schema_filter_new ::
  "(('d Metadata \<Rightarrow> 'd Metadata) \<Rightarrow> 's \<Rightarrow> 's) \<Rightarrow> 's \<Rightarrow> Schema option \<Rightarrow> 's SchemaFilter" where
  "schema_filter_new metadata_mut decoder schema =
     schema_filter_new_no_metadata
       (case schema of
          Some s \<Rightarrow> metadata_mut (\<lambda>m. m\<lparr>md_schema := Some s\<rparr>) decoder
        | None \<Rightarrow> decoder) schema"

definition schema_filter_keeps :: "RType option \<Rightarrow> bytes \<Rightarrow> bool" where
  "schema_filter_keeps rtype record =
     (case map_option (\<lambda>rtype. rtype_as_u8 rtype = rh_rtype (rr_header record)) rtype of
        Some b \<Rightarrow> b | None \<Rightarrow> True)"

partial_function (option) schema_filter_decode_record_ref ::
  "('d, 's) decoder_ops \<Rightarrow> 's SchemaFilter \<Rightarrow> ('s SchemaFilter \<times> bytes option result) result option" where
  "schema_filter_decode_record_ref D f =
     (case decode_record_ref D (sf_decoder f) of
        None \<Rightarrow> None
      | Some (Panic p) \<Rightarrow> Some (Panic p)
      | Some (Err e) \<Rightarrow> Some (Err e)
      | Some (Ok (s, Ok (Some record))) \<Rightarrow>
          if schema_filter_keeps (sf_rtype f) record
          then Some (Ok (f\<lparr>sf_decoder := s\<rparr>, Ok (Some record)))
          else schema_filter_decode_record_ref D (f\<lparr>sf_decoder := s\<rparr>)
      | Some (Ok (s, Ok None)) \<Rightarrow> Some (Ok (f\<lparr>sf_decoder := s\<rparr>, Ok None))
      | Some (Ok (s, Err e)) \<Rightarrow> Some (Ok (f\<lparr>sf_decoder := s\<rparr>, Err e))
      | Some (Ok (s, Panic p)) \<Rightarrow> Some (Ok (f\<lparr>sf_decoder := s\<rparr>, Panic p)))"

definition schema_filter_metadata_mut ::
  "(('d Metadata \<Rightarrow> 'd Metadata) \<Rightarrow> 's \<Rightarrow> 's) \<Rightarrow> ('d Metadata \<Rightarrow> 'd Metadata) \<Rightarrow> 's SchemaFilter \<Rightarrow> 's SchemaFilter" where
  "schema_filter_metadata_mut metadata_mut g f = f\<lparr>sf_decoder := metadata_mut g (sf_decoder f)\<rparr>"

text \<open>The filter as a decoder; its last record is the inner decoder's.\<close>

definition schema_filter_ops :: "('d, 's) decoder_ops \<Rightarrow> ('d, 's SchemaFilter) decoder_ops" where
  "schema_filter_ops D =
     \<lparr>decode_record_ref = schema_filter_decode_record_ref D, last_rec = (\<lambda>f. last_rec D (sf_decoder f)),
      dec_md = (\<lambda>f. dec_md D (sf_decoder f))\<rparr>"

record 's LimitFilter =
  lf_decoder :: 's
  lf_limit :: "u64 option"
  lf_record_count :: u64

definition limit_filter_new_no_metadata :: "'s \<Rightarrow> u64 option \<Rightarrow> 's LimitFilter" where
  "limit_filter_new_no_metadata decoder limit =
     \<lparr>lf_decoder = decoder, lf_limit = limit, lf_record_count = 0\<rparr>"

definition limit_filter_new ::
  "(('d Metadata \<Rightarrow> 'd Metadata) \<Rightarrow> 's \<Rightarrow> 's) \<Rightarrow> 's \<Rightarrow> u64 option \<Rightarrow> 's LimitFilter" where
  "limit_filter_new metadata_mut decoder limit =
     limit_filter_new_no_metadata
       (case limit of
          Some l \<Rightarrow> metadata_mut (\<lambda>m. m\<lparr>md_limit := Some (case md_limit m of Some k \<Rightarrow> min k l | None \<Rightarrow> l)\<rparr>) decoder
        | None \<Rightarrow> decoder) limit"

definition limit_filter_decode_record_ref ::
  "('d, 's) decoder_ops \<Rightarrow> 's LimitFilter \<Rightarrow> ('s LimitFilter \<times> bytes option result) result option" where
  "limit_filter_decode_record_ref D f =
     (if (case lf_limit f of Some limit \<Rightarrow> limit \<le> lf_record_count f | None \<Rightarrow> False) then Some (Ok (f, Ok None))
      else case decode_record_ref D (lf_decoder f) of
        None \<Rightarrow> None
      | Some res \<Rightarrow> Some (and_then res (\<lambda>(s, found).
          Ok (f\<lparr>lf_decoder := s, lf_record_count :=
                  (case found of Ok (Some _) \<Rightarrow> lf_record_count f + 1 | _ \<Rightarrow> lf_record_count f)\<rparr>, found))))"

definition limit_filter_ops :: "('d, 's) decoder_ops \<Rightarrow> ('d, 's LimitFilter) decoder_ops" where
  "limit_filter_ops D =
     \<lparr>decode_record_ref = limit_filter_decode_record_ref D, last_rec = (\<lambda>f. last_rec D (lf_decoder f)),
      dec_md = (\<lambda>f. dec_md D (lf_decoder f))\<rparr>"

subsection \<open>Arguments\<close>

datatype OutputEncoding = OutputEncoding_Infer | OutputEncoding_Dbn | OutputEncoding_Csv | OutputEncoding_Tsv
  | OutputEncoding_Json | OutputEncoding_DbnFragment

record Args =
  args_input :: "string list"
  args_output :: "string option"
  args_json :: bool
  args_csv :: bool
  args_tsv :: bool
  args_dbn :: bool
  args_fragment :: bool
  args_zstd :: bool
  args_should_upgrade :: bool
  args_force :: bool
  args_should_output_metadata :: bool
  args_should_pretty_print :: bool
  args_map_symbols :: bool
  args_limit :: "u64 option"
  args_is_input_fragment :: bool
  args_is_input_zstd_fragment :: bool
  args_input_dbn_version_override :: "u8 option"
  args_schema_filter :: "Schema option"
  args_write_header :: bool

definition output_encoding :: "Args \<Rightarrow> OutputEncoding" where
  "output_encoding args =
     (if args_json args then OutputEncoding_Json
      else if args_csv args then OutputEncoding_Csv
      else if args_tsv args then OutputEncoding_Tsv
      else if args_dbn args then OutputEncoding_Dbn
      else if args_fragment args then OutputEncoding_DbnFragment
      else OutputEncoding_Infer)"

definition args_upgrade_policy :: "Args \<Rightarrow> VersionUpgradePolicy" where
  "args_upgrade_policy args =
     (if args_should_upgrade args then VersionUpgradePolicy_UpgradeToV3 else VersionUpgradePolicy_AsIs)"

definition args_input_version :: "Args \<Rightarrow> u8" where
  "args_input_version args = (case args_input_dbn_version_override args of Some v \<Rightarrow> v | None \<Rightarrow> DBN_VERSION)"

text \<open>The error of the crate anyhow is its text.\<close>

definition infer_encoding :: "Args \<Rightarrow> string + Encoding \<times> Compression \<times> u8" where
  "infer_encoding args =
     (let compression = (if args_zstd args then Compression_Zstd else Compression_None) in
      case output_encoding args of
        OutputEncoding_DbnFragment \<Rightarrow> Inr (Encoding_Dbn, compression, 0)
      | OutputEncoding_Dbn \<Rightarrow> Inr (Encoding_Dbn, compression, 0)
      | OutputEncoding_Csv \<Rightarrow> Inr (Encoding_Csv, compression, 44)
      | OutputEncoding_Tsv \<Rightarrow> Inr (Encoding_Csv, compression, 9)
      | OutputEncoding_Json \<Rightarrow> Inr (Encoding_Json, compression, 0)
      | OutputEncoding_Infer \<Rightarrow>
          (case args_output args of
             Some out \<Rightarrow>
               if ends_with out ''.dbn.zst'' then Inr (Encoding_Dbn, Compression_Zstd, 0)
               else if ends_with out ''.dbn'' then Inr (Encoding_Dbn, Compression_None, 0)
               else if ends_with out ''.csv.zst'' then Inr (Encoding_Csv, Compression_Zstd, 44)
               else if ends_with out ''.csv'' then Inr (Encoding_Csv, Compression_None, 44)
               else if ends_with out ''.tsv.zst'' \<or> ends_with out ''.xls.zst'' then Inr (Encoding_Csv, Compression_Zstd, 9)
               else if ends_with out ''.tsv'' \<or> ends_with out ''.xls'' then Inr (Encoding_Csv, Compression_None, 9)
               else if ends_with out ''.json.zst'' then Inr (Encoding_Json, Compression_Zstd, 0)
               else if ends_with out ''.json'' then Inr (Encoding_Json, Compression_None, 0)
               else Inl (''Unable to infer output encoding from output path '' @ [CHR 0x27] @ out @ [CHR 0x27])
           | None \<Rightarrow> Inl ''Unable to infer output encoding when no output was specified''))"

subsection \<open>Around a decoder\<close>

definition cli_wrap ::
  "(('d Metadata \<Rightarrow> 'd Metadata) \<Rightarrow> 's \<Rightarrow> 's) \<Rightarrow> Args \<Rightarrow> 's \<Rightarrow> 's SchemaFilter LimitFilter" where
  "cli_wrap metadata_mut args decoder =
     limit_filter_new (schema_filter_metadata_mut metadata_mut)
       (schema_filter_new metadata_mut decoder (args_schema_filter args)) (args_limit args)"

definition cli_wrap_frag :: "Args \<Rightarrow> 's \<Rightarrow> 's SchemaFilter LimitFilter" where
  "cli_wrap_frag args decoder =
     limit_filter_new_no_metadata (schema_filter_new_no_metadata decoder (args_schema_filter args)) (args_limit args)"

definition FRAG_TS_OUT :: bool where "FRAG_TS_OUT = False"

definition cli_decode_frag ::
  "'b buf_ops \<Rightarrow> Args \<Rightarrow> 'r \<Rightarrow> ('r, 'b) RecordDecoder SchemaFilter LimitFilter result" where
  "cli_decode_frag B args r =
     and_then (record_decoder_with_version B r (args_input_version args) (args_upgrade_policy args) FRAG_TS_OUT)
       (\<lambda>d. Ok (cli_wrap_frag args d))"

fun dyn_metadata_mut :: "('d Metadata \<Rightarrow> 'd Metadata) \<Rightarrow> ('d, 'r, 'z, 'b) DynDecoder \<Rightarrow> ('d, 'r, 'z, 'b) DynDecoder" where
  "dyn_metadata_mut g (DynDecoder_Dbn decoder) = DynDecoder_Dbn (decoder\<lparr>dec_metadata := g (dec_metadata decoder)\<rparr>)"
| "dyn_metadata_mut g (DynDecoder_ZstdDbn decoder) = DynDecoder_ZstdDbn (decoder\<lparr>dec_metadata := g (dec_metadata decoder)\<rparr>)"
| "dyn_metadata_mut g (DynDecoder_LegacyDbz decoder) = DynDecoder_LegacyDbz (decoder\<lparr>dbz_metadata := g (dbz_metadata decoder)\<rparr>)"

definition dyn_ops ::
  "'d date_ops \<Rightarrow> 'b buf_ops \<Rightarrow> ('r, 'z) zstd_ops \<Rightarrow> 'r reader \<Rightarrow> ('d, ('d, 'r, 'z, 'b) DynDecoder) decoder_ops" where
  "dyn_ops C B Z R =
     \<lparr>decode_record_ref = dyn_decode_record_ref C B Z R, last_rec = dyn_last_record B, dec_md = dyn_metadata\<rparr>"

section \<open>What the filters let through\<close>

text \<open>The records a filtered decoder returns, given those of the inner decoder.\<close>

definition schema_delivers :: "('s \<Rightarrow> bytes list \<Rightarrow> bool) \<Rightarrow> 's SchemaFilter \<Rightarrow> bytes list \<Rightarrow> bool" where
  "schema_delivers delivers f ys \<longleftrightarrow>
     (\<exists>xs. delivers (sf_decoder f) xs \<and> list_all whole_record xs \<and> ys = filter (schema_filter_keeps (sf_rtype f)) xs)"

definition limit_delivers :: "('s \<Rightarrow> bytes list \<Rightarrow> bool) \<Rightarrow> 's LimitFilter \<Rightarrow> bytes list \<Rightarrow> bool" where
  "limit_delivers delivers f ys \<longleftrightarrow>
     (\<exists>xs. delivers (lf_decoder f) xs \<and>
        ys = (case lf_limit f of None \<Rightarrow> xs | Some n \<Rightarrow> take (unat n - unat (lf_record_count f)) xs))"

lemma schema_filter_keeps_ref:
  "whole_record (rr_as_ref ref) \<Longrightarrow> schema_filter_keeps rtype ref = schema_filter_keeps rtype (rr_as_ref ref)"
  using rr_header_append [of "rr_as_ref ref" "drop (rr_record_size ref) ref"] ref_split [of ref]
  by (simp add: schema_filter_keeps_def whole_record_def)

context record_stream
begin

lemma schema_filter_Cons:
  assumes "delivers (sf_decoder f) xs" and "list_all whole_record xs" and "filter (schema_filter_keeps (sf_rtype f)) xs = y # ys"
  shows "\<exists>f' ref. schema_filter_decode_record_ref D f = Some (Ok (f', Ok (Some ref))) \<and> last_rec D (sf_decoder f') = Some ref \<and>
    rr_as_ref ref = y \<and> rr_raw_index_ts ref = Ok (index_of y) \<and> schema_delivers delivers f' ys"
  using assms
proof (induction xs arbitrary: f)
  case (Cons x xs)
  obtain s' ref where s': "decode_record_ref D (sf_decoder f) = Some (Ok (s', Ok (Some ref)))" "last_rec D s' = Some ref"
    "rr_as_ref ref = x" "rr_raw_index_ts ref = Ok (index_of x)" "delivers s' xs"
    using deliver_Cons [OF Cons.prems(1)] by blast
  have keeps: "schema_filter_keeps (sf_rtype f) ref = schema_filter_keeps (sf_rtype f) x"
    using schema_filter_keeps_ref [of ref] s'(3) Cons.prems(2) by simp
  show ?case
  proof (cases "schema_filter_keeps (sf_rtype f) x")
    case True
    then show ?thesis
      using s' keeps Cons.prems(2,3)
      by (subst schema_filter_decode_record_ref.simps) (auto simp: schema_delivers_def)
  next
    case False
    then show ?thesis
      using s' keeps Cons.prems(2,3) Cons.IH [of "f\<lparr>sf_decoder := s'\<rparr>"]
      by (subst schema_filter_decode_record_ref.simps) simp
  qed
qed simp

lemma schema_filter_Nil:
  assumes "delivers (sf_decoder f) xs" and "list_all whole_record xs" and "filter (schema_filter_keeps (sf_rtype f)) xs = []"
  shows "\<exists>f'. schema_filter_decode_record_ref D f = Some (Ok (f', Ok None))"
  using assms
proof (induction xs arbitrary: f)
  case Nil
  then show ?case using deliver_Nil [of "sf_decoder f"] by (subst schema_filter_decode_record_ref.simps) auto
next
  case (Cons x xs)
  obtain s' ref where s': "decode_record_ref D (sf_decoder f) = Some (Ok (s', Ok (Some ref)))"
    "rr_as_ref ref = x" "delivers s' xs"
    using deliver_Cons [OF Cons.prems(1)] by blast
  then have "\<not> schema_filter_keeps (sf_rtype f) ref"
    using schema_filter_keeps_ref [of ref] Cons.prems(2,3) by (simp split: if_splits)
  then show ?case
    using s' Cons.prems(2,3) Cons.IH [of "f\<lparr>sf_decoder := s'\<rparr>"]
    by (subst schema_filter_decode_record_ref.simps) (simp split: if_splits)
qed

lemma schema_filter_stream: "record_stream (schema_filter_ops D) (schema_delivers delivers)"
proof
  fix f :: "'s SchemaFilter" and y ys
  assume "schema_delivers delivers f (y # ys)"
  then obtain xs where "delivers (sf_decoder f) xs" "list_all whole_record xs"
    "filter (schema_filter_keeps (sf_rtype f)) xs = y # ys" by (auto simp: schema_delivers_def)
  from schema_filter_Cons [OF this]
  show "\<exists>f' ref. decode_record_ref (schema_filter_ops D) f = Some (Ok (f', Ok (Some ref))) \<and>
      last_rec (schema_filter_ops D) f' = Some ref \<and> rr_as_ref ref = y \<and> rr_raw_index_ts ref = Ok (index_of y) \<and>
      schema_delivers delivers f' ys"
    by (simp add: schema_filter_ops_def)
next
  fix f :: "'s SchemaFilter"
  assume "schema_delivers delivers f []"
  then show "\<exists>f'. decode_record_ref (schema_filter_ops D) f = Some (Ok (f', Ok None))"
    using schema_filter_Nil [of f] by (auto simp: schema_delivers_def schema_filter_ops_def)
qed

text \<open>The count stays below the limit, so that it does not overflow while it matters.\<close>

lemma limit_filter_stream: "record_stream (limit_filter_ops D) (limit_delivers delivers)"
proof
  fix f :: "'s LimitFilter" and y ys
  assume "limit_delivers delivers f (y # ys)"
  then obtain xs where xs: "delivers (lf_decoder f) xs"
    "y # ys = (case lf_limit f of None \<Rightarrow> xs | Some n \<Rightarrow> take (unat n - unat (lf_record_count f)) xs)"
    by (auto simp: limit_delivers_def)
  then obtain zs where zs: "xs = y # zs" by (cases xs) (auto simp: take_Cons' split: option.splits if_splits)
  have below: "\<not> n \<le> lf_record_count f" "unat (lf_record_count f + 1) = Suc (unat (lf_record_count f))"
    if n: "lf_limit f = Some n" for n
  proof -
    show "\<not> n \<le> lf_record_count f" using xs(2) n by (auto simp: word_le_nat_alt zs)
    then have "unat (lf_record_count f) + 1 < 2 ^ 64" using unat_less [of n] by (simp add: word_le_nat_alt)
    then show "unat (lf_record_count f + 1) = Suc (unat (lf_record_count f))" by (simp add: unat_word_ariths)
  qed
  obtain s' ref where s': "decode_record_ref D (lf_decoder f) = Some (Ok (s', Ok (Some ref)))" "last_rec D s' = Some ref"
    "rr_as_ref ref = y" "rr_raw_index_ts ref = Ok (index_of y)" "delivers s' zs"
    using deliver_Cons [of "lf_decoder f" y zs] xs(1) zs by blast
  let ?f = "f\<lparr>lf_decoder := s', lf_record_count := lf_record_count f + 1\<rparr>"
  have "limit_delivers delivers ?f ys"
    using s'(5) xs(2) zs below(2)
    by (auto simp: limit_delivers_def take_Cons' split: option.splits if_splits intro!: exI [of _ zs])
  then show "\<exists>f' ref. decode_record_ref (limit_filter_ops D) f = Some (Ok (f', Ok (Some ref))) \<and>
      last_rec (limit_filter_ops D) f' = Some ref \<and> rr_as_ref ref = y \<and> rr_raw_index_ts ref = Ok (index_of y) \<and>
      limit_delivers delivers f' ys"
    using s' below(1)
    by (intro exI [of _ ?f] exI [of _ ref]) (auto simp: limit_filter_ops_def limit_filter_decode_record_ref_def split: option.split)
next
  fix f :: "'s LimitFilter"
  assume "limit_delivers delivers f []"
  then obtain xs where xs: "delivers (lf_decoder f) xs"
    "[] = (case lf_limit f of None \<Rightarrow> xs | Some n \<Rightarrow> take (unat n - unat (lf_record_count f)) xs)"
    by (auto simp: limit_delivers_def)
  show "\<exists>f'. decode_record_ref (limit_filter_ops D) f = Some (Ok (f', Ok None))"
  proof (cases "\<exists>n. lf_limit f = Some n \<and> n \<le> lf_record_count f")
    case True
    then show ?thesis by (auto simp: limit_filter_ops_def limit_filter_decode_record_ref_def)
  next
    case False
    then have "xs = []" using xs(2) by (auto simp: word_le_nat_alt split: option.splits)
    then show ?thesis
      using False xs(1) deliver_Nil [of "lf_decoder f"]
      by (auto simp: limit_filter_ops_def limit_filter_decode_record_ref_def split: option.split)
  qed
qed

end

section \<open>The tool's decoder\<close>

text \<open>A decoder whose metadata can be changed without touching its records.\<close>

locale settable_stream = record_stream D delivers
  for D :: "('d, 's) decoder_ops" and delivers :: "'s \<Rightarrow> bytes list \<Rightarrow> bool" +
  fixes metadata_mut :: "('d Metadata \<Rightarrow> 'd Metadata) \<Rightarrow> 's \<Rightarrow> 's"
  assumes metadata_set: "dec_md D (metadata_mut g s) = g (dec_md D s)"
    and metadata_only: "delivers s xs \<Longrightarrow> delivers (metadata_mut g s) xs"

text \<open>What the arguments let through, and the metadata that says so.\<close>

definition args_records :: "Args \<Rightarrow> bytes list \<Rightarrow> bytes list" where
  "args_records args vs =
     (let kept = (case args_schema_filter args of
                    Some schema \<Rightarrow> filter (\<lambda>v. rh_rtype (rr_header v) = rtype_as_u8 (rtype_from_schema schema)) vs
                  | None \<Rightarrow> vs) in
      case args_limit args of Some n \<Rightarrow> take (unat n) kept | None \<Rightarrow> kept)"

definition args_metadata :: "Args \<Rightarrow> 'd Metadata \<Rightarrow> 'd Metadata" where
  "args_metadata args m =
     m\<lparr>md_schema := (case args_schema_filter args of Some s \<Rightarrow> Some s | None \<Rightarrow> md_schema m),
       md_limit := (case (md_limit m, args_limit args) of
           (Some k, Some l) \<Rightarrow> Some (min k l) | (None, l) \<Rightarrow> l | (k, None) \<Rightarrow> k)\<rparr>"

abbreviation wrapped_ops :: "('d, 's) decoder_ops \<Rightarrow> ('d, 's SchemaFilter LimitFilter) decoder_ops" where
  "wrapped_ops D \<equiv> limit_filter_ops (schema_filter_ops D)"

lemma args_records_subset: "set (args_records args vs) \<subseteq> set vs"
  by (auto simp: args_records_def Let_def split: option.splits dest: in_set_takeD)

context record_stream
begin

lemma wrapped_stream: "record_stream (wrapped_ops D) (limit_delivers (schema_delivers delivers))"
  by (rule record_stream.limit_filter_stream) (rule schema_filter_stream)

lemma wrap_frag_delivers:
  assumes "delivers s vs" and "list_all whole_record vs"
  shows "limit_delivers (schema_delivers delivers) (cli_wrap_frag args s) (args_records args vs)"
proof -
  have "schema_filter_keeps (map_option rtype_from_schema (args_schema_filter args)) =
      (\<lambda>v. case args_schema_filter args of Some schema \<Rightarrow> rh_rtype (rr_header v) = rtype_as_u8 (rtype_from_schema schema) | None \<Rightarrow> True)"
    by (auto simp: schema_filter_keeps_def fun_eq_iff split: option.split)
  then have "schema_delivers delivers \<lparr>sf_decoder = s, sf_rtype = map_option rtype_from_schema (args_schema_filter args)\<rparr>
      (case args_schema_filter args of
         Some schema \<Rightarrow> filter (\<lambda>v. rh_rtype (rr_header v) = rtype_as_u8 (rtype_from_schema schema)) vs | None \<Rightarrow> vs)"
    using assms by (auto simp: schema_delivers_def split: option.split intro!: exI [of _ vs])
  then show ?thesis
    by (fastforce simp: limit_delivers_def args_records_def Let_def cli_wrap_frag_def limit_filter_new_no_metadata_def
        schema_filter_new_no_metadata_def split: option.split)
qed

end

context settable_stream
begin

lemma wrap_delivers:
  assumes "delivers s vs" and "list_all whole_record vs"
  shows "limit_delivers (schema_delivers delivers) (cli_wrap metadata_mut args s) (args_records args vs)"
proof -
  obtain d where "delivers d vs" "cli_wrap metadata_mut args s = cli_wrap_frag args d"
    using assms(1) metadata_only [OF assms(1)] metadata_only [OF metadata_only [OF assms(1)]]
    by (cases "args_schema_filter args"; cases "args_limit args")
      (auto simp: cli_wrap_def cli_wrap_frag_def limit_filter_new_def limit_filter_new_no_metadata_def
        schema_filter_new_def schema_filter_new_no_metadata_def schema_filter_metadata_mut_def)
  then show ?thesis using wrap_frag_delivers assms(2) by simp
qed

lemma wrap_metadata: "dec_md (wrapped_ops D) (cli_wrap metadata_mut args s) = args_metadata args (dec_md D s)"
  by (auto simp: limit_filter_ops_def schema_filter_ops_def cli_wrap_def limit_filter_new_def limit_filter_new_no_metadata_def
      schema_filter_new_def schema_filter_new_no_metadata_def schema_filter_metadata_mut_def args_metadata_def metadata_set
      split: option.split)

end

text \<open>The dynamic decoder is such a decoder: a DBZ decoder delivers as a DBN decoder with its parts would.\<close>

fun dyn_delivers ::
  "'b buf_ops \<Rightarrow> ('r \<Rightarrow> bytes) \<Rightarrow> ('z \<Rightarrow> bytes) \<Rightarrow> ('d, 'r, 'z, 'b) DynDecoder \<Rightarrow> bytes list \<Rightarrow> bool" where
  "dyn_delivers B pending zpending (DynDecoder_Dbn d) vs \<longleftrightarrow> decoder_delivers B pending d vs"
| "dyn_delivers B pending zpending (DynDecoder_ZstdDbn d) vs \<longleftrightarrow> decoder_delivers B zpending d vs"
| "dyn_delivers B pending zpending (DynDecoder_LegacyDbz d) vs \<longleftrightarrow>
     decoder_delivers B zpending \<lparr>dec_metadata = dbz_metadata d, dec_decoder = dbz_decoder d\<rparr> vs"

lemma dbz_as_decoder:
  "decoder_decode_record_ref C B (zstd_reader Z) \<lparr>dec_metadata = dbz_metadata d, dec_decoder = dbz_decoder d\<rparr> =
     Some (Ok (d', found)) \<longleftrightarrow>
   (\<exists>e. dbz_decode_record_ref C B Z d = Some (Ok (e, found)) \<and>
      d' = \<lparr>dec_metadata = dbz_metadata e, dec_decoder = dbz_decoder e\<rparr>)"
  by (cases d) (auto simp: decoder_decode_record_ref_def dbz_decode_record_ref_def and_then_eq_Ok split: option.splits)

sublocale dyn_reading \<subseteq> dyn: settable_stream "dyn_ops C B Z R" "dyn_delivers B pending zpending" dyn_metadata_mut
proof
  fix d :: "('d, 'r, 'z, 'b) DynDecoder" and x xs
  assume y: "dyn_delivers B pending zpending d (x # xs)"
  show "\<exists>d' ref. decode_record_ref (dyn_ops C B Z R) d = Some (Ok (d', Ok (Some ref))) \<and>
      last_rec (dyn_ops C B Z R) d' = Some ref \<and> rr_as_ref ref = x \<and> rr_raw_index_ts ref = Ok (index_of x) \<and>
      dyn_delivers B pending zpending d' xs"
  proof (cases d)
    case (DynDecoder_Dbn e)
    then show ?thesis
      using y plain.deliver_Cons [of e x xs] by (force simp: dyn_ops_def sync_ops_def dyn_return_def decoder_last_record_def)
  next
    case (DynDecoder_ZstdDbn e)
    then show ?thesis
      using y unzipped.deliver_Cons [of e x xs] by (force simp: dyn_ops_def sync_ops_def dyn_return_def decoder_last_record_def)
  next
    case (DynDecoder_LegacyDbz e)
    then obtain e' ref where "dbz_decode_record_ref C B Z e = Some (Ok (e', Ok (Some ref)))"
      "last_record B (rd_fsm (dbz_decoder e')) = Some ref" "rr_as_ref ref = x" "rr_raw_index_ts ref = Ok (index_of x)"
      "decoder_delivers B zpending \<lparr>dec_metadata = dbz_metadata e', dec_decoder = dbz_decoder e'\<rparr> xs"
      using y unzipped.deliver_Cons [of "\<lparr>dec_metadata = dbz_metadata e, dec_decoder = dbz_decoder e\<rparr>" x xs]
      by (auto simp: sync_ops_def dbz_as_decoder decoder_last_record_def)
    then show ?thesis
      using DynDecoder_LegacyDbz by (auto simp: dyn_ops_def dyn_return_def dbz_last_record_def)
  qed
next
  fix d :: "('d, 'r, 'z, 'b) DynDecoder"
  assume y: "dyn_delivers B pending zpending d []"
  show "\<exists>d'. decode_record_ref (dyn_ops C B Z R) d = Some (Ok (d', Ok None))"
  proof (cases d)
    case (DynDecoder_LegacyDbz e)
    then show ?thesis
      using y unzipped.deliver_Nil [of "\<lparr>dec_metadata = dbz_metadata e, dec_decoder = dbz_decoder e\<rparr>"]
      by (auto simp: sync_ops_def dbz_as_decoder dyn_ops_def dyn_return_def)
  qed (use y plain.deliver_Nil unzipped.deliver_Nil in \<open>force simp: dyn_ops_def sync_ops_def dyn_return_def\<close>)+
next
  fix g and s :: "('d, 'r, 'z, 'b) DynDecoder" and xs
  show "dec_md (dyn_ops C B Z R) (dyn_metadata_mut g s) = g (dec_md (dyn_ops C B Z R) s)"
    by (cases s) (simp_all add: dyn_ops_def)
  show "dyn_delivers B pending zpending s xs \<Longrightarrow> dyn_delivers B pending zpending (dyn_metadata_mut g s) xs"
    by (cases s) (simp_all add: decoder_delivers_def)
qed

context dyn_reading
begin

lemma dyn_holds_delivers:
  fixes m :: "'d Metadata" and d :: "('d, 'r, 'z, 'b) DynDecoder"
  assumes "dyn_holds B pending zpending policy m (concat ws) d" and "list_all2 (upgrades policy m) ws vs" and "list_all indexed vs"
  shows "dyn_delivers B pending zpending d vs"
  using assms by (cases d) (auto simp: rd_holds_def decoder_delivers_def)

lemmas dyn_wrapped_stream = dyn.wrapped_stream
lemmas dyn_wrap_delivers = dyn.wrap_delivers
lemmas dyn_wrap_metadata = dyn.wrap_metadata

end

interpretation wrapped_piece: settable_stream "dyn_ops gregorian list_buffer (stored_zstd (br_pending snd)) (buf_reader piece_reader)"
    "dyn_delivers list_buffer (br_pending snd) snd" dyn_metadata_mut
  by (rule dyn_piece.dyn.settable_stream_axioms)

end
