(* ===== verification/Dyn_Encoder.thy ===== *)
theory Dyn_Encoder
  imports Json_Encode
begin

text \<open>
  The encoder whose encoding and compression are chosen at run time: rust/dbn/src/encode/dyn_writer.rs,
  rust/dbn/src/encode/dyn_encoder.rs and the Zstd helpers of rust/dbn/src/encode.rs.

  The zstd crate's encoder is a parameter: how it is opened, its \<^verbatim>\<open>io::Write\<close>, and the writer that is
  left when it is dropped, which finishes its frame. So are the csv crate's writer, with what it leaves when
  dropped, and the writer of JSON text; an environment collects them with the output's operations. The text
  methods of \<^verbatim>\<open>EncodeRecordTextExt\<close> that take a record reference dispatch on its dynamic type.
\<close>

section \<open>Definitions\<close>

subsection \<open>DynWriter\<close>

record ('w, 'z) zstd_enc_ops =
  zenc_new :: "'w \<Rightarrow> int \<Rightarrow> 'z option"
  zenc_include_checksum :: "bool \<Rightarrow> 'z \<Rightarrow> 'z option"
  zenc_writer :: "'z writer"
  zenc_get_mut :: "('w \<Rightarrow> 'w) \<Rightarrow> 'z \<Rightarrow> 'z"
  zenc_finish :: "'z \<Rightarrow> 'w"

definition ZSTD_COMPRESSION_LEVEL :: int where "ZSTD_COMPRESSION_LEVEL = 0"

definition zstd_encoder_with_clevel :: "('w, 'z) zstd_enc_ops \<Rightarrow> 'w \<Rightarrow> int \<Rightarrow> 'z result" where
  "zstd_encoder_with_clevel Z w level =
     (case zenc_new Z w level of
        None \<Rightarrow> Err (Io ''creating zstd encoder'')
      | Some z \<Rightarrow>
          (case zenc_include_checksum Z True z of
             None \<Rightarrow> Err (Io ''setting zstd checksum'')
           | Some z \<Rightarrow> Ok z))"

definition zstd_encoder :: "('w, 'z) zstd_enc_ops \<Rightarrow> 'w \<Rightarrow> 'z result" where
  "zstd_encoder Z w = zstd_encoder_with_clevel Z w ZSTD_COMPRESSION_LEVEL"

datatype ('w, 'z) DynWriter = DynWriter_Uncompressed 'w | DynWriter_Zstd 'z

definition dyn_writer_new :: "('w, 'z) zstd_enc_ops \<Rightarrow> 'w \<Rightarrow> Compression \<Rightarrow> ('w, 'z) DynWriter result" where
  "dyn_writer_new Z w compression =
     (case compression of
        Compression_None \<Rightarrow> Ok (DynWriter_Uncompressed w)
      | Compression_Zstd \<Rightarrow> and_then (zstd_encoder Z w) (\<lambda>z. Ok (DynWriter_Zstd z)))"

definition dyn_writer_with_compression_level ::
  "('w, 'z) zstd_enc_ops \<Rightarrow> 'w \<Rightarrow> int \<Rightarrow> ('w, 'z) DynWriter result" where
  "dyn_writer_with_compression_level Z w level =
     and_then (zstd_encoder_with_clevel Z w level) (\<lambda>z. Ok (DynWriter_Zstd z))"

fun dyn_writer_get_mut :: "('w, 'z) zstd_enc_ops \<Rightarrow> ('w \<Rightarrow> 'w) \<Rightarrow> ('w, 'z) DynWriter \<Rightarrow> ('w, 'z) DynWriter" where
  "dyn_writer_get_mut Z g (DynWriter_Uncompressed w) = DynWriter_Uncompressed (g w)"
| "dyn_writer_get_mut Z g (DynWriter_Zstd z) = DynWriter_Zstd (zenc_get_mut Z g z)"

fun dyn_writer_write_all ::
  "'w writer \<Rightarrow> ('w, 'z) zstd_enc_ops \<Rightarrow> bytes \<Rightarrow> ('w, 'z) DynWriter \<Rightarrow> ('w, 'z) DynWriter \<times> bool" where
  "dyn_writer_write_all W Z bs (DynWriter_Uncompressed w) = apfst DynWriter_Uncompressed (write_all W bs w)"
| "dyn_writer_write_all W Z bs (DynWriter_Zstd z) = apfst DynWriter_Zstd (write_all (zenc_writer Z) bs z)"

fun dyn_writer_flush ::
  "'w writer \<Rightarrow> ('w, 'z) zstd_enc_ops \<Rightarrow> ('w, 'z) DynWriter \<Rightarrow> ('w, 'z) DynWriter \<times> bool" where
  "dyn_writer_flush W Z (DynWriter_Uncompressed w) = apfst DynWriter_Uncompressed (flush W w)"
| "dyn_writer_flush W Z (DynWriter_Zstd z) = apfst DynWriter_Zstd (flush (zenc_writer Z) z)"

text \<open>It is not \<^verbatim>\<open>Seek\<close>; the encoders write only whole slices.\<close>

definition dyn_writer :: "'w writer \<Rightarrow> ('w, 'z) zstd_enc_ops \<Rightarrow> ('w, 'z) DynWriter writer" where
  "dyn_writer W Z =
     \<lparr>write_all = dyn_writer_write_all W Z, flush = dyn_writer_flush W Z,
      seek_start = (\<lambda>_ w. (w, False)), seek_end = (\<lambda>w. (w, False))\<rparr>"

text \<open>What is left of the output when the writer is dropped.\<close>

fun dyn_writer_drop :: "('w, 'z) zstd_enc_ops \<Rightarrow> ('w, 'z) DynWriter \<Rightarrow> 'w" where
  "dyn_writer_drop Z (DynWriter_Uncompressed w) = w"
| "dyn_writer_drop Z (DynWriter_Zstd z) = zenc_finish Z z"

subsection \<open>DynEncoder\<close>

record ('w, 'z, 'c, 'd) encode_env =
  env_dates :: "'d date_ops"
  env_clock :: "'d clock_ops"
  env_json :: json_text_writer
  env_out :: "'w writer"
  env_zstd :: "('w, 'z) zstd_enc_ops"
  env_csv :: "'c csv_writer"
  env_csv_from :: "u8 \<Rightarrow> ('w, 'z) DynWriter \<Rightarrow> 'c"
  env_csv_drop :: "'c \<Rightarrow> ('w, 'z) DynWriter"

abbreviation env_dyn :: "('w, 'z, 'c, 'd) encode_env \<Rightarrow> ('w, 'z) DynWriter writer" where
  "env_dyn E \<equiv> dyn_writer (env_out E) (env_zstd E)"

datatype ('v, 'c) DynEncoder = DynEncoder_Dbn 'v | DynEncoder_Csv "'c CsvEncoder" | DynEncoder_Json "'v JsonEncoder"

record ('w, 'd) DynEncoderBuilder =
  dyb_writer :: 'w
  dyb_encoding :: Encoding
  dyb_compression :: Compression
  dyb_metadata :: "'d Metadata"
  dyb_write_header :: bool
  dyb_should_pretty_print :: bool
  dyb_use_pretty_px :: bool
  dyb_use_pretty_ts :: bool
  dyb_with_symbol :: bool
  dyb_delimiter :: u8

definition dyn_builder_new :: "'w \<Rightarrow> Encoding \<Rightarrow> Compression \<Rightarrow> 'd Metadata \<Rightarrow> ('w, 'd) DynEncoderBuilder" where
  "dyn_builder_new w encoding compression metadata =
     \<lparr>dyb_writer = w, dyb_encoding = encoding, dyb_compression = compression, dyb_metadata = metadata,
      dyb_write_header = True, dyb_should_pretty_print = False, dyb_use_pretty_px = False, dyb_use_pretty_ts = False,
      dyb_with_symbol = False, dyb_delimiter = 44\<rparr>"

definition dyn_write_header :: "bool \<Rightarrow> ('w, 'd) DynEncoderBuilder \<Rightarrow> ('w, 'd) DynEncoderBuilder" where
  "dyn_write_header x b = b\<lparr>dyb_write_header := x\<rparr>"

definition dyn_should_pretty_print :: "bool \<Rightarrow> ('w, 'd) DynEncoderBuilder \<Rightarrow> ('w, 'd) DynEncoderBuilder" where
  "dyn_should_pretty_print x b = b\<lparr>dyb_should_pretty_print := x\<rparr>"

definition dyn_use_pretty_px :: "bool \<Rightarrow> ('w, 'd) DynEncoderBuilder \<Rightarrow> ('w, 'd) DynEncoderBuilder" where
  "dyn_use_pretty_px x b = b\<lparr>dyb_use_pretty_px := x\<rparr>"

definition dyn_use_pretty_ts :: "bool \<Rightarrow> ('w, 'd) DynEncoderBuilder \<Rightarrow> ('w, 'd) DynEncoderBuilder" where
  "dyn_use_pretty_ts x b = b\<lparr>dyb_use_pretty_ts := x\<rparr>"

definition dyn_all_pretty :: "bool \<Rightarrow> ('w, 'd) DynEncoderBuilder \<Rightarrow> ('w, 'd) DynEncoderBuilder" where
  "dyn_all_pretty x b = dyn_use_pretty_ts x (dyn_use_pretty_px x (dyn_should_pretty_print x b))"

definition dyn_with_symbol :: "bool \<Rightarrow> ('w, 'd) DynEncoderBuilder \<Rightarrow> ('w, 'd) DynEncoderBuilder" where
  "dyn_with_symbol x b = b\<lparr>dyb_with_symbol := x\<rparr>"

definition dyn_delimiter :: "u8 \<Rightarrow> ('w, 'd) DynEncoderBuilder \<Rightarrow> ('w, 'd) DynEncoderBuilder" where
  "dyn_delimiter x b = b\<lparr>dyb_delimiter := x\<rparr>"

definition dyn_build ::
  "('w, 'z, 'c, 'd) encode_env \<Rightarrow> ('w, 'd) DynEncoderBuilder \<Rightarrow> (('w, 'z) DynWriter, 'c) DynEncoder result" where
  "dyn_build E b =
     and_then (dyn_writer_new (env_zstd E) (dyb_writer b) (dyb_compression b)) (\<lambda>w.
     case dyb_encoding b of
       Encoding_Dbn \<Rightarrow>
         (case encoder_new (env_dates E) (env_dyn E) (dyb_metadata b) w of
            (w, res) \<Rightarrow> and_then res (\<lambda>_. Ok (DynEncoder_Dbn w)))
     | Encoding_Csv \<Rightarrow>
         and_then (csv_build (env_csv E) (env_csv_from E)
             ((csv_builder_new w)\<lparr>bld_version := md_version (dyb_metadata b), bld_use_pretty_px := dyb_use_pretty_px b,
                bld_use_pretty_ts := dyb_use_pretty_ts b, bld_delimiter := dyb_delimiter b,
                bld_write_header := dyb_write_header b, bld_ts_out := md_ts_out (dyb_metadata b),
                bld_schema := md_schema (dyb_metadata b), bld_with_symbol := dyb_with_symbol b\<rparr>))
           (\<lambda>e. Ok (DynEncoder_Csv e))
     | Encoding_Json \<Rightarrow>
         Ok (DynEncoder_Json (json_new w (dyb_should_pretty_print b) (dyb_use_pretty_px b) (dyb_use_pretty_ts b))))"

definition dyn_encoder_new ::
  "('w, 'z, 'c, 'd) encode_env \<Rightarrow> 'w \<Rightarrow> Encoding \<Rightarrow> Compression \<Rightarrow> 'd Metadata \<Rightarrow> bool \<Rightarrow> bool \<Rightarrow> bool
   \<Rightarrow> (('w, 'z) DynWriter, 'c) DynEncoder result" where
  "dyn_encoder_new E w encoding compression metadata pretty_print pretty_px pretty_ts =
     dyn_build E (dyn_use_pretty_ts pretty_ts (dyn_use_pretty_px pretty_px (dyn_should_pretty_print pretty_print
       (dyn_builder_new w encoding compression metadata))))"

text \<open>A trait \<^verbatim>\<open>DbnEncodable\<close> is what the three encoders use of a record type.\<close>

record 'r DbnEncodable =
  encodable_type :: "'r record_type"
  encodable_csv :: "'r csv_type"
  encodable_json :: "bool \<Rightarrow> bool \<Rightarrow> 'r \<Rightarrow> json_object"

fun dyn_encode_header :: "('w, 'z, 'c, 'd) encode_env \<Rightarrow> string list \<Rightarrow> bool \<Rightarrow> (('w, 'z) DynWriter, 'c) DynEncoder enc" where
  "dyn_encode_header E columns with_symbol (DynEncoder_Csv e) =
     apfst DynEncoder_Csv (csv_encode_header (env_csv E) columns with_symbol e)"
| "dyn_encode_header E columns with_symbol e = (e, Ok ())"

fun dyn_encode_header_for_schema ::
  "('w, 'z, 'c, 'd) encode_env \<Rightarrow> u8 \<Rightarrow> Schema \<Rightarrow> bool \<Rightarrow> bool \<Rightarrow> (('w, 'z) DynWriter, 'c) DynEncoder enc" where
  "dyn_encode_header_for_schema E version schema ts_out with_symbol (DynEncoder_Csv e) =
     apfst DynEncoder_Csv (csv_encode_header_for_schema (env_csv E) version schema ts_out with_symbol e)"
| "dyn_encode_header_for_schema E version schema ts_out with_symbol e = (e, Ok ())"

fun dyn_encode_record ::
  "('w, 'z, 'c, 'd) encode_env \<Rightarrow> 'r DbnEncodable \<Rightarrow> 'r \<Rightarrow> (('w, 'z) DynWriter, 'c) DynEncoder enc" where
  "dyn_encode_record E R record (DynEncoder_Dbn w) =
     apfst DynEncoder_Dbn (encode_record (encodable_type R) (env_dyn E) record w)"
| "dyn_encode_record E R record (DynEncoder_Csv e) =
     apfst DynEncoder_Csv (csv_encode_record (env_csv E) (encodable_csv R) record e)"
| "dyn_encode_record E R record (DynEncoder_Json e) =
     apfst DynEncoder_Json (json_encode_record (env_json E) (env_dyn E) (encodable_json R) record e)"

fun dyn_flush :: "('w, 'z, 'c, 'd) encode_env \<Rightarrow> (('w, 'z) DynWriter, 'c) DynEncoder enc" where
  "dyn_flush E (DynEncoder_Dbn w) = apfst DynEncoder_Dbn (encoder_flush (env_dyn E) w)"
| "dyn_flush E (DynEncoder_Csv e) = apfst DynEncoder_Csv (csv_encoder_flush (env_csv E) e)"
| "dyn_flush E (DynEncoder_Json e) = apfst DynEncoder_Json (json_flush (env_dyn E) ''flushing output'' e)"

fun dyn_encode_record_ref :: "('w, 'z, 'c, 'd) encode_env \<Rightarrow> bytes \<Rightarrow> (('w, 'z) DynWriter, 'c) DynEncoder enc" where
  "dyn_encode_record_ref E record (DynEncoder_Dbn w) =
     apfst DynEncoder_Dbn (encode_record_ref (env_dyn E) record w)"
| "dyn_encode_record_ref E record (DynEncoder_Csv e) =
     apfst DynEncoder_Csv (csv_encode_record_ref (env_dates E) (env_clock E) (env_csv E) record e)"
| "dyn_encode_record_ref E record (DynEncoder_Json e) =
     apfst DynEncoder_Json (json_encode_record_ref (env_json E) (env_dates E) (env_clock E) (env_dyn E) record e)"

fun dyn_encode_record_ref_ts_out ::
  "('w, 'z, 'c, 'd) encode_env \<Rightarrow> bytes \<Rightarrow> bool \<Rightarrow> (('w, 'z) DynWriter, 'c) DynEncoder enc" where
  "dyn_encode_record_ref_ts_out E record ts_out (DynEncoder_Dbn w) =
     apfst DynEncoder_Dbn (encode_record_ref_ts_out (env_dyn E) record ts_out w)"
| "dyn_encode_record_ref_ts_out E record ts_out (DynEncoder_Csv e) =
     apfst DynEncoder_Csv (csv_encode_record_ref_ts_out (env_dates E) (env_clock E) (env_csv E) record ts_out e)"
| "dyn_encode_record_ref_ts_out E record ts_out (DynEncoder_Json e) =
     apfst DynEncoder_Json
       (json_encode_record_ref_ts_out (env_json E) (env_dates E) (env_clock E) (env_dyn E) record ts_out e)"

fun dyn_encode_records ::
  "('w, 'z, 'c, 'd) encode_env \<Rightarrow> 'r DbnEncodable \<Rightarrow> 'r list \<Rightarrow> (('w, 'z) DynWriter, 'c) DynEncoder enc" where
  "dyn_encode_records E R records (DynEncoder_Dbn w) =
     apfst DynEncoder_Dbn
       (encode_records (encode_record (encodable_type R) (env_dyn E)) (encoder_flush (env_dyn E)) records w)"
| "dyn_encode_records E R records (DynEncoder_Csv e) =
     apfst DynEncoder_Csv (csv_encode_records (env_csv E) (encodable_csv R) records e)"
| "dyn_encode_records E R records (DynEncoder_Json e) =
     apfst DynEncoder_Json
       (encode_records (json_encode_record (env_json E) (env_dyn E) (encodable_json R))
          (json_flush (env_dyn E) ''flushing output'') records e)"

text \<open>A call into one of the encoders that may not end.\<close>

definition in_encoder :: "('e \<Rightarrow> 'f) \<Rightarrow> ('e \<times> unit result) result option \<Rightarrow> ('f \<times> unit result) result option" where
  "in_encoder f res =
     (case res of None \<Rightarrow> None | Some r \<Rightarrow> Some (and_then r (\<lambda>(e, x). Ok (f e, x))))"

fun dyn_encode_decoded ::
  "('w, 'z, 'c, 'd) encode_env \<Rightarrow> ('d, 's) decoder_ops \<Rightarrow> 's \<Rightarrow> (('w, 'z) DynWriter, 'c) DynEncoder
   \<Rightarrow> ((('w, 'z) DynWriter, 'c) DynEncoder \<times> unit result) result option" where
  "dyn_encode_decoded E D s (DynEncoder_Dbn w) =
     in_encoder DynEncoder_Dbn
       (encode_decoded (decode_record_ref D) (encode_record_ref_ts_out (env_dyn E)) (encoder_flush (env_dyn E))
          (md_ts_out (dec_md D s)) s w)"
| "dyn_encode_decoded E D s (DynEncoder_Csv e) =
     in_encoder DynEncoder_Csv (csv_encode_decoded (env_dates E) (env_clock E) (env_csv E) D s e)"
| "dyn_encode_decoded E D s (DynEncoder_Json e) =
     in_encoder DynEncoder_Json (json_encode_decoded (env_json E) (env_dates E) (env_clock E) (env_dyn E) D s e)"

text \<open>The trait's default \<^verbatim>\<open>encode_stream\<close>; a fallible streaming iterator is given by its \<^verbatim>\<open>next\<close>.\<close>

partial_function (option) encode_fallible_stream ::
  "('r \<Rightarrow> 'w enc) \<Rightarrow> 'w enc \<Rightarrow> ('s \<Rightarrow> ('s \<times> 'r option result) option) \<Rightarrow> 's \<Rightarrow> 'w \<Rightarrow> ('w \<times> unit result) option" where
  "encode_fallible_stream enc_record enc_flush stream_next s w =
     (case stream_next s of
        None \<Rightarrow> None
      | Some (s, Err x) \<Rightarrow> Some (w, Err x)
      | Some (s, Panic p) \<Rightarrow> Some (w, Panic p)
      | Some (s, Ok None) \<Rightarrow> Some (enc_flush w)
      | Some (s, Ok (Some record)) \<Rightarrow>
          (case enc_record record w of
             (w, Ok _) \<Rightarrow> encode_fallible_stream enc_record enc_flush stream_next s w
           | (w, Err x) \<Rightarrow> Some (w, Err x)
           | (w, Panic p) \<Rightarrow> Some (w, Panic p)))"

fun dyn_encode_stream ::
  "('w, 'z, 'c, 'd) encode_env \<Rightarrow> 'r DbnEncodable \<Rightarrow> ('s \<Rightarrow> ('s \<times> 'r option result) option) \<Rightarrow> 's
   \<Rightarrow> (('w, 'z) DynWriter, 'c) DynEncoder \<Rightarrow> ((('w, 'z) DynWriter, 'c) DynEncoder \<times> unit result) option" where
  "dyn_encode_stream E R stream_next s (DynEncoder_Dbn w) =
     map_option (apfst DynEncoder_Dbn)
       (encode_fallible_stream (encode_record (encodable_type R) (env_dyn E)) (encoder_flush (env_dyn E)) stream_next s w)"
| "dyn_encode_stream E R stream_next s (DynEncoder_Csv e) =
     map_option (apfst DynEncoder_Csv) (csv_encode_stream (env_csv E) (encodable_csv R) stream_next s e)"
| "dyn_encode_stream E R stream_next s (DynEncoder_Json e) =
     map_option (apfst DynEncoder_Json)
       (encode_fallible_stream (json_encode_record (env_json E) (env_dyn E) (encodable_json R))
          (json_flush (env_dyn E) ''flushing output'') stream_next s e)"

text \<open>The method with a limit is the trait's default, also for CSV.\<close>

definition dyn_encode_decoded_with_limit ::
  "('w, 'z, 'c, 'd) encode_env \<Rightarrow> ('d, 's) decoder_ops \<Rightarrow> u64 \<Rightarrow> 's \<Rightarrow> (('w, 'z) DynWriter, 'c) DynEncoder
   \<Rightarrow> ((('w, 'z) DynWriter, 'c) DynEncoder \<times> unit result) result option" where
  "dyn_encode_decoded_with_limit E D limit s =
     encode_decoded_with_limit (decode_record_ref D) (dyn_encode_record_ref_ts_out E) (dyn_flush E)
       (md_ts_out (dec_md D s)) limit s"

fun dyn_encode_record_with_sym ::
  "('w, 'z, 'c, 'd) encode_env \<Rightarrow> 'r DbnEncodable \<Rightarrow> 'r \<Rightarrow> string option \<Rightarrow> (('w, 'z) DynWriter, 'c) DynEncoder enc" where
  "dyn_encode_record_with_sym E R record sym_text (DynEncoder_Dbn w) =
     apfst DynEncoder_Dbn (encode_record (encodable_type R) (env_dyn E) record w)"
| "dyn_encode_record_with_sym E R record sym_text (DynEncoder_Csv e) =
     apfst DynEncoder_Csv (csv_encode_record_with_sym (env_csv E) (encodable_csv R) sym_text record e)"
| "dyn_encode_record_with_sym E R record sym_text (DynEncoder_Json e) =
     apfst DynEncoder_Json (json_encode_record_with_sym (env_json E) (env_dyn E) (encodable_json R) sym_text record e)"

text \<open>The bytes of the struct that a dispatch hands to its handler, with or without a send timestamp.\<close>

definition struct_of :: "'r record_type \<Rightarrow> bool \<Rightarrow> bytes \<Rightarrow> bytes result" where
  "struct_of T ts_out record =
     (if ts_out then handle (with_ts_out_type T) (as_ref (with_ts_out_type T)) record
      else handle T (as_ref T) record)"

primrec kind_struct :: "record_kind \<Rightarrow> bool \<Rightarrow> bytes \<Rightarrow> bytes result" where
  "kind_struct Kind_TradeMsg = struct_of TradeMsg_type"
| "kind_struct Kind_Mbp1Msg = struct_of Mbp1Msg_type"
| "kind_struct Kind_Mbp10Msg = struct_of Mbp10Msg_type"
| "kind_struct Kind_OhlcvMsg = struct_of OhlcvMsg_type"
| "kind_struct Kind_ImbalanceMsg = struct_of ImbalanceMsg_type"
| "kind_struct Kind_StatusMsg = struct_of StatusMsg_type"
| "kind_struct Kind_InstrumentDefMsgV1 = struct_of InstrumentDefMsgV1_type"
| "kind_struct Kind_InstrumentDefMsgV2 = struct_of InstrumentDefMsgV2_type"
| "kind_struct Kind_InstrumentDefMsg = struct_of InstrumentDefMsg_type"
| "kind_struct Kind_SymbolMappingMsgV1 = struct_of SymbolMappingMsgV1_type"
| "kind_struct Kind_SymbolMappingMsg = struct_of SymbolMappingMsg_type"
| "kind_struct Kind_ErrorMsgV1 = struct_of ErrorMsgV1_type"
| "kind_struct Kind_ErrorMsg = struct_of ErrorMsg_type"
| "kind_struct Kind_SystemMsgV1 = struct_of SystemMsgV1_type"
| "kind_struct Kind_SystemMsg = struct_of SystemMsg_type"
| "kind_struct Kind_StatMsgV1 = struct_of StatMsgV1_type"
| "kind_struct Kind_StatMsg = struct_of StatMsg_type"
| "kind_struct Kind_MboMsg = struct_of MboMsg_type"
| "kind_struct Kind_Cmbp1Msg = struct_of Cmbp1Msg_type"
| "kind_struct Kind_BboMsg = struct_of BboMsg_type"
| "kind_struct Kind_CbboMsg = struct_of CbboMsg_type"

definition dbn_encode_ref_ts_out_with_sym :: "'w writer \<Rightarrow> bytes \<Rightarrow> bool \<Rightarrow> 'w enc" where
  "dbn_encode_ref_ts_out_with_sym W record ts_out w =
     (case rtype_dispatch_base record of
        None \<Rightarrow> (w, Err (Conversion (dec_nat (unat (rh_rtype (rr_header record)))) ''dbn::enums::rtype::RType''))
      | Some k \<Rightarrow>
          (case kind_struct k ts_out record of
             Ok bs \<Rightarrow> put W ''serializing '' bs w
           | Err x \<Rightarrow> (w, Err x)
           | Panic p \<Rightarrow> (w, Panic p)))"

fun dyn_encode_ref_ts_out_with_sym ::
  "('w, 'z, 'c, 'd) encode_env \<Rightarrow> bytes \<Rightarrow> bool \<Rightarrow> string option \<Rightarrow> (('w, 'z) DynWriter, 'c) DynEncoder enc" where
  "dyn_encode_ref_ts_out_with_sym E record ts_out sym_text (DynEncoder_Dbn w) =
     apfst DynEncoder_Dbn (dbn_encode_ref_ts_out_with_sym (env_dyn E) record ts_out w)"
| "dyn_encode_ref_ts_out_with_sym E record ts_out sym_text (DynEncoder_Csv e) =
     apfst DynEncoder_Csv
       (csv_encode_ref_ts_out_with_sym (env_dates E) (env_clock E) (env_csv E) record ts_out sym_text e)"
| "dyn_encode_ref_ts_out_with_sym E record ts_out sym_text (DynEncoder_Json e) =
     apfst DynEncoder_Json
       (json_encode_ref_ts_out_with_sym (env_json E) (env_dates E) (env_clock E) (env_dyn E) record ts_out sym_text e)"

definition dyn_encode_ref_with_sym ::
  "('w, 'z, 'c, 'd) encode_env \<Rightarrow> bytes \<Rightarrow> string option \<Rightarrow> (('w, 'z) DynWriter, 'c) DynEncoder enc" where
  "dyn_encode_ref_with_sym E record sym_text = dyn_encode_ref_ts_out_with_sym E record False sym_text"

text \<open>What is left of the output when the encoder is dropped.\<close>

fun dyn_encoder_drop :: "('w, 'z, 'c, 'd) encode_env \<Rightarrow> (('w, 'z) DynWriter, 'c) DynEncoder \<Rightarrow> 'w" where
  "dyn_encoder_drop E (DynEncoder_Dbn w) = dyn_writer_drop (env_zstd E) w"
| "dyn_encoder_drop E (DynEncoder_Csv e) = dyn_writer_drop (env_zstd E) (env_csv_drop E (enc_writer e))"
| "dyn_encoder_drop E (DynEncoder_Json e) = dyn_writer_drop (env_zstd E) (js_writer e)"

section \<open>What is written\<close>

text \<open>What the output holds in the end, given what it held and what was written.\<close>

definition leaves :: "('w \<Rightarrow> bytes) \<Rightarrow> (bytes \<Rightarrow> bytes option) \<Rightarrow> Compression \<Rightarrow> 'w \<Rightarrow> bytes \<Rightarrow> 'w \<Rightarrow> bool" where
  "leaves contents unzip compression w bs out \<longleftrightarrow>
     (case compression of
        Compression_None \<Rightarrow> contents out = contents w @ bs
      | Compression_Zstd \<Rightarrow> \<exists>cs. contents out = contents w @ cs \<and> unzip cs = Some bs)"

text \<open>
  What the encoders rely on of their environment when no write fails: the output and the zstd encoder
  append, a dropped zstd encoder leaves a frame that decompresses to what was written, and a csv writer
  starts without records.
\<close>

locale output_env = csv_table "env_csv E" rows cur
  for E :: "('w, 'z, 'c, 'd::linorder) encode_env" and rows :: "'c \<Rightarrow> string list list" and cur :: "'c \<Rightarrow> string list" +
  fixes contents :: "'w \<Rightarrow> bytes" and zbase :: "'z \<Rightarrow> bytes" and zwritten :: "'z \<Rightarrow> bytes"
    and unzip :: "bytes \<Rightarrow> bytes option"
  assumes out_write: "\<exists>w'. write_all (env_out E) bs w = (w', True) \<and> contents w' = contents w @ bs"
    and out_flush: "\<exists>w'. flush (env_out E) w = (w', True) \<and> contents w' = contents w"
    and zstd_open: "\<exists>z. zenc_new (env_zstd E) w level = Some z \<and> zbase z = contents w \<and> zwritten z = []"
    and zstd_checksum: "\<exists>z'. zenc_include_checksum (env_zstd E) b z = Some z' \<and> zbase z' = zbase z \<and> zwritten z' = zwritten z"
    and zstd_write: "\<exists>z'. write_all (zenc_writer (env_zstd E)) bs z = (z', True) \<and> zbase z' = zbase z \<and> zwritten z' = zwritten z @ bs"
    and zstd_flush: "\<exists>z'. flush (zenc_writer (env_zstd E)) z = (z', True) \<and> zbase z' = zbase z \<and> zwritten z' = zwritten z"
    and zstd_finish: "\<exists>cs. contents (zenc_finish (env_zstd E) z) = zbase z @ cs \<and> unzip cs = Some (zwritten z)"
    and csv_open: "rows (env_csv_from E delimiter v) = []" "cur (env_csv_from E delimiter v) = []"
begin

primrec dyn_base :: "('w, 'z) DynWriter \<Rightarrow> bytes option" where
  "dyn_base (DynWriter_Uncompressed w) = None"
| "dyn_base (DynWriter_Zstd z) = Some (zbase z)"

primrec dyn_written :: "('w, 'z) DynWriter \<Rightarrow> bytes" where
  "dyn_written (DynWriter_Uncompressed w) = contents w"
| "dyn_written (DynWriter_Zstd z) = zwritten z"

lemma dyn_write: "\<exists>v'. write_all (env_dyn E) bs v = (v', True) \<and> dyn_base v' = dyn_base v \<and> dyn_written v' = dyn_written v @ bs"
proof (cases v)
  case (DynWriter_Uncompressed w)
  then show ?thesis using out_write [of bs w] by (auto simp: dyn_writer_def)
next
  case (DynWriter_Zstd z)
  then show ?thesis using zstd_write [of bs z] by (auto simp: dyn_writer_def)
qed

lemma dyn_writer_flushes: "\<exists>v'. flush (env_dyn E) v = (v', True) \<and> dyn_base v' = dyn_base v \<and> dyn_written v' = dyn_written v"
proof (cases v)
  case (DynWriter_Uncompressed w)
  then show ?thesis using out_flush [of w] by (auto simp: dyn_writer_def)
next
  case (DynWriter_Zstd z)
  then show ?thesis using zstd_flush [of z] by (auto simp: dyn_writer_def)
qed

definition writing :: "Compression \<Rightarrow> 'w \<Rightarrow> bytes \<Rightarrow> ('w, 'z) DynWriter \<Rightarrow> bool" where
  "writing compression w bs v \<longleftrightarrow>
     (case compression of
        Compression_None \<Rightarrow> dyn_base v = None \<and> dyn_written v = contents w @ bs
      | Compression_Zstd \<Rightarrow> dyn_base v = Some (contents w) \<and> dyn_written v = bs)"

lemma dyn_writer_opens: "\<exists>v. dyn_writer_new (env_zstd E) w compression = Ok v \<and> writing compression w [] v"
proof (cases compression)
  case Compression_None
  then show ?thesis by (simp add: dyn_writer_new_def writing_def)
next
  case Compression_Zstd
  obtain z where "zenc_new (env_zstd E) w ZSTD_COMPRESSION_LEVEL = Some z" "zbase z = contents w" "zwritten z = []"
    using zstd_open by blast
  moreover obtain z' where "zenc_include_checksum (env_zstd E) True z = Some z'" "zbase z' = zbase z" "zwritten z' = zwritten z"
    using zstd_checksum by blast
  ultimately show ?thesis
    using Compression_Zstd by (simp add: dyn_writer_new_def zstd_encoder_def zstd_encoder_with_clevel_def writing_def)
qed

lemma writing_append:
  assumes "writing compression w bs v"
  shows "\<exists>v'. write_all (env_dyn E) xs v = (v', True) \<and> writing compression w (bs @ xs) v'"
  using dyn_write [of xs v] assms by (auto simp: writing_def split: Compression.splits)

lemma writing_flush:
  assumes "writing compression w bs v"
  shows "\<exists>v'. flush (env_dyn E) v = (v', True) \<and> writing compression w bs v'"
  using dyn_writer_flushes [of v] assms by (auto simp: writing_def split: Compression.splits)

lemma writing_drop:
  assumes "writing compression w bs v"
  shows "leaves contents unzip compression w bs (dyn_writer_drop (env_zstd E) v)"
proof (cases v)
  case (DynWriter_Zstd z)
  then show ?thesis
    using assms zstd_finish [of z] by (auto simp: writing_def leaves_def split: Compression.splits)
qed (use assms in \<open>auto simp: writing_def leaves_def split: Compression.splits\<close>)

lemma writing_put:
  assumes "writing compression w bs v"
  shows "\<exists>v'. put (env_dyn E) c xs v = (v', Ok ()) \<and> writing compression w (bs @ xs) v'"
  using writing_append [OF assms, of xs] by (auto simp: put_def io_op_def)

lemma writing_metadata:
  assumes "writing compression w bs v" and "encodable m"
  shows "\<exists>v'. encoder_new C (env_dyn E) m v = (v', Ok ()) \<and> writing compression w (bs @ metadata_bytes C m) v'"
proof -
  have A: "appending_writer (env_dyn E) dyn_written (\<lambda>x. dyn_base x = dyn_base v)"
    using dyn_write by unfold_locales (metis prod.inject)
  have total: "\<forall>w bs'. snd (write_all (env_dyn E) bs' w)" using dyn_write by (metis snd_conv)
  have W: "appending_writer.writes (env_dyn E) dyn_written (\<lambda>x. dyn_base x = dyn_base v)
      (metadata_encode C (env_dyn E) m) (metadata_bytes C m)"
    using appending_writer.encodes_metadata [OF A, of m C] assms(2) by (simp add: appending_writer.encodes_def [OF A])
  obtain v' where v': "metadata_encode C (env_dyn E) m v = (v', Ok ())"
    using appending_writer.writes_total [OF A W total] by blast
  then show ?thesis
    using appending_writer.writesD [OF A W, of v v'] assms(1)
    by (auto simp: encoder_new_def writing_def split: Compression.splits)
qed

end

text \<open>
  The interface to the csv crate's writer on its output: a writer belongs to the delimiter and the output it
  was opened with, and dropping it between two records adds its records as lines with this delimiter.
\<close>

locale csv_output = output_env E rows cur contents zbase zwritten unzip
  for E :: "('w, 'z, 'c, 'd::linorder) encode_env" and rows :: "'c \<Rightarrow> string list list" and cur :: "'c \<Rightarrow> string list"
    and contents :: "'w \<Rightarrow> bytes" and zbase :: "'z \<Rightarrow> bytes" and zwritten :: "'z \<Rightarrow> bytes"
    and unzip :: "bytes \<Rightarrow> bytes option" +
  fixes origin :: "'c \<Rightarrow> u8 \<times> ('w, 'z) DynWriter" and csv_line :: "u8 \<Rightarrow> string list \<Rightarrow> bytes"
  assumes origin_from: "origin (env_csv_from E delimiter v) = (delimiter, v)"
    and origin_field: "origin (fst (csv_write_field (env_csv E) f c)) = origin c"
    and origin_end: "origin (fst (csv_end_record (env_csv E) c)) = origin c"
    and origin_flush: "origin (fst (csv_flush (env_csv E) c)) = origin c"
    and csv_dropped: "cur c = [] \<Longrightarrow> dyn_base (env_csv_drop E c) = dyn_base (snd (origin c)) \<and>
      dyn_written (env_csv_drop E c) = dyn_written (snd (origin c)) @ concat (map (csv_line (fst (origin c))) (rows c))"
begin

definition keeps :: "('c \<Rightarrow> 'c \<times> 'x) \<Rightarrow> bool" where
  "keeps f \<longleftrightarrow> (\<forall>c. origin (fst (f c)) = origin c)"

lemma keeps_ops:
  "keeps (csv_write_field (env_csv E) f)" "keeps (csv_end_record (env_csv E))"
  "keeps g \<Longrightarrow> keeps h \<Longrightarrow> keeps (csv_then g h)" "keeps (csv_write_fields (env_csv E) fs)"
  "keeps (\<lambda>w. case csv_flush (env_csv E) w of (w, success) \<Rightarrow> (w, if success then None else Some Csv_Io))"
proof -
  show field: "keeps (csv_write_field (env_csv E) f)" for f by (simp add: keeps_def origin_field)
  show "keeps (csv_end_record (env_csv E))" by (simp add: keeps_def origin_end)
  show seq: "keeps g \<Longrightarrow> keeps h \<Longrightarrow> keeps (csv_then g h)" for g h
    unfolding keeps_def csv_then_def by (auto split: prod.splits option.splits) (metis fst_conv)+
  show "keeps (csv_write_fields (env_csv E) fs)"
    by (induction fs) (simp_all add: seq field, simp add: keeps_def)
  show "keeps (\<lambda>w. case csv_flush (env_csv E) w of (w, success) \<Rightarrow> (w, if success then None else Some Csv_Io))"
    using origin_flush by (simp add: keeps_def split_beta)
qed

definition enc_keeps :: "'c CsvEncoder enc \<Rightarrow> bool" where
  "enc_keeps f \<longleftrightarrow> (\<forall>e. origin (enc_writer (fst (f e))) = origin (enc_writer e))"

lemma enc_keepsD: "enc_keeps f \<Longrightarrow> f e = (e', res) \<Longrightarrow> origin (enc_writer e') = origin (enc_writer e)"
  unfolding enc_keeps_def by (metis fst_conv)

lemma enc_keeps_ops:
  "enc_keeps ret" "enc_keeps (fail x)" "enc_keeps header_written"
  "keeps g \<Longrightarrow> enc_keeps (on_writer err g)"
  "enc_keeps f \<Longrightarrow> enc_keeps h \<Longrightarrow> enc_keeps (seq f h)"
proof -
  show "enc_keeps ret" "enc_keeps (fail x)" "enc_keeps header_written"
    by (simp_all add: enc_keeps_def ret_def fail_def header_written_def)
  show "keeps g \<Longrightarrow> enc_keeps (on_writer err g)"
    unfolding keeps_def enc_keeps_def on_writer_def by (auto split: prod.splits) (metis fst_conv)
  show "enc_keeps f \<Longrightarrow> enc_keeps h \<Longrightarrow> enc_keeps (seq f h)"
    unfolding enc_keeps_def seq_def by (auto split: prod.splits result.splits) (metis fst_conv)+
qed

lemma csv_header_keeps:
  "enc_keeps (csv_encode_header (env_csv E) columns with_symbol)"
  "enc_keeps (csv_encode_header_for_schema (env_csv E) version schema ts_out with_symbol)"
  by (simp_all add: csv_encode_header_for_schema_def csv_encode_header_def enc_keeps_ops keeps_ops)

lemma encode_fields_keeps:
  "enc_keeps (encode_fields (env_csv E) columns row)"
  "enc_keeps (encode_fields_with_sym (env_csv E) s columns row)"
proof -
  have "enc_keeps (seq (if b then ret else csv_encode_header (env_csv E) columns with_symbol)
      (on_writer serializing_error (csv_then (csv_write_fields (env_csv E) row) g)))" if "keeps g" for b with_symbol g
    using that by (simp add: enc_keeps_ops keeps_ops csv_header_keeps)
  then show "enc_keeps (encode_fields (env_csv E) columns row)" "enc_keeps (encode_fields_with_sym (env_csv E) s columns row)"
    using keeps_ops unfolding enc_keeps_def encode_fields_def encode_fields_with_sym_def by metis+
qed

lemma csv_encoder_keeps:
  "enc_keeps (csv_encoder_flush (env_csv E))"
  "enc_keeps (csv_checked C K (env_csv E) rtype ts_out record)"
proof -
  show "enc_keeps (csv_encoder_flush (env_csv E))"
    unfolding csv_encoder_flush_def by (intro enc_keeps_ops keeps_ops)
  have "enc_keeps (csv_encode_record_ref_ts_out C K (env_csv E) record ts_out)"
    using encode_fields_keeps(1)
    by (auto simp: enc_keeps_def csv_encode_record_ref_ts_out_def dispatch_fields_def split: option.split result.split)
  then show "enc_keeps (csv_checked C K (env_csv E) rtype ts_out record)"
    by (simp add: csv_checked_def enc_keeps_ops)
qed

lemma csv_build_origin:
  assumes "csv_build (env_csv E) (env_csv_from E) b = Ok e"
  shows "origin (enc_writer e) = (bld_delimiter b, bld_writer b)"
  using assms enc_keepsD [OF csv_header_keeps(2)]
  by (fastforce simp: csv_build_def Let_def origin_from split: if_splits option.splits prod.splits simp: and_then_eq_Ok)

text \<open>What a dropped encoder leaves between two records.\<close>

lemma csv_leaves:
  assumes "between e t" and "origin (enc_writer e) = (delimiter, v)" and "writing compression w bs v"
  shows "writing compression w (bs @ concat (map (csv_line delimiter) t)) (env_csv_drop E (enc_writer e))"
    and "bs = [] \<Longrightarrow> leaves contents unzip compression w (concat (map (csv_line delimiter) t))
      (dyn_writer_drop (env_zstd E) (env_csv_drop E (enc_writer e)))"
proof -
  show "writing compression w (bs @ concat (map (csv_line delimiter) t)) (env_csv_drop E (enc_writer e))"
    using assms csv_dropped [of "enc_writer e"] by (auto simp: writing_def between_def split: Compression.splits)
  then show "bs = [] \<Longrightarrow> leaves contents unzip compression w (concat (map (csv_line delimiter) t))
      (dyn_writer_drop (env_zstd E) (env_csv_drop E (enc_writer e)))"
    by (auto dest: writing_drop)
qed

end

section \<open>Loops over a decoder\<close>

text \<open>What every step of an encoder keeps, the loop keeps, whatever the decoder returns.\<close>

lemma encode_loop_keeps:
  fixes e :: 'w and s :: 's
  assumes "encode_decoded_loop dec enc fl left s e = Some (Ok (e', res))" and "P e"
    and "\<And>r e. P e \<Longrightarrow> P (fst (enc r e))" and "\<And>e. P e \<Longrightarrow> P (fst (fl e))"
  shows "P e'"
proof -
  define Q where "Q = (\<lambda>dec' enc' fl' (left' :: nat option) (s' :: 's) e (x :: ('w \<times> unit result) result).
    dec' = dec \<and> enc' = enc \<and> fl' = fl \<longrightarrow> P e \<longrightarrow> (\<forall>e' res. x = Ok (e', res) \<longrightarrow> P e'))"
  have kept: "P w" if "P e" "enc r e = (w, y) \<or> fl e = (w, y)" for e r w y
    using assms(3) [OF that(1), of r] assms(4) [OF that(1)] that(2) by auto
  have "Q dec enc fl left s e (Ok (e', res))"
  proof (rule encode_decoded_loop.raw_induct [where P = Q, OF _ assms(1)], goal_cases)
    case (1 f dec' enc' fl' left' s' e x)
    note IH = 1(1) [unfolded Q_def, rule_format] and step = 1(2)
    show ?case unfolding Q_def
    proof (intro impI allI)
      fix e' res
      assume same: "dec' = dec \<and> enc' = enc \<and> fl' = fl" and P: "P e" and x: "x = Ok (e', res)"
      have rec: "P e'" if "f dec enc fl l s w = Some (Ok (e', res))" "P w" for l s w
        using IH [OF that(1) _ that(2)] by blast
      from step same x P show "P e'"
        by (auto split: option.splits result.splits prod.splits if_splits) (blast intro: kept rec)+
    qed
  qed
  then show ?thesis using assms(2) by (simp add: Q_def)
qed

text \<open>A loop that encodes each record and then flushes, by an invariant on the number of records encoded.\<close>

lemma encode_loop_steps:
  assumes "yields D s refs" and "I 0 e"
    and "\<And>i e. i < length refs \<Longrightarrow> I i e \<Longrightarrow> \<exists>e'. enc (refs ! i) e = (e', Ok ()) \<and> I (Suc i) e'"
  shows "\<exists>e'. encode_decoded_loop (decode_record_ref D) enc fl None s e = Some (Ok (fl e')) \<and> I (length refs) e'"
  using assms
proof (induction refs arbitrary: s e I)
  case Nil
  then show ?case by (subst encode_decoded_loop.simps) auto
next
  case (Cons ref refs)
  obtain s' where s': "decode_record_ref D s = Some (Ok (s', Ok (Some ref)))" "yields D s' refs"
    using Cons.prems(1) by auto
  obtain d where d: "enc ref e = (d, Ok ())" "I (Suc 0) d" using Cons.prems(3) [of 0 e] Cons.prems(2) by auto
  have "\<exists>e'. enc (refs ! i) e = (e', Ok ()) \<and> I (Suc (Suc i)) e'" if "i < length refs" "I (Suc i) e" for i e
    using Cons.prems(3) [of "Suc i" e] that by simp
  then obtain e' where "encode_decoded_loop (decode_record_ref D) enc fl None s' d = Some (Ok (fl e'))" "I (Suc (length refs)) e'"
    using Cons.IH [OF s'(2), of "\<lambda>i. I (Suc i)" d] d(2) by auto
  then show ?case using s'(1) d(1) by (subst encode_decoded_loop.simps) auto
qed

lemma objectifies_dispatch:
  assumes "objectifies C K ts_out (js_pretty_px e) (js_pretty_ts e) (rr_as_ref ref) obj"
  shows "dispatch_object C K method ref ts_out e = method obj e"
proof -
  obtain k where "rtype_dispatch_base ref = Some k" "kind_json k C K ts_out (js_pretty_px e) (js_pretty_ts e) ref = Ok obj"
    using assms dispatch_append [of "rr_as_ref ref"] kind_json_append [of "rr_as_ref ref"] ref_split [of ref]
    unfolding objectifies_def by metis
  then show ?thesis by (simp add: dispatch_object_def)
qed

lemma csv_header_style:
  assumes "csv_encode_header_for_schema W version schema ts_out with_symbol e = (e', r)"
  shows "use_pretty_px e' = use_pretty_px e" "use_pretty_ts e' = use_pretty_ts e"
  using assms
  by (auto simp: csv_encode_header_for_schema_def csv_encode_header_def seq_def on_writer_def header_written_def ret_def
      split: if_splits prod.splits result.splits)

text \<open>The object of a record with its symbol.\<close>

definition with_sym :: "json_object \<Rightarrow> string option \<Rightarrow> json_object" where
  "with_sym obj sym_text = obj @ [(''symbol'', json_opt_str sym_text)]"

context output_env
begin

lemma dbn_decoded_writes:
  assumes "yields D s refs" and "writing compression w bs v"
  shows "\<exists>v'. encode_decoded (decode_record_ref D) (encode_record_ref_ts_out (env_dyn E)) (encoder_flush (env_dyn E)) ts_out s v = Some (Ok (v', Ok ())) \<and>
      writing compression w (bs @ concat (map rr_as_ref refs)) v'"
    and "\<exists>v'. encode_decoded_loop (decode_record_ref D) (encode_record_ref (env_dyn E)) ret None s v = Some (Ok (v', Ok ())) \<and>
      writing compression w (bs @ concat (map rr_as_ref refs)) v'"
proof -
  let ?I = "\<lambda>i. writing compression w (bs @ concat (map rr_as_ref (take i refs)))"
  have init: "?I 0 v" using assms(2) by simp
  have step: "\<exists>v'. encode_record_ref (env_dyn E) (refs ! i) v = (v', Ok ()) \<and> ?I (Suc i) v'" if "i < length refs" "?I i v" for i v
    using writing_put [OF that(2), of "''serializing ''" "rr_as_ref (refs ! i)"] that(1)
    by (auto simp: encode_record_ref_def take_Suc_conv_app_nth)
  obtain v' where "encode_decoded_loop (decode_record_ref D) (encode_record_ref (env_dyn E)) (encoder_flush (env_dyn E)) None s v = Some (Ok (encoder_flush (env_dyn E) v'))"
    "?I (length refs) v'"
    using encode_loop_steps [OF assms(1), where I = ?I and enc = "encode_record_ref (env_dyn E)" and fl = "encoder_flush (env_dyn E)", OF init step] by blast
  moreover obtain u where "encoder_flush (env_dyn E) v' = (u, Ok ())" "?I (length refs) u"
    using writing_flush [OF calculation(2)] by (auto simp: encoder_flush_def io_op_def)
  ultimately show "\<exists>v'. encode_decoded (decode_record_ref D) (encode_record_ref_ts_out (env_dyn E)) (encoder_flush (env_dyn E)) ts_out s v = Some (Ok (v', Ok ())) \<and>
      writing compression w (bs @ concat (map rr_as_ref refs)) v'"
    by (auto simp: encode_decoded_def encode_record_ref_ts_out_def)
  show "\<exists>v'. encode_decoded_loop (decode_record_ref D) (encode_record_ref (env_dyn E)) ret None s v = Some (Ok (v', Ok ())) \<and>
      writing compression w (bs @ concat (map rr_as_ref refs)) v'"
    using encode_loop_steps [OF assms(1), where I = ?I and enc = "encode_record_ref (env_dyn E)" and fl = ret, OF init step]
    by (auto simp: ret_def)
qed

text \<open>A JSON encoder between two lines.\<close>

definition json_writing :: "('w, 'z) DynWriter JsonEncoder \<Rightarrow> Compression \<Rightarrow> 'w \<Rightarrow> bytes \<Rightarrow> ('w, 'z) DynWriter JsonEncoder \<Rightarrow> bool" where
  "json_writing e0 compression w bs e \<longleftrightarrow>
     js_buf e = [] \<and> should_pretty_print e = should_pretty_print e0 \<and> js_pretty_px e = js_pretty_px e0 \<and>
     js_pretty_ts e = js_pretty_ts e0 \<and> writing compression w bs (js_writer e)"

lemma json_writing_object:
  assumes "json_writing e0 compression w bs e"
  shows "\<exists>e'. encode_object J (env_dyn E) obj e = (e', Ok ()) \<and> json_writing e0 compression w (bs @ json_line J e0 obj) e'"
    and "\<exists>e'. encode_object_with_sym J (env_dyn E) sym_text obj e = (e', Ok ()) \<and>
      json_writing e0 compression w (bs @ json_line J e0 (with_sym obj sym_text)) e'"
  using assms writing_append [of compression w bs "js_writer e" "json_line J e0 obj"]
    writing_append [of compression w bs "js_writer e" "json_line J e0 (with_sym obj sym_text)"]
  by (auto simp: json_writing_def encode_object_def encode_object_with_sym_def json_write_buf_def to_json_in_buf_def
      to_json_with_sym_in_buf_def json_line_def with_sym_def)

lemma json_decoded_writes:
  assumes "yields D s refs" and "json_writing e compression w bs e"
    and "list_all2 (\<lambda>ref obj. objectifies (env_dates E) (env_clock E) ts_out (js_pretty_px e) (js_pretty_ts e) (rr_as_ref ref) obj) refs objs"
    and "ts_out = md_ts_out (dec_md D s)"
  shows "\<exists>e'. json_encode_decoded J (env_dates E) (env_clock E) (env_dyn E) D s e = Some (Ok (e', Ok ())) \<and>
      json_writing e compression w (bs @ concat (map (json_line J e) objs)) e'"
proof -
  let ?I = "\<lambda>i. json_writing e compression w (bs @ concat (map (json_line J e) (take i objs)))"
  have len: "length objs = length refs" using assms(3) by (simp add: list_all2_lengthD)
  have step: "\<exists>x'. json_encode_record_ref_ts_out J (env_dates E) (env_clock E) (env_dyn E) (refs ! i) ts_out x = (x', Ok ()) \<and> ?I (Suc i) x'"
    if "i < length refs" "?I i x" for i x
  proof -
    have "objectifies (env_dates E) (env_clock E) ts_out (js_pretty_px x) (js_pretty_ts x) (rr_as_ref (refs ! i)) (objs ! i)"
      using list_all2_nthD [OF assms(3) that(1)] that(2) by (simp add: json_writing_def)
    then show ?thesis
      using json_writing_object(1) [OF that(2), of J "objs ! i"] that(1) len
      by (simp add: json_encode_record_ref_ts_out_def objectifies_dispatch take_Suc_conv_app_nth)
  qed
  obtain x where x: "encode_decoded_loop (decode_record_ref D) (\<lambda>rec. json_encode_record_ref_ts_out J (env_dates E) (env_clock E) (env_dyn E) rec ts_out)
      (json_flush (env_dyn E) ''flushing output'') None s e = Some (Ok (json_flush (env_dyn E) ''flushing output'' x))" "?I (length refs) x"
    using encode_loop_steps [OF assms(1), where I = ?I and e = e and enc = "\<lambda>rec. json_encode_record_ref_ts_out J (env_dates E) (env_clock E) (env_dyn E) rec ts_out"
        and fl = "json_flush (env_dyn E) ''flushing output''"] step assms(2) by auto
  obtain u where "json_flush (env_dyn E) ''flushing output'' x = (u, Ok ())" "?I (length refs) u"
    using writing_flush [of compression w _ "js_writer x"] x(2) by (fastforce simp: json_flush_def json_writing_def)
  then show ?thesis using x(1) len assms(4) by (simp add: json_encode_decoded_def encode_decoded_def)
qed

text \<open>A CSV encoder that the builder has opened on a schema.\<close>

lemma csv_builds:
  assumes "bld_schema b = Some schema"
  shows "\<exists>e. csv_build (env_csv E) (env_csv_from E) b = Ok e \<and> has_written_header e \<and>
    use_pretty_px e = bld_use_pretty_px b \<and> use_pretty_ts e = bld_use_pretty_ts b \<and>
    between e (if bld_write_header b
      then [ts_out_header (bld_ts_out b) (kind_header (version_kind (bld_version b) schema)) @ (if bld_with_symbol b then [''symbol''] else [])]
      else [])"
proof -
  let ?e = "\<lparr>enc_writer = env_csv_from E (bld_delimiter b) (bld_writer b), has_written_header = True,
    use_pretty_px = bld_use_pretty_px b, use_pretty_ts = bld_use_pretty_ts b\<rparr>"
  have e: "between ?e []" using csv_open by (simp add: between_def)
  obtain e' where "csv_encode_header_for_schema (env_csv E) (bld_version b) schema (bld_ts_out b) (bld_with_symbol b) ?e = (e', Ok ())"
    "has_written_header e'" "between e' [ts_out_header (bld_ts_out b) (kind_header (version_kind (bld_version b) schema)) @
      (if bld_with_symbol b then [''symbol''] else [])]"
    using header_for_schema_writes [OF e] by blast
  then show ?thesis
    using csv_header_style [of "env_csv E" "bld_version b" schema "bld_ts_out b" "bld_with_symbol b" ?e] assms e
    by (auto simp: csv_build_def Let_def)
qed

end

end
