(* ===== verification/Cli_Output.thy ===== *)
theory Cli_Output
  imports Cli_Filter Dyn_Encoder Symbol_Map
begin

text \<open>
  The output side of the command line tool: rust/dbn-cli/src/encode.rs, the output file of
  rust/dbn-cli/src/lib.rs, and how rust/dbn-cli/src/main.rs puts input, filters and output together for
  one input.

  The file system and the standard output are a parameter. A run gives the output as it is when the
  encoder has been dropped, or an error; what an aborted run leaves in its output is not kept.
\<close>

section \<open>Definitions\<close>

subsection \<open>Results\<close>

text \<open>An \<^verbatim>\<open>anyhow::Error\<close> is an error of the library or a message.\<close>

datatype 'a cli_result = Cli_Ok 'a | Cli_Dbn error | Cli_Msg string | Cli_Panic string

primrec cli_of :: "'a result \<Rightarrow> 'a cli_result" where
  "cli_of (Ok x) = Cli_Ok x"
| "cli_of (Err e) = Cli_Dbn e"
| "cli_of (Panic p) = Cli_Panic p"

definition cli_then :: "'a cli_result option \<Rightarrow> ('a \<Rightarrow> 'b cli_result option) \<Rightarrow> 'b cli_result option" where
  "cli_then x f =
     (case x of
        None \<Rightarrow> None
      | Some (Cli_Ok a) \<Rightarrow> f a
      | Some (Cli_Dbn e) \<Rightarrow> Some (Cli_Dbn e)
      | Some (Cli_Msg m) \<Rightarrow> Some (Cli_Msg m)
      | Some (Cli_Panic p) \<Rightarrow> Some (Cli_Panic p))"

text \<open>The result of a loop: its encoder, if it ended without an error.\<close>

definition cli_loop :: "('e \<times> unit result) result option \<Rightarrow> 'e cli_result option" where
  "cli_loop res = map_option (\<lambda>r. cli_of (and_then r (\<lambda>(e, x). and_then x (\<lambda>_. Ok e)))) res"

subsection \<open>The output\<close>

text \<open>\<open>open_file create create_new\<close> opens a path for writing, truncated; the result is buffered.\<close>

record 'w out_files =
  path_exists :: "string \<Rightarrow> bool"
  open_file :: "bool \<Rightarrow> bool \<Rightarrow> string \<Rightarrow> 'w option"
  std_out :: 'w

definition open_output_file :: "'w out_files \<Rightarrow> string \<Rightarrow> bool \<Rightarrow> 'w cli_result" where
  "open_output_file F path force =
     (if \<not> force \<and> path_exists F path
      then Cli_Msg ''Output file exists. Pass --force flag to overwrite the existing file.''
      else case open_file F force (\<not> force) path of
        Some w \<Rightarrow> Cli_Ok w
      | None \<Rightarrow> Cli_Msg (''Unable to open output file '' @ [CHR 0x27] @ path @ [CHR 0x27]))"

definition output_from_args :: "'w out_files \<Rightarrow> Args \<Rightarrow> 'w cli_result" where
  "output_from_args F args =
     (case args_output args of
        Some path \<Rightarrow> open_output_file F path (args_force args)
      | None \<Rightarrow> Cli_Ok (std_out F))"

definition cli_infer :: "Args \<Rightarrow> (Encoding \<times> Compression \<times> u8) cli_result" where
  "cli_infer args = (case infer_encoding args of Inl m \<Rightarrow> Cli_Msg m | Inr x \<Rightarrow> Cli_Ok x)"

subsection \<open>Encoding\<close>

text \<open>The symbol of a record reference: \<^verbatim>\<open>TsSymbolMap::get_for_rec\<close> over \<^verbatim>\<open>RecordRef\<close>'s index timestamp.\<close>

definition ts_get_for_ref :: "'d clock_ops \<Rightarrow> 'd TsSymbolMap \<Rightarrow> bytes \<Rightarrow> string option result" where
  "ts_get_for_ref K m record =
     and_then (rr_raw_index_ts record) (\<lambda>ts.
       Ok (case ts_to_date K ts of
             None \<Rightarrow> None
           | Some date \<Rightarrow> ts_get m date (rh_instrument_id (rr_header record))))"

text \<open>One round of a loop, inside the encoder.\<close>

definition with_symbol_of ::
  "'d clock_ops \<Rightarrow> 'd TsSymbolMap \<Rightarrow> (bytes \<Rightarrow> string option \<Rightarrow> 'e enc) \<Rightarrow> bytes \<Rightarrow> 'e enc" where
  "with_symbol_of K symbol_map f record e =
     (case ts_get_for_ref K symbol_map record of
        Ok s \<Rightarrow> f record s e
      | Err x \<Rightarrow> (e, Err x)
      | Panic p \<Rightarrow> (e, Panic p))"

definition encode_fragment ::
  "('w, 'z, 'c, 'd) encode_env \<Rightarrow> ('d, 's) decoder_ops \<Rightarrow> 's \<Rightarrow> 'w \<Rightarrow> Compression \<Rightarrow> 'w cli_result option" where
  "encode_fragment E D s w compression =
     cli_then (Some (cli_of (dyn_writer_new (env_zstd E) w compression))) (\<lambda>v.
     cli_then (cli_loop (encode_decoded_loop (decode_record_ref D) (encode_record_ref (env_dyn E)) ret None s v)) (\<lambda>v.
       Some (Cli_Ok (dyn_writer_drop (env_zstd E) v))))"

definition encode_from_dbn ::
  "('w, 'z, 'c, 'd::linorder) encode_env \<Rightarrow> 'w out_files \<Rightarrow> Args \<Rightarrow> ('d, 's) decoder_ops \<Rightarrow> 's \<Rightarrow> 'w cli_result option" where
  "encode_from_dbn E F args D s =
     cli_then (Some (output_from_args F args)) (\<lambda>w.
     cli_then (Some (cli_infer args)) (\<lambda>(encoding, compression, delimiter).
     if args_should_output_metadata args then
       (if encoding \<noteq> Encoding_Json then Some (Cli_Msg ''Metadata flag is only valid with JSON encoding'')
        else (case json_encode_metadata (env_json E) (env_dates E) (env_clock E) (env_out E) (dec_md D s)
                 (json_new w (args_should_pretty_print args) (args_should_pretty_print args) (args_should_pretty_print args)) of
                (e, res) \<Rightarrow> Some (cli_of (and_then res (\<lambda>_. Ok (js_writer e))))))
     else if args_fragment args then encode_fragment E D s w compression
     else
       cli_then (Some (cli_of (dyn_build E
         (dyn_with_symbol (args_map_symbols args) (dyn_all_pretty (args_should_pretty_print args)
           (dyn_write_header (args_write_header args) (dyn_delimiter delimiter
             (dyn_builder_new w encoding compression (dec_md D s)))))))) ) (\<lambda>e.
       cli_then
         (if args_map_symbols args then
            cli_then (map_option cli_of (ts_from_metadata (env_dates E) (dec_md D s))) (\<lambda>symbol_map.
              cli_loop (encode_decoded_loop (decode_record_ref D)
                (with_symbol_of (env_clock E) symbol_map
                  (\<lambda>rec. dyn_encode_ref_ts_out_with_sym E rec (md_ts_out (dec_md D s)))) ret None s e))
          else cli_loop (dyn_encode_decoded E D s e)) (\<lambda>e.
       Some (Cli_Ok (dyn_encoder_drop E e))))))"

definition dummy_metadata :: "'d Metadata" where
  "dummy_metadata =
     metadata_build (set_stype_out SType_InstrumentId (set_stype_in None (set_start 0 (set_schema None
       (set_dataset [] metadata_builder)))))"

text \<open>A round of the fragment loop: the header goes before the first record, whose type it needs.\<close>

definition write_header_for ::
  "('w, 'z, 'c, 'd) encode_env \<Rightarrow> bytes \<Rightarrow> (('w, 'z) DynWriter, 'c) DynEncoder enc" where
  "write_header_for E record e =
     (case rtype_dispatch_base record of
        None \<Rightarrow> (e, Err (Conversion (dec_nat (unat (rh_rtype (rr_header record)))) ''dbn::enums::rtype::RType''))
      | Some k \<Rightarrow>
          (case kind_struct k False record of
             Ok _ \<Rightarrow> dyn_encode_header E (kind_header k) False e
           | Err x \<Rightarrow> (e, Err x)
           | Panic p \<Rightarrow> (e, Panic p)))"

definition frag_round ::
  "('w, 'z, 'c, 'd) encode_env \<Rightarrow> bytes \<Rightarrow> ((('w, 'z) DynWriter, 'c) DynEncoder \<times> bool) enc" where
  "frag_round E record st =
     (case st of (e, header_done) \<Rightarrow>
        (case (if header_done then (e, Ok ()) else write_header_for E record e) of
           (e, Ok _) \<Rightarrow> apfst (\<lambda>e. (e, True)) (dyn_encode_record_ref E record e)
         | (e, Err x) \<Rightarrow> ((e, header_done), Err x)
         | (e, Panic p) \<Rightarrow> ((e, header_done), Panic p)))"

definition encode_from_frag ::
  "('w, 'z, 'c, 'd) encode_env \<Rightarrow> 'w out_files \<Rightarrow> Args \<Rightarrow> ('d, 's) decoder_ops \<Rightarrow> 's \<Rightarrow> 'w cli_result option" where
  "encode_from_frag E F args D s =
     cli_then (Some (output_from_args F args)) (\<lambda>w.
     cli_then (Some (cli_infer args)) (\<lambda>(encoding, compression, delimiter).
     if args_fragment args then encode_fragment E D s w compression
     else if args_should_output_metadata args then Some (Cli_Panic ''assertion failed: !args.should_output_metadata'')
     else
       cli_then (Some (cli_of (dyn_build E
         (dyn_all_pretty (args_should_pretty_print args) (dyn_write_header False (dyn_delimiter delimiter
           (dyn_builder_new w encoding compression dummy_metadata))))))) (\<lambda>e.
       cli_then (cli_loop (encode_decoded_loop (decode_record_ref D) (frag_round E) ret None s
           (e, encoding \<noteq> Encoding_Csv \<or> \<not> args_write_header args))) (\<lambda>(e, _).
       Some (Cli_Ok (dyn_encoder_drop E e))))))"

subsection \<open>Inputs\<close>

text \<open>A decoder of records alone; the dictionary's metadata are not read.\<close>

definition frag_ops :: "'d date_ops \<Rightarrow> 'b buf_ops \<Rightarrow> 'r reader \<Rightarrow> ('d, ('r, 'b) RecordDecoder) decoder_ops" where
  "frag_ops C B R =
     \<lparr>decode_record_ref = decode_ref C B R, last_rec = (\<lambda>d. last_record B (rd_fsm d)), dec_md = (\<lambda>_. dummy_metadata)\<rparr>"

text \<open>An \<^verbatim>\<open>io::Error\<close> is a message whose text is left out.\<close>

definition with_input ::
  "('w, 'z, 'c, 'd::linorder) encode_env \<Rightarrow> 'w out_files \<Rightarrow> 'b buf_ops \<Rightarrow> ('r, 'y) zstd_ops \<Rightarrow> 'r reader
   \<Rightarrow> ('r \<Rightarrow> 'r \<times> (io_error_kind + bytes)) \<Rightarrow> Args \<Rightarrow> 'r \<Rightarrow> 'w cli_result option" where
  "with_input E F B Z R fill_buf args r =
     (if args_is_input_fragment args then
        cli_then (Some (cli_of (cli_decode_frag B args r))) (\<lambda>d.
          encode_from_frag E F args (wrapped_ops (frag_ops (env_dates E) B R)) d)
      else if args_is_input_zstd_fragment args then
        cli_then (case zstd_with_buffer Z r of Some z \<Rightarrow> Some (Cli_Ok z) | None \<Rightarrow> Some (Cli_Msg [])) (\<lambda>z.
        cli_then (Some (cli_of (cli_decode_frag B args z))) (\<lambda>d.
          encode_from_frag E F args (wrapped_ops (frag_ops (env_dates E) B (zstd_reader Z))) d))
      else
        cli_then (map_option cli_of (dyn_inferred_with_buffer (env_dates E) B Z R fill_buf r (args_upgrade_policy args))) (\<lambda>d.
          encode_from_dbn E F args (wrapped_ops (dyn_ops (env_dates E) B Z R)) (cli_wrap dyn_metadata_mut args d)))"

text \<open>The inputs of a merge, opened in order; \<open>open_input\<close> is the buffered file at a path.\<close>

fun cli_collect :: "('a \<Rightarrow> 'b cli_result option) \<Rightarrow> 'a list \<Rightarrow> 'b list cli_result option" where
  "cli_collect f [] = Some (Cli_Ok [])"
| "cli_collect f (x # xs) = cli_then (f x) (\<lambda>y. cli_then (cli_collect f xs) (\<lambda>ys. Some (Cli_Ok (y # ys))))"

definition opening_error :: "string \<Rightarrow> string" where
  "opening_error path = ''opening file to decode at path '' @ [CHR 0x27] @ path @ [CHR 0x27]"

definition open_input_file :: "(string \<Rightarrow> 'r option) \<Rightarrow> string \<Rightarrow> 'r cli_result" where
  "open_input_file open_input path =
     (case open_input path of Some r \<Rightarrow> Cli_Ok r | None \<Rightarrow> Cli_Msg (opening_error path))"

definition merge_frag_ops :: "('d, 's) decoder_ops \<Rightarrow> ('d, 's MergeRecordDecoder) decoder_ops" where
  "merge_frag_ops D =
     \<lparr>decode_record_ref = merge_decode_record_ref D,
      last_rec = (\<lambda>m. case merge_last_record D m of Ok x \<Rightarrow> x | _ \<Rightarrow> None), dec_md = (\<lambda>_. dummy_metadata)\<rparr>"

definition merge_ops :: "('d, 's) decoder_ops \<Rightarrow> ('d, ('d, 's) MergeDecoder) decoder_ops" where
  "merge_ops D =
     \<lparr>decode_record_ref = merge_decoder_decode_record_ref D,
      last_rec = (\<lambda>g. case merge_last_record D (mgd_decoder g) of Ok x \<Rightarrow> x | _ \<Rightarrow> None), dec_md = mgd_metadata\<rparr>"

definition merge_metadata_mut :: "('d Metadata \<Rightarrow> 'd Metadata) \<Rightarrow> ('d, 's) MergeDecoder \<Rightarrow> ('d, 's) MergeDecoder" where
  "merge_metadata_mut g d = d\<lparr>mgd_metadata := g (mgd_metadata d)\<rparr>"

definition frag_decoder :: "'b buf_ops \<Rightarrow> Args \<Rightarrow> 'r \<Rightarrow> ('r, 'b) RecordDecoder cli_result" where
  "frag_decoder B args r =
     cli_of (record_decoder_with_version B r (args_input_version args) (args_upgrade_policy args) FRAG_TS_OUT)"

definition with_inputs ::
  "(string \<Rightarrow> string set \<Rightarrow> string list) \<Rightarrow> ('w, 'z, 'c, 'd::linorder) encode_env \<Rightarrow> 'w out_files \<Rightarrow> 'b buf_ops
   \<Rightarrow> ('r, 'y) zstd_ops \<Rightarrow> 'r reader \<Rightarrow> ('r \<Rightarrow> 'r \<times> (io_error_kind + bytes)) \<Rightarrow> (string \<Rightarrow> 'r option) \<Rightarrow> Args
   \<Rightarrow> 'w cli_result option" where
  "with_inputs order E F B Z R fill_buf open_input args =
     (if args_is_input_fragment args then
        cli_then (cli_collect (\<lambda>path. cli_then (Some (open_input_file open_input path)) (\<lambda>r. Some (frag_decoder B args r)))
            (args_input args)) (\<lambda>ds.
        cli_then (map_option cli_of (merge_new (frag_ops (env_dates E) B R) ds)) (\<lambda>m.
          encode_from_frag E F args (merge_frag_ops (frag_ops (env_dates E) B R)) m))
      else if args_is_input_zstd_fragment args then
        cli_then (cli_collect (\<lambda>path. cli_then (Some (open_input_file open_input path)) (\<lambda>r.
              case zstd_with_buffer Z r of Some z \<Rightarrow> Some (frag_decoder B args z) | None \<Rightarrow> Some (Cli_Msg [])))
            (args_input args)) (\<lambda>ds.
        cli_then (map_option cli_of (merge_new (frag_ops (env_dates E) B (zstd_reader Z)) ds)) (\<lambda>m.
          encode_from_frag E F args (merge_frag_ops (frag_ops (env_dates E) B (zstd_reader Z))) m))
      else
        cli_then (cli_collect (\<lambda>path. case open_input path of
              None \<Rightarrow> Some (Cli_Dbn (Io (opening_error path)))
            | Some r \<Rightarrow> map_option cli_of (dyn_inferred_with_buffer (env_dates E) B Z R fill_buf r (args_upgrade_policy args)))
            (args_input args)) (\<lambda>ds.
        cli_then (Some (cli_of (merge_decoder_new order (dyn_ops (env_dates E) B Z R) ds))) (\<lambda>m.
          encode_from_dbn E F args (wrapped_ops (merge_ops (dyn_ops (env_dates E) B Z R)))
            (cli_wrap merge_metadata_mut args m))))"

section \<open>Runs\<close>

lemma cli_then_simps [simp]:
  "cli_then (Some (Cli_Ok a)) f = f a" "cli_then (Some (Cli_Msg m)) f = Some (Cli_Msg m)"
  "cli_then (Some (Cli_Dbn x)) f = Some (Cli_Dbn x)" "cli_then (Some (Cli_Panic p)) f = Some (Cli_Panic p)"
  by (simp_all add: cli_then_def)

lemma cli_loop_ok [simp]: "cli_loop (Some (Ok (e, Ok u))) = Some (Cli_Ok e)"
  by (simp add: cli_loop_def)

lemma in_encoder_ok [simp]: "in_encoder f (Some (Ok (e, r))) = Some (Ok (f e, r))"
  by (simp add: in_encoder_def)

text \<open>The builder that the tool configures.\<close>

lemmas builder_simps = dyn_builder_new_def dyn_with_symbol_def dyn_all_pretty_def dyn_write_header_def dyn_delimiter_def
  dyn_use_pretty_ts_def dyn_use_pretty_px_def dyn_should_pretty_print_def

text \<open>\<open>outputs F args w encoding compression delimiter\<close>: what the arguments say of the output.\<close>

definition outputs :: "'w out_files \<Rightarrow> Args \<Rightarrow> 'w \<Rightarrow> Encoding \<Rightarrow> Compression \<Rightarrow> u8 \<Rightarrow> bool" where
  "outputs F args w encoding compression delimiter \<longleftrightarrow>
     output_from_args F args = Cli_Ok w \<and> infer_encoding args = Inr (encoding, compression, delimiter)"

context output_env
begin

lemma fragment_writes:
  assumes "yields D s refs"
  shows "\<exists>out. encode_fragment E D s w compression = Some (Cli_Ok out) \<and>
    leaves contents unzip compression w (concat (map rr_as_ref refs)) out"
proof -
  obtain v where v: "dyn_writer_new (env_zstd E) w compression = Ok v" "writing compression w [] v"
    using dyn_writer_opens by blast
  obtain v' where "encode_decoded_loop (decode_record_ref D) (encode_record_ref (env_dyn E)) ret None s v = Some (Ok (v', Ok ()))"
    "writing compression w (concat (map rr_as_ref refs)) v'"
    using dbn_decoded_writes(2) [OF assms v(2)] by auto
  then show ?thesis using v(1) writing_drop by (auto simp: encode_fragment_def)
qed

lemma from_dbn_metadata:
  assumes "outputs F args w encoding compression delimiter" and "args_should_output_metadata args"
  shows "if encoding = Encoding_Json
    then \<exists>out. encode_from_dbn E F args D s = Some (Cli_Ok out) \<and>
      contents out = contents w @ as_bytes (env_json E (args_should_pretty_print args)
        (json_metadata (env_dates E) (env_clock E) (args_should_pretty_print args) (dec_md D s)) @ [CHR 0x0A])
    else encode_from_dbn E F args D s = Some (Cli_Msg ''Metadata flag is only valid with JSON encoding'')"
proof (cases "encoding = Encoding_Json")
  case True
  let ?line = "as_bytes (env_json E (args_should_pretty_print args)
        (json_metadata (env_dates E) (env_clock E) (args_should_pretty_print args) (dec_md D s)) @ [CHR 0x0A])"
  obtain w' where w': "write_all (env_out E) ?line w = (w', True)" "contents w' = contents w @ ?line"
    using out_write by blast
  obtain u where "flush (env_out E) w' = (u, True)" "contents u = contents w'"
    using out_flush by blast
  then show ?thesis
    using assms w' True
    by (simp add: encode_from_dbn_def outputs_def cli_infer_def json_encode_metadata_def seq_def json_write_buf_def
        json_flush_def json_new_def to_json_in_buf_def)
qed (use assms in \<open>simp add: encode_from_dbn_def outputs_def cli_infer_def\<close>)

lemma from_dbn_fragment:
  assumes "outputs F args w encoding compression delimiter" and "\<not> args_should_output_metadata args" and "args_fragment args"
    and "yields D s refs"
  shows "\<exists>out. encode_from_dbn E F args D s = Some (Cli_Ok out) \<and>
    leaves contents unzip compression w (concat (map rr_as_ref refs)) out"
  using assms fragment_writes [OF assms(4), of w compression]
  by (simp add: encode_from_dbn_def outputs_def cli_infer_def)

lemma from_dbn_dbn:
  assumes "outputs F args w Encoding_Dbn compression delimiter" and "\<not> args_should_output_metadata args" and "\<not> args_fragment args"
    and "\<not> args_map_symbols args" and "encodable (dec_md D s)" and "yields D s refs"
  shows "\<exists>out. encode_from_dbn E F args D s = Some (Cli_Ok out) \<and>
    leaves contents unzip compression w (metadata_bytes (env_dates E) (dec_md D s) @ concat (map rr_as_ref refs)) out"
proof -
  obtain v where v: "dyn_writer_new (env_zstd E) w compression = Ok v" "writing compression w [] v"
    using dyn_writer_opens by blast
  obtain u where u: "encoder_new (env_dates E) (env_dyn E) (dec_md D s) v = (u, Ok ())"
    "writing compression w (metadata_bytes (env_dates E) (dec_md D s)) u"
    using writing_metadata [OF v(2) assms(5), of "env_dates E"] by auto
  obtain x where "encode_decoded (decode_record_ref D) (encode_record_ref_ts_out (env_dyn E)) (encoder_flush (env_dyn E))
      (md_ts_out (dec_md D s)) s u = Some (Ok (x, Ok ()))"
    "writing compression w (metadata_bytes (env_dates E) (dec_md D s) @ concat (map rr_as_ref refs)) x"
    using dbn_decoded_writes(1) [OF assms(6) u(2)] by blast
  then show ?thesis
    using assms(1-4) v(1) u(1) writing_drop
    by (auto simp: encode_from_dbn_def outputs_def cli_infer_def dyn_build_def builder_simps)
qed

lemma from_dbn_json:
  assumes "outputs F args w Encoding_Json compression delimiter" and "\<not> args_should_output_metadata args" and "\<not> args_fragment args"
    and "\<not> args_map_symbols args" and "pretty = args_should_pretty_print args" and "yields D s refs"
    and "list_all2 (objectifies (env_dates E) (env_clock E) (md_ts_out (dec_md D s)) pretty pretty) (map rr_as_ref refs) objs"
  shows "\<exists>out. encode_from_dbn E F args D s = Some (Cli_Ok out) \<and>
    leaves contents unzip compression w (concat (map (\<lambda>obj. as_bytes (env_json E pretty obj @ [CHR 0x0A])) objs)) out"
proof -
  obtain v where v: "dyn_writer_new (env_zstd E) w compression = Ok v" "writing compression w [] v"
    using dyn_writer_opens by blast
  let ?e = "json_new v pretty pretty pretty"
  have "json_writing ?e compression w [] ?e" using v(2) by (simp add: json_writing_def json_new_def)
  moreover have "list_all2 (\<lambda>ref obj. objectifies (env_dates E) (env_clock E) (md_ts_out (dec_md D s)) (js_pretty_px ?e)
      (js_pretty_ts ?e) (rr_as_ref ref) obj) refs objs"
    using assms(7) by (simp add: json_new_def list_all2_map1)
  ultimately obtain x where "json_encode_decoded (env_json E) (env_dates E) (env_clock E) (env_dyn E) D s ?e = Some (Ok (x, Ok ()))"
    "json_writing ?e compression w (concat (map (json_line (env_json E) ?e) objs)) x"
    using json_decoded_writes [OF assms(6) _ _ refl, of ?e compression w "[]" objs "env_json E"] by auto
  moreover have "json_line (env_json E) ?e = (\<lambda>obj. as_bytes (env_json E pretty obj @ [CHR 0x0A]))"
    by (simp add: json_line_def json_new_def fun_eq_iff)
  ultimately show ?thesis
    using assms(1-5) v(1) writing_drop
    by (auto simp: encode_from_dbn_def outputs_def cli_infer_def dyn_build_def builder_simps json_writing_def)
qed

end

context csv_output
begin

lemma from_dbn_csv:
  assumes "outputs F args w Encoding_Csv compression delimiter" and "\<not> args_should_output_metadata args" and "\<not> args_fragment args"
    and "\<not> args_map_symbols args" and "pretty = args_should_pretty_print args" and "yields D s refs"
    and "md_schema (dec_md D s) = Some schema" and "ts_out = md_ts_out (dec_md D s)"
    and "k = version_kind (md_version (dec_md D s)) schema"
    and "list_all2 (renders (env_dates E) (env_clock E) schema k ts_out pretty pretty) (map rr_as_ref refs) tbl"
  shows "\<exists>out. encode_from_dbn E F args D s = Some (Cli_Ok out) \<and>
    leaves contents unzip compression w (concat (map (csv_line delimiter)
      ((if args_write_header args then [ts_out_header ts_out (kind_header k)] else []) @ tbl))) out"
proof -
  obtain v where v: "dyn_writer_new (env_zstd E) w compression = Ok v" "writing compression w [] v"
    using dyn_writer_opens by blast
  let ?b = "(csv_builder_new v)\<lparr>bld_version := md_version (dec_md D s), bld_use_pretty_px := pretty,
    bld_use_pretty_ts := pretty, bld_delimiter := delimiter, bld_write_header := args_write_header args,
    bld_ts_out := ts_out, bld_schema := Some schema, bld_with_symbol := False\<rparr>"
  let ?t = "if args_write_header args then [ts_out_header ts_out (kind_header k)] else []"
  obtain e where e: "csv_build (env_csv E) (env_csv_from E) ?b = Ok e" "has_written_header e"
    "use_pretty_px e = pretty" "use_pretty_ts e = pretty" "between e ?t"
    using csv_builds [of ?b schema] assms(9) by (simp cong: if_cong) metis
  have all: "list_all2 (\<lambda>ref row. renders (env_dates E) (env_clock E) schema k ts_out (use_pretty_px e) (use_pretty_ts e) (rr_as_ref ref) row) refs tbl"
    using assms(10) e(3,4) by (simp add: list_all2_map1)
  have head: "(if refs = [] then [] else heading e (ts_out_header ts_out (kind_header k))) = []" using e(2) by (simp add: heading_def)
  have "fits ?t (ts_out_header ts_out (kind_header k))" by (simp add: fits_def)
  then obtain x where x: "encode_decoded_loop (decode_record_ref D) (csv_checked (env_dates E) (env_clock E) (env_csv E)
        (rtype_from_schema schema) ts_out) (csv_encoder_flush (env_csv E)) None s e = Some (Ok (x, Ok ()))" "between x (?t @ tbl)"
    using loop_writes [OF assms(6) e(5) _ all, of None, unfolded head] by auto
  have "origin (enc_writer x) = (delimiter, v)"
    by (rule encode_loop_keeps [OF x(1)]) (simp_all add: csv_build_origin [OF e(1)] csv_builder_new_def csv_encoder_keeps [unfolded enc_keeps_def, rule_format])
  then have "leaves contents unzip compression w (concat (map (csv_line delimiter) (?t @ tbl)))
      (dyn_writer_drop (env_zstd E) (env_csv_drop E (enc_writer x)))"
    using csv_leaves(2) [OF x(2) _ v(2)] by blast
  moreover have "csv_encode_decoded (env_dates E) (env_clock E) (env_csv E) D s e = Some (Ok (x, Ok ()))"
    using x(1) assms(7) assms(8) [symmetric] by (simp add: csv_encode_decoded_def)
  ultimately show ?thesis
    using assms(1-5,7,8) v(1) e(1)
    by (auto simp: encode_from_dbn_def outputs_def cli_infer_def dyn_build_def builder_simps)
qed

end

section \<open>Symbols\<close>

text \<open>The symbol that the map has for a record.\<close>

definition symbol_of :: "'d clock_ops \<Rightarrow> 'd TsSymbolMap \<Rightarrow> bytes \<Rightarrow> string option" where
  "symbol_of K m v =
     (case ts_to_date K (index_of v) of None \<Rightarrow> None | Some date \<Rightarrow> ts_get m date (rh_instrument_id (rr_header v)))"

lemma ts_get_for_ref_symbol:
  assumes "indexed (rr_as_ref ref)"
  shows "ts_get_for_ref K m ref = Ok (symbol_of K m (rr_as_ref ref))"
proof -
  have "rr_header ref = rr_header (rr_as_ref ref)"
    using assms rr_header_append [of "rr_as_ref ref" "drop (rr_record_size ref) ref"] ref_split [of ref]
    by (simp add: indexed_def whole_record_def)
  then show ?thesis using indexed_ref [OF assms refl] by (simp add: ts_get_for_ref_def symbol_of_def split: option.split)
qed

lemma renders_dispatch:
  assumes "renders C K schema k ts_out (use_pretty_px e) (use_pretty_ts e) (rr_as_ref ref) row"
  shows "dispatch_fields C K method ref ts_out e = method (ts_out_header ts_out (kind_header k)) row e"
  using renders_ref [OF assms] by (simp add: dispatch_fields_def)

context output_env
begin

lemma from_dbn_json_symbols:
  assumes "outputs F args w Encoding_Json compression delimiter" and "\<not> args_should_output_metadata args" and "\<not> args_fragment args"
    and "args_map_symbols args" and "pretty = args_should_pretty_print args" and "yields D s refs"
    and "ts_from_metadata (env_dates E) (dec_md D s) = Some (Ok sm)" and "list_all indexed (map rr_as_ref refs)"
    and "list_all2 (objectifies (env_dates E) (env_clock E) (md_ts_out (dec_md D s)) pretty pretty) (map rr_as_ref refs) objs"
  shows "\<exists>out. encode_from_dbn E F args D s = Some (Cli_Ok out) \<and>
    leaves contents unzip compression w (concat (map2 (\<lambda>v obj. as_bytes (env_json E pretty (with_sym obj (symbol_of (env_clock E) sm v)) @ [CHR 0x0A]))
      (map rr_as_ref refs) objs)) out"
proof -
  obtain v where v: "dyn_writer_new (env_zstd E) w compression = Ok v" "writing compression w [] v"
    using dyn_writer_opens by blast
  let ?e = "json_new v pretty pretty pretty" and ?ts = "md_ts_out (dec_md D s)"
  let ?lines = "map2 (\<lambda>v obj. as_bytes (env_json E pretty (with_sym obj (symbol_of (env_clock E) sm v)) @ [CHR 0x0A])) (map rr_as_ref refs) objs"
  let ?I = "\<lambda>i x. \<exists>e. x = DynEncoder_Json e \<and> json_writing ?e compression w (concat (take i ?lines)) e"
  let ?enc = "with_symbol_of (env_clock E) sm (\<lambda>rec. dyn_encode_ref_ts_out_with_sym E rec ?ts)"
  have len: "length objs = length refs" using assms(9) by (auto dest: list_all2_lengthD)
  have init: "?I 0 (DynEncoder_Json ?e)" using v(2) by (simp add: json_writing_def json_new_def)
  have step: "\<exists>x'. ?enc (refs ! i) x = (x', Ok ()) \<and> ?I (Suc i) x'" if i: "i < length refs" "?I i x" for i x
  proof -
    obtain e where e: "x = DynEncoder_Json e" "json_writing ?e compression w (concat (take i ?lines)) e" using i(2) by blast
    have "objectifies (env_dates E) (env_clock E) ?ts (js_pretty_px e) (js_pretty_ts e) (rr_as_ref (refs ! i)) (objs ! i)"
      using list_all2_nthD [OF assms(9), of i] i(1) e(2) by (simp add: json_writing_def json_new_def)
    moreover have "ts_get_for_ref (env_clock E) sm (refs ! i) = Ok (symbol_of (env_clock E) sm (rr_as_ref (refs ! i)))"
      using assms(8) i(1) by (intro ts_get_for_ref_symbol) (auto simp: list_all_length)
    ultimately show ?thesis
      using json_writing_object(2) [OF e(2), of "env_json E" "symbol_of (env_clock E) sm (rr_as_ref (refs ! i))" "objs ! i"] e(1) i(1) len
      by (auto simp: with_symbol_of_def json_encode_ref_ts_out_with_sym_def objectifies_dispatch take_Suc_conv_app_nth json_line_def json_new_def)
  qed
  obtain x where "encode_decoded_loop (decode_record_ref D) ?enc ret None s (DynEncoder_Json ?e) = Some (Ok (ret x))" "?I (length refs) x"
    using encode_loop_steps [OF assms(6), where I = ?I and enc = ?enc and fl = ret, OF init step] by blast
  moreover have "take (length refs) ?lines = ?lines" using len by simp
  ultimately show ?thesis
    using assms(1-5,7) v(1) writing_drop
    by (auto simp: encode_from_dbn_def outputs_def cli_infer_def dyn_build_def builder_simps json_writing_def ret_def)
qed

end

context csv_output
begin

lemma from_dbn_csv_symbols:
  assumes "outputs F args w Encoding_Csv compression delimiter" and "\<not> args_should_output_metadata args" and "\<not> args_fragment args"
    and "args_map_symbols args" and "pretty = args_should_pretty_print args" and "yields D s refs"
    and "ts_from_metadata (env_dates E) (dec_md D s) = Some (Ok sm)" and "list_all indexed (map rr_as_ref refs)"
    and "md_schema (dec_md D s) = Some schema" and "ts_out = md_ts_out (dec_md D s)"
    and "k = version_kind (md_version (dec_md D s)) schema"
    and "list_all2 (renders (env_dates E) (env_clock E) schema k ts_out pretty pretty) (map rr_as_ref refs) tbl"
  shows "\<exists>out. encode_from_dbn E F args D s = Some (Cli_Ok out) \<and>
    leaves contents unzip compression w (concat (map (csv_line delimiter)
      ((if args_write_header args then [ts_out_header ts_out (kind_header k) @ [''symbol'']] else []) @
      map2 (\<lambda>v row. row @ [case symbol_of (env_clock E) sm v of Some t \<Rightarrow> t | None \<Rightarrow> []]) (map rr_as_ref refs) tbl))) out"
proof -
  obtain v where v: "dyn_writer_new (env_zstd E) w compression = Ok v" "writing compression w [] v"
    using dyn_writer_opens by blast
  let ?b = "(csv_builder_new v)\<lparr>bld_version := md_version (dec_md D s), bld_use_pretty_px := pretty,
    bld_use_pretty_ts := pretty, bld_delimiter := delimiter, bld_write_header := args_write_header args,
    bld_ts_out := ts_out, bld_schema := Some schema, bld_with_symbol := True\<rparr>"
  let ?t = "if args_write_header args then [ts_out_header ts_out (kind_header k) @ [''symbol'']] else []"
  let ?rows = "map2 (\<lambda>v row. row @ [case symbol_of (env_clock E) sm v of Some t \<Rightarrow> t | None \<Rightarrow> []]) (map rr_as_ref refs) tbl"
  obtain e where e: "csv_build (env_csv E) (env_csv_from E) ?b = Ok e" "has_written_header e"
    "use_pretty_px e = pretty" "use_pretty_ts e = pretty" "between e ?t"
    using csv_builds [of ?b schema] assms(11) by (simp cong: if_cong) metis
  let ?I = "\<lambda>i x. \<exists>e. x = DynEncoder_Csv e \<and> has_written_header e \<and> use_pretty_px e = pretty \<and> use_pretty_ts e = pretty \<and>
    origin (enc_writer e) = (delimiter, v) \<and> between e (?t @ take i ?rows)"
  let ?enc = "with_symbol_of (env_clock E) sm (\<lambda>rec. dyn_encode_ref_ts_out_with_sym E rec ts_out)"
  have len: "length tbl = length refs" using assms(12) by (auto dest: list_all2_lengthD)
  have init: "?I 0 (DynEncoder_Csv e)" using e csv_build_origin [OF e(1)] by (simp add: csv_builder_new_def)
  have width: "length (tbl ! i) = length (ts_out_header ts_out (kind_header k))" if "i < length refs" for i
    using list_all2_nthD [OF assms(12), of i] that kind_row_width by (auto simp: renders_def)
  have step: "\<exists>x'. ?enc (refs ! i) x = (x', Ok ()) \<and> ?I (Suc i) x'" if i: "i < length refs" "?I i x" for i x
  proof -
    obtain y where y: "x = DynEncoder_Csv y" "has_written_header y" "use_pretty_px y = pretty" "use_pretty_ts y = pretty"
      "between y (?t @ take i ?rows)" "origin (enc_writer y) = (delimiter, v)" using i(2) by blast
    let ?sym = "symbol_of (env_clock E) sm (rr_as_ref (refs ! i))"
    have "renders (env_dates E) (env_clock E) schema k ts_out (use_pretty_px y) (use_pretty_ts y) (rr_as_ref (refs ! i)) (tbl ! i)"
      using list_all2_nthD [OF assms(12), of i] i(1) y(3,4) by simp
    moreover have "ts_get_for_ref (env_clock E) sm (refs ! i) = Ok ?sym"
      using assms(8) i(1) by (intro ts_get_for_ref_symbol) (auto simp: list_all_length)
    moreover have "fits (?t @ take i ?rows) (tbl ! i @ [case ?sym of Some t \<Rightarrow> t | None \<Rightarrow> []])"
    proof (cases "args_write_header args")
      case False
      then show ?thesis
        using width [OF i(1)] width [of 0] i(1) len by (cases i; cases refs; cases tbl) (auto simp: fits_def)
    qed (use width [OF i(1)] in \<open>simp add: fits_def\<close>)
    ultimately show ?thesis
      using encode_fields_with_sym_writes [OF y(5) _ width [OF i(1), symmetric] refl, of ?sym] y(1-4,6) i(1) len
        enc_keepsD [OF encode_fields_keeps(2)]
      by (fastforce simp: with_symbol_of_def csv_encode_ref_ts_out_with_sym_def renders_dispatch take_Suc_conv_app_nth heading_def same_style_def)
  qed
  obtain x where x: "encode_decoded_loop (decode_record_ref D) ?enc ret None s (DynEncoder_Csv e) = Some (Ok (ret x))" "?I (length refs) x"
    using encode_loop_steps [OF assms(6), where I = ?I and enc = ?enc and fl = ret, OF init step] by blast
  have all: "take (length refs) ?rows = ?rows" using len by simp
  obtain y where y: "x = DynEncoder_Csv y" "leaves contents unzip compression w (concat (map (csv_line delimiter) (?t @ ?rows)))
      (dyn_writer_drop (env_zstd E) (env_csv_drop E (enc_writer y)))"
    using x(2) [unfolded all] csv_leaves(2) [OF _ _ v(2) refl] by blast
  then have "encode_from_dbn E F args D s = Some (Cli_Ok (dyn_writer_drop (env_zstd E) (env_csv_drop E (enc_writer y))))"
    using assms(1-5,7,9) assms(10) [symmetric] v(1) e(1) x(1)
    by (auto simp: encode_from_dbn_def outputs_def cli_infer_def dyn_build_def builder_simps ret_def)
  then show ?thesis using y(2) by blast
qed

end

section \<open>Fragments\<close>

lemma handle_struct: "handle T g record = Ok y \<Longrightarrow> \<exists>bs. handle T (as_ref T) record = Ok bs"
  by (cases "rr_get T record") (auto simp: handle_def split: option.splits)

lemma kind_struct_ok:
  "kind_row k C K False pretty_px pretty_ts record = Ok row \<Longrightarrow> \<exists>bs. kind_struct k False record = Ok bs"
  by (cases k) (auto simp: row_of_def struct_of_def dest: handle_struct)

text \<open>
  \<open>typed_row C K pretty v (k, row)\<close>: the bytes \<open>v\<close> are a record of the kind \<open>k\<close> with the fields \<open>row\<close>. The
  records of a fragment may have different kinds.
\<close>

definition typed_row :: "'d date_ops \<Rightarrow> 'd clock_ops \<Rightarrow> bool \<Rightarrow> bytes \<Rightarrow> record_kind \<times> string list \<Rightarrow> bool" where
  "typed_row C K pretty v x \<longleftrightarrow>
     whole_record v \<and> rtype_dispatch_base v = Some (fst x) \<and> kind_row (fst x) C K False pretty pretty v = Ok (snd x)"

lemma typed_ref:
  assumes "typed_row C K pretty (rr_as_ref ref) x"
  shows "rtype_dispatch_base ref = Some (fst x)" "kind_row (fst x) C K False pretty pretty ref = Ok (snd x)"
    "length (snd x) = length (kind_header (fst x))"
proof -
  show "rtype_dispatch_base ref = Some (fst x)" "kind_row (fst x) C K False pretty pretty ref = Ok (snd x)"
    using assms dispatch_append [of "rr_as_ref ref"] kind_row_append [of "rr_as_ref ref"] ref_split [of ref]
    unfolding typed_row_def by metis+
  then show "length (snd x) = length (kind_header (fst x))"
    using kind_row_width by (fastforce simp: ts_out_header_def)
qed

text \<open>A loop that fails at one of the records.\<close>

lemma encode_loop_fails:
  assumes "yields D s refs" and "I 0 e" and "n < length refs"
    and "\<And>i e. i < n \<Longrightarrow> I i e \<Longrightarrow> \<exists>e'. enc (refs ! i) e = (e', Ok ()) \<and> I (Suc i) e'"
    and "\<And>e. I n e \<Longrightarrow> \<exists>e'. enc (refs ! n) e = (e', Err x)"
  shows "\<exists>e'. encode_decoded_loop (decode_record_ref D) enc fl None s e = Some (Ok (e', Err x))"
  using assms
proof (induction refs arbitrary: s e I n)
  case (Cons ref refs)
  obtain s' where s': "decode_record_ref D s = Some (Ok (s', Ok (Some ref)))" "yields D s' refs"
    using Cons.prems(1) by auto
  show ?case
  proof (cases n)
    case 0
    then obtain d where "enc ref e = (d, Err x)" using Cons.prems(2) Cons.prems(5) [of e] by auto
    then show ?thesis using s'(1) by (subst encode_decoded_loop.simps) auto
  next
    case (Suc l)
    obtain d where d: "enc ref e = (d, Ok ())" "I (Suc 0) d" using Cons.prems(4) [of 0 e] Cons.prems(2) Suc by auto
    have "\<exists>e'. encode_decoded_loop (decode_record_ref D) enc fl None s' d = Some (Ok (e', Err x))"
      using Cons.IH [OF s'(2), of "\<lambda>i. I (Suc i)" d l] d(2) Cons.prems(3-5) Suc by force
    then show ?thesis using s'(1) d(1) by (subst encode_decoded_loop.simps) auto
  qed
qed simp

context output_env
begin

text \<open>A fragment written as DBN starts with the placeholder metadata.\<close>

lemma dummy_encodable: "encodable (dummy_metadata :: 'd Metadata)"
  by (simp add: dummy_metadata_def metadata_build_def set_stype_out_def set_stype_in_def set_start_def set_schema_def
      set_dataset_def metadata_builder_def encodable_def cstr_fits_def METADATA_DATASET_CSTR_LEN_def is_ascii_def)

lemma from_frag_fragment:
  assumes "outputs F args w encoding compression delimiter" and "args_fragment args" and "yields D s refs"
  shows "\<exists>out. encode_from_frag E F args D s = Some (Cli_Ok out) \<and>
    leaves contents unzip compression w (concat (map rr_as_ref refs)) out"
  using assms fragment_writes [OF assms(3), of w compression]
  by (simp add: encode_from_frag_def outputs_def cli_infer_def)

lemma from_frag_dbn:
  assumes "outputs F args w Encoding_Dbn compression delimiter" and "\<not> args_should_output_metadata args" and "\<not> args_fragment args"
    and "yields D s refs"
  shows "\<exists>out. encode_from_frag E F args D s = Some (Cli_Ok out) \<and>
    leaves contents unzip compression w (metadata_bytes (env_dates E) dummy_metadata @ concat (map rr_as_ref refs)) out"
proof -
  let ?m = "dummy_metadata :: 'd Metadata"
  obtain v where v: "dyn_writer_new (env_zstd E) w compression = Ok v" "writing compression w [] v"
    using dyn_writer_opens by blast
  obtain u where u: "encoder_new (env_dates E) (env_dyn E) ?m v = (u, Ok ())"
    "writing compression w (metadata_bytes (env_dates E) ?m) u"
    using writing_metadata [OF v(2) dummy_encodable, of "env_dates E"] by auto
  let ?I = "\<lambda>i st. \<exists>x. st = (DynEncoder_Dbn x, True) \<and>
    writing compression w (metadata_bytes (env_dates E) ?m @ concat (map rr_as_ref (take i refs))) x"
  have init: "?I 0 (DynEncoder_Dbn u, True)" using u(2) by simp
  have step: "\<exists>st'. frag_round E (refs ! i) st = (st', Ok ()) \<and> ?I (Suc i) st'" if i: "i < length refs" "?I i st" for i st
  proof -
    obtain x where x: "st = (DynEncoder_Dbn x, True)"
      "writing compression w (metadata_bytes (env_dates E) ?m @ concat (map rr_as_ref (take i refs))) x" using i(2) by blast
    show ?thesis
      using writing_put [OF x(2), of "''serializing ''" "rr_as_ref (refs ! i)"] x(1) i(1)
      by (auto simp: frag_round_def encode_record_ref_def take_Suc_conv_app_nth)
  qed
  obtain st where "encode_decoded_loop (decode_record_ref D) (frag_round E) ret None s (DynEncoder_Dbn u, True) = Some (Ok (ret st))"
    "?I (length refs) st"
    using encode_loop_steps [OF assms(4), where I = ?I and enc = "frag_round E" and fl = ret, OF init step] by blast
  then show ?thesis
    using assms(1-3) v(1) u(1) writing_drop
    by (auto simp: encode_from_frag_def outputs_def cli_infer_def dyn_build_def builder_simps ret_def)
qed

lemma from_frag_json:
  assumes "outputs F args w Encoding_Json compression delimiter" and "\<not> args_should_output_metadata args" and "\<not> args_fragment args"
    and "pretty = args_should_pretty_print args" and "yields D s refs"
    and "list_all2 (objectifies (env_dates E) (env_clock E) False pretty pretty) (map rr_as_ref refs) objs"
  shows "\<exists>out. encode_from_frag E F args D s = Some (Cli_Ok out) \<and>
    leaves contents unzip compression w (concat (map (\<lambda>obj. as_bytes (env_json E pretty obj @ [CHR 0x0A])) objs)) out"
proof -
  obtain v where v: "dyn_writer_new (env_zstd E) w compression = Ok v" "writing compression w [] v"
    using dyn_writer_opens by blast
  let ?e = "json_new v pretty pretty pretty" and ?lines = "map (\<lambda>obj. as_bytes (env_json E pretty obj @ [CHR 0x0A])) objs"
  let ?I = "\<lambda>i st. \<exists>e. st = (DynEncoder_Json e, True) \<and> json_writing ?e compression w (concat (take i ?lines)) e"
  have len: "length objs = length refs" using assms(6) by (auto dest: list_all2_lengthD)
  have init: "?I 0 (DynEncoder_Json ?e, True)" using v(2) by (simp add: json_writing_def json_new_def)
  have step: "\<exists>st'. frag_round E (refs ! i) st = (st', Ok ()) \<and> ?I (Suc i) st'" if i: "i < length refs" "?I i st" for i st
  proof -
    obtain e where e: "st = (DynEncoder_Json e, True)" "json_writing ?e compression w (concat (take i ?lines)) e" using i(2) by blast
    have "objectifies (env_dates E) (env_clock E) False (js_pretty_px e) (js_pretty_ts e) (rr_as_ref (refs ! i)) (objs ! i)"
      using list_all2_nthD [OF assms(6), of i] i(1) e(2) by (simp add: json_writing_def json_new_def)
    then show ?thesis
      using json_writing_object(1) [OF e(2), of "env_json E" "objs ! i"] e(1) i(1) len
      by (auto simp: frag_round_def json_encode_record_ref_def objectifies_dispatch take_Suc_conv_app_nth json_line_def json_new_def)
  qed
  obtain st where st: "encode_decoded_loop (decode_record_ref D) (frag_round E) ret None s (DynEncoder_Json ?e, True) = Some (Ok (ret st))"
    "?I (length refs) st"
    using encode_loop_steps [OF assms(5), where I = ?I and enc = "frag_round E" and fl = ret, OF init step] by blast
  have all: "take (length refs) ?lines = ?lines" using len by simp
  show ?thesis
    using assms(1-4) v(1) st [unfolded all] writing_drop
    by (auto simp: encode_from_frag_def outputs_def cli_infer_def dyn_build_def builder_simps json_writing_def ret_def)
qed

end

context csv_output
begin

text \<open>The encoder of a fragment after some rows; its header is written by the loop.\<close>

definition frag_writing :: "bool \<Rightarrow> u8 \<Rightarrow> ('w, 'z) DynWriter \<Rightarrow> string list list \<Rightarrow> 'c CsvEncoder \<Rightarrow> bool" where
  "frag_writing pretty delimiter v t e \<longleftrightarrow> has_written_header e \<and> use_pretty_px e = pretty \<and> use_pretty_ts e = pretty \<and>
     origin (enc_writer e) = (delimiter, v) \<and> between e t"

lemma frag_dispatch:
  assumes "typed_row (env_dates E) (env_clock E) pretty (rr_as_ref ref) x" and "frag_writing pretty delimiter v t e"
  shows "frag_round E ref (DynEncoder_Csv e, True) =
    apfst (\<lambda>e. (DynEncoder_Csv e, True)) (encode_fields (env_csv E) (kind_header (fst x)) (snd x) e)"
  using typed_ref [OF assms(1)] assms(2)
  by (simp add: frag_round_def csv_encode_record_ref_def dispatch_fields_def frag_writing_def ts_out_header_def apfst_def map_prod_def split_beta)

lemma frag_round_writes:
  assumes "typed_row (env_dates E) (env_clock E) pretty (rr_as_ref ref) x" and "frag_writing pretty delimiter v t e"
    and "fits t (snd x)"
  shows "\<exists>e'. frag_round E ref (DynEncoder_Csv e, header_done) = ((DynEncoder_Csv e', True), Ok ()) \<and>
    frag_writing pretty delimiter v (t @ (if header_done then [] else [kind_header (fst x)]) @ [snd x]) e'"
proof -
  note x = typed_ref [OF assms(1)]
  obtain bs where bs: "kind_struct (fst x) False ref = Ok bs" using kind_struct_ok [OF x(2)] by blast
  let ?t = "t @ (if header_done then [] else [kind_header (fst x)])"
  obtain d where d: "(if header_done then (e, Ok ()) else csv_encode_header (env_csv E) (kind_header (fst x)) False e) = (d, Ok ())"
    "frag_writing pretty delimiter v ?t d"
  proof (cases header_done)
    case False
    have "fits t (kind_header (fst x) @ (if False then [''symbol''] else []))" using assms(3) x(3) by (simp add: fits_def)
    moreover have "between e t" using assms(2) by (simp add: frag_writing_def)
    ultimately obtain d where "csv_encode_header (env_csv E) (kind_header (fst x)) False e = (d, Ok ())" "has_written_header d"
      "same_style e d" "between d (t @ [kind_header (fst x)])"
      using encode_header_writes [of e t "kind_header (fst x)" False] by auto
    then show thesis
      using that [of d] False assms(2) enc_keepsD [OF csv_header_keeps(1)] by (fastforce simp: frag_writing_def same_style_def)
  qed (use that [of e] assms(2) in simp)
  have start: "frag_round E ref (DynEncoder_Csv e, header_done) = frag_round E ref (DynEncoder_Csv d, True)"
    using d(1) x(1) bs by (cases header_done) (auto simp: frag_round_def write_header_for_def)
  have "fits ?t (snd x)" "between d ?t" "has_written_header d"
    using assms(3) x(3) d(2) by (cases t; auto simp: fits_def frag_writing_def)+
  then obtain e' where e': "encode_fields (env_csv E) (kind_header (fst x)) (snd x) d = (e', Ok ())" "has_written_header e'"
    "same_style d e'" "between e' (?t @ [snd x])"
    using encode_fields_writes [of d ?t "snd x" "kind_header (fst x)"] x(3) by (auto simp: heading_def)
  then show ?thesis
    using d(2) enc_keepsD [OF encode_fields_keeps(1) e'(1)] unfolding start frag_dispatch [OF assms(1) d(2)]
    by (auto simp: frag_writing_def same_style_def)
qed

lemma frag_round_fails:
  assumes "typed_row (env_dates E) (env_clock E) pretty (rr_as_ref ref) x" and "frag_writing pretty delimiter v t e"
    and "\<not> fits t (snd x)"
  shows "\<exists>st. frag_round E ref (DynEncoder_Csv e, True) = (st, Err (Encode ''failed to serialize : ''))"
proof -
  have "between e t" "has_written_header e" using assms(2) by (simp_all add: frag_writing_def)
  then show ?thesis
    using encode_fields_unequal [OF _ _ assms(3), of e "kind_header (fst x)"] unfolding frag_dispatch [OF assms(1,2)] by auto
qed

text \<open>What a fragment's table holds after \<open>i\<close> records, and the state of the loop there.\<close>

definition frag_table :: "bool \<Rightarrow> (record_kind \<times> string list) list \<Rightarrow> nat \<Rightarrow> string list list" where
  "frag_table with_header tbl i =
     (if with_header \<and> 0 < i then [kind_header (fst (hd tbl))] else []) @ map snd (take i tbl)"

definition frag_at ::
  "bool \<Rightarrow> bool \<Rightarrow> u8 \<Rightarrow> ('w, 'z) DynWriter \<Rightarrow> (record_kind \<times> string list) list \<Rightarrow> nat
   \<Rightarrow> (('w, 'z) DynWriter, 'c) DynEncoder \<times> bool \<Rightarrow> bool" where
  "frag_at with_header pretty delimiter v tbl i st \<longleftrightarrow>
     (\<exists>e. st = (DynEncoder_Csv e, \<not> with_header \<or> 0 < i) \<and> frag_writing pretty delimiter v (frag_table with_header tbl i) e)"

lemma frag_step:
  assumes "list_all2 (typed_row (env_dates E) (env_clock E) pretty) (map rr_as_ref refs) tbl" and "i < length refs"
    and "frag_at with_header pretty delimiter v tbl i st"
  shows "if length (snd (tbl ! i)) = length (snd (hd tbl))
    then \<exists>st'. frag_round E (refs ! i) st = (st', Ok ()) \<and> frag_at with_header pretty delimiter v tbl (Suc i) st'
    else \<exists>st'. frag_round E (refs ! i) st = (st', Err (Encode ''failed to serialize : ''))"
proof -
  have len: "length tbl = length refs" using assms(1) by (auto dest: list_all2_lengthD)
  have typed: "typed_row (env_dates E) (env_clock E) pretty (rr_as_ref (refs ! j)) (tbl ! j)" if "j < length refs" for j
    using list_all2_nthD [OF assms(1), of j] that by simp
  obtain e where e: "st = (DynEncoder_Csv e, \<not> with_header \<or> 0 < i)" "frag_writing pretty delimiter v (frag_table with_header tbl i) e"
    using assms(3) by (auto simp: frag_at_def)
  have "length (snd (hd tbl)) = length (kind_header (fst (hd tbl)))"
    using typed_ref(3) [OF typed [of 0]] assms(2) len by (cases tbl; cases refs) auto
  then have fit: "fits (frag_table with_header tbl i) (snd (tbl ! i)) \<longleftrightarrow> length (snd (tbl ! i)) = length (snd (hd tbl))"
    using assms(2) len by (cases i; cases tbl) (auto simp: fits_def frag_table_def)
  show ?thesis
  proof (cases "length (snd (tbl ! i)) = length (snd (hd tbl))")
    case True
    have "frag_table with_header tbl (Suc i) = frag_table with_header tbl i @
        (if \<not> with_header \<or> 0 < i then [] else [kind_header (fst (tbl ! i))]) @ [snd (tbl ! i)]"
      using assms(2) len by (cases i; cases tbl) (auto simp: frag_table_def take_Suc_conv_app_nth)
    then show ?thesis
      using frag_round_writes [OF typed [OF assms(2)] e(2), of "\<not> with_header \<or> 0 < i"] fit e(1) True by (auto simp: frag_at_def)
  next
    case False
    then have "0 < i" using assms(2) len by (cases i; cases tbl) auto
    then show ?thesis using frag_round_fails [OF typed [OF assms(2)] e(2)] fit e(1) False by simp
  qed
qed

lemma from_frag_csv:
  assumes "outputs F args w Encoding_Csv compression delimiter" and "\<not> args_should_output_metadata args" and "\<not> args_fragment args"
    and "pretty = args_should_pretty_print args" and "yields D s refs"
    and "list_all2 (typed_row (env_dates E) (env_clock E) pretty) (map rr_as_ref refs) tbl"
  shows "if list_all (\<lambda>x. length (snd x) = length (snd (hd tbl))) tbl
    then \<exists>out. encode_from_frag E F args D s = Some (Cli_Ok out) \<and>
      leaves contents unzip compression w (concat (map (csv_line delimiter)
        ((if args_write_header args \<and> tbl \<noteq> [] then [kind_header (fst (hd tbl))] else []) @ map snd tbl))) out
    else encode_from_frag E F args D s = Some (Cli_Dbn (Encode ''failed to serialize : ''))"
proof -
  obtain v where v: "dyn_writer_new (env_zstd E) w compression = Ok v" "writing compression w [] v"
    using dyn_writer_opens by blast
  let ?e = "\<lparr>enc_writer = env_csv_from E delimiter v, has_written_header = True, use_pretty_px = pretty, use_pretty_ts = pretty\<rparr>"
  let ?h = "args_write_header args" and ?width = "length (snd (hd tbl))"
  let ?I = "frag_at ?h pretty delimiter v tbl"
  let ?loop = "encode_decoded_loop (decode_record_ref D) (frag_round E) ret None s (DynEncoder_Csv ?e, \<not> ?h)"
  have len: "length tbl = length refs" using assms(6) by (auto dest: list_all2_lengthD)
  have init: "?I 0 (DynEncoder_Csv ?e, \<not> ?h)"
    using csv_open origin_from by (simp add: frag_at_def frag_table_def frag_writing_def between_def)
  have "csv_build (env_csv E) (env_csv_from E) ((csv_builder_new v)\<lparr>bld_version := md_version dm, bld_use_pretty_px := pretty,
      bld_use_pretty_ts := pretty, bld_delimiter := delimiter, bld_write_header := False, bld_ts_out := md_ts_out dm,
      bld_schema := md_schema dm, bld_with_symbol := False\<rparr>) = Ok ?e" for dm :: "'d Metadata"
    by (simp add: csv_build_def csv_builder_new_def)
  then have run: "encode_from_frag E F args D s = cli_then (cli_loop ?loop) (\<lambda>(e, _). Some (Cli_Ok (dyn_encoder_drop E e)))"
    using assms(1-4) v(1) by (simp add: encode_from_frag_def outputs_def cli_infer_def dyn_build_def builder_simps)
  show ?thesis
  proof (cases "list_all (\<lambda>x. length (snd x) = ?width) tbl")
    case True
    then have "\<exists>st'. frag_round E (refs ! i) st = (st', Ok ()) \<and> ?I (Suc i) st'" if "i < length refs" "?I i st" for i st
      using frag_step [OF assms(6) that] that(1) len by (simp add: list_all_length)
    then obtain st where st: "?loop = Some (Ok (ret st))" "?I (length refs) st"
      using encode_loop_steps [OF assms(5), where I = ?I and enc = "frag_round E" and fl = ret, OF init] by blast
    then obtain e b where e: "st = (DynEncoder_Csv e, b)" "origin (enc_writer e) = (delimiter, v)" "between e (frag_table ?h tbl (length refs))"
      by (auto simp: frag_at_def frag_writing_def)
    have "frag_table ?h tbl (length refs) = (if ?h \<and> tbl \<noteq> [] then [kind_header (fst (hd tbl))] else []) @ map snd tbl"
      using len by (cases tbl) (auto simp: frag_table_def)
    then show ?thesis
      using True csv_leaves(2) [OF e(3,2) v(2)] st(1) e(1) unfolding run by (auto simp: cli_loop_def ret_def simp del: map_append)
  next
    case False
    then obtain n where n: "n < length refs" "length (snd (tbl ! n)) \<noteq> ?width" "\<And>i. i < n \<Longrightarrow> length (snd (tbl ! i)) = ?width"
      using exists_least_iff [of "\<lambda>i. i < length refs \<and> length (snd (tbl ! i)) \<noteq> ?width"] len by (auto simp: list_all_length)
    have "\<exists>st'. frag_round E (refs ! i) st = (st', Ok ()) \<and> ?I (Suc i) st'" if "i < n" "?I i st" for i st
      using frag_step [OF assms(6) _ that(2)] n(1) n(3) [OF that(1)] that(1) by simp
    moreover have "\<exists>st'. frag_round E (refs ! n) st = (st', Err (Encode ''failed to serialize : ''))" if "?I n st" for st
      using frag_step [OF assms(6) n(1) that] n(2) by simp
    ultimately obtain st where "?loop = Some (Ok (st, Err (Encode ''failed to serialize : '')))"
      using encode_loop_fails [OF assms(5), where I = ?I and enc = "frag_round E" and fl = ret, OF init n(1)] by blast
    then show ?thesis using False unfolding run by (simp add: cli_loop_def)
  qed
qed

end

context csv_output
begin

lemma from_frag:
  assumes "outputs F args w encoding compression delimiter" and "\<not> args_should_output_metadata args"
    and "pretty = args_should_pretty_print args" and "yields D s refs" and "map rr_as_ref refs = kept"
  shows "if args_fragment args then
      \<exists>out. encode_from_frag E F args D s = Some (Cli_Ok out) \<and> leaves contents unzip compression w (concat kept) out
    else case encoding of
      Encoding_Dbn \<Rightarrow>
        \<exists>out. encode_from_frag E F args D s = Some (Cli_Ok out) \<and>
          leaves contents unzip compression w (metadata_bytes (env_dates E) dummy_metadata @ concat kept) out
    | Encoding_Json \<Rightarrow> \<forall>objs. list_all2 (objectifies (env_dates E) (env_clock E) False pretty pretty) kept objs \<longrightarrow>
        (\<exists>out. encode_from_frag E F args D s = Some (Cli_Ok out) \<and>
          leaves contents unzip compression w (concat (map (\<lambda>obj. as_bytes (env_json E pretty obj @ [CHR 0x0A])) objs)) out)
    | Encoding_Csv \<Rightarrow> \<forall>tbl. list_all2 (typed_row (env_dates E) (env_clock E) pretty) kept tbl \<longrightarrow>
        (if list_all (\<lambda>x. length (snd x) = length (snd (hd tbl))) tbl
         then \<exists>out. encode_from_frag E F args D s = Some (Cli_Ok out) \<and>
           leaves contents unzip compression w (concat (map (csv_line delimiter)
             ((if args_write_header args \<and> tbl \<noteq> [] then [kind_header (fst (hd tbl))] else []) @ map snd tbl))) out
         else encode_from_frag E F args D s = Some (Cli_Dbn (Encode ''failed to serialize : '')))"
proof (cases "args_fragment args")
  case True
  then show ?thesis using from_frag_fragment [OF assms(1) _ assms(4)] assms(5) by simp
next
  case False
  show ?thesis
  proof (cases encoding)
    case Encoding_Dbn
    show ?thesis unfolding Encoding_Dbn Encoding.case
      using from_frag_dbn [OF assms(1) [unfolded Encoding_Dbn] assms(2) False assms(4)] False
      by (simp only: assms(5) if_False)
  next
    case Encoding_Json
    show ?thesis unfolding Encoding_Json Encoding.case
      using from_frag_json [OF assms(1) [unfolded Encoding_Json] assms(2) False assms(3,4)] False
      by (simp only: assms(5) if_False) blast
  next
    case Encoding_Csv
    show ?thesis unfolding Encoding_Csv Encoding.case
      using from_frag_csv [OF assms(1) [unfolded Encoding_Csv] assms(2) False assms(3,4)] False
      by (simp only: assms(5) if_False) blast
  qed
qed

end

section \<open>From input to output\<close>

text \<open>
  \<open>reads_records C Z fill_buf pending zpending unz policy r m vs\<close>: the input holds a stream of one of the
  formats with the metadata \<open>m\<close>, whose records are returned as \<open>vs\<close> under the policy.
\<close>

definition reads_records ::
  "'d::linorder date_ops \<Rightarrow> ('r, 'z) zstd_ops \<Rightarrow> ('r \<Rightarrow> 'r \<times> (io_error_kind + bytes)) \<Rightarrow> ('r \<Rightarrow> bytes) \<Rightarrow> ('z \<Rightarrow> bytes)
   \<Rightarrow> (bytes \<Rightarrow> bytes option) \<Rightarrow> VersionUpgradePolicy \<Rightarrow> 'r \<Rightarrow> 'd Metadata \<Rightarrow> bytes list \<Rightarrow> bool" where
  "reads_records C Z fill_buf pending zpending unz policy r m vs \<longleftrightarrow>
     (\<exists>r' first_bytes m' ws. fill_buf r = (r', Inr first_bytes) \<and> 12 \<le> length first_bytes \<and>
        (zstd_starts_with_prefix first_bytes \<longrightarrow> first_read_ok Z zpending r') \<and>
        stream_of C unz policy m m' ws (pending r) \<and> list_all2 (upgrades policy m') ws vs \<and> list_all indexed vs)"

context dyn_reading
begin

lemmas plain_reads = plain.stream_reading_axioms
lemmas unzipped_reads = unzipped.stream_reading_axioms

end

lemma with_input_decodes:
  assumes "dyn_reading B R pending fill_buf Z zpending unz (env_dates E)"
    and "reads_records (env_dates E) Z fill_buf pending zpending unz (args_upgrade_policy args) r m vs"
    and "\<not> args_is_input_fragment args" and "\<not> args_is_input_zstd_fragment args"
  obtains s refs where "with_input E F B Z R fill_buf args r =
      encode_from_dbn E F args (wrapped_ops (dyn_ops (env_dates E) B Z R)) s"
    and "dec_md (wrapped_ops (dyn_ops (env_dates E) B Z R)) s = args_metadata args (metadata_upgrade (args_upgrade_policy args) m)"
    and "yields (wrapped_ops (dyn_ops (env_dates E) B Z R)) s refs" and "map rr_as_ref refs = args_records args vs"
    and "list_all indexed (map rr_as_ref refs)"
proof -
  note dyn = dyn_reading.dyn_wrapped_stream [OF assms(1)] dyn_reading.dyn_wrap_delivers [OF assms(1)]
    dyn_reading.dyn_wrap_metadata [OF assms(1)]
  obtain r' first_bytes m' ws where r: "fill_buf r = (r', Inr first_bytes)" "12 \<le> length first_bytes"
    "zstd_starts_with_prefix first_bytes \<longrightarrow> first_read_ok Z zpending r'"
    "stream_of (env_dates E) unz (args_upgrade_policy args) m m' ws (pending r)"
    "list_all2 (upgrades (args_upgrade_policy args) m') ws vs" "list_all indexed vs"
    using assms(2) by (auto simp: reads_records_def)
  obtain d where d: "dyn_inferred_with_buffer (env_dates E) B Z R fill_buf r (args_upgrade_policy args) = Some (Ok d)"
    "dyn_metadata d = metadata_upgrade (args_upgrade_policy args) m"
    "dyn_holds B pending zpending (args_upgrade_policy args) m' (concat ws) d"
    using dyn_reading.dyn_opens [OF assms(1) r(1,2,4)] r(3) by blast
  have "list_all whole_record vs" using r(6) by (auto simp: list_all_iff indexed_def)
  then have delivers: "limit_delivers (schema_delivers (dyn_delivers B pending zpending)) (cli_wrap dyn_metadata_mut args d) (args_records args vs)"
    using dyn(2) [OF dyn_reading.dyn_holds_delivers [OF assms(1) d(3) r(5,6)]] by blast
  obtain refs where refs: "yields (wrapped_ops (dyn_ops (env_dates E) B Z R)) (cli_wrap dyn_metadata_mut args d) refs"
    "map rr_as_ref refs = args_records args vs"
    using record_stream.delivers_yields [OF dyn(1) delivers] by blast
  have "list_all indexed (args_records args vs)" using r(6) args_records_subset by (auto simp: list_all_iff)
  moreover have "dec_md (wrapped_ops (dyn_ops (env_dates E) B Z R)) (cli_wrap dyn_metadata_mut args d) =
      args_metadata args (metadata_upgrade (args_upgrade_policy args) m)"
    using dyn(3) d(2) by (simp add: dyn_ops_def)
  moreover have "with_input E F B Z R fill_buf args r =
      encode_from_dbn E F args (wrapped_ops (dyn_ops (env_dates E) B Z R)) (cli_wrap dyn_metadata_mut args d)"
    using d(1) assms(3,4) by (simp add: with_input_def)
  ultimately show thesis
    using refs that [of "cli_wrap dyn_metadata_mut args d" refs] by simp
qed

text \<open>
  Fragments: the record decoder alone is a stream of records, as the decoder around it is.
\<close>

lemma frag_as_decoder:
  "decoder_decode_record_ref C B R \<lparr>dec_metadata = m, dec_decoder = d\<rparr> = Some (Ok (x, found)) \<longleftrightarrow>
   (\<exists>e. decode_ref C B R d = Some (Ok (e, found)) \<and> x = \<lparr>dec_metadata = m, dec_decoder = e\<rparr>)"
  by (auto simp: decoder_decode_record_ref_def and_then_eq_Ok split: option.splits)

sublocale stream_reading \<subseteq> frag: record_stream "frag_ops C B R"
    "\<lambda>d. decoder_delivers B pending \<lparr>dec_metadata = dummy_metadata :: 'd Metadata, dec_decoder = d\<rparr>"
proof
  fix d :: "('r, 'b) RecordDecoder" and x xs
  assume y: "decoder_delivers B pending \<lparr>dec_metadata = dummy_metadata :: 'd Metadata, dec_decoder = d\<rparr> (x # xs)"
  show "\<exists>d' ref. decode_record_ref (frag_ops C B R) d = Some (Ok (d', Ok (Some ref))) \<and>
      last_rec (frag_ops C B R) d' = Some ref \<and> rr_as_ref ref = x \<and> rr_raw_index_ts ref = Ok (index_of x) \<and>
      decoder_delivers B pending \<lparr>dec_metadata = dummy_metadata :: 'd Metadata, dec_decoder = d'\<rparr> xs"
    using deliver_Cons [OF y] by (auto simp: sync_ops_def frag_ops_def frag_as_decoder decoder_last_record_def)
next
  fix d :: "('r, 'b) RecordDecoder"
  assume y: "decoder_delivers B pending \<lparr>dec_metadata = dummy_metadata :: 'd Metadata, dec_decoder = d\<rparr> []"
  show "\<exists>d'. decode_record_ref (frag_ops C B R) d = Some (Ok (d', Ok None))"
    using deliver_Nil [OF y] by (auto simp: sync_ops_def frag_ops_def frag_as_decoder)
qed

text \<open>
  \<open>fragment_of unz args bs vs\<close>: the bytes of the input are records alone, compressed if the arguments say so,
  which are returned as \<open>vs\<close>: they have the version that the arguments give, and no send timestamps.
\<close>

definition frag_metadata :: "Args \<Rightarrow> 'd Metadata" where
  "frag_metadata args = dummy_metadata\<lparr>md_version := args_input_version args, md_ts_out := FRAG_TS_OUT\<rparr>"

definition fragment_of :: "(bytes \<Rightarrow> bytes option) \<Rightarrow> Args \<Rightarrow> bytes \<Rightarrow> bytes list \<Rightarrow> bool" where
  "fragment_of unz args bs vs \<longleftrightarrow>
     1 \<le> args_input_version args \<and> args_input_version args \<le> DBN_VERSION \<and> list_all indexed vs \<and>
     (\<exists>ws. (if args_is_input_fragment args then Some bs else unz bs) = Some (concat ws) \<and>
        list_all2 (upgrades (args_upgrade_policy args) (frag_metadata args :: unit Metadata)) ws vs)"

context stream_reading
begin

lemma frag_opens:
  assumes "1 \<le> args_input_version args" and "args_input_version args \<le> DBN_VERSION" and "list_all indexed vs"
    and "pending r = concat ws" and "list_all2 (upgrades (args_upgrade_policy args) (frag_metadata args :: unit Metadata)) ws vs"
  obtains s refs where "cli_decode_frag B args r = Ok s" and "yields (wrapped_ops (frag_ops C B R)) s refs"
    and "map rr_as_ref refs = args_records args vs"
proof -
  let ?policy = "args_upgrade_policy args" and ?m = "frag_metadata args :: 'd Metadata"
  have m: "md_version ?m = args_input_version args" "md_ts_out ?m = FRAG_TS_OUT" by (simp_all add: frag_metadata_def)
  have valid: "validate_compatibility ?policy (args_input_version args) = Ok ()"
    by (simp add: validate_compatibility_def args_upgrade_policy_def)
  have version: "dbn_version_try_from (args_input_version args) = Ok (args_input_version args)"
    using assms(1,2) by (simp add: dbn_version_try_from_def)
  obtain d where d: "record_decoder_with_version B r (args_input_version args) ?policy FRAG_TS_OUT = Ok d" "dec_inv B d"
    "dec_abs B pending d = after_metadata ?policy ?m (concat ws)"
    using assms(4)
    by (simp add: record_decoder_with_version_def builder_input_dbn_version_def version valid builder_skip_metadata_def
        builder_compat_size_def fsm_builder_def builder_ts_out_def builder_upgrade_policy_def fsm_build_def dec_inv_def fsm_inv_def roomy_def has_decoded_metadata_def DEFAULT_BUF_SIZE_def
        dec_abs_def fsm_abs_def feed_def after_metadata_def m buf_simps)
  have "upgrades ?policy ?m = upgrades ?policy (frag_metadata args :: unit Metadata)"
    by (simp add: upgrades_def fun_eq_iff frag_metadata_def)
  then have "list_all2 (upgrades ?policy ?m) ws vs" using assms(5) by simp
  then have "decoder_delivers B pending \<lparr>dec_metadata = dummy_metadata :: 'd Metadata, dec_decoder = d\<rparr> vs"
    using d(2,3) assms(3) unfolding decoder_delivers_def by (auto intro!: exI [of _ ?policy] exI [of _ ?m] exI [of _ ws])
  moreover have "list_all whole_record vs" using assms(3) by (auto simp: list_all_iff indexed_def)
  ultimately obtain refs where "yields (wrapped_ops (frag_ops C B R)) (cli_wrap_frag args d) refs"
    "map rr_as_ref refs = args_records args vs"
    using record_stream.delivers_yields [OF frag.wrapped_stream frag.wrap_frag_delivers] by blast
  then show thesis using that [of "cli_wrap_frag args d" refs] d(1) by (simp add: cli_decode_frag_def)
qed

end

section \<open>A sample environment\<close>

text \<open>An encoder of stored frames, and a csv writer that keeps its table in memory until it is dropped.\<close>

definition stored_encoder :: "(bytes, bytes \<times> bytes) zstd_enc_ops" where
  "stored_encoder =
     \<lparr>zenc_new = (\<lambda>w _. Some (w, [])), zenc_include_checksum = (\<lambda>_. Some),
      zenc_writer = \<lparr>write_all = (\<lambda>bs (w, z). ((w, z @ bs), True)), flush = (\<lambda>z. (z, True)),
        seek_start = (\<lambda>_ z. (z, False)), seek_end = (\<lambda>z. (z, False))\<rparr>,
      zenc_get_mut = apfst, zenc_finish = (\<lambda>(w, z). w @ put_u32 ZSTD_MAGIC_NUMBER @ z)\<rparr>"

definition csv_text :: "u8 \<Rightarrow> string list \<Rightarrow> bytes" where
  "csv_text delimiter row = concat (map (\<lambda>f. as_bytes f @ [delimiter]) row) @ [10]"

definition kept_table :: "('v \<times> string list list \<times> string list) csv_writer" where
  "kept_table =
     \<lparr>csv_write_field = (\<lambda>f (v, t). apfst (Pair v) (csv_write_field table_writer f t)),
      csv_end_record = (\<lambda>(v, t). apfst (Pair v) (csv_end_record table_writer t)),
      csv_flush = (\<lambda>w. (w, True))\<rparr>"

definition sample_env ::
  "(bytes, bytes \<times> bytes, (u8 \<times> (bytes, bytes \<times> bytes) DynWriter) \<times> string list list \<times> string list, gdate) encode_env" where
  "sample_env =
     \<lparr>env_dates = gregorian, env_clock = unix_clock, env_json = sample_json_writer, env_out = vec_writer,
      env_zstd = stored_encoder, env_csv = kept_table, env_csv_from = (\<lambda>delimiter v. ((delimiter, v), [], [])),
      env_csv_drop = (\<lambda>((delimiter, v), t, _).
        fst (write_all (dyn_writer vec_writer stored_encoder) (concat (map (csv_text delimiter) t)) v))\<rparr>"

lemma sample_env_simps [simp]:
  "env_dates sample_env = gregorian" "env_clock sample_env = unix_clock" "env_json sample_env = sample_json_writer"
  by (simp_all add: sample_env_def)

interpretation sample_out: output_env sample_env "\<lambda>c. fst (snd c)" "\<lambda>c. snd (snd c)" "\<lambda>w. w" fst snd unstore
  by unfold_locales (auto simp: sample_env_def kept_table_def table_writer_def vec_writer_def stored_encoder_def)

interpretation sample_csv: csv_output sample_env "\<lambda>c. fst (snd c)" "\<lambda>c. snd (snd c)" "\<lambda>w. w" fst snd unstore fst csv_text
proof
  fix c :: "(u8 \<times> (bytes, bytes \<times> bytes) DynWriter) \<times> string list list \<times> string list"
  show "sample_out.dyn_base (env_csv_drop sample_env c) = sample_out.dyn_base (snd (fst c)) \<and>
      sample_out.dyn_written (env_csv_drop sample_env c) =
        sample_out.dyn_written (snd (fst c)) @ concat (map (csv_text (fst (fst c))) (fst (snd c)))"
    by (cases c; cases "snd (fst c)") (auto simp: sample_env_def dyn_writer_def vec_writer_def stored_encoder_def)
qed (auto simp: sample_env_def kept_table_def table_writer_def)

definition sample_files :: "bytes out_files" where
  "sample_files = \<lparr>path_exists = (\<lambda>_. False), open_file = (\<lambda>_ _ _. Some []), std_out = []\<rparr>"

text \<open>A quote of an instrument on a day that the sample metadata map.\<close>

definition sample_quote :: Mbp1Msg where
  "sample_quote = Mbp1Msg_default
     \<lparr>mbp1_hd := (mbp1_hd Mbp1Msg_default)\<lparr>rh_instrument_id := 17077\<rparr>, mbp1_ts_recv := 1709164800000000000\<rparr>"

abbreviation sample_bytes :: bytes where
  "sample_bytes \<equiv> put_Mbp1Msg sample_quote"

lemma sample_quote_ok: "well_formed Mbp1Msg_type sample_quote" "rh_rtype (mbp1_hd sample_quote) = rtype_as_u8 RType_Mbp1"
  using Mbp1Msg_default_ok Mbp1Msg_default_rtype
  by (simp_all add: sample_quote_def well_formed_def Mbp1Msg_type_def Mbp1Msg_ok_def header_record_size_def)

lemma sample_quote_renders:
  "renders gregorian unix_clock Schema_Mbp1 Kind_Mbp1Msg False pretty_px pretty_ts sample_bytes
     (csv_fields_Mbp1Msg gregorian unix_clock pretty_px pretty_ts sample_quote)"
  "objectifies gregorian unix_clock False pretty_px pretty_ts sample_bytes
     (json_fields_Mbp1Msg gregorian unix_clock pretty_px pretty_ts sample_quote)"
  using mbp1_renders [OF sample_quote_ok, of gregorian unix_clock pretty_px pretty_ts]
    mbp1_object [OF sample_quote_ok(1), of gregorian unix_clock pretty_px pretty_ts]
  by (simp_all add: objectifies_def renders_def Mbp1Msg_type_def)

lemma sample_quote_view:
  "index_of sample_bytes = 1709164800000000000" "indexed sample_bytes" "rr_header sample_bytes = mbp1_hd sample_quote"
  "rr_as_ref sample_bytes = sample_bytes"
proof -
  have ts: "rr_raw_index_ts sample_bytes = Ok 1709164800000000000"
    using raw_index_ts_view [of "RecordEnum_Mbp1 sample_quote" "[]"] sample_quote_ok(1)
    by (simp add: Mbp1Msg_type_def sample_quote_def)
  then show "index_of sample_bytes = 1709164800000000000" "indexed sample_bytes"
    using sample_quote_renders(1) by (simp_all add: index_of_def indexed_def renders_def)
  show "rr_header sample_bytes = mbp1_hd sample_quote"
    using mbp1_record.well_formed_view(1) [OF sample_quote_ok(1), of "[]"] by (simp add: Mbp1Msg_type_def)
  show "rr_as_ref sample_bytes = sample_bytes"
    using mbp1_record.well_formed_view(2) [OF sample_quote_ok(1), of "[]"] mbp1_record.layout.length_put [of sample_quote]
      sample_quote_ok(1) by (simp add: Mbp1Msg_type_def rr_as_ref_def well_formed_def)
qed

lemma sample_quote_date: "to_date unix_clock 1709164800000000000 = gdate_of 2024 2 29"
proof -
  have "day_of (gdate_of 2024 2 29) = 19782"
    using month_days_Suc [of 1 2024] month_days_1 [of 2024]
    by (simp add: day_of_parts valid_ymd_def days_in_month_def is_leap_def year_days_def)
  moreover have "day_of (to_date unix_clock 1709164800000000000) = 19782"
    using day_of_to_date [of 1709164800000000000] by (simp add: nanos_per_day_def)
  ultimately show ?thesis using day_of_le_iff by (metis order_antisym order_refl)
qed

text \<open>A stream with a record of another schema before two quotes, read in pieces.\<close>

definition sample_input :: "(nat list \<times> bytes) BufReader" where
  "sample_input = buf_reader_new ([100, 1],
     metadata_bytes gregorian (sample_metadata 3) @ put_MboMsg (mbo_at 7) @ sample_bytes @ sample_bytes)"

lemma sample_reads:
  "reads_records gregorian (stored_zstd (br_pending snd)) (buf_reader_fill_buf piece_reader) (br_pending snd) snd unstore
     VersionUpgradePolicy_AsIs sample_input (sample_metadata 3) [put_MboMsg (mbo_at 7), sample_bytes, sample_bytes]"
proof -
  let ?m = "sample_metadata 3" and ?u = "put_MboMsg (mbo_at 7)"
  let ?bs = "metadata_bytes gregorian ?m @ ?u @ sample_bytes @ sample_bytes"
  have "upgrades VersionUpgradePolicy_AsIs ?m sample_bytes sample_bytes" "upgrades VersionUpgradePolicy_AsIs ?m ?u ?u"
    using upgrades_same(1) [OF mbp1_record.dbn_record_axioms sample_quote_ok(1), of ?m VersionUpgradePolicy_AsIs]
      upgrades_same(1) [OF mbo_record.dbn_record_axioms mbo_at_ok, of ?m VersionUpgradePolicy_AsIs 7]
    by (simp_all add: sample_version DBN_VERSION_def upgrade_for_def is_upgrade_situation_def Mbp1Msg_type_def MboMsg_type_def)
  moreover have "100 \<le> length ?bs" using gregorian.streamable_length [OF sample_streamable(1)] by simp
  then have "buf_reader_fill_buf piece_reader sample_input = (\<lparr>br_buf = take 100 ?bs, br_inner = ([1], drop 100 ?bs)\<rparr>, Inr (take 100 ?bs))"
    "12 \<le> length (take 100 ?bs)"
    by (simp_all add: buf_reader_fill_buf_def buf_reader_new_def piece_reader_def BUF_READER_CAPACITY_def sample_input_def)
  moreover have "stream_of gregorian unstore VersionUpgradePolicy_AsIs ?m ?m [?u, sample_bytes, sample_bytes] (br_pending snd sample_input)"
    using stream_of.Plain [OF sample_streamable(1), of unstore "[?u, sample_bytes, sample_bytes]"]
    by (simp add: br_pending_def buf_reader_new_def sample_input_def)
  ultimately show ?thesis
    using stored_first_read sample_quote_view(2) unfolding reads_records_def by fastforce
qed

text \<open>Arguments that ask for the first record of a schema as a compressed fragment.\<close>

definition sample_args :: Args where
  "sample_args =
     \<lparr>args_input = [''-''], args_output = None, args_json = False, args_csv = False, args_tsv = False, args_dbn = False,
      args_fragment = True, args_zstd = True, args_should_upgrade = False, args_force = False,
      args_should_output_metadata = False, args_should_pretty_print = False, args_map_symbols = False,
      args_limit = Some 1, args_is_input_fragment = False, args_is_input_zstd_fragment = False,
      args_input_dbn_version_override = None, args_schema_filter = Some Schema_Mbp1, args_write_header = True\<rparr>"

lemma sample_args_records:
  assumes "args_schema_filter args = Some Schema_Mbp1" and "args_limit args = Some 1"
  shows "args_records args [put_MboMsg (mbo_at 7), sample_bytes, sample_bytes] = [sample_bytes]"
proof -
  have "rh_rtype (rr_header (put_MboMsg (mbo_at 7))) = rtype_as_u8 RType_Mbo"
    using mbo_record.well_formed_view(1) [OF mbo_at_ok, of 7 "[]"] by (simp add: MboMsg_type_def mbo_at_def MboMsg_default_def)
  then show ?thesis
    using assms sample_quote_view(3) sample_quote_ok(2) by (simp add: args_records_def rtype_from_schema_def)
qed

text \<open>Arguments for a fragment written as a table, and an order, whose record has other columns than a quote.\<close>

definition frag_args :: Args where
  "frag_args = sample_args\<lparr>args_fragment := False, args_zstd := False, args_is_input_fragment := True, args_csv := True,
     args_limit := None, args_schema_filter := None\<rparr>"

lemma sample_order:
  "typed_row gregorian unix_clock pretty (put_MboMsg (mbo_at 7)) (Kind_MboMsg, csv_fields_MboMsg gregorian unix_clock pretty pretty (mbo_at 7))"
  "length (csv_fields_Mbp1Msg gregorian unix_clock False False sample_quote) \<noteq>
     length (csv_fields_MboMsg gregorian unix_clock False False (mbo_at 7))"
proof -
  note view = mbo_record.well_formed_view(1,2) [OF mbo_at_ok, of 7 "[]"]
  have "rh_rtype (rr_header (put_MboMsg (mbo_at 7))) = rtype_as_u8 RType_Mbo"
    using view(1) by (simp add: MboMsg_type_def mbo_at_def MboMsg_default_def)
  then have "rr_rtype (put_MboMsg (mbo_at 7)) = Some RType_Mbo"
    using rtype_of_u8 [of RType_Mbo] by (simp add: rr_rtype_def)
  moreover have "whole_record (put_MboMsg (mbo_at 7))"
    using view mbo_record.layout.length_put [of "mbo_at 7"] mbo_at_ok mbo_record.header_fits
    by (simp add: whole_record_def well_formed_def MboMsg_type_def)
  ultimately show order: "typed_row gregorian unix_clock pretty (put_MboMsg (mbo_at 7))
      (Kind_MboMsg, csv_fields_MboMsg gregorian unix_clock pretty pretty (mbo_at 7))" for pretty
    using mbo_record.rr_get_as_ref(1) [of "mbo_at 7" "[]"] mbo_at_ok
    by (simp add: typed_row_def rtype_dispatch_base_def row_of_def handle_def well_formed_def MboMsg_type_def)
  have "length (csv_fields_MboMsg gregorian unix_clock False False (mbo_at 7)) = length csv_header_MboMsg"
    using order [of False] kind_row_width [of Kind_MboMsg gregorian unix_clock False False False "put_MboMsg (mbo_at 7)"]
    by (simp add: typed_row_def ts_out_header_def)
  moreover have "length (csv_fields_Mbp1Msg gregorian unix_clock False False sample_quote) = length csv_header_Mbp1Msg"
    using sample_quote_renders(1) [of False False] kind_row_width [of Kind_Mbp1Msg gregorian unix_clock False False False sample_bytes]
    by (simp add: renders_def ts_out_header_def)
  ultimately show "length (csv_fields_Mbp1Msg gregorian unix_clock False False sample_quote) \<noteq>
     length (csv_fields_MboMsg gregorian unix_clock False False (mbo_at 7))"
    by (simp add: kind_columns level_header_eval [unfolded One_nat_def])
qed

lemma sample_fragment:
  assumes "ws = [sample_bytes, sample_bytes] \<or> ws = [put_MboMsg (mbo_at 7), sample_bytes]"
  shows "fragment_of unstore frag_args (br_pending snd (buf_reader_new (sizes, concat ws))) ws"
proof -
  let ?m = "frag_metadata frag_args :: unit Metadata" and ?policy = "args_upgrade_policy frag_args"
  have m: "md_version ?m = 3" "?policy = VersionUpgradePolicy_AsIs" "args_is_input_fragment frag_args"
    by (simp_all add: frag_metadata_def frag_args_def sample_args_def args_input_version_def DBN_VERSION_def args_upgrade_policy_def)
  have "upgrades ?policy ?m sample_bytes sample_bytes" "upgrades ?policy ?m (put_MboMsg (mbo_at 7)) (put_MboMsg (mbo_at 7))"
    using upgrades_same(1) [OF mbp1_record.dbn_record_axioms sample_quote_ok(1), of ?m ?policy]
      upgrades_same(1) [OF mbo_record.dbn_record_axioms mbo_at_ok, of ?m ?policy 7]
    by (simp_all add: m DBN_VERSION_def upgrade_for_def is_upgrade_situation_def Mbp1Msg_type_def MboMsg_type_def)
  moreover have "args_input_version frag_args = 3" by (simp add: frag_args_def sample_args_def args_input_version_def DBN_VERSION_def)
  moreover have "indexed (put_MboMsg (mbo_at 7))" by (rule mbo_at_view)
  ultimately show ?thesis
    using assms sample_quote_view(2) m(3)
    by (auto simp: fragment_of_def br_pending_def buf_reader_new_def DBN_VERSION_def intro!: exI [of _ ws])
qed

section \<open>Properties\<close>

text \<open>
  C11. The command line tool from one input to its output, when no write fails: given a stream of DBN, of
  compressed DBN or of legacy DBZ, it writes the records that the arguments ask for, as a fragment, as
  DBN after the metadata, as JSON lines or as the lines of a CSV table with the header of the schema and the
  delimiter that the arguments or the name of the output ask for, and a compressed
  output decompresses to this. With the flag for the metadata it writes them as one JSON line, which is
  never compressed, or fails for another encoding. The first buffer of the input must show at least 12 bytes,
  and for compressed DBN the decompressor's first read return at least 8; metadata written as DBN must be
  encodable, and the records of a table be of the schema.
\<close>

theorem cli_output:
  assumes "csv_output E rows cur contents zbase zwritten unzip origin csv_line"
    and "dyn_reading B R pending fill_buf Z zpending unz (env_dates E)"
    and "reads_records (env_dates E) Z fill_buf pending zpending unz (args_upgrade_policy args) r m vs"
    and "\<not> args_is_input_fragment args" and "\<not> args_is_input_zstd_fragment args" and "\<not> args_map_symbols args"
    and "outputs F args w encoding compression delimiter"
    and "md = args_metadata args (metadata_upgrade (args_upgrade_policy args) m)" and "kept = args_records args vs"
    and "pretty = args_should_pretty_print args"
  shows "if args_should_output_metadata args then
      (if encoding = Encoding_Json
       then \<exists>out. with_input E F B Z R fill_buf args r = Some (Cli_Ok out) \<and>
         contents out = contents w @ as_bytes (env_json E pretty (json_metadata (env_dates E) (env_clock E) pretty md) @ [CHR 0x0A])
       else with_input E F B Z R fill_buf args r = Some (Cli_Msg ''Metadata flag is only valid with JSON encoding''))
    else if args_fragment args then
      \<exists>out. with_input E F B Z R fill_buf args r = Some (Cli_Ok out) \<and> leaves contents unzip compression w (concat kept) out
    else case encoding of
      Encoding_Dbn \<Rightarrow> encodable md \<longrightarrow>
        (\<exists>out. with_input E F B Z R fill_buf args r = Some (Cli_Ok out) \<and>
          leaves contents unzip compression w (metadata_bytes (env_dates E) md @ concat kept) out)
    | Encoding_Json \<Rightarrow> \<forall>objs. list_all2 (objectifies (env_dates E) (env_clock E) (md_ts_out md) pretty pretty) kept objs \<longrightarrow>
        (\<exists>out. with_input E F B Z R fill_buf args r = Some (Cli_Ok out) \<and>
          leaves contents unzip compression w (concat (map (\<lambda>obj. as_bytes (env_json E pretty obj @ [CHR 0x0A])) objs)) out)
    | Encoding_Csv \<Rightarrow> \<forall>schema k tbl. md_schema md = Some schema \<and> k = version_kind (md_version md) schema \<and>
          list_all2 (renders (env_dates E) (env_clock E) schema k (md_ts_out md) pretty pretty) kept tbl \<longrightarrow>
        (\<exists>out. with_input E F B Z R fill_buf args r = Some (Cli_Ok out) \<and>
          leaves contents unzip compression w (concat (map (csv_line delimiter)
            ((if args_write_header args then [ts_out_header (md_ts_out md) (kind_header k)] else []) @ tbl))) out)"
proof -
  let ?D = "wrapped_ops (dyn_ops (env_dates E) B Z R)"
  obtain s refs where run: "with_input E F B Z R fill_buf args r = encode_from_dbn E F args ?D s" "dec_md ?D s = md"
    "yields ?D s refs" "map rr_as_ref refs = kept" "list_all indexed (map rr_as_ref refs)"
    unfolding assms(8,9) by (rule with_input_decodes [OF assms(2-5), where F = F])
  note plain = csv_output.axioms(1) [OF assms(1)]
  note env = output_env.from_dbn_metadata [OF plain assms(7), where D = ?D and s = s] output_env.from_dbn_fragment [OF plain assms(7) _ _ run(3)]
  show ?thesis
  proof (cases "args_should_output_metadata args \<or> args_fragment args")
    case True
    then show ?thesis using env run assms(10) by auto
  next
    case False
    then show ?thesis
      using output_env.from_dbn_dbn [OF plain _ _ _ assms(6) _ run(3), of F w compression delimiter]
        output_env.from_dbn_json [OF plain _ _ _ assms(6,10) run(3), of F w compression delimiter]
        csv_output.from_dbn_csv [OF assms(1) _ _ _ assms(6,10) run(3) _ refl refl, of F w compression delimiter]
        assms(7) run by (cases encoding) auto
  qed
qed

text \<open>The first quote as a compressed table with tabs.\<close>

theorem cli_output_witness:
  "\<exists>out. with_input sample_env sample_files list_buffer (stored_zstd (br_pending snd)) (buf_reader piece_reader)
      (buf_reader_fill_buf piece_reader) (sample_args\<lparr>args_fragment := False, args_tsv := True\<rparr>) sample_input = Some (Cli_Ok out) \<and>
    unstore out = Some (csv_text 9 csv_header_Mbp1Msg @ csv_text 9 (csv_fields_Mbp1Msg gregorian unix_clock False False sample_quote))"
proof -
  let ?args = "sample_args\<lparr>args_fragment := False, args_tsv := True\<rparr>"
  let ?md = "args_metadata ?args (metadata_upgrade (args_upgrade_policy ?args) (sample_metadata 3))"
  let ?row = "csv_fields_Mbp1Msg gregorian unix_clock False False sample_quote"
  have out: "outputs sample_files ?args [] Encoding_Csv Compression_Zstd 9"
    by (simp add: outputs_def output_from_args_def sample_files_def sample_args_def infer_encoding_def output_encoding_def)
  have args: "\<not> args_is_input_fragment ?args" "\<not> args_is_input_zstd_fragment ?args" "\<not> args_map_symbols ?args"
    "args_upgrade_policy ?args = VersionUpgradePolicy_AsIs" "\<not> args_should_output_metadata ?args" "\<not> args_fragment ?args"
    "\<not> args_should_pretty_print ?args" "args_write_header ?args"
    by (simp_all add: sample_args_def args_upgrade_policy_def)
  have md: "md_schema ?md = Some Schema_Mbp1" "\<not> md_ts_out ?md" "version_kind (md_version ?md) Schema_Mbp1 = Kind_Mbp1Msg"
    by (simp_all add: args_metadata_def metadata_upgrade_def args(4) sample_args_def sample_metadata_simps version_kind_def schema_kind_def)
  have kept: "args_records ?args [put_MboMsg (mbo_at 7), sample_bytes, sample_bytes] = [sample_bytes]"
    by (rule sample_args_records) (simp_all add: sample_args_def)
  have rows: "list_all2 (renders gregorian unix_clock Schema_Mbp1 Kind_Mbp1Msg (md_ts_out ?md) (args_should_pretty_print ?args)
      (args_should_pretty_print ?args)) [sample_bytes] [?row]"
    using sample_quote_renders(1) [of False False] md(2) args(7) by simp
  note run = cli_output [OF sample_csv.csv_output_axioms, unfolded sample_env_simps,
      OF dyn_piece.dyn_reading_axioms sample_reads [folded args(4)] args(1-3) out refl refl refl, unfolded kept]
  have "\<exists>out. with_input sample_env sample_files list_buffer (stored_zstd (br_pending snd)) (buf_reader piece_reader)
      (buf_reader_fill_buf piece_reader) ?args sample_input = Some (Cli_Ok out) \<and>
    leaves (\<lambda>w. w) unstore Compression_Zstd [] (concat (map (csv_text 9) ([ts_out_header (md_ts_out ?md) (kind_header Kind_Mbp1Msg)] @ [?row]))) out"
    using run args(5,6,8) md(1,3) rows by auto
  then show ?thesis using md(2) by (auto simp: leaves_def ts_out_header_def)
qed

text \<open>
  C12. With symbols: each JSON line and each CSV row ends with the symbol that the map of the metadata has
  for the record's instrument on its index date, nothing if there is none, and the CSV header with the
  column of symbols.
\<close>

theorem cli_symbols:
  assumes "csv_output E rows cur contents zbase zwritten unzip origin csv_line"
    and "dyn_reading B R pending fill_buf Z zpending unz (env_dates E)"
    and "reads_records (env_dates E) Z fill_buf pending zpending unz (args_upgrade_policy args) r m vs"
    and "\<not> args_is_input_fragment args" and "\<not> args_is_input_zstd_fragment args" and "args_map_symbols args"
    and "\<not> args_should_output_metadata args" and "\<not> args_fragment args"
    and "outputs F args w encoding compression delimiter"
    and "md = args_metadata args (metadata_upgrade (args_upgrade_policy args) m)" and "kept = args_records args vs"
    and "pretty = args_should_pretty_print args" and "ts_from_metadata (env_dates E) md = Some (Ok sm)"
  shows "(\<forall>objs. encoding = Encoding_Json \<and>
        list_all2 (objectifies (env_dates E) (env_clock E) (md_ts_out md) pretty pretty) kept objs \<longrightarrow>
      (\<exists>out. with_input E F B Z R fill_buf args r = Some (Cli_Ok out) \<and>
        leaves contents unzip compression w
          (concat (map2 (\<lambda>v obj. as_bytes (env_json E pretty (with_sym obj (symbol_of (env_clock E) sm v)) @ [CHR 0x0A])) kept objs)) out)) \<and>
    (\<forall>schema k tbl. encoding = Encoding_Csv \<and> md_schema md = Some schema \<and> k = version_kind (md_version md) schema \<and>
        list_all2 (renders (env_dates E) (env_clock E) schema k (md_ts_out md) pretty pretty) kept tbl \<longrightarrow>
      (\<exists>out. with_input E F B Z R fill_buf args r = Some (Cli_Ok out) \<and>
        leaves contents unzip compression w (concat (map (csv_line delimiter)
          ((if args_write_header args then [ts_out_header (md_ts_out md) (kind_header k) @ [''symbol'']] else []) @
          map2 (\<lambda>v row. row @ [case symbol_of (env_clock E) sm v of Some t \<Rightarrow> t | None \<Rightarrow> []]) kept tbl))) out))"
proof -
  let ?D = "wrapped_ops (dyn_ops (env_dates E) B Z R)"
  obtain s refs where run: "with_input E F B Z R fill_buf args r = encode_from_dbn E F args ?D s" "dec_md ?D s = md"
    "yields ?D s refs" "map rr_as_ref refs = kept" "list_all indexed (map rr_as_ref refs)"
    unfolding assms(10,11) by (rule with_input_decodes [OF assms(2-5), where F = F])
  show ?thesis
    using output_env.from_dbn_json_symbols [OF csv_output.axioms(1) [OF assms(1)] _ assms(7,8,6,12) run(3) _ run(5), of F w compression delimiter sm]
      csv_output.from_dbn_csv_symbols [OF assms(1) _ assms(7,8,6,12) run(3) _ run(5) _ refl refl, of F w compression delimiter sm]
      assms(9,13) run by auto
qed

theorem cli_symbols_witness:
  "with_input sample_env sample_files list_buffer (stored_zstd (br_pending snd)) (buf_reader piece_reader)
      (buf_reader_fill_buf piece_reader) (sample_args\<lparr>args_fragment := False, args_json := True, args_zstd := False, args_map_symbols := True\<rparr>)
      sample_input =
    Some (Cli_Ok (as_bytes (sample_json_writer False
      (json_fields_Mbp1Msg gregorian unix_clock False False sample_quote @ [(''symbol'', JStr ''ES.c.0'')]) @ [CHR 0x0A])))"
proof -
  let ?args = "sample_args\<lparr>args_fragment := False, args_json := True, args_zstd := False, args_map_symbols := True\<rparr>"
  let ?md = "args_metadata ?args (metadata_upgrade (args_upgrade_policy ?args) (sample_metadata 3))"
  have out: "outputs sample_files ?args [] Encoding_Json Compression_None 0"
    by (simp add: outputs_def output_from_args_def sample_files_def sample_args_def infer_encoding_def output_encoding_def)
  have args: "\<not> args_is_input_fragment ?args" "\<not> args_is_input_zstd_fragment ?args" "args_map_symbols ?args"
    "\<not> args_should_output_metadata ?args" "\<not> args_fragment ?args" "args_upgrade_policy ?args = VersionUpgradePolicy_AsIs"
    "\<not> args_should_pretty_print ?args"
    by (simp_all add: sample_args_def args_upgrade_policy_def)
  have md: "md_mappings ?md = md_mappings (sample_metadata 3)" "\<not> md_ts_out ?md" "has_symbols ?md"
    "last_symbol (md_entries ?md) (gdate_of 2024 2 29) 17077 = Some ''ES.c.0''"
    by (simp_all add: args_metadata_def metadata_upgrade_def args(6) has_symbols_def is_inverse_def usable_def interval_usable_def
        sample_metadata_simps sample_dates sample_ids md_entries_def mapping_entries_def entry_of_def last_symbol_def covering_def is_leap_def)
  then obtain sm where sm: "ts_from_metadata gregorian ?md = Some (Ok sm)" "ts_get sm (gdate_of 2024 2 29) 17077 = Some ''ES.c.0''"
    using gregorian.ts_from_metadata_builds [of ?md] by (auto simp: builds_def adds_def)
  have "symbol_of unix_clock sm sample_bytes = Some ''ES.c.0''"
    using sm(2) sample_quote_view by (simp add: symbol_of_def ts_to_date_def UNDEF_TIMESTAMP_def sample_quote_date sample_quote_def)
  moreover have "args_records ?args [put_MboMsg (mbo_at 7), sample_bytes, sample_bytes] = [sample_bytes]"
    by (rule sample_args_records) (simp_all add: sample_args_def)
  ultimately show ?thesis
    using cli_symbols [OF sample_csv.csv_output_axioms, unfolded sample_env_simps,
        OF dyn_piece.dyn_reading_axioms sample_reads [folded args(6)] args(1-5) out refl refl refl sm(1)]
      sample_quote_renders(2) [of False False] md(2) args(7)
    by (auto simp: leaves_def with_sym_def json_opt_str_def)
qed

text \<open>
  C27. A fragment, which has no metadata, plain or compressed, from the input to the output: the records that
  the arguments ask for are written as a fragment again, as DBN after placeholder metadata, as JSON lines,
  or as the lines of a CSV table with the header of the type of its first record, and none without records.
  The records may have different types: a table fails at the first record with another number of fields than
  the first, and a record of another type with as many fields is a row under the header of the first. The
  version of the fragment is the one in the arguments, which must be a version of DBN.
\<close>

theorem fragment_output:
  assumes "csv_output E rows cur contents zbase zwritten unzip origin csv_line"
    and "dyn_reading B R pending fill_buf Z zpending unz (env_dates E)"
    and "args_is_input_fragment args \<or> args_is_input_zstd_fragment args" and "fragment_of unz args (pending r) vs"
    and "\<not> args_should_output_metadata args" and "outputs F args w encoding compression delimiter"
    and "kept = args_records args vs" and "pretty = args_should_pretty_print args"
  shows "if args_fragment args then
      \<exists>out. with_input E F B Z R fill_buf args r = Some (Cli_Ok out) \<and> leaves contents unzip compression w (concat kept) out
    else case encoding of
      Encoding_Dbn \<Rightarrow>
        \<exists>out. with_input E F B Z R fill_buf args r = Some (Cli_Ok out) \<and>
          leaves contents unzip compression w (metadata_bytes (env_dates E) dummy_metadata @ concat kept) out
    | Encoding_Json \<Rightarrow> \<forall>objs. list_all2 (objectifies (env_dates E) (env_clock E) False pretty pretty) kept objs \<longrightarrow>
        (\<exists>out. with_input E F B Z R fill_buf args r = Some (Cli_Ok out) \<and>
          leaves contents unzip compression w (concat (map (\<lambda>obj. as_bytes (env_json E pretty obj @ [CHR 0x0A])) objs)) out)
    | Encoding_Csv \<Rightarrow> \<forall>tbl. list_all2 (typed_row (env_dates E) (env_clock E) pretty) kept tbl \<longrightarrow>
        (if list_all (\<lambda>x. length (snd x) = length (snd (hd tbl))) tbl
         then \<exists>out. with_input E F B Z R fill_buf args r = Some (Cli_Ok out) \<and>
           leaves contents unzip compression w (concat (map (csv_line delimiter)
             ((if args_write_header args \<and> tbl \<noteq> [] then [kind_header (fst (hd tbl))] else []) @ map snd tbl))) out
         else with_input E F B Z R fill_buf args r = Some (Cli_Dbn (Encode ''failed to serialize : '')))"
proof (cases "args_is_input_fragment args")
  case True
  then obtain ws where ws: "1 \<le> args_input_version args" "args_input_version args \<le> DBN_VERSION" "list_all indexed vs" "pending r = concat ws"
    "list_all2 (upgrades (args_upgrade_policy args) (frag_metadata args :: unit Metadata)) ws vs"
    using assms(4) by (auto simp: fragment_of_def)
  obtain s refs where s: "cli_decode_frag B args r = Ok s" "yields (wrapped_ops (frag_ops (env_dates E) B R)) s refs" "map rr_as_ref refs = kept"
    unfolding assms(7) by (rule stream_reading.frag_opens [OF dyn_reading.plain_reads [OF assms(2)] ws])
  have run: "with_input E F B Z R fill_buf args r = encode_from_frag E F args (wrapped_ops (frag_ops (env_dates E) B R)) s"
    using True s(1) by (simp add: with_input_def)
  show ?thesis unfolding run by (rule csv_output.from_frag [OF assms(1,6,5,8) s(2,3)])
next
  case False
  then obtain ws where ws: "1 \<le> args_input_version args" "args_input_version args \<le> DBN_VERSION" "list_all indexed vs" "unz (pending r) = Some (concat ws)"
    "list_all2 (upgrades (args_upgrade_policy args) (frag_metadata args :: unit Metadata)) ws vs"
    using assms(4) by (auto simp: fragment_of_def)
  obtain z where z: "zstd_with_buffer Z r = Some z" "zpending z = concat ws"
    using zstd_codec.open_stream [OF dyn_reading.axioms(3) [OF assms(2)] ws(4)] by blast
  obtain s refs where s: "cli_decode_frag B args z = Ok s" "yields (wrapped_ops (frag_ops (env_dates E) B (zstd_reader Z))) s refs"
    "map rr_as_ref refs = kept"
    unfolding assms(7) by (rule stream_reading.frag_opens [OF dyn_reading.unzipped_reads [OF assms(2)] ws(1-3) z(2) ws(5)])
  have run: "with_input E F B Z R fill_buf args r = encode_from_frag E F args (wrapped_ops (frag_ops (env_dates E) B (zstd_reader Z))) s"
    using False assms(3) z(1) s(1) by (simp add: with_input_def)
  show ?thesis unfolding run by (rule csv_output.from_frag [OF assms(1,6,5,8) s(2,3)])
qed

text \<open>A fragment of two quotes as a table, and one of an order and a quote, which have different columns.\<close>

theorem fragment_output_witness:
  "with_input sample_env sample_files list_buffer (stored_zstd (br_pending snd)) (buf_reader piece_reader)
      (buf_reader_fill_buf piece_reader) frag_args (buf_reader_new ([7, 100], sample_bytes @ sample_bytes)) =
    Some (Cli_Ok (concat (map (csv_text 44) [csv_header_Mbp1Msg, csv_fields_Mbp1Msg gregorian unix_clock False False sample_quote,
      csv_fields_Mbp1Msg gregorian unix_clock False False sample_quote]))) \<and>
   with_input sample_env sample_files list_buffer (stored_zstd (br_pending snd)) (buf_reader piece_reader)
      (buf_reader_fill_buf piece_reader) frag_args (buf_reader_new ([7, 100], put_MboMsg (mbo_at 7) @ sample_bytes)) =
    Some (Cli_Dbn (Encode ''failed to serialize : ''))"
proof -
  let ?row = "csv_fields_Mbp1Msg gregorian unix_clock False False sample_quote" and ?u = "put_MboMsg (mbo_at 7)"
  let ?mbo = "csv_fields_MboMsg gregorian unix_clock False False (mbo_at 7)"
  have args: "args_is_input_fragment frag_args" "\<not> args_should_output_metadata frag_args" "\<not> args_fragment frag_args"
    "\<not> args_should_pretty_print frag_args" "args_write_header frag_args" "args_records frag_args vs = vs" for vs
    by (simp_all add: frag_args_def sample_args_def args_records_def)
  have out: "outputs sample_files frag_args [] Encoding_Csv Compression_None 44"
    by (simp add: outputs_def output_from_args_def sample_files_def frag_args_def sample_args_def infer_encoding_def output_encoding_def)
  note run = fragment_output [OF sample_csv.csv_output_axioms, unfolded sample_env_simps, OF dyn_piece.dyn_reading_axioms disjI1 [OF args(1)]
      _ args(2) out refl refl, unfolded args(6)]
  have quote: "typed_row gregorian unix_clock (args_should_pretty_print frag_args) sample_bytes (Kind_Mbp1Msg, ?row)"
    "typed_row gregorian unix_clock (args_should_pretty_print frag_args) ?u (Kind_MboMsg, ?mbo)"
    using sample_quote_renders(1) [of False False] sample_order(1) args(4) by (simp_all add: typed_row_def renders_def)
  have width: "length ?row \<noteq> length ?mbo" by (rule sample_order(2))
  have "fragment_of unstore frag_args (br_pending snd (buf_reader_new ([7, 100 :: nat], sample_bytes @ sample_bytes))) [sample_bytes, sample_bytes]"
    "fragment_of unstore frag_args (br_pending snd (buf_reader_new ([7, 100 :: nat], ?u @ sample_bytes))) [?u, sample_bytes]"
    using sample_fragment [of "[sample_bytes, sample_bytes]" "[7, 100]"] sample_fragment [of "[?u, sample_bytes]" "[7, 100]"] by simp_all
  note runs = this [THEN run, unfolded if_not_P [OF args(3)] Encoding.case, THEN spec, THEN mp]
  show ?thesis
    using runs(1) [of "[(Kind_Mbp1Msg, ?row), (Kind_Mbp1Msg, ?row)]"]
      runs(2) [of "[(Kind_MboMsg, ?mbo), (Kind_Mbp1Msg, ?row)]"] quote width args(5)
    by (auto simp: leaves_def)
qed

end
