(* ===== verification/Py_Transcoder.thy ===== *)
theory Py_Transcoder
  imports Cli_Output
begin

text \<open>
  The transcoder of the Python package, python/src/transcoder.rs: the caller pushes the bytes of a DBN stream
  in pieces of any size, and the transcoder writes what they complete to a file object as DBN, CSV or JSON,
  optionally compressed and with symbols. It is the decoder state machine, a writer and a symbol map; the
  encoders are created anew for every record.

  The file object behind its buffered writer, the csv and zstd crates and the writer of JSON text are the
  environment of theory \<open>Dyn_Encoder\<close>. A Python date is its year, month and day, and a Python dictionary the list of
  its items in the order of iteration. The mutex around the transcoder is left out: a method has it
  to itself.
\<close>

section \<open>Definitions\<close>

subsection \<open>Results\<close>

text \<open>A \<^verbatim>\<open>PyErr\<close> is a \<^verbatim>\<open>DBNError\<close> for an error of the library or for a date, a \<^verbatim>\<open>ValueError\<close>, or an \<^verbatim>\<open>OSError\<close>.\<close>

datatype 'a py_result =
    Py_Ok 'a
  | Py_DBNError error
  | Py_DateError
  | Py_ValueError string
  | Py_OSError
  | Py_Panic string

primrec py_of :: "'a result \<Rightarrow> 'a py_result" where
  "py_of (Ok x) = Py_Ok x"
| "py_of (Err e) = Py_DBNError e"
| "py_of (Panic p) = Py_Panic p"

primrec py_then :: "'a py_result \<Rightarrow> ('a \<Rightarrow> 'b py_result) \<Rightarrow> 'b py_result" where
  "py_then (Py_Ok x) f = f x"
| "py_then (Py_DBNError e) f = Py_DBNError e"
| "py_then Py_DateError f = Py_DateError"
| "py_then (Py_ValueError s) f = Py_ValueError s"
| "py_then Py_OSError f = Py_OSError"
| "py_then (Py_Panic p) f = Py_Panic p"

text \<open>The same after a computation that may not end.\<close>

definition py_bind :: "'a py_result option \<Rightarrow> ('a \<Rightarrow> 'b py_result option) \<Rightarrow> 'b py_result option" where
  "py_bind x f =
     (case x of
        None \<Rightarrow> None
      | Some (Py_Ok a) \<Rightarrow> f a
      | Some r \<Rightarrow> Some (py_then r (\<lambda>_. Py_OSError)))"

subsection \<open>Dates and symbol maps\<close>

definition py_to_time_date :: "'d date_ops \<Rightarrow> int \<times> nat \<times> nat \<Rightarrow> 'd py_result" where
  "py_to_time_date C py_date =
     (case py_date of (y, m, d) \<Rightarrow>
        if 1 \<le> m \<and> m \<le> 12 then
          (case from_calendar_date C y m d of Some date \<Rightarrow> Py_Ok date | None \<Rightarrow> Py_DateError)
        else Py_DateError)"

type_synonym py_interval = "(int \<times> nat \<times> nat) \<times> (int \<times> nat \<times> nat) \<times> string"

fun py_insert_intervals ::
  "'d::linorder date_ops \<Rightarrow> u32 \<Rightarrow> py_interval list \<Rightarrow> 'd TsSymbolMap \<Rightarrow> 'd TsSymbolMap py_result option" where
  "py_insert_intervals C iid [] m = Some (Py_Ok m)"
| "py_insert_intervals C iid ((since, until, sy) # rest) m =
     (if sy = [] then py_insert_intervals C iid rest m
      else py_bind (Some (py_to_time_date C since)) (\<lambda>since.
        py_bind (Some (py_to_time_date C until)) (\<lambda>until.
        py_bind (map_option py_of (ts_insert C iid since until sy m)) (py_insert_intervals C iid rest))))"

fun py_symbol_map ::
  "'d::linorder date_ops \<Rightarrow> (u32 \<times> py_interval list) list \<Rightarrow> 'd TsSymbolMap \<Rightarrow> 'd TsSymbolMap py_result option" where
  "py_symbol_map C [] m = Some (Py_Ok m)"
| "py_symbol_map C ((iid, py_intervals) # rest) m =
     py_bind (py_insert_intervals C iid py_intervals m) (py_symbol_map C rest)"

datatype 'd SymbolMap = SymbolMap_Historical "'d TsSymbolMap" | SymbolMap_Live PitSymbolMap

definition symbol_map_default :: "'d SymbolMap" where
  "symbol_map_default = SymbolMap_Historical ts_new"

fun symbol_map_is_empty :: "'d SymbolMap \<Rightarrow> bool" where
  "symbol_map_is_empty (SymbolMap_Historical m) = ts_is_empty m"
| "symbol_map_is_empty (SymbolMap_Live m) = pit_is_empty m"

fun symbol_map_get_for_rec :: "'d clock_ops \<Rightarrow> 'd SymbolMap \<Rightarrow> bytes \<Rightarrow> string option result" where
  "symbol_map_get_for_rec K (SymbolMap_Historical m) record = ts_get_for_ref K m record"
| "symbol_map_get_for_rec K (SymbolMap_Live m) record = Ok (pit_get m (rh_instrument_id (rr_header record)))"

text \<open>Errors are ignored, and leave the map as it was.\<close>

fun update_live :: "bytes \<Rightarrow> 'd SymbolMap \<Rightarrow> 'd SymbolMap result" where
  "update_live record (SymbolMap_Historical m) = Ok (SymbolMap_Historical m)"
| "update_live record (SymbolMap_Live m) =
     (case on_record record m of
        Ok m \<Rightarrow> Ok (SymbolMap_Live m)
      | Err _ \<Rightarrow> Ok (SymbolMap_Live m)
      | Panic p \<Rightarrow> Panic p)"

subsection \<open>The transcoder for one encoding\<close>

record ('b, 'w, 'z, 'd) Inner =
  tc_fsm :: "'b DbnFsm"
  tc_output :: "('w, 'z) DynWriter"
  tc_use_pretty_px :: bool
  tc_use_pretty_ts :: bool
  tc_map_symbols :: bool
  tc_symbol_map :: "'d SymbolMap"
  tc_schema :: "Schema option"

text \<open>The csv writer borrows the output, and writes to it when it is dropped.\<close>

definition encode_header_if_csv ::
  "('w, 'z, 'c, 'd) encode_env \<Rightarrow> Encoding \<Rightarrow> bool \<Rightarrow> bool \<Rightarrow> bool \<Rightarrow> bool \<Rightarrow> VersionUpgradePolicy \<Rightarrow> u8 option
   \<Rightarrow> Schema option \<Rightarrow> ('w, 'z) DynWriter \<Rightarrow> ('w, 'z) DynWriter \<times> unit py_result" where
  "encode_header_if_csv E encoding pretty_px pretty_ts ts_out map_symbols policy input_version schema out =
     (if encoding = Encoding_Csv then
        (case input_version of
           None \<Rightarrow> (out, Py_ValueError ''must specify input_version when has_metadata=False'')
         | Some input_version \<Rightarrow>
             (case schema of
                None \<Rightarrow> (out, Py_ValueError ''A schema must be specified when transcoding mixed schema DBN to CSV'')
              | Some schema \<Rightarrow>
                  (case csv_new (env_csv E) (env_csv_from E) out pretty_px pretty_ts of
                     Ok encoder \<Rightarrow>
                       (case csv_encode_header_for_schema (env_csv E) (output_version policy input_version) schema ts_out
                           map_symbols encoder of
                          (encoder, res) \<Rightarrow> (env_csv_drop E (enc_writer encoder), py_of res))
                   | Err e \<Rightarrow> (out, Py_DBNError e)
                   | Panic p \<Rightarrow> (out, Py_Panic p))))
      else (out, Py_Ok ()))"

definition tc_encode_dbn :: "('w, 'z, 'c, 'd) encode_env \<Rightarrow> 'b buf_ops \<Rightarrow> ('b, 'w, 'z, 'd) Inner enc" where
  "tc_encode_dbn E B t =
     (case last_record B (tc_fsm t) of
        None \<Rightarrow> (t, Panic ''called `Option::unwrap()` on a `None` value'')
      | Some record \<Rightarrow>
          (case encode_record_ref_ts_out (env_dyn E) record (fsm_ts_out (tc_fsm t)) (tc_output t) of
             (w, res) \<Rightarrow> (t\<lparr>tc_output := w\<rparr>, res)))"

text \<open>Looking a symbol up and encoding the record with it.\<close>

definition with_symbol_for ::
  "'d clock_ops \<Rightarrow> 'd SymbolMap \<Rightarrow> (string option \<Rightarrow> 'e enc) \<Rightarrow> bytes \<Rightarrow> 'e enc" where
  "with_symbol_for K m f record e =
     (case symbol_map_get_for_rec K m record of
        Ok s \<Rightarrow> f s e
      | Err x \<Rightarrow> (e, Err x)
      | Panic p \<Rightarrow> (e, Panic p))"

definition csv_in_output ::
  "('w, 'z, 'c, 'd) encode_env \<Rightarrow> 'c CsvEncoder enc \<Rightarrow> 'c CsvEncoder \<Rightarrow> ('b, 'w, 'z, 'd) Inner enc" where
  "csv_in_output E f encoder t =
     (case f encoder of (encoder, res) \<Rightarrow> (t\<lparr>tc_output := env_csv_drop E (enc_writer encoder)\<rparr>, res))"

definition tc_encode_csv :: "('w, 'z, 'c, 'd) encode_env \<Rightarrow> 'b buf_ops \<Rightarrow> ('b, 'w, 'z, 'd) Inner enc" where
  "tc_encode_csv E B t =
     (case csv_build (env_csv E) (env_csv_from E)
         ((csv_builder_new (tc_output t))\<lparr>bld_use_pretty_px := tc_use_pretty_px t, bld_use_pretty_ts := tc_use_pretty_ts t,
            bld_write_header := False\<rparr>) of
        Err e \<Rightarrow> (t, Err e)
      | Panic p \<Rightarrow> (t, Panic p)
      | Ok encoder \<Rightarrow>
          (case last_record B (tc_fsm t) of
             None \<Rightarrow> (t, Panic ''called `Option::unwrap()` on a `None` value'')
           | Some record \<Rightarrow>
               (case (if tc_map_symbols t then update_live record (tc_symbol_map t) else Ok (tc_symbol_map t)) of
                  Err e \<Rightarrow> (t, Err e)
                | Panic p \<Rightarrow> (t, Panic p)
                | Ok m \<Rightarrow>
                    let t = t\<lparr>tc_symbol_map := m\<rparr>; ts_out = fsm_ts_out (tc_fsm t) in
                    (case rr_rtype record of
                       None \<Rightarrow> csv_in_output E ret encoder t
                     | Some rtype \<Rightarrow>
                         (case tc_schema t of
                            None \<Rightarrow> (t, Panic ''called `Option::unwrap()` on a `None` value'')
                          | Some schema \<Rightarrow>
                              csv_in_output E
                                (if rtype \<noteq> rtype_from_schema schema then ret
                                 else if tc_map_symbols t then
                                   with_symbol_for (env_clock E) m
                                     (csv_encode_ref_ts_out_with_sym (env_dates E) (env_clock E) (env_csv E) record ts_out) record
                                 else csv_encode_record_ref_ts_out (env_dates E) (env_clock E) (env_csv E) record ts_out)
                                encoder t)))))"

definition tc_encode_json :: "('w, 'z, 'c, 'd) encode_env \<Rightarrow> 'b buf_ops \<Rightarrow> ('b, 'w, 'z, 'd) Inner enc" where
  "tc_encode_json E B t =
     (let encoder = json_new (tc_output t) False (tc_use_pretty_px t) (tc_use_pretty_ts t);
          ts_out = fsm_ts_out (tc_fsm t);
          back = (\<lambda>t (encoder, res). (t\<lparr>tc_output := js_writer encoder\<rparr>, res)) in
      case last_record B (tc_fsm t) of
        None \<Rightarrow> (t, Panic ''called `Option::unwrap()` on a `None` value'')
      | Some record \<Rightarrow>
          if tc_map_symbols t then
            (case update_live record (tc_symbol_map t) of
               Err e \<Rightarrow> (t, Err e)
             | Panic p \<Rightarrow> (t, Panic p)
             | Ok m \<Rightarrow>
                 back (t\<lparr>tc_symbol_map := m\<rparr>)
                   (with_symbol_for (env_clock E) m
                      (json_encode_ref_ts_out_with_sym (env_json E) (env_dates E) (env_clock E) (env_dyn E) record ts_out)
                      record encoder))
          else
            back t (json_encode_record_ref_ts_out (env_json E) (env_dates E) (env_clock E) (env_dyn E) record ts_out encoder))"

definition tc_encode_record ::
  "('w, 'z, 'c, 'd) encode_env \<Rightarrow> 'b buf_ops \<Rightarrow> Encoding \<Rightarrow> ('b, 'w, 'z, 'd) Inner enc" where
  "tc_encode_record E B encoding =
     (case encoding of
        Encoding_Dbn \<Rightarrow> tc_encode_dbn E B
      | Encoding_Csv \<Rightarrow> tc_encode_csv E B
      | Encoding_Json \<Rightarrow> tc_encode_json E B)"

text \<open>The symbol map is built from the metadata only if none was given.\<close>

definition tc_metadata_symbols ::
  "('w, 'z, 'c, 'd::linorder) encode_env \<Rightarrow> 'd Metadata \<Rightarrow> 'd SymbolMap \<Rightarrow> 'd SymbolMap py_result option" where
  "tc_metadata_symbols E metadata m =
     (case md_schema metadata of
        Some _ \<Rightarrow>
          if symbol_map_is_empty m
          then map_option (\<lambda>r. py_of (and_then r (\<lambda>m. Ok (SymbolMap_Historical m)))) (ts_from_metadata (env_dates E) metadata)
          else Some (Py_Ok m)
      | None \<Rightarrow> Some (Py_Ok (SymbolMap_Live pit_new)))"

definition tc_encode_metadata ::
  "('w, 'z, 'c, 'd::linorder) encode_env \<Rightarrow> Encoding \<Rightarrow> 'd Metadata \<Rightarrow> ('b, 'w, 'z, 'd) Inner
   \<Rightarrow> (('b, 'w, 'z, 'd) Inner \<times> unit py_result) option" where
  "tc_encode_metadata E encoding metadata t =
     (let t = (if tc_schema t = None then t\<lparr>tc_schema := md_schema metadata\<rparr> else t);
          head = (\<lambda>t. case encode_header_if_csv E encoding (tc_use_pretty_px t) (tc_use_pretty_ts t) (fsm_ts_out (tc_fsm t))
                (tc_map_symbols t) (upgrade_policy (tc_fsm t)) (input_dbn_version (tc_fsm t)) (tc_schema t) (tc_output t) of
              (out, res) \<Rightarrow> (t\<lparr>tc_output := out\<rparr>, res)) in
      if encoding = Encoding_Dbn then
        (case metadata_encode (env_dates E) (env_dyn E) metadata (tc_output t) of
           (out, Ok _) \<Rightarrow> Some (head (t\<lparr>tc_output := out\<rparr>))
         | (out, Err e) \<Rightarrow> Some (t\<lparr>tc_output := out\<rparr>, Py_DBNError e)
         | (out, Panic p) \<Rightarrow> Some (t\<lparr>tc_output := out\<rparr>, Py_Panic p))
      else if tc_map_symbols t then
        (case tc_metadata_symbols E metadata (tc_symbol_map t) of
           None \<Rightarrow> None
         | Some (Py_Ok m) \<Rightarrow> Some (head (t\<lparr>tc_symbol_map := m\<rparr>))
         | Some r \<Rightarrow> Some (t, py_then r (\<lambda>_. Py_OSError)))
      else Some (head t))"

partial_function (option) tc_encode ::
  "('w, 'z, 'c, 'd::linorder) encode_env \<Rightarrow> 'b buf_ops \<Rightarrow> Encoding \<Rightarrow> ('b, 'w, 'z, 'd) Inner
   \<Rightarrow> (('b, 'w, 'z, 'd) Inner \<times> unit py_result) option" where
  "tc_encode E B encoding t =
     (case process (env_dates E) B (tc_fsm t) of
        None \<Rightarrow> None
      | Some (Err e) \<Rightarrow> Some (t, Py_DBNError e)
      | Some (Panic p) \<Rightarrow> Some (t, Py_Panic p)
      | Some (Ok (fsm, ReadMore _)) \<Rightarrow> Some (t\<lparr>tc_fsm := fsm\<rparr>, Py_Ok ())
      | Some (Ok (fsm, Result_Err e)) \<Rightarrow> Some (t\<lparr>tc_fsm := fsm\<rparr>, Py_DBNError e)
      | Some (Ok (fsm, Result_Metadata metadata)) \<Rightarrow>
          (case tc_encode_metadata E encoding metadata (t\<lparr>tc_fsm := fsm\<rparr>) of
             None \<Rightarrow> None
           | Some (t, Py_Ok _) \<Rightarrow> tc_encode E B encoding t
           | Some (t, r) \<Rightarrow> Some (t, r))
      | Some (Ok (fsm, Result_Record _)) \<Rightarrow>
          (case tc_encode_record E B encoding (t\<lparr>tc_fsm := fsm\<rparr>) of
             (t, Ok _) \<Rightarrow> tc_encode E B encoding t
           | (t, Err e) \<Rightarrow> Some (t, Py_DBNError e)
           | (t, Panic p) \<Rightarrow> Some (t, Py_Panic p)))"

definition tc_write ::
  "('w, 'z, 'c, 'd::linorder) encode_env \<Rightarrow> 'b buf_ops \<Rightarrow> Encoding \<Rightarrow> bytes \<Rightarrow> ('b, 'w, 'z, 'd) Inner
   \<Rightarrow> (('b, 'w, 'z, 'd) Inner \<times> unit py_result) option" where
  "tc_write E B encoding bs t =
     (case fsm_write_all B bs (tc_fsm t) of
        Ok fsm \<Rightarrow> tc_encode E B encoding (t\<lparr>tc_fsm := fsm\<rparr>)
      | Err e \<Rightarrow> Some (t, Py_DBNError e)
      | Panic p \<Rightarrow> Some (t, Py_Panic p))"

definition tc_flush ::
  "('w, 'z, 'c, 'd::linorder) encode_env \<Rightarrow> 'b buf_ops \<Rightarrow> Encoding \<Rightarrow> ('b, 'w, 'z, 'd) Inner
   \<Rightarrow> (('b, 'w, 'z, 'd) Inner \<times> unit py_result) option" where
  "tc_flush E B encoding t =
     (case tc_encode E B encoding t of
        None \<Rightarrow> None
      | Some (t, Py_Ok _) \<Rightarrow>
          (case flush (env_dyn E) (tc_output t) of
             (w, success) \<Rightarrow> Some (t\<lparr>tc_output := w\<rparr>, if success then Py_Ok () else Py_OSError))
      | Some (t, r) \<Rightarrow> Some (t, r))"

definition tc_buffer :: "'b buf_ops \<Rightarrow> ('b, 'w, 'z, 'd) Inner \<Rightarrow> bytes result" where
  "tc_buffer B t = fsm_data B (tc_fsm t)"

definition tc_inner_new ::
  "('w, 'z, 'c, 'd) encode_env \<Rightarrow> 'b buf_ops \<Rightarrow> Encoding \<Rightarrow> 'w \<Rightarrow> Compression \<Rightarrow> bool \<Rightarrow> bool \<Rightarrow> bool option \<Rightarrow> bool
   \<Rightarrow> bool \<Rightarrow> 'd TsSymbolMap option \<Rightarrow> Schema option \<Rightarrow> u8 option \<Rightarrow> VersionUpgradePolicy
   \<Rightarrow> ('b, 'w, 'z, 'd) Inner py_result" where
  "tc_inner_new E B encoding file compression pretty_px pretty_ts map_symbols has_metadata ts_out symbol_map schema
       input_version policy =
     (if encoding = Encoding_Dbn \<and> map_symbols = Some True
      then Py_ValueError ''map_symbols=True is incompatible with DBN encoding''
      else
        py_then (py_of (and_then (builder_input_dbn_version input_version (builder_skip_metadata (\<not> has_metadata) fsm_builder))
            (\<lambda>b. fsm_build B (builder_ts_out ts_out (builder_upgrade_policy policy b))))) (\<lambda>fsm.
        py_then (py_of (dyn_writer_new (env_zstd E) file compression)) (\<lambda>out.
          let map_symbols = (case map_symbols of Some b \<Rightarrow> b | None \<Rightarrow> True) in
          case (if has_metadata then (out, Py_Ok ())
                else encode_header_if_csv E encoding pretty_px pretty_ts ts_out map_symbols policy input_version schema out) of
            (out, res) \<Rightarrow>
              py_then res (\<lambda>_. Py_Ok
                \<lparr>tc_fsm = fsm, tc_output = out, tc_use_pretty_px = pretty_px, tc_use_pretty_ts = pretty_ts,
                 tc_map_symbols = map_symbols,
                 tc_symbol_map = (case symbol_map of Some m \<Rightarrow> SymbolMap_Historical m | None \<Rightarrow> symbol_map_default),
                 tc_schema = schema\<rparr>))))"

subsection \<open>The Python class\<close>

datatype ('b, 'w, 'z, 'd) Transcoder = Transcoder (tr_encoding: Encoding) (tr_inner: "('b, 'w, 'z, 'd) Inner")

definition transcoder_new ::
  "('w, 'z, 'c, 'd::linorder) encode_env \<Rightarrow> 'b buf_ops \<Rightarrow> 'w \<Rightarrow> Encoding \<Rightarrow> Compression \<Rightarrow> bool \<Rightarrow> bool \<Rightarrow> bool option \<Rightarrow> bool
   \<Rightarrow> bool \<Rightarrow> (u32 \<times> py_interval list) list option \<Rightarrow> Schema option \<Rightarrow> u8 option \<Rightarrow> VersionUpgradePolicy
   \<Rightarrow> ('b, 'w, 'z, 'd) Transcoder py_result option" where
  "transcoder_new E B file encoding compression pretty_px pretty_ts map_symbols has_metadata ts_out symbol_interval_map
       schema input_version policy =
     py_bind (case symbol_interval_map of
                Some m \<Rightarrow> py_bind (py_symbol_map (env_dates E) m ts_new) (\<lambda>m. Some (Py_Ok (Some m)))
              | None \<Rightarrow> Some (Py_Ok None)) (\<lambda>symbol_map.
       Some (py_then (tc_inner_new E B encoding file compression pretty_px pretty_ts map_symbols has_metadata ts_out
           symbol_map schema input_version policy) (\<lambda>t. Py_Ok (Transcoder encoding t))))"

fun in_transcoder ::
  "Encoding \<Rightarrow> (('b, 'w, 'z, 'd) Inner \<times> unit py_result) option \<Rightarrow> (('b, 'w, 'z, 'd) Transcoder \<times> unit py_result) option" where
  "in_transcoder encoding res = map_option (apfst (Transcoder encoding)) res"

fun transcoder_write ::
  "('w, 'z, 'c, 'd::linorder) encode_env \<Rightarrow> 'b buf_ops \<Rightarrow> bytes \<Rightarrow> ('b, 'w, 'z, 'd) Transcoder
   \<Rightarrow> (('b, 'w, 'z, 'd) Transcoder \<times> unit py_result) option" where
  "transcoder_write E B bs (Transcoder encoding t) = in_transcoder encoding (tc_write E B encoding bs t)"

fun transcoder_flush ::
  "('w, 'z, 'c, 'd::linorder) encode_env \<Rightarrow> 'b buf_ops \<Rightarrow> ('b, 'w, 'z, 'd) Transcoder
   \<Rightarrow> (('b, 'w, 'z, 'd) Transcoder \<times> unit py_result) option" where
  "transcoder_flush E B (Transcoder encoding t) = in_transcoder encoding (tc_flush E B encoding t)"

fun transcoder_buffer :: "'b buf_ops \<Rightarrow> ('b, 'w, 'z, 'd) Transcoder \<Rightarrow> bytes result" where
  "transcoder_buffer B (Transcoder encoding t) = tc_buffer B t"

text \<open>A sequence of writes, up to the first that fails.\<close>

fun transcoder_writes ::
  "('w, 'z, 'c, 'd::linorder) encode_env \<Rightarrow> 'b buf_ops \<Rightarrow> bytes list \<Rightarrow> ('b, 'w, 'z, 'd) Transcoder
   \<Rightarrow> (('b, 'w, 'z, 'd) Transcoder \<times> unit py_result) option" where
  "transcoder_writes E B [] t = Some (t, Py_Ok ())"
| "transcoder_writes E B (bs # rest) t =
     (case transcoder_write E B bs t of
        Some (t, Py_Ok _) \<Rightarrow> transcoder_writes E B rest t
      | res \<Rightarrow> res)"

section \<open>How far a stream has been received\<close>

text \<open>The number of items that some received bytes complete, and the rest.\<close>

fun whole_items :: "bytes list \<Rightarrow> bytes \<Rightarrow> nat \<times> bytes" where
  "whole_items [] bs = (0, bs)"
| "whole_items (w # ws) bs =
     (if length w \<le> length bs then apfst Suc (whole_items ws (drop (length w) bs)) else (0, bs))"

lemma whole_items_concat:
  assumes "n \<le> length ws" and "n < length ws \<Longrightarrow> length bs < length (ws ! n)"
  shows "whole_items ws (concat (take n ws) @ bs) = (n, bs)"
  using assms
proof (induction ws arbitrary: n)
  case (Cons w ws)
  then show ?case by (cases n) simp_all
qed simp

text \<open>
  \<open>received C policy m ws k p a\<close>: the abstract decoder has received the bytes \<open>p\<close> of the stream with the metadata
  \<open>m\<close> and the records \<open>ws\<close>, and has decoded \<open>k\<close> of its items, the first of which are the metadata.
\<close>

definition received ::
  "'d date_ops \<Rightarrow> VersionUpgradePolicy \<Rightarrow> 'd Metadata \<Rightarrow> bytes list \<Rightarrow> nat \<Rightarrow> bytes \<Rightarrow> decoder \<Rightarrow> bool" where
  "received C policy m ws k p a \<longleftrightarrow>
     (case k of
        0 \<Rightarrow>
          d_policy a = policy \<and>
          (d_phase a = Ph_Prelude \<and> d_bytes a = p \<or>
           d_phase a = Ph_Metadata (fst (calc_length m)) \<and> d_version a = Some (md_version m) \<and>
             p = as_bytes ''DBN'' @ [md_version m] @ put_u32 (fst (calc_length m)) @ d_bytes a)
      | Suc i \<Rightarrow>
          i \<le> length ws \<and>
          (\<exists>bs. a = after_metadata policy m bs \<and> p = metadata_bytes C m @ concat (take i ws) @ bs))"

lemma after_metadata_select [simp]:
  "d_bytes (after_metadata policy m bs) = bs" "d_policy (after_metadata policy m bs) = policy"
  "feed x (after_metadata policy m bs) = after_metadata policy m (bs @ x)"
  by (simp_all add: after_metadata_def feed_def)

lemma received_feed:
  assumes "received C policy m ws k p a"
  shows "received C policy m ws k (p @ x) (feed x a)"
  using assms by (cases k) (auto simp: received_def)

text \<open>The decoder asks for more bytes when no further item is complete.\<close>

definition waiting :: "bytes list \<Rightarrow> nat \<Rightarrow> bytes \<Rightarrow> decoder \<Rightarrow> bool" where
  "waiting items k p a \<longleftrightarrow> fst (whole_items items p) = k \<and> (0 < k \<longrightarrow> snd (whole_items items p) = d_bytes a)"

lemma spec_record_upgrades:
  assumes "upgrades policy m w v"
  shows "spec_record (after_metadata policy m (w @ rest)) = Ok (after_metadata policy m rest, Got_Record v)"
proof -
  obtain up where up: "select_upgrade (Some (md_version m)) policy (md_ts_out m) w = Ok (Some (md_version m), up)"
    "v = (case up of Some x \<Rightarrow> x | None \<Rightarrow> w)"
    using assms by (auto simp: upgrades_def)
  have w: "16 \<le> length w" "w \<noteq> []" "unat (hd w) * 4 = length w"
    using assms rr_record_size_hd [of w] by (cases w; simp add: upgrades_def)+
  have "whole_record w" using assms by (simp add: upgrades_def whole_record_def)
  then show ?thesis
    using up w by (simp add: spec_record_def after_metadata_def select_upgrade_append Let_def split: option.split)
qed

lemma partial_record_incomplete:
  assumes "upgrades policy m w v" and "d_bytes a @ later = w @ rest" and "length (d_bytes a) < length w"
  shows "\<not> complete a"
proof
  assume c: "complete a"
  then obtain b bs where b: "d_bytes a = b # bs" by (cases "d_bytes a") (auto simp: complete_def)
  then have "hd w = b" using assms(2,3) by (cases w) auto
  moreover have "unat (hd w) * 4 = length w"
    using assms(1) rr_record_size_hd [of w] by (cases w; simp add: upgrades_def)
  ultimately show False using c b assms(3) by (simp add: complete_def)
qed

context calendar
begin

lemma metadata_step:
  assumes "streamable C policy m" and "received C policy m ws 0 p a" and "p @ later = metadata_bytes C m @ concat ws"
  shows "(\<exists>a' n. spec_process C a = Ok (a', More n) \<and> received C policy m ws 0 p a' \<and> waiting (metadata_bytes C m # ws) 0 p a') \<or>
    (\<exists>a'. spec_process C a = Ok (a', Got_Metadata (metadata_upgrade policy m)) \<and> received C policy m ws 1 p a')"
proof -
  let ?n = "unat (fst (calc_length m))" and ?md = "metadata_bytes C m"
  have pol: "d_policy a = policy" using assms(2) by (simp add: received_def)
  have N: "length ?md = 8 + ?n" using streamable_length(1) [OF assms(1)] .
  have short: "waiting (?md # ws) 0 p b" if "length p < 8 + ?n" for b
    using that N by (simp add: waiting_def)
  have long: "received C policy m ws 1 p (after_metadata policy m (drop (8 + ?n) p))" if "8 + ?n \<le> length p"
  proof -
    have "p = ?md @ drop (8 + ?n) p" using assms(3) that N by (metis append_eq_append_conv_if append_take_drop_id)
    then show ?thesis by (auto simp: received_def)
  qed
  consider (prelude) "d_phase a = Ph_Prelude" "d_bytes a = p"
    | (metadata) "d_phase a = Ph_Metadata (fst (calc_length m))" "d_version a = Some (md_version m)"
      "p = as_bytes ''DBN'' @ [md_version m] @ put_u32 (fst (calc_length m)) @ d_bytes a"
    using assms(2) by (auto simp: received_def)
  then show ?thesis
  proof cases
    case prelude
    show ?thesis
    proof (cases "length p < 8")
      case True
      then show ?thesis using prelude assms(2) short by (simp add: spec_process_def)
    next
      case False
      let ?a = "a\<lparr>d_version := Some (md_version m), d_phase := Ph_Metadata (fst (calc_length m)), d_bytes := drop 8 p\<rparr>"
      have "received C policy m ws 0 p ?a"
        using metadata_prelude(4) [OF assms(1,3)] False pol by (simp add: received_def)
      then show ?thesis
        using spec_process_stream [of a m later "concat ws"] assms(1,3) prelude pol False short long
        by (cases "length p < 8 + ?n") auto
    qed
  next
    case metadata
    then have "length p = 8 + length (d_bytes a)" by simp
    moreover have "drop 8 p = d_bytes a" using metadata(3) by simp
    then have "drop (8 + ?n) p = drop ?n (d_bytes a)" by (metis add.commute drop_drop)
    ultimately show ?thesis
      using spec_metadata_stream [of a m later "concat ws"] assms metadata pol short long
      by (cases "length (d_bytes a) < ?n") (auto simp: spec_process_def)
  qed
qed

lemma record_step:
  assumes "list_all2 (upgrades policy m) ws vs" and "received C policy m ws (Suc i) p a"
    and "p @ later = metadata_bytes C m @ concat ws"
  shows "(\<exists>n. spec_process C a = Ok (a, More n) \<and> waiting (metadata_bytes C m # ws) (Suc i) p a) \<or>
    (\<exists>a'. i < length ws \<and> spec_process C a = Ok (a', Got_Record (vs ! i)) \<and> received C policy m ws (Suc (Suc i)) p a')"
proof -
  obtain bs where a: "i \<le> length ws" "a = after_metadata policy m bs" "p = metadata_bytes C m @ concat (take i ws) @ bs"
    using assms(2) by (auto simp: received_def)
  have phase: "spec_process C a = spec_record a" by (simp add: a(2) spec_process_def after_metadata_def)
  have "concat ws = concat (take i ws) @ concat (drop i ws)" by (metis append_take_drop_id concat_append)
  then have rest: "d_bytes a @ later = concat (drop i ws)" using assms(3) a(2,3) by simp
  have wait: "\<exists>n. spec_process C a = Ok (a, More n) \<and> waiting (metadata_bytes C m # ws) (Suc i) p a"
    if "\<not> complete a" "i < length ws \<Longrightarrow> length (d_bytes a) < length (ws ! i)"
  proof -
    have "whole_items ws (concat (take i ws) @ d_bytes a) = (i, d_bytes a)"
      using whole_items_concat [OF a(1)] that(2) by blast
    then have "waiting (metadata_bytes C m # ws) (Suc i) p a" by (simp add: waiting_def a(2,3))
    then show ?thesis using spec_record_incomplete [OF that(1)] phase by metis
  qed
  show ?thesis
  proof (cases "i < length ws")
    case False
    then show ?thesis using wait rest a(1) by (simp add: complete_def)
  next
    case True
    have up: "upgrades policy m (ws ! i) (vs ! i)" using assms(1) True by (rule list_all2_nthD)
    have ws: "d_bytes a @ later = ws ! i @ concat (drop (Suc i) ws)" using rest True by (simp add: Cons_nth_drop_Suc [symmetric])
    show ?thesis
    proof (cases "length (d_bytes a) < length (ws ! i)")
      case True
      then show ?thesis using wait partial_record_incomplete [OF up ws] by blast
    next
      case False
      then obtain xs where xs: "bs = ws ! i @ xs" using ws a(2) by simp (metis append_eq_append_conv_if append_take_drop_id not_less)
      have "spec_process C a = Ok (after_metadata policy m xs, Got_Record (vs ! i))"
        using spec_record_upgrades [OF up, of xs] phase by (simp add: a(2) xs)
      moreover have "received C policy m ws (Suc (Suc i)) p (after_metadata policy m xs)"
        using \<open>i < length ws\<close> a(3) xs by (auto simp: received_def take_Suc_conv_app_nth)
      ultimately show ?thesis using \<open>i < length ws\<close> by blast
    qed
  qed
qed

end

section \<open>The loop\<close>

locale transcoding = oval_buffer B + output_env E rows cur contents zbase zwritten unzip + calendar "env_dates E"
  for B :: "'b buf_ops" and E :: "('w, 'z, 'c, 'd::linorder) encode_env" and rows :: "'c \<Rightarrow> string list list"
    and cur :: "'c \<Rightarrow> string list" and contents :: "'w \<Rightarrow> bytes" and zbase :: "'z \<Rightarrow> bytes" and zwritten :: "'z \<Rightarrow> bytes"
    and unzip :: "bytes \<Rightarrow> bytes option"
begin

text \<open>What an encoding has to provide: an invariant that the metadata and each record take to the next.\<close>

definition encodes_items ::
  "Encoding \<Rightarrow> VersionUpgradePolicy \<Rightarrow> 'd Metadata \<Rightarrow> bytes list \<Rightarrow> (nat \<Rightarrow> ('b, 'w, 'z, 'd) Inner \<Rightarrow> bool) \<Rightarrow> bool" where
  "encodes_items encoding policy m vs I \<longleftrightarrow>
     (\<forall>k t f. I k t \<longrightarrow> I k (t\<lparr>tc_fsm := f\<rparr>)) \<and>
     (\<forall>t. I 0 t \<and> upgrade_policy (tc_fsm t) = policy \<and> input_dbn_version (tc_fsm t) = Some (md_version m) \<and>
        fsm_ts_out (tc_fsm t) = md_ts_out m \<longrightarrow>
        (\<exists>t'. tc_encode_metadata E encoding (metadata_upgrade policy m) t = Some (t', Py_Ok ()) \<and> tc_fsm t' = tc_fsm t \<and> I 1 t')) \<and>
     (\<forall>t i ref. i < length vs \<and> I (Suc i) t \<and> last_record B (tc_fsm t) = Some ref \<and> rr_as_ref ref = vs ! i \<and>
        fsm_ts_out (tc_fsm t) = md_ts_out m \<longrightarrow>
        (\<exists>t'. tc_encode_record E B encoding t = (t', Ok ()) \<and> tc_fsm t' = tc_fsm t \<and> I (Suc (Suc i)) t'))"

lemma encodes_itemsD:
  assumes "encodes_items encoding policy m vs I"
  shows "I k t \<Longrightarrow> I k (t\<lparr>tc_fsm := f\<rparr>)"
    and "I 0 t \<Longrightarrow> upgrade_policy (tc_fsm t) = policy \<Longrightarrow> input_dbn_version (tc_fsm t) = Some (md_version m) \<Longrightarrow>
      fsm_ts_out (tc_fsm t) = md_ts_out m \<Longrightarrow>
      \<exists>t'. tc_encode_metadata E encoding (metadata_upgrade policy m) t = Some (t', Py_Ok ()) \<and> tc_fsm t' = tc_fsm t \<and> I 1 t'"
    and "i < length vs \<Longrightarrow> I (Suc i) t \<Longrightarrow> last_record B (tc_fsm t) = Some ref \<Longrightarrow> rr_as_ref ref = vs ! i \<Longrightarrow>
      fsm_ts_out (tc_fsm t) = md_ts_out m \<Longrightarrow>
      \<exists>t'. tc_encode_record E B encoding t = (t', Ok ()) \<and> tc_fsm t' = tc_fsm t \<and> I (Suc (Suc i)) t'"
  using assms unfolding encodes_items_def by blast+

lemma process_outcomes:
  assumes "fsm_inv B f" and "spec_process C (fsm_abs B f) = Ok (a, out)"
  obtains f' x where "process C B f = Some (Ok (f', x))" and "fsm_inv B f'" and "fsm_abs B f' = a" and "output_of B f' x = out"
  using process_refines_spec [OF assms(1), of C] assms(2) by (auto simp: refines_def)

lemma received_config:
  assumes "received C policy m ws (Suc i) p (fsm_abs B f)"
  shows "upgrade_policy f = policy" "input_dbn_version f = Some (md_version m)" "fsm_ts_out f = md_ts_out m"
proof -
  obtain bs where "fsm_abs B f = after_metadata policy m bs" using assms by (auto simp: received_def)
  from arg_cong [OF this, of d_policy] arg_cong [OF this, of d_version] arg_cong [OF this, of d_ts_out]
  show "upgrade_policy f = policy" "input_dbn_version f = Some (md_version m)" "fsm_ts_out f = md_ts_out m"
    by (simp_all add: fsm_abs_def after_metadata_def)
qed

definition settled ::
  "VersionUpgradePolicy \<Rightarrow> 'd Metadata \<Rightarrow> bytes list \<Rightarrow> (nat \<Rightarrow> ('b, 'w, 'z, 'd) Inner \<Rightarrow> bool) \<Rightarrow> bytes
   \<Rightarrow> ('b, 'w, 'z, 'd) Inner \<Rightarrow> bool" where
  "settled policy m ws I p t \<longleftrightarrow>
     (\<exists>k. fsm_inv B (tc_fsm t) \<and> received (env_dates E) policy m ws k p (fsm_abs B (tc_fsm t)) \<and> I k t \<and>
       waiting (metadata_bytes (env_dates E) m # ws) k p (fsm_abs B (tc_fsm t)))"

lemma encode_settles:
  assumes "streamable (env_dates E) policy m" and "list_all2 (upgrades policy m) ws vs" and "encodes_items encoding policy m vs I"
    and "p @ later = metadata_bytes (env_dates E) m @ concat ws"
    and "fsm_inv B (tc_fsm t)" and "received (env_dates E) policy m ws k p (fsm_abs B (tc_fsm t))" and "I k t"
  shows "\<exists>t'. tc_encode E B encoding t = Some (t', Py_Ok ()) \<and> settled policy m ws I p t'"
  using assms(5-7)
proof (induction "Suc (length ws) - k" arbitrary: t k rule: less_induct)
  case less
  note out = output_of_def
  have fsm: "I k (t\<lparr>tc_fsm := f\<rparr>)" for f using encodes_itemsD(1) [OF assms(3)] less.prems(3) by blast
  have stop: ?case
    if "spec_process (env_dates E) (fsm_abs B (tc_fsm t)) = Ok (a, More n)" "received (env_dates E) policy m ws k p a"
      "waiting (metadata_bytes (env_dates E) m # ws) k p a" for a n
  proof -
    note step = that(1)
    obtain f x where f: "process (env_dates E) B (tc_fsm t) = Some (Ok (f, x))" "fsm_inv B f" "fsm_abs B f = a" "output_of B f x = More n"
      using process_outcomes [OF less.prems(1) step] by metis
    then have "x = ReadMore n" by (cases x) (simp_all add: out)
    with f(1) have "tc_encode E B encoding t = Some (t\<lparr>tc_fsm := f\<rparr>, Py_Ok ())" by (subst tc_encode.simps) simp
    then show ?thesis using f fsm that by (auto simp: settled_def)
  qed
  show ?case
  proof (cases k)
    case 0
    from metadata_step [OF assms(1) less.prems(2) [unfolded 0] assms(4)] show ?thesis
    proof (elim disjE exE conjE)
      fix a assume a: "spec_process (env_dates E) (fsm_abs B (tc_fsm t)) = Ok (a, Got_Metadata (metadata_upgrade policy m))"
        "received (env_dates E) policy m ws 1 p a"
      obtain f x where f: "process (env_dates E) B (tc_fsm t) = Some (Ok (f, x))" "fsm_inv B f" "fsm_abs B f = a"
        "output_of B f x = Got_Metadata (metadata_upgrade policy m)"
        using process_outcomes [OF less.prems(1) a(1)] by metis
      have x: "x = Result_Metadata (metadata_upgrade policy m)" using f(4) by (cases x) (simp_all add: out)
      obtain t' where t': "tc_encode_metadata E encoding (metadata_upgrade policy m) (t\<lparr>tc_fsm := f\<rparr>) = Some (t', Py_Ok ())"
        "tc_fsm t' = f" "I 1 t'"
        using encodes_itemsD(2) [OF assms(3), of "t\<lparr>tc_fsm := f\<rparr>"] received_config [of "env_dates E" policy m ws 0 p f] a(2) f(3) fsm [of f] 0
        by auto
      have "tc_encode E B encoding t = tc_encode E B encoding t'" using f(1) x t'(1) by (subst tc_encode.simps) simp
      then show ?thesis using less.hyps [of 1 t'] 0 t' f a(2) by simp
    qed (use stop 0 in blast)
  next
    case (Suc i)
    from record_step [OF assms(2) less.prems(2) [unfolded Suc] assms(4)] show ?thesis
    proof (elim disjE exE conjE)
      fix a assume a: "i < length ws" "spec_process (env_dates E) (fsm_abs B (tc_fsm t)) = Ok (a, Got_Record (vs ! i))"
        "received (env_dates E) policy m ws (Suc (Suc i)) p a"
      obtain f x where f: "process (env_dates E) B (tc_fsm t) = Some (Ok (f, x))" "fsm_inv B f" "fsm_abs B f = a"
        "output_of B f x = Got_Record (vs ! i)"
        using process_outcomes [OF less.prems(1) a(2)] by metis
      obtain u where x: "x = Result_Record u" using f(4) by (cases x) (simp_all add: out)
      obtain ref where ref: "last_record B f = Some ref" "rr_as_ref ref = vs ! i"
        using process_exposes f(1,4) x by (fastforce simp: out)
      obtain t' where t': "tc_encode_record E B encoding (t\<lparr>tc_fsm := f\<rparr>) = (t', Ok ())" "tc_fsm t' = f" "I (Suc (Suc i)) t'"
        using encodes_itemsD(3) [OF assms(3), of i "t\<lparr>tc_fsm := f\<rparr>" ref] received_config [of "env_dates E" policy m ws "Suc i" p f]
          a(1,3) f(3) fsm [of f] Suc ref list_all2_lengthD [OF assms(2)] by auto
      have "tc_encode E B encoding t = tc_encode E B encoding t'" using f(1) x t'(1) by (subst tc_encode.simps) simp
      then show ?thesis using less.hyps [of "Suc (Suc i)" t'] Suc t' f a by simp
    qed (use stop Suc less.prems(2) in blast)
  qed
qed

lemma write_settles:
  assumes "streamable (env_dates E) policy m" and "list_all2 (upgrades policy m) ws vs" and "encodes_items encoding policy m vs I"
    and "(p @ bs) @ later = metadata_bytes (env_dates E) m @ concat ws"
    and "fsm_inv B (tc_fsm t)" and "received (env_dates E) policy m ws k p (fsm_abs B (tc_fsm t))" and "I k t"
  shows "\<exists>t'. tc_write E B encoding bs t = Some (t', Py_Ok ()) \<and> settled policy m ws I (p @ bs) t'"
proof -
  obtain f where f: "fsm_write_all B bs (tc_fsm t) = Ok f" "fsm_inv B f" "fsm_abs B f = feed bs (fsm_abs B (tc_fsm t))"
    using write_all_refines [OF assms(5)] by blast
  have "I k (t\<lparr>tc_fsm := f\<rparr>)" using encodes_itemsD(1) [OF assms(3)] assms(7) by blast
  then show ?thesis
    using encode_settles [OF assms(1-4), of "t\<lparr>tc_fsm := f\<rparr>" k] received_feed [OF assms(6), of bs] f by (simp add: tc_write_def)
qed

lemma writes_settle:
  assumes "streamable (env_dates E) policy m" and "list_all2 (upgrades policy m) ws vs" and "encodes_items encoding policy m vs I"
    and "p @ concat pieces @ later = metadata_bytes (env_dates E) m @ concat ws"
    and "fsm_inv B (tc_fsm t)" and "received (env_dates E) policy m ws k p (fsm_abs B (tc_fsm t))" and "I k t"
    and "pieces = [] \<Longrightarrow> settled policy m ws I p t"
  shows "\<exists>t'. transcoder_writes E B pieces (Transcoder encoding t) = Some (Transcoder encoding t', Py_Ok ()) \<and>
    settled policy m ws I (p @ concat pieces) t'"
  using assms(4-8)
proof (induction pieces arbitrary: p t k)
  case (Cons bs pieces)
  obtain t' where t': "tc_write E B encoding bs t = Some (t', Py_Ok ())" "settled policy m ws I (p @ bs) t'"
    using write_settles [OF assms(1-3) _ Cons.prems(2-4), of bs "concat pieces @ later"] Cons.prems(1) by auto
  from t'(2) obtain k' where "fsm_inv B (tc_fsm t')" "received (env_dates E) policy m ws k' (p @ bs) (fsm_abs B (tc_fsm t'))" "I k' t'"
    by (auto simp: settled_def)
  then show ?case using Cons.IH [of "p @ bs" t' k'] Cons.prems(1) t' by simp
qed simp

end

section \<open>Symbols along a stream\<close>

text \<open>What the symbol map becomes with a record, and the symbols of the records of a stream.\<close>

fun live_update :: "bytes \<Rightarrow> 'd SymbolMap \<Rightarrow> 'd SymbolMap" where
  "live_update v (SymbolMap_Historical m) = SymbolMap_Historical m"
| "live_update v (SymbolMap_Live m) = SymbolMap_Live (case on_record v m of Ok m' \<Rightarrow> m' | _ \<Rightarrow> m)"

fun symbol_for :: "'d clock_ops \<Rightarrow> 'd SymbolMap \<Rightarrow> bytes \<Rightarrow> string option" where
  "symbol_for K (SymbolMap_Historical m) v = symbol_of K m v"
| "symbol_for K (SymbolMap_Live m) v = pit_get m (rh_instrument_id (rr_header v))"

fun symbols_along :: "'d clock_ops \<Rightarrow> 'd SymbolMap \<Rightarrow> bytes list \<Rightarrow> string option list" where
  "symbols_along K m [] = []"
| "symbols_along K m (v # vs) = symbol_for K (live_update v m) v # symbols_along K (live_update v m) vs"

lemma length_symbols_along [simp]: "length (symbols_along K m vs) = length vs"
  by (induction vs arbitrary: m) simp_all

lemma nth_symbols_along:
  "i < length vs \<Longrightarrow> symbols_along K m vs ! i = symbol_for K (fold live_update (take (Suc i) vs) m) (vs ! i)"
  by (induction vs arbitrary: m i) (auto simp: nth_Cons take_Cons split: nat.split)

lemma fold_take_Suc: "i < length vs \<Longrightarrow> fold f (take (Suc i) vs) m = f (vs ! i) (fold f (take i vs) m)"
  by (simp add: take_Suc_conv_app_nth)

text \<open>A record whose symbol can be looked up.\<close>

definition symbol_ready :: "bytes \<Rightarrow> bool" where
  "symbol_ready v \<longleftrightarrow> indexed v \<and> (\<forall>m p. on_record v m \<noteq> Panic p)"

lemma on_record_append:
  assumes "whole_record v"
  shows "on_record (v @ ys) m = on_record v m"
proof -
  have size: "rr_record_size (v @ ys) = rr_record_size v" using assms by (simp add: whole_record_def rr_record_size_append)
  have "rr_get_unchecked SymbolMappingMsg_type (v @ ys) = rr_get_unchecked SymbolMappingMsg_type v"
    if "size_of SymbolMappingMsg_type \<le> rr_record_size v"
    using that assms by (simp add: rr_get_unchecked_def whole_record_def sm2_record.layout.rd_append)
  then show ?thesis
    using dispatch_append(1) [OF assms] rr_get_append [OF sm1_record.dbn_record_axioms assms, of ys] size
    by (simp add: on_record_def)
qed

lemma symbol_ready_ref:
  assumes "symbol_ready (rr_as_ref ref)"
  shows "update_live ref m = Ok (live_update (rr_as_ref ref) m)"
    and "symbol_map_get_for_rec K m ref = Ok (symbol_for K m (rr_as_ref ref))"
proof -
  have v: "indexed (rr_as_ref ref)" "whole_record (rr_as_ref ref)"
    using assms by (simp_all add: symbol_ready_def indexed_def)
  have "on_record ref x = on_record (rr_as_ref ref) x" for x
    using on_record_append [OF v(2)] ref_split [of ref] by metis
  then show "update_live ref m = Ok (live_update (rr_as_ref ref) m)"
    using assms by (cases m) (auto simp: symbol_ready_def split: result.split)
  have "rr_header ref = rr_header (rr_as_ref ref)"
    using v(2) rr_header_append [of "rr_as_ref ref"] ref_split [of ref] by (metis whole_record_def)
  then show "symbol_map_get_for_rec K m ref = Ok (symbol_for K m (rr_as_ref ref))"
    using ts_get_for_ref_symbol [OF v(1)] by (cases m) simp_all
qed

section \<open>What is written for a stream\<close>

text \<open>The symbol map that a stream starts with.\<close>

definition first_map :: "'d::linorder date_ops \<Rightarrow> 'd Metadata \<Rightarrow> 'd SymbolMap \<Rightarrow> bool" where
  "first_map C md sm \<longleftrightarrow>
     (case md_schema md of
        Some _ \<Rightarrow> \<exists>m. ts_from_metadata C md = Some (Ok m) \<and> sm = SymbolMap_Historical m
      | None \<Rightarrow> sm = SymbolMap_Live pit_new)"

text \<open>
  \<open>transcodes\<close>: the text of each item of a stream, the metadata and the records. DBN output has the
  encoded metadata and the records; JSON has a line per record, and CSV a header and a row for each record
  of the type of the schema.
\<close>

definition json_text_of :: "('w, 'z, 'c, 'd) encode_env \<Rightarrow> bool \<Rightarrow> json_object \<Rightarrow> string option \<Rightarrow> bytes" where
  "json_text_of E with_symbols obj s =
     as_bytes (env_json E False (if with_symbols then with_sym obj s else obj) @ [CHR 0x0A])"

definition csv_row_of :: "bool \<Rightarrow> string list \<Rightarrow> string option \<Rightarrow> string list" where
  "csv_row_of with_symbols row s = row @ (if with_symbols then [case s of Some t \<Rightarrow> t | None \<Rightarrow> []] else [])"

definition csv_shows ::
  "('w, 'z, 'c, 'd) encode_env \<Rightarrow> Schema \<Rightarrow> bool \<Rightarrow> bool \<Rightarrow> bool \<Rightarrow> bytes \<Rightarrow> string list option \<Rightarrow> bool" where
  "csv_shows E schema ts_out pretty_px pretty_ts v r \<longleftrightarrow>
     (case r of
        None \<Rightarrow> whole_record v \<and> rr_rtype v \<noteq> Some (rtype_from_schema schema)
      | Some row \<Rightarrow> \<exists>k. renders (env_dates E) (env_clock E) schema k ts_out pretty_px pretty_ts v row)"

definition csv_text_of :: "(string list \<Rightarrow> bytes) \<Rightarrow> bool \<Rightarrow> string list option \<Rightarrow> string option \<Rightarrow> bytes" where
  "csv_text_of csv_line with_symbols r s =
     (case r of None \<Rightarrow> [] | Some row \<Rightarrow> csv_line (csv_row_of with_symbols row s))"

definition transcodes ::
  "('w, 'z, 'c, 'd::linorder) encode_env \<Rightarrow> (string list \<Rightarrow> bytes) \<Rightarrow> Encoding \<Rightarrow> bool \<Rightarrow> bool \<Rightarrow> bool \<Rightarrow> Schema option
   \<Rightarrow> 'd Metadata \<Rightarrow> 'd SymbolMap \<Rightarrow> bytes list \<Rightarrow> bytes list \<Rightarrow> bool" where
  "transcodes E csv_line encoding pretty_px pretty_ts with_symbols schema md sm vs outs \<longleftrightarrow>
     (case encoding of
        Encoding_Dbn \<Rightarrow> encodable md \<and> outs = metadata_bytes (env_dates E) md # vs
      | Encoding_Json \<Rightarrow>
          (\<exists>objs. list_all2 (objectifies (env_dates E) (env_clock E) (md_ts_out md) pretty_px pretty_ts) vs objs \<and>
             outs = [] # map2 (json_text_of E with_symbols) objs (symbols_along (env_clock E) sm vs))
      | Encoding_Csv \<Rightarrow>
          (\<exists>sch tbl. (case schema of Some s \<Rightarrow> Some s | None \<Rightarrow> md_schema md) = Some sch \<and>
             list_all2 (csv_shows E sch (md_ts_out md) pretty_px pretty_ts) vs tbl \<and>
             outs = csv_line (ts_out_header (md_ts_out md) (kind_header (version_kind (md_version md) sch)) @
                  (if with_symbols then [''symbol''] else [])) #
                map2 (csv_text_of csv_line with_symbols) tbl (symbols_along (env_clock E) sm vs)))"

text \<open>A transcoder's csv writer is opened on the output for each item and dropped after it, with the default delimiter.\<close>

locale csv_lines = transcoding B E rows cur contents zbase zwritten unzip +
    csv_output E rows cur contents zbase zwritten unzip origin csv_line
  for B :: "'b buf_ops" and E :: "('w, 'z, 'c, 'd::linorder) encode_env" and rows :: "'c \<Rightarrow> string list list"
    and cur :: "'c \<Rightarrow> string list" and contents :: "'w \<Rightarrow> bytes" and zbase :: "'z \<Rightarrow> bytes" and zwritten :: "'z \<Rightarrow> bytes"
    and unzip :: "bytes \<Rightarrow> bytes option" and origin :: "'c \<Rightarrow> u8 \<times> ('w, 'z) DynWriter"
    and csv_line :: "u8 \<Rightarrow> string list \<Rightarrow> bytes"
begin

lemma dropped_writing:
  assumes "writing compression w bs v" and "between e t" and "origin (enc_writer e) = (44, v)"
  shows "writing compression w (bs @ concat (map (csv_line 44) t)) (env_csv_drop E (enc_writer e))"
  using csv_leaves(1) [OF assms(2,3,1)] .

end

lemma metadata_upgrade_fields:
  "md_ts_out (metadata_upgrade policy m) = md_ts_out m" "md_schema (metadata_upgrade policy m) = md_schema m"
  by (cases policy; simp add: metadata_upgrade_def)+

lemma metadata_upgrade_version:
  assumes "is_ok (validate_compatibility policy (md_version m))" and "md_version m \<le> DBN_VERSION" and "max (md_version m) 1 = md_version m"
  shows "md_version (metadata_upgrade policy m) = output_version policy (md_version m)"
proof -
  have "md_version m < 4" using assms(2) by (simp add: DBN_VERSION_def word_le_nat_alt word_less_nat_alt)
  then have "md_version m \<in> {0, 1, 2, 3}" by (auto simp: word_less_nat_alt word_unat_eq_iff)
  then show ?thesis
    using assms(1,3) by (cases policy) (auto simp: metadata_upgrade_def output_version_def validate_compatibility_def max_def)
qed

context csv_lines
begin

text \<open>A transcoder after \<open>k\<close> items.\<close>

definition progress ::
  "Encoding \<Rightarrow> Compression \<Rightarrow> 'w \<Rightarrow> bool \<Rightarrow> bool \<Rightarrow> bool \<Rightarrow> Schema option \<Rightarrow> 'd Metadata \<Rightarrow> 'd SymbolMap \<Rightarrow> bytes list \<Rightarrow> bytes list
   \<Rightarrow> nat \<Rightarrow> ('b, 'w, 'z, 'd) Inner \<Rightarrow> bool" where
  "progress encoding compression w pretty_px pretty_ts with_symbols schema md sm vs outs k t \<longleftrightarrow>
     writing compression w (concat (take k outs)) (tc_output t) \<and>
     tc_use_pretty_px t = pretty_px \<and> tc_use_pretty_ts t = pretty_ts \<and> tc_map_symbols t = with_symbols \<and>
     tc_schema t = (case schema of Some s \<Rightarrow> Some s | None \<Rightarrow> if k = 0 then None else md_schema md) \<and>
     (encoding \<noteq> Encoding_Dbn \<and> with_symbols \<longrightarrow>
        tc_symbol_map t = (case k of 0 \<Rightarrow> symbol_map_default | Suc i \<Rightarrow> fold live_update (take i vs) sm))"

lemma dbn_items:
  assumes "transcodes E (csv_line 44) Encoding_Dbn pretty_px pretty_ts with_symbols schema (metadata_upgrade policy m) sm vs outs"
  shows "encodes_items Encoding_Dbn policy m vs
    (progress Encoding_Dbn compression w pretty_px pretty_ts with_symbols schema (metadata_upgrade policy m) sm vs outs)"
proof -
  let ?md = "metadata_upgrade policy m"
  let ?I = "progress Encoding_Dbn compression w pretty_px pretty_ts with_symbols schema ?md sm vs outs"
  have outs: "encodable ?md" "outs = metadata_bytes (env_dates E) ?md # vs" using assms by (simp_all add: transcodes_def)
  have meta: "\<exists>t'. tc_encode_metadata E Encoding_Dbn ?md t = Some (t', Py_Ok ()) \<and> tc_fsm t' = tc_fsm t \<and> ?I 1 t'" if t: "?I 0 t" for t
  proof -
    obtain v where "metadata_encode (env_dates E) (env_dyn E) ?md (tc_output t) = (v, Ok ())"
      "writing compression w (metadata_bytes (env_dates E) ?md) v"
      using writing_metadata [of compression w "[]" "tc_output t" ?md "env_dates E"] outs(1) t
      by (auto simp: progress_def encoder_new_def)
    then show ?thesis
      using t outs(2) by (auto simp: tc_encode_metadata_def encode_header_if_csv_def Let_def progress_def split: option.splits)
  qed
  have rec: "\<exists>t'. tc_encode_record E B Encoding_Dbn t = (t', Ok ()) \<and> tc_fsm t' = tc_fsm t \<and> ?I (Suc (Suc i)) t'"
    if i: "i < length vs" "?I (Suc i) t" "last_record B (tc_fsm t) = Some ref" "rr_as_ref ref = vs ! i" for t i ref
  proof -
    obtain v where "put (env_dyn E) ''serializing '' (vs ! i) (tc_output t) = (v, Ok ())"
      "writing compression w (concat (take (Suc i) outs) @ vs ! i) v"
      using writing_put [of compression w "concat (take (Suc i) outs)" "tc_output t"] i(2) by (auto simp: progress_def)
    then show ?thesis
      using i outs(2)
      by (auto simp: tc_encode_record_def tc_encode_dbn_def encode_record_ref_ts_out_def encode_record_ref_def progress_def take_Suc_conv_app_nth)
  qed
  show ?thesis unfolding encodes_items_def using meta rec by (auto simp: progress_def)
qed

text \<open>For the text encodings, the map of the metadata is the one the records start with.\<close>

lemma first_symbols:
  assumes "with_symbols \<Longrightarrow> first_map (env_dates E) md sm" and "with_symbols"
  shows "tc_metadata_symbols E md symbol_map_default = Some (Py_Ok sm)"
  using assms
  by (auto simp: tc_metadata_symbols_def first_map_def symbol_map_default_def ts_new_def ts_is_empty_def Mapping.is_empty_empty
      split: option.splits)

lemma json_record_item:
  assumes objs: "list_all2 (objectifies (env_dates E) (env_clock E) (md_ts_out m) pretty_px pretty_ts) vs objs"
      "outs = [] # map2 (json_text_of E with_symbols) objs (symbols_along (env_clock E) sm vs)"
    and symbols: "with_symbols \<Longrightarrow> list_all symbol_ready vs"
    and i: "i < length vs" "progress Encoding_Json compression w pretty_px pretty_ts with_symbols schema md sm vs outs (Suc i) t"
      "last_record B (tc_fsm t) = Some ref" "rr_as_ref ref = vs ! i" "fsm_ts_out (tc_fsm t) = md_ts_out m"
  shows "\<exists>t'. tc_encode_record E B Encoding_Json t = (t', Ok ()) \<and> tc_fsm t' = tc_fsm t \<and>
    progress Encoding_Json compression w pretty_px pretty_ts with_symbols schema md sm vs outs (Suc (Suc i)) t'"
proof -
  let ?K = "env_clock E" and ?I = "progress Encoding_Json compression w pretty_px pretty_ts with_symbols schema md sm vs outs"
  let ?e = "json_new (tc_output t) False pretty_px pretty_ts" and ?bs = "concat (take (Suc i) outs)"
  let ?m = "fold live_update (take (Suc i) vs) sm"
  have len: "length objs = length vs" using objs(1) by (simp add: list_all2_lengthD)
  have e: "json_writing ?e compression w ?bs ?e" using i(2) by (simp add: json_writing_def json_new_def progress_def)
  have next_out: "take (Suc (Suc i)) outs = take (Suc i) outs @ [json_text_of E with_symbols (objs ! i) (symbol_for ?K ?m (vs ! i))]"
    using objs(2) i(1) len by (simp add: take_Suc_conv_app_nth nth_symbols_along)
  have "objectifies (env_dates E) ?K (md_ts_out m) (js_pretty_px ?e) (js_pretty_ts ?e) (rr_as_ref ref) (objs ! i)"
    using list_all2_nthD [OF objs(1) i(1)] i(4) by (simp add: json_new_def)
  note obj = objectifies_dispatch [OF this]
  have style: "tc_use_pretty_px t = pretty_px" "tc_use_pretty_ts t = pretty_ts" "tc_map_symbols t = with_symbols"
    using i(2) by (simp_all add: progress_def)
  show ?thesis
  proof (cases with_symbols)
    case True
    have ready: "symbol_ready (rr_as_ref ref)" using symbols True i(1,4) by (simp add: list_all_length)
    have m: "live_update (vs ! i) (tc_symbol_map t) = ?m" using i(1,2) True by (simp add: progress_def fold_take_Suc)
    obtain e' where e': "encode_object_with_sym (env_json E) (env_dyn E) (symbol_for ?K ?m (vs ! i)) (objs ! i) ?e = (e', Ok ())"
      "json_writing ?e compression w (?bs @ json_line (env_json E) ?e (with_sym (objs ! i) (symbol_for ?K ?m (vs ! i)))) e'"
      using json_writing_object(2) [OF e] by blast
    have "tc_encode_record E B Encoding_Json t = (t\<lparr>tc_symbol_map := ?m, tc_output := js_writer e'\<rparr>, Ok ())"
      using i(3-5) style m obj e'(1) True
      by (simp add: symbol_ready_ref [OF ready] tc_encode_record_def tc_encode_json_def Let_def with_symbol_for_def json_encode_ref_ts_out_with_sym_def)
    moreover have "?I (Suc (Suc i)) (t\<lparr>tc_symbol_map := ?m, tc_output := js_writer e'\<rparr>)"
      using e'(2) i(2) next_out True by (simp add: progress_def json_writing_def json_line_def json_text_of_def json_new_def)
    ultimately show ?thesis by simp
  next
    case False
    obtain e' where e': "encode_object (env_json E) (env_dyn E) (objs ! i) ?e = (e', Ok ())"
      "json_writing ?e compression w (?bs @ json_line (env_json E) ?e (objs ! i)) e'"
      using json_writing_object(1) [OF e] by blast
    have "tc_encode_record E B Encoding_Json t = (t\<lparr>tc_output := js_writer e'\<rparr>, Ok ())"
      using i(3-5) style obj e'(1) False
      by (simp add: tc_encode_record_def tc_encode_json_def Let_def json_encode_record_ref_ts_out_def)
    moreover have "?I (Suc (Suc i)) (t\<lparr>tc_output := js_writer e'\<rparr>)"
      using e'(2) i(2) next_out False by (simp add: progress_def json_writing_def json_line_def json_text_of_def json_new_def)
    ultimately show ?thesis by simp
  qed
qed

lemma json_items:
  assumes "transcodes E (csv_line 44) Encoding_Json pretty_px pretty_ts with_symbols schema (metadata_upgrade policy m) sm vs outs"
    and "with_symbols \<Longrightarrow> first_map (env_dates E) (metadata_upgrade policy m) sm" and "with_symbols \<Longrightarrow> list_all symbol_ready vs"
  shows "encodes_items Encoding_Json policy m vs
    (progress Encoding_Json compression w pretty_px pretty_ts with_symbols schema (metadata_upgrade policy m) sm vs outs)"
proof -
  let ?md = "metadata_upgrade policy m" and ?K = "env_clock E"
  let ?I = "progress Encoding_Json compression w pretty_px pretty_ts with_symbols schema ?md sm vs outs"
  obtain objs where objs: "list_all2 (objectifies (env_dates E) ?K (md_ts_out m) pretty_px pretty_ts) vs objs"
    "outs = [] # map2 (json_text_of E with_symbols) objs (symbols_along ?K sm vs)"
    using assms(1) by (auto simp: transcodes_def metadata_upgrade_fields)
  have meta: "\<exists>t'. tc_encode_metadata E Encoding_Json ?md t = Some (t', Py_Ok ()) \<and> tc_fsm t' = tc_fsm t \<and> ?I 1 t'" if "?I 0 t" for t
    using that first_symbols [OF assms(2)] objs(2)
    by (auto simp: tc_encode_metadata_def encode_header_if_csv_def Let_def progress_def split: option.splits)
  show ?thesis unfolding encodes_items_def using meta json_record_item [OF objs assms(3)] by (auto simp: progress_def)
qed

text \<open>One record through a csv encoder that borrows the output.\<close>

lemma csv_record_written:
  assumes "writing compression w bs v" and "csv_shows E sch ts_out pretty_px pretty_ts (rr_as_ref ref) (Some row)"
    and "e = \<lparr>enc_writer = env_csv_from E 44 v, has_written_header = True, use_pretty_px = pretty_px, use_pretty_ts = pretty_ts\<rparr>"
    and "f = (if with_symbols then csv_encode_ref_ts_out_with_sym (env_dates E) (env_clock E) (env_csv E) ref ts_out s
      else csv_encode_record_ref_ts_out (env_dates E) (env_clock E) (env_csv E) ref ts_out)"
  shows "\<exists>e'. f e = (e', Ok ()) \<and>
    writing compression w (bs @ csv_line 44 (csv_row_of with_symbols row s)) (env_csv_drop E (enc_writer e'))"
proof -
  have e: "between e []" "has_written_header e" "origin (enc_writer e) = (44, v)"
    using csv_open assms(3) by (simp_all add: between_def origin_from)
  obtain k where "renders (env_dates E) (env_clock E) sch k ts_out (use_pretty_px e) (use_pretty_ts e) (rr_as_ref ref) row"
    using assms(2,3) by (auto simp: csv_shows_def)
  then have run: "dispatch_fields (env_dates E) (env_clock E) g ref ts_out e = g (ts_out_header ts_out (kind_header k)) row e"
    and width: "length (ts_out_header ts_out (kind_header k)) = length row" for g
    by (simp add: renders_dispatch, metis kind_row_width renders_def)
  let ?s = "case s of Some t \<Rightarrow> t | None \<Rightarrow> []" and ?h = "ts_out_header ts_out (kind_header k)"
  obtain e' where e': "f e = (e', Ok ())" "between e' [csv_row_of with_symbols row s]" "origin (enc_writer e') = (44, v)"
  proof (cases with_symbols)
    case True
    obtain e' where "encode_fields_with_sym (env_csv E) s ?h row e = (e', Ok ())" "between e' [row @ [?s]]"
      using encode_fields_with_sym_writes [OF e(1) _ width refl, of s] e(2) by (auto simp: fits_def heading_def)
    then show thesis
      using that [of e'] enc_keepsD [OF encode_fields_keeps(2), of s ?h row e] run e(3) True assms(4)
      by (simp add: csv_encode_ref_ts_out_with_sym_def csv_row_of_def)
  next
    case False
    obtain e' where "encode_fields (env_csv E) ?h row e = (e', Ok ())" "between e' [row]"
      using encode_fields_writes [OF e(1) _ width] e(2) by (auto simp: fits_def heading_def)
    then show thesis
      using that [of e'] enc_keepsD [OF encode_fields_keeps(1), of ?h row e] run e(3) False assms(4)
      by (simp add: csv_encode_record_ref_ts_out_def csv_row_of_def)
  qed
  then show ?thesis using dropped_writing [OF assms(1) e'(2,3)] by auto
qed

lemma csv_header_written:
  assumes "writing compression w bs v"
  shows "\<exists>v'. encode_header_if_csv E Encoding_Csv pretty_px pretty_ts ts_out with_symbols policy (Some version) (Some sch) v = (v', Py_Ok ()) \<and>
    writing compression w (bs @ csv_line 44 (ts_out_header ts_out (kind_header (version_kind (output_version policy version) sch)) @
      (if with_symbols then [''symbol''] else []))) v'"
proof -
  let ?e = "\<lparr>enc_writer = env_csv_from E 44 v, has_written_header = False, use_pretty_px = pretty_px, use_pretty_ts = pretty_ts\<rparr>"
  have e: "between ?e []" "origin (enc_writer ?e) = (44, v)" using csv_open by (simp_all add: between_def origin_from)
  have new: "csv_new (env_csv E) (env_csv_from E) v pretty_px pretty_ts = Ok ?e"
    by (simp add: csv_new_def csv_build_def csv_builder_new_def Let_def)
  obtain e' where e': "csv_encode_header_for_schema (env_csv E) (output_version policy version) sch ts_out with_symbols ?e = (e', Ok ())"
    "between e' [ts_out_header ts_out (kind_header (version_kind (output_version policy version) sch)) @ (if with_symbols then [''symbol''] else [])]"
    using header_for_schema_writes [OF e(1)] by blast
  have "origin (enc_writer e') = (44, v)" using enc_keepsD [OF csv_header_keeps(2) e'(1)] e(2) by simp
  then show ?thesis using dropped_writing [OF assms e'(2)] e'(1) new by (simp add: encode_header_if_csv_def)
qed

lemma csv_record_item:
  assumes tbl: "list_all2 (csv_shows E sch (md_ts_out m) pretty_px pretty_ts) vs tbl"
    and outs: "outs = head # map2 (csv_text_of (csv_line 44) with_symbols) tbl (symbols_along (env_clock E) sm vs)"
    and symbols: "with_symbols \<Longrightarrow> list_all symbol_ready vs" and sch: "(case schema of Some s \<Rightarrow> Some s | None \<Rightarrow> md_schema md) = Some sch"
    and i: "i < length vs" "progress Encoding_Csv compression w pretty_px pretty_ts with_symbols schema md sm vs outs (Suc i) t"
      "last_record B (tc_fsm t) = Some ref" "rr_as_ref ref = vs ! i" "fsm_ts_out (tc_fsm t) = md_ts_out m"
  shows "\<exists>t'. tc_encode_record E B Encoding_Csv t = (t', Ok ()) \<and> tc_fsm t' = tc_fsm t \<and>
    progress Encoding_Csv compression w pretty_px pretty_ts with_symbols schema md sm vs outs (Suc (Suc i)) t'"
proof -
  let ?K = "env_clock E" and ?I = "progress Encoding_Csv compression w pretty_px pretty_ts with_symbols schema md sm vs outs"
  have len: "length tbl = length vs" using tbl by (simp add: list_all2_lengthD)
  let ?m = "fold live_update (take (Suc i) vs) sm" and ?bs = "concat (take (Suc i) outs)"
  let ?e = "\<lparr>enc_writer = env_csv_from E 44 (tc_output t), has_written_header = True, use_pretty_px = pretty_px, use_pretty_ts = pretty_ts\<rparr>"
  let ?s = "symbol_for ?K ?m (vs ! i)"
  let ?t = "\<lambda>e'. (if with_symbols then t\<lparr>tc_symbol_map := ?m\<rparr> else t)\<lparr>tc_output := env_csv_drop E (enc_writer e')\<rparr>"
  have t: "writing compression w ?bs (tc_output t)" "tc_use_pretty_px t = pretty_px" "tc_use_pretty_ts t = pretty_ts"
    "tc_map_symbols t = with_symbols" "tc_schema t = Some sch"
    using i(2) sch by (auto simp: progress_def split: option.splits)
  have row: "csv_shows E sch (md_ts_out m) pretty_px pretty_ts (rr_as_ref ref) (tbl ! i)"
    using list_all2_nthD [OF tbl i(1)] i(4) by simp
  have next_out: "take (Suc (Suc i)) outs = take (Suc i) outs @ [csv_text_of (csv_line 44) with_symbols (tbl ! i) ?s]"
    using outs i(1) len by (simp add: take_Suc_conv_app_nth nth_symbols_along)
  have keep: "?I (Suc (Suc i)) (?t e')"
    if "writing compression w (?bs @ csv_text_of (csv_line 44) with_symbols (tbl ! i) ?s) (env_csv_drop E (enc_writer e'))" for e'
    using that i(2) next_out by (simp add: progress_def)
  have m: "(if with_symbols then update_live ref (tc_symbol_map t) else Ok (tc_symbol_map t)) = Ok (if with_symbols then ?m else tc_symbol_map t)"
    and s: "with_symbols \<Longrightarrow> symbol_map_get_for_rec ?K ?m ref = Ok ?s"
    using symbol_ready_ref(1) [of ref "tc_symbol_map t"] symbol_ready_ref(2) [of ref ?K ?m] symbols i(1,2,4)
    by (auto simp: list_all_length progress_def fold_take_Suc)
  have build: "csv_build (env_csv E) (env_csv_from E) ((csv_builder_new (tc_output t))\<lparr>bld_use_pretty_px := pretty_px, bld_use_pretty_ts := pretty_ts,
      bld_write_header := False\<rparr>) = Ok ?e"
    by (simp add: csv_build_def csv_builder_new_def)
  note simps = tc_encode_record_def tc_encode_csv_def Let_def csv_in_output_def with_symbol_for_def ret_def
  have "whole_record (rr_as_ref ref)" using row by (auto simp: csv_shows_def renders_def split: option.splits)
  then have rt: "rr_rtype ref = rr_rtype (rr_as_ref ref)" using dispatch_append(1) ref_split [of ref] by metis
  show ?thesis
  proof (cases "tbl ! i")
    case None
    then have "rr_rtype ref \<noteq> Some (rtype_from_schema sch)" using row rt by (simp add: csv_shows_def)
    then have "tc_encode_record E B Encoding_Csv t = (?t ?e, Ok ())"
      using i(3,5) t(2-5) m build by (cases "rr_rtype ref") (auto simp: simps split: if_splits)
    moreover have "?I (Suc (Suc i)) (?t ?e)"
      using keep [of ?e] dropped_writing [OF t(1), of ?e "[]"] None csv_open origin_from by (simp add: csv_text_of_def between_def)
    ultimately show ?thesis by (intro exI [of _ "?t ?e"]) simp
  next
    case (Some cols)
    let ?f = "if with_symbols then csv_encode_ref_ts_out_with_sym (env_dates E) ?K (env_csv E) ref (md_ts_out m) ?s
      else csv_encode_record_ref_ts_out (env_dates E) ?K (env_csv E) ref (md_ts_out m)"
    obtain e' where e': "?f ?e = (e', Ok ())" "writing compression w (?bs @ csv_line 44 (csv_row_of with_symbols cols ?s)) (env_csv_drop E (enc_writer e'))"
      using csv_record_written [OF t(1) row [unfolded Some] refl refl, of with_symbols ?s] by blast
    have "rr_rtype ref = Some (rtype_from_schema sch)" using row rt Some by (auto simp: csv_shows_def renders_def)
    then have "tc_encode_record E B Encoding_Csv t = (?t e', Ok ())"
      using i(3,5) t(2-5) m build e'(1) s by (auto simp: simps split: if_splits)
    moreover have "?I (Suc (Suc i)) (?t e')" using keep [of e'] e'(2) Some by (simp add: csv_text_of_def)
    ultimately show ?thesis by (intro exI [of _ "?t e'"]) simp
  qed
qed

lemma csv_items:
  assumes "transcodes E (csv_line 44) Encoding_Csv pretty_px pretty_ts with_symbols schema (metadata_upgrade policy m) sm vs outs"
    and "with_symbols \<Longrightarrow> first_map (env_dates E) (metadata_upgrade policy m) sm" and "with_symbols \<Longrightarrow> list_all symbol_ready vs"
    and "md_version (metadata_upgrade policy m) = output_version policy (md_version m)"
  shows "encodes_items Encoding_Csv policy m vs
    (progress Encoding_Csv compression w pretty_px pretty_ts with_symbols schema (metadata_upgrade policy m) sm vs outs)"
proof -
  let ?md = "metadata_upgrade policy m" and ?K = "env_clock E"
  let ?I = "progress Encoding_Csv compression w pretty_px pretty_ts with_symbols schema ?md sm vs outs"
  obtain sch tbl where sch: "(case schema of Some s \<Rightarrow> Some s | None \<Rightarrow> md_schema ?md) = Some sch"
    and tbl: "list_all2 (csv_shows E sch (md_ts_out m) pretty_px pretty_ts) vs tbl"
    and outs: "outs = csv_line 44 (ts_out_header (md_ts_out m) (kind_header (version_kind (output_version policy (md_version m)) sch)) @
        (if with_symbols then [''symbol''] else [])) # map2 (csv_text_of (csv_line 44) with_symbols) tbl (symbols_along ?K sm vs)"
    using assms(1,4) by (auto simp: transcodes_def metadata_upgrade_fields)
  have meta: "\<exists>t'. tc_encode_metadata E Encoding_Csv ?md t = Some (t', Py_Ok ()) \<and> tc_fsm t' = tc_fsm t \<and> ?I 1 t'"
    if t: "?I 0 t" "upgrade_policy (tc_fsm t) = policy" "input_dbn_version (tc_fsm t) = Some (md_version m)" "fsm_ts_out (tc_fsm t) = md_ts_out m" for t
  proof -
    obtain v where v: "encode_header_if_csv E Encoding_Csv pretty_px pretty_ts (md_ts_out m) with_symbols policy (Some (md_version m)) (Some sch)
        (tc_output t) = (v, Py_Ok ())" "writing compression w (concat (take 1 outs)) v"
      using csv_header_written [of compression w "[]" "tc_output t"] t(1) outs by (force simp: progress_def)
    have s: "tc_schema (if tc_schema t = None then t\<lparr>tc_schema := md_schema ?md\<rparr> else t) = Some sch"
      using t(1) sch by (auto simp: progress_def split: option.splits)
    show ?thesis
      using t v s sch first_symbols [OF assms(2)]
      by (cases with_symbols; cases "tc_schema t")
        (auto simp: tc_encode_metadata_def Let_def progress_def split: option.splits)
  qed
  show ?thesis unfolding encodes_items_def using meta csv_record_item [OF tbl outs assms(3) sch] by (auto simp: progress_def)
qed

lemma items_encoded:
  assumes "transcodes E (csv_line 44) encoding pretty_px pretty_ts with_symbols schema (metadata_upgrade policy m) sm vs outs"
    and "encoding \<noteq> Encoding_Dbn \<and> with_symbols \<longrightarrow> first_map (env_dates E) (metadata_upgrade policy m) sm \<and> list_all symbol_ready vs"
    and "streamable (env_dates E) policy m"
  shows "encodes_items encoding policy m vs
    (progress encoding compression w pretty_px pretty_ts with_symbols schema (metadata_upgrade policy m) sm vs outs)"
proof -
  have "md_version (metadata_upgrade policy m) = output_version policy (md_version m)"
    using metadata_upgrade_version [OF _ streamable_length(3,4) [OF assms(3)]] assms(3) by (simp add: streamable_def)
  then show ?thesis
    using assms(1,2) dbn_items json_items csv_items by (cases encoding) simp_all
qed

lemma transcoder_opens:
  assumes "encoding = Encoding_Dbn \<longrightarrow> map_symbols \<noteq> Some True" and "with_symbols = (map_symbols \<noteq> Some False)"
  obtains t where "transcoder_new E B w encoding compression pretty_px pretty_ts map_symbols True ts_out None schema None policy =
      Some (Py_Ok (Transcoder encoding t))"
    and "fsm_inv B (tc_fsm t)" and "received (env_dates E) policy m ws 0 [] (fsm_abs B (tc_fsm t))"
    and "progress encoding compression w pretty_px pretty_ts with_symbols schema md sm vs outs 0 t"
proof -
  obtain v where v: "dyn_writer_new (env_zstd E) w compression = Ok v" "writing compression w [] v" using dyn_writer_opens by blast
  let ?f = "\<lparr>input_dbn_version = None, upgrade_policy = policy, fsm_ts_out = ts_out, state = State_Prelude,
    buffer = with_capacity B DEFAULT_BUF_SIZE, compat_buffer = with_capacity B 0\<rparr>"
  let ?t = "\<lparr>tc_fsm = ?f, tc_output = v, tc_use_pretty_px = pretty_px, tc_use_pretty_ts = pretty_ts, tc_map_symbols = with_symbols,
    tc_symbol_map = symbol_map_default, tc_schema = schema\<rparr>"
  have symbols: "(case map_symbols of Some b \<Rightarrow> b | None \<Rightarrow> True) = with_symbols" using assms(2) by (cases map_symbols) auto
  have "transcoder_new E B w encoding compression pretty_px pretty_ts map_symbols True ts_out None schema None policy = Some (Py_Ok (Transcoder encoding ?t))"
    using assms(1) v(1) symbols
    by (simp add: transcoder_new_def tc_inner_new_def py_bind_def builder_input_dbn_version_def builder_skip_metadata_def
        builder_ts_out_def builder_upgrade_policy_def fsm_builder_def fsm_build_def)
  moreover have "fsm_inv B ?f" "received (env_dates E) policy m ws 0 [] (fsm_abs B ?f)"
    by (simp_all add: fsm_inv_def received_def fsm_abs_def)
  moreover have "progress encoding compression w pretty_px pretty_ts with_symbols schema md sm vs outs 0 ?t"
    using v(2) by (simp add: progress_def split: option.split)
  ultimately show thesis using that [of ?t] by simp
qed

lemma settled_output:
  assumes "settled policy m ws (progress encoding compression w pretty_px pretty_ts with_symbols schema md sm vs outs) p t"
    and "whole_items (metadata_bytes (env_dates E) m # ws) p = (k, rest)"
  shows "leaves contents unzip compression w (concat (take k outs)) (dyn_writer_drop (env_zstd E) (tc_output t))"
    and "0 < k \<Longrightarrow> tc_buffer B t = Ok rest"
proof -
  have k: "fsm_inv B (tc_fsm t)" "progress encoding compression w pretty_px pretty_ts with_symbols schema md sm vs outs k t"
    "0 < k \<Longrightarrow> rest = d_bytes (fsm_abs B (tc_fsm t))"
    using assms by (auto simp: settled_def waiting_def)
  show "leaves contents unzip compression w (concat (take k outs)) (dyn_writer_drop (env_zstd E) (tc_output t))"
    using k(2) writing_drop by (simp add: progress_def)
  have "tc_buffer B t = Ok (d_bytes (fsm_abs B (tc_fsm t)))"
    using k(1) by (auto simp: tc_buffer_def fsm_data_def fsm_abs_def fsm_inv_def slice_from_def split: State.splits)
  then show "0 < k \<Longrightarrow> tc_buffer B t = Ok rest" using k(3) by simp
qed

lemma flush_settles:
  assumes "streamable (env_dates E) policy m" and "list_all2 (upgrades policy m) ws vs"
    and "I = progress encoding compression w pretty_px pretty_ts with_symbols schema md sm vs outs"
    and "encodes_items encoding policy m vs I" and "p @ later = metadata_bytes (env_dates E) m @ concat ws" and "settled policy m ws I p t"
  shows "\<exists>t'. tc_flush E B encoding t = Some (t', Py_Ok ()) \<and> settled policy m ws I p t'"
proof -
  obtain k where k: "fsm_inv B (tc_fsm t)" "received (env_dates E) policy m ws k p (fsm_abs B (tc_fsm t))" "I k t"
    using assms(6) by (auto simp: settled_def)
  obtain u where u: "tc_encode E B encoding t = Some (u, Py_Ok ())" "settled policy m ws I p u"
    using encode_settles [OF assms(1,2,4,5) k] by blast
  then obtain j where j: "fsm_inv B (tc_fsm u)" "received (env_dates E) policy m ws j p (fsm_abs B (tc_fsm u))" "I j u"
    "waiting (metadata_bytes (env_dates E) m # ws) j p (fsm_abs B (tc_fsm u))"
    by (auto simp: settled_def)
  obtain v where "flush (env_dyn E) (tc_output u) = (v, True)" "I j (u\<lparr>tc_output := v\<rparr>)"
    using writing_flush [of compression w _ "tc_output u"] j(3) assms(3) by (force simp: progress_def)
  then show ?thesis using u(1) j by (auto simp: tc_flush_def settled_def)
qed

lemma stream_transcoded:
  assumes "streamable (env_dates E) policy m" and "list_all2 (upgrades policy m) ws vs"
    and "encoding = Encoding_Dbn \<longrightarrow> map_symbols \<noteq> Some True" and "with_symbols = (map_symbols \<noteq> Some False)"
    and "transcodes E (csv_line 44) encoding pretty_px pretty_ts with_symbols schema (metadata_upgrade policy m) sm vs outs"
    and "encoding \<noteq> Encoding_Dbn \<and> with_symbols \<longrightarrow> first_map (env_dates E) (metadata_upgrade policy m) sm \<and> list_all symbol_ready vs"
    and "concat pieces @ later = metadata_bytes (env_dates E) m @ concat ws"
    and "whole_items (metadata_bytes (env_dates E) m # ws) (concat pieces) = (k, rest)"
  shows "\<exists>t0 t t'. transcoder_new E B w encoding compression pretty_px pretty_ts map_symbols True ts_out None schema None policy = Some (Py_Ok t0) \<and>
    transcoder_writes E B pieces t0 = Some (t, Py_Ok ()) \<and> transcoder_flush E B t = Some (t', Py_Ok ()) \<and>
    (\<forall>u\<in>{t, t'}. leaves contents unzip compression w (concat (take k outs)) (dyn_writer_drop (env_zstd E) (tc_output (tr_inner u))) \<and>
      (0 < k \<longrightarrow> transcoder_buffer B u = Ok rest))"
proof -
  let ?md = "metadata_upgrade policy m"
  let ?I = "progress encoding compression w pretty_px pretty_ts with_symbols schema ?md sm vs outs"
  have items: "encodes_items encoding policy m vs ?I" by (rule items_encoded [OF assms(5,6,1)])
  obtain t0 where t0: "transcoder_new E B w encoding compression pretty_px pretty_ts map_symbols True ts_out None schema None policy =
      Some (Py_Ok (Transcoder encoding t0))"
    "fsm_inv B (tc_fsm t0)" "received (env_dates E) policy m ws 0 [] (fsm_abs B (tc_fsm t0))" "?I 0 t0"
    by (rule transcoder_opens [OF assms(3,4)])
  have "waiting (metadata_bytes (env_dates E) m # ws) 0 [] (fsm_abs B (tc_fsm t0))"
    using streamable_length(1) [OF assms(1)] by (auto simp: waiting_def)
  then have start: "settled policy m ws ?I [] t0" using t0 by (auto simp: settled_def)
  obtain t where t: "transcoder_writes E B pieces (Transcoder encoding t0) = Some (Transcoder encoding t, Py_Ok ())"
    "settled policy m ws ?I (concat pieces) t"
    using writes_settle [OF assms(1,2) items _ t0(2-4), of pieces later] assms(7) start by auto
  obtain t' where t': "tc_flush E B encoding t = Some (t', Py_Ok ())" "settled policy m ws ?I (concat pieces) t'"
    using flush_settles [OF assms(1,2) refl items assms(7) t(2)] by blast
  show ?thesis
    using t0(1) t(1) t'(1) settled_output [OF t(2) assms(8)] settled_output [OF t'(2) assms(8)] by auto
qed

end

section \<open>Arguments that are refused\<close>

lemma transcoder_refuses_symbols:
  "transcoder_new E B w Encoding_Dbn compression pretty_px pretty_ts (Some True) has_metadata ts_out None schema input_version policy =
     Some (Py_ValueError ''map_symbols=True is incompatible with DBN encoding'')"
  by (simp add: transcoder_new_def tc_inner_new_def py_bind_def)

context output_env
begin

text \<open>Without metadata, a CSV header needs the version and the schema.\<close>

lemma transcoder_refuses_fragment:
  "transcoder_new E B w Encoding_Csv compression pretty_px pretty_ts map_symbols False ts_out None schema None policy =
     Some (Py_ValueError ''must specify input_version when has_metadata=False'')"
  "dbn_version_try_from version = Ok version \<Longrightarrow> validate_compatibility policy version = Ok () \<Longrightarrow>
   transcoder_new E B w Encoding_Csv compression pretty_px pretty_ts map_symbols False ts_out None None (Some version) policy =
     Some (Py_ValueError ''A schema must be specified when transcoding mixed schema DBN to CSV'')"
proof -
  obtain v where "dyn_writer_new (env_zstd E) w compression = Ok v" using dyn_writer_opens by blast
  note opens = this transcoder_new_def tc_inner_new_def py_bind_def builder_input_dbn_version_def builder_skip_metadata_def
    builder_ts_out_def builder_upgrade_policy_def fsm_builder_def fsm_build_def encode_header_if_csv_def Let_def
  show "transcoder_new E B w Encoding_Csv compression pretty_px pretty_ts map_symbols False ts_out None schema None policy =
     Some (Py_ValueError ''must specify input_version when has_metadata=False'')"
    by (simp add: opens)
  show "dbn_version_try_from version = Ok version \<Longrightarrow> validate_compatibility policy version = Ok () \<Longrightarrow>
   transcoder_new E B w Encoding_Csv compression pretty_px pretty_ts map_symbols False ts_out None None (Some version) policy =
     Some (Py_ValueError ''A schema must be specified when transcoding mixed schema DBN to CSV'')"
    by (simp add: opens)
qed

end

section \<open>Properties\<close>

text \<open>A csv writer that keeps its records, over the output it will write them to.\<close>

interpretation sample_lines: csv_lines list_buffer sample_env "\<lambda>c. fst (snd c)" "\<lambda>c. snd (snd c)" "\<lambda>w. w" fst snd unstore fst csv_text
proof (intro csv_lines.intro transcoding.intro)
  show "oval_buffer list_buffer" by (rule list_buffer.oval_buffer_axioms)
  show "output_env sample_env (\<lambda>c. fst (snd c)) (\<lambda>c. snd (snd c)) (\<lambda>w. w) fst snd unstore" by (rule sample_out.output_env_axioms)
  show "calendar (env_dates sample_env)" using gregorian.calendar_axioms by simp
  show "csv_output sample_env (\<lambda>c. fst (snd c)) (\<lambda>c. snd (snd c)) (\<lambda>w. w) fst snd unstore fst csv_text" by (rule sample_csv.csv_output_axioms)
qed

text \<open>
  C8. Transcoding a stream that arrives in pieces: wherever the bytes of an encoded stream are cut, every call
  of \<open>write\<close> and a \<open>flush\<close> at any time succeed, and the output has what the received bytes complete: as DBN
  the upgraded metadata and the upgraded records, as JSON a line for each record, as CSV the header and a row
  for each record of the type of the schema. A symbol is that of the metadata's map for the record's date, or
  in a live stream the last one a mapping record up to and including the record gave its instrument. Once the
  metadata are complete, the buffer holds exactly the bytes after the last complete record.
\<close>

theorem transcoder_streams:
  assumes "csv_lines B E rows cur contents zbase zwritten unzip origin csv_line"
    and "streamable (env_dates E) policy m" and "list_all2 (upgrades policy m) ws vs"
    and "encoding = Encoding_Dbn \<longrightarrow> map_symbols \<noteq> Some True" and "with_symbols = (map_symbols \<noteq> Some False)"
    and "transcodes E (csv_line 44) encoding pretty_px pretty_ts with_symbols schema (metadata_upgrade policy m) sm vs outs"
    and "encoding \<noteq> Encoding_Dbn \<and> with_symbols \<longrightarrow> first_map (env_dates E) (metadata_upgrade policy m) sm \<and> list_all symbol_ready vs"
    and "concat pieces @ later = metadata_bytes (env_dates E) m @ concat ws"
    and "whole_items (metadata_bytes (env_dates E) m # ws) (concat pieces) = (k, rest)"
  shows "\<exists>t0 t t'. transcoder_new E B w encoding compression pretty_px pretty_ts map_symbols True ts_out None schema None policy = Some (Py_Ok t0) \<and>
    transcoder_writes E B pieces t0 = Some (t, Py_Ok ()) \<and> transcoder_flush E B t = Some (t', Py_Ok ()) \<and>
    (\<forall>u\<in>{t, t'}. leaves contents unzip compression w (concat (take k outs)) (dyn_writer_drop (env_zstd E) (tc_output (tr_inner u))) \<and>
      (0 < k \<longrightarrow> transcoder_buffer B u = Ok rest))"
  by (rule csv_lines.stream_transcoded [OF assms])

lemma whole_items_all: "whole_items ws (concat ws) = (length ws, [])"
  using whole_items_concat [of "length ws" ws "[]"] by simp

lemma transcodes_csvI:
  assumes "schema = None" and "md_schema md = Some sch" and "list_all2 (csv_shows E sch (md_ts_out md) pretty_px pretty_ts) vs tbl"
    and "head = ts_out_header (md_ts_out md) (kind_header (version_kind (md_version md) sch)) @ (if with_symbols then [''symbol''] else [])"
    and "texts = map2 (csv_text_of csv_line with_symbols) tbl (symbols_along (env_clock E) sm vs)"
  shows "transcodes E csv_line Encoding_Csv pretty_px pretty_ts with_symbols schema md sm vs (csv_line head # texts)"
  using assms by (auto simp: transcodes_def)

text \<open>A stream with a record of another type and a quote, cut in the metadata and after the quote's first byte.\<close>

abbreviation sample_stream :: "bytes list" where
  "sample_stream \<equiv> [metadata_bytes gregorian (sample_metadata 3), put_MboMsg (mbo_at 7), sample_bytes]"

theorem transcoder_streams_witness:
  "\<exists>t0 t. transcoder_new sample_env list_buffer [] Encoding_Csv Compression_None False False None True False None None None
       VersionUpgradePolicy_AsIs = Some (Py_Ok t0) \<and>
     transcoder_writes sample_env list_buffer [take 5 (concat sample_stream), drop 5 (concat sample_stream)] t0 = Some (t, Py_Ok ()) \<and>
     dyn_writer_drop (env_zstd sample_env) (tc_output (tr_inner t)) =
       csv_text 44 (kind_header Kind_Mbp1Msg @ [''symbol'']) @
       csv_text 44 (csv_fields_Mbp1Msg gregorian unix_clock False False sample_quote @ [''ES.c.0''])"
proof -
  let ?m = "sample_metadata 3" and ?u = "put_MboMsg (mbo_at 7)" and ?p = "VersionUpgradePolicy_AsIs"
  let ?md = "metadata_upgrade ?p ?m"
  have up: "list_all2 (upgrades ?p ?m) [?u, sample_bytes] [?u, sample_bytes]"
    using upgrades_same(1) [OF mbp1_record.dbn_record_axioms sample_quote_ok(1), of ?m ?p]
      upgrades_same(1) [OF mbo_record.dbn_record_axioms mbo_at_ok, of ?m ?p 7]
    by (simp add: sample_version DBN_VERSION_def upgrade_for_def is_upgrade_situation_def Mbp1Msg_type_def MboMsg_type_def)
  have md: "md_schema ?md = Some Schema_Mbp1" "md_version ?md = 3" "\<not> md_ts_out ?md" "has_symbols ?md"
    "last_symbol (md_entries ?md) (gdate_of 2024 2 29) 17077 = Some ''ES.c.0''"
    by (simp_all add: metadata_upgrade_def has_symbols_def is_inverse_def usable_def interval_usable_def sample_metadata_simps sample_dates
        sample_ids md_entries_def mapping_entries_def entry_of_def last_symbol_def covering_def is_leap_def)
  then have no_ts_out: "md_ts_out ?md = False" by blast
  obtain map where map: "ts_from_metadata gregorian ?md = Some (Ok map)" "ts_get map (gdate_of 2024 2 29) 17077 = Some ''ES.c.0''"
    using gregorian.ts_from_metadata_builds [of ?md] md by (auto simp: builds_def adds_def)
  have sym_text: "symbol_of unix_clock map sample_bytes = Some ''ES.c.0''"
    using map(2) sample_quote_view by (simp add: symbol_of_def ts_to_date_def UNDEF_TIMESTAMP_def sample_quote_date sample_quote_def)
  have "rh_rtype (rr_header ?u) = rtype_as_u8 RType_Mbo"
    using mbo_record.well_formed_view(1) [OF mbo_at_ok, of 7 "[]"] by (simp add: MboMsg_type_def mbo_at_def MboMsg_default_def)
  then have rt: "rr_rtype ?u = Some RType_Mbo" "rr_rtype sample_bytes = Some RType_Mbp1"
    by (simp_all only: rr_rtype_def sample_quote_view(3) sample_quote_ok(2) rtype_of_u8)
  have ready: "list_all symbol_ready [?u, sample_bytes]"
    using sample_quote_view(2) rt by (simp add: symbol_ready_def on_record_def)
  let ?tbl = "[None, Some (csv_fields_Mbp1Msg gregorian unix_clock False False sample_quote)]"
  have tbl: "list_all2 (csv_shows sample_env Schema_Mbp1 False False False) [?u, sample_bytes] ?tbl"
    using sample_quote_renders(1) [of False False] rt mbo_at_view(4) [of 7] by (auto simp: csv_shows_def rtype_from_schema_def indexed_def)
  have outs: "transcodes sample_env (csv_text 44) Encoding_Csv False False True None ?md (SymbolMap_Historical map) [?u, sample_bytes]
      [csv_text 44 (kind_header Kind_Mbp1Msg @ [''symbol'']), [],
       csv_text 44 (csv_fields_Mbp1Msg gregorian unix_clock False False sample_quote @ [''ES.c.0''])]"
  proof (rule transcodes_csvI)
    show "kind_header Kind_Mbp1Msg @ [''symbol''] =
        ts_out_header (md_ts_out ?md) (kind_header (version_kind (md_version ?md) Schema_Mbp1)) @ (if True then [''symbol''] else [])"
      unfolding md(2) no_ts_out by (simp add: ts_out_header_def version_kind_def schema_kind_def del: kind_header.simps)
    show "[[], csv_text 44 (csv_fields_Mbp1Msg gregorian unix_clock False False sample_quote @ [''ES.c.0''])] =
        map2 (csv_text_of (csv_text 44) True) ?tbl (symbols_along (env_clock sample_env) (SymbolMap_Historical map) [?u, sample_bytes])"
      by (simp add: csv_text_of_def csv_row_of_def sym_text)
    show "list_all2 (csv_shows sample_env Schema_Mbp1 (md_ts_out ?md) False False) [?u, sample_bytes] ?tbl"
      unfolding no_ts_out by (rule tbl)
  qed (rule refl md(1))+
  have cut: "concat [take 5 xs, drop 5 xs] = xs" for xs :: bytes by simp
  have three: "length sample_stream = 3" by simp
  have whole: "whole_items sample_stream (concat [take 5 (concat sample_stream), drop 5 (concat sample_stream)]) = (3, [])"
    using whole_items_all [of sample_stream] unfolding cut three .
  have first: "Encoding_Csv \<noteq> Encoding_Dbn \<and> True \<longrightarrow> first_map gregorian ?md (SymbolMap_Historical map) \<and> list_all symbol_ready [?u, sample_bytes]"
    using map(1) md(1) ready by (auto simp: first_map_def)
  have all: "concat [take 5 (concat sample_stream), drop 5 (concat sample_stream)] @ [] = metadata_bytes gregorian ?m @ concat [?u, sample_bytes]"
    unfolding cut by simp
  have left: "leaves (\<lambda>w. w) unstore Compression_None [] (concat (take 3 [a, [], b])) out \<longleftrightarrow> out = a @ b" for a b out :: bytes
    by (simp add: leaves_def)
  have none: "Encoding_Csv = Encoding_Dbn \<longrightarrow> None \<noteq> Some True" "True = (None \<noteq> Some False)" by simp_all
  show ?thesis
    using transcoder_streams [OF sample_lines.csv_lines_axioms, unfolded sample_env_simps,
        OF sample_streamable(1) up none outs first all whole, of "[]" Compression_None False]
    unfolding left by blast
qed

end
