(* ===== verification/Async_Io.thy ===== *)
theory Async_Io
  imports Reader Writer
begin

text \<open>
  Asynchronous input and output as the async decoders and encoders use it. A future is polled
  until it is ready; polling runs the body of the \<^verbatim>\<open>async fn\<close> up to the next \<^verbatim>\<open>await\<close> that
  is not ready, and dropping the future cancels it: what it owned is lost, what it borrowed stays
  as it is. A schedule is the order in which a caller (say, a \<^verbatim>\<open>tokio::select!\<close> in a loop)
  polls a future and cancels it to start the call again.

  The readers and writers of the crate \<^verbatim>\<open>tokio\<close> are dictionaries. Their interfaces are what
  its documentation promises: a read that is not ready has read nothing; a \<^verbatim>\<open>write_all\<close> that
  is not ready has written a part of its bytes and holds the others.
\<close>

section \<open>Definitions\<close>

datatype 'a Poll = Ready 'a | Pending

record 'r areader =
  poll_read :: "nat \<Rightarrow> 'r \<Rightarrow> 'r \<times> (io_error_kind + bytes) Poll"
  poll_seek_current :: "nat \<Rightarrow> 'r \<Rightarrow> 'r \<times> bool Poll"

text \<open>
  Polling the future of \<^verbatim>\<open>write_all\<close> with the bytes it still has to write gives those left
  when it is not ready, and whether it succeeded when it is.
\<close>

record 'w awriter =
  poll_write_all :: "bytes \<Rightarrow> 'w \<Rightarrow> 'w \<times> bytes \<times> bool Poll"
  poll_flush :: "'w \<Rightarrow> 'w \<times> bool Poll"
  poll_shutdown :: "'w \<Rightarrow> 'w \<times> bool Poll"

subsection \<open>Schedules\<close>

datatype event = Poll_Future | Cancel_Future

text \<open>
  A future that is polled is suspended again (\<open>Inl\<close>) or ready with its value (\<open>Inr\<close>). Calling
  again after a cancellation is \<open>restart\<close>.
\<close>

fun drive :: "('f \<Rightarrow> ('f + 'x) option) \<Rightarrow> ('f \<Rightarrow> 'f) \<Rightarrow> event list \<Rightarrow> 'f \<Rightarrow> ('f + 'x) option" where
  "drive poll restart [] f = Some (Inl f)"
| "drive poll restart (Cancel_Future # es) f = drive poll restart es (restart f)"
| "drive poll restart (Poll_Future # es) f =
     (case poll f of
        None \<Rightarrow> None
      | Some (Inl f') \<Rightarrow> drive poll restart es f'
      | Some (Inr x) \<Rightarrow> Some (Inr x))"

definition schedule_prefix :: "(nat \<Rightarrow> event) \<Rightarrow> nat \<Rightarrow> event list" where
  "schedule_prefix sched n = map sched [0..<n]"

text \<open>The caller keeps polling.\<close>

definition fair :: "(nat \<Rightarrow> event) \<Rightarrow> bool" where
  "fair sched \<longleftrightarrow> (\<forall>n. \<exists>m\<ge>n. sched m = Poll_Future)"

text \<open>
  In-memory sources and sinks that are not ready when told so: \<open>None\<close> is a poll that is not
  ready, \<open>Some k\<close> one that moves up to \<open>k\<close> bytes, and with no more entries all are moved.
\<close>

definition slow_reader :: "(nat option list \<times> bytes) areader" where
  "slow_reader =
     \<lparr>poll_read = (\<lambda>n (sizes, bs).
        case sizes of
          None # sizes \<Rightarrow> ((sizes, bs), Pending)
        | Some k # sizes \<Rightarrow> ((sizes, drop (min n (max 1 k)) bs), Ready (Inr (take (min n (max 1 k)) bs)))
        | [] \<Rightarrow> (([], drop n bs), Ready (Inr (take n bs)))),
      poll_seek_current = (\<lambda>n (sizes, bs).
        case sizes of
          None # sizes \<Rightarrow> ((sizes, bs), Pending)
        | _ \<Rightarrow> ((sizes, drop n bs), Ready True))\<rparr>"

definition slow_writer :: "(nat list \<times> bytes) awriter" where
  "slow_writer =
     \<lparr>poll_write_all = (\<lambda>bs (sizes, out).
        case sizes of
          k # sizes \<Rightarrow> ((sizes, out @ take k bs), drop k bs, Pending)
        | [] \<Rightarrow> (([], out @ bs), [], Ready True)),
      poll_flush = (\<lambda>(sizes, out). ((sizes, out), Ready True)),
      poll_shutdown = (\<lambda>(sizes, out). ((sizes, out), Ready True))\<rparr>"

section \<open>Fair schedules\<close>

text \<open>Up to its first poll a schedule only cancels, and it is fair afterwards.\<close>

lemma schedule_split:
  assumes "fair sched"
  obtains m where "list_all (\<lambda>e. e = Cancel_Future) (map sched [0..<m])" and "fair (\<lambda>i. sched (m + Suc i))"
    and "\<And>k. schedule_prefix sched (m + Suc k) =
      map sched [0..<m] @ Poll_Future # schedule_prefix (\<lambda>i. sched (m + Suc i)) k"
proof
  define m where "m = (LEAST i. sched i = Poll_Future)"
  have m: "sched m = Poll_Future"
  proof -
    obtain j where "sched j = Poll_Future" using assms unfolding fair_def by blast
    then show ?thesis unfolding m_def by (rule LeastI)
  qed
  have "sched i = Cancel_Future" if "i < m" for i
    using not_less_Least [of i "\<lambda>i. sched i = Poll_Future"] that by (cases "sched i") (auto simp: m_def)
  then show "list_all (\<lambda>e. e = Cancel_Future) (map sched [0..<m])" by (auto simp: list_all_iff)
  show "fair (\<lambda>i. sched (m + Suc i))"
    unfolding fair_def
  proof
    fix n
    obtain j where "j \<ge> m + Suc n" "sched j = Poll_Future" using assms unfolding fair_def by blast
    then show "\<exists>i\<ge>n. sched (m + Suc i) = Poll_Future" by (intro exI [of _ "j - Suc m"]) auto
  qed
  show "schedule_prefix sched (m + Suc k) =
      map sched [0..<m] @ Poll_Future # schedule_prefix (\<lambda>i. sched (m + Suc i)) k" for k
  proof -
    have "[0..<m + Suc k] = [0..<m] @ m # [Suc m..<m + Suc k]"
      using upt_add_eq_append [of 0 m "Suc k"] upt_conv_Cons [of m "m + Suc k"] by (simp del: upt_Suc)
    moreover have "[Suc m..<m + Suc k] = map (\<lambda>i. m + Suc i) [0..<k]"
      using map_add_upt [of "Suc m" k] by (simp add: add.commute)
    ultimately show ?thesis by (simp add: schedule_prefix_def m comp_def del: upt_Suc)
  qed
qed

text \<open>Without cancellations a call that awaits another returns when that does.\<close>

lemma drive_await:
  assumes "\<And>f. poll' f = map_option (map_sum id h) (poll f)"
  shows "drive poll' restart' (replicate n Poll_Future) f =
    map_option (map_sum id h) (drive poll restart (replicate n Poll_Future) f)"
  by (induction n arbitrary: f) (auto simp: assms split: option.split sum.split)

lemma drive_polls:
  "drive poll restart' (replicate n Poll_Future) f = drive poll restart (replicate n Poll_Future) f"
  by (induction n arbitrary: f) (auto split: option.split sum.split)

lemma schedule_prefix_polls: "schedule_prefix (\<lambda>_. Poll_Future) n = replicate n Poll_Future"
  by (simp add: schedule_prefix_def map_replicate_const)

lemma fair_polls: "fair (\<lambda>_. Poll_Future)"
  by (auto simp: fair_def)

section \<open>Futures that survive cancellation\<close>

text \<open>
  What makes a call safe to cancel and sure to return: every suspended state meets \<open>inv\<close>, also
  after a restart, polling makes progress on a variant a restart does not undo, and the value it
  is ready with meets \<open>post\<close>.
\<close>

abbreviation variant_less :: "((nat \<times> nat) \<times> (nat \<times> nat)) set" where
  "variant_less \<equiv> less_than <*lex*> less_than"

locale cancel_safe =
  fixes poll :: "'f \<Rightarrow> ('f + 'x) option" and restart :: "'f \<Rightarrow> 'f" and inv :: "'f \<Rightarrow> bool"
    and post :: "'x \<Rightarrow> bool" and variant :: "'f \<Rightarrow> nat \<times> nat"
  assumes restart_inv: "inv f \<Longrightarrow> inv (restart f) \<and> variant (restart f) = variant f"
    and poll_progress: "inv f \<Longrightarrow> (\<exists>x. poll f = Some (Inr x) \<and> post x) \<or>
      (\<exists>f'. poll f = Some (Inl f') \<and> inv f' \<and> (variant f', variant f) \<in> variant_less)"
begin

text \<open>Whatever the schedule, the call is suspended in a good state or has returned a good value.\<close>

lemma drive_safe:
  "inv f \<Longrightarrow> (\<exists>f'. drive poll restart es f = Some (Inl f') \<and> inv f') \<or>
     (\<exists>x. drive poll restart es f = Some (Inr x) \<and> post x)"
proof (induction es arbitrary: f)
  case (Cons e es)
  then show ?case using restart_inv [of f] poll_progress [of f] by (cases e) (auto, blast)
qed simp

lemma drive_cancels:
  "inv f \<Longrightarrow> list_all (\<lambda>e. e = Cancel_Future) es \<Longrightarrow>
   \<exists>f'. (\<forall>es'. drive poll restart (es @ es') f = drive poll restart es' f') \<and> inv f' \<and> variant f' = variant f"
proof (induction es arbitrary: f)
  case (Cons e es)
  then show ?case using Cons.IH [of "restart f"] restart_inv [of f] by auto
qed auto

lemma drive_live:
  assumes "inv f" and "fair sched"
  shows "\<exists>n x. drive poll restart (schedule_prefix sched n) f = Some (Inr x) \<and> post x"
  using assms
proof (induction "variant f" arbitrary: f sched rule: wf_induct_rule [OF wf_lex_prod [OF wf_less_than wf_less_than]])
  case 1
  obtain m where m: "list_all (\<lambda>e. e = Cancel_Future) (map sched [0..<m])" "fair (\<lambda>i. sched (m + Suc i))"
    "\<And>k. schedule_prefix sched (m + Suc k) =
      map sched [0..<m] @ Poll_Future # schedule_prefix (\<lambda>i. sched (m + Suc i)) k"
    using schedule_split [OF 1(3)] by blast
  obtain g where g: "\<And>es. drive poll restart (map sched [0..<m] @ es) f = drive poll restart es g"
    "inv g" "variant g = variant f"
    using drive_cancels [OF 1(2) m(1)] by blast
  show ?case
    using poll_progress [OF g(2)]
  proof (elim disjE exE conjE)
    fix x assume "poll g = Some (Inr x)" "post x"
    then show ?thesis by (intro exI [of _ "m + Suc 0"] exI [of _ x]) (simp add: m(3) g(1) del: add_Suc_right)
  next
    fix f' assume f': "poll g = Some (Inl f')" "inv f'" "(variant f', variant g) \<in> variant_less"
    then obtain n x where "drive poll restart (schedule_prefix (\<lambda>i. sched (m + Suc i)) n) f' = Some (Inr x)" "post x"
      using 1(1) [of f', OF _ f'(2) m(2)] f'(3) g(3) by fastforce
    then show ?thesis by (intro exI [of _ "m + Suc n"] exI [of _ x]) (simp add: m(3) g(1) f'(1) del: add_Suc_right)
  qed
qed

end

section \<open>The interfaces\<close>

text \<open>
  A reader delivers a fixed byte sequence in order, in pieces of any size; while it is not ready
  nothing is read, and it is not so forever.
\<close>

locale async_reader =
  fixes R :: "'r areader" and pending :: "'r \<Rightarrow> bytes" and delay :: "'r \<Rightarrow> nat"
  assumes poll_read_prefix:
    "(\<exists>r' bs. poll_read R n r = (r', Ready (Inr bs)) \<and> length bs \<le> n \<and> pending r = bs @ pending r' \<and>
        (bs = [] \<longrightarrow> n = 0 \<or> pending r = [])) \<or>
     (\<exists>r'. poll_read R n r = (r', Pending) \<and> pending r' = pending r \<and> delay r' < delay r)"

interpretation slow: async_reader slow_reader snd "\<lambda>r. length (fst r)"
proof
  fix n :: nat and r :: "nat option list \<times> bytes"
  obtain sizes bs where r: "r = (sizes, bs)" by (cases r)
  show "(\<exists>r' bs. poll_read slow_reader n r = (r', Ready (Inr bs)) \<and> length bs \<le> n \<and> snd r = bs @ snd r' \<and>
        (bs = [] \<longrightarrow> n = 0 \<or> snd r = [])) \<or>
     (\<exists>r'. poll_read slow_reader n r = (r', Pending) \<and> snd r' = snd r \<and> length (fst r') < length (fst r))"
    by (cases sizes) (auto simp: slow_reader_def r split: option.split)
qed

text \<open>
  A writer appends. While \<^verbatim>\<open>write_all\<close> is not ready it has appended a part of its bytes, and it is
  not so forever; when it fails it has appended a part, too.
\<close>

locale async_writer =
  fixes W :: "'w awriter" and contents :: "'w \<Rightarrow> bytes" and stall :: "'w \<Rightarrow> nat"
  assumes poll_write_all_appends:
    "poll_write_all W bs w = (w', Rest, p) \<Longrightarrow>
      case p of
        Pending \<Rightarrow> (\<exists>ds. bs = ds @ Rest \<and> contents w' = contents w @ ds) \<and> stall w' < stall w
      | Ready True \<Rightarrow> contents w' = contents w @ bs
      | Ready False \<Rightarrow> \<exists>ds ds'. bs = ds @ ds' \<and> contents w' = contents w @ ds"
    and poll_flush_keeps: "poll_flush W w = (w', p) \<Longrightarrow> contents w' = contents w \<and> (p = Pending \<longrightarrow> stall w' < stall w)"
    and poll_shutdown_keeps: "poll_shutdown W w = (w', p) \<Longrightarrow> contents w' = contents w \<and> (p = Pending \<longrightarrow> stall w' < stall w)"

interpretation slow_sink: async_writer slow_writer snd "\<lambda>w. length (fst w)"
proof
  fix bs Rest :: bytes and w w' :: "nat list \<times> bytes" and p
  assume "poll_write_all slow_writer bs w = (w', Rest, p)"
  then show "case p of
        Pending \<Rightarrow> (\<exists>ds. bs = ds @ Rest \<and> snd w' = snd w @ ds) \<and> length (fst w') < length (fst w)
      | Ready True \<Rightarrow> snd w' = snd w @ bs
      | Ready False \<Rightarrow> \<exists>ds ds'. bs = ds @ ds' \<and> snd w' = snd w @ ds"
    by (auto simp: slow_writer_def split: prod.splits list.splits)
qed (auto simp: slow_writer_def)

end
