(* ===== verification/Async_Decoder.thy ===== *)
theory Async_Decoder
  imports Sync_Decoder Async_Io
begin

text \<open>
  The async decoders of rust/dbn/src/decode/dbn/async.rs. The state machine and the structs are
  those of the blocking decoders; what differs is that reading may suspend the call. A call of an
  \<^verbatim>\<open>async fn\<close> is the place where it is suspended together with the decoder it borrows or owns,
  and one poll runs the body from there to the next read that is not ready.
\<close>

section \<open>Definitions\<close>

text \<open>Polling \<^verbatim>\<open>reader.read(fsm.space())\<close>.\<close>

definition poll_read_into ::
  "'b buf_ops \<Rightarrow> 'r areader \<Rightarrow> 'r \<Rightarrow> 'b DbnFsm \<Rightarrow> ('r \<times> 'b DbnFsm \<times> (io_error_kind + nat) Poll) result" where
  "poll_read_into B R r f =
     (case poll_read R (length (fsm_space B f)) r of
        (r, Pending) \<Rightarrow> Ok (r, f, Pending)
      | (r, Ready (Inl kind)) \<Rightarrow> Ok (r, f, Ready (Inl kind))
      | (r, Ready (Inr bs)) \<Rightarrow> and_then (copy_into_space B bs f) (\<lambda>f. Ok (r, f, Ready (Inr (length bs)))))"

subsection \<open>Records\<close>

definition async_record_decoder_with_version ::
  "'b buf_ops \<Rightarrow> 'r \<Rightarrow> u8 \<Rightarrow> VersionUpgradePolicy \<Rightarrow> bool \<Rightarrow> ('r, 'b) RecordDecoder result" where
  "async_record_decoder_with_version B r version policy ts_out =
     and_then (builder_input_dbn_version (Some version)
         (builder_skip_metadata True (builder_compat_size MAX_RECORD_LEN fsm_builder))) (\<lambda>b.
     and_then (fsm_build B (builder_ts_out ts_out (builder_upgrade_policy policy b))) (\<lambda>f.
       Ok \<lparr>rd_reader = r, rd_fsm = f\<rparr>))"

definition async_record_decoder_new :: "'b buf_ops \<Rightarrow> 'r \<Rightarrow> ('r, 'b) RecordDecoder result" where
  "async_record_decoder_new B r =
     unwrap (async_record_decoder_with_version B r DBN_VERSION VersionUpgradePolicy_AsIs False)"

definition async_record_decoder_with_fsm :: "'r \<Rightarrow> 'b DbnFsm \<Rightarrow> ('r, 'b) RecordDecoder" where
  "async_record_decoder_with_fsm r f = \<lparr>rd_reader = r, rd_fsm = f\<rparr>"

definition async_record_decoder_from ::
  "'b buf_ops \<Rightarrow> ('r, 'b) MetadataDecoder \<Rightarrow> ('r, 'b) RecordDecoder result" where
  "async_record_decoder_from B md =
     (case input_dbn_version (mdd_fsm md) of
        None \<Rightarrow> Panic ''called `Option::unwrap()` on a `None` value''
      | Some version \<Rightarrow>
          Ok \<lparr>rd_reader = mdd_reader md,
              rd_fsm = (if is_upgrade_situation (upgrade_policy (mdd_fsm md)) version
                        then grow_compat B DEFAULT_BUF_SIZE (mdd_fsm md) else mdd_fsm md)\<rparr>)"

definition async_record_decoder_set_version ::
  "u8 \<Rightarrow> ('r, 'b) RecordDecoder \<Rightarrow> ('r, 'b) RecordDecoder result" where
  "async_record_decoder_set_version version d =
     and_then (set_input_dbn_version version (rd_fsm d)) (\<lambda>f. Ok (d\<lparr>rd_fsm := f\<rparr>))"

definition async_record_decoder_set_upgrade_policy ::
  "VersionUpgradePolicy \<Rightarrow> ('r, 'b) RecordDecoder \<Rightarrow> ('r, 'b) RecordDecoder result" where
  "async_record_decoder_set_upgrade_policy policy d =
     and_then (set_upgrade_policy policy (rd_fsm d)) (\<lambda>f. Ok (d\<lparr>rd_fsm := f\<rparr>))"

definition async_record_decoder_set_ts_out :: "bool \<Rightarrow> ('r, 'b) RecordDecoder \<Rightarrow> ('r, 'b) RecordDecoder" where
  "async_record_decoder_set_ts_out t d = d\<lparr>rd_fsm := fsm_set_ts_out t (rd_fsm d)\<rparr>"

text \<open>
  \<^verbatim>\<open>decode_ref\<close>: at its start, where it calls \<^verbatim>\<open>process\<close>, or waiting for the reader. It
  borrows the decoder, so that a cancelled call leaves it and the next one starts with it. The
  free function \<^verbatim>\<open>decode_record_ref_with_fsm\<close> has the same body with another panic message.
\<close>

datatype ref_at = Ref_Start | Ref_Reading

type_synonym ('r, 'b) ref_future = "ref_at \<times> ('r, 'b) RecordDecoder"

partial_function (option) poll_ref_loop ::
  "string \<Rightarrow> 'd date_ops \<Rightarrow> 'b buf_ops \<Rightarrow> 'r areader \<Rightarrow> ('r, 'b) ref_future
   \<Rightarrow> (('r, 'b) ref_future + (('r, 'b) RecordDecoder \<times> bytes option result) result) option" where
  "poll_ref_loop metadata_panic C B R s =
     (case s of
        (Ref_Start, d) \<Rightarrow>
          (case process C B (rd_fsm d) of
             None \<Rightarrow> None
           | Some (Panic p) \<Rightarrow> Some (Inr (Panic p))
           | Some (Err e) \<Rightarrow> Some (Inr (Err e))
           | Some (Ok (f, ReadMore _)) \<Rightarrow> poll_ref_loop metadata_panic C B R (Ref_Reading, d\<lparr>rd_fsm := f\<rparr>)
           | Some (Ok (f, Result_Record _)) \<Rightarrow> Some (Inr (Ok (d\<lparr>rd_fsm := f\<rparr>, Ok (last_record B f))))
           | Some (Ok (f, Result_Err e)) \<Rightarrow> Some (Inr (Ok (d\<lparr>rd_fsm := f\<rparr>, Err e)))
           | Some (Ok (f, Result_Metadata _)) \<Rightarrow> Some (Inr (Panic metadata_panic)))
      | (Ref_Reading, d) \<Rightarrow>
          (case poll_read_into B R (rd_reader d) (rd_fsm d) of
             Panic p \<Rightarrow> Some (Inr (Panic p))
           | Err e \<Rightarrow> Some (Inr (Err e))
           | Ok (r, f, Pending) \<Rightarrow> Some (Inl (Ref_Reading, \<lparr>rd_reader = r, rd_fsm = f\<rparr>))
           | Ok (r, f, Ready (Inr nbytes)) \<Rightarrow>
               if nbytes = 0 then Some (Inr (Ok (\<lparr>rd_reader = r, rd_fsm = f\<rparr>, Ok None)))
               else poll_ref_loop metadata_panic C B R (Ref_Start, \<lparr>rd_reader = r, rd_fsm = fsm_fill B nbytes f\<rparr>)
           | Ok (r, f, Ready (Inl UnexpectedEof)) \<Rightarrow> Some (Inr (Ok (\<lparr>rd_reader = r, rd_fsm = f\<rparr>, Ok None)))
           | Ok (r, f, Ready (Inl OtherKind)) \<Rightarrow>
               Some (Inr (Ok (\<lparr>rd_reader = r, rd_fsm = f\<rparr>, Err (Io ''decoding record reference''))))))"

definition poll_decode_ref ::
  "'d date_ops \<Rightarrow> 'b buf_ops \<Rightarrow> 'r areader \<Rightarrow> ('r, 'b) ref_future
   \<Rightarrow> (('r, 'b) ref_future + (('r, 'b) RecordDecoder \<times> bytes option result) result) option" where
  "poll_decode_ref = poll_ref_loop ''internal error: entered unreachable code: skipped metadata''"

definition poll_decode_record_ref_with_fsm ::
  "'d date_ops \<Rightarrow> 'b buf_ops \<Rightarrow> 'r areader \<Rightarrow> ('r, 'b) ref_future
   \<Rightarrow> (('r, 'b) ref_future + (('r, 'b) RecordDecoder \<times> bytes option result) result) option" where
  "poll_decode_record_ref_with_fsm = poll_ref_loop ''found DBN metadata when expected records''"

definition restart_decode_ref :: "('r, 'b) ref_future \<Rightarrow> ('r, 'b) ref_future" where
  "restart_decode_ref s = (Ref_Start, snd s)"

text \<open>\<^verbatim>\<open>decode\<close> views what \<^verbatim>\<open>decode_ref\<close> is ready with as a record of the requested type.\<close>

definition poll_decode ::
  "'t record_type \<Rightarrow> 'd date_ops \<Rightarrow> 'b buf_ops \<Rightarrow> 'r areader \<Rightarrow> ('r, 'b) ref_future
   \<Rightarrow> (('r, 'b) ref_future + (('r, 'b) RecordDecoder \<times> 't option result) result) option" where
  "poll_decode T C B R s =
     (case poll_decode_ref C B R s of
        None \<Rightarrow> None
      | Some (Inl s) \<Rightarrow> Some (Inl s)
      | Some (Inr res) \<Rightarrow> Some (Inr (and_then res (\<lambda>(d, found).
          Ok (d, and_then found (\<lambda>rec. case rec of
              Some rec \<Rightarrow> and_then (rr_try_get T rec) (\<lambda>x. Ok (Some x))
            | None \<Rightarrow> Ok None))))))"

text \<open>\<^verbatim>\<open>decode_records\<close>: the records so far are owned by the call, which waits in \<^verbatim>\<open>decode\<close>.\<close>

partial_function (option) poll_decode_records ::
  "'t record_type \<Rightarrow> 'd date_ops \<Rightarrow> 'b buf_ops \<Rightarrow> 'r areader \<Rightarrow> 't list \<times> ('r, 'b) ref_future
   \<Rightarrow> ('t list \<times> ('r, 'b) ref_future + (('r, 'b) RecordDecoder \<times> 't list result) result) option" where
  "poll_decode_records T C B R s =
     (case s of (res, fut) \<Rightarrow>
       (case poll_decode T C B R fut of
          None \<Rightarrow> None
        | Some (Inl fut) \<Rightarrow> Some (Inl (res, fut))
        | Some (Inr (Panic p)) \<Rightarrow> Some (Inr (Panic p))
        | Some (Inr (Err e)) \<Rightarrow> Some (Inr (Err e))
        | Some (Inr (Ok (d, Panic p))) \<Rightarrow> Some (Inr (Panic p))
        | Some (Inr (Ok (d, Err e))) \<Rightarrow> Some (Inr (Ok (d, Err e)))
        | Some (Inr (Ok (d, Ok None))) \<Rightarrow> Some (Inr (Ok (d, Ok res)))
        | Some (Inr (Ok (d, Ok (Some rec)))) \<Rightarrow> poll_decode_records T C B R (res @ [rec], (Ref_Start, d))))"

text \<open>Skipping: the buffered bytes at once, the others by seeking, which may suspend the call.\<close>

datatype skip_at = Skip_Start nat | Skip_Seeking nat

definition poll_skip_bytes ::
  "'b buf_ops \<Rightarrow> 'r areader \<Rightarrow> skip_at \<times> ('r, 'b) RecordDecoder
   \<Rightarrow> skip_at \<times> ('r, 'b) RecordDecoder + ('r, 'b) RecordDecoder \<times> unit result" where
  "poll_skip_bytes B R = (\<lambda>(where_at, d).
     let seek = (\<lambda>n d.
       case poll_seek_current R n (rd_reader d) of
         (r, Pending) \<Rightarrow> Inl (Skip_Seeking n, d\<lparr>rd_reader := r\<rparr>)
       | (r, Ready success) \<Rightarrow> Inr (d\<lparr>rd_reader := r\<rparr>,
           if success then Ok () else Err (Io (''seeking ahead '' @ dec_nat n @ '' bytes''))))
     in case where_at of
          Skip_Start n_bytes \<Rightarrow>
            (case skip B n_bytes (rd_fsm d) of
               (f, skipped) \<Rightarrow>
                 if skipped < n_bytes then seek (n_bytes - skipped) (d\<lparr>rd_fsm := f\<rparr>)
                 else Inr (d\<lparr>rd_fsm := f\<rparr>, Ok ()))
        | Skip_Seeking n \<Rightarrow> seek n d)"

subsection \<open>Metadata\<close>

definition async_metadata_decoder_new :: "'b buf_ops \<Rightarrow> 'r \<Rightarrow> ('r, 'b) MetadataDecoder" where
  "async_metadata_decoder_new B r = \<lparr>mdd_reader = r, mdd_fsm = fsm_new B DEFAULT_BUF_SIZE 0\<rparr>"

definition async_metadata_decoder_with_upgrade_policy ::
  "'b buf_ops \<Rightarrow> 'r \<Rightarrow> VersionUpgradePolicy \<Rightarrow> ('r, 'b) MetadataDecoder result" where
  "async_metadata_decoder_with_upgrade_policy B r policy =
     and_then (unwrap (fsm_build B (builder_upgrade_policy policy (builder_compat_size 0 fsm_builder))))
       (\<lambda>f. Ok \<lparr>mdd_reader = r, mdd_fsm = f\<rparr>)"

definition async_metadata_decoder_with_fsm :: "'r \<Rightarrow> 'b DbnFsm \<Rightarrow> ('r, 'b) MetadataDecoder" where
  "async_metadata_decoder_with_fsm r f = \<lparr>mdd_reader = r, mdd_fsm = f\<rparr>"

text \<open>
  \<^verbatim>\<open>decode_metadata_with_fsm\<close>: waiting for the first read, about to process, or waiting for the
  missing bytes, with their number and how many of them were read.
\<close>

datatype meta_at = Meta_First | Meta_Process | Meta_Reading nat nat

type_synonym ('r, 'b) meta_future = "meta_at \<times> ('r, 'b) MetadataDecoder"

partial_function (option) poll_decode_metadata ::
  "'d date_ops \<Rightarrow> 'b buf_ops \<Rightarrow> 'r areader \<Rightarrow> ('r, 'b) meta_future
   \<Rightarrow> (('r, 'b) meta_future + (('r, 'b) MetadataDecoder \<times> 'd Metadata result) result) option" where
  "poll_decode_metadata C B R s =
     (case s of
        (Meta_First, md) \<Rightarrow>
          (case poll_read_into B R (mdd_reader md) (mdd_fsm md) of
             Panic p \<Rightarrow> Some (Inr (Panic p))
           | Err e \<Rightarrow> Some (Inr (Err e))
           | Ok (r, f, Pending) \<Rightarrow> Some (Inl (Meta_First, \<lparr>mdd_reader = r, mdd_fsm = f\<rparr>))
           | Ok (r, f, Ready (Inl _)) \<Rightarrow>
               Some (Inr (Ok (\<lparr>mdd_reader = r, mdd_fsm = f\<rparr>, Err (Io ''decoding metadata''))))
           | Ok (r, f, Ready (Inr nbytes)) \<Rightarrow>
               poll_decode_metadata C B R (Meta_Process, \<lparr>mdd_reader = r, mdd_fsm = fsm_fill B nbytes f\<rparr>))
      | (Meta_Process, md) \<Rightarrow>
          (case process C B (mdd_fsm md) of
             None \<Rightarrow> None
           | Some (Panic p) \<Rightarrow> Some (Inr (Panic p))
           | Some (Err e) \<Rightarrow> Some (Inr (Err e))
           | Some (Ok (f, ReadMore n)) \<Rightarrow> poll_decode_metadata C B R (Meta_Reading n 0, md\<lparr>mdd_fsm := f\<rparr>)
           | Some (Ok (f, Result_Metadata m)) \<Rightarrow> Some (Inr (Ok (md\<lparr>mdd_fsm := f\<rparr>, Ok m)))
           | Some (Ok (f, Result_Record _)) \<Rightarrow> Some (Inr (Panic ''DBN metadata should precede records''))
           | Some (Ok (f, Result_Err e)) \<Rightarrow> Some (Inr (Ok (md\<lparr>mdd_fsm := f\<rparr>, Err e))))
      | (Meta_Reading n total_read, md) \<Rightarrow>
          (case poll_read_into B R (mdd_reader md) (mdd_fsm md) of
             Panic p \<Rightarrow> Some (Inr (Panic p))
           | Err e \<Rightarrow> Some (Inr (Err e))
           | Ok (r, f, Pending) \<Rightarrow> Some (Inl (Meta_Reading n total_read, \<lparr>mdd_reader = r, mdd_fsm = f\<rparr>))
           | Ok (r, f, Ready (Inl _)) \<Rightarrow>
               Some (Inr (Ok (\<lparr>mdd_reader = r, mdd_fsm = f\<rparr>, Err (Io ''decoding metadata''))))
           | Ok (r, f, Ready (Inr nread)) \<Rightarrow>
               if nread = 0 then
                 Some (Inr (Ok (\<lparr>mdd_reader = r, mdd_fsm = f\<rparr>, Err (Io ''decoding metadata''))))
               else
                 poll_decode_metadata C B R
                   (if total_read + nread \<ge> n then Meta_Process else Meta_Reading n (total_read + nread),
                    \<lparr>mdd_reader = r, mdd_fsm = fsm_fill B nread f\<rparr>)))"

definition restart_decode_metadata :: "('r, 'b) meta_future \<Rightarrow> ('r, 'b) meta_future" where
  "restart_decode_metadata s = (Meta_First, snd s)"

subsection \<open>Metadata and records\<close>

text \<open>
  \<^verbatim>\<open>Decoder::new\<close> and \<^verbatim>\<open>Decoder::with_upgrade_policy\<close> own the metadata decoder while they
  decode the metadata. When the call is cancelled the metadata decoder is dropped with the bytes
  it has buffered; a reader that was passed as a reference survives, and the call starts again
  with a new metadata decoder on it.
\<close>

definition poll_decoder_new ::
  "'d date_ops \<Rightarrow> 'b buf_ops \<Rightarrow> 'r areader \<Rightarrow> ('r, 'b) meta_future
   \<Rightarrow> (('r, 'b) meta_future + ('d, 'r, 'b) Decoder result) option" where
  "poll_decoder_new C B R s =
     (case poll_decode_metadata C B R s of
        None \<Rightarrow> None
      | Some (Inl s) \<Rightarrow> Some (Inl s)
      | Some (Inr res) \<Rightarrow> Some (Inr (and_then res (\<lambda>(md, found).
          and_then found (\<lambda>m.
          and_then (async_record_decoder_from B md) (\<lambda>d.
            Ok \<lparr>dec_metadata = metadata_upgrade VersionUpgradePolicy_UpgradeToV3 m, dec_decoder = d\<rparr>))))))"

definition restart_decoder_new :: "'b buf_ops \<Rightarrow> ('r, 'b) meta_future \<Rightarrow> ('r, 'b) meta_future" where
  "restart_decoder_new B s = (Meta_First, async_metadata_decoder_new B (mdd_reader (snd s)))"

definition poll_decoder_with_upgrade_policy ::
  "'d date_ops \<Rightarrow> 'b buf_ops \<Rightarrow> 'r areader \<Rightarrow> ('r, 'b) meta_future
   \<Rightarrow> (('r, 'b) meta_future + ('d, 'r, 'b) Decoder result) option" where
  "poll_decoder_with_upgrade_policy C B R s =
     (case poll_decode_metadata C B R s of
        None \<Rightarrow> None
      | Some (Inl s) \<Rightarrow> Some (Inl s)
      | Some (Inr res) \<Rightarrow> Some (Inr (and_then res (\<lambda>(md, found).
          and_then found (\<lambda>m.
          and_then (async_record_decoder_from B md) (\<lambda>d.
            Ok \<lparr>dec_metadata = m, dec_decoder = d\<rparr>))))))"

definition async_decoder_set_upgrade_policy ::
  "VersionUpgradePolicy \<Rightarrow> ('d, 'r, 'b) Decoder \<Rightarrow> ('d, 'r, 'b) Decoder result" where
  "async_decoder_set_upgrade_policy policy d =
     and_then (async_record_decoder_set_upgrade_policy policy (dec_decoder d)) (\<lambda>rd.
       Ok (d\<lparr>dec_decoder := rd, dec_metadata := metadata_upgrade policy (dec_metadata d)\<rparr>))"

end
