(* ===== verification/Async_Spec.thy ===== *)
theory Async_Spec
  imports Async_Decoder Transcode
begin

text \<open>
  What the async decoders promise: a call that is polled on and on returns what the blocking
  decoder returns, however often the reader is not ready, and the calls that borrow their decoder
  may be cancelled at any time without losing a byte of the stream.
\<close>

section \<open>What a call promises\<close>

text \<open>What \<^verbatim>\<open>decode_ref\<close> is ready with, on a decoder that still has to decode \<open>a\<close>.\<close>

definition ref_result ::
  "'b buf_ops \<Rightarrow> ('r \<Rightarrow> bytes) \<Rightarrow> decoder \<Rightarrow> (('r, 'b) RecordDecoder \<times> bytes option result) result \<Rightarrow> bool" where
  "ref_result B pending a x \<longleftrightarrow>
     (case next_record a of
        Ok (a', r) \<Rightarrow> \<exists>d r'. x = Ok (d, r') \<and> dec_inv B d \<and> dec_abs B pending d = a' \<and> ref_bytes r' = r
      | Err e \<Rightarrow> False
      | Panic p \<Rightarrow> x = Panic p)"

text \<open>The states a call can be suspended or started in.\<close>

definition ref_inv :: "'b buf_ops \<Rightarrow> ('r \<Rightarrow> bytes) \<Rightarrow> decoder \<Rightarrow> ('r, 'b) ref_future \<Rightarrow> bool" where
  "ref_inv B pending a s \<longleftrightarrow>
     dec_inv B (snd s) \<and> dec_abs B pending (snd s) = a \<and>
     (fst s = Ref_Reading \<longrightarrow> \<not> complete (fsm_abs B (rd_fsm (snd s))) \<and> fsm_space B (rd_fsm (snd s)) \<noteq> [])"

definition ref_variant :: "('r \<Rightarrow> bytes) \<Rightarrow> ('r \<Rightarrow> nat) \<Rightarrow> ('r, 'b) ref_future \<Rightarrow> nat \<times> nat" where
  "ref_variant pending delay s =
     (length (pending (rd_reader (snd s))), delay (rd_reader (snd s)))"

text \<open>
  A decoder on the way through the metadata \<open>m\<close>: what it has buffered and what is still to come
  complete the encoded metadata and the rest of the stream.
\<close>

definition meta_stream ::
  "'d date_ops \<Rightarrow> VersionUpgradePolicy \<Rightarrow> 'd Metadata \<Rightarrow> bytes \<Rightarrow> decoder \<Rightarrow> bytes \<Rightarrow> bool" where
  "meta_stream C policy m rest a later \<longleftrightarrow>
     d_policy a = policy \<and>
     (case d_phase a of
        Ph_Prelude \<Rightarrow> d_bytes a @ later = metadata_bytes C m @ rest
      | Ph_Metadata n \<Rightarrow>
          n = fst (calc_length m) \<and> d_version a = Some (md_version m) \<and>
          as_bytes ''DBN'' @ [md_version m] @ put_u32 n @ d_bytes a @ later = metadata_bytes C m @ rest
      | Ph_Record \<Rightarrow> False)"

definition missing :: "decoder \<Rightarrow> nat" where
  "missing a =
     (case d_phase a of
        Ph_Prelude \<Rightarrow> 8 - length (d_bytes a)
      | Ph_Metadata n \<Rightarrow> unat n - length (d_bytes a)
      | Ph_Record \<Rightarrow> 0)"

definition meta_inv ::
  "'d date_ops \<Rightarrow> 'b buf_ops \<Rightarrow> ('r \<Rightarrow> bytes) \<Rightarrow> VersionUpgradePolicy \<Rightarrow> 'd Metadata \<Rightarrow> bytes
   \<Rightarrow> ('r, 'b) meta_future \<Rightarrow> bool" where
  "meta_inv C B pending policy m rest s \<longleftrightarrow>
     (let f = mdd_fsm (snd s); a = fsm_abs B f in
      fsm_inv B f \<and> roomy B f \<and> meta_stream C policy m rest a (pending (mdd_reader (snd s))) \<and>
      (case fst s of
         Meta_First \<Rightarrow> 0 < missing a
       | Meta_Process \<Rightarrow> True
       | Meta_Reading n total_read \<Rightarrow> total_read < n \<and> n - total_read = missing a))"

text \<open>The states in which the call is suspended, or starts.\<close>

definition meta_suspended ::
  "'d date_ops \<Rightarrow> 'b buf_ops \<Rightarrow> ('r \<Rightarrow> bytes) \<Rightarrow> VersionUpgradePolicy \<Rightarrow> 'd Metadata \<Rightarrow> bytes
   \<Rightarrow> ('r, 'b) meta_future \<Rightarrow> bool" where
  "meta_suspended C B pending policy m rest s \<longleftrightarrow> meta_inv C B pending policy m rest s \<and> fst s \<noteq> Meta_Process"

definition meta_result ::
  "'b buf_ops \<Rightarrow> ('r \<Rightarrow> bytes) \<Rightarrow> VersionUpgradePolicy \<Rightarrow> 'd Metadata \<Rightarrow> bytes
   \<Rightarrow> (('r, 'b) MetadataDecoder \<times> 'd Metadata result) result \<Rightarrow> bool" where
  "meta_result B pending policy m rest x \<longleftrightarrow>
     (\<exists>md bs. x = Ok (md, Ok (metadata_upgrade policy m)) \<and> fsm_inv B (mdd_fsm md) \<and> roomy B (mdd_fsm md) \<and>
        fsm_abs B (mdd_fsm md) = after_metadata policy m bs \<and> bs @ pending (mdd_reader md) = rest)"

definition meta_variant :: "('r \<Rightarrow> bytes) \<Rightarrow> ('r \<Rightarrow> nat) \<Rightarrow> ('r, 'b) meta_future \<Rightarrow> nat \<times> nat" where
  "meta_variant pending delay s =
     (length (pending (mdd_reader (snd s))), delay (mdd_reader (snd s)))"

section \<open>On the way through the metadata\<close>

lemma meta_stream_feed:
  "meta_stream C policy m rest a (bs @ later) \<Longrightarrow> meta_stream C policy m rest (feed bs a) later"
  by (auto simp: meta_stream_def split: phase.splits)

lemma missing_feed: "missing (feed bs a) = missing a - length bs"
  by (simp add: missing_def split: phase.split)

context calendar
begin

lemma missing_le_later:
  assumes "streamable C policy m" and "meta_stream C policy m rest a later"
  shows "missing a \<le> length later"
proof (cases "d_phase a")
  case Ph_Prelude
  then have "d_bytes a @ later = metadata_bytes C m @ rest" using assms(2) by (simp add: meta_stream_def)
  from arg_cong [OF this, of length] show ?thesis
    using streamable_length(1) [OF assms(1)] Ph_Prelude by (simp add: missing_def)
next
  case (Ph_Metadata n)
  then have n: "n = fst (calc_length m)"
    and "as_bytes ''DBN'' @ [md_version m] @ put_u32 n @ d_bytes a @ later = metadata_bytes C m @ rest"
    using assms(2) by (auto simp: meta_stream_def)
  from arg_cong [OF this(2), of length] show ?thesis
    using streamable_length(1) [OF assms(1)] Ph_Metadata n by (simp add: missing_def)
qed (simp add: missing_def)

lemma after_metadata_rest:
  assumes "streamable C policy m" and "bs @ later = metadata_bytes C m @ rest"
    and "8 + unat (fst (calc_length m)) \<le> length bs"
  shows "drop (8 + unat (fst (calc_length m))) bs @ later = rest"
  using arg_cong [OF assms(2), of "drop (8 + unat (fst (calc_length m)))"]
    streamable_length(1) [OF assms(1)] assms(3) by simp

lemma spec_process_meta:
  assumes "streamable C policy m" and "meta_stream C policy m rest a later"
  shows "(\<exists>a'. spec_process C a = Ok (a', More (missing a')) \<and> 0 < missing a' \<and> meta_stream C policy m rest a' later) \<or>
    (\<exists>bs. spec_process C a = Ok (after_metadata policy m bs, Got_Metadata (metadata_upgrade policy m)) \<and> bs @ later = rest)"
proof (cases "d_phase a")
  case Ph_Prelude
  let ?n = "fst (calc_length m)"
  have a: "streamable C (d_policy a) m" "d_policy a = policy" "d_bytes a @ later = metadata_bytes C m @ rest"
    using assms Ph_Prelude by (auto simp: meta_stream_def)
  show ?thesis
  proof (cases "length (d_bytes a) < 8")
    case True
    then show ?thesis using assms(2) Ph_Prelude by (simp add: spec_process_def missing_def)
  next
    case False
    then have long: "8 \<le> length (d_bytes a)" by simp
    let ?a = "a\<lparr>d_version := Some (md_version m), d_phase := Ph_Metadata ?n, d_bytes := drop 8 (d_bytes a)\<rparr>"
    have "as_bytes ''DBN'' @ [md_version m] @ put_u32 ?n @ drop 8 (d_bytes a) @ later = metadata_bytes C m @ rest"
      using metadata_prelude(4) [OF a(1,3) long] a(3) by (metis append.assoc)
    then have "meta_stream C policy m rest ?a later" using a(2) by (simp add: meta_stream_def)
    moreover have "missing ?a = 8 + unat ?n - length (d_bytes a)" using long by (simp add: missing_def)
    ultimately show ?thesis
      using spec_process_stream [OF a(1) Ph_Prelude a(3) long] after_metadata_rest [OF assms(1) a(3)] a(2)
      by (cases "length (d_bytes a) < 8 + unat ?n") (auto simp: not_less)
  qed
next
  case (Ph_Metadata n)
  then have a: "n = fst (calc_length m)" "d_version a = Some (md_version m)" "d_policy a = policy"
    "as_bytes ''DBN'' @ [md_version m] @ put_u32 (fst (calc_length m)) @ d_bytes a @ later = metadata_bytes C m @ rest"
    using assms(2) by (auto simp: meta_stream_def)
  define pre where "pre = as_bytes ''DBN'' @ [md_version m] @ put_u32 (fst (calc_length m))"
  have pre: "length pre = 8" "(pre @ d_bytes a) @ later = metadata_bytes C m @ rest"
    using a(4) by (simp_all add: pre_def)
  have "drop (unat n) (d_bytes a) @ later = rest" if "\<not> length (d_bytes a) < unat n"
    using after_metadata_rest [OF assms(1) pre(2)] that a(1) pre(1) by (simp add: not_less)
  then show ?thesis
    using spec_metadata_stream [of a m later rest] assms Ph_Metadata a
    by (cases "length (d_bytes a) < unat n") (auto simp: spec_process_def missing_def)
qed (use assms in \<open>simp add: meta_stream_def\<close>)

end

section \<open>Reading\<close>

locale async_reading = oval_buffer B + async_reader R pending delay
  for B :: "'b buf_ops" and R :: "'r areader" and pending :: "'r \<Rightarrow> bytes" and delay :: "'r \<Rightarrow> nat"
begin

lemma poll_read_into_feeds:
  assumes "fsm_inv B f" and "roomy B f"
  shows "(\<exists>r' f' bs. poll_read_into B R r f = Ok (r', f', Ready (Inr (length bs))) \<and> pending r = bs @ pending r' \<and>
      (bs = [] \<longrightarrow> fsm_space B f \<noteq> [] \<longrightarrow> pending r = []) \<and>
      fsm_inv B (fsm_fill B (length bs) f') \<and> roomy B (fsm_fill B (length bs) f') \<and>
      fsm_abs B (fsm_fill B (length bs) f') = feed bs (fsm_abs B f) \<and>
      state (fsm_fill B (length bs) f') = state f \<and>
      fsm_inv B f' \<and> roomy B f' \<and> fsm_abs B f' = fsm_abs B f \<and> state f' = state f) \<or>
    (\<exists>r'. poll_read_into B R r f = Ok (r', f, Pending) \<and> pending r' = pending r \<and> delay r' < delay r)"
  using poll_read_prefix [of "length (fsm_space B f)" r]
proof (elim disjE exE conjE)
  fix r' bs assume r: "poll_read R (length (fsm_space B f)) r = (r', Ready (Inr bs))"
    "length bs \<le> length (fsm_space B f)" "pending r = bs @ pending r'"
    "bs = [] \<longrightarrow> length (fsm_space B f) = 0 \<or> pending r = []"
  obtain f' where f': "copy_into_space B bs f = Ok f'"
    "fsm_inv B (fsm_fill B (length bs) f')" "roomy B (fsm_fill B (length bs) f')"
    "fsm_abs B (fsm_fill B (length bs) f') = feed bs (fsm_abs B f)"
    "state (fsm_fill B (length bs) f') = state f"
    "fsm_inv B f'" "roomy B f'" "fsm_abs B f' = fsm_abs B f" "state f' = state f"
    using copy_feeds [OF assms r(2)] by metis
  with r show ?thesis
    by (intro disjI1 exI [of _ r'] exI [of _ f'] exI [of _ bs]) (auto simp: poll_read_into_def)
qed (auto simp: poll_read_into_def)


text \<open>Waiting for the reader: the call is suspended, at the end of the stream, or goes on.\<close>

lemma poll_ref_reading:
  assumes "ref_inv B pending a (Ref_Reading, d)"
  shows "(\<exists>x. poll_ref_loop msg C B R (Ref_Reading, d) = Some (Inr x) \<and> ref_result B pending a x) \<or>
    (\<exists>s'. poll_ref_loop msg C B R (Ref_Reading, d) = Some (Inl s') \<and> ref_inv B pending a s' \<and>
      (ref_variant pending delay s', ref_variant pending delay (Ref_Reading, d)) \<in> variant_less) \<or>
    (\<exists>d'. poll_ref_loop msg C B R (Ref_Reading, d) = poll_ref_loop msg C B R (Ref_Start, d') \<and>
      ref_inv B pending a (Ref_Start, d') \<and> length (pending (rd_reader d')) < length (pending (rd_reader d)))"
proof -
  have inv: "fsm_inv B (rd_fsm d)" "roomy B (rd_fsm d)" "has_decoded_metadata (rd_fsm d)" "dec_abs B pending d = a"
    "\<not> complete (fsm_abs B (rd_fsm d))" "fsm_space B (rd_fsm d) \<noteq> []"
    using assms by (simp_all add: ref_inv_def dec_inv_def)
  show ?thesis
    using poll_read_into_feeds [OF inv(1,2), of "rd_reader d"]
  proof (elim disjE exE conjE)
    fix r' f' bs
    assume g: "poll_read_into B R (rd_reader d) (rd_fsm d) = Ok (r', f', Ready (Inr (length bs)))"
      "pending (rd_reader d) = bs @ pending r'"
      "bs = [] \<longrightarrow> fsm_space B (rd_fsm d) \<noteq> [] \<longrightarrow> pending (rd_reader d) = []"
      "fsm_inv B (fsm_fill B (length bs) f')" "roomy B (fsm_fill B (length bs) f')"
      "fsm_abs B (fsm_fill B (length bs) f') = feed bs (fsm_abs B (rd_fsm d))"
      "fsm_inv B f'" "roomy B f'" "fsm_abs B f' = fsm_abs B (rd_fsm d)"
    have phase: "has_decoded_metadata f'" "has_decoded_metadata (fsm_fill B (length bs) f')"
      using inv(3) g by (simp_all add: has_decoded_abs)
    show ?thesis
    proof (cases "bs = []")
      case True
      then have "pending (rd_reader d) = []" "pending r' = []" using g inv(6) by auto
      then have "dec_abs B pending \<lparr>rd_reader = r', rd_fsm = f'\<rparr> = a" "next_record a = Ok (a, Ok None)"
        "dec_inv B \<lparr>rd_reader = r', rd_fsm = f'\<rparr>"
        using g(7-9) phase(1) inv(4,5) next_record_incomplete [of a] by (auto simp: dec_abs_def dec_inv_def)
      then have "ref_result B pending a (Ok (\<lparr>rd_reader = r', rd_fsm = f'\<rparr>, Ok None))"
        by (simp add: ref_result_def)
      moreover have "poll_ref_loop msg C B R (Ref_Reading, d) = Some (Inr (Ok (\<lparr>rd_reader = r', rd_fsm = f'\<rparr>, Ok None)))"
        using g(1) True by (subst poll_ref_loop.simps) simp
      ultimately show ?thesis by blast
    next
      case False
      let ?d = "\<lparr>rd_reader = r', rd_fsm = fsm_fill B (length bs) f'\<rparr>"
      have "poll_ref_loop msg C B R (Ref_Reading, d) = poll_ref_loop msg C B R (Ref_Start, ?d)"
        using g False by (subst poll_ref_loop.simps) simp
      moreover have "ref_inv B pending a (Ref_Start, ?d)"
        using g phase inv by (auto simp: ref_inv_def dec_inv_def dec_abs_def)
      ultimately show ?thesis using g(2) False by (intro disjI2 exI [of _ ?d]) auto
    qed
  next
    fix r' assume r': "poll_read_into B R (rd_reader d) (rd_fsm d) = Ok (r', rd_fsm d, Pending)"
      "pending r' = pending (rd_reader d)" "delay r' < delay (rd_reader d)"
    then have "poll_ref_loop msg C B R (Ref_Reading, d) = Some (Inl (Ref_Reading, d\<lparr>rd_reader := r'\<rparr>))"
      by (subst poll_ref_loop.simps) (cases d, simp)
    then show ?thesis
      using r' assms by (auto simp: ref_inv_def dec_inv_def dec_abs_def ref_variant_def)
  qed
qed

lemma poll_ref_start:
  fixes C :: "'d date_ops"
  assumes "ref_inv B pending a (Ref_Start, d)"
  shows "(\<exists>x. poll_ref_loop msg C B R (Ref_Start, d) = Some (Inr x) \<and> ref_result B pending a x) \<or>
    (\<exists>d'. poll_ref_loop msg C B R (Ref_Start, d) = poll_ref_loop msg C B R (Ref_Reading, d') \<and>
      ref_inv B pending a (Ref_Reading, d') \<and> rd_reader d' = rd_reader d)"
proof -
  have inv: "dec_inv B d" "dec_abs B pending d = a" using assms by (simp_all add: ref_inv_def)
  show ?thesis
  proof (cases "complete (fsm_abs B (rd_fsm d))")
    case True
    then show ?thesis
      using process_complete [OF inv(1) True, where pending = pending and C = C] inv
      by (subst (1) poll_ref_loop.simps)
        (auto simp: ref_result_def split: result.splits prod.splits)
  next
    case False
    obtain f n where "process C B (rd_fsm d) = Some (Ok (f, ReadMore n))" "dec_inv B (d\<lparr>rd_fsm := f\<rparr>)"
      "fsm_abs B f = fsm_abs B (rd_fsm d)" "fsm_space B f \<noteq> []"
      using process_incomplete [OF inv(1) False] by metis
    then show ?thesis
      using inv False
      by (intro disjI2 exI [of _ "d\<lparr>rd_fsm := f\<rparr>"], subst poll_ref_loop.simps)
        (auto simp: ref_inv_def dec_abs_def)
  qed
qed

definition ref_progress :: "decoder \<Rightarrow> ('r, 'b) ref_future \<Rightarrow>
    (('r, 'b) ref_future + (('r, 'b) RecordDecoder \<times> bytes option result) result) option \<Rightarrow> bool" where
  "ref_progress a s y \<longleftrightarrow> (\<exists>x. y = Some (Inr x) \<and> ref_result B pending a x) \<or>
     (\<exists>s'. y = Some (Inl s') \<and> ref_inv B pending a s' \<and>
       (ref_variant pending delay s', ref_variant pending delay s) \<in> variant_less)"

lemma ref_progress_mono:
  "ref_progress a (l, d) y \<Longrightarrow> length (pending (rd_reader d)) < length (pending (rd_reader d')) \<or> rd_reader d = rd_reader d' \<Longrightarrow>
   ref_progress a (l', d') y"
  by (fastforce simp: ref_progress_def ref_variant_def)

lemma poll_ref_progress:
  assumes "ref_inv B pending a (l, d)"
  shows "ref_progress a (l, d) (poll_ref_loop msg C B R (l, d))"
  using assms
proof (induction "length (pending (rd_reader d))" arbitrary: l d rule: less_induct)
  case less
  have reading: "ref_progress a (Ref_Reading, e) (poll_ref_loop msg C B R (Ref_Reading, e))"
    if e: "ref_inv B pending a (Ref_Reading, e)" "rd_reader e = rd_reader d" for e
    using poll_ref_reading [OF e(1), of msg C]
  proof (elim disjE exE conjE)
    fix d' assume d': "poll_ref_loop msg C B R (Ref_Reading, e) = poll_ref_loop msg C B R (Ref_Start, d')"
      "ref_inv B pending a (Ref_Start, d')" "length (pending (rd_reader d')) < length (pending (rd_reader e))"
    then have "ref_progress a (Ref_Start, d') (poll_ref_loop msg C B R (Ref_Start, d'))"
      using less.hyps [of d' Ref_Start] e(2) by simp
    then show ?thesis using ref_progress_mono d' by metis
  qed (auto simp: ref_progress_def)
  show ?case
  proof (cases l)
    case Ref_Start
    then show ?thesis
      using poll_ref_start [of a d msg C] less.prems reading ref_progress_mono by (metis ref_progress_def)
  qed (use reading [of d] less.prems in simp)
qed

end

sublocale async_reading < ref: cancel_safe "poll_ref_loop msg C B R" restart_decode_ref "ref_inv B pending a"
    "ref_result B pending a" "ref_variant pending delay" for msg C a
proof
  fix s assume "ref_inv B pending a s"
  then show "ref_inv B pending a (restart_decode_ref s) \<and>
      ref_variant pending delay (restart_decode_ref s) = ref_variant pending delay s"
    by (auto simp: ref_inv_def restart_decode_ref_def ref_variant_def)
next
  fix s assume "ref_inv B pending a s"
  then show "(\<exists>x. poll_ref_loop msg C B R s = Some (Inr x) \<and> ref_result B pending a x) \<or>
      (\<exists>s'. poll_ref_loop msg C B R s = Some (Inl s') \<and> ref_inv B pending a s' \<and>
        (ref_variant pending delay s', ref_variant pending delay s) \<in> variant_less)"
    using poll_ref_progress [of a "fst s" "snd s" msg C] by (simp add: ref_progress_def)
qed

section \<open>Decoding the metadata\<close>

locale async_stream = async_reading B R pending delay + calendar C
  for B :: "'b buf_ops" and R :: "'r areader" and pending :: "'r \<Rightarrow> bytes" and delay :: "'r \<Rightarrow> nat"
    and C :: "'d::linorder date_ops"
begin

lemma missing_space:
  assumes "roomy B f" and "0 < missing (fsm_abs B f)"
  shows "fsm_space B f \<noteq> []"
  using assms by (auto simp: missing_def roomy_def fsm_abs_def fsm_space_def Let_def split: State.splits)

text \<open>A read that is ready brings bytes, as long as some are missing.\<close>

lemma poll_read_meta:
  assumes "streamable C policy m" and "fsm_inv B f" and "roomy B f"
    and "meta_stream C policy m rest (fsm_abs B f) (pending r)" and "0 < missing (fsm_abs B f)"
  shows "(\<exists>r' f' k. poll_read_into B R r f = Ok (r', f', Ready (Inr k)) \<and> 0 < k \<and>
      length (pending r') < length (pending r) \<and> fsm_inv B (fsm_fill B k f') \<and> roomy B (fsm_fill B k f') \<and>
      meta_stream C policy m rest (fsm_abs B (fsm_fill B k f')) (pending r') \<and>
      missing (fsm_abs B (fsm_fill B k f')) = missing (fsm_abs B f) - k) \<or>
    (\<exists>r'. poll_read_into B R r f = Ok (r', f, Pending) \<and> pending r' = pending r \<and> delay r' < delay r)"
  using poll_read_into_feeds [OF assms(2,3), of r]
proof (elim disjE exE conjE)
  fix r' f' bs
  assume g: "poll_read_into B R r f = Ok (r', f', Ready (Inr (length bs)))" "pending r = bs @ pending r'"
    "bs = [] \<longrightarrow> fsm_space B f \<noteq> [] \<longrightarrow> pending r = []"
    "fsm_inv B (fsm_fill B (length bs) f')" "roomy B (fsm_fill B (length bs) f')"
    "fsm_abs B (fsm_fill B (length bs) f') = feed bs (fsm_abs B f)"
  have "pending r \<noteq> []" using missing_le_later [OF assms(1,4)] assms(5) by auto
  then have "bs \<noteq> []" using g(3) missing_space [OF assms(3,5)] by auto
  then show ?thesis
    using g assms(4) meta_stream_feed [of C policy m rest "fsm_abs B f" bs "pending r'"]
    by (intro disjI1 exI [of _ r'] exI [of _ f'] exI [of _ "length bs"]) (auto simp: missing_feed)
qed blast

definition meta_progress :: "VersionUpgradePolicy \<Rightarrow> 'd Metadata \<Rightarrow> bytes \<Rightarrow> ('r, 'b) meta_future \<Rightarrow>
    (('r, 'b) meta_future + (('r, 'b) MetadataDecoder \<times> 'd Metadata result) result) option \<Rightarrow> bool" where
  "meta_progress policy m rest s y \<longleftrightarrow> (\<exists>x. y = Some (Inr x) \<and> meta_result B pending policy m rest x) \<or>
     (\<exists>s'. y = Some (Inl s') \<and> meta_suspended C B pending policy m rest s' \<and>
       (meta_variant pending delay s', meta_variant pending delay s) \<in> variant_less)"

lemma meta_progress_mono:
  "meta_progress policy m rest s y \<Longrightarrow>
   length (pending (mdd_reader (snd s))) < length (pending (mdd_reader (snd s'))) \<or> mdd_reader (snd s) = mdd_reader (snd s') \<Longrightarrow>
   meta_progress policy m rest s' y"
  by (fastforce simp: meta_progress_def meta_variant_def)

text \<open>Waiting for bytes: the call is suspended, or goes on with fewer bytes to come.\<close>

lemma poll_meta_reading:
  assumes "streamable C policy m" and "meta_inv C B pending policy m rest (l, md)" and "l \<noteq> Meta_Process"
  shows "meta_progress policy m rest (l, md) (poll_decode_metadata C B R (l, md)) \<or>
    (\<exists>s'. poll_decode_metadata C B R (l, md) = poll_decode_metadata C B R s' \<and> meta_inv C B pending policy m rest s' \<and>
      length (pending (mdd_reader (snd s'))) < length (pending (mdd_reader md)))"
proof -
  have inv: "fsm_inv B (mdd_fsm md)" "roomy B (mdd_fsm md)"
    "meta_stream C policy m rest (fsm_abs B (mdd_fsm md)) (pending (mdd_reader md))"
    "0 < missing (fsm_abs B (mdd_fsm md))"
    using assms(2,3) by (auto simp: meta_inv_def Let_def split: meta_at.splits)
  show ?thesis
    using poll_read_meta [OF assms(1) inv]
  proof (elim disjE exE conjE)
    fix r' f' k
    assume g: "poll_read_into B R (mdd_reader md) (mdd_fsm md) = Ok (r', f', Ready (Inr k))" "0 < k"
      "length (pending r') < length (pending (mdd_reader md))" "fsm_inv B (fsm_fill B k f')" "roomy B (fsm_fill B k f')"
      "meta_stream C policy m rest (fsm_abs B (fsm_fill B k f')) (pending r')"
      "missing (fsm_abs B (fsm_fill B k f')) = missing (fsm_abs B (mdd_fsm md)) - k"
    define l' where "l' = (case l of Meta_Reading n t \<Rightarrow> if t + k \<ge> n then Meta_Process else Meta_Reading n (t + k)
      | _ \<Rightarrow> Meta_Process)"
    let ?s = "(l', \<lparr>mdd_reader = r', mdd_fsm = fsm_fill B k f'\<rparr>)"
    have "poll_decode_metadata C B R (l, md) = poll_decode_metadata C B R ?s"
      using g(1,2) assms(3) by (subst poll_decode_metadata.simps) (auto simp: l'_def split: meta_at.split)
    moreover have "meta_inv C B pending policy m rest ?s"
      using g(4-7) assms(2,3) by (auto simp: meta_inv_def l'_def Let_def split: meta_at.splits)
    ultimately show ?thesis using g(3) by (intro disjI2 exI [of _ ?s]) simp
  next
    fix r' assume r': "poll_read_into B R (mdd_reader md) (mdd_fsm md) = Ok (r', mdd_fsm md, Pending)"
      "pending r' = pending (mdd_reader md)" "delay r' < delay (mdd_reader md)"
    then have "poll_decode_metadata C B R (l, md) = Some (Inl (l, md\<lparr>mdd_reader := r'\<rparr>))"
      using assms(3) by (subst poll_decode_metadata.simps) (cases md, auto split: meta_at.split)
    then show ?thesis
      using r' assms(2,3) by (auto simp: meta_progress_def meta_suspended_def meta_inv_def meta_variant_def)
  qed
qed

lemma poll_meta_process:
  assumes "streamable C policy m" and "meta_inv C B pending policy m rest (Meta_Process, md)"
  shows "meta_progress policy m rest (Meta_Process, md) (poll_decode_metadata C B R (Meta_Process, md)) \<or>
    (\<exists>n md'. poll_decode_metadata C B R (Meta_Process, md) = poll_decode_metadata C B R (Meta_Reading n 0, md') \<and>
      meta_inv C B pending policy m rest (Meta_Reading n 0, md') \<and> mdd_reader md' = mdd_reader md)"
proof -
  have inv: "fsm_inv B (mdd_fsm md)" "roomy B (mdd_fsm md)"
    "meta_stream C policy m rest (fsm_abs B (mdd_fsm md)) (pending (mdd_reader md))"
    using assms(2) by (auto simp: meta_inv_def Let_def)
  show ?thesis
    using spec_process_meta [OF assms(1) inv(3)]
  proof (elim disjE exE conjE)
    fix a' assume a': "spec_process C (fsm_abs B (mdd_fsm md)) = Ok (a', More (missing a'))" "0 < missing a'"
      "meta_stream C policy m rest a' (pending (mdd_reader md))"
    obtain f' x where f': "process C B (mdd_fsm md) = Some (Ok (f', x))" "fsm_inv B f'" "roomy B f'"
      "fsm_abs B f' = a'" "output_of B f' x = More (missing a')"
      using process_outcome [OF inv(1,2) a'(1)] by metis
    then have "x = ReadMore (missing a')" by (cases x) (simp_all add: output_of_def)
    with f' a' show ?thesis
      by (intro disjI2 exI [of _ "missing a'"] exI [of _ "md\<lparr>mdd_fsm := f'\<rparr>"], subst poll_decode_metadata.simps)
        (simp add: meta_inv_def)
  next
    fix bs assume a': "spec_process C (fsm_abs B (mdd_fsm md)) =
        Ok (after_metadata policy m bs, Got_Metadata (metadata_upgrade policy m))" "bs @ pending (mdd_reader md) = rest"
    obtain f' x where f': "process C B (mdd_fsm md) = Some (Ok (f', x))" "fsm_inv B f'" "roomy B f'"
      "fsm_abs B f' = after_metadata policy m bs" "output_of B f' x = Got_Metadata (metadata_upgrade policy m)"
      using process_outcome [OF inv(1,2) a'(1)] by metis
    then have "x = Result_Metadata (metadata_upgrade policy m)" by (cases x) (simp_all add: output_of_def)
    with f' a' show ?thesis
      by (subst (1) poll_decode_metadata.simps) (auto simp: meta_progress_def meta_result_def)
  qed
qed

lemma poll_meta_progress:
  assumes "streamable C policy m" and "meta_inv C B pending policy m rest s"
  shows "meta_progress policy m rest s (poll_decode_metadata C B R s)"
  using assms(2)
proof (induction "length (pending (mdd_reader (snd s)))" arbitrary: s rule: less_induct)
  case less
  have reading: "meta_progress policy m rest (l, e) (poll_decode_metadata C B R (l, e))"
    if "meta_inv C B pending policy m rest (l, e)" "mdd_reader e = mdd_reader (snd s)" "l \<noteq> Meta_Process" for l e
    using poll_meta_reading [OF assms(1) that(1,3)] less.hyps meta_progress_mono that(2) by (metis snd_conv)
  show ?case
  proof (cases "fst s = Meta_Process")
    case True
    then show ?thesis
      using poll_meta_process [OF assms(1), of rest "snd s"] less.prems reading meta_progress_mono
      by (metis meta_at.distinct(5) prod.collapse snd_conv)
  qed (use reading [of "fst s" "snd s"] less.prems in simp)
qed

end

text \<open>
  The laws of the calls on streamable metadata: the locale extends the readers by the metadata they
  are at.
\<close>

locale async_metadata = async_stream B R pending delay C
  for B :: "'b buf_ops" and R :: "'r areader" and pending :: "'r \<Rightarrow> bytes" and delay :: "'r \<Rightarrow> nat"
    and C :: "'d::linorder date_ops" +
  fixes policy :: VersionUpgradePolicy and m :: "'d Metadata"
  assumes streamable: "streamable C policy m"

sublocale async_metadata < meta: cancel_safe "poll_decode_metadata C B R" restart_decode_metadata
    "meta_suspended C B pending policy m rest" "meta_result B pending policy m rest" "meta_variant pending delay" for rest
proof
  fix s assume "meta_suspended C B pending policy m rest s"
  then show "meta_suspended C B pending policy m rest (restart_decode_metadata s) \<and>
      meta_variant pending delay (restart_decode_metadata s) = meta_variant pending delay s"
    by (auto simp: meta_suspended_def meta_inv_def restart_decode_metadata_def meta_variant_def Let_def split: meta_at.splits)
next
  fix s assume "meta_suspended C B pending policy m rest s"
  then show "(\<exists>x. poll_decode_metadata C B R s = Some (Inr x) \<and> meta_result B pending policy m rest x) \<or>
      (\<exists>s'. poll_decode_metadata C B R s = Some (Inl s') \<and> meta_suspended C B pending policy m rest s' \<and>
        (meta_variant pending delay s', meta_variant pending delay s) \<in> variant_less)"
    using poll_meta_progress [OF streamable] by (simp add: meta_progress_def meta_suspended_def)
qed

context async_reading
begin

lemmas decode_ref_safe = ref.drive_safe and decode_ref_live = ref.drive_live

end

context async_metadata
begin

lemmas decode_metadata_live = meta.drive_live

text \<open>The record decoder made from the metadata decoder goes on with the rest of the stream.\<close>

lemma record_decoder_from_meta:
  assumes "meta_result B pending policy m rest x"
  obtains md d where "x = Ok (md, Ok (metadata_upgrade policy m))" and "async_record_decoder_from B md = Ok d"
    and "dec_inv B d" and "dec_abs B pending d = after_metadata policy m rest"
proof -
  obtain md bs where x: "x = Ok (md, Ok (metadata_upgrade policy m))" and md: "fsm_inv B (mdd_fsm md)" "roomy B (mdd_fsm md)"
    "fsm_abs B (mdd_fsm md) = after_metadata policy m bs" "bs @ pending (mdd_reader md) = rest"
    using assms by (auto simp: meta_result_def)
  let ?g = "mdd_fsm md"
  have v: "input_dbn_version ?g = Some (md_version m)" "upgrade_policy ?g = policy" "has_decoded_metadata ?g"
    using md(3) has_decoded_abs [of ?g] by (simp_all add: fsm_abs_def after_metadata_def)
  let ?f = "if is_upgrade_situation policy (md_version m) then grow_compat B DEFAULT_BUF_SIZE ?g else ?g"
  have "fsm_inv B ?f" "roomy B ?f" "has_decoded_metadata ?f" "fsm_abs B ?f = fsm_abs B ?g"
    using md(1,2) v(3) by (simp_all add: grow_compat_keeps grow_compat_refines)
  with x md(3,4) v show thesis
    by (intro that [of md "\<lparr>rd_reader = mdd_reader md, rd_fsm = ?f\<rparr>"])
      (simp_all add: async_record_decoder_from_def dec_inv_def dec_abs_def after_metadata_def feed_def)
qed

text \<open>A new metadata decoder on the stream is in a good state.\<close>

lemma new_metadata_suspended:
  assumes "pending r = metadata_bytes C m @ rest"
  obtains md where "async_metadata_decoder_with_upgrade_policy B r policy = Ok md"
    and "meta_suspended C B pending policy m rest (Meta_First, md)"
proof -
  obtain f where f: "metadata_decoder_with_upgrade_policy B r policy = Ok \<lparr>mdd_reader = r, mdd_fsm = f\<rparr>"
    "fsm_inv B f" "roomy B f" "state f = State_Prelude" "data B (buffer f) = []" "upgrade_policy f = policy"
    by (rule new_metadata_decoder [of r policy])
  then show thesis
    using assms
    by (intro that [of "\<lparr>mdd_reader = r, mdd_fsm = f\<rparr>"])
      (simp_all add: async_metadata_decoder_with_upgrade_policy_def metadata_decoder_with_upgrade_policy_def
        meta_suspended_def meta_inv_def meta_stream_def missing_def fsm_abs_def)
qed

end

section \<open>Calls that own their decoder\<close>

lemma poll_decoder_new_await:
  "poll_decoder_new C B R s = map_option (map_sum id (\<lambda>res. and_then res (\<lambda>(md, found).
     and_then found (\<lambda>m. and_then (async_record_decoder_from B md) (\<lambda>d.
       Ok \<lparr>dec_metadata = metadata_upgrade VersionUpgradePolicy_UpgradeToV3 m, dec_decoder = d\<rparr>)))))
     (poll_decode_metadata C B R s)"
  by (simp add: poll_decoder_new_def split: option.split sum.split)

lemma async_metadata_decoder_new_policy:
  "async_metadata_decoder_with_upgrade_policy B r VersionUpgradePolicy_UpgradeToV3 = Ok (async_metadata_decoder_new B r)"
  by (simp add: async_metadata_decoder_with_upgrade_policy_def async_metadata_decoder_new_def fsm_build_def
      builder_upgrade_policy_def builder_compat_size_def fsm_builder_def unwrap_def fsm_new_def)

text \<open>Reading a given piece and processing it.\<close>

lemma poll_read_process:
  assumes "oval_buffer B" and "fsm_inv B f" and "roomy B f"
    and "poll_read R (length (fsm_space B f)) r = (r', Ready (Inr bs))" and "length bs \<le> length (fsm_space B f)"
    and "spec_process C (feed bs (fsm_abs B f)) = Ok (a, out)"
  obtains g f' x where "poll_read_into B R r f = Ok (r', g, Ready (Inr (length bs)))"
    and "process C B (fsm_fill B (length bs) g) = Some (Ok (f', x))" and "fsm_inv B f'" and "roomy B f'"
    and "fsm_abs B f' = a" and "output_of B f' x = out"
proof -
  obtain g where g: "copy_into_space B bs f = Ok g" "fsm_inv B (fsm_fill B (length bs) g)"
    "roomy B (fsm_fill B (length bs) g)" "fsm_abs B (fsm_fill B (length bs) g) = feed bs (fsm_abs B f)"
    using oval_buffer.copy_feeds [OF assms(1-3,5)] by metis
  then obtain f' x where "process C B (fsm_fill B (length bs) g) = Some (Ok (f', x))" "fsm_inv B f'" "roomy B f'"
    "fsm_abs B f' = a" "output_of B f' x = out"
    using oval_buffer.process_outcome [OF assms(1) g(2,3)] assms(6) by metis
  with g(1) assms(4) show thesis by (intro that [of g f' x]) (simp_all add: poll_read_into_def)
qed

text \<open>One poll, by the place where the call is.\<close>

lemma poll_meta_simps:
  "poll_decode_metadata C B R (Meta_First, md) =
          (case poll_read_into B R (mdd_reader md) (mdd_fsm md) of
             Panic p \<Rightarrow> Some (Inr (Panic p))
           | Err e \<Rightarrow> Some (Inr (Err e))
           | Ok (r, f, Pending) \<Rightarrow> Some (Inl (Meta_First, \<lparr>mdd_reader = r, mdd_fsm = f\<rparr>))
           | Ok (r, f, Ready (Inl _)) \<Rightarrow>
               Some (Inr (Ok (\<lparr>mdd_reader = r, mdd_fsm = f\<rparr>, Err (Io ''decoding metadata''))))
           | Ok (r, f, Ready (Inr nbytes)) \<Rightarrow>
               poll_decode_metadata C B R (Meta_Process, \<lparr>mdd_reader = r, mdd_fsm = fsm_fill B nbytes f\<rparr>))"
  "poll_decode_metadata C B R (Meta_Process, md) =
          (case process C B (mdd_fsm md) of
             None \<Rightarrow> None
           | Some (Panic p) \<Rightarrow> Some (Inr (Panic p))
           | Some (Err e) \<Rightarrow> Some (Inr (Err e))
           | Some (Ok (f, ReadMore n)) \<Rightarrow> poll_decode_metadata C B R (Meta_Reading n 0, md\<lparr>mdd_fsm := f\<rparr>)
           | Some (Ok (f, Result_Metadata m)) \<Rightarrow> Some (Inr (Ok (md\<lparr>mdd_fsm := f\<rparr>, Ok m)))
           | Some (Ok (f, Result_Record _)) \<Rightarrow> Some (Inr (Panic ''DBN metadata should precede records''))
           | Some (Ok (f, Result_Err e)) \<Rightarrow> Some (Inr (Ok (md\<lparr>mdd_fsm := f\<rparr>, Err e))))"
  "poll_decode_metadata C B R (Meta_Reading n total_read, md) =
          (case poll_read_into B R (mdd_reader md) (mdd_fsm md) of
             Panic p \<Rightarrow> Some (Inr (Panic p))
           | Err e \<Rightarrow> Some (Inr (Err e))
           | Ok (r, f, Pending) \<Rightarrow> Some (Inl (Meta_Reading n total_read, \<lparr>mdd_reader = r, mdd_fsm = f\<rparr>))
           | Ok (r, f, Ready (Inl _)) \<Rightarrow>
               Some (Inr (Ok (\<lparr>mdd_reader = r, mdd_fsm = f\<rparr>, Err (Io ''decoding metadata''))))
           | Ok (r, f, Ready (Inr nread)) \<Rightarrow>
               if nread = 0 then
                 Some (Inr (Ok (\<lparr>mdd_reader = r, mdd_fsm = f\<rparr>, Err (Io ''decoding metadata''))))
               else
                 poll_decode_metadata C B R
                   (if total_read + nread \<ge> n then Meta_Process else Meta_Reading n (total_read + nread),
                    \<lparr>mdd_reader = r, mdd_fsm = fsm_fill B nread f\<rparr>))"
  by (subst poll_decode_metadata.simps, simp)+

text \<open>A new metadata decoder: a short first piece suspends it, a piece that is no prelude is an error.\<close>

context oval_buffer
begin

lemma new_metadata_decoder_state:
  obtains f where "async_metadata_decoder_new B r = \<lparr>mdd_reader = r, mdd_fsm = f\<rparr>" and "fsm_inv B f" and "roomy B f"
    and "d_phase (fsm_abs B f) = Ph_Prelude" and "d_bytes (fsm_abs B f) = []" and "length (fsm_space B f) = DEFAULT_BUF_SIZE"
  by (rule that [of "fsm_new B DEFAULT_BUF_SIZE 0"])
    (simp_all add: async_metadata_decoder_new_def fsm_new_def fsm_inv_def roomy_def fsm_abs_def fsm_space_def
      DEFAULT_BUF_SIZE_def)

lemma new_metadata_suspends:
  assumes "0 < k" and "k < 8" and "k \<le> length bs"
  shows "\<exists>f. poll_decode_metadata C B slow_reader (Meta_First, async_metadata_decoder_new B (Some k # None # sizes, bs)) =
    Some (Inl (Meta_Reading (8 - k) 0, \<lparr>mdd_reader = (sizes, drop k bs), mdd_fsm = f\<rparr>))"
proof -
  obtain f where f: "async_metadata_decoder_new B (Some k # None # sizes, bs) =
      \<lparr>mdd_reader = (Some k # None # sizes, bs), mdd_fsm = f\<rparr>" "fsm_inv B f" "roomy B f"
    "d_phase (fsm_abs B f) = Ph_Prelude" "d_bytes (fsm_abs B f) = []" "length (fsm_space B f) = DEFAULT_BUF_SIZE"
    by (rule new_metadata_decoder_state)
  have rd: "poll_read slow_reader (length (fsm_space B f)) (Some k # None # sizes, bs) =
      ((None # sizes, drop k bs), Ready (Inr (take k bs)))"
    using assms f(6) by (simp add: slow_reader_def DEFAULT_BUF_SIZE_def)
  have "spec_process C (feed (take k bs) (fsm_abs B f)) = Ok (feed (take k bs) (fsm_abs B f), More (8 - k))"
    "length (take k bs) \<le> length (fsm_space B f)"
    using assms f(4-6) by (simp_all add: spec_process_def DEFAULT_BUF_SIZE_def)
  then obtain g f' x where "poll_read_into B slow_reader (Some k # None # sizes, bs) f =
      Ok ((None # sizes, drop k bs), g, Ready (Inr (length (take k bs))))"
    "process C B (fsm_fill B (length (take k bs)) g) = Some (Ok (f', x))" "output_of B f' x = More (8 - k)"
    using poll_read_process [OF oval_buffer_axioms f(2,3) rd] by metis
  then have g: "poll_read_into B slow_reader (Some k # None # sizes, bs) f =
      Ok ((None # sizes, drop k bs), g, Ready (Inr k))" "process C B (fsm_fill B k g) = Some (Ok (f', x))"
    "output_of B f' x = More (8 - k)"
    using assms(3) by (simp_all add: min.absorb2)
  then have "x = ReadMore (8 - k)" by (cases x) (simp_all add: output_of_def)
  moreover have "poll_read_into B slow_reader (None # sizes, drop k bs) f' = Ok ((sizes, drop k bs), f', Pending)"
    by (simp add: poll_read_into_def slow_reader_def)
  ultimately show ?thesis
    using f(1) g(1,2) assms(1) by (simp add: poll_meta_simps)
qed

lemma new_metadata_refuses:
  assumes "8 \<le> length bs" and "take 3 bs \<noteq> as_bytes ''DBN''"
  shows "\<exists>md. poll_decode_metadata C B slow_reader (Meta_First, async_metadata_decoder_new B ([], bs)) =
    Some (Inr (Ok (md, Err (Decode ''invalid DBN header''))))"
proof -
  obtain f where f: "async_metadata_decoder_new B ([] :: nat option list, bs) = \<lparr>mdd_reader = ([], bs), mdd_fsm = f\<rparr>" "fsm_inv B f" "roomy B f"
    "d_phase (fsm_abs B f) = Ph_Prelude" "d_bytes (fsm_abs B f) = []" "length (fsm_space B f) = DEFAULT_BUF_SIZE"
    by (rule new_metadata_decoder_state)
  let ?k = DEFAULT_BUF_SIZE
  have rd: "poll_read slow_reader (length (fsm_space B f)) ([], bs) = (([], drop ?k bs), Ready (Inr (take ?k bs)))"
    using f(6) by (simp add: slow_reader_def)
  have "take 3 (take ?k bs) \<noteq> as_bytes ''DBN''" "8 \<le> length (take ?k bs)"
    using assms by (simp_all add: DEFAULT_BUF_SIZE_def)
  then have "spec_process C (feed (take ?k bs) (fsm_abs B f)) =
      Ok (feed (take ?k bs) (fsm_abs B f), Failed (Decode ''invalid DBN header''))"
    "length (take ?k bs) \<le> length (fsm_space B f)"
    using f(4-6) by (auto simp: spec_process_def prelude_error_def)
  then obtain g f' x where g: "poll_read_into B slow_reader ([], bs) f =
      Ok (([], drop ?k bs), g, Ready (Inr (length (take ?k bs))))"
    "process C B (fsm_fill B (length (take ?k bs)) g) = Some (Ok (f', x))"
    "output_of B f' x = Failed (Decode ''invalid DBN header'')"
    using poll_read_process [OF oval_buffer_axioms f(2,3) rd] by metis
  then have "x = Result_Err (Decode ''invalid DBN header'')" by (cases x) (simp_all add: output_of_def)
  with f(1) g show ?thesis by (simp add: poll_meta_simps)
qed

end

text \<open>A caller that cancels every other time.\<close>

lemma fair_alternating: "fair (\<lambda>i. if even i then Cancel_Future else Poll_Future)"
  unfolding fair_def
proof
  fix n :: nat
  show "\<exists>m\<ge>n. (if even m then Cancel_Future else Poll_Future) = Poll_Future"
    by (rule exI [of _ "2 * n + 1"]) simp
qed

section \<open>Properties\<close>

text \<open>
  C14. A call of the async \<open>decode_ref\<close> is safe to cancel and returns: while it is suspended,
  after any polls and cancellations, the decoder still has to decode the same bytes; and if the
  caller keeps polling, then whatever it cancels in between, the call returns the next record of
  the stream, as the blocking decoder does, or nothing at its end, or the error for a length that
  no record has.
\<close>

theorem async_decode_ref_live:
  assumes "oval_buffer B" and "async_reader R pending delay" and "dec_inv B d" and "fair sched"
  shows "(\<forall>es l d'. drive (poll_decode_ref C B R) restart_decode_ref es (Ref_Start, d) = Some (Inl (l, d')) \<longrightarrow>
      dec_inv B d' \<and> dec_abs B pending d' = dec_abs B pending d) \<and>
    (\<exists>n x. drive (poll_decode_ref C B R) restart_decode_ref (schedule_prefix sched n) (Ref_Start, d) = Some (Inr x) \<and>
      (case next_record (dec_abs B pending d) of
         Ok (a, r) \<Rightarrow> \<exists>d' r'. x = Ok (d', r') \<and> dec_inv B d' \<and> dec_abs B pending d' = a \<and> ref_bytes r' = r
       | Err e \<Rightarrow> False
       | Panic p \<Rightarrow> x = Panic p))"
proof -
  have rd: "async_reading B R pending delay" using assms(1,2) by (simp add: async_reading_def)
  let ?a = "dec_abs B pending d"
  have inv: "ref_inv B pending ?a (Ref_Start, d)" using assms(3) by (simp add: ref_inv_def)
  show ?thesis
    unfolding poll_decode_ref_def ref_result_def [symmetric]
  proof (intro conjI allI impI)
    fix es l d'
    assume "drive (poll_ref_loop ''internal error: entered unreachable code: skipped metadata'' C B R)
        restart_decode_ref es (Ref_Start, d) = Some (Inl (l, d'))"
    then have "ref_inv B pending ?a (l, d')"
      using async_reading.decode_ref_safe [OF rd inv, where es = es and C = C and
          msg = "''internal error: entered unreachable code: skipped metadata''"] by auto
    then show "dec_inv B d'" "dec_abs B pending d' = ?a" by (simp_all add: ref_inv_def)
  qed (rule async_reading.decode_ref_live [OF rd inv assms(4)])
qed

theorem async_decode_ref_live_witness:
  "\<exists>d n d' r'. async_record_decoder_new list_buffer ([Some 5, None, Some 1, None, None], 14 # replicate 55 0) = Ok d \<and>
     drive (poll_decode_ref gregorian list_buffer slow_reader) restart_decode_ref
       (schedule_prefix (\<lambda>i. if even i then Cancel_Future else Poll_Future) n) (Ref_Start, d) = Some (Inr (Ok (d', r'))) \<and>
     ref_bytes r' = Ok (Some (14 # replicate 55 0))"
proof -
  define f where "f = \<lparr>input_dbn_version = Some 3, upgrade_policy = VersionUpgradePolicy_AsIs, fsm_ts_out = False,
    state = State_Record, buffer = with_capacity list_buffer DEFAULT_BUF_SIZE,
    compat_buffer = with_capacity list_buffer MAX_RECORD_LEN\<rparr>"
  let ?bs = "14 # replicate 55 0 :: bytes"
  let ?r = "([Some 5, None, Some 1, None, None], ?bs) :: nat option list \<times> bytes"
  let ?d = "\<lparr>rd_reader = ?r, rd_fsm = f\<rparr>"
  have new: "async_record_decoder_new list_buffer ?r = Ok ?d"
    by (simp add: async_record_decoder_new_def async_record_decoder_with_version_def builder_input_dbn_version_def
        dbn_version_try_from_def DBN_VERSION_def builder_skip_metadata_def builder_compat_size_def fsm_builder_def
        builder_ts_out_def builder_upgrade_policy_def fsm_build_def validate_compatibility_def unwrap_def f_def)
  have "dec_inv list_buffer ?d"
    by (simp add: dec_inv_def f_def fsm_inv_def roomy_def has_decoded_metadata_def DEFAULT_BUF_SIZE_def)
  moreover have "next_record (dec_abs list_buffer snd ?d) =
      Ok ((dec_abs list_buffer snd ?d)\<lparr>d_bytes := []\<rparr>, Ok (Some ?bs))"
    by (simp add: next_record_def dec_abs_def fsm_abs_def f_def feed_def select_upgrade_def upgrade_for_def
        is_upgrade_situation_def DBN_VERSION_def)
  ultimately show ?thesis
    using async_decode_ref_live [OF list_buffer.oval_buffer_axioms slow.async_reader_axioms _ fair_alternating,
        of ?d gregorian] new by auto
qed

text \<open>
  C15. A call that decodes the metadata is safe to cancel and returns: on a stream that starts
  with encoded metadata, if the caller keeps polling, then whatever it cancels in between and
  however short the pieces are that the reader delivers, the call returns the metadata, upgraded as
  the policy asks for, and the record decoder made from it goes on at the first record.
\<close>

theorem async_metadata_live:
  assumes "oval_buffer B" and "async_reader R pending delay" and "calendar C"
    and "streamable C policy m" and "pending r = metadata_bytes C m @ rest" and "fair sched"
  shows "\<exists>md0 md n d. async_metadata_decoder_with_upgrade_policy B r policy = Ok md0 \<and>
    drive (poll_decode_metadata C B R) restart_decode_metadata (schedule_prefix sched n) (Meta_First, md0) =
      Some (Inr (Ok (md, Ok (metadata_upgrade policy m)))) \<and>
    async_record_decoder_from B md = Ok d \<and> dec_inv B d \<and> dec_abs B pending d = after_metadata policy m rest"
proof -
  have st: "async_metadata B R pending delay C policy m"
    using assms(1-4) by (simp add: async_metadata_def async_stream_def async_reading_def async_metadata_axioms_def)
  obtain md0 where md0: "async_metadata_decoder_with_upgrade_policy B r policy = Ok md0"
    "meta_suspended C B pending policy m rest (Meta_First, md0)"
    using async_metadata.new_metadata_suspended [OF st assms(5)] by blast
  obtain n x where x: "drive (poll_decode_metadata C B R) restart_decode_metadata (schedule_prefix sched n) (Meta_First, md0) =
      Some (Inr x)" "meta_result B pending policy m rest x"
    using async_metadata.decode_metadata_live [OF st md0(2) assms(6)] by blast
  then show ?thesis
    using md0(1) async_metadata.record_decoder_from_meta [OF st x(2)] by metis
qed

theorem async_metadata_live_witness:
  "\<exists>md0 md n. async_metadata_decoder_with_upgrade_policy list_buffer
       ([Some 3, None, None, Some 5, None], metadata_bytes gregorian (sample_metadata 3)) VersionUpgradePolicy_AsIs = Ok md0 \<and>
     drive (poll_decode_metadata gregorian list_buffer slow_reader) restart_decode_metadata
       (schedule_prefix (\<lambda>i. if even i then Cancel_Future else Poll_Future) n) (Meta_First, md0) =
       Some (Inr (Ok (md, Ok (metadata_upgrade VersionUpgradePolicy_AsIs (sample_metadata 3)))))"
  using async_metadata_live [OF list_buffer.oval_buffer_axioms slow.async_reader_axioms gregorian.calendar_axioms
      sample_streamable(1) _ fair_alternating,
      of "([Some 3, None, None, Some 5, None], metadata_bytes gregorian (sample_metadata 3))" "[]"]
  by auto

text \<open>
  C39. \<open>Decoder::new\<close> is not safe to cancel, although its documentation says so: it owns the
  metadata decoder and its buffer. On a stream whose reader delivers the first one, two or three
  bytes and then is not ready, the call returns the metadata if it is polled on; but if it is
  cancelled and called again on the same reader, the bytes it had read are lost and the call fails.
\<close>

theorem async_new_cancel_loses_bytes:
  assumes "oval_buffer B" and "calendar C" and "streamable C VersionUpgradePolicy_UpgradeToV3 m" and "k \<in> {1, 2, 3}"
    and "s = (Meta_First, async_metadata_decoder_new B ([Some k, None], metadata_bytes C m @ rest))"
  shows "(\<exists>n d. drive (poll_decoder_new C B slow_reader) (restart_decoder_new B) (replicate n Poll_Future) s =
      Some (Inr (Ok d)) \<and> dec_metadata d = metadata_upgrade VersionUpgradePolicy_UpgradeToV3 m) \<and>
    drive (poll_decoder_new C B slow_reader) (restart_decoder_new B) [Poll_Future, Cancel_Future, Poll_Future] s =
      Some (Inr (Err (Decode ''invalid DBN header'')))"
proof
  let ?bs = "metadata_bytes C m @ rest" and ?p = VersionUpgradePolicy_UpgradeToV3
  have st: "async_metadata B slow_reader snd (\<lambda>r. length (fst r)) C ?p m"
    using assms(1-3) slow.async_reader_axioms
    by (simp add: async_metadata_def async_stream_def async_reading_def async_metadata_axioms_def)
  have sus: "meta_suspended C B snd ?p m rest s"
    using async_metadata.new_metadata_suspended [OF st, of "([Some k, None], ?bs)" rest] assms(5)
    by (auto simp: async_metadata_decoder_new_policy)
  obtain n x where x: "drive (poll_decode_metadata C B slow_reader) restart_decode_metadata (replicate n Poll_Future) s =
      Some (Inr x)" "meta_result B snd ?p m rest x"
    using async_metadata.decode_metadata_live [OF st sus fair_polls] by (metis schedule_prefix_polls)
  obtain md d where "x = Ok (md, Ok (metadata_upgrade ?p m))" "async_record_decoder_from B md = Ok d"
    using async_metadata.record_decoder_from_meta [OF st x(2)] by metis
  moreover have "metadata_upgrade ?p (metadata_upgrade ?p m) = metadata_upgrade ?p m"
    by (simp add: metadata_upgrade_def)
  ultimately show "\<exists>n d. drive (poll_decoder_new C B slow_reader) (restart_decoder_new B) (replicate n Poll_Future) s =
      Some (Inr (Ok d)) \<and> dec_metadata d = metadata_upgrade ?p m"
    using x(1) by (intro exI [of _ n]) (simp add: drive_await [OF poll_decoder_new_await, where restart = restart_decode_metadata])
  have len: "8 \<le> length (drop k ?bs)" "k \<le> length ?bs" "0 < k" "k < 8"
    using calendar.streamable_length [OF assms(2,3)] assms(4) by auto
  obtain xs where "?bs = as_bytes ''DBN'' @ md_version m # xs"
    using calendar.streamable_length(4) [OF assms(2,3)] by (simp add: metadata_bytes_def)
  then have bs: "?bs = 68 # 66 # 78 # md_version m # xs" by (simp add: as_bytes_def)
  have "take 3 (drop k ?bs) \<noteq> as_bytes ''DBN''"
    using calendar.streamable_length(3) [OF assms(2,3)] assms(4)
    unfolding bs by (auto simp: as_bytes_def DBN_VERSION_def word_le_nat_alt)
  then show "drive (poll_decoder_new C B slow_reader) (restart_decoder_new B) [Poll_Future, Cancel_Future, Poll_Future] s =
      Some (Inr (Err (Decode ''invalid DBN header'')))"
    using oval_buffer.new_metadata_suspends [OF assms(1) len(3,4,2), of C "[]"]
      oval_buffer.new_metadata_refuses [OF assms(1) len(1), of C] assms(5)
    by (auto simp: poll_decoder_new_def restart_decoder_new_def)
qed

theorem async_new_cancel_loses_bytes_witness:
  "drive (poll_decoder_new gregorian list_buffer slow_reader) (restart_decoder_new list_buffer)
     [Poll_Future, Cancel_Future, Poll_Future]
     (Meta_First, async_metadata_decoder_new list_buffer ([Some 2, None], metadata_bytes gregorian (sample_metadata 1))) =
   Some (Inr (Err (Decode ''invalid DBN header'')))"
  using async_new_cancel_loses_bytes [OF list_buffer.oval_buffer_axioms gregorian.calendar_axioms sample_streamable(2),
      of 2 _ "[]"] by simp

end
