(* ===== verification/Async_Encode.thy ===== *)
theory Async_Encode
  imports Dbn_Encode Json_Encode Async_Io "HOL-Library.Sublist"
begin

text \<open>
  The async encoders: rust/dbn/src/encode/dbn/async.rs and rust/dbn/src/encode/json/async.rs.

  An \<^verbatim>\<open>async fn\<close> of the DBN encoder does nothing but await writes, one after the other, and
  return early with an error. Its future is therefore the writes it still has to do, with the
  bytes of the first that are not written yet, and the value it returns then. The JSON encoder
  also changes its buffer, before and after the one write it awaits.
\<close>

section \<open>Definitions\<close>

datatype write_future = Returned "unit result" | Writing string bytes write_future

definition await_write :: "string \<Rightarrow> bytes \<Rightarrow> write_future" where
  "await_write context bs = Writing context bs (Returned (Ok ()))"

text \<open>The \<^verbatim>\<open>?\<close> operator on an awaited call, and loops over such calls.\<close>

primrec await_then :: "write_future \<Rightarrow> write_future \<Rightarrow> write_future" where
  "await_then (Returned r) g = (case r of Ok _ \<Rightarrow> g | Err e \<Rightarrow> Returned (Err e) | Panic p \<Rightarrow> Returned (Panic p))"
| "await_then (Writing context bs f) g = Writing context bs (await_then f g)"

fun await_all :: "write_future list \<Rightarrow> write_future" where
  "await_all [] = Returned (Ok ())"
| "await_all (f # fs) = await_then f (await_all fs)"

definition await_each :: "'a list \<Rightarrow> ('a \<Rightarrow> write_future) \<Rightarrow> write_future" where
  "await_each xs f = await_all (map f xs)"

text \<open>One poll: write until a write is not ready, fails, or none is left.\<close>

primrec poll_writes ::
  "'w awriter \<Rightarrow> write_future \<Rightarrow> 'w \<Rightarrow> write_future \<times> 'w + 'w \<times> unit result" where
  "poll_writes W (Returned r) w = Inr (w, r)"
| "poll_writes W (Writing context bs f) w =
     (case poll_write_all W bs w of
        (w, Rest, Pending) \<Rightarrow> Inl (Writing context Rest f, w)
      | (w, _, Ready True) \<Rightarrow> poll_writes W f w
      | (w, _, Ready False) \<Rightarrow> Inr (w, Err (Io context)))"

definition poll_write_future ::
  "'w awriter \<Rightarrow> write_future \<times> 'w \<Rightarrow> (write_future \<times> 'w + 'w \<times> unit result) option" where
  "poll_write_future W s = Some (poll_writes W (fst s) (snd s))"

text \<open>Calling again after a cancellation begins writing from the beginning.\<close>

definition restart_writing :: "write_future \<Rightarrow> write_future \<times> 'w \<Rightarrow> write_future \<times> 'w" where
  "restart_writing f s = (f, snd s)"

subsection \<open>DBN metadata\<close>

definition async_encode_fixed_len_cstr :: "nat \<Rightarrow> string \<Rightarrow> write_future" where
  "async_encode_fixed_len_cstr symbol_cstr_len string =
     (if \<not> is_ascii string then Returned (Err (Conversion string ''ASCII''))
      else if length string \<ge> symbol_cstr_len then
        Returned (Err (Encode (CHR 0x27 # string @ [CHR 0x27] @
          '' is too long to be encoded in DBN; it cannot be longer than '' @
          dec_nat (if symbol_cstr_len = 0 then 2 ^ 64 - 1 else symbol_cstr_len - 1) @ '' characters'')))
      else await_all
        [await_write ''writing cstr'' (as_bytes string),
         await_each [length string..<symbol_cstr_len] (\<lambda>_. await_write ''writing cstr'' [0])])"

definition async_encode_date :: "'d date_ops \<Rightarrow> string \<Rightarrow> 'd \<Rightarrow> write_future" where
  "async_encode_date C context date =
     (let date_int = word_of_int (year C date) * 10000 :: u32;
          date_int = date_int + word_of_nat (month C date) * 100;
          date_int = date_int + word_of_nat (day C date)
      in await_write context (put_u32 date_int))"

definition async_encode_repeated_symbol_cstr :: "nat \<Rightarrow> string list \<Rightarrow> write_future" where
  "async_encode_repeated_symbol_cstr symbol_cstr_len symbols = await_all
     [await_write ''writing repeated symbols length'' (put_u32 (word_of_nat (length symbols))),
      await_each symbols (async_encode_fixed_len_cstr symbol_cstr_len)]"

definition async_encode_symbol_mapping :: "'d date_ops \<Rightarrow> nat \<Rightarrow> 'd SymbolMapping \<Rightarrow> write_future" where
  "async_encode_symbol_mapping C symbol_cstr_len symbol_mapping = await_all
     [async_encode_fixed_len_cstr symbol_cstr_len (raw_symbol symbol_mapping),
      await_write ''writing symbol mapping interval count''
        (put_u32 (word_of_nat (length (intervals symbol_mapping)))),
      await_each (intervals symbol_mapping) (\<lambda>interval. await_all
        [async_encode_date C ''writing start date'' (start_date interval),
         async_encode_date C ''writing end date'' (end_date interval),
         async_encode_fixed_len_cstr symbol_cstr_len (symbol interval)])]"

definition async_encode_symbol_mappings :: "'d date_ops \<Rightarrow> nat \<Rightarrow> 'd SymbolMapping list \<Rightarrow> write_future" where
  "async_encode_symbol_mappings C symbol_cstr_len symbol_mappings = await_all
     [await_write ''writing symbol mappings length'' (put_u32 (word_of_nat (length symbol_mappings))),
      await_each symbol_mappings (async_encode_symbol_mapping C symbol_cstr_len)]"

definition async_encode_range_and_counts :: "u8 \<Rightarrow> u64 \<Rightarrow> u64 option \<Rightarrow> u64 option \<Rightarrow> write_future" where
  "async_encode_range_and_counts version start end_ts limit = await_all
     [await_write ''writing DBN metadata'' (put_u64 start),
      await_write ''writing DBN metadata'' (put_u64 (case end_ts of Some e \<Rightarrow> e | None \<Rightarrow> UNDEF_TIMESTAMP)),
      await_write ''writing DBN metadata'' (put_u64 (case limit of Some l \<Rightarrow> l | None \<Rightarrow> NULL_LIMIT)),
      if version = 1 then await_write ''writing DBN metadata'' (put_u64 NULL_RECORD_COUNT) else Returned (Ok ())]"

definition async_metadata_encode :: "'d date_ops \<Rightarrow> 'd Metadata \<Rightarrow> write_future" where
  "async_metadata_encode C m = await_then (await_write ''writing DBN metadata'' (as_bytes ''DBN''))
     (if md_version m > DBN_VERSION then
        Returned (Err (Encode (''can't encode Metadata with version '' @ dec_nat (unat (md_version m)) @
          '' which is greater than the maximum supported version 3'')))
      else case calc_length m of (metadata_length, end_padding) \<Rightarrow> await_all
        [await_write ''writing DBN metadata'' [max (md_version m) 1],
         await_write ''writing DBN metadata'' (put_u32 metadata_length),
         async_encode_fixed_len_cstr METADATA_DATASET_CSTR_LEN (md_dataset m),
         await_write ''writing DBN metadata''
           (put_u16 (case md_schema m of Some s \<Rightarrow> schema_as_u16 s | None \<Rightarrow> NULL_SCHEMA)),
         async_encode_range_and_counts (md_version m) (md_start m) (md_end m) (md_limit m),
         await_write ''writing DBN metadata'' [case md_stype_in m of Some s \<Rightarrow> stype_as_u8 s | None \<Rightarrow> NULL_STYPE],
         await_write ''writing DBN metadata'' [stype_as_u8 (md_stype_out m)],
         await_write ''writing DBN metadata'' [if md_ts_out m then 1 else 0],
         if md_version m > 1
         then await_write ''writing DBN metadata'' (put_u16 (word_of_nat (md_symbol_cstr_len m))) else Returned (Ok ()),
         await_write ''writing DBN metadata''
           (if md_version m = 1 then replicate METADATA_RESERVED_LEN_V1 0
            else replicate METADATA_RESERVED_LEN 0),
         await_write ''writing DBN metadata'' (put_u32 0),
         async_encode_repeated_symbol_cstr (md_symbol_cstr_len m) (md_symbols m),
         async_encode_repeated_symbol_cstr (md_symbol_cstr_len m) (md_partial m),
         async_encode_repeated_symbol_cstr (md_symbol_cstr_len m) (md_not_found m),
         async_encode_symbol_mappings C (md_symbol_cstr_len m) (md_mappings m),
         if end_padding > 0
         then await_write ''writing DBN metadata'' (take (unat end_padding) (replicate 7 0)) else Returned (Ok ())])"

subsection \<open>DBN records\<close>

definition async_encode_record :: "'r record_type \<Rightarrow> 'r \<Rightarrow> write_future" where
  "async_encode_record T r = await_write ''serializing '' (as_ref T r)"

definition async_encode_record_ref :: "bytes \<Rightarrow> write_future" where
  "async_encode_record_ref rec = await_write ''serializing '' (rr_as_ref rec)"

definition async_encode_record_ref_ts_out :: "bytes \<Rightarrow> bool \<Rightarrow> write_future" where
  "async_encode_record_ref_ts_out rec ts_out = async_encode_record_ref rec"

definition async_encoder_new :: "'d date_ops \<Rightarrow> 'd Metadata \<Rightarrow> write_future" where
  "async_encoder_new C m = async_metadata_encode C m"

definition poll_encoder_flush :: "'w awriter \<Rightarrow> 'w \<Rightarrow> 'w + 'w \<times> unit result" where
  "poll_encoder_flush W w =
     (case poll_flush W w of
        (w, Pending) \<Rightarrow> Inl w
      | (w, Ready success) \<Rightarrow> Inr (w, if success then Ok () else Err (Io ''flushing output'')))"

definition poll_encoder_shutdown :: "'w awriter \<Rightarrow> 'w \<Rightarrow> 'w + 'w \<times> unit result" where
  "poll_encoder_shutdown W w =
     (case poll_shutdown W w of
        (w, Pending) \<Rightarrow> Inl w
      | (w, Ready success) \<Rightarrow> Inr (w, if success then Ok () else Err (Io ''shutting down'')))"

text \<open>\<^verbatim>\<open>Encoder::new\<close> and then one \<^verbatim>\<open>encode_record_ref\<close> per record, each awaited.\<close>

definition async_encode_stream :: "'d date_ops \<Rightarrow> 'd Metadata \<Rightarrow> bytes list \<Rightarrow> write_future" where
  "async_encode_stream C m recs = await_then (async_encoder_new C m) (await_each recs async_encode_record_ref)"

subsection \<open>JSON\<close>

text \<open>Where a call of the JSON encoder is: at its start, in \<^verbatim>\<open>write_buf\<close>, or flushing.\<close>

datatype json_at = Json_Start | Json_Writing bytes | Json_Flushing

type_synonym 'w json_future = "json_at \<times> 'w JsonEncoder"

definition poll_write_buf ::
  "'w awriter \<Rightarrow> string \<Rightarrow> bytes \<Rightarrow> 'w JsonEncoder \<Rightarrow> 'w json_future + 'w JsonEncoder \<times> unit result" where
  "poll_write_buf W context bs e =
     (case poll_write_all W bs (js_writer e) of
        (w, Rest, Pending) \<Rightarrow> Inl (Json_Writing Rest, e\<lparr>js_writer := w\<rparr>)
      | (w, _, Ready success) \<Rightarrow>
          Inr (e\<lparr>js_writer := w, js_buf := []\<rparr>, if success then Ok () else Err (Io context)))"

definition poll_encode_object ::
  "json_text_writer \<Rightarrow> 'w awriter \<Rightarrow> json_object \<Rightarrow> 'w json_future \<Rightarrow> 'w json_future + 'w JsonEncoder \<times> unit result" where
  "poll_encode_object J W obj s =
     (let e = snd s in case fst s of
        Json_Writing bs \<Rightarrow> poll_write_buf W ''writing record'' bs e
      | _ \<Rightarrow>
          let buf = to_json_in_buf J (js_buf e) obj (should_pretty_print e)
          in poll_write_buf W ''writing record'' (as_bytes buf) (e\<lparr>js_buf := buf\<rparr>))"

definition poll_encode_object_with_sym ::
  "json_text_writer \<Rightarrow> 'w awriter \<Rightarrow> string option \<Rightarrow> json_object \<Rightarrow> 'w json_future
   \<Rightarrow> 'w json_future + 'w JsonEncoder \<times> unit result" where
  "poll_encode_object_with_sym J W sym_text obj s =
     (let e = snd s in case fst s of
        Json_Writing bs \<Rightarrow> poll_write_buf W ''writing record'' bs e
      | _ \<Rightarrow>
          let buf = to_json_with_sym_in_buf J (js_buf e) obj (should_pretty_print e) sym_text
          in poll_write_buf W ''writing record'' (as_bytes buf) (e\<lparr>js_buf := buf\<rparr>))"

definition poll_json_flush ::
  "'w awriter \<Rightarrow> string \<Rightarrow> 'w JsonEncoder \<Rightarrow> 'w json_future + 'w JsonEncoder \<times> unit result" where
  "poll_json_flush W context e =
     (case poll_flush W (js_writer e) of
        (w, Pending) \<Rightarrow> Inl (Json_Flushing, e\<lparr>js_writer := w\<rparr>)
      | (w, Ready success) \<Rightarrow> Inr (e\<lparr>js_writer := w\<rparr>, if success then Ok () else Err (Io context)))"

definition poll_json_shutdown ::
  "'w awriter \<Rightarrow> 'w JsonEncoder \<Rightarrow> 'w JsonEncoder + 'w JsonEncoder \<times> unit result" where
  "poll_json_shutdown W e =
     (case poll_shutdown W (js_writer e) of
        (w, Pending) \<Rightarrow> Inl (e\<lparr>js_writer := w\<rparr>)
      | (w, Ready success) \<Rightarrow> Inr (e\<lparr>js_writer := w\<rparr>, if success then Ok () else Err (Io ''shutting down'')))"

definition poll_json_encode_metadata ::
  "json_text_writer \<Rightarrow> 'd date_ops \<Rightarrow> 'd clock_ops \<Rightarrow> 'w awriter \<Rightarrow> 'd Metadata \<Rightarrow> 'w json_future
   \<Rightarrow> 'w json_future + 'w JsonEncoder \<times> unit result" where
  "poll_json_encode_metadata J C K W m s =
     (let e = snd s;
          flush = (\<lambda>r. case r of
              Inr (e, Ok _) \<Rightarrow> poll_json_flush W ''writing metadata'' e
            | _ \<Rightarrow> r)
      in case fst s of
           Json_Start \<Rightarrow>
             let buf = to_json_in_buf J (js_buf e) (json_metadata C K (js_pretty_ts e) m) (should_pretty_print e)
             in flush (poll_write_buf W ''writing metadata'' (as_bytes buf) (e\<lparr>js_buf := buf\<rparr>))
         | Json_Writing bs \<Rightarrow> flush (poll_write_buf W ''writing metadata'' bs e)
         | Json_Flushing \<Rightarrow> poll_json_flush W ''writing metadata'' e)"

text \<open>
  \<^verbatim>\<open>rtype_dispatch!\<close> on the record when the call starts; a call that is suspended has been
  dispatched.
\<close>

definition poll_dispatch_object ::
  "'d date_ops \<Rightarrow> 'd clock_ops \<Rightarrow> (json_object \<Rightarrow> 'w json_future \<Rightarrow> 'w json_future + 'w JsonEncoder \<times> unit result)
   \<Rightarrow> bytes \<Rightarrow> bool \<Rightarrow> 'w json_future \<Rightarrow> 'w json_future + 'w JsonEncoder \<times> unit result" where
  "poll_dispatch_object C K method record ts_out s =
     (let e = snd s in
      case rtype_dispatch_base record of
        None \<Rightarrow> Inr (e, Err (Conversion (dec_nat (unat (rh_rtype (rr_header record)))) ''dbn::enums::rtype::RType''))
      | Some k \<Rightarrow>
          (case kind_json k C K ts_out (js_pretty_px e) (js_pretty_ts e) record of
             Ok obj \<Rightarrow> method obj s
           | Err x \<Rightarrow> Inr (e, Err x)
           | Panic p \<Rightarrow> Inr (e, Panic p)))"

definition poll_json_encode_record_ref ::
  "json_text_writer \<Rightarrow> 'd date_ops \<Rightarrow> 'd clock_ops \<Rightarrow> 'w awriter \<Rightarrow> bytes \<Rightarrow> 'w json_future
   \<Rightarrow> 'w json_future + 'w JsonEncoder \<times> unit result" where
  "poll_json_encode_record_ref J C K W record = poll_dispatch_object C K (poll_encode_object J W) record False"

definition poll_json_encode_record_ref_ts_out ::
  "json_text_writer \<Rightarrow> 'd date_ops \<Rightarrow> 'd clock_ops \<Rightarrow> 'w awriter \<Rightarrow> bytes \<Rightarrow> bool \<Rightarrow> 'w json_future
   \<Rightarrow> 'w json_future + 'w JsonEncoder \<times> unit result" where
  "poll_json_encode_record_ref_ts_out J C K W = poll_dispatch_object C K (poll_encode_object J W)"

definition poll_json_encode_ref_with_sym ::
  "json_text_writer \<Rightarrow> 'd date_ops \<Rightarrow> 'd clock_ops \<Rightarrow> 'w awriter \<Rightarrow> bytes \<Rightarrow> string option \<Rightarrow> 'w json_future
   \<Rightarrow> 'w json_future + 'w JsonEncoder \<times> unit result" where
  "poll_json_encode_ref_with_sym J C K W record sym_text =
     poll_dispatch_object C K (poll_encode_object_with_sym J W sym_text) record False"

definition poll_json_encode_ref_ts_out_with_sym ::
  "json_text_writer \<Rightarrow> 'd date_ops \<Rightarrow> 'd clock_ops \<Rightarrow> 'w awriter \<Rightarrow> bytes \<Rightarrow> bool \<Rightarrow> string option \<Rightarrow> 'w json_future
   \<Rightarrow> 'w json_future + 'w JsonEncoder \<times> unit result" where
  "poll_json_encode_ref_ts_out_with_sym J C K W record ts_out sym_text =
     poll_dispatch_object C K (poll_encode_object_with_sym J W sym_text) record ts_out"

text \<open>A cancelled call leaves the encoder it borrows; the next one starts with it.\<close>

definition restart_json :: "'w json_future \<Rightarrow> 'w json_future" where
  "restart_json s = (Json_Start, snd s)"

section \<open>What a future writes\<close>

primrec future_bytes :: "write_future \<Rightarrow> bytes" where
  "future_bytes (Returned r) = []"
| "future_bytes (Writing context bs f) = bs @ future_bytes f"

primrec future_return :: "write_future \<Rightarrow> unit result" where
  "future_return (Returned r) = r"
| "future_return (Writing context bs f) = future_return f"

text \<open>
  \<open>blocks f g\<close>: with no write to fail, the blocking encoder \<open>g\<close> writes what the future writes and
  returns what it returns.
\<close>

definition blocks :: "write_future \<Rightarrow> bytes enc \<Rightarrow> bool" where
  "blocks f g \<longleftrightarrow> (\<forall>w. g w = (w @ future_bytes f, future_return f))"

lemma await_then_bytes:
  "future_bytes (await_then f g) = future_bytes f @ (if future_return f = Ok () then future_bytes g else [])"
  "future_return (await_then f g) = (if future_return f = Ok () then future_return g else future_return f)"
  by (induction f) (auto split: result.split)

lemma blocks_write: "blocks (await_write c bs) (put vec_writer c bs)"
  by (simp add: blocks_def await_write_def put_def io_op_def vec_writer_def)

lemma blocks_returned: "blocks (Returned (Ok ())) ret" "blocks (Returned (Err e)) (fail e)"
  by (simp_all add: blocks_def ret_def fail_def)

lemma blocks_then:
  assumes "blocks f f'" and "blocks g g'"
  shows "blocks (await_then f g) (seq f' g')"
  using assms by (auto simp: blocks_def await_then_bytes seq_def split: result.split)

lemma blocks_all: "list_all2 blocks fs gs \<Longrightarrow> blocks (await_all fs) (seqs gs)"
  by (induction rule: list_all2_induct) (simp_all add: blocks_returned blocks_then)

lemma blocks_each: "(\<And>x. blocks (f x) (g x)) \<Longrightarrow> blocks (await_each xs f) (for_each xs g)"
  unfolding await_each_def for_each_def by (rule blocks_all) (simp add: list_all2_conv_all_nth)

lemma blocks_if:
  "(b \<Longrightarrow> blocks f f') \<Longrightarrow> (\<not> b \<Longrightarrow> blocks g g') \<Longrightarrow> blocks (if b then f else g) (if b then f' else g')"
  by simp

lemma blocks_Cons: "blocks f g \<Longrightarrow> blocks (await_all fs) (seqs gs) \<Longrightarrow> blocks (await_all (f # fs)) (seqs (g # gs))"
  by (simp add: blocks_then)

lemma blocks_Nil: "blocks (await_all []) (seqs [])"
  by (simp add: blocks_returned)

text \<open>Bytes written one by one are those written at once.\<close>

lemma blocks_split:
  "blocks (await_all fs) (seqs gs) \<Longrightarrow>
   blocks (await_all (await_write c [x] # await_write c [y] # await_write c [z] # fs)) (seqs (put vec_writer c [x, y, z] # gs))"
  by (simp add: blocks_def await_write_def put_def io_op_def vec_writer_def seq_def)

lemmas blocks_intros = blocks_split blocks_Cons blocks_Nil blocks_write blocks_returned blocks_if blocks_each

lemma blocks_fixed_len_cstr: "blocks (async_encode_fixed_len_cstr n s) (encode_fixed_len_cstr vec_writer n s)"
  unfolding async_encode_fixed_len_cstr_def encode_fixed_len_cstr_def by (intro blocks_intros)

lemma blocks_date: "blocks (async_encode_date C c d) (encode_date C vec_writer c d)"
  by (simp add: async_encode_date_def encode_date_def blocks_write)

lemma blocks_repeated_symbol_cstr:
  "blocks (async_encode_repeated_symbol_cstr n ss) (encode_repeated_symbol_cstr vec_writer n ss)"
  unfolding async_encode_repeated_symbol_cstr_def encode_repeated_symbol_cstr_def
  by (intro blocks_intros blocks_fixed_len_cstr)

lemma blocks_symbol_mapping: "blocks (async_encode_symbol_mapping C n sm) (encode_symbol_mapping C vec_writer n sm)"
  unfolding async_encode_symbol_mapping_def encode_symbol_mapping_def
  by (intro blocks_intros blocks_fixed_len_cstr blocks_date)

lemma blocks_symbol_mappings: "blocks (async_encode_symbol_mappings C n sms) (encode_symbol_mappings C vec_writer n sms)"
  unfolding async_encode_symbol_mappings_def encode_symbol_mappings_def
  by (intro blocks_intros blocks_symbol_mapping)

lemma blocks_range_and_counts:
  "blocks (async_encode_range_and_counts v s e l) (encode_range_and_counts vec_writer v s e l)"
  unfolding async_encode_range_and_counts_def encode_range_and_counts_def by (intro blocks_intros)

lemma blocks_metadata: "blocks (async_metadata_encode C m) (metadata_encode C vec_writer m)"
  unfolding async_metadata_encode_def metadata_encode_def
  by (cases "calc_length m", simp only: prod.case)
    (intro blocks_then blocks_intros blocks_fixed_len_cstr blocks_range_and_counts
      blocks_repeated_symbol_cstr blocks_symbol_mappings)

lemma blocks_stream: "blocks (async_encode_stream C m recs) (encode_stream C vec_writer m recs)"
  unfolding async_encode_stream_def encode_stream_def async_encoder_new_def encoder_new_def
    async_encode_record_ref_def encode_record_ref_def
  by (intro blocks_then blocks_metadata blocks_intros)

section \<open>Polling\<close>

definition writing_variant :: "('w \<Rightarrow> nat) \<Rightarrow> write_future \<times> 'w \<Rightarrow> nat \<times> nat" where
  "writing_variant stall s = (size (fst s), stall (snd s))"

text \<open>
  The states of a call that is to append \<open>bs\<close> to \<open>old\<close> and return \<open>r\<close>, and what it is ready with: all
  is written and it returns \<open>r\<close>, or a write has failed after a part of it.
\<close>

definition writing_inv :: "('w \<Rightarrow> bytes) \<Rightarrow> bytes \<Rightarrow> unit result \<Rightarrow> write_future \<times> 'w \<Rightarrow> bool" where
  "writing_inv contents whole r s \<longleftrightarrow>
     contents (snd s) @ future_bytes (fst s) = whole \<and> future_return (fst s) = r"

definition may_fail :: "'w awriter \<Rightarrow> bool" where
  "may_fail W \<longleftrightarrow> (\<exists>bs w. snd (snd (poll_write_all W bs w)) = Ready False)"

definition written :: "'w awriter \<Rightarrow> ('w \<Rightarrow> bytes) \<Rightarrow> bytes \<Rightarrow> unit result \<Rightarrow> 'w \<times> unit result \<Rightarrow> bool" where
  "written W contents whole r x \<longleftrightarrow>
     contents (fst x) = whole \<and> snd x = r \<or>
     may_fail W \<and> prefix (contents (fst x)) whole \<and> (\<exists>c. snd x = Err (Io c))"

context async_writer
begin

lemma poll_writes_progress:
  assumes "writing_inv contents whole r (f, w)"
  shows "(\<exists>x. poll_writes W f w = Inr x \<and> written W contents whole r x) \<or>
    (\<exists>s. poll_writes W f w = Inl s \<and> writing_inv contents whole r s \<and>
      (writing_variant stall s, writing_variant stall (f, w)) \<in> variant_less)"
  using assms
proof (induction f arbitrary: w)
  case (Returned r')
  then show ?case by (simp add: writing_inv_def written_def)
next
  case (Writing c bs f)
  obtain w' Rest p where p: "poll_write_all W bs w = (w', Rest, p)" by (cases "poll_write_all W bs w")
  note law = poll_write_all_appends [OF p]
  show ?case
  proof (cases p)
    case Pending
    then show ?thesis
      using law p Writing.prems by (auto simp: writing_inv_def writing_variant_def)
  next
    case (Ready success)
    show ?thesis
    proof (cases success)
      case True
      then have "contents w' = contents w @ bs" using law Ready by simp
      then have "writing_inv contents whole r (f, w')" using Writing.prems by (simp add: writing_inv_def)
      from Writing.IH [OF this] show ?thesis
        using p Ready True by (fastforce simp: writing_variant_def)
    next
      case False
      then show ?thesis
        using law p Ready Writing.prems by (auto simp: writing_inv_def written_def may_fail_def) (metis snd_conv)+
    qed
  qed
qed

end

sublocale async_writer < writing: cancel_safe "poll_write_future W" "\<lambda>s. s" "writing_inv contents whole r"
    "written W contents whole r" "writing_variant stall" for whole r
proof
  fix s assume "writing_inv contents whole r s"
  then show "(\<exists>x. poll_write_future W s = Some (Inr x) \<and> written W contents whole r x) \<or>
      (\<exists>s'. poll_write_future W s = Some (Inl s') \<and> writing_inv contents whole r s' \<and>
        (writing_variant stall s', writing_variant stall s) \<in> variant_less)"
    using poll_writes_progress [of whole r "fst s" "snd s"] by (auto simp: poll_write_future_def)
qed simp

context async_writer
begin

text \<open>A call that is only polled: what it has written so far, and what when it returns.\<close>

lemma writing_safe:
  assumes "drive (poll_write_future W) restart (replicate n Poll_Future) (f, w) = Some (Inl (f', w'))"
  shows "prefix (contents w') (contents w @ future_bytes f)"
proof -
  have "writing_inv contents (contents w @ future_bytes f) (future_return f) (f, w)" by (simp add: writing_inv_def)
  then have "writing_inv contents (contents w @ future_bytes f) (future_return f) (f', w')"
    using writing.drive_safe [of _ _ "(f, w)" "replicate n Poll_Future"] assms
      drive_polls [of "poll_write_future W" restart n "(f, w)" "\<lambda>s. s"] by fastforce
  then show ?thesis unfolding writing_inv_def by (metis fst_conv prefixI snd_conv)
qed

lemma writing_live:
  "\<exists>n x. drive (poll_write_future W) restart (replicate n Poll_Future) (f, w) = Some (Inr x) \<and>
     written W contents (contents w @ future_bytes f) (future_return f) x"
proof -
  have "writing_inv contents (contents w @ future_bytes f) (future_return f) (f, w)" by (simp add: writing_inv_def)
  from writing.drive_live [OF this fair_polls] show ?thesis
    by (metis drive_polls schedule_prefix_polls)
qed

end

section \<open>The JSON buffer\<close>

definition poll_json :: "('w json_future \<Rightarrow> 'w json_future + 'w JsonEncoder \<times> unit result)
   \<Rightarrow> 'w json_future \<Rightarrow> ('w json_future + 'w JsonEncoder \<times> unit result) option" where
  "poll_json poll s = Some (poll s)"

context async_writer
begin

text \<open>A suspended write that is polled until it succeeds appends its bytes and clears the buffer.\<close>

lemma json_writing_polls:
  assumes "drive (poll_json (poll_encode_object J W obj)) restart (replicate n Poll_Future) (Json_Writing bs, e) =
      Some (Inr (e', Ok ()))"
  shows "contents (js_writer e') = contents (js_writer e) @ bs \<and> js_buf e' = []"
  using assms
proof (induction n arbitrary: bs e)
  case (Suc n)
  obtain w Rest p where p: "poll_write_all W bs (js_writer e) = (w, Rest, p)" by (cases "poll_write_all W bs (js_writer e)")
  note law = poll_write_all_appends [OF p]
  show ?case
  proof (cases p)
    case Pending
    then show ?thesis
      using Suc.IH [of Rest "e\<lparr>js_writer := w\<rparr>"] Suc.prems law p
      by (auto simp: poll_json_def poll_encode_object_def poll_write_buf_def)
  next
    case (Ready success)
    then show ?thesis
      using Suc.prems law p
      by (auto simp: poll_json_def poll_encode_object_def poll_write_buf_def split: if_splits)
  qed
qed simp

text \<open>A call that starts with some text left in the buffer writes it again, before its own line.\<close>

lemma json_starts:
  assumes "drive (poll_json (poll_encode_object J W obj)) restart (replicate n Poll_Future) (Json_Start, e) =
      Some (Inr (e', Ok ()))"
  shows "contents (js_writer e') = contents (js_writer e) @ as_bytes (js_buf e) @ json_line J e obj \<and> js_buf e' = []"
proof (cases n)
  case (Suc k)
  let ?buf = "to_json_in_buf J (js_buf e) obj (should_pretty_print e)"
  have "poll_encode_object J W obj (Json_Start, e) =
      poll_encode_object J W obj (Json_Writing (as_bytes ?buf), e\<lparr>js_buf := ?buf\<rparr>)"
    by (simp add: poll_encode_object_def Let_def)
  then have "drive (poll_json (poll_encode_object J W obj)) restart (replicate n Poll_Future)
      (Json_Writing (as_bytes ?buf), e\<lparr>js_buf := ?buf\<rparr>) = Some (Inr (e', Ok ()))"
    using assms Suc by (simp add: poll_json_def)
  from json_writing_polls [OF this] show ?thesis
    by (simp add: to_json_in_buf_def json_line_def as_bytes_def)
qed (use assms in simp)

text \<open>While it is suspended, the text is in the buffer.\<close>

lemma json_suspends:
  assumes "poll_encode_object J W obj (Json_Start, e) = Inl (l, e1)" and "js_buf e = []"
  shows "as_bytes (js_buf e1) = json_line J e obj \<and> json_line J e1 = json_line J e \<and>
    (\<exists>part. prefix part (json_line J e obj) \<and> contents (js_writer e1) = contents (js_writer e) @ part)"
proof -
  obtain w Rest p where p: "poll_write_all W (json_line J e obj) (js_writer e) = (w, Rest, p)"
    by (cases "poll_write_all W (json_line J e obj) (js_writer e)")
  have e1: "p = Pending" "e1 = e\<lparr>js_buf := to_json_in_buf J [] obj (should_pretty_print e), js_writer := w\<rparr>"
    using assms p
    by (auto simp: poll_encode_object_def poll_write_buf_def to_json_in_buf_def json_line_def Let_def
        split: Poll.splits if_splits)
  then show ?thesis
    using poll_write_all_appends [OF p] by (auto simp: to_json_in_buf_def json_line_def fun_eq_iff prefix_def)
qed

end

section \<open>Properties\<close>

text \<open>
  C22. Async encoding writes what blocking encoding writes: polled on, encoding the metadata and
  records returns; unless a write fails, the bytes appended and the value returned are those of
  the blocking encoder, for metadata that cannot be encoded, too. While the call is suspended,
  and when a write has failed, a part of those bytes has been written.
\<close>

theorem async_encode_stream_writes:
  assumes "async_writer W contents stall"
    and "encode_stream C vec_writer m recs (contents w) = (out, ret_val)" and "f = async_encode_stream C m recs"
  shows "(\<forall>n f' w'. drive (poll_write_future W) (restart_writing f) (replicate n Poll_Future) (f, w) = Some (Inl (f', w')) \<longrightarrow>
      prefix (contents w') out) \<and>
    (\<exists>n w' r. drive (poll_write_future W) (restart_writing f) (replicate n Poll_Future) (f, w) = Some (Inr (w', r)) \<and>
      (contents w' = out \<and> r = ret_val \<or> may_fail W \<and> prefix (contents w') out \<and> (\<exists>c. r = Err (Io c))))"
proof -
  have out: "out = contents w @ future_bytes f" "ret_val = future_return f"
    using blocks_stream [of C m recs] assms(2,3) by (auto simp: blocks_def)
  show ?thesis
    unfolding out
    using async_writer.writing_safe [OF assms(1)] async_writer.writing_live [OF assms(1), of "restart_writing f" f w]
    by (fastforce simp: written_def)
qed

theorem async_encode_stream_writes_witness:
  "\<exists>n w. drive (poll_write_future slow_writer) (restart_writing (async_encode_stream gregorian (sample_metadata 3) []))
      (replicate n Poll_Future) (async_encode_stream gregorian (sample_metadata 3) [], ([2, 0, 5], [])) = Some (Inr (w, Ok ())) \<and>
    snd w = metadata_bytes gregorian (sample_metadata 3)"
proof -
  have "encode_stream gregorian vec_writer (sample_metadata 3) [] [] =
      (metadata_bytes gregorian (sample_metadata 3), Ok ())"
    using vec_encodes_result [OF vec.encodes_metadata, of "sample_metadata 3" gregorian "[]"] sample_encodable [of 3]
    by (simp add: encode_stream_def encoder_new_def seq_def for_each_def ret_def)
  moreover have "\<not> may_fail slow_writer" by (auto simp: may_fail_def slow_writer_def split: list.splits)
  ultimately show ?thesis
    using async_encode_stream_writes [OF slow_sink.async_writer_axioms _ refl,
        of gregorian "sample_metadata 3" "[]" "([2, 0, 5], [])"] by auto
qed

text \<open>
  C40. Cancelling the async JSON encoder repeats a record: a call that is polled until it
  succeeds appends the line of its record, and the buffer is empty afterwards. But the buffer is
  cleared only behind the write, so a call that is cancelled in it leaves its line there; the next
  call for the same record then appends the line twice, after the part already written.
\<close>

theorem json_cancel_repeats_record:
  assumes "async_writer W contents stall" and "js_buf e = []" and "poll = poll_encode_object J W obj"
  shows "(\<forall>n e'. drive (poll_json poll) restart_json (replicate n Poll_Future) (Json_Start, e) = Some (Inr (e', Ok ())) \<longrightarrow>
      contents (js_writer e') = contents (js_writer e) @ json_line J e obj \<and> js_buf e' = []) \<and>
    (\<forall>n e'. (\<exists>s. poll (Json_Start, e) = Inl s) \<and>
      drive (poll_json poll) restart_json (Poll_Future # Cancel_Future # replicate n Poll_Future) (Json_Start, e) =
        Some (Inr (e', Ok ())) \<longrightarrow>
      (\<exists>part. prefix part (json_line J e obj) \<and>
        contents (js_writer e') = contents (js_writer e) @ part @ json_line J e obj @ json_line J e obj))"
proof (intro conjI allI impI)
  fix n e' assume "drive (poll_json poll) restart_json (replicate n Poll_Future) (Json_Start, e) = Some (Inr (e', Ok ()))"
  then show "contents (js_writer e') = contents (js_writer e) @ json_line J e obj" "js_buf e' = []"
    using async_writer.json_starts [OF assms(1), of J obj restart_json n e e'] assms(2,3) by (simp_all add: as_bytes_def)
next
  fix n e' assume "(\<exists>s. poll (Json_Start, e) = Inl s) \<and>
      drive (poll_json poll) restart_json (Poll_Future # Cancel_Future # replicate n Poll_Future) (Json_Start, e) =
        Some (Inr (e', Ok ()))"
  then obtain l e1 where s: "poll_encode_object J W obj (Json_Start, e) = Inl (l, e1)"
    "drive (poll_json (poll_encode_object J W obj)) restart_json (replicate n Poll_Future) (Json_Start, e1) = Some (Inr (e', Ok ()))"
    using assms(3) by (auto simp: poll_json_def restart_json_def)
  show "\<exists>part. prefix part (json_line J e obj) \<and>
      contents (js_writer e') = contents (js_writer e) @ part @ json_line J e obj @ json_line J e obj"
    using async_writer.json_suspends [OF assms(1) s(1) assms(2)] async_writer.json_starts [OF assms(1) s(2)] by auto
qed

theorem json_cancel_repeats_record_witness:
  "\<exists>e'. drive (poll_json (poll_encode_object sample_json_writer slow_writer [(''a'', JNum 1)])) restart_json
      [Poll_Future, Cancel_Future, Poll_Future] (Json_Start, json_new ([3], []) False False False) = Some (Inr (e', Ok ())) \<and>
    (\<exists>part. snd (js_writer e') = part @ as_bytes (sample_json_writer False [(''a'', JNum 1)] @ [CHR 0x0A]) @
      as_bytes (sample_json_writer False [(''a'', JNum 1)] @ [CHR 0x0A]))"
proof -
  let ?e = "json_new ([3], []) False False False :: (nat list \<times> bytes) JsonEncoder"
  let ?poll = "poll_encode_object sample_json_writer slow_writer [(''a'', JNum 1)]"
  have "\<exists>s. ?poll (Json_Start, ?e) = Inl s" and "\<exists>e'. drive (poll_json ?poll) restart_json
      (Poll_Future # Cancel_Future # replicate 1 Poll_Future) (Json_Start, ?e) = Some (Inr (e', Ok ()))"
    by (simp_all add: poll_encode_object_def poll_write_buf_def slow_writer_def json_new_def poll_json_def restart_json_def Let_def)
  then show ?thesis
    using json_cancel_repeats_record [OF slow_sink.async_writer_axioms _ refl, of ?e sample_json_writer "[(''a'', JNum 1)]"]
    by (fastforce simp: json_new_def json_line_def)
qed

end
