(* ===== verification/Spec2Isabelle.thy ===== *)
theory Spec2Isabelle
  imports Enums Flags Compat Metadata_Decode Metadata_Merge Transcode Record_Enum Decode_Merge
    Symbol_Map Pretty Csv_Encode Json_Encode Publishers Record_Methods Py_Transcoder Async_Spec Async_Encode
begin

text \<open>
  A verification library for the reference implementation of the Databento Binary Encoding
  (DBN), the Rust crate under src/rust/dbn. Paths below are relative to src/rust/dbn/src.

  \<^bold>\<open>The program.\<close> A DBN stream is an eight-byte prelude (the letters DBN, a version and a length),
  a metadata block of that length, and fixed-layout little-endian records, each starting with a
  header that holds its length in words and its record type. An encoder writes such streams; a
  decoder reads them through a state machine that owns a buffer and converts the records of
  older versions when the upgrade policy asks for it. Above these, streams are merged by
  timestamp, metadata are merged, symbol maps are built from the metadata or from symbol mapping
  records, and records are rendered as text.

  \<^bold>\<open>Foundations.\<close>
  \<^item> \<open>Prelude\<close>: the error type (error.rs), the result type whose third constructor is a panic,
    and little-endian integers (\<^verbatim>\<open>FromLittleEndianSlice\<close> of decode.rs).
  \<^item> \<open>Codec\<close>: byte layouts as pairs of a writer and a reader with round-trip laws (a locale),
    composed as \<^verbatim>\<open>#[repr(C)]\<close> composes fields.
  \<^item> \<open>Decimal\<close>, \<open>Gregorian\<close>, \<open>Unix_Time\<close>: decimal numerals; dates as the time crate documents
    them, as a dictionary with a locale of laws, interpreted on the proleptic Gregorian calendar
    and on the UNIX epoch.
  \<^item> \<open>Writer\<close>, \<open>Reader\<close>, \<open>Oval\<close>: the interfaces of \<^verbatim>\<open>io::Write\<close>, \<^verbatim>\<open>io::Read\<close> and of the oval
    buffer, each a dictionary of operations with a locale of the documented laws and an
    interpretation on a byte list.

  \<^bold>\<open>Data.\<close>
  \<^item> \<open>Enums\<close> (enums.rs, enums/methods.rs): every enum with its discriminants and text names, one
    interpretation of the numeric and textual interfaces per enum; the upgrade policy.
  \<^item> \<open>Flags\<close> (flags.rs): the bit set, refined to a set of flag names.
  \<^item> \<open>Records\<close>, \<open>Versioned_Records\<close>, \<open>Record_Types\<close> (record.rs, v1.rs, v2.rs, record/traits.rs,
    record_ref.rs): a \<^theory_text>\<open>record\<close> and a byte layout per struct; the dictionary of the \<^verbatim>\<open>Record\<close> and
    \<^verbatim>\<open>HasRType\<close> traits and its laws; \<^verbatim>\<open>RecordRef::get\<close> with its panics.
  \<^item> \<open>Defaults\<close> (record/impl_default.rs), \<open>Compat\<close> (v1/methods.rs, v2, v3, record/conv.rs): default
    records and the seven version conversions.
  \<^item> \<open>Record_Enum\<close> (record_enum.rs, macros.rs): the dispatch on the dynamic record type and the
    enum views of a record.
  \<^item> \<open>Float64\<close>, \<open>Record_Methods\<close> (record/methods.rs, v1/methods.rs, v2/methods.rs, record/conv.rs): binary64
    values with rounding to nearest even and its error bounds; every accessor of the record structs
    and the constructors of the messages of a gateway.
  \<^item> \<open>Metadata\<close> (metadata.rs): the structs and their builder.

  \<^bold>\<open>Encoding and decoding.\<close>
  \<^item> \<open>Dbn_Encode\<close> (encode/dbn/sync.rs): metadata and record encoders.
  \<^item> \<open>Metadata_Decode\<close> (decode/dbn/fsm.rs): the parser of the metadata block.
  \<^item> \<open>Fsm\<close> (decode/dbn/fsm.rs): \<^verbatim>\<open>DbnFsm\<close> with its two buffers and every method; \<open>Fsm_Spec\<close>: an
    abstract decoder without buffers, which \<^verbatim>\<open>process\<close> refines; \<open>Fsm_Stream\<close>: the space a
    caller needs.
  \<^item> \<open>Sync_Decoder\<close> (decode/dbn/sync.rs, decode.rs): the blocking decoders; \<open>Sync_Spec\<close>: their
    refinement of reading from a list of bytes.
  \<^item> \<open>Transcode\<close> (encode.rs): encoding what a decoder delivers, and the stream round trips.

  \<^item> \<open>Dbz_Metadata\<close> (decode/dbz.rs, decode/zstd.rs): the metadata frame of legacy DBZ files and the
    prefixes of the formats; \<open>Dyn_Decoder\<close> (decode/dbz.rs, decode/dyn_decoder.rs): the DBZ decoder and
    the decoder that infers the format, read through \<^verbatim>\<open>BufReader\<close>. The crate zstd is a dictionary
    with a locale of laws.

  \<^bold>\<open>Asynchronous twins.\<close>
  \<^item> \<open>Async_Io\<close>: polls, the interfaces of tokio's readers and writers, and schedules, in which a caller
    polls a call, or cancels it and calls again; what a schedule keeps and that a fair one ends is
    proved once, in a locale of cancel-safe calls.
  \<^item> \<open>Async_Decoder\<close> (decode/dbn/async.rs): the decoders as calls that are polled; \<open>Async_Spec\<close>: they
    return what the blocking decoders do, on every fair schedule.
  \<^item> \<open>Async_Encode\<close> (encode/dbn/async.rs, encode/json/async.rs, encode.rs): the encoders.

  \<^bold>\<open>Services.\<close>
  \<^item> \<open>Metadata_Merge\<close> (metadata/merge.rs), \<open>Decode_Merge\<close> (decode/merge.rs): the merge of
    metadata and the k-way merge of records.
  \<^item> \<open>Symbol_Map\<close> (symbol_map.rs): timeseries and point-in-time symbol maps.
  \<^item> \<open>Pretty\<close> (pretty.rs): the texts of prices and timestamps.
  \<^item> \<open>Csv_Fields\<close> (encode/csv/serialize.rs and what the derive macro generates for the structs):
    header and fields of every record type; \<open>Csv_Encode\<close> (encode/csv/sync.rs, encode.rs): the CSV
    encoder over the interface of the csv crate's writer.
  \<^item> \<open>Json_Fields\<close>, \<open>Json_Encode\<close> (encode/json/serialize.rs, encode/json/sync.rs): the objects of
    records and metadata as an abstract syntax of JSON, their agreement with the CSV rows, and the
    JSON lines encoder.
  \<^item> \<open>Publishers\<close> (publishers.rs): venues, datasets and publishers.
  \<^item> \<open>Dyn_Encoder\<close> (encode/dyn_writer.rs, encode/dyn_encoder.rs, encode.rs): the writer and the encoder
    chosen at run time, over an environment of the crates zstd, csv and json_writer with locales of
    their laws, down to the lines that a dropped csv writer leaves.
  \<^item> \<open>Cli_Filter\<close> (src/rust/dbn-cli: filter.rs, lib.rs, main.rs): the filters of the command line
    tool and its arguments; \<open>Cli_Output\<close> (src/rust/dbn-cli: encode.rs, lib.rs, main.rs): its output,
    and the way of a stream of any format, or of a fragment without metadata, through filters, symbol map
    and encoder to the bytes written.
  \<^item> \<open>Py_Transcoder\<close> (src/python/src/transcoder.rs): the transcoder of the Python package, which is fed a stream in
    pieces of any size; its loop is proved once for an invariant per item, and each encoding gives one.

  \<^bold>\<open>Conventions.\<close> A fallible function returns \<open>Ok\<close>, \<open>Err\<close> with the error of error.rs or \<open>Panic\<close>;
  errors carry the context text and not what a foreign error wraps. Machine integers are words
  and wrap. Structs of the code are records with the same fields, their names prefixed. State is
  passed explicitly. Loops that the source does not bound are \<^theory_text>\<open>partial_function (option)\<close>, with a
  theorem that they return; no theorem rests on fuel. Code of other crates (readers, writers,
  the buffer, compression, dates, the order of a hash set) is a dictionary argument with its documented laws
  as a locale.

  \<^bold>\<open>Not modelled.\<close> The compression itself and files, which only choose another reader or writer; the
  C bindings and the Python bindings other than the transcoder; how the command line tool parses its arguments (the crate clap) and that it
  ignores a broken pipe; what an aborted run of it leaves in its output; hashing and the Debug renderings
  of records.
\<close>

end
